(* ===== verification/Prelude.thy ===== *)
theory Prelude
  imports Complex_Main "HOL-Library.AList" "HOL-Library.List_Lexorder" "HOL-Library.Char_ord"
    "HOL-Library.Multiset" "HOL-Library.Code_Target_Nat"
begin

text \<open>
  The shared vocabulary of the development: the functions of Go's standard library that
  Flow Core uses on strings (package strings, strconv), maps and sorted slices, with the
  facts every component needs about them.

  A Go string is a list of bytes (\<^typ>\<open>string\<close>). Case mapping and white space
  are those of the ASCII range; bytes from 128 on are left alone by the case functions and
  are not white space. A Go map is an association list: operations look a key up with
  \<^const>\<open>map_of\<close>, and a definition that ranges over a map ranges over the list, so
  that independence of Go's random iteration order is a statement that can be proved.
\<close>

named_theorems go_str \<open>facts about the string functions\<close>
named_theorems go_err \<open>unfolding of results and error branches\<close>

type_synonym str = string
type_synonym ('k, 'v) gomap = "('k \<times> 'v) list"
type_synonym millis = int

section \<open>Characters\<close>

definition char_code :: "char \<Rightarrow> nat" where
  "char_code c = of_char c"

definition in_range :: "nat \<Rightarrow> nat \<Rightarrow> char \<Rightarrow> bool" where
  "in_range lo hi c \<longleftrightarrow> lo \<le> char_code c \<and> char_code c \<le> hi"

abbreviation is_upper :: "char \<Rightarrow> bool" where "is_upper \<equiv> in_range 65 90"
abbreviation is_lower :: "char \<Rightarrow> bool" where "is_lower \<equiv> in_range 97 122"
abbreviation is_digit :: "char \<Rightarrow> bool" where "is_digit \<equiv> in_range 48 57"

definition is_space :: "char \<Rightarrow> bool" where
  "is_space c \<longleftrightarrow> char_code c = 32 \<or> (9 \<le> char_code c \<and> char_code c \<le> 13)"

definition lower_char :: "char \<Rightarrow> char" where
  "lower_char c = (if is_upper c then char_of (char_code c + 32) else c)"

definition upper_char :: "char \<Rightarrow> char" where
  "upper_char c = (if is_lower c then char_of (char_code c - 32) else c)"

lemma char_code_lt [simp]: "char_code c < 256"
  by (simp add: char_code_def)

lemma char_code_char_of [simp]: "n < 256 \<Longrightarrow> char_code (char_of n) = n"
  by (simp add: char_code_def)

lemma char_code_inj: "char_code c = char_code d \<longleftrightarrow> c = d"
  by (simp add: char_code_def)

lemma char_code_lower:
  "char_code (lower_char c) = (if is_upper c then char_code c + 32 else char_code c)"
  by (auto simp: lower_char_def in_range_def)

lemma char_code_upper:
  "char_code (upper_char c) = (if is_lower c then char_code c - 32 else char_code c)"
  by (auto simp: upper_char_def in_range_def)

lemma lower_lower_char [simp]: "lower_char (lower_char c) = lower_char c"
  by (auto simp: char_code_inj [symmetric] char_code_lower in_range_def)

lemma upper_upper_char [simp]: "upper_char (upper_char c) = upper_char c"
  by (auto simp: char_code_inj [symmetric] char_code_upper in_range_def)

lemma lower_upper_char [simp]: "lower_char (upper_char c) = lower_char c"
  by (auto simp: char_code_inj [symmetric] char_code_upper char_code_lower in_range_def)

lemma is_space_upper [simp]: "is_space (upper_char c) = is_space c"
  by (auto simp: is_space_def char_code_upper in_range_def)

lemma is_space_lower [simp]: "is_space (lower_char c) = is_space c"
  by (auto simp: is_space_def char_code_lower in_range_def)

section \<open>Package strings\<close>

definition to_lower :: "str \<Rightarrow> str" where "to_lower = map lower_char"
definition to_upper :: "str \<Rightarrow> str" where "to_upper = map upper_char"

text \<open>A string trimmed on both ends of the characters that satisfy a predicate.\<close>

definition trim_by :: "(char \<Rightarrow> bool) \<Rightarrow> str \<Rightarrow> str" where
  "trim_by p s = rev (dropWhile p (rev (dropWhile p s)))"

definition trim_space :: "str \<Rightarrow> str" where "trim_space = trim_by is_space"
definition trim_char :: "char \<Rightarrow> str \<Rightarrow> str" where "trim_char c = trim_by (\<lambda>x. x = c)"

fun has_prefix :: "str \<Rightarrow> str \<Rightarrow> bool" where
  "has_prefix s [] = True"
| "has_prefix [] (p # ps) = False"
| "has_prefix (c # cs) (p # ps) = (c = p \<and> has_prefix cs ps)"

definition has_suffix :: "str \<Rightarrow> str \<Rightarrow> bool" where
  "has_suffix s p = has_prefix (rev s) (rev p)"

definition trim_prefix :: "str \<Rightarrow> str \<Rightarrow> str" where
  "trim_prefix s p = (if has_prefix s p then drop (length p) s else s)"

definition trim_suffix :: "str \<Rightarrow> str \<Rightarrow> str" where
  "trim_suffix s p = (if has_suffix s p then take (length s - length p) s else s)"

text \<open>strings.Split and strings.SplitN(_, _, 2) for a separator of one byte; Split never returns
  the empty slice.\<close>

fun split_on :: "char \<Rightarrow> str \<Rightarrow> str list" where
  "split_on c [] = [[]]"
| "split_on c (x # xs) =
     (if x = c then [] # split_on c xs
      else (case split_on c xs of [] \<Rightarrow> [[x]] | w # ws \<Rightarrow> (x # w) # ws))"

fun split_n :: "nat \<Rightarrow> char \<Rightarrow> str \<Rightarrow> str list" where
  "split_n n c [] = (if n = 0 then [] else [[]])"
| "split_n n c (x # xs) =
     (if n = 0 then []
      else if n = 1 then [x # xs]
      else if x = c then [] # split_n (n - 1) c xs
      else (case split_n n c xs of [] \<Rightarrow> [[x]] | w # ws \<Rightarrow> (x # w) # ws))"

fun join :: "str \<Rightarrow> str list \<Rightarrow> str" where
  "join sep [] = []"
| "join sep [w] = w"
| "join sep (w # v # ws) = w @ sep @ join sep (v # ws)"

definition replace_char :: "char \<Rightarrow> str \<Rightarrow> str \<Rightarrow> str" where
  "replace_char c r s = concat (map (\<lambda>x. if x = c then r else [x]) s)"

definition equal_fold :: "str \<Rightarrow> str \<Rightarrow> bool" where
  "equal_fold s t \<longleftrightarrow> to_lower s = to_lower t"

text \<open>regexp.ReplaceAllString for the pattern [^...]+ : each maximal run of characters outside
  the class becomes one replacement byte.\<close>

function replace_runs :: "(char \<Rightarrow> bool) \<Rightarrow> char \<Rightarrow> str \<Rightarrow> str" where
  "replace_runs ok r [] = []"
| "replace_runs ok r (x # xs) =
     (if ok x then x # replace_runs ok r xs
      else r # replace_runs ok r (dropWhile (\<lambda>y. \<not> ok y) xs))"
  by pat_completeness auto
termination
  by (relation "measure (\<lambda>(ok, r, s). length s)") (auto simp: le_imp_less_Suc length_dropWhile_le)


section \<open>Facts about the string functions\<close>

lemma dropWhile_idem [simp]: "dropWhile p (dropWhile p s) = dropWhile p s"
  by (induction s) auto

lemma dropWhile_dropWhile_self: "dropWhile p s = [] \<or> \<not> p (hd (dropWhile p s))"
  using hd_dropWhile [of p s] by (cases "dropWhile p s") auto

lemma dropWhile_eq_selfI: "s = [] \<or> \<not> p (hd s) \<Longrightarrow> dropWhile p s = s"
  by (cases s) auto

lemma trim_by_Nil [simp]: "trim_by p [] = []"
  by (simp add: trim_by_def)

lemma set_trim_by: "set (trim_by p s) \<subseteq> set s"
proof
  fix x
  assume "x \<in> set (trim_by p s)"
  then have "x \<in> set (rev (dropWhile p s))" by (auto simp: trim_by_def dest: set_dropWhileD)
  then show "x \<in> set s" by (auto dest: set_dropWhileD)
qed

lemma trim_by_all: "(\<And>c. c \<in> set s \<Longrightarrow> \<not> p c) \<Longrightarrow> trim_by p s = s"
proof -
  assume a: "\<And>c. c \<in> set s \<Longrightarrow> \<not> p c"
  then have "dropWhile p s = s" by (cases s) auto
  moreover have "dropWhile p (rev s) = rev s"
    using a by (cases "rev s") (auto simp: rev_eq_Cons_iff)
  ultimately show ?thesis by (simp add: trim_by_def)
qed

lemma trim_by_ends:
  "trim_by p s = [] \<or> \<not> p (hd (trim_by p s)) \<and> \<not> p (last (trim_by p s))"
proof -
  let ?d = "dropWhile p s"
  let ?t = "dropWhile p (rev ?d)"
  show ?thesis
  proof (cases "?t = []")
    case True
    then show ?thesis by (simp add: trim_by_def)
  next
    case False
    have "\<not> p (hd ?t)" using False hd_dropWhile by blast
    moreover obtain u where u: "rev ?d = u @ ?t"
      by (metis takeWhile_dropWhile_id)
    have "?d = rev ?t @ rev u" using arg_cong [OF u, of rev] by simp
    then have "hd ?d = hd (rev ?t @ rev u)" by simp
    then have "hd ?d = hd (rev ?t)" using False by (simp only: hd_append rev_is_Nil_conv if_False)
    moreover have "?d \<noteq> []" using False by (metis dropWhile.simps(1) rev.simps(1))
    then have "\<not> p (hd ?d)" by (rule hd_dropWhile)
    ultimately show ?thesis using False by (simp add: trim_by_def last_rev)
  qed
qed

lemma trim_by_id: "s = [] \<or> \<not> p (hd s) \<and> \<not> p (last s) \<Longrightarrow> trim_by p s = s"
  by (cases "s = []") (auto simp: trim_by_def dropWhile_eq_selfI hd_rev)

lemma trim_by_trim_by [simp]: "trim_by p (trim_by p s) = trim_by p s"
  by (rule trim_by_id) (rule trim_by_ends)

lemma trim_space_idem [simp]: "trim_space (trim_space s) = trim_space s"
  by (simp add: trim_space_def)

lemma trim_char_idem [simp]: "trim_char c (trim_char c s) = trim_char c s"
  by (simp add: trim_char_def)

lemma to_lower_idem [simp]: "to_lower (to_lower s) = to_lower s"
  by (simp add: to_lower_def)

lemma to_upper_idem [simp]: "to_upper (to_upper s) = to_upper s"
  by (simp add: to_upper_def)

lemma to_lower_upper [simp]: "to_lower (to_upper s) = to_lower s"
  by (simp add: to_lower_def to_upper_def)

lemma dropWhile_map_same: "(\<And>c. p (f c) = p c) \<Longrightarrow> dropWhile p (map f s) = map f (dropWhile p s)"
  by (induction s) auto

lemma trim_by_map: "(\<And>c. p (f c) = p c) \<Longrightarrow> trim_by p (map f s) = map f (trim_by p s)"
  by (simp add: trim_by_def dropWhile_map_same rev_map)

lemma trim_space_upper: "trim_space (to_upper s) = to_upper (trim_space s)"
  by (simp add: trim_space_def to_upper_def trim_by_map)

lemma has_prefix_append [simp]: "has_prefix (p @ s) p"
  by (induction p) auto

lemma has_prefix_iff: "has_prefix s p \<longleftrightarrow> (\<exists>t. s = p @ t)"
  by (induction s p rule: has_prefix.induct) auto

lemma trim_prefix_append [simp]: "trim_prefix (p @ s) p = s"
  by (simp add: trim_prefix_def)

lemma split_on_neq_Nil [simp]: "split_on c s \<noteq> []"
  by (induction s) (auto split: list.splits)

lemma split_on_append_sep: "split_on c (s @ c # t) = split_on c s @ split_on c t"
  by (induction s) (auto split: list.splits)

lemma split_on_no_sep: "c \<notin> set s \<Longrightarrow> split_on c s = [s]"
  by (induction s) auto

lemma split_on_join:
  "ws \<noteq> [] \<Longrightarrow> (\<And>w. w \<in> set ws \<Longrightarrow> c \<notin> set w) \<Longrightarrow> split_on c (join [c] ws) = ws"
  by (induction "[c]" ws rule: join.induct) (auto simp: split_on_append_sep split_on_no_sep)

lemma join_split_on [simp]: "join [c] (split_on c s) = s"
proof (induction s)
  case Nil
  then show ?case by simp
next
  case (Cons x xs)
  obtain w ws where s: "split_on c xs = w # ws" by (cases "split_on c xs") auto
  then show ?case using Cons by (cases ws) auto
qed

lemma split_on_parts: "w \<in> set (split_on c s) \<Longrightarrow> c \<notin> set w"
proof (induction s arbitrary: w)
  case Nil
  then show ?case by simp
next
  case (Cons x xs)
  obtain v ws where s: "split_on c xs = v # ws" by (cases "split_on c xs") auto
  show ?case using Cons by (auto simp: s split: if_splits)
qed

lemma join_Cons: "ws \<noteq> [] \<Longrightarrow> join sep (w # ws) = w @ sep @ join sep ws"
  by (cases ws) auto

lemma split_n_1: "split_n 1 c s = [s]"
  by (cases s) auto

lemma split_n_Cons: "c \<notin> set w \<Longrightarrow> 1 < n \<Longrightarrow> split_n n c (w @ c # s) = w # split_n (n - 1) c s"
  by (induction w) auto

lemma split_n_no_sep: "c \<notin> set w \<Longrightarrow> 0 < n \<Longrightarrow> split_n n c w = [w]"
  by (induction w) auto

lemma replace_runs_all: "(\<And>c. c \<in> set s \<Longrightarrow> ok c) \<Longrightarrow> replace_runs ok r s = s"
  by (induction s) auto

lemma set_replace_runs: "set (replace_runs ok r s) \<subseteq> {c \<in> set s. ok c} \<union> {r}"
  by (induction ok r s rule: replace_runs.induct) (auto dest: set_dropWhileD)

section \<open>Numbers\<close>

text \<open>Go's int and int64: 64-bit two's complement arithmetic that wraps around.\<close>

definition wrap64 :: "int \<Rightarrow> int" where
  "wrap64 x = (x + 2 ^ 63) mod 2 ^ 64 - 2 ^ 63"

definition int64_range :: "int \<Rightarrow> bool" where
  "int64_range x \<longleftrightarrow> - (2 ^ 63) \<le> x \<and> x < 2 ^ 63"

lemma wrap64_range [simp]: "int64_range (wrap64 x)"
  by (simp add: int64_range_def wrap64_def)

lemma wrap64_id: "int64_range x \<Longrightarrow> wrap64 x = x"
  by (simp add: int64_range_def wrap64_def)

lemma int64_range_nat: "m < 2 ^ 63 \<Longrightarrow> int64_range (int m)"
proof -
  assume "m < 2 ^ 63"
  then have "int m < int (2 ^ 63)" unfolding of_nat_less_iff .
  then have "int m < 2 ^ 63" by simp
  moreover have "- (2 ^ 63) \<le> int m" by (rule order_trans [of _ 0]) (simp_all only: of_nat_0_le_iff, simp)
  ultimately show ?thesis by (simp only: int64_range_def simp_thms)
qed

definition digit_val :: "char \<Rightarrow> nat" where "digit_val c = char_code c - 48"

definition decimal_val :: "str \<Rightarrow> nat" where
  "decimal_val s = foldl (\<lambda>n c. 10 * n + digit_val c) 0 s"

text \<open>strconv.Atoi and strconv.ParseInt(_, 10, 64).\<close>

definition atoi :: "str \<Rightarrow> int option" where
  "atoi s =
     (let neg = (s \<noteq> [] \<and> hd s = CHR ''-'');
          ds = (if s \<noteq> [] \<and> (hd s = CHR ''-'' \<or> hd s = CHR ''+'') then tl s else s);
          n = (if neg then - int (decimal_val ds) else int (decimal_val ds))
      in if ds = [] \<or> \<not> list_all is_digit ds \<or> \<not> int64_range n then None else Some n)"

text \<open>strconv.ParseBool.\<close>

definition parse_bool :: "str \<Rightarrow> bool option" where
  "parse_bool s =
     (if s \<in> {''1'', ''t'', ''T'', ''true'', ''TRUE'', ''True''} then Some True
      else if s \<in> {''0'', ''f'', ''F'', ''false'', ''FALSE'', ''False''} then Some False
      else None)"

lemma atoi_range: "atoi s = Some n \<Longrightarrow> int64_range n"
  by (auto simp: atoi_def Let_def split: if_splits)

section \<open>Maps, sorted slices, results\<close>

text \<open>A sorted slice of strings without duplicates, the shape every normaliser returns.\<close>

definition sorted_set :: "'a::linorder list \<Rightarrow> bool" where
  "sorted_set xs \<longleftrightarrow> sorted xs \<and> distinct xs"

lemma sorted_set_unique: "sorted_set xs \<Longrightarrow> sorted_set ys \<Longrightarrow> set xs = set ys \<Longrightarrow> xs = ys"
  by (simp add: sorted_set_def sorted_distinct_set_unique)

text \<open>The loop that collects the first occurrences: seen set and output slice of the source.\<close>

fun dedup_loop :: "'a list \<Rightarrow> 'a list \<Rightarrow> 'a list" where
  "dedup_loop out [] = out"
| "dedup_loop out (x # xs) =
     (if x \<in> set out then dedup_loop out xs else dedup_loop (out @ [x]) xs)"

lemma set_dedup_loop [simp]: "set (dedup_loop out xs) = set out \<union> set xs"
  by (induction out xs rule: dedup_loop.induct) auto

lemma distinct_dedup_loop: "distinct out \<Longrightarrow> distinct (dedup_loop out xs)"
  by (induction out xs rule: dedup_loop.induct) auto

definition sort_dedup :: "'a::linorder list \<Rightarrow> 'a list" where
  "sort_dedup xs = sort (dedup_loop [] xs)"

lemma set_sort_dedup [simp]: "set (sort_dedup xs) = set xs"
  by (simp add: sort_dedup_def)

lemma sorted_set_sort_dedup: "sorted_set (sort_dedup xs)"
  by (simp add: sort_dedup_def sorted_set_def distinct_dedup_loop)

lemma sort_dedup_id: "sorted_set xs \<Longrightarrow> sort_dedup xs = xs"
  by (rule sorted_set_unique) (simp_all add: sorted_set_sort_dedup)

lemma map_of_perm_eq:
  "distinct (map fst xs) \<Longrightarrow> distinct (map fst ys) \<Longrightarrow> set xs = set ys \<Longrightarrow> map_of xs = map_of ys"
  by (simp add: map_of_inject_set)

text \<open>A fallible map over a slice that stops at the first error.\<close>

fun map_opt :: "('a \<Rightarrow> 'b option) \<Rightarrow> 'a list \<Rightarrow> 'b list option" where
  "map_opt f [] = Some []"
| "map_opt f (x # xs) =
     (case f x of None \<Rightarrow> None
      | Some y \<Rightarrow> (case map_opt f xs of None \<Rightarrow> None | Some ys \<Rightarrow> Some (y # ys)))"

lemma map_opt_Some_iff: "map_opt f xs = Some ys \<longleftrightarrow> list_all2 (\<lambda>x y. f x = Some y) xs ys"
proof (induction xs arbitrary: ys)
  case Nil
  then show ?case by auto
next
  case (Cons x xs)
  show ?case by (cases ys) (auto simp: Cons [symmetric] split: option.splits)
qed

lemma map_opt_SomeD: "map_opt f xs = Some ys \<Longrightarrow> y \<in> set ys \<Longrightarrow> \<exists>x \<in> set xs. f x = Some y"
  by (auto simp: map_opt_Some_iff list_all2_conv_all_nth in_set_conv_nth) (metis nth_mem)

lemma map_opt_id: "(\<And>x. x \<in> set xs \<Longrightarrow> f x = Some x) \<Longrightarrow> map_opt f xs = Some xs"
  by (induction xs) auto

lemma filter_map_outside:
  "(\<And>x. p (f x) = p x) \<Longrightarrow> (\<And>x. p x \<Longrightarrow> f x = x) \<Longrightarrow> filter p (map f xs) = filter p xs"
  by (induction xs) auto

lemma find_SomeD: "find p xs = Some x \<Longrightarrow> x \<in> set xs \<and> p x"
  by (auto simp: find_Some_iff)

lemma find_ex: "find p xs \<noteq> None \<longleftrightarrow> (\<exists>x \<in> set xs. p x)"
  by (auto simp: find_None_iff)

end
