(* ===== verification/Json.thy ===== *)
theory Json
  imports Prelude
begin

text \<open>
  JSON as Go's encoding/json sees it. A \<open>json\<close> value is the syntax tree of a document,
  with the members of an object in document order and repeated names kept, because the two
  decoders the code uses disagree on them: decoding into a Go map keeps the last member of a
  name, compared exactly; decoding into a struct matches names up to case and decodes every
  matching member in turn into the same field. A json.RawMessage is \<open>json option\<close>, with
  \<open>None\<close> for bytes that are not one JSON value (the empty slice included).

  Number literals without fraction and exponent are \<open>JInt\<close>, all others \<open>JFrac\<close>;
  numbers keep their exact value (rounding to float64 is not modelled).
\<close>

datatype json =
    JNull
  | JBool bool
  | JInt int
  | JFrac rat
  | JStr str
  | JArr "json list"
  | JObj "(str \<times> json) list"

type_synonym raw_message = "json option"
type_synonym members = "(str \<times> json) list"

section \<open>Results\<close>

definition and_then :: "'e + 'a \<Rightarrow> ('a \<Rightarrow> 'e + 'b) \<Rightarrow> 'e + 'b" where
  "and_then r f = (case r of Inl e \<Rightarrow> Inl e | Inr a \<Rightarrow> f a)"

definition or_fail :: "'a option \<Rightarrow> 'e \<Rightarrow> 'e + 'a" where
  "or_fail r e = (case r of None \<Rightarrow> Inl e | Some a \<Rightarrow> Inr a)"

definition wrap_err :: "('e \<Rightarrow> 'f) \<Rightarrow> 'e + 'a \<Rightarrow> 'f + 'a" where
  "wrap_err w r = (case r of Inl e \<Rightarrow> Inl (w e) | Inr a \<Rightarrow> Inr a)"

lemma and_then_Inr [go_err]: "and_then r f = Inr b \<longleftrightarrow> (\<exists>a. r = Inr a \<and> f a = Inr b)"
  by (auto simp: and_then_def split: sum.splits)

lemma and_then_simps [simp]: "and_then (Inl e) f = Inl e" "and_then (Inr a) f = f a"
  by (simp_all add: and_then_def)

lemma or_fail_Inr [go_err]: "or_fail r e = Inr a \<longleftrightarrow> r = Some a"
  by (auto simp: or_fail_def split: option.splits)

lemma or_fail_simps [simp]: "or_fail None e = Inl e" "or_fail (Some a) e = Inr a"
  by (simp_all add: or_fail_def)

lemma wrap_err_Inr [go_err]: "wrap_err w r = Inr a \<longleftrightarrow> r = Inr a"
  by (auto simp: wrap_err_def split: sum.splits)

lemma wrap_err_simps [simp]: "wrap_err w (Inl e) = Inl (w e)" "wrap_err w (Inr a) = Inr a"
  by (simp_all add: wrap_err_def)

lemma if_fail_Inr: "(if c then Inl e else r) = Inr a \<longleftrightarrow> \<not> c \<and> r = Inr a"
  by simp

section \<open>Decoding into a map\<close>

text \<open>Decoding into \<open>map[string]json.RawMessage\<close>: the last member of a name wins.\<close>

definition obj_get :: "members \<Rightarrow> str \<Rightarrow> json option" where
  "obj_get kvs = map_of (rev kvs)"

definition obj_keys :: "members \<Rightarrow> str list" where
  "obj_keys kvs = remdups (map fst kvs)"

definition decode_map :: "members \<Rightarrow> (str, json) gomap" where
  "decode_map kvs = map (\<lambda>k. (k, the (obj_get kvs k))) (obj_keys kvs)"

lemma obj_get_None [simp]: "obj_get kvs k = None \<longleftrightarrow> k \<notin> fst ` set kvs"
  by (simp add: obj_get_def map_of_eq_None_iff)

lemma set_obj_keys [simp]: "set (obj_keys kvs) = fst ` set kvs"
  by (simp add: obj_keys_def)

lemma distinct_decode_map: "distinct (map fst (decode_map kvs))"
  by (simp add: decode_map_def obj_keys_def comp_def)

lemma map_of_decode_map [simp]: "map_of (decode_map kvs) = obj_get kvs"
proof
  fix k
  show "map_of (decode_map kvs) k = obj_get kvs k"
  proof (cases "k \<in> fst ` set kvs")
    case True
    then have "(k, the (obj_get kvs k)) \<in> set (decode_map kvs)"
      by (auto simp: decode_map_def)
    then have "map_of (decode_map kvs) k = Some (the (obj_get kvs k))"
      by (rule map_of_is_SomeI [OF distinct_decode_map])
    with True show ?thesis by (metis obj_get_None option.collapse)
  next
    case False
    then have "k \<notin> fst ` set (decode_map kvs)" by (force simp: decode_map_def)
    with False show ?thesis by (metis map_of_eq_None_iff obj_get_None)
  qed
qed

text \<open>\<open>v, _ := x.(string)\<close> and its siblings on a value decoded into an interface.\<close>

fun as_string :: "json option \<Rightarrow> str" where
  "as_string (Some (JStr s)) = s"
| "as_string _ = []"

fun as_object :: "json option \<Rightarrow> members" where
  "as_object (Some (JObj kvs)) = kvs"
| "as_object _ = []"

fun as_array :: "json option \<Rightarrow> json list" where
  "as_array (Some (JArr vs)) = vs"
| "as_array _ = []"

section \<open>Decoding into a struct\<close>

text \<open>The members a struct field named \<open>f\<close> receives, in document order.\<close>

definition struct_vals :: "str \<Rightarrow> members \<Rightarrow> json list" where
  "struct_vals f kvs = map snd (filter (\<lambda>kv. equal_fold (fst kv) f) kvs)"

fun dec_field :: "(json \<Rightarrow> 'a \<Rightarrow> 'a option) \<Rightarrow> 'a \<Rightarrow> json list \<Rightarrow> 'a option" where
  "dec_field dec z [] = Some z"
| "dec_field dec z (v # vs) = (case dec v z of None \<Rightarrow> None | Some z' \<Rightarrow> dec_field dec z' vs)"

text \<open>Field types: null leaves a string alone and empties a slice; a value of another type is a
  decoding error.\<close>

fun dec_string :: "json \<Rightarrow> str \<Rightarrow> str option" where
  "dec_string JNull old = Some old"
| "dec_string (JStr s) old = Some s"
| "dec_string _ old = None"

text \<open>An array is decoded element by element into the slice the field already holds (the slice of
  an earlier member of the same name), so that a null element keeps the old one.\<close>

fun dec_slice :: "(json \<Rightarrow> 'a \<Rightarrow> 'a option) \<Rightarrow> 'a \<Rightarrow> json list \<Rightarrow> 'a list \<Rightarrow> 'a list option" where
  "dec_slice dec z [] old = Some []"
| "dec_slice dec z (v # vs) old =
     (case dec v (case old of [] \<Rightarrow> z | a # _ \<Rightarrow> a) of
        None \<Rightarrow> None
      | Some a \<Rightarrow> (case dec_slice dec z vs (tl old) of None \<Rightarrow> None | Some as \<Rightarrow> Some (a # as)))"

fun dec_strings :: "json \<Rightarrow> str list \<Rightarrow> str list option" where
  "dec_strings JNull old = Some []"
| "dec_strings (JArr vs) old = dec_slice dec_string [] vs old"
| "dec_strings _ old = None"

text \<open>An \<open>int64\<close> field takes integer literals in range only.\<close>

fun dec_int64 :: "json \<Rightarrow> int \<Rightarrow> int option" where
  "dec_int64 JNull old = Some old"
| "dec_int64 (JInt n) old = (if - (2 ^ 63) \<le> n \<and> n < 2 ^ 63 then Some n else None)"
| "dec_int64 _ old = None"

text \<open>A field of type \<open>map[string]interface{}\<close> merges each matching object into the map it
  already holds; null resets it to nil (\<open>None\<close>).\<close>

fun dec_any_map :: "json \<Rightarrow> members option \<Rightarrow> members option option" where
  "dec_any_map JNull old = Some None"
| "dec_any_map (JObj kvs) None = Some (Some kvs)"
| "dec_any_map (JObj kvs) (Some old) = Some (Some (old @ kvs))"
| "dec_any_map _ old = None"

lemma dec_slice_map:
  "(\<And>x a. x \<in> set xs \<Longrightarrow> dec (enc x) a = Some x) \<Longrightarrow> dec_slice dec z (map enc xs) old = Some xs"
  by (induction xs arbitrary: old) (auto split: list.splits)

lemma dec_slice_strings [simp]: "dec_slice dec_string [] (map JStr ss) old = Some ss"
  by (rule dec_slice_map) simp

end
