(* ===== verification/Identifiers.thy ===== *)
theory Identifiers
  imports Json
begin

text \<open>
  Canonical identifiers and versions, the lexical contract that the policy catalog
  (internal/policy) and the twin model catalog (internal/twinmodel) share: the
  lower-then-replace normalisation of an id, its bounds, and the three-component
  int32-safe version.
\<close>

datatype ident_error = EmptyIdent | IdentTooLong
datatype version_error = NotThreeComponents | ComponentTooLarge str

definition max_ident_bytes :: nat where "max_ident_bytes = 255"

definition ident_char :: "char \<Rightarrow> bool" where
  "ident_char c \<longleftrightarrow> is_lower c \<or> is_digit c \<or> c = CHR ''_''"

definition canonical_ident :: "str \<Rightarrow> str" where
  "canonical_ident raw = trim_char CHR ''_'' (replace_runs ident_char CHR ''_'' (to_lower raw))"

definition normalize_ident :: "str \<Rightarrow> ident_error + str" where
  "normalize_ident raw =
     (let canonical = canonical_ident raw
      in if canonical = [] \<or> trim_char CHR ''_'' canonical = [] then Inl EmptyIdent
         else if max_ident_bytes < length canonical then Inl IdentTooLong
         else Inr canonical)"

text \<open>One component of \<open>^(0|[1-9][0-9]{0,9})\.(...)\.(...)$\<close>.\<close>

definition canonical_component :: "str \<Rightarrow> bool" where
  "canonical_component s \<longleftrightarrow> s = ''0'' \<or>
     (s \<noteq> [] \<and> in_range 49 57 (hd s) \<and> list_all is_digit s \<and> length s \<le> 10)"

definition version_parts :: "str \<Rightarrow> str list option" where
  "version_parts v =
     (let ps = split_on CHR ''.'' v
      in if length ps = 3 \<and> list_all canonical_component ps then Some ps else None)"

fun check_components :: "str list \<Rightarrow> version_error + unit" where
  "check_components [] = Inr ()"
| "check_components (c # cs) =
     (if 2 ^ 31 - 1 < decimal_val c then Inl (ComponentTooLarge c) else check_components cs)"

definition validate_version :: "str \<Rightarrow> version_error + unit" where
  "validate_version v =
     (case version_parts v of None \<Rightarrow> Inl NotThreeComponents | Some ps \<Rightarrow> check_components ps)"

text \<open>PostgreSQL's \<open>string_to_array(version,'.')::int[]\<close>, the key the catalogs order by.\<close>

definition version_key :: "str \<Rightarrow> nat list" where
  "version_key v = map decimal_val (split_on CHR ''.'' v)"

section \<open>Facts\<close>

lemma ident_char_lower [simp]: "ident_char c \<Longrightarrow> lower_char c = c"
  by (auto simp: ident_char_def char_code_inj [symmetric] char_code_lower in_range_def)
     (auto simp: char_code_def)

lemma underscore_ident [simp]: "ident_char CHR ''_''"
  by (simp add: ident_char_def)

lemma set_canonical_ident: "c \<in> set (canonical_ident raw) \<Longrightarrow> ident_char c"
  using set_trim_by [of "\<lambda>x. x = CHR ''_''"] set_replace_runs [of ident_char]
  by (fastforce simp: canonical_ident_def trim_char_def)

lemma canonical_ident_idem [simp]: "canonical_ident (canonical_ident raw) = canonical_ident raw"
proof -
  have "to_lower (canonical_ident raw) = canonical_ident raw"
    unfolding to_lower_def by (rule map_idI) (auto dest: set_canonical_ident)
  moreover have "replace_runs ident_char CHR ''_'' (canonical_ident raw) = canonical_ident raw"
    by (rule replace_runs_all) (rule set_canonical_ident)
  moreover have "trim_char CHR ''_'' (canonical_ident raw) = canonical_ident raw"
    by (simp add: canonical_ident_def)
  ultimately show ?thesis by (simp add: canonical_ident_def [of "canonical_ident raw"])
qed

lemma normalize_ident_Inr:
  "normalize_ident raw = Inr c \<longleftrightarrow>
     c = canonical_ident raw \<and> c \<noteq> [] \<and> length c \<le> max_ident_bytes"
  by (auto simp: normalize_ident_def Let_def canonical_ident_def)

lemma normalize_ident_idem: "normalize_ident raw = Inr c \<Longrightarrow> normalize_ident c = Inr c"
  by (auto simp: normalize_ident_Inr)

lemma normalize_ident_fixed: "normalize_ident c = Inr c \<longleftrightarrow>
    c \<noteq> [] \<and> length c \<le> max_ident_bytes \<and> canonical_ident c = c"
  by (auto simp: normalize_ident_Inr)

lemma check_components_Inr:
  "check_components cs = Inr () \<longleftrightarrow> (\<forall>c \<in> set cs. decimal_val c < 2 ^ 31)"
  by (induction cs) auto

lemma validate_version_Inr:
  "validate_version v = Inr () \<longleftrightarrow>
     length (split_on CHR ''.'' v) = 3 \<and>
     (\<forall>p \<in> set (split_on CHR ''.'' v). canonical_component p \<and> decimal_val p < 2 ^ 31)"
  by (auto simp: validate_version_def version_parts_def Let_def check_components_Inr list_all_iff
      split: option.splits if_splits)

text \<open>Distinct canonical components have distinct values, so that ordering versions by their
  integer components never confuses two catalogued versions.\<close>

lemma decimal_val_snoc: "decimal_val (s @ [c]) = 10 * decimal_val s + digit_val c"
  by (simp add: decimal_val_def)

lemma digit_val_inj: "is_digit c \<Longrightarrow> is_digit d \<Longrightarrow> digit_val c = digit_val d \<Longrightarrow> c = d"
  by (auto simp: digit_val_def in_range_def char_code_inj [symmetric])

lemma digit_val_lt: "is_digit c \<Longrightarrow> digit_val c < 10"
  by (auto simp: digit_val_def in_range_def)

lemma decimal_val_pos: "s \<noteq> [] \<Longrightarrow> in_range 49 57 (hd s) \<Longrightarrow> 0 < decimal_val s"
proof (induction s rule: rev_induct)
  case Nil
  then show ?case by simp
next
  case (snoc c s)
  show ?case
  proof (cases "s = []")
    case True
    with snoc show ?thesis by (auto simp: decimal_val_def digit_val_def in_range_def)
  next
    case False
    with snoc show ?thesis by (simp add: decimal_val_snoc)
  qed
qed

lemma decimal_val_inj_aux:
  "list_all is_digit s \<Longrightarrow> list_all is_digit t \<Longrightarrow> s \<noteq> [] \<Longrightarrow> t \<noteq> [] \<Longrightarrow>
   in_range 49 57 (hd s) \<Longrightarrow> in_range 49 57 (hd t) \<Longrightarrow> decimal_val s = decimal_val t \<Longrightarrow> s = t"
proof (induction s arbitrary: t rule: rev_induct)
  case Nil
  then show ?case by simp
next
  case (snoc c s)
  obtain d u where t: "t = u @ [d]" using snoc.prems(4) by (metis append_butlast_last_id)
  have c: "digit_val c < 10" "digit_val d < 10"
    using snoc.prems(1,2) by (auto simp: t digit_val_lt)
  have eq: "10 * decimal_val s + digit_val c = 10 * decimal_val u + digit_val d"
    using snoc.prems(7) by (simp add: t decimal_val_snoc)
  then have v: "decimal_val s = decimal_val u" "digit_val c = digit_val d"
    using c by presburger+
  have cd: "c = d" using v(2) snoc.prems(1,2) by (auto simp: t intro: digit_val_inj)
  have e: "s = [] \<longleftrightarrow> u = []"
    using v(1) decimal_val_pos [of s] decimal_val_pos [of u] snoc.prems(5,6)
    by (cases "s = []"; cases "u = []") (auto simp: t decimal_val_def)
  show ?case
  proof (cases "s = []")
    case True
    with e cd show ?thesis by (simp add: t)
  next
    case False
    with e have "s = u"
      using snoc.IH [of u] snoc.prems v(1) by (simp add: t)
    with cd show ?thesis by (simp add: t)
  qed
qed

lemma decimal_val_inj:
  assumes "canonical_component s" "canonical_component t" "decimal_val s = decimal_val t"
  shows "s = t"
  using assms decimal_val_inj_aux [of s t] decimal_val_pos [of s] decimal_val_pos [of t]
  by (auto simp: canonical_component_def decimal_val_def digit_val_def char_code_def)

lemma version_key_inj:
  assumes "validate_version v = Inr ()" "validate_version w = Inr ()" "version_key v = version_key w"
  shows "v = w"
proof -
  have "inj_on decimal_val {p. canonical_component p}"
    by (rule inj_onI) (auto intro: decimal_val_inj)
  moreover have "set (split_on CHR ''.'' v) \<union> set (split_on CHR ''.'' w) \<subseteq> {p. canonical_component p}"
    using assms by (auto simp: validate_version_Inr)
  ultimately have "split_on CHR ''.'' v = split_on CHR ''.'' w"
    using assms(3) unfolding version_key_def
    by (metis inj_on_subset map_inj_on)
  then show ?thesis by (metis join_split_on)
qed

end
