(* ===== verification/TwinModel.thy ===== *)
theory TwinModel
  imports Identifiers
begin

text \<open>
  Twin models (internal/twinmodel/model.go): the authored model, its validation and
  normalisation, and the derived schema the enforcement reads.

  Go maps are association lists with distinct keys, a nil map is the empty list; a loop that
  ranges over a map ranges over that list, so which of several errors is reported first is
  left to the list's order. The regular expression engine (package regexp) is a parameter
  \<open>rx\<close>: \<open>rx p\<close> is \<open>None\<close> when the pattern does not compile and the match predicate otherwise.
\<close>

type_synonym regex_engine = "str \<Rightarrow> (str \<Rightarrow> bool) option"

record property_spec =
  ps_type :: str
  ps_enum :: "json list"
  ps_minimum :: "rat option"
  ps_maximum :: "rat option"
  ps_min_length :: "int option"
  ps_max_length :: "int option"
  ps_pattern :: str
  ps_required :: bool
  ps_unit :: str
  ps_writable :: bool
  ps_extra :: "(str, json) gomap"

record feature =
  ft_definition :: str
  ft_properties :: "(str, property_spec) gomap"
  ft_desired :: "(str, property_spec) gomap"
  ft_extra :: "(str, json) gomap"

record relationship =
  rl_target :: "str list"
  rl_target_entity_types :: "str list"
  rl_max_cardinality :: int
  rl_bidirectional :: bool
  rl_extra :: "(str, json) gomap"

record twin_model =
  tm_id :: str
  tm_version :: str
  tm_kind :: str
  tm_display_name :: str
  tm_unknown_keys :: str
  tm_enforcement_mode :: str
  tm_attributes :: "(str, property_spec) gomap"
  tm_features :: "(str, feature) gomap"
  tm_relationships :: "(str, relationship) gomap"
  tm_extra :: "(str, json) gomap"

record feature_schema =
  fs_definition :: str
  fs_properties :: "(str, property_spec) gomap"
  fs_desired :: "(str, property_spec) gomap"

record relationship_schema =
  rs_target :: "str list"
  rs_target_entity_types :: "str list"
  rs_max_cardinality :: int
  rs_bidirectional :: bool

record derived_schema =
  ds_model_id :: str
  ds_version :: str
  ds_kind :: str
  ds_unknown_keys :: str
  ds_enforcement_mode :: str
  ds_attributes :: "(str, property_spec) gomap"
  ds_features :: "(str, feature_schema) gomap"
  ds_relationships :: "(str, relationship_schema) gomap"

text \<open>Errors carry the path of the offending element and the reason.\<close>

datatype model_reason =
    FieldRequired
  | MustBeNonEmptyString
  | UnsupportedKeyword
  | MustBeObject
  | FieldDecodeFailed
  | UnsupportedType str
  | MustBeNonNegative
  | MaximumBelowMinimum
  | InvalidPattern
  | BadFeatureDefinition
  | BadVersion version_error
  | MustBePositive
  | MustContainOne
  | BadIdentifier ident_error
  | DuplicateModelId str
  | MustBeDeviceOrAsset
  | DuplicateEntityType str
  | NameEmpty
  | MustBeAllowOrReject
  | MustBeWarnOrReject

datatype model_error = NoModelJson | InvalidModelObject | ModelError str model_reason

section \<open>Vocabulary\<close>

definition model_known_keys :: "str list" where
  "model_known_keys = [''modelId'', ''version'', ''kind'', ''displayName'', ''unknownKeys'',
     ''enforcementMode'', ''attributes'', ''features'', ''relationships'']"

definition property_known_keys :: "str list" where
  "property_known_keys = [''type'', ''enum'', ''minimum'', ''maximum'', ''minLength'', ''maxLength'',
     ''pattern'', ''required'', ''unit'', ''writable'']"

definition feature_known_keys :: "str list" where
  "feature_known_keys = [''definition'', ''properties'', ''desiredProperties'']"

definition relationship_known_keys :: "str list" where
  "relationship_known_keys = [''target'', ''targetEntityTypes'', ''maxCardinality'', ''bidirectional'']"

definition unsupported_validation_keywords :: "str list" where
  "unsupported_validation_keywords =
     [''$ref'', ''$dynamicRef'', ''$defs'', ''allOf'', ''anyOf'', ''oneOf'', ''not'',
      ''type'', ''enum'', ''minimum'', ''maximum'', ''minLength'', ''maxLength'', ''pattern'', ''required'',
      ''const'', ''multipleOf'', ''exclusiveMinimum'', ''exclusiveMaximum'',
      ''minItems'', ''maxItems'', ''uniqueItems'', ''contains'', ''minContains'', ''maxContains'',
      ''minProperties'', ''maxProperties'', ''properties'', ''patternProperties'', ''propertyNames'',
      ''prefixItems'', ''items'', ''additionalProperties'', ''unevaluatedItems'', ''unevaluatedProperties'',
      ''dependentRequired'', ''dependentSchemas'', ''if'', ''then'', ''else'', ''format'']"

definition model_type_names :: "str list" where
  "model_type_names = [''string'', ''number'', ''integer'', ''boolean'', ''object'', ''array'']"

definition escape_part :: "str \<Rightarrow> str" where
  "escape_part s = replace_char CHR ''/'' ''~1'' (replace_char CHR ''~'' ''~0'' s)"

definition join_path :: "str \<Rightarrow> str list \<Rightarrow> str" where
  "join_path base parts =
     (let b = trim_char CHR ''/'' base
      in join ''/'' ((if b = [] then [] else [b]) @ map escape_part (filter (\<lambda>p. p \<noteq> []) parts)))"

abbreviation fail_at :: "str \<Rightarrow> model_reason \<Rightarrow> model_error + 'a" where
  "fail_at path reason \<equiv> Inl (ModelError path reason)"

abbreviation ensure :: "bool \<Rightarrow> model_error \<Rightarrow> model_error + unit" where
  "ensure c e \<equiv> (if c then Inr () else Inl e)"

text \<open>A loop over the entries of a map that stops at the first error.\<close>

fun for_each :: "('a \<Rightarrow> 'e + unit) \<Rightarrow> 'a list \<Rightarrow> 'e + unit" where
  "for_each f [] = Inr ()"
| "for_each f (x # xs) = and_then (f x) (\<lambda>_. for_each f xs)"

lemma for_each_Inr [go_err]: "for_each f xs = Inr () \<longleftrightarrow> (\<forall>x \<in> set xs. f x = Inr ())"
  by (induction xs) (auto simp: and_then_def split: sum.splits)

section \<open>Decoding\<close>

text \<open>Field decoders of the types the structs use. A map element is decoded into a fresh zero
  value; a second object for the same field adds to the map.\<close>

fun dec_float_ptr :: "json \<Rightarrow> rat option \<Rightarrow> rat option option" where
  "dec_float_ptr JNull old = Some None"
| "dec_float_ptr (JInt n) old = Some (Some (of_int n))"
| "dec_float_ptr (JFrac r) old = Some (Some r)"
| "dec_float_ptr _ old = None"

fun dec_int_ptr :: "json \<Rightarrow> int option \<Rightarrow> int option option" where
  "dec_int_ptr JNull old = Some None"
| "dec_int_ptr (JInt n) old = (if int64_range n then Some (Some n) else None)"
| "dec_int_ptr _ old = None"

fun dec_bool :: "json \<Rightarrow> bool \<Rightarrow> bool option" where
  "dec_bool JNull old = Some old"
| "dec_bool (JBool b) old = Some b"
| "dec_bool _ old = None"

fun dec_values :: "json \<Rightarrow> json list \<Rightarrow> json list option" where
  "dec_values JNull old = Some []"
| "dec_values (JArr vs) old = Some vs"
| "dec_values _ old = None"

fun dec_entries_map :: "(json \<Rightarrow> 'a option) \<Rightarrow> members \<Rightarrow> (str, 'a) gomap \<Rightarrow> (str, 'a) gomap option" where
  "dec_entries_map dec [] m = Some m"
| "dec_entries_map dec ((k, v) # kvs) m =
     (case dec v of None \<Rightarrow> None | Some a \<Rightarrow> dec_entries_map dec kvs (AList.update k a m))"

fun dec_typed_map :: "(json \<Rightarrow> 'a option) \<Rightarrow> json \<Rightarrow> (str, 'a) gomap \<Rightarrow> (str, 'a) gomap option" where
  "dec_typed_map dec JNull old = Some []"
| "dec_typed_map dec (JObj kvs) old = dec_entries_map dec kvs old"
| "dec_typed_map dec _ old = None"

definition unknown_fields :: "members \<Rightarrow> str list \<Rightarrow> (str, json) gomap" where
  "unknown_fields kvs known = filter (\<lambda>kv. fst kv \<notin> set known) (decode_map kvs)"

text \<open>The members of an object; null is no object for the validators, an empty one for the
  decoders of the structs.\<close>

fun struct_members :: "json \<Rightarrow> members option" where
  "struct_members JNull = Some []"
| "struct_members (JObj kvs) = Some kvs"
| "struct_members _ = None"

definition dec_property :: "json \<Rightarrow> property_spec option" where
  "dec_property raw =
     (case struct_members raw of
        None \<Rightarrow> None
      | Some kvs \<Rightarrow>
          (case (dec_field dec_string [] (struct_vals ''type'' kvs),
                 dec_field dec_values [] (struct_vals ''enum'' kvs),
                 dec_field dec_float_ptr None (struct_vals ''minimum'' kvs),
                 dec_field dec_float_ptr None (struct_vals ''maximum'' kvs),
                 dec_field dec_int_ptr None (struct_vals ''minLength'' kvs),
                 dec_field dec_int_ptr None (struct_vals ''maxLength'' kvs),
                 dec_field dec_string [] (struct_vals ''pattern'' kvs),
                 dec_field dec_bool False (struct_vals ''required'' kvs),
                 dec_field dec_string [] (struct_vals ''unit'' kvs),
                 dec_field dec_bool False (struct_vals ''writable'' kvs)) of
             (Some t, Some e, Some mi, Some ma, Some mil, Some mal, Some p, Some r, Some u, Some w) \<Rightarrow>
               Some \<lparr>ps_type = t, ps_enum = e, ps_minimum = mi, ps_maximum = ma, ps_min_length = mil,
                     ps_max_length = mal, ps_pattern = p, ps_required = r, ps_unit = u, ps_writable = w,
                     ps_extra = unknown_fields kvs property_known_keys\<rparr>
           | _ \<Rightarrow> None))"

definition dec_feature :: "json \<Rightarrow> feature option" where
  "dec_feature raw =
     (case struct_members raw of
        None \<Rightarrow> None
      | Some kvs \<Rightarrow>
          (case (dec_field dec_string [] (struct_vals ''definition'' kvs),
                 dec_field (dec_typed_map dec_property) [] (struct_vals ''properties'' kvs),
                 dec_field (dec_typed_map dec_property) [] (struct_vals ''desiredProperties'' kvs)) of
             (Some d, Some p, Some w) \<Rightarrow>
               Some \<lparr>ft_definition = d, ft_properties = p, ft_desired = w,
                     ft_extra = unknown_fields kvs feature_known_keys\<rparr>
           | _ \<Rightarrow> None))"

fun dec_int :: "json \<Rightarrow> int \<Rightarrow> int option" where
  "dec_int JNull old = Some old"
| "dec_int (JInt n) old = (if int64_range n then Some n else None)"
| "dec_int _ old = None"

definition dec_relationship :: "json \<Rightarrow> relationship option" where
  "dec_relationship raw =
     (case struct_members raw of
        None \<Rightarrow> None
      | Some kvs \<Rightarrow>
          (case (dec_field dec_strings [] (struct_vals ''target'' kvs),
                 dec_field dec_strings [] (struct_vals ''targetEntityTypes'' kvs),
                 dec_field dec_int 0 (struct_vals ''maxCardinality'' kvs),
                 dec_field dec_bool False (struct_vals ''bidirectional'' kvs)) of
             (Some t, Some e, Some m, Some b) \<Rightarrow>
               Some \<lparr>rl_target = t, rl_target_entity_types = e, rl_max_cardinality = m,
                     rl_bidirectional = b, rl_extra = unknown_fields kvs relationship_known_keys\<rparr>
           | _ \<Rightarrow> None))"

definition dec_model :: "members \<Rightarrow> twin_model option" where
  "dec_model kvs =
     (case (dec_field dec_string [] (struct_vals ''modelId'' kvs),
            dec_field dec_string [] (struct_vals ''version'' kvs),
            dec_field dec_string [] (struct_vals ''kind'' kvs),
            dec_field dec_string [] (struct_vals ''displayName'' kvs),
            dec_field dec_string [] (struct_vals ''unknownKeys'' kvs),
            dec_field dec_string [] (struct_vals ''enforcementMode'' kvs),
            dec_field (dec_typed_map dec_property) [] (struct_vals ''attributes'' kvs),
            dec_field (dec_typed_map dec_feature) [] (struct_vals ''features'' kvs),
            dec_field (dec_typed_map dec_relationship) [] (struct_vals ''relationships'' kvs)) of
        (Some i, Some v, Some k, Some d, Some u, Some e, Some a, Some f, Some r) \<Rightarrow>
          Some \<lparr>tm_id = i, tm_version = v, tm_kind = k, tm_display_name = d, tm_unknown_keys = u,
                tm_enforcement_mode = e, tm_attributes = a, tm_features = f, tm_relationships = r,
                tm_extra = unknown_fields kvs model_known_keys\<rparr>
      | _ \<Rightarrow> None)"

section \<open>Validation of the authored shape\<close>

fun decode_object :: "json \<Rightarrow> str \<Rightarrow> model_error + members" where
  "decode_object (JObj kvs) path = Inr kvs"
| "decode_object _ path = fail_at path MustBeObject"

text \<open>The loop over the keys of an object that refuses validation keywords outside the subset.\<close>

definition check_keywords :: "str list \<Rightarrow> (str \<Rightarrow> str) \<Rightarrow> members \<Rightarrow> model_error + unit" where
  "check_keywords known loc kvs =
     for_each (\<lambda>key. ensure (key \<in> set known \<or> key \<notin> set unsupported_validation_keywords)
                       (ModelError (loc key) UnsupportedKeyword)) (obj_keys kvs)"

definition validate_property_spec :: "regex_engine \<Rightarrow> property_spec \<Rightarrow> str \<Rightarrow> model_error + unit" where
  "validate_property_spec rx spec path =
     (if ps_type spec \<notin> set model_type_names then fail_at (path @ ''/type'') (UnsupportedType (ps_type spec))
      else if (case ps_min_length spec of None \<Rightarrow> False | Some n \<Rightarrow> n < 0)
        then fail_at (path @ ''/minLength'') MustBeNonNegative
      else if (case ps_max_length spec of None \<Rightarrow> False | Some n \<Rightarrow> n < 0)
        then fail_at (path @ ''/maxLength'') MustBeNonNegative
      else if (case (ps_minimum spec, ps_maximum spec) of (Some a, Some b) \<Rightarrow> b < a | _ \<Rightarrow> False)
        then fail_at (path @ ''/maximum'') MaximumBelowMinimum
      else if (case (ps_min_length spec, ps_max_length spec) of (Some a, Some b) \<Rightarrow> b < a | _ \<Rightarrow> False)
        then fail_at (path @ ''/maxLength'') MaximumBelowMinimum
      else if ps_pattern spec \<noteq> [] \<and> rx (ps_pattern spec) = None
        then fail_at (path @ ''/pattern'') InvalidPattern
      else Inr ())"

definition validate_property_raw :: "regex_engine \<Rightarrow> str \<Rightarrow> str \<times> json \<Rightarrow> model_error + unit" where
  "validate_property_raw rx path entry =
     (let ppath = join_path path [fst entry]
      in and_then (decode_object (snd entry) ppath) (\<lambda>kvs.
           if obj_get kvs ''type'' = None then fail_at (ppath @ ''/type'') FieldRequired
           else and_then (check_keywords property_known_keys (\<lambda>k. ppath @ ''/'' @ k) kvs) (\<lambda>_.
             and_then (or_fail (dec_property (JObj kvs)) (ModelError ppath FieldDecodeFailed)) (\<lambda>spec.
               validate_property_spec rx spec ppath))))"

definition validate_properties_raw :: "regex_engine \<Rightarrow> members \<Rightarrow> str \<Rightarrow> model_error + unit" where
  "validate_properties_raw rx properties path =
     for_each (validate_property_raw rx path) (decode_map properties)"

definition validate_property_collection_raw ::
  "regex_engine \<Rightarrow> members \<Rightarrow> str \<Rightarrow> str \<Rightarrow> model_error + unit" where
  "validate_property_collection_raw rx parent key path =
     (case obj_get parent key of
        None \<Rightarrow> Inr ()
      | Some raw \<Rightarrow> and_then (decode_object raw path) (\<lambda>properties. validate_properties_raw rx properties path))"

definition feature_urn_prefix :: str where "feature_urn_prefix = ''thingsflow:feature:''"

definition feature_urn_version :: "str \<Rightarrow> str option" where
  "feature_urn_version d =
     (if \<not> has_prefix d feature_urn_prefix then None
      else let rest = trim_prefix d feature_urn_prefix;
               name = takeWhile ident_char rest; tail = dropWhile ident_char rest
           in if name = [] \<or> tail = [] \<or> hd tail \<noteq> CHR '':'' then None
              else let parts = split_on CHR ''.'' (tl tail)
                   in if length parts = 3 \<and> list_all (\<lambda>p. p \<noteq> []) parts then Some (tl tail) else None)"

definition validate_feature_raw :: "regex_engine \<Rightarrow> str \<times> json \<Rightarrow> model_error + unit" where
  "validate_feature_raw rx entry =
     (let path = join_path ''features'' [fst entry]
      in and_then (decode_object (snd entry) path) (\<lambda>kvs.
           case obj_get kvs ''definition'' of
             None \<Rightarrow> fail_at (path @ ''/definition'') FieldRequired
           | Some draw \<Rightarrow>
               (case map_option feature_urn_version (dec_string draw []) of
                  Some (Some v) \<Rightarrow>
                    and_then (wrap_err (\<lambda>e. ModelError (path @ ''/definition'') (BadVersion e)) (validate_version v))
                      (\<lambda>_. and_then (check_keywords feature_known_keys (\<lambda>k. path @ ''/'' @ k) kvs)
                        (\<lambda>_. and_then (validate_property_collection_raw rx kvs ''properties''
                                         (join_path path [''properties'']))
                          (\<lambda>_. validate_property_collection_raw rx kvs ''desiredProperties''
                                  (join_path path [''desiredProperties'']))))
                | _ \<Rightarrow> fail_at (path @ ''/definition'') BadFeatureDefinition)))"

definition validate_features_raw :: "regex_engine \<Rightarrow> members \<Rightarrow> model_error + unit" where
  "validate_features_raw rx parent =
     (case obj_get parent ''features'' of
        None \<Rightarrow> Inr ()
      | Some raw \<Rightarrow> and_then (decode_object raw ''features'')
                      (\<lambda>features. for_each (validate_feature_raw rx) (decode_map features)))"

definition validate_relationship_raw :: "str \<times> json \<Rightarrow> model_error + unit" where
  "validate_relationship_raw entry =
     (let path = join_path ''relationships'' [fst entry]
      in and_then (decode_object (snd entry) path) (\<lambda>kvs.
         and_then (for_each (\<lambda>field. ensure (obj_get kvs field \<noteq> None) (ModelError (path @ ''/'' @ field) FieldRequired))
                     relationship_known_keys) (\<lambda>_.
         and_then (check_keywords relationship_known_keys (\<lambda>k. path @ ''/'' @ k) kvs) (\<lambda>_.
         and_then (or_fail (dec_relationship (JObj kvs)) (ModelError path FieldDecodeFailed)) (\<lambda>rel.
           if rl_max_cardinality rel \<le> 0 then fail_at (path @ ''/maxCardinality'') MustBePositive
           else if rl_target rel = [] then fail_at (path @ ''/target'') MustContainOne
           else if rl_target_entity_types rel = [] then fail_at (path @ ''/targetEntityTypes'') MustContainOne
           else Inr ())))))"

definition validate_relationships_raw :: "members \<Rightarrow> model_error + unit" where
  "validate_relationships_raw parent =
     (case obj_get parent ''relationships'' of
        None \<Rightarrow> Inr ()
      | Some raw \<Rightarrow> and_then (decode_object raw ''relationships'')
                      (\<lambda>rels. for_each validate_relationship_raw (decode_map rels)))"

definition check_required_string :: "members \<Rightarrow> str \<Rightarrow> model_error + unit" where
  "check_required_string kvs key =
     (case obj_get kvs key of
        None \<Rightarrow> fail_at key FieldRequired
      | Some v \<Rightarrow>
          (case dec_string v [] of
             None \<Rightarrow> fail_at key MustBeNonEmptyString
           | Some s \<Rightarrow> ensure (trim_space s \<noteq> []) (ModelError key MustBeNonEmptyString)))"

definition validate_authored_shape :: "regex_engine \<Rightarrow> members \<Rightarrow> model_error + unit" where
  "validate_authored_shape rx kvs =
     and_then (for_each (check_required_string kvs) [''modelId'', ''version'', ''kind'']) (\<lambda>_.
     and_then (check_keywords model_known_keys (\<lambda>k. k) kvs) (\<lambda>_.
     and_then (validate_property_collection_raw rx kvs ''attributes'' ''attributes'') (\<lambda>_.
     and_then (validate_features_raw rx kvs) (\<lambda>_. validate_relationships_raw kvs))))"

section \<open>Normalize\<close>

fun target_loop :: "str \<Rightarrow> str list \<Rightarrow> str list \<Rightarrow> model_error + str list" where
  "target_loop path out [] = Inr out"
| "target_loop path out (t # ts) =
     and_then (wrap_err (\<lambda>e. ModelError path (BadIdentifier e)) (normalize_ident t))
       (\<lambda>n. if n \<in> set out then fail_at path (DuplicateModelId n)
            else target_loop path (out @ [n]) ts)"

fun entity_type_loop :: "str \<Rightarrow> str list \<Rightarrow> str list \<Rightarrow> model_error + str list" where
  "entity_type_loop path out [] = Inr out"
| "entity_type_loop path out (t # ts) =
     (let n = to_upper (trim_space t)
      in if n \<noteq> ''DEVICE'' \<and> n \<noteq> ''ASSET'' then fail_at path MustBeDeviceOrAsset
         else if n \<in> set out then fail_at path (DuplicateEntityType n)
         else entity_type_loop path (out @ [n]) ts)"

definition normalize_relationship :: "str \<Rightarrow> relationship \<Rightarrow> model_error + relationship" where
  "normalize_relationship name rel =
     (if trim_space name = [] then fail_at (''relationships/'' @ name) NameEmpty
      else and_then (target_loop (''relationships/'' @ name @ ''/target'') [] (rl_target rel)) (\<lambda>ts.
           and_then (entity_type_loop (''relationships/'' @ name @ ''/targetEntityTypes'') []
                       (rl_target_entity_types rel)) (\<lambda>es.
             Inr (rel\<lparr>rl_target := ts, rl_target_entity_types := es\<rparr>))))"

fun normalize_relationships ::
  "(str, relationship) gomap \<Rightarrow> model_error + (str, relationship) gomap" where
  "normalize_relationships [] = Inr []"
| "normalize_relationships ((name, rel) # rels) =
     and_then (normalize_relationship name rel) (\<lambda>rel'.
     and_then (normalize_relationships rels) (\<lambda>rels'. Inr ((name, rel') # rels')))"

definition strip_property_metadata :: "property_spec \<Rightarrow> property_spec" where
  "strip_property_metadata spec = spec\<lparr>ps_extra := []\<rparr>"

definition derive_feature :: "feature \<Rightarrow> feature_schema" where
  "derive_feature f = \<lparr>fs_definition = ft_definition f,
     fs_properties = map (map_prod id strip_property_metadata) (ft_properties f),
     fs_desired = map (map_prod id strip_property_metadata) (ft_desired f)\<rparr>"

definition derive_relationship :: "relationship \<Rightarrow> relationship_schema" where
  "derive_relationship r = \<lparr>rs_target = rl_target r, rs_target_entity_types = rl_target_entity_types r,
     rs_max_cardinality = rl_max_cardinality r, rs_bidirectional = rl_bidirectional r\<rparr>"

definition derive_model :: "twin_model \<Rightarrow> derived_schema" where
  "derive_model m = \<lparr>ds_model_id = tm_id m, ds_version = tm_version m, ds_kind = tm_kind m,
     ds_unknown_keys = tm_unknown_keys m, ds_enforcement_mode = tm_enforcement_mode m,
     ds_attributes = map (map_prod id strip_property_metadata) (tm_attributes m),
     ds_features = map (map_prod id derive_feature) (tm_features m),
     ds_relationships = map (map_prod id derive_relationship) (tm_relationships m)\<rparr>"

text \<open>NormalizeModelID; ValidateVersion is \<open>validate_version\<close>.\<close>

definition normalize_model_id :: "str \<Rightarrow> model_error + str" where
  "normalize_model_id raw = wrap_err (\<lambda>e. ModelError ''modelId'' (BadIdentifier e)) (normalize_ident raw)"

definition normalize_model :: "twin_model \<Rightarrow> model_error + twin_model \<times> derived_schema" where
  "normalize_model m =
     and_then (normalize_model_id (tm_id m)) (\<lambda>canonical.
     and_then (wrap_err (\<lambda>e. ModelError ''version'' (BadVersion e)) (validate_version (tm_version m))) (\<lambda>_.
       let kind = to_upper (trim_space (tm_kind m));
           unknown = (if tm_unknown_keys m = [] then ''allow'' else tm_unknown_keys m);
           mode = (if tm_enforcement_mode m = [] then ''warn'' else tm_enforcement_mode m)
       in if kind \<noteq> ''DEVICE'' \<and> kind \<noteq> ''ASSET'' then fail_at ''kind'' MustBeDeviceOrAsset
          else if unknown \<noteq> ''allow'' \<and> unknown \<noteq> ''reject'' then fail_at ''unknownKeys'' MustBeAllowOrReject
          else if mode \<noteq> ''warn'' \<and> mode \<noteq> ''reject'' then fail_at ''enforcementMode'' MustBeWarnOrReject
          else and_then (normalize_relationships (tm_relationships m)) (\<lambda>rels.
            let m' = m\<lparr>tm_id := canonical, tm_kind := kind, tm_unknown_keys := unknown,
                      tm_enforcement_mode := mode, tm_relationships := rels\<rparr>
            in Inr (m', derive_model m'))))"

definition model_normalize :: "regex_engine \<Rightarrow> raw_message \<Rightarrow> model_error + twin_model \<times> derived_schema" where
  "model_normalize rx raw =
     (case raw of
        None \<Rightarrow> Inl NoModelJson
      | Some (JObj kvs) \<Rightarrow>
          and_then (validate_authored_shape rx kvs) (\<lambda>_.
          and_then (or_fail (dec_model kvs) (ModelError [] FieldDecodeFailed)) normalize_model)
      | Some _ \<Rightarrow> Inl InvalidModelObject)"

end
