(* ===== verification/TwinModelLaws.thy ===== *)
theory TwinModelLaws
  imports TwinModel
begin

text \<open>
  What twinmodel.Normalize promises: the invariant of a normalised model, the soundness of the
  property specifications that reach the derived schema, and the gap between the two JSON
  decoders through which an unchecked specification can reach it.
\<close>

section \<open>Normalisation\<close>

definition wf_relationship :: "relationship \<Rightarrow> bool" where
  "wf_relationship r \<longleftrightarrow>
     distinct (rl_target r) \<and> (\<forall>t \<in> set (rl_target r). normalize_ident t = Inr t) \<and>
     distinct (rl_target_entity_types r) \<and> set (rl_target_entity_types r) \<subseteq> {''DEVICE'', ''ASSET''}"

definition wf_model :: "twin_model \<Rightarrow> bool" where
  "wf_model m \<longleftrightarrow>
     normalize_ident (tm_id m) = Inr (tm_id m) \<and> validate_version (tm_version m) = Inr () \<and>
     tm_kind m \<in> {''DEVICE'', ''ASSET''} \<and> tm_unknown_keys m \<in> {''allow'', ''reject''} \<and>
     tm_enforcement_mode m \<in> {''warn'', ''reject''} \<and>
     (\<forall>r \<in> snd ` set (tm_relationships m). wf_relationship r)"

lemma target_loop_Inr:
  "target_loop path out ts = Inr res \<Longrightarrow> distinct out \<Longrightarrow> \<forall>t \<in> set out. normalize_ident t = Inr t \<Longrightarrow>
   distinct res \<and> (\<forall>t \<in> set res. normalize_ident t = Inr t)"
proof (induction path out ts rule: target_loop.induct)
  case (1 path out)
  then show ?case by simp
next
  case (2 path out t ts)
  from "2.prems"(1) obtain n where n: "normalize_ident t = Inr n" "n \<notin> set out"
    "target_loop path (out @ [n]) ts = Inr res"
    unfolding target_loop.simps and_then_Inr wrap_err_Inr if_fail_Inr by blast
  have w: "wrap_err (\<lambda>e. ModelError path (BadIdentifier e)) (normalize_ident t) = Inr n" using n(1) by simp
  have "normalize_ident n = Inr n" using n(1) by (rule normalize_ident_idem)
  then have "distinct (out @ [n])" "\<forall>t \<in> set (out @ [n]). normalize_ident t = Inr t"
    using "2.prems"(2,3) n(2) by auto
  then show ?case using "2.IH" n(2,3) by blast
qed

lemma entity_type_loop_Inr:
  "entity_type_loop path out ts = Inr res \<Longrightarrow> distinct out \<Longrightarrow> set out \<subseteq> {''DEVICE'', ''ASSET''} \<Longrightarrow>
   distinct res \<and> set res \<subseteq> {''DEVICE'', ''ASSET''}"
proof (induction ts arbitrary: out)
  case Nil
  then show ?case by simp
next
  case (Cons t ts)
  let ?n = "to_upper (trim_space t)"
  from Cons.prems(1) have "?n \<in> {''DEVICE'', ''ASSET''}" "?n \<notin> set out"
    "entity_type_loop path (out @ [?n]) ts = Inr res"
    unfolding entity_type_loop.simps Let_def if_fail_Inr by blast+
  with Cons.prems(2,3) show ?case by (intro Cons.IH [of "out @ [?n]"]) simp_all
qed

lemma normalize_relationship_wf: "normalize_relationship name r = Inr r' \<Longrightarrow> wf_relationship r'"
proof -
  assume "normalize_relationship name r = Inr r'"
  then obtain p q ts es where "target_loop p [] (rl_target r) = Inr ts"
    "entity_type_loop q [] (rl_target_entity_types r) = Inr es"
    "r' = r\<lparr>rl_target := ts, rl_target_entity_types := es\<rparr>"
    unfolding normalize_relationship_def if_fail_Inr and_then_Inr by blast
  with target_loop_Inr [OF this(1)] entity_type_loop_Inr [OF this(2)] show ?thesis
    by (simp add: wf_relationship_def)
qed

lemma normalize_relationships_wf:
  "normalize_relationships rels = Inr rels' \<Longrightarrow> \<forall>r \<in> snd ` set rels'. wf_relationship r"
  by (induction rels arbitrary: rels' rule: normalize_relationships.induct)
     (fastforce simp: go_err dest: normalize_relationship_wf)+

lemma normalize_model_Inr:
  assumes "normalize_model m = Inr (m', d)"
  shows "wf_model m' \<and> d = derive_model m' \<and>
    tm_attributes m' = tm_attributes m \<and> tm_features m' = tm_features m \<and> tm_version m' = tm_version m"
proof -
  define kind where "kind = to_upper (trim_space (tm_kind m))"
  define unknown where "unknown = (if tm_unknown_keys m = [] then ''allow'' else tm_unknown_keys m)"
  define mode where "mode = (if tm_enforcement_mode m = [] then ''warn'' else tm_enforcement_mode m)"
  from assms obtain c rels where
    c: "normalize_ident (tm_id m) = Inr c" and v: "validate_version (tm_version m) = Inr ()" and
    k: "kind \<in> {''DEVICE'', ''ASSET''}" "unknown \<in> {''allow'', ''reject''}" "mode \<in> {''warn'', ''reject''}" and
    r: "normalize_relationships (tm_relationships m) = Inr rels" and
    m': "m' = m\<lparr>tm_id := c, tm_kind := kind, tm_unknown_keys := unknown,
                      tm_enforcement_mode := mode, tm_relationships := rels\<rparr>" and d: "d = derive_model m'"
    unfolding normalize_model_def normalize_model_id_def Let_def kind_def [symmetric]
      unknown_def [symmetric] mode_def [symmetric] and_then_Inr wrap_err_Inr if_fail_Inr by auto
  show ?thesis
    using c v k normalize_relationships_wf [OF r] normalize_ident_idem [OF c]
    by (simp add: wf_model_def m' d)
qed

lemma model_normalize_InrD:
  assumes "model_normalize rx raw = Inr (m, d)"
  obtains kvs a where "raw = Some (JObj kvs)" "validate_authored_shape rx kvs = Inr ()"
    "dec_model kvs = Some a" "normalize_model a = Inr (m, d)"
  using assms by (auto simp: model_normalize_def go_err split: option.splits json.splits)

section \<open>The property specifications\<close>

lemma dec_entries_map_lookup:
  "dec_entries_map dec kvs m = Some m' \<Longrightarrow> map_of m' k = Some a \<Longrightarrow>
   (case obj_get kvs k of Some v \<Rightarrow> dec v = Some a | None \<Rightarrow> map_of m k = Some a)"
proof (induction dec kvs m rule: dec_entries_map.induct)
  case (1 dec m)
  then show ?case by (simp add: obj_get_def)
next
  case (2 dec k' v kvs m)
  then obtain b where b: "dec v = Some b" "dec_entries_map dec kvs (AList.update k' b m) = Some m'"
    by (auto split: option.splits)
  from "2.IH" [OF this "2.prems"(2)] b(1) show ?case
    by (auto simp: obj_get_def map_add_def update_conv' split: option.splits if_splits)
qed

lemma dec_typed_map_fresh:
  assumes "dec_typed_map dec raw [] = Some m" "raw = JObj kvs" "map_of m k = Some a"
  shows "\<exists>v. obj_get kvs k = Some v \<and> dec v = Some a"
  using dec_entries_map_lookup [of dec kvs "[]" m k a] assms by (auto split: option.splits)

lemma distinct_dec_entries_map:
  "dec_entries_map dec kvs m = Some m' \<Longrightarrow> distinct (map fst m) \<Longrightarrow> distinct (map fst m')"
  by (induction dec kvs m rule: dec_entries_map.induct) (auto simp: distinct_update split: option.splits)

text \<open>A field is named unambiguously when at most one member of the object matches it up to case,
  and that member has the exact name.\<close>

definition unambiguous :: "str \<Rightarrow> members \<Rightarrow> bool" where
  "unambiguous f kvs \<longleftrightarrow>
     (\<forall>k \<in> fst ` set kvs. equal_fold k f \<longrightarrow> k = f) \<and> length (filter (\<lambda>kv. fst kv = f) kvs) \<le> 1"

lemma unambiguous_vals:
  assumes "unambiguous f kvs"
  shows "struct_vals f kvs = (case obj_get kvs f of None \<Rightarrow> [] | Some v \<Rightarrow> [v])"
proof -
  have eq: "filter (\<lambda>kv. equal_fold (fst kv) f) kvs = filter (\<lambda>kv. fst kv = f) kvs"
    using assms by (intro filter_cong) (auto simp: unambiguous_def equal_fold_def)
  consider (none) "filter (\<lambda>kv. fst kv = f) kvs = []" | (one) kv where "filter (\<lambda>kv. fst kv = f) kvs = [kv]"
    using assms unfolding unambiguous_def by (cases "filter (\<lambda>kv. fst kv = f) kvs") auto
  then show ?thesis
  proof cases
    case none
    then have "f \<notin> fst ` set kvs" by (auto simp: filter_empty_conv)
    then have "obj_get kvs f = None" by simp
    then show ?thesis using none by (simp add: struct_vals_def eq del: obj_get_None)
  next
    case one
    then have kv: "fst kv = f" by (auto simp: filter_eq_Cons_iff)
    from one have "filter (\<lambda>kv. fst kv = f) kvs = kv # []" by simp
    from this [unfolded filter_eq_Cons_iff] obtain us vs where
      split: "kvs = us @ kv # vs" "[] = filter (\<lambda>kv. fst kv = f) vs" by blast
    have "\<forall>x \<in> set vs. fst x \<noteq> f" using split(2) [symmetric] by (simp add: filter_empty_conv)
    with split(1) have "kvs = us @ kv # vs" "\<forall>x \<in> set vs. fst x \<noteq> f" by blast+
    then have "map_of (rev vs) f = None" by (auto simp: map_of_eq_None_iff)
    then have "obj_get kvs f = Some (snd kv)"
      using kv split(1) by (cases kv) (simp add: obj_get_def map_add_def)
    then show ?thesis using one by (simp add: struct_vals_def eq)
  qed
qed

definition spec_ok :: "regex_engine \<Rightarrow> property_spec \<Rightarrow> bool" where
  "spec_ok rx spec \<longleftrightarrow> ps_type spec \<in> set model_type_names \<and>
     (ps_pattern spec = [] \<or> rx (ps_pattern spec) \<noteq> None) \<and>
     (\<forall>n. ps_min_length spec = Some n \<longrightarrow> 0 \<le> n) \<and> (\<forall>n. ps_max_length spec = Some n \<longrightarrow> 0 \<le> n) \<and>
     (\<forall>a b. ps_minimum spec = Some a \<longrightarrow> ps_maximum spec = Some b \<longrightarrow> a \<le> b) \<and>
     (\<forall>a b. ps_min_length spec = Some a \<longrightarrow> ps_max_length spec = Some b \<longrightarrow> a \<le> b)"

lemma validate_property_spec_Inr: "validate_property_spec rx spec path = Inr () \<longleftrightarrow> spec_ok rx spec"
  unfolding validate_property_spec_def if_fail_Inr spec_ok_def
  by (auto simp: not_less split: option.splits)

lemma spec_ok_strip [simp]: "spec_ok rx (strip_property_metadata s) = spec_ok rx s"
  by (simp add: spec_ok_def strip_property_metadata_def)

lemma validate_property_raw_ok:
  "validate_property_raw rx path (k, v) = Inr () \<Longrightarrow> dec_property v = Some spec \<Longrightarrow> spec_ok rx spec"
  by (cases v) (auto simp: validate_property_raw_def Let_def go_err if_fail_Inr validate_property_spec_Inr)

lemma validate_properties_raw_ok:
  assumes "validate_properties_raw rx kvs path = Inr ()" "obj_get kvs k = Some v" "dec_property v = Some spec"
  shows "spec_ok rx spec"
proof -
  have "(k, v) \<in> set (decode_map kvs)" using assms(2) by (metis map_of_SomeD map_of_decode_map)
  then have "validate_property_raw rx path (k, v) = Inr ()"
    using assms(1) by (simp add: validate_properties_raw_def for_each_Inr)
  then show ?thesis using assms(3) by (rule validate_property_raw_ok)
qed

lemma property_collection_ok:
  assumes val: "validate_property_collection_raw rx kvs f path = Inr ()" and unamb: "unambiguous f kvs"
    and dec: "dec_field (dec_typed_map dec_property) [] (struct_vals f kvs) = Some props"
    and spec: "(k, spec) \<in> set props"
  shows "spec_ok rx spec"
proof (cases "obj_get kvs f")
  case None
  then show ?thesis using dec spec by (simp add: unambiguous_vals [OF unamb] del: obj_get_None)
next
  case (Some raw)
  then obtain pkvs where raw: "raw = JObj pkvs" "validate_properties_raw rx pkvs path = Inr ()"
    using val by (cases raw) (auto simp: validate_property_collection_raw_def go_err)
  have d: "dec_entries_map dec_property pkvs [] = Some props"
    using dec Some by (simp add: unambiguous_vals [OF unamb] raw split: option.splits)
  then have "distinct (map fst props)" by (rule distinct_dec_entries_map) simp
  then have "map_of props k = Some spec" using spec by simp
  with d obtain v where "obj_get pkvs k = Some v" "dec_property v = Some spec"
    using dec_entries_map_lookup [of dec_property pkvs "[]" props k spec] by (auto split: option.splits)
  with raw(2) show ?thesis by (rule validate_properties_raw_ok)
qed

text \<open>The features member names its fields unambiguously.\<close>

definition unambiguous_features :: "members \<Rightarrow> bool" where
  "unambiguous_features kvs \<longleftrightarrow>
     unambiguous ''features'' kvs \<and>
     (\<forall>fkvs. obj_get kvs ''features'' = Some (JObj fkvs) \<longrightarrow>
        (\<forall>name pkvs. obj_get fkvs name = Some (JObj pkvs) \<longrightarrow>
           unambiguous ''properties'' pkvs \<and> unambiguous ''desiredProperties'' pkvs))"

lemma feature_ok:
  assumes val: "validate_feature_raw rx (name, JObj kvs) = Inr ()"
    and dec: "dec_feature (JObj kvs) = Some f"
    and unamb: "unambiguous ''properties'' kvs" "unambiguous ''desiredProperties'' kvs"
    and spec: "(k, spec) \<in> set (ft_properties f) \<union> set (ft_desired f)"
  shows "spec_ok rx spec"
proof -
  let ?path = "join_path ''features'' [name]"
  have p: "validate_property_collection_raw rx kvs ''properties'' (join_path ?path [''properties'']) = Inr ()"
    and d: "validate_property_collection_raw rx kvs ''desiredProperties'' (join_path ?path [''desiredProperties'']) = Inr ()"
    using val unfolding validate_feature_raw_def Let_def
    by (auto simp: go_err split: option.splits)
  obtain ps ds where f: "ft_properties f = ps" "ft_desired f = ds"
    "dec_field (dec_typed_map dec_property) [] (struct_vals ''properties'' kvs) = Some ps"
    "dec_field (dec_typed_map dec_property) [] (struct_vals ''desiredProperties'' kvs) = Some ds"
    using dec by (auto simp: dec_feature_def split: option.splits)
  from spec f(1,2) consider "(k, spec) \<in> set ps" | "(k, spec) \<in> set ds" by blast
  then show ?thesis
    using property_collection_ok [OF p unamb(1) f(3)] property_collection_ok [OF d unamb(2) f(4)] by cases blast+
qed

lemma features_ok:
  assumes val: "validate_features_raw rx kvs = Inr ()" and unamb: "unambiguous_features kvs"
    and dec: "dec_field (dec_typed_map dec_feature) [] (struct_vals ''features'' kvs) = Some fs"
    and f: "(name, f) \<in> set fs" and spec: "(k, spec) \<in> set (ft_properties f) \<union> set (ft_desired f)"
  shows "spec_ok rx spec"
proof -
  have u: "unambiguous ''features'' kvs" using unamb by (simp add: unambiguous_features_def)
  obtain raw where raw: "obj_get kvs ''features'' = Some raw"
    using dec f by (cases "obj_get kvs ''features''") (simp_all add: unambiguous_vals [OF u] del: obj_get_None)
  then obtain fkvs where fk: "raw = JObj fkvs" "for_each (validate_feature_raw rx) (decode_map fkvs) = Inr ()"
    using val by (cases raw) (auto simp: validate_features_raw_def go_err)
  have d: "dec_entries_map dec_feature fkvs [] = Some fs"
    using dec raw by (simp add: unambiguous_vals [OF u] fk split: option.splits)
  then have "distinct (map fst fs)" by (rule distinct_dec_entries_map) simp
  then have "map_of fs name = Some f" using f by simp
  with d obtain v where v: "obj_get fkvs name = Some v" "dec_feature v = Some f"
    using dec_entries_map_lookup [of dec_feature fkvs "[]" fs name f] by (auto split: option.splits)
  have "(name, v) \<in> set (decode_map fkvs)" using v(1) by (metis map_of_SomeD map_of_decode_map)
  then have ok: "validate_feature_raw rx (name, v) = Inr ()" using fk(2) by (simp add: for_each_Inr)
  then obtain pkvs where p: "v = JObj pkvs" by (cases v) (auto simp: validate_feature_raw_def Let_def)
  have "unambiguous ''properties'' pkvs" "unambiguous ''desiredProperties'' pkvs"
    using unamb raw fk(1) v(1) p unfolding unambiguous_features_def by blast+
  then show ?thesis using feature_ok [OF ok [unfolded p] v(2) [unfolded p] _ _ spec] by blast
qed

section \<open>Properties\<close>

definition demo_engine :: regex_engine where
  "demo_engine p = (if p = ''('' then None else Some (\<lambda>s. s = p))"

definition demo_model_members :: members where
  "demo_model_members =
     [(''modelId'', JStr ''Pump 7''), (''version'', JStr ''1.2.0''), (''kind'', JStr '' device ''),
      (''attributes'', JObj [(''serial'', JObj [(''type'', JStr ''string''), (''pattern'', JStr ''P7'')])]),
      (''features'', JObj [(''flow'', JObj
         [(''definition'', JStr ''thingsflow:feature:flow:1.0.0''),
          (''properties'', JObj [(''rate'', JObj [(''type'', JStr ''number''), (''minimum'', JInt 0)])])])]),
      (''relationships'', JObj [(''feeds'', JObj
         [(''target'', JArr [JStr ''Tank'']), (''targetEntityTypes'', JArr [JStr ''asset'']),
          (''maxCardinality'', JInt 2), (''bidirectional'', JBool False)])])]"

definition demo_normalized :: "twin_model \<times> derived_schema" where
  "demo_normalized = projr (model_normalize demo_engine (Some (JObj demo_model_members)))"

definition demo_model :: twin_model where "demo_model = fst demo_normalized"
definition demo_schema :: derived_schema where "demo_schema = snd demo_normalized"

lemma demo_normalizes:
  "model_normalize demo_engine (Some (JObj demo_model_members)) = Inr (demo_model, demo_schema)"
proof -
  have "isl (model_normalize demo_engine (Some (JObj demo_model_members))) = False" by code_simp
  then show ?thesis
    by (cases "model_normalize demo_engine (Some (JObj demo_model_members))")
       (simp_all add: demo_model_def demo_schema_def demo_normalized_def)
qed

text \<open>A twin model that Normalize accepts has a canonical id, an int32-safe version, kind DEVICE or
  ASSET, explicit unknownKeys and enforcementMode values, and relationships whose target models are
  canonical and free of duplicates and whose target entity types are distinct kinds; and the derived
  schema is the model without its metadata.\<close>

theorem model_normalize_well_formed:
  assumes "model_normalize rx raw = Inr (m, d)"
  shows "normalize_ident (tm_id m) = Inr (tm_id m) \<and> validate_version (tm_version m) = Inr () \<and>
    tm_kind m \<in> {''DEVICE'', ''ASSET''} \<and> tm_unknown_keys m \<in> {''allow'', ''reject''} \<and>
    tm_enforcement_mode m \<in> {''warn'', ''reject''} \<and>
    (\<forall>(name, r) \<in> set (tm_relationships m).
       distinct (rl_target r) \<and> (\<forall>t \<in> set (rl_target r). normalize_ident t = Inr t) \<and>
       distinct (rl_target_entity_types r) \<and> set (rl_target_entity_types r) \<subseteq> {''DEVICE'', ''ASSET''}) \<and>
    d = derive_model m"
proof -
  from assms obtain a where "normalize_model a = Inr (m, d)" by (rule model_normalize_InrD)
  then have "wf_model m" and d: "d = derive_model m" by (auto dest: normalize_model_Inr)
  moreover from this(1) have "\<forall>(name, r) \<in> set (tm_relationships m).
       distinct (rl_target r) \<and> (\<forall>t \<in> set (rl_target r). normalize_ident t = Inr t) \<and>
       distinct (rl_target_entity_types r) \<and> set (rl_target_entity_types r) \<subseteq> {''DEVICE'', ''ASSET''}"
    by (force simp: wf_model_def wf_relationship_def)
  ultimately show ?thesis unfolding wf_model_def by blast
qed

theorem model_normalize_well_formed_witness:
  "normalize_ident (tm_id demo_model) = Inr (tm_id demo_model) \<and> demo_schema = derive_model demo_model"
  using model_normalize_well_formed [OF demo_normalizes] by blast

text \<open>When the authored object names its attributes, features, properties and desiredProperties
  unambiguously, every property specification of the derived schema passed validation: a supported
  type, a pattern that compiles, non-negative lengths and consistent bounds.\<close>

theorem derived_specs_validated:
  assumes "model_normalize rx (Some (JObj kvs)) = Inr (m, d)"
    "unambiguous ''attributes'' kvs" "unambiguous_features kvs"
    "(k, spec) \<in> set (ds_attributes d) \<or>
       (\<exists>(name, f) \<in> set (ds_features d). (k, spec) \<in> set (fs_properties f) \<union> set (fs_desired f))"
  shows "ps_type spec \<in> set model_type_names \<and>
     (ps_pattern spec = [] \<or> rx (ps_pattern spec) \<noteq> None) \<and>
     (\<forall>n. ps_min_length spec = Some n \<longrightarrow> 0 \<le> n) \<and> (\<forall>n. ps_max_length spec = Some n \<longrightarrow> 0 \<le> n) \<and>
     (\<forall>a b. ps_minimum spec = Some a \<longrightarrow> ps_maximum spec = Some b \<longrightarrow> a \<le> b) \<and>
     (\<forall>a b. ps_min_length spec = Some a \<longrightarrow> ps_max_length spec = Some b \<longrightarrow> a \<le> b)"
proof -
  from assms(1) obtain a where shape: "validate_authored_shape rx kvs = Inr ()"
    and a: "dec_model kvs = Some a" "normalize_model a = Inr (m, d)"
    by (rule model_normalize_InrD) simp
  from shape have attrs: "validate_property_collection_raw rx kvs ''attributes'' ''attributes'' = Inr ()"
    and feats: "validate_features_raw rx kvs = Inr ()"
    by (auto simp: validate_authored_shape_def go_err)
  from a(1) have dec: "dec_field (dec_typed_map dec_property) [] (struct_vals ''attributes'' kvs) = Some (tm_attributes a)"
    "dec_field (dec_typed_map dec_feature) [] (struct_vals ''features'' kvs) = Some (tm_features a)"
    by (auto simp: dec_model_def split: option.splits)
  have same: "tm_attributes m = tm_attributes a" "tm_features m = tm_features a" "d = derive_model m"
    using normalize_model_Inr [OF a(2)] by simp_all
  from assms(4) consider (attr) s where "(k, s) \<in> set (tm_attributes a)" "spec = strip_property_metadata s"
    | (feat) name f s where "(name, f) \<in> set (tm_features a)"
        "(k, s) \<in> set (ft_properties f) \<union> set (ft_desired f)" "spec = strip_property_metadata s"
    by (fastforce simp: same derive_model_def derive_feature_def)
  then have "spec_ok rx spec"
  proof cases
    case attr
    then show ?thesis using property_collection_ok [OF attrs assms(2) dec(1)] by simp
  next
    case feat
    then show ?thesis using features_ok [OF feats assms(3) dec(2)] by simp
  qed
  then show ?thesis unfolding spec_ok_def .
qed

lemma demo_unambiguous: "unambiguous ''attributes'' demo_model_members \<and> unambiguous_features demo_model_members"
proof -
  have u: "unambiguous f kvs" if "list_all (\<lambda>kv. equal_fold (fst kv) f \<longrightarrow> fst kv = f) kvs"
    "length (filter (\<lambda>kv. fst kv = f) kvs) \<le> 1" for f kvs
    using that by (auto simp: unambiguous_def list_all_iff)
  let ?fkvs = "[(''flow'', JObj
         [(''definition'', JStr ''thingsflow:feature:flow:1.0.0''),
          (''properties'', JObj [(''rate'', JObj [(''type'', JStr ''number''), (''minimum'', JInt 0)])])])]"
  have f: "obj_get demo_model_members ''features'' = Some (JObj ?fkvs)" by code_simp
  have p: "unambiguous ''properties'' (as_object (Some (snd (hd ?fkvs))))"
    "unambiguous ''desiredProperties'' (as_object (Some (snd (hd ?fkvs))))"
    by (rule u; code_simp)+
  have "obj_get ?fkvs name = Some (JObj pkvs) \<Longrightarrow> pkvs = as_object (Some (snd (hd ?fkvs)))" for name pkvs
    by (simp add: obj_get_def split: if_splits)
  with p f have "unambiguous ''properties'' pkvs \<and> unambiguous ''desiredProperties'' pkvs"
    if "obj_get demo_model_members ''features'' = Some (JObj fkvs)" "obj_get fkvs name = Some (JObj pkvs)"
    for fkvs name pkvs using that by (metis json.inject(6) option.inject)
  moreover have "unambiguous ''attributes'' demo_model_members" "unambiguous ''features'' demo_model_members"
    by (rule u; code_simp)+
  ultimately show ?thesis unfolding unambiguous_features_def by blast
qed

theorem derived_specs_validated_witness:
  "ps_pattern (snd (hd (ds_attributes demo_schema))) = ''P7'' \<and>
   demo_engine (ps_pattern (snd (hd (ds_attributes demo_schema)))) \<noteq> None"
proof -
  have "ds_attributes demo_schema \<noteq> []" "ps_pattern (snd (hd (ds_attributes demo_schema))) = ''P7''"
    by code_simp+
  moreover from this(1) have "(fst (hd (ds_attributes demo_schema)), snd (hd (ds_attributes demo_schema))) \<in> set (ds_attributes demo_schema)"
    by simp
  ultimately show ?thesis
    using derived_specs_validated [OF demo_normalizes] demo_unambiguous by (metis list.distinct(1))
qed

definition smuggled_members :: members where
  "smuggled_members =
     [(''modelId'', JStr ''m''), (''version'', JStr ''1.0.0''), (''kind'', JStr ''DEVICE''),
      (''Attributes'', JObj [(''serial'', JObj [(''type'', JStr ''bogus''), (''pattern'', JStr ''('')])])]"

text \<open>Without that condition an unchecked specification reaches the schema: the shape check reads
  the member named exactly attributes, the struct decoder takes any spelling of the case, so a model
  whose attributes are under "Attributes" is accepted with a pattern that does not compile.\<close>

theorem case_variant_skips_validation:
  "\<exists>m d spec. model_normalize demo_engine (Some (JObj smuggled_members)) = Inr (m, d) \<and>
     (''serial'', spec) \<in> set (ds_attributes d) \<and> ps_type spec = ''bogus'' \<and>
     demo_engine (ps_pattern spec) = None"
proof -
  let ?r = "model_normalize demo_engine (Some (JObj smuggled_members))"
  have r: "isl ?r = False" "map fst (ds_attributes (snd (projr ?r))) = [''serial'']"
    "map (ps_type \<circ> snd) (ds_attributes (snd (projr ?r))) = [''bogus'']"
    "map (ps_pattern \<circ> snd) (ds_attributes (snd (projr ?r))) = [''('']"
    by code_simp+
  then obtain m d where md: "?r = Inr (m, d)" by (cases ?r) auto
  with r(2-4) obtain spec where "ds_attributes d = [(''serial'', spec)]" "ps_type spec = ''bogus''" "ps_pattern spec = ''(''"
    by (auto simp: map_eq_Cons_conv)
  with md show ?thesis by (auto simp: demo_engine_def)
qed

end
