(* ===== verification/Catalog.thy ===== *)
theory Catalog
  imports Identifiers
begin

text \<open>
  The versioned, tenant-scoped catalog table that internal/policy/store.go and
  internal/twinmodel/store.go keep in PostgreSQL: one immutable row per (tenant, id, version)
  with a deprecation flag. A table is the list of its rows; the SQL statements of the two stores
  are functions on it. The locale \<open>versioned_catalog\<close> states what a catalog promises
  to its clients; its lemmas hold for both stores.

  Text is compared bytewise (the collation of the ids, whose characters are a-z, 0-9 and _);
  versions are ordered by their integer components, as \<open>string_to_array(version,'.')::int[]\<close>.
\<close>

record ('d, 's) cat_row =
  row_tenant :: str
  row_id :: str
  row_version :: str
  row_kind :: str
  row_definition :: 'd
  row_schema :: 's
  row_deprecated :: bool
  row_created :: millis
  row_updated :: millis

datatype 'e cat_error =
    Conflict
  | NotFound
  | DeprecatedVersion
  | ForbiddenTenant
  | KindMismatch
  | InvalidDocument 'e
  | UnknownRelationType str
  | StoreFailure

record list_options =
  lo_page :: nat
  lo_page_size :: nat
  lo_kind :: str
  lo_latest :: bool
  lo_include_deprecated :: bool

record ('d, 's) page =
  pg_data :: "('d, 's) cat_row list"
  pg_total_elements :: nat
  pg_total_pages :: nat
  pg_has_next :: bool
  pg_page :: nat

definition row_key :: "('d, 's) cat_row \<Rightarrow> str \<times> str \<times> str" where
  "row_key r = (row_tenant r, row_id r, row_version r)"

section \<open>The statements\<close>

text \<open>INSERT ... RETURNING; \<open>None\<close> is the unique violation 23505.\<close>

definition cat_insert ::
  "('d, 's) cat_row \<Rightarrow> ('d, 's) cat_row list \<Rightarrow> ('d, 's) cat_row list option" where
  "cat_insert r table = (if row_key r \<in> set (map row_key table) then None else Some (table @ [r]))"

definition cat_get ::
  "str \<Rightarrow> str \<Rightarrow> str \<Rightarrow> ('d, 's) cat_row list \<Rightarrow> ('d, 's) cat_row option" where
  "cat_get tenant ident version table = find (\<lambda>r. row_key r = (tenant, ident, version)) table"

text \<open>UPDATE ... SET updated_time=CASE WHEN deprecated THEN updated_time ELSE now END,
  deprecated=true ... RETURNING.\<close>

definition deprecate_row :: "millis \<Rightarrow> ('d, 's) cat_row \<Rightarrow> ('d, 's) cat_row" where
  "deprecate_row now r =
     r\<lparr>row_updated := (if row_deprecated r then row_updated r else now), row_deprecated := True\<rparr>"

definition cat_deprecate ::
  "str \<Rightarrow> str \<Rightarrow> str \<Rightarrow> millis \<Rightarrow> ('d, 's) cat_row list \<Rightarrow>
   ('d, 's) cat_row option \<times> ('d, 's) cat_row list" where
  "cat_deprecate tenant ident version now table =
     (let table' = map (\<lambda>r. if row_key r = (tenant, ident, version) then deprecate_row now r else r) table
      in (cat_get tenant ident version table', table'))"

text \<open>ROW_NUMBER() OVER (PARTITION BY id ORDER BY version DESC) = 1 within a selection.\<close>

definition newest_in :: "('d, 's) cat_row list \<Rightarrow> ('d, 's) cat_row \<Rightarrow> bool" where
  "newest_in sel r \<longleftrightarrow>
     list_all (\<lambda>q. row_id q = row_id r \<longrightarrow> version_key (row_version q) \<le> version_key (row_version r)) sel"

definition cat_selection ::
  "str \<Rightarrow> list_options \<Rightarrow> ('d, 's) cat_row list \<Rightarrow> ('d, 's) cat_row list" where
  "cat_selection tenant opts table =
     (let sel = filter (\<lambda>r. row_tenant r = tenant \<and>
                   (lo_kind opts = [] \<or> row_kind r = lo_kind opts) \<and>
                   (lo_include_deprecated opts \<or> \<not> row_deprecated r)) table;
          ranked = (if lo_latest opts then filter (newest_in sel) sel else sel)
      in sort_key row_id (rev (sort_key (\<lambda>r. version_key (row_version r)) ranked)))"

text \<open>LIMIT pageSize OFFSET page*pageSize, the product in 64-bit arithmetic; PostgreSQL rejects a
  negative offset (\<open>None\<close>).\<close>

definition cat_list ::
  "str \<Rightarrow> list_options \<Rightarrow> ('d, 's) cat_row list \<Rightarrow> ('d, 's) page option" where
  "cat_list tenant opts table =
     (let sel = cat_selection tenant opts table;
          total = length sel;
          pages = (if 0 < total then (total + lo_page_size opts - 1) div lo_page_size opts else 0);
          ofs = wrap64 (int (lo_page opts) * int (lo_page_size opts))
      in if ofs < 0 then None
         else Some \<lparr>pg_data = take (lo_page_size opts) (drop (nat ofs) sel),
                    pg_total_elements = total, pg_total_pages = pages,
                    pg_has_next = lo_page opts + 1 < pages, pg_page = lo_page opts\<rparr>)"

text \<open>The newest version of an id that is not deprecated.\<close>

definition cat_newest ::
  "str \<Rightarrow> str \<Rightarrow> ('d, 's) cat_row list \<Rightarrow> ('d, 's) cat_row option" where
  "cat_newest tenant ident table =
     (let sel = filter (\<lambda>r. row_tenant r = tenant \<and> row_id r = ident \<and> \<not> row_deprecated r) table
      in find (newest_in sel) sel)"

section \<open>The contract\<close>

datatype cat_op =
    OpCreate str raw_message millis
  | OpDeprecate str str str millis

fun cat_step ::
  "(str \<Rightarrow> raw_message \<Rightarrow> millis \<Rightarrow> 'db \<Rightarrow> 'e + 'row \<times> 'db) \<Rightarrow>
   (str \<Rightarrow> str \<Rightarrow> str \<Rightarrow> millis \<Rightarrow> 'db \<Rightarrow> 'e + 'row \<times> 'db) \<Rightarrow> 'db \<Rightarrow> cat_op \<Rightarrow> 'db" where
  "cat_step create deprecate db (OpCreate tenant raw now) =
     (case create tenant raw now db of Inl _ \<Rightarrow> db | Inr (_, db') \<Rightarrow> db')"
| "cat_step create deprecate db (OpDeprecate tenant ident version now) =
     (case deprecate tenant ident version now db of Inl _ \<Rightarrow> db | Inr (_, db') \<Rightarrow> db')"

locale versioned_catalog =
  fixes create :: "str \<Rightarrow> raw_message \<Rightarrow> millis \<Rightarrow> 'db \<Rightarrow> 'e + 'row \<times> 'db"
    and get :: "str \<Rightarrow> str \<Rightarrow> str \<Rightarrow> 'db \<Rightarrow> 'e + 'row"
    and deprecate :: "str \<Rightarrow> str \<Rightarrow> str \<Rightarrow> millis \<Rightarrow> 'db \<Rightarrow> 'e + 'row \<times> 'db"
    and key :: "'row \<Rightarrow> str \<times> str \<times> str"
    and content :: "'row \<Rightarrow> 'c"
    and flagged :: "'row \<Rightarrow> bool"
    and invar :: "'db \<Rightarrow> bool"
  assumes create_get:
      "invar db \<Longrightarrow> create t raw now db = Inr (row, db') \<Longrightarrow> key row = (t', i, v) \<Longrightarrow>
         t' = t \<and> \<not> flagged row \<and> get t i v db' = Inr row \<and> (\<forall>r. get t i v db \<noteq> Inr r)"
    and create_frame:
      "invar db \<Longrightarrow> create t raw now db = Inr (row, db') \<Longrightarrow> key row \<noteq> (t', i, v) \<Longrightarrow>
         get t' i v db' = get t' i v db"
    and create_invar: "invar db \<Longrightarrow> create t raw now db = Inr (row, db') \<Longrightarrow> invar db'"
    and deprecate_get:
      "invar db \<Longrightarrow> deprecate t i v now db = Inr (row, db') \<Longrightarrow>
         get t i v db' = Inr row \<and> flagged row \<and> (\<exists>old. get t i v db = Inr old \<and> content old = content row)"
    and deprecate_frame:
      "invar db \<Longrightarrow> deprecate t i v now db = Inr (row, db') \<Longrightarrow> (t', i', v') \<noteq> (t, i, v) \<Longrightarrow>
         get t' i' v' db' = get t' i' v' db"
    and deprecate_invar: "invar db \<Longrightarrow> deprecate t i v now db = Inr (row, db') \<Longrightarrow> invar db'"
begin

lemma step_invar: "invar db \<Longrightarrow> invar (cat_step create deprecate db op)"
  by (cases op) (auto split: sum.splits intro: create_invar deprecate_invar)

text \<open>A version, once in the catalog, keeps its content, and its deprecation is final.\<close>

lemma step_keeps:
  assumes "invar db" "get t i v db = Inr row"
  shows "\<exists>row'. get t i v (cat_step create deprecate db op) = Inr row' \<and> content row' = content row \<and>
    (flagged row \<longrightarrow> flagged row')"
proof (cases op)
  case (OpCreate t' raw now)
  show ?thesis
  proof (cases "create t' raw now db")
    case (Inr p)
    obtain r' db' where p: "p = (r', db')" by (cases p)
    obtain t2 i2 v2 where k: "key r' = (t2, i2, v2)" by (cases "key r'") auto
    have fresh: "\<forall>r. get t' i2 v2 db \<noteq> Inr r" and t2: "t2 = t'"
      using create_get [OF assms(1) Inr [unfolded p] k] by auto
    have "key r' \<noteq> (t, i, v)"
    proof
      assume "key r' = (t, i, v)"
      then show False using fresh t2 k assms(2) by auto
    qed
    from create_frame [OF assms(1) Inr [unfolded p] this] assms(2) show ?thesis
      by (simp add: OpCreate Inr p)
  qed (use assms OpCreate in simp)
next
  case (OpDeprecate t' i' v' now)
  show ?thesis
  proof (cases "deprecate t' i' v' now db")
    case (Inr p)
    obtain r' db' where p: "p = (r', db')" by (cases p)
    show ?thesis
    proof (cases "(t, i, v) = (t', i', v')")
      case True
      with deprecate_get [OF assms(1) Inr [unfolded p]] assms(2) show ?thesis
        by (auto simp: OpDeprecate Inr p)
    next
      case False
      from deprecate_frame [OF assms(1) Inr [unfolded p] False] assms(2) show ?thesis
        by (simp add: OpDeprecate Inr p)
    qed
  qed (use assms OpDeprecate in simp)
qed

lemma run_keeps:
  "invar db \<Longrightarrow> get t i v db = Inr row \<Longrightarrow>
   \<exists>row'. get t i v (foldl (cat_step create deprecate) db ops) = Inr row' \<and> content row' = content row \<and>
     (flagged row \<longrightarrow> flagged row')"
proof (induction ops arbitrary: db row)
  case Nil
  then show ?case by auto
next
  case (Cons op ops)
  from step_keeps [OF Cons.prems, of op] obtain r1 where
    r1: "get t i v (cat_step create deprecate db op) = Inr r1" "content r1 = content row"
      "flagged row \<longrightarrow> flagged r1" by blast
  from Cons.IH [OF step_invar [OF Cons.prems(1)] r1(1)] r1(2,3) show ?case by auto
qed

end

section \<open>The table satisfies it\<close>

definition cat_invar :: "('d, 's) cat_row list \<Rightarrow> bool" where
  "cat_invar table \<longleftrightarrow> distinct (map row_key table) \<and>
     (\<forall>r \<in> set table. validate_version (row_version r) = Inr () \<and> normalize_ident (row_id r) = Inr (row_id r))"

lemma row_key_deprecate [simp]: "row_key (deprecate_row now r) = row_key r"
  by (simp add: deprecate_row_def row_key_def)

lemma cat_get_Some_iff:
  "distinct (map row_key table) \<Longrightarrow>
   cat_get t i v table = Some r \<longleftrightarrow> r \<in> set table \<and> row_key r = (t, i, v)"
  by (induction table) (auto simp: cat_get_def intro: rev_image_eqI)

lemma cat_get_None_iff: "cat_get t i v table = None \<longleftrightarrow> (t, i, v) \<notin> row_key ` set table"
  by (force simp: cat_get_def find_None_iff)

lemma cat_get_append:
  "cat_get t i v (table @ [r]) =
     (case cat_get t i v table of Some q \<Rightarrow> Some q
      | None \<Rightarrow> if row_key r = (t, i, v) then Some r else None)"
  by (induction table) (auto simp: cat_get_def)

lemma map_row_key_deprecate [simp]:
  "map row_key (map (\<lambda>r. if row_key r = k then deprecate_row now r else r) table) = map row_key table"
  by (induction table) auto

lemma cat_get_deprecated:
  "cat_get t i v (map (\<lambda>r. if row_key r = k then deprecate_row now r else r) table) =
     map_option (\<lambda>r. if row_key r = k then deprecate_row now r else r) (cat_get t i v table)"
  by (induction table) (auto simp: cat_get_def)

lemma cat_get_key: "cat_get t i v table = Some r \<Longrightarrow> row_key r = (t, i, v)"
  by (auto simp: cat_get_def find_Some_iff)

lemma cat_get_deprecated_other:
  "(t, i, v) \<noteq> k \<Longrightarrow>
     cat_get t i v (map (\<lambda>r. if row_key r = k then deprecate_row now r else r) table) = cat_get t i v table"
  by (cases "cat_get t i v table") (auto simp: cat_get_deprecated dest: cat_get_key)

lemma cat_invar_insert:
  "cat_invar table \<Longrightarrow> cat_insert r table = Some table' \<Longrightarrow> validate_version (row_version r) = Inr () \<Longrightarrow>
   normalize_ident (row_id r) = Inr (row_id r) \<Longrightarrow> cat_invar table'"
  by (auto simp: cat_invar_def cat_insert_def split: if_splits)

lemma cat_invar_deprecate: "cat_invar table \<Longrightarrow> cat_invar (snd (cat_deprecate t i v now table))"
  by (auto simp: cat_invar_def cat_deprecate_def Let_def deprecate_row_def simp del: map_map)

lemma newest_unique:
  assumes "cat_invar table" "r \<in> set table" "q \<in> set table" "row_tenant r = row_tenant q" "row_id r = row_id q"
    "version_key (row_version r) = version_key (row_version q)"
  shows "r = q"
proof -
  have "row_version r = row_version q"
    using assms by (intro version_key_inj) (auto simp: cat_invar_def)
  then have "row_key r = row_key q" using assms by (simp add: row_key_def)
  moreover have "inj_on row_key (set table)" using assms(1) by (simp add: cat_invar_def distinct_map)
  ultimately show ?thesis using assms(2,3) by (simp add: inj_on_eq_iff)
qed

lemma ex_newest:
  "sel \<noteq> [] \<Longrightarrow> (\<And>r q. r \<in> set sel \<Longrightarrow> q \<in> set sel \<Longrightarrow> row_id r = row_id q) \<Longrightarrow>
   \<exists>r \<in> set sel. newest_in sel r"
proof -
  assume ne: "sel \<noteq> []" and same: "\<And>r q. r \<in> set sel \<Longrightarrow> q \<in> set sel \<Longrightarrow> row_id r = row_id q"
  let ?ks = "(\<lambda>r. version_key (row_version r)) ` set sel"
  have "Max ?ks \<in> ?ks" using ne by (intro Max_in) auto
  then obtain r where r: "r \<in> set sel" "version_key (row_version r) = Max ?ks" by auto
  then have "newest_in sel r" by (auto simp: newest_in_def list_all_iff)
  with r show ?thesis by blast
qed

lemma find_newest_None:
  assumes "\<And>r q. r \<in> set sel \<Longrightarrow> q \<in> set sel \<Longrightarrow> row_id r = row_id q"
  shows "find (newest_in sel) sel = None \<longleftrightarrow> sel = []"
proof (cases "sel = []")
  case True
  then show ?thesis by simp
next
  case False
  then have "find (newest_in sel) sel \<noteq> None"
    unfolding find_ex using assms by (rule ex_newest)
  with False show ?thesis by blast
qed

lemma cat_newest_Some_iff:
  assumes "cat_invar table"
  shows "cat_newest t i table = Some r \<longleftrightarrow>
     r \<in> set table \<and> row_tenant r = t \<and> row_id r = i \<and> \<not> row_deprecated r \<and>
     (\<forall>q \<in> set table. row_tenant q = t \<and> row_id q = i \<and> \<not> row_deprecated q \<longrightarrow>
        version_key (row_version q) \<le> version_key (row_version r))"
    (is "_ \<longleftrightarrow> ?R r")
proof -
  let ?sel = "filter (\<lambda>r. row_tenant r = t \<and> row_id r = i \<and> \<not> row_deprecated r) table"
  have R: "?R r \<longleftrightarrow> r \<in> set ?sel \<and> newest_in ?sel r" for r
    by (auto simp: newest_in_def list_all_iff)
  show ?thesis
  proof
    assume "cat_newest t i table = Some r"
    then show "?R r" unfolding R cat_newest_def Let_def by (rule find_SomeD)
  next
    assume r: "?R r"
    then have "find (newest_in ?sel) ?sel \<noteq> None" unfolding R find_ex by blast
    then obtain q where q: "find (newest_in ?sel) ?sel = Some q" by blast
    then have "?R q" unfolding R by (rule find_SomeD)
    have "version_key (row_version q) = version_key (row_version r)"
      using r \<open>?R q\<close> by (intro order_antisym) blast+
    with assms r \<open>?R q\<close> have "q = r" by (intro newest_unique [of table]) simp_all
    with q show "cat_newest t i table = Some r" by (simp add: cat_newest_def)
  qed
qed

lemma cat_newest_None_iff:
  "cat_newest t i table = None \<longleftrightarrow>
     (\<forall>q \<in> set table. row_tenant q = t \<and> row_id q = i \<longrightarrow> row_deprecated q)"
proof -
  let ?sel = "filter (\<lambda>r. row_tenant r = t \<and> row_id r = i \<and> \<not> row_deprecated r) table"
  have "row_id r = row_id q" if "r \<in> set ?sel" "q \<in> set ?sel" for r q using that by simp
  then have "find (newest_in ?sel) ?sel = None \<longleftrightarrow> ?sel = []" by (rule find_newest_None)
  then have "cat_newest t i table = None \<longleftrightarrow> ?sel = []" unfolding cat_newest_def Let_def .
  then show ?thesis unfolding filter_empty_conv by blast
qed

text \<open>Pages partition the selection.\<close>

lemma mset_cat_selection:
  "mset (cat_selection t opts table) =
     mset (let sel = filter (\<lambda>r. row_tenant r = t \<and> (lo_kind opts = [] \<or> row_kind r = lo_kind opts) \<and>
                   (lo_include_deprecated opts \<or> \<not> row_deprecated r)) table
           in if lo_latest opts then filter (newest_in sel) sel else sel)"
  by (simp add: cat_selection_def Let_def)

lemma concat_pages:
  assumes "0 < n" "length xs \<le> k * n"
  shows "concat (map (\<lambda>p. take n (drop (p * n) xs)) [0..<k]) = xs"
proof -
  have "concat (map (\<lambda>p. take n (drop (p * n) xs)) [0..<k]) = take (k * n) xs" for k
  proof (induction k)
    case 0
    then show ?case by simp
  next
    case (Suc k)
    have "take (Suc k * n) xs = take (k * n) xs @ take n (drop (k * n) xs)"
      using take_add [of "k * n" n xs] by (simp add: add.commute)
    with Suc show ?case by simp
  qed
  with assms(2) show ?thesis by simp
qed

lemma page_offset:
  assumes "n < (m + s - 1) div s" "0 < s" "m < 2 ^ 62"
  shows "wrap64 (int n * int s) = int (n * s)"
proof -
  have "n + 1 \<le> (m + s - 1) div s" using assms(1) by simp
  then have "(n + 1) * s \<le> ((m + s - 1) div s) * s" by (rule mult_le_mono1)
  also have "\<dots> \<le> m + s - 1" by simp
  finally have "n * s < m" using assms(2) by simp
  then have "n * s < 2 ^ 63" using assms(3) by simp
  then have "int64_range (int (n * s))" by (rule int64_range_nat)
  then show ?thesis by (simp add: wrap64_id)
qed

lemma pages_cover:
  assumes "0 < n"
  shows "length xs \<le> ((length xs + n - 1) div n) * n"
proof -
  have "length xs + n - 1 < ((length xs + n - 1) div n) * n + n"
    using assms by (metis add.commute dividend_less_div_times mult.commute)
  then show ?thesis using assms by linarith
qed

lemma set_cat_selection: "set (cat_selection t opts table) \<subseteq> {r \<in> set table. row_tenant r = t}"
proof -
  have "set_mset (mset (cat_selection t opts table)) \<subseteq> {r \<in> set table. row_tenant r = t}"
    unfolding mset_cat_selection Let_def by auto
  then show ?thesis by simp
qed

lemma length_cat_selection: "length (cat_selection t opts table) \<le> length table"
proof -
  have f: "length (filter P xs) \<le> length xs" for P and xs :: "'x list" by (rule length_filter_le)
  have "size (mset (cat_selection t opts table)) \<le> length table"
    unfolding mset_cat_selection Let_def size_mset using f order_trans by (smt (verit, best))
  then show ?thesis by simp
qed

lemma cat_selection_page [simp]: "cat_selection t (opts\<lparr>lo_page := n\<rparr>) table = cat_selection t opts table"
  by (simp add: cat_selection_def)

text \<open>The pages below the total are all readable and together are the selection.\<close>

lemma cat_list_pages:
  fixes t opts table
  defines "sel \<equiv> cat_selection t opts table"
  assumes size: "0 < lo_page_size opts" and len: "length table < 2 ^ 62"
  shows "\<exists>p0. cat_list t (opts\<lparr>lo_page := 0\<rparr>) table = Some p0 \<and> pg_total_elements p0 = length sel \<and>
    (\<forall>n < pg_total_pages p0. \<exists>p. cat_list t (opts\<lparr>lo_page := n\<rparr>) table = Some p \<and>
       pg_total_pages p = pg_total_pages p0 \<and> pg_has_next p = (Suc n < pg_total_pages p0)) \<and>
    concat (map (\<lambda>n. pg_data (the (cat_list t (opts\<lparr>lo_page := n\<rparr>) table))) [0..<pg_total_pages p0]) = sel"
proof -
  define s where "s = lo_page_size opts"
  define k where "k = (if 0 < length sel then (length sel + s - 1) div s else 0)"
  have small: "length sel < 2 ^ 62"
    using length_cat_selection [of t opts table] len by (simp add: sel_def)
  have page: "cat_list t (opts\<lparr>lo_page := n\<rparr>) table = Some \<lparr>pg_data = take s (drop (n * s) sel),
      pg_total_elements = length sel, pg_total_pages = k, pg_has_next = Suc n < k, pg_page = n\<rparr>"
    if "n < k \<or> n = 0" for n
  proof -
    have "wrap64 (int n * int s) = int (n * s)"
    proof (cases "n = 0")
      case True
      then show ?thesis by (simp add: wrap64_def)
    next
      case False
      then have "n < (length sel + s - 1) div s" using that by (simp add: k_def split: if_splits)
      with small size show ?thesis by (intro page_offset) (simp_all add: s_def)
    qed
    moreover have "nat (int (n * s)) = n * s" "\<not> int (n * s) < 0" by (simp_all only: nat_int of_nat_less_0_iff not_False_eq_True)
    ultimately show ?thesis
      by (simp add: cat_list_def Let_def sel_def [symmetric] s_def [symmetric] k_def del: of_nat_mult)
  qed
  have len: "length sel \<le> k * s"
    using pages_cover [of s sel] size by (auto simp: k_def s_def)
  have "map (\<lambda>n. pg_data (the (cat_list t (opts\<lparr>lo_page := n\<rparr>) table))) [0..<k] =
      map (\<lambda>n. take s (drop (n * s) sel)) [0..<k]"
    by (rule map_cong) (simp_all add: page)
  moreover have "concat (map (\<lambda>n. take s (drop (n * s) sel)) [0..<k]) = sel"
    using size len by (intro concat_pages) (simp_all add: s_def)
  ultimately have all: "concat (map (\<lambda>n. pg_data (the (cat_list t (opts\<lparr>lo_page := n\<rparr>) table))) [0..<k]) = sel"
    by (rule arg_cong [of _ _ concat, THEN trans])
  let ?p = "\<lambda>n. \<lparr>pg_data = take s (drop (n * s) sel), pg_total_elements = length sel,
    pg_total_pages = k, pg_has_next = Suc n < k, pg_page = n\<rparr>"
  have "\<exists>p. cat_list t (opts\<lparr>lo_page := n\<rparr>) table = Some p \<and> pg_total_pages p = k \<and>
      pg_has_next p = (Suc n < k)" if "n < k" for n
    using page [of n] that by (intro exI [of _ "?p n"]) simp
  with all page [of 0] show ?thesis by (intro exI [of _ "?p 0"]) simp
qed

end
