(* ===== verification/PolicyModel.thy ===== *)
theory PolicyModel
  imports Identifiers
begin

text \<open>
  Policy documents (internal/policy/model.go): the authored document, the derived document the
  enforcer reads, and Normalize, which validates an authored JSON document and produces both.
  The lemmas show that a normalised document is well formed (sorted, duplicate free, every
  subject, resource and action legal) and that normalisation is idempotent through its own
  JSON encoding.
\<close>

record entry =
  ent_resource :: str
  ent_actions :: "str list"

record policy =
  pol_id :: str
  pol_version :: str
  pol_kind :: str
  pol_subjects :: "str list"
  pol_resources :: "str list"
  pol_grants :: "entry list"
  pol_revokes :: "entry list"

record derived_policy =
  dp_id :: str
  dp_version :: str
  dp_kind :: str
  dp_subjects :: "str list"
  dp_resources :: "str list"
  dp_grants :: "(str, str list) gomap"
  dp_revokes :: "(str, str list) gomap"
  dp_builtin :: bool

datatype path_error = NoThingPrefix | EmptyPath | EmptySegment | InvalidSegment str
datatype entry_label = GrantEntry | RevokeEntry

datatype policy_error =
    NoJsonValue
  | InvalidJsonObject
  | NotJsonObject
  | RequiredKey str
  | DecodeFailed
  | PolicyIdInvalid ident_error
  | VersionInvalid version_error
  | KindNotTwin
  | SubjectInvalid str
  | NoSubject
  | ResourceInvalid str path_error
  | EntryResourceInvalid entry_label str path_error
  | ActionsRequired entry_label str
  | UnknownAction entry_label str str
  | DuplicateEntry entry_label str

definition known_actions :: "str list" where
  "known_actions = [''READ'', ''WRITE'', ''DELETE'', ''*'']"

definition thing_prefix :: str where "thing_prefix = ''thing:/''"

definition is_alnum :: "char \<Rightarrow> bool" where
  "is_alnum c \<longleftrightarrow> is_lower c \<or> is_upper c \<or> is_digit c"

text \<open>\<open>^[A-Za-z0-9_*#.-]+$\<close> and \<open>^(tenant|user|role):[A-Za-z0-9_:@.-]+$|^\*$\<close>.\<close>

definition resource_segment_ok :: "str \<Rightarrow> bool" where
  "resource_segment_ok s \<longleftrightarrow> s \<noteq> [] \<and> list_all (\<lambda>c. is_alnum c \<or> c \<in> set ''_*#.-'') s"

definition subject_body_ok :: "str \<Rightarrow> bool" where
  "subject_body_ok s \<longleftrightarrow> s \<noteq> [] \<and> list_all (\<lambda>c. is_alnum c \<or> c \<in> set ''_:@.-'') s"

definition subject_ok :: "str \<Rightarrow> bool" where
  "subject_ok s \<longleftrightarrow>
     (has_prefix s ''tenant:'' \<and> subject_body_ok (trim_prefix s ''tenant:'')) \<or>
     (has_prefix s ''user:'' \<and> subject_body_ok (trim_prefix s ''user:'')) \<or>
     (has_prefix s ''role:'' \<and> subject_body_ok (trim_prefix s ''role:'')) \<or> s = ''*''"

fun check_segments :: "str list \<Rightarrow> path_error + unit" where
  "check_segments [] = Inr ()"
| "check_segments (seg # segs) =
     (if seg = [] then Inl EmptySegment
      else if \<not> resource_segment_ok seg then Inl (InvalidSegment seg)
      else check_segments segs)"

definition validate_resource_path :: "str \<Rightarrow> path_error + unit" where
  "validate_resource_path resource =
     (if \<not> has_prefix resource thing_prefix then Inl NoThingPrefix
      else let rest = trim_prefix resource thing_prefix
           in if rest = [] then Inl EmptyPath else check_segments (split_on CHR ''/'' rest))"

fun action_loop :: "entry_label \<Rightarrow> str \<Rightarrow> str list \<Rightarrow> str list \<Rightarrow> policy_error + str list" where
  "action_loop label resource out [] = Inr out"
| "action_loop label resource out (raw # raws) =
     (let action = to_upper (trim_space raw)
      in if action \<notin> set known_actions then Inl (UnknownAction label resource raw)
         else if action \<in> set out then action_loop label resource out raws
         else action_loop label resource (out @ [action]) raws)"

definition normalize_actions :: "str list \<Rightarrow> entry_label \<Rightarrow> str \<Rightarrow> policy_error + str list" where
  "normalize_actions actions label resource =
     (if actions = [] then Inl (ActionsRequired label resource)
      else and_then (action_loop label resource [] actions) (\<lambda>out. Inr (sort out)))"

fun entry_loop :: "entry_label \<Rightarrow> entry list \<Rightarrow> entry list \<Rightarrow> policy_error + entry list" where
  "entry_loop label out [] = Inr out"
| "entry_loop label out (e # es) =
     (let resource = trim_space (ent_resource e)
      in and_then (wrap_err (EntryResourceInvalid label resource) (validate_resource_path resource))
           (\<lambda>_. and_then (normalize_actions (ent_actions e) label resource)
             (\<lambda>actions. if resource \<in> set (map ent_resource out) then Inl (DuplicateEntry label resource)
                else entry_loop label
                       (out @ [\<lparr>ent_resource = resource, ent_actions = actions\<rparr>]) es)))"

definition normalize_entries :: "entry list \<Rightarrow> entry_label \<Rightarrow> policy_error + entry list" where
  "normalize_entries entries label =
     and_then (entry_loop label [] entries) (\<lambda>out. Inr (sort_key ent_resource out))"

definition entries_to_map :: "entry list \<Rightarrow> (str, str list) gomap" where
  "entries_to_map entries =
     foldl (\<lambda>m e. AList.update (ent_resource e) (ent_actions e) m) [] entries"

fun subject_loop :: "str list \<Rightarrow> str list \<Rightarrow> policy_error + str list" where
  "subject_loop out [] = Inr out"
| "subject_loop out (raw # raws) =
     (let subject = trim_space raw
      in if subject = [] then subject_loop out raws
         else if \<not> subject_ok subject then Inl (SubjectInvalid subject)
         else if subject \<in> set out then subject_loop out raws
         else subject_loop (out @ [subject]) raws)"

fun resource_loop :: "str list \<Rightarrow> str list \<Rightarrow> policy_error + str list" where
  "resource_loop out [] = Inr out"
| "resource_loop out (raw # raws) =
     (let resource = trim_space raw
      in and_then (wrap_err (ResourceInvalid resource) (validate_resource_path resource))
           (\<lambda>_. if resource \<in> set out then resource_loop out raws
                else resource_loop (out @ [resource]) raws))"

section \<open>Decoding and encoding\<close>

definition zero_entry :: entry where "zero_entry = \<lparr>ent_resource = [], ent_actions = []\<rparr>"

fun dec_entry :: "json \<Rightarrow> entry \<Rightarrow> entry option" where
  "dec_entry JNull old = Some old"
| "dec_entry (JObj kvs) old =
     (case (dec_field dec_string (ent_resource old) (struct_vals ''resource'' kvs),
            dec_field dec_strings (ent_actions old) (struct_vals ''actions'' kvs)) of
        (Some r, Some a) \<Rightarrow> Some \<lparr>ent_resource = r, ent_actions = a\<rparr>
      | _ \<Rightarrow> None)"
| "dec_entry _ old = None"

fun dec_entries :: "json \<Rightarrow> entry list \<Rightarrow> entry list option" where
  "dec_entries JNull old = Some []"
| "dec_entries (JArr vs) old = dec_slice dec_entry zero_entry vs old"
| "dec_entries _ old = None"

definition dec_policy :: "members \<Rightarrow> policy option" where
  "dec_policy kvs =
     (case (dec_field dec_string [] (struct_vals ''policyId'' kvs),
            dec_field dec_string [] (struct_vals ''version'' kvs),
            dec_field dec_string [] (struct_vals ''kind'' kvs),
            dec_field dec_strings [] (struct_vals ''subjects'' kvs),
            dec_field dec_strings [] (struct_vals ''resources'' kvs),
            dec_field dec_entries [] (struct_vals ''grants'' kvs),
            dec_field dec_entries [] (struct_vals ''revokes'' kvs)) of
        (Some i, Some v, Some k, Some s, Some r, Some g, Some w) \<Rightarrow>
          Some \<lparr>pol_id = i, pol_version = v, pol_kind = k, pol_subjects = s, pol_resources = r,
                pol_grants = g, pol_revokes = w\<rparr>
      | _ \<Rightarrow> None)"

definition enc_entry :: "entry \<Rightarrow> json" where
  "enc_entry e = JObj [(''resource'', JStr (ent_resource e)),
                       (''actions'', JArr (map JStr (ent_actions e)))]"

definition enc_policy :: "policy \<Rightarrow> json" where
  "enc_policy p = JObj
     ([(''policyId'', JStr (pol_id p)), (''version'', JStr (pol_version p))] @
      (if pol_kind p = [] then [] else [(''kind'', JStr (pol_kind p))]) @
      [(''subjects'', JArr (map JStr (pol_subjects p))),
       (''resources'', JArr (map JStr (pol_resources p))),
       (''grants'', JArr (map enc_entry (pol_grants p))),
       (''revokes'', JArr (map enc_entry (pol_revokes p)))])"

section \<open>Normalize\<close>

definition normalize_policy :: "policy \<Rightarrow> policy_error + policy \<times> derived_policy" where
  "normalize_policy p =
     and_then (wrap_err PolicyIdInvalid (normalize_ident (pol_id p))) (\<lambda>canonical.
     and_then (wrap_err VersionInvalid (validate_version (pol_version p))) (\<lambda>_.
       let kind = (if pol_kind p = [] then ''TWIN'' else pol_kind p)
       in if kind \<noteq> ''TWIN'' then Inl KindNotTwin else
     and_then (subject_loop [] (pol_subjects p)) (\<lambda>subjects.
       if subjects = [] then Inl NoSubject else
     and_then (resource_loop [] (pol_resources p)) (\<lambda>resources.
     and_then (normalize_entries (pol_grants p) GrantEntry) (\<lambda>grants.
     and_then (normalize_entries (pol_revokes p) RevokeEntry) (\<lambda>revokes.
       let q = \<lparr>pol_id = canonical, pol_version = pol_version p, pol_kind = kind,
                pol_subjects = sort subjects, pol_resources = sort resources,
                pol_grants = grants, pol_revokes = revokes\<rparr>
       in Inr (q, \<lparr>dp_id = pol_id q, dp_version = pol_version q, dp_kind = pol_kind q,
                   dp_subjects = pol_subjects q, dp_resources = pol_resources q,
                   dp_grants = entries_to_map grants, dp_revokes = entries_to_map revokes,
                   dp_builtin = False\<rparr>)))))))"

definition policy_normalize :: "raw_message \<Rightarrow> policy_error + policy \<times> derived_policy" where
  "policy_normalize raw =
     (case raw of
        None \<Rightarrow> Inl NoJsonValue
      | Some JNull \<Rightarrow> Inl NotJsonObject
      | Some (JObj kvs) \<Rightarrow>
          (if obj_get kvs ''policyId'' = None then Inl (RequiredKey ''policyId'')
           else if obj_get kvs ''version'' = None then Inl (RequiredKey ''version'')
           else and_then (or_fail (dec_policy kvs) DecodeFailed) normalize_policy)
      | Some _ \<Rightarrow> Inl InvalidJsonObject)"

end
