(* ===== verification/PolicyLaws.thy ===== *)
theory PolicyLaws
  imports PolicyModel
begin

text \<open>
  What Normalize promises: the invariant of a normalised policy document and the idempotence of
  normalisation through the JSON encoding that the catalog stores.
\<close>

definition wf_entry :: "entry \<Rightarrow> bool" where
  "wf_entry e \<longleftrightarrow>
     trim_space (ent_resource e) = ent_resource e \<and>
     validate_resource_path (ent_resource e) = Inr () \<and>
     ent_actions e \<noteq> [] \<and> sorted_set (ent_actions e) \<and> set (ent_actions e) \<subseteq> set known_actions"

definition wf_entries :: "entry list \<Rightarrow> bool" where
  "wf_entries es \<longleftrightarrow> sorted_set (map ent_resource es) \<and> (\<forall>e \<in> set es. wf_entry e)"

definition wf_subject :: "str \<Rightarrow> bool" where
  "wf_subject s \<longleftrightarrow> subject_ok s \<and> trim_space s = s \<and> s \<noteq> []"

definition wf_resource :: "str \<Rightarrow> bool" where
  "wf_resource r \<longleftrightarrow> validate_resource_path r = Inr () \<and> trim_space r = r"

definition wf_policy :: "policy \<Rightarrow> bool" where
  "wf_policy p \<longleftrightarrow>
     normalize_ident (pol_id p) = Inr (pol_id p) \<and>
     validate_version (pol_version p) = Inr () \<and> pol_kind p = ''TWIN'' \<and>
     pol_subjects p \<noteq> [] \<and> sorted_set (pol_subjects p) \<and>
     (\<forall>s \<in> set (pol_subjects p). wf_subject s) \<and>
     sorted_set (pol_resources p) \<and>
     (\<forall>r \<in> set (pol_resources p). wf_resource r) \<and>
     wf_entries (pol_grants p) \<and> wf_entries (pol_revokes p)"

definition derive_policy :: "policy \<Rightarrow> derived_policy" where
  "derive_policy p = \<lparr>dp_id = pol_id p, dp_version = pol_version p, dp_kind = pol_kind p,
     dp_subjects = pol_subjects p, dp_resources = pol_resources p,
     dp_grants = entries_to_map (pol_grants p), dp_revokes = entries_to_map (pol_revokes p),
     dp_builtin = False\<rparr>"

section \<open>The loops\<close>

lemma action_loop_Inr:
  assumes "action_loop l r out raws = Inr res" "set out \<subseteq> set known_actions" "distinct out"
  shows "set out \<subseteq> set res \<and> set res \<subseteq> set known_actions \<and> distinct res \<and> (raws \<noteq> [] \<longrightarrow> res \<noteq> [])"
  using assms
proof (induction l r out raws rule: action_loop.induct)
  case (1 label resource out)
  then show ?case by simp
next
  case (2 label resource out raw raws)
  let ?a = "to_upper (trim_space raw)"
  show ?case
  proof (cases "?a \<in> set out")
    case True
    then have "out \<noteq> []" by auto
    with 2 True show ?thesis by (auto simp: Let_def split: if_splits)
  next
    case False
    with 2 show ?thesis by (auto simp: Let_def split: if_splits)
  qed
qed

lemma known_action_fixed: "a \<in> set known_actions \<Longrightarrow> to_upper (trim_space a) = a"
proof -
  have "list_all (\<lambda>a. to_upper (trim_space a) = a) known_actions" by code_simp
  then show "a \<in> set known_actions \<Longrightarrow> to_upper (trim_space a) = a" by (auto simp: list_all_iff)
qed

lemma action_loop_fixed:
  "set raws \<subseteq> set known_actions \<Longrightarrow> distinct (out @ raws) \<Longrightarrow>
   action_loop l r out raws = Inr (out @ raws)"
proof (induction raws arbitrary: out)
  case Nil
  then show ?case by simp
next
  case (Cons a raws)
  have a: "to_upper (trim_space a) = a" using Cons.prems(1) by (simp add: known_action_fixed)
  have "action_loop l r (out @ [a]) raws = Inr ((out @ [a]) @ raws)"
    using Cons.prems by (intro Cons.IH) auto
  then show ?case using Cons.prems by (simp add: Let_def a)
qed

lemma normalize_actions_Inr:
  assumes "normalize_actions acts l r = Inr res"
  shows "res \<noteq> [] \<and> sorted_set res \<and> set res \<subseteq> set known_actions"
proof -
  from assms obtain out where a: "acts \<noteq> []" "action_loop l r [] acts = Inr out" "res = sort out"
    by (auto simp: normalize_actions_def go_err split: if_splits)
  from action_loop_Inr [OF a(2)] a(1)
  have "set out \<subseteq> set known_actions \<and> distinct out \<and> out \<noteq> []" by simp
  then show ?thesis
    by (simp add: a(3) sorted_set_def) (metis set_empty set_sort)
qed

lemma normalize_actions_fixed:
  "wf_entry e \<Longrightarrow> normalize_actions (ent_actions e) l r = Inr (ent_actions e)"
  by (auto simp: wf_entry_def normalize_actions_def action_loop_fixed sorted_set_def sort_key_id_if_sorted)

lemma entry_loop_Inr:
  assumes "entry_loop l out es = Inr res" "\<forall>e \<in> set out. wf_entry e" "distinct (map ent_resource out)"
  shows "(\<forall>e \<in> set res. wf_entry e) \<and> distinct (map ent_resource res)"
  using assms
proof (induction l out es rule: entry_loop.induct)
  case (1 label out)
  then show ?case by simp
next
  case (2 label out e es)
  let ?r = "trim_space (ent_resource e)"
  from "2.prems"(1) obtain acts where
    v: "validate_resource_path ?r = Inr ()" and
    n: "normalize_actions (ent_actions e) label ?r = Inr acts" and
    new: "?r \<notin> set (map ent_resource out)" and
    rest: "entry_loop label (out @ [\<lparr>ent_resource = ?r, ent_actions = acts\<rparr>]) es = Inr res"
    by (auto simp: Let_def go_err split: if_splits)
  have wf: "wf_entry \<lparr>ent_resource = ?r, ent_actions = acts\<rparr>"
    using v normalize_actions_Inr [OF n] by (simp add: wf_entry_def)
  show ?case
    by (rule "2.IH" [OF refl new rest]) (use "2.prems" wf new in auto)
qed

lemma normalize_entries_Inr: "normalize_entries es l = Inr res \<Longrightarrow> wf_entries res"
  by (auto simp: normalize_entries_def go_err wf_entries_def sorted_set_def distinct_map
      dest!: entry_loop_Inr)

lemma entry_collapse [simp]: "\<lparr>ent_resource = ent_resource e, ent_actions = ent_actions e\<rparr> = e"
  by (cases e) simp

lemma entry_loop_fixed:
  "\<forall>e \<in> set es. wf_entry e \<Longrightarrow> distinct (map ent_resource (out @ es)) \<Longrightarrow>
   entry_loop l out es = Inr (out @ es)"
proof (induction es arbitrary: out)
  case Nil
  then show ?case by simp
next
  case (Cons e es)
  have e: "wf_entry e" using Cons.prems by simp
  then have "validate_resource_path (ent_resource e) = Inr ()" "trim_space (ent_resource e) = ent_resource e"
    by (simp_all add: wf_entry_def)
  moreover have "entry_loop l (out @ [e]) es = Inr ((out @ [e]) @ es)"
    using Cons.prems by (intro Cons.IH) auto
  ultimately show ?case using Cons.prems(2)
    by (simp add: Let_def normalize_actions_fixed [OF e])
qed

lemma normalize_entries_fixed: "wf_entries es \<Longrightarrow> normalize_entries es l = Inr es"
  using entry_loop_fixed [of es "[]" l]
  by (auto simp: wf_entries_def normalize_entries_def sorted_set_def sort_key_id_if_sorted)

lemma wf_subject_trim: "subject_ok (trim_space raw) \<Longrightarrow> trim_space raw \<noteq> [] \<Longrightarrow> wf_subject (trim_space raw)"
  by (simp add: wf_subject_def)

lemma wf_resource_trim: "validate_resource_path (trim_space raw) = Inr () \<Longrightarrow> wf_resource (trim_space raw)"
  by (simp add: wf_resource_def)

lemma subject_loop_Inr:
  "subject_loop out raws = Inr res \<Longrightarrow> distinct out \<Longrightarrow> \<forall>s \<in> set out. wf_subject s \<Longrightarrow>
   distinct res \<and> (\<forall>s \<in> set res. wf_subject s)"
proof (induction raws arbitrary: out)
  case Nil
  then show ?case by simp
next
  case (Cons raw raws)
  let ?s = "trim_space raw"
  consider (skip) "subject_loop out raws = Inr res"
    | (add) "subject_ok ?s" "?s \<noteq> []" "?s \<notin> set out" "subject_loop (out @ [?s]) raws = Inr res"
    using Cons.prems(1) unfolding subject_loop.simps Let_def by (metis sum.distinct(1))
  then show ?case
  proof cases
    case skip
    then show ?thesis by (rule Cons.IH) (use Cons.prems in simp_all)
  next
    case add
    then show ?thesis using Cons.prems(2,3)
      by (intro Cons.IH [OF add(4)]) (simp_all add: wf_subject_trim)
  qed
qed

lemma subject_loop_fixed:
  "\<forall>s \<in> set raws. wf_subject s \<Longrightarrow> distinct (out @ raws) \<Longrightarrow> subject_loop out raws = Inr (out @ raws)"
proof (induction raws arbitrary: out)
  case Nil
  then show ?case by simp
next
  case (Cons s raws)
  then have "wf_subject s" "subject_loop (out @ [s]) raws = Inr ((out @ [s]) @ raws)" by simp_all
  with Cons.prems show ?case by (simp add: wf_subject_def)
qed

lemma resource_loop_Inr:
  "resource_loop out raws = Inr res \<Longrightarrow> distinct out \<Longrightarrow> \<forall>r \<in> set out. wf_resource r \<Longrightarrow>
   distinct res \<and> (\<forall>r \<in> set res. wf_resource r)"
proof (induction raws arbitrary: out)
  case Nil
  then show ?case by simp
next
  case (Cons raw raws)
  let ?r = "trim_space raw"
  have v: "validate_resource_path ?r = Inr ()"
    and rest: "(if ?r \<in> set out then resource_loop out raws else resource_loop (out @ [?r]) raws) = Inr res"
    using Cons.prems(1) unfolding resource_loop.simps Let_def by (simp_all only: go_err) auto
  show ?case
  proof (cases "?r \<in> set out")
    case True
    with rest have "resource_loop out raws = Inr res" by simp
    then show ?thesis by (rule Cons.IH) (use Cons.prems in simp_all)
  next
    case False
    with rest have "resource_loop (out @ [?r]) raws = Inr res" by simp
    then show ?thesis by (rule Cons.IH) (use Cons.prems(2,3) False wf_resource_trim [OF v] in simp_all)
  qed
qed

lemma resource_loop_fixed:
  "\<forall>r \<in> set raws. wf_resource r \<Longrightarrow> distinct (out @ raws) \<Longrightarrow> resource_loop out raws = Inr (out @ raws)"
proof (induction raws arbitrary: out)
  case Nil
  then show ?case by simp
next
  case (Cons r raws)
  then have "wf_resource r" "resource_loop (out @ [r]) raws = Inr ((out @ [r]) @ raws)" by simp_all
  with Cons.prems show ?case by (simp add: wf_resource_def)
qed

section \<open>Encoding\<close>

lemma dec_enc_entry [simp]: "dec_entry (enc_entry e) old = Some e"
proof -
  have "struct_vals ''resource'' [(''resource'', a), (''actions'', b)] = [a]"
       "struct_vals ''actions'' [(''resource'', a), (''actions'', b)] = [b]" for a b
    by (simp_all add: struct_vals_def equal_fold_def to_lower_def lower_char_def in_range_def char_code_def)
  then show ?thesis by (simp add: enc_entry_def)
qed

lemma dec_slice_enc_entry [simp]: "dec_slice dec_entry z (map enc_entry es) old = Some es"
  by (rule dec_slice_map) simp

definition policy_fields :: "str list" where
  "policy_fields = [''policyId'', ''version'', ''kind'', ''subjects'', ''resources'', ''grants'', ''revokes'']"

lemma policy_fields_fold:
  "map (\<lambda>f. filter (equal_fold f) policy_fields) policy_fields = map (\<lambda>f. [f]) policy_fields"
  by code_simp

lemma equal_fold_sym: "equal_fold a b = equal_fold b a"
  by (auto simp: equal_fold_def)

lemma dec_enc_policy:
  assumes "pol_kind p \<noteq> []"
  shows "\<exists>kvs. enc_policy p = JObj kvs \<and> dec_policy kvs = Some p \<and>
    obj_get kvs ''policyId'' \<noteq> None \<and> obj_get kvs ''version'' \<noteq> None"
proof -
  let ?vals = "[JStr (pol_id p), JStr (pol_version p), JStr (pol_kind p),
     JArr (map JStr (pol_subjects p)), JArr (map JStr (pol_resources p)),
     JArr (map enc_entry (pol_grants p)), JArr (map enc_entry (pol_revokes p))]"
  let ?kvs = "zip policy_fields ?vals"
  have e: "enc_policy p = JObj ?kvs" using assms by (simp add: enc_policy_def policy_fields_def)
  have f: "equal_fold a b \<longleftrightarrow> a = b" if "a \<in> set policy_fields" "b \<in> set policy_fields" for a b
  proof -
    have "list_all (\<lambda>a. list_all (\<lambda>b. equal_fold a b = (a = b)) policy_fields) policy_fields"
      by code_simp
    with that show ?thesis by (auto simp: list_all_iff)
  qed
  have vals: "map (\<lambda>f. struct_vals f ?kvs) policy_fields = map (\<lambda>v. [v]) ?vals"
    by (simp add: struct_vals_def policy_fields_def f [unfolded policy_fields_def])
  then have "dec_policy ?kvs = Some p"
    by (simp add: dec_policy_def policy_fields_def)
  moreover have "obj_get ?kvs ''policyId'' \<noteq> None" "obj_get ?kvs ''version'' \<noteq> None"
    unfolding obj_get_None by (simp_all add: policy_fields_def)
  ultimately show ?thesis using e by blast
qed

section \<open>Normalisation\<close>

lemma normalize_policy_wf:
  assumes "normalize_policy p = Inr (q, d)"
  shows "wf_policy q \<and> d = derive_policy q"
proof -
  from assms obtain c subs ress gs rs where
    "normalize_ident (pol_id p) = Inr c" "validate_version (pol_version p) = Inr ()"
    and s: "subject_loop [] (pol_subjects p) = Inr subs" "subs \<noteq> []"
    and r: "resource_loop [] (pol_resources p) = Inr ress"
    and g: "normalize_entries (pol_grants p) GrantEntry = Inr gs"
    and w: "normalize_entries (pol_revokes p) RevokeEntry = Inr rs"
    and q: "q = \<lparr>pol_id = c, pol_version = pol_version p, pol_kind = ''TWIN'',
                pol_subjects = sort subs, pol_resources = sort ress,
                pol_grants = gs, pol_revokes = rs\<rparr>"
    and d: "d = derive_policy q"
    by (auto simp: normalize_policy_def Let_def go_err derive_policy_def split: if_splits)
  then have "normalize_ident c = Inr c" by (blast intro: normalize_ident_idem)
  moreover have "sort subs \<noteq> []" using s(2) by (metis set_empty set_sort)
  ultimately have "wf_policy q"
    using subject_loop_Inr [OF s(1)] resource_loop_Inr [OF r] normalize_entries_Inr [OF g]
      normalize_entries_Inr [OF w] \<open>validate_version (pol_version p) = Inr ()\<close>
    by (simp add: wf_policy_def q sorted_set_def)
  with d show ?thesis by simp
qed

lemma policy_collapse:
  "pol_kind p = k \<Longrightarrow>
   \<lparr>pol_id = pol_id p, pol_version = pol_version p, pol_kind = k, pol_subjects = pol_subjects p,
    pol_resources = pol_resources p, pol_grants = pol_grants p, pol_revokes = pol_revokes p\<rparr> = p"
  by (cases p) simp

lemma normalize_policy_fixed:
  assumes "wf_policy p"
  shows "normalize_policy p = Inr (p, derive_policy p)"
  using assms subject_loop_fixed [of "pol_subjects p" "[]"] resource_loop_fixed [of "pol_resources p" "[]"]
  by (auto simp: wf_policy_def normalize_policy_def normalize_entries_fixed sorted_set_def
      sort_key_id_if_sorted derive_policy_def Let_def policy_collapse)

lemma policy_normalize_Inr:
  "policy_normalize raw = Inr (p, d) \<longleftrightarrow>
     (\<exists>kvs a. raw = Some (JObj kvs) \<and> obj_get kvs ''policyId'' \<noteq> None \<and>
        obj_get kvs ''version'' \<noteq> None \<and> dec_policy kvs = Some a \<and> normalize_policy a = Inr (p, d))"
  by (auto simp: policy_normalize_def go_err split: option.splits json.splits if_splits)

lemma policy_normalize_wf: "policy_normalize raw = Inr (p, d) \<Longrightarrow> wf_policy p \<and> d = derive_policy p"
  by (auto simp: policy_normalize_Inr dest: normalize_policy_wf)

section \<open>Properties\<close>

definition sample_policy_json :: json where
  "sample_policy_json = JObj
     [(''policyId'', JStr ''Plant A''), (''version'', JStr ''1.0.0''),
      (''subjects'', JArr [JStr '' user:u '', JStr ''tenant:t'', JStr ''user:u'']),
      (''resources'', JArr [JStr ''thing:/t/#'']),
      (''grants'', JArr [JObj [(''resource'', JStr ''thing:/t/#''),
                               (''actions'', JArr [JStr ''write'', JStr ''READ'', JStr ''Write''])]]),
      (''revokes'', JNull)]"

definition sample_policy :: policy where
  "sample_policy =
     \<lparr>pol_id = ''plant_a'', pol_version = ''1.0.0'', pol_kind = ''TWIN'',
      pol_subjects = [''tenant:t'', ''user:u''], pol_resources = [''thing:/t/#''],
      pol_grants = [\<lparr>ent_resource = ''thing:/t/#'', ent_actions = [''READ'', ''WRITE'']\<rparr>],
      pol_revokes = []\<rparr>"

lemma sample_policy_normalizes:
  "policy_normalize (Some sample_policy_json) = Inr (sample_policy, derive_policy sample_policy)"
  by code_simp

text \<open>A policy document that Normalize accepts is well formed: canonical id, int32-safe
  version, kind TWIN, at least one subject, and subjects, resources, grants and revokes sorted,
  free of duplicates and each lexically legal with known actions only; and the derived document is
  the same policy with its entries indexed by resource.\<close>

theorem normalize_yields_well_formed:
  assumes "policy_normalize raw = Inr (p, d)"
  shows "normalize_ident (pol_id p) = Inr (pol_id p) \<and> validate_version (pol_version p) = Inr () \<and>
    pol_kind p = ''TWIN'' \<and> pol_subjects p \<noteq> [] \<and>
    sorted_set (pol_subjects p) \<and> (\<forall>s \<in> set (pol_subjects p). subject_ok s) \<and>
    sorted_set (pol_resources p) \<and> (\<forall>r \<in> set (pol_resources p). validate_resource_path r = Inr ()) \<and>
    (\<forall>es \<in> {pol_grants p, pol_revokes p}. sorted_set (map ent_resource es) \<and>
       (\<forall>e \<in> set es. validate_resource_path (ent_resource e) = Inr () \<and> ent_actions e \<noteq> [] \<and>
          sorted_set (ent_actions e) \<and> set (ent_actions e) \<subseteq> set known_actions)) \<and>
    d = derive_policy p"
proof -
  have wf: "wf_policy p" and d: "d = derive_policy p" using policy_normalize_wf [OF assms] by simp_all
  have "sorted_set (map ent_resource es) \<and>
       (\<forall>e \<in> set es. validate_resource_path (ent_resource e) = Inr () \<and> ent_actions e \<noteq> [] \<and>
          sorted_set (ent_actions e) \<and> set (ent_actions e) \<subseteq> set known_actions)"
    if "wf_entries es" for es
    using that unfolding wf_entries_def wf_entry_def by blast
  with wf have "\<forall>es \<in> {pol_grants p, pol_revokes p}. sorted_set (map ent_resource es) \<and>
       (\<forall>e \<in> set es. validate_resource_path (ent_resource e) = Inr () \<and> ent_actions e \<noteq> [] \<and>
          sorted_set (ent_actions e) \<and> set (ent_actions e) \<subseteq> set known_actions)"
    unfolding wf_policy_def by blast
  with wf d show ?thesis unfolding wf_policy_def wf_subject_def wf_resource_def by blast
qed

theorem normalize_yields_well_formed_witness:
  "pol_subjects sample_policy \<noteq> [] \<and> sorted_set (pol_subjects sample_policy)"
  using normalize_yields_well_formed [OF sample_policy_normalizes] by blast

text \<open>Normalisation is idempotent through the stored form: the JSON encoding of a normalised
  document normalises to the same document and the same derived policy.\<close>

theorem normalize_idempotent:
  assumes "policy_normalize raw = Inr (p, d)"
  shows "policy_normalize (Some (enc_policy p)) = Inr (p, d)"
proof -
  from policy_normalize_wf [OF assms] have wf: "wf_policy p" and d: "d = derive_policy p" by simp_all
  then have "pol_kind p \<noteq> []" by (simp add: wf_policy_def)
  from dec_enc_policy [OF this] obtain kvs where
    "enc_policy p = JObj kvs" "dec_policy kvs = Some p"
    "obj_get kvs ''policyId'' \<noteq> None" "obj_get kvs ''version'' \<noteq> None" by blast
  with normalize_policy_fixed [OF wf] show ?thesis unfolding policy_normalize_Inr d by blast
qed

theorem normalize_idempotent_witness:
  "policy_normalize (Some (enc_policy sample_policy)) = Inr (sample_policy, derive_policy sample_policy)"
  by (rule normalize_idempotent [OF sample_policy_normalizes])

end
