(* ===== verification/PolicyAuthorize.thy ===== *)
theory PolicyAuthorize
  imports PolicyModel
begin

text \<open>
  The authoriser (internal/policy/authorize.go): resource paths, the caller's subject, the
  matching of resource patterns and the decision. The lemmas characterise the matching loop by a
  declarative relation and the decision by the deepest matching entries, from which the
  precedence rules of the policy language follow.
\<close>

definition resource_path :: "str \<Rightarrow> str \<Rightarrow> str \<Rightarrow> str list \<Rightarrow> str" where
  "resource_path tenant etype eid sfx =
     join ''/'' ([''thing:'', tenant, to_upper (trim_space etype), eid] @ sfx)"

definition tenant_prefix :: str where "tenant_prefix = ''tenant:''"

lemma tenant_prefix_neq [simp]: "tenant_prefix \<noteq> []" "tenant_prefix @ x \<noteq> []" "tenant_prefix @ x \<noteq> ''*''"
  by (simp_all add: tenant_prefix_def)

text \<open>Claims are the decoded JSON members of a verified token.\<close>

definition claim_string :: "members \<Rightarrow> str \<Rightarrow> str" where
  "claim_string claims k = as_string (obj_get claims k)"

definition has_scope :: "members \<Rightarrow> str \<Rightarrow> bool" where
  "has_scope claims want \<longleftrightarrow> JStr want \<in> set (as_array (obj_get claims ''scopes''))"

definition subject_for_claims :: "members \<Rightarrow> str" where
  "subject_for_claims claims =
     (if has_scope claims ''SYS_ADMIN'' then ''SYS_ADMIN''
      else if claim_string claims ''tenantId'' \<noteq> [] then tenant_prefix @ claim_string claims ''tenantId''
      else if claim_string claims ''userId'' \<noteq> [] then ''user:'' @ claim_string claims ''userId''
      else [])"

section \<open>Matching\<close>

text \<open>The loop over the pattern's segments: \<open>Some r\<close> is an early return of \<open>r\<close>.\<close>

fun segment_loop :: "nat \<Rightarrow> str list \<Rightarrow> str list \<Rightarrow> nat option option" where
  "segment_loop i [] rs = None"
| "segment_loop i (seg # segs) rs =
     (if seg = ''#'' then Some (Some (i + 1))
      else if length rs \<le> i then Some None
      else if seg = ''*'' then segment_loop (i + 1) segs rs
      else if seg \<noteq> rs ! i then Some None
      else segment_loop (i + 1) segs rs)"

definition path_segments :: "str \<Rightarrow> str list" where
  "path_segments s = split_on CHR ''/'' (trim_prefix s thing_prefix)"

definition match_resource :: "str \<Rightarrow> str \<Rightarrow> nat option" where
  "match_resource pattern resource =
     (let ps = path_segments pattern; rs = path_segments resource
      in case segment_loop 0 ps rs of
           Some r \<Rightarrow> r
         | None \<Rightarrow> if ps \<noteq> [] \<and> last ps = ''*'' \<and> length rs \<noteq> length ps then None
                   else Some (length ps))"

definition action_covered :: "str list \<Rightarrow> str \<Rightarrow> bool" where
  "action_covered actions action \<longleftrightarrow> list_ex (\<lambda>c. c = ''*'' \<or> c = action) actions"

definition subject_matches :: "str \<Rightarrow> str list \<Rightarrow> bool" where
  "subject_matches subject subjects \<longleftrightarrow>
     subject \<noteq> [] \<and> list_ex (\<lambda>b. b = ''*'' \<or> b = subject) subjects"

fun deepest_loop :: "str \<Rightarrow> int \<Rightarrow> (str, str list) gomap \<Rightarrow> int" where
  "deepest_loop resource deepest [] = deepest"
| "deepest_loop resource deepest ((path, _) # es) =
     (case match_resource path resource of
        None \<Rightarrow> deepest_loop resource deepest es
      | Some d \<Rightarrow> deepest_loop resource (if deepest < int d then int d else deepest) es)"

text \<open>Does an entry at the given depth cover the action?\<close>

definition covered_at :: "str \<Rightarrow> int \<Rightarrow> str \<Rightarrow> (str, str list) gomap \<Rightarrow> bool" where
  "covered_at resource depth action es \<longleftrightarrow>
     list_ex (\<lambda>(path, actions). case match_resource path resource of
                None \<Rightarrow> False
              | Some d \<Rightarrow> int d = depth \<and> action_covered actions action) es"

definition authorize :: "str \<Rightarrow> derived_policy \<Rightarrow> str \<Rightarrow> str \<Rightarrow> bool" where
  "authorize subject doc resource raw_action =
     (if \<not> subject_matches subject (dp_subjects doc) then False
      else let action = to_upper (trim_space raw_action);
               deepest = deepest_loop resource (deepest_loop resource (-1) (dp_grants doc)) (dp_revokes doc)
           in if deepest < 0 then False
              else if covered_at resource deepest action (dp_revokes doc) then False
              else covered_at resource deepest action (dp_grants doc))"

section \<open>The declarative reading of a pattern\<close>

definition literal_part :: "str list \<Rightarrow> str list" where
  "literal_part ps = takeWhile (\<lambda>p. p \<noteq> ''#'') ps"

definition pattern_covers :: "str list \<Rightarrow> str list \<Rightarrow> bool" where
  "pattern_covers ps rs \<longleftrightarrow>
     (let qs = literal_part ps
      in length qs \<le> length rs \<and> list_all2 (\<lambda>p r. p = ''*'' \<or> p = r) qs (take (length qs) rs) \<and>
         (''#'' \<in> set ps \<or> last ps \<noteq> ''*'' \<or> length rs = length ps))"

definition pattern_depth :: "str list \<Rightarrow> nat" where
  "pattern_depth ps = (if ''#'' \<in> set ps then Suc (length (literal_part ps)) else length ps)"

lemma segment_loop_spec:
  "segment_loop i ps rs =
     (let qs = literal_part ps
      in if length qs \<le> length (drop i rs) \<and> list_all2 (\<lambda>p r. p = ''*'' \<or> p = r) qs (take (length qs) (drop i rs))
         then (if ''#'' \<in> set ps then Some (Some (Suc (i + length qs))) else None)
         else Some None)"
proof (induction ps arbitrary: i)
  case Nil
  then show ?case by (simp add: literal_part_def)
next
  case (Cons p ps)
  consider (rec) "p = ''#''" | (short) "p \<noteq> ''#''" "length rs \<le> i" | (go) "p \<noteq> ''#''" "i < length rs"
    by fastforce
  then show ?case
  proof cases
    case rec
    then show ?thesis by (simp add: literal_part_def)
  next
    case short
    then show ?thesis by (simp add: literal_part_def Let_def)
  next
    case go
    then have d: "drop i rs = rs ! i # drop (Suc i) rs" by (simp add: Cons_nth_drop_Suc)
    have q: "literal_part (p # ps) = p # literal_part ps" using go by (simp add: literal_part_def)
    have "segment_loop i (p # ps) rs =
        (if p = ''*'' \<or> p = rs ! i then segment_loop (Suc i) ps rs else Some None)"
      using go by simp
    then show ?thesis using go(1) unfolding Cons.IH q d Let_def by simp
  qed
qed

lemma path_segments_neq_Nil [simp]: "path_segments s \<noteq> []"
  by (simp add: path_segments_def)

lemma literal_part_no_rec: "''#'' \<notin> set ps \<Longrightarrow> literal_part ps = ps"
  by (simp add: literal_part_def takeWhile_eq_all_conv) auto

lemma match_resource_spec:
  "match_resource p r =
     (if pattern_covers (path_segments p) (path_segments r)
      then Some (pattern_depth (path_segments p)) else None)"
proof -
  define ps rs where "ps = path_segments p" and "rs = path_segments r"
  define m where "m = (case segment_loop 0 ps rs of Some x \<Rightarrow> x
     | None \<Rightarrow> if ps \<noteq> [] \<and> last ps = ''*'' \<and> length rs \<noteq> length ps then None else Some (length ps))"
  have ne: "ps \<noteq> []" by (simp add: ps_def)
  have "m = (if pattern_covers ps rs then Some (pattern_depth ps) else None)"
  proof (cases "''#'' \<in> set ps")
    case True
    then show ?thesis
      by (simp add: m_def segment_loop_spec pattern_covers_def pattern_depth_def Let_def)
  next
    case False
    then show ?thesis using ne
      by (simp add: m_def segment_loop_spec pattern_covers_def pattern_depth_def Let_def literal_part_no_rec)
  qed
  then show ?thesis unfolding match_resource_def Let_def m_def ps_def rs_def .
qed

section \<open>The decision by the deepest entries\<close>

definition matches_at :: "str \<Rightarrow> nat \<Rightarrow> str \<Rightarrow> bool" where
  "matches_at r d p \<longleftrightarrow> match_resource p r = Some d"

lemma deepest_loop_ge: "deepest \<le> deepest_loop r deepest es"
  by (induction r deepest es rule: deepest_loop.induct) (auto split: option.splits)

lemma deepest_loop_upper:
  "(p, acts) \<in> set es \<Longrightarrow> match_resource p r = Some d \<Longrightarrow> int d \<le> deepest_loop r deepest es"
proof (induction r deepest es rule: deepest_loop.induct)
  case (1 resource deepest)
  then show ?case by simp
next
  case (2 resource deepest path acts' es)
  show ?case
  proof (cases "(p, acts) \<in> set es")
    case True
    with 2 show ?thesis by (auto split: option.splits)
  next
    case False
    with "2.prems" have "p = path" by simp
    with "2.prems"(2) show ?thesis
      using deepest_loop_ge [of "if deepest < int d then int d else deepest" resource es]
      by (auto split: if_splits)
  qed
qed

lemma deepest_loop_attained:
  "deepest_loop r deepest es = deepest \<or>
   (\<exists>p acts d. (p, acts) \<in> set es \<and> match_resource p r = Some d \<and> deepest_loop r deepest es = int d)"
  by (induction r deepest es rule: deepest_loop.induct) (fastforce split: option.splits if_splits)+

lemma covered_at_iff:
  "covered_at r (int d) a es \<longleftrightarrow>
     (\<exists>(p, acts) \<in> set es. match_resource p r = Some d \<and> action_covered acts a)"
  by (fastforce simp: covered_at_def list_ex_iff split: option.splits)

definition entries_of :: "derived_policy \<Rightarrow> (str \<times> str list) set" where
  "entries_of doc = set (dp_grants doc) \<union> set (dp_revokes doc)"

lemma authorize_iff:
  "authorize s doc r a \<longleftrightarrow>
     subject_matches s (dp_subjects doc) \<and>
     (\<exists>d. (\<forall>(p, acts) \<in> entries_of doc. \<forall>e. match_resource p r = Some e \<longrightarrow> e \<le> d) \<and>
          (\<exists>(p, acts) \<in> set (dp_grants doc).
             match_resource p r = Some d \<and> action_covered acts (to_upper (trim_space a))) \<and>
          (\<forall>(p, acts) \<in> set (dp_revokes doc).
             match_resource p r = Some d \<longrightarrow> \<not> action_covered acts (to_upper (trim_space a))))"
  (is "?lhs \<longleftrightarrow> ?subj \<and> (\<exists>d. ?deep d \<and> ?grant d \<and> ?revoke d)")
proof -
  let ?g = "deepest_loop r (-1) (dp_grants doc)"
  let ?D = "deepest_loop r ?g (dp_revokes doc)"
  have up: "int e \<le> ?D" if "(p, acts) \<in> entries_of doc" "match_resource p r = Some e" for p acts e
  proof (cases "(p, acts) \<in> set (dp_revokes doc)")
    case True
    then show ?thesis using that(2) by (rule deepest_loop_upper)
  next
    case False
    then have "(p, acts) \<in> set (dp_grants doc)" using that(1) by (simp add: entries_of_def)
    then have "int e \<le> ?g" using that(2) by (rule deepest_loop_upper)
    also have "\<dots> \<le> ?D" by (rule deepest_loop_ge)
    finally show ?thesis .
  qed
  have att: "?D = -1 \<or> (\<exists>p acts d. (p, acts) \<in> entries_of doc \<and> match_resource p r = Some d \<and> ?D = int d)"
    using deepest_loop_attained [of r ?g "dp_revokes doc"]
      deepest_loop_attained [of r "-1" "dp_grants doc"]
    by (auto simp: entries_of_def)
  have "?lhs \<longleftrightarrow> ?subj \<and> (\<exists>d. ?D = int d \<and> ?grant d \<and> ?revoke d)"
  proof (cases "?D < 0")
    case True
    then have "\<not> ?lhs" by (simp add: authorize_def Let_def)
    moreover have "?D \<noteq> int d" for d using True by linarith
    ultimately show ?thesis by blast
  next
    case False
    then obtain d where d: "?D = int d" using nonneg_int_cases [of ?D] by fastforce
    have A: "?lhs \<longleftrightarrow> ?subj \<and> ?grant d \<and> \<not> (\<exists>(p, acts) \<in> set (dp_revokes doc).
        match_resource p r = Some d \<and> action_covered acts (to_upper (trim_space a)))"
      unfolding authorize_def Let_def d covered_at_iff by simp
    have B: "\<not> (\<exists>(p, acts) \<in> set (dp_revokes doc).
        match_resource p r = Some d \<and> action_covered acts (to_upper (trim_space a))) \<longleftrightarrow> ?revoke d" by blast
    show ?thesis unfolding A B d of_nat_eq_iff by simp
  qed
  also have "\<dots> \<longleftrightarrow> ?subj \<and> (\<exists>d. ?deep d \<and> ?grant d \<and> ?revoke d)"
  proof -
    have "?D = int d \<longleftrightarrow> ?deep d" if "?grant d" for d
    proof
      assume "?D = int d"
      then show "?deep d" using up by fastforce
    next
      assume deep: "?deep d"
      from that have "int d \<le> ?D" by (auto simp: entries_of_def intro!: up)
      with att obtain p acts e where "(p, acts) \<in> entries_of doc" "match_resource p r = Some e" "?D = int e"
        by force
      with deep have "?D \<le> int d" by fastforce
      with \<open>int d \<le> ?D\<close> show "?D = int d" by simp
    qed
    then show ?thesis by blast
  qed
  finally show ?thesis .
qed

section \<open>Properties\<close>

text \<open>C1: The decision. A subject is authorised on a resource exactly when it is bound by the
  document and, among the grant and revoke patterns that cover the resource, the deepest ones
  contain a grant of the action and no revoke of it.\<close>

theorem authorize_decides_by_depth:
  "authorize s doc r a \<longleftrightarrow>
     subject_matches s (dp_subjects doc) \<and>
     (\<exists>d. (\<forall>(p, acts) \<in> entries_of doc.
             pattern_covers (path_segments p) (path_segments r) \<longrightarrow> pattern_depth (path_segments p) \<le> d) \<and>
          (\<exists>(p, acts) \<in> set (dp_grants doc).
             pattern_covers (path_segments p) (path_segments r) \<and> pattern_depth (path_segments p) = d \<and>
             action_covered acts (to_upper (trim_space a))) \<and>
          (\<forall>(p, acts) \<in> set (dp_revokes doc).
             pattern_covers (path_segments p) (path_segments r) \<longrightarrow> pattern_depth (path_segments p) = d \<longrightarrow>
             \<not> action_covered acts (to_upper (trim_space a))))"
proof -
  have m: "match_resource p r = Some d \<longleftrightarrow>
      pattern_covers (path_segments p) (path_segments r) \<and> pattern_depth (path_segments p) = d" for p d
    by (simp add: match_resource_spec)
  show ?thesis unfolding authorize_iff m by (simp add: imp_conjL)
qed

definition owner_doc :: derived_policy where
  "owner_doc = \<lparr>dp_id = ''p'', dp_version = ''1.0.0'', dp_kind = ''TWIN'', dp_subjects = [''tenant:t''],
     dp_resources = [], dp_grants = [(''thing:/t/#'', [''READ'', ''WRITE''])],
     dp_revokes = [(''thing:/t/DEVICE/d/attributes/secret'', [''WRITE''])], dp_builtin = False\<rparr>"

theorem authorize_decides_by_depth_witness:
  "authorize ''tenant:t'' owner_doc ''thing:/t/DEVICE/d/attributes/name'' ''write'' \<and>
   \<not> (subject_matches ''tenant:t'' (dp_subjects owner_doc) \<and>
     (\<exists>d. (\<forall>(p, acts) \<in> entries_of owner_doc.
             pattern_covers (path_segments p) (path_segments ''thing:/t/DEVICE/d/attributes/secret'') \<longrightarrow>
             pattern_depth (path_segments p) \<le> d) \<and>
          (\<exists>(p, acts) \<in> set (dp_grants owner_doc).
             pattern_covers (path_segments p) (path_segments ''thing:/t/DEVICE/d/attributes/secret'') \<and>
             pattern_depth (path_segments p) = d \<and> action_covered acts (to_upper (trim_space ''WRITE''))) \<and>
          (\<forall>(p, acts) \<in> set (dp_revokes owner_doc).
             pattern_covers (path_segments p) (path_segments ''thing:/t/DEVICE/d/attributes/secret'') \<longrightarrow>
             pattern_depth (path_segments p) = d \<longrightarrow> \<not> action_covered acts (to_upper (trim_space ''WRITE'')))))"
proof -
  have "authorize ''tenant:t'' owner_doc ''thing:/t/DEVICE/d/attributes/name'' ''write''"
    "\<not> authorize ''tenant:t'' owner_doc ''thing:/t/DEVICE/d/attributes/secret'' ''WRITE''"
    by code_simp+
  then show ?thesis
    using authorize_decides_by_depth [of "''tenant:t''" owner_doc "''thing:/t/DEVICE/d/attributes/secret''" "''WRITE''"]
    by simp
qed

text \<open>Adding a revoke never turns a denial into a permission.\<close>

theorem revoke_only_restricts:
  assumes "authorize s (doc\<lparr>dp_revokes := (p, acts) # dp_revokes doc\<rparr>) r a"
  shows "authorize s doc r a"
  using assms unfolding authorize_iff entries_of_def by (elim conjE exE) (auto 4 4)

theorem revoke_only_restricts_witness:
  "authorize ''tenant:t'' (owner_doc\<lparr>dp_revokes := []\<rparr>) ''thing:/t/DEVICE/d/attributes/name'' ''READ''"
proof -
  let ?doc = "owner_doc\<lparr>dp_revokes := []\<rparr>"
  have "authorize ''tenant:t'' (?doc\<lparr>dp_revokes := (''thing:/t/DEVICE/d/attributes/secret'', [''WRITE'']) # dp_revokes ?doc\<rparr>)
    ''thing:/t/DEVICE/d/attributes/name'' ''READ''" by code_simp
  then show ?thesis by (rule revoke_only_restricts)
qed

text \<open>The decision does not depend on the order in which Go ranges over the grant and revoke
  maps: documents with the same entries and the same bound subjects decide alike.\<close>

theorem authorize_order_independent:
  assumes "set (dp_subjects doc) = set (dp_subjects doc')" "set (dp_grants doc) = set (dp_grants doc')"
    "set (dp_revokes doc) = set (dp_revokes doc')"
  shows "authorize s doc r a = authorize s doc' r a"
proof -
  have "subject_matches s (dp_subjects doc) = subject_matches s (dp_subjects doc')"
    by (simp add: subject_matches_def list_ex_iff assms)
  then show ?thesis by (simp add: authorize_iff entries_of_def assms)
qed

theorem authorize_order_independent_witness:
  "authorize ''tenant:t'' (owner_doc\<lparr>dp_grants := [(''thing:/t'', [''READ'']), (''thing:/t/#'', [''WRITE''])]\<rparr>) ''thing:/t'' ''READ'' =
   authorize ''tenant:t'' (owner_doc\<lparr>dp_grants := [(''thing:/t/#'', [''WRITE'']), (''thing:/t'', [''READ''])]\<rparr>) ''thing:/t'' ''READ''"
  by (rule authorize_order_independent) auto

end
