(* ===== verification/PolicyStore.thy ===== *)
theory PolicyStore
  imports PolicyLaws PolicyAuthorize Catalog
begin

text \<open>
  The policy catalog and policy resolution (internal/policy/store.go). The store is an instance of
  \<open>versioned_catalog\<close>; Resolve maps the policyId of a twin to the document that is enforced.
\<close>

type_synonym policy_row = "(policy, derived_policy) cat_row"
type_synonym policy_db = "policy_row list"

definition default_policy_id :: str where "default_policy_id = ''default''"

definition policy_create ::
  "str \<Rightarrow> raw_message \<Rightarrow> millis \<Rightarrow> policy_db \<Rightarrow> policy_error cat_error + policy_row \<times> policy_db" where
  "policy_create tenant authored now db =
     (case policy_normalize authored of
        Inl e \<Rightarrow> Inl (InvalidDocument e)
      | Inr (p, derived) \<Rightarrow>
          let r = \<lparr>row_tenant = tenant, row_id = pol_id p, row_version = pol_version p,
                   row_kind = pol_kind p, row_definition = p, row_schema = derived,
                   row_deprecated = False, row_created = now, row_updated = now\<rparr>
          in (case cat_insert r db of None \<Rightarrow> Inl Conflict | Some db' \<Rightarrow> Inr (r, db')))"

definition policy_get ::
  "str \<Rightarrow> str \<Rightarrow> str \<Rightarrow> policy_db \<Rightarrow> policy_error cat_error + policy_row" where
  "policy_get tenant pid version db = or_fail (cat_get tenant pid version db) NotFound"

definition policy_deprecate ::
  "str \<Rightarrow> str \<Rightarrow> str \<Rightarrow> millis \<Rightarrow> policy_db \<Rightarrow> policy_error cat_error + policy_row \<times> policy_db" where
  "policy_deprecate tenant pid version now db =
     (case cat_deprecate tenant pid version now db of
        (None, _) \<Rightarrow> Inl NotFound
      | (Some r, db') \<Rightarrow> Inr (r, db'))"

definition policy_list :: "str \<Rightarrow> list_options \<Rightarrow> policy_db \<Rightarrow> (policy, derived_policy) page option" where
  "policy_list tenant opts db = cat_list tenant (opts\<lparr>lo_kind := []\<rparr>) db"

text \<open>\<open>tenant:<tid>[:<pid>]\<close>; \<open>None\<close> is ok=false, a bare id.\<close>

definition split_policy_id :: "str \<Rightarrow> (str \<times> str) option" where
  "split_policy_id policy_id =
     (if \<not> has_prefix policy_id tenant_prefix then None
      else let parts = split_n 2 CHR '':'' (trim_prefix policy_id tenant_prefix);
               pid = (if length parts = 2 then parts ! 1 else [])
           in Some (hd parts, if pid = [] then default_policy_id else pid))"

definition builtin_owner_policy :: "str \<Rightarrow> derived_policy" where
  "builtin_owner_policy tenant =
     (let root = thing_prefix @ tenant
      in \<lparr>dp_id = default_policy_id, dp_version = ''1.0.0'', dp_kind = ''TWIN'',
          dp_subjects = [tenant_prefix @ tenant], dp_resources = [root, root @ ''/#''],
          dp_grants = [(root, [''READ'', ''WRITE'', ''DELETE''])], dp_revokes = [],
          dp_builtin = True\<rparr>)"

definition policy_resolve ::
  "str \<Rightarrow> str \<Rightarrow> policy_db \<Rightarrow> policy_error cat_error + derived_policy" where
  "policy_resolve tenant policy_id db =
     (let split = split_policy_id policy_id
      in if (case split of Some (tid, _) \<Rightarrow> tid \<noteq> tenant | None \<Rightarrow> False) then Inl ForbiddenTenant
         else let pid0 = (case split of Some (_, p) \<Rightarrow> p | None \<Rightarrow> policy_id);
                  pid = (if pid0 = [] then default_policy_id else pid0)
              in (case normalize_ident pid of
                    Inl _ \<Rightarrow> Inl NotFound
                  | Inr canonical \<Rightarrow>
                      (case cat_newest tenant canonical db of
                         Some r \<Rightarrow> Inr (row_schema r)
                       | None \<Rightarrow> if canonical \<noteq> default_policy_id then Inl NotFound
                                 else Inr (builtin_owner_policy tenant))))"

section \<open>The store is a versioned catalog\<close>

definition policy_invar :: "policy_db \<Rightarrow> bool" where
  "policy_invar db \<longleftrightarrow> cat_invar db \<and>
     (\<forall>r \<in> set db. wf_policy (row_definition r) \<and> row_schema r = derive_policy (row_definition r) \<and>
        row_id r = pol_id (row_definition r) \<and> row_version r = pol_version (row_definition r))"

lemma policy_create_Inr:
  "policy_create t raw now db = Inr (r, db') \<longleftrightarrow>
     (\<exists>p d. policy_normalize raw = Inr (p, d) \<and>
        r = \<lparr>row_tenant = t, row_id = pol_id p, row_version = pol_version p, row_kind = pol_kind p,
             row_definition = p, row_schema = d, row_deprecated = False, row_created = now,
             row_updated = now\<rparr> \<and>
        row_key r \<notin> row_key ` set db \<and> db' = db @ [r])"
  by (auto simp: policy_create_def cat_insert_def Let_def split: sum.splits prod.splits option.splits if_splits)

lemma policy_create_invar:
  assumes "policy_invar db" "policy_create t raw now db = Inr (r, db')"
  shows "policy_invar db'"
proof -
  from assms(2) obtain p d where n: "policy_normalize raw = Inr (p, d)" and
    r: "r = \<lparr>row_tenant = t, row_id = pol_id p, row_version = pol_version p, row_kind = pol_kind p,
             row_definition = p, row_schema = d, row_deprecated = False, row_created = now,
             row_updated = now\<rparr>" and
    k: "row_key r \<notin> row_key ` set db" "db' = db @ [r]"
    unfolding policy_create_Inr by blast
  from policy_normalize_wf [OF n] have wf: "wf_policy p" "d = derive_policy p" by simp_all
  then have "validate_version (row_version r) = Inr ()" "normalize_ident (row_id r) = Inr (row_id r)"
    by (simp_all add: r wf_policy_def)
  moreover have "cat_insert r db = Some db'" using k by (simp add: cat_insert_def)
  ultimately have "cat_invar db'" using assms(1) by (auto simp: policy_invar_def intro: cat_invar_insert)
  then show ?thesis using assms(1) wf by (simp add: policy_invar_def k r)
qed

lemma policy_deprecate_Inr:
  "policy_deprecate t i v now db = Inr (r, db') \<longleftrightarrow>
     (\<exists>old. cat_get t i v db = Some old \<and> r = deprecate_row now old \<and>
        db' = map (\<lambda>q. if row_key q = (t, i, v) then deprecate_row now q else q) db)"
  by (auto simp: policy_deprecate_def cat_deprecate_def Let_def cat_get_deprecated
      split: option.splits prod.splits dest: cat_get_key)

lemma policy_deprecate_invar:
  assumes "policy_invar db" "policy_deprecate t i v now db = Inr (r, db')"
  shows "policy_invar db'"
proof -
  have db': "db' = snd (cat_deprecate t i v now db)"
    using assms(2) by (auto simp: policy_deprecate_Inr cat_deprecate_def Let_def)
  then have "cat_invar db'" using assms(1) by (simp add: policy_invar_def cat_invar_deprecate)
  moreover have "\<forall>q \<in> set db'. wf_policy (row_definition q) \<and>
      row_schema q = derive_policy (row_definition q) \<and>
      row_id q = pol_id (row_definition q) \<and> row_version q = pol_version (row_definition q)"
    using assms(1) by (auto simp: db' cat_deprecate_def Let_def policy_invar_def deprecate_row_def)
  ultimately show ?thesis by (simp add: policy_invar_def)
qed

interpretation policy_catalog: versioned_catalog policy_create policy_get policy_deprecate
    row_key row_definition row_deprecated policy_invar
proof (unfold_locales, goal_cases)
  case (1 db t raw now row db' t' i v)
  then show ?case unfolding policy_create_Inr
    by (auto simp: policy_get_def cat_get_append cat_get_None_iff [THEN iffD2] row_key_def or_fail_def)
next
  case (2 db t raw now row db' t' i v)
  then show ?case unfolding policy_create_Inr
    by (auto simp: policy_get_def cat_get_append split: option.splits)
next
  case (3 db t raw now row db')
  then show ?case by (rule policy_create_invar)
next
  case (4 db t i v now row db')
  then show ?case unfolding policy_deprecate_Inr
    by (auto simp: policy_get_def cat_get_deprecated deprecate_row_def dest: cat_get_key)
next
  case (5 db t i v now row db' t' i' v')
  then show ?case unfolding policy_deprecate_Inr
    by (auto simp: policy_get_def cat_get_deprecated_other)
next
  case (6 db t i v now row db')
  then show ?case by (rule policy_deprecate_invar)
qed

section \<open>Resolution\<close>

lemma path_segments_thing: "path_segments (thing_prefix @ s) = split_on CHR ''/'' s"
  by (simp add: path_segments_def)

lemma path_segments_resource_path:
  assumes "CHR ''/'' \<notin> set tenant"
  shows "path_segments (resource_path tenant etype eid sfx) =
    tenant # split_on CHR ''/'' (join ''/'' ([to_upper (trim_space etype), eid] @ sfx))"
proof -
  have "resource_path tenant etype eid sfx =
      thing_prefix @ tenant @ CHR ''/'' # join ''/'' ([to_upper (trim_space etype), eid] @ sfx)"
    by (simp add: resource_path_def thing_prefix_def)
  then show ?thesis
    using assms by (simp add: path_segments_thing split_on_append_sep split_on_no_sep)
qed

text \<open>A tenant id that can stand as a literal path segment (a UUID is one).\<close>

definition plain_segment :: "str \<Rightarrow> bool" where
  "plain_segment s \<longleftrightarrow> CHR ''/'' \<notin> set s \<and> s \<noteq> ''*'' \<and> s \<noteq> ''#''"

lemma match_root:
  assumes "plain_segment tenant"
  shows "match_resource (thing_prefix @ tenant) r =
    (if hd (path_segments r) = tenant then Some 1 else None)"
proof -
  obtain x xs where r: "path_segments r = x # xs" by (cases "path_segments r") auto
  show ?thesis using assms
    by (auto simp: match_resource_spec path_segments_thing split_on_no_sep plain_segment_def
        pattern_covers_def pattern_depth_def literal_part_def r)
qed

lemma authorize_builtin_owner:
  assumes "plain_segment tenant"
  shows "authorize s (builtin_owner_policy tenant) r a \<longleftrightarrow>
    s = tenant_prefix @ tenant \<and> hd (path_segments r) = tenant \<and>
    to_upper (trim_space a) \<in> {''READ'', ''WRITE'', ''DELETE''}"
  unfolding authorize_iff
  by (auto simp: builtin_owner_policy_def Let_def entries_of_def match_root [OF assms]
      subject_matches_def action_covered_def)

lemma split_policy_id_tenant:
  assumes "CHR '':'' \<notin> set t"
  shows "split_policy_id (tenant_prefix @ t @ '':'' @ p) = Some (t, if p = [] then default_policy_id else p)"
    "split_policy_id (tenant_prefix @ t) = Some (t, default_policy_id)"
proof -
  have "split_n 2 CHR '':'' (t @ CHR '':'' # p) = [t, p]"
    using split_n_Cons [OF assms, of 2 p] split_n_1 by simp
  moreover have "split_n 2 CHR '':'' t = [t]" using assms by (simp add: split_n_no_sep)
  ultimately show "split_policy_id (tenant_prefix @ t @ '':'' @ p) = Some (t, if p = [] then default_policy_id else p)"
    "split_policy_id (tenant_prefix @ t) = Some (t, default_policy_id)"
    by (simp_all add: split_policy_id_def Let_def)
qed

lemma policy_resolve_own:
  assumes "CHR '':'' \<notin> set t" "normalize_ident p = Inr c" "p \<noteq> []"
  shows "policy_resolve t (tenant_prefix @ t @ '':'' @ p) db =
    (case cat_newest t c db of
       Some r \<Rightarrow> Inr (row_schema r)
     | None \<Rightarrow> if c = default_policy_id then Inr (builtin_owner_policy t) else Inl NotFound)"
  using assms split_policy_id_tenant(1) [OF assms(1), of p]
  by (auto simp: policy_resolve_def Let_def split: option.splits)

lemma policy_resolve_InrD:
  assumes "policy_resolve t pid db = Inr d"
  obtains c where "case cat_newest t c db of Some r \<Rightarrow> d = row_schema r
     | None \<Rightarrow> c = default_policy_id \<and> d = builtin_owner_policy t"
proof -
  define pid' where "pid' = (let p = (case split_policy_id pid of Some (_, p) \<Rightarrow> p | None \<Rightarrow> pid)
     in if p = [] then default_policy_id else p)"
  from assms have "(case normalize_ident pid' of Inl _ \<Rightarrow> Inl NotFound
      | Inr c \<Rightarrow> (case cat_newest t c db of Some r \<Rightarrow> Inr (row_schema r)
           | None \<Rightarrow> if c \<noteq> default_policy_id then Inl NotFound else Inr (builtin_owner_policy t))) = (Inr d :: policy_error cat_error + derived_policy)"
    unfolding policy_resolve_def Let_def pid'_def if_fail_Inr by (rule conjunct2)
  then show thesis
    using that [of "projr (normalize_ident pid')"] by (auto split: sum.splits option.splits if_splits)
qed

section \<open>Properties\<close>

text \<open>A catalogued policy version is immutable: whatever sequence of creations and deprecations
  follows, the version is still there with the same document, and a deprecation is never undone.\<close>

theorem policy_version_immutable:
  assumes "policy_invar db" "policy_get t i v db = Inr row"
  shows "\<exists>row'. policy_get t i v (foldl (cat_step policy_create policy_deprecate) db ops) = Inr row' \<and>
    row_definition row' = row_definition row \<and> (row_deprecated row \<longrightarrow> row_deprecated row')"
  using assms by (rule policy_catalog.run_keeps)

definition sample_row :: policy_row where
  "sample_row = \<lparr>row_tenant = ''t'', row_id = ''plant_a'', row_version = ''1.0.0'', row_kind = ''TWIN'',
     row_definition = sample_policy, row_schema = derive_policy sample_policy, row_deprecated = False,
     row_created = 5, row_updated = 5\<rparr>"

lemma sample_db:
  "policy_create ''t'' (Some sample_policy_json) 5 [] = Inr (sample_row, [sample_row])"
  by (simp add: policy_create_def sample_policy_normalizes cat_insert_def sample_row_def sample_policy_def Let_def)

lemma sample_db_invar: "policy_invar [sample_row]"
proof -
  have "policy_invar []" by (simp add: policy_invar_def cat_invar_def)
  then show ?thesis using sample_db by (rule policy_create_invar)
qed

theorem policy_version_immutable_witness:
  "\<exists>row'. policy_get ''t'' ''plant_a'' ''1.0.0''
     (foldl (cat_step policy_create policy_deprecate) [sample_row]
        [OpDeprecate ''t'' ''plant_a'' ''1.0.0'' 9, OpCreate ''t'' (Some sample_policy_json) 10]) = Inr row' \<and>
   row_definition row' = row_definition sample_row \<and> (row_deprecated sample_row \<longrightarrow> row_deprecated row')"
proof -
  have "policy_get ''t'' ''plant_a'' ''1.0.0'' [sample_row] = Inr sample_row"
    by (simp add: policy_get_def cat_get_def row_key_def sample_row_def)
  with sample_db_invar show ?thesis by (rule policy_version_immutable)
qed

text \<open>C2: Resolve never leaves the tenant: a resolved document is the derived document of the newest
  version, among those that are not deprecated, of one id of that very tenant, or, when the tenant
  has no such version of the default policy, the built-in owner policy of that tenant.\<close>

theorem resolve_stays_in_tenant:
  assumes "policy_invar db" "policy_resolve t pid db = Inr d"
  shows "(\<exists>r \<in> set db. row_tenant r = t \<and> \<not> row_deprecated r \<and> d = derive_policy (row_definition r) \<and>
            (\<forall>q \<in> set db. row_tenant q = t \<and> row_id q = row_id r \<and> \<not> row_deprecated q \<longrightarrow>
               version_key (row_version q) \<le> version_key (row_version r))) \<or>
         d = builtin_owner_policy t \<and>
           (\<forall>q \<in> set db. row_tenant q = t \<and> row_id q = default_policy_id \<longrightarrow> row_deprecated q)"
proof -
  from assms(2) obtain c where
    c: "case cat_newest t c db of Some r \<Rightarrow> d = row_schema r
        | None \<Rightarrow> c = default_policy_id \<and> d = builtin_owner_policy t"
    by (rule policy_resolve_InrD)
  show ?thesis
  proof (cases "cat_newest t c db")
    case None
    then have "\<forall>q \<in> set db. row_tenant q = t \<and> row_id q = c \<longrightarrow> row_deprecated q"
      by (simp only: cat_newest_None_iff)
    moreover from c None have "c = default_policy_id" "d = builtin_owner_policy t" by simp_all
    ultimately show ?thesis by blast
  next
    case (Some r)
    have inv: "cat_invar db" using assms(1) by (simp add: policy_invar_def)
    from Some have r: "r \<in> set db" "row_tenant r = t" "row_id r = c" "\<not> row_deprecated r"
      "\<forall>q \<in> set db. row_tenant q = t \<and> row_id q = c \<and> \<not> row_deprecated q \<longrightarrow>
         version_key (row_version q) \<le> version_key (row_version r)"
      unfolding cat_newest_Some_iff [OF inv] by blast+
    moreover have "d = derive_policy (row_definition r)"
      using c Some r(1) assms(1) by (simp add: policy_invar_def)
    ultimately show ?thesis by blast
  qed
qed

theorem resolve_stays_in_tenant_witness:
  "policy_resolve ''t'' ''tenant:t:Plant A'' [sample_row] = Inr (derive_policy sample_policy) \<and>
   (derive_policy sample_policy = builtin_owner_policy ''t'' \<or>
    (\<exists>r \<in> set [sample_row]. row_tenant r = ''t'' \<and> \<not> row_deprecated r))"
proof -
  have "policy_resolve ''t'' ''tenant:t:Plant A'' [sample_row] = Inr (derive_policy sample_policy)"
    by code_simp
  with resolve_stays_in_tenant [OF sample_db_invar this] show ?thesis by blast
qed

text \<open>A policy id scoped to another tenant is refused, whatever the catalog holds.\<close>

theorem resolve_refuses_foreign_tenant:
  assumes "CHR '':'' \<notin> set other" "other \<noteq> t"
  shows "policy_resolve t (tenant_prefix @ other @ '':'' @ pid) db = Inl ForbiddenTenant \<and>
    policy_resolve t (tenant_prefix @ other) db = Inl ForbiddenTenant"
  using assms split_policy_id_tenant [OF assms(1)]
  by (simp add: policy_resolve_def)

theorem resolve_refuses_foreign_tenant_witness:
  "policy_resolve ''t'' (tenant_prefix @ ''u'' @ '':'' @ ''default'') [] = Inl ForbiddenTenant \<and>
   policy_resolve ''t'' (tenant_prefix @ ''u'') [] = Inl ForbiddenTenant"
  by (rule resolve_refuses_foreign_tenant) simp_all

text \<open>The built-in owner policy gives the owning tenant READ, WRITE and DELETE on every resource
  below its root, and nothing to anybody else.\<close>

theorem builtin_owner_exact:
  assumes "plain_segment tenant"
  shows "authorize s (builtin_owner_policy tenant) r a \<longleftrightarrow>
    s = tenant_prefix @ tenant \<and> hd (path_segments r) = tenant \<and>
    to_upper (trim_space a) \<in> {''READ'', ''WRITE'', ''DELETE''}"
  using assms by (rule authorize_builtin_owner)

theorem builtin_owner_exact_witness:
  "plain_segment ''t'' \<and> \<not> authorize ''tenant:u'' (builtin_owner_policy ''t'') ''thing:/t/DEVICE/d'' ''READ''"
  using builtin_owner_exact [of "''t''" "''tenant:u''" "''thing:/t/DEVICE/d''" "''READ''"]
  by (simp add: plain_segment_def tenant_prefix_def)

text \<open>Listing is a partition: for a positive page size the pages 0 .. totalPages-1 are all
  readable, hasNext is false exactly on the last of them, and together they are the whole selection
  of the query, each row once; and only rows of the tenant appear.\<close>

theorem policy_list_pages_partition:
  assumes "0 < lo_page_size opts" "length db < 2 ^ 62"
  shows "\<exists>p0. policy_list t (opts\<lparr>lo_page := 0\<rparr>) db = Some p0 \<and>
    (\<forall>n < pg_total_pages p0. \<exists>p. policy_list t (opts\<lparr>lo_page := n\<rparr>) db = Some p \<and>
       pg_total_pages p = pg_total_pages p0 \<and> pg_has_next p = (Suc n < pg_total_pages p0)) \<and>
    concat (map (\<lambda>n. pg_data (the (policy_list t (opts\<lparr>lo_page := n\<rparr>) db))) [0..<pg_total_pages p0]) =
      cat_selection t (opts\<lparr>lo_kind := []\<rparr>) db \<and>
    (\<forall>r \<in> set (cat_selection t (opts\<lparr>lo_kind := []\<rparr>) db). r \<in> set db \<and> row_tenant r = t)"
proof -
  have sw: "policy_list t (opts\<lparr>lo_page := n\<rparr>) db = cat_list t ((opts\<lparr>lo_kind := []\<rparr>)\<lparr>lo_page := n\<rparr>) db" for n
    by (cases opts) (simp add: policy_list_def)
  show ?thesis
    unfolding sw using cat_list_pages [of "opts\<lparr>lo_kind := []\<rparr>" db t] assms set_cat_selection [of t _ db]
    by fastforce
qed

definition sample_options :: list_options where
  "sample_options =
     \<lparr>lo_page = 0, lo_page_size = 1, lo_kind = [], lo_latest = True, lo_include_deprecated = False\<rparr>"

theorem policy_list_pages_partition_witness:
  "let db = [sample_row\<lparr>row_id := ''b''\<rparr>, sample_row\<lparr>row_version := ''0.9.0''\<rparr>, sample_row]
   in cat_selection ''t'' (sample_options\<lparr>lo_kind := []\<rparr>) db = [sample_row\<lparr>row_id := ''b''\<rparr>, sample_row] \<and>
      (\<exists>p0. policy_list ''t'' (sample_options\<lparr>lo_page := 0\<rparr>) db = Some p0 \<and>
         concat (map (\<lambda>n. pg_data (the (policy_list ''t'' (sample_options\<lparr>lo_page := n\<rparr>) db)))
           [0..<pg_total_pages p0]) = [sample_row\<lparr>row_id := ''b''\<rparr>, sample_row])"
proof -
  let ?db = "[sample_row\<lparr>row_id := ''b''\<rparr>, sample_row\<lparr>row_version := ''0.9.0''\<rparr>, sample_row]"
  have sel: "cat_selection ''t'' (sample_options\<lparr>lo_kind := []\<rparr>) ?db = [sample_row\<lparr>row_id := ''b''\<rparr>, sample_row]"
    by code_simp
  have "0 < lo_page_size sample_options" "length ?db < 2 ^ 62" by (simp_all add: sample_options_def)
  from policy_list_pages_partition [OF this, of "''t''"] show ?thesis
    unfolding Let_def sel by blast
qed

end
