(* ===== verification/TwinRegistry.thy ===== *)
theory TwinRegistry
  imports TwinValidate Catalog PolicyStore
begin

text \<open>
  The twin registry (internal/twin/registry.go), the twin model catalog with its pins
  (internal/twinmodel/store.go) and the identity a twin read or a policy decision starts from
  (internal/twin/twin.go). The database is a record of tables; an SQL statement is a function on
  it, computed on the snapshot the statement sees.
\<close>

section \<open>The tables\<close>

text \<open>additional_info is text: NULL or blank, not JSON, or a JSON value.\<close>

datatype raw_info = NoInfo | BadInfo | Info json

record entity =
  en_id :: str
  en_tenant :: "str option"
  en_created :: millis
  en_name :: str
  en_type :: "str option"
  en_label :: "str option"
  en_info :: raw_info

record registry_row =
  rg_tenant :: str
  rg_thing_id :: str
  rg_entity_type :: str
  rg_entity_id :: str
  rg_policy_id :: str
  rg_definition :: str
  rg_attributes :: json
  rg_model_id :: "str option"
  rg_model_version :: "str option"
  rg_created :: millis
  rg_updated :: millis
  rg_version :: int

type_synonym model_row = "(twin_model, derived_schema) cat_row"

record twin_db =
  db_devices :: "entity list"
  db_assets :: "entity list"
  db_models :: "model_row list"
  db_registry :: "registry_row list"
  db_relation_types :: "str list"

datatype db_error = NoRows | QueryFailed

definition registry_key :: "registry_row \<Rightarrow> str \<times> str \<times> str" where
  "registry_key r = (rg_tenant r, rg_entity_type r, rg_entity_id r)"

definition registry_find :: "str \<times> str \<times> str \<Rightarrow> registry_row list \<Rightarrow> registry_row option" where
  "registry_find k rows = find (\<lambda>r. registry_key r = k) rows"

definition entity_table :: "str \<Rightarrow> twin_db \<Rightarrow> entity list" where
  "entity_table etype db = (if etype = ''ASSET'' then db_assets db else db_devices db)"

definition coalesce :: "str option \<Rightarrow> str \<Rightarrow> str" where
  "coalesce s d = (case s of None \<Rightarrow> d | Some x \<Rightarrow> x)"

text \<open>COALESCE(NULLIF(trim(both '_' from regexp_replace(lower(COALESCE(type,'default')), ...)),''),'default').\<close>

definition sql_canonical :: "str option \<Rightarrow> str" where
  "sql_canonical t = (let c = canonical_ident (coalesce t ''default'') in if c = [] then ''default'' else c)"

definition kind_prefix :: "str \<Rightarrow> str" where
  "kind_prefix kind = ''thingsflow:'' @ to_lower kind @ '':''"

definition definition_urn :: "str \<Rightarrow> str \<Rightarrow> str \<Rightarrow> str" where
  "definition_urn kind model_id version = kind_prefix kind @ model_id @ '':'' @ version"

definition thing_id :: "str \<Rightarrow> str \<Rightarrow> str \<Rightarrow> str" where
  "thing_id tenant etype eid = tenant @ '':'' @ to_lower etype @ '':'' @ eid"

definition default_policy_ref :: "str \<Rightarrow> str" where
  "default_policy_ref tenant = ''tenant:'' @ tenant @ '':default''"

section \<open>Upserting\<close>

text \<open>The lateral join: the model version an entity is, or becomes, pinned to.\<close>

definition pin_candidate :: "twin_db \<Rightarrow> str \<Rightarrow> str \<Rightarrow> entity \<Rightarrow> registry_row option \<Rightarrow> model_row option" where
  "pin_candidate db tenant kind e tr =
     (let pinned = (case tr of None \<Rightarrow> None | Some r \<Rightarrow> rg_model_id r);
          sel = filter (\<lambda>m. row_tenant m = tenant \<and> row_kind m = kind \<and>
                  (case pinned of
                     Some mid \<Rightarrow> row_id m = mid \<and> Some (row_version m) = rg_model_version (the tr)
                   | None \<Rightarrow> row_id m = sql_canonical (en_type e))) (db_models db)
      in find (newest_in sel) sel)"

definition info_members :: "raw_info \<Rightarrow> members" where
  "info_members i = (case i of Info (JObj kvs) \<Rightarrow> kvs | _ \<Rightarrow> [])"

definition entity_members :: "str \<Rightarrow> str \<Rightarrow> entity \<Rightarrow> members" where
  "entity_members tenant kind e =
     [(''id'', JStr (en_id e)), (''entityType'', JStr kind), (''tenantId'', JStr tenant),
      (''createdTime'', JInt (en_created e)), (''name'', JStr (en_name e)),
      (''type'', JStr (coalesce (en_type e) [])), (''label'', JStr (coalesce (en_label e) []))]"

definition project_row :: "twin_db \<Rightarrow> str \<Rightarrow> str \<Rightarrow> entity \<Rightarrow> registry_row" where
  "project_row db kind tenant e =
     (let tr = registry_find (tenant, kind, en_id e) (db_registry db);
          tm = pin_candidate db tenant kind e tr;
          pinned = (case tr of None \<Rightarrow> None | Some r \<Rightarrow> rg_model_id r)
      in \<lparr>rg_tenant = tenant, rg_thing_id = thing_id tenant kind (en_id e), rg_entity_type = kind,
          rg_entity_id = en_id e, rg_policy_id = default_policy_ref tenant,
          rg_definition =
            (case (pinned, tm) of
               (Some _, _) \<Rightarrow> rg_definition (the tr)
             | (None, Some m) \<Rightarrow> definition_urn kind (row_id m) (row_version m)
             | (None, None) \<Rightarrow> definition_urn kind (sql_canonical (en_type e)) ''1.0.0''),
          rg_attributes = canon (JObj (info_members (en_info e) @ entity_members tenant kind e)),
          rg_model_id = (case pinned of Some mid \<Rightarrow> Some mid | None \<Rightarrow> map_option row_id tm),
          rg_model_version = (case pinned of Some _ \<Rightarrow> rg_model_version (the tr) | None \<Rightarrow> map_option row_version tm),
          rg_created = en_created e, rg_updated = en_created e, rg_version = 1\<rparr>)"

definition same_projection :: "registry_row \<Rightarrow> registry_row \<Rightarrow> bool" where
  "same_projection a b \<longleftrightarrow> rg_thing_id a = rg_thing_id b \<and> rg_policy_id a = rg_policy_id b \<and>
     rg_definition a = rg_definition b \<and> rg_attributes a = rg_attributes b \<and>
     rg_model_id a = rg_model_id b \<and> rg_model_version a = rg_model_version b"

text \<open>ON CONFLICT DO UPDATE ... WHERE ... IS DISTINCT FROM.\<close>

definition upsert_row :: "registry_row \<Rightarrow> registry_row list \<Rightarrow> registry_row list" where
  "upsert_row new rows =
     (case registry_find (registry_key new) rows of
        None \<Rightarrow> rows @ [new]
      | Some old \<Rightarrow>
          if same_projection old new then rows
          else map (\<lambda>r. if registry_key r = registry_key new
                 then new\<lparr>rg_created := rg_created r, rg_version := rg_version r + 1\<rparr> else r) rows)"

definition sync_select :: "str \<Rightarrow> twin_db \<Rightarrow> (entity \<Rightarrow> bool) \<Rightarrow> (str \<times> entity) list" where
  "sync_select kind db p =
     [(t, e). e \<leftarrow> entity_table kind db, p e, t \<leftarrow> (case en_tenant e of None \<Rightarrow> [] | Some t \<Rightarrow> [t])]"

text \<open>The shared statement; a row whose additional_info is not JSON makes it fail as a whole.\<close>

definition registry_upsert :: "str \<Rightarrow> (entity \<Rightarrow> bool) \<Rightarrow> twin_db \<Rightarrow> db_error + twin_db" where
  "registry_upsert kind p db =
     (let src = sync_select kind db p
      in if list_ex (\<lambda>(t, e). en_info e = BadInfo) src then Inl QueryFailed
         else Inr (db\<lparr>db_registry :=
                foldl (\<lambda>rows te. upsert_row (project_row db kind (fst te) (snd te)) rows) (db_registry db) src\<rparr>))"

definition sync_registry_row :: "str \<Rightarrow> str \<Rightarrow> str \<Rightarrow> twin_db \<Rightarrow> db_error + twin_db" where
  "sync_registry_row tenant etype eid db =
     (let kind = to_upper (trim_space etype)
      in if kind = ''DEVICE'' \<or> kind = ''ASSET''
         then registry_upsert kind (\<lambda>e. en_tenant e = Some tenant \<and> en_id e = eid) db
         else Inl QueryFailed)"

definition delete_registry_row :: "str \<Rightarrow> str \<Rightarrow> str \<Rightarrow> twin_db \<Rightarrow> twin_db" where
  "delete_registry_row tenant etype eid db =
     db\<lparr>db_registry := filter (\<lambda>r. registry_key r \<noteq> (tenant, to_upper (trim_space etype), eid)) (db_registry db)\<rparr>"

section \<open>Sweeping\<close>

definition is_orphan :: "twin_db \<Rightarrow> registry_row \<Rightarrow> bool" where
  "is_orphan db r \<longleftrightarrow>
     (rg_entity_type r = ''DEVICE'' \<and>
        \<not> list_ex (\<lambda>e. en_id e = rg_entity_id r \<and> en_tenant e = Some (rg_tenant r)) (db_devices db)) \<or>
     (rg_entity_type r = ''ASSET'' \<and>
        \<not> list_ex (\<lambda>e. en_id e = rg_entity_id r \<and> en_tenant e = Some (rg_tenant r)) (db_assets db))"

definition default_sweep_max :: int where "default_sweep_max = 1000"

definition sweep_max :: "str \<Rightarrow> int" where
  "sweep_max v =
     (if v \<noteq> [] then (case atoi v of Some n \<Rightarrow> if 0 < n then n else default_sweep_max | None \<Rightarrow> default_sweep_max)
      else default_sweep_max)"

definition sweep_registry_orphans :: "str \<Rightarrow> twin_db \<Rightarrow> int \<times> twin_db" where
  "sweep_registry_orphans env db =
     (let candidates = int (length (filter (is_orphan db) (db_registry db)))
      in if candidates = 0 then (0, db)
         else if db_devices db = [] \<and> db_assets db = [] then (0, db)
         else if sweep_max env < candidates then (0, db)
         else (candidates, db\<lparr>db_registry := filter (\<lambda>r. \<not> is_orphan db r) (db_registry db)\<rparr>))"

text \<open>The three independent passes; the flag tells whether a pass failed.\<close>

definition upsert_pass :: "str \<Rightarrow> twin_db \<Rightarrow> bool \<times> twin_db" where
  "upsert_pass kind db =
     (case registry_upsert kind (\<lambda>_. True) db of Inl _ \<Rightarrow> (True, db) | Inr db' \<Rightarrow> (False, db'))"

definition backfill_registry :: "str \<Rightarrow> twin_db \<Rightarrow> bool \<times> twin_db" where
  "backfill_registry env db =
     (let (e1, db1) = upsert_pass ''DEVICE'' db; (e2, db2) = upsert_pass ''ASSET'' db1
      in (e1 \<or> e2, snd (sweep_registry_orphans env db2)))"

section \<open>The model catalog\<close>

definition model_get :: "str \<Rightarrow> str \<Rightarrow> str \<Rightarrow> twin_db \<Rightarrow> model_error cat_error + model_row" where
  "model_get tenant mid version db = or_fail (cat_get tenant mid version (db_models db)) NotFound"

definition activates :: "str \<Rightarrow> twin_model \<Rightarrow> twin_db \<Rightarrow> registry_row \<Rightarrow> bool" where
  "activates tenant m db r \<longleftrightarrow>
     rg_tenant r = tenant \<and> rg_entity_type r = tm_kind m \<and> rg_model_id r = None \<and>
     list_ex (\<lambda>e. en_id e = rg_entity_id r \<and> en_tenant e = Some (rg_tenant r) \<and>
                   sql_canonical (en_type e) = tm_id m) (entity_table (tm_kind m) db)"

definition activate_matching_registry_rows :: "str \<Rightarrow> twin_model \<Rightarrow> millis \<Rightarrow> twin_db \<Rightarrow> twin_db" where
  "activate_matching_registry_rows tenant m now db =
     db\<lparr>db_registry := map (\<lambda>r. if activates tenant m db r
          then r\<lparr>rg_model_id := Some (tm_id m), rg_model_version := Some (tm_version m),
                 rg_definition := definition_urn (tm_kind m) (tm_id m) (tm_version m),
                 rg_updated := now, rg_version := rg_version r + 1\<rparr>
          else r) (db_registry db)\<rparr>"

fun validate_relation_vocabulary :: "str list \<Rightarrow> str list \<Rightarrow> model_error cat_error + unit" where
  "validate_relation_vocabulary vocab [] = Inr ()"
| "validate_relation_vocabulary vocab (n # ns) =
     (if n \<in> set vocab then validate_relation_vocabulary vocab ns else Inl (UnknownRelationType n))"

text \<open>One transaction: on any error nothing of it is kept.\<close>

definition model_create ::
  "regex_engine \<Rightarrow> str \<Rightarrow> raw_message \<Rightarrow> millis \<Rightarrow> twin_db \<Rightarrow> model_error cat_error + model_row \<times> twin_db" where
  "model_create rx tenant authored now db =
     and_then (wrap_err InvalidDocument (model_normalize rx authored)) (\<lambda>(m, schema).
     and_then (validate_relation_vocabulary (db_relation_types db) (map fst (tm_relationships m))) (\<lambda>_.
       let r = \<lparr>row_tenant = tenant, row_id = tm_id m, row_version = tm_version m, row_kind = tm_kind m,
                row_definition = m, row_schema = schema, row_deprecated = False,
                row_created = now, row_updated = now\<rparr>
       in (case cat_insert r (db_models db) of
             None \<Rightarrow> Inl Conflict
           | Some models \<Rightarrow>
               Inr (r, activate_matching_registry_rows tenant m now (db\<lparr>db_models := models\<rparr>)))))"

definition model_deprecate ::
  "str \<Rightarrow> str \<Rightarrow> str \<Rightarrow> millis \<Rightarrow> twin_db \<Rightarrow> model_error cat_error + model_row \<times> twin_db" where
  "model_deprecate tenant mid version now db =
     (case cat_deprecate tenant mid version now (db_models db) of
        (None, _) \<Rightarrow> Inl NotFound
      | (Some r, models) \<Rightarrow> Inr (r, db\<lparr>db_models := models\<rparr>))"

definition model_list :: "str \<Rightarrow> list_options \<Rightarrow> twin_db \<Rightarrow> (twin_model, derived_schema) page option" where
  "model_list tenant opts db = cat_list tenant opts (db_models db)"

record pin =
  pin_entity_type :: str
  pin_entity_id :: str
  pin_model_id :: str
  pin_version :: str
  pin_definition :: str

definition set_pin :: "str \<Rightarrow> str \<Rightarrow> str \<Rightarrow> millis \<Rightarrow> registry_row \<Rightarrow> registry_row" where
  "set_pin mid version def now r =
     (let same = (rg_model_id r = Some mid \<and> rg_model_version r = Some version)
      in r\<lparr>rg_model_id := Some mid, rg_model_version := Some version, rg_definition := def,
           rg_updated := (if same then rg_updated r else now),
           rg_version := (if same then rg_version r else rg_version r + 1)\<rparr>)"

definition model_repoint ::
  "str \<Rightarrow> str \<Rightarrow> str \<Rightarrow> str \<Rightarrow> str \<Rightarrow> bool \<Rightarrow> millis \<Rightarrow> twin_db \<Rightarrow> model_error cat_error + pin \<times> twin_db" where
  "model_repoint caller etype eid mid version sys_admin now db =
     (case find (\<lambda>e. en_id e = eid) (entity_table etype db) of
        None \<Rightarrow> Inl NotFound
      | Some e \<Rightarrow>
          (case en_tenant e of
             None \<Rightarrow> Inl StoreFailure
           | Some actual \<Rightarrow>
               if \<not> sys_admin \<and> actual \<noteq> caller then Inl ForbiddenTenant
               else (case cat_get actual mid version (db_models db) of
                       None \<Rightarrow> Inl NotFound
                     | Some m \<Rightarrow>
                         if row_deprecated m then Inl DeprecatedVersion
                         else if row_kind m \<noteq> etype then Inl KindMismatch
                         else let k = (actual, etype, eid); def = definition_urn etype mid version
                              in if registry_find k (db_registry db) = None then Inl NotFound
                                 else Inr (\<lparr>pin_entity_type = etype, pin_entity_id = eid, pin_model_id = mid,
                                            pin_version = version, pin_definition = def\<rparr>,
                                           db\<lparr>db_registry := map (\<lambda>r. if registry_key r = k
                                                then set_pin mid version def now r else r) (db_registry db)\<rparr>))))"

section \<open>Identity\<close>

record entity_row =
  er_type :: str
  er_entity :: entity
  er_tenant :: str

text \<open>A NULL tenant cannot be scanned into a string.\<close>

definition load_entity :: "str \<Rightarrow> str \<Rightarrow> twin_db \<Rightarrow> db_error + entity_row" where
  "load_entity etype eid db =
     (case find (\<lambda>e. en_id e = eid) (entity_table etype db) of
        None \<Rightarrow> Inl NoRows
      | Some e \<Rightarrow> (case en_tenant e of
                     None \<Rightarrow> Inl QueryFailed
                   | Some t \<Rightarrow> Inr \<lparr>er_type = etype, er_entity = e, er_tenant = t\<rparr>))"

definition get_registry_by_entity :: "str \<Rightarrow> str \<Rightarrow> str \<Rightarrow> twin_db \<Rightarrow> db_error + registry_row" where
  "get_registry_by_entity tenant etype eid db =
     or_fail (registry_find (tenant, to_upper etype, eid) (db_registry db)) NoRows"

definition definition_char :: "char \<Rightarrow> bool" where
  "definition_char c \<longleftrightarrow> is_lower c \<or> is_upper c \<or> is_digit c \<or> c = CHR ''_''"

definition definition_of :: "str \<Rightarrow> str \<Rightarrow> str" where
  "definition_of etype typ =
     (let part = trim_char CHR ''_'' (replace_runs definition_char CHR ''_'' typ);
          part' = (if part = [] then ''default'' else part)
      in kind_prefix etype @ to_lower part' @ '':1.0.0'')"

definition build_attributes :: "entity_row \<Rightarrow> members" where
  "build_attributes r =
     (let attrs = entity_members (er_tenant r) (er_type r) (er_entity r)
      in attrs @ filter (\<lambda>kv. fst kv \<notin> fst ` set attrs) (decode_map (info_members (en_info (er_entity r)))))"

record identity_projection =
  ip_thing_id :: str
  ip_policy_id :: str
  ip_definition :: str
  ip_attributes :: json

definition load_identity :: "entity_row \<Rightarrow> twin_db \<Rightarrow> db_error + identity_projection" where
  "load_identity row db =
     (let fallback = \<lparr>ip_thing_id = thing_id (er_tenant row) (er_type row) (en_id (er_entity row)),
                      ip_policy_id = default_policy_ref (er_tenant row),
                      ip_definition = definition_of (er_type row) (coalesce (en_type (er_entity row)) []),
                      ip_attributes = JObj (build_attributes row)\<rparr>
      in (case get_registry_by_entity (er_tenant row) (er_type row) (en_id (er_entity row)) db of
            Inl NoRows \<Rightarrow> Inr fallback
          | Inl QueryFailed \<Rightarrow> Inl QueryFailed
          | Inr reg \<Rightarrow> Inr \<lparr>ip_thing_id = rg_thing_id reg, ip_policy_id = rg_policy_id reg,
                           ip_definition = rg_definition reg,
                           ip_attributes = (if as_object (Some (rg_attributes reg)) = [] then ip_attributes fallback
                                            else rg_attributes reg)\<rparr>))"

definition policy_context :: "twin_db \<Rightarrow> str \<Rightarrow> str \<Rightarrow> db_error + str \<times> str" where
  "policy_context db etype eid =
     and_then (load_entity etype eid db) (\<lambda>row.
     and_then (load_identity row db) (\<lambda>identity. Inr (er_tenant row, ip_policy_id identity)))"

end
