(* ===== verification/TwinRegistryLaws.thy ===== *)
theory TwinRegistryLaws
  imports TwinRegistry
begin

text \<open>
  The contract of the twin model catalog and the invariants of the twin registry: identity rows are
  unique per entity, carry the entity's kind and thing id, and a pin always points at a version of
  the tenant's catalog of the entity's kind.
\<close>

section \<open>The catalog contract\<close>

definition model_invar :: "twin_db \<Rightarrow> bool" where
  "model_invar db \<longleftrightarrow> cat_invar (db_models db)"

lemma activate_models [simp]: "db_models (activate_matching_registry_rows t m now db) = db_models db"
  by (simp add: activate_matching_registry_rows_def)

lemma model_create_Inr:
  "model_create rx t raw now db = Inr (r, db') \<longleftrightarrow>
     (\<exists>m d. model_normalize rx raw = Inr (m, d) \<and>
        validate_relation_vocabulary (db_relation_types db) (map fst (tm_relationships m)) = Inr () \<and>
        r = \<lparr>row_tenant = t, row_id = tm_id m, row_version = tm_version m, row_kind = tm_kind m,
             row_definition = m, row_schema = d, row_deprecated = False, row_created = now, row_updated = now\<rparr> \<and>
        row_key r \<notin> row_key ` set (db_models db) \<and>
        db' = activate_matching_registry_rows t m now (db\<lparr>db_models := db_models db @ [r]\<rparr>))"
  unfolding model_create_def and_then_Inr wrap_err_Inr
  by (auto simp: cat_insert_def Let_def and_then_Inr split: if_splits option.splits)

lemma model_create_models:
  "model_create rx t raw now db = Inr (r, db') \<Longrightarrow>
     db_models db' = db_models db @ [r] \<and> row_key r \<notin> row_key ` set (db_models db) \<and>
     row_tenant r = t \<and> \<not> row_deprecated r"
  by (auto simp: model_create_Inr)

lemma model_create_invar:
  assumes "model_invar db" "model_create rx t raw now db = Inr (r, db')"
  shows "model_invar db'"
proof -
  from assms(2) obtain m d where n: "model_normalize rx raw = Inr (m, d)" and
    r: "row_id r = tm_id m" "row_version r = tm_version m" by (auto simp: model_create_Inr)
  from n obtain a where "normalize_model a = Inr (m, d)" by (rule model_normalize_InrD)
  then have "wf_model m" by (auto dest: normalize_model_Inr)
  then have "validate_version (row_version r) = Inr ()" "normalize_ident (row_id r) = Inr (row_id r)"
    by (simp_all add: wf_model_def r)
  moreover have "cat_insert r (db_models db) = Some (db_models db')"
    using model_create_models [OF assms(2)] by (simp add: cat_insert_def)
  ultimately show ?thesis using assms(1) by (auto simp: model_invar_def intro: cat_invar_insert)
qed

lemma model_deprecate_Inr:
  "model_deprecate t i v now db = Inr (r, db') \<longleftrightarrow>
     (\<exists>old. cat_get t i v (db_models db) = Some old \<and> r = deprecate_row now old \<and>
        db' = db\<lparr>db_models := map (\<lambda>q. if row_key q = (t, i, v) then deprecate_row now q else q) (db_models db)\<rparr>)"
  by (auto simp: model_deprecate_def cat_deprecate_def Let_def cat_get_deprecated
      split: option.splits prod.splits dest: cat_get_key)

lemma model_deprecate_invar:
  assumes "model_invar db" "model_deprecate t i v now db = Inr (r, db')"
  shows "model_invar db'"
proof -
  have "db_models db' = snd (cat_deprecate t i v now (db_models db))"
    using assms(2) by (auto simp: model_deprecate_Inr cat_deprecate_def Let_def)
  then show ?thesis using assms(1) by (simp add: model_invar_def cat_invar_deprecate)
qed

interpretation model_catalog: versioned_catalog "model_create rx" model_get model_deprecate
    row_key row_definition row_deprecated model_invar for rx
proof (unfold_locales, goal_cases)
  case (1 db t raw now row db' t' i v)
  then show ?case using model_create_models [OF 1(2)]
    by (auto simp: model_get_def cat_get_append cat_get_None_iff [THEN iffD2] row_key_def or_fail_def)
next
  case (2 db t raw now row db' t' i v)
  then show ?case using model_create_models [OF 2(2)]
    by (auto simp: model_get_def cat_get_append split: option.splits)
next
  case (3 db t raw now row db')
  then show ?case by (rule model_create_invar)
next
  case (4 db t i v now row db')
  then show ?case unfolding model_deprecate_Inr
    by (auto simp: model_get_def cat_get_deprecated deprecate_row_def dest: cat_get_key)
next
  case (5 db t i v now row db' t' i' v')
  then show ?case unfolding model_deprecate_Inr
    by (auto simp: model_get_def cat_get_deprecated_other)
next
  case (6 db t i v now row db')
  then show ?case by (rule model_deprecate_invar)
qed

section \<open>The registry invariant\<close>

definition pin_ok :: "model_row list \<Rightarrow> registry_row \<Rightarrow> bool" where
  "pin_ok models r \<longleftrightarrow>
     (case (rg_model_id r, rg_model_version r) of
        (None, None) \<Rightarrow> True
      | (Some mid, Some v) \<Rightarrow>
          (\<exists>m \<in> set models. row_key m = (rg_tenant r, mid, v) \<and> row_kind m = rg_entity_type r) \<and>
          rg_definition r = definition_urn (rg_entity_type r) mid v
      | _ \<Rightarrow> False)"

definition row_ok :: "model_row list \<Rightarrow> registry_row \<Rightarrow> bool" where
  "row_ok models r \<longleftrightarrow> rg_entity_type r \<in> {''DEVICE'', ''ASSET''} \<and>
     rg_thing_id r = thing_id (rg_tenant r) (rg_entity_type r) (rg_entity_id r) \<and> pin_ok models r"

definition registry_invar :: "twin_db \<Rightarrow> bool" where
  "registry_invar db \<longleftrightarrow> distinct (map registry_key (db_registry db)) \<and>
     (\<forall>r \<in> set (db_registry db). row_ok (db_models db) r)"

lemma registry_find_Some:
  "registry_find k rows = Some r \<Longrightarrow> r \<in> set rows \<and> registry_key r = k"
  unfolding registry_find_def by (rule find_SomeD)

lemma registry_find_None: "registry_find k rows = None \<longleftrightarrow> k \<notin> registry_key ` set rows"
  by (auto simp: registry_find_def find_None_iff)

lemma pin_ok_mono:
  assumes "pin_ok models r" "\<And>m. m \<in> set models \<Longrightarrow> \<exists>m' \<in> set models'. row_key m' = row_key m \<and> row_kind m' = row_kind m"
  shows "pin_ok models' r"
proof (cases "rg_model_id r"; cases "rg_model_version r")
  fix mid v assume s: "rg_model_id r = Some mid" "rg_model_version r = Some v"
  with assms(1) obtain m where "m \<in> set models" "row_key m = (rg_tenant r, mid, v)" "row_kind m = rg_entity_type r"
    "rg_definition r = definition_urn (rg_entity_type r) mid v" by (auto simp: pin_ok_def)
  with assms(2) s show ?thesis by (fastforce simp: pin_ok_def)
qed (use assms(1) in \<open>simp_all add: pin_ok_def\<close>)

lemma row_ok_mono:
  "row_ok models r \<Longrightarrow>
   (\<And>m. m \<in> set models \<Longrightarrow> \<exists>m' \<in> set models'. row_key m' = row_key m \<and> row_kind m' = row_kind m) \<Longrightarrow>
   row_ok models' r"
  unfolding row_ok_def using pin_ok_mono by blast

lemma registry_invar_models:
  assumes "registry_invar db"
    "\<And>m. m \<in> set (db_models db) \<Longrightarrow> \<exists>m' \<in> set models'. row_key m' = row_key m \<and> row_kind m' = row_kind m"
  shows "registry_invar (db\<lparr>db_models := models'\<rparr>)"
  using assms row_ok_mono [of "db_models db" _ models'] by (simp add: registry_invar_def)

lemma registry_invar_map:
  assumes "registry_invar db" "\<And>r. registry_key (f r) = registry_key r"
    "\<And>r. r \<in> set (db_registry db) \<Longrightarrow> row_ok (db_models db) r \<Longrightarrow> row_ok (db_models db) (f r)"
  shows "registry_invar (db\<lparr>db_registry := map f (db_registry db)\<rparr>)"
  using assms by (simp add: registry_invar_def comp_def)

lemma registry_invar_filter:
  "registry_invar db \<Longrightarrow> registry_invar (db\<lparr>db_registry := filter p (db_registry db)\<rparr>)"
  by (simp add: registry_invar_def distinct_map_filter)

lemma row_ok_pinned:
  assumes "row_ok models r" "m \<in> set models" "row_key m = (rg_tenant r, mid, v)" "row_kind m = rg_entity_type r"
  shows "row_ok models (r\<lparr>rg_model_id := Some mid, rg_model_version := Some v,
    rg_definition := definition_urn (rg_entity_type r) mid v, rg_updated := u, rg_version := n\<rparr>)"
  using assms unfolding row_ok_def pin_ok_def by auto

subsection \<open>Creation, deprecation and re-pointing\<close>

lemma model_create_registry:
  assumes "registry_invar db" "model_create rx t raw now db = Inr (r, db')"
  shows "registry_invar db'"
proof -
  from assms(2) obtain m where r: "row_key r = (t, tm_id m, tm_version m)" "row_kind r = tm_kind m"
    and db': "db' = activate_matching_registry_rows t m now (db\<lparr>db_models := db_models db @ [r]\<rparr>)"
    by (auto simp: model_create_Inr row_key_def)
  let ?db = "db\<lparr>db_models := db_models db @ [r]\<rparr>"
  have inv: "registry_invar ?db" using assms(1) by (rule registry_invar_models) auto
  show ?thesis
    unfolding db' activate_matching_registry_rows_def
  proof (rule registry_invar_map [OF inv])
    fix q
    show "registry_key (if activates t m ?db q then q\<lparr>rg_model_id := Some (tm_id m),
        rg_model_version := Some (tm_version m), rg_definition := definition_urn (tm_kind m) (tm_id m) (tm_version m),
        rg_updated := now, rg_version := rg_version q + 1\<rparr> else q) = registry_key q"
      by (simp add: registry_key_def)
    assume ok: "row_ok (db_models ?db) q"
    show "row_ok (db_models ?db) (if activates t m ?db q then q\<lparr>rg_model_id := Some (tm_id m),
        rg_model_version := Some (tm_version m), rg_definition := definition_urn (tm_kind m) (tm_id m) (tm_version m),
        rg_updated := now, rg_version := rg_version q + 1\<rparr> else q)"
    proof (cases "activates t m ?db q")
      case True
      then have "rg_tenant q = t" "rg_entity_type q = tm_kind m" by (simp_all add: activates_def)
      then show ?thesis using True row_ok_pinned [OF ok, of r "tm_id m" "tm_version m"] r by simp
    qed (use ok in simp)
  qed
qed

lemma model_deprecate_registry:
  assumes "registry_invar db" "model_deprecate t i v now db = Inr (r, db')"
  shows "registry_invar db'"
proof -
  from assms(2) have db': "db' = db\<lparr>db_models := map (\<lambda>q. if row_key q = (t, i, v) then deprecate_row now q else q) (db_models db)\<rparr>"
    by (auto simp: model_deprecate_Inr)
  show ?thesis unfolding db'
  proof (rule registry_invar_models [OF assms(1)])
    fix m assume "m \<in> set (db_models db)"
    then show "\<exists>m' \<in> set (map (\<lambda>q. if row_key q = (t, i, v) then deprecate_row now q else q) (db_models db)).
        row_key m' = row_key m \<and> row_kind m' = row_kind m"
      by (intro bexI [of _ "if row_key m = (t, i, v) then deprecate_row now m else m"])
         (auto simp: deprecate_row_def row_key_def)
  qed
qed

lemma model_repoint_InrD:
  assumes "model_repoint caller etype eid mid v admin now db = Inr (p, db')"
  obtains t m where "en_tenant (the (find (\<lambda>e. en_id e = eid) (entity_table etype db))) = Some t"
    "admin \<or> t = caller" "cat_get t mid v (db_models db) = Some m" "\<not> row_deprecated m" "row_kind m = etype"
    "registry_find (t, etype, eid) (db_registry db) \<noteq> None"
    "db' = db\<lparr>db_registry := map (\<lambda>r. if registry_key r = (t, etype, eid)
        then set_pin mid v (definition_urn etype mid v) now r else r) (db_registry db)\<rparr>"
proof -
  from assms obtain e where e: "find (\<lambda>e. en_id e = eid) (entity_table etype db) = Some e"
    by (auto simp: model_repoint_def split: option.splits)
  with assms obtain t where t: "en_tenant e = Some t" "admin \<or> t = caller"
    by (auto simp: model_repoint_def split: option.splits if_splits)
  with assms e obtain m where m: "cat_get t mid v (db_models db) = Some m"
    by (auto simp: model_repoint_def split: option.splits if_splits)
  have "\<not> row_deprecated m \<and> row_kind m = etype \<and> registry_find (t, etype, eid) (db_registry db) \<noteq> None \<and>
    db' = db\<lparr>db_registry := map (\<lambda>r. if registry_key r = (t, etype, eid)
        then set_pin mid v (definition_urn etype mid v) now r else r) (db_registry db)\<rparr>"
    using assms e t m by (auto simp: model_repoint_def Let_def if_fail_Inr split: if_splits)
  with that e t m show thesis by simp
qed

lemma registry_key_set_pin [simp]: "registry_key (set_pin mid v def now r) = registry_key r"
  by (simp add: set_pin_def Let_def registry_key_def)

lemma row_ok_set_pin:
  assumes "row_ok models r" "m \<in> set models" "row_key m = (rg_tenant r, mid, v)" "row_kind m = rg_entity_type r"
  shows "row_ok models (set_pin mid v (definition_urn (rg_entity_type r) mid v) now r)"
  using row_ok_pinned [OF assms] by (simp add: set_pin_def Let_def)

lemma model_repoint_registry:
  assumes "registry_invar db" "model_repoint caller etype eid mid v admin now db = Inr (p, db')"
  shows "registry_invar db'"
proof -
  from assms(2) obtain t m where m: "cat_get t mid v (db_models db) = Some m" "row_kind m = etype"
    and db': "db' = db\<lparr>db_registry := map (\<lambda>r. if registry_key r = (t, etype, eid)
        then set_pin mid v (definition_urn etype mid v) now r else r) (db_registry db)\<rparr>"
    by (rule model_repoint_InrD)
  have mm: "m \<in> set (db_models db)" "row_key m = (t, mid, v)"
    using m(1) find_SomeD unfolding cat_get_def by fast+
  show ?thesis unfolding db'
  proof (rule registry_invar_map [OF assms(1)])
    fix r
    show "registry_key (if registry_key r = (t, etype, eid)
        then set_pin mid v (definition_urn etype mid v) now r else r) = registry_key r" by simp
    assume ok: "row_ok (db_models db) r"
    show "row_ok (db_models db) (if registry_key r = (t, etype, eid)
        then set_pin mid v (definition_urn etype mid v) now r else r)"
    proof (cases "registry_key r = (t, etype, eid)")
      case True
      then have "rg_tenant r = t" "rg_entity_type r = etype" by (simp_all add: registry_key_def)
      then show ?thesis using True row_ok_set_pin [OF ok mm(1), of mid v now] mm(2) m(2) by simp
    qed (use ok in simp)
  qed
qed

subsection \<open>Upserts and sweeps\<close>

lemma registry_key_project [simp]: "registry_key (project_row db kind t e) = (t, kind, en_id e)"
  by (simp add: project_row_def Let_def registry_key_def)

lemma pin_candidate_ok:
  assumes "pin_candidate db t kind e tr = Some m" "case tr of None \<Rightarrow> True | Some r \<Rightarrow> rg_model_id r = None"
  shows "m \<in> set (db_models db) \<and> row_tenant m = t \<and> row_kind m = kind"
  using assms unfolding pin_candidate_def Let_def by (auto dest!: find_SomeD split: option.splits)

lemma project_row_ok:
  assumes "registry_invar db" "kind \<in> {''DEVICE'', ''ASSET''}"
  shows "row_ok (db_models db) (project_row db kind t e)"
proof -
  let ?tr = "registry_find (t, kind, en_id e) (db_registry db)"
  let ?new = "project_row db kind t e"
  have base: "rg_entity_type ?new = kind" "rg_tenant ?new = t" "rg_thing_id ?new = thing_id t kind (rg_entity_id ?new)"
    by (simp_all add: project_row_def Let_def)
  have "pin_ok (db_models db) ?new"
  proof (cases "\<exists>r mid. ?tr = Some r \<and> rg_model_id r = Some mid")
    case True
    then obtain r mid where r: "?tr = Some r" "rg_model_id r = Some mid" by blast
    then have "pin_ok (db_models db) r" "rg_tenant r = t" "rg_entity_type r = kind"
      using assms(1) registry_find_Some [OF r(1)] by (auto simp: registry_invar_def row_ok_def registry_key_def)
    then show ?thesis using r by (auto simp: pin_ok_def project_row_def Let_def split: option.splits)
  next
    case False
    then have np: "case ?tr of None \<Rightarrow> True | Some r \<Rightarrow> rg_model_id r = None" by (auto split: option.splits)
    then have none: "(case ?tr of None \<Rightarrow> None | Some r \<Rightarrow> rg_model_id r) = None" by (auto split: option.splits)
    show ?thesis
    proof (cases "pin_candidate db t kind e ?tr")
      case None
      then show ?thesis by (simp add: pin_ok_def project_row_def Let_def none)
    next
      case (Some m)
      from pin_candidate_ok [OF this np] Some show ?thesis
        by (auto simp: pin_ok_def project_row_def Let_def none row_key_def)
    qed
  qed
  with base assms(2) show ?thesis by (simp add: row_ok_def)
qed

lemma row_ok_counters [simp]: "row_ok models (r\<lparr>rg_created := c, rg_version := n\<rparr>) = row_ok models r"
  by (cases "rg_model_id r"; cases "rg_model_version r") (simp_all add: row_ok_def pin_ok_def)

lemma upsert_row_keeps:
  assumes "distinct (map registry_key rows)" "\<forall>r \<in> set rows. row_ok models r" "row_ok models new"
  shows "distinct (map registry_key (upsert_row new rows)) \<and> (\<forall>r \<in> set (upsert_row new rows). row_ok models r)"
proof (cases "registry_find (registry_key new) rows")
  case None
  then have "upsert_row new rows = rows @ [new]" by (simp add: upsert_row_def)
  moreover from None have "registry_key new \<notin> registry_key ` set rows" by (rule registry_find_None [THEN iffD1])
  ultimately show ?thesis using assms by simp
next
  case (Some old)
  let ?f = "\<lambda>r. if registry_key r = registry_key new
      then new\<lparr>rg_created := rg_created r, rg_version := rg_version r + 1\<rparr> else r"
  have keys: "map registry_key (map ?f rows) = map registry_key rows" by (simp add: registry_key_def)
  have ok: "\<forall>r \<in> set (map ?f rows). row_ok models r" using assms(2,3) by auto
  have "upsert_row new rows = rows \<or> upsert_row new rows = map ?f rows" using Some by (simp add: upsert_row_def)
  then show ?thesis
  proof
    assume "upsert_row new rows = map ?f rows"
    then show ?thesis using keys ok assms(1) by (simp only:)
  qed (use assms in simp)
qed

lemma upsert_all_keeps:
  "distinct (map registry_key rows) \<Longrightarrow> \<forall>r \<in> set rows. row_ok models r \<Longrightarrow>
   (\<And>te. te \<in> set src \<Longrightarrow> row_ok models (f te)) \<Longrightarrow>
   distinct (map registry_key (foldl (\<lambda>rows te. upsert_row (f te) rows) rows src)) \<and>
   (\<forall>r \<in> set (foldl (\<lambda>rows te. upsert_row (f te) rows) rows src). row_ok models r)"
proof (induction src arbitrary: rows)
  case (Cons te src)
  then have "row_ok models (f te)" by simp
  note step = upsert_row_keeps [OF Cons.prems(1,2) this]
  show ?case unfolding foldl.simps
    by (rule Cons.IH) (use step Cons.prems(3) in auto)
qed simp

lemma registry_upsert_invar:
  assumes "registry_invar db" "kind \<in> {''DEVICE'', ''ASSET''}" "registry_upsert kind p db = Inr db'"
  shows "registry_invar db' \<and> db_models db' = db_models db"
proof -
  have db': "db' = db\<lparr>db_registry :=
      foldl (\<lambda>rows te. upsert_row (project_row db kind (fst te) (snd te)) rows) (db_registry db) (sync_select kind db p)\<rparr>"
    using assms(3) by (auto simp: registry_upsert_def Let_def split: if_splits)
  have "distinct (map registry_key (db_registry db))" "\<forall>r \<in> set (db_registry db). row_ok (db_models db) r"
    using assms(1) by (simp_all add: registry_invar_def)
  from upsert_all_keeps [OF this, of "sync_select kind db p" "\<lambda>te. project_row db kind (fst te) (snd te)"]
    project_row_ok [OF assms(1,2)] show ?thesis
    by (simp add: db' registry_invar_def)
qed

lemma sweep_invar:
  "registry_invar db \<Longrightarrow> registry_invar (snd (sweep_registry_orphans env db))"
  by (auto simp: sweep_registry_orphans_def Let_def intro: registry_invar_filter)

lemma backfill_invar:
  assumes "registry_invar db"
  shows "registry_invar (snd (backfill_registry env db))"
proof -
  have step: "registry_invar (snd (upsert_pass k d))" if "registry_invar d" "k \<in> {''DEVICE'', ''ASSET''}" for d k
    using registry_upsert_invar [OF that] that(1) by (auto simp: upsert_pass_def split: sum.splits)
  have "backfill_registry env db = (fst (upsert_pass ''DEVICE'' db) \<or> fst (upsert_pass ''ASSET'' (snd (upsert_pass ''DEVICE'' db))),
      snd (sweep_registry_orphans env (snd (upsert_pass ''ASSET'' (snd (upsert_pass ''DEVICE'' db))))))"
    by (simp add: backfill_registry_def split_beta Let_def)
  then show ?thesis by (simp add: sweep_invar step assms)
qed

section \<open>Convergence\<close>

text \<open>Every operation of the registry and of the catalog, as a step.\<close>

datatype registry_op =
    CreateModel str raw_message millis
  | DeprecateModel str str str millis
  | Repoint str str str str str bool millis
  | SyncRow str str str
  | DeleteRow str str str
  | Backfill str

fun registry_step :: "regex_engine \<Rightarrow> twin_db \<Rightarrow> registry_op \<Rightarrow> twin_db" where
  "registry_step rx db (CreateModel t raw now) = (case model_create rx t raw now db of Inl _ \<Rightarrow> db | Inr (_, d) \<Rightarrow> d)"
| "registry_step rx db (DeprecateModel t i v now) = (case model_deprecate t i v now db of Inl _ \<Rightarrow> db | Inr (_, d) \<Rightarrow> d)"
| "registry_step rx db (Repoint caller etype eid mid v admin now) =
     (case model_repoint caller etype eid mid v admin now db of Inl _ \<Rightarrow> db | Inr (_, d) \<Rightarrow> d)"
| "registry_step rx db (SyncRow t etype eid) = (case sync_registry_row t etype eid db of Inl _ \<Rightarrow> db | Inr d \<Rightarrow> d)"
| "registry_step rx db (DeleteRow t etype eid) = delete_registry_row t etype eid db"
| "registry_step rx db (Backfill env) = snd (backfill_registry env db)"

lemma sync_registry_row_invar:
  assumes "registry_invar db" "sync_registry_row t etype eid db = Inr db'"
  shows "registry_invar db'"
proof -
  let ?k = "to_upper (trim_space etype)"
  from assms(2) have "?k \<in> {''DEVICE'', ''ASSET''}"
    "registry_upsert ?k (\<lambda>e. en_tenant e = Some t \<and> en_id e = eid) db = Inr db'"
    unfolding sync_registry_row_def Let_def by (simp_all split: if_splits)
  with registry_upsert_invar [OF assms(1) this] show ?thesis by simp
qed

lemma registry_step_invar: "registry_invar db \<Longrightarrow> registry_invar (registry_step rx db op)"
  by (cases op)
     (auto simp: delete_registry_row_def backfill_invar intro: registry_invar_filter model_create_registry
       model_deprecate_registry model_repoint_registry sync_registry_row_invar split: sum.splits)

lemma registry_run_invar: "registry_invar db \<Longrightarrow> registry_invar (foldl (registry_step rx) db ops)"
  by (induction ops arbitrary: db) (auto intro: registry_step_invar)

text \<open>Projecting an entity again after its row was written gives the same projection.\<close>

lemma project_again:
  assumes inv: "cat_invar (db_models db)" and reg: "registry_invar db"
    and r: "registry_find (t, kind, en_id e) (db_registry db') = Some r"
    and same: "same_projection r (project_row db kind t e)" and models: "db_models db' = db_models db"
  shows "same_projection r (project_row db' kind t e)"
proof -
  let ?new = "project_row db kind t e"
  let ?new' = "project_row db' kind t e"
  let ?tr = "registry_find (t, kind, en_id e) (db_registry db)"
  have eqs: "rg_definition r = rg_definition ?new" "rg_model_id r = rg_model_id ?new"
    "rg_model_version r = rg_model_version ?new" "rg_thing_id r = rg_thing_id ?new"
    "rg_policy_id r = rg_policy_id ?new" "rg_attributes r = rg_attributes ?new"
    using same by (simp_all add: same_projection_def)
  have fixed: "rg_thing_id ?new' = rg_thing_id ?new" "rg_policy_id ?new' = rg_policy_id ?new"
    "rg_attributes ?new' = rg_attributes ?new" by (simp_all add: project_row_def Let_def)
  show ?thesis
  proof (cases "rg_model_id r")
    case (Some mid)
    then show ?thesis using eqs fixed r
      by (simp add: same_projection_def project_row_def Let_def)
  next
    case None
    then have none: "rg_model_id ?new = None" using eqs by simp
    then have np: "(case ?tr of None \<Rightarrow> None | Some r \<Rightarrow> rg_model_id r) = None"
      by (auto simp: project_row_def Let_def split: option.splits)
    have "pin_candidate db t kind e ?tr = None"
      using none np by (auto simp: project_row_def Let_def)
    moreover have "pin_candidate db' t kind e (Some r) = pin_candidate db t kind e ?tr"
      unfolding pin_candidate_def models by (simp add: np None)
    ultimately show ?thesis using eqs fixed r None np
      by (simp add: same_projection_def project_row_def Let_def)
  qed
qed

end
