(* ===== verification/TwinRegistryProps.thy ===== *)
theory TwinRegistryProps
  imports TwinRegistryLaws
begin

text \<open>
  The properties of the twin registry and the model catalog: the invariant under every sequence of
  operations, convergence of the synchronisation, the guards of the sweep, the agreement of the
  fallback identity with the registry's, and what re-pointing may change.
\<close>

section \<open>Upserting twice\<close>

lemma same_projection_refl [simp]: "same_projection r r"
  by (simp add: same_projection_def)

lemma find_map_key:
  "(\<And>r. registry_key (f r) = registry_key r) \<Longrightarrow>
   registry_find k (map f rows) = map_option f (registry_find k rows)"
  by (induction rows) (auto simp: registry_find_def)

lemma registry_find_append:
  "registry_find k (rows @ [r]) =
     (case registry_find k rows of Some q \<Rightarrow> Some q | None \<Rightarrow> if registry_key r = k then Some r else None)"
  by (induction rows) (auto simp: registry_find_def)

lemma upsert_row_find:
  "\<exists>r. registry_find (registry_key new) (upsert_row new rows) = Some r \<and> same_projection r new"
proof (cases "registry_find (registry_key new) rows")
  case None
  then have "upsert_row new rows = rows @ [new]" by (simp add: upsert_row_def)
  with None show ?thesis by (simp add: registry_find_append)
next
  case (Some old)
  let ?f = "\<lambda>r. if registry_key r = registry_key new
      then new\<lparr>rg_created := rg_created r, rg_version := rg_version r + 1\<rparr> else r"
  have k: "registry_key (?f r) = registry_key r" for r by (simp add: registry_key_def)
  show ?thesis
  proof (cases "same_projection old new")
    case True
    with Some show ?thesis by (simp add: upsert_row_def)
  next
    case False
    then have "upsert_row new rows = map ?f rows" using Some by (simp add: upsert_row_def)
    then have "registry_find (registry_key new) (upsert_row new rows) = Some (?f old)"
      using find_map_key [of ?f "registry_key new" rows] k Some by simp
    moreover have "registry_key old = registry_key new" using registry_find_Some [OF Some] by simp
    ultimately show ?thesis by (simp add: same_projection_def)
  qed
qed

lemma upsert_row_same:
  "registry_find (registry_key new) rows = Some r \<Longrightarrow> same_projection r new \<Longrightarrow> upsert_row new rows = rows"
  by (simp add: upsert_row_def)

lemma sync_select_single:
  assumes "distinct (map en_id (entity_table kind db))"
  shows "sync_select kind db (\<lambda>e. en_tenant e = Some t \<and> en_id e = eid) =
    (case find (\<lambda>e. en_tenant e = Some t \<and> en_id e = eid) (entity_table kind db) of None \<Rightarrow> [] | Some e \<Rightarrow> [(t, e)])"
proof -
  have "concat (map (\<lambda>e. if en_tenant e = Some t \<and> en_id e = eid
           then map (\<lambda>t. (t, e)) (case en_tenant e of None \<Rightarrow> [] | Some t \<Rightarrow> [t]) else []) es) =
      (case find (\<lambda>e. en_tenant e = Some t \<and> en_id e = eid) es of None \<Rightarrow> [] | Some e \<Rightarrow> [(t, e)])"
    if "distinct (map en_id es)" for es
    using that
  proof (induction es)
    case (Cons e es)
    show ?case
    proof (cases "en_tenant e = Some t \<and> en_id e = eid")
      case True
      then have "find (\<lambda>e. en_tenant e = Some t \<and> en_id e = eid) es = None"
        using Cons.prems unfolding find_None_iff by (metis distinct.simps(2) imageI list.set_map list.simps(9))
      with Cons True show ?thesis by simp
    qed (use Cons in auto)
  qed simp
  from this [OF assms] show ?thesis by (simp add: sync_select_def)
qed

lemma entity_table_registry [simp]: "entity_table kind (db\<lparr>db_registry := rows\<rparr>) = entity_table kind db"
  by (simp add: entity_table_def)

section \<open>Lower-casing commutes with replacing runs\<close>

lemma replace_runs_map:
  "(\<And>c. ok (f c) = ok' c) \<Longrightarrow> f r = r \<Longrightarrow> replace_runs ok r (map f s) = map f (replace_runs ok' r s)"
proof (induction ok' r s rule: replace_runs.induct)
  case (2 ok' r x xs)
  have "dropWhile (\<lambda>y. \<not> ok y) (map f xs) = map f (dropWhile (\<lambda>y. \<not> ok' y) xs)"
    using "2.prems"(1) by (simp add: dropWhile_map comp_def)
  then show ?case using "2.IH" "2.prems" by simp
qed simp

lemma ident_char_lower_iff: "ident_char (lower_char c) = definition_char c"
proof (cases "is_upper c")
  case True
  then show ?thesis
    by (auto simp: ident_char_def definition_char_def in_range_def char_code_lower)
next
  case False
  then have "lower_char c = c" by (simp add: lower_char_def)
  with False show ?thesis by (auto simp: ident_char_def definition_char_def)
qed

lemma lower_underscore: "lower_char c = CHR ''_'' \<longleftrightarrow> c = CHR ''_''"
proof -
  have u: "char_code CHR ''_'' = 95" by (simp add: char_code_def)
  show ?thesis unfolding char_code_inj [symmetric] char_code_lower u in_range_def by auto
qed

lemma canonical_ident_definition:
  "canonical_ident typ = to_lower (trim_char CHR ''_'' (replace_runs definition_char CHR ''_'' typ))"
proof -
  have l: "lower_char CHR ''_'' = CHR ''_''" by (simp add: lower_underscore)
  have "replace_runs ident_char CHR ''_'' (map lower_char typ) =
      map lower_char (replace_runs definition_char CHR ''_'' typ)"
    by (rule replace_runs_map) (simp_all add: ident_char_lower_iff l)
  then show ?thesis
    by (simp add: canonical_ident_def to_lower_def trim_char_def trim_by_map lower_underscore)
qed

lemma definition_of_sql: "definition_of kind typ = definition_urn kind (sql_canonical (Some typ)) ''1.0.0''"
proof -
  let ?p = "trim_char CHR ''_'' (replace_runs definition_char CHR ''_'' typ)"
  have c: "canonical_ident typ = to_lower ?p" by (rule canonical_ident_definition)
  have d: "to_lower ''default'' = ''default''" by code_simp
  show ?thesis
  proof (cases "?p = []")
    case True
    then have "canonical_ident typ = []" by (simp add: c to_lower_def)
    with True d show ?thesis
      by (simp add: definition_of_def definition_urn_def sql_canonical_def coalesce_def Let_def)
  next
    case False
    then have "canonical_ident typ \<noteq> []" by (simp add: c to_lower_def)
    with False show ?thesis
      by (simp add: definition_of_def definition_urn_def sql_canonical_def coalesce_def Let_def c)
  qed
qed

section \<open>Properties\<close>

definition demo_device :: entity where
  "demo_device = \<lparr>en_id = ''d1'', en_tenant = Some ''t'', en_created = 3, en_name = ''Pump'',
     en_type = Some ''Pump 7'', en_label = None, en_info = Info (JArr [])\<rparr>"

definition demo_db :: twin_db where
  "demo_db = \<lparr>db_devices = [demo_device], db_assets = [], db_models = [], db_registry = [],
     db_relation_types = [''feeds'']\<rparr>"

lemma demo_db_invar: "registry_invar demo_db \<and> model_invar demo_db"
  by (simp add: registry_invar_def model_invar_def cat_invar_def demo_db_def)

text \<open>C4: Registry invariant. Whatever sequence of model creations, deprecations, re-pointings,
  single-row synchronisations, deletions and backfills runs, every entity has at most one registry
  row, the row has the thing id of its entity and kind DEVICE or ASSET, and a pin is either absent or
  names a version that exists in the catalog of the row's tenant with the row's kind, with the
  definition of that version.\<close>

theorem registry_pins_never_dangle:
  assumes "registry_invar db"
  shows "let db' = foldl (registry_step rx) db ops in
    distinct (map registry_key (db_registry db')) \<and>
    (\<forall>r \<in> set (db_registry db'). rg_entity_type r \<in> {''DEVICE'', ''ASSET''} \<and>
       rg_thing_id r = thing_id (rg_tenant r) (rg_entity_type r) (rg_entity_id r) \<and>
       (rg_model_id r = None \<longleftrightarrow> rg_model_version r = None) \<and>
       (\<forall>mid v. rg_model_id r = Some mid \<longrightarrow> rg_model_version r = Some v \<longrightarrow>
          rg_definition r = definition_urn (rg_entity_type r) mid v \<and>
          (\<exists>m \<in> set (db_models db'). row_key m = (rg_tenant r, mid, v) \<and> row_kind m = rg_entity_type r)))"
proof -
  let ?db = "foldl (registry_step rx) db ops"
  have inv: "registry_invar ?db" using assms by (rule registry_run_invar)
  have "(rg_model_id r = None \<longleftrightarrow> rg_model_version r = None) \<and>
       (\<forall>mid v. rg_model_id r = Some mid \<longrightarrow> rg_model_version r = Some v \<longrightarrow>
          rg_definition r = definition_urn (rg_entity_type r) mid v \<and>
          (\<exists>m \<in> set (db_models ?db). row_key m = (rg_tenant r, mid, v) \<and> row_kind m = rg_entity_type r))"
    if "pin_ok (db_models ?db) r" for r
    using that by (auto simp: pin_ok_def split: option.splits)
  with inv show ?thesis unfolding registry_invar_def row_ok_def Let_def by blast
qed

definition demo_ops :: "registry_op list" where
  "demo_ops = [SyncRow ''t'' ''device'' ''d1'', CreateModel ''t'' (Some (JObj
     [(''modelId'', JStr ''Pump 7''), (''version'', JStr ''1.2.0''), (''kind'', JStr ''DEVICE'')])) 7]"

theorem registry_pins_never_dangle_witness:
  "let db' = foldl (registry_step demo_engine) demo_db demo_ops in
    map rg_model_id (db_registry db') = [Some ''pump_7''] \<and>
    (\<exists>m \<in> set (db_models db'). row_key m = (''t'', ''pump_7'', ''1.2.0''))"
proof -
  let ?db = "foldl (registry_step demo_engine) demo_db demo_ops"
  have e: "map rg_model_id (db_registry ?db) = [Some ''pump_7'']"
    "map rg_model_version (db_registry ?db) = [Some ''1.2.0'']" "map rg_tenant (db_registry ?db) = [''t'']"
    by code_simp+
  then obtain r where r: "r \<in> set (db_registry ?db)" "rg_model_id r = Some ''pump_7''"
    "rg_model_version r = Some ''1.2.0''" "rg_tenant r = ''t''"
    by (cases "db_registry ?db") auto
  have "registry_invar demo_db" using demo_db_invar by simp
  from registry_pins_never_dangle [OF this, of demo_engine demo_ops] r e(1) show ?thesis
    unfolding Let_def by (metis (no_types, lifting))
qed

text \<open>Synchronising an entity is idempotent: repeating it changes nothing, not even the counters
  of the row, so that the create hooks and the boot-time backfill may both run.\<close>

theorem sync_idempotent:
  assumes "registry_invar db" "model_invar db" "distinct (map en_id (entity_table (to_upper (trim_space etype)) db))"
    "sync_registry_row t etype eid db = Inr db'"
  shows "sync_registry_row t etype eid db' = Inr db'"
proof -
  let ?kind = "to_upper (trim_space etype)"
  let ?p = "\<lambda>e. en_tenant e = Some t \<and> en_id e = eid"
  have kind: "?kind = ''DEVICE'' \<or> ?kind = ''ASSET''" and up: "registry_upsert ?kind ?p db = Inr db'"
    using assms(4) unfolding sync_registry_row_def Let_def by (simp_all split: if_splits)
  have "registry_upsert ?kind ?p db' = Inr db'"
  proof (cases "find ?p (entity_table ?kind db)")
    case None
    then have s: "sync_select ?kind db ?p = []" using sync_select_single [OF assms(3)] by simp
    with up have "db' = db" by (simp add: registry_upsert_def)
    with up show ?thesis by simp
  next
    case (Some e)
    then have s: "sync_select ?kind db ?p = [(t, e)]" using sync_select_single [OF assms(3)] by simp
    have eid: "en_id e = eid" using find_SomeD [OF Some] by simp
    let ?new = "project_row db ?kind t e"
    have ok: "en_info e \<noteq> BadInfo" and db': "db' = db\<lparr>db_registry := upsert_row ?new (db_registry db)\<rparr>"
      using up unfolding registry_upsert_def s Let_def by (simp_all split: if_splits)
    obtain r where r: "registry_find (registry_key ?new) (upsert_row ?new (db_registry db)) = Some r"
      "same_projection r ?new" using upsert_row_find by blast
    have find': "registry_find (t, ?kind, en_id e) (db_registry db') = Some r" using r(1) by (simp add: db')
    have "same_projection r (project_row db' ?kind t e)"
      using assms(2) unfolding model_invar_def
      by (rule project_again [OF _ assms(1) find' r(2)]) (simp add: db')
    then have "upsert_row (project_row db' ?kind t e) (db_registry db') = db_registry db'"
      using find' by (intro upsert_row_same [of _ _ r]) simp_all
    moreover have "sync_select ?kind db' ?p = [(t, e)]" using s by (simp add: db' sync_select_def)
    ultimately show ?thesis using ok by (simp add: registry_upsert_def Let_def)
  qed
  with kind show ?thesis by (simp add: sync_registry_row_def Let_def)
qed

theorem sync_idempotent_witness:
  "\<exists>db'. sync_registry_row ''t'' '' device'' ''d1'' demo_db = Inr db' \<and> length (db_registry db') = 1 \<and>
     sync_registry_row ''t'' '' device'' ''d1'' db' = Inr db'"
proof -
  let ?r = "sync_registry_row ''t'' '' device'' ''d1'' demo_db"
  have e: "isl ?r = False" "length (db_registry (projr ?r)) = 1"
    "map en_id (entity_table (to_upper (trim_space '' device'')) demo_db) = [''d1'']" by code_simp+
  then obtain db' where db': "?r = Inr db'" by (cases ?r) auto
  have "sync_registry_row ''t'' '' device'' ''d1'' db' = Inr db'"
    using demo_db_invar e(3) by (intro sync_idempotent [OF _ _ _ db']) simp_all
  with db' e(2) show ?thesis by auto
qed

text \<open>The orphan sweep either deletes nothing, or it deletes exactly the orphans, at most the
  configured maximum of them, and never when both entity tables are empty; and it never spares orphans
  that the two guards admit.\<close>

theorem sweep_is_guarded:
  assumes "sweep_registry_orphans env db = (n, db')"
  shows "(n = 0 \<and> db' = db \<or>
      0 < n \<and> n \<le> sweep_max env \<and> n = int (length (filter (is_orphan db) (db_registry db))) \<and>
      db_registry db' = filter (\<lambda>r. \<not> is_orphan db r) (db_registry db) \<and>
      (db_devices db \<noteq> [] \<or> db_assets db \<noteq> [])) \<and>
    ((db_devices db \<noteq> [] \<or> db_assets db \<noteq> []) \<and>
      int (length (filter (is_orphan db) (db_registry db))) \<le> sweep_max env \<longrightarrow>
      \<not> list_ex (is_orphan db) (db_registry db'))"
proof -
  let ?c = "length (filter (is_orphan db) (db_registry db))"
  have z: "?c = 0 \<longleftrightarrow> \<not> list_ex (is_orphan db) (db_registry db)"
    by (simp add: filter_empty_conv list_ex_iff)
  show ?thesis
    using assms unfolding sweep_registry_orphans_def Let_def
    by (cases "?c = 0") (auto simp: z [symmetric] list_ex_iff filter_empty_conv split: if_splits)
qed

theorem sweep_is_guarded_witness:
  "let db = snd (sweep_registry_orphans ''1'' (demo_db\<lparr>db_devices := []\<rparr>)) in
   sweep_registry_orphans ''1'' (foldl (registry_step demo_engine) demo_db demo_ops\<lparr>db_devices := []\<rparr>) =
     (0, foldl (registry_step demo_engine) demo_db demo_ops\<lparr>db_devices := []\<rparr>) \<and> db = demo_db\<lparr>db_devices := []\<rparr>"
proof -
  let ?d = "foldl (registry_step demo_engine) demo_db demo_ops\<lparr>db_devices := []\<rparr>"
  let ?e = "demo_db\<lparr>db_devices := []\<rparr>"
  have "db_devices ?d = [] \<and> db_assets ?d = []" by code_simp
  with sweep_is_guarded [of "''1''" ?d] have "sweep_registry_orphans ''1'' ?d = (0, ?d)"
    by (cases "sweep_registry_orphans ''1'' ?d") auto
  moreover have "db_devices ?e = [] \<and> db_assets ?e = []" by code_simp
  with sweep_is_guarded [of "''1''" ?e] have "sweep_registry_orphans ''1'' ?e = (0, ?e)"
    by (cases "sweep_registry_orphans ''1'' ?e") auto
  ultimately show ?thesis by (simp add: Let_def)
qed

text \<open>The identity a twin read falls back to when the registry has no row yet is the one the
  registry will project for an entity without a model: the same thing id, policy and definition,
  although one is computed in Go and the other in SQL.\<close>

theorem fallback_identity_agrees:
  assumes "registry_find (er_tenant row, to_upper (er_type row), en_id (er_entity row)) (db_registry db) = None"
    "to_upper (er_type row) = er_type row"
    "pin_candidate db (er_tenant row) (er_type row) (er_entity row) None = None"
  shows "\<exists>p. load_identity row db = Inr p \<and>
    (let q = project_row db (er_type row) (er_tenant row) (er_entity row) in
     ip_thing_id p = rg_thing_id q \<and> ip_policy_id p = rg_policy_id q \<and> ip_definition p = rg_definition q)"
proof -
  have f: "registry_find (er_tenant row, er_type row, en_id (er_entity row)) (db_registry db) = None"
    using assms(1,2) by simp
  have "canonical_ident [] = []" by code_simp
  then have "sql_canonical (Some []) = ''default''" by (simp add: sql_canonical_def coalesce_def Let_def)
  moreover have "sql_canonical None = ''default''"
  proof -
    have "canonical_ident ''default'' = ''default''" by code_simp
    then show ?thesis by (simp add: sql_canonical_def coalesce_def Let_def)
  qed
  ultimately have d: "definition_of (er_type row) (coalesce t []) =
      definition_urn (er_type row) (sql_canonical t) ''1.0.0''" for t
    by (cases t) (simp_all add: definition_of_sql coalesce_def)
  show ?thesis
    using assms(1) by (simp add: load_identity_def get_registry_by_entity_def project_row_def Let_def f assms(3) d)
qed

theorem fallback_identity_agrees_witness:
  "\<exists>p. load_identity \<lparr>er_type = ''DEVICE'', er_entity = demo_device, er_tenant = ''t''\<rparr> demo_db = Inr p \<and>
     ip_definition p = rg_definition (project_row demo_db ''DEVICE'' ''t'' demo_device)"
proof -
  let ?row = "\<lparr>er_type = ''DEVICE'', er_entity = demo_device, er_tenant = ''t''\<rparr> :: entity_row"
  have "to_upper ''DEVICE'' = ''DEVICE''" by code_simp
  then have "\<exists>p. load_identity ?row demo_db = Inr p \<and>
    (let q = project_row demo_db (er_type ?row) (er_tenant ?row) (er_entity ?row) in
     ip_thing_id p = rg_thing_id q \<and> ip_policy_id p = rg_policy_id q \<and> ip_definition p = rg_definition q)"
    by (intro fallback_identity_agrees) (simp_all add: registry_find_def demo_db_def pin_candidate_def)
  then show ?thesis by (auto simp: Let_def)
qed

text \<open>A successful re-pointing is authorised and sound: the entity belongs to the caller's tenant
  (or the caller is a system administrator), the model version is in that tenant's catalog, live and
  of the entity's kind, and no registry row but the entity's own changes.\<close>

theorem repoint_is_sound:
  assumes "model_repoint caller etype eid mid v admin now db = Inr (p, db')"
  shows "\<exists>t. (admin \<or> t = caller) \<and>
    (\<exists>m. cat_get t mid v (db_models db) = Some m \<and> \<not> row_deprecated m \<and> row_kind m = etype) \<and>
    (\<forall>k. k \<noteq> (t, etype, eid) \<longrightarrow> registry_find k (db_registry db') = registry_find k (db_registry db)) \<and>
    (\<exists>r. registry_find (t, etype, eid) (db_registry db') = Some r \<and>
       rg_model_id r = Some mid \<and> rg_model_version r = Some v \<and> rg_definition r = definition_urn etype mid v)"
proof -
  from assms obtain t m where t: "admin \<or> t = caller" and m: "cat_get t mid v (db_models db) = Some m"
    "\<not> row_deprecated m" "row_kind m = etype" and old: "registry_find (t, etype, eid) (db_registry db) \<noteq> None"
    and db': "db' = db\<lparr>db_registry := map (\<lambda>r. if registry_key r = (t, etype, eid)
        then set_pin mid v (definition_urn etype mid v) now r else r) (db_registry db)\<rparr>"
    by (rule model_repoint_InrD)
  let ?f = "\<lambda>r. if registry_key r = (t, etype, eid) then set_pin mid v (definition_urn etype mid v) now r else r"
  have f: "registry_find k (db_registry db') = map_option ?f (registry_find k (db_registry db))" for k
    using find_map_key [of ?f k "db_registry db"] by (simp add: db')
  from old obtain r where r: "registry_find (t, etype, eid) (db_registry db) = Some r" by blast
  have "registry_find k (db_registry db') = registry_find k (db_registry db)" if "k \<noteq> (t, etype, eid)" for k
    using that f [of k] registry_find_Some [of k "db_registry db"]
    by (cases "registry_find k (db_registry db)") auto
  moreover have "\<exists>r. registry_find (t, etype, eid) (db_registry db') = Some r \<and>
       rg_model_id r = Some mid \<and> rg_model_version r = Some v \<and> rg_definition r = definition_urn etype mid v"
    using f [of "(t, etype, eid)"] r registry_find_Some [OF r] by (simp add: set_pin_def Let_def)
  ultimately show ?thesis using t m by blast
qed

theorem repoint_is_sound_witness:
  "let db = foldl (registry_step demo_engine) demo_db demo_ops in
   \<exists>p db'. model_repoint ''t'' ''DEVICE'' ''d1'' ''pump_7'' ''1.2.0'' False 9 db = Inr (p, db') \<and>
     (\<exists>m. cat_get ''t'' ''pump_7'' ''1.2.0'' (db_models db) = Some m \<and> \<not> row_deprecated m)"
proof -
  let ?db = "foldl (registry_step demo_engine) demo_db demo_ops"
  let ?r = "model_repoint ''t'' ''DEVICE'' ''d1'' ''pump_7'' ''1.2.0'' False 9 ?db"
  have "isl ?r = False" by code_simp
  then obtain p db' where r: "?r = Inr (p, db')" by (cases ?r) auto
  from repoint_is_sound [OF this] have "\<exists>m. cat_get ''t'' ''pump_7'' ''1.2.0'' (db_models ?db) = Some m \<and> \<not> row_deprecated m"
    by auto
  with r show ?thesis unfolding Let_def by blast
qed

text \<open>A catalogued twin model version is immutable under every sequence of creations and
  deprecations, and its deprecation is final.\<close>

theorem model_version_immutable:
  assumes "model_invar db" "model_get t i v db = Inr row"
  shows "\<exists>row'. model_get t i v (foldl (cat_step (model_create rx) model_deprecate) db ops) = Inr row' \<and>
    row_definition row' = row_definition row \<and> (row_deprecated row \<longrightarrow> row_deprecated row')"
  using assms by (rule model_catalog.run_keeps)

definition demo_pinned_db :: twin_db where
  "demo_pinned_db = foldl (registry_step demo_engine) demo_db demo_ops"

lemma demo_pinned_invar: "model_invar demo_pinned_db \<and> registry_invar demo_pinned_db"
proof
  show "registry_invar demo_pinned_db"
    unfolding demo_pinned_db_def using demo_db_invar by (intro registry_run_invar) simp
  have "map row_key (db_models demo_pinned_db) = [(''t'', ''pump_7'', ''1.2.0'')]"
    "list_all (\<lambda>r. validate_version (row_version r) = Inr () \<and> normalize_ident (row_id r) = Inr (row_id r)) (db_models demo_pinned_db)"
    by code_simp+
  then show "model_invar demo_pinned_db" by (simp add: model_invar_def cat_invar_def list_all_iff)
qed

theorem model_version_immutable_witness:
  "\<exists>row row'. model_get ''t'' ''pump_7'' ''1.2.0'' demo_pinned_db = Inr row \<and>
     model_get ''t'' ''pump_7'' ''1.2.0''
       (foldl (cat_step (model_create demo_engine) model_deprecate) demo_pinned_db
          [OpDeprecate ''t'' ''pump_7'' ''1.2.0'' 11]) = Inr row' \<and>
     row_definition row' = row_definition row"
proof -
  have "isl (model_get ''t'' ''pump_7'' ''1.2.0'' demo_pinned_db) = False" by code_simp
  then obtain row where r: "model_get ''t'' ''pump_7'' ''1.2.0'' demo_pinned_db = Inr row"
    by (cases "model_get ''t'' ''pump_7'' ''1.2.0'' demo_pinned_db") auto
  have "model_invar demo_pinned_db" using demo_pinned_invar by simp
  from model_version_immutable [OF this r, of demo_engine "[OpDeprecate ''t'' ''pump_7'' ''1.2.0'' 11]"] r
  show ?thesis by blast
qed

text \<open>The lateral join of the synchronisation does not exclude deprecated versions: an entity
  created after the only version of its model was deprecated is pinned to that version, although
  re-pointing to it is refused.\<close>

theorem sync_pins_deprecated_version:
  "\<exists>r db1 db2. model_deprecate ''t'' ''pump_7'' ''1.2.0'' 11 (demo_pinned_db\<lparr>db_registry := []\<rparr>) = Inr (r, db1) \<and>
     row_deprecated r \<and> sync_registry_row ''t'' ''DEVICE'' ''d1'' db1 = Inr db2 \<and>
     map (\<lambda>q. (rg_model_id q, rg_model_version q)) (db_registry db2) = [(Some ''pump_7'', Some ''1.2.0'')] \<and>
     model_repoint ''t'' ''DEVICE'' ''d1'' ''pump_7'' ''1.2.0'' False 12 db2 = Inl DeprecatedVersion"
proof -
  let ?d = "model_deprecate ''t'' ''pump_7'' ''1.2.0'' 11 (demo_pinned_db\<lparr>db_registry := []\<rparr>)"
  let ?s = "sync_registry_row ''t'' ''DEVICE'' ''d1'' (snd (projr ?d))"
  have e: "isl ?d = False" "row_deprecated (fst (projr ?d))" "isl ?s = False"
    "map (\<lambda>q. (rg_model_id q, rg_model_version q)) (db_registry (projr ?s)) = [(Some ''pump_7'', Some ''1.2.0'')]"
    "model_repoint ''t'' ''DEVICE'' ''d1'' ''pump_7'' ''1.2.0'' False 12 (projr ?s) = Inl DeprecatedVersion"
    by code_simp+
  then obtain r db1 where "?d = Inr (r, db1)" by (cases ?d) auto
  with e show ?thesis by (cases ?s) auto
qed

end
