(* ===== verification/HttpUtil.thy ===== *)
theory HttpUtil
  imports Json
begin

text \<open>
  The request helpers every handler shares (internal/httputil/httputil.go) and the deny-by-default
  authentication gate in front of the mux (authgate.go). Verifying a token is the work of
  internal/auth and the JWT library: a request carries the outcome, the claims of its token or
  \<open>None\<close>. The lemmas bound the page size, and show what the gate lets through.
\<close>

section \<open>Helpers\<close>

text \<open>How a handler ends early: an error envelope with status and message, or a panic, which the
  server turns into a broken connection.\<close>

datatype http_error = HttpError nat str | HandlerPanic

definition max_page_size :: int where "max_page_size = 1000"

definition clamp_page_size :: "int \<Rightarrow> int \<Rightarrow> int" where
  "clamp_page_size n default_val =
     (let m = (if n < 1 then default_val else n)
      in if m < 1 then 1 else if max_page_size < m then max_page_size else m)"

text \<open>\<open>url.Values.Get\<close>: the first value of a key, or the empty string.\<close>

definition query_get :: "(str \<times> str) list \<Rightarrow> str \<Rightarrow> str" where
  "query_get query key = (case map_of query key of None \<Rightarrow> [] | Some v \<Rightarrow> v)"

definition int_param :: "(str \<times> str) list \<Rightarrow> str \<Rightarrow> int \<Rightarrow> int" where
  "int_param query key default_val =
     (let val = query_get query key
      in if val = [] then default_val
         else (case atoi val of None \<Rightarrow> default_val | Some n \<Rightarrow> n))"

definition page_size :: "(str \<times> str) list \<Rightarrow> int \<Rightarrow> int" where
  "page_size query default_val =
     clamp_page_size (int_param query ''pageSize'' default_val) default_val"

definition extract_entity_id :: "members \<Rightarrow> str \<Rightarrow> str" where
  "extract_entity_id body key =
     (case obj_get body key of
        Some (JStr s) \<Rightarrow> s
      | Some (JObj m) \<Rightarrow> as_string (obj_get m ''id'')
      | _ \<Rightarrow> [])"

definition require_auth :: "members option \<Rightarrow> http_error + members" where
  "require_auth claims = or_fail claims (HttpError 401 ''Authentication required'')"

definition is_sys_admin :: "members \<Rightarrow> bool" where
  "is_sys_admin claims \<longleftrightarrow> list_ex (\<lambda>s. s = JStr ''SYS_ADMIN'') (as_array (obj_get claims ''scopes''))"

definition require_sys_admin :: "members option \<Rightarrow> http_error + members" where
  "require_sys_admin claims =
     and_then (require_auth claims) (\<lambda>c.
       if is_sys_admin c then Inr c else Inl (HttpError 403 ''Forbidden: SYS_ADMIN scope required''))"

definition coalesce_str :: "str option \<Rightarrow> str \<Rightarrow> str" where
  "coalesce_str p fallback =
     (case p of None \<Rightarrow> fallback | Some s \<Rightarrow> if s = [] then fallback else s)"

definition looks_like_uuid :: "str \<Rightarrow> bool" where
  "looks_like_uuid s \<longleftrightarrow> length s = 36 \<and>
     s ! 8 = CHR ''-'' \<and> s ! 13 = CHR ''-'' \<and> s ! 18 = CHR ''-'' \<and> s ! 23 = CHR ''-''"

lemma clamp_page_size_bounds: "1 \<le> clamp_page_size n d \<and> clamp_page_size n d \<le> max_page_size"
  by (simp add: clamp_page_size_def max_page_size_def Let_def)

section \<open>The authentication gate\<close>

text \<open>path.Clean: the segments of a path, empty and dot segments dropped and dot-dot segments
  resolved; the stack is kept in reverse.\<close>

fun clean_loop :: "bool \<Rightarrow> str list \<Rightarrow> str list \<Rightarrow> str list" where
  "clean_loop rooted out [] = rev out"
| "clean_loop rooted out (seg # segs) =
     (if seg = [] \<or> seg = ''.'' then clean_loop rooted out segs
      else if seg = ''..'' then
        (case out of
           [] \<Rightarrow> clean_loop rooted (if rooted then [] else [seg]) segs
         | seg0 # rest \<Rightarrow> clean_loop rooted (if seg0 = ''..'' then seg # out else rest) segs)
      else clean_loop rooted (seg # out) segs)"

definition path_clean :: "str \<Rightarrow> str" where
  "path_clean p =
     (let rooted = (p \<noteq> [] \<and> hd p = CHR ''/'');
          out = clean_loop rooted [] (split_on CHR ''/'' p)
      in if rooted then CHR ''/'' # join ''/'' out
         else if out = [] then ''.'' else join ''/'' out)"

definition auth_gate_exact_paths :: "str list" where
  "auth_gate_exact_paths =
     [''/health'', ''/ready'', ''/metrics'', ''/api/auth/login'', ''/api/auth/token'', ''/api/ws'']"

definition auth_gate_prefixes :: "str list" where
  "auth_gate_prefixes =
     [''/api/noauth/'', ''/.well-known/'', ''/login/oauth2/code/'', ''/api/v1/'', ''/api/ws/'']"

definition is_public_path :: "str \<Rightarrow> str \<Rightarrow> bool" where
  "is_public_path http_method clean \<longleftrightarrow>
     http_method = ''OPTIONS'' \<or> clean \<in> set auth_gate_exact_paths \<or>
     list_ex (\<lambda>p. clean = trim_suffix p ''/'' \<or> has_prefix clean p) auth_gate_prefixes"

definition has_traversal :: "str \<Rightarrow> bool" where
  "has_traversal decoded \<longleftrightarrow> list_ex (\<lambda>seg. seg = ''..'') (split_on CHR ''/'' decoded)"

text \<open>\<open>Inr ()\<close> stands for calling the wrapped mux.\<close>

definition auth_gate :: "str \<Rightarrow> str \<Rightarrow> members option \<Rightarrow> http_error + unit" where
  "auth_gate http_method url_path claims =
     (let clean = path_clean url_path
      in if clean \<noteq> url_path \<and> has_traversal url_path then Inl (HttpError 400 ''Malformed path'')
         else if is_public_path http_method clean then Inr ()
         else (case claims of
                 None \<Rightarrow> Inl (HttpError 401 ''Authentication required'')
               | Some _ \<Rightarrow> Inr ()))"

lemma clean_loop_rooted:
  "''..'' \<notin> set out \<Longrightarrow> ''..'' \<notin> set (clean_loop True out segs)"
  by (induction True out segs rule: clean_loop.induct) (auto split: list.splits)

lemma clean_loop_segs:
  "set (clean_loop r out segs) \<subseteq> set out \<union> set segs"
proof (induction r out segs rule: clean_loop.induct)
  case (1 rooted out)
  then show ?case by simp
next
  case (2 rooted out seg segs)
  show ?case
  proof (cases "seg = ''..''")
    case True
    then show ?thesis using 2(2,3) by (cases out) (auto split: if_splits)
  next
    case False
    then show ?thesis using 2(1,4) by auto
  qed
qed

lemma path_clean_no_traversal:
  assumes "p \<noteq> []" "hd p = CHR ''/''"
  shows "\<not> has_traversal (path_clean p)"
proof -
  let ?out = "clean_loop True [] (split_on CHR ''/'' p)"
  have c: "path_clean p = CHR ''/'' # join ''/'' ?out" using assms by (simp add: path_clean_def Let_def)
  have no: "''..'' \<notin> set ?out" by (rule clean_loop_rooted) simp
  have "CHR ''/'' \<notin> set w" if "w \<in> set ?out" for w
    using that clean_loop_segs [of True "[]" "split_on CHR ''/'' p"] by (auto dest: split_on_parts)
  then have "split_on CHR ''/'' (join ''/'' ?out) = (if ?out = [] then [[]] else ?out)"
    using split_on_join [of ?out "CHR ''/''"] by auto
  then have "split_on CHR ''/'' (path_clean p) = [] # (if ?out = [] then [[]] else ?out)"
    by (simp add: c)
  with no show ?thesis by (simp add: has_traversal_def list_ex_iff)
qed

section \<open>Properties\<close>

text \<open>Page sizes: whatever the client sends, the page size a handler uses is between 1 and
  1000, and a size in that range is used as it is.\<close>

theorem page_size_bounded:
  "1 \<le> page_size query d \<and> page_size query d \<le> 1000 \<and>
   (atoi (query_get query ''pageSize'') = Some n \<longrightarrow> 1 \<le> n \<longrightarrow> n \<le> 1000 \<longrightarrow> page_size query d = n)"
proof -
  have "page_size query d = n"
    if n: "atoi (query_get query ''pageSize'') = Some n" "1 \<le> n" "n \<le> 1000"
  proof -
    have "query_get query ''pageSize'' \<noteq> []" using n(1) by (auto simp: atoi_def)
    with n show ?thesis by (simp add: page_size_def int_param_def Let_def clamp_page_size_def max_page_size_def)
  qed
  then show ?thesis
    using clamp_page_size_bounds by (simp add: page_size_def max_page_size_def)
qed

theorem page_size_bounded_witness:
  "page_size [(''pageSize'', ''250'')] 100 = 250 \<and> page_size [(''pageSize'', ''-7'')] 100 \<le> 1000"
proof -
  have "atoi (query_get [(''pageSize'', ''250'')] ''pageSize'') = Some 250" by code_simp
  then show ?thesis
    using page_size_bounded [of "[(''pageSize'', ''250'')]" 100 250]
      page_size_bounded [of "[(''pageSize'', ''-7'')]" 100 1] by simp
qed

text \<open>C6: The gate. A request that reaches the mux either carries a valid token, or is a CORS
  preflight, or addresses, after cleaning, a path of the allowlist; and a rooted path with a
  dot-dot segment never reaches it, whatever the method, the token and the rest of the path.\<close>

theorem gate_denies_by_default:
  "(auth_gate m p claims = Inr () \<longrightarrow>
      claims \<noteq> None \<or> m = ''OPTIONS'' \<or> path_clean p \<in> set auth_gate_exact_paths \<or>
      (\<exists>q \<in> set auth_gate_prefixes. path_clean p = trim_suffix q ''/'' \<or> (\<exists>rest. path_clean p = q @ rest))) \<and>
   (p \<noteq> [] \<and> hd p = CHR ''/'' \<and> ''..'' \<in> set (split_on CHR ''/'' p) \<longrightarrow>
      auth_gate m p claims = Inl (HttpError 400 ''Malformed path''))"
proof -
  have "path_clean p \<noteq> p \<and> has_traversal p"
    if "p \<noteq> []" "hd p = CHR ''/''" "''..'' \<in> set (split_on CHR ''/'' p)"
  proof -
    have "has_traversal p" using that(3) by (auto simp: has_traversal_def list_ex_iff)
    with path_clean_no_traversal [OF that(1,2)] show ?thesis by auto
  qed
  then have "auth_gate m p claims = Inl (HttpError 400 ''Malformed path'')"
    if "p \<noteq> []" "hd p = CHR ''/''" "''..'' \<in> set (split_on CHR ''/'' p)"
    using that unfolding auth_gate_def Let_def by (blast intro: if_P)
  moreover have "claims \<noteq> None \<or> is_public_path m (path_clean p)"
    if "auth_gate m p claims = Inr ()"
    using that unfolding auth_gate_def Let_def by (cases claims) (metis sum.distinct(1) option.simps(4), simp)
  ultimately show ?thesis
    unfolding is_public_path_def list_ex_iff has_prefix_iff by blast
qed

theorem gate_denies_by_default_witness:
  "auth_gate ''GET'' ''/api/v1/t/telemetry'' None = Inr () \<and>
   ''/api/v1/t/telemetry'' \<notin> set auth_gate_exact_paths \<and>
   (\<exists>q \<in> set auth_gate_prefixes. path_clean ''/api/v1/t/telemetry'' = trim_suffix q ''/'' \<or>
      (\<exists>rest. path_clean ''/api/v1/t/telemetry'' = q @ rest)) \<and>
   auth_gate ''OPTIONS'' ''/api/v1/../users'' (Some []) = Inl (HttpError 400 ''Malformed path'')"
proof -
  have a: "auth_gate ''GET'' ''/api/v1/t/telemetry'' None = Inr ()"
    "path_clean ''/api/v1/t/telemetry'' = ''/api/v1/t/telemetry''"
    "''/api/v1/t/telemetry'' \<notin> set auth_gate_exact_paths" "''GET'' \<noteq> ''OPTIONS''"
    "''/api/v1/../users'' \<noteq> [] \<and> hd ''/api/v1/../users'' = CHR ''/'' \<and>
     ''..'' \<in> set (split_on CHR ''/'' ''/api/v1/../users'')"
    by code_simp+
  from gate_denies_by_default [of "''GET''" "''/api/v1/t/telemetry''" None]
    gate_denies_by_default [of "''OPTIONS''" "''/api/v1/../users''" "Some []"] a
  show ?thesis by (metis (no_types, lifting))
qed

end
