(* ===== verification/PolicyEnforce.thy ===== *)
theory PolicyEnforce
  imports TwinRegistryProps HttpUtil
begin

text \<open>
  The policy enforcement middleware (internal/policy/middleware.go) as api.go wires it: the
  resolver is PolicyContext, the documents come from the policy store. \<open>Inr ()\<close> means
  that the wrapped handler is called. The database handle is \<open>None\<close> when there is no pool.
\<close>

type_synonym pool = "(twin_db \<times> policy_db) option"

definition enforcement_enabled :: "str \<Rightarrow> bool" where
  "enforcement_enabled env \<longleftrightarrow> trim_space env \<noteq> ''false''"

fun authorize_all :: "str \<Rightarrow> derived_policy \<Rightarrow> str \<Rightarrow> str list \<Rightarrow> http_error + unit" where
  "authorize_all subject doc action [] = Inr ()"
| "authorize_all subject doc action (path # paths) =
     (if \<not> authorize subject doc path action then Inl (HttpError 403 ''Policy denies access'')
      else authorize_all subject doc action paths)"

text \<open>\<open>paths\<close> derives the resource paths of the request in the entity's tenant, or fails.\<close>

definition enforce_entity_request ::
  "str \<Rightarrow> members option \<Rightarrow> pool \<Rightarrow> str \<Rightarrow> str \<Rightarrow> str \<Rightarrow> (str \<Rightarrow> str list option) \<Rightarrow> http_error + unit" where
  "enforce_entity_request env claims pool etype eid action paths =
     and_then (require_auth claims) (\<lambda>c.
       if \<not> enforcement_enabled env \<or> subject_for_claims c = ''SYS_ADMIN'' then Inr ()
       else (case pool of
               None \<Rightarrow> Inl (HttpError 503 ''Policy database unavailable'')
             | Some (db, policies) \<Rightarrow>
                 (case policy_context db etype eid of
                    Inl NoRows \<Rightarrow> Inr ()
                  | Inl QueryFailed \<Rightarrow> Inl (HttpError 500 ''Policy resolution failed'')
                  | Inr (tenant, pid) \<Rightarrow>
                      (case policy_resolve tenant pid policies of
                         Inl _ \<Rightarrow> Inl (HttpError 403 ''Policy not resolvable'')
                       | Inr doc \<Rightarrow>
                           (case paths tenant of
                              None \<Rightarrow> Inl (HttpError 400 ''Invalid twin write body'')
                            | Some ps \<Rightarrow> authorize_all (subject_for_claims c) doc action ps)))))"

definition enforce_read :: "str \<Rightarrow> members option \<Rightarrow> pool \<Rightarrow> str \<Rightarrow> str \<Rightarrow> http_error + unit" where
  "enforce_read env claims pool etype eid =
     enforce_entity_request env claims pool etype eid ''READ'' (\<lambda>tenant. Some [resource_path tenant etype eid []])"

definition enforce_model_write :: "str \<Rightarrow> members option \<Rightarrow> pool \<Rightarrow> str \<Rightarrow> str \<Rightarrow> http_error + unit" where
  "enforce_model_write env claims pool etype eid =
     enforce_entity_request env claims pool etype eid ''WRITE'' (\<lambda>tenant. Some [resource_path tenant etype eid [''model'']])"

definition write_route_key :: "str \<Rightarrow> str" where
  "write_route_key url_path = (if has_suffix url_path ''/attributes'' then ''attributes'' else ''features'')"

definition write_paths :: "str \<Rightarrow> raw_message \<Rightarrow> str \<Rightarrow> str \<Rightarrow> str \<Rightarrow> str list option" where
  "write_paths url_path body etype eid tenant =
     (let key = write_route_key url_path; base = [resource_path tenant etype eid []]
      in case body of
           Some JNull \<Rightarrow> Some base
         | Some (JObj payload) \<Rightarrow>
             (case obj_get payload key of
                None \<Rightarrow> Some base
              | Some JNull \<Rightarrow> Some base
              | Some (JObj names) \<Rightarrow>
                  let ps = map (\<lambda>name. resource_path tenant etype eid [key, name]) (obj_keys names)
                  in Some (if ps = [] then base else ps)
              | Some _ \<Rightarrow> None)
         | _ \<Rightarrow> None)"

definition enforce_write ::
  "str \<Rightarrow> members option \<Rightarrow> pool \<Rightarrow> str \<Rightarrow> str \<Rightarrow> str \<Rightarrow> raw_message \<Rightarrow> http_error + unit" where
  "enforce_write env claims pool etype eid url_path body =
     enforce_entity_request env claims pool etype eid ''WRITE'' (write_paths url_path body etype eid)"

definition enforce_list :: "str \<Rightarrow> members option \<Rightarrow> pool \<Rightarrow> http_error + unit" where
  "enforce_list env claims pool =
     and_then (require_auth claims) (\<lambda>c.
       let tenant = claim_string c ''tenantId''
       in if \<not> enforcement_enabled env \<or> subject_for_claims c = ''SYS_ADMIN'' then Inr ()
          else if tenant = [] then Inr ()
          else (case pool of
                  None \<Rightarrow> Inl (HttpError 503 ''Policy database unavailable'')
                | Some (db, policies) \<Rightarrow>
                    (case policy_resolve tenant (tenant_prefix @ tenant @ '':'' @ default_policy_id) policies of
                       Inl _ \<Rightarrow> Inl (HttpError 403 ''Policy not resolvable'')
                     | Inr doc \<Rightarrow>
                         if authorize (subject_for_claims c) doc (thing_prefix @ tenant) ''READ'' then Inr ()
                         else Inl (HttpError 403 ''Policy denies access''))))"

section \<open>Facts\<close>

lemma authorize_all_Inr:
  "authorize_all s doc a ps = Inr () \<longleftrightarrow> (\<forall>p \<in> set ps. authorize s doc p a)"
  by (induction ps) auto

lemma enforce_entity_request_Inr:
  assumes "enforce_entity_request env (Some c) (Some (db, policies)) etype eid action paths = Inr ()"
    "enforcement_enabled env" "subject_for_claims c \<noteq> ''SYS_ADMIN''" "policy_context db etype eid = Inr (t, pid)"
  shows "\<exists>doc ps. policy_resolve t pid policies = Inr doc \<and> paths t = Some ps \<and>
    (\<forall>p \<in> set ps. authorize (subject_for_claims c) doc p action)"
  using assms by (auto simp: enforce_entity_request_def require_auth_def authorize_all_Inr
      split: sum.splits option.splits)

section \<open>Properties\<close>

definition demo_claims :: members where
  "demo_claims = [(''tenantId'', JStr ''t''), (''scopes'', JArr [JStr ''TENANT_ADMIN''])]"

text \<open>Soundness of the enforcement core. When a request of an ordinary caller on an existing
  entity is let through, the entity's policy resolved in the entity's own tenant and every resource
  path derived from the request is authorised for the caller's subject; without a token, or when the
  policy does not resolve or the paths cannot be derived, it is refused.\<close>

theorem enforcement_is_sound:
  assumes "enforcement_enabled env" "subject_for_claims c \<noteq> ''SYS_ADMIN''" "policy_context db etype eid = Inr (t, pid)"
  shows "(enforce_entity_request env (Some c) (Some (db, policies)) etype eid action paths = Inr () \<longleftrightarrow>
      (\<exists>doc ps. policy_resolve t pid policies = Inr doc \<and> paths t = Some ps \<and>
         (\<forall>p \<in> set ps. authorize (subject_for_claims c) doc p action))) \<and>
    enforce_entity_request env None (Some (db, policies)) etype eid action paths =
      Inl (HttpError 401 ''Authentication required'')"
proof -
  have "enforce_entity_request env (Some c) (Some (db, policies)) etype eid action paths = Inr ()"
    if "policy_resolve t pid policies = Inr doc" "paths t = Some ps"
      "\<forall>p \<in> set ps. authorize (subject_for_claims c) doc p action" for doc ps
    using that assms by (simp add: enforce_entity_request_def require_auth_def authorize_all_Inr)
  moreover have "enforce_entity_request env None (Some (db, policies)) etype eid action paths =
      Inl (HttpError 401 ''Authentication required'')"
    by (simp add: enforce_entity_request_def require_auth_def)
  ultimately show ?thesis using enforce_entity_request_Inr [OF _ assms] by blast
qed

theorem enforcement_is_sound_witness:
  "\<exists>doc ps. policy_resolve ''t'' (default_policy_ref ''t'') [] = Inr doc \<and>
     (\<forall>p \<in> set ps. authorize ''tenant:t'' doc p ''READ'') \<and> ps = [resource_path ''t'' ''DEVICE'' ''d1'' []]"
proof -
  have e: "policy_context demo_db ''DEVICE'' ''d1'' = Inr (''t'', default_policy_ref ''t'')"
    "enforcement_enabled []" "subject_for_claims demo_claims \<noteq> ''SYS_ADMIN''"
    "subject_for_claims demo_claims = ''tenant:t''"
    "enforce_entity_request [] (Some demo_claims) (Some (demo_db, [])) ''DEVICE'' ''d1'' ''READ''
       (\<lambda>tenant. Some [resource_path tenant ''DEVICE'' ''d1'' []]) = Inr ()"
    by code_simp+
  from enforcement_is_sound [OF e(2,3,1), of "[]" "''READ''" "\<lambda>tenant. Some [resource_path tenant ''DEVICE'' ''d1'' []]"] e(4,5)
  show ?thesis by auto
qed

text \<open>For a twin of a tenant that has no live default policy document, the read route lets exactly
  the callers bound to that tenant through (system administrators apart): the built-in owner policy
  isolates tenants.\<close>

theorem builtin_policy_isolates_tenants:
  assumes "enforcement_enabled env" "plain_segment t" "CHR '':'' \<notin> set t"
    "policy_context db etype eid = Inr (t, default_policy_ref t)"
    "\<forall>q \<in> set policies. row_tenant q = t \<and> row_id q = default_policy_id \<longrightarrow> row_deprecated q"
    "subject_for_claims c \<noteq> ''SYS_ADMIN''"
  shows "enforce_read env (Some c) (Some (db, policies)) etype eid = Inr () \<longleftrightarrow>
    subject_for_claims c = tenant_prefix @ t"
proof -
  have n: "normalize_ident default_policy_id = Inr default_policy_id" by code_simp
  have "default_policy_ref t = tenant_prefix @ t @ '':'' @ default_policy_id"
    by (simp add: default_policy_ref_def tenant_prefix_def default_policy_id_def)
  moreover have "cat_newest t default_policy_id policies = None"
    unfolding cat_newest_None_iff using assms(5) by blast
  moreover have "default_policy_id \<noteq> []" by (simp add: default_policy_id_def)
  ultimately have res: "policy_resolve t (default_policy_ref t) policies = Inr (builtin_owner_policy t)"
    using policy_resolve_own [OF assms(3) n] by simp
  have "CHR ''/'' \<notin> set t" using assms(2) by (simp add: plain_segment_def)
  then have hd: "hd (path_segments (resource_path t etype eid [])) = t"
    by (simp add: path_segments_resource_path)
  have "to_upper (trim_space ''READ'') = ''READ''" by code_simp
  then have "authorize (subject_for_claims c) (builtin_owner_policy t) (resource_path t etype eid []) ''READ'' \<longleftrightarrow>
      subject_for_claims c = tenant_prefix @ t"
    using authorize_builtin_owner [OF assms(2)] hd by simp
  then show ?thesis
    using assms(1,4,6) res by (simp add: enforce_read_def enforce_entity_request_def require_auth_def)
qed

theorem builtin_policy_isolates_tenants_witness:
  "enforce_read [] (Some [(''tenantId'', JStr ''u'')]) (Some (demo_db, [])) ''DEVICE'' ''d1'' \<noteq> Inr ()"
proof -
  have "enforcement_enabled []" "plain_segment ''t''" "CHR '':'' \<notin> set ''t''"
    "policy_context demo_db ''DEVICE'' ''d1'' = Inr (''t'', default_policy_ref ''t'')"
    "subject_for_claims [(''tenantId'', JStr ''u'')] \<noteq> ''SYS_ADMIN''"
    "subject_for_claims [(''tenantId'', JStr ''u'')] \<noteq> tenant_prefix @ ''t''"
    by code_simp+
  then show ?thesis using builtin_policy_isolates_tenants [of "[]" "''t''" demo_db "''DEVICE''" "''d1''" "[]"] by simp
qed

end
