(* ===== verification/TwinWrite.thy ===== *)
theory TwinWrite
  imports PolicyEnforce
begin

text \<open>
  Model-validated twin state writes (internal/twin/write.go, internal/twinmodel/enforce.go): the
  attribute and feature handlers behind the policy middleware. A handler returns the attributes
  it hands to the shared write path (tenant.SaveAttributesKV, SERVER_SCOPE), which is taken to
  succeed. The persisted derived schema is the one the catalog row holds.

  The properties relate what is persisted to what was authorised and validated; the last ones show
  requests that persist a key the middleware never judged.
\<close>

datatype attributes_verdict =
    AttrOk
  | AttrWarned "violation list"
  | AttrRejected "violation list"
  | AttrError
  | AttrPanic

text \<open>The pin of an entity with its schema: \<open>Inr None\<close> for no pin.\<close>

definition resolve_pinned_schema ::
  "twin_db \<Rightarrow> str \<Rightarrow> str \<Rightarrow> str \<Rightarrow> unit + derived_schema option" where
  "resolve_pinned_schema db tenant etype eid =
     (case registry_find (tenant, etype, eid) (db_registry db) of
        None \<Rightarrow> Inr None
      | Some tr \<Rightarrow>
          (case (rg_model_id tr, rg_model_version tr) of
             (None, None) \<Rightarrow> Inr None
           | (Some m, Some v) \<Rightarrow>
               if trim_space m = [] \<or> trim_space v = [] then Inl ()
               else (case cat_get tenant m v (db_models db) of
                       None \<Rightarrow> Inl ()
                     | Some row \<Rightarrow>
                         let s = row_schema row
                         in if ds_model_id s \<noteq> m \<or> ds_version s \<noteq> v \<or> ds_kind s \<noteq> etype then Inl ()
                            else Inr (Some s))
           | _ \<Rightarrow> Inl ()))"

definition enforcement_mode :: "derived_schema \<Rightarrow> str" where
  "enforcement_mode s = (let m = trim_space (ds_enforcement_mode s) in if m = [] then ''warn'' else m)"

text \<open>A violation verdict in the schema's mode.\<close>

definition judge :: "derived_schema \<Rightarrow> violation list option \<Rightarrow> attributes_verdict" where
  "judge s r =
     (case r of
        None \<Rightarrow> AttrPanic
      | Some vs \<Rightarrow>
          if vs = [] then AttrOk
          else if enforcement_mode s = ''reject'' then AttrRejected vs else AttrWarned vs)"

definition validate_attributes ::
  "regex_engine \<Rightarrow> twin_db \<Rightarrow> str \<Rightarrow> str \<Rightarrow> str \<Rightarrow> members \<Rightarrow> attributes_verdict" where
  "validate_attributes rx db tenant raw_type eid vals =
     (let etype = to_upper (trim_space raw_type)
      in if etype \<noteq> ''DEVICE'' \<and> etype \<noteq> ''ASSET'' then AttrError
         else (case resolve_pinned_schema db tenant etype eid of
                 Inl _ \<Rightarrow> AttrError
               | Inr None \<Rightarrow> AttrOk
               | Inr (Some s) \<Rightarrow>
                   if enforcement_mode s \<noteq> ''warn'' \<and> enforcement_mode s \<noteq> ''reject'' then AttrError
                   else judge s (validate rx s [] [(''attributes'', JObj vals)] False)))"

text \<open>The strict decoding of the body into a struct with one field; a nil map is refused too.\<close>

definition decode_twin_write_body :: "str \<Rightarrow> raw_message \<Rightarrow> members option" where
  "decode_twin_write_body key body =
     (case body of
        Some JNull \<Rightarrow> None
      | Some (JObj kvs) \<Rightarrow>
          (case dec_field dec_any_map None (struct_vals key kvs) of
             Some (Some m) \<Rightarrow> Some m
           | _ \<Rightarrow> None)
      | _ \<Rightarrow> None)"

text \<open>The tenant a write acts in: the entity's own for a system administrator, else the caller's,
  which must be the entity's.\<close>

definition write_tenant :: "members \<Rightarrow> str \<Rightarrow> http_error + str" where
  "write_tenant c owner =
     (if is_sys_admin c then Inr owner
      else if claim_string c ''tenantId'' = [] then Inl (HttpError 401 ''Authentication required'')
      else if owner \<noteq> claim_string c ''tenantId'' then Inl (HttpError 403 ''Cross-tenant access denied'')
      else Inr (claim_string c ''tenantId''))"

definition entity_error :: "db_error \<Rightarrow> http_error" where
  "entity_error e = (case e of NoRows \<Rightarrow> HttpError 404 ''Twin entity not found''
                             | QueryFailed \<Rightarrow> HttpError 500 ''Twin query failed'')"

text \<open>The guards both handlers start with; the result is the entity's kind and the tenant of the write.\<close>

definition write_guards ::
  "str \<Rightarrow> members option \<Rightarrow> str \<Rightarrow> str \<Rightarrow> twin_db option \<Rightarrow> http_error + twin_db \<times> str \<times> str" where
  "write_guards http_method claims raw_type eid db =
     (if http_method \<noteq> ''PUT'' \<and> http_method \<noteq> ''PATCH'' then Inl (HttpError 405 ''Method not allowed'')
      else and_then (require_auth claims) (\<lambda>c.
        let etype = to_upper (trim_space raw_type)
        in if etype \<noteq> ''DEVICE'' \<and> etype \<noteq> ''ASSET'' then Inl (HttpError 400 ''Unsupported twin entity type'')
           else if \<not> looks_like_uuid eid then Inl (HttpError 400 ''Invalid entity id'')
           else and_then (or_fail db (HttpError 503 ''Database not ready'')) (\<lambda>d.
                and_then (wrap_err entity_error (load_entity etype eid d)) (\<lambda>row.
                and_then (write_tenant c (er_tenant row)) (\<lambda>tenant. Inr (d, etype, tenant))))))"

definition handle_save_attributes ::
  "regex_engine \<Rightarrow> str \<Rightarrow> members option \<Rightarrow> str \<Rightarrow> str \<Rightarrow> raw_message \<Rightarrow> twin_db option \<Rightarrow>
   http_error + (str, json) gomap" where
  "handle_save_attributes rx http_method claims raw_type eid body db =
     and_then (write_guards http_method claims raw_type eid db) (\<lambda>(d, etype, tenant).
       case decode_twin_write_body ''attributes'' body of
         None \<Rightarrow> Inl (HttpError 400 ''Invalid JSON'')
       | Some attrs \<Rightarrow>
           (case validate_attributes rx d tenant etype eid attrs of
              AttrRejected _ \<Rightarrow> Inl (HttpError 400 ''Attributes violate pinned twin model'')
            | AttrError \<Rightarrow> Inl (HttpError 500 ''Twin model attribute enforcement failed'')
            | AttrPanic \<Rightarrow> Inl HandlerPanic
            | _ \<Rightarrow> Inr (decode_map attrs)))"

text \<open>The persisted keys of a feature: reported properties, then desired ones.\<close>

definition feature_keys :: "str \<Rightarrow> json \<Rightarrow> (str, json) gomap" where
  "feature_keys name raw =
     (let fm = as_map (Some raw)
      in map (\<lambda>(k, v). (''feature.'' @ name @ ''.'' @ k, v)) (as_map (map_of fm ''properties'')) @
         map (\<lambda>(k, v). (''feature.'' @ name @ ''.desired.'' @ k, v)) (as_map (map_of fm ''desiredProperties'')))"

definition flatten_features :: "members \<Rightarrow> (str, json) gomap" where
  "flatten_features features =
     foldl (\<lambda>flat (k, v). AList.update k v flat) []
       (concat (map (\<lambda>(name, raw). feature_keys name raw) (decode_map features)))"

definition extract_desired_payload :: "members \<Rightarrow> (str \<times> (str, json) gomap) list option" where
  "extract_desired_payload features =
     (let feats = filter (\<lambda>(name, desired). desired \<noteq> [])
            (map (\<lambda>(name, raw). (name, as_map (map_of (as_map (Some raw)) ''desiredProperties''))) (decode_map features))
      in if feats = [] then None else Some feats)"

text \<open>What a feature write persists, and the desired state it delivers to a device.\<close>

definition handle_save_features ::
  "regex_engine \<Rightarrow> str \<Rightarrow> members option \<Rightarrow> str \<Rightarrow> str \<Rightarrow> raw_message \<Rightarrow> twin_db option \<Rightarrow>
   http_error + (str, json) gomap \<times> (str \<times> (str, json) gomap) list option" where
  "handle_save_features rx http_method claims raw_type eid body db =
     and_then (write_guards http_method claims raw_type eid db) (\<lambda>(d, etype, tenant).
       case decode_twin_write_body ''features'' body of
         None \<Rightarrow> Inl (HttpError 400 ''Invalid JSON'')
       | Some features \<Rightarrow>
           let persisted = (flatten_features features,
                 if etype = ''DEVICE'' then extract_desired_payload features else None)
           in (case resolve_pinned_schema d tenant etype eid of
                 Inl _ \<Rightarrow> Inl (HttpError 500 ''Twin model schema resolution failed'')
               | Inr None \<Rightarrow> Inr persisted
               | Inr (Some s) \<Rightarrow>
                   if enforcement_mode s \<noteq> ''warn'' \<and> enforcement_mode s \<noteq> ''reject''
                     then Inl (HttpError 500 ''Invalid twin model enforcement mode'')
                   else if ds_unknown_keys s = ''reject'' \<and>
                     list_ex (\<lambda>name. name \<noteq> ''telemetry'' \<and> map_of (ds_features s) name = None) (obj_keys features)
                     then Inl (HttpError 400 ''Feature not declared by pinned twin model'')
                   else (case judge s (validate rx s [] [(''features'', JObj features)] False) of
                           AttrRejected _ \<Rightarrow> Inl (HttpError 400 ''Features violate pinned twin model'')
                         | AttrPanic \<Rightarrow> Inl HandlerPanic
                         | _ \<Rightarrow> Inr persisted)))"

section \<open>Facts\<close>

lemma write_guards_Inr:
  assumes "write_guards m claims raw_type eid db = Inr (d, etype, tenant)"
  shows "db = Some d \<and> etype = to_upper (trim_space raw_type) \<and> etype \<in> {''DEVICE'', ''ASSET''} \<and>
    (\<exists>c row. claims = Some c \<and> load_entity etype eid d = Inr row \<and> er_tenant row = tenant \<and>
       (is_sys_admin c \<or> claim_string c ''tenantId'' = tenant))"
proof -
  from assms obtain c row where *: "claims = Some c" "db = Some d" "load_entity etype eid d = Inr row"
    "etype = to_upper (trim_space raw_type)" "write_tenant c (er_tenant row) = Inr tenant"
    "etype = ''DEVICE'' \<or> etype = ''ASSET''"
    unfolding write_guards_def Let_def require_auth_def if_fail_Inr and_then_Inr or_fail_Inr wrap_err_Inr
    by blast
  from *(5) have "er_tenant row = tenant \<and> (is_sys_admin c \<or> claim_string c ''tenantId'' = tenant)"
    by (auto simp: write_tenant_def split: if_splits)
  with * show ?thesis by blast
qed

lemma set_decode_map_keys: "fst ` set (decode_map kvs) = fst ` set kvs"
  by (force simp: decode_map_def)

lemma decode_body_unambiguous:
  assumes "decode_twin_write_body key body = Some m"
    "\<forall>kvs. body = Some (JObj kvs) \<longrightarrow> unambiguous key kvs"
  shows "\<exists>kvs. body = Some (JObj kvs) \<and> obj_get kvs key = Some (JObj m)"
proof -
  from assms(1) obtain kvs where b: "body = Some (JObj kvs)"
    and d: "dec_field dec_any_map None (struct_vals key kvs) = Some (Some m)"
    by (auto simp: decode_twin_write_body_def split: option.splits json.splits)
  have "struct_vals key kvs = (case obj_get kvs key of None \<Rightarrow> [] | Some v \<Rightarrow> [v])"
    using assms(2) b by (blast intro: unambiguous_vals)
  with d obtain v where v: "obj_get kvs key = Some v" "dec_any_map v None = Some (Some m)"
    by (cases "obj_get kvs key") (auto split: option.splits simp del: obj_get_None)
  then have "v = JObj m" by (cases v) auto
  with b v show ?thesis by blast
qed

lemma handle_save_attributes_InrD:
  assumes "handle_save_attributes rx m claims raw_type eid body db = Inr saved"
  obtains d etype tenant attrs where "write_guards m claims raw_type eid db = Inr (d, etype, tenant)"
    "decode_twin_write_body ''attributes'' body = Some attrs" "saved = decode_map attrs"
    "validate_attributes rx d tenant etype eid attrs = AttrOk \<or>
     (\<exists>vs. validate_attributes rx d tenant etype eid attrs = AttrWarned vs)"
proof -
  from assms obtain d etype tenant where g: "write_guards m claims raw_type eid db = Inr (d, etype, tenant)"
    unfolding handle_save_attributes_def and_then_Inr by auto
  with assms obtain attrs where a: "decode_twin_write_body ''attributes'' body = Some attrs"
    unfolding handle_save_attributes_def by (cases "decode_twin_write_body ''attributes'' body") simp_all
  with assms g that show thesis
    unfolding handle_save_attributes_def
    by (cases "validate_attributes rx d tenant etype eid attrs") simp_all
qed

text \<open>The resource path of the middleware for a write route, for a body that names its key once.\<close>

lemma write_paths_attributes:
  assumes "body = Some (JObj kvs)" "obj_get kvs ''attributes'' = Some (JObj m)" "has_suffix url ''/attributes''"
    "name \<in> fst ` set m"
  shows "\<exists>ps. write_paths url body etype eid t = Some ps \<and> resource_path t etype eid [''attributes'', name] \<in> set ps"
proof -
  have "obj_keys m \<noteq> []" using assms(4) set_obj_keys [of m] by (metis empty_iff set_empty)
  then show ?thesis using assms
    by (simp add: write_paths_def write_route_key_def Let_def set_obj_keys [symmetric] del: set_obj_keys)
qed

lemma load_entity_context:
  assumes "load_entity etype eid d = Inr row" "policy_context d etype eid \<noteq> Inl QueryFailed"
  shows "\<exists>pid. policy_context d etype eid = Inr (er_tenant row, pid)"
proof -
  have "load_identity row d \<noteq> Inl NoRows"
    by (auto simp: load_identity_def Let_def get_registry_by_entity_def or_fail_def split: option.splits)
  moreover have "load_identity row d \<noteq> Inl QueryFailed"
    by (auto simp: load_identity_def Let_def get_registry_by_entity_def or_fail_def split: option.splits)
  ultimately obtain i where "load_identity row d = Inr i"
    by (metis (full_types) db_error.exhaust obj_sumE)
  then show ?thesis using assms(1) by (simp add: policy_context_def)
qed

section \<open>Properties\<close>

text \<open>C3: What the attributes route persists was authorised and validated. For a body that names its
  attributes once, with an entity kind spelled canonically, every key handed to the write path was
  authorised for WRITE on its own resource path by the policy resolved for the entity, the entity
  belongs to the caller's tenant, and a model pinned in reject mode found no violation.\<close>

theorem saved_attributes_authorised:
  assumes "enforce_write env (Some c) (Some (d, policies)) etype eid url body = Inr ()"
    "handle_save_attributes rx m (Some c) etype eid body (Some d) = Inr saved"
    "to_upper (trim_space etype) = etype" "has_suffix url ''/attributes''"
    "\<forall>kvs. body = Some (JObj kvs) \<longrightarrow> unambiguous ''attributes'' kvs"
    "enforcement_enabled env" "\<not> is_sys_admin c"
  shows "\<exists>t pid doc. t = claim_string c ''tenantId'' \<and> policy_context d etype eid = Inr (t, pid) \<and>
    policy_resolve t pid policies = Inr doc \<and>
    (\<forall>(name, v) \<in> set saved.
       authorize (subject_for_claims c) doc (resource_path t etype eid [''attributes'', name]) ''WRITE'') \<and>
    (\<forall>s. resolve_pinned_schema d t etype eid = Inr (Some s) \<longrightarrow> enforcement_mode s = ''reject'' \<longrightarrow>
       (\<exists>attrs. saved = decode_map attrs \<and> validate rx s [] [(''attributes'', JObj attrs)] False = Some []))"
proof -
  from assms(2) obtain d' e t attrs where g: "write_guards m (Some c) etype eid (Some d) = Inr (d', e, t)"
    and b: "decode_twin_write_body ''attributes'' body = Some attrs" and s: "saved = decode_map attrs"
    and v: "validate_attributes rx d' t e eid attrs = AttrOk \<or>
      (\<exists>vs. validate_attributes rx d' t e eid attrs = AttrWarned vs)"
    by (rule handle_save_attributes_InrD)
  from write_guards_Inr [OF g] assms(3,7) obtain row where e: "d' = d" "e = etype" "etype \<in> {''DEVICE'', ''ASSET''}"
    and row: "load_entity etype eid d = Inr row" "er_tenant row = t" "t = claim_string c ''tenantId''" by auto
  have "load_identity row d \<noteq> Inl QueryFailed"
    by (auto simp: load_identity_def Let_def get_registry_by_entity_def or_fail_def split: option.splits)
  then have "policy_context d etype eid \<noteq> Inl QueryFailed"
    using row(1) by (auto simp: policy_context_def and_then_def split: sum.splits)
  from load_entity_context [OF row(1) this] row(2) obtain pid where
    ctx: "policy_context d etype eid = Inr (t, pid)" by blast
  have subj: "subject_for_claims c \<noteq> ''SYS_ADMIN''"
    using assms(7) by (auto simp: subject_for_claims_def has_scope_def is_sys_admin_def list_ex_iff tenant_prefix_def)
  obtain doc ps where doc: "policy_resolve t pid policies = Inr doc" "write_paths url body etype eid t = Some ps"
    "\<forall>p \<in> set ps. authorize (subject_for_claims c) doc p ''WRITE''"
    using enforce_entity_request_Inr [OF assms(1) [unfolded enforce_write_def] assms(6) subj ctx] by blast
  obtain kvs where k: "body = Some (JObj kvs)" "obj_get kvs ''attributes'' = Some (JObj attrs)"
    using decode_body_unambiguous [OF b assms(5)] by blast
  have auth: "authorize (subject_for_claims c) doc (resource_path t etype eid [''attributes'', name]) ''WRITE''"
    if "(name, w) \<in> set saved" for name w
  proof -
    have "name \<in> fst ` set attrs" using that s set_decode_map_keys [of attrs] by force
    from write_paths_attributes [OF k assms(4) this, of etype eid t] doc(2,3) show ?thesis by auto
  qed
  have rej: "validate rx sch [] [(''attributes'', JObj attrs)] False = Some []"
    if "resolve_pinned_schema d t etype eid = Inr (Some sch)" "enforcement_mode sch = ''reject''" for sch
    using v that e assms(3) by (auto simp: validate_attributes_def Let_def judge_def split: option.splits if_splits)
  show ?thesis using row(3) ctx doc(1) auth rej s by (intro exI [of _ t] exI [of _ pid] exI [of _ doc]) auto
qed

text \<open>A tenant whose default policy grants its tree and revokes writing one attribute and one feature.\<close>

definition asset_id :: str where "asset_id = ''aaaaaaaa-aaaa-aaaa-aaaa-aaaaaaaaaaaa''"

definition asset_db :: twin_db where
  "asset_db = demo_db\<lparr>db_assets := [demo_device\<lparr>en_id := asset_id\<rparr>]\<rparr>"

definition guard_policy :: policy where
  "guard_policy = \<lparr>pol_id = ''default'', pol_version = ''1.0.0'', pol_kind = ''TWIN'',
     pol_subjects = [''tenant:t''], pol_resources = [],
     pol_grants = [\<lparr>ent_resource = ''thing:/t/#'', ent_actions = [''READ'', ''WRITE'']\<rparr>],
     pol_revokes = [\<lparr>ent_resource = ''thing:/t/ASSET/'' @ asset_id @ ''/attributes/secret'', ent_actions = [''WRITE'']\<rparr>,
                    \<lparr>ent_resource = ''thing:/t/ASSET/'' @ asset_id @ ''/features/temp'', ent_actions = [''WRITE'']\<rparr>]\<rparr>"

definition guard_rows :: policy_db where
  "guard_rows = [sample_row\<lparr>row_id := ''default'', row_definition := guard_policy,
     row_schema := derive_policy guard_policy\<rparr>]"

definition attributes_url :: str where "attributes_url = ''/api/twins/ASSET/x/attributes''"
definition features_url :: str where "features_url = ''/api/twins/ASSET/x/features''"

definition put_attribute :: "str \<Rightarrow> str \<Rightarrow> raw_message" where
  "put_attribute key name = Some (JObj [(key, JObj [(name, JInt 1)])])"

theorem saved_attributes_authorised_witness:
  "\<exists>t pid doc. policy_context asset_db ''ASSET'' asset_id = Inr (t, pid) \<and> policy_resolve t pid guard_rows = Inr doc \<and>
     authorize (subject_for_claims demo_claims) doc (resource_path t ''ASSET'' asset_id [''attributes'', ''name'']) ''WRITE''"
proof -
  let ?body = "put_attribute ''attributes'' ''name''"
  have a: "enforce_write [] (Some demo_claims) (Some (asset_db, guard_rows)) ''ASSET'' asset_id attributes_url ?body = Inr ()"
    "handle_save_attributes demo_engine ''PUT'' (Some demo_claims) ''ASSET'' asset_id ?body (Some asset_db) = Inr [(''name'', JInt 1)]"
    "to_upper (trim_space ''ASSET'') = ''ASSET''" "has_suffix attributes_url ''/attributes''"
    "enforcement_enabled []" "\<not> is_sys_admin demo_claims"
    by code_simp+
  have "\<forall>kvs. ?body = Some (JObj kvs) \<longrightarrow> unambiguous ''attributes'' kvs"
    by (simp add: put_attribute_def unambiguous_def)
  from saved_attributes_authorised [OF a(1-4) this a(5,6)] show ?thesis by auto
qed

text \<open>The entity kind of the path is not normalised before the policy is looked up: the resolver
  searches any kind other than the literal ASSET among the devices, so a write addressed to "asset"
  finds no entity, is let through unjudged, and the handler, which does normalise the kind, persists
  the attribute whose write the policy revokes.\<close>

theorem lower_case_kind_skips_policy:
  "enforce_write [] (Some demo_claims) (Some (asset_db, guard_rows)) ''ASSET'' asset_id attributes_url
     (put_attribute ''attributes'' ''secret'') = Inl (HttpError 403 ''Policy denies access'') \<and>
   enforce_write [] (Some demo_claims) (Some (asset_db, guard_rows)) ''asset'' asset_id attributes_url
     (put_attribute ''attributes'' ''secret'') = Inr () \<and>
   handle_save_attributes demo_engine ''PUT'' (Some demo_claims) ''asset'' asset_id
     (put_attribute ''attributes'' ''secret'') (Some asset_db) = Inr [(''secret'', JInt 1)]"
  by (intro conjI) code_simp+

text \<open>The middleware looks for the exact member "attributes", the handler's struct takes any case:
  with the member spelled "Attributes" only the base path is judged and the revoked attribute is
  persisted.\<close>

theorem case_variant_body_skips_policy:
  "enforce_write [] (Some demo_claims) (Some (asset_db, guard_rows)) ''ASSET'' asset_id attributes_url
     (put_attribute ''Attributes'' ''secret'') = Inr () \<and>
   handle_save_attributes demo_engine ''PUT'' (Some demo_claims) ''ASSET'' asset_id
     (put_attribute ''Attributes'' ''secret'') (Some asset_db) = Inr [(''secret'', JInt 1)]"
  by (intro conjI) code_simp+

text \<open>Features and attributes share one key space. The write of property limit of feature temp is
  refused, yet writing the attribute named feature.temp.limit is authorised and persists the very
  same key; and two different feature writes can persist one key.\<close>

theorem feature_keys_collide:
  "enforce_write [] (Some demo_claims) (Some (asset_db, guard_rows)) ''ASSET'' asset_id features_url
     (Some (JObj [(''features'', JObj [(''temp'', JObj [(''properties'', JObj [(''limit'', JInt 1)])])])])) =
       Inl (HttpError 403 ''Policy denies access'') \<and>
   flatten_features [(''temp'', JObj [(''properties'', JObj [(''limit'', JInt 1)])])] = [(''feature.temp.limit'', JInt 1)] \<and>
   enforce_write [] (Some demo_claims) (Some (asset_db, guard_rows)) ''ASSET'' asset_id attributes_url
     (put_attribute ''attributes'' ''feature.temp.limit'') = Inr () \<and>
   handle_save_attributes demo_engine ''PUT'' (Some demo_claims) ''ASSET'' asset_id
     (put_attribute ''attributes'' ''feature.temp.limit'') (Some asset_db) = Inr [(''feature.temp.limit'', JInt 1)] \<and>
   flatten_features [(''a'', JObj [(''desiredProperties'', JObj [(''p'', JInt 1)])])] =
     flatten_features [(''a.desired'', JObj [(''properties'', JObj [(''p'', JInt 1)])])]"
  by (intro conjI) code_simp+

end
