(* ===== verification/CatalogHttp.thy ===== *)
theory CatalogHttp
  imports PolicyEnforce
begin

text \<open>
  The HTTP surface of the two catalogs: internal/policy/http.go and internal/twinmodel/http.go.
  A handler maps the method, the claims of a verified token, the path values or the query, the body
  and the database to an error, which leaves the database alone, or to a response and the database
  after the request. The database is \<open>None\<close> when there is no pool.

  A body is its length with its value, \<open>None\<close> for bytes that are not exactly one JSON value.
  An error message carries the text of the sentinel error; the details that follow it are left out.
\<close>

type_synonym body = "nat \<times> raw_message"

datatype 'd catalog_response =
    Created "'d \<times> bool \<times> millis \<times> millis"
  | Found "'d \<times> bool \<times> millis \<times> millis"
  | Listed "('d \<times> bool \<times> millis \<times> millis) list" nat nat bool nat

text \<open>The document with the catalog's own fields added.\<close>

definition record_payload :: "('d, 's) cat_row \<Rightarrow> 'd \<times> bool \<times> millis \<times> millis" where
  "record_payload r = (row_definition r, row_deprecated r, row_created r, row_updated r)"

definition list_response :: "('d, 's) page \<Rightarrow> 'd catalog_response" where
  "list_response p = Listed (map record_payload (pg_data p)) (pg_total_elements p) (pg_total_pages p)
     (pg_has_next p) (pg_page p)"

definition read_one_json :: "nat \<Rightarrow> body \<Rightarrow> raw_message" where
  "read_one_json limit body = (if fst body = 0 \<or> limit < fst body then None else snd body)"

definition optional_bool :: "str \<Rightarrow> bool \<Rightarrow> bool option" where
  "optional_bool raw fallback = (if raw = [] then Some fallback else parse_bool raw)"

definition page_option :: "str \<Rightarrow> str + nat" where
  "page_option raw =
     (if raw = [] then Inr 0
      else (case atoi raw of
              None \<Rightarrow> Inl ''Invalid page''
            | Some n \<Rightarrow> if n < 0 then Inl ''Invalid page'' else Inr (nat n)))"

definition page_size_option :: "str \<Rightarrow> str + nat" where
  "page_size_option raw =
     (if raw = [] then Inr 100
      else (case atoi raw of
              None \<Rightarrow> Inl ''Invalid pageSize''
            | Some n \<Rightarrow> if n < 1 then Inl ''Invalid pageSize'' else Inr (nat (clamp_page_size n 100))))"

section \<open>The policy catalog\<close>

definition max_policy_body_bytes :: nat where "max_policy_body_bytes = 1048576"

definition policy_list_options :: "(str \<times> str) list \<Rightarrow> str + list_options" where
  "policy_list_options query =
     and_then (page_option (query_get query ''page'')) (\<lambda>page.
     and_then (page_size_option (query_get query ''pageSize'')) (\<lambda>size.
     and_then (or_fail (optional_bool (query_get query ''latest'') True) ''Invalid latest'') (\<lambda>latest.
     and_then (or_fail (optional_bool (query_get query ''includeDeprecated'') False) ''Invalid includeDeprecated'') (\<lambda>dep.
       Inr \<lparr>lo_page = page, lo_page_size = size, lo_kind = [], lo_latest = latest, lo_include_deprecated = dep\<rparr>))))"

definition policy_path_identity :: "str \<Rightarrow> str \<Rightarrow> str + str \<times> str" where
  "policy_path_identity raw_id version =
     (case normalize_ident raw_id of
        Inl _ \<Rightarrow> Inl ''Invalid policyId''
      | Inr pid \<Rightarrow>
          if pid \<noteq> raw_id then Inl ''Invalid policyId''
          else if validate_version version \<noteq> Inr () then Inl ''Invalid policy version''
          else Inr (pid, version))"

definition policy_catalog_tenant :: "members option \<Rightarrow> http_error + str" where
  "policy_catalog_tenant claims =
     and_then (require_auth claims) (\<lambda>c.
       if claim_string c ''tenantId'' = [] then Inl (HttpError 403 ''Missing tenant'')
       else Inr (claim_string c ''tenantId''))"

definition policy_store_error :: "str \<Rightarrow> policy_error cat_error \<Rightarrow> http_error" where
  "policy_store_error fallback e =
     (case e of
        Conflict \<Rightarrow> HttpError 409 ''policy version already exists''
      | DeprecatedVersion \<Rightarrow> HttpError 409 ''policy version is deprecated''
      | ForbiddenTenant \<Rightarrow> HttpError 403 ''cross-tenant access denied''
      | NotFound \<Rightarrow> HttpError 404 ''policy not found''
      | InvalidDocument _ \<Rightarrow> HttpError 400 ''invalid policy''
      | _ \<Rightarrow> HttpError 500 fallback)"

definition policy_handle_create ::
  "members option \<Rightarrow> body \<Rightarrow> millis \<Rightarrow> policy_db option \<Rightarrow> http_error + policy catalog_response \<times> policy_db" where
  "policy_handle_create claims body now pool =
     and_then (policy_catalog_tenant claims) (\<lambda>tenant.
     and_then (or_fail pool (HttpError 500 ''Policy database unavailable'')) (\<lambda>db.
       case read_one_json max_policy_body_bytes body of
         None \<Rightarrow> Inl (HttpError 400 ''Invalid policy JSON body'')
       | Some raw \<Rightarrow>
           and_then (wrap_err (policy_store_error ''Policy create failed'') (policy_create tenant (Some raw) now db))
             (\<lambda>(r, db'). Inr (Created (record_payload r), db'))))"

definition policy_handle_list ::
  "members option \<Rightarrow> (str \<times> str) list \<Rightarrow> policy_db option \<Rightarrow> http_error + policy catalog_response \<times> policy_db" where
  "policy_handle_list claims query pool =
     and_then (policy_catalog_tenant claims) (\<lambda>tenant.
     and_then (or_fail pool (HttpError 500 ''Policy database unavailable'')) (\<lambda>db.
     and_then (wrap_err (HttpError 400) (policy_list_options query)) (\<lambda>opts.
     and_then (or_fail (policy_list tenant opts db) (HttpError 500 ''Policy list failed'')) (\<lambda>page.
       Inr (list_response page, db)))))"

definition policy_handle_collection ::
  "str \<Rightarrow> members option \<Rightarrow> (str \<times> str) list \<Rightarrow> body \<Rightarrow> millis \<Rightarrow> policy_db option \<Rightarrow>
   http_error + policy catalog_response \<times> policy_db" where
  "policy_handle_collection http_method claims query body now pool =
     (if http_method = ''GET'' then policy_handle_list claims query pool
      else if http_method = ''POST'' then policy_handle_create claims body now pool
      else Inl (HttpError 405 ''Method not allowed''))"

definition policy_handle_version ::
  "str \<Rightarrow> members option \<Rightarrow> str \<Rightarrow> str \<Rightarrow> millis \<Rightarrow> policy_db option \<Rightarrow>
   http_error + policy catalog_response \<times> policy_db" where
  "policy_handle_version http_method claims raw_id raw_version now pool =
     (if http_method \<noteq> ''GET'' \<and> http_method \<noteq> ''DELETE'' then Inl (HttpError 405 ''Method not allowed'')
      else and_then (policy_catalog_tenant claims) (\<lambda>tenant.
           and_then (wrap_err (HttpError 400) (policy_path_identity raw_id raw_version)) (\<lambda>(pid, version).
           and_then (or_fail pool (HttpError 500 ''Policy database unavailable'')) (\<lambda>db.
           and_then (wrap_err (policy_store_error ''Policy query failed'')
               (if http_method = ''DELETE'' then policy_deprecate tenant pid version now db
                else and_then (policy_get tenant pid version db) (\<lambda>r. Inr (r, db))))
             (\<lambda>(r, db'). Inr (Found (record_payload r), db'))))))"

section \<open>The twin model catalog\<close>

definition max_catalog_body_bytes :: nat where "max_catalog_body_bytes = 5242880"

definition kind_option :: "str \<Rightarrow> str + str" where
  "kind_option raw =
     (if raw = [] then Inr []
      else let kind = to_upper (trim_space raw)
           in if kind \<noteq> ''DEVICE'' \<and> kind \<noteq> ''ASSET'' then Inl ''Invalid model kind'' else Inr kind)"

definition model_list_options :: "(str \<times> str) list \<Rightarrow> str + list_options" where
  "model_list_options query =
     and_then (page_option (query_get query ''page'')) (\<lambda>page.
     and_then (page_size_option (query_get query ''pageSize'')) (\<lambda>size.
     and_then (kind_option (query_get query ''kind'')) (\<lambda>kind.
     and_then (or_fail (optional_bool (query_get query ''latest'') True) ''Invalid latest'') (\<lambda>latest.
     and_then (or_fail (optional_bool (query_get query ''includeDeprecated'') False) ''Invalid includeDeprecated'') (\<lambda>dep.
       Inr \<lparr>lo_page = page, lo_page_size = size, lo_kind = kind, lo_latest = latest, lo_include_deprecated = dep\<rparr>)))))"

definition model_path_identity :: "str \<Rightarrow> str \<Rightarrow> str + str \<times> str" where
  "model_path_identity raw_id version =
     (case normalize_ident raw_id of
        Inl _ \<Rightarrow> Inl ''Invalid modelId''
      | Inr mid \<Rightarrow>
          if mid \<noteq> raw_id then Inl ''Invalid modelId''
          else if validate_version version \<noteq> Inr () then Inl ''Invalid model version''
          else Inr (mid, version))"

definition model_catalog_tenant :: "members \<Rightarrow> str option" where
  "model_catalog_tenant c = (if claim_string c ''tenantId'' = [] then None else Some (claim_string c ''tenantId''))"

definition model_store_error :: "str \<Rightarrow> model_error cat_error \<Rightarrow> http_error" where
  "model_store_error fallback e =
     (case e of
        Conflict \<Rightarrow> HttpError 409 ''twin model version already exists''
      | DeprecatedVersion \<Rightarrow> HttpError 409 ''twin model version is deprecated''
      | ForbiddenTenant \<Rightarrow> HttpError 403 ''cross-tenant access denied''
      | NotFound \<Rightarrow> HttpError 404 ''twin model or entity not found''
      | KindMismatch \<Rightarrow> HttpError 400 ''model kind does not match entity type''
      | InvalidDocument _ \<Rightarrow> HttpError 400 ''invalid twin model''
      | UnknownRelationType _ \<Rightarrow> HttpError 400 ''invalid twin model''
      | StoreFailure \<Rightarrow> HttpError 500 fallback)"

definition model_handle_create ::
  "regex_engine \<Rightarrow> str \<Rightarrow> body \<Rightarrow> millis \<Rightarrow> twin_db \<Rightarrow> http_error + twin_model catalog_response \<times> twin_db" where
  "model_handle_create rx tenant body now db =
     (case read_one_json max_catalog_body_bytes body of
        None \<Rightarrow> Inl (HttpError 400 ''Invalid model JSON'')
      | Some raw \<Rightarrow>
          and_then (wrap_err (model_store_error ''Twin model create failed'') (model_create rx tenant (Some raw) now db))
            (\<lambda>(r, db'). Inr (Created (record_payload r), db')))"

definition model_handle_list ::
  "str \<Rightarrow> (str \<times> str) list \<Rightarrow> twin_db \<Rightarrow> http_error + twin_model catalog_response \<times> twin_db" where
  "model_handle_list tenant query db =
     and_then (wrap_err (HttpError 400) (model_list_options query)) (\<lambda>opts.
     and_then (or_fail (model_list tenant opts db) (HttpError 500 ''Twin model list failed'')) (\<lambda>page.
       Inr (list_response page, db)))"

definition model_handle_collection ::
  "regex_engine \<Rightarrow> str \<Rightarrow> members option \<Rightarrow> (str \<times> str) list \<Rightarrow> body \<Rightarrow> millis \<Rightarrow> twin_db option \<Rightarrow>
   http_error + twin_model catalog_response \<times> twin_db" where
  "model_handle_collection rx http_method claims query body now pool =
     (if http_method \<noteq> ''GET'' \<and> http_method \<noteq> ''POST'' then Inl (HttpError 405 ''Method not allowed'')
      else and_then (require_auth claims) (\<lambda>c.
           and_then (or_fail (model_catalog_tenant c) (HttpError 403 ''A tenant-bound identity is required'')) (\<lambda>tenant.
           and_then (or_fail pool (HttpError 500 ''Twin model database unavailable'')) (\<lambda>db.
             if http_method = ''GET'' then model_handle_list tenant query db
             else model_handle_create rx tenant body now db))))"

definition model_handle_version ::
  "str \<Rightarrow> members option \<Rightarrow> str \<Rightarrow> str \<Rightarrow> millis \<Rightarrow> twin_db option \<Rightarrow>
   http_error + twin_model catalog_response \<times> twin_db" where
  "model_handle_version http_method claims raw_id raw_version now pool =
     (if http_method \<noteq> ''GET'' \<and> http_method \<noteq> ''DELETE'' then Inl (HttpError 405 ''Method not allowed'')
      else and_then (require_auth claims) (\<lambda>c.
           and_then (or_fail (model_catalog_tenant c) (HttpError 403 ''A tenant-bound identity is required'')) (\<lambda>tenant.
           and_then (wrap_err (HttpError 400) (model_path_identity raw_id raw_version)) (\<lambda>(mid, version).
           and_then (or_fail pool (HttpError 500 ''Twin model database unavailable'')) (\<lambda>db.
           and_then (wrap_err (model_store_error ''Twin model query failed'')
               (if http_method = ''DELETE'' then model_deprecate tenant mid version now db
                else and_then (model_get tenant mid version db) (\<lambda>r. Inr (r, db))))
             (\<lambda>(r, db'). Inr (Found (record_payload r), db')))))))"

text \<open>The reference a re-pointing names: a struct of two strings, unknown members refused.\<close>

definition decode_model_reference :: "raw_message \<Rightarrow> (str \<times> str) option" where
  "decode_model_reference body =
     (case body of
        Some JNull \<Rightarrow> Some ([], [])
      | Some (JObj kvs) \<Rightarrow>
          if list_ex (\<lambda>kv. \<not> equal_fold (fst kv) ''modelId'' \<and> \<not> equal_fold (fst kv) ''version'') kvs then None
          else (case (dec_field dec_string [] (struct_vals ''modelId'' kvs),
                      dec_field dec_string [] (struct_vals ''version'' kvs)) of
                  (Some m, Some v) \<Rightarrow> Some (m, v)
                | _ \<Rightarrow> None)
      | _ \<Rightarrow> None)"

definition model_handle_repoint ::
  "str \<Rightarrow> members option \<Rightarrow> str \<Rightarrow> str \<Rightarrow> raw_message \<Rightarrow> millis \<Rightarrow> twin_db option \<Rightarrow>
   http_error + pin \<times> twin_db" where
  "model_handle_repoint http_method claims raw_type eid body now pool =
     (if http_method \<noteq> ''PUT'' then Inl (HttpError 405 ''Method not allowed'')
      else and_then (require_auth claims) (\<lambda>c.
        let etype = to_upper (trim_space raw_type)
        in if etype \<noteq> ''DEVICE'' \<and> etype \<noteq> ''ASSET'' \<or> \<not> looks_like_uuid eid
           then Inl (HttpError 400 ''Invalid twin entity identity'')
           else and_then (or_fail (decode_model_reference body) (HttpError 400 ''Invalid model reference JSON''))
             (\<lambda>(raw_id, raw_version).
             and_then (wrap_err (HttpError 400) (model_path_identity raw_id raw_version)) (\<lambda>(mid, version).
             and_then (or_fail pool (HttpError 500 ''Twin model database unavailable'')) (\<lambda>db.
               wrap_err (model_store_error ''Twin model re-point failed'')
                 (model_repoint (claim_string c ''tenantId'') etype eid mid version (is_sys_admin c) now db))))))"

section \<open>Facts\<close>

fun payloads :: "'d catalog_response \<Rightarrow> ('d \<times> bool \<times> millis \<times> millis) list" where
  "payloads (Created p) = [p]"
| "payloads (Found p) = [p]"
| "payloads (Listed ps _ _ _ _) = ps"

text \<open>A request in tenant \<open>t\<close> turns the rows into \<open>rows'\<close> and answers with
  \<open>ps\<close>: only rows of the tenant change, and only they are shown.\<close>

definition within_tenant ::
  "str \<Rightarrow> ('d, 's) cat_row list \<Rightarrow> ('d \<times> bool \<times> millis \<times> millis) list \<Rightarrow> ('d, 's) cat_row list \<Rightarrow> bool" where
  "within_tenant t rows ps rows' \<longleftrightarrow>
     filter (\<lambda>r. row_tenant r \<noteq> t) rows' = filter (\<lambda>r. row_tenant r \<noteq> t) rows \<and>
     set ps \<subseteq> record_payload ` {r \<in> set rows'. row_tenant r = t}"

lemma within_tenant_insert: "row_tenant r = t \<Longrightarrow> within_tenant t rows [record_payload r] (rows @ [r])"
  by (simp add: within_tenant_def)

lemma within_tenant_deprecate:
  assumes "cat_get t i v rows = Some old"
  shows "within_tenant t rows [record_payload (deprecate_row now old)]
    (map (\<lambda>q. if row_key q = (t, i, v) then deprecate_row now q else q) rows)"
proof -
  let ?f = "\<lambda>q. if row_key q = (t, i, v) then deprecate_row now q else q"
  have "filter (\<lambda>r. row_tenant r \<noteq> t) (map ?f rows) = filter (\<lambda>r. row_tenant r \<noteq> t) rows"
    by (induction rows) (auto simp: deprecate_row_def row_key_def)
  moreover have "old \<in> set rows" "row_key old = (t, i, v)"
    using assms find_SomeD [of _ rows old] by (auto simp: cat_get_def)
  then have "deprecate_row now old \<in> {r \<in> set (map ?f rows). row_tenant r = t}"
    by (auto simp: row_key_def deprecate_row_def intro!: rev_image_eqI [of old])
  ultimately show ?thesis by (simp add: within_tenant_def)
qed

lemma within_tenant_get:
  assumes "cat_get t i v rows = Some r"
  shows "within_tenant t rows [record_payload r] rows"
proof -
  have "r \<in> set rows" "row_key r = (t, i, v)"
    using assms find_SomeD [of _ rows r] by (auto simp: cat_get_def)
  then show ?thesis by (auto simp: within_tenant_def row_key_def)
qed

lemma within_tenant_list:
  assumes "cat_list t opts rows = Some p"
  shows "within_tenant t rows (payloads (list_response p)) rows"
proof -
  have "set (pg_data p) \<subseteq> set (cat_selection t opts rows)"
    using assms by (auto simp: cat_list_def Let_def split: if_splits dest!: in_set_takeD in_set_dropD)
  then have "set (pg_data p) \<subseteq> {r \<in> set rows. row_tenant r = t}"
    using set_cat_selection [of t opts rows] by blast
  then show ?thesis by (auto simp: within_tenant_def list_response_def)
qed

lemma policy_catalog_tenant_Inr:
  "policy_catalog_tenant claims = Inr t \<longleftrightarrow>
     (\<exists>c. claims = Some c \<and> t = claim_string c ''tenantId'' \<and> t \<noteq> [])"
  by (auto simp: policy_catalog_tenant_def require_auth_def and_then_Inr or_fail_Inr)

lemma model_catalog_tenant_Some:
  "model_catalog_tenant c = Some t \<longleftrightarrow> t = claim_string c ''tenantId'' \<and> t \<noteq> []"
  by (auto simp: model_catalog_tenant_def)

lemma policy_handle_create_Inr:
  assumes "policy_handle_create claims body now (Some db) = Inr (resp, db')"
  shows "\<exists>t. policy_catalog_tenant claims = Inr t \<and> within_tenant t db (payloads resp) db' \<and>
    (policy_invar db \<longrightarrow> policy_invar db')"
proof -
  from assms obtain t raw r where t: "policy_catalog_tenant claims = Inr t"
    and c: "policy_create t (Some raw) now db = Inr (r, db')" and resp: "resp = Created (record_payload r)"
    unfolding policy_handle_create_def
    by (auto simp: and_then_Inr wrap_err_Inr split: option.splits)
  from c have "row_tenant r = t" "db' = db @ [r]" by (auto simp: policy_create_Inr)
  with t resp policy_create_invar [OF _ c] show ?thesis by (auto simp: within_tenant_insert)
qed

lemma policy_handle_list_Inr:
  assumes "policy_handle_list claims query (Some db) = Inr (resp, db')"
  shows "\<exists>t. policy_catalog_tenant claims = Inr t \<and> within_tenant t db (payloads resp) db' \<and> db' = db"
proof -
  from assms obtain t opts p where t: "policy_catalog_tenant claims = Inr t"
    and p: "policy_list t opts db = Some p" and resp: "resp = list_response p" "db' = db"
    unfolding policy_handle_list_def by (auto simp: and_then_Inr wrap_err_Inr or_fail_Inr)
  from p have "within_tenant t db (payloads resp) db"
    unfolding resp policy_list_def by (rule within_tenant_list)
  with t resp show ?thesis by blast
qed

lemma policy_handle_version_Inr:
  assumes "policy_handle_version m claims i v now (Some db) = Inr (resp, db')"
  shows "\<exists>t. policy_catalog_tenant claims = Inr t \<and> within_tenant t db (payloads resp) db' \<and>
    (policy_invar db \<longrightarrow> policy_invar db')"
proof -
  from assms obtain t pid w r where t: "policy_catalog_tenant claims = Inr t"
    and s: "(if m = ''DELETE'' then policy_deprecate t pid w now db
       else and_then (policy_get t pid w db) (\<lambda>r. Inr (r, db))) = Inr (r, db')"
    and resp: "resp = Found (record_payload r)"
    unfolding policy_handle_version_def if_fail_Inr
    by (auto simp: and_then_Inr wrap_err_Inr or_fail_Inr)
  show ?thesis
  proof (cases "m = ''DELETE''")
    case True
    with s have d: "policy_deprecate t pid w now db = Inr (r, db')" by simp
    then obtain old where "cat_get t pid w db = Some old" "r = deprecate_row now old"
      "db' = map (\<lambda>q. if row_key q = (t, pid, w) then deprecate_row now q else q) db"
      by (auto simp: policy_deprecate_Inr)
    with t resp policy_deprecate_invar [OF _ d] show ?thesis by (auto simp: within_tenant_deprecate)
  next
    case False
    with s have "cat_get t pid w db = Some r" "db' = db"
      by (auto simp: policy_get_def and_then_Inr or_fail_Inr)
    with t resp show ?thesis by (auto simp: within_tenant_get)
  qed
qed

lemma activate_keeps_others:
  "filter (\<lambda>r. rg_tenant r \<noteq> t) (db_registry (activate_matching_registry_rows t m now db)) =
     filter (\<lambda>r. rg_tenant r \<noteq> t) (db_registry db)"
  by (simp add: activate_matching_registry_rows_def, rule filter_map_outside) (auto simp: activates_def)

definition registry_within_tenant :: "str \<Rightarrow> twin_db \<Rightarrow> twin_db \<Rightarrow> bool" where
  "registry_within_tenant t db db' \<longleftrightarrow>
     filter (\<lambda>r. rg_tenant r \<noteq> t) (db_registry db') = filter (\<lambda>r. rg_tenant r \<noteq> t) (db_registry db)"

lemma model_handle_create_Inr:
  assumes "model_handle_create rx t body now db = Inr (resp, db')"
  shows "within_tenant t (db_models db) (payloads resp) (db_models db') \<and> registry_within_tenant t db db'"
proof -
  from assms obtain raw r where c: "model_create rx t (Some raw) now db = Inr (r, db')"
    and resp: "resp = Created (record_payload r)"
    unfolding model_handle_create_def by (auto simp: and_then_Inr wrap_err_Inr split: option.splits)
  from c have "row_tenant r = t" "db_models db' = db_models db @ [r]" "registry_within_tenant t db db'"
    by (auto simp: model_create_Inr registry_within_tenant_def activate_keeps_others)
  with resp show ?thesis by (auto simp: within_tenant_insert)
qed

lemma model_handle_list_Inr:
  assumes "model_handle_list t query db = Inr (resp, db')"
  shows "within_tenant t (db_models db) (payloads resp) (db_models db') \<and> registry_within_tenant t db db'"
  using assms unfolding model_handle_list_def model_list_def
  by (auto simp: and_then_Inr or_fail_Inr registry_within_tenant_def intro: within_tenant_list)

lemma model_handle_version_Inr:
  assumes "model_handle_version m claims i v now (Some db) = Inr (resp, db')"
  shows "\<exists>c t. claims = Some c \<and> model_catalog_tenant c = Some t \<and>
    within_tenant t (db_models db) (payloads resp) (db_models db') \<and> registry_within_tenant t db db'"
proof -
  from assms obtain c t mid w r where t: "claims = Some c" "model_catalog_tenant c = Some t"
    and s: "(if m = ''DELETE'' then model_deprecate t mid w now db
       else and_then (model_get t mid w db) (\<lambda>r. Inr (r, db))) = Inr (r, db')"
    and resp: "resp = Found (record_payload r)"
    unfolding model_handle_version_def if_fail_Inr require_auth_def
    by (auto simp: and_then_Inr wrap_err_Inr or_fail_Inr)
  have "within_tenant t (db_models db) [record_payload r] (db_models db') \<and> registry_within_tenant t db db'"
  proof (cases "m = ''DELETE''")
    case True
    with s have d: "model_deprecate t mid w now db = Inr (r, db')" by simp
    then show ?thesis
      by (auto simp: model_deprecate_Inr registry_within_tenant_def intro: within_tenant_deprecate)
  next
    case False
    with s show ?thesis
      by (auto simp: model_get_def and_then_Inr or_fail_Inr registry_within_tenant_def intro: within_tenant_get)
  qed
  with t resp show ?thesis by auto
qed

lemma model_handle_collection_Inr:
  assumes "model_handle_collection rx m claims query body now (Some db) = Inr (resp, db')"
  shows "\<exists>c t. claims = Some c \<and> model_catalog_tenant c = Some t \<and>
    within_tenant t (db_models db) (payloads resp) (db_models db') \<and> registry_within_tenant t db db'"
proof -
  from assms obtain c t where t: "claims = Some c" "model_catalog_tenant c = Some t"
    and r: "(if m = ''GET'' then model_handle_list t query db else model_handle_create rx t body now db) = Inr (resp, db')"
    unfolding model_handle_collection_def if_fail_Inr require_auth_def
    by (auto simp: and_then_Inr or_fail_Inr)
  from r have "within_tenant t (db_models db) (payloads resp) (db_models db') \<and> registry_within_tenant t db db'"
    by (cases "m = ''GET''") (auto dest: model_handle_list_Inr model_handle_create_Inr)
  with t show ?thesis by blast
qed

lemma model_handle_repoint_Inr:
  assumes "model_handle_repoint m claims raw_type eid body now (Some db) = Inr (p, db')"
  shows "\<exists>c t. claims = Some c \<and> (is_sys_admin c \<or> t = claim_string c ''tenantId'') \<and>
    db_models db' = db_models db \<and> registry_within_tenant t db db'"
proof -
  from assms obtain c etype mid v where c: "claims = Some c"
    and r: "model_repoint (claim_string c ''tenantId'') etype eid mid v (is_sys_admin c) now db = Inr (p, db')"
    unfolding model_handle_repoint_def if_fail_Inr require_auth_def Let_def
    by (auto simp: and_then_Inr wrap_err_Inr or_fail_Inr split: if_splits)
  from r obtain t where t: "is_sys_admin c \<or> t = claim_string c ''tenantId''"
    and db': "db' = db\<lparr>db_registry := map (\<lambda>r. if registry_key r = (t, etype, eid)
        then set_pin mid v (definition_urn etype mid v) now r else r) (db_registry db)\<rparr>"
    by (rule model_repoint_InrD)
  have "registry_within_tenant t db db'" unfolding db' registry_within_tenant_def
    by (simp, rule filter_map_outside) (auto simp: registry_key_def set_pin_def Let_def)
  with c t db' show ?thesis by auto
qed

section \<open>Properties\<close>

text \<open>Tenant isolation of the policy catalog's HTTP surface. Whatever the method, the path, the
  query and the body, a request that succeeds comes from a caller bound to a tenant, changes only
  rows of that tenant, answers with documents of that tenant only, and keeps the catalog's invariant.\<close>

theorem policy_http_within_tenant:
  assumes "policy_invar db"
    "policy_handle_collection m claims query body now (Some db) = Inr (resp, db') \<or>
     policy_handle_version m claims i v now (Some db) = Inr (resp, db')"
  shows "\<exists>c t. claims = Some c \<and> t = claim_string c ''tenantId'' \<and> t \<noteq> [] \<and>
    filter (\<lambda>r. row_tenant r \<noteq> t) db' = filter (\<lambda>r. row_tenant r \<noteq> t) db \<and>
    set (payloads resp) \<subseteq> record_payload ` {r \<in> set db'. row_tenant r = t} \<and> policy_invar db'"
proof -
  have "\<exists>t. policy_catalog_tenant claims = Inr t \<and> within_tenant t db (payloads resp) db' \<and> policy_invar db'"
    using assms(2)
  proof
    assume "policy_handle_collection m claims query body now (Some db) = Inr (resp, db')"
    then show ?thesis
      using policy_handle_list_Inr [of claims query db resp db'] assms(1)
        policy_handle_create_Inr [of claims body now db resp db']
      unfolding policy_handle_collection_def by (auto split: if_splits)
  next
    assume "policy_handle_version m claims i v now (Some db) = Inr (resp, db')"
    from policy_handle_version_Inr [OF this] assms(1) show ?thesis by blast
  qed
  then show ?thesis unfolding policy_catalog_tenant_Inr within_tenant_def by blast
qed

theorem policy_http_within_tenant_witness:
  "\<exists>resp db'. policy_handle_version ''DELETE'' (Some demo_claims) ''plant_a'' ''1.0.0'' 9
      (Some [sample_row, sample_row\<lparr>row_tenant := ''u''\<rparr>]) = Inr (resp, db') \<and>
    filter (\<lambda>r. row_tenant r \<noteq> ''t'') db' = [sample_row\<lparr>row_tenant := ''u''\<rparr>] \<and>
    set (payloads resp) \<subseteq> record_payload ` {r \<in> set db'. row_tenant r = ''t''}"
proof -
  let ?db = "[sample_row, sample_row\<lparr>row_tenant := ''u''\<rparr>]"
  let ?r = "policy_handle_version ''DELETE'' (Some demo_claims) ''plant_a'' ''1.0.0'' 9 (Some ?db)"
  have inv: "policy_invar ?db"
    using sample_db_invar by (auto simp: policy_invar_def cat_invar_def row_key_def sample_row_def)
  have "isl ?r = False" "claim_string demo_claims ''tenantId'' = ''t''"
    "filter (\<lambda>r. row_tenant r \<noteq> ''t'') ?db = [sample_row\<lparr>row_tenant := ''u''\<rparr>]" by code_simp+
  moreover from this(1) obtain resp db' where r: "?r = Inr (resp, db')" by (cases ?r) auto
  ultimately show ?thesis using policy_http_within_tenant [OF inv disjI2 [OF r]]
    by (auto simp: sample_row_def)
qed

text \<open>Tenant isolation of the twin model catalog's HTTP surface: a successful catalog request
  changes catalog and registry rows of the caller's tenant only and shows only its documents; a
  re-pointing leaves the catalog alone and changes registry rows of one tenant only, the caller's
  own unless the caller is a system administrator.\<close>

theorem model_http_within_tenant:
  "(model_handle_collection rx m claims query body now (Some db) = Inr (resp, db') \<or>
    model_handle_version m claims i v now (Some db) = Inr (resp, db') \<longrightarrow>
      (\<exists>c t. claims = Some c \<and> t = claim_string c ''tenantId'' \<and> t \<noteq> [] \<and>
         filter (\<lambda>r. row_tenant r \<noteq> t) (db_models db') = filter (\<lambda>r. row_tenant r \<noteq> t) (db_models db) \<and>
         filter (\<lambda>r. rg_tenant r \<noteq> t) (db_registry db') = filter (\<lambda>r. rg_tenant r \<noteq> t) (db_registry db) \<and>
         set (payloads resp) \<subseteq> record_payload ` {r \<in> set (db_models db'). row_tenant r = t})) \<and>
   (model_handle_repoint m claims raw_type eid ref now (Some db) = Inr (p, db') \<longrightarrow>
      (\<exists>c t. claims = Some c \<and> (is_sys_admin c \<or> t = claim_string c ''tenantId'') \<and>
         db_models db' = db_models db \<and>
         filter (\<lambda>r. rg_tenant r \<noteq> t) (db_registry db') = filter (\<lambda>r. rg_tenant r \<noteq> t) (db_registry db)))"
proof -
  have "\<exists>c t. claims = Some c \<and> model_catalog_tenant c = Some t \<and>
      within_tenant t (db_models db) (payloads resp) (db_models db') \<and> registry_within_tenant t db db'"
    if "model_handle_collection rx m claims query body now (Some db) = Inr (resp, db') \<or>
      model_handle_version m claims i v now (Some db) = Inr (resp, db')"
    using that model_handle_collection_Inr model_handle_version_Inr by blast
  then show ?thesis
    using model_handle_repoint_Inr [of m claims raw_type eid ref now db p db']
    unfolding model_catalog_tenant_Some within_tenant_def registry_within_tenant_def by blast
qed

definition pump_id :: str where "pump_id = ''aaaaaaaa-aaaa-aaaa-aaaa-aaaaaaaaaaaa''"

definition pump_db :: twin_db where
  "pump_db = (let db = foldl (registry_step demo_engine) (demo_db\<lparr>db_devices := [demo_device\<lparr>en_id := pump_id\<rparr>]\<rparr>)
       [SyncRow ''t'' ''device'' pump_id, CreateModel ''t'' (Some (JObj
          [(''modelId'', JStr ''Pump 7''), (''version'', JStr ''1.2.0''), (''kind'', JStr ''DEVICE'')])) 7]
     in db\<lparr>db_registry := db_registry db @ map (\<lambda>r. r\<lparr>rg_tenant := ''u''\<rparr>) (db_registry db)\<rparr>)"

definition pump_reference :: raw_message where
  "pump_reference = Some (JObj [(''modelId'', JStr ''pump_7''), (''version'', JStr ''1.2.0'')])"

theorem model_http_within_tenant_witness:
  "(\<exists>resp db'. model_handle_version ''GET'' (Some demo_claims) ''pump_7'' ''1.2.0'' 9 (Some pump_db) = Inr (resp, db') \<and>
      set (payloads resp) \<subseteq> record_payload ` {r \<in> set (db_models db'). row_tenant r = ''t''}) \<and>
   (\<exists>p db'. model_handle_repoint ''PUT'' (Some demo_claims) '' device'' pump_id pump_reference 9 (Some pump_db) = Inr (p, db') \<and>
      map rg_tenant (filter (\<lambda>r. rg_tenant r \<noteq> ''t'') (db_registry db')) = [''u''])"
proof -
  let ?g = "model_handle_version ''GET'' (Some demo_claims) ''pump_7'' ''1.2.0'' 9 (Some pump_db)"
  let ?p = "model_handle_repoint ''PUT'' (Some demo_claims) '' device'' pump_id pump_reference 9 (Some pump_db)"
  have e: "isl ?g = False" "isl ?p = False" "claim_string demo_claims ''tenantId'' = ''t''"
    "is_sys_admin demo_claims = False"
    "map rg_tenant (filter (\<lambda>r. rg_tenant r \<noteq> ''t'') (db_registry pump_db)) = [''u'']" by code_simp+
  obtain resp db1 where g: "?g = Inr (resp, db1)" using e(1) by (cases ?g) auto
  obtain p db2 where p: "?p = Inr (p, db2)" using e(2) by (cases ?p) auto
  have "set (payloads resp) \<subseteq> record_payload ` {r \<in> set (db_models db1). row_tenant r = ''t''}"
    using model_http_within_tenant [THEN conjunct1, THEN mp, OF disjI2 [OF g]] e(3) by auto
  moreover have "filter (\<lambda>r. rg_tenant r \<noteq> ''t'') (db_registry db2) = filter (\<lambda>r. rg_tenant r \<noteq> ''t'') (db_registry pump_db)"
    using model_http_within_tenant [THEN conjunct2, THEN mp, OF p] e(3,4) by auto
  ultimately show ?thesis using g p e(5) by auto
qed

end
