(* ===== verification/Topology.thy ===== *)
theory Topology
  imports TwinRegistryLaws HttpUtil "HOL-Library.Product_Lexorder"
begin

text \<open>
  The topology of twins (internal/topology/topology.go): tenant-scoped edges in topology_edge, each
  mirrored into the legacy relation table, with a vocabulary of relation types. A table is the list
  of its rows, a transaction a function from the database to an error or the database it commits.

  Ids are UUIDs in their canonical text form. Edge metadata is \<open>NoInfo\<close> when it is absent
  or empty and \<open>BadInfo\<close> when it is not JSON; an edge keeps it as jsonb, the mirror as text. Relation types are looked up, and text is
  ordered, bytewise.
\<close>

section \<open>Data\<close>

record entity_ref =
  ref_type :: str
  ref_id :: str

record edge =
  ed_tenant :: str
  ed_from :: entity_ref
  ed_to :: entity_ref
  ed_relation :: str
  ed_group :: str
  ed_direction :: str
  ed_metadata :: raw_info

record edge_filter =
  ef_tenant :: str
  ef_from :: entity_ref
  ef_to :: entity_ref
  ef_relation :: str
  ef_group :: str

record edge_row =
  te_tenant :: str
  te_from :: entity_ref
  te_to :: entity_ref
  te_group :: str
  te_relation :: str
  te_direction :: str
  te_metadata :: json
  te_created :: millis
  te_updated :: millis
  te_version :: int

record relation_row =
  lr_from :: entity_ref
  lr_to :: entity_ref
  lr_group :: str
  lr_relation :: str
  lr_info :: raw_info
  lr_version :: int

record relation_type =
  rt_name :: str
  rt_from :: "str list"
  rt_to :: "str list"

text \<open>The owning tenants of the entities that are neither devices nor assets are in
  \<open>tp_owners\<close>, by kind and id; a NULL tenant is \<open>None\<close>.\<close>

record topo_db =
  tp_edges :: "edge_row list"
  tp_relations :: "relation_row list"
  tp_types :: "relation_type list"
  tp_owners :: "(str \<times> str, str option) gomap"
  tp_twins :: twin_db

datatype topo_error =
    CrossTenant
  | InvalidRelationType
  | UnknownEntity
  | RelationNotAllowedByModel
  | TraversalBudget
  | BadLimit
  | InvalidMetadata
  | QueryError

definition te_key :: "edge_row \<Rightarrow> str \<times> entity_ref \<times> entity_ref \<times> str \<times> str \<times> str" where
  "te_key r = (te_tenant r, te_from r, te_to r, te_group r, te_relation r, te_direction r)"

definition lr_key :: "relation_row \<Rightarrow> entity_ref \<times> entity_ref \<times> str \<times> str" where
  "lr_key r = (lr_from r, lr_to r, lr_group r, lr_relation r)"

section \<open>Vocabulary\<close>

definition default_relation_types :: "relation_type list" where
  "default_relation_types =
     [\<lparr>rt_name = ''Contains'', rt_from = [''ASSET''], rt_to = [''ASSET'', ''DEVICE'']\<rparr>,
      \<lparr>rt_name = ''Manages'', rt_from = [''ASSET'', ''CUSTOMER'', ''TENANT''], rt_to = [''ASSET'', ''DEVICE'', ''CUSTOMER'']\<rparr>,
      \<lparr>rt_name = ''LocatedIn'', rt_from = [''DEVICE'', ''ASSET''], rt_to = [''ASSET'']\<rparr>,
      \<lparr>rt_name = ''ConnectedTo'', rt_from = [''DEVICE'', ''ASSET''], rt_to = [''DEVICE'', ''ASSET'']\<rparr>,
      \<lparr>rt_name = ''Feeds'', rt_from = [''DEVICE'', ''ASSET''], rt_to = [''DEVICE'', ''ASSET'']\<rparr>,
      \<lparr>rt_name = ''DependsOn'', rt_from = [''DEVICE'', ''ASSET''], rt_to = [''DEVICE'', ''ASSET'']\<rparr>]"

definition upsert_type :: "relation_type \<Rightarrow> relation_type list \<Rightarrow> relation_type list" where
  "upsert_type rt types =
     (if rt_name rt \<in> rt_name ` set types then map (\<lambda>q. if rt_name q = rt_name rt then rt else q) types
      else types @ [rt])"

definition seed_relation_types :: "topo_db \<Rightarrow> topo_db" where
  "seed_relation_types db = db\<lparr>tp_types := foldl (\<lambda>ts rt. upsert_type rt ts) (tp_types db) default_relation_types\<rparr>"

section \<open>Normalisation\<close>

definition normalize_entity_type :: "str \<Rightarrow> str" where
  "normalize_entity_type v = to_upper (trim_space v)"

definition normalize_ref :: "entity_ref \<Rightarrow> entity_ref" where
  "normalize_ref r = r\<lparr>ref_type := normalize_entity_type (ref_type r)\<rparr>"

definition or_default :: "str \<Rightarrow> str \<Rightarrow> str" where
  "or_default d v = (if v = [] then d else v)"

definition normalize_edge :: "edge \<Rightarrow> edge" where
  "normalize_edge e =
     e\<lparr>ed_from := normalize_ref (ed_from e), ed_to := normalize_ref (ed_to e),
       ed_relation := trim_space (ed_relation e),
       ed_group := or_default ''COMMON'' (to_upper (trim_space (ed_group e))),
       ed_direction := or_default ''DIRECTED'' (to_upper (trim_space (ed_direction e)))\<rparr>"

definition normalize_filter :: "edge_filter \<Rightarrow> edge_filter" where
  "normalize_filter f =
     f\<lparr>ef_from := normalize_ref (ef_from f), ef_to := normalize_ref (ef_to f),
       ef_relation := trim_space (ef_relation f),
       ef_group := or_default ''COMMON'' (to_upper (trim_space (ef_group f)))\<rparr>"

section \<open>Ownership\<close>

definition owned_kinds :: "str list" where
  "owned_kinds = [''ASSET'', ''DEVICE'', ''CUSTOMER'', ''ENTITY_VIEW'', ''DASHBOARD'', ''DEVICE_PROFILE'', ''ASSET_PROFILE'']"

text \<open>The tenant column of the row of an entity of an owned kind.\<close>

definition owner_row :: "topo_db \<Rightarrow> str \<Rightarrow> str \<Rightarrow> str option option" where
  "owner_row db kind ident =
     (if kind = ''ASSET'' \<or> kind = ''DEVICE''
      then map_option en_tenant (find (\<lambda>e. en_id e = ident) (entity_table kind (tp_twins db)))
      else map_of (tp_owners db) (kind, ident))"

definition resolve_entity_tenant :: "topo_db \<Rightarrow> entity_ref \<Rightarrow> topo_error + str" where
  "resolve_entity_tenant db ref =
     (let kind = normalize_entity_type (ref_type ref)
      in if kind = ''TENANT'' then Inr (ref_id ref)
         else if kind \<notin> set owned_kinds then Inl UnknownEntity
         else (case owner_row db kind (ref_id ref) of
                 None \<Rightarrow> Inl UnknownEntity
               | Some None \<Rightarrow> Inl QueryError
               | Some (Some t) \<Rightarrow> Inr t))"

definition validate_relation_type :: "relation_type list \<Rightarrow> edge \<Rightarrow> topo_error + unit" where
  "validate_relation_type types e =
     (case find (\<lambda>rt. rt_name rt = ed_relation e) types of
        None \<Rightarrow> Inl InvalidRelationType
      | Some rt \<Rightarrow>
          if ref_type (ed_from e) \<notin> set (rt_from rt) \<or> ref_type (ed_to e) \<notin> set (rt_to rt)
          then Inl InvalidRelationType else Inr ())"

section \<open>Relations declared by pinned models\<close>

record model_pin =
  mp_model :: str
  mp_version :: str
  mp_schema :: derived_schema

text \<open>\<open>Inr None\<close> is a pin that is not present.\<close>

definition load_model_pin :: "twin_db \<Rightarrow> str \<Rightarrow> entity_ref \<Rightarrow> topo_error + model_pin option" where
  "load_model_pin db tenant ref =
     (case registry_find (tenant, ref_type ref, ref_id ref) (db_registry db) of
        None \<Rightarrow> Inr None
      | Some tr \<Rightarrow>
          (case (rg_model_id tr, rg_model_version tr) of
             (None, None) \<Rightarrow> Inr None
           | (Some m, Some v) \<Rightarrow>
               (case cat_get tenant m v (db_models db) of
                  None \<Rightarrow> Inl QueryError
                | Some row \<Rightarrow>
                    let s = row_schema row
                    in if ds_model_id s \<noteq> m \<or> ds_version s \<noteq> v \<or> ds_kind s \<noteq> ref_type ref then Inl QueryError
                       else Inr (Some \<lparr>mp_model = m, mp_version = v, mp_schema = s\<rparr>))
           | _ \<Rightarrow> Inl QueryError))"

datatype relation_violation = NotDeclared | TargetModelDenied | TargetTypeDenied | NotBidirectional

definition relationship_violations ::
  "model_pin \<Rightarrow> str \<Rightarrow> model_pin \<Rightarrow> str \<Rightarrow> bool \<Rightarrow> relation_violation list" where
  "relationship_violations source relation target target_type bidi =
     (case map_of (ds_relationships (mp_schema source)) relation of
        None \<Rightarrow> [NotDeclared]
      | Some rs \<Rightarrow>
          (if mp_model target \<notin> set (rs_target rs) then [TargetModelDenied] else []) @
          (if target_type \<notin> set (rs_target_entity_types rs) then [TargetTypeDenied] else []) @
          (if bidi \<and> \<not> rs_bidirectional rs then [NotBidirectional] else []))"

definition relation_enforcement_mode :: "str \<Rightarrow> str" where
  "relation_enforcement_mode env = (if equal_fold (trim_space env) ''reject'' then ''reject'' else ''warn'')"

definition is_bidi :: "edge \<Rightarrow> bool" where
  "is_bidi e \<longleftrightarrow> ed_direction e = ''BIDIRECTIONAL''"

definition enforce_model_relation :: "str \<Rightarrow> twin_db \<Rightarrow> edge \<Rightarrow> topo_error + unit" where
  "enforce_model_relation env db e =
     and_then (load_model_pin db (ed_tenant e) (ed_from e)) (\<lambda>from_pin.
     and_then (load_model_pin db (ed_tenant e) (ed_to e)) (\<lambda>to_pin.
       case (from_pin, to_pin) of
         (Some f, Some t) \<Rightarrow>
           let vs = relationship_violations f (ed_relation e) t (ref_type (ed_to e)) (is_bidi e) @
                 (if is_bidi e then relationship_violations t (ed_relation e) f (ref_type (ed_from e)) True else [])
           in if vs = [] then Inr ()
              else if is_bidi e \<or> relation_enforcement_mode env = ''reject'' then Inl RelationNotAllowedByModel
              else Inr ()
       | _ \<Rightarrow> Inr ()))"

section \<open>Saving\<close>

text \<open>Whether a row is a bidirectional edge between the endpoints of an edge, in either orientation.\<close>

definition same_pair :: "edge \<Rightarrow> edge_row \<Rightarrow> bool" where
  "same_pair e r \<longleftrightarrow>
     te_tenant r = ed_tenant e \<and> te_group r = ed_group e \<and> te_relation r = ed_relation e \<and>
     te_direction r = ''BIDIRECTIONAL'' \<and>
     (te_from r = ed_from e \<and> te_to r = ed_to e \<or> te_from r = ed_to e \<and> te_to r = ed_from e)"

definition touch_edge :: "json \<Rightarrow> millis \<Rightarrow> edge_row \<Rightarrow> edge_row" where
  "touch_edge meta now r = r\<lparr>te_metadata := meta, te_updated := now, te_version := te_version r + 1\<rparr>"

definition new_edge_row :: "edge \<Rightarrow> json \<Rightarrow> millis \<Rightarrow> edge_row" where
  "new_edge_row e meta now =
     \<lparr>te_tenant = ed_tenant e, te_from = ed_from e, te_to = ed_to e, te_group = ed_group e,
      te_relation = ed_relation e, te_direction = ed_direction e, te_metadata = meta,
      te_created = now, te_updated = now, te_version = 1\<rparr>"

definition save_topology_edge :: "edge \<Rightarrow> json \<Rightarrow> millis \<Rightarrow> edge_row list \<Rightarrow> edge_row list" where
  "save_topology_edge e meta now rows =
     (let new = new_edge_row e meta now;
          known = (if is_bidi e then find (same_pair e) rows else None);
          key = (case known of Some r \<Rightarrow> te_key r | None \<Rightarrow> te_key new)
      in if key \<in> te_key ` set rows then map (\<lambda>r. if te_key r = key then touch_edge meta now r else r) rows
         else rows @ [new])"

definition mirror_row :: "entity_ref \<Rightarrow> entity_ref \<Rightarrow> edge \<Rightarrow> json \<Rightarrow> relation_row" where
  "mirror_row from_ref to_ref e meta =
     \<lparr>lr_from = from_ref, lr_to = to_ref, lr_group = ed_group e, lr_relation = ed_relation e,
      lr_info = Info meta, lr_version = 1\<rparr>"

definition save_legacy_mirror ::
  "entity_ref \<Rightarrow> entity_ref \<Rightarrow> edge \<Rightarrow> json \<Rightarrow> relation_row list \<Rightarrow> relation_row list" where
  "save_legacy_mirror from_ref to_ref e meta rows =
     (let new = mirror_row from_ref to_ref e meta
      in if lr_key new \<in> lr_key ` set rows
         then map (\<lambda>r. if lr_key r = lr_key new then r\<lparr>lr_info := Info meta, lr_version := lr_version r + 1\<rparr> else r) rows
         else rows @ [new])"

definition edge_metadata :: "edge \<Rightarrow> json option" where
  "edge_metadata e = (case ed_metadata e of NoInfo \<Rightarrow> Some (JObj []) | BadInfo \<Rightarrow> None | Info j \<Rightarrow> Some j)"

text \<open>The checks of a normalised edge inside the transaction.\<close>

definition check_edge :: "str \<Rightarrow> topo_db \<Rightarrow> edge \<Rightarrow> topo_error + unit" where
  "check_edge env db e =
     and_then (validate_relation_type (tp_types db) e) (\<lambda>_.
     and_then (if is_bidi e then validate_relation_type (tp_types db) (e\<lparr>ed_from := ed_to e, ed_to := ed_from e\<rparr>)
               else Inr ()) (\<lambda>_.
     and_then (resolve_entity_tenant db (ed_from e)) (\<lambda>from_tenant.
     and_then (resolve_entity_tenant db (ed_to e)) (\<lambda>to_tenant.
       if from_tenant \<noteq> ed_tenant e \<or> to_tenant \<noteq> ed_tenant e then Inl CrossTenant
       else enforce_model_relation env (tp_twins db) e))))"

definition store_edge :: "edge \<Rightarrow> json \<Rightarrow> millis \<Rightarrow> topo_db \<Rightarrow> topo_db" where
  "store_edge e meta now db =
     (let there = save_legacy_mirror (ed_from e) (ed_to e) e meta (tp_relations db);
          back = (if is_bidi e then save_legacy_mirror (ed_to e) (ed_from e) e meta there else there)
      in db\<lparr>tp_edges := save_topology_edge e (canon meta) now (tp_edges db), tp_relations := back\<rparr>)"

definition save_edge :: "str \<Rightarrow> edge \<Rightarrow> millis \<Rightarrow> topo_db \<Rightarrow> topo_error + topo_db" where
  "save_edge env raw now db =
     (let e = normalize_edge raw
      in if ed_relation e = [] \<or> ref_id (ed_from e) = [] \<or> ref_id (ed_to e) = [] then Inl UnknownEntity
         else if ed_direction e \<noteq> ''DIRECTED'' \<and> ed_direction e \<noteq> ''BIDIRECTIONAL'' then Inl InvalidRelationType
         else (case edge_metadata e of
                 None \<Rightarrow> Inl InvalidMetadata
               | Some meta \<Rightarrow> and_then (check_edge env db e) (\<lambda>_. Inr (store_edge e meta now db))))"

section \<open>Deleting\<close>

definition filter_hits :: "edge_filter \<Rightarrow> edge_row \<Rightarrow> bool" where
  "filter_hits f r \<longleftrightarrow>
     te_tenant r = ef_tenant f \<and> te_group r = ef_group f \<and> te_relation r = ef_relation f \<and>
     (te_from r = ef_from f \<and> te_to r = ef_to f \<or>
      te_direction r = ''BIDIRECTIONAL'' \<and> te_from r = ef_to f \<and> te_to r = ef_from f)"

definition remove_legacy_mirror_if_unused ::
  "str \<Rightarrow> entity_ref \<Rightarrow> entity_ref \<Rightarrow> str \<Rightarrow> str \<Rightarrow> edge_row list \<Rightarrow> relation_row list \<Rightarrow> relation_row list" where
  "remove_legacy_mirror_if_unused tenant from_ref to_ref grp relation edges rows =
     (if list_ex (\<lambda>te. te_tenant te = tenant \<and> te_from te = from_ref \<and> te_to te = to_ref \<and>
            te_group te = grp \<and> te_relation te = relation) edges
      then rows else filter (\<lambda>r. lr_key r \<noteq> (from_ref, to_ref, grp, relation)) rows)"

definition delete_edge :: "edge_filter \<Rightarrow> topo_db \<Rightarrow> topo_db" where
  "delete_edge raw db =
     (let f = normalize_filter raw;
          deleted_bidi = list_ex (\<lambda>r. filter_hits f r \<and> te_direction r = ''BIDIRECTIONAL'') (tp_edges db);
          edges = filter (\<lambda>r. \<not> filter_hits f r) (tp_edges db);
          there = remove_legacy_mirror_if_unused (ef_tenant f) (ef_from f) (ef_to f) (ef_group f) (ef_relation f)
                    edges (tp_relations db);
          back = (if deleted_bidi
                  then remove_legacy_mirror_if_unused (ef_tenant f) (ef_to f) (ef_from f) (ef_group f) (ef_relation f)
                         edges there
                  else there)
      in db\<lparr>tp_edges := edges, tp_relations := back\<rparr>)"

section \<open>Listing\<close>

definition ref_order :: "edge_row \<Rightarrow> str \<times> str \<times> str \<times> str \<times> str" where
  "ref_order r = (te_relation r, ref_type (te_from r), ref_id (te_from r), ref_type (te_to r), ref_id (te_to r))"

definition list_edges :: "edge_filter \<Rightarrow> topo_db \<Rightarrow> edge_row list" where
  "list_edges raw db =
     (let f = normalize_filter raw; unset = (\<lambda>v w. w = [] \<or> v = w)
      in sort_key ref_order (filter (\<lambda>r. te_tenant r = ef_tenant f \<and>
           unset (ref_id (te_from r)) (ref_id (ef_from f)) \<and> unset (ref_type (te_from r)) (ref_type (ef_from f)) \<and>
           unset (ref_id (te_to r)) (ref_id (ef_to f)) \<and> unset (ref_type (te_to r)) (ref_type (ef_to f)) \<and>
           unset (te_relation r) (ef_relation f) \<and> unset (te_group r) (ef_group f)) (tp_edges db)))"

end
