(* ===== verification/TopologyConsistency.thy ===== *)
theory TopologyConsistency
  imports Topology
begin

text \<open>
  Consistency between topology_edge and the legacy relation table (internal/topology/consistency.go
  and the endpoints of http.go), with the backfills from the legacy table. The report counts rows
  by the report's queries; a backfill inserts what they find missing.

  The additional_info of a relation is \<open>NoInfo\<close> when it is NULL or empty and
  \<open>BadInfo\<close> when its cast to jsonb fails.
\<close>

section \<open>The resolved legacy relations\<close>

text \<open>COALESCE over the left joins of the entity tables; the kinds are compared as they are stored.\<close>

definition joined_tenant :: "topo_db \<Rightarrow> entity_ref \<Rightarrow> str option" where
  "joined_tenant db ref =
     (if ref_type ref \<in> set owned_kinds then Option.bind (owner_row db (ref_type ref) (ref_id ref)) id else None)"

definition from_tenant :: "topo_db \<Rightarrow> relation_row \<Rightarrow> str option" where
  "from_tenant db r =
     (if ref_type (lr_from r) = ''TENANT'' then Some (ref_id (lr_from r)) else joined_tenant db (lr_from r))"

definition to_tenant :: "topo_db \<Rightarrow> relation_row \<Rightarrow> str option" where
  "to_tenant db r = joined_tenant db (lr_to r)"

definition resolved_group :: "relation_row \<Rightarrow> str" where
  "resolved_group r = or_default ''COMMON'' (lr_group r)"

definition type_allows :: "relation_type list \<Rightarrow> str \<Rightarrow> entity_ref \<Rightarrow> entity_ref \<Rightarrow> bool" where
  "type_allows types name a b \<longleftrightarrow>
     (case find (\<lambda>rt. rt_name rt = name) types of
        None \<Rightarrow> False
      | Some rt \<Rightarrow> ref_type a \<in> set (rt_from rt) \<and> ref_type b \<in> set (rt_to rt))"

definition governed :: "topo_db \<Rightarrow> relation_row \<Rightarrow> bool" where
  "governed db r \<longleftrightarrow>
     from_tenant db r \<noteq> None \<and> to_tenant db r = from_tenant db r \<and>
     type_allows (tp_types db) (lr_relation r) (lr_from r) (lr_to r)"

text \<open>The join condition between a resolved relation and an edge.\<close>

definition edge_covers :: "topo_db \<Rightarrow> relation_row \<Rightarrow> edge_row \<Rightarrow> bool" where
  "edge_covers db r te \<longleftrightarrow>
     Some (te_tenant te) = from_tenant db r \<and> te_group te = resolved_group r \<and> te_relation te = lr_relation r \<and>
     (te_from te = lr_from r \<and> te_to te = lr_to r \<or>
      te_direction te = ''BIDIRECTIONAL'' \<and> te_from te = lr_to r \<and> te_to te = lr_from r)"

definition missing_topology :: "topo_db \<Rightarrow> relation_row \<Rightarrow> bool" where
  "missing_topology db r \<longleftrightarrow> governed db r \<and> \<not> list_ex (edge_covers db r) (tp_edges db)"

text \<open>The mirrors the edges call for: endpoints, group and type.\<close>

definition expected_mirrors :: "edge_row list \<Rightarrow> (entity_ref \<times> entity_ref \<times> str \<times> str) list" where
  "expected_mirrors edges =
     map (\<lambda>te. (te_from te, te_to te, te_group te, te_relation te)) edges @
     map (\<lambda>te. (te_to te, te_from te, te_group te, te_relation te))
       (filter (\<lambda>te. te_direction te = ''BIDIRECTIONAL'' \<and> te_from te \<noteq> te_to te) edges)"

definition mirror_of :: "relation_row \<Rightarrow> entity_ref \<times> entity_ref \<times> str \<times> str" where
  "mirror_of r = (lr_from r, lr_to r, resolved_group r, lr_relation r)"

definition cross_tenant :: "topo_db \<Rightarrow> relation_row \<Rightarrow> bool" where
  "cross_tenant db r \<longleftrightarrow>
     from_tenant db r \<noteq> None \<and> to_tenant db r \<noteq> None \<and> from_tenant db r \<noteq> to_tenant db r"

definition invalid_type :: "relation_type list \<Rightarrow> edge_row \<Rightarrow> bool" where
  "invalid_type types te \<longleftrightarrow>
     \<not> type_allows types (te_relation te) (te_from te) (te_to te) \<or>
     te_direction te = ''BIDIRECTIONAL'' \<and> \<not> type_allows types (te_relation te) (te_to te) (te_from te)"

section \<open>The report\<close>

record consistency_report =
  cr_warn :: bool
  cr_topology_edges :: nat
  cr_legacy_relations :: nat
  cr_governed :: nat
  cr_missing_topology :: nat
  cr_missing_legacy :: nat
  cr_cross_tenant :: nat
  cr_invalid_type :: nat

definition check_consistency :: "topo_db \<Rightarrow> consistency_report" where
  "check_consistency db =
     (let missing_topo = length (filter (missing_topology db) (tp_relations db));
          missing_legacy = length (filter (\<lambda>m. m \<notin> mirror_of ` set (tp_relations db)) (expected_mirrors (tp_edges db)));
          crossing = length (filter (cross_tenant db) (tp_relations db));
          invalid = length (filter (invalid_type (tp_types db)) (tp_edges db))
      in \<lparr>cr_warn = (0 < missing_topo \<or> 0 < missing_legacy \<or> 0 < crossing \<or> 0 < invalid),
          cr_topology_edges = length (tp_edges db), cr_legacy_relations = length (tp_relations db),
          cr_governed = length (filter (governed db) (tp_relations db)),
          cr_missing_topology = missing_topo, cr_missing_legacy = missing_legacy,
          cr_cross_tenant = crossing, cr_invalid_type = invalid\<rparr>)"

section \<open>Backfilling\<close>

definition info_json :: "raw_info \<Rightarrow> json option" where
  "info_json i = (case i of NoInfo \<Rightarrow> Some (JObj []) | BadInfo \<Rightarrow> None | Info j \<Rightarrow> Some (canon j))"

definition backfilled_row :: "topo_db \<Rightarrow> millis \<Rightarrow> relation_row \<Rightarrow> edge_row" where
  "backfilled_row db now r =
     \<lparr>te_tenant = the (from_tenant db r), te_from = lr_from r, te_to = lr_to r, te_group = resolved_group r,
      te_relation = lr_relation r, te_direction = ''DIRECTED'', te_metadata = the (info_json (lr_info r)),
      te_created = now, te_updated = now, te_version = 1\<rparr>"

text \<open>INSERT ... SELECT ... ON CONFLICT DO NOTHING; the second component counts the rows inserted.\<close>

fun insert_missing :: "edge_row list \<Rightarrow> edge_row list \<Rightarrow> edge_row list \<times> nat" where
  "insert_missing rows [] = (rows, 0)"
| "insert_missing rows (new # news) =
     (if te_key new \<in> te_key ` set rows then insert_missing rows news
      else (let (rows', n) = insert_missing (rows @ [new]) news in (rows', n + 1)))"

definition backfill_select ::
  "(relation_row \<Rightarrow> bool) \<Rightarrow> millis \<Rightarrow> topo_db \<Rightarrow> topo_error + nat \<times> topo_db" where
  "backfill_select p now db =
     (let src = filter p (tp_relations db)
      in if list_ex (\<lambda>r. lr_info r = BadInfo) src then Inl QueryError
         else (let (rows, n) = insert_missing (tp_edges db) (map (backfilled_row db now) src)
               in Inr (n, db\<lparr>tp_edges := rows\<rparr>)))"

definition backfill_missing_topology_edges :: "millis \<Rightarrow> topo_db \<Rightarrow> topo_error + nat \<times> topo_db" where
  "backfill_missing_topology_edges now db = backfill_select (missing_topology db) now db"

text \<open>The start-up backfill: devices and assets only, without regard to the vocabulary.\<close>

definition twin_relation :: "topo_db \<Rightarrow> relation_row \<Rightarrow> bool" where
  "twin_relation db r \<longleftrightarrow>
     ref_type (lr_from r) \<in> {''ASSET'', ''DEVICE''} \<and> ref_type (lr_to r) \<in> {''ASSET'', ''DEVICE''} \<and>
     joined_tenant db (lr_from r) \<noteq> None \<and> joined_tenant db (lr_to r) = joined_tenant db (lr_from r)"

definition backfill_from_legacy_relations :: "millis \<Rightarrow> topo_db \<Rightarrow> topo_error + nat \<times> topo_db" where
  "backfill_from_legacy_relations now db = backfill_select (twin_relation db) now db"

record repair_result =
  rr_dry_run :: bool
  rr_would_insert :: nat
  rr_inserted :: nat
  rr_before :: consistency_report
  rr_after :: consistency_report

definition repair_backfill :: "bool \<Rightarrow> millis \<Rightarrow> topo_db \<Rightarrow> topo_error + repair_result \<times> topo_db" where
  "repair_backfill dry_run now db =
     (let before = check_consistency db;
          result = \<lparr>rr_dry_run = dry_run, rr_would_insert = cr_missing_topology before, rr_inserted = 0,
                    rr_before = before, rr_after = before\<rparr>
      in if dry_run \<or> cr_missing_topology before = 0 then Inr (result, db)
         else and_then (backfill_missing_topology_edges now db) (\<lambda>(n, db').
                Inr (result\<lparr>rr_inserted := n, rr_after := check_consistency db'\<rparr>, db')))"

section \<open>The endpoints\<close>

definition handle_consistency :: "str \<Rightarrow> members option \<Rightarrow> topo_db \<Rightarrow> http_error + consistency_report" where
  "handle_consistency http_method claims db =
     and_then (require_sys_admin claims) (\<lambda>_.
       if http_method \<noteq> ''GET'' then Inl (HttpError 405 ''Method not allowed'') else Inr (check_consistency db))"

definition dry_run_param :: "str \<Rightarrow> bool option" where
  "dry_run_param raw = (if raw = [] then Some True else parse_bool raw)"

definition handle_backfill ::
  "str \<Rightarrow> members option \<Rightarrow> (str \<times> str) list \<Rightarrow> millis \<Rightarrow> topo_db \<Rightarrow> http_error + repair_result \<times> topo_db" where
  "handle_backfill http_method claims query now db =
     and_then (require_sys_admin claims) (\<lambda>_.
       if http_method \<noteq> ''POST'' then Inl (HttpError 405 ''Method not allowed'')
       else (case dry_run_param (query_get query ''dryRun'') of
               None \<Rightarrow> Inl (HttpError 400 ''Invalid dryRun value'')
             | Some dry_run \<Rightarrow>
                 wrap_err (\<lambda>_. HttpError 500 ''Topology backfill repair failed'') (repair_backfill dry_run now db)))"

end
