(* ===== verification/TopologyLaws.thy ===== *)
theory TopologyLaws
  imports TopologyConsistency
begin

text \<open>
  What the topology promises. Its abstract state is a map from slots to metadata and version: a
  slot is the tenant, group and type of an edge with its ordered endpoints, or with the set of them
  when the edge is bidirectional. Saving and deleting an edge refine update and removal in that map.
  The invariant adds that edges stay inside their tenant, follow the vocabulary and are mirrored.
\<close>

section \<open>Slots\<close>

datatype slot = DirSlot entity_ref entity_ref | BidiSlot "entity_ref set"

definition slot_of :: "str \<Rightarrow> entity_ref \<Rightarrow> entity_ref \<Rightarrow> slot" where
  "slot_of direction a b = (if direction = ''BIDIRECTIONAL'' then BidiSlot {a, b} else DirSlot a b)"

definition row_slot :: "edge_row \<Rightarrow> str \<times> str \<times> str \<times> slot" where
  "row_slot r = (te_tenant r, te_group r, te_relation r, slot_of (te_direction r) (te_from r) (te_to r))"

definition edge_slot :: "edge \<Rightarrow> str \<times> str \<times> str \<times> slot" where
  "edge_slot e = (ed_tenant e, ed_group e, ed_relation e, slot_of (ed_direction e) (ed_from e) (ed_to e))"

definition filter_slots :: "edge_filter \<Rightarrow> (str \<times> str \<times> str \<times> slot) set" where
  "filter_slots f = (\<lambda>s. (ef_tenant f, ef_group f, ef_relation f, s)) `
     {DirSlot (ef_from f) (ef_to f), BidiSlot {ef_from f, ef_to f}}"

definition slot_map :: "edge_row list \<Rightarrow> (str \<times> str \<times> str \<times> slot) \<Rightarrow> (json \<times> int) option" where
  "slot_map rows = map_of (map (\<lambda>r. (row_slot r, te_metadata r, te_version r)) rows)"

definition abs_edges :: "topo_db \<Rightarrow> (str \<times> str \<times> str \<times> slot) \<Rightarrow> (json \<times> int) option" where
  "abs_edges db = slot_map (tp_edges db)"

definition directions :: "str set" where "directions = {''DIRECTED'', ''BIDIRECTIONAL''}"

definition edges_invar :: "edge_row list \<Rightarrow> bool" where
  "edges_invar rows \<longleftrightarrow> distinct (map row_slot rows) \<and> (\<forall>r \<in> set rows. te_direction r \<in> directions)"

lemma row_slot_new [simp]: "row_slot (new_edge_row e meta now) = edge_slot e"
  by (simp add: row_slot_def new_edge_row_def edge_slot_def)

lemma row_slot_touch [simp]: "row_slot (touch_edge meta now r) = row_slot r"
  by (simp add: row_slot_def touch_edge_def)

lemma te_key_slot: "te_key r = te_key q \<Longrightarrow> row_slot r = row_slot q"
  by (simp add: te_key_def row_slot_def)

lemma slot_member_inj:
  "edges_invar rows \<Longrightarrow> r \<in> set rows \<Longrightarrow> q \<in> set rows \<Longrightarrow> row_slot r = row_slot q \<Longrightarrow> r = q"
  by (auto simp: edges_invar_def distinct_map inj_on_def)

lemma same_pair_slot:
  "is_bidi e \<Longrightarrow> te_direction r \<in> directions \<Longrightarrow> same_pair e r \<longleftrightarrow> row_slot r = edge_slot e"
  by (auto simp: same_pair_def row_slot_def edge_slot_def slot_of_def is_bidi_def directions_def doubleton_eq_iff)

lemma directed_key_slot:
  assumes "ed_direction e = ''DIRECTED''" "te_direction r \<in> directions"
  shows "te_key r = te_key (new_edge_row e meta now) \<longleftrightarrow> row_slot r = edge_slot e"
  using assms by (auto simp: te_key_def new_edge_row_def row_slot_def edge_slot_def slot_of_def directions_def)

lemma filter_hits_slot:
  "te_direction r \<in> directions \<Longrightarrow> filter_hits f r \<longleftrightarrow> row_slot r \<in> filter_slots f"
  by (auto simp: filter_hits_def row_slot_def filter_slots_def slot_of_def directions_def doubleton_eq_iff)

text \<open>Saving, read by slots.\<close>

lemma save_by_slot:
  assumes inv: "edges_invar rows" and dir: "ed_direction e \<in> directions"
  shows "save_topology_edge e meta now rows =
    (if edge_slot e \<in> row_slot ` set rows
     then map (\<lambda>r. if row_slot r = edge_slot e then touch_edge meta now r else r) rows
     else rows @ [new_edge_row e meta now])"
proof -
  let ?new = "new_edge_row e meta now"
  define key where "key = (case if is_bidi e then find (same_pair e) rows else None of
     Some r \<Rightarrow> te_key r | None \<Rightarrow> te_key ?new)"
  have d: "te_direction r \<in> directions" if "r \<in> set rows" for r
    using inv that by (simp add: edges_invar_def)
  have key: "te_key r = key \<longleftrightarrow> row_slot r = edge_slot e" if r: "r \<in> set rows" for r
  proof (cases "is_bidi e")
    case False
    with dir have "ed_direction e = ''DIRECTED''" by (simp add: is_bidi_def directions_def)
    with d [OF r] False show ?thesis by (simp add: key_def directed_key_slot)
  next
    case True
    show ?thesis
    proof (cases "find (same_pair e) rows")
      case None
      then have n: "row_slot r \<noteq> edge_slot e"
        using r same_pair_slot [OF True d [OF r]] by (auto simp: find_None_iff)
      have "te_key r = te_key ?new \<Longrightarrow> row_slot r = edge_slot e"
        using te_key_slot [of r ?new] by simp
      with n None True show ?thesis by (auto simp: key_def)
    next
      case (Some q)
      from find_SomeD [OF Some] have q: "q \<in> set rows" "row_slot q = edge_slot e"
        using same_pair_slot [OF True d] by auto
      have "te_key r = te_key q \<longleftrightarrow> row_slot r = row_slot q"
        using te_key_slot slot_member_inj [OF inv r q(1)] by blast
      with q(2) Some True show ?thesis by (simp add: key_def)
    qed
  qed
  then have "key \<in> te_key ` set rows \<longleftrightarrow> edge_slot e \<in> row_slot ` set rows"
    unfolding image_iff by metis
  moreover have "map (\<lambda>r. if te_key r = key then touch_edge meta now r else r) rows =
      map (\<lambda>r. if row_slot r = edge_slot e then touch_edge meta now r else r) rows"
    using key by simp
  ultimately show ?thesis
    unfolding save_topology_edge_def Let_def key_def [symmetric] by simp
qed

lemma map_row_slot_touch [simp]:
  "map row_slot (map (\<lambda>r. if row_slot r = s then touch_edge meta now r else r) rows) = map row_slot rows"
  by (induction rows) auto

lemma edges_invar_save:
  assumes "edges_invar rows" "ed_direction e \<in> directions"
  shows "edges_invar (save_topology_edge e meta now rows)"
  using assms
  by (auto simp: save_by_slot edges_invar_def new_edge_row_def [THEN arg_cong [of _ _ te_direction]]
      simp del: map_map) (auto simp: touch_edge_def)

lemma set_save_topology_edge:
  assumes "edges_invar rows" "ed_direction e \<in> directions" "r \<in> set (save_topology_edge e meta now rows)"
  shows "row_slot r = edge_slot e \<or> r \<in> set rows"
  using assms(3) unfolding save_by_slot [OF assms(1,2)] by (auto split: if_splits)

lemma slot_map_Cons [simp]: "slot_map (r # rows) = (slot_map rows)(row_slot r \<mapsto> (te_metadata r, te_version r))"
  by (simp add: slot_map_def)

lemma slot_map_None: "slot_map rows s = None \<longleftrightarrow> s \<notin> row_slot ` set rows"
  by (force simp: slot_map_def map_of_eq_None_iff)

lemma slot_map_snoc:
  "row_slot q \<notin> row_slot ` set rows \<Longrightarrow> slot_map (rows @ [q]) = (slot_map rows)(row_slot q \<mapsto> (te_metadata q, te_version q))"
  by (induction rows) (auto simp: slot_map_def [of "[]"] intro: fun_upd_twist)

lemma slot_map_touch:
  "k \<in> row_slot ` set rows \<Longrightarrow> distinct (map row_slot rows) \<Longrightarrow>
   slot_map (map (\<lambda>r. if row_slot r = k then touch_edge meta now r else r) rows) =
     (slot_map rows)(k \<mapsto> (meta, case slot_map rows k of None \<Rightarrow> 1 | Some (_, v) \<Rightarrow> v + 1))"
proof (induction rows)
  case Nil
  then show ?case by simp
next
  case (Cons r rows)
  show ?case
  proof (cases "row_slot r = k")
    case True
    have "\<forall>q \<in> set rows. row_slot q \<noteq> k"
      using Cons.prems(2) True by (auto simp: image_iff)
    then have "map (\<lambda>r. if row_slot r = k then touch_edge meta now r else r) rows = rows"
      by (intro map_idI) auto
    moreover have "te_metadata (touch_edge meta now r) = meta" "te_version (touch_edge meta now r) = te_version r + 1"
      by (simp_all add: touch_edge_def)
    ultimately show ?thesis using True by (simp add: fun_eq_iff)
  next
    case False
    then have "k \<in> row_slot ` set rows" using Cons.prems(1) by auto
    then have IH: "slot_map (map (\<lambda>r. if row_slot r = k then touch_edge meta now r else r) rows) =
        (slot_map rows)(k \<mapsto> (meta, case slot_map rows k of None \<Rightarrow> 1 | Some (_, v) \<Rightarrow> v + 1))"
      using Cons.prems(2) by (intro Cons.IH) auto
    have "slot_map (r # rows) k = slot_map rows k" using False by simp
    then show ?thesis using False IH by (simp add: fun_upd_twist [OF False] del: fun_upd_apply)
  qed
qed

lemma abs_save:
  assumes "edges_invar (tp_edges db)" "ed_direction e \<in> directions"
  shows "abs_edges (store_edge e meta now db) =
    (abs_edges db)(edge_slot e \<mapsto> (canon meta, case abs_edges db (edge_slot e) of None \<Rightarrow> 1 | Some (_, v) \<Rightarrow> v + 1))"
proof (cases "edge_slot e \<in> row_slot ` set (tp_edges db)")
  case True
  with slot_map_touch [OF True] assms show ?thesis
    by (simp add: abs_edges_def store_edge_def Let_def save_by_slot edges_invar_def)
next
  case False
  have "te_metadata (new_edge_row e m now) = m" "te_version (new_edge_row e m now) = 1" for m
    by (simp_all add: new_edge_row_def)
  with False slot_map_snoc [of "new_edge_row e (canon meta) now" "tp_edges db"] slot_map_None [of "tp_edges db" "edge_slot e"] assms
  show ?thesis by (simp add: abs_edges_def store_edge_def Let_def save_by_slot)
qed

lemma slot_map_filter:
  "slot_map (filter (\<lambda>r. row_slot r \<notin> S) rows) = slot_map rows |` (- S)"
  by (induction rows) (auto simp: slot_map_def [of "[]"] restrict_map_def fun_eq_iff)

lemma abs_delete:
  assumes "edges_invar (tp_edges db)"
  shows "abs_edges (delete_edge f db) = abs_edges db |` (- filter_slots (normalize_filter f))"
proof -
  have "filter (\<lambda>r. \<not> filter_hits (normalize_filter f) r) (tp_edges db) =
      filter (\<lambda>r. row_slot r \<notin> filter_slots (normalize_filter f)) (tp_edges db)"
    using assms by (intro filter_cong) (auto simp: edges_invar_def filter_hits_slot)
  then show ?thesis
    by (simp add: abs_edges_def delete_edge_def Let_def slot_map_filter)
qed

section \<open>The invariant\<close>

definition mirrored :: "relation_row list \<Rightarrow> edge_row \<Rightarrow> bool" where
  "mirrored rels te \<longleftrightarrow>
     (te_from te, te_to te, te_group te, te_relation te) \<in> mirror_of ` set rels \<and>
     (te_direction te = ''BIDIRECTIONAL'' \<longrightarrow>
        (te_to te, te_from te, te_group te, te_relation te) \<in> mirror_of ` set rels)"

definition in_tenant :: "topo_db \<Rightarrow> edge_row \<Rightarrow> bool" where
  "in_tenant db te \<longleftrightarrow>
     resolve_entity_tenant db (te_from te) = Inr (te_tenant te) \<and>
     resolve_entity_tenant db (te_to te) = Inr (te_tenant te)"

definition topo_invar :: "topo_db \<Rightarrow> bool" where
  "topo_invar db \<longleftrightarrow> edges_invar (tp_edges db) \<and>
     (\<forall>te \<in> set (tp_edges db). in_tenant db te \<and> \<not> invalid_type (tp_types db) te \<and>
        mirrored (tp_relations db) te \<and> te_group te \<noteq> [])"

lemma resolve_frame [simp]:
  "resolve_entity_tenant (db\<lparr>tp_edges := es\<rparr>) r = resolve_entity_tenant db r"
  "resolve_entity_tenant (db\<lparr>tp_relations := rs\<rparr>) r = resolve_entity_tenant db r"
  by (simp_all add: resolve_entity_tenant_def owner_row_def cong: if_cong)

lemma validate_relation_type_iff:
  "validate_relation_type types e = Inr () \<longleftrightarrow> type_allows types (ed_relation e) (ed_from e) (ed_to e)"
  by (auto simp: validate_relation_type_def type_allows_def split: option.splits)

lemma check_edge_Inr:
  assumes "check_edge env db e = Inr ()"
  shows "type_allows (tp_types db) (ed_relation e) (ed_from e) (ed_to e)"
    "is_bidi e \<Longrightarrow> type_allows (tp_types db) (ed_relation e) (ed_to e) (ed_from e)"
    "resolve_entity_tenant db (ed_from e) = Inr (ed_tenant e)"
    "resolve_entity_tenant db (ed_to e) = Inr (ed_tenant e)"
    "enforce_model_relation env (tp_twins db) e = Inr ()"
  using assms
  unfolding check_edge_def and_then_Inr if_fail_Inr
  by (auto simp: validate_relation_type_iff split: if_splits)

lemma save_edge_Inr:
  assumes "save_edge env raw now db = Inr db'"
  obtains meta where "edge_metadata (normalize_edge raw) = Some meta"
    "check_edge env db (normalize_edge raw) = Inr ()"
    "ed_direction (normalize_edge raw) \<in> directions"
    "db' = store_edge (normalize_edge raw) meta now db"
  using assms unfolding save_edge_def Let_def if_fail_Inr directions_def
  by (auto simp: and_then_Inr split: option.splits)

lemma normalize_edge_group: "ed_group (normalize_edge e) \<noteq> []"
  by (simp add: normalize_edge_def or_default_def)

lemma mirror_row_simps [simp]:
  "lr_key (mirror_row a b e meta) = (a, b, ed_group e, ed_relation e)"
  "ed_group e \<noteq> [] \<Longrightarrow> mirror_of (mirror_row a b e meta) = (a, b, ed_group e, ed_relation e)"
  by (simp_all add: mirror_row_def lr_key_def mirror_of_def resolved_group_def or_default_def)

lemma mirror_of_key: "lr_key r = (a, b, g, rel) \<Longrightarrow> g \<noteq> [] \<Longrightarrow> mirror_of r = (a, b, g, rel)"
  by (simp add: mirror_of_def lr_key_def resolved_group_def or_default_def)

lemma mirror_save:
  assumes "ed_group e \<noteq> []"
  shows "mirror_of ` set (save_legacy_mirror a b e meta rows) =
    insert (a, b, ed_group e, ed_relation e) (mirror_of ` set rows)"
proof (cases "(a, b, ed_group e, ed_relation e) \<in> lr_key ` set rows")
  case True
  let ?f = "\<lambda>r. if lr_key r = (a, b, ed_group e, ed_relation e)
    then r\<lparr>lr_info := Info meta, lr_version := lr_version r + 1\<rparr> else r"
  have "mirror_of (?f r) = mirror_of r" for r
    by (simp add: mirror_of_def resolved_group_def)
  then have same: "set (map (\<lambda>r. mirror_of (?f r)) rows) = mirror_of ` set rows" by simp
  from True obtain r where "r \<in> set rows" "lr_key r = (a, b, ed_group e, ed_relation e)" by force
  with assms have "(a, b, ed_group e, ed_relation e) \<in> mirror_of ` set rows"
    by (metis image_eqI mirror_of_key)
  moreover have "save_legacy_mirror a b e meta rows = map ?f rows"
    using True by (simp add: save_legacy_mirror_def)
  ultimately show ?thesis using same by (simp only: set_map image_image insert_absorb)
next
  case False
  with assms show ?thesis by (simp add: save_legacy_mirror_def)
qed

lemma mirrored_mono: "mirror_of ` set rels \<subseteq> mirror_of ` set rels' \<Longrightarrow> mirrored rels te \<Longrightarrow> mirrored rels' te"
  by (auto simp: mirrored_def)

lemma store_edge_mirrors:
  assumes "ed_group e \<noteq> []"
  shows "mirror_of ` set (tp_relations (store_edge e meta now db)) =
    {(ed_from e, ed_to e, ed_group e, ed_relation e)} \<union>
    (if is_bidi e then {(ed_to e, ed_from e, ed_group e, ed_relation e)} else {}) \<union>
    mirror_of ` set (tp_relations db)"
  using assms by (auto simp: store_edge_def Let_def mirror_save)

text \<open>A row of the slot of an edge shares what the invariant says of the row.\<close>

lemma slot_row_ok:
  assumes "row_slot te = edge_slot e" "ed_direction e \<in> directions" "te_direction te \<in> directions"
  shows "te_tenant te = ed_tenant e" "te_group te = ed_group e" "te_relation te = ed_relation e"
    "te_from te = ed_from e \<and> te_to te = ed_to e \<or>
     is_bidi e \<and> te_from te = ed_to e \<and> te_to te = ed_from e"
    "te_direction te = ''BIDIRECTIONAL'' \<longleftrightarrow> is_bidi e"
  using assms
  by (auto simp: row_slot_def edge_slot_def slot_of_def is_bidi_def directions_def doubleton_eq_iff split: if_splits)

lemma store_edge_frame [simp]:
  "tp_types (store_edge e meta now db) = tp_types db"
  "resolve_entity_tenant (store_edge e meta now db) r = resolve_entity_tenant db r"
  "tp_edges (store_edge e meta now db) = save_topology_edge e (canon meta) now (tp_edges db)"
  by (simp_all add: store_edge_def Let_def)

lemma save_edge_invar:
  assumes inv: "topo_invar db" and s: "save_edge env raw now db = Inr db'"
  shows "topo_invar db'"
proof -
  let ?e = "normalize_edge raw"
  from s obtain meta where c: "check_edge env db ?e = Inr ()" and d: "ed_direction ?e \<in> directions"
    and db': "db' = store_edge ?e meta now db" by (rule save_edge_Inr)
  note ok = check_edge_Inr [OF c]
  have ei: "edges_invar (tp_edges db)" using inv by (simp add: topo_invar_def)
  have ei': "edges_invar (tp_edges db')" by (simp add: db' edges_invar_save [OF ei d])
  note mirrors = store_edge_mirrors [OF normalize_edge_group [of raw], of meta now db, folded db']
  have "in_tenant db' te \<and> \<not> invalid_type (tp_types db') te \<and> mirrored (tp_relations db') te \<and> te_group te \<noteq> []"
    if te: "te \<in> set (tp_edges db')" for te
  proof (cases "row_slot te = edge_slot ?e")
    case True
    have td: "te_direction te \<in> directions" using ei' te by (simp add: edges_invar_def)
    note r = slot_row_ok [OF True d td]
    have "in_tenant db' te" using r(1,4) ok(3,4) by (auto simp: in_tenant_def db')
    moreover have "\<not> invalid_type (tp_types db') te"
      using r(3-5) ok(1,2) by (auto simp: invalid_type_def db')
    moreover have "mirrored (tp_relations db') te"
      using r(2-5) by (auto simp: mirrored_def mirrors)
    ultimately show ?thesis using r(2) normalize_edge_group [of raw] by simp
  next
    case False
    with te set_save_topology_edge [OF ei d] have "te \<in> set (tp_edges db)" by (auto simp: db')
    with inv have "in_tenant db te" "\<not> invalid_type (tp_types db) te" "mirrored (tp_relations db) te" "te_group te \<noteq> []"
      by (simp_all add: topo_invar_def)
    moreover have "mirrored (tp_relations db') te"
      using \<open>mirrored (tp_relations db) te\<close> by (rule mirrored_mono [rotated]) (auto simp: mirrors)
    ultimately show ?thesis by (simp add: in_tenant_def db')
  qed
  with ei' show ?thesis by (simp add: topo_invar_def)
qed

section \<open>Deleting keeps it\<close>

lemma mirror_remove:
  "mirror_of ` set rels - {(a, b, g, rel)} \<subseteq>
     mirror_of ` set (remove_legacy_mirror_if_unused t a b g rel edges rels)" if "g \<noteq> []"
proof -
  have "mirror_of r = (a, b, g, rel)" if "lr_key r = (a, b, g, rel)" for r
    using that \<open>g \<noteq> []\<close> by (rule mirror_of_key)
  then show ?thesis by (auto simp: remove_legacy_mirror_if_unused_def)
qed

lemma mirror_remove_used:
  "te \<in> set edges \<Longrightarrow> te_tenant te = t \<Longrightarrow> te_from te = a \<Longrightarrow> te_to te = b \<Longrightarrow> te_group te = g \<Longrightarrow>
   te_relation te = rel \<Longrightarrow> remove_legacy_mirror_if_unused t a b g rel edges rels = rels"
  by (auto simp: remove_legacy_mirror_if_unused_def list_ex_iff)

lemma delete_edge_frame [simp]:
  "tp_types (delete_edge f db) = tp_types db"
  "resolve_entity_tenant (delete_edge f db) r = resolve_entity_tenant db r"
  by (simp_all add: delete_edge_def Let_def)

lemma delete_edge_edges [simp]:
  "tp_edges (delete_edge f db) = filter (\<lambda>r. \<not> filter_hits (normalize_filter f) r) (tp_edges db)"
  by (simp add: delete_edge_def Let_def)

lemma normalize_filter_group [simp]: "ef_group (normalize_filter f) \<noteq> []"
  by (simp add: normalize_filter_def or_default_def)

text \<open>What a deletion by the tenant that owns the source leaves of the mirrors: at most the two
  mirrors of the deleted pair go, and one that a remaining edge of the tenant needs stays.\<close>

lemma delete_edge_mirrors:
  fixes f db
  defines "g \<equiv> normalize_filter f"
  assumes m: "m \<in> mirror_of ` set (tp_relations db)"
    and keep: "\<And>a b. m = (a, b, ef_group g, ef_relation g) \<Longrightarrow>
      (a, b) \<in> {(ef_from g, ef_to g), (ef_to g, ef_from g)} \<Longrightarrow>
      \<exists>te \<in> set (tp_edges (delete_edge f db)). te_tenant te = ef_tenant g \<and> te_from te = a \<and> te_to te = b \<and>
        te_group te = ef_group g \<and> te_relation te = ef_relation g"
  shows "m \<in> mirror_of ` set (tp_relations (delete_edge f db))"
proof -
  let ?edges = "tp_edges (delete_edge f db)"
  have step: "m \<in> mirror_of ` set (remove_legacy_mirror_if_unused (ef_tenant g) a b (ef_group g) (ef_relation g) ?edges rels)"
    if "m \<in> mirror_of ` set rels" "(a, b) \<in> {(ef_from g, ef_to g), (ef_to g, ef_from g)}" for a b rels
  proof (cases "m = (a, b, ef_group g, ef_relation g)")
    case True
    from keep [OF True that(2)] obtain te where "te \<in> set ?edges" "te_tenant te = ef_tenant g"
      "te_from te = a" "te_to te = b" "te_group te = ef_group g" "te_relation te = ef_relation g" by blast
    from mirror_remove_used [OF this] that(1) show ?thesis by simp
  next
    case False
    have "ef_group g \<noteq> []" by (simp add: g_def)
    from mirror_remove [OF this] that(1) False show ?thesis by blast
  qed
  have "m \<in> mirror_of ` set (remove_legacy_mirror_if_unused (ef_tenant g) (ef_from g) (ef_to g) (ef_group g)
      (ef_relation g) ?edges (tp_relations db))"
    by (rule step [OF m]) simp
  with step show ?thesis
    by (simp add: delete_edge_def Let_def g_def [symmetric])
qed

lemma delete_edge_invar:
  assumes inv: "topo_invar db"
    and own: "resolve_entity_tenant db (ef_from (normalize_filter f)) = Inr (ef_tenant (normalize_filter f))"
  shows "topo_invar (delete_edge f db)"
proof -
  let ?g = "normalize_filter f" and ?db = "delete_edge f db"
  have ei: "edges_invar (tp_edges ?db)"
    using inv by (auto simp: topo_invar_def edges_invar_def distinct_map_filter)
  have keeps: "m \<in> mirror_of ` set (tp_relations ?db)"
    if te: "te \<in> set (tp_edges ?db)" and m: "m \<in> mirror_of ` set (tp_relations db)"
      and k: "m = (te_from te, te_to te, te_group te, te_relation te) \<or>
        te_direction te = ''BIDIRECTIONAL'' \<and> m = (te_to te, te_from te, te_group te, te_relation te)" for te m
  proof (rule delete_edge_mirrors [OF m])
    fix a b
    assume ab: "m = (a, b, ef_group ?g, ef_relation ?g)"
      "(a, b) \<in> {(ef_from ?g, ef_to ?g), (ef_to ?g, ef_from ?g)}"
    have te': "te \<in> set (tp_edges db)" "\<not> filter_hits ?g te" using te by simp_all
    have "in_tenant db te" using inv te'(1) by (simp add: topo_invar_def)
    then have t: "te_tenant te = ef_tenant ?g"
      using own k ab by (auto simp: in_tenant_def)
    show "\<exists>te \<in> set (tp_edges ?db). te_tenant te = ef_tenant ?g \<and> te_from te = a \<and> te_to te = b \<and>
        te_group te = ef_group ?g \<and> te_relation te = ef_relation ?g"
      using te k ab te'(2) t by (auto simp: filter_hits_def)
  qed
  have "mirrored (tp_relations ?db) te" if te: "te \<in> set (tp_edges ?db)" for te
  proof -
    have "mirrored (tp_relations db) te" using inv te by (simp add: topo_invar_def)
    then show ?thesis unfolding mirrored_def using keeps [OF te] by blast
  qed
  with inv ei show ?thesis by (simp add: topo_invar_def in_tenant_def)
qed

end
