(* ===== verification/TopologyProps.thy ===== *)
theory TopologyProps
  imports TopologyLaws
begin

text \<open>
  The properties of the topology's write side: the consistency report stays clean under saving,
  owner deletions and repairs, in every order; saving and deleting refine a map of slots; a repair
  leaves nothing missing; and a deletion by a foreign tenant removes a mirror that is not its own.
\<close>

section \<open>Backfills\<close>

lemma frame_edges [simp]:
  "joined_tenant (db\<lparr>tp_edges := es\<rparr>) ref = joined_tenant db ref"
  "from_tenant (db\<lparr>tp_edges := es\<rparr>) r = from_tenant db r"
  "to_tenant (db\<lparr>tp_edges := es\<rparr>) r = to_tenant db r"
  "governed (db\<lparr>tp_edges := es\<rparr>) r = governed db r"
  "edge_covers (db\<lparr>tp_edges := es\<rparr>) r = edge_covers db r"
  by (simp_all add: joined_tenant_def from_tenant_def to_tenant_def governed_def edge_covers_def owner_row_def
      fun_eq_iff cong: if_cong)

lemma insert_missing_spec:
  "insert_missing rows news = (rows', n) \<Longrightarrow>
   \<exists>added. rows' = rows @ added \<and> length added = n \<and> set added \<subseteq> set news \<and> n \<le> length news \<and>
     te_key ` set news \<subseteq> te_key ` set rows' \<and>
     (distinct (map te_key rows) \<longrightarrow> distinct (map te_key rows'))"
proof (induction rows news arbitrary: rows' n rule: insert_missing.induct)
  case (1 rows)
  then show ?case by simp
next
  case (2 rows new news)
  show ?case
  proof (cases "te_key new \<in> te_key ` set rows")
    case True
    with 2(1) [OF True] 2(3) show ?thesis by fastforce
  next
    case False
    then obtain m where m: "insert_missing (rows @ [new]) news = (rows', m)" "n = m + 1"
      using 2(3) by (auto split: prod.splits)
    from 2(2) [OF False m(1)] obtain added where "rows' = (rows @ [new]) @ added \<and> length added = m \<and>
      set added \<subseteq> set news \<and> m \<le> length news \<and> te_key ` set news \<subseteq> te_key ` set rows' \<and>
      (distinct (map te_key (rows @ [new])) \<longrightarrow> distinct (map te_key rows'))" ..
    note a = this
    have "te_key new \<in> te_key ` set rows'" using a by simp
    moreover have "distinct (map te_key (rows @ [new]))" if "distinct (map te_key rows)"
      using that False by simp
    moreover have "te_key ` set (new # news) \<subseteq> te_key ` set rows'"
    proof -
      have "te_key ` set news \<subseteq> te_key ` set rows'" using a by (elim conjE)
      with calculation(1) show ?thesis unfolding list.set image_insert insert_subset by blast
    qed
    moreover have "rows' = rows @ new # added" "length (new # added) = n" "n \<le> length (new # news)"
      "set (new # added) \<subseteq> set (new # news)" using a m(2) by auto
    ultimately show ?thesis using a by blast
  qed
qed

lemma backfill_select_spec:
  assumes "backfill_select p now db = Inr (n, db')"
  obtains added where "db' = db\<lparr>tp_edges := tp_edges db @ added\<rparr>" "length added = n"
    "n \<le> length (filter p (tp_relations db))"
    "set added \<subseteq> backfilled_row db now ` {r \<in> set (tp_relations db). p r}"
    "\<And>r. r \<in> set (tp_relations db) \<Longrightarrow> p r \<Longrightarrow> te_key (backfilled_row db now r) \<in> te_key ` set (tp_edges db')"
    "distinct (map te_key (tp_edges db)) \<Longrightarrow> distinct (map te_key (tp_edges db'))"
proof -
  let ?news = "map (backfilled_row db now) (filter p (tp_relations db))"
  from assms obtain rows where rows: "insert_missing (tp_edges db) ?news = (rows, n)" "db' = db\<lparr>tp_edges := rows\<rparr>"
    by (auto simp: backfill_select_def Let_def split: if_splits prod.splits)
  from insert_missing_spec [OF rows(1)] obtain added where a: "rows = tp_edges db @ added" "length added = n"
    "set added \<subseteq> set ?news" "n \<le> length ?news" "te_key ` set ?news \<subseteq> te_key ` set rows"
    "distinct (map te_key (tp_edges db)) \<longrightarrow> distinct (map te_key rows)" by blast
  show thesis
  proof (rule that [of added])
    show "te_key (backfilled_row db now r) \<in> te_key ` set (tp_edges db')" if "r \<in> set (tp_relations db)" "p r" for r
      using a(5) that by (auto simp: rows(2))
  qed (use a rows(2) in auto)
qed

lemma covers_key:
  "te_key te = te_key (backfilled_row db now r) \<Longrightarrow> from_tenant db r \<noteq> None \<Longrightarrow> edge_covers db r te"
  by (auto simp: te_key_def backfilled_row_def edge_covers_def)

lemma repair_missing:
  assumes "backfill_missing_topology_edges now db = Inr (n, db')"
  shows "cr_missing_topology (check_consistency db') = 0"
proof -
  from assms obtain added where db': "db' = db\<lparr>tp_edges := tp_edges db @ added\<rparr>"
    and k: "\<And>r. r \<in> set (tp_relations db) \<Longrightarrow> missing_topology db r \<Longrightarrow>
      te_key (backfilled_row db now r) \<in> te_key ` set (tp_edges db')"
    unfolding backfill_missing_topology_edges_def by (rule backfill_select_spec) blast
  have "\<not> missing_topology db' r" if r: "r \<in> set (tp_relations db)" for r
  proof (cases "missing_topology db r")
    case True
    from k [OF r True] obtain te where te: "te \<in> set (tp_edges db')" "te_key te = te_key (backfilled_row db now r)"
      by (metis image_iff)
    have "from_tenant db r \<noteq> None" using True by (simp add: missing_topology_def governed_def)
    from covers_key [OF te(2) this] te(1) show ?thesis
      by (auto simp: missing_topology_def db' list_ex_iff)
  next
    case False
    then show ?thesis by (auto simp: missing_topology_def db' list_ex_iff)
  qed
  then show ?thesis by (simp add: check_consistency_def Let_def db' filter_empty_conv)
qed

lemma owned_kind_normal: "k \<in> set owned_kinds \<Longrightarrow> normalize_entity_type k = k \<and> k \<noteq> ''TENANT''"
proof -
  have "list_all (\<lambda>k. normalize_entity_type k = k \<and> k \<noteq> ''TENANT'') owned_kinds" by code_simp
  then show "k \<in> set owned_kinds \<Longrightarrow> normalize_entity_type k = k \<and> k \<noteq> ''TENANT''" by (simp add: list_all_iff)
qed

lemma joined_resolve: "joined_tenant db ref = Some t \<Longrightarrow> resolve_entity_tenant db ref = Inr t"
  using owned_kind_normal [of "ref_type ref"]
  by (auto simp: joined_tenant_def resolve_entity_tenant_def Option.bind_eq_Some_conv split: if_splits)

lemma from_resolve: "from_tenant db r = Some t \<Longrightarrow> resolve_entity_tenant db (lr_from r) = Inr t"
proof -
  have "normalize_entity_type ''TENANT'' = ''TENANT''" by code_simp
  then show "from_tenant db r = Some t \<Longrightarrow> resolve_entity_tenant db (lr_from r) = Inr t"
    using joined_resolve [of db "lr_from r" t]
    by (auto simp: from_tenant_def resolve_entity_tenant_def [of db "lr_from r"] split: if_splits)
qed

lemma backfilled_ok:
  assumes "governed db r" "r \<in> set (tp_relations db)"
  shows "in_tenant db (backfilled_row db now r) \<and> \<not> invalid_type (tp_types db) (backfilled_row db now r) \<and>
    mirrored (tp_relations db) (backfilled_row db now r) \<and> te_group (backfilled_row db now r) \<noteq> []"
proof -
  from assms(1) obtain t where t: "from_tenant db r = Some t" "to_tenant db r = Some t"
    and a: "type_allows (tp_types db) (lr_relation r) (lr_from r) (lr_to r)" by (auto simp: governed_def)
  have "in_tenant db (backfilled_row db now r)"
    using from_resolve [OF t(1)] joined_resolve [OF t(2) [unfolded to_tenant_def]] t(1)
    by (simp add: in_tenant_def backfilled_row_def)
  with a assms(2) show ?thesis
    by (auto simp: backfilled_row_def invalid_type_def mirrored_def mirror_of_def resolved_group_def or_default_def)
qed

lemma slots_of_keys:
  assumes "edges_invar rows" "distinct (map te_key (rows @ added))" "\<forall>te \<in> set added. te_direction te = ''DIRECTED''"
  shows "edges_invar (rows @ added)"
proof -
  have k: "te_key a = te_key b"
    if "row_slot a = row_slot b" "te_direction a = ''DIRECTED''" "te_direction b \<in> directions" for a b
    using that by (auto simp: row_slot_def slot_of_def te_key_def directions_def)
  have "inj_on row_slot (set added)"
  proof (rule inj_onI)
    fix a b
    assume ab: "a \<in> set added" "b \<in> set added" "row_slot a = row_slot b"
    then have "te_key a = te_key b" using assms(3) by (intro k) (auto simp: directions_def)
    moreover have "inj_on te_key (set added)" using assms(2) by (simp add: distinct_map)
    ultimately show "a = b" using ab by (simp add: inj_on_eq_iff)
  qed
  moreover have "row_slot ` set rows \<inter> row_slot ` set added = {}"
  proof -
    have *: False if "q \<in> set rows" "a \<in> set added" "row_slot a = row_slot q" for q a
    proof -
      have "te_key a = te_key q"
        using that assms(1,3) by (intro k) (auto simp: edges_invar_def)
      then show False using that assms(2) by (metis IntI distinct_append empty_iff image_eqI list.set_map map_append)
    qed
    show ?thesis
    proof (rule equals0I)
      fix y
      assume "y \<in> row_slot ` set rows \<inter> row_slot ` set added"
      then obtain q a where "y = row_slot q" "q \<in> set rows" "y = row_slot a" "a \<in> set added"
        by (elim IntE imageE)
      then show False using * by simp
    qed
  qed
  moreover have "distinct (map row_slot rows)" "distinct added"
    using assms(1,2) by (simp_all add: edges_invar_def distinct_map)
  ultimately have "distinct (map row_slot (rows @ added))"
    by (simp add: distinct_map [of row_slot added])
  moreover have "\<forall>te \<in> set (rows @ added). te_direction te \<in> directions"
    using assms(1,3) by (simp add: edges_invar_def directions_def ball_Un)
  ultimately show ?thesis unfolding edges_invar_def by blast
qed

lemma keys_distinct: "edges_invar rows \<Longrightarrow> distinct (map te_key rows)"
proof -
  assume "edges_invar rows"
  then have "distinct (map row_slot rows)" by (simp add: edges_invar_def)
  then show ?thesis by (induction rows) (auto dest: te_key_slot)
qed

lemma repair_invar:
  assumes inv: "topo_invar db" and b: "backfill_missing_topology_edges now db = Inr (n, db')"
  shows "topo_invar db'"
proof -
  from b obtain added where db': "db' = db\<lparr>tp_edges := tp_edges db @ added\<rparr>"
    and a: "set added \<subseteq> backfilled_row db now ` {r \<in> set (tp_relations db). missing_topology db r}"
    and d: "distinct (map te_key (tp_edges db)) \<Longrightarrow> distinct (map te_key (tp_edges db'))"
    unfolding backfill_missing_topology_edges_def by (rule backfill_select_spec) blast
  have ei: "edges_invar (tp_edges db)" using inv by (simp add: topo_invar_def)
  have "\<forall>te \<in> set added. te_direction te = ''DIRECTED''" using a by (auto simp: backfilled_row_def)
  with slots_of_keys [OF ei] d [OF keys_distinct [OF ei]] have "edges_invar (tp_edges db')"
    by (simp add: db')
  moreover have "in_tenant db te \<and> \<not> invalid_type (tp_types db) te \<and> mirrored (tp_relations db) te \<and> te_group te \<noteq> []"
    if "te \<in> set added" for te
    using a that backfilled_ok by (fastforce simp: missing_topology_def)
  ultimately show ?thesis using inv by (auto simp: topo_invar_def in_tenant_def db')
qed

section \<open>Sequences of operations\<close>

datatype topo_op =
    SaveEdge edge millis
  | DeleteEdge edge_filter
  | Repair bool millis

fun topo_step :: "str \<Rightarrow> topo_db \<Rightarrow> topo_op \<Rightarrow> topo_db" where
  "topo_step env db (SaveEdge e now) = (case save_edge env e now db of Inl _ \<Rightarrow> db | Inr db' \<Rightarrow> db')"
| "topo_step env db (DeleteEdge f) = delete_edge f db"
| "topo_step env db (Repair dry now) = (case repair_backfill dry now db of Inl _ \<Rightarrow> db | Inr (_, db') \<Rightarrow> db')"

text \<open>A deletion by the tenant that owns the source of the edge.\<close>

fun owner_op :: "topo_db \<Rightarrow> topo_op \<Rightarrow> bool" where
  "owner_op db (DeleteEdge f) \<longleftrightarrow>
     resolve_entity_tenant db (ef_from (normalize_filter f)) = Inr (ef_tenant (normalize_filter f))"
| "owner_op db _ \<longleftrightarrow> True"

lemma repair_backfill_cases:
  assumes "repair_backfill dry now db = Inr (res, db')"
  shows "db' = db \<or> (\<exists>n. backfill_missing_topology_edges now db = Inr (n, db'))"
  using assms by (auto simp: repair_backfill_def Let_def and_then_Inr split: if_splits)

lemma backfill_resolve:
  "backfill_missing_topology_edges now db = Inr (n, db') \<Longrightarrow>
     resolve_entity_tenant db' r = resolve_entity_tenant db r"
  by (auto simp: backfill_missing_topology_edges_def backfill_select_def Let_def split: if_splits prod.splits)

lemma topo_step_resolve: "resolve_entity_tenant (topo_step env db op) r = resolve_entity_tenant db r"
  by (cases op) (auto elim: save_edge_Inr dest!: repair_backfill_cases split: sum.splits simp: backfill_resolve)

lemma owner_op_step: "owner_op (topo_step env db op) op' = owner_op db op'"
  by (cases op') (simp_all add: topo_step_resolve)

lemma topo_step_invar: "topo_invar db \<Longrightarrow> owner_op db op \<Longrightarrow> topo_invar (topo_step env db op)"
  by (cases op) (auto intro: save_edge_invar delete_edge_invar repair_invar dest!: repair_backfill_cases split: sum.splits)

lemma topo_run_invar:
  "topo_invar db \<Longrightarrow> list_all (owner_op db) ops \<Longrightarrow> topo_invar (foldl (topo_step env) db ops)"
proof (induction ops arbitrary: db)
  case (Cons op ops)
  then have "topo_invar (topo_step env db op)" by (simp add: topo_step_invar)
  moreover have "list_all (owner_op (topo_step env db op)) ops"
    using Cons.prems(2) by (simp add: owner_op_step list_all_iff)
  ultimately show ?case using Cons.IH by simp
qed simp

lemma invar_report:
  assumes "topo_invar db"
  shows "cr_missing_legacy (check_consistency db) = 0" "cr_invalid_type (check_consistency db) = 0"
proof -
  have "m \<in> mirror_of ` set (tp_relations db)" if "m \<in> set (expected_mirrors (tp_edges db))" for m
    using that assms by (auto simp: expected_mirrors_def topo_invar_def mirrored_def)
  then show "cr_missing_legacy (check_consistency db) = 0"
    by (simp add: check_consistency_def Let_def filter_empty_conv)
  show "cr_invalid_type (check_consistency db) = 0"
    using assms by (simp add: check_consistency_def Let_def filter_empty_conv topo_invar_def)
qed

section \<open>Properties\<close>

text \<open>C7: The topology stays consistent. From a consistent topology, whatever edges are saved, by whom
  and in which order, whatever repairs run, and whatever edges the tenants owning their source
  delete: no two rows share a slot (so a pair of twins has at most one bidirectional edge of a type),
  both ends of every edge belong to the tenant of the edge, and the consistency report finds no edge
  without its legacy mirrors and none outside the relation vocabulary.\<close>

theorem topology_stays_consistent:
  assumes "topo_invar db" "list_all (owner_op db) ops"
  shows "let db' = foldl (topo_step env) db ops in
    distinct (map row_slot (tp_edges db')) \<and>
    (\<forall>te \<in> set (tp_edges db'). resolve_entity_tenant db' (te_from te) = Inr (te_tenant te) \<and>
       resolve_entity_tenant db' (te_to te) = Inr (te_tenant te)) \<and>
    cr_missing_legacy (check_consistency db') = 0 \<and> cr_invalid_type (check_consistency db') = 0"
proof -
  have "topo_invar (foldl (topo_step env) db ops)" using assms by (rule topo_run_invar)
  with invar_report [OF this] show ?thesis
    by (simp add: Let_def topo_invar_def edges_invar_def in_tenant_def)
qed

definition floor_ref :: entity_ref where "floor_ref = \<lparr>ref_type = ''ASSET'', ref_id = ''floor''\<rparr>"
definition room_ref :: entity_ref where "room_ref = \<lparr>ref_type = ''ASSET'', ref_id = ''room''\<rparr>"

definition plant_asset :: "str \<Rightarrow> entity" where
  "plant_asset i = \<lparr>en_id = i, en_tenant = Some ''t'', en_created = 3, en_name = i, en_type = None, en_label = None,
     en_info = NoInfo\<rparr>"

definition plant_db :: topo_db where
  "plant_db = \<lparr>tp_edges = [], tp_relations =
       [\<lparr>lr_from = floor_ref, lr_to = room_ref, lr_group = [], lr_relation = ''Contains'', lr_info = NoInfo, lr_version = 0\<rparr>],
     tp_types = default_relation_types, tp_owners = [],
     tp_twins = \<lparr>db_devices = [], db_assets = [plant_asset ''floor'', plant_asset ''room''], db_models = [],
       db_registry = [], db_relation_types = []\<rparr>\<rparr>"

definition feeds_edge :: "str \<Rightarrow> edge" where
  "feeds_edge dir = \<lparr>ed_tenant = ''t'', ed_from = room_ref, ed_to = floor_ref\<lparr>ref_type := ''asset ''\<rparr>,
     ed_relation = ''Feeds'', ed_group = [], ed_direction = dir, ed_metadata = NoInfo\<rparr>"

definition feeds_filter :: "str \<Rightarrow> edge_filter" where
  "feeds_filter tenant = \<lparr>ef_tenant = tenant, ef_from = room_ref, ef_to = floor_ref,
     ef_relation = ''Feeds'', ef_group = []\<rparr>"

lemma plant_invar: "topo_invar plant_db"
  by (simp add: topo_invar_def edges_invar_def plant_db_def)

definition plant_ops :: "topo_op list" where
  "plant_ops = [SaveEdge (feeds_edge ''bidirectional'') 5, SaveEdge (feeds_edge []) 6, Repair False 7,
     DeleteEdge (feeds_filter ''t''), SaveEdge (feeds_edge ''bidirectional'') 8]"

theorem topology_stays_consistent_witness:
  "let db' = foldl (topo_step []) plant_db plant_ops in
    map te_direction (tp_edges db') = [''DIRECTED'', ''BIDIRECTIONAL''] \<and>
    cr_missing_legacy (check_consistency db') = 0 \<and> cr_invalid_type (check_consistency db') = 0"
proof -
  have e: "map te_direction (tp_edges (foldl (topo_step []) plant_db plant_ops)) = [''DIRECTED'', ''BIDIRECTIONAL'']"
    "list_all (owner_op plant_db) plant_ops"
    by code_simp+
  from topology_stays_consistent [OF plant_invar e(2), of "[]"] e(1) show ?thesis by (simp add: Let_def)
qed

text \<open>C30: SaveEdge and DeleteEdge refine a map from slots to metadata and version: a successful save
  sets the slot of the edge to its metadata, with version 1 for a new slot and the next version for
  a known one (the reversed pair of a bidirectional edge is the same slot), and leaves every other
  slot alone; a deletion removes the directed and the bidirectional slot of the pair and no other.\<close>

theorem topology_refines_slot_map:
  assumes "edges_invar (tp_edges db)"
  shows "(save_edge env raw now db = Inr db' \<longrightarrow>
      edges_invar (tp_edges db') \<and>
      (\<exists>meta. edge_metadata (normalize_edge raw) = Some meta \<and>
         abs_edges db' = (abs_edges db)(edge_slot (normalize_edge raw) \<mapsto>
           (canon meta, case abs_edges db (edge_slot (normalize_edge raw)) of None \<Rightarrow> 1 | Some (_, v) \<Rightarrow> v + 1)))) \<and>
    abs_edges (delete_edge f db) = abs_edges db |` (- filter_slots (normalize_filter f))"
proof -
  have "edges_invar (tp_edges db') \<and> (\<exists>meta. edge_metadata (normalize_edge raw) = Some meta \<and>
         abs_edges db' = (abs_edges db)(edge_slot (normalize_edge raw) \<mapsto>
           (canon meta, case abs_edges db (edge_slot (normalize_edge raw)) of None \<Rightarrow> 1 | Some (_, v) \<Rightarrow> v + 1)))"
    if s: "save_edge env raw now db = Inr db'"
  proof -
    from s obtain meta where m: "edge_metadata (normalize_edge raw) = Some meta"
      "ed_direction (normalize_edge raw) \<in> directions" "db' = store_edge (normalize_edge raw) meta now db"
      by (rule save_edge_Inr) blast
    with abs_save [OF assms m(2)] edges_invar_save [OF assms m(2)] show ?thesis by auto
  qed
  with abs_delete [OF assms] show ?thesis by blast
qed

theorem topology_refines_slot_map_witness:
  "\<exists>db'. save_edge [] (feeds_edge ''BIDIRECTIONAL'') 5 plant_db = Inr db' \<and>
     abs_edges db' (''t'', ''COMMON'', ''Feeds'', BidiSlot {floor_ref, room_ref}) = Some (JObj [], 1)"
proof -
  let ?r = "save_edge [] (feeds_edge ''BIDIRECTIONAL'') 5 plant_db"
  let ?e = "normalize_edge (feeds_edge ''BIDIRECTIONAL'')"
  have e: "isl ?r = False" "edge_metadata ?e = Some (JObj [])" "canon (JObj []) = JObj []"
    "(ed_tenant ?e, ed_group ?e, ed_relation ?e, ed_direction ?e, ed_from ?e, ed_to ?e) =
       (''t'', ''COMMON'', ''Feeds'', ''BIDIRECTIONAL'', room_ref, floor_ref)"
    by code_simp+
  obtain db' where r: "?r = Inr db'" using e(1) by (cases ?r) auto
  have slot: "edge_slot ?e = (''t'', ''COMMON'', ''Feeds'', BidiSlot {floor_ref, room_ref})"
    using e(4) by (simp add: edge_slot_def slot_of_def insert_commute)
  have "edges_invar (tp_edges plant_db)" "abs_edges plant_db = Map.empty"
    by (simp_all add: plant_db_def edges_invar_def abs_edges_def slot_map_def)
  with topology_refines_slot_map [of plant_db "[]" "feeds_edge ''BIDIRECTIONAL''" 5 db'] r e(2,3) slot
  show ?thesis by auto
qed

text \<open>A repair repairs. Unless it is a dry run, RepairBackfill leaves no governed legacy relation
  without its edge; it only adds edges, at most as many as the report announced, each for a missing
  relation whose ends belong to one tenant and whose type allows them; a dry run changes nothing.\<close>

theorem repair_completes:
  assumes "repair_backfill dry now db = Inr (res, db')"
  shows "(\<not> dry \<longrightarrow> cr_missing_topology (check_consistency db') = 0) \<and>
    (dry \<longrightarrow> db' = db) \<and> rr_after res = check_consistency db' \<and>
    tp_relations db' = tp_relations db \<and>
    (\<exists>added. tp_edges db' = tp_edges db @ added \<and> length added = rr_inserted res \<and>
       rr_inserted res \<le> rr_would_insert res \<and>
       (\<forall>te \<in> set added. \<exists>r \<in> set (tp_relations db). missing_topology db r \<and> te = backfilled_row db now r))"
proof (cases "dry \<or> cr_missing_topology (check_consistency db) = 0")
  case True
  with assms have "db' = db" "rr_after res = check_consistency db" "rr_inserted res = 0"
    by (auto simp: repair_backfill_def Let_def)
  with True show ?thesis by auto
next
  case False
  with assms obtain n where b: "backfill_missing_topology_edges now db = Inr (n, db')"
    and res: "rr_inserted res = n" "rr_after res = check_consistency db'"
      "rr_would_insert res = length (filter (missing_topology db) (tp_relations db))"
    by (auto simp: repair_backfill_def Let_def and_then_Inr check_consistency_def)
  from b obtain added where "db' = db\<lparr>tp_edges := tp_edges db @ added\<rparr>" "length added = n"
    "n \<le> length (filter (missing_topology db) (tp_relations db))"
    "set added \<subseteq> backfilled_row db now ` {r \<in> set (tp_relations db). missing_topology db r}"
    unfolding backfill_missing_topology_edges_def by (rule backfill_select_spec) blast
  with repair_missing [OF b] res False show ?thesis by auto
qed

theorem repair_completes_witness:
  "\<exists>res db'. repair_backfill False 7 plant_db = Inr (res, db') \<and> rr_would_insert res = 1 \<and>
     cr_missing_topology (check_consistency db') = 0 \<and> length (tp_edges db') \<le> 1"
proof -
  let ?r = "repair_backfill False 7 plant_db"
  have e: "isl ?r = False" "rr_would_insert (fst (projr ?r)) = 1" "tp_edges plant_db = []" by code_simp+
  obtain res db' where r: "?r = Inr (res, db')" using e(1) by (cases ?r) auto
  from repair_completes [OF r] e(2,3) r show ?thesis by auto
qed

text \<open>A deletion by a foreign tenant is not harmless: for a tenant that owns nothing of the edge
  DeleteEdge succeeds, deletes no edge, and removes the legacy mirror of the other tenant's edge,
  which the consistency report then finds missing.\<close>

theorem foreign_delete_removes_mirror:
  "let db = foldl (topo_step []) plant_db [SaveEdge (feeds_edge []) 5]; db' = delete_edge (feeds_filter ''u'') db in
    topo_invar plant_db \<and> tp_edges db' = tp_edges db \<and> map te_tenant (tp_edges db) = [''t''] \<and>
    cr_missing_legacy (check_consistency db) = 0 \<and> cr_missing_legacy (check_consistency db') = 1"
proof -
  have "(let db = foldl (topo_step []) plant_db [SaveEdge (feeds_edge []) 5]; db' = delete_edge (feeds_filter ''u'') db in
    tp_edges db' = tp_edges db \<and> map te_tenant (tp_edges db) = [''t''] \<and>
    cr_missing_legacy (check_consistency db) = 0 \<and> cr_missing_legacy (check_consistency db') = 1)"
    by code_simp
  with plant_invar show ?thesis unfolding Let_def by blast
qed

end
