(* ===== verification/TopologyExpand.thy ===== *)
theory TopologyExpand
  imports TopologyProps
begin

text \<open>
  Traversal of the topology (internal/topology/topology.go): the one-hop reads Neighbors and
  NeighborsTenant and the recursive expansion ExpandWithCTE. The recursive query is computed level
  by level; a level holds one row per simple path. The laws show that it answers bounded
  reachability, in the order of the distances, and that it never leaves the tenant.
\<close>

section \<open>One hop\<close>

definition norm_direction :: "str \<Rightarrow> str" where
  "norm_direction d = or_default ''FROM'' (to_upper (trim_space d))"

definition norm_types :: "str list \<Rightarrow> str list" where
  "norm_types types = (if types = [] then [''Contains''] else types)"

definition common_edge :: "str list \<Rightarrow> edge_row \<Rightarrow> bool" where
  "common_edge types te \<longleftrightarrow> te_group te = ''COMMON'' \<and> te_relation te \<in> set types"

definition neighbors_from_topology :: "topo_db \<Rightarrow> entity_ref \<Rightarrow> str \<Rightarrow> str list \<Rightarrow> entity_ref list" where
  "neighbors_from_topology db start direction types =
     (let bidi = (\<lambda>te. te_direction te = ''BIDIRECTIONAL'');
          near = (\<lambda>te. if direction = ''FROM'' then te_from te else te_to te);
          far = (\<lambda>te. if direction = ''FROM'' then te_to te else te_from te)
      in map normalize_ref (remdups (map (\<lambda>te. if bidi te \<and> far te = start then near te else far te)
           (filter (\<lambda>te. common_edge types te \<and>
              (te_direction te = ''DIRECTED'' \<and> near te = start \<or>
               bidi te \<and> (te_from te = start \<or> te_to te = start))) (tp_edges db)))))"

definition neighbors_from_legacy_relation :: "topo_db \<Rightarrow> entity_ref \<Rightarrow> str \<Rightarrow> str list \<Rightarrow> entity_ref list" where
  "neighbors_from_legacy_relation db start direction types =
     (let near = (\<lambda>r. if direction = ''FROM'' then lr_from r else lr_to r);
          far = (\<lambda>r. if direction = ''FROM'' then lr_to r else lr_from r)
      in map (normalize_ref \<circ> far)
           (filter (\<lambda>r. near r = start \<and> lr_group r = ''COMMON'' \<and> lr_relation r \<in> set types) (tp_relations db)))"

definition neighbors :: "topo_db \<Rightarrow> entity_ref \<Rightarrow> str \<Rightarrow> str list \<Rightarrow> entity_ref list" where
  "neighbors db raw direction types =
     (let start = normalize_ref raw;
          modern = neighbors_from_topology db start (norm_direction direction) (norm_types types)
      in if modern \<noteq> [] then modern
         else neighbors_from_legacy_relation db start (norm_direction direction) (norm_types types))"

section \<open>The tenant's edges\<close>

definition far_tenant :: "topo_db \<Rightarrow> entity_ref \<Rightarrow> str option" where
  "far_tenant db ref = (if ref_type ref = ''TENANT'' then Some (ref_id ref) else joined_tenant db ref)"

definition masked :: "topo_db \<Rightarrow> str \<Rightarrow> relation_row \<Rightarrow> bool" where
  "masked db tenant r \<longleftrightarrow>
     list_ex (\<lambda>te. te_tenant te = tenant \<and> te_from te = lr_from r \<and> te_to te = lr_to r \<and>
       te_group te = lr_group r \<and> te_relation te = lr_relation r) (tp_edges db)"

text \<open>Pairs of a node and its neighbour; the branches of the union, with the ends swapped for TO.\<close>

definition neighbor_union :: "topo_db \<Rightarrow> str \<Rightarrow> str \<Rightarrow> str list \<Rightarrow> (entity_ref \<times> entity_ref) list" where
  "neighbor_union db direction tenant types =
     (let mine = filter (\<lambda>te. te_tenant te = tenant \<and> common_edge types te) (tp_edges db);
          bidi = filter (\<lambda>te. te_direction te = ''BIDIRECTIONAL'') mine;
          directed = filter (\<lambda>te. te_direction te = ''DIRECTED'') mine;
          near = (\<lambda>r. if direction = ''TO'' then lr_to r else lr_from r);
          far = (\<lambda>r. if direction = ''TO'' then lr_from r else lr_to r)
      in map (\<lambda>te. if direction = ''TO'' then (te_to te, te_from te) else (te_from te, te_to te)) directed @
         map (\<lambda>te. (te_from te, te_to te)) bidi @ map (\<lambda>te. (te_to te, te_from te)) bidi @
         map (\<lambda>r. (near r, far r))
           (filter (\<lambda>r. lr_group r = ''COMMON'' \<and> lr_relation r \<in> set types \<and>
              far_tenant db (far r) = Some tenant \<and> \<not> masked db tenant r) (tp_relations db)))"

definition neighbors_tenant ::
  "topo_db \<Rightarrow> str \<Rightarrow> entity_ref \<Rightarrow> str \<Rightarrow> str list \<Rightarrow> entity_ref list" where
  "neighbors_tenant db tenant raw direction types =
     (let start = normalize_ref raw
      in map normalize_ref (remdups (map snd (filter (\<lambda>p. fst p = start)
           (neighbor_union db (norm_direction direction) tenant (norm_types types))))))"

section \<open>Expansion\<close>

definition default_expand_max_depth :: int where "default_expand_max_depth = 10"
definition default_expand_max_nodes :: int where "default_expand_max_nodes = 5000"

text \<open>The text a node has in the path of a row.\<close>

definition node_text :: "entity_ref \<Rightarrow> str" where
  "node_text n = ref_type n @ '':'' @ ref_id n"

type_synonym cte_row = "entity_ref \<times> nat \<times> str list"

definition cte_step :: "(entity_ref \<times> entity_ref) list \<Rightarrow> cte_row list \<Rightarrow> cte_row list" where
  "cte_step es rows =
     [(b, d + 1, path @ [node_text b]). (n, d, path) \<leftarrow> rows, (a, b) \<leftarrow> es, a = n \<and> node_text b \<notin> set path]"

fun cte_levels :: "nat \<Rightarrow> (entity_ref \<times> entity_ref) list \<Rightarrow> cte_row list \<Rightarrow> cte_row list" where
  "cte_levels n es rows =
     (if n = 0 \<or> rows = [] then rows else rows @ cte_levels (n - 1) es (cte_step es rows))"

declare cte_levels.simps [simp del]

definition min_depth :: "cte_row list \<Rightarrow> entity_ref \<Rightarrow> nat" where
  "min_depth rows n =
     (case map (\<lambda>r. fst (snd r)) (filter (\<lambda>r. fst r = n) rows) of [] \<Rightarrow> 0 | d # ds \<Rightarrow> fold min ds d)"

text \<open>DISTINCT ON the node with its least depth, then ORDER BY depth, type, id.\<close>

definition cte_nodes :: "cte_row list \<Rightarrow> entity_ref list" where
  "cte_nodes rows = sort_key (\<lambda>n. (min_depth rows n, ref_type n, ref_id n)) (remdups (map fst rows))"

definition expand_with_cte ::
  "topo_db \<Rightarrow> str \<Rightarrow> entity_ref \<Rightarrow> str \<Rightarrow> str list \<Rightarrow> int \<Rightarrow> int \<Rightarrow> topo_error + entity_ref list" where
  "expand_with_cte db tenant raw direction types max_depth max_nodes =
     (if max_depth < 1 \<or> max_nodes < 1 then Inl BadLimit
      else let start = normalize_ref raw;
               es = neighbor_union db (norm_direction direction) tenant (norm_types types);
               rows = cte_levels (nat max_depth) es [(start, 0, [node_text start])];
               out = map normalize_ref (take (nat (max_nodes + 1)) (cte_nodes rows))
           in if max_nodes < int (length out) then Inl TraversalBudget else Inr out)"

section \<open>Levels\<close>

lemma node_text_inj:
  assumes "node_text a = node_text b" "CHR '':'' \<notin> set (ref_id a)" "CHR '':'' \<notin> set (ref_id b)"
  shows "a = b"
proof -
  let ?k = "\<lambda>r. rev (ref_id r) @ CHR '':'' # rev (ref_type r)"
  have eq: "?k a = ?k b" using arg_cong [OF assms(1), of rev] by (simp add: node_text_def)
  have t: "takeWhile (\<lambda>c. c \<noteq> CHR '':'') (?k r) = rev (ref_id r)" if "CHR '':'' \<notin> set (ref_id r)" for r
    using that by (subst takeWhile_append2) auto
  from t [OF assms(2)] t [OF assms(3)] eq have "ref_id a = ref_id b" by simp
  with eq show ?thesis by simp
qed

definition walks :: "(entity_ref \<times> entity_ref) list \<Rightarrow> entity_ref \<Rightarrow> nat \<Rightarrow> entity_ref set" where
  "walks es start k = {n. (start, n) \<in> set es ^^ k}"

definition reachable :: "(entity_ref \<times> entity_ref) list \<Rightarrow> entity_ref \<Rightarrow> nat \<Rightarrow> entity_ref set" where
  "reachable es start d = (\<Union>k \<le> d. walks es start k)"

definition distance :: "(entity_ref \<times> entity_ref) list \<Rightarrow> entity_ref \<Rightarrow> entity_ref \<Rightarrow> nat" where
  "distance es start n = (LEAST k. n \<in> walks es start k)"

lemma walks_0 [simp]: "walks es start 0 = {start}"
  by (auto simp: walks_def)

lemma walks_Suc: "n \<in> walks es start (Suc k) \<longleftrightarrow> (\<exists>m \<in> walks es start k. (m, n) \<in> set es)"
  by (auto simp: walks_def relcomp_unfold)

lemma set_cte_step:
  "(b, d', p') \<in> set (cte_step es rows) \<longleftrightarrow>
     (\<exists>a d path. (a, d, path) \<in> set rows \<and> (a, b) \<in> set es \<and> node_text b \<notin> set path \<and>
        d' = d + 1 \<and> p' = path @ [node_text b])"
  by (auto simp: cte_step_def)

lemma cte_levels_iter: "set (cte_levels n es rows) = (\<Union>k \<le> n. set ((cte_step es ^^ k) rows))"
proof (induction n arbitrary: rows)
  case 0
  then show ?case by (simp add: cte_levels.simps)
next
  case (Suc n)
  show ?case
  proof (cases "rows = []")
    case True
    have "(cte_step es ^^ k) [] = []" for k by (induction k) (simp_all add: cte_step_def)
    then show ?thesis using True by (simp add: cte_levels.simps)
  next
    case False
    then show ?thesis
      using Suc [of "cte_step es rows"]
      by (simp add: cte_levels.simps [of "Suc n"] atMost_Suc_eq_insert_0 funpow_swap1 image_image
          del: funpow.simps(2)) (simp add: funpow_swap1)
  qed
qed

definition level :: "(entity_ref \<times> entity_ref) list \<Rightarrow> entity_ref \<Rightarrow> nat \<Rightarrow> cte_row list" where
  "level es start k = (cte_step es ^^ k) [(start, 0, [node_text start])]"

lemma level_Suc: "level es start (Suc k) = cte_step es (level es start k)"
  by (simp add: level_def)

text \<open>A row of level \<open>k\<close> ends a walk of length \<open>k\<close> through nodes reached by then.\<close>

lemma level_sound:
  "(n, d, path) \<in> set (level es start k) \<Longrightarrow>
     d = k \<and> n \<in> walks es start k \<and> set path \<subseteq> node_text ` reachable es start k"
proof (induction k arbitrary: n d path)
  case 0
  then show ?case by (simp add: level_def reachable_def)
next
  case (Suc k)
  from Suc.prems obtain a d0 p0 where r: "(a, d0, p0) \<in> set (level es start k)" "(a, n) \<in> set es"
    "d = d0 + 1" "path = p0 @ [node_text n]" by (auto simp: level_Suc set_cte_step)
  from Suc.IH [OF r(1)] have a: "d0 = k" "a \<in> walks es start k" "set p0 \<subseteq> node_text ` reachable es start k"
    by auto
  have n: "n \<in> walks es start (Suc k)" using a(2) r(2) by (auto simp: walks_Suc)
  moreover have "reachable es start (Suc k) = reachable es start k \<union> walks es start (Suc k)"
    by (auto simp: reachable_def atMost_Suc)
  ultimately show ?case using a r(3,4) by auto
qed

text \<open>The level of its distance has a row of every node: the predecessors on a shortest walk were
  reached before.\<close>

definition plain_ids :: "(entity_ref \<times> entity_ref) list \<Rightarrow> entity_ref \<Rightarrow> bool" where
  "plain_ids es start \<longleftrightarrow> CHR '':'' \<notin> set (ref_id start) \<and> (\<forall>(a, b) \<in> set es. CHR '':'' \<notin> set (ref_id b))"

lemma plain_walk: "plain_ids es start \<Longrightarrow> n \<in> walks es start k \<Longrightarrow> CHR '':'' \<notin> set (ref_id n)"
  by (cases k) (auto simp: plain_ids_def walks_Suc)

lemma level_covers:
  assumes "plain_ids es start"
  shows "n \<in> walks es start k \<Longrightarrow> (\<And>j. j < k \<Longrightarrow> n \<notin> walks es start j) \<Longrightarrow>
    \<exists>path. (n, k, path) \<in> set (level es start k)"
proof (induction k arbitrary: n)
  case 0
  then show ?case by (auto simp: level_def)
next
  case (Suc k)
  from Suc.prems(1) obtain m where m: "m \<in> walks es start k" "(m, n) \<in> set es" by (auto simp: walks_Suc)
  have "m \<notin> walks es start j" if "j < k" for j
    using that m(2) Suc.prems(2) [of "Suc j"] by (auto simp: walks_Suc)
  from Suc.IH [OF m(1) this] obtain path where p: "(m, k, path) \<in> set (level es start k)" by blast
  have "node_text n \<notin> set path"
  proof
    assume "node_text n \<in> set path"
    with level_sound [OF p] obtain v where v: "v \<in> reachable es start k" "node_text n = node_text v" by auto
    then obtain j where j: "j \<le> k" "v \<in> walks es start j" by (auto simp: reachable_def)
    have "n = v"
      using v(2) plain_walk [OF assms Suc.prems(1)] plain_walk [OF assms j(2)] by (rule node_text_inj)
    with j Suc.prems(2) [of j] show False by auto
  qed
  with p m(2) show ?case by (auto simp: level_Suc set_cte_step)
qed

section \<open>The answer\<close>

lemma distance_walk: "n \<in> walks es start k \<Longrightarrow> n \<in> walks es start (distance es start n) \<and> distance es start n \<le> k"
  unfolding distance_def by (auto intro: LeastI Least_le)

lemma distance_least: "j < distance es start n \<Longrightarrow> n \<notin> walks es start j"
  unfolding distance_def by (rule not_less_Least)

abbreviation expansion :: "(entity_ref \<times> entity_ref) list \<Rightarrow> entity_ref \<Rightarrow> nat \<Rightarrow> cte_row list" where
  "expansion es start d \<equiv> cte_levels d es [(start, 0, [node_text start])]"

lemma set_expansion: "set (expansion es start d) = (\<Union>k \<le> d. set (level es start k))"
  by (simp add: cte_levels_iter level_def)

lemma expansion_row:
  "(n, k, path) \<in> set (expansion es start d) \<Longrightarrow> k \<le> d \<and> n \<in> walks es start k"
  by (auto simp: set_expansion dest: level_sound)

lemma expansion_distance:
  assumes "plain_ids es start" "n \<in> reachable es start d"
  shows "\<exists>path. (n, distance es start n, path) \<in> set (expansion es start d)"
proof -
  from assms(2) obtain k where k: "k \<le> d" "n \<in> walks es start k" by (auto simp: reachable_def)
  from distance_walk [OF k(2)] have w: "n \<in> walks es start (distance es start n)" "distance es start n \<le> k" by auto
  from level_covers [OF assms(1) w(1) distance_least] obtain path where
    "(n, distance es start n, path) \<in> set (level es start (distance es start n))" by blast
  moreover have "distance es start n \<in> {..d}" using w(2) k(1) by simp
  ultimately show ?thesis unfolding set_expansion by blast
qed

lemma expansion_nodes:
  "plain_ids es start \<Longrightarrow> fst ` set (expansion es start d) = reachable es start d"
  using expansion_distance [of es start _ d] by (force simp: reachable_def dest: expansion_row)

lemma min_depth_distance:
  assumes "plain_ids es start" "n \<in> reachable es start d"
  shows "min_depth (expansion es start d) n = distance es start n"
proof -
  define ds where "ds = map (\<lambda>r. fst (snd r)) (filter (\<lambda>r. fst r = n) (expansion es start d))"
  have set_ds: "set ds = {k. \<exists>path. (n, k, path) \<in> set (expansion es start d)}"
    by (force simp: ds_def)
  from expansion_distance [OF assms] have mem: "distance es start n \<in> set ds" by (simp add: set_ds)
  then obtain k ks where ks: "ds = k # ks" by (cases ds) auto
  have "min_depth (expansion es start d) n = Min (set ds)"
    by (simp only: min_depth_def ds_def [symmetric] ks list.case Min.set_eq_fold)
  also have "\<dots> = distance es start n"
  proof (rule Min_eqI)
    fix j
    assume "j \<in> set ds"
    then have "n \<in> walks es start j" by (auto simp: set_ds dest: expansion_row)
    then show "distance es start n \<le> j" using distance_walk by blast
  qed (use mem in auto)
  finally show ?thesis .
qed

lemma cte_nodes_spec:
  assumes "plain_ids es start"
  shows "set (cte_nodes (expansion es start d)) = reachable es start d"
    "distinct (cte_nodes (expansion es start d))"
    "sorted (map (distance es start) (cte_nodes (expansion es start d)))"
proof -
  let ?rows = "expansion es start d"
  let ?k = "\<lambda>n. (min_depth ?rows n, ref_type n, ref_id n)"
  show set: "set (cte_nodes ?rows) = reachable es start d"
    using expansion_nodes [OF assms] by (simp add: cte_nodes_def)
  show "distinct (cte_nodes ?rows)" by (simp add: cte_nodes_def)
  have "sorted (map ?k (cte_nodes ?rows))" by (simp add: cte_nodes_def)
  then have "sorted (map (min_depth ?rows) (cte_nodes ?rows))"
    by (auto simp: sorted_map less_eq_prod_def elim!: sorted_wrt_mono_rel [rotated])
  moreover have "map (min_depth ?rows) (cte_nodes ?rows) = map (distance es start) (cte_nodes ?rows)"
    using min_depth_distance [OF assms] by (simp add: set)
  ultimately show "sorted (map (distance es start) (cte_nodes ?rows))" by simp
qed

text \<open>Every pair of the union stays in the tenant on its far side.\<close>

lemma far_resolve: "far_tenant db ref = Some t \<Longrightarrow> resolve_entity_tenant db ref = Inr t"
proof -
  have "normalize_entity_type ''TENANT'' = ''TENANT''" by code_simp
  then show "far_tenant db ref = Some t \<Longrightarrow> resolve_entity_tenant db ref = Inr t"
    using joined_resolve [of db ref t]
    by (auto simp: far_tenant_def resolve_entity_tenant_def [of db ref] split: if_splits)
qed

lemma neighbor_union_tenant:
  assumes "topo_invar db" "(a, b) \<in> set (neighbor_union db direction tenant types)"
  shows "resolve_entity_tenant db b = Inr tenant"
proof -
  have "in_tenant db te" if "te \<in> set (tp_edges db)" for te
    using assms(1) that by (simp add: topo_invar_def)
  then show ?thesis using assms(2)
    by (auto simp: neighbor_union_def Let_def in_tenant_def intro: far_resolve split: if_splits)
qed

lemma resolve_normalize [simp]: "resolve_entity_tenant db (normalize_ref r) = resolve_entity_tenant db r"
  by (simp add: resolve_entity_tenant_def normalize_ref_def normalize_entity_type_def trim_space_upper Let_def)

lemma walks_tenant:
  assumes "topo_invar db" "resolve_entity_tenant db start = Inr tenant"
  shows "n \<in> walks (neighbor_union db direction tenant types) start k \<Longrightarrow> resolve_entity_tenant db n = Inr tenant"
  using assms by (cases k) (auto simp: walks_Suc dest: neighbor_union_tenant)

section \<open>Properties\<close>

text \<open>C8: ExpandWithCTE answers bounded reachability. With limits of at least one, it fails with the
  budget error exactly when more than maxNodes nodes can be reached within maxDepth hops; otherwise
  it lists each of them once, the start among them, in the order of their distances, although the
  query enumerates simple paths and not nodes.\<close>

theorem expand_is_bounded_reachability:
  assumes "1 \<le> max_depth" "1 \<le> max_nodes"
    and "es = neighbor_union db (norm_direction direction) tenant (norm_types types)"
    and "start = normalize_ref raw" "plain_ids es start"
  shows "(expand_with_cte db tenant raw direction types max_depth max_nodes = Inl TraversalBudget \<longleftrightarrow>
      max_nodes < int (card (reachable es start (nat max_depth)))) \<and>
    (expand_with_cte db tenant raw direction types max_depth max_nodes = Inr out \<longrightarrow>
      (\<exists>nodes. out = map normalize_ref nodes \<and> distinct nodes \<and> set nodes = reachable es start (nat max_depth) \<and>
         sorted (map (distance es start) nodes) \<and> int (length out) \<le> max_nodes))"
proof -
  let ?nodes = "cte_nodes (expansion es start (nat max_depth))"
  note spec = cte_nodes_spec [OF assms(5), of "nat max_depth"]
  have len: "length ?nodes = card (reachable es start (nat max_depth))"
    using distinct_card [OF spec(2)] spec(1) by simp
  have e: "expand_with_cte db tenant raw direction types max_depth max_nodes =
      (if max_nodes < int (length ?nodes) then Inl TraversalBudget else Inr (map normalize_ref ?nodes))"
    using assms(1,2) by (auto simp: expand_with_cte_def Let_def assms(3,4) min_def)
  show ?thesis
  proof (rule conjI)
    show "expand_with_cte db tenant raw direction types max_depth max_nodes = Inl TraversalBudget \<longleftrightarrow>
        max_nodes < int (card (reachable es start (nat max_depth)))"
      by (simp add: e len)
    show "expand_with_cte db tenant raw direction types max_depth max_nodes = Inr out \<longrightarrow>
      (\<exists>nodes. out = map normalize_ref nodes \<and> distinct nodes \<and> set nodes = reachable es start (nat max_depth) \<and>
         sorted (map (distance es start) nodes) \<and> int (length out) \<le> max_nodes)"
      using spec by (auto simp: e split: if_splits)
  qed
qed

text \<open>Traversal never leaves the tenant. In a consistent topology, every neighbour that
  NeighborsTenant reports belongs to the tenant, and so does every node of an expansion whose start
  does; the legacy relations take part in both.\<close>

theorem traversal_stays_in_tenant:
  assumes "topo_invar db"
  shows "(\<forall>n \<in> set (neighbors_tenant db tenant raw direction types). resolve_entity_tenant db n = Inr tenant) \<and>
    (resolve_entity_tenant db raw = Inr tenant \<longrightarrow>
     expand_with_cte db tenant raw direction types max_depth max_nodes = Inr out \<longrightarrow>
     (\<forall>n \<in> set out. resolve_entity_tenant db n = Inr tenant))"
proof -
  let ?es = "neighbor_union db (norm_direction direction) tenant (norm_types types)"
  have "resolve_entity_tenant db n = Inr tenant"
    if "n \<in> set (neighbors_tenant db tenant raw direction types)" for n
    using that neighbor_union_tenant [OF assms] by (fastforce simp: neighbors_tenant_def Let_def)
  moreover have "resolve_entity_tenant db n = Inr tenant"
    if r: "resolve_entity_tenant db raw = Inr tenant"
      and e: "expand_with_cte db tenant raw direction types max_depth max_nodes = Inr out" and n: "n \<in> set out" for n
  proof -
    let ?start = "normalize_ref raw"
    from e n obtain m where m: "n = normalize_ref m" "m \<in> set (cte_nodes (expansion ?es ?start (nat max_depth)))"
      by (auto simp: expand_with_cte_def Let_def split: if_splits dest: in_set_takeD)
    from m(2) obtain k path where "(m, k, path) \<in> set (expansion ?es ?start (nat max_depth))"
      by (auto simp: cte_nodes_def)
    then have "m \<in> walks ?es ?start k" by (simp add: expansion_row)
    from walks_tenant [OF assms _ this] r m(1) show ?thesis by simp
  qed
  ultimately show ?thesis by blast
qed

definition ring_db :: topo_db where
  "ring_db = foldl (topo_step []) plant_db
     [SaveEdge (feeds_edge ''bidirectional'') 5, SaveEdge (feeds_edge []) 6]"

theorem expand_is_bounded_reachability_witness:
  "\<exists>nodes. expand_with_cte ring_db ''t'' room_ref [] [''Feeds'', ''Contains''] 3 9 = Inr (map normalize_ref nodes) \<and>
     distinct nodes \<and> length nodes = 2 \<and>
     set nodes = reachable (neighbor_union ring_db ''FROM'' ''t'' [''Feeds'', ''Contains'']) room_ref (nat 3)"
proof -
  let ?es = "neighbor_union ring_db ''FROM'' ''t'' [''Feeds'', ''Contains'']"
  let ?r = "expand_with_cte ring_db ''t'' room_ref [] [''Feeds'', ''Contains''] 3 9"
  have e: "?es = neighbor_union ring_db (norm_direction []) ''t'' (norm_types [''Feeds'', ''Contains''])"
    "room_ref = normalize_ref room_ref"
    "list_all (\<lambda>p. \<not> list_ex (\<lambda>c. c = CHR '':'') (ref_id (snd p))) ?es \<and> \<not> list_ex (\<lambda>c. c = CHR '':'') (ref_id room_ref)"
    "isl ?r = False" "length (projr ?r) = 2"
    by code_simp+
  have p: "plain_ids ?es room_ref" using e(3) by (auto simp: plain_ids_def list_all_iff list_ex_iff)
  obtain out where r: "?r = Inr out" using e(4) by (cases ?r) auto
  have "(1::int) \<le> 3" "(1::int) \<le> 9" by simp_all
  from expand_is_bounded_reachability [OF this e(1,2) p] r obtain nodes where
    "out = map normalize_ref nodes" "distinct nodes" "set nodes = reachable ?es room_ref (nat 3)" by blast
  with r e(5) show ?thesis by auto
qed

theorem traversal_stays_in_tenant_witness:
  "topo_invar ring_db \<and> neighbors_tenant ring_db ''t'' room_ref ''from'' [''Feeds''] = [floor_ref] \<and>
   resolve_entity_tenant ring_db floor_ref = Inr ''t''"
proof -
  have n: "neighbors_tenant ring_db ''t'' room_ref ''from'' [''Feeds''] = [floor_ref]" by code_simp
  have i: "topo_invar ring_db" unfolding ring_db_def
    by (rule topo_run_invar [OF plant_invar]) simp
  from traversal_stays_in_tenant [OF i] n i show ?thesis
    by (metis list.set_intros(1))
qed

end
