(* ===== verification/Throttle.thy ===== *)
theory Throttle
  imports HttpUtil
begin

text \<open>
  The login throttle (internal/throttle/throttle.go) and the login handler it guards
  (HandleLogin of internal/user/auth_handler.go). The counters are a map from client addresses; an
  operation takes the time it reads from the clock, in nanoseconds. Durations are 64-bit and wrap.

  SHA-256 (of the credential with the process salt, hex encoded and truncated) and the bcrypt
  comparison are parameters, as is the table of users. Tokens, audit events and log lines are
  effects of a result and not modelled. The requests of parallel clients interleave at the critical
  sections of the counters.
\<close>

section \<open>Configuration\<close>

record throttle_config =
  tc_max_fails :: int
  tc_window :: int
  tc_max_attempts :: int

definition env_or :: "str \<Rightarrow> str \<Rightarrow> str" where
  "env_or v d = (if v \<noteq> [] then v else d)"

text \<open>A positive integer of the environment, or the default.\<close>

definition positive_env :: "str \<Rightarrow> str \<Rightarrow> int \<Rightarrow> int" where
  "positive_env v text d = (case atoi (env_or v text) of Some n \<Rightarrow> if 0 < n then n else d | None \<Rightarrow> d)"

definition second :: int where "second = 1000000000"

definition throttle_window :: "str \<Rightarrow> int" where
  "throttle_window v = wrap64 (positive_env v ''300'' 300 * second)"

definition throttle_configuration :: "str \<Rightarrow> str \<Rightarrow> str \<Rightarrow> throttle_config" where
  "throttle_configuration max_fails window max_attempts =
     \<lparr>tc_max_fails = positive_env max_fails ''5'' 5, tc_window = throttle_window window,
      tc_max_attempts = positive_env max_attempts ''60'' 60\<rparr>"

definition trusted_hops :: "str \<Rightarrow> int" where
  "trusted_hops v = positive_env v ''1'' 1"

section \<open>Counters\<close>

record counter =
  ct_distinct :: "str list"
  ct_attempts :: int
  ct_first :: int

type_synonym counters = "(str, counter) gomap"

definition expired :: "throttle_config \<Rightarrow> int \<Rightarrow> counter \<Rightarrow> bool" where
  "expired cfg now c \<longleftrightarrow> tc_window cfg < now - ct_first c"

definition allow :: "throttle_config \<Rightarrow> int \<Rightarrow> str \<Rightarrow> counters \<Rightarrow> bool" where
  "allow cfg now ip m \<longleftrightarrow>
     ip = [] \<or>
     (case map_of m ip of
        None \<Rightarrow> True
      | Some c \<Rightarrow> expired cfg now c \<or>
          (int (length (ct_distinct c)) < tc_max_fails cfg \<and> ct_attempts c < tc_max_attempts cfg))"

text \<open>strconv.Itoa of a positive count.\<close>

fun digits :: "nat \<Rightarrow> str" where
  "digits n = (if n < 10 then [char_of (48 + n)] else digits (n div 10) @ [char_of (48 + n mod 10)])"

declare digits.simps [simp del]

definition add_distinct :: "throttle_config \<Rightarrow> str \<Rightarrow> counter \<Rightarrow> counter" where
  "add_distinct cfg fingerprint c =
     (if fingerprint = [] then c\<lparr>ct_distinct := List.insert (digits (nat (ct_attempts c))) (ct_distinct c)\<rparr>
      else if fingerprint \<in> set (ct_distinct c) then c
      else if tc_max_fails cfg \<le> int (length (ct_distinct c)) then c
      else c\<lparr>ct_distinct := ct_distinct c @ [fingerprint]\<rparr>)"

definition current_counter :: "throttle_config \<Rightarrow> int \<Rightarrow> counter option \<Rightarrow> counter" where
  "current_counter cfg now old =
     (case old of
        Some c \<Rightarrow> if expired cfg now c then \<lparr>ct_distinct = [], ct_attempts = 0, ct_first = now\<rparr> else c
      | None \<Rightarrow> \<lparr>ct_distinct = [], ct_attempts = 0, ct_first = now\<rparr>)"

definition record_fail :: "throttle_config \<Rightarrow> int \<Rightarrow> str \<Rightarrow> str \<Rightarrow> counters \<Rightarrow> counters" where
  "record_fail cfg now ip fingerprint m =
     (if ip = [] then m
      else let c = current_counter cfg now (map_of m ip); c' = c\<lparr>ct_attempts := ct_attempts c + 1\<rparr>
           in AList.update ip (add_distinct cfg fingerprint c') m)"

definition record_success :: "str \<Rightarrow> counters \<Rightarrow> counters" where
  "record_success ip m = (if ip = [] then m else AList.delete ip m)"

text \<open>One tick of the janitor.\<close>

definition janitor_tick :: "throttle_config \<Rightarrow> int \<Rightarrow> counters \<Rightarrow> counters" where
  "janitor_tick cfg now m =
     filter (\<lambda>kc. \<not> ct_first (snd kc) < now + wrap64 (- 2 * tc_window cfg)) m"

section \<open>The client address\<close>

text \<open>net.SplitHostPort, without the port; \<open>None\<close> is an error.\<close>

definition index_of :: "char \<Rightarrow> str \<Rightarrow> nat option" where
  "index_of c s = (if c \<in> set s then Some (length (takeWhile (\<lambda>x. x \<noteq> c) s)) else None)"

definition last_index_of :: "char \<Rightarrow> str \<Rightarrow> nat option" where
  "last_index_of c s = map_option (\<lambda>i. length s - 1 - i) (index_of c (rev s))"

definition split_host_port :: "str \<Rightarrow> str option" where
  "split_host_port s =
     (case last_index_of CHR '':'' s of
        None \<Rightarrow> None
      | Some i \<Rightarrow>
          if s ! 0 = CHR ''['' then
            (case index_of CHR '']'' s of
               None \<Rightarrow> None
             | Some e \<Rightarrow>
                 if e + 1 \<noteq> i \<or> CHR ''['' \<in> set (drop 1 s) \<or> CHR '']'' \<in> set (drop (e + 1) s) then None
                 else Some (take (e - 1) (drop 1 s)))
          else let host = take i s
               in if CHR '':'' \<in> set host \<or> CHR ''['' \<in> set s \<or> CHR '']'' \<in> set s then None else Some host)"

definition remote_host :: "str \<Rightarrow> str" where
  "remote_host addr = (case split_host_port addr of None \<Rightarrow> addr | Some host \<Rightarrow> host)"

text \<open>The headers are empty when they are absent.\<close>

definition client_ip :: "str \<Rightarrow> str \<Rightarrow> str \<Rightarrow> str \<Rightarrow> str \<Rightarrow> str" where
  "client_ip trust_proxy hops forwarded_for real_ip remote_addr =
     (if trust_proxy = [] then remote_host remote_addr
      else if forwarded_for \<noteq> [] then
        (let parts = split_on CHR '','' forwarded_for;
             idx = int (length parts) - trusted_hops hops
         in if 0 \<le> idx \<and> idx < int (length parts) \<and> trim_space (parts ! nat idx) \<noteq> []
            then trim_space (parts ! nat idx) else remote_host remote_addr)
      else if real_ip \<noteq> [] then trim_space real_ip
      else remote_host remote_addr)"

section \<open>Logging in\<close>

record login_user =
  lu_enabled :: bool
  lu_hash :: str

record login_request =
  lq_now :: int
  lq_ip :: str
  lq_body :: raw_message

datatype login_result = LoginPreflight | LoginError nat str | LoggedIn login_user

definition login_error :: "http_error \<Rightarrow> login_result" where
  "login_error e = (case e of HttpError n msg \<Rightarrow> LoginError n msg | HandlerPanic \<Rightarrow> LoginError 500 [])"

text \<open>The decoding of the credentials, the first JSON value of the body.\<close>

definition decode_login :: "raw_message \<Rightarrow> (str \<times> str) option" where
  "decode_login body =
     (case body of
        Some JNull \<Rightarrow> Some ([], [])
      | Some (JObj kvs) \<Rightarrow>
          (case (dec_field dec_string [] (struct_vals ''username'' kvs),
                 dec_field dec_string [] (struct_vals ''password'' kvs)) of
             (Some u, Some p) \<Rightarrow> Some (u, p)
           | _ \<Rightarrow> None)
      | _ \<Rightarrow> None)"

definition fingerprint :: "(str \<Rightarrow> str) \<Rightarrow> str \<Rightarrow> str \<Rightarrow> str \<Rightarrow> str" where
  "fingerprint sha salt username password = take 16 (sha (salt @ username @ [char_of (0::nat)] @ password))"

text \<open>The credential check: the failure's answer, or the user.\<close>

definition check_credentials ::
  "(str \<Rightarrow> login_user option) \<Rightarrow> (str \<Rightarrow> str \<Rightarrow> bool) \<Rightarrow> str \<Rightarrow> str \<Rightarrow> http_error + login_user" where
  "check_credentials users bcrypt username password =
     and_then (or_fail (users username) (HttpError 401 ''Invalid email or password'')) (\<lambda>u.
       if \<not> lu_enabled u then Inl (HttpError 401 ''User account is disabled'')
       else if \<not> bcrypt (lu_hash u) password then Inl (HttpError 401 ''Invalid email or password'')
       else Inr u)"

text \<open>A request first asks the throttle and decodes the credentials; the lock is free again while the user is
  looked up and the password compared, and only then is the verdict recorded.\<close>

datatype login_stage = Answered login_result | Checking str str

definition login_admit :: "throttle_config \<Rightarrow> str \<Rightarrow> login_request \<Rightarrow> counters \<Rightarrow> login_stage" where
  "login_admit cfg http_method req m =
     (if http_method = ''OPTIONS'' then Answered LoginPreflight
      else if http_method \<noteq> ''POST'' then Answered (LoginError 405 ''Method not allowed'')
      else if \<not> allow cfg (lq_now req) (lq_ip req) m then Answered (LoginError 429 ''Too many failed login attempts'')
      else (case decode_login (lq_body req) of
              None \<Rightarrow> Answered (LoginError 400 ''Invalid request body'')
            | Some (username, password) \<Rightarrow>
                if username = [] \<or> password = [] then Answered (LoginError 400 ''Username and password are required'')
                else Checking username password))"

definition login_finish ::
  "(str \<Rightarrow> login_user option) \<Rightarrow> (str \<Rightarrow> str \<Rightarrow> bool) \<Rightarrow> (str \<Rightarrow> str) \<Rightarrow> str \<Rightarrow> throttle_config \<Rightarrow> int \<Rightarrow> str \<Rightarrow> str \<Rightarrow> str \<Rightarrow>
   counters \<Rightarrow> login_result \<times> counters" where
  "login_finish users bcrypt sha salt cfg now ip username password m =
     (case check_credentials users bcrypt username password of
        Inl e \<Rightarrow> (login_error e, record_fail cfg now ip (fingerprint sha salt username password) m)
      | Inr u \<Rightarrow> (LoggedIn u, record_success ip m))"

text \<open>A request no other one overtakes.\<close>

definition handle_login ::
  "(str \<Rightarrow> login_user option) \<Rightarrow> (str \<Rightarrow> str \<Rightarrow> bool) \<Rightarrow> (str \<Rightarrow> str) \<Rightarrow> str \<Rightarrow> throttle_config \<Rightarrow>
   str \<Rightarrow> login_request \<Rightarrow> counters \<Rightarrow> login_result \<times> counters" where
  "handle_login users bcrypt sha salt cfg http_method req m =
     (case login_admit cfg http_method req m of
        Answered res \<Rightarrow> (res, m)
      | Checking username password \<Rightarrow>
          login_finish users bcrypt sha salt cfg (lq_now req) (lq_ip req) username password m)"

section \<open>Requests in parallel\<close>

text \<open>The goroutines of the server interleave: a request arrives, a pending check (by its position)
  ends with the users the table then holds, the janitor ticks. Each step is one critical section of the
  counters' lock; the fields Allow reads after its unlock only grow or are discarded with their counter, so a
  request it admits is also admitted by a read of all of them at the lookup.\<close>

record login_check =
  lc_ip :: str
  lc_username :: str
  lc_password :: str

record login_world =
  lw_counters :: counters
  lw_pending :: "login_check list"

datatype login_event = Arrive str login_request | Verdict nat int "str \<Rightarrow> login_user option" | Sweep int

datatype login_outcome = Began login_check | Ended int login_check login_result | Direct login_request login_result | Quiet

definition login_step ::
  "(str \<Rightarrow> str \<Rightarrow> bool) \<Rightarrow> (str \<Rightarrow> str) \<Rightarrow> str \<Rightarrow> throttle_config \<Rightarrow> login_event \<Rightarrow> login_world \<Rightarrow>
   login_outcome \<times> login_world" where
  "login_step bcrypt sha salt cfg e w =
     (case e of
        Arrive http_method req \<Rightarrow>
          (case login_admit cfg http_method req (lw_counters w) of
             Answered res \<Rightarrow> (Direct req res, w)
           | Checking u p \<Rightarrow>
               (let c = \<lparr>lc_ip = lq_ip req, lc_username = u, lc_password = p\<rparr>
                in (Began c, w\<lparr>lw_pending := lw_pending w @ [c]\<rparr>)))
      | Verdict i now users \<Rightarrow>
          if i < length (lw_pending w) then
            (let c = lw_pending w ! i;
                 (res, m) = login_finish users bcrypt sha salt cfg now (lc_ip c) (lc_username c) (lc_password c) (lw_counters w)
             in (Ended now c res, \<lparr>lw_counters = m, lw_pending = take i (lw_pending w) @ drop (Suc i) (lw_pending w)\<rparr>))
          else (Quiet, w)
      | Sweep now \<Rightarrow> (Quiet, w\<lparr>lw_counters := janitor_tick cfg now (lw_counters w)\<rparr>))"

text \<open>What each step did, and the world after it.\<close>

primrec login_trace ::
  "(str \<Rightarrow> str \<Rightarrow> bool) \<Rightarrow> (str \<Rightarrow> str) \<Rightarrow> str \<Rightarrow> throttle_config \<Rightarrow> login_event list \<Rightarrow> login_world \<Rightarrow>
   (login_outcome \<times> login_world) list" where
  "login_trace bcrypt sha salt cfg [] w = []"
| "login_trace bcrypt sha salt cfg (e # es) w =
     login_step bcrypt sha salt cfg e w # login_trace bcrypt sha salt cfg es (snd (login_step bcrypt sha salt cfg e w))"

end
