(* ===== verification/ThrottleLaws.thy ===== *)
theory ThrottleLaws
  imports Throttle "HOL-Library.Multiset"
begin

text \<open>
  What the throttle guarantees while requests interleave: the counter of a client against the checks of
  it that have ended, and a janitor that requests handled in sequence cannot observe.
\<close>

section \<open>Runs\<close>

primrec login_run ::
  "(login_request \<Rightarrow> counters \<Rightarrow> login_result \<times> counters) \<Rightarrow> counters \<Rightarrow> login_request list \<Rightarrow>
   (login_request \<times> login_result) list" where
  "login_run handler m [] = []"
| "login_run handler m (r # rs) = (let (res, m') = handler r m in (r, res) # login_run handler m' rs)"

definition rejected :: "login_result \<Rightarrow> bool" where
  "rejected res = (case res of LoginError n _ \<Rightarrow> n = 401 | _ \<Rightarrow> False)"

definition throttled :: "login_result \<Rightarrow> bool" where
  "throttled res = (case res of LoginError n _ \<Rightarrow> n = 429 | _ \<Rightarrow> False)"

definition succeeded :: "login_result \<Rightarrow> bool" where
  "succeeded res = (case res of LoggedIn _ \<Rightarrow> True | _ \<Rightarrow> False)"

lemma positive_env_pos: "0 < d \<Longrightarrow> 0 < positive_env v text d"
  by (simp add: positive_env_def split: option.splits)

lemma check_credentials_Inl: "check_credentials users bcrypt u p = Inl e \<Longrightarrow> \<exists>msg. e = HttpError 401 msg"
  by (auto simp: check_credentials_def and_then_def or_fail_def split: option.splits if_splits)

lemma map_of_record_fail_other [simp]: "ip \<noteq> ip' \<Longrightarrow> map_of (record_fail cfg now ip' f m) ip = map_of m ip"
  by (simp add: record_fail_def Let_def update_conv)

lemma map_of_record_fail [simp]:
  "ip \<noteq> [] \<Longrightarrow> map_of (record_fail cfg now ip f m) ip =
     Some (let c = current_counter cfg now (map_of m ip)
           in add_distinct cfg f (c\<lparr>ct_attempts := ct_attempts c + 1\<rparr>))"
  by (simp add: record_fail_def Let_def update_conv)

lemma map_of_record_success_other [simp]: "ip \<noteq> ip' \<Longrightarrow> map_of (record_success ip' m) ip = map_of m ip"
  by (simp add: record_success_def delete_conv)

lemma map_of_filter_distinct:
  "distinct (map fst m) \<Longrightarrow> map_of (filter (\<lambda>kc. p (snd kc)) m) k =
     (case map_of m k of None \<Rightarrow> None | Some c \<Rightarrow> if p c then Some c else None)"
  by (induction m) (auto simp: map_of_eq_None_iff split: option.splits dest: map_of_SomeD)

section \<open>The counter of a client\<close>

text \<open>The failures of a client are those of its checks that have ended since its counter began.\<close>

definition check_fingerprint :: "(str \<Rightarrow> str) \<Rightarrow> str \<Rightarrow> login_check \<Rightarrow> str" where
  "check_fingerprint sha salt c = fingerprint sha salt (lc_username c) (lc_password c)"

definition pending_of :: "str \<Rightarrow> login_world \<Rightarrow> login_check list" where
  "pending_of ip w = filter (\<lambda>c. lc_ip c = ip) (lw_pending w)"

primrec begun_check :: "str \<Rightarrow> login_outcome \<Rightarrow> login_check list" where
  "begun_check ip (Began c) = (if lc_ip c = ip then [c] else [])"
| "begun_check ip (Ended t c res) = []"
| "begun_check ip (Direct r res) = []"
| "begun_check ip Quiet = []"

definition begun :: "str \<Rightarrow> login_outcome list \<Rightarrow> login_check list" where
  "begun ip outs = concat (map (begun_check ip) outs)"

primrec won :: "str \<Rightarrow> login_outcome \<Rightarrow> bool" where
  "won ip (Began c) = False"
| "won ip (Ended t c res) = (lc_ip c = ip \<and> succeeded res)"
| "won ip (Direct r res) = False"
| "won ip Quiet = False"

primrec lost_since :: "str \<Rightarrow> int \<Rightarrow> login_outcome \<Rightarrow> bool" where
  "lost_since ip t (Began c) = False"
| "lost_since ip t (Ended s c res) = (lc_ip c = ip \<and> t \<le> s \<and> rejected res)"
| "lost_since ip t (Direct r res) = False"
| "lost_since ip t Quiet = False"

primrec step_time :: "login_event \<Rightarrow> int" where
  "step_time (Arrive http_method r) = lq_now r"
| "step_time (Verdict i t users) = t"
| "step_time (Sweep t) = t"

lemma finish_cases:
  assumes "login_finish users bcrypt sha salt cfg now ip u p m = (res, m')"
  obtains (lost) "rejected res" "\<not> succeeded res" "m' = record_fail cfg now ip (fingerprint sha salt u p) m"
  | (won) "succeeded res" "\<not> rejected res" "m' = record_success ip m"
proof (cases "check_credentials users bcrypt u p")
  case (Inl e)
  then obtain msg where "e = HttpError 401 msg" using check_credentials_Inl by blast
  with assms Inl show thesis by (intro that(1)) (auto simp: login_finish_def login_error_def rejected_def succeeded_def)
next
  case (Inr x)
  with assms show thesis by (intro that(2)) (auto simp: login_finish_def rejected_def succeeded_def)
qed

lemma step_cases:
  assumes "login_step bcrypt sha salt cfg e w = (out, w')"
  obtains (refused) meth r res where "e = Arrive meth r" "out = Direct r res" "w' = w"
  | (began) meth r c where "e = Arrive meth r" "out = Began c" "lc_ip c = lq_ip r" "allow cfg (lq_now r) (lq_ip r) (lw_counters w)"
      "decode_login (lq_body r) = Some (lc_username c, lc_password c)" "w' = w\<lparr>lw_pending := lw_pending w @ [c]\<rparr>"
  | (ended) i now users c res m where "e = Verdict i now users" "out = Ended now c res" "c \<in> set (lw_pending w)"
      "login_finish users bcrypt sha salt cfg now (lc_ip c) (lc_username c) (lc_password c) (lw_counters w) = (res, m)"
      "lw_counters w' = m" "mset (lw_pending w) = add_mset c (mset (lw_pending w'))"
  | (idle) i now users where "e = Verdict i now users" "out = Quiet" "w' = w"
  | (swept) now where "e = Sweep now" "out = Quiet" "w' = w\<lparr>lw_counters := janitor_tick cfg now (lw_counters w)\<rparr>"
proof (cases e)
  case (Arrive meth r)
  show thesis
  proof (cases "login_admit cfg meth r (lw_counters w)")
    case (Answered res)
    with assms Arrive show thesis by (intro refused [of meth r res]) (simp_all add: login_step_def)
  next
    case (Checking u p)
    then have "allow cfg (lq_now r) (lq_ip r) (lw_counters w)" "decode_login (lq_body r) = Some (u, p)"
      by (auto simp: login_admit_def split: if_splits option.splits)
    with assms Arrive Checking show thesis
      by (intro began [of meth r "\<lparr>lc_ip = lq_ip r, lc_username = u, lc_password = p\<rparr>"]) (simp_all add: login_step_def Let_def)
  qed
next
  case (Verdict i now users)
  show thesis
  proof (cases "i < length (lw_pending w)")
    case True
    define c where "c = lw_pending w ! i"
    obtain res m where fin: "login_finish users bcrypt sha salt cfg now (lc_ip c) (lc_username c) (lc_password c) (lw_counters w) = (res, m)"
      by (cases "login_finish users bcrypt sha salt cfg now (lc_ip c) (lc_username c) (lc_password c) (lw_counters w)")
    have split: "lw_pending w = take i (lw_pending w) @ c # drop (Suc i) (lw_pending w)"
      using True by (simp add: c_def id_take_nth_drop)
    have out: "out = Ended now c res" and w': "w' = \<lparr>lw_counters = m, lw_pending = take i (lw_pending w) @ drop (Suc i) (lw_pending w)\<rparr>"
      using assms Verdict True fin by (simp_all add: login_step_def Let_def c_def [symmetric])
    have "mset (lw_pending w) = add_mset c (mset (lw_pending w'))" using arg_cong [OF split, of mset] by (simp add: w')
    moreover have "c \<in> set (lw_pending w)" using True by (simp add: c_def)
    ultimately show thesis using ended [OF Verdict out _ fin] by (simp add: w')
  next
    case False
    with assms Verdict show thesis by (intro idle) (simp_all add: login_step_def)
  qed
next
  case (Sweep now)
  with assms show thesis by (intro swept) (auto simp: login_step_def)
qed

lemma pending_of_ended:
  "mset (lw_pending w) = add_mset c (mset (lw_pending w')) \<Longrightarrow>
   mset (pending_of ip w) = (if lc_ip c = ip then add_mset c (mset (pending_of ip w')) else mset (pending_of ip w'))"
  by (simp add: pending_of_def mset_filter)

section \<open>Guesses\<close>

text \<open>Within one window (its times are \<open>T\<close>) the counter of a client that never succeeds tells the checks \<open>past\<close> of
  it that have ended.\<close>

definition tally :: "throttle_config \<Rightarrow> (login_check \<Rightarrow> str) \<Rightarrow> int set \<Rightarrow> login_check list \<Rightarrow> counter option \<Rightarrow> bool" where
  "tally cfg fp T past k \<longleftrightarrow>
     (case k of
        None \<Rightarrow> past = []
      | Some c \<Rightarrow> ct_attempts c = int (length past) \<and> distinct (ct_distinct c) \<and> ct_first c \<in> T \<and>
          (int (length (ct_distinct c)) < tc_max_fails cfg \<longrightarrow> set (ct_distinct c) = fp ` set past))"

definition one_window :: "throttle_config \<Rightarrow> int set \<Rightarrow> bool" where
  "one_window cfg T \<longleftrightarrow> (\<forall>t \<in> T. \<forall>t' \<in> T. t - t' \<le> tc_window cfg)"

lemma one_window_fresh: "one_window cfg T \<Longrightarrow> now \<in> T \<Longrightarrow> ct_first c \<in> T \<Longrightarrow> \<not> expired cfg now c"
  by (force simp: one_window_def expired_def)

lemma tally_allow:
  assumes "tally cfg fp T past (map_of m ip)" "one_window cfg T" "now \<in> T" "ip \<noteq> []" "allow cfg now ip m"
  shows "past = [] \<or> (int (length past) < tc_max_attempts cfg \<and> int (card (fp ` set past)) < tc_max_fails cfg)"
proof (cases "map_of m ip")
  case (Some c)
  with assms(1) have c: "ct_attempts c = int (length past)" "distinct (ct_distinct c)" "ct_first c \<in> T"
    "int (length (ct_distinct c)) < tc_max_fails cfg \<longrightarrow> set (ct_distinct c) = fp ` set past" by (simp_all add: tally_def)
  have "int (length (ct_distinct c)) < tc_max_fails cfg" "ct_attempts c < tc_max_attempts cfg"
    using assms(4,5) Some one_window_fresh [OF assms(2,3) c(3)] by (simp_all add: allow_def)
  with c distinct_card [OF c(2)] show ?thesis by simp
qed (use assms(1) in \<open>simp add: tally_def\<close>)

lemma tally_fail:
  assumes "tally cfg fp T past (map_of m ip)" "one_window cfg T" "now \<in> T" "ip \<noteq> []" "fp c \<noteq> []" "0 < tc_max_fails cfg"
  shows "tally cfg fp T (past @ [c]) (map_of (record_fail cfg now ip (fp c) m) ip)"
proof (cases "map_of m ip")
  case None
  with assms show ?thesis by (simp add: tally_def current_counter_def add_distinct_def Let_def)
next
  case (Some k)
  with assms(1) have k: "ct_attempts k = int (length past)" "distinct (ct_distinct k)" "ct_first k \<in> T"
    "int (length (ct_distinct k)) < tc_max_fails cfg \<longrightarrow> set (ct_distinct k) = fp ` set past" by (simp_all add: tally_def)
  have "map_of (record_fail cfg now ip (fp c) m) ip = Some (add_distinct cfg (fp c) (k\<lparr>ct_attempts := ct_attempts k + 1\<rparr>))"
    using assms(4) Some one_window_fresh [OF assms(2,3) k(3)] by (simp add: current_counter_def)
  then show ?thesis using k assms(5) by (auto simp: tally_def add_distinct_def)
qed

lemma tally_sweep:
  assumes "tally cfg fp T past (map_of m ip)" "one_window cfg T" "now \<in> T" "0 \<le> tc_window cfg" "tc_window cfg < 2 ^ 62"
  shows "tally cfg fp T past (map_of (janitor_tick cfg now m) ip)"
proof -
  have w: "wrap64 (- (2 * tc_window cfg)) = - (2 * tc_window cfg)"
    using assms(4,5) by (intro wrap64_id) (simp add: int64_range_def)
  have none: "map_of m ip = None \<Longrightarrow> map_of (filter p m) ip = None" for p by (induction m) (auto split: if_splits)
  have some: "map_of m ip = Some c \<Longrightarrow> p (ip, c) \<Longrightarrow> map_of (filter p m) ip = Some c" for p c
    by (induction m) (auto split: if_splits)
  show ?thesis
  proof (cases "map_of m ip")
    case None
    with assms(1) none show ?thesis by (simp add: janitor_tick_def)
  next
    case (Some c)
    then have "now - ct_first c \<le> tc_window cfg" using assms(1-3) by (auto simp: tally_def one_window_def)
    then have "\<not> ct_first c < now - 2 * tc_window cfg" using assms(4) by simp
    with some [OF Some, of "\<lambda>kc. \<not> ct_first (snd kc) < now - 2 * tc_window cfg"] assms(1) Some show ?thesis
      by (simp add: janitor_tick_def w)
  qed
qed

text \<open>What a client may have begun when never more than \<open>p\<close> of its checks run at once.\<close>

definition guess_bound :: "throttle_config \<Rightarrow> (login_check \<Rightarrow> str) \<Rightarrow> nat \<Rightarrow> login_check list \<Rightarrow> bool" where
  "guess_bound cfg fp p cs \<longleftrightarrow>
     int (length cs) < tc_max_attempts cfg + int p \<and> int (card (fp ` set cs)) < tc_max_fails cfg + int p"

lemma guess_bound_began:
  assumes "past = [] \<or> (int (length past) < tc_max_attempts cfg \<and> int (card (fp ` set past)) < tc_max_fails cfg)"
    "mset cs = mset past + mset pend" "length pend \<le> p" "0 < tc_max_attempts cfg" "0 < tc_max_fails cfg"
  shows "guess_bound cfg fp p cs"
proof -
  have "length cs = length past + length pend" using arg_cong [OF assms(2), of size] by simp
  moreover have "set cs = set past \<union> set pend" using arg_cong [OF assms(2), of set_mset] by simp
  then have "card (fp ` set cs) \<le> card (fp ` set past) + card (fp ` set pend)" by (simp add: image_Un card_Un_le)
  moreover have "card (fp ` set pend) \<le> length pend" using card_image_le [of "set pend" fp] card_length [of pend] by simp
  ultimately show ?thesis using assms(1,3-5) by (auto simp: guess_bound_def)
qed

lemma pending_of_began [simp]:
  "pending_of ip (w\<lparr>lw_pending := lw_pending w @ [c]\<rparr>) = pending_of ip w @ (if lc_ip c = ip then [c] else [])"
  "pending_of ip (w\<lparr>lw_counters := m\<rparr>) = pending_of ip w"
  by (simp_all add: pending_of_def)

text \<open>One step of a window: the failures counted, and the checks begun against those ended and pending.\<close>

lemma guess_step:
  fixes salt
  assumes ip: "ip \<noteq> []" and sha: "\<And>x. sha x \<noteq> []" and win: "one_window cfg T" "0 \<le> tc_window cfg" "tc_window cfg < 2 ^ 62"
    and pos: "0 < tc_max_attempts cfg" "0 < tc_max_fails cfg"
  defines "fp \<equiv> check_fingerprint sha salt"
  assumes step: "login_step bcrypt sha salt cfg e w = (out, w')" and now: "step_time e \<in> T"
    and inv: "tally cfg fp T past (map_of (lw_counters w) ip)" "mset cs = mset past + mset (pending_of ip w)" "guess_bound cfg fp p cs"
    and lost: "\<not> won ip out" and par: "length (pending_of ip w') \<le> p"
  shows "\<exists>past'. tally cfg fp T past' (map_of (lw_counters w') ip) \<and>
    mset (cs @ begun_check ip out) = mset past' + mset (pending_of ip w') \<and> guess_bound cfg fp p (cs @ begun_check ip out)"
  using step
proof (cases rule: step_cases)
  case (refused meth r res)
  with inv show ?thesis by (intro exI [of _ past]) simp
next
  case (began meth r c)
  show ?thesis
  proof (cases "lc_ip c = ip")
    case True
    have "past = [] \<or> (int (length past) < tc_max_attempts cfg \<and> int (card (fp ` set past)) < tc_max_fails cfg)"
      using tally_allow [OF inv(1) win(1) _ ip, of "lq_now r"] began now True by simp
    moreover have m: "mset (cs @ [c]) = mset past + mset (pending_of ip w')" using inv(2) began True by simp
    ultimately have "guess_bound cfg fp p (cs @ [c])" using par pos by (intro guess_bound_began)
    with inv(1) m began True show ?thesis by (intro exI [of _ past]) simp
  qed (use inv began in \<open>intro exI [of _ past], simp\<close>)
next
  case (ended i t users c res m)
  note p = pending_of_ended [OF ended(6), of ip]
  show ?thesis
  proof (cases "lc_ip c = ip")
    case True
    from ended(4) have "m = record_fail cfg t (lc_ip c) (fp c) (lw_counters w)"
      by (rule finish_cases) (use lost ended(2) True in \<open>simp_all add: fp_def check_fingerprint_def\<close>)
    moreover have "fp c \<noteq> []" by (simp add: fp_def check_fingerprint_def fingerprint_def sha)
    ultimately have "tally cfg fp T (past @ [c]) (map_of (lw_counters w') ip)"
      using tally_fail [OF inv(1) win(1) _ ip _ pos(2), of t c] now ended(1,5) True by simp
    with inv(2,3) p ended(2) True show ?thesis by (intro exI [of _ "past @ [c]"]) simp
  next
    case False
    from ended(4) have "map_of m ip = map_of (lw_counters w) ip" by (rule finish_cases) (use False in simp_all)
    with inv p ended(2,5) False show ?thesis by (intro exI [of _ past]) simp
  qed
next
  case (idle i t users)
  with inv show ?thesis by (intro exI [of _ past]) simp
next
  case (swept t)
  with tally_sweep [OF inv(1) win(1) _ win(2,3), of t] inv(2,3) now show ?thesis by (intro exI [of _ past]) simp
qed

lemma guess_run:
  fixes salt bcrypt
  assumes ip: "ip \<noteq> []" and sha: "\<And>x. sha x \<noteq> []" and win: "one_window cfg T" "0 \<le> tc_window cfg" "tc_window cfg < 2 ^ 62"
    and pos: "0 < tc_max_attempts cfg" "0 < tc_max_fails cfg"
  defines "fp \<equiv> check_fingerprint sha salt"
  shows "tally cfg fp T past (map_of (lw_counters w) ip) \<Longrightarrow> mset cs = mset past + mset (pending_of ip w) \<Longrightarrow>
    guess_bound cfg fp p cs \<Longrightarrow> \<forall>e \<in> set es. step_time e \<in> T \<Longrightarrow>
    \<forall>(out, w') \<in> set (login_trace bcrypt sha salt cfg es w). \<not> won ip out \<and> length (pending_of ip w') \<le> p \<Longrightarrow>
    guess_bound cfg fp p (cs @ begun ip (map fst (login_trace bcrypt sha salt cfg es w)))"
proof (induction es arbitrary: w past cs)
  case Nil
  then show ?case by (simp add: begun_def)
next
  case (Cons e es)
  obtain out w' where step: "login_step bcrypt sha salt cfg e w = (out, w')" by fastforce
  have now: "step_time e \<in> T" "\<forall>e \<in> set es. step_time e \<in> T" using Cons.prems(4) by simp_all
  have ok: "\<not> won ip out" "length (pending_of ip w') \<le> p"
    "\<forall>(out, w') \<in> set (login_trace bcrypt sha salt cfg es w'). \<not> won ip out \<and> length (pending_of ip w') \<le> p"
    using Cons.prems(5) by (simp_all add: step)
  from guess_step [OF ip sha win pos step now(1) Cons.prems(1-3) [unfolded fp_def] ok(1,2), folded fp_def]
  obtain past' where "tally cfg fp T past' (map_of (lw_counters w') ip)"
    "mset (cs @ begun_check ip out) = mset past' + mset (pending_of ip w')" "guess_bound cfg fp p (cs @ begun_check ip out)" by blast
  from Cons.IH [OF this now(2) ok(3)] show ?case by (simp add: step begun_def)
qed

section \<open>A client that repeats one credential\<close>

definition login_after ::
  "(str \<Rightarrow> str \<Rightarrow> bool) \<Rightarrow> (str \<Rightarrow> str) \<Rightarrow> str \<Rightarrow> throttle_config \<Rightarrow> login_event list \<Rightarrow> login_world \<Rightarrow> login_world" where
  "login_after bcrypt sha salt cfg es w = fold (\<lambda>e w. snd (login_step bcrypt sha salt cfg e w)) es w"

lemma login_trace_append:
  "login_trace bcrypt sha salt cfg (es @ fs) w =
   login_trace bcrypt sha salt cfg es w @ login_trace bcrypt sha salt cfg fs (login_after bcrypt sha salt cfg es w)"
  by (induction es arbitrary: w) (simp_all add: login_after_def)

lemma login_after_append [simp]:
  "login_after bcrypt sha salt cfg (es @ [e]) w = snd (login_step bcrypt sha salt cfg e (login_after bcrypt sha salt cfg es w))"
  by (simp add: login_after_def)

text \<open>The failures counted are among those that ended since the counter began, and all of one credential \<open>f\<close>.\<close>

definition lone_tally :: "throttle_config \<Rightarrow> str \<Rightarrow> str \<Rightarrow> login_outcome list \<Rightarrow> int \<Rightarrow> counter option \<Rightarrow> bool" where
  "lone_tally cfg ip f outs now k \<longleftrightarrow>
     (case k of
        None \<Rightarrow> True
      | Some c \<Rightarrow> set (ct_distinct c) \<subseteq> {f} \<and> distinct (ct_distinct c) \<and> ct_first c \<le> now \<and>
          ct_attempts c \<le> int (length (filter (lost_since ip (ct_first c)) outs)))"

lemma lost_since_mono: "t \<le> t' \<Longrightarrow> length (filter (lost_since ip t') outs) \<le> length (filter (lost_since ip t) outs)"
proof (induction outs)
  case (Cons x outs)
  have "lost_since ip t' x \<Longrightarrow> t \<le> t' \<Longrightarrow> lost_since ip t x" by (cases x) auto
  with Cons show ?case by auto
qed simp

lemma lone_tally_mono:
  "lone_tally cfg ip f outs t k \<Longrightarrow> t \<le> t' \<Longrightarrow> lone_tally cfg ip f (outs @ new) t' k"
  by (auto simp: lone_tally_def split: option.splits)

lemma lone_tally_fail:
  assumes k: "lone_tally cfg ip f outs t (map_of m ip)" "t \<le> now" and ip: "ip \<noteq> []" and f: "f \<noteq> []"
    and out: "lost_since ip now out" "\<And>s. s \<le> now \<Longrightarrow> lost_since ip s out"
  shows "lone_tally cfg ip f (outs @ [out]) now (map_of (record_fail cfg now ip f m) ip)"
proof -
  define c where "c = current_counter cfg now (map_of m ip)"
  have c: "set (ct_distinct c) \<subseteq> {f}" "distinct (ct_distinct c)" "ct_first c \<le> now"
    "ct_attempts c \<le> int (length (filter (lost_since ip (ct_first c)) outs))"
    using k by (auto simp: c_def current_counter_def lone_tally_def split: option.splits)
  have "ct_first (add_distinct cfg f (c\<lparr>ct_attempts := ct_attempts c + 1\<rparr>)) = ct_first c"
    "ct_attempts (add_distinct cfg f (c\<lparr>ct_attempts := ct_attempts c + 1\<rparr>)) = ct_attempts c + 1"
    "set (ct_distinct (add_distinct cfg f (c\<lparr>ct_attempts := ct_attempts c + 1\<rparr>))) \<subseteq> {f}"
    "distinct (ct_distinct (add_distinct cfg f (c\<lparr>ct_attempts := ct_attempts c + 1\<rparr>)))"
    using c(1,2) f by (auto simp: add_distinct_def)
  with c(3,4) out(2) [OF c(3)] ip show ?thesis
    by (simp add: lone_tally_def Let_def c_def [symmetric])
qed

lemma lone_tally_allow:
  assumes "lone_tally cfg ip f outs t (map_of m ip)" "1 < tc_max_fails cfg"
    "int (length (filter (lost_since ip (now - tc_window cfg)) outs)) < tc_max_attempts cfg"
  shows "allow cfg now ip m"
proof (cases "map_of m ip")
  case (Some c)
  with assms(1) have c: "set (ct_distinct c) \<subseteq> {f}" "distinct (ct_distinct c)"
    "ct_attempts c \<le> int (length (filter (lost_since ip (ct_first c)) outs))" by (simp_all add: lone_tally_def)
  have "length (ct_distinct c) \<le> 1" using card_mono [OF _ c(1)] distinct_card [OF c(2)] by simp
  moreover have "ct_attempts c < tc_max_attempts cfg" if "\<not> expired cfg now c"
    using c(3) assms(3) lost_since_mono [of "now - tc_window cfg" "ct_first c" ip outs] that by (simp add: expired_def)
  ultimately show ?thesis using Some assms(2) by (auto simp: allow_def)
qed (simp add: allow_def)

lemma lone_sweep:
  assumes "lone_tally cfg ip f outs t (map_of m ip)" "distinct (map fst m)" "t \<le> now"
  shows "lone_tally cfg ip f (outs @ new) now (map_of (janitor_tick cfg t' m) ip)"
proof -
  have "map_of (janitor_tick cfg t' m) ip = None \<or> map_of (janitor_tick cfg t' m) ip = map_of m ip"
    using map_of_filter_distinct [OF assms(2), of "\<lambda>c. \<not> ct_first c < t' + wrap64 (- 2 * tc_window cfg)" ip]
    by (auto simp: janitor_tick_def split: option.splits)
  then show ?thesis using lone_tally_mono [OF assms(1,3)] by (auto simp: lone_tally_def)
qed

lemma distinct_counters:
  assumes "login_step bcrypt sha salt cfg e w = (out, w')" "distinct (map fst (lw_counters w))"
  shows "distinct (map fst (lw_counters w'))"
  using assms(1)
proof (cases rule: step_cases)
  case (ended i now users c res m)
  from ended(4) have "distinct (map fst m)"
    by (rule finish_cases)
      (use assms(2) in \<open>simp_all add: record_fail_def record_success_def Let_def distinct_update distinct_delete\<close>)
  with ended(5) show ?thesis by simp
qed (use assms(2) in \<open>simp_all add: janitor_tick_def distinct_map_filter\<close>)

definition lone_world ::
  "(str \<Rightarrow> str) \<Rightarrow> str \<Rightarrow> throttle_config \<Rightarrow> str \<Rightarrow> str \<times> str \<Rightarrow> login_outcome list \<Rightarrow> int \<Rightarrow> login_world \<Rightarrow> bool" where
  "lone_world sha salt cfg ip cred outs now w \<longleftrightarrow>
     distinct (map fst (lw_counters w)) \<and>
     lone_tally cfg ip (fingerprint sha salt (fst cred) (snd cred)) outs now (map_of (lw_counters w) ip) \<and>
     (\<forall>c \<in> set (pending_of ip w). (lc_username c, lc_password c) = cred)"

lemma lone_step:
  assumes ip: "ip \<noteq> []" and sha: "\<And>x. sha x \<noteq> []" and step: "login_step bcrypt sha salt cfg e w = (out, w')"
    and inv: "lone_world sha salt cfg ip cred outs t w" and now: "t \<le> step_time e"
    and one: "\<And>meth r. e = Arrive meth r \<Longrightarrow> lq_ip r = ip \<Longrightarrow> decode_login (lq_body r) = Some cred"
  shows "lone_world sha salt cfg ip cred (outs @ [out]) (step_time e) w'"
proof -
  define f where "f = fingerprint sha salt (fst cred) (snd cred)"
  have inv': "distinct (map fst (lw_counters w))" "lone_tally cfg ip f outs t (map_of (lw_counters w) ip)"
    "\<forall>c \<in> set (pending_of ip w). (lc_username c, lc_password c) = cred" using inv by (simp_all add: lone_world_def f_def)
  note later = lone_tally_mono [OF inv'(2) now, of "[out]"]
  have "distinct (map fst (lw_counters w'))" using distinct_counters [OF step inv'(1)] .
  moreover have "\<forall>c \<in> set (pending_of ip w'). (lc_username c, lc_password c) = cred"
    using step
  proof (cases rule: step_cases)
    case (began meth r c)
    with inv'(3) one [of meth r] show ?thesis by auto
  next
    case (ended i t users c res m)
    have "set (pending_of ip w') \<subseteq> set (pending_of ip w)"
      using arg_cong [OF pending_of_ended [OF ended(6), of ip], of set_mset] by (auto split: if_splits)
    with inv'(3) show ?thesis by blast
  qed (use inv'(3) in simp_all)
  moreover have "lone_tally cfg ip f (outs @ [out]) (step_time e) (map_of (lw_counters w') ip)"
    using step
  proof (cases rule: step_cases)
    case (ended i s users c res m)
    show ?thesis
    proof (cases "lc_ip c = ip")
      case False
      from ended(4) have "map_of m ip = map_of (lw_counters w) ip" by (rule finish_cases) (use False in simp_all)
      with later ended(5) show ?thesis by simp
    next
      case True
      then have "(lc_username c, lc_password c) = cred" using inv'(3) ended(3) by (simp add: pending_of_def)
      then have f: "fingerprint sha salt (lc_username c) (lc_password c) = f" by (auto simp: f_def)
      have ne: "f \<noteq> []" by (simp add: f_def fingerprint_def sha)
      from ended(4) show ?thesis
      proof (rule finish_cases)
        assume "rejected res" and m: "m = record_fail cfg s (lc_ip c) (fingerprint sha salt (lc_username c) (lc_password c)) (lw_counters w)"
        then have out: "lost_since ip x out" if "x \<le> s" for x using that ended(2) True by simp
        show ?thesis using lone_tally_fail [OF inv'(2) _ ip ne out out, of s] now m f ended(1,5) True by simp
      next
        assume "m = record_success (lc_ip c) (lw_counters w)"
        then show ?thesis using True ip ended(5) by (simp add: record_success_def delete_conv lone_tally_def)
      qed
    qed
  next
    case (swept s)
    with lone_sweep [OF inv'(2,1) now, of "[out]" s] show ?thesis by simp
  qed (use later in simp_all)
  ultimately show ?thesis by (simp add: lone_world_def f_def)
qed

lemma lone_run:
  fixes salt bcrypt
  assumes ip: "ip \<noteq> []" and sha: "\<And>x. sha x \<noteq> []"
  shows "lone_world sha salt cfg ip cred outs t w \<Longrightarrow> sorted (t # map step_time es) \<Longrightarrow>
    \<forall>meth r. Arrive meth r \<in> set es \<longrightarrow> lq_ip r = ip \<longrightarrow> decode_login (lq_body r) = Some cred \<Longrightarrow>
    \<exists>t' \<le> last (t # map step_time es). lone_world sha salt cfg ip cred (outs @ map fst (login_trace bcrypt sha salt cfg es w)) t'
      (login_after bcrypt sha salt cfg es w)"
proof (induction es arbitrary: outs t w)
  case Nil
  then show ?case by (auto simp: login_after_def)
next
  case (Cons e es)
  obtain out w' where step: "login_step bcrypt sha salt cfg e w = (out, w')" by fastforce
  have t: "t \<le> step_time e" "sorted (step_time e # map step_time es)" using Cons.prems(2) by simp_all
  have one: "\<And>meth r. e = Arrive meth r \<Longrightarrow> lq_ip r = ip \<Longrightarrow> decode_login (lq_body r) = Some cred"
    "\<forall>meth r. Arrive meth r \<in> set es \<longrightarrow> lq_ip r = ip \<longrightarrow> decode_login (lq_body r) = Some cred" using Cons.prems(3) by auto
  from Cons.IH [OF lone_step [OF ip sha step Cons.prems(1) t(1) one(1)] t(2) one(2)]
  show ?case by (simp add: step login_after_def)
qed

section \<open>The janitor\<close>

definition live :: "throttle_config \<Rightarrow> int \<Rightarrow> counters \<Rightarrow> str \<Rightarrow> counter option" where
  "live cfg now m ip = (case map_of m ip of Some c \<Rightarrow> if expired cfg now c then None else Some c | None \<Rightarrow> None)"

text \<open>Two tables no later request can tell apart.\<close>

definition alike :: "throttle_config \<Rightarrow> int \<Rightarrow> counters \<Rightarrow> counters \<Rightarrow> bool" where
  "alike cfg t m m' \<longleftrightarrow> (\<forall>now \<ge> t. \<forall>ip. live cfg now m ip = live cfg now m' ip)"

lemma allow_live:
  "allow cfg now ip m \<longleftrightarrow> ip = [] \<or>
     (case live cfg now m ip of
        None \<Rightarrow> True
      | Some c \<Rightarrow> int (length (ct_distinct c)) < tc_max_fails cfg \<and> ct_attempts c < tc_max_attempts cfg)"
  by (auto simp: allow_def live_def split: option.splits)

lemma current_live:
  "current_counter cfg now (map_of m ip) =
     (case live cfg now m ip of None \<Rightarrow> \<lparr>ct_distinct = [], ct_attempts = 0, ct_first = now\<rparr> | Some c \<Rightarrow> c)"
  by (auto simp: current_counter_def live_def split: option.splits)

lemma alike_fail:
  assumes "alike cfg t m m'" "t \<le> now"
  shows "alike cfg now (record_fail cfg now ip f m) (record_fail cfg now ip f m')"
proof (cases "ip = []")
  case True
  with assms show ?thesis by (simp add: record_fail_def alike_def)
next
  case False
  have "live cfg now m ip = live cfg now m' ip" using assms by (simp add: alike_def)
  then have "map_of (record_fail cfg now ip f m) ip = map_of (record_fail cfg now ip f m') ip"
    using False by (simp add: current_live)
  moreover have "live cfg n m k = live cfg n m' k" if "now \<le> n" for n k
    using assms that by (simp add: alike_def)
  ultimately have "live cfg n (record_fail cfg now ip f m) k = live cfg n (record_fail cfg now ip f m') k"
    if "now \<le> n" for n k
    using that by (cases "k = ip") (simp_all add: live_def)
  then show ?thesis by (simp add: alike_def)
qed

lemma alike_success:
  assumes "alike cfg t m m'" "t \<le> now"
  shows "alike cfg now (record_success ip m) (record_success ip m')"
proof -
  have "live cfg n m k = live cfg n m' k" if "now \<le> n" for n k
    using assms that by (simp add: alike_def)
  then show ?thesis
    by (auto simp: alike_def record_success_def live_def delete_conv split: if_splits)
qed

lemma alike_janitor:
  assumes "0 \<le> tc_window cfg" "tc_window cfg < 2 ^ 62" "distinct (map fst m)"
  shows "alike cfg now m (janitor_tick cfg now m)"
proof -
  have w: "wrap64 (- (2 * tc_window cfg)) = - (2 * tc_window cfg)"
    using assms(1,2) by (intro wrap64_id) (simp add: int64_range_def)
  have "map_of (janitor_tick cfg now m) ip =
      (case map_of m ip of None \<Rightarrow> None | Some c \<Rightarrow> if \<not> ct_first c < now - 2 * tc_window cfg then Some c else None)" for ip
    using map_of_filter_distinct [OF assms(3), of "\<lambda>c. \<not> ct_first c < now - 2 * tc_window cfg" ip]
    by (simp add: janitor_tick_def w)
  then show ?thesis
    using assms(1) by (auto simp: alike_def live_def expired_def split: option.splits)
qed

lemma alike_trans: "alike cfg t m m' \<Longrightarrow> alike cfg t m' m'' \<Longrightarrow> alike cfg t m m''"
  by (simp add: alike_def)

lemma alike_later: "alike cfg t m m' \<Longrightarrow> t \<le> t' \<Longrightarrow> alike cfg t' m m'"
  by (simp add: alike_def)

lemma handle_login_alike:
  assumes "alike cfg t m m'" "t \<le> lq_now r"
  shows "fst (handle_login users bcrypt sha salt cfg meth r m) = fst (handle_login users bcrypt sha salt cfg meth r m') \<and>
    alike cfg (lq_now r) (snd (handle_login users bcrypt sha salt cfg meth r m))
      (snd (handle_login users bcrypt sha salt cfg meth r m'))"
proof -
  have "live cfg (lq_now r) m ip = live cfg (lq_now r) m' ip" for ip
    using assms by (simp add: alike_def)
  then have "allow cfg (lq_now r) (lq_ip r) m = allow cfg (lq_now r) (lq_ip r) m'"
    by (simp add: allow_live)
  then show ?thesis
    using alike_later [OF assms] alike_fail [OF assms] alike_success [OF assms]
    by (simp add: handle_login_def login_admit_def login_finish_def split: option.split sum.split)
qed

lemma distinct_handle_login:
  "distinct (map fst m) \<Longrightarrow> distinct (map fst (snd (handle_login users bcrypt sha salt cfg meth r m)))"
  by (auto simp: handle_login_def login_admit_def login_finish_def record_fail_def record_success_def Let_def distinct_update distinct_delete
      split: option.split sum.split)

text \<open>The server's run: requests and janitor ticks in the order of their times.\<close>

datatype throttle_event = Login login_request | Tick int

primrec event_time :: "throttle_event \<Rightarrow> int" where
  "event_time (Login r) = lq_now r"
| "event_time (Tick t) = t"

primrec event_run ::
  "(login_request \<Rightarrow> counters \<Rightarrow> login_result \<times> counters) \<Rightarrow> throttle_config \<Rightarrow> counters \<Rightarrow> throttle_event list \<Rightarrow>
   (login_request \<times> login_result) list" where
  "event_run handler cfg m [] = []"
| "event_run handler cfg m (e # es) =
     (case e of
        Login r \<Rightarrow> (let (res, m') = handler r m in (r, res) # event_run handler cfg m' es)
      | Tick t \<Rightarrow> event_run handler cfg (janitor_tick cfg t m) es)"

primrec logins :: "throttle_event list \<Rightarrow> login_request list" where
  "logins [] = []"
| "logins (e # es) = (case e of Login r \<Rightarrow> r # logins es | Tick _ \<Rightarrow> logins es)"

lemma event_run_alike:
  fixes users bcrypt sha salt meth
  assumes w: "0 \<le> tc_window cfg" "tc_window cfg < 2 ^ 62"
  defines "h \<equiv> handle_login users bcrypt sha salt cfg meth"
  shows "distinct (map fst m) \<Longrightarrow> alike cfg t m0 m \<Longrightarrow> sorted (t # map event_time es) \<Longrightarrow>
    event_run h cfg m es = login_run h m0 (logins es)"
proof (induction es arbitrary: t m0 m)
  case Nil
  then show ?case by simp
next
  case (Cons e es)
  show ?case
  proof (cases e)
    case (Login r)
    have t: "t \<le> lq_now r" "sorted (lq_now r # map event_time es)" using Cons.prems(3) Login by simp_all
    note step = handle_login_alike [OF Cons.prems(2) t(1), of users bcrypt sha salt meth, folded h_def]
    have "event_run h cfg (snd (h r m)) es = login_run h (snd (h r m0)) (logins es)"
      using Cons.IH [OF _ conjunct2 [OF step] t(2)] distinct_handle_login [OF Cons.prems(1)] by (simp add: h_def)
    then show ?thesis using Login conjunct1 [OF step] by (simp add: case_prod_beta)
  next
    case (Tick k)
    have t: "t \<le> k" "sorted (k # map event_time es)" using Cons.prems(3) Tick by simp_all
    have "distinct (map fst (janitor_tick cfg k m))"
      using Cons.prems(1) by (simp add: janitor_tick_def distinct_map_filter)
    from Cons.IH [OF this alike_trans [OF alike_later [OF Cons.prems(2) t(1)] alike_janitor [OF w Cons.prems(1)]] t(2)]
    show ?thesis using Tick by simp
  qed
qed

end
