(* ===== verification/ThrottleProps.thy ===== *)
theory ThrottleProps
  imports ThrottleLaws
begin

text \<open>The properties of the login throttle while its requests run in parallel, and of the client address.\<close>

definition demo_login :: "int \<Rightarrow> str \<Rightarrow> str \<Rightarrow> login_request" where
  "demo_login t ip pw = \<lparr>lq_now = t, lq_ip = ip, lq_body = Some (JObj [(''username'', JStr ''a''), (''password'', JStr pw)])\<rparr>"

definition demo_sha :: "str \<Rightarrow> str" where
  "demo_sha s = CHR ''0'' # s"

definition empty_login :: login_world where "empty_login = \<lparr>lw_counters = [], lw_pending = []\<rparr>"

text \<open>C9: Guessing by one client, in any interleaving of its requests with each other, with other clients and with the
  janitor. Let it have no counter and no pending check at first, let all events fall within one window (of less than
  2^62 nanoseconds) and let none of its logins succeed. If never more than \<open>p\<close> of its checks run at the same time, then fewer
  than MAX_ATTEMPTS + p checks are begun for it, of fewer than MAX_FAILS + p different credentials, as far as the
  truncated digest tells them apart: MAX_ATTEMPTS and MAX_FAILS for a client that waits for its answers. The excess \<open>p - 1\<close>
  is real, as the check is begun before the failures of the others are recorded.\<close>

theorem brute_force_bounded:
  fixes bcrypt sha salt ip
  assumes "0 < tc_max_fails cfg" "0 < tc_max_attempts cfg" "0 \<le> tc_window cfg" "tc_window cfg < 2 ^ 62" "ip \<noteq> []" "\<And>x. sha x \<noteq> []"
    and "map_of (lw_counters w) ip = None" "pending_of ip w = []" "one_window cfg (step_time ` set es)"
    and "\<forall>(out, w') \<in> set (login_trace bcrypt sha salt cfg es w). \<not> won ip out \<and> length (pending_of ip w') \<le> p"
    and "cs = begun ip (map fst (login_trace bcrypt sha salt cfg es w))"
  shows "int (length cs) < tc_max_attempts cfg + int p \<and> int (card (check_fingerprint sha salt ` set cs)) < tc_max_fails cfg + int p"
proof -
  have "tally cfg (check_fingerprint sha salt) (step_time ` set es) [] (map_of (lw_counters w) ip)"
    using assms(7) by (simp add: tally_def)
  moreover have "guess_bound cfg (check_fingerprint sha salt) p []" using assms(1,2) by (simp add: guess_bound_def)
  ultimately have "guess_bound cfg (check_fingerprint sha salt) p ([] @ cs)"
    unfolding assms(11) using assms(8,10) by (intro guess_run [OF assms(5,6,9,3,4,2,1)]) auto
  then show ?thesis by (simp add: guess_bound_def)
qed

definition demo_limits :: throttle_config where
  "demo_limits = \<lparr>tc_max_fails = 1, tc_window = 10, tc_max_attempts = 3\<rparr>"

definition demo_guesses :: "login_event list" where
  "demo_guesses = [Arrive ''POST'' (demo_login 1 ''i'' ''x''), Arrive ''POST'' (demo_login 1 ''i'' ''y''), Verdict 0 2 (\<lambda>_. None),
     Arrive ''POST'' (demo_login 3 ''i'' ''z''), Verdict 0 3 (\<lambda>_. None)]"

theorem brute_force_bounded_witness:
  "\<exists>cs. cs = begun ''i'' (map fst (login_trace (=) demo_sha ''s'' demo_limits demo_guesses empty_login)) \<and>
     map lc_password cs = [''x'', ''y''] \<and> int (length cs) < 3 + int 2 \<and> int (card (check_fingerprint demo_sha ''s'' ` set cs)) < 1 + int 2"
proof -
  let ?trace = "login_trace (=) demo_sha ''s'' demo_limits demo_guesses empty_login"
  have win: "one_window demo_limits (step_time ` set demo_guesses)"
    by (simp add: one_window_def demo_guesses_def demo_limits_def demo_login_def)
  have pend: "pending_of ''i'' empty_login = []" by (simp add: pending_of_def empty_login_def)
  have all: "list_all (\<lambda>(out, w'). \<not> won ''i'' out \<and> length (pending_of ''i'' w') \<le> 2) ?trace" by code_simp
  from all have ok: "\<forall>(out, w') \<in> set ?trace. \<not> won ''i'' out \<and> length (pending_of ''i'' w') \<le> 2" unfolding list_all_iff .
  have limits: "tc_max_fails demo_limits = 1" "tc_max_attempts demo_limits = 3" "tc_window demo_limits = 10" by (simp_all add: demo_limits_def)
  have "int (length (begun ''i'' (map fst ?trace))) < tc_max_attempts demo_limits + int 2 \<and>
    int (card (check_fingerprint demo_sha ''s'' ` set (begun ''i'' (map fst ?trace)))) < tc_max_fails demo_limits + int 2"
    by (rule brute_force_bounded [OF _ _ _ _ _ _ _ pend win ok refl]) (simp_all add: limits demo_sha_def empty_login_def)
  then have few: "int (length (begun ''i'' (map fst ?trace))) < 3 + int 2 \<and>
    int (card (check_fingerprint demo_sha ''s'' ` set (begun ''i'' (map fst ?trace)))) < 1 + int 2" unfolding limits .
  have "map lc_password (begun ''i'' (map fst ?trace)) = [''x'', ''y'']" by code_simp
  with few show ?thesis by (intro exI [of _ "begun ''i'' (map fst ?trace)"] conjI refl) simp_all
qed

text \<open>Nothing bounds the parallel checks: requests that arrive before the first verdict are all admitted, however many
  different credentials they try.\<close>

lemma parallel_guesses:
  assumes "map_of (lw_counters w) ip = None"
    and "\<forall>r \<in> set rs. lq_ip r = ip \<and> (\<exists>u p. decode_login (lq_body r) = Some (u, p) \<and> u \<noteq> [] \<and> p \<noteq> [])"
  shows "length (begun ip (map fst (login_trace bcrypt sha salt cfg (map (Arrive ''POST'') rs) w))) = length rs"
  using assms
proof (induction rs arbitrary: w)
  case Nil
  then show ?case by (simp add: begun_def)
next
  case (Cons r rs)
  then obtain u p where r: "lq_ip r = ip" "decode_login (lq_body r) = Some (u, p)" "u \<noteq> []" "p \<noteq> []" by auto
  then have "login_step bcrypt sha salt cfg (Arrive ''POST'' r) w =
      (Began \<lparr>lc_ip = ip, lc_username = u, lc_password = p\<rparr>, w\<lparr>lw_pending := lw_pending w @ [\<lparr>lc_ip = ip, lc_username = u, lc_password = p\<rparr>]\<rparr>)"
    using Cons.prems(1) by (simp add: login_step_def login_admit_def allow_def Let_def)
  with Cons show ?case by (simp add: begun_def)
qed

text \<open>C10: A client that retries one credential at a sane rate is always served, over any number of windows, whatever the
  other clients and the janitor do: when MAX_FAILS is at least 2, the clock does not run backwards, the client had no counter and
  no pending check at first, all its requests carry the same (complete) credential, and fewer than MAX_ATTEMPTS of its
  checks have failed in the window before it arrives, then its next request is not refused but checked.\<close>

theorem stuck_client_served:
  fixes bcrypt sha salt ip
  assumes "1 < tc_max_fails cfg" "ip \<noteq> []" "\<And>x. sha x \<noteq> []"
    and "distinct (map fst (lw_counters w))" "map_of (lw_counters w) ip = None" "pending_of ip w = []"
    and "sorted (map step_time (es @ [Arrive ''POST'' r]))" "lq_ip r = ip" "decode_login (lq_body r) = Some cred" "fst cred \<noteq> []" "snd cred \<noteq> []"
    and "\<forall>meth q. Arrive meth q \<in> set es \<longrightarrow> lq_ip q = ip \<longrightarrow> decode_login (lq_body q) = Some cred"
    and "int (length (filter (lost_since ip (lq_now r - tc_window cfg)) (map fst (login_trace bcrypt sha salt cfg es w)))) < tc_max_attempts cfg"
  shows "fst (login_step bcrypt sha salt cfg (Arrive ''POST'' r) (login_after bcrypt sha salt cfg es w)) =
    Began \<lparr>lc_ip = ip, lc_username = fst cred, lc_password = snd cred\<rparr>"
proof -
  define t where "t = hd (map step_time (es @ [Arrive ''POST'' r]))"
  have "lone_world sha salt cfg ip cred [] t w" using assms(4-6) by (simp add: lone_world_def lone_tally_def)
  moreover have "sorted (t # map step_time es)" using assms(7) by (cases es) (auto simp: t_def sorted_append)
  ultimately obtain t' where "lone_world sha salt cfg ip cred ([] @ map fst (login_trace bcrypt sha salt cfg es w)) t'
      (login_after bcrypt sha salt cfg es w)" using lone_run [where sha = sha, OF assms(2,3) _ _ assms(12), where cfg = cfg and outs = "[]" and t = t and w = w and salt = salt and bcrypt = bcrypt] by blast
  then have "lone_tally cfg ip (fingerprint sha salt (fst cred) (snd cred)) (map fst (login_trace bcrypt sha salt cfg es w)) t'
      (map_of (lw_counters (login_after bcrypt sha salt cfg es w)) ip)" by (simp add: lone_world_def)
  from lone_tally_allow [OF this assms(1,13)]
  have "allow cfg (lq_now r) ip (lw_counters (login_after bcrypt sha salt cfg es w))" .
  then show ?thesis using assms(8-11) by (cases cred) (simp add: login_step_def login_admit_def Let_def)
qed

definition stuck_client :: "login_event list" where
  "stuck_client = [Arrive ''POST'' (demo_login 1 ''i'' ''x''), Arrive ''POST'' (demo_login 1 ''j'' ''y''), Verdict 0 2 (\<lambda>_. None),
     Arrive ''POST'' (demo_login 3 ''i'' ''x''), Verdict 1 4 (\<lambda>_. None), Sweep 20]"

theorem stuck_client_served_witness:
  "fst (login_step (=) demo_sha ''s'' (demo_limits\<lparr>tc_max_fails := 2\<rparr>) (Arrive ''POST'' (demo_login 30 ''i'' ''x''))
     (login_after (=) demo_sha ''s'' (demo_limits\<lparr>tc_max_fails := 2\<rparr>) stuck_client empty_login)) =
   Began \<lparr>lc_ip = ''i'', lc_username = ''a'', lc_password = ''x''\<rparr>"
proof -
  have same: "\<forall>meth q. Arrive meth q \<in> set stuck_client \<longrightarrow> lq_ip q = ''i'' \<longrightarrow> decode_login (lq_body q) = Some (''a'', ''x'')"
    by (auto simp: stuck_client_def demo_login_def) code_simp+
  have cred: "decode_login (lq_body (demo_login 30 ''i'' ''x'')) = Some (''a'', ''x'')" by code_simp
  have sorted: "sorted (map step_time (stuck_client @ [Arrive ''POST'' (demo_login 30 ''i'' ''x'')]))" by code_simp
  have few: "int (length (filter (lost_since ''i'' (lq_now (demo_login 30 ''i'' ''x'') - tc_window (demo_limits\<lparr>tc_max_fails := 2\<rparr>)))
      (map fst (login_trace (=) demo_sha ''s'' (demo_limits\<lparr>tc_max_fails := 2\<rparr>) stuck_client empty_login))))
      < tc_max_attempts (demo_limits\<lparr>tc_max_fails := 2\<rparr>)" by code_simp
  show ?thesis
    using stuck_client_served [OF _ _ _ _ _ _ sorted _ cred _ _ same few]
    by (simp add: demo_limits_def demo_sha_def empty_login_def pending_of_def demo_login_def)
qed

text \<open>With MAX_FAILS set to 1 the second try of one credential is refused, for the rest of the window.\<close>

lemma single_failure_refuses:
  assumes "tc_max_fails cfg = 1" "ip \<noteq> []" "\<And>x. sha x \<noteq> []" "map_of m ip = None" "now' - now \<le> tc_window cfg"
    and "check_credentials users bcrypt u p = Inl e"
  shows "\<not> allow cfg now' ip (snd (login_finish users bcrypt sha salt cfg now ip u p m))"
  using assms by (simp add: login_finish_def allow_def current_counter_def add_distinct_def expired_def fingerprint_def Let_def)

text \<open>The janitor cannot be observed: with a window below \<open>2 ^ 62\<close> nanoseconds, a server whose
  janitor ticks at any times between the requests gives every request the answer it gets
  from a server without a janitor.\<close>

theorem janitor_invisible:
  fixes users bcrypt sha salt meth
  assumes "0 \<le> tc_window cfg" "tc_window cfg < 2 ^ 62" "distinct (map fst m)" "sorted (map event_time es)"
  shows "event_run (handle_login users bcrypt sha salt cfg meth) cfg m es =
    login_run (handle_login users bcrypt sha salt cfg meth) m (logins es)"
proof (cases es)
  case (Cons e es')
  have "alike cfg (event_time e) m m" by (simp add: alike_def)
  from event_run_alike [OF assms(1-3) this, of es] assms(4) Cons show ?thesis by simp
qed simp

theorem janitor_invisible_witness:
  "\<exists>cfg es. length (logins es) = 2 \<and> janitor_tick cfg 50 [(''i'', \<lparr>ct_distinct = [''f''], ct_attempts = 1, ct_first = 1\<rparr>)] = [] \<and>
     event_run (handle_login (\<lambda>_. None) (=) demo_sha ''s'' cfg ''POST'') cfg
       [(''i'', \<lparr>ct_distinct = [''f''], ct_attempts = 1, ct_first = 1\<rparr>)] es =
     login_run (handle_login (\<lambda>_. None) (=) demo_sha ''s'' cfg ''POST'')
       [(''i'', \<lparr>ct_distinct = [''f''], ct_attempts = 1, ct_first = 1\<rparr>)] (logins es)"
proof -
  let ?cfg = "\<lparr>tc_max_fails = 1, tc_window = 10, tc_max_attempts = 3\<rparr>"
  let ?es = "[Login (demo_login 3 ''i'' ''x''), Tick 50, Login (demo_login 51 ''i'' ''x'')]"
  have "sorted (map event_time ?es)" by (simp add: demo_login_def)
  from janitor_invisible [OF _ _ _ this, of ?cfg] show ?thesis
    by (intro exI [of _ ?cfg] exI [of _ ?es]) (simp add: janitor_tick_def, simp add: wrap64_def)
qed

text \<open>Behind \<open>N\<close> trusted proxies the client cannot choose its throttle key: whatever it puts
  before the \<open>N\<close> entries the proxies append to X-Forwarded-For, and whatever X-Real-IP it sends,
  the address is the one without it.\<close>

theorem forged_prefix_ignored:
  assumes "trust_proxy \<noteq> []" "trusted_hops hops \<le> int (length (split_on CHR '','' appended))" "appended \<noteq> []"
  shows "client_ip trust_proxy hops (forged @ CHR '','' # appended) real_ip' addr =
    client_ip trust_proxy hops appended real_ip addr"
proof -
  define ps where "ps = split_on CHR '','' appended"
  define qs where "qs = split_on CHR '','' forged"
  define k where "k = nat (int (length ps) - trusted_hops hops)"
  have pos: "0 < trusted_hops hops" by (simp add: trusted_hops_def positive_env_pos)
  have k: "int (length ps) - trusted_hops hops = int k" "k < length ps"
    using assms(2) pos by (simp_all add: k_def ps_def)
  have h: "trusted_hops hops = int (length ps) - int k" using k(1) by simp
  have i: "nat (int (length qs) + int k) = length qs + k" by simp
  have "split_on CHR '','' (forged @ CHR '','' # appended) = qs @ ps"
    by (simp add: ps_def qs_def split_on_append_sep)
  then show ?thesis
    using assms(1,3) k(2) by (simp add: client_ip_def Let_def ps_def [symmetric] h i)
qed

theorem forged_prefix_ignored_witness:
  "client_ip ''true'' ''1'' (''6.6.6.6'' @ CHR '','' # '' 10.0.0.7'') ''7.7.7.7'' ''9.9.9.9:1'' = ''10.0.0.7''"
proof -
  have "trusted_hops ''1'' \<le> int (length (split_on CHR '','' '' 10.0.0.7''))" by code_simp
  from forged_prefix_ignored [OF _ this, of "''true''" "''6.6.6.6''" "''7.7.7.7''" "''9.9.9.9:1''" "[]"]
  show ?thesis by (simp, code_simp)
qed

text \<open>A window of \<open>10 ^ 10\<close> seconds wraps to a negative duration: every counter is expired and the
  throttle admits everything.\<close>

lemma long_window_disables_throttle:
  assumes "ct_first c \<le> now"
  shows "allow (throttle_configuration max_fails ''10000000000'' max_attempts) now ip [(ip, c)]"
proof -
  have "throttle_window ''10000000000'' < 0" by code_simp
  then show ?thesis using assms by (simp add: allow_def expired_def throttle_configuration_def)
qed

end
