(* ===== verification/TwinStore.thy ===== *)
theory TwinStore
  imports Json
begin

text \<open>
  The twin state store (internal/twinstore/store.go): the state document of an entity, its keys, and
  the in-memory store with its per-key last-writer-wins merge and its watch channels.

  A nil Go map is the empty association list (the store makes every map non-nil before it hands a
  state out). The locked section of a merge and the delivery to the watchers, which runs after the
  lock is released, are two operations, so that a cancelled watch can come between them. A 64-bit
  time stamp is an \<open>int\<close>; it is only compared.
\<close>

section \<open>State documents and keys\<close>

record twin_value =
  tv_ts :: int
  tv_value :: json

record twin_state =
  st_schema :: str
  st_tenant :: str
  st_type :: str
  st_entity :: str
  st_updated :: int
  st_telemetry :: "(str, twin_value) gomap"
  st_attributes :: "(str, (str, twin_value) gomap) gomap"
  st_activity :: "(str, json) gomap"

definition state_schema :: str where "state_schema = ''thingsflow.twin-state.v1''"

definition zero_state :: twin_state where
  "zero_state = \<lparr>st_schema = [], st_tenant = [], st_type = [], st_entity = [], st_updated = 0,
     st_telemetry = [], st_attributes = [], st_activity = []\<rparr>"

definition store_entity_type :: "str \<Rightarrow> str" where
  "store_entity_type etype = (let t = trim_space (to_upper etype) in if t = [] then ''DEVICE'' else t)"

definition state_key :: "str \<Rightarrow> str \<Rightarrow> str \<Rightarrow> str" where
  "state_key etype tenant eid = store_entity_type etype @ ''.'' @ tenant @ ''.'' @ eid"

definition telemetry_prefix :: "str \<Rightarrow> str \<Rightarrow> str \<Rightarrow> str" where
  "telemetry_prefix etype tenant eid = state_key etype tenant eid @ ''.telemetry.''"

definition telemetry_key :: "str \<Rightarrow> str \<Rightarrow> str \<Rightarrow> str \<Rightarrow> str" where
  "telemetry_key etype tenant eid key = telemetry_prefix etype tenant eid @ trim_space key"

definition parse_telemetry_key :: "str \<Rightarrow> (str \<times> str \<times> str \<times> str) option" where
  "parse_telemetry_key key =
     (case split_n 5 CHR ''.'' (trim_space key) of
        [etype, tenant, eid, mark, k] \<Rightarrow>
          if mark \<noteq> ''telemetry'' \<or> k = [] then None else Some (store_entity_type etype, tenant, eid, k)
      | _ \<Rightarrow> None)"

definition ensure_state :: "str \<Rightarrow> str \<Rightarrow> str \<Rightarrow> twin_state \<Rightarrow> twin_state" where
  "ensure_state tenant etype eid st =
     st\<lparr>st_schema := (if st_schema st = [] then state_schema else st_schema st),
        st_tenant := tenant, st_type := store_entity_type etype, st_entity := eid\<rparr>"

section \<open>Merging\<close>

text \<open>The loop over the written values: an older write of a key is dropped.\<close>

fun merge_values ::
  "int \<Rightarrow> (str \<times> json) list \<Rightarrow> (str, twin_value) gomap \<Rightarrow> int \<Rightarrow> (str, twin_value) gomap \<times> int" where
  "merge_values ts [] m updated = (m, updated)"
| "merge_values ts ((key, v) # vs) m updated =
     (if (case map_of m key of Some old \<Rightarrow> ts < tv_ts old | None \<Rightarrow> False) then merge_values ts vs m updated
      else merge_values ts vs (AList.update key \<lparr>tv_ts = ts, tv_value = v\<rparr> m) (if updated < ts then ts else updated))"

definition write_time :: "int \<Rightarrow> int \<Rightarrow> int" where
  "write_time now ts = (if ts = 0 then now else ts)"

definition merge_telemetry_state :: "int \<Rightarrow> (str \<times> json) list \<Rightarrow> twin_state \<Rightarrow> twin_state" where
  "merge_telemetry_state ts values st =
     (let (m, u) = merge_values ts values (st_telemetry st) (st_updated st)
      in st\<lparr>st_telemetry := m, st_updated := u\<rparr>)"

definition attribute_scope :: "str \<Rightarrow> str" where
  "attribute_scope scope = (let s = to_upper (trim_space scope) in if s = [] then ''SERVER_SCOPE'' else s)"

definition scope_values :: "str \<Rightarrow> twin_state \<Rightarrow> (str, twin_value) gomap" where
  "scope_values scope st = (case map_of (st_attributes st) scope of Some m \<Rightarrow> m | None \<Rightarrow> [])"

definition merge_attributes_state :: "str \<Rightarrow> int \<Rightarrow> (str \<times> json) list \<Rightarrow> twin_state \<Rightarrow> twin_state" where
  "merge_attributes_state scope ts values st =
     (let (m, u) = merge_values ts values (scope_values scope st) (st_updated st)
      in st\<lparr>st_attributes := AList.update scope m (st_attributes st), st_updated := u\<rparr>)"

section \<open>The in-memory store\<close>

record state_change =
  sc_old :: twin_state
  sc_new :: twin_state

record watch_channel =
  wc_buffer :: "state_change list"
  wc_closed :: bool

record memory_watch =
  mw_prefix :: str
  mw_channel :: nat

text \<open>Channels are numbered in the order of their creation.\<close>

record memory_store =
  ms_states :: "(str, twin_state) gomap"
  ms_watches :: "memory_watch list"
  ms_channels :: "watch_channel list"

definition new_memory_store :: memory_store where
  "new_memory_store = \<lparr>ms_states = [], ms_watches = [], ms_channels = []\<rparr>"

definition stored_state :: "memory_store \<Rightarrow> str \<Rightarrow> twin_state" where
  "stored_state s k = (case map_of (ms_states s) k of Some st \<Rightarrow> st | None \<Rightarrow> zero_state)"

record delivery =
  dl_key :: str
  dl_watches :: "memory_watch list"
  dl_change :: state_change

definition commit_change :: "str \<Rightarrow> (twin_state \<Rightarrow> twin_state) \<Rightarrow> memory_store \<Rightarrow> memory_store \<times> delivery" where
  "commit_change k f s =
     (let new = f (stored_state s k)
      in (s\<lparr>ms_states := AList.update k new (ms_states s)\<rparr>,
          \<lparr>dl_key = k, dl_watches = ms_watches s, dl_change = \<lparr>sc_old = stored_state s k, sc_new = new\<rparr>\<rparr>))"

text \<open>The locked sections of MergeTelemetry and MergeAttributes.\<close>

definition commit_telemetry ::
  "int \<Rightarrow> str \<Rightarrow> str \<Rightarrow> str \<Rightarrow> int \<Rightarrow> (str \<times> json) list \<Rightarrow> memory_store \<Rightarrow> memory_store \<times> delivery" where
  "commit_telemetry now tenant etype eid ts values =
     commit_change (state_key etype tenant eid)
       (merge_telemetry_state (write_time now ts) values \<circ> ensure_state tenant etype eid)"

definition commit_attributes ::
  "int \<Rightarrow> str \<Rightarrow> str \<Rightarrow> str \<Rightarrow> str \<Rightarrow> int \<Rightarrow> (str \<times> json) list \<Rightarrow> memory_store \<Rightarrow> memory_store \<times> delivery" where
  "commit_attributes now tenant etype eid scope ts values =
     commit_change (state_key etype tenant eid)
       (merge_attributes_state (attribute_scope scope) (write_time now ts) values \<circ> ensure_state tenant etype eid)"

text \<open>A non-blocking send to a channel of capacity 32; \<open>None\<close> is the panic of a send on a closed
  channel.\<close>

definition try_send :: "state_change \<Rightarrow> watch_channel \<Rightarrow> watch_channel option" where
  "try_send change ch =
     (if wc_closed ch then None
      else if length (wc_buffer ch) < 32 then Some (ch\<lparr>wc_buffer := wc_buffer ch @ [change]\<rparr>)
      else Some ch)"

fun notify_loop :: "str \<Rightarrow> state_change \<Rightarrow> memory_watch list \<Rightarrow> watch_channel list \<Rightarrow> watch_channel list option" where
  "notify_loop key change [] chans = Some chans"
| "notify_loop key change (w # ws) chans =
     (if mw_prefix w = [] \<or> has_prefix key (mw_prefix w)
      then (case try_send change (chans ! mw_channel w) of
              None \<Rightarrow> None
            | Some ch \<Rightarrow> notify_loop key change ws (chans[mw_channel w := ch]))
      else notify_loop key change ws chans)"

definition notify :: "delivery \<Rightarrow> memory_store \<Rightarrow> memory_store option" where
  "notify d s = map_option (\<lambda>chans. s\<lparr>ms_channels := chans\<rparr>)
     (notify_loop (dl_key d) (dl_change d) (dl_watches d) (ms_channels s))"

definition merge_telemetry ::
  "int \<Rightarrow> str \<Rightarrow> str \<Rightarrow> str \<Rightarrow> int \<Rightarrow> (str \<times> json) list \<Rightarrow> memory_store \<Rightarrow> memory_store option" where
  "merge_telemetry now tenant etype eid ts values s =
     (let (s', d) = commit_telemetry now tenant etype eid ts values s in notify d s')"

definition merge_attributes ::
  "int \<Rightarrow> str \<Rightarrow> str \<Rightarrow> str \<Rightarrow> str \<Rightarrow> int \<Rightarrow> (str \<times> json) list \<Rightarrow> memory_store \<Rightarrow> memory_store option" where
  "merge_attributes now tenant etype eid scope ts values s =
     (let (s', d) = commit_attributes now tenant etype eid scope ts values s in notify d s')"

text \<open>Subscribing, and the cancellation of the subscription with number \<open>i\<close>.\<close>

definition watch :: "str \<Rightarrow> memory_store \<Rightarrow> nat \<times> memory_store" where
  "watch prefix s =
     (length (ms_channels s),
      s\<lparr>ms_channels := ms_channels s @ [\<lparr>wc_buffer = [], wc_closed = False\<rparr>],
        ms_watches := ms_watches s @ [\<lparr>mw_prefix = prefix, mw_channel = length (ms_channels s)\<rparr>]\<rparr>)"

fun remove_watch :: "nat \<Rightarrow> memory_watch list \<Rightarrow> memory_watch list" where
  "remove_watch i [] = []"
| "remove_watch i (w # ws) = (if mw_channel w = i then ws else w # remove_watch i ws)"

definition cancel_watch :: "nat \<Rightarrow> memory_store \<Rightarrow> memory_store" where
  "cancel_watch i s =
     s\<lparr>ms_watches := remove_watch i (ms_watches s),
       ms_channels := (ms_channels s)[i := (ms_channels s ! i)\<lparr>wc_closed := True\<rparr>]\<rparr>"

section \<open>Reading\<close>

definition get_entity_state :: "str \<Rightarrow> str \<Rightarrow> str \<Rightarrow> memory_store \<Rightarrow> twin_state option" where
  "get_entity_state tenant etype eid s = map_of (ms_states s) (state_key etype tenant eid)"

definition get_telemetry_keys :: "str \<Rightarrow> str \<Rightarrow> str \<Rightarrow> memory_store \<Rightarrow> str list option" where
  "get_telemetry_keys tenant etype eid s =
     map_option (\<lambda>st. sort (map fst (st_telemetry st))) (get_entity_state tenant etype eid s)"

fun pick_values :: "str list \<Rightarrow> (str, twin_value) gomap \<Rightarrow> (str, twin_value) gomap \<Rightarrow> (str, twin_value) gomap" where
  "pick_values [] m acc = acc"
| "pick_values (k # ks) m acc =
     pick_values ks m (case map_of m (trim_space k) of Some v \<Rightarrow> AList.update (trim_space k) v acc | None \<Rightarrow> acc)"

definition get_latest_telemetry ::
  "str \<Rightarrow> str \<Rightarrow> str \<Rightarrow> str list \<Rightarrow> memory_store \<Rightarrow> (str, twin_value) gomap option" where
  "get_latest_telemetry tenant etype eid keys s =
     map_option (\<lambda>st. if keys = [] then st_telemetry st else pick_values keys (st_telemetry st) [])
       (get_entity_state tenant etype eid s)"

text \<open>The shapes the readers give the values; \<open>fmt\<close> is the \<open>%v\<close> formatting of a value.\<close>

definition latest_as_timeseries ::
  "(json \<Rightarrow> str) \<Rightarrow> bool \<Rightarrow> (str, twin_value) gomap \<Rightarrow> (str, json) gomap" where
  "latest_as_timeseries fmt strict values =
     map (\<lambda>(k, v). (k, JArr [JObj [(''ts'', JInt (tv_ts v)),
       (''value'', if strict then tv_value v else JStr (fmt (tv_value v)))]])) values"

definition entity_datum :: "twin_value \<Rightarrow> json" where
  "entity_datum v = JObj [(''ts'', JInt (tv_ts v)), (''value'', tv_value v)]"

definition latest_as_entity_data :: "str list \<Rightarrow> (str, twin_value) gomap \<Rightarrow> (str, json) gomap" where
  "latest_as_entity_data keys values =
     (if keys = [] then map (\<lambda>(k, v). (k, entity_datum v)) values
      else fold (\<lambda>k acc. case map_of values k of Some v \<Rightarrow> AList.update k (entity_datum v) acc | None \<Rightarrow> acc) keys [])"

definition values_to_raw_map :: "(str, twin_value) gomap \<Rightarrow> (str, json) gomap" where
  "values_to_raw_map values = map (\<lambda>(k, v). (k, tv_value v)) values"

end
