(* ===== verification/TwinStoreNats.thy ===== *)
theory TwinStoreNats
  imports TwinStore
begin

text \<open>
  The NATS-backed store (internal/twinstore/nats.go): the documents of the bucket, the reads that go
  to the state document first and to the per-key entries second, and the optimistic merge.

  The bucket is not part of the repository: it is a value of an arbitrary type \<open>'kv\<close> with the
  operations \<open>kv_get\<close>, \<open>kv_keys\<close>, \<open>kv_create\<close> and \<open>kv_update\<close> of the client as parameters
  (\<open>None\<close> of the last two is an error). A payload is what encoding/json decodes it to: a state
  document, a bare value, or neither.
\<close>

section \<open>Payloads\<close>

datatype payload = StatePayload twin_state | ValuePayload twin_value | BrokenPayload

datatype kv_reply = KvFound payload nat | KvNotFound | KvFailed

datatype store_error = StateNotFound | KvError | NotAState | UpdateConflict | Cancelled

definition decode_state :: "payload \<Rightarrow> store_error + twin_state" where
  "decode_state p =
     (case p of
        BrokenPayload \<Rightarrow> Inl NotAState
      | ValuePayload v \<Rightarrow> Inl NotAState
      | StatePayload st \<Rightarrow>
          if st_entity st = [] \<and> st_telemetry st = [] \<and> st_attributes st = [] \<and> st_activity st = [] then Inl NotAState
          else Inr (ensure_state (st_tenant st) (st_type st) (st_entity st) st))"

text \<open>A state document decodes to the zero value: it has neither member.\<close>

definition decode_value :: "payload \<Rightarrow> store_error + twin_value" where
  "decode_value p =
     (case p of
        BrokenPayload \<Rightarrow> Inl NotAState
      | ValuePayload v \<Rightarrow> Inr v
      | StatePayload st \<Rightarrow> Inr \<lparr>tv_ts = 0, tv_value = JNull\<rparr>)"

section \<open>Reads\<close>

datatype keys_reply = KvKeys "str list" | KvNoKeys | KvKeysFailed

definition nats_entity_state ::
  "(str \<Rightarrow> kv_reply) \<Rightarrow> str \<Rightarrow> str \<Rightarrow> str \<Rightarrow> store_error + twin_state" where
  "nats_entity_state kv_get tenant etype eid =
     (case kv_get (state_key etype tenant eid) of
        KvFound p _ \<Rightarrow> decode_state p
      | KvNotFound \<Rightarrow> Inl StateNotFound
      | KvFailed \<Rightarrow> Inl KvError)"

definition cut_prefix :: "str \<Rightarrow> str \<Rightarrow> str option" where
  "cut_prefix p s = (if has_prefix s p then Some (drop (length p) s) else None)"

definition keys_below :: "str \<Rightarrow> str list \<Rightarrow> str list" where
  "keys_below p ks = filter (\<lambda>k. k \<noteq> []) (List.map_filter (cut_prefix p) ks)"

definition nats_telemetry_keys ::
  "(str \<Rightarrow> kv_reply) \<Rightarrow> keys_reply \<Rightarrow> str \<Rightarrow> str \<Rightarrow> str \<Rightarrow> store_error + str list" where
  "nats_telemetry_keys kv_get kv_keys tenant etype eid =
     (case nats_entity_state kv_get tenant etype eid of
        Inr st \<Rightarrow> if st_telemetry st \<noteq> [] then Inr (sort (map fst (st_telemetry st)))
                  else (case kv_keys of
                          KvKeys ks \<Rightarrow> Inr (sort (keys_below (telemetry_prefix etype tenant eid) ks))
                        | KvNoKeys \<Rightarrow> Inr [] | KvKeysFailed \<Rightarrow> Inl KvError)
      | Inl _ \<Rightarrow> (case kv_keys of
                    KvKeys ks \<Rightarrow> Inr (sort (keys_below (telemetry_prefix etype tenant eid) ks))
                  | KvNoKeys \<Rightarrow> Inr [] | KvKeysFailed \<Rightarrow> Inl KvError))"

fun per_key_loop ::
  "(str \<Rightarrow> kv_reply) \<Rightarrow> (str \<Rightarrow> str) \<Rightarrow> str list \<Rightarrow> (str, twin_value) gomap \<Rightarrow> store_error + (str, twin_value) gomap" where
  "per_key_loop kv_get full [] acc = Inr acc"
| "per_key_loop kv_get full (k # ks) acc =
     (let key = trim_space k
      in if key = [] then per_key_loop kv_get full ks acc
         else (case kv_get (full key) of
                 KvNotFound \<Rightarrow> per_key_loop kv_get full ks acc
               | KvFailed \<Rightarrow> Inl KvError
               | KvFound p _ \<Rightarrow>
                   (case decode_value p of
                      Inl e \<Rightarrow> Inl e
                    | Inr v \<Rightarrow> per_key_loop kv_get full ks (AList.update key v acc))))"

definition latest_per_key ::
  "(str \<Rightarrow> kv_reply) \<Rightarrow> keys_reply \<Rightarrow> str \<Rightarrow> str \<Rightarrow> str \<Rightarrow> str list \<Rightarrow> store_error + (str, twin_value) gomap" where
  "latest_per_key kv_get kv_keys tenant etype eid keys =
     and_then (if keys = [] then nats_telemetry_keys kv_get kv_keys tenant etype eid else Inr keys)
       (\<lambda>ks. per_key_loop kv_get (telemetry_key etype tenant eid) ks [])"

definition doc_telemetry :: "(str \<Rightarrow> kv_reply) \<Rightarrow> str \<Rightarrow> str \<Rightarrow> str \<Rightarrow> (str, twin_value) gomap" where
  "doc_telemetry kv_get tenant etype eid =
     (case nats_entity_state kv_get tenant etype eid of Inr st \<Rightarrow> st_telemetry st | Inl _ \<Rightarrow> [])"

definition named_keys :: "str list \<Rightarrow> str list" where
  "named_keys keys = filter (\<lambda>k. k \<noteq> []) (map trim_space keys)"

definition nats_latest_telemetry ::
  "(str \<Rightarrow> kv_reply) \<Rightarrow> keys_reply \<Rightarrow> str \<Rightarrow> str \<Rightarrow> str \<Rightarrow> str list \<Rightarrow> store_error + (str, twin_value) gomap" where
  "nats_latest_telemetry kv_get kv_keys tenant etype eid keys =
     (let doc = doc_telemetry kv_get tenant etype eid;
          found = pick_values (named_keys keys) doc [];
          missing = filter (\<lambda>k. map_of found k = None) (named_keys keys)
      in if keys = [] then
           (if doc \<noteq> [] then Inr doc else latest_per_key kv_get kv_keys tenant etype eid [])
         else if missing = [] then Inr found
         else and_then (latest_per_key kv_get kv_keys tenant etype eid missing)
                (\<lambda>per_key. Inr (fold (\<lambda>(k, v). AList.update k v) per_key found)))"

text \<open>What the watcher forwards for an entry of the bucket.\<close>

definition watch_update :: "str \<Rightarrow> payload \<Rightarrow> twin_state option" where
  "watch_update key p =
     (case decode_state p of
        Inr st \<Rightarrow> Some st
      | Inl _ \<Rightarrow>
          (case parse_telemetry_key key of
             None \<Rightarrow> None
           | Some (etype, tenant, eid, k) \<Rightarrow>
               (case decode_value p of
                  Inl _ \<Rightarrow> None
                | Inr v \<Rightarrow> Some ((ensure_state tenant etype eid zero_state)
                    \<lparr>st_updated := tv_ts v, st_telemetry := [(k, v)]\<rparr>))))"

section \<open>The optimistic merge\<close>

text \<open>The function the merge applies: a merge into a fresh in-memory store that holds the document.\<close>

datatype merge_op = TelemetryOp int int "(str \<times> json) list" | AttributesOp str int int "(str \<times> json) list"

definition apply_op :: "str \<Rightarrow> str \<Rightarrow> str \<Rightarrow> merge_op \<Rightarrow> twin_state \<Rightarrow> twin_state" where
  "apply_op tenant etype eid oper st =
     (let mem = new_memory_store\<lparr>ms_states := [(state_key etype tenant eid, st)]\<rparr>;
          merged = (case oper of
              TelemetryOp now ts values \<Rightarrow> merge_telemetry now tenant etype eid ts values mem
            | AttributesOp scope now ts values \<Rightarrow> merge_attributes now tenant etype eid scope ts values mem)
      in (case Option.bind merged (get_entity_state tenant etype eid) of Some next \<Rightarrow> next | None \<Rightarrow> zero_state))"

text \<open>A writer between two calls of the bucket: before its read of attempt \<open>a\<close>, after the read, or done.\<close>

datatype phase =
    Trying nat
  | Holding nat twin_state nat
  | HoldingNone nat
  | Committed
  | Failed store_error

definition max_attempts :: nat where "max_attempts = 8"

definition merge_step ::
  "(str \<Rightarrow> 'kv \<Rightarrow> kv_reply) \<Rightarrow> (str \<Rightarrow> payload \<Rightarrow> 'kv \<Rightarrow> 'kv option) \<Rightarrow> (str \<Rightarrow> payload \<Rightarrow> nat \<Rightarrow> 'kv \<Rightarrow> 'kv option) \<Rightarrow>
   str \<Rightarrow> (twin_state \<Rightarrow> twin_state) \<Rightarrow> phase \<Rightarrow> 'kv \<Rightarrow> phase \<times> 'kv" where
  "merge_step kv_get kv_create kv_update key f ph kv =
     (case ph of
        Trying a \<Rightarrow>
          if max_attempts \<le> a then (Failed UpdateConflict, kv)
          else (case kv_get key kv of
                  KvNotFound \<Rightarrow> (HoldingNone a, kv)
                | KvFailed \<Rightarrow> (Failed KvError, kv)
                | KvFound p r \<Rightarrow> (case decode_state p of Inl e \<Rightarrow> (Failed e, kv) | Inr st \<Rightarrow> (Holding a st r, kv)))
      | HoldingNone a \<Rightarrow>
          (case kv_create key (StatePayload (f zero_state)) kv of
             Some kv' \<Rightarrow> (Committed, kv') | None \<Rightarrow> (Trying (a + 1), kv))
      | Holding a st r \<Rightarrow>
          (case kv_update key (StatePayload (f st)) r kv of
             Some kv' \<Rightarrow> (Committed, kv') | None \<Rightarrow> (Trying (a + 1), kv))
      | Committed \<Rightarrow> (Committed, kv)
      | Failed e \<Rightarrow> (Failed e, kv))"

text \<open>Several writers of one entity: a schedule names the writer that moves next.\<close>

fun schedule_run ::
  "(str \<Rightarrow> 'kv \<Rightarrow> kv_reply) \<Rightarrow> (str \<Rightarrow> payload \<Rightarrow> 'kv \<Rightarrow> 'kv option) \<Rightarrow> (str \<Rightarrow> payload \<Rightarrow> nat \<Rightarrow> 'kv \<Rightarrow> 'kv option) \<Rightarrow>
   str \<Rightarrow> (twin_state \<Rightarrow> twin_state) list \<Rightarrow> nat list \<Rightarrow> phase list \<times> 'kv \<Rightarrow> phase list \<times> 'kv" where
  "schedule_run kv_get kv_create kv_update key fs [] (phs, kv) = (phs, kv)"
| "schedule_run kv_get kv_create kv_update key fs (i # is) (phs, kv) =
     schedule_run kv_get kv_create kv_update key fs is
       (case merge_step kv_get kv_create kv_update key (fs ! i) (phs ! i) kv of (ph, kv') \<Rightarrow> (phs[i := ph], kv'))"

end
