(* ===== verification/TwinStoreLaws.thy ===== *)
theory TwinStoreLaws
  imports TwinStore
begin

text \<open>
  The laws of the twin state store: per-key entries come back from their keys, merges keep per key
  the latest write whatever the order of the merges, and delivery panics exactly on cancelled watches.
\<close>

section \<open>Keys\<close>

lemma no_dot_entity_type:
  assumes "CHR ''.'' \<notin> set etype"
  shows "CHR ''.'' \<notin> set (store_entity_type etype)"
proof -
  have "char_code CHR ''.'' = 46" by (simp add: char_code_def)
  with assms have "CHR ''.'' \<notin> set (to_upper etype)"
    by (auto simp: to_upper_def upper_char_def char_code_inj [symmetric] in_range_def split: if_splits)
  then show ?thesis using set_trim_by [of is_space "to_upper etype"]
    by (auto simp: store_entity_type_def trim_space_def Let_def)
qed

lemma trim_space_ends: "trim_space s \<noteq> [] \<Longrightarrow> \<not> is_space (hd (trim_space s)) \<and> \<not> is_space (last (trim_space s))"
  using trim_by_ends [of is_space s] by (simp add: trim_space_def)

lemma trim_space_fixed: "s \<noteq> [] \<Longrightarrow> \<not> is_space (hd s) \<Longrightarrow> \<not> is_space (last s) \<Longrightarrow> trim_space s = s"
  by (simp add: trim_space_def trim_by_id)

lemma store_entity_type_ends: "store_entity_type e \<noteq> [] \<and> \<not> is_space (hd (store_entity_type e))"
  using trim_space_ends [of "to_upper e"]
  by (simp add: store_entity_type_def Let_def is_space_def char_code_def)

lemma store_entity_type_idem [simp]: "store_entity_type (store_entity_type e) = store_entity_type e"
proof (cases "trim_space (to_upper e) = []")
  case True
  then have "store_entity_type e = ''DEVICE''" by (simp add: store_entity_type_def)
  then show ?thesis by (simp, code_simp)
next
  case False
  then have "store_entity_type e = trim_space (to_upper e)" by (simp add: store_entity_type_def)
  with False show ?thesis by (simp add: store_entity_type_def trim_space_upper)
qed

lemma parse_telemetry_key_telemetry_key:
  assumes "CHR ''.'' \<notin> set etype \<union> set tenant \<union> set eid" "trim_space key \<noteq> []"
  shows "parse_telemetry_key (telemetry_key etype tenant eid key) =
    Some (store_entity_type etype, tenant, eid, trim_space key)"
proof -
  let ?T = "store_entity_type etype" and ?k = "trim_space key"
  have full: "telemetry_key etype tenant eid key =
      ?T @ CHR ''.'' # tenant @ CHR ''.'' # eid @ CHR ''.'' # ''telemetry'' @ CHR ''.'' # ?k"
    by (simp add: telemetry_key_def telemetry_prefix_def state_key_def)
  have trim: "trim_space (telemetry_key etype tenant eid key) = telemetry_key etype tenant eid key"
    using store_entity_type_ends [of etype] trim_space_ends [OF assms(2)] assms(2)
    by (intro trim_space_fixed) (simp_all add: full)
  have dots: "CHR ''.'' \<notin> set ?T" "CHR ''.'' \<notin> set tenant" "CHR ''.'' \<notin> set eid" "CHR ''.'' \<notin> set ''telemetry''"
    using assms(1) no_dot_entity_type [of etype] by simp_all
  have "split_n 5 CHR ''.'' (telemetry_key etype tenant eid key) = [?T, tenant, eid, ''telemetry'', ?k]"
    unfolding full split_n_Cons [OF dots(1), of 5, simplified] split_n_Cons [OF dots(2), of 4, simplified]
      split_n_Cons [OF dots(3), of 3, simplified] split_n_Cons [OF dots(4), of 2, simplified]
    by (simp add: split_n_1 [simplified])
  then show ?thesis using assms(2) by (simp add: parse_telemetry_key_def trim)
qed

text \<open>A key of an entity without dots determines the entity.\<close>

lemma state_key_entity:
  assumes "CHR ''.'' \<notin> set e" "CHR ''.'' \<notin> set e'" "state_key a b e = state_key a' b' e'"
  shows "e = e'"
proof -
  have "last (split_on CHR ''.'' (state_key x y z)) = z" if "CHR ''.'' \<notin> set z" for x y z
  proof -
    have "state_key x y z = (store_entity_type x @ ''.'' @ y) @ CHR ''.'' # z" by (simp add: state_key_def)
    then show ?thesis using that by (simp add: split_on_append_sep split_on_no_sep)
  qed
  then show ?thesis using assms by metis
qed

section \<open>Last writer wins\<close>

type_synonym key_write = "str \<times> int \<times> json"

text \<open>The effect of one written value on the values of a document.\<close>

definition put_write :: "key_write \<Rightarrow> (str, twin_value) gomap \<Rightarrow> (str, twin_value) gomap" where
  "put_write = (\<lambda>(k, ts, v) m.
     if (case map_of m k of Some old \<Rightarrow> ts < tv_ts old | None \<Rightarrow> False) then m
     else AList.update k \<lparr>tv_ts = ts, tv_value = v\<rparr> m)"

definition writes_at :: "int \<Rightarrow> (str \<times> json) list \<Rightarrow> key_write list" where
  "writes_at ts values = map (\<lambda>(k, v). (k, ts, v)) values"

text \<open>The write that counts for a key: none is newer, and no later one is as new.\<close>

definition latest_write :: "key_write list \<Rightarrow> str \<Rightarrow> twin_value \<Rightarrow> bool" where
  "latest_write ws k x \<longleftrightarrow>
     (\<exists>pre post. ws = pre @ (k, tv_ts x, tv_value x) # post \<and>
        (\<forall>w \<in> set pre. fst w = k \<longrightarrow> fst (snd w) \<le> tv_ts x) \<and>
        (\<forall>w \<in> set post. fst w = k \<longrightarrow> fst (snd w) < tv_ts x))"

lemma fst_merge_values: "fst (merge_values ts vs m u) = fold put_write (writes_at ts vs) m"
  by (induction ts vs m u rule: merge_values.induct) (simp_all add: writes_at_def put_write_def)

lemma latest_write_snoc:
  "latest_write (ws @ [w]) k x \<longleftrightarrow>
     (w = (k, tv_ts x, tv_value x) \<and> (\<forall>w \<in> set ws. fst w = k \<longrightarrow> fst (snd w) \<le> tv_ts x)) \<or>
     (latest_write ws k x \<and> (fst w = k \<longrightarrow> fst (snd w) < tv_ts x))" (is "?l \<longleftrightarrow> ?now \<or> ?before")
proof
  assume ?l
  then obtain pre post where h: "ws @ [w] = pre @ (k, tv_ts x, tv_value x) # post"
    "\<forall>w \<in> set pre. fst w = k \<longrightarrow> fst (snd w) \<le> tv_ts x" "\<forall>w \<in> set post. fst w = k \<longrightarrow> fst (snd w) < tv_ts x"
    by (auto simp: latest_write_def)
  show "?now \<or> ?before"
  proof (cases post rule: rev_cases)
    case Nil
    with h show ?thesis by simp
  next
    case (snoc post' w')
    with h have "ws = pre @ (k, tv_ts x, tv_value x) # post'" "w' = w" by auto
    with h snoc show ?thesis by (auto simp: latest_write_def)
  qed
next
  assume "?now \<or> ?before"
  then show ?l
  proof
    assume ?now
    then show ?l unfolding latest_write_def by (intro exI [of _ ws] exI [of _ "[]"]) simp
  next
    assume ?before
    then obtain pre post where "ws = pre @ (k, tv_ts x, tv_value x) # post"
      "\<forall>w \<in> set pre. fst w = k \<longrightarrow> fst (snd w) \<le> tv_ts x" "\<forall>w \<in> set post. fst w = k \<longrightarrow> fst (snd w) < tv_ts x"
      "fst w = k \<longrightarrow> fst (snd w) < tv_ts x"
      by (auto simp: latest_write_def)
    then show ?l unfolding latest_write_def by (intro exI [of _ pre] exI [of _ "post @ [w]"]) simp
  qed
qed

lemma latest_write_bounds:
  assumes "latest_write ws k x" "w \<in> set ws" "fst w = k"
  shows "fst (snd w) \<le> tv_ts x"
proof -
  obtain pre post where h: "ws = pre @ (k, tv_ts x, tv_value x) # post"
    "\<forall>w \<in> set pre. fst w = k \<longrightarrow> fst (snd w) \<le> tv_ts x" "\<forall>w \<in> set post. fst w = k \<longrightarrow> fst (snd w) < tv_ts x"
    using assms(1) by (auto simp: latest_write_def)
  then have "w \<in> set pre \<or> w = (k, tv_ts x, tv_value x) \<or> w \<in> set post" using assms(2) by auto
  then show ?thesis
  proof (elim disjE)
    assume "w \<in> set post"
    then show ?thesis using h(3) assms(3) less_imp_le by blast
  qed (use h(2) assms(3) in simp_all)
qed

lemma latest_write_exists: "map_of (fold put_write ws []) k = None \<Longrightarrow> w \<in> set ws \<Longrightarrow> fst w \<noteq> k"
  by (induction ws rule: rev_induct) (auto simp: put_write_def update_conv split: if_splits option.splits)

lemma map_of_fold_put_write: "map_of (fold put_write ws []) k = Some x \<longleftrightarrow> latest_write ws k x"
proof (induction ws arbitrary: x rule: rev_induct)
  case Nil
  then show ?case by (simp add: latest_write_def)
next
  case (snoc w ws)
  obtain k' ts v where w: "w = (k', ts, v)" by (cases w)
  show ?case
  proof (cases "k' = k")
    case False
    then show ?thesis using snoc by (auto simp: latest_write_snoc w put_write_def update_conv)
  next
    case True
    show ?thesis
    proof (cases "map_of (fold put_write ws []) k")
      case None
      then have "\<forall>w \<in> set ws. fst w \<noteq> k" using latest_write_exists by blast
      moreover have "\<not> latest_write ws k x" using None snoc by fastforce
      ultimately show ?thesis using None True by (cases x) (auto simp: latest_write_snoc w put_write_def update_conv)
    next
      case (Some old)
      then have old: "latest_write ws k old" using snoc by blast
      have "latest_write ws k x \<longleftrightarrow> x = old" using Some snoc [of x] by auto
      moreover have "(\<forall>w \<in> set ws. fst w = k \<longrightarrow> fst (snd w) \<le> ts) \<longleftrightarrow> tv_ts old \<le> ts"
      proof -
        have "(k, tv_ts old, tv_value old) \<in> set ws" using old by (auto simp: latest_write_def)
        then show ?thesis using latest_write_bounds [OF old] by fastforce
      qed
      ultimately show ?thesis using Some True by (cases x) (auto simp: latest_write_snoc w put_write_def update_conv)
    qed
  qed
qed

text \<open>The time stamp of a document is the largest of its writes.\<close>

lemma snd_merge_values:
  "(\<forall>x \<in> set m. tv_ts (snd x) \<le> u) \<Longrightarrow>
    snd (merge_values ts vs m u) = (if vs = [] then u else max ts u) \<and>
    (\<forall>x \<in> set (fst (merge_values ts vs m u)). tv_ts (snd x) \<le> snd (merge_values ts vs m u))"
proof (induction ts vs m u rule: merge_values.induct)
  case (1 ts m updated)
  then show ?case by simp
next
  case (2 ts key v vs m updated)
  show ?case
  proof (cases "case map_of m key of Some old \<Rightarrow> ts < tv_ts old | None \<Rightarrow> False")
    case True
    then obtain old where "map_of m key = Some old" "ts < tv_ts old" by (auto split: option.splits)
    then have "ts \<le> updated" using 2(3) by (force dest: map_of_SomeD)
    then have u: "(if vs = [] then updated else max ts updated) = updated" "max ts updated = updated" by simp_all
    have "merge_values ts ((key, v) # vs) m updated = merge_values ts vs m updated" using True by simp
    with 2(1) [OF True 2(3)] u show ?thesis by (simp only: u) auto
  next
    case False
    let ?m = "AList.update key \<lparr>tv_ts = ts, tv_value = v\<rparr> m" and ?u = "if updated < ts then ts else updated"
    have "x = (key, \<lparr>tv_ts = ts, tv_value = v\<rparr>) \<or> x \<in> set m" if "x \<in> set ?m" for x
      using that by (induction m) (auto split: if_splits)
    then have "\<forall>x \<in> set ?m. tv_ts (snd x) \<le> ?u" using 2(3) by fastforce
    note ih = 2(2) [OF False this]
    have step: "merge_values ts ((key, v) # vs) m updated = merge_values ts vs ?m ?u" using False by simp
    have u: "(if vs = [] then ?u else max ts ?u) = max ts updated" by simp
    show ?thesis unfolding step using ih unfolding u by (elim conjE) (simp only: list.distinct if_False simp_thms)
  qed
qed

section \<open>A sequence of merges\<close>

record telemetry_merge =
  tm_now :: int
  tm_ts :: int
  tm_values :: "(str \<times> json) list"

definition commit_all :: "str \<Rightarrow> str \<Rightarrow> str \<Rightarrow> telemetry_merge list \<Rightarrow> memory_store \<Rightarrow> memory_store" where
  "commit_all tenant etype eid = fold (\<lambda>c s. fst (commit_telemetry (tm_now c) tenant etype eid (tm_ts c) (tm_values c) s))"

definition merge_writes :: "telemetry_merge list \<Rightarrow> key_write list" where
  "merge_writes cs = concat (map (\<lambda>c. writes_at (write_time (tm_now c) (tm_ts c)) (tm_values c)) cs)"

definition write_max :: "key_write list \<Rightarrow> int" where
  "write_max ws = foldr (\<lambda>w. max (fst (snd w))) ws 0"

lemma write_max_append: "write_max (a @ b) = max (write_max a) (write_max b)"
proof (induction a)
  case Nil
  have "0 \<le> write_max b" by (induction b) (auto simp: write_max_def)
  then show ?case by (simp add: write_max_def)
next
  case (Cons w a)
  then show ?case by (simp add: write_max_def)
qed

lemma write_max_Nil [simp]: "write_max [] = 0"
  by (simp add: write_max_def)

lemma write_max_nonneg [simp]: "0 \<le> write_max ws"
  by (induction ws) (auto simp: write_max_def)

lemma write_max_writes_at: "0 \<le> u \<Longrightarrow> (if vs = [] then u else max ts u) = max u (write_max (writes_at ts vs))"
proof -
  have "vs \<noteq> [] \<Longrightarrow> write_max (writes_at ts vs) = max ts 0"
  proof (induction vs)
    case (Cons x vs)
    then show ?case by (cases "vs = []") (auto simp: write_max_def writes_at_def split: prod.split)
  qed simp
  then show "0 \<le> u \<Longrightarrow> ?thesis" by (auto simp: writes_at_def)
qed

lemma commit_all_telemetry:
  "ms_states s = [] \<Longrightarrow> cs \<noteq> [] \<Longrightarrow>
    \<exists>st. get_entity_state tenant etype eid (commit_all tenant etype eid cs s) = Some st \<and>
      st_telemetry st = fold put_write (merge_writes cs) [] \<and> st_updated st = write_max (merge_writes cs) \<and>
      (\<forall>x \<in> set (st_telemetry st). tv_ts (snd x) \<le> st_updated st)"
proof (induction cs rule: rev_induct)
  case Nil
  then show ?case by simp
next
  case (snoc c cs)
  define s' where "s' = commit_all tenant etype eid cs s"
  let ?k = "state_key etype tenant eid" and ?ts = "write_time (tm_now c) (tm_ts c)"
  have old: "st_telemetry (stored_state s' ?k) = fold put_write (merge_writes cs) [] \<and>
      st_updated (stored_state s' ?k) = write_max (merge_writes cs) \<and>
      (\<forall>x \<in> set (st_telemetry (stored_state s' ?k)). tv_ts (snd x) \<le> st_updated (stored_state s' ?k))"
  proof (cases cs)
    case Nil
    then show ?thesis using snoc.prems(1)
      by (simp add: s'_def commit_all_def stored_state_def zero_state_def merge_writes_def)
  next
    case Cons
    with snoc.IH [OF snoc.prems(1)] obtain st where "map_of (ms_states s') ?k = Some st"
      "st_telemetry st = fold put_write (merge_writes cs) []" "st_updated st = write_max (merge_writes cs)"
      "\<forall>x \<in> set (st_telemetry st). tv_ts (snd x) \<le> st_updated st"
      by (auto simp: s'_def get_entity_state_def)
    then show ?thesis by (simp add: stored_state_def)
  qed
  then have o: "st_telemetry (stored_state s' ?k) = fold put_write (merge_writes cs) []"
    "st_updated (stored_state s' ?k) = write_max (merge_writes cs)"
    "\<forall>x \<in> set (fold put_write (merge_writes cs) []). tv_ts (snd x) \<le> write_max (merge_writes cs)"
    by metis+
  let ?ws = "writes_at ?ts (tm_values c)"
  note sm = snd_merge_values [OF o(3), of ?ts "tm_values c"]
  have u: "snd (merge_values ?ts (tm_values c) (fold put_write (merge_writes cs) []) (write_max (merge_writes cs))) =
      write_max (merge_writes cs @ ?ws)"
    by (simp only: conjunct1 [OF sm] write_max_writes_at [OF write_max_nonneg] write_max_append)
  have ws: "merge_writes (cs @ [c]) = merge_writes cs @ ?ws" by (simp add: merge_writes_def)
  have "commit_all tenant etype eid (cs @ [c]) s =
      fst (commit_telemetry (tm_now c) tenant etype eid (tm_ts c) (tm_values c) s')"
    by (simp add: s'_def commit_all_def)
  then show ?case
    using conjunct2 [OF sm]
    by (simp add: commit_telemetry_def commit_change_def get_entity_state_def update_conv Let_def
        merge_telemetry_state_def ensure_state_def case_prod_beta fst_merge_values ws o(1,2) u)
qed

lemma latest_write_distinct:
  assumes "distinct (map (\<lambda>w. (fst w, fst (snd w))) ws)"
  shows "latest_write ws k x \<longleftrightarrow>
    (k, tv_ts x, tv_value x) \<in> set ws \<and> (\<forall>w \<in> set ws. fst w = k \<longrightarrow> fst (snd w) \<le> tv_ts x)" (is "_ \<longleftrightarrow> ?r")
proof
  assume "latest_write ws k x"
  then show ?r using latest_write_bounds by (fastforce simp: latest_write_def)
next
  assume r: ?r
  then obtain pre post where ws: "ws = pre @ (k, tv_ts x, tv_value x) # post" by (meson split_list)
  have "fst (snd w) < tv_ts x" if "w \<in> set post" "fst w = k" for w
  proof -
    have "(fst w, fst (snd w)) \<noteq> (k, tv_ts x)" using assms that(1) unfolding ws by force
    then show ?thesis using r that ws by (simp add: order_less_le)
  qed
  moreover have "\<forall>w \<in> set pre. fst w = k \<longrightarrow> fst (snd w) \<le> tv_ts x" using r ws by simp
  ultimately show "latest_write ws k x" using ws unfolding latest_write_def by blast
qed

lemma write_max_mset: "mset ws = mset ws' \<Longrightarrow> write_max ws = write_max ws'"
proof -
  have "write_max ws = Max (insert 0 ((\<lambda>w. fst (snd w)) ` set ws))" for ws
  proof (induction ws)
    case (Cons w ws)
    let ?f = "\<lambda>w :: key_write. fst (snd w)"
    have "Max (insert (?f w) (insert 0 (?f ` set ws))) = max (?f w) (Max (insert 0 (?f ` set ws)))"
      by (rule Max_insert) simp_all
    with Cons show ?case by (simp only: write_max_def list.set image_insert insert_commute [of 0] foldr.simps o_apply)
  qed simp
  then show "mset ws = mset ws' \<Longrightarrow> write_max ws = write_max ws'" using mset_eq_setD by metis
qed

section \<open>Watchers\<close>

definition watches_key :: "str \<Rightarrow> memory_watch \<Rightarrow> bool" where
  "watches_key k w \<longleftrightarrow> mw_prefix w = [] \<or> has_prefix k (mw_prefix w)"

definition open_watches :: "memory_store \<Rightarrow> bool" where
  "open_watches s \<longleftrightarrow> distinct (map mw_channel (ms_watches s)) \<and>
     (\<forall>w \<in> set (ms_watches s). mw_channel w < length (ms_channels s) \<and> \<not> wc_closed (ms_channels s ! mw_channel w))"

lemma notify_loop_length: "notify_loop k c ws chans = Some chans' \<Longrightarrow> length chans' = length chans"
  by (induction k c ws chans arbitrary: chans' rule: notify_loop.induct) (auto split: if_splits option.splits)

lemma notify_loop_closed:
  "notify_loop k c ws chans = Some chans' \<Longrightarrow> map wc_closed chans' = map wc_closed chans"
proof (induction k c ws chans arbitrary: chans' rule: notify_loop.induct)
  case (2 key change w ws chans)
  show ?case
  proof (cases "mw_prefix w = [] \<or> has_prefix key (mw_prefix w)")
    case True
    with 2(3) obtain ch where ch: "try_send change (chans ! mw_channel w) = Some ch"
      "notify_loop key change ws (chans[mw_channel w := ch]) = Some chans'" by (auto split: option.splits)
    then have "wc_closed ch = wc_closed (chans ! mw_channel w)" by (auto simp: try_send_def split: if_splits)
    then have "map wc_closed (chans[mw_channel w := ch]) = map wc_closed chans"
      by (cases "mw_channel w < length chans") (simp_all add: map_update list_update_same_conv list_update_beyond)
    then show ?thesis using 2(1) [OF True ch(1) ch(2)] by simp
  qed (use 2 in simp)
qed simp

lemma notify_loop_None:
  "\<forall>w \<in> set ws. mw_channel w < length chans \<Longrightarrow>
    notify_loop k c ws chans = None \<longleftrightarrow> (\<exists>w \<in> set ws. watches_key k w \<and> wc_closed (chans ! mw_channel w))"
proof (induction k c ws chans rule: notify_loop.induct)
  case (2 key change w ws chans)
  show ?case
  proof (cases "watches_key key w")
    case True
    show ?thesis
    proof (cases "try_send change (chans ! mw_channel w)")
      case None
      then have "wc_closed (chans ! mw_channel w)" by (simp add: try_send_def split: if_splits)
      then show ?thesis using True None by (auto simp: watches_key_def)
    next
      case (Some ch)
      then have open_: "\<not> wc_closed (chans ! mw_channel w)" "\<not> wc_closed ch" by (auto simp: try_send_def split: if_splits)
      have "wc_closed (chans[mw_channel w := ch] ! mw_channel v) = wc_closed (chans ! mw_channel v)" for v
        using open_ 2(3) by (cases "mw_channel v = mw_channel w") auto
      moreover have "notify_loop key change (w # ws) chans = notify_loop key change ws (chans[mw_channel w := ch])"
        using True Some by (simp add: watches_key_def)
      moreover note 2(1) [OF True [unfolded watches_key_def] Some]
      ultimately show ?thesis using 2(3) open_ by auto
    qed
  next
    case False
    then show ?thesis using 2 by (simp add: watches_key_def)
  qed
qed simp

lemma cancel_channels:
  "length (ms_channels (fold cancel_watch is s)) = length (ms_channels s) \<and>
    (j < length (ms_channels s) \<longrightarrow>
      wc_closed (ms_channels (fold cancel_watch is s) ! j) = (j \<in> set is \<or> wc_closed (ms_channels s ! j)))"
proof (induction "is" arbitrary: s)
  case (Cons i "is")
  have "length (ms_channels (cancel_watch i s)) = length (ms_channels s)" by (simp add: cancel_watch_def)
  moreover have "wc_closed (ms_channels (cancel_watch i s) ! j) = (j = i \<or> wc_closed (ms_channels s ! j))"
    if "j < length (ms_channels s)"
    using that by (cases "i = j") (auto simp: cancel_watch_def)
  ultimately show ?case using Cons.IH [of "cancel_watch i s"] by auto
qed simp

lemma set_remove_watch: "distinct (map mw_channel ws) \<Longrightarrow> set (remove_watch i ws) = {w \<in> set ws. mw_channel w \<noteq> i}"
  by (induction ws) (auto simp: image_iff)

lemma distinct_remove_watch: "distinct (map mw_channel ws) \<Longrightarrow> distinct (map mw_channel (remove_watch i ws))"
  by (induction ws) (auto simp: set_remove_watch)

lemma open_watches_commit: "open_watches s \<Longrightarrow> open_watches (fst (commit_change k f s))"
  by (simp add: open_watches_def commit_change_def Let_def)

lemma open_watches_notify: "open_watches s \<Longrightarrow> notify d s = Some s' \<Longrightarrow> open_watches s'"
proof -
  assume o: "open_watches s" and n: "notify d s = Some s'"
  then obtain chans where c: "notify_loop (dl_key d) (dl_change d) (dl_watches d) (ms_channels s) = Some chans"
    and s': "s' = s\<lparr>ms_channels := chans\<rparr>" by (auto simp: notify_def)
  have "wc_closed (chans ! i) = wc_closed (ms_channels s ! i)" if "i < length (ms_channels s)" for i
    using that notify_loop_closed [OF c] notify_loop_length [OF c] by (metis nth_map)
  then show "open_watches s'" using o notify_loop_length [OF c] by (simp add: open_watches_def s')
qed

lemma open_watches_watch: "open_watches s \<Longrightarrow> open_watches (snd (watch p s))"
  by (auto simp: open_watches_def watch_def nth_append)

lemma open_watches_cancel: "open_watches s \<Longrightarrow> open_watches (cancel_watch i s)"
  by (auto simp: open_watches_def cancel_watch_def set_remove_watch distinct_remove_watch nth_list_update)

text \<open>A run of the store; a consumer may take a change out of its channel at any time.\<close>

inductive store_reach :: "memory_store \<Rightarrow> bool" where
  sr_new: "store_reach new_memory_store"
| sr_watch: "store_reach s \<Longrightarrow> store_reach (snd (watch p s))"
| sr_cancel: "store_reach s \<Longrightarrow> store_reach (cancel_watch i s)"
| sr_telemetry: "store_reach s \<Longrightarrow> merge_telemetry now tenant etype eid ts vs s = Some s' \<Longrightarrow> store_reach s'"
| sr_attributes: "store_reach s \<Longrightarrow> merge_attributes now tenant etype eid scope ts vs s = Some s' \<Longrightarrow> store_reach s'"
| sr_receive: "store_reach s \<Longrightarrow> i < length (ms_channels s) \<Longrightarrow>
    store_reach (s\<lparr>ms_channels := (ms_channels s)[i := (ms_channels s ! i)\<lparr>wc_buffer := tl (wc_buffer (ms_channels s ! i))\<rparr>]\<rparr>)"

lemma store_reach_open: "store_reach s \<Longrightarrow> open_watches s"
proof (induction rule: store_reach.induct)
  case sr_new
  then show ?case by (simp add: open_watches_def new_memory_store_def)
next
  case (sr_watch s p)
  then show ?case by (simp add: open_watches_watch)
next
  case (sr_cancel s i)
  then show ?case by (simp add: open_watches_cancel)
next
  case (sr_telemetry s now tenant etype eid ts vs s')
  from sr_telemetry.hyps(2) open_watches_commit [OF sr_telemetry.IH] show ?case
    by (auto simp: merge_telemetry_def commit_telemetry_def case_prod_beta elim!: open_watches_notify [rotated])
next
  case (sr_attributes s now tenant etype eid scope ts vs s')
  from sr_attributes.hyps(2) open_watches_commit [OF sr_attributes.IH] show ?case
    by (auto simp: merge_attributes_def commit_attributes_def case_prod_beta elim!: open_watches_notify [rotated])
next
  case (sr_receive s i)
  then show ?case by (auto simp: open_watches_def nth_list_update)
qed

lemma merge_never_panics: "store_reach s \<Longrightarrow> merge_telemetry now tenant etype eid ts vs s \<noteq> None"
proof -
  assume "store_reach s"
  then have "open_watches s" by (rule store_reach_open)
  then show ?thesis
    by (auto simp: merge_telemetry_def commit_telemetry_def commit_change_def Let_def notify_def open_watches_def
        notify_loop_None)
qed

end
