(* ===== verification/TwinStoreNatsLaws.thy ===== *)
theory TwinStoreNatsLaws
  imports TwinStoreNats TwinStoreLaws
begin

text \<open>
  What the optimistic merge achieves on a bucket that keeps its contract: the merges that commit take
  effect one after the other, a merge that gives up was overtaken eight times, and every merge ends.
\<close>

section \<open>Reads\<close>

lemma map_of_pick_values:
  "map_of (pick_values ks m acc) k =
     (if k \<in> set (map trim_space ks) \<and> map_of m k \<noteq> None then map_of m k else map_of acc k)"
  by (induction ks m acc rule: pick_values.induct) (auto simp: update_conv split: option.splits)

definition entry_value :: "(str \<Rightarrow> kv_reply) \<Rightarrow> str \<Rightarrow> twin_value option" where
  "entry_value kv_get key =
     (case kv_get key of
        KvFound p _ \<Rightarrow> (case decode_value p of Inr v \<Rightarrow> Some v | Inl _ \<Rightarrow> None)
      | KvNotFound \<Rightarrow> None
      | KvFailed \<Rightarrow> None)"

lemma per_key_loop_result:
  "per_key_loop kv_get full ks acc = Inr m \<Longrightarrow>
    map_of m k = (if k \<in> set (named_keys ks) \<and> entry_value kv_get (full k) \<noteq> None
                  then entry_value kv_get (full k) else map_of acc k)"
proof (induction kv_get full ks acc rule: per_key_loop.induct)
  case (1 kv_get full acc)
  then show ?case by (simp add: named_keys_def)
next
  case (2 kv_get full q ks acc)
  show ?case
  proof (cases "trim_space q = []")
    case True
    with 2 show ?thesis by (auto simp: named_keys_def Let_def)
  next
    case False
    then show ?thesis
    proof (cases "kv_get (full (trim_space q))")
      case (KvFound p r)
      with 2(4) False obtain v where v: "decode_value p = Inr v"
        "per_key_loop kv_get full ks (AList.update (trim_space q) v acc) = Inr m"
        by (auto simp: Let_def split: sum.splits)
      have "entry_value kv_get (full (trim_space q)) = Some v" by (simp add: entry_value_def KvFound v)
      with 2(2) [OF refl False KvFound v(1) v(2)] False show ?thesis
        by (auto simp: named_keys_def update_conv)
    next
      case KvNotFound
      with 2(3) [OF refl False KvNotFound] 2(4) False show ?thesis
        by (auto simp: named_keys_def Let_def entry_value_def)
    next
      case KvFailed
      with 2(4) False show ?thesis by (simp add: Let_def)
    qed
  qed
qed

lemma map_of_fold_update:
  "map_of (fold (\<lambda>(k, v). AList.update k v) kvs m) k = (case map_of (rev kvs) k of Some v \<Rightarrow> Some v | None \<Rightarrow> map_of m k)"
  by (induction kvs arbitrary: m) (auto simp: update_conv map_add_def split: option.splits)

lemma distinct_per_key_loop: "per_key_loop kv_get full ks acc = Inr m \<Longrightarrow> distinct (map fst acc) \<Longrightarrow> distinct (map fst m)"
proof (induction kv_get full ks acc rule: per_key_loop.induct)
  case (2 kv_get full q ks acc)
  show ?case
  proof (cases "trim_space q = []")
    case True
    with 2(1,4,5) show ?thesis by simp
  next
    case False
    show ?thesis
    proof (cases "kv_get (full (trim_space q))")
      case (KvFound p r)
      with 2(4) False obtain v where "decode_value p = Inr v"
        "per_key_loop kv_get full ks (AList.update (trim_space q) v acc) = Inr m"
        by (auto simp: Let_def split: sum.splits)
      with 2(2) [OF refl False KvFound] 2(5) show ?thesis by (simp add: distinct_update)
    qed (use 2(3) [OF refl False] 2(4,5) False in \<open>simp_all add: Let_def\<close>)
  qed
qed simp

lemma map_of_rev_distinct: "distinct (map fst m) \<Longrightarrow> map_of (rev m) k = map_of m k"
proof (induction m)
  case (Cons x m)
  then have "map_of (rev m) (fst x) = None" by (simp add: map_of_eq_None_iff)
  with Cons show ?case by (auto simp: map_add_def split: option.splits)
qed simp

section \<open>The bucket\<close>

text \<open>The documented behaviour of a NATS key-value bucket, for one key, while it is reachable: Create
  succeeds exactly when the key is absent, Update exactly when the revision is the last one, and a
  revision is newer than those before it.\<close>

definition kv_contract ::
  "(str \<Rightarrow> 'kv \<Rightarrow> kv_reply) \<Rightarrow> (str \<Rightarrow> payload \<Rightarrow> 'kv \<Rightarrow> 'kv option) \<Rightarrow> (str \<Rightarrow> payload \<Rightarrow> nat \<Rightarrow> 'kv \<Rightarrow> 'kv option) \<Rightarrow>
   str \<Rightarrow> bool" where
  "kv_contract kv_get kv_create kv_update key \<longleftrightarrow>
     (\<forall>kv. kv_get key kv \<noteq> KvFailed) \<and>
     (\<forall>kv p. kv_create key p kv \<noteq> None \<longleftrightarrow> kv_get key kv = KvNotFound) \<and>
     (\<forall>kv p kv'. kv_create key p kv = Some kv' \<longrightarrow> (\<exists>r. kv_get key kv' = KvFound p r)) \<and>
     (\<forall>kv p r. kv_update key p r kv \<noteq> None \<longleftrightarrow> (\<exists>q. kv_get key kv = KvFound q r)) \<and>
     (\<forall>kv p r kv'. kv_update key p r kv = Some kv' \<longrightarrow> (\<exists>r'. r < r' \<and> kv_get key kv' = KvFound p r'))"

lemma kv_contract_create:
  assumes "kv_contract kv_get kv_create kv_update key"
  shows "kv_create key p kv = None \<longleftrightarrow> kv_get key kv \<noteq> KvNotFound"
    "kv_create key p kv = Some kv' \<Longrightarrow> \<exists>r. kv_get key kv' = KvFound p r"
proof -
  have "\<forall>kv p. kv_create key p kv \<noteq> None \<longleftrightarrow> kv_get key kv = KvNotFound"
    "\<forall>kv p kv'. kv_create key p kv = Some kv' \<longrightarrow> (\<exists>r. kv_get key kv' = KvFound p r)"
    using assms by (simp_all add: kv_contract_def)
  then show "kv_create key p kv = None \<longleftrightarrow> kv_get key kv \<noteq> KvNotFound"
    "kv_create key p kv = Some kv' \<Longrightarrow> \<exists>r. kv_get key kv' = KvFound p r" by blast+
qed

lemma kv_contract_update:
  assumes "kv_contract kv_get kv_create kv_update key"
  shows "kv_update key p r kv = None \<longleftrightarrow> (\<forall>q. kv_get key kv \<noteq> KvFound q r)"
    "kv_update key p r kv = Some kv' \<Longrightarrow> \<exists>r'. r < r' \<and> kv_get key kv' = KvFound p r'"
proof -
  have "\<forall>kv p r. kv_update key p r kv \<noteq> None \<longleftrightarrow> (\<exists>q. kv_get key kv = KvFound q r)"
    "\<forall>kv p r kv'. kv_update key p r kv = Some kv' \<longrightarrow> (\<exists>r'. r < r' \<and> kv_get key kv' = KvFound p r')"
    using assms by (simp_all add: kv_contract_def)
  then show "kv_update key p r kv = None \<longleftrightarrow> (\<forall>q. kv_get key kv \<noteq> KvFound q r)"
    "kv_update key p r kv = Some kv' \<Longrightarrow> \<exists>r'. r < r' \<and> kv_get key kv' = KvFound p r'" by blast+
qed

text \<open>The document a merge starts from: the stored one, or the empty state.\<close>

definition bucket_state :: "(str \<Rightarrow> 'kv \<Rightarrow> kv_reply) \<Rightarrow> str \<Rightarrow> 'kv \<Rightarrow> twin_state option" where
  "bucket_state kv_get key kv =
     (case kv_get key kv of
        KvNotFound \<Rightarrow> Some zero_state
      | KvFailed \<Rightarrow> None
      | KvFound p _ \<Rightarrow> (case decode_state p of Inl _ \<Rightarrow> None | Inr st \<Rightarrow> Some st))"

lemma apply_op_eq:
  "apply_op tenant etype eid oper st =
     (case oper of
        TelemetryOp now ts vs \<Rightarrow> merge_telemetry_state (write_time now ts) vs (ensure_state tenant etype eid st)
      | AttributesOp scope now ts vs \<Rightarrow>
          merge_attributes_state (attribute_scope scope) (write_time now ts) vs (ensure_state tenant etype eid st))"
  by (simp add: apply_op_def merge_telemetry_def merge_attributes_def commit_telemetry_def commit_attributes_def
      commit_change_def notify_def new_memory_store_def get_entity_state_def stored_state_def Let_def
      split: merge_op.split)

text \<open>What a merge writes decodes to itself.\<close>

lemma decode_applied:
  assumes "eid \<noteq> []"
  shows "decode_state (StatePayload (apply_op tenant etype eid oper st)) = Inr (apply_op tenant etype eid oper st)"
  using assms
  by (simp add: apply_op_eq decode_state_def merge_telemetry_state_def merge_attributes_state_def ensure_state_def
      case_prod_beta Let_def state_schema_def split: merge_op.split)

section \<open>Concurrent writers\<close>

text \<open>A phase is possible when \<open>c\<close> merges have committed: every failed attempt was overtaken by one.\<close>

definition phase_ok :: "(str \<Rightarrow> 'kv \<Rightarrow> kv_reply) \<Rightarrow> str \<Rightarrow> nat \<Rightarrow> 'kv \<Rightarrow> phase \<Rightarrow> bool" where
  "phase_ok kv_get key c kv ph =
     (case ph of
        Trying a \<Rightarrow> a \<le> c
      | Holding a st r \<Rightarrow> a \<le> c \<and> a < max_attempts \<and>
          (\<exists>p r0. kv_get key kv = KvFound p r0 \<and> r \<le> r0 \<and> (if r = r0 then decode_state p = Inr st else a < c))
      | HoldingNone a \<Rightarrow> a \<le> c \<and> a < max_attempts \<and> (kv_get key kv \<noteq> KvNotFound \<longrightarrow> a < c)
      | Committed \<Rightarrow> True
      | Failed e \<Rightarrow> e = UpdateConflict \<and> max_attempts \<le> c)"

definition linear ::
  "(str \<Rightarrow> 'kv \<Rightarrow> kv_reply) \<Rightarrow> str \<Rightarrow> (twin_state \<Rightarrow> twin_state) list \<Rightarrow> twin_state \<Rightarrow> nat list \<Rightarrow> phase list \<times> 'kv \<Rightarrow> bool" where
  "linear kv_get key fs st0 order conf \<longleftrightarrow>
     distinct order \<and> set order = {i. i < length fs \<and> fst conf ! i = Committed} \<and> length (fst conf) = length fs \<and>
     bucket_state kv_get key (snd conf) = Some (fold (\<lambda>i. fs ! i) order st0) \<and>
     (\<forall>i < length fs. phase_ok kv_get key (length order) (snd conf) (fst conf ! i))"

lemma merge_step_same_bucket:
  assumes "linear kv_get key fs st0 order (phs, kv)" "i < length fs"
    and "phase_ok kv_get key (length order) kv ph" "(ph = Committed) = (phs ! i = Committed)"
  shows "linear kv_get key fs st0 order (phs[i := ph], kv)"
proof -
  have "{j. j < length fs \<and> phs[i := ph] ! j = Committed} = {j. j < length fs \<and> phs ! j = Committed}"
    using assms(1,2,4) by (auto simp: linear_def nth_list_update)
  with assms(1,2,3) show ?thesis
    by (auto simp: linear_def nth_list_update)
qed

lemma phase_ok_commit:
  assumes "phase_ok kv_get key c kv ph" "kv_get key kv' = KvFound p r'"
    and "\<And>q r. kv_get key kv = KvFound q r \<Longrightarrow> r < r'"
  shows "phase_ok kv_get key (Suc c) kv' ph"
proof (cases ph)
  case (Holding a st r)
  with assms(1) obtain q r0 where "kv_get key kv = KvFound q r0" "r \<le> r0" by (auto simp: phase_ok_def)
  with assms(3) have "r < r'" by fastforce
  with Holding assms(1,2) show ?thesis by (simp add: phase_ok_def)
qed (use assms in \<open>auto simp: phase_ok_def\<close>)

lemma merge_step_commit:
  assumes l: "linear kv_get key fs st0 order (phs, kv)" "i < length fs" "phs ! i \<noteq> Committed"
    and b: "bucket_state kv_get key kv = Some st" "kv_get key kv' = KvFound (StatePayload ((fs ! i) st)) r'"
    and d: "decode_state (StatePayload ((fs ! i) st)) = Inr ((fs ! i) st)"
    and r: "\<And>q r. kv_get key kv = KvFound q r \<Longrightarrow> r < r'"
  shows "linear kv_get key fs st0 (order @ [i]) (phs[i := Committed], kv')"
proof -
  have len: "length phs = length fs" using l(1) by (simp add: linear_def)
  have "{j. j < length fs \<and> phs[i := Committed] ! j = Committed} = insert i {j. j < length fs \<and> phs ! j = Committed}"
    using l(2) len by (auto simp: nth_list_update)
  moreover have "i \<notin> set order" using l by (auto simp: linear_def)
  moreover have "phase_ok kv_get key (Suc (length order)) kv' (phs[i := Committed] ! j)" if "j < length fs" for j
  proof (cases "j = i")
    case True
    then show ?thesis using l(2) len by (simp add: phase_ok_def)
  next
    case False
    have "phase_ok kv_get key (length order) kv (phs ! j)" using l(1) that by (simp add: linear_def)
    from phase_ok_commit [OF this b(2) r] False show ?thesis by simp
  qed
  moreover have "bucket_state kv_get key kv' = Some ((fs ! i) st)" using b(2) d by (simp add: bucket_state_def)
  ultimately show ?thesis using l b(1) by (simp add: linear_def)
qed

lemma merge_step_linear:
  assumes c: "kv_contract kv_get kv_create kv_update key"
    and l: "linear kv_get key fs st0 order (phs, kv)" and i: "i < length fs"
    and d: "\<And>st. decode_state (StatePayload ((fs ! i) st)) = Inr ((fs ! i) st)"
    and s: "merge_step kv_get kv_create kv_update key (fs ! i) (phs ! i) kv = (ph, kv')"
  shows "\<exists>order'. linear kv_get key fs st0 order' (phs[i := ph], kv')"
proof -
  have ok: "phase_ok kv_get key (length order) kv (phs ! i)" and st: "bucket_state kv_get key kv \<noteq> None"
    using l i by (auto simp: linear_def)
  have same: ?thesis if "kv' = kv" "phase_ok kv_get key (length order) kv ph" "ph \<noteq> Committed" "phs ! i \<noteq> Committed"
    using merge_step_same_bucket [OF l i that(2)] that by auto
  show ?thesis
  proof (cases "phs ! i")
    case (Trying a)
    have "kv_get key kv \<noteq> KvFailed" using c by (simp add: kv_contract_def)
    then show ?thesis using s Trying ok st
      by (intro same)
        (auto simp: merge_step_def phase_ok_def bucket_state_def split: if_splits kv_reply.splits sum.splits)
  next
    case (Holding a st r)
    from ok Holding obtain p r0 where g: "kv_get key kv = KvFound p r0" "a \<le> length order" "a < max_attempts"
      "if r = r0 then decode_state p = Inr st else a < length order" by (auto simp: phase_ok_def)
    show ?thesis
    proof (cases "kv_update key (StatePayload ((fs ! i) st)) r kv")
      case None
      then have "r \<noteq> r0" using kv_contract_update(1) [OF c] g(1) by metis
      with s Holding None g show ?thesis
        by (intro same) (auto simp: merge_step_def phase_ok_def split: if_splits)
    next
      case (Some kv1)
      then have "\<exists>q. kv_get key kv = KvFound q r" using kv_contract_update(1) [OF c] by (metis option.distinct(1))
      then have r: "r = r0" using g(1) by simp
      obtain r' where r': "r < r'" "kv_get key kv1 = KvFound (StatePayload ((fs ! i) st)) r'"
        using kv_contract_update(2) [OF c Some] by blast
      have "bucket_state kv_get key kv = Some st" using g r by (simp add: bucket_state_def)
      then have "linear kv_get key fs st0 (order @ [i]) (phs[i := Committed], kv1)"
        using merge_step_commit [OF l i _ _ r'(2) d] g(1) r r'(1) Holding by simp
      moreover have "ph = Committed" "kv' = kv1" using s Holding Some by (simp_all add: merge_step_def)
      ultimately show ?thesis by blast
    qed
  next
    case (HoldingNone a)
    show ?thesis
    proof (cases "kv_create key (StatePayload ((fs ! i) zero_state)) kv")
      case None
      then have "kv_get key kv \<noteq> KvNotFound" using kv_contract_create(1) [OF c] by metis
      with s HoldingNone None ok show ?thesis
        by (intro same) (auto simp: merge_step_def phase_ok_def split: if_splits)
    next
      case (Some kv1)
      then have g: "kv_get key kv = KvNotFound" using kv_contract_create(1) [OF c] by (metis option.distinct(1))
      obtain r' where r': "kv_get key kv1 = KvFound (StatePayload ((fs ! i) zero_state)) r'"
        using kv_contract_create(2) [OF c Some] by blast
      have "bucket_state kv_get key kv = Some zero_state" using g by (simp add: bucket_state_def)
      then have "linear kv_get key fs st0 (order @ [i]) (phs[i := Committed], kv1)"
        using merge_step_commit [OF l i _ _ r' d] g HoldingNone by simp
      moreover have "ph = Committed" "kv' = kv1" using s HoldingNone Some by (simp_all add: merge_step_def)
      ultimately show ?thesis by blast
    qed
  next
    case Committed
    then have "ph = phs ! i" "kv' = kv" using s by (simp_all add: merge_step_def)
    then show ?thesis using l by auto
  next
    case (Failed e)
    then have "ph = phs ! i" "kv' = kv" using s by (simp_all add: merge_step_def)
    then show ?thesis using l by auto
  qed
qed

lemma schedule_run_linear:
  assumes c: "kv_contract kv_get kv_create kv_update key"
    and d: "\<And>f st. f \<in> set fs \<Longrightarrow> decode_state (StatePayload (f st)) = Inr (f st)"
  shows "set is \<subseteq> {..<length fs} \<Longrightarrow> linear kv_get key fs st0 order (phs, kv) \<Longrightarrow>
    \<exists>order'. linear kv_get key fs st0 order' (schedule_run kv_get kv_create kv_update key fs is (phs, kv))"
proof (induction "is" arbitrary: order phs kv)
  case Nil
  then show ?case by auto
next
  case (Cons i "is")
  obtain ph kv' where s: "merge_step kv_get kv_create kv_update key (fs ! i) (phs ! i) kv = (ph, kv')"
    by (cases "merge_step kv_get kv_create kv_update key (fs ! i) (phs ! i) kv")
  have i: "i < length fs" using Cons.prems(1) by simp
  obtain order' where "linear kv_get key fs st0 order' (phs[i := ph], kv')"
    using merge_step_linear [OF c Cons.prems(2) i _ s] d [OF nth_mem [OF i]] by auto
  with Cons.IH Cons.prems(1) s show ?case by simp
qed

text \<open>Every writer ends after at most seventeen of its own steps.\<close>

fun remaining :: "phase \<Rightarrow> nat" where
  "remaining (Trying a) = 2 * (max_attempts - a) + 1"
| "remaining (Holding a st r) = 2 * (max_attempts - a)"
| "remaining (HoldingNone a) = 2 * (max_attempts - a)"
| "remaining Committed = 0"
| "remaining (Failed e) = 0"

definition attempt_ok :: "phase \<Rightarrow> bool" where
  "attempt_ok ph = (case ph of Holding a _ _ \<Rightarrow> a < max_attempts | HoldingNone a \<Rightarrow> a < max_attempts | _ \<Rightarrow> True)"

lemma merge_step_remaining:
  assumes "merge_step kv_get kv_create kv_update key f ph kv = (ph', kv')" "attempt_ok ph"
  shows "attempt_ok ph' \<and> remaining ph' \<le> remaining ph - 1"
  using assms
  by (cases ph) (auto simp: merge_step_def attempt_ok_def split: if_splits kv_reply.splits sum.splits option.splits)

lemma schedule_run_remaining:
  "schedule_run kv_get kv_create kv_update key fs is (phs, kv) = (phs', kv') \<Longrightarrow> j < length phs \<Longrightarrow> attempt_ok (phs ! j) \<Longrightarrow>
    length phs' = length phs \<and> attempt_ok (phs' ! j) \<and> remaining (phs' ! j) \<le> remaining (phs ! j) - count_list is j"
proof (induction "is" arbitrary: phs kv)
  case Nil
  then show ?case by simp
next
  case (Cons i "is")
  obtain ph kv1 where s: "merge_step kv_get kv_create kv_update key (fs ! i) (phs ! i) kv = (ph, kv1)"
    by (cases "merge_step kv_get kv_create kv_update key (fs ! i) (phs ! i) kv")
  have ok: "attempt_ok (phs[i := ph] ! j)"
    using merge_step_remaining [OF s] Cons.prems(2,3) by (cases "i = j") auto
  have le: "remaining (phs[i := ph] ! j) \<le> remaining (phs ! j) - (if i = j then 1 else 0)"
    using merge_step_remaining [OF s] Cons.prems(2,3) by (cases "i = j") auto
  show ?case using Cons.IH [of "phs[i := ph]" kv1] Cons.prems(1,2) s ok le by auto
qed

lemma remaining_0: "attempt_ok ph \<Longrightarrow> remaining ph = 0 \<Longrightarrow> ph = Committed \<or> (\<exists>e. ph = Failed e)"
  by (cases ph) (auto simp: attempt_ok_def)

end
