(* ===== verification/TwinStoreProps.thy ===== *)
theory TwinStoreProps
  imports TwinStoreNatsLaws
begin

text \<open>The properties of the twin state store.\<close>

text \<open>A per-key entry comes back from its key: for an entity without dots in its type and ids and
  a key that is not blank, parsing gives the normalised type, the ids and the trimmed key (which
  may contain dots), and the watcher forwards the entry as a state of that entity with that value.\<close>

theorem telemetry_key_roundtrip:
  assumes "CHR ''.'' \<notin> set etype \<union> set tenant \<union> set eid" "trim_space key \<noteq> []"
  shows "parse_telemetry_key (telemetry_key etype tenant eid key) =
      Some (store_entity_type etype, tenant, eid, trim_space key) \<and>
    (\<exists>st. watch_update (telemetry_key etype tenant eid key) (ValuePayload v) = Some st \<and>
      st_tenant st = tenant \<and> st_entity st = eid \<and> st_type st = store_entity_type etype \<and>
      st_telemetry st = [(trim_space key, v)] \<and> st_updated st = tv_ts v)"
  using parse_telemetry_key_telemetry_key [OF assms]
  by (simp add: watch_update_def decode_state_def decode_value_def ensure_state_def)

theorem telemetry_key_roundtrip_witness:
  "parse_telemetry_key (telemetry_key '' device'' ''t1'' ''d1'' ''room.temp '') = Some (''DEVICE'', ''t1'', ''d1'', ''room.temp'')"
proof -
  have "trim_space ''room.temp '' = ''room.temp''" "store_entity_type '' device'' = ''DEVICE''" by code_simp+
  with telemetry_key_roundtrip [of "'' device''" "''t1''" "''d1''" "''room.temp ''" "\<lparr>tv_ts = 1, tv_value = JNull\<rparr>"]
  show ?thesis by simp
qed

lemma merges_keep_latest:
  assumes "ms_states s = []" "cs \<noteq> []"
  shows "\<exists>st. get_entity_state tenant etype eid (commit_all tenant etype eid cs s) = Some st \<and>
    (\<forall>k x. map_of (st_telemetry st) k = Some x \<longleftrightarrow> latest_write (merge_writes cs) k x) \<and>
    st_updated st = write_max (merge_writes cs)"
  using commit_all_telemetry [OF assms, of tenant etype eid] map_of_fold_put_write by metis

text \<open>C11: The merges of an entity commute: two sequences of merges with the same single writes, no two
  of them for the same key at the same time, leave the same telemetry and time stamp, however
  the writes are ordered and grouped; a key holds the write with the largest time stamp.\<close>

theorem merges_commute:
  assumes "ms_states s = []" "cs \<noteq> []" "cs' \<noteq> []" "mset (merge_writes cs') = mset (merge_writes cs)"
    and "distinct (map (\<lambda>w. (fst w, fst (snd w))) (merge_writes cs))"
    and "get_entity_state tenant etype eid (commit_all tenant etype eid cs s) = Some st"
    and "get_entity_state tenant etype eid (commit_all tenant etype eid cs' s) = Some st'"
  shows "map_of (st_telemetry st') = map_of (st_telemetry st) \<and> st_updated st' = st_updated st \<and>
    (\<forall>k x. map_of (st_telemetry st) k = Some x \<longleftrightarrow>
      (k, tv_ts x, tv_value x) \<in> set (merge_writes cs) \<and>
      (\<forall>w \<in> set (merge_writes cs). fst w = k \<longrightarrow> fst (snd w) \<le> tv_ts x))"
proof -
  have d': "distinct (map (\<lambda>w. (fst w, fst (snd w))) (merge_writes cs'))"
    using assms(4,5) by (metis mset_eq_imp_distinct_iff mset_map)
  have sets: "set (merge_writes cs') = set (merge_writes cs)" using assms(4) mset_eq_setD by blast
  have st: "map_of (st_telemetry st) k = Some x \<longleftrightarrow> latest_write (merge_writes cs) k x"
    and st': "map_of (st_telemetry st') k = Some x \<longleftrightarrow> latest_write (merge_writes cs') k x"
    and u: "st_updated st = write_max (merge_writes cs)" "st_updated st' = write_max (merge_writes cs')" for k x
    using merges_keep_latest [OF assms(1,2), of tenant etype eid] merges_keep_latest [OF assms(1,3), of tenant etype eid]
      assms(6,7) by auto
  have "map_of (st_telemetry st') k = map_of (st_telemetry st) k" for k
    using st [of k] st' [of k] latest_write_distinct [OF assms(5), of k] latest_write_distinct [OF d', of k]
    unfolding sets by (metis option.exhaust)
  moreover have "st_updated st' = st_updated st" using u write_max_mset [OF assms(4)] by simp
  ultimately show ?thesis using st latest_write_distinct [OF assms(5)] by auto
qed

theorem merges_commute_witness:
  "\<exists>st st'. get_entity_state ''t'' ''DEVICE'' ''d''
      (commit_all ''t'' ''DEVICE'' ''d'' [\<lparr>tm_now = 0, tm_ts = 5, tm_values = [(''a'', JInt 1)]\<rparr>,
        \<lparr>tm_now = 0, tm_ts = 3, tm_values = [(''a'', JInt 2)]\<rparr>] new_memory_store) = Some st \<and>
    get_entity_state ''t'' ''DEVICE'' ''d''
      (commit_all ''t'' ''DEVICE'' ''d'' [\<lparr>tm_now = 0, tm_ts = 3, tm_values = [(''a'', JInt 2)]\<rparr>,
        \<lparr>tm_now = 0, tm_ts = 5, tm_values = [(''a'', JInt 1)]\<rparr>] new_memory_store) = Some st' \<and>
    map_of (st_telemetry st') = map_of (st_telemetry st)"
proof -
  let ?a = "\<lparr>tm_now = 0, tm_ts = 5, tm_values = [(''a'', JInt 1)]\<rparr>" and ?b = "\<lparr>tm_now = 0, tm_ts = 3, tm_values = [(''a'', JInt 2)]\<rparr>"
  have n: "ms_states new_memory_store = []" by (simp add: new_memory_store_def)
  obtain st where g: "get_entity_state ''t'' ''DEVICE'' ''d'' (commit_all ''t'' ''DEVICE'' ''d'' [?a, ?b] new_memory_store) = Some st"
    using merges_keep_latest [OF n, of "[?a, ?b]"] by blast
  obtain st' where g': "get_entity_state ''t'' ''DEVICE'' ''d'' (commit_all ''t'' ''DEVICE'' ''d'' [?b, ?a] new_memory_store) = Some st'"
    using merges_keep_latest [OF n, of "[?b, ?a]"] by blast
  have "map_of (st_telemetry st') = map_of (st_telemetry st)"
    using merges_commute [OF n _ _ _ _ g g'] by (simp add: merge_writes_def writes_at_def write_time_def add_mset_commute)
  with g g' show ?thesis by blast
qed

text \<open>Delivery to the watchers of a reachable in-memory store panics exactly when a watch on the key
  is cancelled between the locked section of a merge and its delivery: the merge has copied
  the list of watches, and the cancellation closes the channel.\<close>

theorem delivery_panics_iff_cancelled:
  assumes "store_reach s" "commit_telemetry now tenant etype eid ts vs s = (s', d)"
  shows "notify d (fold cancel_watch is s') = None \<longleftrightarrow>
    (\<exists>w \<in> set (ms_watches s). watches_key (state_key etype tenant eid) w \<and> mw_channel w \<in> set is)"
proof -
  have o: "open_watches s" using store_reach_open [OF assms(1)] .
  have d: "dl_key d = state_key etype tenant eid" "dl_watches d = ms_watches s" "ms_channels s' = ms_channels s"
    using assms(2) by (auto simp: commit_telemetry_def commit_change_def Let_def)
  have l: "\<forall>w \<in> set (ms_watches s). mw_channel w < length (ms_channels (fold cancel_watch is s'))"
    using o d(3) cancel_channels [of "is" s'] by (simp add: open_watches_def)
  have c: "wc_closed (ms_channels (fold cancel_watch is s') ! mw_channel w) \<longleftrightarrow> mw_channel w \<in> set is"
    if "w \<in> set (ms_watches s)" for w
    using o that cancel_channels [of "is" s' "mw_channel w"] d(3) by (simp add: open_watches_def)
  show ?thesis using notify_loop_None [OF l, of "dl_key d" "dl_change d"] c d by (auto simp: notify_def)
qed

theorem delivery_panics_iff_cancelled_witness:
  "\<exists>s s' d. store_reach s \<and> commit_telemetry 1 ''t'' ''DEVICE'' ''d'' 7 [(''a'', JInt 1)] s = (s', d) \<and>
     notify d s' \<noteq> None \<and> notify d (cancel_watch 0 s') = None"
proof -
  let ?s = "snd (watch [] new_memory_store)"
  obtain s' d where c: "commit_telemetry 1 ''t'' ''DEVICE'' ''d'' 7 [(''a'', JInt 1)] ?s = (s', d)" by fastforce
  have r: "store_reach ?s" by (intro sr_watch sr_new)
  have w: "ms_watches ?s = [\<lparr>mw_prefix = [], mw_channel = 0\<rparr>]" by (simp add: watch_def new_memory_store_def)
  show ?thesis
    using r c delivery_panics_iff_cancelled [OF r c, of "[]"] delivery_panics_iff_cancelled [OF r c, of "[0]"]
    by (intro exI [of _ ?s] exI [of _ s'] exI [of _ d]) (simp add: w watches_key_def)
qed

lemma latest_reads_doc_first:
  assumes "keys \<noteq> []" "nats_latest_telemetry kv_get kv_keys tenant etype eid keys = Inr m"
  shows "map_of m k =
    (if k \<in> set (named_keys keys) then
       (case map_of (doc_telemetry kv_get tenant etype eid) k of
          Some v \<Rightarrow> Some v
        | None \<Rightarrow> entry_value kv_get (telemetry_key etype tenant eid k))
     else None)"
proof -
  let ?doc = "doc_telemetry kv_get tenant etype eid" and ?ks = "named_keys keys"
  define found where "found = pick_values ?ks ?doc []"
  define missing where "missing = filter (\<lambda>k. map_of found k = None) ?ks"
  have trim: "map trim_space ?ks = ?ks" by (simp add: named_keys_def filter_map map_idI comp_def)
  have f: "map_of found k = (if k \<in> set ?ks then map_of ?doc k else None)" for k
    by (simp add: found_def map_of_pick_values trim)
  show ?thesis
  proof (cases "missing = []")
    case True
    then have "m = found" using assms by (simp add: nats_latest_telemetry_def Let_def found_def missing_def)
    moreover have "k \<in> set ?ks \<Longrightarrow> map_of ?doc k \<noteq> None"
      using True f [of k] unfolding missing_def filter_empty_conv by metis
    ultimately show ?thesis using f [of k] by auto
  next
    case False
    then obtain per_key where p: "per_key_loop kv_get (telemetry_key etype tenant eid) missing [] = Inr per_key"
      "m = fold (\<lambda>(k, v). AList.update k v) per_key found"
      using assms by (auto simp: nats_latest_telemetry_def Let_def found_def missing_def latest_per_key_def and_then_Inr)
    have nm: "named_keys missing = missing"
    proof -
      have "trim_space k = k \<and> k \<noteq> []" if "k \<in> set missing" for k
        using that by (auto simp: missing_def named_keys_def)
      then show ?thesis by (simp add: named_keys_def map_idI)
    qed
    have "map_of per_key k = (if k \<in> set missing then entry_value kv_get (telemetry_key etype tenant eid k) else None)"
      using per_key_loop_result [OF p(1), of k] by (simp add: nm)
    then show ?thesis
      using f [of k] p(2) map_of_rev_distinct [OF distinct_per_key_loop [OF p(1)], of k]
      by (auto simp: map_of_fold_update missing_def split: option.splits)
  qed
qed

section \<open>Concurrent merges\<close>

definition start_phases :: "'a list \<Rightarrow> phase list" where
  "start_phases ops = map (\<lambda>_. Trying 0) ops"

lemma linear_start:
  assumes "bucket_state kv_get key kv = Some st0" "length phs = length fs" "\<forall>i < length fs. phs ! i = Trying 0"
  shows "linear kv_get key fs st0 [] (phs, kv)"
  using assms by (simp add: linear_def phase_ok_def)

lemma fold_nth_map: "set is \<subseteq> {..<length xs} \<Longrightarrow> fold (\<lambda>i. map f xs ! i) is = fold (\<lambda>i. f (xs ! i)) is"
  by (induction "is") auto

lemma merges_linear:
  assumes "kv_contract kv_get kv_create kv_update (state_key etype tenant eid)" "eid \<noteq> []"
    and "bucket_state kv_get (state_key etype tenant eid) kv = Some st0" "set is \<subseteq> {..<length ops}"
    and "schedule_run kv_get kv_create kv_update (state_key etype tenant eid)
      (map (apply_op tenant etype eid) ops) is (start_phases ops, kv) = (phs, kv')"
  shows "\<exists>order. linear kv_get (state_key etype tenant eid) (map (apply_op tenant etype eid) ops) st0 order (phs, kv')"
proof -
  let ?fs = "map (apply_op tenant etype eid) ops" and ?k = "state_key etype tenant eid"
  have d: "decode_state (StatePayload (f st)) = Inr (f st)" if "f \<in> set ?fs" for f st
    using that decode_applied [OF assms(2)] by auto
  have "\<exists>order. linear kv_get ?k ?fs st0 order (schedule_run kv_get kv_create kv_update ?k ?fs is (start_phases ops, kv))"
  proof (rule schedule_run_linear [OF assms(1)])
    show "set is \<subseteq> {..<length ?fs}" using assms(4) by simp
    show "linear kv_get ?k ?fs st0 [] (start_phases ops, kv)"
      using assms(3) by (intro linear_start) (simp_all add: start_phases_def)
  qed (fact d)
  then show ?thesis unfolding assms(5) .
qed

text \<open>C12: Concurrent merges of an entity lose no update: on a bucket that keeps its contract, under
  every schedule of any number of writers, the stored document is the start document with exactly
  the committed merges applied, each once, one after the other in the order of their commits; and a
  writer that gave up did so with the conflict error, after eight commits of others.\<close>

theorem concurrent_merges_linearise:
  assumes "kv_contract kv_get kv_create kv_update (state_key etype tenant eid)" "eid \<noteq> []"
    and "bucket_state kv_get (state_key etype tenant eid) kv = Some st0" "set is \<subseteq> {..<length ops}"
    and "schedule_run kv_get kv_create kv_update (state_key etype tenant eid)
      (map (apply_op tenant etype eid) ops) is (start_phases ops, kv) = (phs, kv')"
  shows "\<exists>order. distinct order \<and> set order = {i. i < length ops \<and> phs ! i = Committed} \<and>
    bucket_state kv_get (state_key etype tenant eid) kv' = Some (fold (\<lambda>i. apply_op tenant etype eid (ops ! i)) order st0) \<and>
    (\<forall>i < length ops. \<forall>e. phs ! i = Failed e \<longrightarrow> e = UpdateConflict \<and> 8 \<le> length order)"
proof -
  let ?fs = "map (apply_op tenant etype eid) ops" and ?k = "state_key etype tenant eid"
  obtain order where l: "linear kv_get ?k ?fs st0 order (phs, kv')"
    using merges_linear [OF assms(1-5)] by blast
  have "phase_ok kv_get ?k (length order) kv' (phs ! i)" if "i < length ops" for i
    using l that by (simp add: linear_def)
  then have "e = UpdateConflict \<and> 8 \<le> length order" if "i < length ops" "phs ! i = Failed e" for i e
    using that by (fastforce simp: phase_ok_def max_attempts_def)
  moreover have "set order \<subseteq> {..<length ops}" using l by (auto simp: linear_def)
  ultimately show ?thesis using l by (intro exI [of _ order]) (simp add: linear_def fold_nth_map)
qed

text \<open>A bucket with one key.\<close>

type_synonym cell = "(payload \<times> nat) option"

definition cell_get :: "str \<Rightarrow> cell \<Rightarrow> kv_reply" where
  "cell_get key c = (case c of None \<Rightarrow> KvNotFound | Some (p, r) \<Rightarrow> KvFound p r)"

definition cell_create :: "str \<Rightarrow> payload \<Rightarrow> cell \<Rightarrow> cell option" where
  "cell_create key p c = (case c of None \<Rightarrow> Some (Some (p, 1)) | Some _ \<Rightarrow> None)"

definition cell_update :: "str \<Rightarrow> payload \<Rightarrow> nat \<Rightarrow> cell \<Rightarrow> cell option" where
  "cell_update key p r c = (case c of None \<Rightarrow> None | Some (_, r0) \<Rightarrow> if r = r0 then Some (Some (p, r + 1)) else None)"

lemma cell_contract: "kv_contract cell_get cell_create cell_update key"
  by (auto simp: kv_contract_def cell_get_def cell_create_def cell_update_def split: option.splits if_splits)

theorem concurrent_merges_linearise_witness:
  "\<exists>phs kv order.
    schedule_run cell_get cell_create cell_update (state_key ''DEVICE'' ''t'' ''d'')
      (map (apply_op ''t'' ''DEVICE'' ''d'') [TelemetryOp 0 5 [(''a'', JInt 1)], TelemetryOp 0 6 [(''b'', JInt 2)]])
      [0, 1, 0, 1, 1, 1] (start_phases [TelemetryOp 0 5 [(''a'', JInt 1)], TelemetryOp 0 6 [(''b'', JInt 2)]], None) = (phs, kv) \<and>
    phs = [Committed, Committed] \<and> distinct order \<and> set order = {0, 1 :: nat}"
proof -
  let ?ops = "[TelemetryOp 0 5 [(''a'', JInt 1)], TelemetryOp 0 6 [(''b'', JInt 2)]]" and ?k = "state_key ''DEVICE'' ''t'' ''d''"
  obtain phs kv where run: "schedule_run cell_get cell_create cell_update ?k (map (apply_op ''t'' ''DEVICE'' ''d'') ?ops)
      [0, 1, 0, 1, 1, 1] (start_phases ?ops, None) = (phs, kv)" by (rule prod.exhaust)
  have phs: "phs = [Committed, Committed]"
  proof -
    have "fst (schedule_run cell_get cell_create cell_update ?k (map (apply_op ''t'' ''DEVICE'' ''d'') ?ops)
        [0, 1, 0, 1, 1, 1] (start_phases ?ops, None)) = [Committed, Committed]" by code_simp
    with run show ?thesis by simp
  qed
  have b: "bucket_state cell_get ?k None = Some zero_state" by (simp add: bucket_state_def cell_get_def)
  have committed: "{i. i < length ?ops \<and> phs ! i = Committed} = {0, 1}"
    by (auto simp: phs less_Suc_eq)
  have side: "''d'' \<noteq> []" "set [0, 1, 0, 1, 1, 1] \<subseteq> {..<length ?ops}" by simp_all
  from concurrent_merges_linearise [OF cell_contract side(1) b side(2) run] obtain order :: "nat list"
    where o: "distinct order" "set order = {0, 1}"
    unfolding committed by (elim exE conjE) (rule that)
  show ?thesis by (rule exI [of _ phs], rule exI [of _ kv], rule exI [of _ order]) (intro conjI run phs o)
qed

text \<open>C13: Every merge ends: a writer that has made seventeen calls or more has committed or given up,
  whatever the others do; and when at most eight writers work on the entity, none gives up, so
  that all their merges are in the stored document.\<close>

theorem concurrent_merges_end:
  assumes "kv_contract kv_get kv_create kv_update (state_key etype tenant eid)" "eid \<noteq> []"
    and "bucket_state kv_get (state_key etype tenant eid) kv = Some st0" "set is \<subseteq> {..<length ops}"
    and "schedule_run kv_get kv_create kv_update (state_key etype tenant eid)
      (map (apply_op tenant etype eid) ops) is (start_phases ops, kv) = (phs, kv')"
    and "\<forall>i < length ops. 17 \<le> count_list is i"
  shows "(\<forall>i < length ops. phs ! i = Committed \<or> phs ! i = Failed UpdateConflict) \<and>
    (length ops \<le> 8 \<longrightarrow> (\<forall>i < length ops. phs ! i = Committed))"
proof -
  let ?fs = "map (apply_op tenant etype eid) ops" and ?k = "state_key etype tenant eid"
  obtain order where l: "linear kv_get ?k ?fs st0 order (phs, kv')"
    using merges_linear [OF assms(1-5)] by blast
  have ok: "phase_ok kv_get ?k (length order) kv' (phs ! i)" if "i < length ops" for i
    using l that by (simp add: linear_def)
  have ended: "phs ! i = Committed \<or> (\<exists>e. phs ! i = Failed e)" if "i < length ops" for i
  proof -
    have s: "start_phases ops ! i = Trying 0" "length (start_phases ops) = length ops"
      using that by (simp_all add: start_phases_def)
    have "attempt_ok (phs ! i) \<and> remaining (phs ! i) \<le> remaining (start_phases ops ! i) - count_list is i"
      using schedule_run_remaining [OF assms(5), of i] s that by (simp add: attempt_ok_def)
    moreover have "17 \<le> count_list is i" using assms(6) that by blast
    ultimately show ?thesis using remaining_0 s by (simp add: max_attempts_def)
  qed
  have one: "phs ! i = Committed \<or> phs ! i = Failed UpdateConflict" if "i < length ops" for i
    using ended [OF that] ok [OF that] by (auto simp: phase_ok_def)
  moreover have "phs ! i = Committed" if "i < length ops" "length ops \<le> 8" for i
  proof (rule ccontr)
    assume "phs ! i \<noteq> Committed"
    then have f: "phs ! i = Failed UpdateConflict" using one that(1) by blast
    then have "8 \<le> length order" using ok [OF that(1)] by (simp add: phase_ok_def max_attempts_def)
    moreover have "length order = card (set order)" using l distinct_card unfolding linear_def by metis
    moreover have "set order \<subseteq> {..<length ops} - {i}" using l f by (auto simp: linear_def)
    then have "card (set order) \<le> card ({..<length ops} - {i})" by (intro card_mono) simp_all
    ultimately show False using that by simp
  qed
  ultimately show ?thesis by blast
qed

theorem concurrent_merges_end_witness:
  "\<exists>phs kv. schedule_run cell_get cell_create cell_update (state_key ''DEVICE'' ''t'' ''d'')
      (map (apply_op ''t'' ''DEVICE'' ''d'') [TelemetryOp 0 5 [], TelemetryOp 0 6 []])
      (concat (replicate 17 [0, 1])) (start_phases [TelemetryOp 0 5 [], TelemetryOp 0 6 []], None) = (phs, kv) \<and>
    phs ! 0 = Committed \<and> phs ! 1 = Committed"
proof -
  let ?ops = "[TelemetryOp 0 5 [], TelemetryOp 0 6 []]" and ?k = "state_key ''DEVICE'' ''t'' ''d''"
  obtain phs kv where run: "schedule_run cell_get cell_create cell_update ?k (map (apply_op ''t'' ''DEVICE'' ''d'') ?ops)
      (concat (replicate 17 [0, 1])) (start_phases ?ops, None) = (phs, kv)" by (rule prod.exhaust)
  have b: "bucket_state cell_get ?k None = Some zero_state" by (simp add: bucket_state_def cell_get_def)
  have c: "count_list (concat (replicate 17 [0, 1])) (0 :: nat) = 17" "count_list (concat (replicate 17 [0, 1])) (1 :: nat) = 17"
    by (simp_all add: eval_nat_numeral)
  have "\<forall>i < length ?ops. 17 \<le> count_list (concat (replicate 17 [0, 1])) i"
    using c by (auto simp: less_Suc_eq)
  moreover have "set (concat (replicate 17 [0, 1])) \<subseteq> {..<length ?ops}" by auto
  moreover have "''d'' \<noteq> []" "length ?ops \<le> 8" by simp_all
  ultimately have "\<forall>i < length ?ops. phs ! i = Committed"
    using concurrent_merges_end [OF cell_contract _ b _ run] by blast
  then have "phs ! 0 = Committed" "phs ! 1 = Committed" by simp_all
  with run show ?thesis by blast
qed

end
