(* ===== verification/TwinList.thy ===== *)
theory TwinList
  imports TopologyExpand TwinWrite
begin

text \<open>
  The listing of twins (internal/twin/list.go): filters over the registry, keyset pagination with a
  cursor bound to a tenant, and the relation filter over the topology and the legacy relations.

  Parameters: the text encoding of a cursor (base64 over JSON) and its decoding, the database's cast
  to uuid (canonical text, \<open>None\<close> when the cast fails), the text of a JSON value that is not a string,
  and the projection of a row to an item, which reads features and relations (\<open>None\<close> when it fails).
\<close>

section \<open>Cursors\<close>

record list_cursor =
  lc_tenant :: str
  lc_type :: str
  lc_id :: str

definition default_list_page_size :: int where "default_list_page_size = 100"

definition decode_list_cursor :: "(str \<Rightarrow> list_cursor option) \<Rightarrow> str \<Rightarrow> list_cursor option" where
  "decode_list_cursor dec raw =
     (case dec raw of
        None \<Rightarrow> None
      | Some c \<Rightarrow> if lc_tenant c = [] \<or> lc_type c = [] \<or> lc_id c = [] then None else Some c)"

section \<open>Filters\<close>

text \<open>The pattern language of LIKE, on lower-cased text for ILIKE.\<close>

fun like :: "str \<Rightarrow> str \<Rightarrow> bool" where
  "like [] s = (s = [])"
| "like (p # ps) s =
     (if p = CHR ''%'' then like ps s \<or> (case s of [] \<Rightarrow> False | _ # cs \<Rightarrow> like (p # ps) cs)
      else (case s of
              [] \<Rightarrow> False
            | c # cs \<Rightarrow>
                if p = CHR ''_'' then like ps cs
                else if char_code p = 92 then (case ps of [] \<Rightarrow> False | q # qs \<Rightarrow> q = c \<and> like qs cs)
                else p = c \<and> like ps cs))"

definition ilike_contains :: "str \<Rightarrow> str \<Rightarrow> bool" where
  "ilike_contains s needle = like (to_lower (''%'' @ needle @ ''%'')) (to_lower s)"

text \<open>\<open>attributes ->> key\<close>.\<close>

definition attr_text :: "(json \<Rightarrow> str) \<Rightarrow> json \<Rightarrow> str \<Rightarrow> str option" where
  "attr_text fmt attrs key =
     (case obj_get (as_object (Some attrs)) key of
        None \<Rightarrow> None
      | Some JNull \<Rightarrow> None
      | Some (JStr s) \<Rightarrow> Some s
      | Some v \<Rightarrow> Some (fmt v))"

definition attr_matches :: "(json \<Rightarrow> str) \<Rightarrow> registry_row \<Rightarrow> str \<Rightarrow> str \<Rightarrow> bool" where
  "attr_matches fmt r needle key =
     (case attr_text fmt (rg_attributes r) key of None \<Rightarrow> False | Some s \<Rightarrow> ilike_contains s needle)"

definition row_ref :: "registry_row \<Rightarrow> entity_ref" where
  "row_ref r = \<lparr>ref_type = rg_entity_type r, ref_id = rg_entity_id r\<rparr>"

definition topology_relation_exists :: "topo_db \<Rightarrow> str \<Rightarrow> str \<Rightarrow> registry_row \<Rightarrow> bool" where
  "topology_relation_exists db direction relation r =
     list_ex (\<lambda>te. te_tenant te = rg_tenant r \<and> te_group te = ''COMMON'' \<and> te_relation te = relation \<and>
         (te_direction te = ''DIRECTED'' \<and> (if direction = ''TO'' then te_to te else te_from te) = row_ref r \<or>
          te_direction te = ''BIDIRECTIONAL'' \<and> (te_from te = row_ref r \<or> te_to te = row_ref r)))
       (tp_edges db)"

definition legacy_relation_exists :: "topo_db \<Rightarrow> str \<Rightarrow> str \<Rightarrow> registry_row \<Rightarrow> bool" where
  "legacy_relation_exists db direction relation r =
     list_ex (\<lambda>lr. lr_relation lr = relation \<and>
         (if direction = ''TO'' then lr_to lr else lr_from lr) = row_ref r \<and>
         far_tenant db (if direction = ''TO'' then lr_from lr else lr_to lr) = Some (rg_tenant r))
       (tp_relations db)"

record list_filter =
  lf_kind :: str
  lf_definition :: str
  lf_text :: str
  lf_relation :: str
  lf_direction :: str

definition list_filters ::
  "(json \<Rightarrow> str) \<Rightarrow> topo_db \<Rightarrow> str \<Rightarrow> bool \<Rightarrow> list_filter \<Rightarrow> registry_row \<Rightarrow> bool" where
  "list_filters fmt db caller_tenant sys_admin f r \<longleftrightarrow>
     ((\<not> sys_admin \<or> caller_tenant \<noteq> []) \<longrightarrow> rg_tenant r = caller_tenant) \<and>
     (lf_kind f \<noteq> [] \<longrightarrow> rg_entity_type r = lf_kind f) \<and>
     (lf_definition f \<noteq> [] \<longrightarrow> ilike_contains (rg_definition r) (lf_definition f)) \<and>
     (lf_text f \<noteq> [] \<longrightarrow> list_ex (attr_matches fmt r (lf_text f)) [''name'', ''type'', ''label'']) \<and>
     (lf_relation f \<noteq> [] \<longrightarrow>
        topology_relation_exists db (lf_direction f) (lf_relation f) r \<or>
        legacy_relation_exists db (lf_direction f) (lf_relation f) r)"

section \<open>Pages\<close>

definition query_list_rows ::
  "(registry_row \<Rightarrow> bool) \<Rightarrow> (str \<times> str \<times> str) option \<Rightarrow> nat \<Rightarrow> registry_row list \<Rightarrow> registry_row list" where
  "query_list_rows p after limit rows =
     take limit (sort_key registry_key
       (filter (\<lambda>r. p r \<and> (case after of None \<Rightarrow> True | Some k \<Rightarrow> k < registry_key r)) rows))"

definition keyset :: "(str \<Rightarrow> str option) \<Rightarrow> list_cursor option \<Rightarrow> http_error + (str \<times> str \<times> str) option" where
  "keyset to_uuid after =
     (case after of
        None \<Rightarrow> Inr None
      | Some c \<Rightarrow>
          (case (to_uuid (lc_tenant c), to_uuid (lc_id c)) of
             (Some t, Some i) \<Rightarrow> Inr (Some (t, lc_type c, i))
           | _ \<Rightarrow> Inl (HttpError 500 ''Twin list query failed'')))"

text \<open>The tenant the rows are compared with, cast by the database.\<close>

definition tenant_arg :: "(str \<Rightarrow> str option) \<Rightarrow> bool \<Rightarrow> str \<Rightarrow> http_error + str" where
  "tenant_arg to_uuid sys_admin caller_tenant =
     (if sys_admin \<and> caller_tenant = [] then Inr []
      else or_fail (to_uuid caller_tenant) (HttpError 500 ''Twin count query failed''))"

record 'i list_page =
  lp_data :: "'i list"
  lp_next :: "str option"
  lp_has_next :: bool
  lp_total :: nat

fun build_items :: "(registry_row \<Rightarrow> 'i option) \<Rightarrow> registry_row list \<Rightarrow> http_error + 'i list" where
  "build_items build [] = Inr []"
| "build_items build (r # rs) =
     (case build r of
        None \<Rightarrow> Inl (HttpError 500 ''Twin projection failed'')
      | Some i \<Rightarrow> and_then (build_items build rs) (\<lambda>is. Inr (i # is)))"

definition list_filter_of :: "(str \<times> str) list \<Rightarrow> http_error + list_filter" where
  "list_filter_of query =
     (let kind = to_upper (trim_space (query_get query ''kind''));
          dir = or_default ''FROM'' (to_upper (trim_space (query_get query ''relationDirection'')))
      in if kind \<noteq> [] \<and> kind \<noteq> ''DEVICE'' \<and> kind \<noteq> ''ASSET'' then Inl (HttpError 400 ''Unsupported twin kind'')
         else if dir \<noteq> ''FROM'' \<and> dir \<noteq> ''TO'' then Inl (HttpError 400 ''Unsupported relation direction'')
         else Inr \<lparr>lf_kind = kind, lf_definition = trim_space (query_get query ''definition''),
                lf_text = trim_space (query_get query ''text''),
                lf_relation = trim_space (query_get query ''relationType''), lf_direction = dir\<rparr>)"

definition list_cursor_of ::
  "(str \<Rightarrow> list_cursor option) \<Rightarrow> bool \<Rightarrow> str \<Rightarrow> (str \<times> str) list \<Rightarrow> http_error + list_cursor option" where
  "list_cursor_of dec sys_admin caller_tenant query =
     (let raw = query_get query ''cursor''
      in if raw = [] then Inr None
         else and_then (or_fail (decode_list_cursor dec raw) (HttpError 400 ''Invalid cursor'')) (\<lambda>c.
                if \<not> sys_admin \<and> lc_tenant c \<noteq> caller_tenant
                then Inl (HttpError 400 ''Cursor is bound to another tenant'') else Inr (Some c)))"

definition row_cursor :: "registry_row \<Rightarrow> list_cursor" where
  "row_cursor r = \<lparr>lc_tenant = rg_tenant r, lc_type = rg_entity_type r, lc_id = rg_entity_id r\<rparr>"

definition list_response_page ::
  "(list_cursor \<Rightarrow> str) \<Rightarrow> nat \<Rightarrow> nat \<Rightarrow> registry_row list \<Rightarrow> 'i list \<Rightarrow> 'i list_page" where
  "list_response_page enc psize row_count rows items =
     \<lparr>lp_data = items,
      lp_next = (if psize < length rows \<and> take psize rows \<noteq> [] then Some (enc (row_cursor (last (take psize rows)))) else None),
      lp_has_next = psize < length rows, lp_total = row_count\<rparr>"

definition handle_list ::
  "(list_cursor \<Rightarrow> str) \<Rightarrow> (str \<Rightarrow> list_cursor option) \<Rightarrow> (str \<Rightarrow> str option) \<Rightarrow> (json \<Rightarrow> str) \<Rightarrow> (registry_row \<Rightarrow> 'i option) \<Rightarrow>
   str \<Rightarrow> members option \<Rightarrow> (str \<times> str) list \<Rightarrow> topo_db option \<Rightarrow> http_error + 'i list_page" where
  "handle_list enc dec to_uuid fmt build http_method claims query pool =
     (if http_method \<noteq> ''GET'' then Inl (HttpError 405 ''Method Not Allowed'')
      else and_then (require_auth claims) (\<lambda>c.
        and_then (or_fail pool (HttpError 503 ''Database not ready'')) (\<lambda>db.
        let caller = claim_string c ''tenantId''; sys = is_sys_admin c;
            psize = nat (page_size query default_list_page_size);
            rows = db_registry (tp_twins db)
        in if \<not> sys \<and> caller = [] then Inl (HttpError 401 ''Authentication required'')
           else and_then (list_filter_of query) (\<lambda>f.
                and_then (list_cursor_of dec sys caller query) (\<lambda>after.
                and_then (tenant_arg to_uuid sys caller) (\<lambda>tenant.
                let p = list_filters fmt db tenant sys f
                in and_then (keyset to_uuid after) (\<lambda>k.
                   let found = query_list_rows p k (psize + 1) rows
                   in and_then (build_items build (take psize found)) (\<lambda>items.
                      Inr (list_response_page enc psize (length (filter p rows)) found items)))))))))"

text \<open>A client that follows the links; \<open>None\<close> when a request fails or the fuel ends.\<close>

fun follow_links :: "nat \<Rightarrow> (str \<Rightarrow> http_error + 'i list_page) \<Rightarrow> str \<Rightarrow> 'i list option" where
  "follow_links 0 request cursor = None"
| "follow_links (Suc n) request cursor =
     (case request cursor of
        Inl _ \<Rightarrow> None
      | Inr pg \<Rightarrow>
          (case lp_next pg of
             None \<Rightarrow> Some (lp_data pg)
           | Some link \<Rightarrow> map_option (\<lambda>is. lp_data pg @ is) (follow_links n request link)))"

end
