(* ===== verification/TwinListProps.thy ===== *)
theory TwinListProps
  imports TwinList
begin

text \<open>
  The laws of the twin listing: a client that follows the links sees every matching twin exactly once,
  in the order of the registry's keys, and a caller bound to a tenant sees nothing else.
\<close>

section \<open>Keyset pagination\<close>

lemma filter_greater_drop:
  fixes f :: "'a \<Rightarrow> 'b::linorder"
  assumes "sorted_wrt (<) (map f xs)" "i < length xs"
  shows "filter (\<lambda>x. f (xs ! i) < f x) xs = drop (Suc i) xs"
  using assms
proof (induction xs arbitrary: i)
  case Nil
  then show ?case by simp
next
  case (Cons x xs)
  have below: "\<forall>y \<in> set xs. f x < f y" using Cons.prems(1) by simp
  show ?case
  proof (cases i)
    case 0
    with below show ?thesis by (simp add: filter_id_conv)
  next
    case (Suc j)
    then have "j < length xs" using Cons.prems(2) by simp
    moreover from this have "\<not> f (xs ! j) < f x" using below nth_mem less_asym by blast
    ultimately show ?thesis using Cons.IH [of j] Cons.prems(1) Suc by simp
  qed
qed

lemma strict_sorted_sort_key:
  fixes f :: "'a \<Rightarrow> 'b::linorder"
  assumes "distinct (map f xs)"
  shows "sorted_wrt (<) (map f (sort_key f xs))"
proof -
  have "distinct (map f (sort_key f xs))"
    using assms by (metis distinct_map distinct_sort set_sort)
  then show ?thesis by (simp add: strict_sorted_iff)
qed

text \<open>The page that starts after the row at position \<open>i\<close> of the sorted selection.\<close>

definition selection :: "(registry_row \<Rightarrow> bool) \<Rightarrow> registry_row list \<Rightarrow> registry_row list" where
  "selection p rows = sort_key registry_key (filter p rows)"

lemma query_first: "query_list_rows p None n rows = take n (selection p rows)"
  by (simp add: query_list_rows_def selection_def)

lemma query_next:
  assumes "distinct (map registry_key rows)" "i < length (selection p rows)"
  shows "query_list_rows p (Some (registry_key (selection p rows ! i))) n rows = take n (drop (Suc i) (selection p rows))"
proof -
  have "distinct (map registry_key (filter p rows))" using assms(1) by (rule distinct_map_filter)
  then have s: "sorted_wrt (<) (map registry_key (selection p rows))"
    unfolding selection_def by (rule strict_sorted_sort_key)
  have "sort_key registry_key (filter (\<lambda>r. p r \<and> k < registry_key r) rows) =
      filter (\<lambda>r. k < registry_key r) (selection p rows)" for k
    by (simp add: selection_def filter_sort conj_commute)
  then show ?thesis using filter_greater_drop [OF s assms(2)] by (simp add: query_list_rows_def)
qed

lemma build_items_total: "(\<And>r. r \<in> set rs \<Longrightarrow> build r = Some (f r)) \<Longrightarrow> build_items build rs = Inr (map f rs)"
  by (induction rs) auto

section \<open>Following the links\<close>

text \<open>Stored rows have ids the database casts to themselves.\<close>

definition listable :: "(str \<Rightarrow> str option) \<Rightarrow> registry_row list \<Rightarrow> bool" where
  "listable to_uuid rows \<longleftrightarrow> distinct (map registry_key rows) \<and>
     (\<forall>r \<in> set rows. to_uuid (rg_tenant r) = Some (rg_tenant r) \<and> to_uuid (rg_entity_id r) = Some (rg_entity_id r) \<and>
        rg_tenant r \<noteq> [] \<and> rg_entity_type r \<noteq> [] \<and> rg_entity_id r \<noteq> [])"

definition with_cursor :: "str \<Rightarrow> (str \<times> str) list \<Rightarrow> (str \<times> str) list" where
  "with_cursor cursor query = (''cursor'', cursor) # query"

lemma query_get_cursor [simp]:
  "query_get (with_cursor cursor query) ''cursor'' = cursor"
  "k \<noteq> ''cursor'' \<Longrightarrow> query_get (with_cursor cursor query) k = query_get query k"
  by (simp_all add: query_get_def with_cursor_def)

lemma list_filter_of_cursor [simp]: "list_filter_of (with_cursor cursor query) = list_filter_of query"
  by (simp add: list_filter_of_def Let_def cong: if_cong)

lemma page_size_cursor [simp]: "page_size (with_cursor cursor query) d = page_size query d"
  by (simp add: page_size_def int_param_def)

definition position_cursor :: "(list_cursor \<Rightarrow> str) \<Rightarrow> registry_row list \<Rightarrow> nat \<Rightarrow> str" where
  "position_cursor enc sel i = (if i = 0 then [] else enc (row_cursor (sel ! (i - 1))))"

lemma handle_list_at:
  fixes enc dec to_uuid fmt build query db
  assumes codec: "\<forall>r \<in> set (db_registry (tp_twins db)). dec (enc (row_cursor r)) = Some (row_cursor r) \<and> enc (row_cursor r) \<noteq> []"
    and rows: "listable to_uuid (db_registry (tp_twins db))"
    and c: "is_sys_admin c \<or> claim_string c ''tenantId'' \<noteq> []"
    and u: "claim_string c ''tenantId'' \<noteq> [] \<longrightarrow> to_uuid (claim_string c ''tenantId'') = Some (claim_string c ''tenantId'')"
    and f: "list_filter_of query = Inr f"
    and build: "\<And>r. r \<in> set (db_registry (tp_twins db)) \<Longrightarrow> build r = Some (item r)"
  defines "sel \<equiv> selection (list_filters fmt db (claim_string c ''tenantId'') (is_sys_admin c) f) (db_registry (tp_twins db))"
    and "sz \<equiv> nat (page_size query default_list_page_size)"
  assumes i: "i \<le> length sel"
  shows "handle_list enc dec to_uuid fmt build ''GET'' (Some c) (with_cursor (position_cursor enc sel i) query) (Some db) =
    Inr (list_response_page enc sz (length sel) (take (Suc sz) (drop i sel)) (map item (take sz (drop i sel))))"
proof -
  let ?rows = "db_registry (tp_twins db)" and ?p = "list_filters fmt db (claim_string c ''tenantId'') (is_sys_admin c) f"
  have sub: "set sel \<subseteq> {r \<in> set ?rows. ?p r}" by (auto simp: sel_def selection_def)
  have len: "length (filter ?p ?rows) = length sel" by (simp add: sel_def selection_def)
  have items: "build_items build (take sz (take (Suc sz) (drop i sel))) = Inr (map item (take sz (drop i sel)))"
    using sub by (subst build_items_total [of _ build item]) (auto simp: build min_def dest!: in_set_takeD in_set_dropD)
  have "\<exists>after k. list_cursor_of dec (is_sys_admin c) (claim_string c ''tenantId'')
      (with_cursor (position_cursor enc sel i) query) = Inr after \<and> keyset to_uuid after = Inr k \<and>
      query_list_rows ?p k (Suc sz) ?rows = take (Suc sz) (drop i sel)"
  proof (cases i)
    case 0
    then show ?thesis
      by (intro exI [of _ None]) (simp add: list_cursor_of_def position_cursor_def keyset_def query_first sel_def)
  next
    case (Suc j)
    then have j: "j < length sel" using i by simp
    let ?r = "sel ! j"
    have r: "?r \<in> set ?rows" "?p ?r" using nth_mem [OF j] sub by auto
    have key: "registry_key ?r = (rg_tenant ?r, rg_entity_type ?r, rg_entity_id ?r)" by (simp add: registry_key_def)
    have "query_list_rows ?p (Some (registry_key ?r)) (Suc sz) ?rows = take (Suc sz) (drop i sel)"
      using query_next [OF _ j [unfolded sel_def]] rows Suc by (simp add: listable_def sel_def)
    moreover have "keyset to_uuid (Some (row_cursor ?r)) = Inr (Some (registry_key ?r))"
      using rows r(1) by (simp add: keyset_def row_cursor_def listable_def key)
    moreover have "list_cursor_of dec (is_sys_admin c) (claim_string c ''tenantId'')
        (with_cursor (position_cursor enc sel i) query) = Inr (Some (row_cursor ?r))"
      using rows r bspec [OF codec r(1)] Suc
      by (auto simp: list_cursor_of_def position_cursor_def decode_list_cursor_def row_cursor_def listable_def
          list_filters_def Let_def)
    ultimately show ?thesis by blast
  qed
  moreover have "tenant_arg to_uuid (is_sys_admin c) (claim_string c ''tenantId'') = Inr (claim_string c ''tenantId'')"
    using c u by (auto simp: tenant_arg_def)
  ultimately show ?thesis
    using c f items by (auto simp: handle_list_def require_auth_def Let_def sz_def len)
qed

lemma follow_links_from:
  assumes h: "\<And>i. i \<le> length sel \<Longrightarrow>
      request (position_cursor enc sel i) = Inr (list_response_page enc sz m (take (Suc sz) (drop i sel)) (map item (take sz (drop i sel))))"
    and sz: "0 < sz"
  shows "i \<le> length sel \<Longrightarrow> length sel - i < n \<Longrightarrow>
    follow_links n request (position_cursor enc sel i) = Some (map item (drop i sel))"
proof (induction n arbitrary: i)
  case 0
  then show ?case by simp
next
  case (Suc n)
  show ?case
  proof (cases "sz < length sel - i")
    case False
    then show ?thesis using h [OF Suc.prems(1)] by (simp add: list_response_page_def)
  next
    case True
    have "take sz (take (Suc sz) (drop i sel)) = take sz (drop i sel)" by (simp add: min_def)
    moreover have "take sz (drop i sel) \<noteq> []" using True sz by simp
    moreover from this have "last (take sz (drop i sel)) = sel ! (i + sz - 1)"
      using True sz by (simp add: last_conv_nth nth_append min_def)
    ultimately have "request (position_cursor enc sel i) = Inr \<lparr>lp_data = map item (take sz (drop i sel)),
        lp_next = Some (position_cursor enc sel (i + sz)), lp_has_next = True, lp_total = m\<rparr>"
      using h [OF Suc.prems(1)] True sz by (simp add: list_response_page_def position_cursor_def)
    moreover have "follow_links n request (position_cursor enc sel (i + sz)) = Some (map item (drop (i + sz) sel))"
      using Suc.IH [of "i + sz"] Suc.prems(2) True sz by simp
    moreover have "map item (take sz (drop i sel)) @ map item (drop (i + sz) sel) = map item (drop i sel)"
      by (metis append_take_drop_id drop_drop map_append add.commute)
    ultimately show ?thesis by simp
  qed
qed

section \<open>Properties\<close>

text \<open>C14: Listing twins is complete: while the database does not change, a client that follows the
  links from the first page gets the items of exactly the matching rows, each once, in the order of
  the registry's keys, whatever the page size, and the links end.\<close>

theorem listing_is_complete:
  assumes "\<forall>r \<in> set (db_registry (tp_twins db)). dec (enc (row_cursor r)) = Some (row_cursor r) \<and> enc (row_cursor r) \<noteq> []"
    and "listable to_uuid (db_registry (tp_twins db))"
    and "is_sys_admin c \<or> claim_string c ''tenantId'' \<noteq> []"
    and "claim_string c ''tenantId'' \<noteq> [] \<longrightarrow> to_uuid (claim_string c ''tenantId'') = Some (claim_string c ''tenantId'')"
    and "list_filter_of query = Inr f"
    and "\<forall>r \<in> set (db_registry (tp_twins db)). build r = Some (item r)"
    and "length (db_registry (tp_twins db)) < n"
  shows "follow_links n (\<lambda>cursor. handle_list enc dec to_uuid fmt build ''GET'' (Some c) (with_cursor cursor query) (Some db)) [] =
    Some (map item (sort_key registry_key (filter
      (list_filters fmt db (claim_string c ''tenantId'') (is_sys_admin c) f) (db_registry (tp_twins db)))))"
proof -
  let ?sel = "selection (list_filters fmt db (claim_string c ''tenantId'') (is_sys_admin c) f) (db_registry (tp_twins db))"
  have sz: "0 < nat (page_size query default_list_page_size)"
    using clamp_page_size_bounds by (simp add: page_size_def less_le_trans [of 0 1])
  have "length ?sel < n"
    using assms(7) le_less_trans [OF length_filter_le] by (simp add: selection_def)
  moreover have "follow_links n (\<lambda>cursor. handle_list enc dec to_uuid fmt build ''GET'' (Some c) (with_cursor cursor query) (Some db))
      (position_cursor enc ?sel 0) = Some (map item (drop 0 ?sel))"
    if "length ?sel < n"
    by (rule follow_links_from [OF handle_list_at [OF assms(1-5)] sz]) (use assms(6) that in auto)
  ultimately show ?thesis by (simp add: position_cursor_def selection_def)
qed

text \<open>A caller with a tenant claim sees only twins of that tenant, and their count: every row of
  a page is a matching row of the tenant, and a cursor of another tenant is refused. This holds
  for a system administrator with a tenant claim as well.\<close>

theorem listing_within_tenant:
  assumes "handle_list enc dec to_uuid fmt build http_method (Some c) query (Some db) = Inr pg"
    and "claim_string c ''tenantId'' = tenant" "tenant \<noteq> []" "to_uuid tenant = Some tenant"
  shows "\<exists>rows f. map build rows = map Some (lp_data pg) \<and> list_filter_of query = Inr f \<and>
    set rows \<subseteq> {r \<in> set (db_registry (tp_twins db)). rg_tenant r = tenant \<and> list_filters fmt db tenant (is_sys_admin c) f r} \<and>
    lp_total pg = length (filter (\<lambda>r. rg_tenant r = tenant \<and> list_filters fmt db tenant (is_sys_admin c) f r) (db_registry (tp_twins db))) \<and>
    (\<not> is_sys_admin c \<longrightarrow> query_get query ''cursor'' \<noteq> [] \<longrightarrow> (\<exists>k. dec (query_get query ''cursor'') = Some k \<and> lc_tenant k = tenant))"
proof -
  have items: "build_items build rs = Inr is \<Longrightarrow> map build rs = map Some is" for rs "is"
    by (induction rs arbitrary: "is") (auto split: option.splits simp: and_then_Inr)
  let ?rows = "db_registry (tp_twins db)"
  note defs = handle_list_def require_auth_def Let_def tenant_arg_def assms(2-4)
  obtain f where f: "list_filter_of query = Inr f"
    using assms(1) by (cases "list_filter_of query") (auto simp: defs split: if_splits)
  obtain after where after: "list_cursor_of dec (is_sys_admin c) tenant query = Inr after"
    using assms(1) f by (cases "list_cursor_of dec (is_sys_admin c) tenant query") (auto simp: defs split: if_splits)
  obtain k where k: "keyset to_uuid after = Inr k"
    using assms(1) f after by (cases "keyset to_uuid after") (auto simp: defs split: if_splits)
  let ?page = "take (nat (page_size query default_list_page_size))
      (query_list_rows (list_filters fmt db tenant (is_sys_admin c) f) k
        (nat (page_size query default_list_page_size) + 1) ?rows)"
  obtain "is" where its: "build_items build ?page = Inr is"
    using assms(1) f after k by (cases "build_items build ?page") (auto simp: defs split: if_splits)
  have pg: "lp_data pg = is" "lp_total pg = length (filter (list_filters fmt db tenant (is_sys_admin c) f) ?rows)"
    using assms(1) f after k its by (auto simp: defs list_response_page_def split: if_splits)
  have own: "list_filters fmt db tenant s f r \<Longrightarrow> rg_tenant r = tenant" for s r
    using assms(3) by (simp add: list_filters_def)
  have "set ?page \<subseteq> {r \<in> set ?rows. list_filters fmt db tenant (is_sys_admin c) f r}"
    by (auto simp: query_list_rows_def dest!: in_set_takeD)
  then have sub: "set ?page \<subseteq> {r \<in> set ?rows. rg_tenant r = tenant \<and> list_filters fmt db tenant (is_sys_admin c) f r}"
    using own by blast
  have cnt: "filter (\<lambda>r. rg_tenant r = tenant \<and> list_filters fmt db tenant (is_sys_admin c) f r) ?rows =
      filter (list_filters fmt db tenant (is_sys_admin c) f) ?rows"
    using own by (intro filter_cong) auto
  have cur: "\<not> is_sys_admin c \<longrightarrow> query_get query ''cursor'' \<noteq> [] \<longrightarrow>
      (\<exists>k. dec (query_get query ''cursor'') = Some k \<and> lc_tenant k = tenant)"
    using after by (auto simp: list_cursor_of_def decode_list_cursor_def Let_def and_then_Inr or_fail_Inr
        split: if_splits option.splits)
  show ?thesis
    using items [OF its] sub cnt cur f pg by (intro exI [of _ ?page] exI [of _ f]) simp
qed

section \<open>A small tenant\<close>

definition demo_row :: "str \<Rightarrow> str \<Rightarrow> registry_row" where
  "demo_row tenant eid = \<lparr>rg_tenant = tenant, rg_thing_id = [], rg_entity_type = ''DEVICE'', rg_entity_id = eid,
     rg_policy_id = [], rg_definition = [], rg_attributes = JObj [], rg_model_id = None, rg_model_version = None,
     rg_created = 0, rg_updated = 0, rg_version = 1\<rparr>"

definition demo_list_db :: topo_db where
  "demo_list_db = \<lparr>tp_edges = [], tp_relations = [], tp_types = [], tp_owners = [],
     tp_twins = \<lparr>db_devices = [], db_assets = [], db_models = [],
       db_registry = [demo_row ''t'' ''c'', demo_row ''t'' ''a'', demo_row ''u'' ''x'', demo_row ''t'' ''b''], db_relation_types = []\<rparr>\<rparr>"

definition demo_request :: "str \<Rightarrow> http_error + str list_page" where
  "demo_request cursor = handle_list (\<lambda>c. lc_tenant c @ lc_id c)
     (\<lambda>s. Some \<lparr>lc_tenant = take 1 s, lc_type = ''DEVICE'', lc_id = drop 1 s\<rparr>) Some (\<lambda>_. [])
     (Some \<circ> rg_entity_id) ''GET'' (Some [(''tenantId'', JStr ''t'')]) (with_cursor cursor [(''pageSize'', ''2'')])
     (Some demo_list_db)"

lemma demo_request_pages: "demo_request [] = Inr \<lparr>lp_data = [''a'', ''b''], lp_next = Some ''tb'', lp_has_next = True, lp_total = 3\<rparr>"
  by code_simp

theorem listing_within_tenant_witness:
  "\<exists>pg. demo_request [] = Inr pg \<and> lp_total pg = 3 \<and> (\<exists>rows :: registry_row list. map (Some \<circ> rg_entity_id) rows = map Some (lp_data pg) \<and>
     (\<forall>r \<in> set rows. rg_tenant r = ''t''))"
proof -
  have "claim_string [(''tenantId'', JStr ''t'')] ''tenantId'' = ''t''" "''t'' \<noteq> []" "Some ''t'' = Some ''t''" by (code_simp, simp, simp)
  from listing_within_tenant [OF demo_request_pages [unfolded demo_request_def] this]
  have "\<exists>rows :: registry_row list. map (Some \<circ> rg_entity_id) rows = map Some [''a'', ''b''] \<and> (\<forall>r \<in> set rows. rg_tenant r = ''t'')"
    unfolding list_page.select_convs by blast
  then show ?thesis
    using demo_request_pages by (intro exI [of _ "\<lparr>lp_data = [''a'', ''b''], lp_next = Some ''tb'', lp_has_next = True, lp_total = 3\<rparr>"]
      conjI) simp_all
qed

theorem listing_is_complete_witness:
  "follow_links 5 demo_request [] = Some [''a'', ''b'', ''c'']"
proof -
  let ?rows = "db_registry (tp_twins demo_list_db)" and ?c = "[(''tenantId'', JStr ''t'')]" and ?q = "[(''pageSize'', ''2'')]"
  let ?f = "\<lparr>lf_kind = [], lf_definition = [], lf_text = [], lf_relation = [], lf_direction = ''FROM''\<rparr>"
  have f: "list_filter_of ?q = Inr ?f" by code_simp
  have rows: "?rows = [demo_row ''t'' ''c'', demo_row ''t'' ''a'', demo_row ''u'' ''x'', demo_row ''t'' ''b'']"
    by (simp add: demo_list_db_def)
  have l: "listable Some ?rows" by (simp add: rows listable_def registry_key_def demo_row_def)
  have cl: "is_sys_admin ?c \<or> claim_string ?c ''tenantId'' \<noteq> []" by code_simp
  have "sort_key registry_key (filter (list_filters (\<lambda>_. []) demo_list_db (claim_string ?c ''tenantId'') (is_sys_admin ?c) ?f) ?rows) =
      [demo_row ''t'' ''a'', demo_row ''t'' ''b'', demo_row ''t'' ''c'']" by code_simp
  moreover have "follow_links 5 demo_request [] = Some (map rg_entity_id (sort_key registry_key
      (filter (list_filters (\<lambda>_. []) demo_list_db (claim_string ?c ''tenantId'') (is_sys_admin ?c) ?f) ?rows)))"
    unfolding demo_request_def
    by (rule listing_is_complete [OF _ l cl _ f]) (simp_all add: rows row_cursor_def demo_row_def)
  ultimately show ?thesis by (simp add: demo_row_def)
qed

text \<open>The legacy branch of the relation filter does not look at the group of a relation: a relation
  outside COMMON lists a twin whose neighbours along that relation are none.\<close>

lemma listing_counts_other_groups:
  fixes r
  defines "lr \<equiv> \<lparr>lr_from = \<lparr>ref_type = ''DEVICE'', ref_id = ''a''\<rparr>, lr_to = \<lparr>ref_type = ''TENANT'', ref_id = ''t''\<rparr>,
    lr_group = ''EDGE'', lr_relation = ''Manages'', lr_info = NoInfo, lr_version = 1\<rparr>"
  defines "db \<equiv> demo_list_db\<lparr>tp_relations := [lr]\<rparr>"
  shows "legacy_relation_exists db ''FROM'' ''Manages'' (demo_row ''t'' ''a'') \<and>
    neighbors_tenant db ''t'' \<lparr>ref_type = ''DEVICE'', ref_id = ''a''\<rparr> ''FROM'' [''Manages''] = []"
  unfolding lr_def db_def by code_simp

end
