(* ===== verification/Alarms.thy ===== *)
theory Alarms
  imports TopologyExpand
begin

text \<open>
  Alarms: the intents and their materializer (internal/alarmmaterializer, cmd/alarm-materializer), the
  decisions of the bridge itself (alarms.go) and the acknowledge and clear endpoints
  (internal/tenant/tenant_handler.go). The tables are lists of rows; the device and asset tables and
  the legacy relations are those of the topology.

  Every statement may fail: a state carries the outcomes of the statements to come (\<open>True\<close> is a
  failure, which has no effect). Journal events and log lines are not modelled.
\<close>

section \<open>Rows\<close>

record alarm =
  al_id :: str
  al_tenant :: str
  al_device :: str
  al_kind :: int
  al_type :: str
  al_severity :: "str option"
  al_created :: millis
  al_start :: millis
  al_end :: "millis option"
  al_acked :: bool
  al_ack_ts :: millis
  al_cleared :: bool
  al_clear_ts :: millis
  al_info :: json

record alarm_link =
  ln_tenant :: str
  ln_device :: str
  ln_created :: millis
  ln_type :: str
  ln_alarm :: str

text \<open>\<open>ad_counts\<close> holds the SERVER_SCOPE attribute alarm_count of each entity, with its time.\<close>

record alarm_db =
  ad_alarms :: "alarm list"
  ad_links :: "alarm_link list"
  ad_counts :: "(str, int \<times> millis) gomap"
  ad_topo :: topo_db

definition originator_type_device :: int where "originator_type_device = 5"

definition severity_rank :: "str \<Rightarrow> int" where
  "severity_rank s =
     (if s = ''CRITICAL'' then 4 else if s = ''MAJOR'' then 3 else if s = ''MINOR'' then 2
      else if s = ''WARNING'' then 1 else if s = ''INDETERMINATE'' then 0 else - 1)"

text \<open>SELECT ... ORDER BY start_ts DESC LIMIT 1 over the uncleared alarms of a device and a type.\<close>

definition is_active :: "str \<Rightarrow> str \<Rightarrow> alarm \<Rightarrow> bool" where
  "is_active device atype a \<longleftrightarrow>
     al_device a = device \<and> al_kind a = originator_type_device \<and> al_type a = atype \<and> \<not> al_cleared a"

definition select_active :: "str \<Rightarrow> str \<Rightarrow> alarm list \<Rightarrow> alarm option" where
  "select_active device atype alarms =
     (case sort_key (\<lambda>a. - al_start a) (filter (is_active device atype) alarms) of [] \<Rightarrow> None | a # _ \<Rightarrow> Some a)"

definition update_alarm :: "str \<Rightarrow> (alarm \<Rightarrow> alarm) \<Rightarrow> alarm_db \<Rightarrow> alarm_db" where
  "update_alarm aid f db = db\<lparr>ad_alarms := map (\<lambda>a. if al_id a = aid then f a else a) (ad_alarms db)\<rparr>"

section \<open>Intents\<close>

record intent =
  it_action :: str
  it_tenant :: str
  it_device :: str
  it_type :: str
  it_severity :: str
  it_ts :: int
  it_details :: members

datatype intent_error =
    IntentNotJson | InvalidAction | MissingTenant | MissingDevice | MissingType | MissingSeverity

definition validate_intent :: "intent \<Rightarrow> intent_error + unit" where
  "validate_intent i =
     (if it_action i \<noteq> ''create_or_update'' \<and> it_action i \<noteq> ''clear'' then Inl InvalidAction
      else if it_tenant i = [] then Inl MissingTenant
      else if it_device i = [] then Inl MissingDevice
      else if it_type i = [] then Inl MissingType
      else if it_action i = ''create_or_update'' \<and> it_severity i = [] then Inl MissingSeverity
      else Inr ())"

definition decode_intent :: "raw_message \<Rightarrow> intent option" where
  "decode_intent data =
     (case data of
        None \<Rightarrow> None
      | Some JNull \<Rightarrow> Some \<lparr>it_action = [], it_tenant = [], it_device = [], it_type = [], it_severity = [], it_ts = 0, it_details = []\<rparr>
      | Some (JObj kvs) \<Rightarrow>
          (case (dec_field dec_string [] (struct_vals ''action'' kvs), dec_field dec_string [] (struct_vals ''tenantId'' kvs),
                 dec_field dec_string [] (struct_vals ''deviceId'' kvs), dec_field dec_string [] (struct_vals ''alarmType'' kvs),
                 dec_field dec_string [] (struct_vals ''severity'' kvs), dec_field dec_int64 0 (struct_vals ''ts'' kvs),
                 dec_field dec_any_map None (struct_vals ''details'' kvs)) of
             (Some a, Some t, Some d, Some ty, Some s, Some ts, Some det) \<Rightarrow>
               Some \<lparr>it_action = a, it_tenant = t, it_device = d, it_type = ty, it_severity = s, it_ts = ts,
                     it_details = (case det of None \<Rightarrow> [] | Some m \<Rightarrow> m)\<rparr>
           | _ \<Rightarrow> None)
      | _ \<Rightarrow> None)"

definition parse_intent :: "raw_message \<Rightarrow> intent_error + intent" where
  "parse_intent data =
     and_then (or_fail (decode_intent data) IntentNotJson) (\<lambda>i. and_then (validate_intent i) (\<lambda>_. Inr i))"

definition additional_info :: "intent \<Rightarrow> json" where
  "additional_info i =
     JObj ([(''source'', JStr ''bento-nats-alarms'')] @
       (if 0 < it_ts i then [(''eventTs'', JInt (it_ts i))] else []) @
       (if it_details i \<noteq> [] then [(''details'', JObj (decode_map (it_details i)))] else []))"

section \<open>The repository interface\<close>

datatype find_reply = FoundNone | FindFailed | Found str str
datatype insert_reply = Inserted | OriginatorMissing | InsertFailed

record alarm_record =
  rc_id :: str
  rc_tenant :: str
  rc_device :: str
  rc_type :: str
  rc_severity :: str
  rc_now :: millis
  rc_info :: json

text \<open>A reply \<open>True\<close> is success. \<open>Found\<close> carries the id and the severity of the active alarm.\<close>

record 's repository =
  find_active_alarm :: "str \<Rightarrow> str \<Rightarrow> 's \<Rightarrow> find_reply \<times> 's"
  insert_alarm :: "alarm_record \<Rightarrow> 's \<Rightarrow> insert_reply \<times> 's"
  link_entity_alarm :: "alarm_link \<Rightarrow> 's \<Rightarrow> bool \<times> 's"
  extend_alarm :: "str \<Rightarrow> millis \<Rightarrow> 's \<Rightarrow> bool \<times> 's"
  escalate_alarm :: "str \<Rightarrow> str \<Rightarrow> millis \<Rightarrow> 's \<Rightarrow> bool \<times> 's"
  clear_alarm :: "str \<Rightarrow> millis \<Rightarrow> 's \<Rightarrow> bool \<times> 's"
  refresh_counts :: "str \<Rightarrow> str \<Rightarrow> 's \<Rightarrow> bool \<times> 's"

datatype applied = Noop | Cleared str | Escalated str | Extended str | Created str
datatype apply_error =
    InvalidIntent intent_error | FindError | ClearError | RefreshError | EscalateError | ExtendError | InsertError | LinkError

text \<open>One call whose failure ends the intent.\<close>

definition call :: "('s \<Rightarrow> bool \<times> 's) \<Rightarrow> apply_error \<Rightarrow> ('s \<Rightarrow> (apply_error + 'a) \<times> 's) \<Rightarrow> 's \<Rightarrow> (apply_error + 'a) \<times> 's" where
  "call f e k s = (case f s of (ok, s') \<Rightarrow> if ok then k s' else (Inl e, s'))"

definition new_alarm_record :: "intent \<Rightarrow> millis \<Rightarrow> str \<Rightarrow> alarm_record" where
  "new_alarm_record i now aid = \<lparr>rc_id = aid, rc_tenant = it_tenant i, rc_device = it_device i, rc_type = it_type i,
     rc_severity = it_severity i, rc_now = now, rc_info = additional_info i\<rparr>"

definition new_alarm_link :: "intent \<Rightarrow> millis \<Rightarrow> str \<Rightarrow> alarm_link" where
  "new_alarm_link i now aid = \<lparr>ln_tenant = it_tenant i, ln_device = it_device i, ln_created = now, ln_type = it_type i, ln_alarm = aid\<rparr>"

definition apply_intent :: "'s repository \<Rightarrow> intent \<Rightarrow> millis \<Rightarrow> str \<Rightarrow> 's \<Rightarrow> (apply_error + applied) \<times> 's" where
  "apply_intent repo i now new_id s =
     (case validate_intent i of
        Inl e \<Rightarrow> (Inl (InvalidIntent e), s)
      | Inr _ \<Rightarrow>
          (case find_active_alarm repo (it_device i) (it_type i) s of (found, s1) \<Rightarrow>
            (case found of
               FindFailed \<Rightarrow> (Inl FindError, s1)
             | FoundNone \<Rightarrow>
                 if it_action i = ''clear'' then (Inr Noop, s1)
                 else (case insert_alarm repo (new_alarm_record i now new_id) s1 of (r, s2) \<Rightarrow>
                        (case r of
                           OriginatorMissing \<Rightarrow> (Inr Noop, s2)
                         | InsertFailed \<Rightarrow> (Inl InsertError, s2)
                         | Inserted \<Rightarrow>
                             call (link_entity_alarm repo (new_alarm_link i now new_id)) LinkError
                               (call (refresh_counts repo (it_tenant i) (it_device i)) RefreshError
                                 (\<lambda>s. (Inr (Created new_id), s))) s2))
             | Found aid severity \<Rightarrow>
                 if it_action i = ''clear'' then
                   call (clear_alarm repo aid now) ClearError
                     (call (refresh_counts repo (it_tenant i) (it_device i)) RefreshError (\<lambda>s. (Inr (Cleared aid), s))) s1
                 else if severity_rank severity < severity_rank (it_severity i) then
                   call (escalate_alarm repo aid (it_severity i) now) EscalateError
                     (call (refresh_counts repo (it_tenant i) (it_device i)) RefreshError (\<lambda>s. (Inr (Escalated aid), s))) s1
                 else call (extend_alarm repo aid now) ExtendError (\<lambda>s. (Inr (Extended aid), s)) s1)))"

text \<open>What the consumer answers the stream: a message that is not an intent is terminated, an intent
  that failed is redelivered.\<close>

datatype ack = Ack | Nak | Term

definition handle_message :: "'s repository \<Rightarrow> raw_message \<Rightarrow> millis \<Rightarrow> str \<Rightarrow> 's \<Rightarrow> ack \<times> 's" where
  "handle_message repo data now new_id s =
     (case parse_intent data of
        Inl _ \<Rightarrow> (Term, s)
      | Inr i \<Rightarrow> (case apply_intent repo i now new_id s of (Inl _, s') \<Rightarrow> (Nak, s') | (Inr _, s') \<Rightarrow> (Ack, s')))"

section \<open>The Postgres repository\<close>

record pg_state =
  pg_db :: alarm_db
  pg_faults :: "bool list"

definition statement :: "(alarm_db \<Rightarrow> 'r \<times> alarm_db) \<Rightarrow> 'r \<Rightarrow> pg_state \<Rightarrow> 'r \<times> pg_state" where
  "statement f failed s =
     (case pg_faults s of
        True # fs \<Rightarrow> (failed, s\<lparr>pg_faults := fs\<rparr>)
      | fs \<Rightarrow> (case f (pg_db s) of (r, db) \<Rightarrow> (r, s\<lparr>pg_db := db, pg_faults := tl fs\<rparr>)))"

definition pg_find :: "str \<Rightarrow> str \<Rightarrow> pg_state \<Rightarrow> find_reply \<times> pg_state" where
  "pg_find device atype = statement (\<lambda>db.
     (case select_active device atype (ad_alarms db) of
        None \<Rightarrow> FoundNone | Some a \<Rightarrow> Found (al_id a) (coalesce (al_severity a) []), db)) FindFailed"

definition live_device :: "alarm_db \<Rightarrow> str \<Rightarrow> str \<Rightarrow> bool" where
  "live_device db device tenant \<longleftrightarrow>
     list_ex (\<lambda>e. en_id e = device \<and> en_tenant e = Some tenant) (db_devices (tp_twins (ad_topo db)))"

definition inserted_alarm :: "alarm_record \<Rightarrow> alarm" where
  "inserted_alarm r = \<lparr>al_id = rc_id r, al_tenant = rc_tenant r, al_device = rc_device r, al_kind = originator_type_device,
     al_type = rc_type r, al_severity = Some (rc_severity r), al_created = rc_now r, al_start = rc_now r,
     al_end = Some (rc_now r), al_acked = False, al_ack_ts = 0, al_cleared = False, al_clear_ts = 0, al_info = rc_info r\<rparr>"

definition pg_insert :: "alarm_record \<Rightarrow> pg_state \<Rightarrow> insert_reply \<times> pg_state" where
  "pg_insert r = statement (\<lambda>db.
     if \<not> live_device db (rc_device r) (rc_tenant r) then (OriginatorMissing, db)
     else if rc_id r \<in> al_id ` set (ad_alarms db) then (InsertFailed, db)
     else (Inserted, db\<lparr>ad_alarms := ad_alarms db @ [inserted_alarm r]\<rparr>)) InsertFailed"

definition pg_link :: "alarm_link \<Rightarrow> pg_state \<Rightarrow> bool \<times> pg_state" where
  "pg_link l = statement (\<lambda>db.
     if \<exists>k \<in> set (ad_links db). ln_device k = ln_device l \<and> ln_alarm k = ln_alarm l then (True, db)
     else (True, db\<lparr>ad_links := ad_links db @ [l]\<rparr>)) False"

definition pg_extend :: "str \<Rightarrow> millis \<Rightarrow> pg_state \<Rightarrow> bool \<times> pg_state" where
  "pg_extend aid now = statement (\<lambda>db. (True, update_alarm aid (\<lambda>a. a\<lparr>al_end := Some now\<rparr>) db)) False"

definition pg_escalate :: "str \<Rightarrow> str \<Rightarrow> millis \<Rightarrow> pg_state \<Rightarrow> bool \<times> pg_state" where
  "pg_escalate aid severity now = statement (\<lambda>db.
     (True, update_alarm aid (\<lambda>a. a\<lparr>al_end := Some now, al_severity := Some severity\<rparr>) db)) False"

definition pg_clear :: "str \<Rightarrow> millis \<Rightarrow> pg_state \<Rightarrow> bool \<times> pg_state" where
  "pg_clear aid now = statement (\<lambda>db.
     (True, update_alarm aid (\<lambda>a. a\<lparr>al_cleared := True, al_clear_ts := now,
        al_end := Some (max (case al_end a of None \<Rightarrow> 0 | Some e \<Rightarrow> e) now)\<rparr>) db)) False"

text \<open>A recursive query with UNION: rows are added until nothing new is found. The fuel is the number
  of relations, each of which adds one row at most.\<close>

fun saturate :: "nat \<Rightarrow> (entity_ref \<times> entity_ref) list \<Rightarrow> entity_ref list \<Rightarrow> entity_ref list" where
  "saturate n es rows =
     (if n = 0 then rows
      else let new = remdups (filter (\<lambda>y. y \<notin> set rows) (map snd (filter (\<lambda>e. fst e \<in> set rows) es)))
           in if new = [] then rows else saturate (n - 1) es (rows @ new))"

declare saturate.simps [simp del]

definition contains_edges :: "topo_db \<Rightarrow> (entity_ref \<times> entity_ref) list" where
  "contains_edges db = map (\<lambda>r. (lr_from r, lr_to r))
     (filter (\<lambda>r. lr_group r = ''COMMON'' \<and> lr_relation r = ''Contains'') (tp_relations db))"

definition alarm_ancestors :: "topo_db \<Rightarrow> str \<Rightarrow> entity_ref list" where
  "alarm_ancestors db device =
     (let up = map (\<lambda>(a, b). (b, a)) (contains_edges db);
          parents = map snd (filter (\<lambda>e. fst e = \<lparr>ref_type = ''DEVICE'', ref_id = device\<rparr>) up)
      in saturate (length up) up (remdups parents))"

definition alarm_descendants :: "topo_db \<Rightarrow> str \<Rightarrow> entity_ref list" where
  "alarm_descendants db asset =
     (let down = contains_edges db in saturate (length down) down [\<lparr>ref_type = ''ASSET'', ref_id = asset\<rparr>])"

definition devices_below :: "topo_db \<Rightarrow> str \<Rightarrow> str list" where
  "devices_below db asset = map ref_id (filter (\<lambda>n. ref_type n = ''DEVICE'') (alarm_descendants db asset))"

definition active_alarm_count :: "alarm_db \<Rightarrow> (alarm \<Rightarrow> bool) \<Rightarrow> str \<Rightarrow> nat" where
  "active_alarm_count db p asset =
     length (filter (\<lambda>a. p a \<and> \<not> al_cleared a \<and> al_device a \<in> set (devices_below (ad_topo db) asset)) (ad_alarms db))"

fun refresh_loop :: "millis \<Rightarrow> str \<Rightarrow> str list \<Rightarrow> pg_state \<Rightarrow> bool \<times> pg_state" where
  "refresh_loop clock tenant [] s = (True, s)"
| "refresh_loop clock tenant (asset # assets) s =
     (case statement (\<lambda>db. (Some (active_alarm_count db (\<lambda>a. al_tenant a = tenant) asset), db)) None s of
        (None, s1) \<Rightarrow> (False, s1)
      | (Some n, s1) \<Rightarrow>
          (case statement (\<lambda>db. (True, db\<lparr>ad_counts := AList.update asset (int n, clock) (ad_counts db)\<rparr>)) False s1 of (ok, s2) \<Rightarrow>
             if ok then refresh_loop clock tenant assets s2 else (False, s2)))"

text \<open>The third outcome is that of the key dictionary, whose failure is only logged.\<close>

definition pg_refresh :: "millis \<Rightarrow> str \<Rightarrow> str \<Rightarrow> pg_state \<Rightarrow> bool \<times> pg_state" where
  "pg_refresh clock tenant device s =
     (case statement (\<lambda>db. (Some (map ref_id (alarm_ancestors (ad_topo db) device)), db)) None s of
        (None, s1) \<Rightarrow> (False, s1)
      | (Some ancestors, s1) \<Rightarrow>
          (case statement (\<lambda>db. (True, db)) False s1 of (key, s2) \<Rightarrow>
             if key then refresh_loop clock tenant ancestors s2 else (True, s2)))"

definition pg_repository :: "millis \<Rightarrow> pg_state repository" where
  "pg_repository clock = \<lparr>find_active_alarm = pg_find, insert_alarm = pg_insert, link_entity_alarm = pg_link,
     extend_alarm = pg_extend, escalate_alarm = pg_escalate, clear_alarm = pg_clear, refresh_counts = pg_refresh clock\<rparr>"

end
