(* ===== verification/AlarmBridge.thy ===== *)
theory AlarmBridge
  imports Alarms
begin

text \<open>
  The other writers of the alarm table: the decisions the bridge takes itself (alarms.go) and the
  acknowledge and clear endpoints (HandleAlarmRest of internal/tenant/tenant_handler.go). UpsertAlarm
  and ClearAlarm are split where another request can come between: after the SELECT.
\<close>

section \<open>Decisions\<close>

record alarm_decision =
  dc_create :: bool
  dc_clear :: bool
  dc_type :: str
  dc_severity :: str
  dc_details :: str

datatype bridge_error = QueryAlarmFailed | EscalateFailed | ExtendFailed | InsertAlarmFailed | InsertLinkFailed | ClearFailed

definition decision_severity :: "alarm_decision \<Rightarrow> str" where
  "decision_severity d = (if dc_severity d \<noteq> [] then dc_severity d else ''WARNING'')"

definition decision_record :: "str \<Rightarrow> str \<Rightarrow> alarm_decision \<Rightarrow> millis \<Rightarrow> str \<Rightarrow> alarm_record" where
  "decision_record tenant device d now aid = \<lparr>rc_id = aid, rc_tenant = tenant, rc_device = device, rc_type = dc_type d,
     rc_severity = decision_severity d, rc_now = now,
     rc_info = (if dc_details d = [] then JObj [] else JObj [(''message'', JStr (dc_details d))])\<rparr>"

text \<open>The INSERT without a guard on the device, and the link without ON CONFLICT.\<close>

definition insert_row :: "alarm_record \<Rightarrow> pg_state \<Rightarrow> bool \<times> pg_state" where
  "insert_row r = statement (\<lambda>db.
     if rc_id r \<in> al_id ` set (ad_alarms db) then (False, db)
     else (True, db\<lparr>ad_alarms := ad_alarms db @ [inserted_alarm r]\<rparr>)) False"

definition insert_link :: "alarm_link \<Rightarrow> pg_state \<Rightarrow> bool \<times> pg_state" where
  "insert_link l = statement (\<lambda>db.
     if \<exists>k \<in> set (ad_links db). ln_device k = ln_device l \<and> ln_alarm k = ln_alarm l then (False, db)
     else (True, db\<lparr>ad_links := ad_links db @ [l]\<rparr>)) False"

definition or_bridge_error :: "bool \<times> pg_state \<Rightarrow> bridge_error \<Rightarrow> 'a \<Rightarrow> (bridge_error + 'a) \<times> pg_state" where
  "or_bridge_error r e a = (if fst r then Inr a else Inl e, snd r)"

definition upsert_write ::
  "str \<Rightarrow> str \<Rightarrow> alarm_decision \<Rightarrow> millis \<Rightarrow> str \<Rightarrow> find_reply \<Rightarrow> pg_state \<Rightarrow> (bridge_error + str) \<times> pg_state" where
  "upsert_write tenant device d now new_id found s =
     (case found of
        FindFailed \<Rightarrow> (Inl QueryAlarmFailed, s)
      | Found aid severity \<Rightarrow>
          if dc_severity d \<noteq> [] \<and> severity_rank severity < severity_rank (dc_severity d)
          then or_bridge_error (pg_escalate aid (dc_severity d) now s) EscalateFailed aid
          else or_bridge_error (pg_extend aid now s) ExtendFailed aid
      | FoundNone \<Rightarrow>
          (case insert_row (decision_record tenant device d now new_id) s of (ok, s1) \<Rightarrow>
             if \<not> ok then (Inl InsertAlarmFailed, s1)
             else or_bridge_error
               (insert_link \<lparr>ln_tenant = tenant, ln_device = device, ln_created = now, ln_type = dc_type d, ln_alarm = new_id\<rparr> s1)
               InsertLinkFailed new_id))"

definition upsert_alarm ::
  "str \<Rightarrow> str \<Rightarrow> alarm_decision \<Rightarrow> millis \<Rightarrow> str \<Rightarrow> pg_state \<Rightarrow> (bridge_error + str) \<times> pg_state" where
  "upsert_alarm tenant device d now new_id s =
     (case pg_find device (dc_type d) s of (found, s1) \<Rightarrow> upsert_write tenant device d now new_id found s1)"

text \<open>The clearing UPDATE of the bridge and of the endpoint leaves the end of the alarm as it is.\<close>

definition set_cleared :: "str \<Rightarrow> millis \<Rightarrow> alarm_db \<Rightarrow> alarm_db" where
  "set_cleared aid now = update_alarm aid (\<lambda>a. a\<lparr>al_cleared := True, al_clear_ts := now\<rparr>)"

definition clear_active_alarm :: "str \<Rightarrow> str \<Rightarrow> millis \<Rightarrow> pg_state \<Rightarrow> (bridge_error + str) \<times> pg_state" where
  "clear_active_alarm device atype now s =
     (case pg_find device atype s of (found, s1) \<Rightarrow>
       (case found of
          FindFailed \<Rightarrow> (Inl QueryAlarmFailed, s1)
        | FoundNone \<Rightarrow> (Inr [], s1)
        | Found aid _ \<Rightarrow> or_bridge_error (statement (\<lambda>db. (True, set_cleared aid now db)) False s1) ClearFailed aid))"

text \<open>The counts are written best-effort; the alarms of all tenants are counted.\<close>

fun propagate_loop :: "millis \<Rightarrow> str list \<Rightarrow> pg_state \<Rightarrow> pg_state" where
  "propagate_loop clock [] s = s"
| "propagate_loop clock (aid # aids) s =
     propagate_loop clock aids
       (case statement (\<lambda>db. (Some (active_alarm_count db (\<lambda>_. True) aid), db)) None s of
          (None, s1) \<Rightarrow> s1
        | (Some n, s1) \<Rightarrow>
            (case statement (\<lambda>db. (True, db)) False s1 of (key, s2) \<Rightarrow>
               if \<not> key then s2
               else snd (statement (\<lambda>db. (True, db\<lparr>ad_counts := AList.update aid (int n, clock) (ad_counts db)\<rparr>)) False s2)))"

definition propagate_alarm_count :: "millis \<Rightarrow> str \<Rightarrow> pg_state \<Rightarrow> pg_state" where
  "propagate_alarm_count clock device s =
     (case statement (\<lambda>db. (Some (map ref_id (alarm_ancestors (ad_topo db) device)), db)) None s of
        (None, s1) \<Rightarrow> s1
      | (Some ancestors, s1) \<Rightarrow> propagate_loop clock ancestors s1)"

record alarm_event =
  ae_alarm :: str
  ae_type :: str
  ae_severity :: str
  ae_status :: str
  ae_device :: str
  ae_tenant :: str

definition alarm_event_for :: "str \<Rightarrow> str \<Rightarrow> alarm_decision \<Rightarrow> str \<Rightarrow> str \<Rightarrow> alarm_event list" where
  "alarm_event_for tenant device d status aid =
     (if aid = [] then []
      else [\<lparr>ae_alarm = aid, ae_type = dc_type d, ae_severity = (if status = ''ACTIVE'' then dc_severity d else []),
             ae_status = status, ae_device = device, ae_tenant = tenant\<rparr>])"

definition process_create ::
  "str \<Rightarrow> str \<Rightarrow> alarm_decision \<Rightarrow> millis \<Rightarrow> str \<Rightarrow> pg_state \<Rightarrow> bool \<times> alarm_event list \<times> pg_state" where
  "process_create tenant device d now new_id s =
     (if \<not> dc_create d then (True, [], s)
      else (case upsert_alarm tenant device d now new_id s of
              (Inl _, s1) \<Rightarrow> (False, [], s1)
            | (Inr aid, s1) \<Rightarrow> (True, alarm_event_for tenant device d ''ACTIVE'' aid, propagate_alarm_count now device s1)))"

text \<open>The events broadcast to the WebSocket sessions, in order.\<close>

definition process_alarm_decision ::
  "str \<Rightarrow> str \<Rightarrow> alarm_decision option \<Rightarrow> millis \<Rightarrow> str \<Rightarrow> pg_state \<Rightarrow> alarm_event list \<times> pg_state" where
  "process_alarm_decision tenant device decision now new_id s =
     (case decision of
        None \<Rightarrow> ([], s)
      | Some d \<Rightarrow>
          (case process_create tenant device d now new_id s of (go_on, created, s1) \<Rightarrow>
             if \<not> go_on \<or> \<not> dc_clear d then (created, s1)
             else (case clear_active_alarm device (dc_type d) now s1 of
                     (Inl _, s2) \<Rightarrow> (created, s2)
                   | (Inr aid, s2) \<Rightarrow>
                       (created @ alarm_event_for tenant device d ''CLEARED'' aid, propagate_alarm_count now device s2))))"

section \<open>Endpoints\<close>

fun str_contains :: "str \<Rightarrow> str \<Rightarrow> bool" where
  "str_contains s p = (has_prefix s p \<or> (case s of [] \<Rightarrow> False | _ # t \<Rightarrow> str_contains t p))"

datatype alarm_route = ListAlarms | DeviceAlarms str | AckAlarm str | ClearAlarmRoute str | OneAlarm str | NoAlarmRoute

definition last_segment :: "str \<Rightarrow> str" where
  "last_segment path = last (split_on CHR ''/'' path)"

definition alarm_route_of :: "str \<Rightarrow> str \<Rightarrow> alarm_route" where
  "alarm_route_of http_method path =
     (if (path = ''/api/alarms'' \<or> path = ''/api/v2/alarms'') \<and> http_method = ''GET'' then ListAlarms
      else if (str_contains path ''/alarm/DEVICE/'' \<or> str_contains path ''/alarm/device/'') \<and> 5 \<le> length (split_on CHR ''/'' path)
      then DeviceAlarms (last_segment path)
      else if has_suffix path ''/ack'' \<and> http_method = ''POST'' then AckAlarm (last_segment (trim_suffix path ''/ack''))
      else if has_suffix path ''/clear'' \<and> http_method = ''POST'' then ClearAlarmRoute (last_segment (trim_suffix path ''/clear''))
      else if http_method = ''GET'' then (if looks_like_uuid (last_segment path) then OneAlarm (last_segment path) else NoAlarmRoute)
      else NoAlarmRoute)"

text \<open>The endpoint: the reads answer with their route.\<close>

definition handle_alarm_rest ::
  "str \<Rightarrow> str \<Rightarrow> members option \<Rightarrow> millis \<Rightarrow> pg_state \<Rightarrow> (http_error + alarm_route) \<times> pg_state" where
  "handle_alarm_rest http_method path claims now s =
     (case require_auth claims of
        Inl e \<Rightarrow> (Inl e, s)
      | Inr c \<Rightarrow>
          (case alarm_route_of http_method path of
             AckAlarm aid \<Rightarrow>
               (case statement (\<lambda>db. (True, update_alarm aid (\<lambda>a. a\<lparr>al_acked := True, al_ack_ts := now\<rparr>) db)) False s of (ok, s') \<Rightarrow>
                  (if ok then Inr (AckAlarm aid) else Inl (HttpError 500 ''Failed to acknowledge alarm''), s'))
           | ClearAlarmRoute aid \<Rightarrow>
               (case statement (\<lambda>db. (True, set_cleared aid now db)) False s of (ok, s') \<Rightarrow>
                  (if ok then Inr (ClearAlarmRoute aid) else Inl (HttpError 500 ''Failed to clear alarm''), s'))
           | NoAlarmRoute \<Rightarrow> (Inl (HttpError 404 ''Alarm endpoint not found''), s)
           | route \<Rightarrow> (Inr route, s)))"

end
