(* ===== verification/AlarmLaws.thy ===== *)
theory AlarmLaws
  imports AlarmBridge
begin

text \<open>
  The contract of the alarm repository as a locale, what the materializer achieves on any repository
  that keeps it, and the proof that the Postgres repository does, statement failures included. The
  recursive queries compute reachability.
\<close>

section \<open>The contract\<close>

text \<open>The abstract state: for each device and type the id and severity of the active alarm.\<close>

type_synonym active_map = "str \<times> str \<Rightarrow> (str \<times> str) option"

definition intent_key :: "intent \<Rightarrow> str \<times> str" where
  "intent_key i = (it_device i, it_type i)"

definition intent_step :: "bool \<Rightarrow> intent \<Rightarrow> str \<Rightarrow> (str \<times> str) option \<Rightarrow> (str \<times> str) option" where
  "intent_step live i new_id active =
     (if it_action i = ''clear'' then None
      else (case active of
              None \<Rightarrow> if live then Some (new_id, it_severity i) else None
            | Some (aid, severity) \<Rightarrow>
                Some (aid, if severity_rank severity < severity_rank (it_severity i) then it_severity i else severity)))"

definition intent_effect :: "bool \<Rightarrow> intent \<Rightarrow> str \<Rightarrow> active_map \<Rightarrow> active_map" where
  "intent_effect live i new_id m = m(intent_key i := intent_step live i new_id (m (intent_key i)))"

locale alarm_repository =
  fixes repo :: "'s repository" and ok :: "'s \<Rightarrow> bool" and active :: "'s \<Rightarrow> active_map" and live :: "'s \<Rightarrow> str \<Rightarrow> str \<Rightarrow> bool"
  assumes find: "ok s \<Longrightarrow> find_active_alarm repo d t s = (f, s') \<Longrightarrow>
      ok s' \<and> active s' = active s \<and> live s' = live s \<and>
      (f = FoundNone \<longrightarrow> active s (d, t) = None) \<and> (\<forall>aid v. f = Found aid v \<longrightarrow> active s (d, t) = Some (aid, v))"
    and insert_ok: "ok s \<Longrightarrow> active s (rc_device a, rc_type a) = None \<Longrightarrow> insert_alarm repo a s = (r, s') \<Longrightarrow>
      ok s' \<and> live s' = live s \<and>
      active s' = (if r = Inserted then (active s)((rc_device a, rc_type a) := Some (rc_id a, rc_severity a)) else active s) \<and>
      (r = Inserted \<longrightarrow> live s (rc_device a) (rc_tenant a)) \<and> (r = OriginatorMissing \<longrightarrow> \<not> live s (rc_device a) (rc_tenant a))"
    and link: "ok s \<Longrightarrow> link_entity_alarm repo l s = (b, s') \<Longrightarrow> ok s' \<and> active s' = active s \<and> live s' = live s"
    and extend: "ok s \<Longrightarrow> extend_alarm repo aid now s = (b, s') \<Longrightarrow> ok s' \<and> active s' = active s \<and> live s' = live s"
    and escalate: "ok s \<Longrightarrow> active s k = Some (aid, v) \<Longrightarrow> escalate_alarm repo aid v' now s = (b, s') \<Longrightarrow>
      ok s' \<and> live s' = live s \<and> active s' = (if b then (active s)(k := Some (aid, v')) else active s)"
    and clear: "ok s \<Longrightarrow> active s k = Some (aid, v) \<Longrightarrow> clear_alarm repo aid now s = (b, s') \<Longrightarrow>
      ok s' \<and> live s' = live s \<and> active s' = (if b then (active s)(k := None) else active s)"
    and refresh: "ok s \<Longrightarrow> refresh_counts repo t d s = (b, s') \<Longrightarrow> ok s' \<and> active s' = active s \<and> live s' = live s"

text \<open>An intent tried until it succeeds, as the stream redelivers it; the attempts carry the clock
  and the fresh id of each.\<close>

fun deliver :: "'s repository \<Rightarrow> intent \<Rightarrow> (millis \<times> str) list \<Rightarrow> 's \<Rightarrow> applied option \<times> 's" where
  "deliver repo i [] s = (None, s)"
| "deliver repo i ((now, new_id) # rest) s =
     (case apply_intent repo i now new_id s of
        (Inl _, s') \<Rightarrow> deliver repo i rest s'
      | (Inr r, s') \<Rightarrow> (Some r, s'))"

lemma intent_step_again [simp]: "intent_step l i n (intent_step l i m x) = intent_step l i m x"
  by (auto simp: intent_step_def split: option.splits)

lemma intent_effect_again [simp]: "intent_effect l i n (intent_effect l i m x) = intent_effect l i m x"
  by (simp add: intent_effect_def)

lemma call_cases:
  assumes "call f e k s = (r, s')"
  obtains (fails) "f s = (False, s')" "r = Inl e" | (returned) s1 where "f s = (True, s1)" "k s1 = (r, s')"
  using assms by (cases "f s") (auto simp: call_def split: if_splits)

context alarm_repository begin

lemma refresh_call:
  assumes "ok s" "call (refresh_counts repo t d) RefreshError (\<lambda>s. (Inr x, s)) s = (r, s')"
  shows "ok s' \<and> active s' = active s \<and> live s' = live s"
  using assms(2) by (rule call_cases) (use assms(1) refresh in auto)

text \<open>Whatever fails, the intent has had its whole effect on the active alarms or none; after a
  success it has had it.\<close>

lemma apply_intent_effect:
  assumes "ok s" "apply_intent repo i now nid s = (r, s')"
  shows "ok s' \<and> live s' = live s \<and>
    (active s' = active s \<or>
     active s' = intent_effect (live s (it_device i) (it_tenant i)) i nid (active s)) \<and>
    (\<forall>x. r = Inr x \<longrightarrow>
      active s' = intent_effect (live s (it_device i) (it_tenant i)) i nid (active s))"
proof (cases "validate_intent i")
  case (Inl e)
  then show ?thesis using assms by (auto simp: apply_intent_def)
next
  case (Inr u)
  let ?k = "intent_key i" and ?step = "intent_step (live s (it_device i) (it_tenant i)) i nid (active s (intent_key i))"
  obtain found s1 where f: "find_active_alarm repo (it_device i) (it_type i) s = (found, s1)" by fastforce
  note f1 = find [OF assms(1) f]
  have k: "(it_device i, it_type i) = ?k" by (simp add: intent_key_def)
  show ?thesis
  proof (cases found)
    case FindFailed
    then show ?thesis using assms(2) f f1 Inr by (auto simp: apply_intent_def)
  next
    case FoundNone
    then have none: "active s ?k = None" using f1 k by simp
    show ?thesis
    proof (cases "it_action i = ''clear''")
      case True
      have "(active s)(?k := None) = active s" using none by (simp add: fun_upd_idem)
      then show ?thesis using assms(2) f f1 Inr FoundNone True by (auto simp: apply_intent_def intent_step_def intent_effect_def)
    next
      case False
      obtain b s2 where ins: "insert_alarm repo (new_alarm_record i now nid) s1 = (b, s2)" by fastforce
      have i1: "ok s2 \<and> live s2 = live s \<and>
          active s2 = (if b = Inserted then (active s)(?k := Some (nid, it_severity i)) else active s) \<and>
          (b = Inserted \<longrightarrow> live s (it_device i) (it_tenant i)) \<and> (b = OriginatorMissing \<longrightarrow> \<not> live s (it_device i) (it_tenant i))"
        using insert_ok [OF _ _ ins] f1 none by (simp add: new_alarm_record_def k)
      have same: "(active s)(?k := None) = active s" using none by (simp add: fun_upd_idem)
      show ?thesis
      proof (cases b)
        case Inserted
        have "call (link_entity_alarm repo (new_alarm_link i now nid)) LinkError
            (call (refresh_counts repo (it_tenant i) (it_device i)) RefreshError (\<lambda>s. (Inr (Created nid), s))) s2 = (r, s')"
          using assms(2) f Inr FoundNone False ins Inserted by (simp add: apply_intent_def)
        then have "ok s' \<and> active s' = active s2 \<and> live s' = live s2"
          by (rule call_cases) (use i1 link refresh_call in \<open>metis\<close>)+
        then show ?thesis using i1 Inserted False none by (auto simp: intent_step_def intent_effect_def)
      qed (use assms(2) f Inr FoundNone False ins i1 none same in \<open>auto simp: apply_intent_def intent_step_def intent_effect_def\<close>)
    qed
  next
    case (Found aid v)
    then have act: "active s1 ?k = Some (aid, v)" "active s ?k = Some (aid, v)" using f1 k by simp_all
    have s1: "ok s1" "active s1 = active s" "live s1 = live s" using f1 by simp_all
    consider (clearing) "it_action i = ''clear''" | (escalating) "it_action i \<noteq> ''clear''" "severity_rank v < severity_rank (it_severity i)"
      | (extending) "it_action i \<noteq> ''clear''" "\<not> severity_rank v < severity_rank (it_severity i)" by blast
    then show ?thesis
    proof cases
      case clearing
      have "call (clear_alarm repo aid now) ClearError
          (call (refresh_counts repo (it_tenant i) (it_device i)) RefreshError (\<lambda>s. (Inr (Cleared aid), s))) s1 = (r, s')"
        using assms(2) f Inr Found clearing by (simp add: apply_intent_def)
      then show ?thesis
      proof (rule call_cases)
        assume "clear_alarm repo aid now s1 = (False, s')" "r = Inl ClearError"
        then show ?thesis using clear [OF s1(1) act(1)] s1 by auto
      next
        fix s2
        assume c: "clear_alarm repo aid now s1 = (True, s2)" "call (refresh_counts repo (it_tenant i) (it_device i)) RefreshError (\<lambda>s. (Inr (Cleared aid), s)) s2 = (r, s')"
        from clear [OF s1(1) act(1) c(1)] refresh_call [OF _ c(2)] s1 clearing show ?thesis
          by (auto simp: intent_step_def intent_effect_def)
      qed
    next
      case escalating
      have "call (escalate_alarm repo aid (it_severity i) now) EscalateError
          (call (refresh_counts repo (it_tenant i) (it_device i)) RefreshError (\<lambda>s. (Inr (Escalated aid), s))) s1 = (r, s')"
        using assms(2) f Inr Found escalating by (simp add: apply_intent_def)
      then show ?thesis
      proof (rule call_cases)
        assume "escalate_alarm repo aid (it_severity i) now s1 = (False, s')" "r = Inl EscalateError"
        then show ?thesis using escalate [OF s1(1) act(1)] s1 by auto
      next
        fix s2
        assume c: "escalate_alarm repo aid (it_severity i) now s1 = (True, s2)" "call (refresh_counts repo (it_tenant i) (it_device i)) RefreshError (\<lambda>s. (Inr (Escalated aid), s)) s2 = (r, s')"
        from escalate [OF s1(1) act(1) c(1)] refresh_call [OF _ c(2)] s1 escalating act show ?thesis
          by (auto simp: intent_step_def intent_effect_def)
      qed
    next
      case extending
      have same: "(active s)(?k := Some (aid, v)) = active s" using act by (simp add: fun_upd_idem)
      have "call (extend_alarm repo aid now) ExtendError (\<lambda>s. (Inr (Extended aid), s)) s1 = (r, s')"
        using assms(2) f Inr Found extending by (simp add: apply_intent_def)
      then have "ok s' \<and> active s' = active s1 \<and> live s' = live s1"
        by (rule call_cases) (use s1 extend in auto)
      then show ?thesis using s1 extending act same by (auto simp: intent_step_def intent_effect_def)
    qed
  qed
qed

text \<open>Redelivered until it succeeds, an intent has its effect exactly once; while it has not
  succeeded, at most once.\<close>

lemma deliver_once:
  assumes "ok s" "deliver repo i attempts s = (r, s')"
  shows "ok s' \<and> live s' = live s \<and>
    (active s' = active s \<and> r = None \<or>
     (\<exists>nid \<in> set (map snd attempts).
        active s' = intent_effect (live s (it_device i) (it_tenant i)) i nid (active s)))"
  using assms
proof (induction attempts arbitrary: s)
  case Nil
  then show ?case by simp
next
  case (Cons x rest)
  obtain now nid where x: "x = (now, nid)" by (cases x)
  obtain q s1 where q: "apply_intent repo i now nid s = (q, s1)" by fastforce
  note e = apply_intent_effect [OF Cons.prems(1) q]
  show ?case
  proof (cases q)
    case (Inr y)
    then have "r = Some y" "s' = s1" using Cons.prems(2) q x by simp_all
    then show ?thesis using e Inr x by auto
  next
    case (Inl err)
    then have "deliver repo i rest s1 = (r, s')" using Cons.prems(2) q x by simp
    then have ih: "ok s' \<and> live s' = live s1 \<and> (active s' = active s1 \<and> r = None \<or>
        (\<exists>nid \<in> set (map snd rest).
          active s' = intent_effect (live s1 (it_device i) (it_tenant i)) i nid (active s1)))"
      using Cons.IH e by blast
    consider "active s1 = active s"
      | "active s1 = intent_effect (live s (it_device i) (it_tenant i)) i nid (active s)"
      using e by blast
    then show ?thesis
    proof cases
      case 1
      then have "active s' = active s \<and> r = None \<or> (\<exists>nid \<in> set (map snd rest).
          active s' = intent_effect (live s (it_device i) (it_tenant i)) i nid (active s))" using ih e by simp
      then consider (unchanged) "active s' = active s" "r = None"
        | (stepped) n where "n \<in> set (map snd rest)" "active s' = intent_effect (live s (it_device i) (it_tenant i)) i n (active s)"
        by blast
      then show ?thesis
      proof cases
        case unchanged
        then show ?thesis using ih e by simp
      next
        case stepped
        have "n \<in> set (map snd (x # rest))" using stepped(1) by simp
        then show ?thesis using ih e stepped(2) by metis
      qed
    next
      case 2
      then have "active s' = active s1" using ih e by auto
      then show ?thesis using ih e x 2 by simp
    qed
  qed
qed

end

lemma map_eqI:
  assumes "\<And>k v. m k = Some v \<longleftrightarrow> n k = Some v"
  shows "m = n"
proof
  fix k
  show "m k = n k" using assms [of k] by (metis not_Some_eq)
qed

section \<open>The Postgres repository keeps the contract\<close>

lemma statement_cases:
  assumes "statement f failed s = (r, s')"
  obtains (fault) "r = failed" "pg_db s' = pg_db s" | (effect) "f (pg_db s) = (r, pg_db s')"
  using assms by (cases "f (pg_db s)") (auto simp: statement_def split: list.splits bool.splits)

definition active_rows :: "alarm list \<Rightarrow> alarm list" where
  "active_rows alarms = filter (\<lambda>a. al_kind a = originator_type_device \<and> \<not> al_cleared a) alarms"

definition alarm_key :: "alarm \<Rightarrow> str \<times> str" where
  "alarm_key a = (al_device a, al_type a)"

definition alarm_value :: "alarm \<Rightarrow> str \<times> str" where
  "alarm_value a = (al_id a, coalesce (al_severity a) [])"

definition alarms_ok :: "alarm list \<Rightarrow> bool" where
  "alarms_ok alarms \<longleftrightarrow> distinct (map al_id alarms) \<and> distinct (map alarm_key (active_rows alarms))"

definition active_alarms :: "alarm list \<Rightarrow> active_map" where
  "active_alarms alarms = map_of (map (\<lambda>a. (alarm_key a, alarm_value a)) (active_rows alarms))"

definition pg_ok :: "pg_state \<Rightarrow> bool" where "pg_ok s = alarms_ok (ad_alarms (pg_db s))"
definition pg_active :: "pg_state \<Rightarrow> active_map" where "pg_active s = active_alarms (ad_alarms (pg_db s))"
definition pg_live :: "pg_state \<Rightarrow> str \<Rightarrow> str \<Rightarrow> bool" where "pg_live s = live_device (pg_db s)"

lemma active_alarms_eq_Some:
  assumes "alarms_ok alarms"
  shows "active_alarms alarms k = Some v \<longleftrightarrow> (\<exists>a \<in> set (active_rows alarms). alarm_key a = k \<and> alarm_value a = v)"
proof -
  have "distinct (map fst (map (\<lambda>a. (alarm_key a, alarm_value a)) (active_rows alarms)))"
    using assms by (simp add: alarms_ok_def comp_def)
  from map_of_eq_Some_iff [OF this] show ?thesis by (auto simp: active_alarms_def)
qed

lemma active_alarms_None: "active_alarms alarms k = None \<longleftrightarrow> k \<notin> alarm_key ` set (active_rows alarms)"
  by (simp add: active_alarms_def map_of_eq_None_iff image_image)

lemma in_active_rows: "a \<in> set (active_rows alarms) \<longleftrightarrow> a \<in> set alarms \<and> is_active (al_device a) (al_type a) a"
  by (auto simp: active_rows_def is_active_def)

lemma same_id: "alarms_ok alarms \<Longrightarrow> a \<in> set alarms \<Longrightarrow> b \<in> set alarms \<Longrightarrow> al_id a = al_id b \<Longrightarrow> a = b"
  by (auto simp: alarms_ok_def distinct_map dest: inj_onD)

lemma select_active_cases:
  "(case select_active d t alarms of
     None \<Rightarrow> (d, t) \<notin> alarm_key ` set (active_rows alarms)
   | Some a \<Rightarrow> a \<in> set (active_rows alarms) \<and> alarm_key a = (d, t))"
proof (cases "sort_key (\<lambda>a. - al_start a) (filter (is_active d t) alarms)")
  case Nil
  then have "filter (is_active d t) alarms = []" by (metis set_empty set_sort)
  then show ?thesis using Nil
    by (auto simp: select_active_def active_rows_def alarm_key_def is_active_def filter_empty_conv)
next
  case (Cons a as)
  then have "a \<in> set (filter (is_active d t) alarms)" by (metis list.set_intros(1) set_sort)
  then show ?thesis using Cons by (auto simp: select_active_def active_rows_def alarm_key_def is_active_def)
qed

text \<open>Updates of one row.\<close>

abbreviation update_row :: "str \<Rightarrow> (alarm \<Rightarrow> alarm) \<Rightarrow> alarm list \<Rightarrow> alarm list" where
  "update_row aid f alarms \<equiv> map (\<lambda>a. if al_id a = aid then f a else a) alarms"

definition keeps_key :: "(alarm \<Rightarrow> alarm) \<Rightarrow> bool" where
  "keeps_key f \<longleftrightarrow> (\<forall>a. al_id (f a) = al_id a \<and> al_device (f a) = al_device a \<and> al_kind (f a) = al_kind a \<and> al_type (f a) = al_type a)"

lemma active_rows_update:
  assumes "\<forall>a. al_kind (f a) = al_kind a \<and> al_cleared (f a) = al_cleared a"
  shows "active_rows (update_row aid f alarms) = update_row aid f (active_rows alarms)"
  unfolding active_rows_def filter_map comp_def by (rule arg_cong [where f = "map _"]) (rule filter_cong, use assms in auto)

lemma update_ok:
  assumes "alarms_ok alarms" "keeps_key f" "\<forall>a. al_cleared a \<longrightarrow> al_cleared (f a)"
  shows "alarms_ok (update_row aid f alarms)"
proof -
  let ?g = "\<lambda>a. if al_id a = aid then f a else a"
  have "al_id \<circ> ?g = al_id" using assms(2) by (auto simp: keeps_key_def)
  then have ids: "distinct (map al_id (map ?g alarms))" using assms(1) by (simp add: alarms_ok_def)
  have "active_rows (map ?g alarms) = map ?g (filter (\<lambda>a. \<not> al_cleared (?g a)) (active_rows alarms))"
    unfolding active_rows_def filter_map comp_def filter_filter
    by (rule arg_cong [where f = "map _"]) (rule filter_cong, use assms in \<open>auto simp: keeps_key_def\<close>)
  then have "map alarm_key (active_rows (map ?g alarms)) = map alarm_key (filter (\<lambda>a. \<not> al_cleared (?g a)) (active_rows alarms))"
    using assms(2) by (simp add: keeps_key_def alarm_key_def)
  then have "distinct (map alarm_key (active_rows (map ?g alarms)))"
    using assms(1) by (simp only: alarms_ok_def distinct_map_filter)
  with ids show ?thesis by (simp only: alarms_ok_def)
qed

lemma active_update_same:
  assumes "keeps_key f" "\<forall>a. al_cleared (f a) = al_cleared a" "\<forall>a. al_severity (f a) = al_severity a"
  shows "active_alarms (update_row aid f alarms) = active_alarms alarms"
proof -
  have "active_rows (update_row aid f alarms) = update_row aid f (active_rows alarms)"
    using assms by (intro active_rows_update) (simp add: keeps_key_def)
  moreover have "(\<lambda>a. (alarm_key a, alarm_value a)) \<circ> (\<lambda>a. if al_id a = aid then f a else a) = (\<lambda>a. (alarm_key a, alarm_value a))"
    using assms by (auto simp: keeps_key_def alarm_key_def alarm_value_def)
  ultimately show ?thesis unfolding active_alarms_def by (simp only: map_map)
qed

lemma active_row_of:
  assumes "alarms_ok alarms" "active_alarms alarms k = Some (aid, v)" "a \<in> set (active_rows alarms)"
  shows "al_id a = aid \<longleftrightarrow> alarm_key a = k"
proof -
  obtain b where b: "b \<in> set (active_rows alarms)" "alarm_key b = k" "alarm_value b = (aid, v)"
    using active_alarms_eq_Some [OF assms(1)] assms(2) by blast
  have "al_id a = aid \<Longrightarrow> a = b" using same_id [OF assms(1)] b assms(3) by (simp add: in_active_rows alarm_value_def)
  moreover have "alarm_key a = k \<Longrightarrow> a = b" using assms(1,3) b by (auto simp: alarms_ok_def distinct_map dest: inj_onD)
  ultimately show ?thesis using b by (auto simp: alarm_value_def)
qed

lemma active_update_severity:
  assumes "alarms_ok alarms" "active_alarms alarms k = Some (aid, v)" "keeps_key f"
    "\<forall>a. al_cleared (f a) = al_cleared a" "\<forall>a. al_severity (f a) = Some v'"
  shows "active_alarms (update_row aid f alarms) = (active_alarms alarms)(k \<mapsto> (aid, v'))"
proof (rule map_eqI)
  fix k' w
  have rows: "active_rows (update_row aid f alarms) = update_row aid f (active_rows alarms)"
    using assms by (intro active_rows_update) (simp add: keeps_key_def)
  have ok': "alarms_ok (update_row aid f alarms)" using assms by (intro update_ok) auto
  obtain b where b: "b \<in> set (active_rows alarms)" "alarm_key b = k" "alarm_value b = (aid, v)"
    using active_alarms_eq_Some [OF assms(1)] assms(2) by blast
  have f: "alarm_key (f a) = alarm_key a" "alarm_value (f a) = (al_id a, v')" for a
    using assms by (simp_all add: keeps_key_def alarm_key_def alarm_value_def coalesce_def)
  note owner = active_row_of [OF assms(1,2)]
  show "active_alarms (update_row aid f alarms) k' = Some w \<longleftrightarrow> ((active_alarms alarms)(k \<mapsto> (aid, v'))) k' = Some w"
  proof (cases "k' = k")
    case True
    have "al_id b = aid" using b by (simp add: alarm_value_def)
    then show ?thesis unfolding active_alarms_eq_Some [OF ok'] rows True using b f owner by fastforce
  next
    case False
    then show ?thesis unfolding active_alarms_eq_Some [OF ok'] rows
      using f owner active_alarms_eq_Some [OF assms(1)] by (auto split: if_splits)
  qed
qed

lemma active_update_cleared:
  assumes "alarms_ok alarms" "active_alarms alarms k = Some (aid, v)" "keeps_key f" "\<forall>a. al_cleared (f a)"
  shows "active_alarms (update_row aid f alarms) = (active_alarms alarms)(k := None)"
proof (rule map_eqI)
  fix k' w
  let ?g = "\<lambda>a. if al_id a = aid then f a else a"
  have ok': "alarms_ok (update_row aid f alarms)" using assms by (intro update_ok) auto
  note owner = active_row_of [OF assms(1,2)]
  have rows: "set (active_rows (map ?g alarms)) = {a \<in> set (active_rows alarms). al_id a \<noteq> aid}"
    using assms(3,4) by (auto simp: active_rows_def keeps_key_def split: if_splits)
  show "active_alarms (map ?g alarms) k' = Some w \<longleftrightarrow> ((active_alarms alarms)(k := None)) k' = Some w"
    unfolding active_alarms_eq_Some [OF ok'] rows using owner active_alarms_eq_Some [OF assms(1)] by auto
qed

lemma insert_keeps_ok:
  assumes "alarms_ok alarms" "al_id a \<notin> al_id ` set alarms" "al_kind a = originator_type_device" "\<not> al_cleared a"
    "active_alarms alarms (alarm_key a) = None"
  shows "alarms_ok (alarms @ [a])" "active_alarms (alarms @ [a]) = (active_alarms alarms)(alarm_key a \<mapsto> alarm_value a)"
proof -
  have rows: "active_rows (alarms @ [a]) = active_rows alarms @ [a]" using assms(3,4) by (simp add: active_rows_def)
  show "alarms_ok (alarms @ [a])" using assms rows by (auto simp: alarms_ok_def active_alarms_None)
  show "active_alarms (alarms @ [a]) = (active_alarms alarms)(alarm_key a \<mapsto> alarm_value a)"
    using assms(5) rows by (auto simp: active_alarms_def map_add_def split: option.splits)
qed

lemma update_alarm_simps [simp]:
  "ad_alarms (update_alarm aid f db) = update_row aid f (ad_alarms db)"
  "ad_topo (update_alarm aid f db) = ad_topo db"
  "live_device (update_alarm aid f db) = live_device db"
  by (simp_all add: update_alarm_def live_device_def fun_eq_iff)

lemma keep_alarms:
  assumes "ad_alarms db' = ad_alarms db" "ad_topo db' = ad_topo db" "pg_db s = db" "pg_db s' = db'" "pg_ok s"
  shows "pg_ok s' \<and> pg_active s' = pg_active s \<and> pg_live s' = pg_live s"
  using assms by (simp add: pg_ok_def pg_active_def pg_live_def live_device_def fun_eq_iff)

lemma statement_keeps:
  assumes "pg_ok s" "statement f failed s = (r, s')" "\<And>db. ad_alarms (snd (f db)) = ad_alarms db \<and> ad_topo (snd (f db)) = ad_topo db"
  shows "pg_ok s' \<and> pg_active s' = pg_active s \<and> pg_live s' = pg_live s"
  using assms(2)
proof (cases rule: statement_cases)
  case fault
  then show ?thesis using keep_alarms [OF _ _ refl refl assms(1), of s'] by simp
next
  case effect
  then have "pg_db s' = snd (f (pg_db s))" by (metis snd_conv)
  then show ?thesis using keep_alarms [OF _ _ refl refl assms(1), of s'] assms(3) by simp
qed

lemma pg_find_law:
  assumes "pg_ok s" "pg_find d t s = (f, s')"
  shows "pg_ok s' \<and> pg_active s' = pg_active s \<and> pg_live s' = pg_live s \<and>
    (f = FoundNone \<longrightarrow> pg_active s (d, t) = None) \<and> (\<forall>aid v. f = Found aid v \<longrightarrow> pg_active s (d, t) = Some (aid, v))"
  using assms(2) unfolding pg_find_def
proof (cases rule: statement_cases)
  case fault
  then show ?thesis using keep_alarms [OF _ _ refl refl assms(1), of s'] by simp
next
  case effect
  then have db: "pg_db s' = pg_db s" by simp
  then show ?thesis using effect keep_alarms [OF _ _ refl refl assms(1), of s'] select_active_cases [of d t "ad_alarms (pg_db s)"]
      active_alarms_None active_alarms_eq_Some [OF assms(1) [unfolded pg_ok_def]]
    by (auto simp: pg_active_def alarm_value_def split: option.splits)
qed

lemma pg_insert_law:
  assumes "pg_ok s" "pg_active s (rc_device a, rc_type a) = None" "pg_insert a s = (r, s')"
  shows "pg_ok s' \<and> pg_live s' = pg_live s \<and>
    pg_active s' = (if r = Inserted then (pg_active s)((rc_device a, rc_type a) := Some (rc_id a, rc_severity a)) else pg_active s) \<and>
    (r = Inserted \<longrightarrow> pg_live s (rc_device a) (rc_tenant a)) \<and> (r = OriginatorMissing \<longrightarrow> \<not> pg_live s (rc_device a) (rc_tenant a))"
  using assms(3) unfolding pg_insert_def
proof (cases rule: statement_cases)
  case fault
  then show ?thesis using keep_alarms [OF _ _ refl refl assms(1), of s'] by simp
next
  case effect
  have k: "alarm_key (inserted_alarm a) = (rc_device a, rc_type a)" "alarm_value (inserted_alarm a) = (rc_id a, rc_severity a)"
    "al_id (inserted_alarm a) = rc_id a" "al_kind (inserted_alarm a) = originator_type_device" "\<not> al_cleared (inserted_alarm a)"
    by (simp_all add: inserted_alarm_def alarm_key_def alarm_value_def coalesce_def)
  show ?thesis
  proof (cases "r = Inserted")
    case False
    then have "pg_db s' = pg_db s" using effect by (auto split: if_splits)
    then show ?thesis using keep_alarms [OF _ _ refl refl assms(1), of s'] False effect by (auto simp: pg_live_def split: if_splits)
  next
    case True
    then have db: "ad_alarms (pg_db s') = ad_alarms (pg_db s) @ [inserted_alarm a]" "ad_topo (pg_db s') = ad_topo (pg_db s)"
      and pre: "live_device (pg_db s) (rc_device a) (rc_tenant a)" "rc_id a \<notin> al_id ` set (ad_alarms (pg_db s))"
      using effect by (auto split: if_splits) (metis alarm_db.select_convs(1,4) alarm_db.surjective alarm_db.update_convs(1))+
    note ins = insert_keeps_ok [of "ad_alarms (pg_db s)" "inserted_alarm a", unfolded k]
    have "live_device (pg_db s') = live_device (pg_db s)" using db by (simp add: live_device_def fun_eq_iff)
    then show ?thesis using ins k(5) assms(1,2) db pre True by (simp add: pg_ok_def pg_active_def pg_live_def)
  qed
qed

lemma pg_update_law:
  assumes "pg_ok s" "statement (\<lambda>db. (True, update_alarm aid f db)) False s = (b, s')" "keeps_key f" "\<forall>a. al_cleared a \<longrightarrow> al_cleared (f a)"
  shows "pg_ok s' \<and> pg_live s' = pg_live s \<and>
    pg_active s' = (if b then active_alarms (update_row aid f (ad_alarms (pg_db s))) else pg_active s)"
  using assms(2)
proof (cases rule: statement_cases)
  case fault
  then show ?thesis using keep_alarms [OF _ _ refl refl assms(1), of s'] by simp
next
  case effect
  then have db: "pg_db s' = update_alarm aid f (pg_db s)" "b" by auto
  then show ?thesis using assms update_ok by (simp add: pg_ok_def pg_active_def pg_live_def)
qed

lemma pg_link_law:
  assumes "pg_ok s" "pg_link l s = (b, s')"
  shows "pg_ok s' \<and> pg_active s' = pg_active s \<and> pg_live s' = pg_live s"
  by (rule statement_keeps [OF assms(1) assms(2) [unfolded pg_link_def]]) simp

lemma refresh_loop_law:
  assumes "pg_ok s" "refresh_loop clock t as s = (b, s')"
  shows "pg_ok s' \<and> pg_active s' = pg_active s \<and> pg_live s' = pg_live s"
  using assms
proof (induction as arbitrary: s)
  case Nil
  then show ?case by simp
next
  case (Cons a as)
  obtain n s1 where 1: "statement (\<lambda>db. (Some (active_alarm_count db (\<lambda>x. al_tenant x = t) a), db)) None s = (n, s1)" by fastforce
  have s1: "pg_ok s1 \<and> pg_active s1 = pg_active s \<and> pg_live s1 = pg_live s"
    by (rule statement_keeps [OF Cons.prems(1) 1]) simp
  show ?case
  proof (cases n)
    case None
    then show ?thesis using Cons.prems(2) 1 s1 by simp
  next
    case (Some m)
    obtain k s2 where 2: "statement (\<lambda>db. (True, db\<lparr>ad_counts := AList.update a (int m, clock) (ad_counts db)\<rparr>)) False s1 = (k, s2)" by fastforce
    have s2: "pg_ok s2 \<and> pg_active s2 = pg_active s1 \<and> pg_live s2 = pg_live s1"
      by (rule statement_keeps [OF _ 2]) (use s1 in simp_all)
    have "refresh_loop clock t as s2 = (b, s') \<or> s' = s2" using Cons.prems(2) 1 2 Some by (auto split: if_splits)
    then show ?thesis using Cons.IH s1 s2 by metis
  qed
qed

lemma pg_refresh_law:
  assumes "pg_ok s" "pg_refresh clock t d s = (b, s')"
  shows "pg_ok s' \<and> pg_active s' = pg_active s \<and> pg_live s' = pg_live s"
proof -
  obtain r s1 where 1: "statement (\<lambda>db. (Some (map ref_id (alarm_ancestors (ad_topo db) d)), db)) None s = (r, s1)" by fastforce
  have s1: "pg_ok s1 \<and> pg_active s1 = pg_active s \<and> pg_live s1 = pg_live s"
    by (rule statement_keeps [OF assms(1) 1]) simp
  obtain k s2 where 2: "statement (\<lambda>db. (True, db)) False s1 = (k, s2)" by fastforce
  have s2: "pg_ok s2 \<and> pg_active s2 = pg_active s1 \<and> pg_live s2 = pg_live s1"
    by (rule statement_keeps [OF _ 2]) (use s1 in simp_all)
  consider "s' = s1" | "s' = s2" | as where "refresh_loop clock t as s2 = (b, s')"
    using assms(2) 1 2 by (auto simp: pg_refresh_def split: option.splits if_splits)
  then show ?thesis using s1 s2 refresh_loop_law by cases metis+
qed

lemma pg_repository_simps [simp]:
  "find_active_alarm (pg_repository clock) = pg_find" "insert_alarm (pg_repository clock) = pg_insert"
  "link_entity_alarm (pg_repository clock) = pg_link" "extend_alarm (pg_repository clock) = pg_extend"
  "escalate_alarm (pg_repository clock) = pg_escalate" "clear_alarm (pg_repository clock) = pg_clear"
  "refresh_counts (pg_repository clock) = pg_refresh clock"
  by (simp_all add: pg_repository_def)

interpretation pg: alarm_repository "pg_repository clock" pg_ok pg_active pg_live for clock
proof (unfold_locales, unfold pg_repository_simps)
  show "pg_ok s' \<and> pg_active s' = pg_active s \<and> pg_live s' = pg_live s" if "pg_ok s" "pg_extend aid now s = (b, s')" for s aid now b s'
    using pg_update_law [OF that(1) that(2) [unfolded pg_extend_def]] active_update_same
    by (simp add: keeps_key_def pg_active_def)
  show "pg_ok s' \<and> pg_live s' = pg_live s \<and> pg_active s' = (if b then (pg_active s)(k := Some (aid, v')) else pg_active s)"
    if "pg_ok s" "pg_active s k = Some (aid, v)" "pg_escalate aid v' now s = (b, s')" for s k aid v v' now b s'
    using pg_update_law [OF that(1) that(3) [unfolded pg_escalate_def]] that(1,2)
      active_update_severity [of "ad_alarms (pg_db s)" k aid v "\<lambda>a. a\<lparr>al_end := Some now, al_severity := Some v'\<rparr>" v']
    by (simp add: keeps_key_def pg_active_def pg_ok_def)
  show "pg_ok s' \<and> pg_live s' = pg_live s \<and> pg_active s' = (if b then (pg_active s)(k := None) else pg_active s)"
    if "pg_ok s" "pg_active s k = Some (aid, v)" "pg_clear aid now s = (b, s')" for s k aid v now b s'
    using pg_update_law [OF that(1) that(3) [unfolded pg_clear_def]] that(1,2)
      active_update_cleared [of "ad_alarms (pg_db s)" k aid v "\<lambda>a. a\<lparr>al_cleared := True, al_clear_ts := now,
        al_end := Some (max (case al_end a of None \<Rightarrow> 0 | Some e \<Rightarrow> e) now)\<rparr>"]
    by (simp add: keeps_key_def pg_active_def pg_ok_def)
qed (fact pg_find_law pg_insert_law pg_link_law pg_refresh_law)+

end
