(* ===== verification/AlarmProgress.thy ===== *)
theory AlarmProgress
  imports AlarmLaws
begin

text \<open>
  Delivery ends: every attempt that fails has met a failing statement, so that an intent redelivered
  more often than statements fail succeeds.
\<close>

locale failing_repository = alarm_repository repo ok active live
  for repo :: "'s repository" and ok active live +
  fixes faults :: "'s \<Rightarrow> nat" and ids :: "'s \<Rightarrow> str set"
  assumes find_cost: "find_active_alarm repo d t s = (f, s') \<Longrightarrow>
      ids s' = ids s \<and> faults s' \<le> faults s \<and> (f = FindFailed \<longrightarrow> faults s' < faults s)"
    and insert_cost: "insert_alarm repo a s = (r, s') \<Longrightarrow>
      ids s' \<subseteq> insert (rc_id a) (ids s) \<and> faults s' \<le> faults s \<and>
      (r = InsertFailed \<longrightarrow> rc_id a \<in> ids s \<or> faults s' < faults s)"
    and link_cost: "link_entity_alarm repo l s = (b, s') \<Longrightarrow> ids s' = ids s \<and> faults s' \<le> faults s \<and> (\<not> b \<longrightarrow> faults s' < faults s)"
    and extend_cost: "extend_alarm repo aid now s = (b, s') \<Longrightarrow> ids s' = ids s \<and> faults s' \<le> faults s \<and> (\<not> b \<longrightarrow> faults s' < faults s)"
    and escalate_cost: "escalate_alarm repo aid v now s = (b, s') \<Longrightarrow>
      ids s' = ids s \<and> faults s' \<le> faults s \<and> (\<not> b \<longrightarrow> faults s' < faults s)"
    and clear_cost: "clear_alarm repo aid now s = (b, s') \<Longrightarrow> ids s' = ids s \<and> faults s' \<le> faults s \<and> (\<not> b \<longrightarrow> faults s' < faults s)"
    and refresh_cost: "refresh_counts repo tn d s = (b, s') \<Longrightarrow> ids s' = ids s \<and> faults s' \<le> faults s \<and> (\<not> b \<longrightarrow> faults s' < faults s)"
begin

definition grows :: "str \<Rightarrow> 's \<Rightarrow> 's \<Rightarrow> bool" where
  "grows nid s s' \<longleftrightarrow> ids s' \<subseteq> insert nid (ids s) \<and> faults s' \<le> faults s"

lemma call_cost:
  assumes "call f e k s = (r, s')"
    and "\<And>b s1. f s = (b, s1) \<Longrightarrow> ids s1 = ids s \<and> faults s1 \<le> faults s \<and> (\<not> b \<longrightarrow> faults s1 < faults s)"
    and "\<And>s1. k s1 = (r, s') \<Longrightarrow> grows nid s1 s' \<and> (\<forall>x. r = Inl x \<longrightarrow> faults s' < faults s1)"
  shows "grows nid s s' \<and> (\<forall>x. r = Inl x \<longrightarrow> faults s' < faults s)"
  using assms(1)
proof (cases rule: call_cases)
  case fails
  then show ?thesis using assms(2) by (auto simp: grows_def)
next
  case (returned s1)
  then show ?thesis using assms(2) [OF returned(1)] assms(3) [OF returned(2)] by (fastforce simp: grows_def)
qed

lemma return_cost: "(Inr x, s) = (r, s') \<Longrightarrow> grows nid s s' \<and> (\<forall>y. r = Inl y \<longrightarrow> faults s' < faults s)"
  by (auto simp: grows_def)

lemmas refreshed = call_cost [OF _ refresh_cost return_cost]

lemma apply_intent_cost:
  assumes "apply_intent repo i now nid s = (r, s')" "validate_intent i = Inr ()" "nid \<notin> ids s"
  shows "grows nid s s' \<and> (\<forall>x. r = Inl x \<longrightarrow> faults s' < faults s)"
proof -
  obtain f s1 where f: "find_active_alarm repo (it_device i) (it_type i) s = (f, s1)" by fastforce
  note c = find_cost [OF f]
  have from_s1: ?thesis if "grows nid s1 s' \<and> (\<forall>x. r = Inl x \<longrightarrow> faults s' < faults s1)"
    using that c by (fastforce simp: grows_def)
  show ?thesis
  proof (cases f)
    case FindFailed
    then show ?thesis using assms(1,2) f c by (auto simp: apply_intent_def grows_def)
  next
    case FoundNone
    show ?thesis
    proof (cases "it_action i = ''clear''")
      case True
      then show ?thesis using assms(1,2) f c FoundNone by (auto simp: apply_intent_def grows_def)
    next
      case False
      obtain b s2 where ins: "insert_alarm repo (new_alarm_record i now nid) s1 = (b, s2)" by fastforce
      have c2: "grows nid s1 s2" "b = InsertFailed \<longrightarrow> faults s2 < faults s1"
        using insert_cost [OF ins] c assms(3) by (auto simp: grows_def new_alarm_record_def)
      show ?thesis
      proof (cases b)
        case Inserted
        have "call (link_entity_alarm repo (new_alarm_link i now nid)) LinkError
            (call (refresh_counts repo (it_tenant i) (it_device i)) RefreshError (\<lambda>s. (Inr (Created nid), s))) s2 = (r, s')"
          using assms(1,2) f FoundNone False ins Inserted by (simp add: apply_intent_def)
        from call_cost [OF this link_cost refreshed] from_s1 c2 show ?thesis by (fastforce simp: grows_def)
      qed (use assms(1,2) f FoundNone False ins c2 from_s1 in \<open>auto simp: apply_intent_def\<close>)
    qed
  next
    case (Found aid v)
    consider (clearing) "call (clear_alarm repo aid now) ClearError
          (call (refresh_counts repo (it_tenant i) (it_device i)) RefreshError (\<lambda>s. (Inr (Cleared aid), s))) s1 = (r, s')"
      | (escalating) "call (escalate_alarm repo aid (it_severity i) now) EscalateError
          (call (refresh_counts repo (it_tenant i) (it_device i)) RefreshError (\<lambda>s. (Inr (Escalated aid), s))) s1 = (r, s')"
      | (extending) "call (extend_alarm repo aid now) ExtendError (\<lambda>s. (Inr (Extended aid), s)) s1 = (r, s')"
      using assms(1,2) f Found by (auto simp: apply_intent_def split: if_splits)
    then show ?thesis
    proof cases
      case clearing
      from call_cost [OF this clear_cost refreshed] show ?thesis by (rule from_s1)
    next
      case escalating
      from call_cost [OF this escalate_cost refreshed] show ?thesis by (rule from_s1)
    next
      case extending
      from call_cost [OF this extend_cost return_cost] show ?thesis by (rule from_s1)
    qed
  qed
qed

lemma deliver_succeeds:
  assumes "validate_intent i = Inr ()" "distinct (map snd attempts)" "set (map snd attempts) \<inter> ids s = {}" "faults s < length attempts"
  shows "fst (deliver repo i attempts s) \<noteq> None"
  using assms(2-)
proof (induction attempts arbitrary: s)
  case Nil
  then show ?case by simp
next
  case (Cons x rest)
  obtain now nid where x: "x = (now, nid)" by (cases x)
  obtain q s1 where q: "apply_intent repo i now nid s = (q, s1)" by fastforce
  have c: "grows nid s s1" "\<forall>e. q = Inl e \<longrightarrow> faults s1 < faults s"
    using apply_intent_cost [OF q assms(1)] Cons.prems(2) x by auto
  show ?case
  proof (cases q)
    case (Inr y)
    then show ?thesis using q x by simp
  next
    case (Inl e)
    have "nid \<notin> set (map snd rest)" using Cons.prems(1) x by simp
    moreover have "set (map snd rest) \<inter> ids s = {}" using Cons.prems(2) by auto
    ultimately have "set (map snd rest) \<inter> ids s1 = {}" using c(1) unfolding grows_def by blast
    moreover have "faults s1 < length rest" using c(2) Inl Cons.prems(3) by simp
    ultimately have "fst (deliver repo i rest s1) \<noteq> None" using Cons.IH Cons.prems(1) by simp
    then show ?thesis using q x Inl by simp
  qed
qed

end

section \<open>The faults of the Postgres repository\<close>

definition pg_faults_left :: "pg_state \<Rightarrow> nat" where
  "pg_faults_left s = count_list (pg_faults s) True"

definition pg_ids :: "pg_state \<Rightarrow> str set" where
  "pg_ids s = al_id ` set (ad_alarms (pg_db s))"

lemma statement_cost:
  assumes "statement f failed s = (r, s')"
  obtains (fault) "pg_faults_left s' < pg_faults_left s" "r = failed" "pg_db s' = pg_db s"
    | (effect) "pg_faults_left s' = pg_faults_left s" "f (pg_db s) = (r, pg_db s')"
proof (cases "pg_faults s")
  case Nil
  then show thesis using assms by (intro effect) (auto simp: statement_def pg_faults_left_def split: prod.splits)
next
  case (Cons x xs)
  show thesis
  proof (cases x)
    case True
    then show thesis using assms Cons by (intro fault) (auto simp: statement_def pg_faults_left_def)
  next
    case False
    then show thesis using assms Cons by (intro effect) (auto simp: statement_def pg_faults_left_def split: prod.splits)
  qed
qed

lemma statement_same_ids:
  assumes "statement f failed s = (r, s')" "\<And>db. al_id ` set (ad_alarms (snd (f db))) = al_id ` set (ad_alarms db)"
    "\<And>db. fst (f db) \<noteq> failed"
  shows "pg_ids s' = pg_ids s \<and> pg_faults_left s' \<le> pg_faults_left s \<and> (r = failed \<longrightarrow> pg_faults_left s' < pg_faults_left s)"
  using assms(1)
proof (cases rule: statement_cost)
  case fault
  then show ?thesis by (simp add: pg_ids_def)
next
  case effect
  then have "pg_db s' = snd (f (pg_db s))" "r = fst (f (pg_db s))" by (metis snd_conv, metis fst_conv)
  then show ?thesis using effect(1) assms(2,3) by (simp add: pg_ids_def)
qed

lemma update_row_ids:
  assumes "keeps_key f"
  shows "al_id ` set (update_row aid f alarms) = al_id ` set alarms"
proof -
  have "al_id \<circ> (\<lambda>a. if al_id a = aid then f a else a) = al_id" using assms by (auto simp: keeps_key_def)
  then have "al_id ` ((\<lambda>a. if al_id a = aid then f a else a) ` set alarms) = al_id ` set alarms" by (simp only: image_comp)
  then show ?thesis by (simp only: set_map)
qed

lemma update_cost:
  assumes "statement (\<lambda>db. (True, update_alarm aid f db)) False s = (b, s')" "keeps_key f"
  shows "pg_ids s' = pg_ids s \<and> pg_faults_left s' \<le> pg_faults_left s \<and> (\<not> b \<longrightarrow> pg_faults_left s' < pg_faults_left s)"
  using statement_same_ids [OF assms(1)] update_row_ids [OF assms(2)] by simp

lemma refresh_loop_cost:
  assumes "refresh_loop clock t as s = (b, s')"
  shows "pg_ids s' = pg_ids s \<and> pg_faults_left s' \<le> pg_faults_left s \<and> (\<not> b \<longrightarrow> pg_faults_left s' < pg_faults_left s)"
  using assms
proof (induction as arbitrary: s)
  case Nil
  then show ?case by simp
next
  case (Cons a as)
  obtain n s1 where 1: "statement (\<lambda>db. (Some (active_alarm_count db (\<lambda>x. al_tenant x = t) a), db)) None s = (n, s1)" by fastforce
  note c1 = statement_same_ids [OF 1, simplified]
  show ?case
  proof (cases n)
    case None
    then show ?thesis using Cons.prems 1 c1 by simp
  next
    case (Some m)
    obtain k s2 where 2: "statement (\<lambda>db. (True, db\<lparr>ad_counts := AList.update a (int m, clock) (ad_counts db)\<rparr>)) False s1 = (k, s2)" by fastforce
    note c2 = statement_same_ids [OF 2, simplified]
    show ?thesis
    proof (cases k)
      case True
      then have "refresh_loop clock t as s2 = (b, s')" using Cons.prems 1 2 Some by simp
      from Cons.IH [OF this] show ?thesis using c1 c2 by auto
    next
      case False
      then show ?thesis using Cons.prems 1 2 Some c1 c2 by simp
    qed
  qed
qed

lemma pg_refresh_cost:
  assumes "pg_refresh clock t d s = (b, s')"
  shows "pg_ids s' = pg_ids s \<and> pg_faults_left s' \<le> pg_faults_left s \<and> (\<not> b \<longrightarrow> pg_faults_left s' < pg_faults_left s)"
proof -
  obtain r s1 where 1: "statement (\<lambda>db. (Some (map ref_id (alarm_ancestors (ad_topo db) d)), db)) None s = (r, s1)" by fastforce
  obtain k s2 where 2: "statement (\<lambda>db. (True, db)) False s1 = (k, s2)" by fastforce
  note c = statement_same_ids [OF 1, simplified] statement_same_ids [OF 2, simplified]
  consider "r = None" "s' = s1" | as where "r = Some as" "b" "s' = s2" | as where "refresh_loop clock t as s2 = (b, s')"
    using assms 1 2 by (cases r; cases k) (auto simp: pg_refresh_def)
  then show ?thesis
  proof cases
    case 1
    then show ?thesis using c(1) by simp
  next
    case 2
    then show ?thesis using c by simp
  next
    case 3
    note refresh_loop_cost [OF this]
    then show ?thesis using c by (intro conjI impI) auto
  qed
qed

lemma pg_insert_cost:
  assumes "pg_insert a s = (r, s')"
  shows "pg_ids s' \<subseteq> insert (rc_id a) (pg_ids s) \<and> pg_faults_left s' \<le> pg_faults_left s \<and>
    (r = InsertFailed \<longrightarrow> rc_id a \<in> pg_ids s \<or> pg_faults_left s' < pg_faults_left s)"
  using assms unfolding pg_insert_def
proof (cases rule: statement_cost)
  case fault
  then show ?thesis by (auto simp: pg_ids_def)
next
  case effect
  have "al_id (inserted_alarm a) = rc_id a" by (simp add: inserted_alarm_def)
  moreover have "set (ad_alarms (pg_db s')) \<subseteq> insert (inserted_alarm a) (set (ad_alarms (pg_db s)))"
    using arg_cong [where f = "\<lambda>x. ad_alarms (snd x)", OF effect(2)] by (auto simp: eq_commute [of _ "ad_alarms (pg_db s')"] split: if_splits)
  moreover have "r = InsertFailed \<longrightarrow> rc_id a \<in> pg_ids s" using effect(2) by (auto simp: pg_ids_def split: if_splits)
  ultimately show ?thesis using effect(1) by (auto simp: pg_ids_def)
qed

interpretation pgf: failing_repository "pg_repository clock" pg_ok pg_active pg_live pg_faults_left pg_ids for clock
proof (unfold_locales, unfold pg_repository_simps)
  show "pg_ids s' = pg_ids s \<and> pg_faults_left s' \<le> pg_faults_left s \<and> (f = FindFailed \<longrightarrow> pg_faults_left s' < pg_faults_left s)"
    if "pg_find d t s = (f, s')" for d t s f s'
    by (rule statement_same_ids [OF that [unfolded pg_find_def]]) (auto split: option.splits)
  show "pg_ids s' = pg_ids s \<and> pg_faults_left s' \<le> pg_faults_left s \<and> (\<not> b \<longrightarrow> pg_faults_left s' < pg_faults_left s)"
    if "pg_link l s = (b, s')" for l s b s'
    using statement_same_ids [OF that [unfolded pg_link_def]] by simp
  show "pg_ids s' = pg_ids s \<and> pg_faults_left s' \<le> pg_faults_left s \<and> (\<not> b \<longrightarrow> pg_faults_left s' < pg_faults_left s)"
    if "pg_extend aid now s = (b, s')" for aid now s b s'
    by (rule update_cost [OF that [unfolded pg_extend_def]]) (simp add: keeps_key_def)
  show "pg_ids s' = pg_ids s \<and> pg_faults_left s' \<le> pg_faults_left s \<and> (\<not> b \<longrightarrow> pg_faults_left s' < pg_faults_left s)"
    if "pg_escalate aid v now s = (b, s')" for aid v now s b s'
    by (rule update_cost [OF that [unfolded pg_escalate_def]]) (simp add: keeps_key_def)
  show "pg_ids s' = pg_ids s \<and> pg_faults_left s' \<le> pg_faults_left s \<and> (\<not> b \<longrightarrow> pg_faults_left s' < pg_faults_left s)"
    if "pg_clear aid now s = (b, s')" for aid now s b s'
    by (rule update_cost [OF that [unfolded pg_clear_def]]) (simp add: keeps_key_def)
qed (fact pg_insert_cost pg_refresh_cost)+

end
