(* ===== verification/AlarmCounts.thy ===== *)
theory AlarmCounts
  imports AlarmProgress
begin

text \<open>
  The recursive queries compute reachability, and what a refresh of the counts writes when no statement
  fails.
\<close>

section \<open>Recursive queries\<close>

lemma closed_star:
  assumes "r `` A \<subseteq> A"
  shows "r\<^sup>* `` A = A"
proof -
  have "y \<in> A" if "(x, y) \<in> r\<^sup>*" "x \<in> A" for x y using that by induction (use assms in blast)+
  then show ?thesis by blast
qed

lemma star_grow:
  assumes "B \<subseteq> r `` A"
  shows "r\<^sup>* `` (A \<union> B) = r\<^sup>* `` A"
proof -
  have "r\<^sup>* `` B \<subseteq> r\<^sup>* `` (r `` A)" using assms by (rule Image_mono [OF subset_refl])
  also have "\<dots> \<subseteq> r\<^sup>* `` A" by (auto intro: converse_rtrancl_into_rtrancl)
  finally show ?thesis by auto
qed

lemma saturate_reachable:
  assumes "card (snd ` set es - set rows) \<le> n"
  shows "set (saturate n es rows) = (set es)\<^sup>* `` set rows"
  using assms
proof (induction n arbitrary: rows)
  case 0
  then have "snd ` set es \<subseteq> set rows" by simp
  then have "set es `` set rows \<subseteq> set rows" by force
  then show ?case by (simp add: saturate.simps closed_star)
next
  case (Suc n)
  let ?new = "remdups (filter (\<lambda>y. y \<notin> set rows) (map snd (filter (\<lambda>e. fst e \<in> set rows) es)))"
  have new: "set ?new = set es `` set rows - set rows" by force
  show ?case
  proof (cases "?new = []")
    case True
    then have "set es `` set rows \<subseteq> set rows" using new by (metis Diff_eq_empty_iff list.set(1))
    then show ?thesis using True by (simp only: saturate.simps [of "Suc n"] Let_def closed_star) simp
  next
    case False
    have step: "saturate (Suc n) es rows = saturate n es (rows @ ?new)"
      using False by (simp only: saturate.simps [of "Suc n"] Let_def) simp
    have sub: "set ?new \<subseteq> snd ` set es - set rows" unfolding new by force
    have "snd ` set es - set (rows @ ?new) = (snd ` set es - set rows) - set ?new" by (simp only: set_append) blast
    moreover have "0 < card (set ?new)" using False by (simp only: card_gt_0_iff) (simp del: set_remdups)
    moreover have "card (set ?new) \<le> card (snd ` set es - set rows)" using sub by (intro card_mono) auto
    ultimately have "card (snd ` set es - set (rows @ ?new)) \<le> n"
      using Suc.prems sub by (simp add: card_Diff_subset del: set_append set_remdups)
    from Suc.IH [OF this] have "set (saturate (Suc n) es rows) = (set es)\<^sup>* `` (set rows \<union> set ?new)"
      by (simp only: step set_append)
    also have "\<dots> = (set es)\<^sup>* `` set rows" by (rule star_grow) (use new in auto)
    finally show ?thesis .
  qed
qed

lemma targets_bound: "card (snd ` set es - A) \<le> length es"
proof -
  have "card (snd ` set es - A) \<le> card (snd ` set es)" by (intro card_mono) auto
  also have "\<dots> \<le> length es" using card_image_le [of "set es" snd] card_length [of es] by simp
  finally show ?thesis .
qed

lemma alarm_ancestors_reachable:
  "set (alarm_ancestors db device) = {x. (x, \<lparr>ref_type = ''DEVICE'', ref_id = device\<rparr>) \<in> (set (contains_edges db))\<^sup>+}"
proof -
  let ?up = "map (\<lambda>(a, b). (b, a)) (contains_edges db)" and ?d = "\<lparr>ref_type = ''DEVICE'', ref_id = device\<rparr>"
  have up: "set ?up = (set (contains_edges db))\<inverse>" by auto
  have "set (remdups (map snd (filter (\<lambda>e. fst e = ?d) ?up))) = set ?up `` {?d}" by force
  then have "set (alarm_ancestors db device) = (set ?up)\<^sup>* `` (set ?up `` {?d})"
    unfolding alarm_ancestors_def Let_def by (simp only: saturate_reachable [OF targets_bound])
  also have "\<dots> = (set ?up)\<^sup>+ `` {?d}" by (simp add: trancl_unfold_left relcomp_Image [symmetric] r_comp_rtrancl_eq)
  finally show ?thesis unfolding up by (auto simp: trancl_converse)
qed

lemma devices_below_reachable:
  "set (devices_below db asset) =
    {d. (\<lparr>ref_type = ''ASSET'', ref_id = asset\<rparr>, \<lparr>ref_type = ''DEVICE'', ref_id = d\<rparr>) \<in> (set (contains_edges db))\<^sup>*}"
proof -
  have "set (alarm_descendants db asset) = (set (contains_edges db))\<^sup>* `` {\<lparr>ref_type = ''ASSET'', ref_id = asset\<rparr>}"
    unfolding alarm_descendants_def Let_def by (subst saturate_reachable [OF targets_bound]) simp
  then have rows: "x \<in> set (alarm_descendants db asset) \<longleftrightarrow> (\<lparr>ref_type = ''ASSET'', ref_id = asset\<rparr>, x) \<in> (set (contains_edges db))\<^sup>*" for x
    by simp
  have "d \<in> set (devices_below db asset) \<longleftrightarrow> \<lparr>ref_type = ''DEVICE'', ref_id = d\<rparr> \<in> set (alarm_descendants db asset)" for d
  proof
    assume "d \<in> set (devices_below db asset)"
    then obtain x where x: "x \<in> set (alarm_descendants db asset)" "ref_type x = ''DEVICE''" "ref_id x = d"
      by (auto simp: devices_below_def)
    have "x = \<lparr>ref_type = ''DEVICE'', ref_id = d\<rparr>" using x(2,3) by (cases x) simp
    then show "\<lparr>ref_type = ''DEVICE'', ref_id = d\<rparr> \<in> set (alarm_descendants db asset)" using x(1) by simp
  qed (force simp: devices_below_def)
  then have "d \<in> set (devices_below db asset) \<longleftrightarrow>
      (\<lparr>ref_type = ''ASSET'', ref_id = asset\<rparr>, \<lparr>ref_type = ''DEVICE'', ref_id = d\<rparr>) \<in> (set (contains_edges db))\<^sup>*" for d
    by (simp only: rows)
  then show ?thesis by blast
qed

section \<open>A refresh without failures\<close>

lemma statement_ok [simp]:
  "pg_faults s = [] \<Longrightarrow> statement f failed s = (fst (f (pg_db s)), s\<lparr>pg_db := snd (f (pg_db s))\<rparr>)"
  by (cases s) (simp add: statement_def split: prod.splits)

lemma active_alarm_count_cong [simp]:
  "active_alarm_count (db\<lparr>ad_counts := c\<rparr>) p asset = active_alarm_count db p asset"
  by (simp add: active_alarm_count_def)

lemma refresh_loop_writes:
  assumes "pg_faults s = []"
  shows "\<exists>c. refresh_loop clock t as s = (True, s\<lparr>pg_db := (pg_db s)\<lparr>ad_counts := c\<rparr>\<rparr>) \<and>
    (\<forall>x. map_of c x = (if x \<in> set as then Some (int (active_alarm_count (pg_db s) (\<lambda>a. al_tenant a = t) x), clock)
                      else map_of (ad_counts (pg_db s)) x))"
  using assms
proof (induction as arbitrary: s)
  case Nil
  then show ?case by (intro exI [of _ "ad_counts (pg_db s)"]) simp
next
  case (Cons a as)
  let ?n = "int (active_alarm_count (pg_db s) (\<lambda>a. al_tenant a = t) a)"
  let ?s = "s\<lparr>pg_db := (pg_db s)\<lparr>ad_counts := AList.update a (?n, clock) (ad_counts (pg_db s))\<rparr>\<rparr>"
  have "refresh_loop clock t (a # as) s = refresh_loop clock t as ?s" using Cons.prems by simp
  moreover from Cons.IH [of ?s] Cons.prems obtain c where
    "refresh_loop clock t as ?s = (True, ?s\<lparr>pg_db := (pg_db ?s)\<lparr>ad_counts := c\<rparr>\<rparr>)"
    "\<forall>x. map_of c x = (if x \<in> set as then Some (int (active_alarm_count (pg_db ?s) (\<lambda>a. al_tenant a = t) x), clock)
                      else map_of (ad_counts (pg_db ?s)) x)" by auto
  ultimately show ?case by (intro exI [of _ c]) (simp add: update_conv')
qed

lemma refresh_writes:
  assumes "pg_faults s = []"
  shows "\<exists>c. pg_refresh clock t d s = (True, s\<lparr>pg_db := (pg_db s)\<lparr>ad_counts := c\<rparr>\<rparr>) \<and>
    (\<forall>x \<in> ref_id ` set (alarm_ancestors (ad_topo (pg_db s)) d).
       map_of c x = Some (int (active_alarm_count (pg_db s) (\<lambda>a. al_tenant a = t) x), clock))"
proof -
  from refresh_loop_writes [OF assms, of clock t "map ref_id (alarm_ancestors (ad_topo (pg_db s)) d)"]
  show ?thesis using assms by (auto simp: pg_refresh_def)
qed

end
