(* ===== verification/AlarmProps.thy ===== *)
theory AlarmProps
  imports AlarmCounts
begin

text \<open>
  What the alarms guarantee: a delivered intent takes effect once whatever statements fail, and the
  counts on the assets above are exact after an intent that succeeded. And where the guarantees end:
  the links of a redelivered intent, two decisions at once, and the endpoints' missing owner check.
\<close>

section \<open>A small plant\<close>

definition line_ref :: entity_ref where "line_ref = \<lparr>ref_type = ''ASSET'', ref_id = ''line''\<rparr>"
definition cell_ref :: entity_ref where "cell_ref = \<lparr>ref_type = ''ASSET'', ref_id = ''cell''\<rparr>"
definition press_ref :: entity_ref where "press_ref = \<lparr>ref_type = ''DEVICE'', ref_id = ''press''\<rparr>"

definition contains_row :: "entity_ref \<Rightarrow> entity_ref \<Rightarrow> relation_row" where
  "contains_row a b = \<lparr>lr_from = a, lr_to = b, lr_group = ''COMMON'', lr_relation = ''Contains'', lr_info = NoInfo, lr_version = 0\<rparr>"

definition press_db :: alarm_db where
  "press_db = \<lparr>ad_alarms = [], ad_links = [], ad_counts = [],
     ad_topo = \<lparr>tp_edges = [], tp_relations = [contains_row line_ref cell_ref, contains_row cell_ref press_ref],
       tp_types = [], tp_owners = [],
       tp_twins = \<lparr>db_devices = [\<lparr>en_id = ''press'', en_tenant = Some ''t'', en_created = 1, en_name = ''press'',
             en_type = None, en_label = None, en_info = NoInfo\<rparr>],
         db_assets = [], db_models = [], db_registry = [], db_relation_types = []\<rparr>\<rparr>\<rparr>"

definition press_state :: "bool list \<Rightarrow> pg_state" where
  "press_state faults = \<lparr>pg_db = press_db, pg_faults = faults\<rparr>"

definition hot_intent :: intent where
  "hot_intent = \<lparr>it_action = ''create_or_update'', it_tenant = ''t'', it_device = ''press'', it_type = ''hot'',
     it_severity = ''MAJOR'', it_ts = 0, it_details = []\<rparr>"

section \<open>Effect of an intent\<close>

text \<open>C15: Refinement of the materializer on Postgres against the map from device and alarm type to the
  active alarm: whatever statements fail during which attempts, an intent redelivered more often than
  statements fail is eventually acknowledged, exactly one abstract step has then been taken for its key
  (created, kept, escalated or cleared; never a downgrade), nothing else has changed, and no key has two
  active alarms.\<close>

theorem intent_effectively_once:
  assumes "pg_ok s" "validate_intent i = Inr ()" "distinct (map snd attempts)"
    "set (map snd attempts) \<inter> al_id ` set (ad_alarms (pg_db s)) = {}" "count_list (pg_faults s) True < length attempts"
  shows "\<exists>r s' nid. deliver (pg_repository clock) i attempts s = (Some r, s') \<and> nid \<in> set (map snd attempts) \<and> pg_ok s' \<and>
    pg_active s' = intent_effect (live_device (pg_db s) (it_device i) (it_tenant i)) i nid (pg_active s)"
proof -
  have "fst (deliver (pg_repository clock) i attempts s) \<noteq> None"
    using pgf.deliver_succeeds [OF assms(2,3)] assms(4,5) by (simp add: pg_ids_def pg_faults_left_def)
  then obtain r s' where d: "deliver (pg_repository clock) i attempts s = (Some r, s')"
    by (metis option.collapse prod.collapse)
  from pg.deliver_once [OF assms(1) d] d show ?thesis by (auto simp: pg_live_def)
qed

theorem intent_effectively_once_witness:
  "\<exists>r s' nid. deliver (pg_repository 9) hot_intent [(5, ''a1''), (6, ''a2'')] (press_state [False, False, True]) = (Some r, s') \<and>
    nid \<in> {''a1'', ''a2''} \<and> pg_ok s' \<and> pg_active s' (''press'', ''hot'') = Some (nid, ''MAJOR'')"
proof -
  have "pg_ok (press_state [False, False, True])" "validate_intent hot_intent = Inr ()"
    "live_device press_db ''press'' ''t''" "pg_active (press_state [False, False, True]) k = None" for k
    by (simp_all add: pg_ok_def alarms_ok_def active_rows_def press_state_def press_db_def validate_intent_def hot_intent_def
        live_device_def pg_active_def active_alarms_def)
  with intent_effectively_once [of "press_state [False, False, True]" hot_intent "[(5, ''a1''), (6, ''a2'')]" 9] show ?thesis
    by (fastforce simp: press_state_def press_db_def intent_effect_def intent_step_def intent_key_def hot_intent_def)
qed

section \<open>Counts\<close>

lemma pg_kept:
  "pg_faults s = [] \<Longrightarrow> pg_faults (snd (pg_find d t s)) = [] \<and> ad_topo (pg_db (snd (pg_find d t s))) = ad_topo (pg_db s)"
  "pg_faults s = [] \<Longrightarrow> pg_faults (snd (pg_insert a s)) = [] \<and> ad_topo (pg_db (snd (pg_insert a s))) = ad_topo (pg_db s)"
  "pg_faults s = [] \<Longrightarrow> pg_faults (snd (pg_link l s)) = [] \<and> ad_topo (pg_db (snd (pg_link l s))) = ad_topo (pg_db s)"
  "pg_faults s = [] \<Longrightarrow> pg_faults (snd (pg_clear x now s)) = [] \<and> ad_topo (pg_db (snd (pg_clear x now s))) = ad_topo (pg_db s)"
  "pg_faults s = [] \<Longrightarrow> pg_faults (snd (pg_escalate x v now s)) = [] \<and> ad_topo (pg_db (snd (pg_escalate x v now s))) = ad_topo (pg_db s)"
  by (simp_all add: pg_find_def pg_insert_def pg_link_def pg_clear_def pg_escalate_def)

lemma changed_refreshes:
  assumes "pg_faults s = []" "apply_intent (pg_repository clock) i now nid s = (Inr r, s')"
    "r \<in> {Created nid, Cleared aid, Escalated aid}"
  obtains s1 where "pg_refresh clock (it_tenant i) (it_device i) s1 = (True, s')" "pg_faults s1 = []"
    "ad_topo (pg_db s1) = ad_topo (pg_db s)"
proof -
  have step: thesis
    if "call f e (call (pg_refresh clock (it_tenant i) (it_device i)) RefreshError (\<lambda>s. (Inr x, s))) s1 = (Inr r, s')"
      "pg_faults s1 = []" "ad_topo (pg_db s1) = ad_topo (pg_db s)"
      "pg_faults (snd (f s1)) = [] \<and> ad_topo (pg_db (snd (f s1))) = ad_topo (pg_db s1)" for f e x s1
    using that(1)
  proof (rule call_cases)
    fix s2
    assume "f s1 = (True, s2)" "call (pg_refresh clock (it_tenant i) (it_device i)) RefreshError (\<lambda>s. (Inr x, s)) s2 = (Inr r, s')"
    then show thesis using that(3,4) \<open>\<And>s1. _ \<Longrightarrow> _ \<Longrightarrow> _ \<Longrightarrow> thesis\<close> by (elim call_cases) auto
  qed simp
  obtain found s1 where f: "pg_find (it_device i) (it_type i) s = (found, s1)" by fastforce
  note k1 = pg_kept(1) [OF assms(1), of "it_device i" "it_type i", unfolded f, simplified]
  obtain u where v: "validate_intent i = Inr u" using assms(2) by (cases "validate_intent i") (auto simp: apply_intent_def)
  show thesis
  proof (cases found)
    case FoundNone
    obtain b s2 where ins: "pg_insert (new_alarm_record i now nid) s1 = (b, s2)" by fastforce
    note k2 = pg_kept(2) [OF conjunct1 [OF k1], of "new_alarm_record i now nid", unfolded ins, simplified]
    have "call (pg_link (new_alarm_link i now nid)) LinkError
        (call (pg_refresh clock (it_tenant i) (it_device i)) RefreshError (\<lambda>s. (Inr (Created nid), s))) s2 = (Inr r, s')"
      using assms(2,3) f v FoundNone ins by (auto simp: apply_intent_def split: if_splits insert_reply.splits)
    from step [OF this] k1 k2 pg_kept(3) show thesis by simp
  next
    case (Found x sev)
    from assms(2,3) f v this consider
      (clearing) "call (pg_clear x now) ClearError
          (call (pg_refresh clock (it_tenant i) (it_device i)) RefreshError (\<lambda>s. (Inr (Cleared x), s))) s1 = (Inr r, s')"
      | (escalating) "call (pg_escalate x (it_severity i) now) EscalateError
          (call (pg_refresh clock (it_tenant i) (it_device i)) RefreshError (\<lambda>s. (Inr (Escalated x), s))) s1 = (Inr r, s')"
      | (extending) "call (pg_extend x now) ExtendError (\<lambda>s. (Inr (Extended x), s)) s1 = (Inr r, s')"
      by (auto simp: apply_intent_def split: if_splits)
    then show thesis
    proof cases
      case clearing
      from step [OF this] k1 pg_kept(4) show thesis by simp
    next
      case escalating
      from step [OF this] k1 pg_kept(5) show thesis by simp
    next
      case extending
      then show thesis using assms(3) by (elim call_cases) auto
    qed
  qed (use assms(2) f v in \<open>simp add: apply_intent_def\<close>)
qed

text \<open>C16: After an intent that created, escalated or cleared an alarm without a failing statement, the
  alarm_count attribute of every asset above the device is the number of uncleared alarms of the
  intent's tenant on the devices below that asset; the recursive queries find all of them, cycles and
  shared parents included.\<close>

theorem alarm_counts_exact:
  assumes "pg_faults s = []" "apply_intent (pg_repository clock) i now nid s = (Inr r, s')"
    "r \<in> {Created nid, Cleared aid, Escalated aid}"
    "(\<lparr>ref_type = ''ASSET'', ref_id = asset\<rparr>, \<lparr>ref_type = ''DEVICE'', ref_id = it_device i\<rparr>)
       \<in> (set (contains_edges (ad_topo (pg_db s))))\<^sup>+"
  shows "map_of (ad_counts (pg_db s')) asset = Some (int (length (filter (\<lambda>a. al_tenant a = it_tenant i \<and> \<not> al_cleared a \<and>
      (\<lparr>ref_type = ''ASSET'', ref_id = asset\<rparr>, \<lparr>ref_type = ''DEVICE'', ref_id = al_device a\<rparr>)
         \<in> (set (contains_edges (ad_topo (pg_db s'))))\<^sup>*) (ad_alarms (pg_db s')))), clock)"
proof -
  obtain s1 where s1: "pg_refresh clock (it_tenant i) (it_device i) s1 = (True, s')" "pg_faults s1 = []"
    "ad_topo (pg_db s1) = ad_topo (pg_db s)" using changed_refreshes [OF assms(1-3)] .
  obtain c where c: "s' = s1\<lparr>pg_db := (pg_db s1)\<lparr>ad_counts := c\<rparr>\<rparr>"
    "\<forall>x \<in> ref_id ` set (alarm_ancestors (ad_topo (pg_db s1)) (it_device i)).
       map_of c x = Some (int (active_alarm_count (pg_db s1) (\<lambda>a. al_tenant a = it_tenant i) x), clock)"
    using refresh_writes [OF s1(2), of clock "it_tenant i" "it_device i"] s1(1) by auto
  have "\<lparr>ref_type = ''ASSET'', ref_id = asset\<rparr> \<in> set (alarm_ancestors (ad_topo (pg_db s1)) (it_device i))"
    using assms(4) s1(3) by (simp add: alarm_ancestors_reachable)
  then have "asset \<in> ref_id ` set (alarm_ancestors (ad_topo (pg_db s1)) (it_device i))" by force
  from bspec [OF c(2) this] show ?thesis by (simp add: c(1) active_alarm_count_def devices_below_reachable)
qed

lemma hot_created: "fst (apply_intent (pg_repository 9) hot_intent 5 ''a1'' (press_state [])) = Inr (Created ''a1'')"
  by code_simp

lemma press_edges: "set (contains_edges (ad_topo press_db)) = {(line_ref, cell_ref), (cell_ref, press_ref)}"
  by code_simp

theorem alarm_counts_exact_witness:
  "\<exists>s'. apply_intent (pg_repository 9) hot_intent 5 ''a1'' (press_state []) = (Inr (Created ''a1''), s') \<and>
    map_of (ad_counts (pg_db s')) ''line'' = Some (int (length (filter (\<lambda>a. al_tenant a = ''t'' \<and> \<not> al_cleared a \<and>
      (\<lparr>ref_type = ''ASSET'', ref_id = ''line''\<rparr>, \<lparr>ref_type = ''DEVICE'', ref_id = al_device a\<rparr>)
         \<in> (set (contains_edges (ad_topo (pg_db s'))))\<^sup>*) (ad_alarms (pg_db s')))), 9)"
proof -
  obtain s' where a: "apply_intent (pg_repository 9) hot_intent 5 ''a1'' (press_state []) = (Inr (Created ''a1''), s')"
    using hot_created by (metis prod.collapse)
  have "(line_ref, press_ref) \<in> (set (contains_edges (ad_topo press_db)))\<^sup>+"
    unfolding press_edges by (rule trancl_into_trancl [OF r_into_trancl]) auto
  then have "map_of (ad_counts (pg_db s')) ''line'' = Some (int (length (filter (\<lambda>a. al_tenant a = it_tenant hot_intent \<and> \<not> al_cleared a \<and>
      (\<lparr>ref_type = ''ASSET'', ref_id = ''line''\<rparr>, \<lparr>ref_type = ''DEVICE'', ref_id = al_device a\<rparr>)
         \<in> (set (contains_edges (ad_topo (pg_db s'))))\<^sup>*) (ad_alarms (pg_db s')))), 9)"
    by (intro alarm_counts_exact [OF _ a]) (simp_all add: press_state_def line_ref_def press_ref_def hot_intent_def)
  with a show ?thesis by (auto simp: hot_intent_def)
qed

section \<open>Where it ends\<close>

text \<open>When the link of a freshly inserted alarm cannot be written, the intent is redelivered, but the
  redelivery finds the alarm active and only extends it: it is acknowledged and the alarm stays without a
  row in entity_alarm, and without its counts being refreshed.\<close>

theorem redelivery_loses_link:
  assumes "pg_faults s = [False, False, True]" "parse_intent data = Inr i" "it_action i = ''create_or_update''"
    "select_active (it_device i) (it_type i) (ad_alarms (pg_db s)) = None" "live_device (pg_db s) (it_device i) (it_tenant i)"
    "nid \<notin> al_id ` set (ad_alarms (pg_db s))" "nid \<notin> ln_alarm ` set (ad_links (pg_db s))"
  shows "\<exists>s1 s2. handle_message (pg_repository clock) data now nid s = (Nak, s1) \<and>
    handle_message (pg_repository clock) data now' nid' s1 = (Ack, s2) \<and>
    nid \<in> al_id ` set (ad_alarms (pg_db s2)) \<and> nid \<notin> ln_alarm ` set (ad_links (pg_db s2)) \<and>
    ad_counts (pg_db s2) = ad_counts (pg_db s)"
proof -
  let ?new = "inserted_alarm (new_alarm_record i now nid)"
  have v: "validate_intent i = Inr ()" using assms(2)
    by (auto simp: parse_intent_def and_then_def split: sum.splits)
  have new: "is_active (it_device i) (it_type i) ?new" "al_id ?new = nid" "al_severity ?new = Some (it_severity i)"
    by (simp_all add: is_active_def inserted_alarm_def new_alarm_record_def)
  have none: "filter (is_active (it_device i) (it_type i)) (ad_alarms (pg_db s)) = []"
    using assms(4) by (auto simp: select_active_def filter_empty_conv split: list.splits) (metis filter_empty_conv set_empty set_sort)
  have found: "select_active (it_device i) (it_type i) (ad_alarms (pg_db s) @ [?new]) = Some ?new"
    using none new(1) by (simp add: select_active_def)
  let ?db = "(pg_db s)\<lparr>ad_alarms := ad_alarms (pg_db s) @ [?new]\<rparr>"
  have 1: "apply_intent (pg_repository clock) i now nid s = (Inl LinkError, \<lparr>pg_db = ?db, pg_faults = []\<rparr>)"
    using assms v by (cases s) (simp add: apply_intent_def pg_find_def pg_insert_def pg_link_def statement_def call_def new_alarm_record_def)
  have 2: "apply_intent (pg_repository clock) i now' nid' \<lparr>pg_db = ?db, pg_faults = []\<rparr> =
      (Inr (Extended nid), \<lparr>pg_db = update_alarm nid (\<lambda>a. a\<lparr>al_end := Some now'\<rparr>) ?db, pg_faults = []\<rparr>)"
    using assms(3) v found new by (simp add: apply_intent_def pg_find_def pg_extend_def call_def coalesce_def)
  show ?thesis using assms(2,7) new(2) by (simp add: handle_message_def 1 2 update_alarm_def)
qed

definition hot_message :: raw_message where
  "hot_message = Some (JObj [(''action'', JStr ''create_or_update''), (''tenantId'', JStr ''t''), (''deviceId'', JStr ''press''),
     (''alarmType'', JStr ''hot''), (''severity'', JStr ''MAJOR'')])"

lemma hot_parsed: "parse_intent hot_message = Inr hot_intent"
  by code_simp

theorem redelivery_loses_link_witness:
  "\<exists>s1 s2. handle_message (pg_repository 9) hot_message 5 ''a1'' (press_state [False, False, True]) = (Nak, s1) \<and>
    handle_message (pg_repository 9) hot_message 6 ''a2'' s1 = (Ack, s2) \<and>
    ''a1'' \<in> al_id ` set (ad_alarms (pg_db s2)) \<and> ''a1'' \<notin> ln_alarm ` set (ad_links (pg_db s2)) \<and> ad_counts (pg_db s2) = []"
proof -
  have "select_active (it_device hot_intent) (it_type hot_intent) (ad_alarms (pg_db (press_state [False, False, True]))) = None"
    "live_device press_db (it_device hot_intent) (it_tenant hot_intent)" "it_action hot_intent = ''create_or_update''"
    by (simp_all add: hot_intent_def press_state_def press_db_def select_active_def live_device_def)
  with redelivery_loses_link [OF _ hot_parsed, of "press_state [False, False, True]" "''a1''" 9 5 6 "''a2''"] show ?thesis
    by (simp add: press_state_def press_db_def)
qed

text \<open>Two decisions of the bridge on one device and alarm type whose lookups both come before the
  first insert leave two active alarms of that type, each reported as created: reading the originator
  from the alarm row does not close the race.\<close>

theorem concurrent_decisions_duplicate:
  assumes "pg_faults s = []" "dc_type d1 = dc_type d2" "pg_find device (dc_type d1) s = (FoundNone, s)"
    "m \<noteq> n" "{m, n} \<inter> al_id ` set (ad_alarms (pg_db s)) = {}" "{m, n} \<inter> ln_alarm ` set (ad_links (pg_db s)) = {}"
  shows "\<exists>s1 s2. upsert_write tenant device d1 now m FoundNone s = (Inr m, s1) \<and>
    upsert_write tenant device d2 now' n FoundNone s1 = (Inr n, s2) \<and>
    length (filter (is_active device (dc_type d1)) (ad_alarms (pg_db s2))) = 2 \<and> \<not> pg_ok s2"
proof -
  let ?a = "\<lambda>d t i. inserted_alarm (decision_record tenant device d t i)"
  have act: "is_active device (dc_type d) (?a d t i)" "alarm_key (?a d t i) = (device, dc_type d)" "al_id (?a d t i) = i"
    "al_kind (?a d t i) = originator_type_device" "\<not> al_cleared (?a d t i)" for d t i
    by (simp_all add: is_active_def inserted_alarm_def decision_record_def alarm_key_def)
  have none: "filter (is_active device (dc_type d1)) (ad_alarms (pg_db s)) = []"
  proof -
    have "select_active device (dc_type d1) (ad_alarms (pg_db s)) = None" using assms(1,3) by (simp add: pg_find_def split: option.splits)
    then show ?thesis by (simp add: select_active_def split: list.splits) (metis set_empty set_sort)
  qed
  let ?l = "\<lambda>d t i. \<lparr>ln_tenant = tenant, ln_device = device, ln_created = t, ln_type = dc_type d, ln_alarm = i\<rparr>"
  let ?db1 = "(pg_db s)\<lparr>ad_alarms := ad_alarms (pg_db s) @ [?a d1 now m], ad_links := ad_links (pg_db s) @ [?l d1 now m]\<rparr>"
  let ?db2 = "?db1\<lparr>ad_alarms := (ad_alarms (pg_db s) @ [?a d1 now m]) @ [?a d2 now' n],
    ad_links := (ad_links (pg_db s) @ [?l d1 now m]) @ [?l d2 now' n]\<rparr>"
  have fresh: "m \<notin> al_id ` set (ad_alarms (pg_db s))" "n \<notin> al_id ` set (ad_alarms (pg_db s))"
    "\<not> (\<exists>k \<in> set (ad_links (pg_db s)). ln_device k = device \<and> ln_alarm k = m)"
    "\<not> (\<exists>k \<in> set (ad_links (pg_db s)). ln_device k = device \<and> ln_alarm k = n)" using assms(5,6) by auto
  have ids: "rc_id (decision_record tenant device d t i) = i" for d t i by (simp add: decision_record_def)
  have 1: "upsert_write tenant device d1 now m FoundNone s = (Inr m, s\<lparr>pg_db := ?db1\<rparr>)"
    using assms(1) fresh ids by (simp add: upsert_write_def insert_row_def insert_link_def or_bridge_error_def)
  have 2: "upsert_write tenant device d2 now' n FoundNone (s\<lparr>pg_db := ?db1\<rparr>) = (Inr n, s\<lparr>pg_db := ?db2\<rparr>)"
    using assms(1,4) fresh ids act(3) by (simp add: upsert_write_def insert_row_def insert_link_def or_bridge_error_def)
  have "\<not> pg_ok (s\<lparr>pg_db := ?db2\<rparr>)"
    using act assms(2) by (simp add: pg_ok_def alarms_ok_def active_rows_def)
  moreover have "length (filter (is_active device (dc_type d1)) (ad_alarms ?db2)) = 2"
    using none act(1) [of d1] act(1) [of d2] assms(2) by simp
  ultimately show ?thesis using 1 2 by (intro exI [of _ "s\<lparr>pg_db := ?db1\<rparr>"] exI [of _ "s\<lparr>pg_db := ?db2\<rparr>"]) simp
qed

definition hot_decision :: alarm_decision where
  "hot_decision = \<lparr>dc_create = True, dc_clear = False, dc_type = ''hot'', dc_severity = ''MAJOR'', dc_details = []\<rparr>"

theorem concurrent_decisions_duplicate_witness:
  "\<exists>s1 s2. upsert_write ''t'' ''press'' hot_decision 5 ''a1'' FoundNone (press_state []) = (Inr ''a1'', s1) \<and>
    upsert_write ''t'' ''press'' hot_decision 5 ''a2'' FoundNone s1 = (Inr ''a2'', s2) \<and>
    length (filter (is_active ''press'' ''hot'') (ad_alarms (pg_db s2))) = 2 \<and> \<not> pg_ok s2"
proof -
  have "pg_find ''press'' (dc_type hot_decision) (press_state []) = (FoundNone, press_state [])"
    by (simp add: pg_find_def press_state_def press_db_def select_active_def)
  with concurrent_decisions_duplicate [of "press_state []" hot_decision hot_decision "''press''" "''a1''" "''a2''" "''t''" 5 5] show ?thesis
    by (simp add: press_state_def press_db_def hot_decision_def)
qed

text \<open>The clear endpoint checks that the caller is logged in and nothing else: any authenticated
  caller, whatever the tenant of the token, clears the alarm named by the path, the end of the alarm and
  the counts on the assets above stay as they were, and the device's other state is untouched.\<close>

theorem any_tenant_clears:
  assumes "require_auth claims = Inr c" "alarm_route_of http_method path = ClearAlarmRoute aid" "pg_faults s = []"
  shows "\<exists>s'. handle_alarm_rest http_method path claims now s = (Inr (ClearAlarmRoute aid), s') \<and>
    (\<forall>a \<in> set (ad_alarms (pg_db s')). al_id a = aid \<longrightarrow> al_cleared a \<and> al_clear_ts a = now) \<and>
    map al_end (ad_alarms (pg_db s')) = map al_end (ad_alarms (pg_db s)) \<and>
    map al_tenant (ad_alarms (pg_db s')) = map al_tenant (ad_alarms (pg_db s)) \<and> ad_counts (pg_db s') = ad_counts (pg_db s)"
proof -
  have "al_end \<circ> (\<lambda>a. if al_id a = aid then a\<lparr>al_cleared := True, al_clear_ts := now\<rparr> else a) = al_end"
    "al_tenant \<circ> (\<lambda>a. if al_id a = aid then a\<lparr>al_cleared := True, al_clear_ts := now\<rparr> else a) = al_tenant" by auto
  moreover have "handle_alarm_rest http_method path claims now s =
      (Inr (ClearAlarmRoute aid), s\<lparr>pg_db := set_cleared aid now (pg_db s)\<rparr>)"
    using assms by (simp add: handle_alarm_rest_def)
  moreover have "\<forall>a \<in> set (update_row aid (\<lambda>a. a\<lparr>al_cleared := True, al_clear_ts := now\<rparr>) (ad_alarms (pg_db s))).
      al_id a = aid \<longrightarrow> al_cleared a \<and> al_clear_ts a = now"
  proof
    fix a
    assume "a \<in> set (update_row aid (\<lambda>a. a\<lparr>al_cleared := True, al_clear_ts := now\<rparr>) (ad_alarms (pg_db s)))"
    then obtain b where "a = (if al_id b = aid then b\<lparr>al_cleared := True, al_clear_ts := now\<rparr> else b)"
      unfolding set_map by (rule imageE)
    then show "al_id a = aid \<longrightarrow> al_cleared a \<and> al_clear_ts a = now" by (simp split: if_split)
  qed
  ultimately show ?thesis
    by (intro exI [of _ "s\<lparr>pg_db := set_cleared aid now (pg_db s)\<rparr>"])
      (simp add: set_cleared_def update_alarm_def del: set_map image_set)
qed

definition press_alarm :: alarm where
  "press_alarm = inserted_alarm (new_alarm_record hot_intent 5 ''a1'')"

theorem any_tenant_clears_witness:
  "\<exists>s'. handle_alarm_rest ''POST'' ''/api/alarm/a1/clear'' (Some [(''tenantId'', JStr ''other'')]) 7
      \<lparr>pg_db = press_db\<lparr>ad_alarms := [press_alarm]\<rparr>, pg_faults = []\<rparr> = (Inr (ClearAlarmRoute ''a1''), s') \<and>
    map al_tenant (ad_alarms (pg_db s')) = [''t''] \<and> ad_alarms (pg_db s') \<noteq> [] \<and> (\<forall>a \<in> set (ad_alarms (pg_db s')). al_id a = ''a1'' \<longrightarrow> al_cleared a)"
proof -
  have "alarm_route_of ''POST'' ''/api/alarm/a1/clear'' = ClearAlarmRoute ''a1''" by code_simp
  moreover have "require_auth (Some [(''tenantId'', JStr ''other'')]) = Inr [(''tenantId'', JStr ''other'')]"
    by (simp add: require_auth_def or_fail_def)
  ultimately obtain s' where s': "handle_alarm_rest ''POST'' ''/api/alarm/a1/clear'' (Some [(''tenantId'', JStr ''other'')]) 7
      \<lparr>pg_db = press_db\<lparr>ad_alarms := [press_alarm]\<rparr>, pg_faults = []\<rparr> = (Inr (ClearAlarmRoute ''a1''), s')"
    "\<forall>a \<in> set (ad_alarms (pg_db s')). al_id a = ''a1'' \<longrightarrow> al_cleared a"
    "map al_tenant (ad_alarms (pg_db s')) = [''t'']"
    using any_tenant_clears [of "Some [(''tenantId'', JStr ''other'')]" _ "''POST''" "''/api/alarm/a1/clear''" "''a1''"
        "\<lparr>pg_db = press_db\<lparr>ad_alarms := [press_alarm]\<rparr>, pg_faults = []\<rparr>" 7]
    by (auto simp: press_alarm_def inserted_alarm_def new_alarm_record_def hot_intent_def)
  then show ?thesis by (intro exI [of _ s']) auto
qed

end
