(* ===== verification/DeviceIdentity.thy ===== *)
theory DeviceIdentity
  imports TwinRegistry HttpUtil
begin

text \<open>
  The MQTT identity of a device and the topics built from it (postgres.go, internal/devicejwt,
  internal/rpc, internal/desiredstate). A device id of UUID shape is recovered from its identity, and
  a topic built from an identity is parsed back to it.
\<close>

section \<open>Identities\<close>

text \<open>strings.NewReplacer with single-character patterns and empty replacements.\<close>

definition separator :: "char \<Rightarrow> bool" where
  "separator c \<longleftrightarrow> c = CHR ''-'' \<or> c = CHR ''_'' \<or> c = CHR '':'' \<or> c = CHR ''/''"

definition topic_safe_identity :: "str \<Rightarrow> str" where
  "topic_safe_identity device = filter (\<lambda>c. \<not> separator c) (trim_space device)"

definition hex_char :: "char \<Rightarrow> bool" where
  "hex_char c \<longleftrightarrow> is_digit c \<or> in_range 97 102 c \<or> in_range 65 70 c"

definition hyphenate :: "str \<Rightarrow> str" where
  "hyphenate s = take 8 s @ ''-'' @ take 4 (drop 8 s) @ ''-'' @ take 4 (drop 12 s) @ ''-'' @ take 4 (drop 16 s) @ ''-'' @
     take 12 (drop 20 s)"

definition rehyphenate_uuid :: "str \<Rightarrow> str option" where
  "rehyphenate_uuid s = (if length s \<noteq> 32 then None else if \<not> list_all hex_char s then None else Some (hyphenate s))"

text \<open>The rows of the device table, by id as Postgres reads it (\<open>uuid\<close>: the canonical spelling, or
  \<open>None\<close>, an error); a missing row and a NULL tenant are errors.\<close>

definition device_tenant :: "(str \<Rightarrow> str option) \<Rightarrow> entity list \<Rightarrow> str \<Rightarrow> str option" where
  "device_tenant uuid devices device =
     (case Option.bind (uuid device) (\<lambda>u. find (\<lambda>e. en_id e = u) devices) of None \<Rightarrow> None | Some e \<Rightarrow> en_tenant e)"

text \<open>The identity is made from the id as it was given.\<close>

definition lookup_device_for_rpc :: "(str \<Rightarrow> str option) \<Rightarrow> entity list \<Rightarrow> str \<Rightarrow> (str \<times> str) option" where
  "lookup_device_for_rpc uuid devices device =
     (case device_tenant uuid devices device of None \<Rightarrow> None | Some t \<Rightarrow> Some (topic_safe_identity device, t))"

definition lookup_device_by_mqtt_id :: "(str \<Rightarrow> str option) \<Rightarrow> entity list \<Rightarrow> str \<Rightarrow> (str \<times> str) option" where
  "lookup_device_by_mqtt_id uuid devices mqtt =
     (case rehyphenate_uuid mqtt of
        None \<Rightarrow> None
      | Some device \<Rightarrow> (case device_tenant uuid devices device of None \<Rightarrow> None | Some t \<Rightarrow> Some (device, t)))"

section \<open>Topics\<close>

definition request_topic :: "str \<Rightarrow> str \<Rightarrow> str" where
  "request_topic mqtt request = ''thingsflow/devices/'' @ mqtt @ ''/rpc/request/'' @ request"

definition response_topic :: "str \<Rightarrow> str \<Rightarrow> str" where
  "response_topic mqtt request = ''thingsflow/devices/'' @ mqtt @ ''/rpc/response/'' @ request"

definition desired_topic :: "str \<Rightarrow> str" where
  "desired_topic mqtt = ''thingsflow/devices/'' @ mqtt @ ''/desired''"

definition parse_response_topic :: "str \<Rightarrow> (str \<times> str) option" where
  "parse_response_topic topic =
     (case split_on CHR ''/'' (trim_char CHR ''/'' topic) of
        [a, b, mqtt, c, d, request] \<Rightarrow>
          if a \<noteq> ''thingsflow'' \<or> b \<noteq> ''devices'' \<or> c \<noteq> ''rpc'' \<or> d \<noteq> ''response'' then None
          else if mqtt = [] \<or> request = [] then None
          else Some (mqtt, request)
      | _ \<Rightarrow> None)"

definition parse_reported_topic :: "str \<Rightarrow> str option" where
  "parse_reported_topic topic =
     (case split_on CHR ''/'' topic of
        [a, b, mqtt, c] \<Rightarrow>
          if a \<noteq> ''thingsflow'' \<or> b \<noteq> ''devices'' \<or> c \<noteq> ''attributes'' then None
          else if mqtt = [] then None else Some mqtt
      | _ \<Rightarrow> None)"

section \<open>Round trips\<close>

definition uuid_shaped :: "str \<Rightarrow> bool" where
  "uuid_shaped u \<longleftrightarrow> (\<exists>s. length s = 32 \<and> list_all hex_char s \<and> u = hyphenate s)"

lemma hex_not_separator: "hex_char c \<Longrightarrow> \<not> separator c"
  by (auto simp: hex_char_def separator_def in_range_def char_code_def)

lemma hex_not_space: "hex_char c \<Longrightarrow> \<not> is_space c"
  by (auto simp: hex_char_def is_space_def in_range_def char_code_def)

lemma list_all_take_drop: "list_all p s \<Longrightarrow> list_all p (take n (drop m s))"
  by (meson in_set_dropD in_set_takeD list.pred_set)

lemma filter_hyphenate:
  assumes "length s = 32" "list_all hex_char s"
  shows "filter (\<lambda>c. \<not> separator c) (hyphenate s) = s"
proof -
  have seg: "filter (\<lambda>c. \<not> separator c) (take n (drop m s)) = take n (drop m s)" for n m
    using list_all_take_drop [OF assms(2), of n m] hex_not_separator by (intro filter_True) (auto simp: list_all_iff)
  have hyphen: "separator CHR ''-''" by (simp add: separator_def)
  have "take 8 s @ take 4 (drop 8 s) @ take 4 (drop 12 s) @ take 4 (drop 16 s) @ take 12 (drop 20 s) = take 8 s @ drop 8 s"
    using assms(1) append_take_drop_id [of 4 "drop 8 s"] append_take_drop_id [of 4 "drop 12 s"] append_take_drop_id [of 4 "drop 16 s"]
    by simp
  then show ?thesis using seg [of 8 0] seg hyphen by (simp add: hyphenate_def)
qed

lemma hyphenate_trim:
  assumes "length s = 32" "list_all hex_char s"
  shows "trim_space (hyphenate s) = hyphenate s"
  unfolding trim_space_def
proof (rule trim_by_all)
  fix c
  assume "c \<in> set (hyphenate s)"
  then have "c = CHR ''-'' \<or> c \<in> set s" by (auto simp: hyphenate_def dest: in_set_takeD in_set_dropD)
  then show "\<not> is_space c" using assms(2) hex_not_space by (auto simp: list_all_iff is_space_def char_code_def)
qed

lemma identity_of_uuid:
  assumes "uuid_shaped u"
  shows "rehyphenate_uuid (topic_safe_identity u) = Some u" "CHR ''/'' \<notin> set (topic_safe_identity u)" "topic_safe_identity u \<noteq> []"
proof -
  obtain s where s: "length s = 32" "list_all hex_char s" "u = hyphenate s" using assms by (auto simp: uuid_shaped_def)
  have id: "topic_safe_identity u = s" by (simp add: topic_safe_identity_def s filter_hyphenate hyphenate_trim)
  show "rehyphenate_uuid (topic_safe_identity u) = Some u" unfolding id by (simp add: rehyphenate_uuid_def s)
  show "CHR ''/'' \<notin> set (topic_safe_identity u)" unfolding topic_safe_identity_def by (simp add: separator_def)
  show "topic_safe_identity u \<noteq> []" unfolding id using s(1) by auto
qed

text \<open>Postgres reads a UUID by its hexadecimal digits, in either case and with or without hyphens and
  braces, and prints it in lower case with hyphens.\<close>

definition reads_uuids :: "(str \<Rightarrow> str option) \<Rightarrow> bool" where
  "reads_uuids uuid \<longleftrightarrow>
     (\<forall>s u. uuid s = Some u \<longrightarrow> uuid_shaped u \<and> filter hex_char u = map lower_char (filter hex_char s))"

lemma filter_trim_other:
  assumes "\<And>c. p c \<Longrightarrow> \<not> q c"
  shows "filter q (trim_by p s) = filter q s"
proof -
  have "filter q (dropWhile p t) = filter q t" for t by (induction t) (auto dest: assms)
  then show ?thesis by (simp add: trim_by_def rev_filter [symmetric])
qed

lemma hex_of_identity: "filter hex_char (topic_safe_identity s) = filter hex_char s"
proof -
  have "filter hex_char (trim_space s) = filter hex_char s"
    unfolding trim_space_def by (rule filter_trim_other) (use hex_not_space in blast)
  moreover have "filter hex_char (filter (\<lambda>c. \<not> separator c) t) = filter hex_char t" for t
    by (induction t) (auto dest: hex_not_separator)
  ultimately show ?thesis by (simp add: topic_safe_identity_def)
qed

lemma hex_of_hyphenate: "length s = 32 \<Longrightarrow> list_all hex_char s \<Longrightarrow> filter hex_char (hyphenate s) = s"
  using hex_of_identity [of "hyphenate s"] by (simp add: topic_safe_identity_def hyphenate_trim filter_hyphenate list_all_iff)

lemma uuid_shaped_hex: "uuid_shaped u \<Longrightarrow> uuid_shaped v \<Longrightarrow> filter hex_char u = filter hex_char v \<Longrightarrow> u = v"
  by (auto simp: uuid_shaped_def hex_of_hyphenate)

text \<open>Whatever the spelling of an id, its identity is the identity of no other device.\<close>

lemma identity_of_spelling:
  assumes uuid: "reads_uuids uuid" and u: "uuid s = Some u" and v: "uuid v = Some v"
    and same: "topic_safe_identity v = topic_safe_identity s"
  shows "v = u"
proof -
  have sh: "uuid_shaped u" "uuid_shaped v" and hex: "filter hex_char u = map lower_char (filter hex_char s)"
    "filter hex_char v = map lower_char (filter hex_char v)" using uuid u v unfolding reads_uuids_def by blast+
  have "filter hex_char v = filter hex_char s" using arg_cong [OF same, of "filter hex_char"] by (simp add: hex_of_identity)
  then show ?thesis using uuid_shaped_hex [OF sh(2,1)] hex by simp
qed

lemma until_slash:
  "CHR ''/'' \<notin> set m \<Longrightarrow> takeWhile (\<lambda>c. c \<noteq> CHR ''/'') (m @ CHR ''/'' # r) = m"
  by (induction m) auto

lemma request_topic_inj:
  assumes "CHR ''/'' \<notin> set m" "CHR ''/'' \<notin> set m'" "request_topic m r = request_topic m' r'"
  shows "m = m' \<and> r = r'"
proof -
  have eq: "m @ CHR ''/'' # ''rpc/request/'' @ r = m' @ CHR ''/'' # ''rpc/request/'' @ r'"
    using assms(3) by (simp add: request_topic_def)
  from arg_cong [OF this, of "takeWhile (\<lambda>c. c \<noteq> CHR ''/'')"] have "m = m'"
    unfolding until_slash [OF assms(1)] until_slash [OF assms(2)] .
  then show ?thesis using eq by simp
qed

lemma identity_no_slash: "CHR ''/'' \<notin> set (topic_safe_identity s)"
  by (simp add: topic_safe_identity_def separator_def)

lemma identity_inj: "uuid_shaped u \<Longrightarrow> uuid_shaped v \<Longrightarrow> topic_safe_identity u = topic_safe_identity v \<Longrightarrow> u = v"
  using identity_of_uuid(1) by (metis option.inject)

lemma response_topic_parsed:
  assumes "CHR ''/'' \<notin> set mqtt" "CHR ''/'' \<notin> set request" "mqtt \<noteq> []" "request \<noteq> []"
  shows "parse_response_topic (response_topic mqtt request) = Some (mqtt, request)"
proof -
  have shape: "response_topic mqtt request =
      ''thingsflow'' @ CHR ''/'' # ''devices'' @ CHR ''/'' # mqtt @ CHR ''/'' # ''rpc'' @ CHR ''/'' # ''response'' @ CHR ''/'' # request"
    by (simp add: response_topic_def)
  have "last (response_topic mqtt request) = last request" using assms(4) by (simp add: shape)
  then have "last (response_topic mqtt request) \<noteq> CHR ''/''" using assms(2,4) by (metis last_in_set)
  moreover have "hd (response_topic mqtt request) \<noteq> CHR ''/''" by (simp add: shape)
  ultimately have "trim_char CHR ''/'' (response_topic mqtt request) = response_topic mqtt request"
    unfolding trim_char_def by (intro trim_by_id) simp
  then show ?thesis using assms by (simp add: parse_response_topic_def shape split_on_append_sep split_on_no_sep)
qed

end
