(* ===== verification/Rpc.thy ===== *)
theory Rpc
  imports DeviceIdentity
begin

text \<open>
  Commands to devices (internal/rpc): the HTTP handler up to the command it sends, the table of waiting
  calls, and the reply listener. A two-way call, the listener and the clock run concurrently; a call is a
  state machine (registered, published, returned) and the table changes by events, each atomic in the
  code: under the mutex, or a send to or receive from a buffered channel.

  Replies are the raw bytes of the device. The broker's HTTP interface answers each publish with an
  event; whether a session is open, the state of the listener and the decoding of a JWT segment are
  parameters.
\<close>

section \<open>Configuration and errors\<close>

datatype rpc_error = RpcDisabled | DeviceOffline | RpcTimeout | NoReplies | RpcCanceled | PublishFailed

definition default_timeout :: int where "default_timeout = 10 * 10 ^ 9"
definition max_timeout :: int where "max_timeout = 60 * 10 ^ 9"

definition clamp_timeout :: "int \<Rightarrow> int" where
  "clamp_timeout d = (if d \<le> 0 then default_timeout else if max_timeout < d then max_timeout else d)"

record rpc_config =
  cf_enabled :: bool
  cf_broker :: str
  cf_subject :: str
  cf_timeout :: int

definition get_env :: "(str \<Rightarrow> str) \<Rightarrow> str \<Rightarrow> str \<Rightarrow> str" where
  "get_env env key def = (let v = trim_space (env key) in if v \<noteq> [] then v else def)"

definition load_config :: "(str \<Rightarrow> str) \<Rightarrow> rpc_config" where
  "load_config env = \<lparr>cf_enabled = equal_fold (get_env env ''RPC_ENABLED'' ''true'') ''true'',
     cf_broker = rev (dropWhile (\<lambda>c. c = CHR ''/'') (rev (get_env env ''MQTT_BROKER_API_URL'' ''http://thingsflow-rmqtt-edge:6060''))),
     cf_subject = get_env env ''RPC_RESPONSE_SUBJECT'' ''tf.rpc.response'',
     cf_timeout = (case atoi (get_env env ''RPC_DEFAULT_TIMEOUT_MS'' []) of
         None \<Rightarrow> default_timeout
       | Some ms \<Rightarrow> if 0 < ms then clamp_timeout (wrap64 (ms * 10 ^ 6)) else default_timeout)\<rparr>"

section \<open>Waiting calls\<close>

datatype call_phase = Registered | Published | Returned "rpc_error + str"

record rpc_call =
  cl_mqtt :: str
  cl_request :: str
  cl_phase :: call_phase
  cl_box :: "str option"

record rpc_table =
  tb_calls :: "rpc_call list"
  tb_pending :: "(str, nat) gomap"

definition no_calls :: rpc_table where
  "no_calls = \<lparr>tb_calls = [], tb_pending = []\<rparr>"

datatype rpc_event =
    Open str str
  | Accepted nat
  | Refused nat
  | Response str str str
  | Deliver nat
  | Expire nat
  | Cancel nat

text \<open>The checks before a call is registered.\<close>

definition twoway_guard :: "bool \<Rightarrow> bool \<Rightarrow> bool \<Rightarrow> rpc_error + unit" where
  "twoway_guard enabled listening online =
     (if \<not> enabled then Inl RpcDisabled else if \<not> listening then Inl NoReplies else if \<not> online then Inl DeviceOffline else Inr ())"

definition send_oneway :: "bool \<Rightarrow> bool \<Rightarrow> bool \<Rightarrow> rpc_error + unit" where
  "send_oneway enabled online accepted =
     (if \<not> enabled then Inl RpcDisabled else if \<not> online then Inl DeviceOffline
      else if accepted then Inr () else Inl PublishFailed)"

definition open_call :: "str \<Rightarrow> str \<Rightarrow> rpc_table \<Rightarrow> rpc_table" where
  "open_call mqtt request t =
     \<lparr>tb_calls = tb_calls t @ [\<lparr>cl_mqtt = mqtt, cl_request = request, cl_phase = Registered, cl_box = None\<rparr>],
      tb_pending = AList.update request (length (tb_calls t)) (tb_pending t)\<rparr>"

text \<open>The return of a call and its deferred removal from the table.\<close>

definition finish_call :: "nat \<Rightarrow> rpc_error + str \<Rightarrow> rpc_table \<Rightarrow> rpc_table" where
  "finish_call i result t =
     \<lparr>tb_calls = (tb_calls t)[i := (tb_calls t ! i)\<lparr>cl_phase := Returned result\<rparr>],
      tb_pending = AList.delete (cl_request (tb_calls t ! i)) (tb_pending t)\<rparr>"

definition put_reply :: "nat \<Rightarrow> str \<Rightarrow> rpc_table \<Rightarrow> rpc_table" where
  "put_reply i data t =
     (if cl_box (tb_calls t ! i) = None then t\<lparr>tb_calls := (tb_calls t)[i := (tb_calls t ! i)\<lparr>cl_box := Some data\<rparr>]\<rparr> else t)"

text \<open>\<open>segment\<close> decodes a segment of a JWT: \<open>None\<close> is no base64, \<open>Some None\<close> no JSON.\<close>

definition claimed_identity :: "json \<Rightarrow> str" where
  "claimed_identity j =
     (case j of
        JObj kvs \<Rightarrow>
          (case (dec_field dec_string [] (struct_vals ''clientid'' kvs), dec_field dec_string [] (struct_vals ''mqttId'' kvs)) of
             (Some client, Some mqtt) \<Rightarrow> if client \<noteq> [] then client else mqtt
           | _ \<Rightarrow> [])
      | _ \<Rightarrow> [])"

definition device_identity_from_username :: "(str \<Rightarrow> raw_message option) \<Rightarrow> str \<Rightarrow> str" where
  "device_identity_from_username segment username =
     (case split_on CHR ''.'' (trim_prefix (trim_space username) ''Bearer '') of
        [_, payload, _] \<Rightarrow> (case segment payload of Some (Some j) \<Rightarrow> claimed_identity j | _ \<Rightarrow> [])
      | _ \<Rightarrow> [])"

text \<open>The listener: the request a reply is accepted for, if any.\<close>

definition accepted_request :: "(str \<Rightarrow> raw_message option) \<Rightarrow> str \<Rightarrow> str \<Rightarrow> str option" where
  "accepted_request segment topic username =
     (case parse_response_topic topic of
        None \<Rightarrow> None
      | Some (mqtt, request) \<Rightarrow>
          (let claimed = device_identity_from_username segment username
           in if claimed \<noteq> [] \<and> claimed \<noteq> mqtt then None else Some request))"

definition handle_response :: "(str \<Rightarrow> raw_message option) \<Rightarrow> str \<Rightarrow> str \<Rightarrow> str \<Rightarrow> rpc_table \<Rightarrow> rpc_table" where
  "handle_response segment topic username data t =
     (case accepted_request segment topic username of
        None \<Rightarrow> t
      | Some request \<Rightarrow> (case map_of (tb_pending t) request of None \<Rightarrow> t | Some i \<Rightarrow> put_reply i data t))"

definition in_phase :: "call_phase \<Rightarrow> nat \<Rightarrow> rpc_table \<Rightarrow> bool" where
  "in_phase p i t \<longleftrightarrow> i < length (tb_calls t) \<and> cl_phase (tb_calls t ! i) = p"

fun rpc_step :: "(str \<Rightarrow> raw_message option) \<Rightarrow> rpc_event \<Rightarrow> rpc_table \<Rightarrow> rpc_table" where
  "rpc_step segment (Open mqtt request) t = open_call mqtt request t"
| "rpc_step segment (Accepted i) t =
     (if in_phase Registered i t then t\<lparr>tb_calls := (tb_calls t)[i := (tb_calls t ! i)\<lparr>cl_phase := Published\<rparr>]\<rparr> else t)"
| "rpc_step segment (Refused i) t = (if in_phase Registered i t then finish_call i (Inl PublishFailed) t else t)"
| "rpc_step segment (Response topic username data) t = handle_response segment topic username data t"
| "rpc_step segment (Deliver i) t =
     (if in_phase Published i t
      then (case cl_box (tb_calls t ! i) of None \<Rightarrow> t | Some d \<Rightarrow> finish_call i (Inr d) t) else t)"
| "rpc_step segment (Expire i) t = (if in_phase Published i t then finish_call i (Inl RpcTimeout) t else t)"
| "rpc_step segment (Cancel i) t = (if in_phase Published i t then finish_call i (Inl RpcCanceled) t else t)"

fun rpc_run :: "(str \<Rightarrow> raw_message option) \<Rightarrow> rpc_event list \<Rightarrow> rpc_table \<Rightarrow> rpc_table" where
  "rpc_run segment [] t = t"
| "rpc_run segment (e # es) t = rpc_run segment es (rpc_step segment e t)"

section \<open>The HTTP handler\<close>

record rpc_request =
  rq_method :: str
  rq_params :: "json option"
  rq_timeout :: int

definition decode_rpc_request :: "json \<Rightarrow> rpc_request option" where
  "decode_rpc_request j =
     (case j of
        JNull \<Rightarrow> Some \<lparr>rq_method = [], rq_params = None, rq_timeout = 0\<rparr>
      | JObj kvs \<Rightarrow>
          (case (dec_field dec_string [] (struct_vals ''method'' kvs), dec_field dec_int64 0 (struct_vals ''timeout'' kvs)) of
             (Some m, Some t) \<Rightarrow>
               Some \<lparr>rq_method = m, rq_params = (case struct_vals ''params'' kvs of [] \<Rightarrow> None | vs \<Rightarrow> Some (last vs)),
                     rq_timeout = t\<rparr>
           | _ \<Rightarrow> None)
      | _ \<Rightarrow> None)"

record rpc_command =
  cm_mqtt :: str
  cm_topic :: str
  cm_payload :: json
  cm_timeout :: int

definition command_payload :: "str \<Rightarrow> rpc_request \<Rightarrow> json" where
  "command_payload request r = JObj [(''id'', JStr request), (''method'', JStr (rq_method r)),
     (''params'', (case rq_params r of None \<Rightarrow> JObj [] | Some p \<Rightarrow> p))]"

text \<open>\<open>lookup\<close> is the injected lookup, \<open>None\<close> when it is not wired; a body is \<open>None\<close> when it cannot
  be read.\<close>

definition handle_rpc ::
  "bool \<Rightarrow> (str \<Rightarrow> (str \<times> str) option) option \<Rightarrow> members option \<Rightarrow> str \<Rightarrow> str \<Rightarrow> raw_message option \<Rightarrow> str \<Rightarrow> http_error + rpc_command" where
  "handle_rpc enabled lookup claims http_method device body request =
     and_then (require_auth claims) (\<lambda>c.
     if http_method \<noteq> ''POST'' then Inl (HttpError 405 ''Method not allowed'')
     else if \<not> enabled then Inl (HttpError 501 ''RPC delivery is disabled (RPC_ENABLED=false)'')
     else and_then (or_fail lookup (HttpError 500 ''RPC device lookup is not wired'')) (\<lambda>find_device.
     and_then (or_fail (find_device device) (HttpError 404 ''Device not found'')) (\<lambda>(mqtt, tenant).
     let token_tenant = as_string (obj_get c ''tenantId'')
     in if token_tenant = [] \<or> tenant \<noteq> token_tenant then Inl (HttpError 403 ''Cross-tenant RPC denied'')
     else and_then (or_fail body (HttpError 400 ''Unreadable body'')) (\<lambda>raw.
     and_then (or_fail (Option.bind raw decode_rpc_request) (HttpError 400 ''Invalid JSON'')) (\<lambda>r.
     if rq_method r = [] then Inl (HttpError 400 ''Missing RPC method'')
     else Inr \<lparr>cm_mqtt = mqtt, cm_topic = request_topic mqtt request, cm_payload = command_payload request r,
               cm_timeout = clamp_timeout (wrap64 (rq_timeout r * 10 ^ 6))\<rparr>)))))"

text \<open>The answer to a failure; a cancelled request is not answered.\<close>

fun rpc_http_error :: "rpc_error \<Rightarrow> http_error option" where
  "rpc_http_error DeviceOffline = Some (HttpError 504 ''Device is not connected'')"
| "rpc_http_error RpcTimeout = Some (HttpError 504 ''Device did not respond in time'')"
| "rpc_http_error RpcDisabled = Some (HttpError 501 ''RPC delivery is disabled'')"
| "rpc_http_error NoReplies = Some (HttpError 503 ''RPC response transport is unavailable; one-way RPC still works'')"
| "rpc_http_error RpcCanceled = None"
| "rpc_http_error PublishFailed = Some (HttpError 502 ''Failed to deliver RPC to device'')"

datatype rpc_answer = PassThrough str | Wrapped str

definition rpc_reply_answer :: "(str \<Rightarrow> bool) \<Rightarrow> str \<Rightarrow> rpc_answer" where
  "rpc_reply_answer json_valid reply = (if json_valid reply then PassThrough reply else Wrapped reply)"

definition handle_persistent :: "members option \<Rightarrow> str \<Rightarrow> http_error" where
  "handle_persistent claims http_method =
     (case require_auth claims of
        Inl e \<Rightarrow> e
      | Inr _ \<Rightarrow> if http_method = ''GET'' \<or> http_method = ''DELETE''
                then HttpError 404 ''Persistent RPC is not available: commands are delivered live or fail''
                else HttpError 405 ''Method not allowed'')"

section \<open>Desired and reported state\<close>

text \<open>Delivery: the topic and the payload published, retained, if any.\<close>

definition deliver_desired :: "bool \<Rightarrow> str \<Rightarrow> str \<Rightarrow> (str \<times> str) option" where
  "deliver_desired enabled mqtt payload =
     (if mqtt = [] \<or> payload = [] then None else if \<not> enabled then None else Some (desired_topic mqtt, payload))"

definition deliver_desired_for_entity :: "bool \<Rightarrow> (str \<Rightarrow> (str \<times> str) option) option \<Rightarrow> str \<Rightarrow> str \<Rightarrow> (str \<times> str) option" where
  "deliver_desired_for_entity enabled lookup device payload =
     (case lookup of
        None \<Rightarrow> None
      | Some find_device \<Rightarrow> (case find_device device of None \<Rightarrow> None | Some (mqtt, _) \<Rightarrow> deliver_desired enabled mqtt payload))"

record reported_write =
  rw_tenant :: str
  rw_device :: str
  rw_scope :: str
  rw_values :: "(str, json) gomap"

definition handle_reported_message :: "(str \<Rightarrow> (str \<times> str) option) \<Rightarrow> str \<Rightarrow> raw_message \<Rightarrow> reported_write option" where
  "handle_reported_message lookup topic data =
     (case parse_reported_topic topic of
        None \<Rightarrow> None
      | Some mqtt \<Rightarrow>
          (case lookup mqtt of
             None \<Rightarrow> None
           | Some (device, tenant) \<Rightarrow>
               (case data of
                  Some (JObj kvs) \<Rightarrow>
                    if kvs = [] then None
                    else Some \<lparr>rw_tenant = tenant, rw_device = device, rw_scope = ''CLIENT_SCOPE'', rw_values = decode_map kvs\<rparr>
                | _ \<Rightarrow> None)))"

end
