(* ===== verification/RpcProps.thy ===== *)
theory RpcProps
  imports Rpc
begin

text \<open>
  What the command path guarantees: a call is answered with the first accepted reply to its request
  however the events interleave, the table of waiting calls holds exactly the calls that have not
  returned, and a command reaches only the topic of a device of the caller's tenant, whose replies are
  attributed to that device.
\<close>

section \<open>The table\<close>

definition returned :: "rpc_call \<Rightarrow> bool" where
  "returned c \<longleftrightarrow> (\<exists>r. cl_phase c = Returned r)"

text \<open>Events other than \<open>Open\<close> change one call, keep its request, and either leave the table of
  waiting calls or return the call and remove its request.\<close>

lemma rpc_step_cases:
  assumes "\<And>m r. e \<noteq> Open m r"
  obtains (same) "rpc_step seg e t = t"
    | (advance) i c where "i < length (tb_calls t)" "rpc_step seg e t = t\<lparr>tb_calls := (tb_calls t)[i := c]\<rparr>"
        "cl_request c = cl_request (tb_calls t ! i)" "\<not> returned (tb_calls t ! i)" "\<not> returned c"
        "cl_box c = cl_box (tb_calls t ! i)" "e = Accepted i"
    | (reply) topic user data r i where "e = Response topic user data" "accepted_request seg topic user = Some r"
        "map_of (tb_pending t) r = Some i" "rpc_step seg e t = put_reply i data t"
    | (finish) i result where "i < length (tb_calls t)" "rpc_step seg e t = finish_call i result t" "\<not> returned (tb_calls t ! i)"
        "\<forall>d. result = Inr d \<longrightarrow> cl_box (tb_calls t ! i) = Some d" "\<forall>topic user data. e \<noteq> Response topic user data"
proof (cases e)
  case (Open m r)
  then show thesis using assms by simp
next
  case (Accepted i)
  show thesis
  proof (cases "in_phase Registered i t")
    case True
    then show thesis
      using Accepted by (intro advance [of i "(tb_calls t ! i)\<lparr>cl_phase := Published\<rparr>"]) (auto simp: in_phase_def returned_def)
  qed (use Accepted same in simp)
next
  case (Refused i)
  then show thesis using same finish [of i "Inl PublishFailed"]
    by (cases "in_phase Registered i t") (auto simp: in_phase_def returned_def)
next
  case (Response topic user data)
  then show thesis
  proof (cases "accepted_request seg topic user")
    case None
    then show thesis using Response same by (simp add: handle_response_def)
  next
    case (Some r)
    then show thesis using Response same reply by (cases "map_of (tb_pending t) r") (auto simp: handle_response_def)
  qed
next
  case (Deliver i)
  show thesis
  proof (cases "in_phase Published i t \<and> cl_box (tb_calls t ! i) \<noteq> None")
    case True
    then obtain d where "cl_box (tb_calls t ! i) = Some d" by blast
    then show thesis using True Deliver finish [of i "Inr d"] by (auto simp: in_phase_def returned_def)
  next
    case False
    then show thesis using Deliver same by (auto split: option.splits)
  qed
next
  case (Expire i)
  then show thesis using same finish [of i "Inl RpcTimeout"]
    by (cases "in_phase Published i t") (auto simp: in_phase_def returned_def)
next
  case (Cancel i)
  then show thesis using same finish [of i "Inl RpcCanceled"]
    by (cases "in_phase Published i t") (auto simp: in_phase_def returned_def)
qed

section \<open>First reply\<close>

fun first_reply :: "(str \<Rightarrow> raw_message option) \<Rightarrow> str \<Rightarrow> rpc_event list \<Rightarrow> str option" where
  "first_reply seg r [] = None"
| "first_reply seg r (e # es) =
     (case e of
        Response topic user data \<Rightarrow> if accepted_request seg topic user = Some r then Some data else first_reply seg r es
      | _ \<Rightarrow> first_reply seg r es)"

text \<open>What is known of call \<open>i\<close>, the only one for request \<open>r\<close>: while it waits it is in the table, and
  what its box holds comes before anything still to arrive.\<close>

definition owns :: "nat \<Rightarrow> str \<Rightarrow> rpc_table \<Rightarrow> bool" where
  "owns i r t \<longleftrightarrow> i < length (tb_calls t) \<and> cl_request (tb_calls t ! i) = r \<and>
     (\<forall>j < length (tb_calls t). j \<noteq> i \<longrightarrow> cl_request (tb_calls t ! j) \<noteq> r) \<and>
     (\<not> returned (tb_calls t ! i) \<longrightarrow> map_of (tb_pending t) r = Some i) \<and>
     (\<forall>r' k. map_of (tb_pending t) r' = Some k \<longrightarrow> k < length (tb_calls t) \<and> cl_request (tb_calls t ! k) = r')"

definition expected :: "(str \<Rightarrow> raw_message option) \<Rightarrow> str \<Rightarrow> rpc_event list \<Rightarrow> rpc_call \<Rightarrow> str option" where
  "expected seg r es c = (case cl_box c of Some d \<Rightarrow> Some d | None \<Rightarrow> first_reply seg r es)"

lemma nth_update_other: "j \<noteq> i \<Longrightarrow> xs[i := x] ! j = xs ! j"
  by simp

lemma owns_open:
  assumes "owns i r t" "r' \<noteq> r"
  shows "owns i r (open_call m r' t) \<and> tb_calls (open_call m r' t) ! i = tb_calls t ! i"
  using assms by (auto simp: owns_def open_call_def update_conv' nth_append less_Suc_eq split: if_splits)

lemma owns_update:
  assumes "owns i r t" "cl_request c = cl_request (tb_calls t ! k)" "returned (tb_calls t ! k) \<longrightarrow> returned c"
    "\<And>r' j. map_of p r' = Some j \<Longrightarrow> map_of (tb_pending t) r' = Some j" "\<not> returned c \<or> k \<noteq> i \<Longrightarrow> map_of p r = map_of (tb_pending t) r"
  shows "owns i r \<lparr>tb_calls = (tb_calls t)[k := c], tb_pending = p\<rparr>"
proof -
  have req: "cl_request ((tb_calls t)[k := c] ! j) = cl_request (tb_calls t ! j)" for j
    using assms(2) by (cases "j = k"; cases "k < length (tb_calls t)") (simp_all add: list_update_beyond)
  have ret: "map_of p r = Some i" if "\<not> returned ((tb_calls t)[k := c] ! i)"
  proof -
    have "i < length (tb_calls t)" using assms(1) by (simp add: owns_def)
    then have "\<not> returned c \<or> k \<noteq> i" "\<not> returned (tb_calls t ! i)" using that assms(3) by (cases "k = i"; auto)+
    then show ?thesis using assms(1,5) by (simp add: owns_def)
  qed
  have o: "i < length (tb_calls t)" "cl_request (tb_calls t ! i) = r" "\<forall>j < length (tb_calls t). j \<noteq> i \<longrightarrow> cl_request (tb_calls t ! j) \<noteq> r"
    "\<forall>r' k. map_of (tb_pending t) r' = Some k \<longrightarrow> k < length (tb_calls t) \<and> cl_request (tb_calls t ! k) = r'"
    using assms(1) by (simp_all add: owns_def)
  show ?thesis unfolding owns_def rpc_table.simps length_list_update req
    using o(1-3) ret spec [OF o(4)] assms(4) by (intro conjI allI impI) blast+
qed

lemma owns_put:
  assumes "owns i r t"
  shows "owns i r (put_reply k d t)"
proof -
  have "put_reply k d t = t \<or> put_reply k d t = \<lparr>tb_calls = (tb_calls t)[k := (tb_calls t ! k)\<lparr>cl_box := Some d\<rparr>], tb_pending = tb_pending t\<rparr>"
    by (simp add: put_reply_def)
  then show ?thesis using assms owns_update [OF assms, of "(tb_calls t ! k)\<lparr>cl_box := Some d\<rparr>" k "tb_pending t"]
    by (auto simp: returned_def)
qed

lemma owns_finish:
  assumes "owns i r t" "k < length (tb_calls t)"
  shows "owns i r (finish_call k res t)"
  unfolding finish_call_def
proof (rule owns_update [OF assms(1)])
  show "map_of (AList.delete (cl_request (tb_calls t ! k)) (tb_pending t)) r = map_of (tb_pending t) r"
    if "\<not> returned ((tb_calls t ! k)\<lparr>cl_phase := Returned res\<rparr>) \<or> k \<noteq> i"
  proof -
    have "k \<noteq> i" using that by (simp add: returned_def)
    then have "cl_request (tb_calls t ! k) \<noteq> r" using assms by (simp add: owns_def)
    then show ?thesis by (simp add: delete_conv')
  qed
  show "map_of (tb_pending t) r' = Some j" if "map_of (AList.delete (cl_request (tb_calls t ! k)) (tb_pending t)) r' = Some j" for r' j
    using that by (simp add: delete_conv' split: if_splits)
qed (simp_all add: returned_def)

lemma owns_step:
  assumes "owns i r t" "\<And>m. e \<noteq> Open m r"
  shows "owns i r (rpc_step seg e t)"
proof (cases "\<exists>m r'. e = Open m r'")
  case True
  then show ?thesis using assms owns_open by auto
next
  case False
  then have "\<And>m r. e \<noteq> Open m r" by blast
  then show ?thesis
  proof (cases rule: rpc_step_cases [of e seg t])
    case same
    then show ?thesis using assms by simp
  next
    case (advance k c)
    then show ?thesis using assms(1) by (auto simp: owns_def nth_list_update)
  next
    case reply
    then show ?thesis using assms(1) owns_put by simp
  next
    case finish
    then show ?thesis using assms(1) owns_finish by simp
  qed
qed

text \<open>The expected answer of a call that waits does not change; a reply it returned is the expected one.\<close>

lemma answer_step:
  assumes "owns i r t" "\<And>m. e \<noteq> Open m r" "\<not> returned (tb_calls t ! i)"
  shows "let c = tb_calls t ! i; c' = tb_calls (rpc_step seg e t) ! i
     in expected seg r es c' = expected seg r (e # es) c \<and>
        (\<forall>d. cl_phase c' = Returned (Inr d) \<longrightarrow> cl_box c' = Some d)"
proof (cases "\<exists>m r'. e = Open m r'")
  case True
  then obtain m r' where e: "e = Open m r'" by blast
  then have "r' \<noteq> r" using assms(2) by blast
  then show ?thesis using owns_open [OF assms(1)] assms(3) e by (auto simp: expected_def returned_def split: option.splits)
next
  case False
  then have "\<And>m r. e \<noteq> Open m r" by blast
  then show ?thesis
  proof (cases rule: rpc_step_cases [of e seg t])
    case same
    have "first_reply seg r (e # es) = first_reply seg r es" if "cl_box (tb_calls t ! i) = None"
    proof (cases e)
      case (Response topic user data)
      have "accepted_request seg topic user \<noteq> Some r"
      proof
        assume a: "accepted_request seg topic user = Some r"
        have "map_of (tb_pending t) r = Some i" "i < length (tb_calls t)" using assms(1,3) by (simp_all add: owns_def)
        then have "rpc_step seg e t = t\<lparr>tb_calls := (tb_calls t)[i := (tb_calls t ! i)\<lparr>cl_box := Some data\<rparr>]\<rparr>"
          using Response a that by (simp add: handle_response_def put_reply_def)
        then have "cl_box (tb_calls t ! i) = Some data" using same \<open>i < length (tb_calls t)\<close>
          by (metis nth_list_update_eq rpc_call.select_convs(4) rpc_call.surjective rpc_call.update_convs(4) rpc_table.select_convs(1) rpc_table.surjective rpc_table.update_convs(1))
        then show False using that by simp
      qed
      then show ?thesis using Response by simp
    qed simp_all
    then show ?thesis using same assms(3) by (auto simp: expected_def returned_def split: option.splits)
  next
    case (advance k c)
    then show ?thesis using assms(3) by (auto simp: expected_def returned_def nth_list_update Let_def split: option.splits)
  next
    case (reply topic user data r' k)
    show ?thesis
    proof (cases "k = i")
      case True
      then have "r' = r" using assms(1) reply(3) by (auto simp: owns_def)
      moreover have "i < length (tb_calls t)" using assms(1) by (simp add: owns_def)
      ultimately show ?thesis using reply True assms(3)
        by (auto simp: expected_def put_reply_def returned_def nth_list_update Let_def split: option.splits)
    next
      case False
      have "r' \<noteq> r" using assms(1,3) reply(3) False by (auto simp: owns_def)
      then have "first_reply seg r (e # es) = first_reply seg r es" using reply by simp
      moreover have "tb_calls (put_reply k data t) ! i = tb_calls t ! i" using False by (simp add: put_reply_def)
      ultimately show ?thesis using reply(4) assms(3) by (auto simp: expected_def returned_def Let_def split: option.splits)
    qed
  next
    case (finish k result)
    have "first_reply seg r (e # es) = first_reply seg r es" using finish(5) by (cases e) auto
    then show ?thesis using finish assms(3)
      by (cases "k = i") (auto simp: expected_def finish_call_def returned_def nth_list_update Let_def split: option.splits)
  qed
qed

lemma returned_stays:
  assumes "owns i r t" "\<And>m. e \<noteq> Open m r" "returned (tb_calls t ! i)"
  shows "cl_phase (tb_calls (rpc_step seg e t) ! i) = cl_phase (tb_calls t ! i)"
proof (cases "\<exists>m r'. e = Open m r'")
  case True
  then show ?thesis using owns_open [OF assms(1)] assms(2) by auto
next
  case False
  then have "\<And>m r. e \<noteq> Open m r" by blast
  then show ?thesis
  proof (cases rule: rpc_step_cases [of e seg t])
    case (advance k c)
    then show ?thesis using assms(3) by (cases "k = i") auto
  next
    case (reply topic user data r' k)
    then show ?thesis by (cases "k < length (tb_calls t)") (auto simp: put_reply_def nth_list_update list_update_beyond)
  next
    case (finish k result)
    then show ?thesis using assms(3) by (cases "k = i") (auto simp: finish_call_def)
  qed simp
qed

lemma answer_run:
  assumes "owns i r t" "\<And>m. Open m r \<notin> set es"
  shows "owns i r (rpc_run seg es t) \<and>
    (returned (tb_calls t ! i) \<longrightarrow> cl_phase (tb_calls (rpc_run seg es t) ! i) = cl_phase (tb_calls t ! i)) \<and>
    (\<not> returned (tb_calls t ! i) \<longrightarrow>
      (case cl_phase (tb_calls (rpc_run seg es t) ! i) of
         Returned (Inr d) \<Rightarrow> expected seg r es (tb_calls t ! i) = Some d
       | Returned (Inl _) \<Rightarrow> True
       | _ \<Rightarrow> cl_box (tb_calls (rpc_run seg es t) ! i) = expected seg r es (tb_calls t ! i)))"
  using assms
proof (induction es arbitrary: t)
  case Nil
  then show ?case by (auto simp: expected_def returned_def split: call_phase.splits sum.splits option.splits)
next
  case (Cons e es)
  let ?t = "rpc_step seg e t"
  have no: "\<And>m. e \<noteq> Open m r" using Cons.prems(2) by (metis list.set_intros(1))
  have own: "owns i r ?t" by (rule owns_step [OF Cons.prems(1) no])
  note ih = Cons.IH [OF own] Cons.prems(2)
  have ih: "owns i r (rpc_run seg es ?t) \<and>
    (returned (tb_calls ?t ! i) \<longrightarrow> cl_phase (tb_calls (rpc_run seg es ?t) ! i) = cl_phase (tb_calls ?t ! i)) \<and>
    (\<not> returned (tb_calls ?t ! i) \<longrightarrow>
      (case cl_phase (tb_calls (rpc_run seg es ?t) ! i) of
         Returned (Inr d) \<Rightarrow> expected seg r es (tb_calls ?t ! i) = Some d
       | Returned (Inl _) \<Rightarrow> True
       | _ \<Rightarrow> cl_box (tb_calls (rpc_run seg es ?t) ! i) = expected seg r es (tb_calls ?t ! i)))"
    by (rule Cons.IH [OF own]) (use Cons.prems(2) in auto)
  have run: "rpc_run seg (e # es) t = rpc_run seg es ?t" by simp
  show ?case
  proof (cases "returned (tb_calls t ! i)")
    case True
    note stay = returned_stays [OF Cons.prems(1) no True, of seg]
    then have "returned (tb_calls ?t ! i)" using True by (simp add: returned_def)
    then show ?thesis unfolding run using ih stay True by simp
  next
    case False
    note a = answer_step [OF Cons.prems(1) no False, of seg es, unfolded Let_def]
    show ?thesis
    proof (cases "returned (tb_calls ?t ! i)")
      case True
      then have phase: "cl_phase (tb_calls (rpc_run seg es ?t) ! i) = cl_phase (tb_calls ?t ! i)" using ih by blast
      have "expected seg r (e # es) (tb_calls t ! i) = Some d" if "cl_phase (tb_calls ?t ! i) = Returned (Inr d)" for d
        using a that by (metis expected_def option.simps(5))
      then show ?thesis unfolding run using ih phase True False by (auto simp: returned_def split: sum.splits)
    next
      case still: False
      then show ?thesis unfolding run using ih conjunct1 [OF a] False by metis
    qed
  qed
qed

section \<open>Waiting calls\<close>

inductive rpc_reachable :: "(str \<Rightarrow> raw_message option) \<Rightarrow> rpc_table \<Rightarrow> bool" for seg where
  start: "rpc_reachable seg no_calls"
| step: "rpc_reachable seg t \<Longrightarrow> (\<forall>m r. e = Open m r \<longrightarrow> r \<notin> cl_request ` set (tb_calls t)) \<Longrightarrow> rpc_reachable seg (rpc_step seg e t)"

definition table_exact :: "rpc_table \<Rightarrow> bool" where
  "table_exact t \<longleftrightarrow> distinct (map cl_request (tb_calls t)) \<and>
     (\<forall>r i. map_of (tb_pending t) r = Some i \<longleftrightarrow>
        i < length (tb_calls t) \<and> cl_request (tb_calls t ! i) = r \<and> \<not> returned (tb_calls t ! i))"

lemma exact_update:
  assumes "table_exact t" "cl_request c = cl_request (tb_calls t ! k)" "returned c = returned (tb_calls t ! k)"
  shows "table_exact (t\<lparr>tb_calls := (tb_calls t)[k := c]\<rparr>)"
proof -
  have req: "cl_request ((tb_calls t)[k := c] ! j) = cl_request (tb_calls t ! j)"
    and ret: "returned ((tb_calls t)[k := c] ! j) = returned (tb_calls t ! j)" for j
    using assms(2,3) by (cases "j = k"; cases "k < length (tb_calls t)"; simp add: list_update_beyond)+
  have "map cl_request ((tb_calls t)[k := c]) = map cl_request (tb_calls t)"
    by (rule nth_equalityI) (simp_all add: req)
  then show ?thesis using assms(1) unfolding table_exact_def by (simp add: req ret)
qed

lemma exact_open:
  assumes "table_exact t" "r \<notin> cl_request ` set (tb_calls t)"
  shows "table_exact (open_call m r t)"
proof -
  have others: "cl_request (tb_calls t ! i) \<noteq> r" if "i < length (tb_calls t)" for i using assms(2) that by force
  have e: "map_of (tb_pending t) q = Some i \<longleftrightarrow>
      i < length (tb_calls t) \<and> cl_request (tb_calls t ! i) = q \<and> \<not> returned (tb_calls t ! i)" for q i
    using assms(1) unfolding table_exact_def by blast
  have "map_of (tb_pending (open_call m r t)) q = Some i \<longleftrightarrow> i < length (tb_calls (open_call m r t)) \<and>
      cl_request (tb_calls (open_call m r t) ! i) = q \<and> \<not> returned (tb_calls (open_call m r t) ! i)" for q i
    using others e [of q i] by (cases "i = length (tb_calls t)") (auto simp: open_call_def update_conv' nth_append returned_def less_Suc_eq)
  moreover have "distinct (map cl_request (tb_calls (open_call m r t)))"
    using assms unfolding table_exact_def by (simp add: open_call_def)
  ultimately show ?thesis unfolding table_exact_def by blast
qed

lemma exact_finish:
  assumes "table_exact t" "k < length (tb_calls t)"
  shows "table_exact (finish_call k res t)"
proof -
  let ?c = "(tb_calls t ! k)\<lparr>cl_phase := Returned res\<rparr>"
  have req: "cl_request ((tb_calls t)[k := ?c] ! j) = cl_request (tb_calls t ! j)" for j by (cases "j = k"; simp add: assms(2))
  have ret: "returned ((tb_calls t)[k := ?c] ! j) \<longleftrightarrow> j = k \<or> returned (tb_calls t ! j)" for j
    by (cases "j = k") (simp_all add: assms(2) returned_def)
  have d: "distinct (map cl_request (tb_calls t))" and e: "map_of (tb_pending t) q = Some i \<longleftrightarrow>
      i < length (tb_calls t) \<and> cl_request (tb_calls t ! i) = q \<and> \<not> returned (tb_calls t ! i)" for q i
    using assms(1) unfolding table_exact_def by blast+
  have inj: "cl_request (tb_calls t ! i) = cl_request (tb_calls t ! k) \<Longrightarrow> i < length (tb_calls t) \<Longrightarrow> i = k" for i
    using d assms(2) nth_eq_iff_index_eq [of "map cl_request (tb_calls t)" i k] by simp
  have "map cl_request ((tb_calls t)[k := ?c]) = map cl_request (tb_calls t)"
    by (rule nth_equalityI) (simp_all add: req)
  moreover have "map_of (AList.delete (cl_request (tb_calls t ! k)) (tb_pending t)) q = Some i \<longleftrightarrow>
      i < length (tb_calls t) \<and> cl_request (tb_calls t ! i) = q \<and> \<not> (i = k \<or> returned (tb_calls t ! i))" for q i
    using e [of q i] inj [of i] by (cases "q = cl_request (tb_calls t ! k)") (auto simp: delete_conv')
  ultimately show ?thesis using d unfolding table_exact_def finish_call_def by (simp add: req ret)
qed

lemma reachable_exact: "rpc_reachable seg t \<Longrightarrow> table_exact t"
proof (induction rule: rpc_reachable.induct)
  case start
  then show ?case by (simp add: table_exact_def no_calls_def)
next
  case (step t e)
  show ?case
  proof (cases "\<exists>m r. e = Open m r")
    case True
    then show ?thesis using step exact_open by auto
  next
    case False
    then have "\<And>m r. e \<noteq> Open m r" by blast
    then show ?thesis
    proof (cases rule: rpc_step_cases [of e seg t])
      case same
      then show ?thesis using step.IH by simp
    next
      case (advance k c)
      then show ?thesis using exact_update [OF step.IH] by simp
    next
      case (reply topic user data r k)
      then show ?thesis using exact_update [OF step.IH, of "(tb_calls t ! k)\<lparr>cl_box := Some data\<rparr>" k] step.IH
        by (simp add: put_reply_def returned_def)
    next
      case finish
      then show ?thesis using exact_finish [OF step.IH] by simp
    qed
  qed
qed

text \<open>Whatever the interleaving of calls, broker answers, replies, deliveries, timeouts and
  cancellations, with fresh request ids the table of waiting calls holds exactly the calls that have not
  returned, each under its own request: a reply to a call in flight always finds it, and no returned call
  leaves an entry behind.\<close>

theorem waiting_calls_exact:
  assumes "rpc_reachable seg t"
  shows "map_of (tb_pending t) r = Some i \<longleftrightarrow>
    i < length (tb_calls t) \<and> cl_request (tb_calls t ! i) = r \<and> (\<forall>x. cl_phase (tb_calls t ! i) \<noteq> Returned x)"
  using reachable_exact [OF assms] by (auto simp: table_exact_def returned_def)

theorem waiting_calls_exact_witness:
  "map_of (tb_pending (rpc_step (\<lambda>_. None) (Open ''dev'' ''r2'') (rpc_step (\<lambda>_. None) (Open ''dev'' ''r1'') no_calls))) ''r2'' = Some 1"
proof -
  have "rpc_reachable (\<lambda>_. None) (rpc_step (\<lambda>_. None) (Open ''dev'' ''r2'') (rpc_step (\<lambda>_. None) (Open ''dev'' ''r1'') no_calls))"
    by (intro rpc_reachable.step rpc_reachable.start) (simp_all add: no_calls_def open_call_def)
  from waiting_calls_exact [OF this] show ?thesis by (simp add: no_calls_def open_call_def)
qed

section \<open>Replies\<close>

text \<open>A two-way call opened with a fresh request id answers, if it answers with a reply, the first
  reply after its registration that the listener accepts for its request; replies to other requests,
  later replies and the calls of others never change it, and while it waits that reply is kept for it even
  when it arrives before the broker has answered the publish.\<close>

theorem first_reply_answers:
  assumes "rpc_reachable seg t" "r \<notin> cl_request ` set (tb_calls t)" "\<forall>m. Open m r \<notin> set es"
  shows "let c = tb_calls (rpc_run seg (Open mqtt r # es) t) ! length (tb_calls t)
    in cl_request c = r \<and>
       (case cl_phase c of
          Returned (Inr d) \<Rightarrow> first_reply seg r es = Some d
        | Returned (Inl _) \<Rightarrow> True
        | _ \<Rightarrow> cl_box c = first_reply seg r es)"
proof -
  let ?t = "open_call mqtt r t" and ?i = "length (tb_calls t)"
  have exact: "table_exact ?t" by (rule exact_open [OF reachable_exact [OF assms(1)] assms(2)])
  have new: "tb_calls ?t ! ?i = \<lparr>cl_mqtt = mqtt, cl_request = r, cl_phase = Registered, cl_box = None\<rparr>"
    "length (tb_calls ?t) = Suc ?i" by (simp_all add: open_call_def nth_append)
  have "cl_request (tb_calls ?t ! j) \<noteq> r" if "j < ?i" for j using assms(2) that by (force simp: open_call_def nth_append)
  then have own: "owns ?i r ?t" using exact new unfolding owns_def table_exact_def by (auto simp: less_Suc_eq returned_def)
  have exp: "expected seg r es (tb_calls ?t ! ?i) = first_reply seg r es" "\<not> returned (tb_calls ?t ! ?i)"
    by (simp_all add: new expected_def returned_def)
  have "owns ?i r (rpc_run seg es ?t) \<and>
      (case cl_phase (tb_calls (rpc_run seg es ?t) ! ?i) of
         Returned (Inr d) \<Rightarrow> first_reply seg r es = Some d
       | Returned (Inl _) \<Rightarrow> True
       | _ \<Rightarrow> cl_box (tb_calls (rpc_run seg es ?t) ! ?i) = first_reply seg r es)"
    using answer_run [OF own, of es seg] assms(3) exp(2) unfolding exp(1) by blast
  then show ?thesis unfolding Let_def rpc_run.simps rpc_step.simps by (simp add: owns_def)
qed

theorem first_reply_answers_witness:
  "first_reply (\<lambda>_. None) ''r1'' [Response ''thingsflow/devices/dev/rpc/response/r1'' [] ''ok'', Accepted 0, Deliver 0] = Some ''ok'' \<and>
   cl_phase (tb_calls (rpc_run (\<lambda>_. None) [Open ''dev'' ''r1'', Response ''thingsflow/devices/dev/rpc/response/r1'' [] ''ok'',
     Accepted 0, Deliver 0] no_calls) ! 0) = Returned (Inr ''ok'')"
proof -
  let ?es = "[Response ''thingsflow/devices/dev/rpc/response/r1'' [] ''ok'', Accepted 0, Deliver 0]"
  have "cl_phase (tb_calls (rpc_run (\<lambda>_. None) (Open ''dev'' ''r1'' # ?es) no_calls) ! 0) = Returned (Inr ''ok'')"
    by code_simp
  moreover from first_reply_answers [OF rpc_reachable.start, of "''r1''" ?es "\<lambda>_. None" "''dev''"] this
  have "first_reply (\<lambda>_. None) ''r1'' ?es = Some ''ok''" by (simp add: no_calls_def)
  ultimately show ?thesis by simp
qed

text \<open>The listener matches replies by request alone: a reply on the topic of another device is taken.\<close>

lemma no_username [simp]: "device_identity_from_username seg [] = []"
  by (simp add: device_identity_from_username_def trim_space_def trim_prefix_def)

lemma other_device_answers:
  assumes "CHR ''/'' \<notin> set other" "CHR ''/'' \<notin> set r" "other \<noteq> []" "r \<noteq> []"
  shows "cl_phase (tb_calls (rpc_run seg [Open mqtt r, Accepted 0, Response (response_topic other r) [] data, Deliver 0] no_calls) ! 0)
    = Returned (Inr data)"
proof -
  have "accepted_request seg (response_topic other r) [] = Some r"
    by (simp add: accepted_request_def response_topic_parsed [OF assms])
  then show ?thesis by (simp add: no_calls_def open_call_def in_phase_def handle_response_def put_reply_def finish_call_def)
qed

section \<open>Addressing\<close>

lemma clamp_timeout_bounds: "0 < clamp_timeout d \<and> clamp_timeout d \<le> 60 * 10 ^ 9"
  by (simp add: clamp_timeout_def default_timeout_def max_timeout_def)

text \<open>C17: A command leaves the handler only for a device of the caller's non-empty tenant, named by any spelling
  of its id that Postgres reads: with a timeout between zero and sixty seconds whatever the body asks for, with the
  request in its payload, and on a topic that is the request topic of no other device of any tenant, and of this device
  when the id is spelled as Postgres prints it.\<close>

theorem command_addresses_own_device:
  assumes "handle_rpc enabled (Some (lookup_device_for_rpc uuid devices)) claims http_method device body request = Inr cm"
    "reads_uuids uuid" "\<forall>e \<in> set devices. uuid (en_id e) = Some (en_id e)"
  shows "\<exists>c row. claims = Some c \<and> row \<in> set devices \<and> uuid device = Some (en_id row) \<and>
    en_tenant row = Some (as_string (obj_get c ''tenantId'')) \<and> en_tenant row \<noteq> Some [] \<and>
    0 < cm_timeout cm \<and> cm_timeout cm \<le> 60 * 10 ^ 9 \<and> obj_get (as_object (Some (cm_payload cm))) ''id'' = Some (JStr request) \<and>
    (\<forall>e \<in> set devices. \<forall>r. cm_topic cm = request_topic (topic_safe_identity (en_id e)) r \<longrightarrow> en_id e = en_id row \<and> r = request) \<and>
    (device = en_id row \<longrightarrow> cm_topic cm = request_topic (topic_safe_identity (en_id row)) request)"
proof -
  from assms(1) obtain c where c: "claims = Some c"
    by (auto simp: handle_rpc_def require_auth_def and_then_def or_fail_def split: option.splits sum.splits)
  from assms(1) c obtain tenant where t: "device_tenant uuid devices device = Some tenant"
    by (cases "device_tenant uuid devices device")
      (auto simp: handle_rpc_def require_auth_def lookup_device_for_rpc_def split: if_splits)
  then obtain row where row: "uuid device = Some (en_id row)" "row \<in> set devices" "en_tenant row = Some tenant"
    by (auto simp: device_tenant_def find_Some_iff split: option.splits bind_splits)
  from assms(1) c t have g: "tenant = as_string (obj_get c ''tenantId'')" "tenant \<noteq> []"
    "cm_topic cm = request_topic (topic_safe_identity device) request"
    "\<exists>d. cm_timeout cm = clamp_timeout d" "\<exists>r. cm_payload cm = command_payload request r"
    by (auto simp: handle_rpc_def require_auth_def lookup_device_for_rpc_def Let_def go_err split: if_splits)
  have "en_id e = en_id row \<and> r = request" if "e \<in> set devices" "cm_topic cm = request_topic (topic_safe_identity (en_id e)) r" for e r
  proof -
    have m: "topic_safe_identity (en_id e) = topic_safe_identity device" "r = request"
      using request_topic_inj [OF identity_no_slash identity_no_slash, of "en_id e" r device request] that(2) g(3) by simp_all
    show ?thesis using identity_of_spelling [OF assms(2) row(1) _ m(1)] assms(3) that(1) m(2) by blast
  qed
  then have alone: "\<forall>e \<in> set devices. \<forall>r. cm_topic cm = request_topic (topic_safe_identity (en_id e)) r \<longrightarrow>
      en_id e = en_id row \<and> r = request" by blast
  have payload: "obj_get (as_object (Some (cm_payload cm))) ''id'' = Some (JStr request)"
    using g(5) by (auto simp: command_payload_def obj_get_def)
  have time: "0 < cm_timeout cm" "cm_timeout cm \<le> 60 * 10 ^ 9" using g(4) clamp_timeout_bounds by (metis, metis)
  have "en_tenant row = Some (as_string (obj_get c ''tenantId''))" "en_tenant row \<noteq> Some []" using row(3) g(1,2) by simp_all
  with c row(1,2) time payload alone g(3) show ?thesis by blast
qed

definition meter_id :: str where "meter_id = ''33333333-3333-3333-3333-33333333333a''"

definition meter :: entity where
  "meter = \<lparr>en_id = meter_id, en_tenant = Some ''t'', en_created = 1, en_name = ''meter'', en_type = None, en_label = None,
     en_info = NoInfo\<rparr>"

definition hyphen_uuid :: "str \<Rightarrow> str option" where
  "hyphen_uuid s =
     (let d = filter hex_char s in if length d = 32 \<and> s = hyphenate d then Some (hyphenate (map lower_char d)) else None)"

lemma lower_hex: "hex_char c \<Longrightarrow> hex_char (lower_char c)"
  by (auto simp: hex_char_def lower_char_def in_range_def char_code_def of_char_of)

lemma hyphen_uuid_reads: "reads_uuids hyphen_uuid"
proof -
  have "uuid_shaped (hyphenate (map lower_char d)) \<and> filter hex_char (hyphenate (map lower_char d)) = map lower_char d"
    if "length d = 32" "list_all hex_char d" for d
  proof -
    have "length (map lower_char d) = 32" "list_all hex_char (map lower_char d)" using that lower_hex by (auto simp: list_all_iff)
    then show ?thesis unfolding uuid_shaped_def using hex_of_hyphenate by blast
  qed
  then show ?thesis by (auto simp: reads_uuids_def hyphen_uuid_def Let_def list_all_iff split: if_splits)
qed

definition sample_command :: "str \<Rightarrow> http_error + rpc_command" where
  "sample_command device =
     handle_rpc True (Some (lookup_device_for_rpc hyphen_uuid [meter])) (Some [(''tenantId'', JStr ''t'')]) ''POST'' device
       (Some (Some (JObj [(''method'', JStr ''reboot''), (''timeout'', JInt 9000000000000000000)]))) ''r1''"

theorem command_addresses_own_device_witness:
  "\<exists>cm. sample_command meter_id = Inr cm \<and> 0 < cm_timeout cm \<and> cm_timeout cm \<le> 60 * 10 ^ 9 \<and>
    cm_topic cm = request_topic (topic_safe_identity meter_id) ''r1''"
proof -
  have "\<not> isl (sample_command meter_id)" by code_simp
  then obtain cm where cm: "sample_command meter_id = Inr cm" by (metis sum.collapse(2))
  have "hyphen_uuid meter_id = Some meter_id" by code_simp
  then have "\<forall>e \<in> set [meter]. hyphen_uuid (en_id e) = Some (en_id e)" by (simp add: meter_def)
  from command_addresses_own_device [OF cm [unfolded sample_command_def] hyphen_uuid_reads this]
  obtain row where row: "row \<in> set [meter]" "0 < cm_timeout cm" "cm_timeout cm \<le> 60 * 10 ^ 9"
    "meter_id = en_id row \<longrightarrow> cm_topic cm = request_topic (topic_safe_identity (en_id row)) ''r1''" by blast
  then have "en_id row = meter_id" by (simp add: meter_def)
  with row(2-4) have "0 < cm_timeout cm \<and> cm_timeout cm \<le> 60 * 10 ^ 9 \<and> cm_topic cm = request_topic (topic_safe_identity meter_id) ''r1''"
    by simp
  then show ?thesis using cm by blast
qed

text \<open>Spelled in upper case the device is found and the command accepted, on a topic no device listens on.\<close>

lemma upper_case_command_lost:
  "(case sample_command (to_upper meter_id) of
      Inl _ \<Rightarrow> False | Inr cm \<Rightarrow> cm_topic cm \<noteq> request_topic (topic_safe_identity meter_id) ''r1'')"
  by code_simp

end
