(* ===== verification/Quotas.thy ===== *)
theory Quotas
  imports HttpUtil "HOL-Library.Signed_Division" "HOL-Library.Word"
begin

text \<open>
  Tenant limits (internal/quotas): the limits of a tenant profile behind a cache, the check before an
  entity is created, and the per-minute ceiling on transport messages, whose bucket is shared by
  concurrent callers and changes by single atomic operations. And the hourly base line of the usage
  report (internal/usage/measure.go).
\<close>

section \<open>Limits\<close>

record limits =
  max_devices :: int
  max_assets :: int
  max_users :: int
  max_customers :: int
  max_dashboards :: int
  max_rule_chains :: int
  max_transport_messages :: int

definition no_limits :: limits where
  "no_limits = \<lparr>max_devices = 0, max_assets = 0, max_users = 0, max_customers = 0, max_dashboards = 0,
     max_rule_chains = 0, max_transport_messages = 0\<rparr>"

definition dec_limits :: "json \<Rightarrow> limits \<Rightarrow> limits option" where
  "dec_limits j old =
     (case j of
        JNull \<Rightarrow> Some old
      | JObj kvs \<Rightarrow>
          (case (dec_field dec_int64 (max_devices old) (struct_vals ''maxDevices'' kvs),
                 dec_field dec_int64 (max_assets old) (struct_vals ''maxAssets'' kvs),
                 dec_field dec_int64 (max_users old) (struct_vals ''maxUsers'' kvs),
                 dec_field dec_int64 (max_customers old) (struct_vals ''maxCustomers'' kvs),
                 dec_field dec_int64 (max_dashboards old) (struct_vals ''maxDashboards'' kvs),
                 dec_field dec_int64 (max_rule_chains old) (struct_vals ''maxRuleChains'' kvs),
                 dec_field dec_int64 (max_transport_messages old) (struct_vals ''maxTransportMessages'' kvs)) of
             (Some d, Some a, Some u, Some c, Some b, Some r, Some t) \<Rightarrow>
               Some \<lparr>max_devices = d, max_assets = a, max_users = u, max_customers = c, max_dashboards = b,
                     max_rule_chains = r, max_transport_messages = t\<rparr>
           | _ \<Rightarrow> None)
      | _ \<Rightarrow> None)"

text \<open>The profile of a tenant is \<open>None\<close> when the query fails or finds nothing.\<close>

definition profile_limits :: "raw_message option \<Rightarrow> limits" where
  "profile_limits profile =
     (case profile of
        Some (Some (JObj kvs)) \<Rightarrow>
          (case dec_field dec_limits no_limits (struct_vals ''configuration'' kvs) of None \<Rightarrow> no_limits | Some l \<Rightarrow> l)
      | _ \<Rightarrow> no_limits)"

type_synonym quota_cache = "(str, limits \<times> millis) gomap"

definition cache_ttl :: millis where "cache_ttl = 30000"

definition limits_for :: "(str \<Rightarrow> raw_message option) \<Rightarrow> millis \<Rightarrow> str \<Rightarrow> quota_cache \<Rightarrow> limits \<times> quota_cache" where
  "limits_for query now tenant cache =
     (case map_of cache tenant of
        Some (l, expires) \<Rightarrow>
          if now < expires then (l, cache)
          else (profile_limits (query tenant), AList.update tenant (profile_limits (query tenant), now + cache_ttl) cache)
      | None \<Rightarrow> (profile_limits (query tenant), AList.update tenant (profile_limits (query tenant), now + cache_ttl) cache))"

definition invalidate_cache :: "str \<Rightarrow> quota_cache \<Rightarrow> quota_cache" where
  "invalidate_cache tenant cache = (if tenant = [] then [] else AList.delete tenant cache)"

definition quota_specs :: "(str \<times> (limits \<Rightarrow> int) \<times> str) list" where
  "quota_specs = [(''device'', max_devices, ''device''), (''asset'', max_assets, ''asset''), (''user'', max_users, ''tb_user''),
     (''customer'', max_customers, ''customer''), (''dashboard'', max_dashboards, ''dashboard''),
     (''rule_chain'', max_rule_chains, ''rule_chain'')]"

text \<open>\<open>row_count\<close> counts the rows of a table with the tenant; \<open>None\<close> is a failed query.\<close>

definition enforce ::
  "(str \<Rightarrow> raw_message option) \<Rightarrow> (str \<Rightarrow> str \<Rightarrow> int option) \<Rightarrow> millis \<Rightarrow> str \<Rightarrow> str \<Rightarrow> quota_cache \<Rightarrow> bool \<times> quota_cache" where
  "enforce query row_count now tenant kind cache =
     (if tenant = [] then (True, cache)
      else (case map_of quota_specs kind of
              None \<Rightarrow> (True, cache)
            | Some (limit_of, table) \<Rightarrow>
                (case limits_for query now tenant cache of (l, cache') \<Rightarrow>
                   if limit_of l \<le> 0 then (True, cache')
                   else (case row_count table tenant of
                           None \<Rightarrow> (True, cache')
                         | Some n \<Rightarrow> (\<not> limit_of l \<le> n, cache')))))"

section \<open>The transport ceiling\<close>

record rate_bucket =
  bk_count :: int
  bk_window :: millis

definition fresh_bucket :: rate_bucket where
  "fresh_bucket = \<lparr>bk_count = 0, bk_window = 0\<rparr>"

definition window_of :: "millis \<Rightarrow> millis" where
  "window_of now = (now sdiv 60000) * 60000"

text \<open>A caller between two atomic operations; \<open>Swapping\<close> holds the window it has loaded.\<close>

datatype caller = Loading | Swapping millis | Zeroing | Adding | Undoing | Decided bool

fun caller_step :: "int \<Rightarrow> millis \<Rightarrow> caller \<Rightarrow> rate_bucket \<Rightarrow> caller \<times> rate_bucket" where
  "caller_step limit window Loading b = (if bk_window b = window then (Adding, b) else (Swapping (bk_window b), b))"
| "caller_step limit window (Swapping old) b =
     (if bk_window b = old then (Zeroing, b\<lparr>bk_window := window\<rparr>) else (Loading, b))"
| "caller_step limit window Zeroing b = (Adding, b\<lparr>bk_count := 0\<rparr>)"
| "caller_step limit window Adding b =
     (if limit < bk_count b + 1 then (Undoing, b\<lparr>bk_count := bk_count b + 1\<rparr>)
      else (Decided True, b\<lparr>bk_count := bk_count b + 1\<rparr>))"
| "caller_step limit window Undoing b = (Decided False, b\<lparr>bk_count := bk_count b - 1\<rparr>)"
| "caller_step limit window (Decided r) b = (Decided r, b)"

text \<open>A caller that runs alone.\<close>

definition allow_transport :: "str \<Rightarrow> limits \<Rightarrow> millis \<Rightarrow> rate_bucket \<Rightarrow> bool \<times> rate_bucket" where
  "allow_transport tenant l now b =
     (if tenant = [] then (True, b)
      else if max_transport_messages l \<le> 0 then (True, b)
      else (let b' = (if bk_window b = window_of now then b else \<lparr>bk_count = 0, bk_window = window_of now\<rparr>)
            in if max_transport_messages l < bk_count b' + 1 then (False, b') else (True, b'\<lparr>bk_count := bk_count b' + 1\<rparr>)))"

fun run_caller :: "nat \<Rightarrow> int \<Rightarrow> millis \<Rightarrow> caller \<Rightarrow> rate_bucket \<Rightarrow> caller \<times> rate_bucket" where
  "run_caller 0 limit window c b = (c, b)"
| "run_caller (Suc n) limit window c b = (case caller_step limit window c b of (c', b') \<Rightarrow> run_caller n limit window c' b')"

text \<open>Concurrent callers: each step of the schedule moves one of them.\<close>

record transport_callers =
  tc_bucket :: rate_bucket
  tc_callers :: "(millis \<times> caller) list"

definition move_caller :: "int \<Rightarrow> nat \<Rightarrow> transport_callers \<Rightarrow> transport_callers" where
  "move_caller limit i s =
     (if i < length (tc_callers s)
      then (case tc_callers s ! i of (window, c) \<Rightarrow>
              (case caller_step limit window c (tc_bucket s) of (c', b') \<Rightarrow>
                 \<lparr>tc_bucket = b', tc_callers = (tc_callers s)[i := (window, c')]\<rparr>))
      else s)"

definition run_schedule :: "int \<Rightarrow> nat list \<Rightarrow> transport_callers \<Rightarrow> transport_callers" where
  "run_schedule limit schedule s = foldl (\<lambda>s i. move_caller limit i s) s schedule"

section \<open>The usage base line\<close>

record hour_baseline =
  hb_hour :: millis
  hb_msg :: "64 word"
  hb_rule :: "64 word"
  hb_primed :: bool

definition since :: "millis \<Rightarrow> 64 word \<Rightarrow> 64 word \<Rightarrow> hour_baseline \<Rightarrow> (64 word \<times> 64 word) \<times> hour_baseline" where
  "since hour msg rule b =
     (if \<not> hb_primed b \<or> hb_hour b \<noteq> hour
      then ((0, 0), \<lparr>hb_hour = hour, hb_msg = msg, hb_rule = rule, hb_primed = True\<rparr>)
      else if msg < hb_msg b \<or> rule < hb_rule b then ((0, 0), b\<lparr>hb_msg := msg, hb_rule := rule\<rparr>)
      else ((msg - hb_msg b, rule - hb_rule b), b))"

text \<open>The counters a reading adds to the report; \<open>None\<close> is a source that cannot be read.\<close>

definition truncate_hour :: "millis \<Rightarrow> millis" where
  "truncate_hour now = (now div 3600000) * 3600000"

definition data_plane_points ::
  "int option \<Rightarrow> (64 word) option \<Rightarrow> (64 word) option \<Rightarrow> millis \<Rightarrow> hour_baseline \<Rightarrow> (str, int) gomap \<times> hour_baseline" where
  "data_plane_points stored msg_seq rule_seq now b =
     (let points = (case stored of
            None \<Rightarrow> []
          | Some n \<Rightarrow> [(''storageDataPointsCount'', n), (''storageDataPointsCountHourly'', n),
                       (''transportDataPointsCount'', n), (''transportDataPointsCountHourly'', n)])
      in (case (msg_seq, rule_seq) of
            (Some m, Some r) \<Rightarrow>
              (case since (truncate_hour now) m r b of ((msgs, rules), b') \<Rightarrow>
                 (points @ [(''transportMsgCount'', sint msgs), (''transportMsgCountHourly'', sint msgs),
                            (''ruleEngineExecutionCount'', sint rules), (''ruleEngineExecutionCountHourly'', sint rules)], b'))
          | _ \<Rightarrow> (points, b)))"

end
