(* ===== verification/QuotaProps.thy ===== *)
theory QuotaProps
  imports Quotas
begin

text \<open>
  The transport ceiling admits exactly its limit per minute when the calls come one after the other, and
  at most its limit when they run concurrently within a minute that has begun; cached limits are at most
  thirty seconds old; the usage report counts from the first reading of the hour.
\<close>

section \<open>One caller after the other\<close>

text \<open>The loop of a caller that runs alone ends: five operations decide, as the sequential reading says.\<close>

lemma alone_decides:
  assumes "tenant \<noteq> []" "0 < max_transport_messages l"
  shows "run_caller 5 (max_transport_messages l) (window_of now) Loading b =
    (Decided (fst (allow_transport tenant l now b)), snd (allow_transport tenant l now b))"
  using assms by (simp add: eval_nat_numeral allow_transport_def Let_def)

fun serve :: "str \<Rightarrow> limits \<Rightarrow> millis list \<Rightarrow> rate_bucket \<Rightarrow> (millis \<times> bool) list" where
  "serve tenant l [] b = []"
| "serve tenant l (now # ts) b = (case allow_transport tenant l now b of (r, b') \<Rightarrow> (now, r) # serve tenant l ts b')"

declare serve.simps(2) [simp del]

definition admitted :: "millis \<Rightarrow> (millis \<times> bool) list \<Rightarrow> nat" where
  "admitted w rs = length (filter (\<lambda>(now, r). window_of now = w \<and> r) rs)"

definition calls_in :: "millis \<Rightarrow> millis list \<Rightarrow> nat" where
  "calls_in w ts = length (filter (\<lambda>now. window_of now = w) ts)"

lemma window_mono: "a \<le> b \<Longrightarrow> 0 \<le> a \<Longrightarrow> window_of a \<le> window_of b"
proof -
  assume "a \<le> b" "0 \<le> a"
  then have "x sdiv 60000 = x div 60000" if "x = a \<or> x = b" for x
    using that by (cases "x = 0") (auto simp: signed_divide_int_def)
  then have "a sdiv 60000 = a div 60000" "b sdiv 60000 = b div 60000" by blast+
  moreover have "a div 60000 \<le> b div 60000" using \<open>a \<le> b\<close> by (simp add: zdiv_mono1)
  ultimately show ?thesis by (simp add: window_of_def)
qed

lemma window_nonneg: "0 \<le> a \<Longrightarrow> 0 \<le> window_of a"
  using window_mono [of 0 a] by (simp add: window_of_def signed_divide_int_def)

lemma cap_step:
  fixes a c cb cn cap :: int
  assumes "a + cn = min cap (c + cn)" "cn = (if cap < cb + 1 then cb else cb + 1)" "0 \<le> c" "0 \<le> cb" "cb \<le> cap"
  shows "(if cap < cb + 1 then 0 else 1) + a + cb = min cap (1 + c + cb)"
  using assms by (auto simp: min_def split: if_splits)

lemma serve_windows:
  assumes "tenant \<noteq> []" "0 < max_transport_messages l" "sorted (bk_window b # map window_of ts)"
    "0 \<le> bk_count b" "bk_count b \<le> max_transport_messages l"
  shows "int (admitted w (serve tenant l ts b)) + (if w = bk_window b then bk_count b else 0) =
    min (max_transport_messages l) (int (calls_in w ts) + (if w = bk_window b then bk_count b else 0))"
  using assms
proof (induction ts arbitrary: b)
  case Nil
  then show ?case by (simp add: admitted_def calls_in_def)
next
  case (Cons now ts)
  let ?L = "max_transport_messages l" and ?w = "window_of now"
  let ?b = "if bk_window b = ?w then b else \<lparr>bk_count = 0, bk_window = ?w\<rparr>"
  let ?n = "if ?L < bk_count ?b + 1 then ?b else ?b\<lparr>bk_count := bk_count ?b + 1\<rparr>"
  have step: "serve tenant l (now # ts) b = (now, \<not> ?L < bk_count ?b + 1) # serve tenant l ts ?n"
    using Cons.prems(1,2) by (simp add: serve.simps(2) allow_transport_def Let_def)
  have nw: "bk_window ?n = ?w" "0 \<le> bk_count ?n" "bk_count ?n \<le> ?L" using Cons.prems(2,4,5) by auto
  have "sorted (bk_window ?n # map window_of ts)" using Cons.prems(3) nw(1) by simp
  from Cons.IH [OF Cons.prems(1,2) this nw(2,3)] have ih:
    "int (admitted w (serve tenant l ts ?n)) + (if w = ?w then bk_count ?n else 0) =
     min ?L (int (calls_in w ts) + (if w = ?w then bk_count ?n else 0))" unfolding nw(1) .
  have adm: "admitted w (serve tenant l (now # ts) b) =
      (if ?w = w \<and> \<not> ?L < bk_count ?b + 1 then 1 else 0) + admitted w (serve tenant l ts ?n)"
    unfolding step admitted_def by (simp del: serve.simps)
  have cls: "calls_in w (now # ts) = (if ?w = w then 1 else 0) + calls_in w ts" by (simp add: calls_in_def)
  have count: "bk_count ?n = (if ?L < bk_count ?b + 1 then bk_count ?b else bk_count ?b + 1)" by simp
  have other: "w \<noteq> ?w \<Longrightarrow> w = bk_window b \<Longrightarrow> calls_in w ts = 0"
    using Cons.prems(3) by (auto simp: calls_in_def filter_empty_conv)
  have none: "calls_in w ts = 0 \<Longrightarrow> w \<noteq> ?w \<Longrightarrow> admitted w (serve tenant l ts ?n) = 0" using ih Cons.prems(2) by simp
  show ?case
  proof (cases "w = ?w")
    case True
    have b': "bk_count ?b = (if w = bk_window b then bk_count b else 0)" using True by auto
    have "int (admitted w (serve tenant l ts ?n)) + bk_count ?n = min ?L (int (calls_in w ts) + bk_count ?n)" using ih True by simp
    moreover have "0 \<le> bk_count ?b" "bk_count ?b \<le> ?L" using Cons.prems(2,4,5) by auto
    ultimately have "(if ?L < bk_count ?b + 1 then 0 else 1) + int (admitted w (serve tenant l ts ?n)) + bk_count ?b =
        min ?L (1 + int (calls_in w ts) + bk_count ?b)" using count by (intro cap_step) auto
    moreover have "int (admitted w (serve tenant l (now # ts) b)) =
        (if ?L < bk_count ?b + 1 then 0 else 1) + int (admitted w (serve tenant l ts ?n))" unfolding adm using True by simp
    moreover have "int (calls_in w (now # ts)) = 1 + int (calls_in w ts)" unfolding cls using True by simp
    ultimately show ?thesis unfolding b' [symmetric] by (simp only:)
  next
    case False
    show ?thesis
    proof (cases "w = bk_window b")
      case True
      then show ?thesis using other none adm cls False Cons.prems(4,5) by simp
    next
      case wb: False
      then show ?thesis using ih adm cls False by simp
    qed
  qed
qed

text \<open>Of calls that come one after the other on a clock that does not run backwards, every minute
  admits exactly the ceiling, or all its calls when they are fewer: bursts across minute boundaries, idle
  minutes and denied calls included.\<close>

theorem minute_cap_exact:
  assumes "tenant \<noteq> []" "0 < max_transport_messages l" "sorted ts" "\<forall>t \<in> set ts. 0 \<le> t"
  shows "int (admitted w (serve tenant l ts fresh_bucket)) = min (max_transport_messages l) (int (calls_in w ts))"
proof -
  have "sorted (map window_of ts)"
    unfolding sorted_map using assms(3) by (rule sorted_wrt_mono_rel [rotated]) (use assms(4) window_mono in auto)
  moreover have "\<forall>x \<in> set (map window_of ts). bk_window fresh_bucket \<le> x"
    using assms(4) window_nonneg by (simp add: fresh_bucket_def)
  ultimately have "sorted (bk_window fresh_bucket # map window_of ts)" by simp
  then have "int (admitted w (serve tenant l ts fresh_bucket)) + (if w = bk_window fresh_bucket then bk_count fresh_bucket else 0) =
      min (max_transport_messages l) (int (calls_in w ts) + (if w = bk_window fresh_bucket then bk_count fresh_bucket else 0))"
    by (rule serve_windows [OF assms(1,2)]) (use assms(2) in \<open>simp_all add: fresh_bucket_def\<close>)
  moreover have "(if w = bk_window fresh_bucket then bk_count fresh_bucket else 0) = 0" by (simp add: fresh_bucket_def)
  ultimately show ?thesis by (simp only: add_0_right)
qed

theorem minute_cap_exact_witness:
  "int (admitted 60000 (serve ''t'' (no_limits\<lparr>max_transport_messages := 2\<rparr>) [59999, 60000, 60001, 119999, 120000] fresh_bucket)) = 2"
  using minute_cap_exact [of "''t''" "no_limits\<lparr>max_transport_messages := 2\<rparr>" "[59999, 60000, 60001, 119999, 120000]" 60000]
  by (simp add: calls_in_def window_of_def signed_divide_int_def)

section \<open>Concurrent callers\<close>

definition decided :: "transport_callers \<Rightarrow> nat" where
  "decided s = length (filter (\<lambda>(w, c). c = Decided True) (tc_callers s))"

definition undoing :: "transport_callers \<Rightarrow> nat" where
  "undoing s = length (filter (\<lambda>(w, c). c = Undoing) (tc_callers s))"

definition minute_invar :: "int \<Rightarrow> int \<Rightarrow> millis \<Rightarrow> transport_callers \<Rightarrow> bool" where
  "minute_invar limit start w s \<longleftrightarrow> bk_window (tc_bucket s) = w \<and>
     (\<forall>(v, c) \<in> set (tc_callers s). v = w \<and> (c = Loading \<or> c = Adding \<or> c = Undoing \<or> (\<exists>r. c = Decided r))) \<and>
     bk_count (tc_bucket s) = start + int (decided s) + int (undoing s) \<and> start + int (decided s) \<le> limit"

lemma count_update:
  assumes "i < length xs"
  shows "length (filter p (xs[i := x])) + (if p (xs ! i) then 1 else 0) = length (filter p xs) + (if p x then 1 else 0)"
proof -
  have "length (filter p xs) = length (filter p (take i xs @ xs ! i # drop (Suc i) xs))"
    by (rule arg_cong [where f = "\<lambda>ys. length (filter p ys)", OF id_take_nth_drop [OF assms]])
  then show ?thesis using assms by (simp add: upd_conv_take_nth_drop)
qed

lemma minute_invar_step:
  assumes "minute_invar limit start w s"
  shows "minute_invar limit start w (move_caller limit i s)"
proof (cases "i < length (tc_callers s)")
  case False
  then show ?thesis using assms by (simp add: move_caller_def)
next
  case True
  obtain v c where c: "tc_callers s ! i = (v, c)" by fastforce
  have mem: "(v, c) \<in> set (tc_callers s)" using True c by (metis nth_mem)
  have vw: "v = w" "c = Loading \<or> c = Adding \<or> c = Undoing \<or> (\<exists>r. c = Decided r)"
    using assms mem unfolding minute_invar_def by blast+
  obtain c' b' where st: "caller_step limit w c (tc_bucket s) = (c', b')" by fastforce
  let ?s = "\<lparr>tc_bucket = b', tc_callers = (tc_callers s)[i := (w, c')]\<rparr>"
  have s': "move_caller limit i s = ?s" using True c vw st by (simp add: move_caller_def)
  have d: "decided ?s + (if c = Decided True then 1 else 0) = decided s + (if c' = Decided True then 1 else 0)"
    using count_update [OF True, of "\<lambda>(w, c). c = Decided True" "(w, c')"] c by (simp add: decided_def)
  have u: "undoing ?s + (if c = Undoing then 1 else 0) = undoing s + (if c' = Undoing then 1 else 0)"
    using count_update [OF True, of "\<lambda>(w, c). c = Undoing" "(w, c')"] c by (simp add: undoing_def)
  have inv: "bk_window (tc_bucket s) = w" "bk_count (tc_bucket s) = start + int (decided s) + int (undoing s)"
    "start + int (decided s) \<le> limit" using assms unfolding minute_invar_def by blast+
  have all: "\<forall>(v, c) \<in> set (tc_callers ?s). v = w \<and> (c = Loading \<or> c = Adding \<or> c = Undoing \<or> (\<exists>r. c = Decided r))"
    if "c' = Loading \<or> c' = Adding \<or> c' = Undoing \<or> (\<exists>r. c' = Decided r)"
  proof
    fix x
    assume "x \<in> set (tc_callers ?s)"
    then have "x = (w, c') \<or> x \<in> set (tc_callers s)" using set_update_subset_insert [of "tc_callers s" i "(w, c')"] by auto
    then show "case x of (v, c) \<Rightarrow> v = w \<and> (c = Loading \<or> c = Adding \<or> c = Undoing \<or> (\<exists>r. c = Decided r))"
      using that assms unfolding minute_invar_def by blast
  qed
  consider "c = Loading" | "c = Adding" | "c = Undoing" | r where "c = Decided r" using vw(2) by blast
  then have "minute_invar limit start w ?s"
  proof cases
    case 1
    then have e: "c' = Adding" "b' = tc_bucket s" using st inv(1) by auto
    then show ?thesis using all inv d u 1 unfolding minute_invar_def by simp
  next
    case 2
    show ?thesis
    proof (cases "limit < bk_count (tc_bucket s) + 1")
      case True
      then have e: "c' = Undoing" "b' = (tc_bucket s)\<lparr>bk_count := bk_count (tc_bucket s) + 1\<rparr>" using st 2 by auto
      then show ?thesis using all inv d u 2 unfolding minute_invar_def by simp
    next
      case False
      then have e: "c' = Decided True" "b' = (tc_bucket s)\<lparr>bk_count := bk_count (tc_bucket s) + 1\<rparr>" using st 2 by auto
      have "\<exists>r. c' = Decided r" using e by blast
      then show ?thesis using all inv d u 2 False e unfolding minute_invar_def by auto
    qed
  next
    case 3
    then have e: "c' = Decided False" "b' = (tc_bucket s)\<lparr>bk_count := bk_count (tc_bucket s) - 1\<rparr>" using st by auto
    have "\<exists>r. c' = Decided r" using e by blast
    then show ?thesis using all inv d u 3 e unfolding minute_invar_def by auto
  next
    case 4
    then have e: "c' = c" "b' = tc_bucket s" using st by auto
    have "\<exists>r. c' = Decided r" using e 4 by blast
    then show ?thesis using all inv d u 4 e unfolding minute_invar_def by auto
  qed
  then show ?thesis using s' by simp
qed

text \<open>C18: Within a minute that has begun, callers that interleave their atomic operations in any order are
  never admitted beyond the ceiling, whatever the bucket has counted and however many of them take back
  their charge at the same time.\<close>

theorem concurrent_minute_cap:
  assumes "bk_window (tc_bucket s) = w" "bk_count (tc_bucket s) \<le> limit" "\<forall>c \<in> set (tc_callers s). c = (w, Loading)"
  shows "bk_count (tc_bucket s) + int (decided (run_schedule limit schedule s)) \<le> limit"
proof -
  have none: "filter (\<lambda>(w, c). c = Decided True) (tc_callers s) = []" "filter (\<lambda>(w, c). c = Undoing) (tc_callers s) = []"
    using assms(3) by (auto simp: filter_empty_conv)
  then have "minute_invar limit (bk_count (tc_bucket s)) w s"
    using assms unfolding minute_invar_def decided_def undoing_def by auto
  moreover have "minute_invar limit start w s \<Longrightarrow> minute_invar limit start w (run_schedule limit schedule s)" for start
    by (induction schedule arbitrary: s) (simp_all add: run_schedule_def minute_invar_step)
  ultimately show ?thesis unfolding minute_invar_def by blast
qed

theorem concurrent_minute_cap_witness:
  "decided (run_schedule 1 [0, 1, 0, 1, 1] \<lparr>tc_bucket = \<lparr>bk_count = 0, bk_window = 60000\<rparr>, tc_callers = [(60000, Loading), (60000, Loading)]\<rparr>) \<le> 1"
  using concurrent_minute_cap [of "\<lparr>tc_bucket = \<lparr>bk_count = 0, bk_window = 60000\<rparr>, tc_callers = [(60000, Loading), (60000, Loading)]\<rparr>"
      60000 1 "[0, 1, 0, 1, 1]"] by simp

text \<open>Across the boundary the cap does not hold: a caller that has swapped the window but not yet zeroed
  the count erases the charge of a caller admitted in between.\<close>

lemma reset_race_over_admits:
  "decided (run_schedule 1 [0, 0, 1, 1, 0, 0] \<lparr>tc_bucket = \<lparr>bk_count = 0, bk_window = 0\<rparr>,
     tc_callers = [(60000, Loading), (60000, Loading)]\<rparr>) = 2"
  by code_simp

section \<open>Cached limits\<close>

inductive quota_reachable :: "(millis \<Rightarrow> str \<Rightarrow> raw_message option) \<Rightarrow> millis \<Rightarrow> quota_cache \<Rightarrow> bool" for profiles where
  empty: "quota_reachable profiles now []"
| lookup: "quota_reachable profiles now cache \<Longrightarrow> now \<le> now' \<Longrightarrow>
    quota_reachable profiles now' (snd (limits_for (profiles now') now' tenant cache))"
| invalidate: "quota_reachable profiles now cache \<Longrightarrow> quota_reachable profiles now (invalidate_cache tenant cache)"

lemma cache_sound:
  assumes "quota_reachable profiles now cache" "map_of cache tenant = Some (l, expires)"
  shows "l = profile_limits (profiles (expires - cache_ttl) tenant) \<and> expires - cache_ttl \<le> now"
  using assms
proof (induction arbitrary: tenant l expires rule: quota_reachable.induct)
  case (empty now)
  then show ?case by simp
next
  case (lookup now cache now' t)
  show ?case
  proof (cases "map_of cache tenant = Some (l, expires)")
    case True
    then show ?thesis using lookup.IH lookup.hyps(2) by force
  next
    case False
    then have "tenant = t \<and> l = profile_limits (profiles now' t) \<and> expires = now' + cache_ttl"
      using lookup.prems by (auto simp: limits_for_def update_conv' split: option.splits if_splits)
    then show ?thesis by simp
  qed
next
  case (invalidate now cache t)
  then show ?case by (auto simp: invalidate_cache_def delete_conv' split: if_splits)
qed

text \<open>The limits a check uses were those of the tenant's profile at some moment of the last thirty
  seconds, whatever lookups and invalidations went before; right after an invalidation of the tenant, or
  of all tenants, they are those of the profile now.\<close>

theorem limits_staleness_bounded:
  assumes "quota_reachable profiles now cache" "now \<le> now'"
  shows "(\<exists>moment. now' - 30000 < moment \<and> moment \<le> now' \<and>
      fst (limits_for (profiles now') now' tenant cache) = profile_limits (profiles moment tenant)) \<and>
    fst (limits_for (profiles now') now' tenant (invalidate_cache tenant cache)) = profile_limits (profiles now' tenant) \<and>
    fst (limits_for (profiles now') now' tenant (invalidate_cache [] cache)) = profile_limits (profiles now' tenant)"
proof (intro conjI)
  show "\<exists>moment. now' - 30000 < moment \<and> moment \<le> now' \<and>
      fst (limits_for (profiles now') now' tenant cache) = profile_limits (profiles moment tenant)"
  proof (cases "\<exists>l expires. map_of cache tenant = Some (l, expires) \<and> now' < expires")
    case True
    then obtain l expires where e: "map_of cache tenant = Some (l, expires)" "now' < expires" by blast
    from cache_sound [OF assms(1) e(1)] e assms(2) show ?thesis
      by (intro exI [of _ "expires - cache_ttl"]) (simp add: limits_for_def cache_ttl_def)
  next
    case False
    then show ?thesis by (intro exI [of _ now']) (auto simp: limits_for_def split: option.splits)
  qed
qed (simp_all add: limits_for_def invalidate_cache_def delete_conv')

theorem limits_staleness_bounded_witness:
  "let profiles = (\<lambda>(now :: millis) _. if now < 5 then None
         else Some (Some (JObj [(''configuration'', JObj [(''maxDevices'', JInt 7)])])));
       cache = snd (limits_for (profiles 0) 0 ''t'' [])
   in max_devices (fst (limits_for (profiles 6) 6 ''t'' cache)) = 0 \<and>
      max_devices (fst (limits_for (profiles 6) 6 ''t'' (invalidate_cache ''t'' cache))) = 7"
proof -
  let ?p = "\<lambda>now _. if now < (5 :: int) then None else Some (Some (JObj [(''configuration'', JObj [(''maxDevices'', JInt 7)])]))"
  have r: "quota_reachable ?p 0 (snd (limits_for (?p 0) 0 ''t'' []))"
    by (rule quota_reachable.lookup [OF quota_reachable.empty, where now = 0]) simp
  have x: "fst (limits_for (?p 6) 6 ''t'' (invalidate_cache ''t'' (snd (limits_for (?p 0) 0 ''t'' [])))) = profile_limits (?p 6 ''t'')"
    using limits_staleness_bounded [OF r, where now' = 6 and tenant = "''t''"] by simp
  have "max_devices (profile_limits (?p 6 ''t'')) = 7" by code_simp
  then have "max_devices (fst (limits_for (?p 6) 6 ''t'' (invalidate_cache ''t'' (snd (limits_for (?p 0) 0 ''t'' []))))) = 7"
    by (simp only: x)
  moreover have "max_devices (fst (limits_for (?p 6) 6 ''t'' (snd (limits_for (?p 0) 0 ''t'' [])))) = 0" by code_simp
  ultimately show ?thesis unfolding Let_def by blast
qed

section \<open>The hour\<close>

fun since_run :: "millis \<Rightarrow> (64 word \<times> 64 word) list \<Rightarrow> hour_baseline \<Rightarrow> (64 word \<times> 64 word) list" where
  "since_run hour [] b = []"
| "since_run hour ((m, r) # rs) b = (case since hour m r b of (d, b') \<Rightarrow> d # since_run hour rs b')"

lemma since_run_primed:
  assumes "\<forall>(m, r) \<in> set rs. hb_msg b \<le> m \<and> hb_rule b \<le> r" "hb_primed b" "hb_hour b = hour"
  shows "since_run hour rs b = map (\<lambda>(m, r). (m - hb_msg b, r - hb_rule b)) rs"
  using assms
proof (induction rs)
  case (Cons x rs)
  obtain m r where x: "x = (m, r)" by (cases x)
  then have "\<not> m < hb_msg b" "\<not> r < hb_rule b" using Cons.prems(1) by (auto simp: not_less)
  then show ?case using Cons x by (simp add: since_def)
qed simp

text \<open>The readings of an hour after its first are counted from the first, without wrapping.\<close>

lemma hour_counts_from_first_reading:
  assumes "\<forall>(m, r) \<in> set rs. m0 \<le> m \<and> r0 \<le> r" "hb_hour b \<noteq> hour \<or> \<not> hb_primed b"
  shows "since_run hour ((m0, r0) # rs) b = (0, 0) # map (\<lambda>(m, r). (m - m0, r - r0)) rs"
    "(m, r) \<in> set rs \<Longrightarrow> uint (m - m0) = uint m - uint m0 \<and> uint (r - r0) = uint r - uint r0"
proof -
  have "since hour m0 r0 b = ((0, 0), \<lparr>hb_hour = hour, hb_msg = m0, hb_rule = r0, hb_primed = True\<rparr>)"
    using assms(2) by (auto simp: since_def)
  then show "since_run hour ((m0, r0) # rs) b = (0, 0) # map (\<lambda>(m, r). (m - m0, r - r0)) rs"
    using since_run_primed [of rs "\<lparr>hb_hour = hour, hb_msg = m0, hb_rule = r0, hb_primed = True\<rparr>" hour] assms(1) by simp
  show "(m, r) \<in> set rs \<Longrightarrow> uint (m - m0) = uint m - uint m0 \<and> uint (r - r0) = uint r - uint r0"
    using assms(1) by (auto simp: uint_sub_if' word_le_def)
qed

end
