(* ===== verification/Attributes.thy ===== *)
theory Attributes
  imports TwinWrite TwinStore
begin

text \<open>
  The attributes of an entity (internal/tenant/attributes.go and the attribute part of
  tenant_handler.go): the typed rows of attribute_kv with their key dictionary, the shared write path
  SaveAttributesKV that writes the rows and then merges the twin state, and the REST handler with its
  tenant gate.

  How Postgres reads a UUID literal (\<open>uuid\<close>: the canonical spelling, or \<open>None\<close>), the
  encoding of a value by json.Marshal (\<open>marshal\<close>) and the clock (\<open>clock i\<close> is the
  answer of the i-th call) are parameters. A value longer than its column is an error; the columns
  reject the character zero. Sequence values lost to a conflict or a rollback are not taken back.
\<close>

section \<open>The tables\<close>

record attr_cell =
  ac_bool :: "bool option"
  ac_str :: "str option"
  ac_long :: "int option"
  ac_dbl :: "rat option"
  ac_json :: "str option"
  ac_ts :: millis

type_synonym attr_key = "str \<times> nat \<times> nat"

record attr_db =
  at_keys :: "(str, nat) gomap"
  at_next :: nat
  at_rows :: "(attr_key, attr_cell) gomap"

definition no_attributes :: attr_db where
  "no_attributes = \<lparr>at_keys = [], at_next = 1, at_rows = []\<rparr>"

definition rune_count :: "str \<Rightarrow> nat" where
  "rune_count s = length (filter (\<lambda>c. \<not> in_range 128 191 c) s)"

definition fits_column :: "nat \<Rightarrow> str \<Rightarrow> bool" where
  "fits_column n s \<longleftrightarrow> rune_count s \<le> n \<and> char_of (0 :: nat) \<notin> set s"

definition get_or_insert_key :: "str \<Rightarrow> attr_db \<Rightarrow> (nat \<times> attr_db) option" where
  "get_or_insert_key key db =
     (if \<not> fits_column 255 key then None
      else (case map_of (at_keys db) key of
              Some i \<Rightarrow> Some (i, db\<lparr>at_next := at_next db + 1\<rparr>)
            | None \<Rightarrow> Some (at_next db, db\<lparr>at_keys := at_keys db @ [(key, at_next db)], at_next := at_next db + 1\<rparr>)))"

definition blank_cell :: "millis \<Rightarrow> attr_cell" where
  "blank_cell ts = \<lparr>ac_bool = None, ac_str = None, ac_long = None, ac_dbl = None, ac_json = None, ac_ts = ts\<rparr>"

text \<open>The typed columns of a value; a string must fit its column.\<close>

fun typed_cell :: "(json \<Rightarrow> str) \<Rightarrow> json \<Rightarrow> millis \<Rightarrow> attr_cell option" where
  "typed_cell marshal (JBool b) ts = Some ((blank_cell ts)\<lparr>ac_bool := Some b\<rparr>)"
| "typed_cell marshal (JInt n) ts = Some ((blank_cell ts)\<lparr>ac_dbl := Some (of_int n)\<rparr>)"
| "typed_cell marshal (JFrac r) ts = Some ((blank_cell ts)\<lparr>ac_dbl := Some r\<rparr>)"
| "typed_cell marshal (JStr s) ts =
     (if fits_column 10000000 s then Some ((blank_cell ts)\<lparr>ac_str := Some s\<rparr>) else None)"
| "typed_cell marshal v ts = Some ((blank_cell ts)\<lparr>ac_json := Some (marshal v)\<rparr>)"

text \<open>The transaction: the loop over the values, \<open>None\<close> when a statement fails.\<close>

fun save_loop ::
  "(json \<Rightarrow> str) \<Rightarrow> (nat \<Rightarrow> millis) \<Rightarrow> str \<Rightarrow> nat \<Rightarrow> nat \<Rightarrow> (str \<times> json) list \<Rightarrow> attr_db \<Rightarrow> attr_db option" where
  "save_loop marshal clock entity ord i [] db = Some db"
| "save_loop marshal clock entity ord i ((key, v) # vs) db =
     (case get_or_insert_key key db of
        None \<Rightarrow> None
      | Some (k, db') \<Rightarrow>
          (case typed_cell marshal v (clock i) of
             None \<Rightarrow> None
           | Some cell \<Rightarrow>
               save_loop marshal clock entity ord (i + 1) vs (db'\<lparr>at_rows := AList.update (entity, ord, k) cell (at_rows db')\<rparr>)))"

definition save_attributes_rows ::
  "(str \<Rightarrow> str option) \<Rightarrow> (json \<Rightarrow> str) \<Rightarrow> (nat \<Rightarrow> millis) \<Rightarrow> str \<Rightarrow> nat \<Rightarrow> (str \<times> json) list \<Rightarrow> attr_db \<Rightarrow> attr_db option" where
  "save_attributes_rows uuid marshal clock entity ord values db =
     (if values = [] then Some db
      else (case uuid entity of
              None \<Rightarrow> None
            | Some u \<Rightarrow> save_loop marshal clock u ord 0 values db))"

definition normalize_attribute_scope :: "str \<Rightarrow> (str \<times> nat) option" where
  "normalize_attribute_scope scope =
     (let s = to_upper (trim_space scope)
      in if s = ''CLIENT_SCOPE'' then Some (''CLIENT_SCOPE'', 0)
         else if s = ''SHARED_SCOPE'' then Some (''SHARED_SCOPE'', 1)
         else if s = ''SERVER_SCOPE'' then Some (''SERVER_SCOPE'', 2)
         else None)"

section \<open>The shared write path\<close>

text \<open>The entity tables other than device and asset, as rows of id and tenant.\<close>

record attr_state =
  as_twin :: twin_db
  as_tables :: "(str, (str \<times> str option) list) gomap"
  as_attrs :: attr_db
  as_store :: "memory_store option"

datatype save_result = Saved | SaveFailed | SavePanicked

definition save_attributes_kv ::
  "(str \<Rightarrow> str option) \<Rightarrow> (json \<Rightarrow> str) \<Rightarrow> (nat \<Rightarrow> millis) \<Rightarrow> str \<Rightarrow> str \<Rightarrow> str \<Rightarrow> str \<Rightarrow> (str \<times> json) list \<Rightarrow>
   attr_state \<Rightarrow> save_result \<times> attr_state" where
  "save_attributes_kv uuid marshal clock tenant etype entity scope values st =
     (case normalize_attribute_scope scope of
        None \<Rightarrow> (SaveFailed, st)
      | Some (name, ord) \<Rightarrow>
          (case save_attributes_rows uuid marshal clock entity ord values (as_attrs st) of
             None \<Rightarrow> (SaveFailed, st)
           | Some db \<Rightarrow>
               (let st' = st\<lparr>as_attrs := db\<rparr>
                in case as_store st of
                     None \<Rightarrow> (Saved, st')
                   | Some store \<Rightarrow>
                       if tenant = [] then (Saved, st')
                       else (let ts = clock (length values);
                                 (store', d) = commit_attributes ts tenant etype entity name ts values store
                             in (case notify d store' of
                                   None \<Rightarrow> (SavePanicked, st'\<lparr>as_store := Some store'\<rparr>)
                                 | Some store'' \<Rightarrow> (Saved, st'\<lparr>as_store := Some store''\<rparr>))))))"

section \<open>The REST handler\<close>

definition attribute_entity_table :: "str \<Rightarrow> str option" where
  "attribute_entity_table etype =
     map_of [(''DEVICE'', ''device''), (''ASSET'', ''asset''), (''ENTITY_VIEW'', ''entity_view''), (''CUSTOMER'', ''customer''),
             (''DASHBOARD'', ''dashboard''), (''USER'', ''tb_user''), (''EDGE'', ''edge'')] (to_upper (trim_space etype))"

definition owner_rows :: "attr_state \<Rightarrow> str \<Rightarrow> (str \<times> str option) list option" where
  "owner_rows st table =
     (if table = ''device'' then Some (map (\<lambda>e. (en_id e, en_tenant e)) (db_devices (as_twin st)))
      else if table = ''asset'' then Some (map (\<lambda>e. (en_id e, en_tenant e)) (db_assets (as_twin st)))
      else map_of (as_tables st) table)"

text \<open>\<open>None\<close> stands for an error of the database, the empty tenant included.\<close>

definition entity_owned_by_tenant :: "(str \<Rightarrow> str option) \<Rightarrow> attr_state \<Rightarrow> str \<Rightarrow> str \<Rightarrow> str \<Rightarrow> bool option" where
  "entity_owned_by_tenant uuid st table entity tenant =
     (if tenant = [] then None
      else (case (owner_rows st table, uuid entity, uuid tenant) of
              (Some rows, Some u, Some t) \<Rightarrow> Some ((u, Some t) \<in> set rows)
            | _ \<Rightarrow> None))"

definition attribute_entity_tenant :: "(str \<Rightarrow> str option) \<Rightarrow> attr_state \<Rightarrow> str \<Rightarrow> str \<Rightarrow> str option" where
  "attribute_entity_tenant uuid st table entity =
     (case (owner_rows st table, uuid entity) of
        (Some rows, Some u) \<Rightarrow> (case map_of rows u of Some t \<Rightarrow> t | None \<Rightarrow> None)
      | _ \<Rightarrow> None)"

text \<open>The predicate on the entity of a row that the reads repeat; \<open>None\<close> for the system
  administrator.\<close>

record attr_caller =
  cs_tenant :: str
  cs_admin :: bool
  cs_table :: str

definition ownership_predicate :: "(str \<Rightarrow> str option) \<Rightarrow> attr_state \<Rightarrow> attr_caller \<Rightarrow> str \<Rightarrow> bool" where
  "ownership_predicate uuid st caller u \<longleftrightarrow>
     cs_admin caller \<or>
     (case (owner_rows st (cs_table caller), uuid (cs_tenant caller)) of
        (Some rows, Some t) \<Rightarrow> (u, Some t) \<in> set rows
      | _ \<Rightarrow> False)"

text \<open>The rows of an entity joined with the key dictionary.\<close>

definition joined_rows :: "attr_db \<Rightarrow> str \<Rightarrow> (str \<times> nat \<times> attr_cell) list" where
  "joined_rows db u =
     concat (map (\<lambda>((e, ord, k), cell).
       if e = u then map (\<lambda>(key, i). (key, ord, cell)) (filter (\<lambda>(key, i). i = k) (at_keys db)) else []) (at_rows db))"

definition number_json :: "rat \<Rightarrow> json" where
  "number_json r = (case quotient_of r of (n, d) \<Rightarrow> if d = 1 then JInt n else JFrac r)"

definition cell_value :: "attr_cell \<Rightarrow> json" where
  "cell_value c =
     (case ac_bool c of Some b \<Rightarrow> JBool b | None \<Rightarrow>
      (case ac_str c of Some s \<Rightarrow> JStr s | None \<Rightarrow>
       (case ac_long c of Some n \<Rightarrow> JInt n | None \<Rightarrow>
        (case ac_dbl c of Some r \<Rightarrow> number_json r | None \<Rightarrow>
         (case ac_json c of Some s \<Rightarrow> JStr s | None \<Rightarrow> JNull)))))"

datatype attr_answer = AttrKeys "str list" | AttrValues "(str \<times> json \<times> millis) list" | AttrSaved

definition handle_attribute_keys :: "(str \<Rightarrow> str option) \<Rightarrow> attr_state \<Rightarrow> attr_caller \<Rightarrow> str \<Rightarrow> http_error + attr_answer" where
  "handle_attribute_keys uuid st caller entity =
     (case uuid entity of
        None \<Rightarrow> Inl (HttpError 500 ''Database error'')
      | Some u \<Rightarrow>
          Inr (AttrKeys (remdups (map fst (if ownership_predicate uuid st caller u then joined_rows (as_attrs st) u else [])))))"

definition wanted_keys :: "str \<Rightarrow> str list option" where
  "wanted_keys keys = (if keys = [] then None else Some (map trim_space (split_on CHR '','' keys)))"

definition read_values :: "attr_db \<Rightarrow> str \<Rightarrow> nat option \<Rightarrow> str list option \<Rightarrow> (str \<times> json \<times> millis) list" where
  "read_values db u ord keys =
     map (\<lambda>(key, ord, cell). (key, cell_value cell, ac_ts cell))
       (filter (\<lambda>(key, o', cell). (case ord of None \<Rightarrow> True | Some n \<Rightarrow> o' = n) \<and>
                                  (case keys of None \<Rightarrow> True | Some ks \<Rightarrow> key \<in> set ks)) (joined_rows db u))"

definition handle_attribute_values ::
  "(str \<Rightarrow> str option) \<Rightarrow> attr_state \<Rightarrow> attr_caller \<Rightarrow> str \<Rightarrow> str \<Rightarrow> str \<Rightarrow> http_error + attr_answer" where
  "handle_attribute_values uuid st caller entity scope keys =
     and_then (if trim_space scope = [] then Inr None
               else (case normalize_attribute_scope scope of
                       None \<Rightarrow> Inl (HttpError 400 ''Unknown attribute scope'')
                     | Some (_, n) \<Rightarrow> Inr (Some n))) (\<lambda>ord.
       case uuid entity of
         None \<Rightarrow> Inl (HttpError 500 ''Database error'')
       | Some u \<Rightarrow>
           Inr (AttrValues (if ownership_predicate uuid st caller u
                            then read_values (as_attrs st) u ord (wanted_keys keys) else [])))"

definition handle_save_attribute ::
  "regex_engine \<Rightarrow> (str \<Rightarrow> str option) \<Rightarrow> (json \<Rightarrow> str) \<Rightarrow> (nat \<Rightarrow> millis) \<Rightarrow> str \<Rightarrow> str \<Rightarrow> str \<Rightarrow> str \<Rightarrow> raw_message \<Rightarrow>
   attr_state \<Rightarrow> (http_error + attr_answer) \<times> attr_state" where
  "handle_save_attribute rx uuid marshal clock tenant etype entity scope body st =
     (case body of
        Some (JObj kvs) \<Rightarrow>
          (case normalize_attribute_scope scope of
             None \<Rightarrow> (Inl (HttpError 400 ''Unknown attribute scope''), st)
           | Some (name, _) \<Rightarrow>
               (case (case uuid entity of None \<Rightarrow> AttrError | Some u \<Rightarrow> validate_attributes rx (as_twin st) tenant etype u kvs) of
                  AttrRejected _ \<Rightarrow> (Inl (HttpError 400 ''Attributes violate pinned twin model''), st)
                | AttrError \<Rightarrow> (Inl (HttpError 500 ''Twin model attribute enforcement failed''), st)
                | AttrPanic \<Rightarrow> (Inl HandlerPanic, st)
                | _ \<Rightarrow>
                    (case save_attributes_kv uuid marshal clock tenant etype entity name (decode_map kvs) st of
                       (Saved, st') \<Rightarrow> (Inr AttrSaved, st')
                     | (SaveFailed, st') \<Rightarrow> (Inl (HttpError 500 ''Failed to save attributes''), st')
                     | (SavePanicked, st') \<Rightarrow> (Inl HandlerPanic, st'))))
      | _ \<Rightarrow> (Inl (HttpError 400 ''Invalid JSON''), st))"

record attr_request =
  aq_method :: str
  aq_path :: str
  aq_keys :: str
  aq_body :: raw_message

fun contains :: "str \<Rightarrow> str \<Rightarrow> bool" where
  "contains [] p = (p = [])"
| "contains (c # cs) p = (has_prefix (c # cs) p \<or> contains cs p)"

text \<open>The path segment after the first segment "attributes" that has one.\<close>

fun scope_segment :: "str list \<Rightarrow> str" where
  "scope_segment (p # q # ps) = (if p = ''attributes'' then q else scope_segment (q # ps))"
| "scope_segment _ = []"

text \<open>The gate: the caller with the tenant of the write, and the table of the entity.\<close>

definition attribute_gate ::
  "(str \<Rightarrow> str option) \<Rightarrow> members \<Rightarrow> str \<Rightarrow> str \<Rightarrow> bool \<Rightarrow> attr_state \<Rightarrow> http_error + attr_caller" where
  "attribute_gate uuid claims etype entity is_write st =
     (let tenant = claim_string claims ''tenantId'' in
      if \<not> is_sys_admin claims
      then (case attribute_entity_table etype of
              None \<Rightarrow> Inl (HttpError 403 ''Cross-tenant access denied'')
            | Some table \<Rightarrow>
                (case entity_owned_by_tenant uuid st table entity tenant of
                   None \<Rightarrow> Inl (HttpError 500 ''Attribute entity tenant verification failed'')
                 | Some False \<Rightarrow> Inl (HttpError 403 ''Cross-tenant access denied'')
                 | Some True \<Rightarrow> Inr \<lparr>cs_tenant = tenant, cs_admin = False, cs_table = table\<rparr>))
      else (let table = (case attribute_entity_table etype of None \<Rightarrow> [] | Some t \<Rightarrow> t)
            in if is_write
               then (case attribute_entity_tenant uuid st table entity of
                       None \<Rightarrow> Inl (HttpError 500 ''Attribute entity tenant resolution failed'')
                     | Some actual \<Rightarrow> Inr \<lparr>cs_tenant = actual, cs_admin = True, cs_table = table\<rparr>)
               else Inr \<lparr>cs_tenant = tenant, cs_admin = True, cs_table = table\<rparr>))"

definition handle_attribute_rest ::
  "regex_engine \<Rightarrow> (str \<Rightarrow> str option) \<Rightarrow> (json \<Rightarrow> str) \<Rightarrow> (nat \<Rightarrow> millis) \<Rightarrow> members option \<Rightarrow> attr_request \<Rightarrow>
   attr_state \<Rightarrow> (http_error + attr_answer) \<times> attr_state" where
  "handle_attribute_rest rx uuid marshal clock claims req st =
     (case claims of
        None \<Rightarrow> (Inl (HttpError 401 ''Authentication required''), st)
      | Some c \<Rightarrow>
          (let parts = split_on CHR ''/'' (aq_path req) in
           if length parts < 7 then (Inl (HttpError 400 ''Invalid path''), st)
           else (let etype = to_upper (trim_space (parts ! 4)); entity = parts ! 5; is_write = (aq_method req = ''POST'') in
                 if is_write \<and> etype \<noteq> ''DEVICE'' \<and> etype \<noteq> ''ASSET'' then (Inl (HttpError 400 ''Unknown entity category''), st)
                 else (case attribute_gate uuid c etype entity is_write st of
                         Inl e \<Rightarrow> (Inl e, st)
                       | Inr caller \<Rightarrow>
                           if is_write then handle_save_attribute rx uuid marshal clock (cs_tenant caller) etype entity (parts ! 6) (aq_body req) st
                           else if contains (aq_path req) ''/keys/attributes''
                             then (handle_attribute_keys uuid st caller entity, st)
                           else if contains (aq_path req) ''/values/attributes''
                             then (handle_attribute_values uuid st caller entity (scope_segment parts) (aq_keys req), st)
                           else (Inl (HttpError 404 ''Attribute endpoint not found''), st)))))"

end
