(* ===== verification/AttributeProps.thy ===== *)
theory AttributeProps
  imports Attributes TwinStoreLaws
begin

text \<open>
  What the attribute surface guarantees: values come back as they were saved, a caller reaches the
  attributes of entities of his tenant only, and the rows and the twin state agree after every sequence
  of saves; two writers that interleave can leave them disagreeing.
\<close>

section \<open>The rows as a map\<close>

definition attr_cell_of :: "attr_db \<Rightarrow> str \<Rightarrow> nat \<Rightarrow> str \<Rightarrow> attr_cell option" where
  "attr_cell_of db u ord key =
     (case map_of (at_keys db) key of None \<Rightarrow> None | Some k \<Rightarrow> map_of (at_rows db) (u, ord, k))"

definition attr_ok :: "attr_db \<Rightarrow> bool" where
  "attr_ok db \<longleftrightarrow> distinct (map fst (at_keys db)) \<and> distinct (map snd (at_keys db)) \<and>
     (\<forall>(key, k) \<in> set (at_keys db). k < at_next db) \<and> distinct (map fst (at_rows db)) \<and>
     (\<forall>x \<in> set (at_rows db). snd (snd (fst x)) \<in> snd ` set (at_keys db))"

lemma attr_ok_empty [simp]: "attr_ok no_attributes"
  by (simp add: attr_ok_def no_attributes_def)

lemma attr_cell_of_empty [simp]: "attr_cell_of no_attributes u ord key = None"
  by (simp add: attr_cell_of_def no_attributes_def)

lemma key_of_id: "attr_ok db \<Longrightarrow> (a, k) \<in> set (at_keys db) \<Longrightarrow> (b, k) \<in> set (at_keys db) \<Longrightarrow> a = b"
  unfolding attr_ok_def by (metis eq_key_imp_eq_value distinct_map inj_on_contraD prod.inject snd_conv)

lemma in_update: "x \<in> set (AList.update k v m) \<Longrightarrow> x = (k, v) \<or> x \<in> set m"
  by (induction m) (auto split: if_splits)

lemma joined_rows_iff:
  assumes "attr_ok db"
  shows "(key, ord, cell) \<in> set (joined_rows db u) \<longleftrightarrow> attr_cell_of db u ord key = Some cell"
proof -
  have d: "distinct (map fst (at_keys db))" "distinct (map fst (at_rows db))" using assms by (simp_all add: attr_ok_def)
  have "(key, ord, cell) \<in> set (joined_rows db u) \<longleftrightarrow>
      (\<exists>k. ((u, ord, k), cell) \<in> set (at_rows db) \<and> (key, k) \<in> set (at_keys db))"
    by (fastforce simp: joined_rows_def split: if_splits)
  also have "\<dots> \<longleftrightarrow> attr_cell_of db u ord key = Some cell"
    by (simp add: attr_cell_of_def map_of_eq_Some_iff [OF d(1), symmetric] map_of_eq_Some_iff [OF d(2), symmetric] split: option.split)
  finally show ?thesis .
qed

lemma get_or_insert_key_ok:
  assumes "attr_ok db" "get_or_insert_key key db = Some (k, db')"
  shows "attr_ok db'" "map_of (at_keys db') key = Some k" "attr_cell_of db' = attr_cell_of db" "at_rows db' = at_rows db"
proof -
  have d: "distinct (map fst (at_keys db))" "distinct (map snd (at_keys db))"
    "\<forall>(key, k) \<in> set (at_keys db). k < at_next db" "distinct (map fst (at_rows db))"
    "\<forall>x \<in> set (at_rows db). snd (snd (fst x)) \<in> snd ` set (at_keys db)"
    using assms(1) by (simp_all add: attr_ok_def)
  consider (old) i where "map_of (at_keys db) key = Some i" "k = i" "db' = db\<lparr>at_next := at_next db + 1\<rparr>"
    | (new) "map_of (at_keys db) key = None" "k = at_next db"
        "db' = db\<lparr>at_keys := at_keys db @ [(key, at_next db)], at_next := at_next db + 1\<rparr>"
    using assms(2) by (auto simp: get_or_insert_key_def split: if_splits option.splits)
  then have "attr_ok db' \<and> map_of (at_keys db') key = Some k \<and> attr_cell_of db' = attr_cell_of db \<and> at_rows db' = at_rows db"
  proof cases
    case old
    have "attr_ok db'" using d by (auto simp: attr_ok_def old)
    moreover have "attr_cell_of db' = attr_cell_of db" by (intro ext) (simp add: attr_cell_of_def old(3) split: option.split)
    ultimately show ?thesis using old by simp
  next
    case new
    have "key \<notin> fst ` set (at_keys db)" using new(1) by (simp add: map_of_eq_None_iff)
    moreover have "at_next db \<notin> snd ` set (at_keys db)" using d(3) by auto
    moreover have "\<forall>x \<in> set (at_rows db). snd (snd (fst x)) \<in> insert (at_next db) (snd ` set (at_keys db))"
      using d(5) by simp
    moreover have "\<forall>(key, k) \<in> set (at_keys db). k < Suc (at_next db)" using d(3) by (auto simp: less_Suc_eq)
    ultimately have "attr_ok db'" using d(1,2,4) by (simp add: attr_ok_def new(3))
    moreover have "map_of (at_rows db) (u, ord, at_next db) = None" for u ord
    proof (rule ccontr)
      assume "map_of (at_rows db) (u, ord, at_next db) \<noteq> None"
      then obtain c where "((u, ord, at_next db), c) \<in> set (at_rows db)" by (auto dest: map_of_SomeD)
      then have "at_next db \<in> snd ` set (at_keys db)" using bspec [OF d(5)] by fastforce
      then show False using d(3) by auto
    qed
    then have "attr_cell_of db' u ord key' = attr_cell_of db u ord key'" for u ord key'
      using new by (cases "key' = key") (auto simp: attr_cell_of_def map_add_def split: option.splits)
    ultimately show ?thesis using new by (auto simp: map_add_def fun_eq_iff)
  qed
  then show "attr_ok db'" "map_of (at_keys db') key = Some k" "attr_cell_of db' = attr_cell_of db" "at_rows db' = at_rows db"
    by blast+
qed

lemma put_cell_ok:
  assumes "attr_ok db" "map_of (at_keys db) key = Some k"
  shows "attr_ok (db\<lparr>at_rows := AList.update (u, ord, k) cell (at_rows db)\<rparr>)"
    "attr_cell_of (db\<lparr>at_rows := AList.update (u, ord, k) cell (at_rows db)\<rparr>) e o' key' =
       (if e = u \<and> o' = ord \<and> key' = key then Some cell else attr_cell_of db e o' key')"
proof -
  have k: "(key, k) \<in> set (at_keys db)" using assms(2) by (rule map_of_SomeD)
  have "snd (snd (fst x)) \<in> snd ` set (at_keys db)" if "x \<in> set (AList.update (u, ord, k) cell (at_rows db))" for x
  proof -
    have "k \<in> snd ` set (at_keys db)" using imageI [OF k, of snd] by simp
    with in_update [OF that] assms(1) show ?thesis unfolding attr_ok_def by (metis fst_conv snd_conv)
  qed
  then show "attr_ok (db\<lparr>at_rows := AList.update (u, ord, k) cell (at_rows db)\<rparr>)"
    using assms(1) by (simp add: attr_ok_def distinct_update)
  have same: "key' = key" if "map_of (at_keys db) key' = Some k" for key' using key_of_id [OF assms(1) map_of_SomeD [OF that] k] .
  then show "attr_cell_of (db\<lparr>at_rows := AList.update (u, ord, k) cell (at_rows db)\<rparr>) e o' key' =
       (if e = u \<and> o' = ord \<and> key' = key then Some cell else attr_cell_of db e o' key')"
  proof (cases "key' = key")
    case True
    then show ?thesis using assms(2) by (simp add: attr_cell_of_def update_conv')
  next
    case False
    then have "map_of (at_keys db) key' \<noteq> Some k" using same [of key'] by blast
    then show ?thesis using False by (simp add: attr_cell_of_def update_conv' split: option.split)
  qed
qed

section \<open>Values come back\<close>

definition read_back :: "(json \<Rightarrow> str) \<Rightarrow> json \<Rightarrow> json" where
  "read_back marshal v =
     (case v of JBool b \<Rightarrow> JBool b | JStr s \<Rightarrow> JStr s | JInt n \<Rightarrow> JInt n | JFrac r \<Rightarrow> number_json r | _ \<Rightarrow> JStr (marshal v))"

lemma cell_value_typed: "typed_cell marshal v ts = Some c \<Longrightarrow> cell_value c = read_back marshal v \<and> ac_ts c = ts"
  by (cases v) (auto simp: read_back_def cell_value_def blank_cell_def number_json_def quotient_of_int split: if_splits)

lemma save_loop_Cons:
  assumes "save_loop marshal clock u ord i ((k0, v0) # vs) db = Some db'"
  shows "\<exists>k db1 cell. get_or_insert_key k0 db = Some (k, db1) \<and> typed_cell marshal v0 (clock i) = Some cell \<and>
      save_loop marshal clock u ord (i + 1) vs (db1\<lparr>at_rows := AList.update (u, ord, k) cell (at_rows db1)\<rparr>) = Some db'"
  using assms by (auto split: option.splits prod.splits)

lemma save_loop_ok:
  assumes "save_loop marshal clock u ord i vs db = Some db'" "attr_ok db"
  shows "attr_ok db'"
    and "e \<noteq> u \<or> o' \<noteq> ord \<or> key \<notin> fst ` set vs \<Longrightarrow> attr_cell_of db' e o' key = attr_cell_of db e o' key"
    and "distinct (map fst vs) \<Longrightarrow> j < length vs \<Longrightarrow> vs ! j = (key, v) \<Longrightarrow>
      attr_cell_of db' u ord key = typed_cell marshal v (clock (i + j)) \<and> typed_cell marshal v (clock (i + j)) \<noteq> None"
  using assms
proof (induction vs arbitrary: i db e o' key v j)
  case Nil
  { case 1 then show ?case by simp }
  { case 2 then show ?case by simp }
  { case 3 then show ?case by simp }
next
  case (Cons x vs)
  obtain k0 v0 where x: "x = (k0, v0)" by force
  note step = save_loop_Cons [where ?k0.0 = k0 and ?v0.0 = v0, folded x]
  { case 1
    from step [OF 1(1)] obtain k db1 cell where s: "get_or_insert_key k0 db = Some (k, db1)"
      "save_loop marshal clock u ord (i + 1) vs (db1\<lparr>at_rows := AList.update (u, ord, k) cell (at_rows db1)\<rparr>) = Some db'" by blast
    show ?case using Cons.IH(1) [OF s(2)] put_cell_ok(1) [OF get_or_insert_key_ok(1,2) [OF 1(2) s(1)]] by blast }
  { case 2
    from step [OF 2(2)] obtain k db1 cell where s: "get_or_insert_key k0 db = Some (k, db1)"
      "save_loop marshal clock u ord (i + 1) vs (db1\<lparr>at_rows := AList.update (u, ord, k) cell (at_rows db1)\<rparr>) = Some db'" by blast
    note g = get_or_insert_key_ok [OF 2(3) s(1)]
    show ?case using Cons.IH(2) [OF _ s(2) put_cell_ok(1) [OF g(1,2)]] put_cell_ok(2) [OF g(1,2)] 2(1) g(3)
      by (auto simp: x) }
  { case 3
    from step [OF 3(4)] obtain k db1 cell where s: "get_or_insert_key k0 db = Some (k, db1)" "typed_cell marshal v0 (clock i) = Some cell"
      "save_loop marshal clock u ord (i + 1) vs (db1\<lparr>at_rows := AList.update (u, ord, k) cell (at_rows db1)\<rparr>) = Some db'" by blast
    note g = get_or_insert_key_ok [OF 3(5) s(1)]
    show ?case
    proof (cases j)
      case (Suc j')
      with 3(1-3) have "distinct (map fst vs)" "j' < length vs" "vs ! j' = (key, v)" by simp_all
      from Cons.IH(3) [OF this s(3) put_cell_ok(1) [OF g(1,2)]] Suc show ?thesis by simp
    next
      case 0
      with 3(1,3) have kv: "key = k0" "v = v0" "k0 \<notin> fst ` set vs" by (auto simp: x)
      then have "attr_cell_of db' u ord key = Some cell"
        using Cons.IH(2) [OF _ s(3) put_cell_ok(1) [OF g(1,2)]] put_cell_ok(2) [OF g(1,2)] by simp
      then show ?thesis using s(2) kv 0 by simp
    qed }
qed

lemma save_rows_ok:
  assumes "save_attributes_rows uuid marshal clock entity ord vs db = Some db'" "attr_ok db" "vs \<noteq> [] \<Longrightarrow> uuid entity = Some u"
  shows "attr_ok db'"
    and "e \<noteq> u \<or> o' \<noteq> ord \<or> key \<notin> fst ` set vs \<Longrightarrow> attr_cell_of db' e o' key = attr_cell_of db e o' key"
    and "distinct (map fst vs) \<Longrightarrow> j < length vs \<Longrightarrow> vs ! j = (key, v) \<Longrightarrow>
      \<exists>c. attr_cell_of db' u ord key = Some c \<and> cell_value c = read_back marshal v \<and> ac_ts c = clock j"
proof -
  consider (none) "vs = []" "db' = db" | (some) "vs \<noteq> []" "save_loop marshal clock u ord 0 vs db = Some db'"
    using assms(1,3) by (cases "vs = []") (simp_all add: save_attributes_rows_def)
  note cs = this
  show "attr_ok db'" using cs save_loop_ok(1) assms(2) by cases (simp, blast)
  show "attr_cell_of db' e o' key = attr_cell_of db e o' key" if "e \<noteq> u \<or> o' \<noteq> ord \<or> key \<notin> fst ` set vs"
    using cs save_loop_ok(2) [OF _ assms(2) that] by cases (simp, blast)
  show "\<exists>c. attr_cell_of db' u ord key = Some c \<and> cell_value c = read_back marshal v \<and> ac_ts c = clock j"
    if d: "distinct (map fst vs)" and m: "j < length vs" "vs ! j = (key, v)"
  proof -
    have "save_loop marshal clock u ord 0 vs db = Some db'" using cs m by cases simp_all
    from save_loop_ok(3) [OF this assms(2) d m] show ?thesis using cell_value_typed by fastforce
  qed
qed

text \<open>What a save does to the rows; everything else it leaves alone but the twin state.\<close>

lemma save_attributes_kv_cases:
  assumes "save_attributes_kv uuid marshal clock tenant etype entity scope vs st = (r, st')"
  obtains "r = SaveFailed" "st' = st"
  | name ord where "normalize_attribute_scope scope = Some (name, ord)" "r \<noteq> SaveFailed"
      "save_attributes_rows uuid marshal clock entity ord vs (as_attrs st) = Some (as_attrs st')"
      "as_twin st' = as_twin st" "as_tables st' = as_tables st"
      "as_store st = None \<or> tenant = [] \<Longrightarrow> as_store st' = as_store st"
      "\<And>store. as_store st = Some store \<Longrightarrow> tenant \<noteq> [] \<Longrightarrow> \<exists>store'. as_store st' = Some store' \<and>
         ms_states store' = ms_states (fst (commit_attributes (clock (length vs)) tenant etype entity name (clock (length vs)) vs store))"
  using assms unfolding save_attributes_kv_def Let_def
  by (auto simp: notify_def split: option.splits prod.splits if_splits)

lemma ownership_predicate_frame:
  "as_twin st' = as_twin st \<Longrightarrow> as_tables st' = as_tables st \<Longrightarrow> ownership_predicate uuid st' caller u = ownership_predicate uuid st caller u"
  by (simp add: ownership_predicate_def owner_rows_def)

lemma read_values_iff:
  "attr_ok db \<Longrightarrow> (key, x, ts) \<in> set (read_values db u (Some ord) None) \<longleftrightarrow>
    (\<exists>c. attr_cell_of db u ord key = Some c \<and> x = cell_value c \<and> ts = ac_ts c)"
  by (force simp: read_values_def joined_rows_iff [symmetric])

lemma attr_read_total:
  assumes "uuid entity = Some u" "normalize_attribute_scope scope = Some (name, ord)"
  shows "handle_attribute_values uuid st caller entity scope [] =
    Inr (AttrValues (if ownership_predicate uuid st caller u then read_values (as_attrs st) u (Some ord) None else []))"
proof -
  have "trim_space scope \<noteq> []" using assms(2) by (auto simp: normalize_attribute_scope_def to_upper_def)
  then show ?thesis using assms by (simp add: handle_attribute_values_def wanted_keys_def)
qed

lemma keys_answer_shape: "handle_attribute_keys uuid st caller entity = Inr ans \<Longrightarrow> \<exists>ks. ans = AttrKeys ks"
  by (auto simp: handle_attribute_keys_def split: option.splits)

lemma values_answer_shape: "handle_attribute_values uuid st caller entity scope keys = Inr ans \<Longrightarrow> \<exists>vs. ans = AttrValues vs"
  unfolding handle_attribute_values_def and_then_Inr by (auto split: option.splits)

text \<open>The caller the gate lets through may read the rows of the entity.\<close>

lemma gate_reads:
  assumes "attribute_gate uuid c etype entity w st = Inr caller" "uuid entity = Some u"
  shows "\<exists>reader. attribute_gate uuid c etype entity False st = Inr reader \<and> ownership_predicate uuid st reader u"
  using assms
  by (auto simp: attribute_gate_def entity_owned_by_tenant_def ownership_predicate_def Let_def split: option.splits if_splits bool.splits)

lemma gate_frame:
  "as_twin st' = as_twin st \<Longrightarrow> as_tables st' = as_tables st \<Longrightarrow>
   attribute_gate uuid c etype entity w st' = attribute_gate uuid c etype entity w st"
proof -
  assume f: "as_twin st' = as_twin st" "as_tables st' = as_tables st"
  have "owner_rows st' = owner_rows st" by (rule ext) (simp add: owner_rows_def f)
  then have same: "entity_owned_by_tenant uuid st' = entity_owned_by_tenant uuid st" "attribute_entity_tenant uuid st' = attribute_entity_tenant uuid st"
    by (simp_all add: entity_owned_by_tenant_def attribute_entity_tenant_def fun_eq_iff)
  show ?thesis unfolding attribute_gate_def same by (rule refl)
qed

text \<open>A request that reads all the values of a scope.\<close>

definition reads_scope :: "str \<Rightarrow> str \<Rightarrow> str \<Rightarrow> attr_request \<Rightarrow> bool" where
  "reads_scope etype entity scope g \<longleftrightarrow>
     (let parts = split_on CHR ''/'' (aq_path g)
      in aq_method g \<noteq> ''POST'' \<and> 7 \<le> length parts \<and> to_upper (trim_space (parts ! 4)) = etype \<and> parts ! 5 = entity \<and>
         \<not> contains (aq_path g) ''/keys/attributes'' \<and> contains (aq_path g) ''/values/attributes'' \<and>
         scope_segment parts = scope \<and> aq_keys g = [])"

lemma scope_read:
  assumes "reads_scope etype entity scope g" "attribute_gate uuid c etype entity False st = Inr reader" "ownership_predicate uuid st reader u"
    "uuid entity = Some u" "normalize_attribute_scope scope = Some (name, ord)"
  shows "handle_attribute_rest rx uuid marshal clock (Some c) g st = (Inr (AttrValues (read_values (as_attrs st) u (Some ord) None)), st)"
  using assms attr_read_total [where uuid = uuid and entity = entity and st = st and caller = reader, OF assms(4,5)]
  by (simp add: handle_attribute_rest_def reads_scope_def Let_def)

lemma saved_through:
  assumes "handle_attribute_rest rx uuid marshal clock (Some c) w st = (Inr AttrSaved, st')"
  obtains etype entity scope kvs caller name where "etype = to_upper (trim_space (split_on CHR ''/'' (aq_path w) ! 4))"
    "entity = split_on CHR ''/'' (aq_path w) ! 5" "scope = split_on CHR ''/'' (aq_path w) ! 6" "aq_body w = Some (JObj kvs)"
    "attribute_gate uuid c etype entity True st = Inr caller" "save_attributes_kv uuid marshal clock (cs_tenant caller) etype entity name (decode_map kvs) st = (Saved, st')"
    "\<exists>ord. normalize_attribute_scope scope = Some (name, ord)" "uuid entity \<noteq> None"
proof -
  let ?etype = "to_upper (trim_space (split_on CHR ''/'' (aq_path w) ! 4))" and ?entity = "split_on CHR ''/'' (aq_path w) ! 5"
    and ?scope = "split_on CHR ''/'' (aq_path w) ! 6"
  have nokeys: "handle_attribute_keys uuid st x e \<noteq> Inr AttrSaved" "handle_attribute_values uuid st x e sc ks \<noteq> Inr AttrSaved" for x e sc ks
    using keys_answer_shape values_answer_shape by fastforce+
  from assms obtain caller where g: "attribute_gate uuid c ?etype ?entity True st = Inr caller"
    and h: "handle_save_attribute rx uuid marshal clock (cs_tenant caller) ?etype ?entity ?scope (aq_body w) st = (Inr AttrSaved, st')"
    unfolding handle_attribute_rest_def Let_def by (auto split: if_splits sum.splits simp: nokeys)
  from h obtain kvs name ord where "aq_body w = Some (JObj kvs)" "normalize_attribute_scope ?scope = Some (name, ord)"
    "save_attributes_kv uuid marshal clock (cs_tenant caller) ?etype ?entity name (decode_map kvs) st = (Saved, st')"
    unfolding handle_save_attribute_def
    by (auto split: option.splits json.splits prod.splits attributes_verdict.splits save_result.splits)
  moreover have "uuid ?entity \<noteq> None"
    using h by (auto simp: handle_save_attribute_def split: option.splits json.splits)
  ultimately show thesis using that [OF refl refl refl _ g] by blast
qed

lemma scope_name:
  assumes "normalize_attribute_scope scope = Some (name, ord)"
  shows "normalize_attribute_scope name = Some (name, ord)"
proof -
  have "normalize_attribute_scope ''CLIENT_SCOPE'' = Some (''CLIENT_SCOPE'', 0)" "normalize_attribute_scope ''SHARED_SCOPE'' = Some (''SHARED_SCOPE'', 1)"
    "normalize_attribute_scope ''SERVER_SCOPE'' = Some (''SERVER_SCOPE'', 2)" by code_simp+
  moreover have "(name, ord) \<in> {(''CLIENT_SCOPE'', 0), (''SHARED_SCOPE'', 1), (''SERVER_SCOPE'', 2)}"
    using assms by (auto simp: normalize_attribute_scope_def Let_def split: if_splits)
  ultimately show ?thesis by auto
qed

text \<open>C19: A value comes back as it was saved, through the handler. When the handler has answered a POST of attributes with
  success, the caller who reads the scope gets, for the j-th saved key, exactly one entry: the value saved - a boolean, a
  string or a number as itself, an object, an array or null as its JSON text - with the time the clock showed when the save
  stored that key; and for every other key what the same request was answered before.\<close>

theorem attribute_values_roundtrip:
  assumes "handle_attribute_rest rx uuid marshal clock (Some c) w st = (Inr AttrSaved, st')" "attr_ok (as_attrs st)"
    and "reads_scope (to_upper (trim_space (split_on CHR ''/'' (aq_path w) ! 4))) (split_on CHR ''/'' (aq_path w) ! 5) (split_on CHR ''/'' (aq_path w) ! 6) g"
  shows "\<exists>kvs old new. aq_body w = Some (JObj kvs) \<and>
     handle_attribute_rest rx uuid marshal clock' (Some c) g st = (Inr (AttrValues old), st) \<and>
     handle_attribute_rest rx uuid marshal clock' (Some c) g st' = (Inr (AttrValues new), st') \<and>
     (\<forall>j < length (decode_map kvs). \<forall>x ts. (fst (decode_map kvs ! j), x, ts) \<in> set new \<longleftrightarrow>
        x = read_back marshal (snd (decode_map kvs ! j)) \<and> ts = clock j) \<and>
     (\<forall>key x ts. key \<notin> fst ` set kvs \<longrightarrow> ((key, x, ts) \<in> set new \<longleftrightarrow> (key, x, ts) \<in> set old))"
proof -
  from assms(1) obtain etype entity scope kvs caller name where w: "etype = to_upper (trim_space (split_on CHR ''/'' (aq_path w) ! 4))"
    "entity = split_on CHR ''/'' (aq_path w) ! 5" "scope = split_on CHR ''/'' (aq_path w) ! 6" "aq_body w = Some (JObj kvs)"
    "attribute_gate uuid c etype entity True st = Inr caller" "save_attributes_kv uuid marshal clock (cs_tenant caller) etype entity name (decode_map kvs) st = (Saved, st')"
    "\<exists>ord. normalize_attribute_scope scope = Some (name, ord)" "uuid entity \<noteq> None" by (rule saved_through)
  obtain u where u: "uuid entity = Some u" using w(8) by blast
  obtain ord0 where n0: "normalize_attribute_scope scope = Some (name, ord0)" using w(7) by blast
  from w(6) obtain ord where n: "normalize_attribute_scope scope = Some (name, ord)"
    and s: "save_attributes_rows uuid marshal clock entity ord (decode_map kvs) (as_attrs st) = Some (as_attrs st')"
    and f: "as_twin st' = as_twin st" "as_tables st' = as_tables st"
    using n0 scope_name [OF n0] by (cases rule: save_attributes_kv_cases) auto
  note ok = save_rows_ok [OF s assms(2) u]
  from gate_reads [OF w(5) u] obtain reader where r: "attribute_gate uuid c etype entity False st = Inr reader" "ownership_predicate uuid st reader u" by blast
  have r': "attribute_gate uuid c etype entity False st' = Inr reader" "ownership_predicate uuid st' reader u"
    using r gate_frame [OF f] ownership_predicate_frame [OF f] by simp_all
  have g: "reads_scope etype entity scope g" using assms(3) w(1-3) by simp
  have new: "(fst (decode_map kvs ! j), x, ts) \<in> set (read_values (as_attrs st') u (Some ord) None) \<longleftrightarrow>
      x = read_back marshal (snd (decode_map kvs ! j)) \<and> ts = clock j" if "j < length (decode_map kvs)" for j x ts
    using ok(3) [OF distinct_decode_map that prod.collapse [symmetric]] read_values_iff [OF ok(1)] by auto
  have old: "(key, x, ts) \<in> set (read_values (as_attrs st') u (Some ord) None) \<longleftrightarrow>
      (key, x, ts) \<in> set (read_values (as_attrs st) u (Some ord) None)" if "key \<notin> fst ` set kvs" for key x ts
    using ok(2) [of u ord key] that read_values_iff [OF ok(1)] read_values_iff [OF assms(2)] set_decode_map_keys [of kvs] by simp
  show ?thesis using scope_read [OF g r u n] scope_read [OF g r' u n] w(4) new old by blast
qed

section \<open>A concrete entity\<close>

definition plain_uuid :: "str \<Rightarrow> str option" where
  "plain_uuid s = (if s = [] then None else Some (to_lower s))"

definition attr_demo :: attr_state where
  "attr_demo = \<lparr>as_twin = asset_db, as_tables = [], as_attrs = no_attributes, as_store = Some new_memory_store\<rparr>"

definition demo_text :: "json \<Rightarrow> str" where "demo_text v = (if v = JNull then ''null'' else ''{}'')"
definition demo_clock :: "nat \<Rightarrow> millis" where "demo_clock i = 7 + int i"

definition demo_caller :: attr_caller where
  "demo_caller = \<lparr>cs_tenant = ''t'', cs_admin = False, cs_table = ''asset''\<rparr>"

definition demo_values :: "(str \<times> json) list" where
  "demo_values = [(''on'', JBool True), (''name'', JStr ''x''), (''none'', JNull)]"

definition demo_saved :: attr_state where
  "demo_saved = snd (save_attributes_kv plain_uuid demo_text demo_clock ''t'' ''ASSET'' asset_id ''server_scope'' demo_values attr_demo)"

lemma demo_save:
  "save_attributes_kv plain_uuid demo_text demo_clock ''t'' ''ASSET'' asset_id ''server_scope'' demo_values attr_demo = (Saved, demo_saved)"
  "attr_ok (as_attrs attr_demo)" "distinct (map fst demo_values)" "plain_uuid asset_id = Some asset_id"
  "ownership_predicate plain_uuid attr_demo demo_caller asset_id"
proof -
  have "fst (save_attributes_kv plain_uuid demo_text demo_clock ''t'' ''ASSET'' asset_id ''server_scope'' demo_values attr_demo) = Saved"
    by code_simp
  then show "save_attributes_kv plain_uuid demo_text demo_clock ''t'' ''ASSET'' asset_id ''server_scope'' demo_values attr_demo = (Saved, demo_saved)"
    by (simp add: demo_saved_def prod_eq_iff)
  show "attr_ok (as_attrs attr_demo)" by (simp add: attr_demo_def)
  show "distinct (map fst demo_values)" "plain_uuid asset_id = Some asset_id"
    "ownership_predicate plain_uuid attr_demo demo_caller asset_id" by code_simp+
qed

lemma demo_saved_ok: "attr_ok (as_attrs demo_saved)"
proof -
  obtain name ord where r: "save_attributes_rows plain_uuid demo_text demo_clock asset_id ord demo_values (as_attrs attr_demo) = Some (as_attrs demo_saved)"
    using demo_save(1) by (cases rule: save_attributes_kv_cases) auto
  show ?thesis by (rule save_rows_ok(1) [OF r demo_save(2,4)])
qed

definition save_request :: attr_request where
  "save_request = \<lparr>aq_method = ''POST'', aq_path = ''/api/plugins/telemetry/asset/'' @ asset_id @ ''/SERVER_SCOPE'', aq_keys = [],
     aq_body = Some (JObj [(''on'', JBool True), (''none'', JNull)])\<rparr>"

definition scope_request :: attr_request where
  "scope_request = \<lparr>aq_method = ''GET'', aq_path = ''/api/plugins/telemetry/asset/'' @ asset_id @ ''/values/attributes/SERVER_SCOPE'',
     aq_keys = [], aq_body = None\<rparr>"

definition demo_answer :: "attr_request \<Rightarrow> attr_state \<Rightarrow> (http_error + attr_answer) \<times> attr_state" where
  "demo_answer req st = handle_attribute_rest demo_engine plain_uuid demo_text demo_clock (Some demo_claims) req st"

theorem attribute_values_roundtrip_witness:
  "\<exists>st' new. demo_answer save_request attr_demo = (Inr AttrSaved, st') \<and> fst (demo_answer scope_request st') = Inr (AttrValues new) \<and>
     (\<forall>x ts. (''none'', x, ts) \<in> set new \<longleftrightarrow> x = JStr ''null'' \<and> ts = 8)"
proof -
  have "fst (demo_answer save_request attr_demo) = Inr AttrSaved" by code_simp
  then have w: "handle_attribute_rest demo_engine plain_uuid demo_text demo_clock (Some demo_claims) save_request attr_demo =
      (Inr AttrSaved, snd (demo_answer save_request attr_demo))" by (simp add: demo_answer_def prod_eq_iff)
  have g: "reads_scope (to_upper (trim_space (split_on CHR ''/'' (aq_path save_request) ! 4))) (split_on CHR ''/'' (aq_path save_request) ! 5)
      (split_on CHR ''/'' (aq_path save_request) ! 6) scope_request" by code_simp
  have body: "aq_body save_request = Some (JObj [(''on'', JBool True), (''none'', JNull)])" by (simp add: save_request_def)
  have vals: "decode_map [(''on'', JBool True), (''none'', JNull)] = [(''on'', JBool True), (''none'', JNull)]" by code_simp
  have texts: "read_back demo_text JNull = JStr ''null''" "demo_clock (Suc 0) = 8" by code_simp+
  from attribute_values_roundtrip [OF w demo_save(2) g, of demo_clock] obtain kvs new where r: "aq_body save_request = Some (JObj kvs)"
    "handle_attribute_rest demo_engine plain_uuid demo_text demo_clock (Some demo_claims) scope_request (snd (demo_answer save_request attr_demo)) =
      (Inr (AttrValues new), snd (demo_answer save_request attr_demo))"
    "\<forall>j < length (decode_map kvs). \<forall>x ts. (fst (decode_map kvs ! j), x, ts) \<in> set new \<longleftrightarrow>
        x = read_back demo_text (snd (decode_map kvs ! j)) \<and> ts = demo_clock j" by blast
  have kvs: "kvs = [(''on'', JBool True), (''none'', JNull)]" using r(1) body by simp
  have "\<forall>x ts. (''none'', x, ts) \<in> set new \<longleftrightarrow> x = JStr ''null'' \<and> ts = 8"
    using r(3) [rule_format, of 1] unfolding kvs vals by (simp add: texts)
  then show ?thesis using w r(2) by (intro exI conjI) (auto simp: demo_answer_def)
qed

section \<open>The tenant gate\<close>

lemma ms_states_commit_attributes:
  "map_of (ms_states (fst (commit_attributes now tenant etype eid scope ts vs store))) k =
     (if k = state_key etype tenant eid
      then Some (merge_attributes_state (attribute_scope scope) (write_time now ts) vs
             (ensure_state tenant etype eid (stored_state store k)))
      else map_of (ms_states store) k)"
  by (simp add: commit_attributes_def commit_change_def Let_def update_conv')

lemma attribute_gate_owner:
  assumes "attribute_gate uuid c etype entity w st = Inr caller" "\<not> is_sys_admin c"
  obtains table rows u t where "attribute_entity_table etype = Some table" "owner_rows st table = Some rows"
    "uuid entity = Some u" "uuid (claim_string c ''tenantId'') = Some t" "(u, Some t) \<in> set rows"
    "caller = \<lparr>cs_tenant = claim_string c ''tenantId'', cs_admin = False, cs_table = table\<rparr>"
  using assms unfolding attribute_gate_def Let_def entity_owned_by_tenant_def
  by (auto split: option.splits if_splits bool.splits)

lemma keys_answer:
  assumes "handle_attribute_keys uuid st caller entity = Inr (AttrKeys ks)" "attr_ok (as_attrs st)" "k \<in> set ks" "uuid entity = Some u"
  shows "\<exists>ord. attr_cell_of (as_attrs st) u ord k \<noteq> None"
proof -
  obtain ord cell where "(k, ord, cell) \<in> set (joined_rows (as_attrs st) u)"
    using assms(1,3,4) by (auto simp: handle_attribute_keys_def split: if_splits)
  then show ?thesis using joined_rows_iff [OF assms(2)] by blast
qed

lemma values_answer:
  assumes "handle_attribute_values uuid st caller entity scope keys = Inr (AttrValues vs)" "attr_ok (as_attrs st)"
    "(k, x, ts) \<in> set vs" "uuid entity = Some u"
  shows "\<exists>ord cell. attr_cell_of (as_attrs st) u ord k = Some cell \<and> x = cell_value cell \<and> ts = ac_ts cell"
proof -
  obtain ord where "(k, x, ts) \<in> set (read_values (as_attrs st) u ord (wanted_keys keys))"
    using assms(1,3,4) unfolding handle_attribute_values_def and_then_Inr by (auto split: if_splits)
  then obtain o' cell where "(k, o', cell) \<in> set (joined_rows (as_attrs st) u)" "x = cell_value cell" "ts = ac_ts cell"
    by (auto simp: read_values_def)
  then show ?thesis using joined_rows_iff [OF assms(2)] by blast
qed

text \<open>What a save may change: the rows and the twin state of its entity.\<close>

definition entity_frame :: "str \<Rightarrow> str \<Rightarrow> attr_state \<Rightarrow> attr_state \<Rightarrow> bool" where
  "entity_frame u key st st' \<longleftrightarrow>
     (\<forall>e ord k. e \<noteq> u \<longrightarrow> attr_cell_of (as_attrs st') e ord k = attr_cell_of (as_attrs st) e ord k) \<and>
     (\<forall>store k. as_store st = Some store \<longrightarrow> k \<noteq> key \<longrightarrow>
        (\<exists>store'. as_store st' = Some store' \<and> map_of (ms_states store') k = map_of (ms_states store) k))"

lemma entity_frame_refl [simp]: "entity_frame u key st st"
  by (simp add: entity_frame_def)

lemma save_kv_frame:
  assumes "save_attributes_kv uuid marshal clock tenant etype entity name vals st = (res, st')" "attr_ok (as_attrs st)" "uuid entity = Some u"
  shows "(res = SaveFailed \<longrightarrow> st' = st) \<and> entity_frame u (state_key etype tenant entity) st st'"
  using assms(1)
proof (cases rule: save_attributes_kv_cases)
  case 1
  then show ?thesis by simp
next
  case (2 name' ord')
  have "attr_cell_of (as_attrs st') e ord key = attr_cell_of (as_attrs st) e ord key" if "e \<noteq> u" for e ord key
    using save_rows_ok(2) [OF 2(3) assms(2) assms(3)] that by blast
  moreover have "\<exists>store'. as_store st' = Some store' \<and> map_of (ms_states store') k = map_of (ms_states store) k"
    if "as_store st = Some store" "k \<noteq> state_key etype tenant entity" for store k
    using 2(6,7) that by (cases "tenant = []") (auto simp: ms_states_commit_attributes)
  ultimately show ?thesis using 2(2) by (auto simp: entity_frame_def)
qed

lemma save_answer:
  assumes "handle_save_attribute rx uuid marshal clock tenant etype entity scope body st = (r, st')" "attr_ok (as_attrs st)" "uuid entity = Some u"
  shows "r \<in> {Inr AttrSaved, Inl HandlerPanic} \<and> entity_frame u (state_key etype tenant entity) st st' \<or> (\<exists>n msg. r = Inl (HttpError n msg)) \<and> st' = st"
proof -
  have k: "res = SaveFailed \<Longrightarrow> x = st" "entity_frame u (state_key etype tenant entity) st x"
    if "save_attributes_kv uuid marshal clock tenant etype entity name vals st = (res, x)" for name vals res x
    using save_kv_frame [OF that assms(2,3)] by simp_all
  show ?thesis
    using assms(1) unfolding handle_save_attribute_def
    by (auto split: option.splits json.splits prod.splits attributes_verdict.splits save_result.splits dest: k)
qed

text \<open>C20: The tenant gate. A request is refused with an error and without a write; or its caller, when he is no system
  administrator, presented a token of the tenant that the entity's own row carries, reads rows of that entity only, and
  nothing he writes touches the rows or the twin state of another entity. (A crash after the write, the only error that
  may leave one, is of the second kind.)\<close>

theorem attributes_tenant_gate:
  assumes "handle_attribute_rest rx uuid marshal clock claims req st = (r, st')" "\<forall>c. claims = Some c \<longrightarrow> \<not> is_sys_admin c" "attr_ok (as_attrs st)"
  shows "(\<exists>n msg. r = Inl (HttpError n msg)) \<and> st' = st \<or>
   (\<forall>n msg. r \<noteq> Inl (HttpError n msg)) \<and>
   (\<exists>c etype entity table rows u t. claims = Some c \<and>
     etype = to_upper (trim_space (split_on CHR ''/'' (aq_path req) ! 4)) \<and> entity = split_on CHR ''/'' (aq_path req) ! 5 \<and>
     attribute_entity_table etype = Some table \<and> owner_rows st table = Some rows \<and>
     uuid entity = Some u \<and> uuid (claim_string c ''tenantId'') = Some t \<and> (u, Some t) \<in> set rows \<and>
     (aq_method req \<noteq> ''POST'' \<longrightarrow> st' = st) \<and>
     (\<forall>ks k. r = Inr (AttrKeys ks) \<longrightarrow> k \<in> set ks \<longrightarrow> (\<exists>ord. attr_cell_of (as_attrs st) u ord k \<noteq> None)) \<and>
     (\<forall>vs k x ts. r = Inr (AttrValues vs) \<longrightarrow> (k, x, ts) \<in> set vs \<longrightarrow>
        (\<exists>ord cell. attr_cell_of (as_attrs st) u ord k = Some cell \<and> x = cell_value cell \<and> ts = ac_ts cell)) \<and>
     (\<forall>e ord key. e \<noteq> u \<longrightarrow> attr_cell_of (as_attrs st') e ord key = attr_cell_of (as_attrs st) e ord key) \<and>
     (\<forall>store k. as_store st = Some store \<longrightarrow> k \<noteq> state_key etype (claim_string c ''tenantId'') entity \<longrightarrow>
        (\<exists>store'. as_store st' = Some store' \<and> map_of (ms_states store') k = map_of (ms_states store) k)))"
    (is "?refused \<or> _ \<and> ?owned")
proof (cases "?refused")
  case nr: False
  let ?etype = "to_upper (trim_space (split_on CHR ''/'' (aq_path req) ! 4))"
  let ?entity = "split_on CHR ''/'' (aq_path req) ! 5"
  have ge: "\<exists>n msg. e = HttpError n msg" if "attribute_gate uuid c et en wr st = Inl e" for c et en wr e
    using that by (auto simp: attribute_gate_def Let_def split: option.splits if_splits bool.splits)
  obtain c where cl: "claims = Some c" using nr assms(1) by (cases claims) (auto simp: handle_attribute_rest_def)
  note run = assms(1) [unfolded cl handle_attribute_rest_def option.case Let_def]
  have long: "\<not> length (split_on CHR ''/'' (aq_path req)) < 7" using run nr by (auto split: if_splits)
  have kind: "\<not> (aq_method req = ''POST'' \<and> ?etype \<noteq> ''DEVICE'' \<and> ?etype \<noteq> ''ASSET'')" using run nr long by (auto split: if_splits)
  obtain caller where g: "attribute_gate uuid c ?etype ?entity (aq_method req = ''POST'') st = Inr caller"
  proof (cases "attribute_gate uuid c ?etype ?entity (aq_method req = ''POST'') st")
    case (Inl e)
    then have "r = Inl e" "st' = st" using run unfolding if_not_P [OF long] if_not_P [OF kind] by simp_all
    with ge [OF Inl] nr show ?thesis by blast
  qed blast
  have h: "(if aq_method req = ''POST''
       then handle_save_attribute rx uuid marshal clock (cs_tenant caller) ?etype ?entity (split_on CHR ''/'' (aq_path req) ! 6) (aq_body req) st
       else if contains (aq_path req) ''/keys/attributes'' then (handle_attribute_keys uuid st caller ?entity, st)
       else if contains (aq_path req) ''/values/attributes''
         then (handle_attribute_values uuid st caller ?entity (scope_segment (split_on CHR ''/'' (aq_path req))) (aq_keys req), st)
       else (Inl (HttpError 404 ''Attribute endpoint not found''), st)) = (r, st')"
    using run unfolding if_not_P [OF long] if_not_P [OF kind] g sum.case .
  have na: "\<not> is_sys_admin c" using assms(2) cl by blast
  from attribute_gate_owner [OF g na] obtain table rows u t where
    o': "attribute_entity_table ?etype = Some table" "owner_rows st table = Some rows"
    "uuid ?entity = Some u" "uuid (claim_string c ''tenantId'') = Some t" "(u, Some t) \<in> set rows"
    and ct: "cs_tenant caller = claim_string c ''tenantId''" by (metis attr_caller.select_convs(1))
  have rest: "(\<forall>n msg. r \<noteq> Inl (HttpError n msg)) \<and> (aq_method req \<noteq> ''POST'' \<longrightarrow> st' = st) \<and>
     (\<forall>ks k. r = Inr (AttrKeys ks) \<longrightarrow> k \<in> set ks \<longrightarrow> (\<exists>ord. attr_cell_of (as_attrs st) u ord k \<noteq> None)) \<and>
     (\<forall>vs k x ts. r = Inr (AttrValues vs) \<longrightarrow> (k, x, ts) \<in> set vs \<longrightarrow>
        (\<exists>ord cell. attr_cell_of (as_attrs st) u ord k = Some cell \<and> x = cell_value cell \<and> ts = ac_ts cell)) \<and>
     entity_frame u (state_key ?etype (claim_string c ''tenantId'') ?entity) st st'"
  proof (cases "aq_method req = ''POST''")
    case True
    with h ct have "handle_save_attribute rx uuid marshal clock (claim_string c ''tenantId'') ?etype ?entity
        (split_on CHR ''/'' (aq_path req) ! 6) (aq_body req) st = (r, st')" by simp
    from save_answer [OF this assms(3) o'(3)] nr True show ?thesis by auto
  next
    case False
    with h have st: "st' = st" by (auto split: if_splits)
    have reads: "(\<exists>n msg. x = Inl (HttpError n msg)) \<or> (\<exists>a. x = Inr a)" if "x \<noteq> Inl HandlerPanic" for x :: "http_error + attr_answer"
      using that by (metis http_error.exhaust sumE)
    have "handle_attribute_keys uuid st caller ?entity \<noteq> Inl HandlerPanic"
      "handle_attribute_values uuid st caller ?entity sc ks \<noteq> Inl HandlerPanic" for sc ks
      by (auto simp: handle_attribute_keys_def handle_attribute_values_def and_then_def split: option.splits sum.splits if_splits)
    then have "r \<noteq> Inl HandlerPanic" using h False by (auto split: if_splits)
    with reads nr st obtain ans where ans: "r = Inr ans" by blast
    consider ks where "handle_attribute_keys uuid st caller ?entity = Inr (AttrKeys ks)" "ans = AttrKeys ks"
      | vs where "handle_attribute_values uuid st caller ?entity (scope_segment (split_on CHR ''/'' (aq_path req))) (aq_keys req) = Inr (AttrValues vs)"
          "ans = AttrValues vs"
      using h False unfolding st ans by (simp split: if_splits) (metis keys_answer_shape, metis values_answer_shape)
    then show ?thesis
    proof cases
      case 1
      show ?thesis unfolding st ans using keys_answer [OF 1(1) assms(3) _ o'(3)] 1(2) by simp
    next
      case 2
      have "\<exists>ord cell. attr_cell_of (as_attrs st) u ord k = Some cell \<and> x = cell_value cell \<and> ts = ac_ts cell"
        if "(k, x, ts) \<in> set vs" for k x ts
        using values_answer [OF 2(1) assms(3) that o'(3)] .
      then show ?thesis unfolding st ans 2(2) by simp
    qed
  qed
  have owned: "?owned"
    by (intro exI [of _ c] exI [of _ ?etype] exI [of _ ?entity] exI [of _ table] exI [of _ rows] exI [of _ u] exI [of _ t]
        conjI [OF cl] conjI [OF refl] conjI [OF o'(1)] conjI [OF o'(2)] conjI [OF o'(3)] conjI [OF o'(4)] conjI [OF o'(5)] conjunct2 [OF rest [unfolded entity_frame_def]])
  show ?thesis by (rule disjI2) (rule conjI [OF conjunct1 [OF rest] owned])
qed simp

definition values_request :: attr_request where
  "values_request = \<lparr>aq_method = ''GET'', aq_path = ''/api/plugins/telemetry/asset/'' @ asset_id @ ''/values/attributes/SERVER_SCOPE'',
     aq_keys = '' on ,none'', aq_body = None\<rparr>"

theorem attributes_tenant_gate_witness:
  "(asset_id, Some ''t'') \<in> set (the (owner_rows demo_saved ''asset'')) \<and>
   handle_attribute_rest demo_engine plain_uuid demo_text demo_clock (Some demo_claims) values_request demo_saved =
     (Inr (AttrValues [(''on'', JBool True, 7), (''none'', JStr ''null'', 9)]), demo_saved)"
proof -
  have r: "handle_attribute_rest demo_engine plain_uuid demo_text demo_clock (Some demo_claims) values_request demo_saved =
     (Inr (AttrValues [(''on'', JBool True, 7), (''none'', JStr ''null'', 9)]), demo_saved)" by code_simp
  have a: "\<not> is_sys_admin demo_claims" by code_simp
  have p: "to_upper (trim_space (split_on CHR ''/'' (aq_path values_request) ! 4)) = ''ASSET''"
    "split_on CHR ''/'' (aq_path values_request) ! 5 = asset_id" "attribute_entity_table ''ASSET'' = Some ''asset''"
    "plain_uuid (claim_string demo_claims ''tenantId'') = Some ''t''" by code_simp+
  have a': "\<forall>c. Some demo_claims = Some c \<longrightarrow> \<not> is_sys_admin c" using a by simp
  from attributes_tenant_gate [OF r a' demo_saved_ok] p demo_save(4) r show ?thesis by auto
qed

section \<open>Rows and twin state agree\<close>

definition twin_attr :: "memory_store \<Rightarrow> str \<Rightarrow> str \<Rightarrow> str \<Rightarrow> str \<Rightarrow> str \<Rightarrow> twin_value option" where
  "twin_attr store tenant etype eid scope key = map_of (scope_values scope (stored_state store (state_key etype tenant eid))) key"

lemma merge_values_fresh:
  "(\<forall>k x. map_of m k = Some x \<longrightarrow> tv_ts x \<le> ts) \<Longrightarrow> distinct (map fst vs) \<Longrightarrow>
    map_of (fst (merge_values ts vs m u)) key =
      (case map_of vs key of Some v \<Rightarrow> Some \<lparr>tv_ts = ts, tv_value = v\<rparr> | None \<Rightarrow> map_of m key)"
proof (induction ts vs m u rule: merge_values.induct)
  case (2 ts k v vs m updated)
  have stale: "\<not> (case map_of m k of Some old \<Rightarrow> ts < tv_ts old | None \<Rightarrow> False)"
    using 2(3) by (auto split: option.splits simp: not_less)
  have "\<forall>k' x. map_of (AList.update k \<lparr>tv_ts = ts, tv_value = v\<rparr> m) k' = Some x \<longrightarrow> tv_ts x \<le> ts"
    using 2(3) by (auto simp: update_conv')
  moreover have "distinct (map fst vs)" "k \<notin> fst ` set vs" using 2(4) by simp_all
  moreover have "map_of vs k = None" using \<open>k \<notin> fst ` set vs\<close> by (simp add: map_of_eq_None_iff)
  ultimately show ?case using 2(2) [OF stale] stale
    by (simp add: update_conv' split: option.split)
qed simp

text \<open>One save of an entity; the tenant and the type are those of the entity.\<close>

record attr_save =
  sv_entity :: str
  sv_scope :: str
  sv_values :: "(str \<times> json) list"
  sv_clock :: "nat \<Rightarrow> millis"

definition save_time :: "attr_save \<Rightarrow> millis" where
  "save_time sv = sv_clock sv (length (sv_values sv))"

definition run_save :: "(str \<Rightarrow> str option) \<Rightarrow> (json \<Rightarrow> str) \<Rightarrow> (str \<Rightarrow> str \<times> str) \<Rightarrow> attr_save \<Rightarrow> attr_state \<Rightarrow> attr_state" where
  "run_save uuid marshal own sv st =
     snd (save_attributes_kv uuid marshal (sv_clock sv) (fst (own (sv_entity sv))) (snd (own (sv_entity sv))) (sv_entity sv)
       (sv_scope sv) (sv_values sv) st)"

definition save_ok :: "(str \<Rightarrow> str option) \<Rightarrow> (str \<Rightarrow> str \<times> str) \<Rightarrow> attr_save \<Rightarrow> bool" where
  "save_ok uuid own sv \<longleftrightarrow> uuid (sv_entity sv) = Some (sv_entity sv) \<and> CHR ''.'' \<notin> set (sv_entity sv) \<and>
     fst (own (sv_entity sv)) \<noteq> [] \<and> distinct (map fst (sv_values sv))"

definition agree :: "(json \<Rightarrow> str) \<Rightarrow> (str \<Rightarrow> str \<times> str) \<Rightarrow> attr_state \<Rightarrow> bool" where
  "agree marshal own st \<longleftrightarrow>
     (\<exists>store. as_store st = Some store \<and>
        (\<forall>e scope name ord key. CHR ''.'' \<notin> set e \<longrightarrow> normalize_attribute_scope scope = Some (name, ord) \<longrightarrow>
           map_option cell_value (attr_cell_of (as_attrs st) e ord key) =
           map_option (read_back marshal \<circ> tv_value) (twin_attr store (fst (own e)) (snd (own e)) e name key)))"

definition not_newer :: "millis \<Rightarrow> attr_state \<Rightarrow> bool" where
  "not_newer now st \<longleftrightarrow> (\<forall>store. as_store st = Some store \<longrightarrow>
     (\<forall>k scope key x. map_of (scope_values scope (stored_state store k)) key = Some x \<longrightarrow> tv_ts x \<le> now))"

lemma normalize_scope_inj:
  "normalize_attribute_scope s = Some (n, i) \<Longrightarrow> normalize_attribute_scope s' = Some (n', i') \<Longrightarrow> n = n' \<longleftrightarrow> i = i'"
  by (auto simp: normalize_attribute_scope_def Let_def split: if_splits)

lemma normalize_scope_fixed:
  assumes "normalize_attribute_scope s = Some (n, i)"
  shows "attribute_scope n = n"
proof -
  have "attribute_scope ''CLIENT_SCOPE'' = ''CLIENT_SCOPE''" "attribute_scope ''SHARED_SCOPE'' = ''SHARED_SCOPE''"
    "attribute_scope ''SERVER_SCOPE'' = ''SERVER_SCOPE''" by code_simp+
  moreover have "n \<in> {''CLIENT_SCOPE'', ''SHARED_SCOPE'', ''SERVER_SCOPE''}"
    using assms by (auto simp: normalize_attribute_scope_def Let_def split: if_splits)
  ultimately show ?thesis by auto
qed

lemma scope_values_ensure [simp]: "scope_values n (ensure_state t e i st) = scope_values n st"
  by (simp add: scope_values_def ensure_state_def)

lemma scope_values_merge:
  "scope_values n (merge_attributes_state sc ts vs st) =
     (if n = sc then fst (merge_values ts vs (scope_values sc st) (st_updated st)) else scope_values n st)"
  by (cases "merge_values ts vs (scope_values sc st) (st_updated st)")
    (auto simp: merge_attributes_state_def scope_values_def update_conv' Let_def)

lemma run_save_agrees:
  assumes "save_ok uuid own sv" "attr_ok (as_attrs st)" "agree marshal own st" "not_newer (save_time sv) st"
  shows "attr_ok (as_attrs (run_save uuid marshal own sv st))" "agree marshal own (run_save uuid marshal own sv st)"
    "not_newer (save_time sv) (run_save uuid marshal own sv st)"
proof -
  let ?st' = "run_save uuid marshal own sv st"
  let ?e = "sv_entity sv" and ?vs = "sv_values sv" and ?ts = "save_time sv"
  let ?tenant = "fst (own ?e)" and ?etype = "snd (own ?e)"
  obtain r where r: "save_attributes_kv uuid marshal (sv_clock sv) ?tenant ?etype ?e (sv_scope sv) ?vs st = (r, ?st')"
    unfolding run_save_def by (metis prod.exhaust_sel)
  have "attr_ok (as_attrs ?st') \<and> agree marshal own ?st' \<and> not_newer ?ts ?st'"
    using r
  proof (cases rule: save_attributes_kv_cases)
    case 1
    then show ?thesis using assms by simp
  next
    case (2 name ord)
    have ent: "uuid ?e = Some ?e" "CHR ''.'' \<notin> set ?e" "?tenant \<noteq> []" "distinct (map fst ?vs)"
      using assms(1) by (simp_all add: save_ok_def)
    obtain store where st: "as_store st = Some store"
      and ag: "\<And>e scope name ord key. CHR ''.'' \<notin> set e \<Longrightarrow> normalize_attribute_scope scope = Some (name, ord) \<Longrightarrow>
           map_option cell_value (attr_cell_of (as_attrs st) e ord key) =
           map_option (read_back marshal \<circ> tv_value) (twin_attr store (fst (own e)) (snd (own e)) e name key)"
      using assms(3) unfolding agree_def by blast
    have old: "tv_ts x \<le> ?ts" if "map_of (scope_values scope (stored_state store k)) key = Some x" for scope k key x
      using assms(4) st that unfolding not_newer_def by blast
    obtain store' where st': "as_store ?st' = Some store'"
      and ms: "ms_states store' = ms_states (fst (commit_attributes ?ts ?tenant ?etype ?e name ?ts ?vs store))"
      using 2(7) [OF st ent(3)] by (auto simp: save_time_def)
    have state: "stored_state store' k =
        (if k = state_key ?etype ?tenant ?e
         then merge_attributes_state name ?ts ?vs (ensure_state ?tenant ?etype ?e (stored_state store k))
         else stored_state store k)" for k
      using ms_states_commit_attributes [of ?ts ?tenant ?etype ?e name ?ts ?vs store k] normalize_scope_fixed [OF 2(1)]
      by (simp add: stored_state_def ms write_time_def)
    have fresh: "map_of (fst (merge_values ?ts ?vs (scope_values name (stored_state store k)) u)) key =
        (case map_of ?vs key of Some v \<Rightarrow> Some \<lparr>tv_ts = ?ts, tv_value = v\<rparr>
         | None \<Rightarrow> map_of (scope_values name (stored_state store k)) key)" for k u key
      using old by (intro merge_values_fresh ent(4)) blast
    have vals: "map_of (scope_values n (stored_state store' k)) key =
        (if k = state_key ?etype ?tenant ?e \<and> n = name
         then (case map_of ?vs key of Some v \<Rightarrow> Some \<lparr>tv_ts = ?ts, tv_value = v\<rparr>
               | None \<Rightarrow> map_of (scope_values n (stored_state store k)) key)
         else map_of (scope_values n (stored_state store k)) key)" for n k key
    proof (cases "k = state_key ?etype ?tenant ?e \<and> n = name")
      case True
      then have k: "k = state_key ?etype ?tenant ?e" and n: "n = name" by blast+
      show ?thesis unfolding k n by (simp add: state scope_values_merge fresh)
    next
      case False
      then show ?thesis by (auto simp: state scope_values_merge)
    qed
    note rows = save_rows_ok [OF 2(3) assms(2) ent(1)]
    have "not_newer ?ts ?st'" unfolding not_newer_def st' using old
      by (auto simp: vals split: if_splits option.splits)
    moreover have "map_option cell_value (attr_cell_of (as_attrs ?st') e o' key) =
        map_option (read_back marshal \<circ> tv_value) (twin_attr store' (fst (own e)) (snd (own e)) e n key)"
      if h: "CHR ''.'' \<notin> set e" "normalize_attribute_scope scope = Some (n, o')" for e scope n o' key
    proof (cases "e = ?e \<and> o' = ord \<and> key \<in> fst ` set ?vs")
      case True
      then obtain v where v: "(key, v) \<in> set ?vs" by auto
      from True have n: "n = name" using normalize_scope_inj [OF h(2) 2(1)] by simp
      obtain j where j: "j < length ?vs" "?vs ! j = (key, v)" using v by (auto simp: in_set_conv_nth)
      have "map_of ?vs key = Some v" using v ent(4) by simp
      then show ?thesis using rows(3) [OF ent(4) j] True n by (auto simp: twin_attr_def vals)
    next
      case False
      have "map_of ?vs key = None" if "key \<notin> fst ` set ?vs" using that by (simp add: map_of_eq_None_iff)
      moreover have "e = ?e" if "state_key (snd (own e)) (fst (own e)) e = state_key ?etype ?tenant ?e"
        using state_key_entity [OF h(1) ent(2) that] .
      moreover have "n = name \<longleftrightarrow> o' = ord" by (rule normalize_scope_inj [OF h(2) 2(1)])
      ultimately have "twin_attr store' (fst (own e)) (snd (own e)) e n key = twin_attr store (fst (own e)) (snd (own e)) e n key"
        using False by (auto simp: twin_attr_def vals)
      then show ?thesis using rows(2) [of e o' key] False ag [OF h] by auto
    qed
    ultimately show ?thesis using rows(1) st' unfolding agree_def by blast
  qed
  then show "attr_ok (as_attrs ?st')" "agree marshal own ?st'" "not_newer ?ts ?st'" by blast+
qed

text \<open>The rows and the twin state agree. However many saves run one after the other on a clock that
  does not run backwards, successful, failed or panicking in the delivery to a watcher, for every entity, scope
  and key the row and the twin state hold the same value, or neither holds one.\<close>

theorem stores_agree:
  assumes "sorted (map save_time svs)" "\<forall>sv \<in> set svs. save_ok uuid own sv"
    "as_attrs st = no_attributes" "as_store st = Some new_memory_store"
  shows "agree marshal own (fold (run_save uuid marshal own) svs st)"
proof -
  have "attr_ok (as_attrs s) \<Longrightarrow> agree marshal own s \<Longrightarrow> sorted (map save_time svs) \<Longrightarrow> \<forall>sv \<in> set svs. save_ok uuid own sv \<Longrightarrow>
      (svs \<noteq> [] \<Longrightarrow> not_newer (save_time (hd svs)) s) \<Longrightarrow> agree marshal own (fold (run_save uuid marshal own) svs s)" for s
  proof (induction svs arbitrary: s)
    case (Cons sv svs)
    note step = run_save_agrees [where sv = sv and st = s and uuid = uuid and own = own and marshal = marshal]
    have ok: "save_ok uuid own sv" "not_newer (save_time sv) s" using Cons.prems(4,5) by simp_all
    have "not_newer (save_time (hd svs)) (run_save uuid marshal own sv s)" if "svs \<noteq> []"
    proof -
      have "save_time sv \<le> save_time (hd svs)" using that Cons.prems(3) by (cases svs) simp_all
      then show ?thesis using step(3) [OF ok(1) Cons.prems(1,2) ok(2)] unfolding not_newer_def by (meson order_trans)
    qed
    with Cons.IH [OF step(1,2)] ok Cons.prems show ?case by simp
  qed simp
  moreover have "agree marshal own st"
    using assms(3,4) by (simp add: agree_def twin_attr_def stored_state_def new_memory_store_def zero_state_def scope_values_def)
  moreover have "not_newer t st" for t
    using assms(4) by (simp add: not_newer_def stored_state_def new_memory_store_def zero_state_def scope_values_def)
  ultimately show ?thesis using assms by simp
qed

definition demo_save1 :: attr_save where
  "demo_save1 = \<lparr>sv_entity = asset_id, sv_scope = ''SHARED_SCOPE'', sv_values = demo_values, sv_clock = demo_clock\<rparr>"

definition demo_save2 :: attr_save where
  "demo_save2 = demo_save1\<lparr>sv_values := [(''on'', JBool False)]\<rparr>"

theorem stores_agree_witness:
  "agree demo_text (\<lambda>e. (''t'', ''ASSET'')) (fold (run_save plain_uuid demo_text (\<lambda>e. (''t'', ''ASSET''))) [demo_save2, demo_save1] attr_demo)"
proof (rule stores_agree)
  show "sorted (map save_time [demo_save2, demo_save1])" by code_simp
  have "save_ok plain_uuid (\<lambda>e. (''t'', ''ASSET'')) demo_save1 \<and> save_ok plain_uuid (\<lambda>e. (''t'', ''ASSET'')) demo_save2" by code_simp
  then show "\<forall>sv \<in> set [demo_save2, demo_save1]. save_ok plain_uuid (\<lambda>e. (''t'', ''ASSET'')) sv" by simp
qed (simp_all add: attr_demo_def)

text \<open>Two writers that interleave can leave the stores disagreeing: the rows take the order of the
  commits, the twin state the order of the time stamps read after them.\<close>

lemma racing_saves_disagree:
  "\<exists>rows1 rows2 store1 store2.
     save_attributes_rows plain_uuid demo_text demo_clock asset_id 2 [(''on'', JBool True)] no_attributes = Some rows1 \<and>
     save_attributes_rows plain_uuid demo_text demo_clock asset_id 2 [(''on'', JBool False)] rows1 = Some rows2 \<and>
     commit_attributes 20 ''t'' ''ASSET'' asset_id ''SERVER_SCOPE'' 20 [(''on'', JBool False)] new_memory_store = store1 \<and>
     commit_attributes 21 ''t'' ''ASSET'' asset_id ''SERVER_SCOPE'' 21 [(''on'', JBool True)] (fst store1) = store2 \<and>
     map_option cell_value (attr_cell_of rows2 asset_id 2 ''on'') = Some (JBool False) \<and>
     map_option tv_value (twin_attr (fst store2) ''t'' ''ASSET'' asset_id ''SERVER_SCOPE'' ''on'') = Some (JBool True)"
proof -
  let ?save = "\<lambda>b db. save_attributes_rows plain_uuid demo_text demo_clock asset_id 2 [(''on'', JBool b)] db"
  let ?s1 = "commit_attributes 20 ''t'' ''ASSET'' asset_id ''SERVER_SCOPE'' 20 [(''on'', JBool False)] new_memory_store"
  let ?s2 = "commit_attributes 21 ''t'' ''ASSET'' asset_id ''SERVER_SCOPE'' 21 [(''on'', JBool True)] (fst ?s1)"
  have "?save True no_attributes \<noteq> None" by code_simp
  then obtain rows1 where 1: "?save True no_attributes = Some rows1" by blast
  have "?save False (the (?save True no_attributes)) \<noteq> None" by code_simp
  then obtain rows2 where 2: "?save False rows1 = Some rows2" using 1 by auto
  have "map_option cell_value (attr_cell_of (the (?save False (the (?save True no_attributes)))) asset_id 2 ''on'') = Some (JBool False)"
    by code_simp
  then have "map_option cell_value (attr_cell_of rows2 asset_id 2 ''on'') = Some (JBool False)" using 1 2 by simp
  moreover have "map_option tv_value (twin_attr (fst ?s2) ''t'' ''ASSET'' asset_id ''SERVER_SCOPE'' ''on'') = Some (JBool True)"
    by code_simp
  ultimately show ?thesis using 1 2 by blast
qed

text \<open>The rows are written under the id as Postgres reads it, the twin state under its spelling in the
  path: a save addressed to the upper-case id is lost to the readers of the entity's twin state.\<close>

lemma spelling_splits_state:
  "fst (save_attributes_kv plain_uuid demo_text demo_clock ''t'' ''ASSET'' (to_upper asset_id) ''SERVER_SCOPE'' demo_values attr_demo) = Saved"
  "map_option cell_value (attr_cell_of (as_attrs (snd (save_attributes_kv plain_uuid demo_text demo_clock ''t'' ''ASSET''
     (to_upper asset_id) ''SERVER_SCOPE'' demo_values attr_demo))) asset_id 2 ''on'') = Some (JBool True)"
  "get_entity_state ''t'' ''ASSET'' asset_id (the (as_store (snd (save_attributes_kv plain_uuid demo_text demo_clock ''t'' ''ASSET''
     (to_upper asset_id) ''SERVER_SCOPE'' demo_values attr_demo)))) = None"
  by code_simp+

end
