(* ===== verification/TwinWatch.thy ===== *)
theory TwinWatch
  imports TwinStoreLaws TwinStoreNats
begin

text \<open>
  The watch loop that turns changes of the twin state into pushes to the dashboards (twin_state.go): the
  diffs of telemetry and attributes against the last state seen, the fold of an event into that state,
  the bound on the number of states kept, and the loop. A Go map is ranged over in any order: the maps
  of a state in the order of their association list, the map of last states in an order that is an
  argument. Subscribing, retrying and the WebSocket sessions are not modelled.
\<close>

section \<open>Equality of values\<close>

text \<open>reflect.DeepEqual on decoded values compares objects as maps and numbers by value: two values
  are equal when their canonical forms are.\<close>

fun canon :: "json \<Rightarrow> json" where
  "canon (JInt n) = JFrac (of_int n)"
| "canon (JArr vs) = JArr (map canon vs)"
| "canon (JObj kvs) =
     JObj (map (\<lambda>k. (k, the (map_of (rev (map (\<lambda>(k, v). (k, canon v)) kvs)) k))) (sort_dedup (map fst kvs)))"
| "canon v = v"

definition deep_equal :: "json \<Rightarrow> json \<Rightarrow> bool" where
  "deep_equal v w \<longleftrightarrow> canon v = canon w"

section \<open>Diffs\<close>

text \<open>A key counts as changed when it is new or its time stamp or value moved.\<close>

definition moved :: "(str, twin_value) gomap \<Rightarrow> str \<Rightarrow> twin_value \<Rightarrow> bool" where
  "moved old key v \<longleftrightarrow>
     \<not> (case map_of old key of
           Some w \<Rightarrow> tv_ts w = tv_ts v \<and> deep_equal (tv_value w) (tv_value v)
         | None \<Rightarrow> False)"

definition moved_values :: "(str, twin_value) gomap \<Rightarrow> (str, twin_value) gomap \<Rightarrow> (str, json) gomap" where
  "moved_values old new = map (\<lambda>(k, v). (k, tv_value v)) (filter (\<lambda>(k, v). moved old k v) new)"

definition changed_telemetry :: "twin_state \<Rightarrow> twin_state \<Rightarrow> (str, json) gomap \<times> int" where
  "changed_telemetry old new =
     (moved_values (st_telemetry old) (st_telemetry new),
      fold (\<lambda>(k, v) m. if moved (st_telemetry old) k v \<and> m < tv_ts v then tv_ts v else m) (st_telemetry new) 0)"

definition changed_attributes :: "twin_state \<Rightarrow> twin_state \<Rightarrow> (str, (str, json) gomap) gomap" where
  "changed_attributes old new =
     filter (\<lambda>(scope, vs). vs \<noteq> [])
       (map (\<lambda>(scope, vs). (scope, moved_values (scope_values scope old) vs)) (st_attributes new))"

section \<open>The last states\<close>

definition put_values :: "(str, twin_value) gomap \<Rightarrow> (str, twin_value) gomap \<Rightarrow> (str, twin_value) gomap" where
  "put_values new m = fold (\<lambda>(k, v). AList.update k v) new m"

definition merge_last_state :: "twin_state \<Rightarrow> twin_state \<Rightarrow> twin_state" where
  "merge_last_state prev new =
     (if st_entity prev = [] then new
      else prev\<lparr>st_updated := (if st_updated prev < st_updated new then st_updated new else st_updated prev),
                st_telemetry := put_values (st_telemetry new) (st_telemetry prev),
                st_attributes := fold (\<lambda>(scope, vs) m. AList.update scope
                    (put_values vs (case map_of m scope of Some old \<Rightarrow> old | None \<Rightarrow> [])) m) (st_attributes new) (st_attributes prev)\<rparr>)"

fun evict_loop :: "nat \<Rightarrow> str \<Rightarrow> str list \<Rightarrow> (str, twin_state) gomap \<Rightarrow> (str, twin_state) gomap" where
  "evict_loop limit keep [] last_states = last_states"
| "evict_loop limit keep (k # ks) last_states =
     (if k = keep then evict_loop limit keep ks last_states
      else if length (AList.delete k last_states) \<le> limit then AList.delete k last_states
      else evict_loop limit keep ks (AList.delete k last_states))"

definition bound_last_states :: "nat \<Rightarrow> str \<Rightarrow> str list \<Rightarrow> (str, twin_state) gomap \<Rightarrow> (str, twin_state) gomap" where
  "bound_last_states limit keep order last_states =
     (if length last_states \<le> limit then last_states else evict_loop limit keep order last_states)"

definition change_key :: "state_change \<Rightarrow> str" where
  "change_key ch = state_key (st_type (sc_new ch)) (st_tenant (sc_new ch)) (st_entity (sc_new ch))"

definition last_state :: "(str, twin_state) gomap \<Rightarrow> str \<Rightarrow> twin_state" where
  "last_state last_states k = (case map_of last_states k of Some st \<Rightarrow> st | None \<Rightarrow> zero_state)"

definition diff_base :: "(str, twin_state) gomap \<Rightarrow> state_change \<Rightarrow> twin_state" where
  "diff_base last_states ch =
     (let old = last_state last_states (change_key ch) in if st_entity old = [] then sc_old ch else old)"

definition apply_twin_change ::
  "nat \<Rightarrow> str list \<Rightarrow> state_change \<Rightarrow> (str, twin_state) gomap \<Rightarrow>
   ((str, json) gomap \<times> int \<times> (str, (str, json) gomap) gomap) \<times> (str, twin_state) gomap" where
  "apply_twin_change limit order ch last_states =
     (let old = diff_base last_states ch;
          (telemetry, ts) = changed_telemetry old (sc_new ch);
          attributes = changed_attributes old (sc_new ch);
          k = change_key ch
      in ((telemetry, ts, attributes),
          bound_last_states limit k order (AList.update k (merge_last_state (last_state last_states k) (sc_new ch)) last_states)))"

section \<open>The loop\<close>

datatype push =
    PushTelemetry str "(str, json) gomap" int
  | PushAttributes str str "(str, json) gomap"

definition pushes_of :: "str \<Rightarrow> (str, json) gomap \<times> int \<times> (str, (str, json) gomap) gomap \<Rightarrow> push list" where
  "pushes_of entity d =
     (case d of (telemetry, ts, attributes) \<Rightarrow>
        (if telemetry = [] then [] else [PushTelemetry entity telemetry ts]) @
        map (\<lambda>(scope, vs). PushAttributes entity scope vs) attributes)"

text \<open>Each change comes with the order in which the map of last states is ranged over.\<close>

fun watch_changes :: "nat \<Rightarrow> (str list \<times> state_change) list \<Rightarrow> (str, twin_state) gomap \<Rightarrow> push list \<times> (str, twin_state) gomap" where
  "watch_changes limit [] last_states = ([], last_states)"
| "watch_changes limit ((order, ch) # chs) last_states =
     (case apply_twin_change limit order ch last_states of
        (d, last') \<Rightarrow>
          (case watch_changes limit chs last' of
             (pushes, last'') \<Rightarrow> (pushes_of (st_entity (sc_new ch)) d @ pushes, last'')))"

text \<open>The changes the watcher of the NATS store sends for the entries of the bucket, in order and without an old
  state; an entry that is neither a state nor the value of a key is skipped. The channel blocks: none is dropped.\<close>

fun nats_changes :: "(str list \<times> str \<times> payload) list \<Rightarrow> (str list \<times> state_change) list" where
  "nats_changes [] = []"
| "nats_changes ((order, key, p) # es) =
     (case watch_update key p of
        None \<Rightarrow> nats_changes es
      | Some st \<Rightarrow> (order, \<lparr>sc_old = zero_state, sc_new = st\<rparr>) # nats_changes es)"

end
