(* ===== verification/TwinWatchProps.thy ===== *)
theory TwinWatchProps
  imports TwinWatch
begin

text \<open>
  What a dashboard gets from the watch loop: over the NATS store, although only differences are pushed, and
  whatever last states are evicted, it holds the values it would hold had every state been sent whole; and a
  value that did not move is not pushed again.
\<close>

section \<open>Views\<close>

text \<open>A dashboard keeps the last value pushed of every entity, channel (telemetry, or a scope) and key.\<close>

type_synonym view = "str \<times> str option \<times> str \<Rightarrow> json option"

definition put_view :: "str \<Rightarrow> str option \<Rightarrow> (str \<times> json) list \<Rightarrow> view \<Rightarrow> view" where
  "put_view e c vs w = fold (\<lambda>(k, v) w. w((e, c, k) \<mapsto> v)) vs w"

fun receive :: "push \<Rightarrow> view \<Rightarrow> view" where
  "receive (PushTelemetry e vs ts) w = put_view e None vs w"
| "receive (PushAttributes e scope vs) w = put_view e (Some scope) vs w"

definition plain_values :: "(str, twin_value) gomap \<Rightarrow> (str \<times> json) list" where
  "plain_values m = map (\<lambda>(k, v). (k, tv_value v)) m"

text \<open>The reference: every new state is sent whole.\<close>

definition send_state :: "twin_state \<Rightarrow> view \<Rightarrow> view" where
  "send_state st w =
     fold (\<lambda>(scope, vs). put_view (st_entity st) (Some scope) (plain_values vs)) (st_attributes st)
       (put_view (st_entity st) None (plain_values (st_telemetry st)) w)"

definition channel_values :: "str option \<Rightarrow> twin_state \<Rightarrow> (str, twin_value) gomap" where
  "channel_values c st = (case c of None \<Rightarrow> st_telemetry st | Some scope \<Rightarrow> scope_values scope st)"

abbreviation state_value :: "twin_state \<Rightarrow> str option \<Rightarrow> str \<Rightarrow> twin_value option" where
  "state_value st c k \<equiv> map_of (channel_values c st) k"

definition state_wf :: "twin_state \<Rightarrow> bool" where
  "state_wf st \<longleftrightarrow> distinct (map fst (st_telemetry st)) \<and> distinct (map fst (st_attributes st)) \<and>
     (\<forall>(scope, vs) \<in> set (st_attributes st). distinct (map fst vs))"

lemma put_view_distinct:
  "distinct (map fst vs) \<Longrightarrow> put_view e c vs w (e', c', k) =
     (if e' = e \<and> c' = c then (case map_of vs k of Some v \<Rightarrow> Some v | None \<Rightarrow> w (e', c', k)) else w (e', c', k))"
proof (induction vs arbitrary: w)
  case (Cons x vs)
  have "map_of vs (fst x) = None" using Cons.prems by (simp add: map_of_eq_None_iff)
  then show ?case using Cons by (cases x) (auto simp: put_view_def split: option.splits)
qed (simp add: put_view_def)

lemma map_of_moved_values:
  "distinct (map fst new) \<Longrightarrow> map_of (moved_values old new) k =
     (case map_of new k of Some v \<Rightarrow> if moved old k v then Some (tv_value v) else None | None \<Rightarrow> None)"
proof (induction new)
  case (Cons x new)
  have "map_of new (fst x) = None" using Cons.prems by (simp add: map_of_eq_None_iff)
  then show ?case using Cons by (cases x) (auto simp: moved_values_def split: option.splits)
qed (simp add: moved_values_def)

lemma map_of_plain_values: "map_of (plain_values m) k = map_option tv_value (map_of m k)"
  by (induction m) (auto simp: plain_values_def)

lemma distinct_plain_values [simp]: "distinct (map fst (plain_values m)) = distinct (map fst m)"
  by (simp add: plain_values_def comp_def split_def)

lemma distinct_moved_values: "distinct (map fst new) \<Longrightarrow> distinct (map fst (moved_values old new))"
  by (auto simp: moved_values_def comp_def split_def distinct_map inj_on_def)

lemma scope_values_in: "distinct (map fst (st_attributes st)) \<Longrightarrow> (scope, vs) \<in> set (st_attributes st) \<Longrightarrow> scope_values scope st = vs"
  by (simp add: scope_values_def)

lemma put_scopes:
  "distinct (map fst atts) \<Longrightarrow> \<forall>(scope, vs) \<in> set atts. distinct (map fst (f scope vs)) \<Longrightarrow>
    fold (\<lambda>(scope, vs). put_view e (Some scope) (f scope vs)) atts w (e', c, k) =
      (case c of None \<Rightarrow> w (e', c, k)
       | Some s \<Rightarrow> if e' = e
           then (case map_of atts s of None \<Rightarrow> w (e', c, k)
                 | Some vs \<Rightarrow> (case map_of (f s vs) k of Some v \<Rightarrow> Some v | None \<Rightarrow> w (e', c, k)))
           else w (e', c, k))"
proof (induction atts arbitrary: w)
  case Nil
  then show ?case by (simp split: option.split)
next
  case (Cons x atts)
  obtain s0 vs0 where x: "x = (s0, vs0)" by force
  have no: "map_of atts s0 = None" and d: "distinct (map fst (f s0 vs0))"
    using Cons.prems by (auto simp: x map_of_eq_None_iff)
  have "fold (\<lambda>(scope, vs). put_view e (Some scope) (f scope vs)) (x # atts) w (e', c, k) =
      fold (\<lambda>(scope, vs). put_view e (Some scope) (f scope vs)) atts (put_view e (Some s0) (f s0 vs0) w) (e', c, k)"
    by (simp add: x)
  also have "\<dots> = (case c of None \<Rightarrow> put_view e (Some s0) (f s0 vs0) w (e', c, k)
       | Some s \<Rightarrow> if e' = e
           then (case map_of atts s of None \<Rightarrow> put_view e (Some s0) (f s0 vs0) w (e', c, k)
                 | Some vs \<Rightarrow> (case map_of (f s vs) k of Some v \<Rightarrow> Some v | None \<Rightarrow> put_view e (Some s0) (f s0 vs0) w (e', c, k)))
           else put_view e (Some s0) (f s0 vs0) w (e', c, k))"
    using Cons.prems by (intro Cons.IH) simp_all
  finally show ?case using no by (auto simp: x put_view_distinct [OF d] split: option.split)
qed

lemma send_state_at:
  assumes "state_wf st"
  shows "send_state st w (e, c, k) =
    (if e = st_entity st then (case state_value st c k of Some x \<Rightarrow> Some (tv_value x) | None \<Rightarrow> w (e, c, k)) else w (e, c, k))"
proof -
  have d: "distinct (map fst (st_telemetry st))" "distinct (map fst (st_attributes st))"
    "\<forall>(scope, vs) \<in> set (st_attributes st). distinct (map fst (plain_values vs))"
    using assms by (simp_all add: state_wf_def)
  have "send_state st w (e, c, k) = (case c of None \<Rightarrow> put_view (st_entity st) None (plain_values (st_telemetry st)) w (e, c, k)
       | Some s \<Rightarrow> if e = st_entity st
           then (case map_of (st_attributes st) s of None \<Rightarrow> put_view (st_entity st) None (plain_values (st_telemetry st)) w (e, c, k)
                 | Some vs \<Rightarrow> (case map_of (plain_values vs) k of Some v \<Rightarrow> Some v
                              | None \<Rightarrow> put_view (st_entity st) None (plain_values (st_telemetry st)) w (e, c, k)))
           else put_view (st_entity st) None (plain_values (st_telemetry st)) w (e, c, k))"
    unfolding send_state_def by (rule put_scopes [OF d(2), where f = "\<lambda>_. plain_values"]) (use d(3) in simp)
  then show ?thesis using d(1)
    by (auto simp: put_view_distinct map_of_plain_values channel_values_def scope_values_def split: option.split)
qed

lemma receive_attributes:
  "fold receive (map (\<lambda>(scope, vs). PushAttributes e scope vs) (filter (\<lambda>(scope, vs). vs \<noteq> []) atts)) w =
    fold (\<lambda>(scope, vs). put_view e (Some scope) vs) atts w"
  by (induction atts arbitrary: w) (auto simp: put_view_def)

lemma receive_changes_at:
  assumes "state_wf new"
  shows "fold receive (pushes_of e (fst (changed_telemetry old new), snd (changed_telemetry old new), changed_attributes old new)) w (e', c, k) =
    (if e' = e then (case state_value new c k of
         Some x \<Rightarrow> if moved (channel_values c old) k x then Some (tv_value x) else w (e', c, k)
       | None \<Rightarrow> w (e', c, k)) else w (e', c, k))"
proof -
  have d: "distinct (map fst (st_telemetry new))" "distinct (map fst (st_attributes new))"
    "\<forall>(scope, vs) \<in> set (st_attributes new). distinct (map fst (moved_values (scope_values scope old) vs))"
    using assms by (auto simp: state_wf_def intro: distinct_moved_values)
  let ?w = "put_view e None (moved_values (st_telemetry old) (st_telemetry new)) w"
  have t: "fold receive (if fst (changed_telemetry old new) = [] then []
      else [PushTelemetry e (fst (changed_telemetry old new)) (snd (changed_telemetry old new))]) w = ?w"
    by (simp add: changed_telemetry_def put_view_def)
  have "fold receive (pushes_of e (fst (changed_telemetry old new), snd (changed_telemetry old new), changed_attributes old new)) w =
      fold (\<lambda>(scope, vs). put_view e (Some scope) (moved_values (scope_values scope old) vs)) (st_attributes new) ?w"
    unfolding pushes_of_def prod.case fold_append comp_def t changed_attributes_def receive_attributes
    by (simp add: fold_map comp_def split_def)
  then have "fold receive (pushes_of e (fst (changed_telemetry old new), snd (changed_telemetry old new), changed_attributes old new)) w (e', c, k) =
      fold (\<lambda>(scope, vs). put_view e (Some scope) (moved_values (scope_values scope old) vs)) (st_attributes new) ?w (e', c, k)"
    by simp
  also have "\<dots> = (case c of None \<Rightarrow> ?w (e', c, k)
       | Some s \<Rightarrow> if e' = e
           then (case map_of (st_attributes new) s of None \<Rightarrow> ?w (e', c, k)
                 | Some vs \<Rightarrow> (case map_of (moved_values (scope_values s old) vs) k of Some v \<Rightarrow> Some v | None \<Rightarrow> ?w (e', c, k)))
           else ?w (e', c, k))"
    by (rule put_scopes [where f = "\<lambda>scope. moved_values (scope_values scope old)", OF d(2,3)])
  finally show ?thesis using assms d(1)
    by (auto simp: put_view_distinct distinct_moved_values map_of_moved_values channel_values_def scope_values_def state_wf_def
        split: option.split dest: map_of_SomeD)
qed

text \<open>The fold of an event into the last state.\<close>

lemma map_of_put_values: "distinct (map fst new) \<Longrightarrow> map_of (put_values new m) k = (case map_of new k of Some x \<Rightarrow> Some x | None \<Rightarrow> map_of m k)"
proof (induction new arbitrary: m)
  case (Cons x new)
  have "map_of new (fst x) = None" using Cons.prems by (simp add: map_of_eq_None_iff)
  then show ?case using Cons by (cases x) (auto simp: put_values_def update_conv' split: option.splits)
qed (simp add: put_values_def)

lemma put_scope_values:
  "distinct (map fst atts) \<Longrightarrow>
    map_of (fold (\<lambda>(scope, vs) m. AList.update scope (put_values vs (case map_of m scope of Some old \<Rightarrow> old | None \<Rightarrow> [])) m) atts m) s =
      (case map_of atts s of None \<Rightarrow> map_of m s
       | Some vs \<Rightarrow> Some (put_values vs (case map_of m s of Some old \<Rightarrow> old | None \<Rightarrow> [])))"
proof (induction atts arbitrary: m)
  case (Cons x atts)
  obtain s0 vs0 where x: "x = (s0, vs0)" by force
  have no: "map_of atts s0 = None" and d: "distinct (map fst atts)" using Cons.prems by (simp_all add: x map_of_eq_None_iff)
  let ?m = "AList.update s0 (put_values vs0 (case map_of m s0 of Some old \<Rightarrow> old | None \<Rightarrow> [])) m"
  have "map_of (fold (\<lambda>(scope, vs) m. AList.update scope (put_values vs (case map_of m scope of Some old \<Rightarrow> old | None \<Rightarrow> [])) m) (x # atts) m) s =
      (case map_of atts s of None \<Rightarrow> map_of ?m s
       | Some vs \<Rightarrow> Some (put_values vs (case map_of ?m s of Some old \<Rightarrow> old | None \<Rightarrow> [])))"
    using Cons.IH [OF d, of ?m] by (simp add: x)
  moreover have "map_of ?m s = (if s = s0 then Some (put_values vs0 (case map_of m s0 of Some old \<Rightarrow> old | None \<Rightarrow> [])) else map_of m s)"
    by (simp add: update_conv')
  ultimately show ?case using no by (simp only: x map_of.simps fun_upd_apply fst_conv snd_conv split: if_split) simp
qed simp

lemma merge_last_state_at:
  assumes "state_wf new"
  shows "state_value (merge_last_state prev new) c k =
    (if st_entity prev = [] then state_value new c k
     else (case state_value new c k of Some x \<Rightarrow> Some x | None \<Rightarrow> state_value prev c k))"
proof (cases c)
  case None
  then show ?thesis using assms
    by (simp add: channel_values_def merge_last_state_def map_of_put_values state_wf_def split: option.split)
next
  case (Some scope)
  have d: "distinct (map fst (st_attributes new))" using assms by (simp add: state_wf_def)
  have v: "distinct (map fst vs)" if "map_of (st_attributes new) scope = Some vs" for vs
    using assms map_of_SomeD [OF that] by (auto simp: state_wf_def)
  show ?thesis
  proof (cases "map_of (st_attributes new) scope")
    case None
    then show ?thesis using Some
      by (simp add: channel_values_def scope_values_def merge_last_state_def put_scope_values [OF d])
  next
    case vs: (Some vs)
    then show ?thesis using Some v [OF vs]
      by (simp add: channel_values_def scope_values_def merge_last_state_def put_scope_values [OF d] map_of_put_values
          split: option.split)
  qed
qed

lemma merge_last_state_entity [simp]:
  "st_entity (merge_last_state prev new) = (if st_entity prev = [] then st_entity new else st_entity prev)"
  by (simp add: merge_last_state_def)

lemma map_of_evict: "map_of (evict_loop limit keep order m) k = Some st \<Longrightarrow> map_of m k = Some st"
proof (induction order arbitrary: m)
  case (Cons a order)
  have "map_of m k = Some st" if "map_of (AList.delete a m) k = Some st"
    using that by (cases "k = a") (simp_all add: delete_conv')
  then show ?case using Cons by (metis evict_loop.simps(2))
qed simp

lemma map_of_bound: "map_of (bound_last_states limit keep order m) k = Some st \<Longrightarrow> map_of m k = Some st"
  unfolding bound_last_states_def using map_of_evict by (metis (full_types))

section \<open>The history\<close>

text \<open>What a change claims to be the old state was sent before; for the NATS store, whose changes carry
  no old state, this always holds.\<close>

definition old_sent :: "state_change \<Rightarrow> view \<Rightarrow> bool" where
  "old_sent ch w \<longleftrightarrow> (\<forall>c k x. state_value (sc_old ch) c k = Some x \<longrightarrow>
     map_option canon (w (st_entity (sc_new ch), c, k)) = Some (canon (tv_value x)))"

fun history_ok :: "(str \<Rightarrow> str \<times> str) \<Rightarrow> state_change list \<Rightarrow> view \<Rightarrow> bool" where
  "history_ok own [] w = True"
| "history_ok own (ch # chs) w =
     (state_wf (sc_new ch) \<and> st_entity (sc_new ch) \<noteq> [] \<and> CHR ''.'' \<notin> set (st_entity (sc_new ch)) \<and>
      own (st_entity (sc_new ch)) = (st_type (sc_new ch), st_tenant (sc_new ch)) \<and> old_sent ch w \<and>
      history_ok own chs (send_state (sc_new ch) w))"

definition entity_key :: "(str \<Rightarrow> str \<times> str) \<Rightarrow> str \<Rightarrow> str" where
  "entity_key own e = state_key (fst (own e)) (snd (own e)) e"

text \<open>The last states are states of their entities whose values were all sent.\<close>

definition lasts_sent :: "(str \<Rightarrow> str \<times> str) \<Rightarrow> (str, twin_state) gomap \<Rightarrow> view \<Rightarrow> bool" where
  "lasts_sent own last_states w \<longleftrightarrow> (\<forall>key st. map_of last_states key = Some st \<longrightarrow>
     st_entity st \<noteq> [] \<and> CHR ''.'' \<notin> set (st_entity st) \<and> key = entity_key own (st_entity st) \<and>
     (\<forall>c k x. state_value st c k = Some x \<longrightarrow> map_option canon (w (st_entity st, c, k)) = Some (canon (tv_value x))))"

definition same_view :: "view \<Rightarrow> view \<Rightarrow> bool" where
  "same_view v w \<longleftrightarrow> (\<forall>p. map_option canon (v p) = map_option canon (w p))"

lemma last_state_zero: "map_of m k = None \<Longrightarrow> st_entity (last_state m k) = []"
  by (simp add: last_state_def zero_state_def)

lemma diff_base_sent:
  assumes "lasts_sent own last_states w" "old_sent ch w" "CHR ''.'' \<notin> set (st_entity (sc_new ch))"
    "own (st_entity (sc_new ch)) = (st_type (sc_new ch), st_tenant (sc_new ch))"
    "state_value (diff_base last_states ch) c k = Some x"
  shows "map_option canon (w (st_entity (sc_new ch), c, k)) = Some (canon (tv_value x))"
proof (cases "st_entity (last_state last_states (change_key ch)) = []")
  case True
  then have "diff_base last_states ch = sc_old ch" by (simp add: diff_base_def Let_def)
  then show ?thesis using assms(2,5) unfolding old_sent_def by auto
next
  case False
  then obtain st where st: "map_of last_states (change_key ch) = Some st" using last_state_zero by fastforce
  then have l: "st_entity st \<noteq> []" "CHR ''.'' \<notin> set (st_entity st)" "change_key ch = entity_key own (st_entity st)"
    "\<And>c k x. state_value st c k = Some x \<Longrightarrow> map_option canon (w (st_entity st, c, k)) = Some (canon (tv_value x))"
    using assms(1) unfolding lasts_sent_def by blast+
  have "st_entity (sc_new ch) = st_entity st"
    using l(3) state_key_entity [OF assms(3) l(2)] by (simp add: change_key_def entity_key_def)
  moreover have "diff_base last_states ch = st" using st False by (simp add: diff_base_def last_state_def Let_def)
  ultimately show ?thesis using l(4) assms(5) by simp
qed

section \<open>Lossless diffs\<close>

lemma apply_twin_change_eq:
  "apply_twin_change limit order ch L =
    ((fst (changed_telemetry (diff_base L ch) (sc_new ch)), snd (changed_telemetry (diff_base L ch) (sc_new ch)),
      changed_attributes (diff_base L ch) (sc_new ch)),
     bound_last_states limit (change_key ch) order
       (AList.update (change_key ch) (merge_last_state (last_state L (change_key ch)) (sc_new ch)) L))"
  by (simp add: apply_twin_change_def Let_def split_def)

lemma last_state_own:
  assumes "lasts_sent own L w" "CHR ''.'' \<notin> set (st_entity (sc_new ch))" "st_entity (last_state L (change_key ch)) \<noteq> []"
  shows "st_entity (last_state L (change_key ch)) = st_entity (sc_new ch)"
    "state_value (last_state L (change_key ch)) c k = Some x \<Longrightarrow>
      map_option canon (w (st_entity (sc_new ch), c, k)) = Some (canon (tv_value x))"
proof -
  obtain st where st: "map_of L (change_key ch) = Some st" using last_state_zero assms(3) by fastforce
  then have l: "last_state L (change_key ch) = st" by (simp add: last_state_def)
  have k: "CHR ''.'' \<notin> set (st_entity st)" "change_key ch = entity_key own (st_entity st)"
    "\<And>c k x. state_value st c k = Some x \<Longrightarrow> map_option canon (w (st_entity st, c, k)) = Some (canon (tv_value x))"
    using assms(1) st unfolding lasts_sent_def by blast+
  have e: "st_entity st = st_entity (sc_new ch)"
    by (rule state_key_entity [OF k(1) assms(2) k(2) [unfolded change_key_def entity_key_def, symmetric]])
  then show "st_entity (last_state L (change_key ch)) = st_entity (sc_new ch)" by (simp add: l)
  show "map_option canon (w (st_entity (sc_new ch), c, k)) = Some (canon (tv_value x))"
    if "state_value (last_state L (change_key ch)) c k = Some x"
    using k(3) that e by (simp add: l)
qed

lemma watch_step:
  assumes "lasts_sent own L w" "same_view v w" "history_ok own (ch # chs) w" "apply_twin_change limit order ch L = (d, L')"
  shows "same_view (fold receive (pushes_of (st_entity (sc_new ch)) d) v) (send_state (sc_new ch) w)"
    "lasts_sent own L' (send_state (sc_new ch) w)"
proof -
  let ?new = "sc_new ch" and ?k = "change_key ch"
  have h: "state_wf ?new" "st_entity ?new \<noteq> []" "CHR ''.'' \<notin> set (st_entity ?new)"
    "own (st_entity ?new) = (st_type ?new, st_tenant ?new)" "old_sent ch w" using assms(3) by simp_all
  let ?d = "(fst (changed_telemetry (diff_base L ch) ?new), snd (changed_telemetry (diff_base L ch) ?new),
     changed_attributes (diff_base L ch) ?new)"
  have d: "d = ?d" and L': "L' = bound_last_states limit ?k order (AList.update ?k (merge_last_state (last_state L ?k) ?new) L)"
    using assms(4) by (simp_all add: apply_twin_change_eq)
  have v: "map_option canon (v p) = map_option canon (w p)" for p using assms(2) unfolding same_view_def by blast
  have unmoved: "map_option canon (w (st_entity ?new, c, k)) = Some (canon (tv_value x))"
    if "\<not> moved (channel_values c (diff_base L ch)) k x" for c k x
  proof -
    from that obtain y where y: "state_value (diff_base L ch) c k = Some y" "canon (tv_value y) = canon (tv_value x)"
      by (auto simp: moved_def deep_equal_def split: option.splits)
    then show ?thesis using diff_base_sent [OF assms(1) h(5,3,4) y(1)] by simp
  qed
  have "map_option canon (fold receive (pushes_of (st_entity ?new) ?d) v (e, c, k)) = map_option canon (send_state ?new w (e, c, k))" for e c k
    unfolding receive_changes_at [OF h(1)] send_state_at [OF h(1)] by (simp add: v unmoved del: map_option_eq_Some split: option.split)
  then show "same_view (fold receive (pushes_of (st_entity ?new) d) v) (send_state ?new w)"
    unfolding same_view_def d by auto
  have key: "?k = entity_key own (st_entity ?new)" using h(4) by (simp add: change_key_def entity_key_def)
  show "lasts_sent own L' (send_state ?new w)"
    unfolding lasts_sent_def
  proof (intro allI impI)
    fix key st
    assume "map_of L' key = Some st"
    then have m: "map_of (AList.update ?k (merge_last_state (last_state L ?k) ?new) L) key = Some st"
      unfolding L' by (rule map_of_bound)
    show "st_entity st \<noteq> [] \<and> CHR ''.'' \<notin> set (st_entity st) \<and> key = entity_key own (st_entity st) \<and>
        (\<forall>c k x. state_value st c k = Some x \<longrightarrow>
           map_option canon (send_state ?new w (st_entity st, c, k)) = Some (canon (tv_value x)))"
    proof (cases "key = ?k")
      case True
      with m have st: "st = merge_last_state (last_state L ?k) ?new" by (simp add: update_conv')
      have e: "st_entity st = st_entity ?new" using last_state_own(1) [OF assms(1) h(3)] by (auto simp: st)
      have "map_option canon (send_state ?new w (st_entity st, c, k)) = Some (canon (tv_value x))"
        if "state_value st c k = Some x" for c k x
        using that last_state_own(2) [OF assms(1) h(3)] unfolding st merge_last_state_at [OF h(1)] e [unfolded st] send_state_at [OF h(1)]
        by (auto split: option.splits if_splits)
      then show ?thesis using e h(2,3) True key by simp
    next
      case False
      with m have "map_of L key = Some st" by (simp add: update_conv')
      then have l: "st_entity st \<noteq> []" "CHR ''.'' \<notin> set (st_entity st)" "key = entity_key own (st_entity st)"
        "\<And>c k x. state_value st c k = Some x \<Longrightarrow> map_option canon (w (st_entity st, c, k)) = Some (canon (tv_value x))"
        using assms(1) unfolding lasts_sent_def by blast+
      then have "st_entity st \<noteq> st_entity ?new" using False key by auto
      then show ?thesis using l by (simp add: send_state_at [OF h(1)])
    qed
  qed
qed

lemma watch_run:
  "lasts_sent own L w \<Longrightarrow> same_view v w \<Longrightarrow> history_ok own (map snd hs) w \<Longrightarrow>
    same_view (fold receive (fst (watch_changes limit hs L)) v) (fold (\<lambda>ch. send_state (sc_new ch)) (map snd hs) w)"
proof (induction hs arbitrary: L v w)
  case Nil
  then show ?case by simp
next
  case (Cons x hs)
  obtain order ch where x: "x = (order, ch)" by force
  obtain d L' where a: "apply_twin_change limit order ch L = (d, L')" by (meson surj_pair)
  have h: "history_ok own (ch # map snd hs) w" using Cons.prems(3) by (simp add: x)
  note step = watch_step [OF Cons.prems(1,2) h a]
  have "fst (watch_changes limit (x # hs) L) = pushes_of (st_entity (sc_new ch)) d @ fst (watch_changes limit hs L')"
    by (simp add: x a split_def)
  then show ?case using Cons.IH [OF step(2,1)] h by (simp add: x)
qed

text \<open>The changes of the NATS store carry no old state.\<close>

lemma history_without_old:
  "\<forall>ch \<in> set chs. sc_old ch = zero_state \<and> state_wf (sc_new ch) \<and> st_entity (sc_new ch) \<noteq> [] \<and>
     CHR ''.'' \<notin> set (st_entity (sc_new ch)) \<and> own (st_entity (sc_new ch)) = (st_type (sc_new ch), st_tenant (sc_new ch)) \<Longrightarrow>
   history_ok own chs w"
  by (induction chs arbitrary: w)
    (auto simp: old_sent_def channel_values_def zero_state_def scope_values_def split: option.splits)

text \<open>The keys of a decoded document are unique, as those of a Go map are.\<close>

definition decoded_maps :: "payload \<Rightarrow> bool" where
  "decoded_maps p \<longleftrightarrow> (case p of StatePayload st \<Rightarrow> state_wf st | _ \<Rightarrow> True)"

text \<open>The entries of the bucket name their entities by ids that are not empty and have no dot, each of one type and tenant.\<close>

definition named_entry :: "(str \<Rightarrow> str \<times> str) \<Rightarrow> str \<Rightarrow> payload \<Rightarrow> bool" where
  "named_entry own key p \<longleftrightarrow>
     (case watch_update key p of
        None \<Rightarrow> True
      | Some st \<Rightarrow> st_entity st \<noteq> [] \<and> CHR ''.'' \<notin> set (st_entity st) \<and> own (st_entity st) = (st_type st, st_tenant st))"

lemma watch_update_wf: "watch_update key p = Some st \<Longrightarrow> decoded_maps p \<Longrightarrow> state_wf st"
  by (auto simp: watch_update_def decode_state_def decode_value_def decoded_maps_def state_wf_def ensure_state_def zero_state_def
      split: payload.splits option.splits if_splits sum.splits prod.splits)

lemma nats_changes_in:
  "(order, ch) \<in> set (nats_changes es) \<Longrightarrow>
   \<exists>key p. (order, key, p) \<in> set es \<and> watch_update key p = Some (sc_new ch) \<and> sc_old ch = zero_state"
proof (induction es rule: nats_changes.induct)
  case (2 order' key p es)
  show ?case
  proof (cases "watch_update key p")
    case None
    with 2 show ?thesis by auto
  next
    case (Some st)
    with "2.prems" consider "order = order'" "ch = \<lparr>sc_old = zero_state, sc_new = st\<rparr>" | "(order, ch) \<in> set (nats_changes es)" by auto
    then show ?thesis
    proof cases
      case 1
      with Some show ?thesis by auto
    next
      case 2
      with "2.IH"(2) [OF Some] show ?thesis by auto
    qed
  qed
qed simp

lemma nats_history_ok:
  assumes "\<forall>(order, key, p) \<in> set es. decoded_maps p \<and> named_entry own key p"
  shows "history_ok own (map snd (nats_changes es)) w"
proof (rule history_without_old, rule ballI)
  fix ch
  assume "ch \<in> set (map snd (nats_changes es))"
  then obtain order where "(order, ch) \<in> set (nats_changes es)" by auto
  from nats_changes_in [OF this] obtain key p where e: "(order, key, p) \<in> set es" "watch_update key p = Some (sc_new ch)" "sc_old ch = zero_state" by blast
  from assms e(1) have "decoded_maps p" "named_entry own key p" by auto
  with e(2,3) watch_update_wf [OF e(2)] show "sc_old ch = zero_state \<and> state_wf (sc_new ch) \<and> st_entity (sc_new ch) \<noteq> [] \<and>
     CHR ''.'' \<notin> set (st_entity (sc_new ch)) \<and> own (st_entity (sc_new ch)) = (st_type (sc_new ch), st_tenant (sc_new ch))"
    by (simp add: named_entry_def)
qed

definition states_sent :: "(str list \<times> state_change) list \<Rightarrow> view \<Rightarrow> view" where
  "states_sent hs w = fold (\<lambda>ch. send_state (sc_new ch)) (map snd hs) w"

text \<open>C21: Over the NATS store the diffs are lossless. For every sequence of entries the watcher of the bucket delivers, every
  bound on the number of last states kept and every order of eviction, a dashboard that receives the pushes of the loop holds
  for every entity, channel and key the value it would hold had every delivered state been sent whole, up to deep equality.
  Entity ids are not empty, have no dot and belong to one type and tenant each. (The changes of the in-memory store carry an old
  state and may be dropped; there eviction can lose a value, see \<open>eviction_keeps_stale_value\<close>.)\<close>

theorem diffs_lossless:
  assumes "\<forall>(order, key, p) \<in> set es. decoded_maps p \<and> named_entry own key p"
  shows "same_view (fold receive (fst (watch_changes limit (nats_changes es) [])) (\<lambda>_. None)) (states_sent (nats_changes es) (\<lambda>_. None))"
  unfolding states_sent_def using nats_history_ok [OF assms] by (intro watch_run) (simp_all add: lasts_sent_def same_view_def)

section \<open>Exact pushes\<close>

text \<open>The value of a key last seen, with its time stamp.\<close>

definition see :: "twin_state \<Rightarrow> (str \<Rightarrow> str option \<Rightarrow> str \<Rightarrow> twin_value option) \<Rightarrow> str \<Rightarrow> str option \<Rightarrow> str \<Rightarrow> twin_value option" where
  "see st f e c k = (if e = st_entity st then (case state_value st c k of Some x \<Rightarrow> Some x | None \<Rightarrow> f e c k) else f e c k)"

definition seen :: "state_change list \<Rightarrow> str \<Rightarrow> str option \<Rightarrow> str \<Rightarrow> twin_value option" where
  "seen chs = fold (\<lambda>ch. see (sc_new ch)) chs (\<lambda>e c k. None)"

definition pushed :: "push list \<Rightarrow> str \<Rightarrow> str option \<Rightarrow> str \<Rightarrow> bool" where
  "pushed ps e c k \<longleftrightarrow>
     (case c of
        None \<Rightarrow> (\<exists>vs ts. PushTelemetry e vs ts \<in> set ps \<and> k \<in> fst ` set vs)
      | Some scope \<Rightarrow> (\<exists>vs. PushAttributes e scope vs \<in> set ps \<and> k \<in> fst ` set vs))"

text \<open>Without eviction the last states hold what was seen.\<close>

definition lasts_seen :: "(str \<Rightarrow> str \<times> str) \<Rightarrow> str set \<Rightarrow> (str, twin_state) gomap \<Rightarrow> (str \<Rightarrow> str option \<Rightarrow> str \<Rightarrow> twin_value option) \<Rightarrow> bool" where
  "lasts_seen own E L f \<longleftrightarrow> distinct (map fst L) \<and> fst ` set L \<subseteq> entity_key own ` E \<and>
     (\<forall>e \<in> E. \<forall>c k. state_value (last_state L (entity_key own e)) c k = f e c k) \<and>
     (\<forall>e \<in> E. st_entity (last_state L (entity_key own e)) \<in> {[], e} \<and>
        (st_entity (last_state L (entity_key own e)) = [] \<longrightarrow> (\<forall>c k. f e c k = None)))"

lemma no_eviction:
  assumes "distinct (map fst L)" "fst ` set L \<subseteq> entity_key own ` E" "finite E" "card E \<le> limit"
  shows "bound_last_states limit k order L = L"
proof -
  have "length L = card (fst ` set L)" using assms(1) by (metis distinct_card length_map set_map)
  also have "\<dots> \<le> card (entity_key own ` E)" by (rule card_mono) (use assms(2,3) in auto)
  also have "\<dots> \<le> card E" by (rule card_image_le [OF assms(3)])
  finally show ?thesis using assms(4) by (simp add: bound_last_states_def)
qed

definition known_change :: "(str \<Rightarrow> str \<times> str) \<Rightarrow> str set \<Rightarrow> state_change \<Rightarrow> bool" where
  "known_change own E ch \<longleftrightarrow> sc_old ch = zero_state \<and> state_wf (sc_new ch) \<and> st_entity (sc_new ch) \<in> E \<and>
     own (st_entity (sc_new ch)) = (st_type (sc_new ch), st_tenant (sc_new ch))"

definition entities_ok :: "str set \<Rightarrow> bool" where
  "entities_ok E \<longleftrightarrow> finite E \<and> (\<forall>e \<in> E. e \<noteq> [] \<and> CHR ''.'' \<notin> set e)"

lemma zero_state_value [simp]: "state_value zero_state c k = None"
  by (simp add: channel_values_def zero_state_def scope_values_def split: option.split)

lemma entity_key_inj: "entities_ok E \<Longrightarrow> e \<in> E \<Longrightarrow> e' \<in> E \<Longrightarrow> entity_key own e = entity_key own e' \<Longrightarrow> e = e'"
  unfolding entities_ok_def entity_key_def using state_key_entity by metis

lemma lasts_seen_step:
  assumes "lasts_seen own E L f" "known_change own E ch" "entities_ok E" "card E \<le> limit"
  shows "lasts_seen own E (snd (apply_twin_change limit order ch L)) (see (sc_new ch) f)"
proof -
  let ?new = "sc_new ch" and ?e = "st_entity (sc_new ch)" and ?k = "change_key ch"
  define M where "M = AList.update ?k (merge_last_state (last_state L ?k) ?new) L"
  have n: "state_wf ?new" "?e \<in> E" "?k = entity_key own ?e" "?e \<noteq> []" "finite E"
    using assms(2,3) by (auto simp: known_change_def change_key_def entity_key_def entities_ok_def)
  have l: "distinct (map fst L)" "fst ` set L \<subseteq> entity_key own ` E"
    "\<And>e c k. e \<in> E \<Longrightarrow> state_value (last_state L (entity_key own e)) c k = f e c k"
    "\<And>e. e \<in> E \<Longrightarrow> st_entity (last_state L (entity_key own e)) \<in> {[], e}"
    "\<And>e c k. e \<in> E \<Longrightarrow> st_entity (last_state L (entity_key own e)) = [] \<Longrightarrow> f e c k = None"
    using assms(1) by (auto simp: lasts_seen_def)
  have sub: "distinct (map fst M)" "fst ` set M \<subseteq> entity_key own ` E"
  proof -
    show "distinct (map fst M)" using l(1) by (simp add: M_def distinct_update)
    have "fst ` set M \<subseteq> insert ?k (fst ` set L)" unfolding M_def by (simp add: dom_update)
    then show "fst ` set M \<subseteq> entity_key own ` E" using l(2) n(2,3) by auto
  qed
  have L': "snd (apply_twin_change limit order ch L) = M"
    using no_eviction [OF sub n(5) assms(4)] by (simp add: apply_twin_change_eq M_def)
  have new: "last_state M (entity_key own e) = (if e = ?e then merge_last_state (last_state L ?k) ?new else last_state L (entity_key own e))"
    if "e \<in> E" for e
    using entity_key_inj [OF assms(3) that n(2)] n(3) by (auto simp: last_state_def update_conv' M_def)
  have "state_value (last_state M (entity_key own e)) c k = see ?new f e c k" if "e \<in> E" for e c k
    using l(3,5) [OF that] n(2,3) by (auto simp: new [OF that] see_def merge_last_state_at [OF n(1)] split: option.split)
  moreover have "st_entity (last_state M (entity_key own e)) \<in> {[], e}" if "e \<in> E" for e
    using l(4) [OF that] n(3) by (auto simp: new [OF that])
  moreover have "see ?new f e c k = None" if "e \<in> E" "st_entity (last_state M (entity_key own e)) = []" for e c k
    using l(5) [OF that(1)] that n(3,4) by (auto simp: new [OF that(1)] see_def split: if_splits)
  ultimately show ?thesis using sub unfolding lasts_seen_def L' by blast
qed

lemma lasts_seen_run:
  "lasts_seen own E L f \<Longrightarrow> \<forall>x \<in> set hs. known_change own E (snd x) \<Longrightarrow> entities_ok E \<Longrightarrow> card E \<le> limit \<Longrightarrow>
    lasts_seen own E (snd (watch_changes limit hs L)) (fold (\<lambda>ch. see (sc_new ch)) (map snd hs) f)"
proof (induction hs arbitrary: L f)
  case (Cons x hs)
  have "snd (watch_changes limit (x # hs) L) = snd (watch_changes limit hs (snd (apply_twin_change limit (fst x) (snd x) L)))"
    by (cases x) (simp add: split_def)
  then show ?case using Cons.IH [OF lasts_seen_step [OF Cons.prems(1)]] Cons.prems by simp
qed simp

lemma moved_in: "k \<in> fst ` set (moved_values old new) \<longleftrightarrow> (\<exists>x. (k, x) \<in> set new \<and> moved old k x)"
  by (force simp: moved_values_def)

lemma pushed_iff:
  assumes "state_wf new"
  shows "pushed (pushes_of e (fst (changed_telemetry old new), ts, changed_attributes old new)) e c k \<longleftrightarrow>
    (\<exists>x. state_value new c k = Some x \<and> moved (channel_values c old) k x)"
proof (cases c)
  case None
  have "distinct (map fst (st_telemetry new))" using assms by (simp add: state_wf_def)
  then have "(\<exists>x. state_value new c k = Some x \<and> moved (channel_values c old) k x) \<longleftrightarrow>
      k \<in> fst ` set (moved_values (st_telemetry old) (st_telemetry new))"
    unfolding moved_in by (simp add: None channel_values_def)
  then show ?thesis by (auto simp: None pushed_def pushes_of_def changed_telemetry_def)
next
  case (Some scope)
  have d: "distinct (map fst (st_attributes new))" "\<forall>(s, vs) \<in> set (st_attributes new). distinct (map fst vs)"
    using assms by (simp_all add: state_wf_def)
  have "pushed (pushes_of e (fst (changed_telemetry old new), ts, changed_attributes old new)) e c k \<longleftrightarrow>
      (\<exists>vs. (scope, vs) \<in> set (st_attributes new) \<and> k \<in> fst ` set (moved_values (scope_values scope old) vs))"
  proof -
    have "PushAttributes e scope vs \<in> set (pushes_of e (t, ts, atts)) \<longleftrightarrow> (scope, vs) \<in> set atts" for vs t atts
      by (auto simp: pushes_of_def)
    then have "pushed (pushes_of e (fst (changed_telemetry old new), ts, changed_attributes old new)) e c k \<longleftrightarrow>
        (\<exists>vs. (scope, vs) \<in> set (changed_attributes old new) \<and> k \<in> fst ` set vs)" by (simp add: Some pushed_def)
    also have "\<dots> \<longleftrightarrow> (\<exists>vs. (scope, vs) \<in> set (st_attributes new) \<and> k \<in> fst ` set (moved_values (scope_values scope old) vs))"
    proof
      assume "\<exists>vs. (scope, vs) \<in> set (changed_attributes old new) \<and> k \<in> fst ` set vs"
      then show "\<exists>vs. (scope, vs) \<in> set (st_attributes new) \<and> k \<in> fst ` set (moved_values (scope_values scope old) vs)"
        by (auto simp: changed_attributes_def)
    next
      assume "\<exists>vs. (scope, vs) \<in> set (st_attributes new) \<and> k \<in> fst ` set (moved_values (scope_values scope old) vs)"
      then obtain vs where vs: "(scope, vs) \<in> set (st_attributes new)" "k \<in> fst ` set (moved_values (scope_values scope old) vs)" by blast
      then have "moved_values (scope_values scope old) vs \<noteq> []" by auto
      with vs(1) have "(scope, moved_values (scope_values scope old) vs) \<in> set (changed_attributes old new)"
        by (force simp: changed_attributes_def)
      with vs(2) show "\<exists>vs. (scope, vs) \<in> set (changed_attributes old new) \<and> k \<in> fst ` set vs" by blast
    qed
    finally show ?thesis .
  qed
  also have "\<dots> \<longleftrightarrow> (\<exists>vs x. (scope, vs) \<in> set (st_attributes new) \<and> (k, x) \<in> set vs \<and> moved (scope_values scope old) k x)"
    unfolding moved_in by blast
  also have "\<dots> \<longleftrightarrow> (\<exists>x. state_value new c k = Some x \<and> moved (channel_values c old) k x)"
  proof -
    have "(\<exists>vs. (scope, vs) \<in> set (st_attributes new) \<and> (k, x) \<in> set vs) \<longleftrightarrow> map_of (scope_values scope new) k = Some x" for x
    proof (cases "map_of (st_attributes new) scope")
      case None
      then show ?thesis by (simp add: scope_values_def map_of_eq_Some_iff [OF d(1), symmetric])
    next
      case vs: (Some vs)
      then have "distinct (map fst vs)" using d(2) by (auto dest: map_of_SomeD)
      then show ?thesis using vs by (simp add: scope_values_def map_of_eq_Some_iff [OF d(1), symmetric])
    qed
    then have eq: "(\<exists>vs. (scope, vs) \<in> set (st_attributes new) \<and> (k, x) \<in> set vs) = (state_value new c k = Some x)" for x
      by (simp add: Some channel_values_def)
    have "(\<exists>vs x. (scope, vs) \<in> set (st_attributes new) \<and> (k, x) \<in> set vs \<and> moved (scope_values scope old) k x) \<longleftrightarrow>
        (\<exists>x. (\<exists>vs. (scope, vs) \<in> set (st_attributes new) \<and> (k, x) \<in> set vs) \<and> moved (channel_values c old) k x)"
      by (auto simp: Some channel_values_def)
    then show ?thesis by (simp only: eq)
  qed
  finally show ?thesis .
qed

text \<open>Only what moved is pushed. When every state fits into the map of last states, a value of a change
  is pushed if and only if the key was not seen before or was last seen with another time stamp or value:
  events that carry other keys, or none, in between do not make it be pushed again.\<close>

theorem pushes_exact:
  assumes "entities_ok E" "card E \<le> limit" "\<forall>x \<in> set (hs @ [(order, ch)]). known_change own E (snd x)"
  shows "pushed (pushes_of (st_entity (sc_new ch)) (fst (apply_twin_change limit order ch (snd (watch_changes limit hs []))))) (st_entity (sc_new ch)) c k \<longleftrightarrow>
    (\<exists>x. state_value (sc_new ch) c k = Some x \<and>
       (case seen (map snd hs) (st_entity (sc_new ch)) c k of
          None \<Rightarrow> True
        | Some y \<Rightarrow> tv_ts y \<noteq> tv_ts x \<or> \<not> deep_equal (tv_value y) (tv_value x)))"
proof -
  let ?L = "snd (watch_changes limit hs [])" and ?e = "st_entity (sc_new ch)"
  have ch: "known_change own E ch" "\<forall>x \<in> set hs. known_change own E (snd x)" using assms(3) by auto
  have "last_state [] k = zero_state" for k by (simp add: last_state_def)
  moreover have "st_entity zero_state = []" by (simp add: zero_state_def)
  ultimately have "lasts_seen own E [] (\<lambda>e c k. None)" by (simp add: lasts_seen_def)
  then have l: "lasts_seen own E ?L (seen (map snd hs))" unfolding seen_def by (rule lasts_seen_run [OF _ ch(2) assms(1,2)])
  have n: "state_wf (sc_new ch)" "?e \<in> E" "change_key ch = entity_key own ?e" "sc_old ch = zero_state"
    using ch(1) by (auto simp: known_change_def change_key_def entity_key_def)
  have base: "state_value (diff_base ?L ch) c k = seen (map snd hs) ?e c k" for c k
    using l n(2) by (auto simp: diff_base_def Let_def n(3,4) lasts_seen_def)
  have "moved (channel_values c (diff_base ?L ch)) k x \<longleftrightarrow>
      (case seen (map snd hs) ?e c k of None \<Rightarrow> True | Some y \<Rightarrow> tv_ts y \<noteq> tv_ts x \<or> \<not> deep_equal (tv_value y) (tv_value x))" for x
    by (auto simp: moved_def base split: option.split)
  then show ?thesis unfolding apply_twin_change_eq fst_conv pushed_iff [OF n(1)] by simp
qed

section \<open>A concrete history\<close>

definition pump_state :: twin_state where
  "pump_state = \<lparr>st_schema = state_schema, st_tenant = ''t'', st_type = ''DEVICE'', st_entity = ''d1'', st_updated = 5,
     st_telemetry = [(''temp'', \<lparr>tv_ts = 5, tv_value = JInt 20\<rparr>)],
     st_attributes = [(''SERVER_SCOPE'', [(''limit'', \<lparr>tv_ts = 4, tv_value = JObj [(''lo'', JInt 1), (''hi'', JInt 9)]\<rparr>)])],
     st_activity = []\<rparr>"

text \<open>The per-key event of the data plane, and the whole document again with its object in another order.\<close>

definition pump_reading :: twin_state where
  "pump_reading = pump_state\<lparr>st_telemetry := [(''temp'', \<lparr>tv_ts = 6, tv_value = JInt 21\<rparr>)], st_attributes := []\<rparr>"

definition pump_again :: twin_state where
  "pump_again = pump_reading\<lparr>st_attributes :=
     [(''SERVER_SCOPE'', [(''limit'', \<lparr>tv_ts = 4, tv_value = JObj [(''hi'', JInt 9), (''lo'', JInt 1)]\<rparr>)])]\<rparr>"

definition pump_changes :: "(str list \<times> state_change) list" where
  "pump_changes = map (\<lambda>st. ([], \<lparr>sc_old = zero_state, sc_new = st\<rparr>)) [pump_state, pump_reading]"

definition pump_own :: "str \<Rightarrow> str \<times> str" where "pump_own e = (''DEVICE'', ''t'')"

lemma pump_wf: "state_wf pump_state" "state_wf pump_reading" "state_wf pump_again"
  by (simp_all add: state_wf_def pump_state_def pump_reading_def pump_again_def)

text \<open>The document of the pump, its reading as the event of one key, and an entry that is neither.\<close>

definition pump_entries :: "(str list \<times> str \<times> payload) list" where
  "pump_entries = [([], ''DEVICE.t.d1'', StatePayload pump_state),
     ([], ''DEVICE.t.d1.telemetry.temp'', ValuePayload \<lparr>tv_ts = 6, tv_value = JInt 21\<rparr>), ([], ''DEVICE.t.d1'', BrokenPayload)]"

lemma pump_entries_ok: "\<forall>(order, key, p) \<in> set pump_entries. decoded_maps p \<and> named_entry pump_own key p"
proof -
  have "watch_update ''DEVICE.t.d1'' (StatePayload pump_state) = Some pump_state" "watch_update ''DEVICE.t.d1'' BrokenPayload = None"
    "map_option (\<lambda>st. (st_entity st, st_type st, st_tenant st))
       (watch_update ''DEVICE.t.d1.telemetry.temp'' (ValuePayload \<lparr>tv_ts = 6, tv_value = JInt 21\<rparr>)) = Some (''d1'', ''DEVICE'', ''t'')"
    by code_simp+
  then show ?thesis using pump_wf(1)
    by (auto simp: pump_entries_def decoded_maps_def named_entry_def pump_own_def) (simp_all add: pump_state_def)
qed

theorem diffs_lossless_witness:
  "same_view (fold receive (fst (watch_changes 0 (nats_changes pump_entries) [])) (\<lambda>_. None)) (states_sent (nats_changes pump_entries) (\<lambda>_. None)) \<and>
   states_sent (nats_changes pump_entries) (\<lambda>_. None) (''d1'', None, ''temp'') = Some (JInt 21)"
proof -
  have "states_sent (nats_changes pump_entries) (\<lambda>_. None) (''d1'', None, ''temp'') = Some (JInt 21)" by code_simp
  with diffs_lossless [OF pump_entries_ok, of 0] show ?thesis by blast
qed

theorem pushes_exact_witness:
  "\<not> pushed (pushes_of ''d1'' (fst (apply_twin_change 1 [] \<lparr>sc_old = zero_state, sc_new = pump_again\<rparr> (snd (watch_changes 1 pump_changes [])))))
     ''d1'' (Some ''SERVER_SCOPE'') ''limit''"
proof -
  have a: "entities_ok {''d1''}" "card {''d1''} \<le> 1" by (simp_all add: entities_ok_def)
  have b: "\<forall>x \<in> set (pump_changes @ [([], \<lparr>sc_old = zero_state, sc_new = pump_again\<rparr>)]). known_change pump_own {''d1''} (snd x)"
    by (simp add: pump_changes_def known_change_def pump_wf pump_own_def)
      (simp add: pump_state_def pump_reading_def pump_again_def)
  have s: "seen (map snd pump_changes) ''d1'' (Some ''SERVER_SCOPE'') ''limit'' =
      Some \<lparr>tv_ts = 4, tv_value = JObj [(''lo'', JInt 1), (''hi'', JInt 9)]\<rparr>"
    "state_value pump_again (Some ''SERVER_SCOPE'') ''limit'' = Some \<lparr>tv_ts = 4, tv_value = JObj [(''hi'', JInt 9), (''lo'', JInt 1)]\<rparr>"
    "deep_equal (JObj [(''lo'', JInt 1), (''hi'', JInt 9)]) (JObj [(''hi'', JInt 9), (''lo'', JInt 1)])"
    by code_simp+
  have e: "st_entity (sc_new \<lparr>sc_old = zero_state, sc_new = pump_again\<rparr>) = ''d1''" by code_simp
  from pushes_exact [OF a b, of "Some ''SERVER_SCOPE''" "''limit''"] s e show ?thesis by simp
qed

text \<open>An evicted entity is not sent again in full when its next change carries an old state, as those of
  the in-memory store do: with a dropped change in between, the dashboard keeps the stale value.\<close>

lemma eviction_keeps_stale_value:
  defines "second \<equiv> pump_state\<lparr>st_entity := ''d2''\<rparr>"
    and "dropped \<equiv> pump_state\<lparr>st_telemetry := [(''temp'', \<lparr>tv_ts = 6, tv_value = JInt 99\<rparr>)]\<rparr>"
    and "later \<equiv> pump_state\<lparr>st_telemetry := [(''temp'', \<lparr>tv_ts = 6, tv_value = JInt 99\<rparr>), (''rpm'', \<lparr>tv_ts = 7, tv_value = JInt 3\<rparr>)]\<rparr>"
  shows "fold receive (fst (watch_changes 1
      [([], \<lparr>sc_old = zero_state, sc_new = pump_state\<rparr>),
       ([''DEVICE.t.d1''], \<lparr>sc_old = zero_state, sc_new = second\<rparr>),
       ([''DEVICE.t.d2''], \<lparr>sc_old = dropped, sc_new = later\<rparr>)] [])) (\<lambda>_. None) (''d1'', None, ''temp'') = Some (JInt 20)"
  unfolding second_def dropped_def later_def by code_simp

end
