(* ===== verification/Customers.thy ===== *)
theory Customers
  imports Attributes Quotas
begin

text \<open>
  Customers and what is assigned to them (internal/customer, internal/dashboard/dashboard_customer.go):
  creating, changing and deleting a customer, assigning a device, an asset or an entity view by its
  column, assigning a dashboard by its JSON array, and the two listings of dashboard assignments.

  As in the attributes, \<open>uuid\<close> is how Postgres reads a UUID literal. A column of dashboards holds
  \<open>None\<close> for NULL, \<open>Some None\<close> for text that is no JSON. The identifier of a new customer is an
  argument, and so is the verdict of the quota. Text is ordered by its bytes. Audit entries are not modelled.
\<close>

section \<open>The tables\<close>

record customer_row =
  cu_id :: str
  cu_tenant :: "str option"
  cu_created :: millis
  cu_title :: "str option"
  cu_columns :: "str option list"
  cu_info :: "json option"
  cu_public :: "bool option"
  cu_version :: int

record owned_row =
  ow_id :: str
  ow_tenant :: "str option"
  ow_created :: millis
  ow_name :: "str option"
  ow_customer :: "str option"

record dashboard_row =
  da_id :: str
  da_tenant :: "str option"
  da_title :: "str option"
  da_assigned :: "raw_message option"

record customer_db =
  ct_customers :: "customer_row list"
  ct_entities :: "(str, owned_row list) gomap"
  ct_dashboards :: "dashboard_row list"

definition find_customer :: "(str \<Rightarrow> str option) \<Rightarrow> customer_db \<Rightarrow> str \<Rightarrow> customer_row option" where
  "find_customer uuid db customer =
     (case uuid customer of None \<Rightarrow> None | Some u \<Rightarrow> find (\<lambda>r. cu_id r = u) (ct_customers db))"

definition null_str :: "str \<Rightarrow> str option" where
  "null_str s = (if s = [] then None else Some s)"

section \<open>Saving and deleting\<close>

definition customer_columns :: "members \<Rightarrow> str list" where
  "customer_columns body = map (\<lambda>f. as_string (obj_get body f))
     [''email'', ''phone'', ''country'', ''state'', ''city'', ''address'', ''address2'', ''zip'']"

text \<open>The columns of the table: the addresses are unbounded, the others hold 255 characters.\<close>

definition customer_fits :: "str \<Rightarrow> str list \<Rightarrow> bool" where
  "customer_fits title cols \<longleftrightarrow> fits_column 255 title \<and>
     list_all (\<lambda>(i, c). if i = 5 \<or> i = 6 then char_of (0 :: nat) \<notin> set c else fits_column 255 c) (enumerate 0 cols)"

definition json_column :: "json option \<Rightarrow> json option" where
  "json_column v = (case v of Some JNull \<Rightarrow> None | _ \<Rightarrow> v)"

text \<open>The unique constraint on tenant and title, against the rows of other ids.\<close>

definition title_taken :: "customer_db \<Rightarrow> str \<Rightarrow> str option \<Rightarrow> str \<Rightarrow> bool" where
  "title_taken db ident tenant title \<longleftrightarrow>
     tenant \<noteq> None \<and> list_ex (\<lambda>r. cu_id r \<noteq> ident \<and> cu_tenant r = tenant \<and> cu_title r = Some title) (ct_customers db)"

definition update_customer :: "str \<Rightarrow> str list \<Rightarrow> json option \<Rightarrow> customer_row \<Rightarrow> customer_row" where
  "update_customer title cols info r =
     r\<lparr>cu_title := Some title, cu_columns := map null_str cols, cu_info := info, cu_version := cu_version r + 1\<rparr>"

text \<open>\<open>quota\<close> is the verdict of Enforce on creating a customer.\<close>

definition save_customer ::
  "(str \<Rightarrow> str option) \<Rightarrow> bool \<Rightarrow> millis \<Rightarrow> str \<Rightarrow> members option \<Rightarrow> raw_message \<Rightarrow> customer_db \<Rightarrow>
   (http_error + customer_row option) \<times> customer_db" where
  "save_customer uuid quota now new_id claims body db =
     (case claims of
        None \<Rightarrow> (Inl (HttpError 401 ''Authentication required''), db)
      | Some c \<Rightarrow>
          (let tenant = claim_string c ''tenantId''; fields = (case body of Some (JObj kvs) \<Rightarrow> kvs | _ \<Rightarrow> []);
               title = as_string (obj_get fields ''title''); cols = customer_columns fields;
               info = json_column (obj_get fields ''additionalInfo''); ident = extract_entity_id fields ''id''
           in if (case body of Some (JObj _) \<Rightarrow> False | Some JNull \<Rightarrow> False | _ \<Rightarrow> True) then (Inl (HttpError 400 ''Invalid JSON''), db)
              else if title = [] then (Inl (HttpError 400 ''Missing customer title''), db)
              else if ident \<noteq> [] then
                (case find_customer uuid db ident of
                   None \<Rightarrow> (Inl (HttpError 404 ''Customer not found''), db)
                 | Some row \<Rightarrow>
                     (case cu_tenant row of
                        None \<Rightarrow> (Inl (HttpError 404 ''Customer not found''), db)
                      | Some t \<Rightarrow>
                          if t \<noteq> tenant then (Inl (HttpError 403 ''Cross-tenant update denied''), db)
                          else if \<not> customer_fits title cols \<or> title_taken db (cu_id row) (cu_tenant row) title
                            then (Inl (HttpError 500 ''Failed to update customer''), db)
                          else (Inr None, db\<lparr>ct_customers := map (\<lambda>r. if cu_id r = cu_id row then update_customer title cols info r else r)
                                                             (ct_customers db)\<rparr>)))
              else if \<not> quota then (Inl (HttpError 403 ''Tenant quota exceeded''), db)
              else (case uuid tenant of
                      None \<Rightarrow> (Inl (HttpError 500 ''Failed to create customer''), db)
                    | Some t \<Rightarrow>
                        if \<not> customer_fits title cols \<or> title_taken db new_id (Some t) title
                          then (Inl (HttpError 500 ''Failed to create customer''), db)
                        else (let row = \<lparr>cu_id = new_id, cu_tenant = Some t, cu_created = now, cu_title = Some title,
                                         cu_columns = map null_str cols, cu_info = info, cu_public = None, cu_version = 1\<rparr>
                              in (Inr (Some row), db\<lparr>ct_customers := ct_customers db @ [row]\<rparr>)))))"

definition delete_customer ::
  "(str \<Rightarrow> str option) \<Rightarrow> members option \<Rightarrow> str \<Rightarrow> customer_db \<Rightarrow> (http_error + unit) \<times> customer_db" where
  "delete_customer uuid claims customer db =
     (case claims of
        None \<Rightarrow> (Inl (HttpError 401 ''Authentication required''), db)
      | Some c \<Rightarrow>
          (case find_customer uuid db customer of
             None \<Rightarrow> (Inl (HttpError 404 ''Customer not found''), db)
           | Some row \<Rightarrow>
               (case (cu_tenant row, cu_title row) of
                  (Some t, Some _) \<Rightarrow>
                    if t \<noteq> claim_string c ''tenantId'' then (Inl (HttpError 403 ''Cross-tenant delete denied''), db)
                    else (Inr (), db\<lparr>ct_customers := filter (\<lambda>r. cu_id r \<noteq> cu_id row) (ct_customers db)\<rparr>)
                | _ \<Rightarrow> (Inl (HttpError 404 ''Customer not found''), db))))"

section \<open>Assigning entities\<close>

definition assignable_entity :: "(str \<times> str \<times> str) list" where
  "assignable_entity = [(''device'', ''device'', ''DEVICE''), (''asset'', ''asset'', ''ASSET''),
     (''entityView'', ''entity_view'', ''ENTITY_VIEW'')]"

definition nil_customer_prefix :: str where "nil_customer_prefix = ''13814000-1dd2-11b2''"

definition customer_belongs_to_tenant :: "(str \<Rightarrow> str option) \<Rightarrow> customer_db \<Rightarrow> str \<Rightarrow> str \<Rightarrow> bool" where
  "customer_belongs_to_tenant uuid db customer tenant \<longleftrightarrow>
     customer = [] \<or> has_prefix customer nil_customer_prefix \<or>
     (case find_customer uuid db customer of None \<Rightarrow> False | Some r \<Rightarrow> cu_tenant r = Some tenant)"

definition entity_rows :: "customer_db \<Rightarrow> str \<Rightarrow> owned_row list" where
  "entity_rows db table = (case map_of (ct_entities db) table of Some rows \<Rightarrow> rows | None \<Rightarrow> [])"

definition set_customer :: "str \<Rightarrow> str \<Rightarrow> str option \<Rightarrow> customer_db \<Rightarrow> customer_db" where
  "set_customer table u customer db =
     db\<lparr>ct_entities := AList.update table
          (map (\<lambda>r. if ow_id r = u then r\<lparr>ow_customer := customer\<rparr> else r) (entity_rows db table)) (ct_entities db)\<rparr>"

definition handle_assign_to_customer ::
  "(str \<Rightarrow> str option) \<Rightarrow> members option \<Rightarrow> str \<Rightarrow> str \<Rightarrow> str \<Rightarrow> customer_db \<Rightarrow>
   (http_error + owned_row option) \<times> customer_db" where
  "handle_assign_to_customer uuid claims customer kind entity db =
     (case claims of
        None \<Rightarrow> (Inl (HttpError 401 ''Authentication required''), db)
      | Some c \<Rightarrow>
          (let tenant = claim_string c ''tenantId'' in
           case map_of assignable_entity kind of
             None \<Rightarrow> (Inl (HttpError 400 (''Unsupported entity type: '' @ kind)), db)
           | Some (table, etype) \<Rightarrow>
               (case Option.bind (uuid entity) (\<lambda>u. find (\<lambda>r. ow_id r = u) (entity_rows db table)) of
                  None \<Rightarrow> (Inl (HttpError 404 (etype @ '' not found'')), db)
                | Some row \<Rightarrow>
                    (case ow_tenant row of
                       None \<Rightarrow> (Inl (HttpError 404 (etype @ '' not found'')), db)
                     | Some t \<Rightarrow>
                         if t \<noteq> tenant then (Inl (HttpError 403 ''Cross-tenant assignment denied''), db)
                         else if customer = ''public'' then (Inl (HttpError 501 ''Public sharing is not enabled on this platform''), db)
                         else if customer \<noteq> [] \<and> \<not> customer_belongs_to_tenant uuid db customer tenant
                           then (Inl (HttpError 403 ''Customer belongs to another tenant''), db)
                         else (case (if customer = [] then Some None else map_option Some (uuid customer)) of
                                 None \<Rightarrow> (Inl (HttpError 500 ''Failed to update assignment''), db)
                               | Some arg \<Rightarrow>
                                   (let db' = set_customer table (ow_id row) arg db
                                    in (Inr (find (\<lambda>r. ow_id r = ow_id row) (entity_rows db' table)), db')))))))"

section \<open>Assigning dashboards\<close>

text \<open>What json.Marshal writes for a decoded value: members sorted, the last of a name.\<close>

fun reencode :: "json \<Rightarrow> json" where
  "reencode (JArr vs) = JArr (map reencode vs)"
| "reencode (JObj kvs) =
     JObj (map (\<lambda>k. (k, the (map_of (rev (map (\<lambda>(k, v). (k, reencode v)) kvs)) k))) (sort_dedup (map fst kvs)))"
| "reencode v = v"

definition parse_assigned_customers :: "raw_message option \<Rightarrow> json list" where
  "parse_assigned_customers raw =
     (case raw of
        Some (Some (JArr vs)) \<Rightarrow> if list_all (\<lambda>v. case v of JNull \<Rightarrow> True | JObj _ \<Rightarrow> True | _ \<Rightarrow> False) vs then vs else []
      | _ \<Rightarrow> [])"

definition assigned_customer_id :: "json \<Rightarrow> str" where
  "assigned_customer_id entry = as_string (obj_get (as_object (obj_get (as_object (Some entry)) ''customerId'')) ''id'')"

definition customer_title :: "(str \<Rightarrow> str option) \<Rightarrow> customer_db \<Rightarrow> str \<Rightarrow> str" where
  "customer_title uuid db customer =
     (case find_customer uuid db customer of
        None \<Rightarrow> []
      | Some r \<Rightarrow> (case cu_title r of None \<Rightarrow> [] | Some t \<Rightarrow> t))"

definition assignment_entry :: "str \<Rightarrow> str \<Rightarrow> json" where
  "assignment_entry customer title =
     JObj [(''customerId'', JObj [(''entityType'', JStr ''CUSTOMER''), (''id'', JStr customer)]),
           (''title'', JStr title), (''public'', JBool False)]"

definition next_assigned :: "str \<Rightarrow> str \<Rightarrow> bool \<Rightarrow> json list \<Rightarrow> json list" where
  "next_assigned customer title assign assigned =
     filter (\<lambda>a. assigned_customer_id a \<noteq> customer) assigned @ (if assign then [assignment_entry customer title] else [])"

definition stored_assigned :: "json list \<Rightarrow> raw_message option" where
  "stored_assigned entries = (if entries = [] then None else Some (Some (reencode (JArr entries))))"

definition handle_assign_dashboard ::
  "(str \<Rightarrow> str option) \<Rightarrow> members option \<Rightarrow> str \<Rightarrow> str \<Rightarrow> bool \<Rightarrow> customer_db \<Rightarrow>
   (http_error + json list) \<times> customer_db" where
  "handle_assign_dashboard uuid claims customer dashboard assign db =
     (case claims of
        None \<Rightarrow> (Inl (HttpError 401 ''Authentication required''), db)
      | Some c \<Rightarrow>
          (let tenant = claim_string c ''tenantId'' in
           case Option.bind (uuid dashboard) (\<lambda>u. find (\<lambda>r. da_id r = u) (ct_dashboards db)) of
             None \<Rightarrow> (Inl (HttpError 404 ''Dashboard not found''), db)
           | Some row \<Rightarrow>
               (case da_tenant row of
                  None \<Rightarrow> (Inl (HttpError 404 ''Dashboard not found''), db)
                | Some t \<Rightarrow>
                    if t \<noteq> tenant then (Inl (HttpError 403 ''Cross-tenant assignment denied''), db)
                    else if customer = ''public'' then (Inl (HttpError 501 ''Public sharing is not enabled on this platform''), db)
                    else if \<not> customer_belongs_to_tenant uuid db customer tenant
                      then (Inl (HttpError 403 ''Customer belongs to another tenant''), db)
                    else (let next = next_assigned customer (customer_title uuid db customer) assign (parse_assigned_customers (da_assigned row))
                          in (Inr next,
                              db\<lparr>ct_dashboards := map (\<lambda>r. if da_id r = da_id row then r\<lparr>da_assigned := stored_assigned next\<rparr> else r)
                                                    (ct_dashboards db)\<rparr>)))))"

section \<open>Listing the assignments\<close>

text \<open>Decoding into structs with the nested field \<open>customerId.id\<close>.\<close>

fun dec_customer_ref :: "json \<Rightarrow> str \<Rightarrow> str option" where
  "dec_customer_ref JNull old = Some old"
| "dec_customer_ref (JObj kvs) old = dec_field dec_string old (struct_vals ''id'' kvs)"
| "dec_customer_ref _ old = None"

fun dec_assignment :: "json \<Rightarrow> str \<Rightarrow> str option" where
  "dec_assignment JNull old = Some old"
| "dec_assignment (JObj kvs) old = dec_field dec_customer_ref old (struct_vals ''customerId'' kvs)"
| "dec_assignment _ old = None"

definition decoded_assignments :: "raw_message option \<Rightarrow> str list option" where
  "decoded_assignments raw =
     (case raw of
        Some (Some JNull) \<Rightarrow> Some []
      | Some (Some (JArr vs)) \<Rightarrow> dec_slice dec_assignment [] vs []
      | _ \<Rightarrow> None)"

definition assigned_customer_ids :: "raw_message option \<Rightarrow> str list" where
  "assigned_customer_ids raw = (case decoded_assignments raw of None \<Rightarrow> [] | Some ids \<Rightarrow> filter (\<lambda>i. i \<noteq> []) ids)"

definition assigned_to :: "raw_message option \<Rightarrow> str \<Rightarrow> bool" where
  "assigned_to raw customer \<longleftrightarrow>
     customer \<noteq> [] \<and> (case decoded_assignments raw of None \<Rightarrow> False | Some ids \<Rightarrow> customer \<in> set ids)"

text \<open>A page of a slice, as Go slices it: \<open>None\<close> is the panic of a negative bound.\<close>

definition page_slice :: "'a list \<Rightarrow> int \<Rightarrow> int \<Rightarrow> 'a list option" where
  "page_slice xs page psize =
     (let total = int (length xs); start0 = wrap64 (page * psize);
          start = (if total < start0 then total else start0);
          end0 = wrap64 (start + psize); end' = (if total < end0 then total else end0)
      in if start < 0 \<or> end' < start then None else Some (take (nat (end' - start)) (drop (nat start) xs)))"

record dashboard_page =
  dp_data :: "dashboard_row list"
  dp_pages :: int
  dp_total :: int
  dp_next :: bool

definition matched_dashboards :: "(str \<Rightarrow> str option) \<Rightarrow> customer_db \<Rightarrow> str \<Rightarrow> str \<Rightarrow> dashboard_row list" where
  "matched_dashboards uuid db tenant customer =
     filter (\<lambda>r. da_title r \<noteq> None \<and> assigned_to (da_assigned r) customer)
       (sort_key (\<lambda>r. the (da_title r)) (filter (\<lambda>r. da_tenant r = uuid tenant) (ct_dashboards db)))"

definition list_by_customer ::
  "(str \<Rightarrow> str option) \<Rightarrow> members option \<Rightarrow> (str \<times> str) list \<Rightarrow> str \<Rightarrow> customer_db \<Rightarrow> http_error + dashboard_page" where
  "list_by_customer uuid claims query customer db =
     and_then (require_auth claims) (\<lambda>c.
       let psize = page_size query 10; page = int_param query ''page'' 0; tenant = claim_string c ''tenantId'' in
       if uuid tenant = None then Inl (HttpError 500 ''Database error'')
       else (let rows = matched_dashboards uuid db tenant customer; total = int (length rows); pages = (total + psize - 1) div psize
             in case page_slice rows page psize of
                  None \<Rightarrow> Inl HandlerPanic
                | Some data \<Rightarrow> Inr \<lparr>dp_data = data, dp_pages = pages, dp_total = total, dp_next = wrap64 (page + 1) < pages\<rparr>))"

definition list_customers ::
  "(str \<Rightarrow> str option) \<Rightarrow> members option \<Rightarrow> str \<Rightarrow> customer_db \<Rightarrow> http_error + (str \<times> str \<times> bool) list" where
  "list_customers uuid claims dashboard db =
     and_then (require_auth claims) (\<lambda>c.
       let tenant = claim_string c ''tenantId'' in
       case Option.bind (uuid dashboard) (\<lambda>u. find (\<lambda>r. da_id r = u) (ct_dashboards db)) of
         None \<Rightarrow> Inl (HttpError 404 ''Dashboard not found'')
       | Some row \<Rightarrow>
           if da_tenant row \<noteq> Some tenant then Inl (HttpError 404 ''Dashboard not found'')
           else Inr (concat (map (\<lambda>cid. case find_customer uuid db cid of
                       Some r \<Rightarrow> if cu_tenant r = uuid tenant
                                 then [(cid, (case cu_title r of None \<Rightarrow> [] | Some t \<Rightarrow> t), cu_public r = Some True)] else []
                     | None \<Rightarrow> []) (assigned_customer_ids (da_assigned row)))))"

end
