(* ===== verification/CustomerProps.thy ===== *)
theory CustomerProps
  imports Customers AttributeProps
begin

text \<open>
  What the customer handlers guarantee: whatever requests run, an entity or a dashboard is assigned only
  to customers of its own tenant; assigning a dashboard adds the customer once and unassigning removes
  it; the listing of a customer's dashboards panics exactly on pages whose first index is negative.
\<close>

section \<open>Re-encoding\<close>

lemma map_of_map_snd: "map_of (map (\<lambda>(k, v). (k, f v)) kvs) k = map_option f (map_of kvs k)"
  by (induction kvs) auto

lemma map_of_key_map: "distinct ks \<Longrightarrow> map_of (map (\<lambda>k. (k, g k)) ks) k = (if k \<in> set ks then Some (g k) else None)"
  by (induction ks) auto

lemma obj_get_reencode:
  assumes "reencode (JObj kvs) = JObj kvs'"
  shows "obj_get kvs' k = map_option reencode (obj_get kvs k)"
proof -
  let ?g = "\<lambda>k. the (map_of (rev (map (\<lambda>(k, v). (k, reencode v)) kvs)) k)"
  have k: "kvs' = map (\<lambda>k. (k, ?g k)) (sort_dedup (map fst kvs))" using assms by simp
  have d: "distinct (map fst kvs')" using sorted_set_sort_dedup [of "map fst kvs"] by (simp add: k comp_def sorted_set_def)
  have g: "map_of (rev (map (\<lambda>(k, v). (k, reencode v)) kvs)) k = map_option reencode (obj_get kvs k)"
    by (simp add: obj_get_def rev_map map_of_map_snd)
  have "obj_get kvs' = map_of kvs'" unfolding obj_get_def by (rule map_of_perm_eq) (use d in \<open>simp_all add: rev_map [symmetric]\<close>)
  then have "obj_get kvs' k = map_of kvs' k" by simp
  also have "\<dots> = (if k \<in> fst ` set kvs then Some (?g k) else None)"
    using sorted_set_sort_dedup [of "map fst kvs"] by (simp add: k map_of_key_map sorted_set_def)
  finally have r: "obj_get kvs' k = (if k \<in> fst ` set kvs then Some (?g k) else None)" .
  show ?thesis
  proof (cases "k \<in> fst ` set kvs")
    case True
    then obtain v where v: "obj_get kvs k = Some v" by (metis not_None_eq obj_get_None)
    show ?thesis using r g True by (simp only: v option.map option.sel if_True)
  next
    case False
    then have "obj_get kvs k = None" by simp
    then show ?thesis using r False by (simp only: option.map if_False)
  qed
qed

lemma as_object_reencode: "obj_get (as_object (map_option reencode v)) k = map_option reencode (obj_get (as_object v) k)"
proof (cases "\<exists>kvs. v = Some (JObj kvs)")
  case True
  then obtain kvs where v: "v = Some (JObj kvs)" by blast
  obtain kvs' where r: "reencode (JObj kvs) = JObj kvs'" by simp
  show ?thesis using obj_get_reencode [OF r] by (simp only: v option.map r as_object.simps)
next
  case False
  have "as_object (map_option reencode v) = []" "as_object v = []" if "v = Some j" "\<nexists>kvs. j = JObj kvs" for j
    using that by (cases j; simp)+
  then show ?thesis using False by (cases v) (auto simp: obj_get_def)
qed

lemma as_string_reencode: "as_string (map_option reencode v) = as_string v"
proof (cases v)
  case (Some j)
  then show ?thesis by (cases j) simp_all
qed simp

lemma assigned_customer_id_reencode: "assigned_customer_id (reencode e) = assigned_customer_id e"
proof -
  have "obj_get (as_object (Some (reencode e))) ''customerId'' = map_option reencode (obj_get (as_object (Some e)) ''customerId'')"
    using as_object_reencode [of "Some e" "''customerId''"] by simp
  then show ?thesis by (simp only: assigned_customer_id_def as_object_reencode as_string_reencode)
qed

lemma parse_stored:
  assumes "set entries \<subseteq> {e. case e of JNull \<Rightarrow> True | JObj _ \<Rightarrow> True | _ \<Rightarrow> False}"
  shows "parse_assigned_customers (stored_assigned entries) = map reencode entries"
proof -
  have "list_all (\<lambda>v. case v of JNull \<Rightarrow> True | JObj _ \<Rightarrow> True | _ \<Rightarrow> False) (map reencode entries)"
    unfolding list_all_iff
  proof
    fix v
    assume "v \<in> set (map reencode entries)"
    then obtain e where e: "e \<in> set entries" "v = reencode e" by auto
    then have "case e of JNull \<Rightarrow> True | JObj _ \<Rightarrow> True | _ \<Rightarrow> False" using assms by blast
    then show "case v of JNull \<Rightarrow> True | JObj _ \<Rightarrow> True | _ \<Rightarrow> False" unfolding e(2) by (cases e) simp_all
  qed
  then show ?thesis by (simp add: parse_assigned_customers_def stored_assigned_def)
qed

lemma parse_entries: "e \<in> set (parse_assigned_customers raw) \<Longrightarrow> case e of JNull \<Rightarrow> True | JObj _ \<Rightarrow> True | _ \<Rightarrow> False"
  by (auto simp: parse_assigned_customers_def list_all_iff split: option.splits json.splits if_splits)

lemma parse_next:
  "parse_assigned_customers (stored_assigned (next_assigned customer title assign (parse_assigned_customers raw))) =
    map reencode (next_assigned customer title assign (parse_assigned_customers raw))"
proof (rule parse_stored)
  show "set (next_assigned customer title assign (parse_assigned_customers raw)) \<subseteq> {e. case e of JNull \<Rightarrow> True | JObj _ \<Rightarrow> True | _ \<Rightarrow> False}"
    using parse_entries by (auto simp: next_assigned_def assignment_entry_def)
qed

lemma assigned_id_entry [simp]: "assigned_customer_id (assignment_entry c t) = c"
  by (simp add: assigned_customer_id_def assignment_entry_def obj_get_def)

section \<open>Isolation\<close>

definition uuid_laws :: "(str \<Rightarrow> str option) \<Rightarrow> bool" where
  "uuid_laws uuid \<longleftrightarrow> (\<forall>s u. uuid s = Some u \<longrightarrow> has_prefix s nil_customer_prefix \<longrightarrow> has_prefix u nil_customer_prefix) \<and> uuid [] = None"

definition customers_invar :: "(str \<Rightarrow> str option) \<Rightarrow> customer_db \<Rightarrow> bool" where
  "customers_invar uuid db \<longleftrightarrow>
     (\<forall>cr \<in> set (ct_customers db). \<not> has_prefix (cu_id cr) nil_customer_prefix) \<and>
     distinct (map cu_id (ct_customers db)) \<and> (\<forall>table. distinct (map ow_id (entity_rows db table))) \<and>
     distinct (map da_id (ct_dashboards db)) \<and>
     (\<forall>table. \<forall>r \<in> set (entity_rows db table). \<forall>cr \<in> set (ct_customers db).
        ow_customer r = Some (cu_id cr) \<longrightarrow> cu_tenant cr = ow_tenant r) \<and>
     (\<forall>d \<in> set (ct_dashboards db). \<forall>e \<in> set (parse_assigned_customers (da_assigned d)). \<forall>cr \<in> set (ct_customers db).
        uuid (assigned_customer_id e) = Some (cu_id cr) \<longrightarrow> cu_tenant cr = da_tenant d)"

datatype customer_op =
    SaveCustomer bool millis str "members option" raw_message
  | DeleteCustomer "members option" str
  | AssignEntity "members option" str str str
  | AssignDashboard "members option" str str bool

fun customer_step :: "(str \<Rightarrow> str option) \<Rightarrow> customer_op \<Rightarrow> customer_db \<Rightarrow> customer_db" where
  "customer_step uuid (SaveCustomer quota now new_id claims body) db = snd (save_customer uuid quota now new_id claims body db)"
| "customer_step uuid (DeleteCustomer claims customer) db = snd (delete_customer uuid claims customer db)"
| "customer_step uuid (AssignEntity claims customer kind entity) db = snd (handle_assign_to_customer uuid claims customer kind entity db)"
| "customer_step uuid (AssignDashboard claims customer dashboard assign) db =
     snd (handle_assign_dashboard uuid claims customer dashboard assign db)"

text \<open>A new identifier is not in use.\<close>

fun op_ok :: "(str \<Rightarrow> str option) \<Rightarrow> customer_op \<Rightarrow> customer_db \<Rightarrow> bool" where
  "op_ok uuid (SaveCustomer quota now new_id claims body) db \<longleftrightarrow>
     \<not> has_prefix new_id nil_customer_prefix \<and> new_id \<notin> cu_id ` set (ct_customers db) \<and>
     (\<forall>table. \<forall>r \<in> set (entity_rows db table). ow_customer r \<noteq> Some new_id) \<and>
     (\<forall>d \<in> set (ct_dashboards db). \<forall>e \<in> set (parse_assigned_customers (da_assigned d)). uuid (assigned_customer_id e) \<noteq> Some new_id)"
| "op_ok uuid _ db \<longleftrightarrow> True"

fun ops_ok :: "(str \<Rightarrow> str option) \<Rightarrow> customer_op list \<Rightarrow> customer_db \<Rightarrow> bool" where
  "ops_ok uuid [] db \<longleftrightarrow> True"
| "ops_ok uuid (op # ops) db \<longleftrightarrow> op_ok uuid op db \<and> ops_ok uuid ops (customer_step uuid op db)"

text \<open>What each handler does to the tables.\<close>

lemma save_customer_effect:
  "snd (save_customer uuid quota now new_id claims body db) = db \<or>
   (\<exists>(row :: customer_row) title cols info. snd (save_customer uuid quota now new_id claims body db) =
      db\<lparr>ct_customers := map (\<lambda>r. if cu_id r = cu_id row then update_customer title cols info r else r) (ct_customers db)\<rparr>) \<or>
   (\<exists>row. cu_id row = new_id \<and> snd (save_customer uuid quota now new_id claims body db) = db\<lparr>ct_customers := ct_customers db @ [row]\<rparr>)"
proof -
  define out where "out = snd (save_customer uuid quota now new_id claims body db)"
  have "out = db \<or> (\<exists>(row :: customer_row) title cols info. out = db\<lparr>ct_customers :=
        map (\<lambda>r. if cu_id r = cu_id row then update_customer title cols info r else r) (ct_customers db)\<rparr>) \<or>
      (\<exists>row. cu_id row = new_id \<and> out = db\<lparr>ct_customers := ct_customers db @ [row]\<rparr>)"
  proof (cases claims)
    case None
    then show ?thesis by (simp add: out_def save_customer_def)
  next
    case (Some c)
    define fields where "fields = (case body of Some (JObj kvs) \<Rightarrow> kvs | _ \<Rightarrow> [])"
    define title where "title = as_string (obj_get fields ''title'')"
    define cols where "cols = customer_columns fields"
    define info where "info = json_column (obj_get fields ''additionalInfo'')"
    define ident where "ident = extract_entity_id fields ''id''"
    define bad where "bad = (case body of Some (JObj _) \<Rightarrow> False | Some JNull \<Rightarrow> False | _ \<Rightarrow> True)"
    note unf = out_def save_customer_def Some option.case fields_def [symmetric] title_def [symmetric] cols_def [symmetric]
      info_def [symmetric] ident_def [symmetric] bad_def [symmetric] Let_def
    consider "bad \<or> title = []" | (up) "\<not> bad" "title \<noteq> []" "ident \<noteq> []" | (new) "\<not> bad" "title \<noteq> []" "ident = []" by blast
    then show ?thesis
    proof cases
      case 1
      then have "out = db" unfolding unf by auto
      then show ?thesis by blast
    next
      case up
      show ?thesis
      proof (cases "find_customer uuid db ident")
        case None
        with up have "out = db" unfolding unf by simp
        then show ?thesis by blast
      next
        case row: (Some row)
        have "out = db \<or> out = db\<lparr>ct_customers :=
          map (\<lambda>r. if cu_id r = cu_id row then update_customer title cols info r else r) (ct_customers db)\<rparr>"
          unfolding unf using up row by (cases "cu_tenant row") auto
        then show ?thesis by blast
      qed
    next
      case new
      define row where "row = (\<lambda>t. \<lparr>cu_id = new_id, cu_tenant = Some t, cu_created = now, cu_title = Some title,
          cu_columns = map null_str cols, cu_info = info, cu_public = None, cu_version = 1\<rparr>)"
      have "out = db \<or> (\<exists>t. out = db\<lparr>ct_customers := ct_customers db @ [row t]\<rparr>)"
        unfolding unf using new by (cases "uuid (claim_string c ''tenantId'')") (auto simp: row_def)
      moreover have "cu_id (row t) = new_id" for t by (simp add: row_def)
      ultimately show ?thesis by blast
    qed
  qed
  then show ?thesis by (simp add: out_def)
qed

lemma find_customer_SomeD: "find_customer uuid db customer = Some r \<Longrightarrow> r \<in> set (ct_customers db) \<and> uuid customer = Some (cu_id r)"
  by (auto simp: find_customer_def dest: find_SomeD split: option.splits)

lemma belongs_tenant:
  assumes "customer_belongs_to_tenant uuid db customer tenant" "uuid_laws uuid" "distinct (map cu_id (ct_customers db))"
    "cr \<in> set (ct_customers db)" "uuid customer = Some (cu_id cr)" "\<not> has_prefix (cu_id cr) nil_customer_prefix"
  shows "cu_tenant cr = Some tenant"
proof -
  have "\<not> has_prefix customer nil_customer_prefix" "customer \<noteq> []" using assms(2,5,6) by (auto simp: uuid_laws_def)
  with assms(1) obtain r where r: "find_customer uuid db customer = Some r" "cu_tenant r = Some tenant"
    by (auto simp: customer_belongs_to_tenant_def split: option.splits)
  from find_customer_SomeD [OF r(1)] assms(5) have "r \<in> set (ct_customers db)" "cu_id r = cu_id cr" by auto
  then have "r = cr" using assms(3,4) by (simp add: distinct_map inj_on_def)
  with r(2) show ?thesis by simp
qed

lemma entity_rows_set_customer:
  "entity_rows (set_customer table u customer db) table' =
    (if table' = table then map (\<lambda>r. if ow_id r = u then r\<lparr>ow_customer := customer\<rparr> else r) (entity_rows db table) else entity_rows db table')"
  by (simp add: set_customer_def entity_rows_def update_conv')

lemma assign_entity_effect:
  "snd (handle_assign_to_customer uuid claims customer kind entity db) = db \<or>
   (\<exists>c table row arg. claims = Some c \<and> row \<in> set (entity_rows db table) \<and> ow_tenant row = Some (claim_string c ''tenantId'') \<and>
      (customer = [] \<and> arg = None \<or> customer_belongs_to_tenant uuid db customer (claim_string c ''tenantId'') \<and> arg = uuid customer \<and> arg \<noteq> None) \<and>
      snd (handle_assign_to_customer uuid claims customer kind entity db) = set_customer table (ow_id row) arg db)"
proof -
  define out where "out = snd (handle_assign_to_customer uuid claims customer kind entity db)"
  show ?thesis
  proof (cases "out = db")
    case False
    note unf = out_def handle_assign_to_customer_def Let_def
    obtain c where c: "claims = Some c" using False unfolding unf by (cases claims) simp_all
    obtain table etype where k: "map_of assignable_entity kind = Some (table, etype)"
      using False unfolding unf by (cases "map_of assignable_entity kind") (auto simp: c)
    obtain row where row: "Option.bind (uuid entity) (\<lambda>u. find (\<lambda>r. ow_id r = u) (entity_rows db table)) = Some row"
      using False unfolding unf c k by (cases "Option.bind (uuid entity) (\<lambda>u. find (\<lambda>r. ow_id r = u) (entity_rows db table))") simp_all
    obtain t where t: "ow_tenant row = Some t" using False unfolding unf c k by (cases "ow_tenant row") (simp_all add: row)
    have guards: "t = claim_string c ''tenantId''" "customer \<noteq> ''public''"
      "customer = [] \<or> customer_belongs_to_tenant uuid db customer (claim_string c ''tenantId'')"
      using False unfolding unf c k by (auto simp: row t split: if_splits)
    obtain arg where arg: "(if customer = [] then Some None else map_option Some (uuid customer)) = Some arg"
      using False guards unfolding unf c k
      by (cases "if customer = [] then Some None else map_option Some (uuid customer)") (simp_all add: row t)
    have "out = set_customer table (ow_id row) arg db" using guards unfolding unf c k by (auto simp: row t arg)
    moreover have "row \<in> set (entity_rows db table)" using row by (auto dest: find_SomeD split: bind_splits)
    moreover have "customer = [] \<and> arg = None \<or>
        customer_belongs_to_tenant uuid db customer (claim_string c ''tenantId'') \<and> arg = uuid customer \<and> arg \<noteq> None"
      using guards(3) arg by (auto split: if_splits)
    ultimately show ?thesis using c t guards(1) unfolding out_def by blast
  qed (simp add: out_def)
qed

lemma assign_dashboard_effect:
  "snd (handle_assign_dashboard uuid claims customer dashboard assign db) = db \<or>
   (\<exists>c row next. claims = Some c \<and> row \<in> set (ct_dashboards db) \<and> uuid dashboard = Some (da_id row) \<and>
      da_tenant row = Some (claim_string c ''tenantId'') \<and> customer \<noteq> ''public'' \<and>
      customer_belongs_to_tenant uuid db customer (claim_string c ''tenantId'') \<and>
      next = next_assigned customer (customer_title uuid db customer) assign (parse_assigned_customers (da_assigned row)) \<and>
      handle_assign_dashboard uuid claims customer dashboard assign db =
        (Inr next, db\<lparr>ct_dashboards := map (\<lambda>r. if da_id r = da_id row then r\<lparr>da_assigned := stored_assigned next\<rparr> else r) (ct_dashboards db)\<rparr>))"
proof -
  define out where "out = handle_assign_dashboard uuid claims customer dashboard assign db"
  show ?thesis
  proof (cases "snd out = db")
    case False
    note unf = out_def handle_assign_dashboard_def Let_def
    obtain c where c: "claims = Some c" using False unfolding unf by (cases claims) simp_all
    obtain row where row: "Option.bind (uuid dashboard) (\<lambda>u. find (\<lambda>r. da_id r = u) (ct_dashboards db)) = Some row"
      using False unfolding unf c by (cases "Option.bind (uuid dashboard) (\<lambda>u. find (\<lambda>r. da_id r = u) (ct_dashboards db))") simp_all
    obtain t where t: "da_tenant row = Some t" using False unfolding unf c by (cases "da_tenant row") (simp_all add: row)
    have guards: "t = claim_string c ''tenantId''" "customer \<noteq> ''public''"
      "customer_belongs_to_tenant uuid db customer (claim_string c ''tenantId'')"
      using False unfolding unf c by (auto simp: row t split: if_splits)
    have "row \<in> set (ct_dashboards db)" "uuid dashboard = Some (da_id row)" using row by (auto dest: find_SomeD split: bind_splits)
    moreover have "out = (let next = next_assigned customer (customer_title uuid db customer) assign (parse_assigned_customers (da_assigned row)) in
        (Inr next, db\<lparr>ct_dashboards := map (\<lambda>r. if da_id r = da_id row then r\<lparr>da_assigned := stored_assigned next\<rparr> else r) (ct_dashboards db)\<rparr>))"
      using guards unfolding unf c by (simp add: row t)
    ultimately show ?thesis using c t guards unfolding out_def Let_def by blast
  qed (simp add: out_def)
qed

lemma delete_customer_effect:
  "\<exists>p. snd (delete_customer uuid claims customer db) = db\<lparr>ct_customers := filter p (ct_customers db)\<rparr>"
proof -
  have "snd (delete_customer uuid claims customer db) = db \<or>
      (\<exists>row :: customer_row. snd (delete_customer uuid claims customer db) = db\<lparr>ct_customers := filter (\<lambda>r. cu_id r \<noteq> cu_id row) (ct_customers db)\<rparr>)"
    by (auto simp: delete_customer_def split: option.split)
  then show ?thesis
  proof
    assume "snd (delete_customer uuid claims customer db) = db"
    then show ?thesis by (intro exI [of _ "\<lambda>_. True"]) simp
  qed blast
qed

text \<open>The invariant by its clauses.\<close>

lemma customers_invarI:
  assumes "\<And>cr. cr \<in> set (ct_customers db) \<Longrightarrow> \<not> has_prefix (cu_id cr) nil_customer_prefix"
    "distinct (map cu_id (ct_customers db))" "\<And>table. distinct (map ow_id (entity_rows db table))" "distinct (map da_id (ct_dashboards db))"
    "\<And>table r cr. r \<in> set (entity_rows db table) \<Longrightarrow> cr \<in> set (ct_customers db) \<Longrightarrow> ow_customer r = Some (cu_id cr) \<Longrightarrow> cu_tenant cr = ow_tenant r"
    "\<And>d e cr. d \<in> set (ct_dashboards db) \<Longrightarrow> e \<in> set (parse_assigned_customers (da_assigned d)) \<Longrightarrow> cr \<in> set (ct_customers db) \<Longrightarrow>
        uuid (assigned_customer_id e) = Some (cu_id cr) \<Longrightarrow> cu_tenant cr = da_tenant d"
  shows "customers_invar uuid db"
  using assms unfolding customers_invar_def by blast

lemma customers_invarD:
  assumes "customers_invar uuid db"
  shows "\<And>cr. cr \<in> set (ct_customers db) \<Longrightarrow> \<not> has_prefix (cu_id cr) nil_customer_prefix"
    "distinct (map cu_id (ct_customers db))" "\<And>table. distinct (map ow_id (entity_rows db table))" "distinct (map da_id (ct_dashboards db))"
    "\<And>table r cr. r \<in> set (entity_rows db table) \<Longrightarrow> cr \<in> set (ct_customers db) \<Longrightarrow> ow_customer r = Some (cu_id cr) \<Longrightarrow> cu_tenant cr = ow_tenant r"
    "\<And>d e cr. d \<in> set (ct_dashboards db) \<Longrightarrow> e \<in> set (parse_assigned_customers (da_assigned d)) \<Longrightarrow> cr \<in> set (ct_customers db) \<Longrightarrow>
        uuid (assigned_customer_id e) = Some (cu_id cr) \<Longrightarrow> cu_tenant cr = da_tenant d"
  using assms unfolding customers_invar_def by blast+

lemma entity_rows_customers [simp]: "entity_rows (db\<lparr>ct_customers := cs\<rparr>) = entity_rows db" "entity_rows (db\<lparr>ct_dashboards := ds\<rparr>) = entity_rows db"
  by (intro ext, simp add: entity_rows_def)+

lemma set_customer_tables [simp]:
  "ct_customers (set_customer table u c db) = ct_customers db" "ct_dashboards (set_customer table u c db) = ct_dashboards db"
  by (simp_all add: set_customer_def)

lemma save_customer_invar:
  assumes "customers_invar uuid db" "op_ok uuid (SaveCustomer quota now new_id claims body) db"
  shows "customers_invar uuid (snd (save_customer uuid quota now new_id claims body db))" (is "customers_invar uuid ?out")
  using save_customer_effect [of uuid quota now new_id claims body db]
proof (elim disjE exE conjE)
  assume "?out = db"
  then show ?thesis using assms(1) by simp
next
  fix row :: customer_row and title cols info
  let ?f = "\<lambda>r. if cu_id r = cu_id row then update_customer title cols info r else r"
  assume o': "?out = db\<lparr>ct_customers := map ?f (ct_customers db)\<rparr>"
  have same: "cu_id (?f r) = cu_id r" "cu_tenant (?f r) = cu_tenant r" for r by (simp_all add: update_customer_def)
  have orig: "\<exists>cr0 \<in> set (ct_customers db). cu_id cr = cu_id cr0 \<and> cu_tenant cr = cu_tenant cr0"
    if c: "cr \<in> set (map ?f (ct_customers db))" for cr
  proof -
    obtain r0 where r0: "r0 \<in> set (ct_customers db)" "cr = ?f r0" using c by auto
    show ?thesis unfolding r0(2) same by (rule bexI [OF _ r0(1)]) simp
  qed
  note i = customers_invarD [OF assms(1)]
  show ?thesis unfolding o'
  proof (rule customers_invarI)
    have "map cu_id (ct_customers (db\<lparr>ct_customers := map ?f (ct_customers db)\<rparr>)) = map cu_id (ct_customers db)"
      using same(1) by (simp add: comp_def)
    then show "distinct (map cu_id (ct_customers (db\<lparr>ct_customers := map ?f (ct_customers db)\<rparr>)))" by (simp only: i(2))
    fix cr
    assume "cr \<in> set (ct_customers (db\<lparr>ct_customers := map ?f (ct_customers db)\<rparr>))"
    then have "cr \<in> set (map ?f (ct_customers db))" by simp
    from orig [OF this] i(1) show "\<not> has_prefix (cu_id cr) nil_customer_prefix" by auto
  next
    fix table r cr
    assume r: "r \<in> set (entity_rows (db\<lparr>ct_customers := map ?f (ct_customers db)\<rparr>) table)"
      "cr \<in> set (ct_customers (db\<lparr>ct_customers := map ?f (ct_customers db)\<rparr>))" "ow_customer r = Some (cu_id cr)"
    then have "cr \<in> set (map ?f (ct_customers db))" by simp
    from orig [OF this] obtain cr0 where "cr0 \<in> set (ct_customers db)" "cu_id cr = cu_id cr0" "cu_tenant cr = cu_tenant cr0" by blast
    then show "cu_tenant cr = ow_tenant r" using i(5) [of r table cr0] r(1,3) by simp
  next
    fix d e cr
    assume d: "d \<in> set (ct_dashboards (db\<lparr>ct_customers := map ?f (ct_customers db)\<rparr>))" "e \<in> set (parse_assigned_customers (da_assigned d))"
      "cr \<in> set (ct_customers (db\<lparr>ct_customers := map ?f (ct_customers db)\<rparr>))" "uuid (assigned_customer_id e) = Some (cu_id cr)"
    then have "cr \<in> set (map ?f (ct_customers db))" by simp
    from orig [OF this] obtain cr0 where "cr0 \<in> set (ct_customers db)" "cu_id cr = cu_id cr0" "cu_tenant cr = cu_tenant cr0" by blast
    then show "cu_tenant cr = da_tenant d" using i(6) [of d e cr0] d(1,2,4) by simp
  qed (use i(3,4) in simp_all)
next
  fix row :: customer_row
  assume n: "cu_id row = new_id" and o': "?out = db\<lparr>ct_customers := ct_customers db @ [row]\<rparr>"
  have new: "\<not> has_prefix new_id nil_customer_prefix" "new_id \<notin> cu_id ` set (ct_customers db)"
    "\<And>table r. r \<in> set (entity_rows db table) \<Longrightarrow> ow_customer r \<noteq> Some new_id"
    "\<And>d e. d \<in> set (ct_dashboards db) \<Longrightarrow> e \<in> set (parse_assigned_customers (da_assigned d)) \<Longrightarrow> uuid (assigned_customer_id e) \<noteq> Some new_id"
    using assms(2) unfolding op_ok.simps by blast+
  note i = customers_invarD [OF assms(1)]
  show ?thesis unfolding o'
  proof (rule customers_invarI)
    show "distinct (map cu_id (ct_customers (db\<lparr>ct_customers := ct_customers db @ [row]\<rparr>)))" using i(2) new(2) n by simp
    fix cr
    assume "cr \<in> set (ct_customers (db\<lparr>ct_customers := ct_customers db @ [row]\<rparr>))"
    then show "\<not> has_prefix (cu_id cr) nil_customer_prefix" using i(1) new(1) n by auto
  next
    fix table r cr
    assume "r \<in> set (entity_rows (db\<lparr>ct_customers := ct_customers db @ [row]\<rparr>) table)"
      "cr \<in> set (ct_customers (db\<lparr>ct_customers := ct_customers db @ [row]\<rparr>))" "ow_customer r = Some (cu_id cr)"
    then show "cu_tenant cr = ow_tenant r" using i(5) new(3) n by auto
  next
    fix d e cr
    assume "d \<in> set (ct_dashboards (db\<lparr>ct_customers := ct_customers db @ [row]\<rparr>))" "e \<in> set (parse_assigned_customers (da_assigned d))"
      "cr \<in> set (ct_customers (db\<lparr>ct_customers := ct_customers db @ [row]\<rparr>))" "uuid (assigned_customer_id e) = Some (cu_id cr)"
    then show "cu_tenant cr = da_tenant d" using i(6) new(4) n by auto
  qed (use i(3,4) in simp_all)
qed

lemma delete_customer_invar:
  assumes "customers_invar uuid db"
  shows "customers_invar uuid (snd (delete_customer uuid claims customer db))"
proof -
  obtain p where "snd (delete_customer uuid claims customer db) = db\<lparr>ct_customers := filter p (ct_customers db)\<rparr>"
    using delete_customer_effect by blast
  then show ?thesis using customers_invarD [OF assms]
    by (intro customers_invarI) (simp_all add: distinct_map_filter)
qed

lemma assign_entity_invar:
  assumes "customers_invar uuid db" "uuid_laws uuid"
  shows "customers_invar uuid (snd (handle_assign_to_customer uuid claims customer kind entity db))" (is "customers_invar uuid ?out")
proof (cases "?out = db")
  case False
  with assign_entity_effect [of uuid claims customer kind entity db] obtain c table row arg where
    a: "row \<in> set (entity_rows db table)" "ow_tenant row = Some (claim_string c ''tenantId'')" "?out = set_customer table (ow_id row) arg db"
    "customer = [] \<and> arg = None \<or> customer_belongs_to_tenant uuid db customer (claim_string c ''tenantId'') \<and> arg = uuid customer \<and> arg \<noteq> None"
    by blast
  note i = customers_invarD [OF assms(1)]
  let ?f = "\<lambda>r. if ow_id r = ow_id row then r\<lparr>ow_customer := arg\<rparr> else r"
  have ids: "map ow_id (map ?f rows) = map ow_id rows" for rows by simp
  show ?thesis unfolding a(3)
  proof (rule customers_invarI)
    show "distinct (map ow_id (entity_rows (set_customer table (ow_id row) arg db) table'))" for table'
      using i(3) ids [of "entity_rows db table"] by (simp only: entity_rows_set_customer split: if_split) simp
    fix table' r cr
    assume r: "r \<in> set (entity_rows (set_customer table (ow_id row) arg db) table')" and cr: "cr \<in> set (ct_customers (set_customer table (ow_id row) arg db))"
      and o': "ow_customer r = Some (cu_id cr)"
    show "cu_tenant cr = ow_tenant r"
    proof (cases "table' = table \<and> ow_id r = ow_id row")
      case True
      then obtain r0 where r0: "r0 \<in> set (entity_rows db table)" "r = ?f r0" using r by (auto simp: entity_rows_set_customer)
      then have "ow_id r0 = ow_id row" using True by (simp split: if_splits)
      then have "r0 = row" using i(3) [of table] a(1) r0(1) by (simp add: distinct_map inj_on_def)
      then have arg: "arg = Some (cu_id cr)" "ow_tenant r = ow_tenant row" using r0(2) o' by simp_all
      with a(4) have "customer_belongs_to_tenant uuid db customer (claim_string c ''tenantId'')" "uuid customer = Some (cu_id cr)" by auto
      from belongs_tenant [OF this(1) assms(2) i(2) _ this(2) i(1)] cr a(2) arg(2) show ?thesis by simp
    next
      case False
      then have "r \<in> set (entity_rows db table')" using r by (auto simp: entity_rows_set_customer split: if_splits)
      then show ?thesis using i(5) cr o' by simp
    qed
  qed (use i(1,2,4,6) in simp_all)
qed (use assms in simp)

lemma assign_dashboard_invar:
  assumes "customers_invar uuid db" "uuid_laws uuid"
  shows "customers_invar uuid (snd (handle_assign_dashboard uuid claims customer dashboard assign db))" (is "customers_invar uuid ?out")
proof (cases "?out = db")
  case False
  with assign_dashboard_effect [of uuid claims customer dashboard assign db] obtain c row nxt where
    a: "row \<in> set (ct_dashboards db)" "da_tenant row = Some (claim_string c ''tenantId'')"
    "customer_belongs_to_tenant uuid db customer (claim_string c ''tenantId'')"
    "nxt = next_assigned customer (customer_title uuid db customer) assign (parse_assigned_customers (da_assigned row))"
    "?out = db\<lparr>ct_dashboards := map (\<lambda>r. if da_id r = da_id row then r\<lparr>da_assigned := stored_assigned nxt\<rparr> else r) (ct_dashboards db)\<rparr>"
    by auto
  note i = customers_invarD [OF assms(1)]
  let ?f = "\<lambda>r. if da_id r = da_id row then r\<lparr>da_assigned := stored_assigned nxt\<rparr> else r"
  have ids: "map da_id (ct_dashboards (db\<lparr>ct_dashboards := map ?f (ct_dashboards db)\<rparr>)) = map da_id (ct_dashboards db)" by simp
  show ?thesis unfolding a(5)
  proof (rule customers_invarI)
    show "distinct (map da_id (ct_dashboards (db\<lparr>ct_dashboards := map ?f (ct_dashboards db)\<rparr>)))" unfolding ids by (rule i(4))
    fix d e cr
    assume d: "d \<in> set (ct_dashboards (db\<lparr>ct_dashboards := map ?f (ct_dashboards db)\<rparr>))"
      and e: "e \<in> set (parse_assigned_customers (da_assigned d))" "uuid (assigned_customer_id e) = Some (cu_id cr)"
      and cr: "cr \<in> set (ct_customers (db\<lparr>ct_dashboards := map ?f (ct_dashboards db)\<rparr>))"
    obtain d0 where d0: "d0 \<in> set (ct_dashboards db)" "d = ?f d0" using d by auto
    show "cu_tenant cr = da_tenant d"
    proof (cases "da_id d0 = da_id row")
      case True
      then have "d0 = row" using i(4) a(1) d0(1) by (simp add: distinct_map inj_on_def)
      then have t: "da_tenant d = da_tenant row" "da_assigned d = stored_assigned nxt" using d0(2) by simp_all
      from e(1) obtain e0 where e0: "e0 \<in> set nxt" "assigned_customer_id e = assigned_customer_id e0"
        using parse_next assigned_customer_id_reencode by (auto simp: t(2) a(4))
      have "e0 \<in> set (parse_assigned_customers (da_assigned row)) \<or> assigned_customer_id e0 = customer"
        using e0(1) by (auto simp: a(4) next_assigned_def split: if_splits)
      then show ?thesis
      proof
        assume "e0 \<in> set (parse_assigned_customers (da_assigned row))"
        then show ?thesis using i(6) [OF a(1) _ _ e(2) [unfolded e0(2)]] cr t(1) by simp
      next
        assume "assigned_customer_id e0 = customer"
        then have "uuid customer = Some (cu_id cr)" using e(2) e0(2) by simp
        from belongs_tenant [OF a(3) assms(2) i(2) _ this i(1)] cr a(2) t(1) show ?thesis by simp
      qed
    next
      case False
      then show ?thesis using i(6) [OF d0(1) _ _ e(2)] e(1) cr d0(2) by simp
    qed
  qed (use i(1,2,3,5) in simp_all)
qed (use assms in simp)

lemma customer_step_invar:
  "customers_invar uuid db \<Longrightarrow> op_ok uuid op db \<Longrightarrow> uuid_laws uuid \<Longrightarrow> customers_invar uuid (customer_step uuid op db)"
  by (cases op) (simp_all only: customer_step.simps save_customer_invar delete_customer_invar assign_entity_invar assign_dashboard_invar)

text \<open>C22: Customers stay in their tenant. Whatever sequence of creations, changes, deletions and assignments by
  whatever callers runs, an entity or a dashboard names an existing customer only if the customer is of
  its own tenant.\<close>

theorem assignments_stay_in_tenant:
  assumes "customers_invar uuid db" "ops_ok uuid ops db" "uuid_laws uuid"
  shows "customers_invar uuid (fold (customer_step uuid) ops db)"
  using assms(1,2)
proof (induction ops arbitrary: db)
  case (Cons op ops)
  then show ?case using customer_step_invar [OF _ _ assms(3)] by simp
qed simp

section \<open>Dashboard assignments\<close>

lemma assign_dashboard_Inr:
  assumes "handle_assign_dashboard uuid claims customer dashboard assign db = (Inr nxt, db')"
  shows "\<exists>row. row \<in> set (ct_dashboards db) \<and> uuid dashboard = Some (da_id row) \<and>
      nxt = next_assigned customer (customer_title uuid db customer) assign (parse_assigned_customers (da_assigned row)) \<and>
      db' = db\<lparr>ct_dashboards := map (\<lambda>r. if da_id r = da_id row then r\<lparr>da_assigned := stored_assigned nxt\<rparr> else r) (ct_dashboards db)\<rparr>"
proof -
  note h = assms [unfolded handle_assign_dashboard_def Let_def]
  obtain c where c: "claims = Some c" using h by (cases claims) simp_all
  obtain row where row: "Option.bind (uuid dashboard) (\<lambda>u. find (\<lambda>r. da_id r = u) (ct_dashboards db)) = Some row"
    using h c by (cases "Option.bind (uuid dashboard) (\<lambda>u. find (\<lambda>r. da_id r = u) (ct_dashboards db))") simp_all
  obtain t where t: "da_tenant row = Some t" using h c row by (cases "da_tenant row") simp_all
  have "nxt = next_assigned customer (customer_title uuid db customer) assign (parse_assigned_customers (da_assigned row)) \<and>
      db' = db\<lparr>ct_dashboards := map (\<lambda>r. if da_id r = da_id row then r\<lparr>da_assigned := stored_assigned nxt\<rparr> else r) (ct_dashboards db)\<rparr>"
    using h c row t by (auto split: if_splits)
  moreover have "row \<in> set (ct_dashboards db)" "uuid dashboard = Some (da_id row)" using row by (auto dest: find_SomeD split: bind_splits)
  ultimately show ?thesis by blast
qed

definition stored_entry :: "str \<Rightarrow> str \<Rightarrow> json" where
  "stored_entry customer title =
     JObj [(''customerId'', JObj [(''entityType'', JStr ''CUSTOMER''), (''id'', JStr customer)]),
           (''public'', JBool False), (''title'', JStr title)]"

definition stored_entries :: "(str \<times> str) list \<Rightarrow> raw_message option" where
  "stored_entries cs = (if cs = [] then None else Some (Some (JArr (map (\<lambda>(c, t). stored_entry c t) cs))))"

text \<open>The values the handler itself writes.\<close>

definition wf_assigned :: "raw_message option \<Rightarrow> bool" where
  "wf_assigned raw \<longleftrightarrow> (\<exists>cs. raw = stored_entries cs)"

lemma sorted_members:
  "sort_dedup [''customerId'', ''title'', ''public''] = [''customerId'', ''public'', ''title'']"
  "sort_dedup [''customerId'', ''public'', ''title''] = [''customerId'', ''public'', ''title'']"
  "sort_dedup [''entityType'', ''id''] = [''entityType'', ''id'']"
  by code_simp+

lemma reencode_entry [simp]: "reencode (assignment_entry c t) = stored_entry c t" "reencode (stored_entry c t) = stored_entry c t"
  by (simp_all add: assignment_entry_def stored_entry_def sorted_members)

lemma assigned_id_stored [simp]: "assigned_customer_id (stored_entry c t) = c"
  by (metis assigned_customer_id_reencode assigned_id_entry reencode_entry(1))

lemma parse_stored_entries: "parse_assigned_customers (stored_entries cs) = map (\<lambda>(c, t). stored_entry c t) cs"
  by (auto simp: parse_assigned_customers_def stored_entries_def stored_entry_def list_all_iff)

lemma folds:
  "equal_fold ''customerId'' ''customerId''" "\<not> equal_fold ''public'' ''customerId''" "\<not> equal_fold ''title'' ''customerId''"
  "equal_fold ''id'' ''id''" "\<not> equal_fold ''entityType'' ''id''"
  by code_simp+

lemma dec_stored_entry: "dec_assignment (stored_entry c t) old = Some c"
  by (simp add: stored_entry_def struct_vals_def folds)

lemma decoded_stored_entries: "cs \<noteq> [] \<Longrightarrow> decoded_assignments (stored_entries cs) = Some (map fst cs)"
proof -
  have "dec_slice dec_assignment [] (map (\<lambda>(c, t). stored_entry c t) cs) old = Some (map fst cs)" for old
    by (induction cs arbitrary: old) (auto simp: dec_stored_entry split: list.split)
  then show "cs \<noteq> [] \<Longrightarrow> ?thesis" by (simp add: decoded_assignments_def stored_entries_def)
qed

lemma assigned_ids_stored: "assigned_customer_ids (stored_entries cs) = filter (\<lambda>i. i \<noteq> []) (map fst cs)"
proof (cases "cs = []")
  case True
  then show ?thesis by (simp add: assigned_customer_ids_def stored_entries_def decoded_assignments_def)
next
  case False
  then show ?thesis by (simp add: assigned_customer_ids_def decoded_stored_entries)
qed

lemma assigned_to_stored: "assigned_to (stored_entries cs) c \<longleftrightarrow> c \<noteq> [] \<and> c \<in> fst ` set cs"
  by (cases "cs = []") (auto simp: assigned_to_def decoded_stored_entries, simp_all add: stored_entries_def decoded_assignments_def)

definition customers_of :: "dashboard_row \<Rightarrow> str set" where
  "customers_of d = {c. assigned_to (da_assigned d) c}"

lemma stored_next:
  "stored_assigned (next_assigned customer title assign (parse_assigned_customers (stored_entries cs))) =
    stored_entries (filter (\<lambda>x. fst x \<noteq> customer) cs @ (if assign then [(customer, title)] else []))"
proof -
  have f: "filter (\<lambda>a. assigned_customer_id a \<noteq> customer) (map (\<lambda>(c, t). stored_entry c t) cs) =
      map (\<lambda>(c, t). stored_entry c t) (filter (\<lambda>x. fst x \<noteq> customer) cs)"
    by (induction cs) auto
  have r: "map reencode (map (\<lambda>(c, t). stored_entry c t) xs) = map (\<lambda>(c, t). stored_entry c t) xs" for xs
    by (induction xs) auto
  show ?thesis unfolding parse_stored_entries next_assigned_def f
    by (cases assign) (auto simp: stored_assigned_def stored_entries_def r comp_def split_def)
qed

text \<open>Assigning a dashboard refines a set of customers. Where the assignments of every dashboard are as the
  handler writes them, a successful request adds the customer to, or removes him from, the customers of
  the dashboard it names, lists him exactly once or not at all, and leaves every other dashboard alone.\<close>

theorem dashboard_assignment_refines:
  assumes "handle_assign_dashboard uuid claims customer dashboard assign db = (Inr nxt, db')" "customer \<noteq> []"
    "\<forall>d \<in> set (ct_dashboards db). wf_assigned (da_assigned d)" "distinct (map da_id (ct_dashboards db))"
  shows "\<exists>f. ct_dashboards db' = map f (ct_dashboards db) \<and>
     (\<forall>d \<in> set (ct_dashboards db). wf_assigned (da_assigned (f d)) \<and>
        (if uuid dashboard = Some (da_id d)
         then customers_of (f d) = (if assign then insert customer (customers_of d) else customers_of d - {customer}) \<and>
              count_list (assigned_customer_ids (da_assigned (f d))) customer = (if assign then 1 else 0)
         else f d = d))"
proof -
  from assign_dashboard_Inr [OF assms(1)] obtain row where row: "row \<in> set (ct_dashboards db)" "uuid dashboard = Some (da_id row)"
    and n: "nxt = next_assigned customer (customer_title uuid db customer) assign (parse_assigned_customers (da_assigned row))"
    and db': "db' = db\<lparr>ct_dashboards := map (\<lambda>r. if da_id r = da_id row then r\<lparr>da_assigned := stored_assigned nxt\<rparr> else r) (ct_dashboards db)\<rparr>"
    by blast
  let ?f = "\<lambda>r. if da_id r = da_id row then r\<lparr>da_assigned := stored_assigned nxt\<rparr> else r"
  obtain cs where cs: "da_assigned row = stored_entries cs" using assms(3) row(1) unfolding wf_assigned_def by blast
  let ?cs = "filter (\<lambda>x. fst x \<noteq> customer) cs @ (if assign then [(customer, customer_title uuid db customer)] else [])"
  have st: "stored_assigned nxt = stored_entries ?cs" unfolding n cs by (rule stored_next)
  have "wf_assigned (da_assigned (?f d)) \<and>
        (if uuid dashboard = Some (da_id d)
         then customers_of (?f d) = (if assign then insert customer (customers_of d) else customers_of d - {customer}) \<and>
              count_list (assigned_customer_ids (da_assigned (?f d))) customer = (if assign then 1 else 0)
         else ?f d = d)" if d: "d \<in> set (ct_dashboards db)" for d
  proof (cases "da_id d = da_id row")
    case True
    then have "d = row" using assms(4) d row(1) by (simp add: distinct_map inj_on_def)
    then have "customers_of d = {c. c \<noteq> [] \<and> c \<in> fst ` set cs}" by (simp add: customers_of_def cs assigned_to_stored)
    moreover have a: "da_assigned (?f d) = stored_entries ?cs" using True st by simp
    have "customers_of (?f d) = {c. c \<noteq> [] \<and> c \<in> fst ` set ?cs}" unfolding customers_of_def a
      by (rule set_eqI) (simp add: assigned_to_stored)
    moreover have "count_list (map fst (filter (\<lambda>x. fst x \<noteq> customer) xs)) customer = 0" for xs :: "(str \<times> str) list"
      by (induction xs) auto
    moreover have "count_list (filter (\<lambda>i. i \<noteq> []) xs) customer = count_list xs customer" for xs
      using assms(2) by (induction xs) auto
    ultimately show ?thesis using True row(2) assms(2) unfolding a assigned_ids_stored wf_assigned_def
      by (auto simp: image_iff) force+
  next
    case False
    then show ?thesis using row(2) assms(3) d by simp
  qed
  then show ?thesis unfolding db' by (intro exI [of _ ?f]) simp
qed

section \<open>The listing\<close>

text \<open>The page of a listing. Listing the dashboards of a customer panics exactly when the index of the
  first item, computed in 64 bits, is negative - page -1 does it - and otherwise answers with the items
  from that index on, at most a page of them.\<close>

theorem customer_page_panics:
  assumes "uuid (claim_string c ''tenantId'') \<noteq> None" "length (ct_dashboards db) < 2 ^ 62"
  shows "(list_by_customer uuid (Some c) query customer db = Inl HandlerPanic \<longleftrightarrow>
            wrap64 (int_param query ''page'' 0 * page_size query 10) < 0) \<and>
     (\<forall>p. list_by_customer uuid (Some c) query customer db = Inr p \<longrightarrow>
        dp_data p = take (nat (page_size query 10)) (drop (nat (wrap64 (int_param query ''page'' 0 * page_size query 10)))
          (matched_dashboards uuid db (claim_string c ''tenantId'') customer)))"
proof -
  let ?rows = "matched_dashboards uuid db (claim_string c ''tenantId'') customer"
  let ?s = "wrap64 (int_param query ''page'' 0 * page_size query 10)" and ?n = "page_size query 10"
  have n: "1 \<le> ?n" "?n \<le> 1000" using page_size_bounded [of query 10] by blast+
  have "length ?rows \<le> length (ct_dashboards db)" unfolding matched_dashboards_def by (simp add: order_trans [OF length_filter_le])
  then have "length ?rows < 2 ^ 62" using assms(2) by (rule le_less_trans)
  then have "int (length ?rows) < int (2 ^ 62)" unfolding of_nat_less_iff .
  then have len: "int (length ?rows) < 2 ^ 62" by simp
  have slice: "page_slice ?rows (int_param query ''page'' 0) ?n = (if ?s < 0 then None else Some (take (nat ?n) (drop (nat ?s) ?rows)))"
  proof (cases "?s < 0")
    case True
    then show ?thesis by (simp add: page_slice_def Let_def)
  next
    case False
    define start where "start = (if int (length ?rows) < ?s then int (length ?rows) else ?s)"
    have start: "0 \<le> start" "start \<le> int (length ?rows)" using False by (auto simp: start_def)
    then have "wrap64 (start + ?n) = start + ?n" using n len by (intro wrap64_id) (simp add: int64_range_def)
    moreover define e where "e = (if int (length ?rows) < start + ?n then int (length ?rows) else start + ?n)"
    ultimately have "page_slice ?rows (int_param query ''page'' 0) ?n = Some (take (nat (e - start)) (drop (nat start) ?rows))"
      using start n by (auto simp: page_slice_def Let_def start_def [symmetric])
    also have "take (nat (e - start)) (drop (nat start) ?rows) = take (nat ?n) (drop (nat ?s) ?rows)"
      using start n False by (auto simp: e_def start_def min_def)
    finally show ?thesis using False by simp
  qed
  show ?thesis using assms(1) by (simp add: list_by_customer_def require_auth_def or_fail_def Let_def slice)
qed

section \<open>A concrete tenant\<close>

definition site :: customer_row where
  "site = \<lparr>cu_id = ''c1'', cu_tenant = Some ''t'', cu_created = 1, cu_title = Some ''Site'', cu_columns = [], cu_info = None,
     cu_public = None, cu_version = 1\<rparr>"

definition board :: dashboard_row where
  "board = \<lparr>da_id = ''b1'', da_tenant = Some ''t'', da_title = Some ''Board'', da_assigned = None\<rparr>"

definition site_db :: customer_db where
  "site_db = \<lparr>ct_customers = [site],
     ct_entities = [(''device'', [\<lparr>ow_id = ''d1'', ow_tenant = Some ''t'', ow_created = 1, ow_name = None, ow_customer = None\<rparr>])],
     ct_dashboards = [board]\<rparr>"

definition site_ops :: "customer_op list" where
  "site_ops = [AssignEntity (Some demo_claims) ''c1'' ''device'' ''d1'', AssignDashboard (Some demo_claims) ''c1'' ''b1'' True,
     SaveCustomer True 5 ''c2'' (Some demo_claims) (Some (JObj [(''title'', JStr ''Other'')]))]"

lemma site_db_invar: "customers_invar plain_uuid site_db"
  by (rule customers_invarI)
    (auto simp: site_db_def site_def board_def entity_rows_def parse_assigned_customers_def nil_customer_prefix_def split: if_splits)

lemma plain_uuid_laws: "uuid_laws plain_uuid"
proof -
  have "has_prefix (to_lower s) nil_customer_prefix" if pre: "has_prefix s nil_customer_prefix" for s
  proof -
    obtain t where "s = nil_customer_prefix @ t" using pre by (auto simp: has_prefix_iff)
    moreover have "to_lower nil_customer_prefix = nil_customer_prefix" by code_simp
    ultimately have "to_lower s = nil_customer_prefix @ to_lower t" by (simp add: to_lower_def)
    then show ?thesis by simp
  qed
  then show ?thesis by (auto simp: uuid_laws_def plain_uuid_def)
qed

theorem assignments_stay_in_tenant_witness:
  "customers_invar plain_uuid (fold (customer_step plain_uuid) site_ops site_db) \<and>
   map ow_customer (entity_rows (fold (customer_step plain_uuid) site_ops site_db) ''device'') = [Some ''c1'']"
proof -
  let ?db = "customer_step plain_uuid (AssignDashboard (Some demo_claims) ''c1'' ''b1'' True)
    (customer_step plain_uuid (AssignEntity (Some demo_claims) ''c1'' ''device'' ''d1'') site_db)"
  have db: "map cu_id (ct_customers ?db) = [''c1'']" "ct_entities ?db = [(''device'', entity_rows ?db ''device'')]"
    "map ow_customer (entity_rows ?db ''device'') = [Some ''c1'']" "\<not> has_prefix ''c2'' nil_customer_prefix"
    "map (\<lambda>e. plain_uuid (assigned_customer_id e)) (concat (map (\<lambda>d. parse_assigned_customers (da_assigned d)) (ct_dashboards ?db))) = [Some ''c1'']"
    by code_simp+
  have r: "ow_customer r \<noteq> Some ''c2''" if "r \<in> set (entity_rows ?db table)" for r table
  proof (cases "table = ''device''")
    case True
    then have "ow_customer r \<in> set (map ow_customer (entity_rows ?db ''device''))" using that by simp
    then show ?thesis unfolding db(3) by simp
  next
    case False
    then have "entity_rows ?db table = []" unfolding entity_rows_def [of ?db table] db(2) by simp
    then show ?thesis using that by simp
  qed
  have e: "plain_uuid (assigned_customer_id e) \<noteq> Some ''c2''"
    if "d \<in> set (ct_dashboards ?db)" "e \<in> set (parse_assigned_customers (da_assigned d))" for d e
  proof -
    have "plain_uuid (assigned_customer_id e) \<in> set (map (\<lambda>e. plain_uuid (assigned_customer_id e))
        (concat (map (\<lambda>d. parse_assigned_customers (da_assigned d)) (ct_dashboards ?db))))" using that by auto
    then show ?thesis unfolding db(5) by simp
  qed
  have "''c2'' \<notin> cu_id ` set (ct_customers ?db)" unfolding set_map [symmetric] db(1) by simp
  with r e db(4) have "ops_ok plain_uuid site_ops site_db" unfolding site_ops_def ops_ok.simps op_ok.simps by blast
  moreover have "map ow_customer (entity_rows (fold (customer_step plain_uuid) site_ops site_db) ''device'') = [Some ''c1'']" by code_simp
  ultimately show ?thesis using assignments_stay_in_tenant [OF site_db_invar _ plain_uuid_laws] by blast
qed

theorem dashboard_assignment_refines_witness:
  "customers_of (hd (ct_dashboards (snd (handle_assign_dashboard plain_uuid (Some demo_claims) ''c1'' ''b1'' True site_db)))) = {''c1''}"
proof -
  let ?out = "handle_assign_dashboard plain_uuid (Some demo_claims) ''c1'' ''b1'' True site_db"
  have "\<not> isl (fst ?out)" by code_simp
  then have "fst ?out = Inr (projr (fst ?out))" by simp
  then have o': "?out = (Inr (projr (fst ?out)), snd ?out)" by (simp only: prod_eq_iff fst_conv snd_conv)
  have "wf_assigned (da_assigned board)" unfolding wf_assigned_def by (intro exI [of _ "[]"]) (simp add: board_def stored_entries_def)
  then have "\<forall>d \<in> set (ct_dashboards site_db). wf_assigned (da_assigned d)" "distinct (map da_id (ct_dashboards site_db))"
    by (simp_all add: site_db_def)
  from dashboard_assignment_refines [OF o' _ this] obtain f where m: "ct_dashboards (snd ?out) = map f (ct_dashboards site_db)"
    and f: "\<forall>d \<in> set (ct_dashboards site_db). wf_assigned (da_assigned (f d)) \<and>
        (if plain_uuid ''b1'' = Some (da_id d)
         then customers_of (f d) = (if True then insert ''c1'' (customers_of d) else customers_of d - {''c1''}) \<and>
              count_list (assigned_customer_ids (da_assigned (f d))) ''c1'' = (if True then 1 else 0)
         else f d = d)" by blast
  have "customers_of board = {}" by (simp add: customers_of_def board_def assigned_to_def decoded_assignments_def)
  moreover have "plain_uuid ''b1'' = Some (da_id board)" by code_simp
  ultimately have "customers_of (f board) = {''c1''}" using f by (simp add: site_db_def)
  then show ?thesis unfolding m by (simp add: site_db_def)
qed

theorem customer_page_panics_witness:
  "list_by_customer plain_uuid (Some demo_claims) [(''page'', ''-1'')] ''c1'' site_db = Inl HandlerPanic"
proof -
  have "plain_uuid (claim_string demo_claims ''tenantId'') \<noteq> None" "length (ct_dashboards site_db) < 2 ^ 62"
    "wrap64 (int_param [(''page'', ''-1'')] ''page'' 0 * page_size [(''page'', ''-1'')] 10) < 0" by code_simp+
  then show ?thesis using customer_page_panics by blast
qed

text \<open>Deleting a customer leaves the assignments that name it behind.\<close>

lemma deleted_customer_dangles:
  "map ow_customer (entity_rows (fold (customer_step plain_uuid)
      [AssignEntity (Some demo_claims) ''c1'' ''device'' ''d1'', DeleteCustomer (Some demo_claims) ''c1''] site_db) ''device'') = [Some ''c1''] \<and>
   ct_customers (fold (customer_step plain_uuid)
      [AssignEntity (Some demo_claims) ''c1'' ''device'' ''d1'', DeleteCustomer (Some demo_claims) ''c1''] site_db) = []"
  by (rule conjI) code_simp+

end
