(* ===== verification/LiveSessions.thy ===== *)
theory LiveSessions
  imports TwinWatch HttpUtil
begin

text \<open>
  The WebSocket sessions of the dashboards (internal/ws/ws.go) and the journal consumer that feeds them
  (internal/ws/journal.go): the ownership gate, authentication and the subscribe commands of a
  message, the registration of ENTITY_DATA references, the three broadcasters, the routing of journal
  events, and the world of all connections with the goroutines a message starts. A message is a
  record of its decoded commands; \<open>access\<close> is the verification of an access token, \<open>uuid\<close> how
  Postgres reads a UUID literal, \<open>marshal\<close> the text json.Marshal gives a value. Go maps are ranged
  over in the order of their association list. Deadlines, pings and failing writes are not modelled.
\<close>

section \<open>Ownership\<close>

record tenant_scope =
  ts_tenant :: str
  ts_admin :: bool

type_synonym owner_tables = "(str, (str \<times> str option) list) gomap"

definition tenant_owned_table :: "str \<Rightarrow> str option" where
  "tenant_owned_table etype = map_of
     [(''DEVICE'', ''device''), (''ASSET'', ''asset''), (''ENTITY_VIEW'', ''entity_view''), (''CUSTOMER'', ''customer''),
      (''DASHBOARD'', ''dashboard''), (''USER'', ''tb_user''), (''EDGE'', ''edge''), (''ALARM'', ''alarm''),
      (''RULE_CHAIN'', ''rule_chain''), (''API_USAGE_STATE'', ''api_usage_state'')] (to_upper (trim_space etype))"

text \<open>The owner of a row, "" for NULL; \<open>None\<close> when there is no such row, id or table.\<close>

definition row_owner :: "(str \<Rightarrow> str option) \<Rightarrow> owner_tables \<Rightarrow> str \<Rightarrow> str \<Rightarrow> str option" where
  "row_owner uuid tables table ident =
     (case (map_of tables table, uuid ident) of
        (Some rows, Some u) \<Rightarrow> map_option (\<lambda>t. case t of None \<Rightarrow> [] | Some t \<Rightarrow> t) (map_of rows u)
      | _ \<Rightarrow> None)"

definition entity_belongs_to_tenant :: "(str \<Rightarrow> str option) \<Rightarrow> owner_tables \<Rightarrow> str \<Rightarrow> str \<Rightarrow> str \<Rightarrow> bool" where
  "entity_belongs_to_tenant uuid tables etype ident tenant \<longleftrightarrow>
     ident \<noteq> [] \<and> tenant \<noteq> [] \<and>
     (if equal_fold (trim_space etype) ''TENANT'' then ident = tenant
      else (case tenant_owned_table etype of
              None \<Rightarrow> False
            | Some table \<Rightarrow> row_owner uuid tables table ident = Some tenant))"

definition scope_allows :: "(str \<Rightarrow> str option) \<Rightarrow> owner_tables \<Rightarrow> tenant_scope \<Rightarrow> str \<Rightarrow> str \<Rightarrow> bool" where
  "scope_allows uuid tables sc etype ident \<longleftrightarrow>
     ts_tenant sc \<noteq> [] \<and> ident \<noteq> [] \<and>
     (ts_admin sc \<or> entity_belongs_to_tenant uuid tables etype ident (ts_tenant sc))"

section \<open>Sessions\<close>

record ws_cmd =
  cd_entity :: str
  cd_entity_type :: str
  cd_keys :: str
  cd_id :: int
  cd_scope :: str
  cd_type :: str
  cd_unsubscribe :: bool

record subscription =
  sb_cmd :: int
  sb_keys :: "str list"
  sb_scope :: str

text \<open>The reference an ENTITY_DATA command registers: its entity, the keys it wants, and for each
  attribute key the channel it is to be pushed into.\<close>

record live_ref =
  rf_id :: str
  rf_type :: str
  rf_keys :: "str list"
  rf_attrs :: "(str, str) gomap"

record ws_session =
  ws_subs :: "(str, subscription list) gomap"
  ws_alarms :: "(str, subscription list) gomap"
  ws_attrs :: "(str, subscription list) gomap"
  ws_cmds :: "(int, live_ref) gomap"
  ws_tenant :: str
  ws_admin :: bool
  ws_authenticated :: bool

definition new_session :: ws_session where
  "new_session = \<lparr>ws_subs = [], ws_alarms = [], ws_attrs = [], ws_cmds = [], ws_tenant = [], ws_admin = False,
     ws_authenticated = False\<rparr>"

definition session_scope :: "ws_session \<Rightarrow> tenant_scope" where
  "session_scope s = \<lparr>ts_tenant = ws_tenant s, ts_admin = ws_admin s\<rparr>"

definition or_device :: "str \<Rightarrow> str" where
  "or_device etype = (if etype = [] then ''DEVICE'' else etype)"

definition filter_owned_sub_cmds :: "(str \<Rightarrow> str option) \<Rightarrow> owner_tables \<Rightarrow> tenant_scope \<Rightarrow> ws_cmd list \<Rightarrow> ws_cmd list" where
  "filter_owned_sub_cmds uuid tables sc cmds =
     filter (\<lambda>c. cd_entity c = [] \<or> cd_unsubscribe c \<or> scope_allows uuid tables sc (or_device (cd_entity_type c)) (cd_entity c)) cmds"

definition remove_sub :: "subscription list \<Rightarrow> int \<Rightarrow> subscription list" where
  "remove_sub subs n = filter (\<lambda>s. sb_cmd s \<noteq> n) subs"

definition subs_of :: "(str, subscription list) gomap \<Rightarrow> str \<Rightarrow> subscription list" where
  "subs_of m e = (case map_of m e of None \<Rightarrow> [] | Some subs \<Rightarrow> subs)"

definition split_keys :: "str \<Rightarrow> str list" where
  "split_keys keys = (if keys = [] then [] else split_on CHR '','' keys)"

text \<open>One command of a subscribe list; \<open>mk\<close> is the subscription it registers.\<close>

definition apply_sub :: "(ws_cmd \<Rightarrow> subscription) \<Rightarrow> ws_cmd \<Rightarrow> (str, subscription list) gomap \<Rightarrow> (str, subscription list) gomap" where
  "apply_sub mk c m =
     (if cd_entity c = [] then m
      else if cd_unsubscribe c
      then (let rest = remove_sub (subs_of m (cd_entity c)) (cd_id c)
            in if rest = [] then AList.delete (cd_entity c) m else AList.update (cd_entity c) rest m)
      else AList.update (cd_entity c) (subs_of m (cd_entity c) @ [mk c]) m)"

definition telemetry_sub :: "ws_cmd \<Rightarrow> subscription" where
  "telemetry_sub c = \<lparr>sb_cmd = cd_id c, sb_keys = split_keys (cd_keys c), sb_scope = []\<rparr>"

definition alarm_sub :: "ws_cmd \<Rightarrow> subscription" where
  "alarm_sub c = \<lparr>sb_cmd = cd_id c, sb_keys = [], sb_scope = []\<rparr>"

definition attr_sub :: "ws_cmd \<Rightarrow> subscription" where
  "attr_sub c = \<lparr>sb_cmd = cd_id c, sb_keys = split_keys (cd_keys c), sb_scope = cd_scope c\<rparr>"

section \<open>ENTITY_DATA\<close>

text \<open>A command for a single entity, decoded: the entity of its filter, the latest values it asks for, and the
  keys of its series, history and latest commands. The list, usage and relation filters are told apart.\<close>

record entity_query =
  eq_cmd :: int
  eq_type :: str
  eq_filter :: str
  eq_entity :: str
  eq_entity_type :: str
  eq_latest :: "(str \<times> str) list"
  eq_series :: "str list"
  eq_history :: "str list"
  eq_latest_keys :: "str list"

definition attribute_channels :: "str list" where
  "attribute_channels = [''ATTRIBUTE'', ''SERVER_SCOPE'', ''CLIENT_SCOPE'', ''SHARED_SCOPE'']"

text \<open>The set of keys, in some order, and the channel of each attribute key.\<close>

definition query_keys :: "entity_query \<Rightarrow> str list" where
  "query_keys q = remdups (filter (\<lambda>k. k \<noteq> []) (map snd (eq_latest q)) @ eq_series q @ eq_history q @ filter (\<lambda>k. k \<noteq> []) (eq_latest_keys q))"

definition query_channels :: "entity_query \<Rightarrow> (str, str) gomap" where
  "query_channels q = fold (\<lambda>(t, k) m. if k \<noteq> [] \<and> t \<in> set attribute_channels then AList.update k t m else m) (eq_latest q) []"

definition merge_channels :: "(str, str) gomap \<Rightarrow> (str, str) gomap \<Rightarrow> (str, str) gomap" where
  "merge_channels new old = new @ filter (\<lambda>(k, c). map_of new k = None) old"

text \<open>The registration, under the lock of the session. A query that names an entity has passed the gate.\<close>

definition register_ref :: "entity_query \<Rightarrow> ws_session \<Rightarrow> ws_session" where
  "register_ref q s =
     (let keys = query_keys q; channels = query_channels q; e = eq_entity q
      in if e \<noteq> []
         then (let (ks, cs) = (case map_of (ws_cmds s) (eq_cmd q) of
                   Some ref \<Rightarrow> if rf_id ref = e
                                then (keys @ filter (\<lambda>k. k \<notin> set keys) (rf_keys ref), merge_channels channels (rf_attrs ref))
                                else (keys, channels)
                 | None \<Rightarrow> (keys, channels))
               in s\<lparr>ws_cmds := AList.update (eq_cmd q)
                      \<lparr>rf_id = e, rf_type = or_device (eq_entity_type q), rf_keys = ks, rf_attrs = cs\<rparr> (ws_cmds s)\<rparr>)
         else (case map_of (ws_cmds s) (eq_cmd q) of
                 None \<Rightarrow> s
               | Some ref \<Rightarrow>
                   if keys = [] \<and> channels = [] then s
                   else s\<lparr>ws_cmds := AList.update (eq_cmd q)
                            (ref\<lparr>rf_keys := remdups (rf_keys ref @ keys), rf_attrs := merge_channels channels (rf_attrs ref)\<rparr>) (ws_cmds s)\<rparr>))"

text \<open>One command: a usage query registers the row of the tenant (\<open>usage\<close>), the list and relation filters
  register nothing, an entity that is not owned is answered by an empty page.\<close>

definition entity_data_step ::
  "(str \<Rightarrow> str option) \<Rightarrow> owner_tables \<Rightarrow> (str \<Rightarrow> str option) \<Rightarrow> tenant_scope \<Rightarrow> entity_query \<Rightarrow> ws_session \<Rightarrow> ws_session" where
  "entity_data_step uuid tables usage sc q s =
     (if eq_type q \<noteq> ''ENTITY_DATA'' then s
      else if eq_filter q = ''apiUsageState''
      then (case (if ts_tenant sc = [] then None else usage (ts_tenant sc)) of
              None \<Rightarrow> s
            | Some ident \<Rightarrow>
                if ident = [] then s
                else s\<lparr>ws_cmds := AList.update (eq_cmd q)
                         \<lparr>rf_id = ident, rf_type = ''API_USAGE_STATE'', rf_keys = [], rf_attrs = []\<rparr> (ws_cmds s)\<rparr>)
      else if eq_filter q \<in> {''entityType'', ''deviceType'', ''assetType'', ''relationsQuery''} then s
      else if eq_entity q \<noteq> [] \<and> \<not> scope_allows uuid tables sc (or_device (eq_entity_type q)) (eq_entity q) then s
      else register_ref q s)"

section \<open>Broadcasts\<close>

text \<open>What is written to a connection by a broadcaster.\<close>

datatype ws_frame =
    TelemetryFrame int "(str \<times> int \<times> str) list"
  | EntityFrame int str str "(str \<times> int \<times> json) list"
  | AttributeFrame int "(str \<times> int \<times> str) list"
  | ChannelFrame int str str "(str \<times> (str \<times> int \<times> json) list) list"
  | AlarmFrame int members
  | AlarmNotification members

definition value_text :: "(json \<Rightarrow> str) \<Rightarrow> json \<Rightarrow> str" where
  "value_text marshal v = (case v of JStr s \<Rightarrow> s | _ \<Rightarrow> marshal v)"

definition wanted :: "str list \<Rightarrow> (str \<times> json) list \<Rightarrow> (str \<times> json) list" where
  "wanted keys data = filter (\<lambda>(k, v). keys = [] \<or> k \<in> set keys) data"

definition telemetry_frames :: "(json \<Rightarrow> str) \<Rightarrow> str \<Rightarrow> (str \<times> json) list \<Rightarrow> int \<Rightarrow> ws_session \<Rightarrow> ws_frame list" where
  "telemetry_frames marshal e data ts s =
     concat (map (\<lambda>sub. let d = wanted (sb_keys sub) data
                        in if d = [] then [] else [TelemetryFrame (sb_cmd sub) (map (\<lambda>(k, v). (k, ts, value_text marshal v)) d)])
       (subs_of (ws_subs s) e)) @
     concat (map (\<lambda>(n, ref). let d = wanted (rf_keys ref) data
                             in if rf_id ref \<noteq> e \<or> d = [] then []
                                else [EntityFrame n (rf_type ref) e (map (\<lambda>(k, v). (k, ts, v)) d)])
       (ws_cmds s))"

definition sub_scope_matches :: "str \<Rightarrow> str \<Rightarrow> bool" where
  "sub_scope_matches sub_scope scope \<longleftrightarrow>
     to_upper (trim_space sub_scope) \<in> {''CLIENT_SCOPE'', ''SHARED_SCOPE'', ''SERVER_SCOPE''} \<longrightarrow> equal_fold sub_scope scope"

definition attr_channel_accepts :: "str \<Rightarrow> str \<Rightarrow> bool" where
  "attr_channel_accepts channel scope \<longleftrightarrow> channel = ''ATTRIBUTE'' \<or> equal_fold channel scope"

text \<open>The pushed keys a reference registered, each with its channel; then grouped by channel.\<close>

definition channel_entries :: "(str, str) gomap \<Rightarrow> str \<Rightarrow> (str \<times> json) list \<Rightarrow> (str \<times> str \<times> json) list" where
  "channel_entries channels scope data =
     concat (map (\<lambda>(k, v). case map_of channels k of
         Some c \<Rightarrow> if attr_channel_accepts c scope then [(c, k, v)] else []
       | None \<Rightarrow> []) data)"

definition by_channel :: "int \<Rightarrow> (str \<times> str \<times> json) list \<Rightarrow> (str \<times> (str \<times> int \<times> json) list) list" where
  "by_channel ts entries =
     map (\<lambda>c. (c, map (\<lambda>(_, k, v). (k, ts, v)) (filter (\<lambda>x. fst x = c) entries))) (remdups (map fst entries))"

definition attribute_frames :: "(json \<Rightarrow> str) \<Rightarrow> int \<Rightarrow> str \<Rightarrow> str \<Rightarrow> (str \<times> json) list \<Rightarrow> ws_session \<Rightarrow> ws_frame list" where
  "attribute_frames marshal now e scope data s =
     concat (map (\<lambda>sub. let d = wanted (sb_keys sub) data
                        in if \<not> sub_scope_matches (sb_scope sub) scope \<or> d = [] then []
                           else [AttributeFrame (sb_cmd sub) (map (\<lambda>(k, v). (k, now, value_text marshal v)) d)])
       (subs_of (ws_attrs s) e)) @
     concat (map (\<lambda>(n, ref). let d = channel_entries (rf_attrs ref) scope data
                             in if rf_id ref \<noteq> e \<or> d = [] then [] else [ChannelFrame n (rf_type ref) e (by_channel now d)])
       (ws_cmds s))"

definition alarm_frames :: "str \<Rightarrow> members \<Rightarrow> ws_session \<Rightarrow> ws_frame list" where
  "alarm_frames e event s =
     map (\<lambda>sub. AlarmFrame (sb_cmd sub) event) (subs_of (ws_alarms s) e) @
     (if map_of (ws_subs s) e = None then [] else [AlarmNotification event])"

datatype broadcast =
    TelemetryOf str "(str \<times> json) list" int
  | AttributesOf str str "(str \<times> json) list"
  | AlarmOf str members

fun broadcast_entity :: "broadcast \<Rightarrow> str" where
  "broadcast_entity (TelemetryOf e data ts) = e"
| "broadcast_entity (AttributesOf e scope data) = e"
| "broadcast_entity (AlarmOf e event) = e"

fun frames_for :: "(json \<Rightarrow> str) \<Rightarrow> int \<Rightarrow> broadcast \<Rightarrow> ws_session \<Rightarrow> ws_frame list" where
  "frames_for marshal now (TelemetryOf e data ts) s = telemetry_frames marshal e data ts s"
| "frames_for marshal now (AttributesOf e scope data) s = attribute_frames marshal now e scope data s"
| "frames_for marshal now (AlarmOf e event) s = alarm_frames e event s"

section \<open>The journal\<close>

record journal_event =
  je_tenant :: str
  je_entity_type :: str
  je_entity :: str
  je_type :: str
  je_ts :: int
  je_payload :: members

definition no_event :: journal_event where
  "no_event = \<lparr>je_tenant = [], je_entity_type = [], je_entity = [], je_type = [], je_ts = 0, je_payload = []\<rparr>"

definition decode_journal_event :: "raw_message \<Rightarrow> journal_event option" where
  "decode_journal_event raw =
     (case raw of
        Some JNull \<Rightarrow> Some no_event
      | Some (JObj kvs) \<Rightarrow>
          (case (dec_field dec_string [] (struct_vals ''tenantId'' kvs), dec_field dec_string [] (struct_vals ''entityType'' kvs),
                 dec_field dec_string [] (struct_vals ''entityId'' kvs), dec_field dec_string [] (struct_vals ''type'' kvs),
                 dec_field dec_int64 0 (struct_vals ''ts'' kvs), dec_field dec_any_map None (struct_vals ''payload'' kvs)) of
             (Some t, Some et, Some e, Some ty, Some ts, Some p) \<Rightarrow>
               Some \<lparr>je_tenant = t, je_entity_type = et, je_entity = e, je_type = ty, je_ts = ts,
                      je_payload = (case p of None \<Rightarrow> [] | Some m \<Rightarrow> m)\<rparr>
           | _ \<Rightarrow> None)
      | _ \<Rightarrow> None)"

definition flatten_features :: "members \<Rightarrow> (str, json) gomap" where
  "flatten_features features =
     fold (\<lambda>(name, raw) m.
         fold (\<lambda>(k, v). AList.update (''feature.'' @ name @ ''.'' @ k) v)
           (decode_map (as_object (obj_get (as_object (Some raw)) ''properties''))) m)
       (decode_map features) []"

definition route_journal_event :: "journal_event \<Rightarrow> broadcast option" where
  "route_journal_event ev =
     (if je_entity ev = [] then None
      else if je_type ev = ''twin.attribute.saved''
      then (case obj_get (je_payload ev) ''values'' of
              Some (JObj kvs) \<Rightarrow>
                if as_string (obj_get (je_payload ev) ''scope'') = [] then None
                else Some (AttributesOf (je_entity ev) (as_string (obj_get (je_payload ev) ''scope'')) (decode_map kvs))
            | _ \<Rightarrow> None)
      else if je_type ev = ''twin.feature.saved''
      then (let flat = flatten_features (je_payload ev)
            in if flat = [] then None else Some (AttributesOf (je_entity ev) ''SERVER_SCOPE'' flat))
      else if je_type ev = ''twin.device_state.saved''
      then (let k = as_string (obj_get (je_payload ev) ''key'')
            in if k = [] then None
               else Some (TelemetryOf (je_entity ev)
                      [(k, case obj_get (je_payload ev) ''value'' of Some v \<Rightarrow> v | None \<Rightarrow> JNull)] (je_ts ev)))
      else if je_type ev = ''twin.alarm.saved'' then Some (AlarmOf (je_entity ev) (je_payload ev))
      else None)"

definition route_journal_message :: "raw_message \<Rightarrow> broadcast option" where
  "route_journal_message raw = Option.bind (decode_journal_event raw) route_journal_event"

section \<open>Messages\<close>

record ws_message =
  wm_auth :: "members option"
  wm_cmds :: "ws_cmd list"
  wm_telemetry :: "ws_cmd list"
  wm_latest :: "ws_cmd list"
  wm_alarms :: "ws_cmd list"
  wm_attrs :: "ws_cmd list"
  wm_queries :: "entity_query list option"

text \<open>Verified claims are folded into the session; nothing is ever taken back.\<close>

definition authenticate :: "members \<Rightarrow> ws_session \<Rightarrow> ws_session" where
  "authenticate claims s =
     s\<lparr>ws_authenticated := True,
       ws_tenant := (if as_string (obj_get claims ''tenantId'') = [] then ws_tenant s else as_string (obj_get claims ''tenantId'')),
       ws_admin := (ws_admin s \<or> is_sys_admin claims)\<rparr>"

definition auth_claims :: "(str \<Rightarrow> members option) \<Rightarrow> members \<Rightarrow> members option" where
  "auth_claims access auth =
     (case obj_get auth ''token'' of Some (JStr token) \<Rightarrow> access token | _ \<Rightarrow> None)"

definition typed_cmds :: "str \<Rightarrow> ws_message \<Rightarrow> ws_cmd list" where
  "typed_cmds t m = filter (\<lambda>c. cd_type c = t) (wm_cmds m)"

definition subscribe_all :: "(str \<Rightarrow> str option) \<Rightarrow> owner_tables \<Rightarrow> ws_message \<Rightarrow> ws_session \<Rightarrow> ws_session" where
  "subscribe_all uuid tables m s =
     (let own = filter_owned_sub_cmds uuid tables (session_scope s)
      in s\<lparr>ws_subs := fold (apply_sub telemetry_sub) (own (wm_telemetry m @ typed_cmds ''TIMESERIES'' m @ wm_latest m)) (ws_subs s),
           ws_alarms := fold (apply_sub alarm_sub) (own (wm_alarms m @ typed_cmds ''ALARM_DATA'' m)) (ws_alarms s),
           ws_attrs := fold (apply_sub attr_sub) (own (wm_attrs m @ typed_cmds ''ATTRIBUTES'' m)) (ws_attrs s)\<rparr>)"

text \<open>The answer to a text message: \<open>None\<close> when the connection is closed. Every ENTITY_DATA command starts
  a goroutine that goes through all the ENTITY_DATA commands of the message.\<close>

definition handle_message ::
  "(str \<Rightarrow> str option) \<Rightarrow> (str \<Rightarrow> members option) \<Rightarrow> owner_tables \<Rightarrow> ws_message \<Rightarrow> ws_session \<Rightarrow> ws_session option \<times> entity_query list list" where
  "handle_message uuid access tables m s =
     (case (case wm_auth m of None \<Rightarrow> Some s | Some a \<Rightarrow> map_option (\<lambda>c. authenticate c s) (auth_claims access a)) of
        None \<Rightarrow> (None, [])
      | Some s1 \<Rightarrow>
          if \<not> ws_authenticated s1 then (None, [])
          else (Some (subscribe_all uuid tables m s1),
                (case wm_queries m of
                   None \<Rightarrow> []
                 | Some qs \<Rightarrow> map (\<lambda>_. qs) (typed_cmds ''ENTITY_DATA'' m))))"

section \<open>The world\<close>

text \<open>Connections by number, \<open>None\<close> once closed; the goroutines still to run, each with its connection, the
  scope it read at its start and the commands left; the owner tables; what was written so far.\<close>

record ws_world =
  wo_sessions :: "ws_session option list"
  wo_tasks :: "(nat \<times> tenant_scope option \<times> entity_query list) list"
  wo_tables :: owner_tables
  wo_usage :: "(str, str) gomap"
  wo_sent :: "(nat \<times> broadcast \<times> ws_frame) list"

datatype ws_event =
    Connect
  | TextMessage nat ws_message
  | RunTask nat
  | TablesChange owner_tables "(str, str) gomap"
  | Publish broadcast int
  | Disconnect nat

definition the_session :: "ws_world \<Rightarrow> nat \<Rightarrow> ws_session option" where
  "the_session w i = (if i < length (wo_sessions w) then wo_sessions w ! i else None)"

fun task_step ::
  "(str \<Rightarrow> str option) \<Rightarrow> owner_tables \<Rightarrow> (str, str) gomap \<Rightarrow> tenant_scope option \<Rightarrow> entity_query list \<Rightarrow> ws_session \<Rightarrow>
   (tenant_scope option \<times> entity_query list) option \<times> ws_session" where
  "task_step uuid tables usage None qs s = (Some (Some (session_scope s), qs), s)"
| "task_step uuid tables usage (Some sc) [] s = (None, s)"
| "task_step uuid tables usage (Some sc) (q # qs) s =
     (Some (Some sc, qs), entity_data_step uuid tables (map_of usage) sc q s)"

fun ws_step :: "(str \<Rightarrow> str option) \<Rightarrow> (str \<Rightarrow> members option) \<Rightarrow> (json \<Rightarrow> str) \<Rightarrow> ws_event \<Rightarrow> ws_world \<Rightarrow> ws_world" where
  "ws_step uuid access marshal Connect w = w\<lparr>wo_sessions := wo_sessions w @ [Some new_session]\<rparr>"
| "ws_step uuid access marshal (TextMessage i m) w =
     (case the_session w i of
        None \<Rightarrow> w
      | Some s \<Rightarrow>
          (case handle_message uuid access (wo_tables w) m s of
             (s', tasks) \<Rightarrow> w\<lparr>wo_sessions := (wo_sessions w)[i := s'], wo_tasks := wo_tasks w @ map (\<lambda>qs. (i, None, qs)) tasks\<rparr>))"
| "ws_step uuid access marshal (RunTask j) w =
     (if length (wo_tasks w) \<le> j then w
      else (case wo_tasks w ! j of
              (i, sc, qs) \<Rightarrow>
                (case the_session w i of
                   None \<Rightarrow> w\<lparr>wo_tasks := take j (wo_tasks w) @ drop (Suc j) (wo_tasks w)\<rparr>
                 | Some s \<Rightarrow>
                     (case task_step uuid (wo_tables w) (wo_usage w) sc qs s of
                        (t, s') \<Rightarrow>
                          w\<lparr>wo_sessions := (wo_sessions w)[i := Some s'],
                            wo_tasks := (case t of None \<Rightarrow> take j (wo_tasks w) @ drop (Suc j) (wo_tasks w)
                                          | Some (sc', qs') \<Rightarrow> (wo_tasks w)[j := (i, sc', qs')])\<rparr>))))"
| "ws_step uuid access marshal (TablesChange tables usage) w = w\<lparr>wo_tables := tables, wo_usage := usage\<rparr>"
| "ws_step uuid access marshal (Publish b now) w =
     w\<lparr>wo_sent := wo_sent w @ concat (map (\<lambda>i. case the_session w i of
          None \<Rightarrow> []
        | Some s \<Rightarrow> map (\<lambda>f. (i, b, f)) (frames_for marshal now b s)) [0..<length (wo_sessions w)])\<rparr>"
| "ws_step uuid access marshal (Disconnect i) w =
     (if the_session w i = None then w else w\<lparr>wo_sessions := (wo_sessions w)[i := None]\<rparr>)"

definition ws_run :: "(str \<Rightarrow> str option) \<Rightarrow> (str \<Rightarrow> members option) \<Rightarrow> (json \<Rightarrow> str) \<Rightarrow> ws_event list \<Rightarrow> ws_world \<Rightarrow> ws_world" where
  "ws_run uuid access marshal es w = fold (ws_step uuid access marshal) es w"

definition no_world :: ws_world where
  "no_world = \<lparr>wo_sessions = [], wo_tasks = [], wo_tables = [], wo_usage = [], wo_sent = []\<rparr>"

end
