(* ===== verification/LiveProps.thy ===== *)
theory LiveProps
  imports LiveSessions TwinWatchProps
begin

text \<open>
  What the live connections promise: whatever a connection is sent about an entity, it had authenticated
  as a tenant that owned the entity, or as an administrator (\<open>live_isolation\<close>); and a widget fed by
  the broadcasts of the watch loop shows the telemetry of the keys it asked for (\<open>live_widget_current\<close>).
\<close>

section \<open>Grants\<close>

text \<open>What may be sent to a connection, as an interface: scopes are earned, a scope that passes the gate on the
  current tables grants the entity, and so does the usage row of its tenant.\<close>

locale grants =
  fixes uuid :: "str \<Rightarrow> str option"
    and earned :: "nat \<Rightarrow> tenant_scope \<Rightarrow> bool"
    and current :: "owner_tables \<Rightarrow> (str, str) gomap \<Rightarrow> bool"
    and granted :: "nat \<Rightarrow> str \<Rightarrow> bool"
  assumes gate: "earned i sc \<Longrightarrow> current tables usage \<Longrightarrow> scope_allows uuid tables sc etype e \<Longrightarrow> granted i e"
    and usage_row: "earned i sc \<Longrightarrow> current tables usage \<Longrightarrow> ts_tenant sc \<noteq> [] \<Longrightarrow> map_of usage (ts_tenant sc) = Some e \<Longrightarrow> granted i e"
    and anonymous: "earned i (session_scope new_session)"

definition subs_ok :: "(str \<Rightarrow> bool) \<Rightarrow> (str, subscription list) gomap \<Rightarrow> bool" where
  "subs_ok p m \<longleftrightarrow> (\<forall>e. map_of m e \<noteq> None \<longrightarrow> p e)"

definition session_ok :: "(tenant_scope \<Rightarrow> bool) \<Rightarrow> (str \<Rightarrow> bool) \<Rightarrow> ws_session \<Rightarrow> bool" where
  "session_ok earned p s \<longleftrightarrow> earned (session_scope s) \<and> subs_ok p (ws_subs s) \<and> subs_ok p (ws_alarms s) \<and> subs_ok p (ws_attrs s) \<and>
     (\<forall>ref \<in> snd ` set (ws_cmds s). p (rf_id ref))"

definition world_ok ::
  "(nat \<Rightarrow> tenant_scope \<Rightarrow> bool) \<Rightarrow> (owner_tables \<Rightarrow> (str, str) gomap \<Rightarrow> bool) \<Rightarrow> (nat \<Rightarrow> str \<Rightarrow> bool) \<Rightarrow> ws_world \<Rightarrow> bool" where
  "world_ok earned current granted w \<longleftrightarrow>
     (\<forall>i s. the_session w i = Some s \<longrightarrow> session_ok (earned i) (granted i) s) \<and>
     (\<forall>x \<in> set (wo_tasks w). \<forall>sc. fst (snd x) = Some sc \<longrightarrow> earned (fst x) sc) \<and>
     current (wo_tables w) (wo_usage w) \<and>
     (\<forall>x \<in> set (wo_sent w). granted (fst x) (broadcast_entity (fst (snd x))))"

lemma world_okD:
  assumes "world_ok earned current granted w"
  shows "the_session w i = Some s \<Longrightarrow> session_ok (earned i) (granted i) s"
    "x \<in> set (wo_tasks w) \<Longrightarrow> fst (snd x) = Some sc \<Longrightarrow> earned (fst x) sc"
    "current (wo_tables w) (wo_usage w)" "y \<in> set (wo_sent w) \<Longrightarrow> granted (fst y) (broadcast_entity (fst (snd y)))"
  using assms by (auto simp: world_ok_def)

lemma the_session_update:
  "the_session (w\<lparr>wo_sessions := (wo_sessions w)[i := s], wo_tasks := ts\<rparr>) k =
     (if k = i \<and> i < length (wo_sessions w) then s else the_session w k)"
  by (auto simp: the_session_def)

lemma set_update_subset: "set (AList.update k v m) \<subseteq> insert (k, v) (set m)"
  by (induction m) auto

lemma subs_ok_apply:
  assumes "subs_ok p m" "cd_entity c \<noteq> [] \<Longrightarrow> \<not> cd_unsubscribe c \<Longrightarrow> p (cd_entity c)"
  shows "subs_ok p (apply_sub mk c m)"
proof -
  have old: "p (cd_entity c)" if "remove_sub (subs_of m (cd_entity c)) n \<noteq> []" for n
  proof -
    have "map_of m (cd_entity c) \<noteq> None" using that by (auto simp: subs_of_def remove_sub_def split: option.splits)
    then show ?thesis using assms(1) by (simp add: subs_ok_def)
  qed
  show ?thesis unfolding subs_ok_def
  proof (intro allI impI)
    fix e
    assume e: "map_of (apply_sub mk c m) e \<noteq> None"
    show "p e"
    proof (cases "e = cd_entity c")
      case True
      then show ?thesis using e assms old
        by (auto simp: apply_sub_def Let_def subs_ok_def delete_conv' split: if_splits)
    next
      case False
      then have "map_of m e \<noteq> None" using e
        by (auto simp: apply_sub_def Let_def delete_conv' update_conv' split: if_splits)
      then show ?thesis using assms(1) by (simp add: subs_ok_def)
    qed
  qed
qed

lemma subs_ok_fold:
  assumes "subs_ok p m" "\<And>c. c \<in> set cs \<Longrightarrow> cd_entity c \<noteq> [] \<Longrightarrow> \<not> cd_unsubscribe c \<Longrightarrow> p (cd_entity c)"
  shows "subs_ok p (fold (apply_sub mk) cs m)"
  using assms by (induction cs arbitrary: m) (simp_all add: subs_ok_apply)

lemma register_ref_ok:
  assumes "session_ok earned p s" "eq_entity q \<noteq> [] \<Longrightarrow> p (eq_entity q)"
  shows "session_ok earned p (register_ref q s)"
proof -
  have put: "session_ok earned p (s\<lparr>ws_cmds := AList.update n ref (ws_cmds s)\<rparr>)" if "p (rf_id ref)" for n ref
    using that assms(1) set_update_subset [of n ref "ws_cmds s"] by (auto simp: session_ok_def session_scope_def)
  have old: "p (rf_id ref)" if "map_of (ws_cmds s) n = Some ref" for n ref
    using map_of_SomeD [OF that] assms(1) by (force simp: session_ok_def)
  show ?thesis
  proof (cases "eq_entity q = []")
    case True
    then show ?thesis using assms(1) old by (auto simp: register_ref_def Let_def intro!: put split: option.split)
  next
    case False
    then show ?thesis using assms(2) by (auto simp: register_ref_def Let_def split_def intro!: put)
  qed
qed

context grants begin

lemma subscribe_ok:
  assumes "session_ok (earned i) (granted i) s" "current tables usage"
  shows "session_ok (earned i) (granted i) (subscribe_all uuid tables m s)"
proof -
  have own: "granted i (cd_entity c)"
    if "c \<in> set (filter_owned_sub_cmds uuid tables (session_scope s) cs)" "cd_entity c \<noteq> []" "\<not> cd_unsubscribe c" for c cs
    using that assms gate [of i "session_scope s"] by (auto simp: filter_owned_sub_cmds_def session_ok_def)
  then show ?thesis using assms(1)
    by (auto simp: subscribe_all_def Let_def session_ok_def session_scope_def intro!: subs_ok_fold)
qed

lemma entity_data_ok:
  assumes "session_ok (earned i) (granted i) s" "current tables usage" "earned i sc"
  shows "session_ok (earned i) (granted i) (entity_data_step uuid tables (map_of usage) sc q s)"
proof (cases "eq_filter q = ''apiUsageState''")
  case True
  have put: "session_ok (earned i) (granted i) (s\<lparr>ws_cmds := AList.update n ref (ws_cmds s)\<rparr>)" if "granted i (rf_id ref)" for n ref
    using that assms(1) set_update_subset [of n ref "ws_cmds s"] by (auto simp: session_ok_def session_scope_def)
  show ?thesis using True assms(1) usage_row [OF assms(3,2)]
    by (auto simp: entity_data_step_def intro!: put split: option.split if_splits)
next
  case False
  then show ?thesis using assms(1) gate [OF assms(3,2)]
    by (auto simp: entity_data_step_def intro!: register_ref_ok)
qed

lemma task_ok:
  assumes "session_ok (earned i) (granted i) s" "current tables usage" "\<And>c. sc = Some c \<Longrightarrow> earned i c"
    "task_step uuid tables usage sc qs s = (t, s')"
  shows "session_ok (earned i) (granted i) s'" "t = Some (sc', qs') \<Longrightarrow> sc' = Some c \<Longrightarrow> earned i c"
proof -
  show "session_ok (earned i) (granted i) s'"
    using assms entity_data_ok by (cases "(uuid, tables, usage, sc, qs, s)" rule: task_step.cases) auto
  show "earned i c" if "t = Some (sc', qs')" "sc' = Some c"
    using that assms by (cases "(uuid, tables, usage, sc, qs, s)" rule: task_step.cases) (auto simp: session_ok_def)
qed

lemma frame_granted:
  assumes "session_ok (earned i) (granted i) s" "f \<in> set (frames_for marshal now b s)"
  shows "granted i (broadcast_entity b)"
proof -
  have g: "map_of (ws_subs s) e \<noteq> None \<or> map_of (ws_alarms s) e \<noteq> None \<or> map_of (ws_attrs s) e \<noteq> None \<or>
      e \<in> rf_id ` snd ` set (ws_cmds s) \<Longrightarrow> granted i e" for e
    using assms(1) by (auto simp: session_ok_def subs_ok_def)
  show ?thesis using assms(2)
    by (cases b) (auto simp: telemetry_frames_def attribute_frames_def alarm_frames_def subs_of_def Let_def
        intro!: g split: if_splits option.splits; force)+
qed

text \<open>One step; the scope of a session stays earned when a message authenticates.\<close>

lemma step_ok:
  assumes "world_ok earned current granted w"
    "\<And>i m a c s. ev = TextMessage i m \<Longrightarrow> wm_auth m = Some a \<Longrightarrow> auth_claims access a = Some c \<Longrightarrow>
       earned i (session_scope s) \<Longrightarrow> earned i (session_scope (authenticate c s))"
    "\<And>tables usage. ev = TablesChange tables usage \<Longrightarrow> current tables usage"
  shows "world_ok earned current granted (ws_step uuid access marshal ev w)"
proof -
  note w = world_okD [OF assms(1)]
  have upd: "world_ok earned current granted (w\<lparr>wo_sessions := (wo_sessions w)[i := s'], wo_tasks := ts\<rparr>)"
    if "\<And>s. s' = Some s \<Longrightarrow> session_ok (earned i) (granted i) s"
      "\<And>x sc. x \<in> set ts \<Longrightarrow> fst (snd x) = Some sc \<Longrightarrow> earned (fst x) sc" for i s' ts
    using that w by (auto simp: world_ok_def the_session_update split: if_splits)
  show ?thesis
  proof (cases ev)
    case Connect
    have "session_ok (earned i) (granted i) new_session" for i
      using anonymous [of i] by (simp add: session_ok_def subs_ok_def new_session_def)
    then show ?thesis using w by (auto simp: Connect world_ok_def the_session_def nth_append less_Suc_eq split: if_splits)
  next
    case (TextMessage i m)
    show ?thesis
    proof (cases "the_session w i")
      case None
      then show ?thesis using assms(1) by (simp add: TextMessage)
    next
      case (Some s)
      let ?s1 = "case wm_auth m of None \<Rightarrow> Some s | Some a \<Rightarrow> map_option (\<lambda>c. authenticate c s) (auth_claims access a)"
      have s1: "session_ok (earned i) (granted i) s1" if "?s1 = Some s1" for s1
        using that w(1) [OF Some] assms(2) [OF TextMessage]
        by (auto simp: session_ok_def authenticate_def split: option.splits)
      obtain s' tasks where h: "handle_message uuid access (wo_tables w) m s = (s', tasks)" by fastforce
      have ok: "session_ok (earned i) (granted i) t" if "s' = Some t" for t
        using that h s1 subscribe_ok [OF _ w(3)] by (auto simp: handle_message_def split: option.splits if_splits)
      have "world_ok earned current granted (w\<lparr>wo_sessions := (wo_sessions w)[i := s'], wo_tasks := wo_tasks w @ map (\<lambda>qs. (i, None, qs)) tasks\<rparr>)"
        by (rule upd) (use ok w(2) in auto)
      then show ?thesis by (simp add: TextMessage Some h)
    qed
  next
    case (RunTask j)
    show ?thesis
    proof (cases "j < length (wo_tasks w)")
      case False
      then show ?thesis using assms(1) by (simp add: RunTask)
    next
      case True
      obtain i sc qs where t: "wo_tasks w ! j = (i, sc, qs)" using prod_cases3 by blast
      have rest: "set (take j (wo_tasks w) @ drop (Suc j) (wo_tasks w)) \<subseteq> set (wo_tasks w)"
        using set_take_subset set_drop_subset by fastforce
      have e: "earned i c" if "sc = Some c" for c using w(2) [of "(i, sc, qs)" c] t that nth_mem [OF True] by simp
      show ?thesis
      proof (cases "the_session w i")
        case None
        have "world_ok earned current granted (w\<lparr>wo_tasks := take j (wo_tasks w) @ drop (Suc j) (wo_tasks w)\<rparr>)"
          using w rest by (auto simp: world_ok_def the_session_def split: if_splits)
        then show ?thesis using True by (simp add: RunTask t None)
      next
        case (Some s)
        obtain r s' where st: "task_step uuid (wo_tables w) (wo_usage w) sc qs s = (r, s')" by fastforce
        note k = task_ok [OF w(1) [OF Some] w(3) e st]
        let ?ts = "case r of None \<Rightarrow> take j (wo_tasks w) @ drop (Suc j) (wo_tasks w) | Some (sc', qs') \<Rightarrow> (wo_tasks w)[j := (i, sc', qs')]"
        have "earned (fst x) c" if x: "x \<in> set ?ts" "fst (snd x) = Some c" for x c
        proof (cases r)
          case None
          then have "x \<in> set (wo_tasks w)" using x(1) rest by auto
          then show ?thesis using w(2) x(2) by blast
        next
          case (Some p)
          then have "x = (i, fst p, snd p) \<or> x \<in> set (wo_tasks w)"
            using x(1) set_update_subset_insert [of "wo_tasks w" j "(i, fst p, snd p)"] by (auto simp: split_def)
          moreover have "earned i c" if "fst p = Some c" using k(2) that Some by (cases p) simp
          ultimately show ?thesis using x(2) w(2) by (cases "x = (i, fst p, snd p)") auto
        qed
        then have "world_ok earned current granted (w\<lparr>wo_sessions := (wo_sessions w)[i := Some s'], wo_tasks := ?ts\<rparr>)"
          by (intro upd) (use k(1) in auto)
        then show ?thesis using True by (simp add: RunTask t Some st)
      qed
    qed
  next
    case (TablesChange tables usage)
    then show ?thesis using w assms(3) by (auto simp: world_ok_def the_session_def)
  next
    case (Publish b now)
    have "granted (fst x) (broadcast_entity (fst (snd x)))" if x: "x \<in> set (wo_sent (ws_step uuid access marshal ev w))" for x
    proof (cases "x \<in> set (wo_sent w)")
      case True
      then show ?thesis by (rule w(4))
    next
      case False
      then obtain i s f where f: "x = (i, b, f)" "Some s = the_session w i" "f \<in> set (frames_for marshal now b s)"
        using x Publish by (auto split: option.splits)
      then show ?thesis using frame_granted [OF w(1) [OF f(2) [symmetric]] f(3)] by simp
    qed
    then show ?thesis using w(1-3) by (simp add: world_ok_def Publish the_session_def)
  next
    case (Disconnect i)
    then show ?thesis using w by (auto simp: world_ok_def the_session_def nth_list_update split: if_splits)
  qed
qed

end

section \<open>Isolation\<close>

definition claim_tenant :: "members \<Rightarrow> str" where
  "claim_tenant c = as_string (obj_get c ''tenantId'')"

text \<open>The claims connection \<open>i\<close> authenticated with among the events \<open>E\<close>, and the tables there were.\<close>

definition auths :: "(str \<Rightarrow> members option) \<Rightarrow> ws_event set \<Rightarrow> nat \<Rightarrow> members set" where
  "auths access E i = {c. \<exists>m a. TextMessage i m \<in> E \<and> wm_auth m = Some a \<and> auth_claims access a = Some c}"

definition tables_seen :: "ws_event set \<Rightarrow> owner_tables \<Rightarrow> (str, str) gomap \<Rightarrow> bool" where
  "tables_seen E tables usage \<longleftrightarrow> tables = [] \<and> usage = [] \<or> TablesChange tables usage \<in> E"

definition owned_by :: "(str \<Rightarrow> str option) \<Rightarrow> ws_event set \<Rightarrow> str \<Rightarrow> str \<Rightarrow> bool" where
  "owned_by uuid E tenant e \<longleftrightarrow> (\<exists>tables usage. tables_seen E tables usage \<and>
     ((\<exists>etype. entity_belongs_to_tenant uuid tables etype e tenant) \<or> map_of usage tenant = Some e))"

definition scope_earned :: "(str \<Rightarrow> members option) \<Rightarrow> ws_event set \<Rightarrow> nat \<Rightarrow> tenant_scope \<Rightarrow> bool" where
  "scope_earned access E i sc \<longleftrightarrow>
     (ts_admin sc \<longrightarrow> (\<exists>c \<in> auths access E i. is_sys_admin c)) \<and>
     (ts_tenant sc \<noteq> [] \<longrightarrow> (\<exists>c \<in> auths access E i. claim_tenant c = ts_tenant sc))"

definition grant :: "(str \<Rightarrow> str option) \<Rightarrow> (str \<Rightarrow> members option) \<Rightarrow> ws_event set \<Rightarrow> nat \<Rightarrow> str \<Rightarrow> bool" where
  "grant uuid access E i e \<longleftrightarrow> (\<exists>c \<in> auths access E i. is_sys_admin c \<or> owned_by uuid E (claim_tenant c) e)"

interpretation conn: grants uuid "scope_earned access E" "tables_seen E" "grant uuid access E" for uuid access E
proof (unfold_locales, goal_cases)
  case (1 i sc tables usage etype e)
  show ?case
  proof (cases "ts_admin sc")
    case True
    then show ?thesis using 1(1) by (auto simp: scope_earned_def grant_def)
  next
    case False
    then have o': "ts_tenant sc \<noteq> []" "entity_belongs_to_tenant uuid tables etype e (ts_tenant sc)"
      using 1(3) by (auto simp: scope_allows_def)
    then have "owned_by uuid E (ts_tenant sc) e" using 1(2) by (auto simp: owned_by_def)
    moreover obtain c where "c \<in> auths access E i" "claim_tenant c = ts_tenant sc"
      using 1(1) o'(1) unfolding scope_earned_def by blast
    ultimately show ?thesis unfolding grant_def by metis
  qed
next
  case (2 i sc tables usage e)
  then have "owned_by uuid E (ts_tenant sc) e" by (auto simp: owned_by_def)
  moreover obtain c where "c \<in> auths access E i" "claim_tenant c = ts_tenant sc"
    using 2(1,3) unfolding scope_earned_def by blast
  ultimately show ?case unfolding grant_def by metis
next
  case (3 i)
  show ?case by (simp add: scope_earned_def session_scope_def new_session_def)
qed

lemma run_ok:
  "set es \<subseteq> E \<Longrightarrow> world_ok (scope_earned access E) (tables_seen E) (grant uuid access E) w \<Longrightarrow>
   world_ok (scope_earned access E) (tables_seen E) (grant uuid access E) (ws_run uuid access marshal es w)"
proof (induction es arbitrary: w)
  case (Cons ev es)
  have a: "scope_earned access E i (session_scope (authenticate c s))"
    if "ev = TextMessage i m" "wm_auth m = Some a" "auth_claims access a = Some c" "scope_earned access E i (session_scope s)" for i m a c s
  proof -
    have "c \<in> auths access E i" using that(1-3) Cons.prems(1) by (auto simp: auths_def)
    then show ?thesis using that(4) by (auto simp: scope_earned_def session_scope_def authenticate_def claim_tenant_def)
  qed
  have "tables_seen E tables usage" if "ev = TablesChange tables usage" for tables usage
    using that Cons.prems(1) by (auto simp: tables_seen_def)
  from conn.step_ok [OF Cons.prems(2) a this] Cons.IH Cons.prems(1) show ?case by (simp add: ws_run_def)
qed (simp add: ws_run_def)

text \<open>C23: The live plane is tenant-safe. In every interleaving of connections, messages, goroutines, changes of
  the tables and broadcasts, a frame is written to a connection about an entity only if the connection
  authenticated with a verified token of an administrator, or of a tenant that owned the entity in one of
  the states of the tables.\<close>

theorem live_isolation:
  assumes "(i, b, f) \<in> set (wo_sent (ws_run uuid access marshal es no_world))"
  shows "\<exists>c \<in> auths access (set es) i. is_sys_admin c \<or> owned_by uuid (set es) (claim_tenant c) (broadcast_entity b)"
proof -
  have "world_ok (scope_earned access (set es)) (tables_seen (set es)) (grant uuid access (set es)) no_world"
    by (simp add: world_ok_def no_world_def the_session_def tables_seen_def)
  from world_okD(4) [OF run_ok [OF subset_refl this] assms] show ?thesis by (simp add: grant_def)
qed

section \<open>What a widget shows\<close>

text \<open>A widget keeps the last value of each key of the telemetry frames of its command.\<close>

fun widget :: "int \<Rightarrow> ws_frame \<Rightarrow> (str \<Rightarrow> json option) \<Rightarrow> str \<Rightarrow> json option" where
  "widget n (EntityFrame n' t e d) w = (if n' = n then fold (\<lambda>(k, ts, v) w. w(k \<mapsto> v)) d w else w)"
| "widget n _ w = w"

text \<open>The watch loop calls the broadcasters with its pushes.\<close>

fun broadcast_of :: "push \<Rightarrow> broadcast" where
  "broadcast_of (PushTelemetry e vs ts) = TelemetryOf e vs ts"
| "broadcast_of (PushAttributes e scope vs) = AttributesOf e scope vs"

definition push_frames :: "(json \<Rightarrow> str) \<Rightarrow> int \<Rightarrow> ws_session \<Rightarrow> push list \<Rightarrow> ws_frame list" where
  "push_frames marshal now s ps = concat (map (\<lambda>p. frames_for marshal now (broadcast_of p) s) ps)"

lemma widget_other:
  "\<forall>f \<in> set fs. (\<forall>n' t e d. f = EntityFrame n' t e d \<longrightarrow> n' \<noteq> n) \<Longrightarrow> fold (widget n) fs w = w"
proof (induction fs arbitrary: w)
  case (Cons f fs)
  then have "widget n f w = w" by (cases f) auto
  then show ?case using Cons by simp
qed simp

lemma widget_refs:
  assumes "distinct (map fst cmds)" "map_of cmds n = Some ref" "\<And>m r. \<forall>f \<in> set (g m r). \<forall>n' t e d. f = EntityFrame n' t e d \<longrightarrow> n' = m"
  shows "fold (widget n) (concat (map (\<lambda>(m, r). g m r) cmds)) w = fold (widget n) (g n ref) w"
  using assms(1,2)
proof (induction cmds arbitrary: w)
  case (Cons x cmds)
  obtain m r where x: "x = (m, r)" by fastforce
  show ?case
  proof (cases "m = n")
    case True
    then have "map_of cmds n = None" using Cons.prems(1) x by (simp add: map_of_eq_None_iff)
    then have m: "m' \<noteq> n" if "(m', r') \<in> set cmds" for m' r' using that by (force simp: map_of_eq_None_iff)
    have "n' \<noteq> n" if "f \<in> set (concat (map (\<lambda>(m, r). g m r) cmds))" "f = EntityFrame n' t e d" for f n' t e d
    proof -
      from that(1) obtain m' r' where r: "(m', r') \<in> set cmds" "f \<in> set (g m' r')" by auto
      from assms(3) r(2) that(2) have "n' = m'" by blast
      then show ?thesis using m [OF r(1)] by simp
    qed
    then have "fold (widget n) (concat (map (\<lambda>(m, r). g m r) cmds)) w' = w'" for w'
      by (intro widget_other) blast
    then show ?thesis using True Cons.prems(2) x by simp
  next
    case False
    then have "fold (widget n) (g m r) w = w" using assms(3) [of m r] by (intro widget_other) auto
    then show ?thesis using False Cons x by simp
  qed
qed simp

lemma fold_put_wanted:
  assumes "\<And>k. w k = (if keys = [] \<or> k \<in> set keys then v (e, None, k) else None)"
  shows "fold (\<lambda>(k, ts, v) w. w(k \<mapsto> v)) (map (\<lambda>(k, v). (k, ts, v)) (wanted keys data)) w k =
    (if keys = [] \<or> k \<in> set keys then put_view e None data v (e, None, k) else None)"
  using assms
proof (induction data arbitrary: v w)
  case (Cons x data)
  obtain k' y where x: "x = (k', y)" by fastforce
  have w: "wanted keys ((k', y) # data) = (if keys = [] \<or> k' \<in> set keys then (k', y) # wanted keys data else wanted keys data)"
    by (simp add: wanted_def)
  have p: "put_view e None ((k', y) # data) v = put_view e None data (v((e, None, k') \<mapsto> y))" by (simp add: put_view_def)
  show ?case
  proof (cases "keys = [] \<or> k' \<in> set keys")
    case True
    have "fold (\<lambda>(k, ts, v) w. w(k \<mapsto> v)) (map (\<lambda>(k, v). (k, ts, v)) (wanted keys data)) (w(k' \<mapsto> y)) k =
        (if keys = [] \<or> k \<in> set keys then put_view e None data (v((e, None, k') \<mapsto> y)) (e, None, k) else None)"
      by (rule Cons.IH) (use True Cons.prems in auto)
    then show ?thesis using True unfolding x w p by (simp del: fun_upd_apply)
  next
    case False
    have "fold (\<lambda>(k, ts, v) w. w(k \<mapsto> v)) (map (\<lambda>(k, v). (k, ts, v)) (wanted keys data)) w k =
        (if keys = [] \<or> k \<in> set keys then put_view e None data (v((e, None, k') \<mapsto> y)) (e, None, k) else None)"
      by (rule Cons.IH) (use False Cons.prems in auto)
    then show ?thesis using False unfolding x w p by (simp del: fun_upd_apply)
  qed
qed (simp add: wanted_def put_view_def)

lemma put_view_outside: "e' \<noteq> e \<or> c' \<noteq> c \<Longrightarrow> put_view e c vs w (e', c', k) = w (e', c', k)"
  unfolding put_view_def by (induction vs arbitrary: w) auto

lemma widget_push:
  assumes "distinct (map fst (ws_cmds s))" "map_of (ws_cmds s) n = Some ref"
    "\<And>k. w k = (if rf_keys ref = [] \<or> k \<in> set (rf_keys ref) then v (rf_id ref, None, k) else None)"
  shows "fold (widget n) (frames_for marshal now (broadcast_of p) s) w k =
    (if rf_keys ref = [] \<or> k \<in> set (rf_keys ref) then receive p v (rf_id ref, None, k) else None)"
proof (cases p)
  case (PushTelemetry e vs ts)
  let ?g = "\<lambda>m r. let d = wanted (rf_keys r) vs in if rf_id r \<noteq> e \<or> d = [] then [] else [EntityFrame m (rf_type r) e (map (\<lambda>(k, v). (k, ts, v)) d)]"
  have f: "fold (widget n) (concat (map (\<lambda>(m, r). ?g m r) (ws_cmds s))) w = fold (widget n) (?g n ref) w"
    by (rule widget_refs [OF assms(1,2)]) (auto simp: Let_def)
  have l: "fold (widget n) (concat (map (\<lambda>sub. let d = wanted (sb_keys sub) vs
       in if d = [] then [] else [TelemetryFrame (sb_cmd sub) (map (\<lambda>(k, v). (k, ts, value_text marshal v)) d)]) subs)) w = w" for subs
    by (rule widget_other) (auto simp: Let_def split: if_splits)
  show ?thesis
  proof (cases "rf_id ref = e")
    case True
    have "fold (widget n) (?g n ref) w = fold (\<lambda>(k, ts, v) w. w(k \<mapsto> v)) (map (\<lambda>(k, v). (k, ts, v)) (wanted (rf_keys ref) vs)) w"
      using True by (simp add: Let_def)
    then show ?thesis unfolding PushTelemetry broadcast_of.simps frames_for.simps telemetry_frames_def fold_append comp_def l f
      using fold_put_wanted [of w "rf_keys ref" v e ts vs k] assms(3) True by simp
  next
    case False
    then show ?thesis unfolding PushTelemetry broadcast_of.simps frames_for.simps telemetry_frames_def fold_append comp_def l f
      using assms(3) by (simp add: Let_def put_view_outside)
  qed
next
  case (PushAttributes e scope vs)
  have "fold (widget n) (attribute_frames marshal now e scope vs s) w = w"
    by (rule widget_other) (auto simp: attribute_frames_def Let_def split: if_splits)
  then show ?thesis using assms(3) by (simp add: PushAttributes put_view_outside)
qed

text \<open>C24: The telemetry of a live widget is current. Take a session with a registered command that refers to an entity. Fed by
  all the broadcasts - of telemetry and of attributes - the watch loop makes of any sequence of entries of the NATS bucket,
  with any bound on the last states and any order of eviction, its widget holds for every key the command asked for - for every
  key, when it asked for none - the telemetry value of the last delivered state that has the key, up to deep equality; when it asked
  for some keys it holds nothing for the others. Entity ids are not empty, have no dot and belong to one type and tenant each.\<close>

theorem live_widget_current:
  assumes "distinct (map fst (ws_cmds s))" "map_of (ws_cmds s) n = Some ref"
    "\<forall>(order, key, p) \<in> set es. decoded_maps p \<and> named_entry own key p"
  shows "map_option canon (fold (widget n) (push_frames marshal now s (fst (watch_changes limit (nats_changes es) []))) (\<lambda>_. None) k) =
    (if rf_keys ref = [] \<or> k \<in> set (rf_keys ref)
     then map_option canon (states_sent (nats_changes es) (\<lambda>_. None) (rf_id ref, None, k)) else None)"
proof -
  have run: "fold (widget n) (push_frames marshal now s ps) w k =
      (if rf_keys ref = [] \<or> k \<in> set (rf_keys ref) then fold receive ps v (rf_id ref, None, k) else None)"
    if "\<And>k. w k = (if rf_keys ref = [] \<or> k \<in> set (rf_keys ref) then v (rf_id ref, None, k) else None)" for ps w v k
    using that
  proof (induction ps arbitrary: w v)
    case (Cons p ps)
    have "fold (widget n) (frames_for marshal now (broadcast_of p) s) w k =
        (if rf_keys ref = [] \<or> k \<in> set (rf_keys ref) then receive p v (rf_id ref, None, k) else None)" for k
      by (rule widget_push [OF assms(1,2) Cons.prems])
    from Cons.IH [OF this] show ?case by (simp add: push_frames_def)
  qed (simp add: push_frames_def)
  have "same_view (fold receive (fst (watch_changes limit (nats_changes es) [])) (\<lambda>_. None)) (states_sent (nats_changes es) (\<lambda>_. None))"
    unfolding states_sent_def using nats_history_ok [OF assms(3)] by (intro watch_run) (simp_all add: lasts_sent_def same_view_def)
  then show ?thesis using run [of "\<lambda>_. None" "\<lambda>_. None"] by (simp add: same_view_def)
qed

section \<open>What a session keeps\<close>

text \<open>References are never dropped while a connection is open: there is no unsubscribe for ENTITY_DATA.\<close>

lemma dom_update_mono: "dom (map_of m) \<subseteq> dom (map_of (AList.update k v m))"
  by (auto simp: update_conv')

lemma register_ref_grows: "dom (map_of (ws_cmds s)) \<subseteq> dom (map_of (ws_cmds (register_ref q s)))"
  by (auto simp: register_ref_def Let_def split_def update_conv' split: option.splits)

lemma entity_data_grows: "dom (map_of (ws_cmds s)) \<subseteq> dom (map_of (ws_cmds (entity_data_step uuid tables usage sc q s)))"
  using register_ref_grows [of s q] by (auto simp: entity_data_step_def update_conv' split: option.splits)

lemma refs_never_dropped:
  assumes "handle_message uuid access tables m s = (Some s', tasks)"
  shows "ws_cmds s' = ws_cmds s"
  using assms by (auto simp: handle_message_def subscribe_all_def Let_def authenticate_def split: option.splits if_splits)

text \<open>Rights are never taken back either: a connection that was once an administrator stays one.\<close>

lemma admin_survives_authentication: "ws_admin s \<Longrightarrow> ws_admin (authenticate c s)"
  by (simp add: authenticate_def)

text \<open>A message with \<open>k\<close> ENTITY_DATA commands starts \<open>k\<close> goroutines that each answer all of them.\<close>

lemma entity_data_squared:
  assumes "handle_message uuid access tables m s = (Some s', tasks)" "wm_queries m = Some qs"
  shows "tasks = replicate (length (typed_cmds ''ENTITY_DATA'' m)) qs"
  using assms by (auto simp: handle_message_def map_replicate_const split: option.splits if_splits)

section \<open>A concrete connection\<close>

definition live_access :: "str \<Rightarrow> members option" where
  "live_access token = (if token = ''good'' then Some [(''tenantId'', JStr ''t''), (''scopes'', JArr [JStr ''TENANT_ADMIN''])] else None)"

definition live_cmd :: ws_cmd where
  "live_cmd = \<lparr>cd_entity = ''d1'', cd_entity_type = [], cd_keys = ''temp'', cd_id = 3, cd_scope = [], cd_type = ''TIMESERIES'',
     cd_unsubscribe = False\<rparr>"

definition live_message :: ws_message where
  "live_message = \<lparr>wm_auth = Some [(''token'', JStr ''good'')], wm_cmds = [live_cmd, live_cmd\<lparr>cd_entity := ''d2'', cd_id := 4\<rparr>],
     wm_telemetry = [], wm_latest = [], wm_alarms = [], wm_attrs = [], wm_queries = Some []\<rparr>"

definition live_events :: "ws_event list" where
  "live_events = [TablesChange [(''device'', [(''d1'', Some ''t''), (''d2'', Some ''u'')])] [], Connect, TextMessage 0 live_message,
     Publish (TelemetryOf ''d2'' [(''temp'', JInt 5)] 7) 0, Publish (TelemetryOf ''d1'' [(''temp'', JInt 4)] 7) 0]"

theorem live_isolation_witness:
  "wo_sent (ws_run Some live_access (\<lambda>_. ''4'') live_events no_world) =
     [(0, TelemetryOf ''d1'' [(''temp'', JInt 4)] 7, TelemetryFrame 3 [(''temp'', 7, ''4'')])] \<and>
   (\<exists>c \<in> auths live_access (set live_events) 0. is_sys_admin c \<or> owned_by Some (set live_events) (claim_tenant c) ''d1'')"
proof -
  have sent: "wo_sent (ws_run Some live_access (\<lambda>_. ''4'') live_events no_world) =
      [(0, TelemetryOf ''d1'' [(''temp'', JInt 4)] 7, TelemetryFrame 3 [(''temp'', 7, ''4'')])]"
    by (simp add: live_events_def live_message_def live_cmd_def live_access_def ws_run_def no_world_def the_session_def handle_message_def
        auth_claims_def obj_get_def authenticate_def new_session_def subscribe_all_def session_scope_def filter_owned_sub_cmds_def
        typed_cmds_def scope_allows_def entity_belongs_to_tenant_def or_device_def) code_simp
  have "(0, TelemetryOf ''d1'' [(''temp'', JInt 4)] 7, TelemetryFrame 3 [(''temp'', 7, ''4'')]) \<in>
      set (wo_sent (ws_run Some live_access (\<lambda>_. ''4'') live_events no_world))" unfolding sent by simp
  from live_isolation [OF this] sent show ?thesis by simp
qed

definition pump_session :: ws_session where
  "pump_session = new_session\<lparr>ws_cmds := [(1, \<lparr>rf_id = ''d1'', rf_type = ''DEVICE'', rf_keys = [''temp''], rf_attrs = []\<rparr>)]\<rparr>"

theorem live_widget_current_witness:
  "map_option canon (fold (widget 1) (push_frames (\<lambda>_. []) 0 pump_session (fst (watch_changes 0 (nats_changes pump_entries) []))) (\<lambda>_. None) ''temp'') =
   Some (JFrac 21)"
proof -
  have "distinct (map fst (ws_cmds pump_session))"
    "map_of (ws_cmds pump_session) 1 = Some \<lparr>rf_id = ''d1'', rf_type = ''DEVICE'', rf_keys = [''temp''], rf_attrs = []\<rparr>"
    by (simp_all add: pump_session_def)
  moreover have "map_option canon (states_sent (nats_changes pump_entries) (\<lambda>_. None) (''d1'', None, ''temp'')) = Some (JFrac 21)" by code_simp
  ultimately show ?thesis
    using live_widget_current [of pump_session 1 _ pump_entries pump_own "\<lambda>_. []" 0 0 "''temp''", OF _ _ pump_entries_ok] by simp
qed

text \<open>A key asked for as an attribute only is pushed as telemetry too.\<close>

definition attribute_query :: entity_query where
  "attribute_query = \<lparr>eq_cmd = 1, eq_type = ''ENTITY_DATA'', eq_filter = ''singleEntity'', eq_entity = ''d1'', eq_entity_type = ''DEVICE'',
     eq_latest = [(''SERVER_SCOPE'', ''active'')], eq_series = [], eq_history = [], eq_latest_keys = []\<rparr>"

lemma attribute_key_pushed_as_telemetry:
  "telemetry_frames (\<lambda>_. []) ''d1'' [(''active'', JBool True)] 7 (register_ref attribute_query new_session) =
     [EntityFrame 1 ''DEVICE'' ''d1'' [(''active'', 7, JBool True)]]"
  by code_simp

end
