(* ===== verification/TelemetryQuery.thy ===== *)
theory TelemetryQuery
  imports Attributes
begin

text \<open>
  The texts of the history queries (internal/telemetry/reader.go): the quoting of values, the query
  builders for devices and for other entities, the parameters of a request they are made from, and the
  values the rows become. \<open>lex_sql\<close> is the reference reading of a statement: standard SQL, where a
  quote opens a string, a doubled quote inside it stands for one, and a backslash means nothing. The
  laws show that a value in a query is always one string of it and never changes its code.
\<close>

section \<open>Reading a statement\<close>

datatype sql_token = Code str | Lit str

abbreviation quote_char :: char where "quote_char \<equiv> CHR 0x27"

fun lex_loop :: "bool \<Rightarrow> str \<Rightarrow> str \<Rightarrow> sql_token list option" where
  "lex_loop False acc [] = Some [Code acc]"
| "lex_loop False acc (c # cs) =
     (if c = quote_char then map_option ((#) (Code acc)) (lex_loop True [] cs) else lex_loop False (acc @ [c]) cs)"
| "lex_loop True acc [] = None"
| "lex_loop True acc [c] = (if c = quote_char then Some [Lit acc, Code []] else None)"
| "lex_loop True acc (c # d # ds) =
     (if c = quote_char
      then (if d = quote_char then lex_loop True (acc @ [quote_char]) ds
            else map_option ((#) (Lit acc)) (lex_loop False [] (d # ds)))
      else lex_loop True (acc @ [c]) (d # ds))"

definition lex_sql :: "str \<Rightarrow> sql_token list option" where
  "lex_sql q = lex_loop False [] q"

section \<open>Quoting\<close>

definition escape_quotes :: "str \<Rightarrow> str" where
  "escape_quotes s = concat (map (\<lambda>c. if c = quote_char then [quote_char, quote_char] else [c]) s)"

definition sql_literal :: "str \<Rightarrow> str" where
  "sql_literal s = [quote_char] @ escape_quotes s @ [quote_char]"

lemma lex_code: "quote_char \<notin> set s \<Longrightarrow> lex_loop False acc (s @ t) = lex_loop False (acc @ s) t"
  by (induction s arbitrary: acc) auto

lemma lex_code_all: "quote_char \<notin> set s \<Longrightarrow> lex_loop False acc s = Some [Code (acc @ s)]"
  using lex_code [of s acc "[]"] by simp

lemma lex_literal_body:
  "(t = [] \<or> hd t \<noteq> quote_char) \<Longrightarrow>
   lex_loop True acc (escape_quotes s @ quote_char # t) = map_option ((#) (Lit (acc @ s))) (lex_loop False [] t)"
proof (induction s arbitrary: acc)
  case Nil
  then show ?case by (cases t) (auto simp: escape_quotes_def)
next
  case (Cons c s)
  obtain d ds where d: "escape_quotes s @ quote_char # t = d # ds" by (cases "escape_quotes s @ quote_char # t") auto
  show ?case
  proof (cases "c = quote_char")
    case True
    then have "escape_quotes (c # s) @ quote_char # t = quote_char # quote_char # (escape_quotes s @ quote_char # t)"
      by (simp add: escape_quotes_def)
    then show ?thesis using Cons.IH [OF Cons.prems, of "acc @ [quote_char]"] True by simp
  next
    case False
    then have "escape_quotes (c # s) @ quote_char # t = c # (escape_quotes s @ quote_char # t)"
      by (simp add: escape_quotes_def)
    moreover have "lex_loop True acc (c # d # ds) = lex_loop True (acc @ [c]) (d # ds)" using False by simp
    ultimately show ?thesis using Cons.IH [OF Cons.prems, of "acc @ [c]"] unfolding d by simp
  qed
qed

lemma lex_literal:
  "(t = [] \<or> hd t \<noteq> quote_char) \<Longrightarrow>
   lex_loop False acc (sql_literal s @ t) = map_option (\<lambda>toks. Code acc # Lit s # toks) (lex_loop False [] t)"
  using lex_literal_body [of t "[]" s] by (simp add: sql_literal_def option.map_comp comp_def)

section \<open>Request parameters\<close>

definition max_timeseries_keys :: nat where "max_timeseries_keys = 100"

fun add_keys :: "str list \<Rightarrow> str list \<Rightarrow> str list" where
  "add_keys keys [] = keys"
| "add_keys keys (p # ps) =
     (let k = trim_space p in add_keys (if k = [] \<or> k \<in> set keys then keys else keys @ [k]) ps)"

text \<open>The values of \<open>key\<close> and then of \<open>keys\<close>; \<open>None\<close> when there are too many.\<close>

definition timeseries_keys :: "str list \<Rightarrow> str list \<Rightarrow> str list option" where
  "timeseries_keys key_values keys_values =
     (let keys = add_keys [] (concat (map (split_on CHR '','') (key_values @ keys_values)))
      in if max_timeseries_keys < length keys then None else Some keys)"

definition is_valid_column_name :: "str \<Rightarrow> bool" where
  "is_valid_column_name name \<longleftrightarrow>
     list_all (\<lambda>c. is_lower c \<or> is_upper c \<or> is_digit c \<or> c = CHR ''_'') name \<and> 0 < length name \<and> length name < 64"

definition history_store :: "str option \<Rightarrow> str" where
  "history_store env =
     (let store = to_lower (trim_space (coalesce_str env ''greptimedb'')) in if store = [] then ''greptimedb'' else store)"

definition timestamp_column :: "str \<Rightarrow> str \<Rightarrow> str" where
  "timestamp_column env store =
     (let column = (if trim_space env \<noteq> [] then trim_space env else if store = ''greptimedb'' then ''greptime_timestamp'' else ''timestamp'')
      in if is_valid_column_name column then column else ''timestamp'')"

definition map_agg_function :: "str \<Rightarrow> str" where
  "map_agg_function agg =
     (let a = to_upper agg
      in if a = ''AVG'' then ''avg'' else if a = ''MIN'' then ''min'' else if a = ''MAX'' then ''max''
         else if a = ''SUM'' then ''sum'' else if a = ''COUNT'' then ''count'' else ''avg'')"

fun nat_text :: "nat \<Rightarrow> str" where
  "nat_text n = (if n < 10 then [char_of (48 + n)] else nat_text (n div 10) @ [char_of (48 + n mod 10)])"

declare nat_text.simps [simp del]

definition int_text :: "int \<Rightarrow> str" where
  "int_text n = (if n < 0 then CHR ''-'' # nat_text (nat (- n)) else nat_text (nat n))"

definition ms_to_sample_by :: "int \<Rightarrow> str" where
  "ms_to_sample_by ms =
     (if 86400000 \<le> ms then int_text (ms div 86400000) @ ''d''
      else if 3600000 \<le> ms then int_text (ms div 3600000) @ ''h''
      else if 60000 \<le> ms then int_text (ms div 60000) @ ''m''
      else if 1000 \<le> ms then int_text (ms div 1000) @ ''s'' else ''1s'')"

section \<open>The queries\<close>

definition line_break :: "nat \<Rightarrow> str" where
  "line_break n = [CHR 0x0A, CHR 0x09, CHR 0x09] @ replicate n CHR '' ''"

definition device_tenant_predicate :: "str \<Rightarrow> str" where
  "device_tenant_predicate tenant = '' AND tenant_id = '' @ sql_literal tenant"

definition entity_tenant_predicate :: "str \<Rightarrow> str" where
  "entity_tenant_predicate tenant = (if tenant \<noteq> [] then '' AND tenant_id = '' @ sql_literal tenant else [])"

definition questdb_kv_keys_query :: "str \<Rightarrow> str \<Rightarrow> str" where
  "questdb_kv_keys_query tenant entity =
     ''SELECT DISTINCT telemetry_key FROM device_telemetry_kv WHERE device_id = '' @ sql_literal entity @ device_tenant_predicate tenant"

definition questdb_kv_raw_query :: "str \<Rightarrow> str \<Rightarrow> str \<Rightarrow> str \<Rightarrow> str \<Rightarrow> str \<Rightarrow> str \<Rightarrow> int \<Rightarrow> str" where
  "questdb_kv_raw_query ts tenant entity key from_time to_time order_by limit =
     ''SELECT '' @ ts @ '' AS timestamp, value_string, value_kind FROM device_telemetry_kv'' @ line_break 1 @
     ''WHERE device_id = '' @ sql_literal entity @ '' AND telemetry_key = '' @ sql_literal key @ device_tenant_predicate tenant @ line_break 3 @
     ''AND '' @ ts @ '' >= '' @ sql_literal from_time @ '' AND '' @ ts @ '' <= '' @ sql_literal to_time @ line_break 1 @
     ''ORDER BY '' @ ts @ '' '' @ order_by @ line_break 1 @ ''LIMIT '' @ int_text limit"

definition questdb_kv_agg_query :: "str \<Rightarrow> str \<Rightarrow> str \<Rightarrow> str \<Rightarrow> str \<Rightarrow> str \<Rightarrow> int \<Rightarrow> str \<Rightarrow> str \<Rightarrow> str" where
  "questdb_kv_agg_query tenant entity key from_time to_time order_by limit agg sample_by =
     ''SELECT timestamp, cast('' @ agg @ ''(cast(value_string AS DOUBLE)) AS VARCHAR) AS value_string, '' @ sql_literal ''number'' @ '' AS value_kind'' @
     line_break 3 @ ''FROM device_telemetry_kv'' @ line_break 2 @
     ''WHERE device_id = '' @ sql_literal entity @ '' AND telemetry_key = '' @ sql_literal key @ '' AND value_kind = '' @ sql_literal ''number'' @
     device_tenant_predicate tenant @ line_break 4 @
     ''AND timestamp >= '' @ sql_literal from_time @ '' AND timestamp <= '' @ sql_literal to_time @ line_break 2 @
     ''SAMPLE BY '' @ sample_by @ line_break 2 @ ''ORDER BY timestamp '' @ order_by @ line_break 2 @ ''LIMIT '' @ int_text limit"

definition date_bin :: "str \<Rightarrow> int \<Rightarrow> str" where
  "date_bin ts interval = ''date_bin('' @ sql_literal (int_text interval @ '' milliseconds'') @ ''::INTERVAL, '' @ ts @ '')''"

definition greptime_kv_agg_query :: "str \<Rightarrow> str \<Rightarrow> str \<Rightarrow> str \<Rightarrow> str \<Rightarrow> str \<Rightarrow> str \<Rightarrow> int \<Rightarrow> str \<Rightarrow> int \<Rightarrow> str" where
  "greptime_kv_agg_query ts tenant entity key from_time to_time order_by limit agg interval =
     ''SELECT '' @ date_bin ts interval @ '' AS timestamp, CAST('' @ agg @ ''(CAST(value_string AS DOUBLE)) AS STRING) AS value_string, '' @
     sql_literal ''number'' @ '' AS value_kind'' @ line_break 3 @ ''FROM device_telemetry_kv'' @ line_break 2 @
     ''WHERE device_id = '' @ sql_literal entity @ '' AND telemetry_key = '' @ sql_literal key @ '' AND value_kind = '' @ sql_literal ''number'' @
     device_tenant_predicate tenant @ line_break 4 @
     ''AND '' @ ts @ '' >= '' @ sql_literal from_time @ '' AND '' @ ts @ '' <= '' @ sql_literal to_time @ line_break 2 @
     ''GROUP BY '' @ date_bin ts interval @ line_break 2 @ ''ORDER BY timestamp '' @ order_by @ line_break 2 @ ''LIMIT '' @ int_text limit"

definition device_kv_latest_query :: "str \<Rightarrow> str \<Rightarrow> str \<Rightarrow> str \<Rightarrow> str" where
  "device_kv_latest_query ts tenant entity key =
     ''SELECT '' @ ts @ '', value_string, value_kind FROM device_telemetry_kv'' @ line_break 2 @
     ''WHERE device_id = '' @ sql_literal entity @ '' AND telemetry_key = '' @ sql_literal key @ device_tenant_predicate tenant @ line_break 2 @
     ''ORDER BY '' @ ts @ '' DESC'' @ line_break 2 @ ''LIMIT 1''"

definition entity_kv_raw_query :: "str \<Rightarrow> str \<Rightarrow> str \<Rightarrow> str \<Rightarrow> str \<Rightarrow> str \<Rightarrow> str \<Rightarrow> str \<Rightarrow> int \<Rightarrow> str" where
  "entity_kv_raw_query ts etype entity tenant key from_time to_time order_by limit =
     ''SELECT '' @ ts @ '' AS timestamp, value_string, value_kind FROM entity_telemetry_kv'' @ line_break 1 @
     ''WHERE entity_id = '' @ sql_literal entity @ '' AND entity_type = '' @ sql_literal etype @ '' AND telemetry_key = '' @ sql_literal key @
     line_break 3 @ ''AND '' @ ts @ '' >= '' @ sql_literal from_time @ '' AND '' @ ts @ '' <= '' @ sql_literal to_time @
     entity_tenant_predicate tenant @ line_break 1 @ ''ORDER BY '' @ ts @ '' '' @ order_by @ line_break 1 @ ''LIMIT '' @ int_text limit"

definition entity_kv_agg_query :: "str \<Rightarrow> str \<Rightarrow> str \<Rightarrow> str \<Rightarrow> str \<Rightarrow> str \<Rightarrow> str \<Rightarrow> str \<Rightarrow> int \<Rightarrow> str \<Rightarrow> int \<Rightarrow> str" where
  "entity_kv_agg_query ts etype entity tenant key from_time to_time order_by limit agg interval =
     ''SELECT '' @ date_bin ts interval @ '' AS timestamp, CAST('' @ agg @ ''(CAST(value_string AS DOUBLE)) AS STRING) AS value_string, '' @
     sql_literal ''number'' @ '' AS value_kind'' @ line_break 3 @ ''FROM entity_telemetry_kv'' @ line_break 2 @
     ''WHERE entity_id = '' @ sql_literal entity @ '' AND entity_type = '' @ sql_literal etype @ '' AND telemetry_key = '' @ sql_literal key @
     '' AND value_kind = '' @ sql_literal ''number'' @ line_break 4 @
     ''AND '' @ ts @ '' >= '' @ sql_literal from_time @ '' AND '' @ ts @ '' <= '' @ sql_literal to_time @ entity_tenant_predicate tenant @
     line_break 2 @ ''GROUP BY '' @ date_bin ts interval @ line_break 2 @ ''ORDER BY timestamp '' @ order_by @ line_break 2 @
     ''LIMIT '' @ int_text limit"

definition entity_kv_latest_query :: "str \<Rightarrow> str \<Rightarrow> str \<Rightarrow> str \<Rightarrow> str \<Rightarrow> str" where
  "entity_kv_latest_query ts etype entity tenant key =
     ''SELECT '' @ ts @ '' AS timestamp, value_string, value_kind FROM entity_telemetry_kv'' @ line_break 1 @
     ''WHERE entity_id = '' @ sql_literal entity @ '' AND entity_type = '' @ sql_literal etype @ '' AND telemetry_key = '' @ sql_literal key @
     entity_tenant_predicate tenant @ line_break 1 @ ''ORDER BY '' @ ts @ '' DESC LIMIT 1''"

definition entity_kv_distinct_keys :: "str \<Rightarrow> str \<Rightarrow> str \<Rightarrow> str" where
  "entity_kv_distinct_keys etype entity tenant =
     ''SELECT DISTINCT telemetry_key FROM entity_telemetry_kv WHERE entity_id = '' @ sql_literal entity @ '' AND entity_type = '' @
     sql_literal etype @ entity_tenant_predicate tenant"

end
