(* ===== verification/TelemetryReader.thy ===== *)
theory TelemetryReader
  imports TelemetryQuery LiveSessions
begin

text \<open>
  The HTTP readers of telemetry (internal/telemetry/reader.go) and the deletion of measurements
  (internal/telemetry/delete.go). The history store answers the text of a query with rows or fails; it
  is a parameter, and so is the twin store, which answers through its interface. The Postgres tables
  ts_kv and ts_kv_latest are lists of rows joined with the key dictionary. Formatting of times and
  numbers and the decoding of numbers and JSON texts are parameters (\<open>codec\<close>). Go's ParseInt without
  its error is \<open>lenient_int\<close>.
\<close>

section \<open>Stores\<close>

record codec =
  co_time :: "int \<Rightarrow> str"
  co_float :: "str \<Rightarrow> rat option"
  co_json :: "str \<Rightarrow> raw_message"
  co_number :: "rat \<Rightarrow> str"
  co_value :: "json \<Rightarrow> str"

record tsdb =
  db_points :: "str \<Rightarrow> (int \<times> str \<times> str) list option"
  db_keys :: "str \<Rightarrow> str list option"

datatype 'a twin_reply = TwinFound 'a | TwinMissing | TwinFailed

record twin_source =
  tw_latest :: "str \<Rightarrow> str \<Rightarrow> str \<Rightarrow> str list \<Rightarrow> (str, twin_value) gomap twin_reply"
  tw_keys :: "str \<Rightarrow> str \<Rightarrow> str \<Rightarrow> str list twin_reply"

text \<open>A row of ts_kv or ts_kv_latest: entity, key, time, typed columns.\<close>

type_synonym ts_row = "str \<times> str \<times> int \<times> attr_cell"

record reader =
  rd_twin :: "twin_source option"
  rd_tsdb :: "tsdb option"
  rd_tables :: "owner_tables option"
  rd_latest :: "ts_row list"
  rd_series :: "ts_row list"
  rd_column :: str
  rd_history :: "str option"
  rd_usage :: "str option"
  rd_twin_env :: str

definition usage_read_backend :: "reader \<Rightarrow> str" where
  "usage_read_backend rd = to_lower (trim_space (coalesce_str (rd_usage rd) ''greptime''))"

definition nats_authoritative :: "reader \<Rightarrow> str \<Rightarrow> bool" where
  "nats_authoritative rd etype \<longleftrightarrow> equal_fold etype ''DEVICE'' \<and> equal_fold (trim_space (rd_twin_env rd)) ''nats''"

definition reader_column :: "reader \<Rightarrow> str" where
  "reader_column rd = timestamp_column (rd_column rd) (history_store (rd_history rd))"

section \<open>Ownership\<close>

definition telemetry_table :: "str \<Rightarrow> str option" where
  "telemetry_table etype = map_of
     [(''DEVICE'', ''device''), (''ASSET'', ''asset''), (''CUSTOMER'', ''customer''), (''DASHBOARD'', ''dashboard''),
      (''USER'', ''tb_user''), (''ENTITY_VIEW'', ''entity_view''), (''API_USAGE_STATE'', ''api_usage_state'')] (to_upper etype)"

definition telemetry_entity_owned :: "(str \<Rightarrow> str option) \<Rightarrow> owner_tables option \<Rightarrow> str \<Rightarrow> str \<Rightarrow> str \<Rightarrow> bool" where
  "telemetry_entity_owned uuid tables etype entity tenant \<longleftrightarrow>
     (case tables of
        None \<Rightarrow> False
      | Some ts \<Rightarrow> entity \<noteq> [] \<and> tenant \<noteq> [] \<and>
          (if equal_fold etype ''TENANT'' then entity = tenant
           else (case telemetry_table etype of None \<Rightarrow> False | Some table \<Rightarrow> row_owner uuid ts table entity = Some tenant)))"

section \<open>The history store\<close>

definition kv_value_to_typed :: "codec \<Rightarrow> str \<Rightarrow> str \<Rightarrow> bool \<Rightarrow> json" where
  "kv_value_to_typed co kind raw strict =
     (let k = to_lower (trim_space kind)
      in if \<not> strict then JStr raw
         else if k = ''number'' then (case co_float co raw of Some r \<Rightarrow> number_json r | None \<Rightarrow> JStr raw)
         else if k = ''boolean'' \<or> k = ''bool'' then (case parse_bool raw of Some b \<Rightarrow> JBool b | None \<Rightarrow> JStr raw)
         else if k = ''json'' \<or> k = ''object'' \<or> k = ''array'' then (case co_json co raw of Some v \<Rightarrow> v | None \<Rightarrow> JStr raw)
         else JStr raw)"

definition kv_points :: "codec \<Rightarrow> bool \<Rightarrow> (int \<times> str \<times> str) list \<Rightarrow> (int \<times> json) list" where
  "kv_points co strict rows = map (\<lambda>(ts, raw, kind). (ts, kv_value_to_typed co kind raw strict)) rows"

definition query_kv_keys :: "tsdb option \<Rightarrow> str \<Rightarrow> str \<Rightarrow> str list option" where
  "query_kv_keys pg tenant entity =
     (case pg of
        None \<Rightarrow> None
      | Some db \<Rightarrow> if entity = [] then None else map_option (filter (\<lambda>k. k \<noteq> [])) (db_keys db (questdb_kv_keys_query tenant entity)))"

text \<open>The interval of an aggregation that is asked for.\<close>

definition agg_interval :: "str \<Rightarrow> str \<Rightarrow> int option" where
  "agg_interval agg interval =
     (if agg \<noteq> [] \<and> \<not> equal_fold agg ''NONE'' \<and> interval \<noteq> []
      then (case atoi interval of Some n \<Rightarrow> if 0 < n then Some n else None | None \<Rightarrow> None) else None)"

definition series_query ::
  "str \<Rightarrow> str \<Rightarrow> str \<Rightarrow> str \<Rightarrow> str \<Rightarrow> str \<Rightarrow> str \<Rightarrow> str \<Rightarrow> int \<Rightarrow> str \<Rightarrow> str \<Rightarrow> str" where
  "series_query store ts tenant entity key from_time to_time order_by limit agg interval =
     (case agg_interval agg interval of
        None \<Rightarrow> questdb_kv_raw_query ts tenant entity key from_time to_time order_by limit
      | Some ms \<Rightarrow>
          if store = ''questdb''
          then questdb_kv_agg_query tenant entity key from_time to_time order_by limit (map_agg_function agg) (ms_to_sample_by ms)
          else greptime_kv_agg_query ts tenant entity key from_time to_time order_by limit (map_agg_function agg) ms)"

fun series_loop :: "(str \<Rightarrow> (int \<times> json) list option) \<Rightarrow> str list \<Rightarrow> (str, (int \<times> json) list) gomap \<Rightarrow> (str, (int \<times> json) list) gomap option" where
  "series_loop read [] res = Some res"
| "series_loop read (k # ks) res =
     (if trim_space k = [] then series_loop read ks res
      else (case read (trim_space k) of
              None \<Rightarrow> None
            | Some points \<Rightarrow> series_loop read ks (AList.update (trim_space k) points res)))"

text \<open>\<open>None\<close> stands for a result that is not ok.\<close>

definition query_kv_timeseries ::
  "codec \<Rightarrow> reader \<Rightarrow> str \<Rightarrow> str \<Rightarrow> str list \<Rightarrow> int \<Rightarrow> int \<Rightarrow> int \<Rightarrow> str \<Rightarrow> str \<Rightarrow> str \<Rightarrow> bool \<Rightarrow> (str, (int \<times> json) list) gomap option" where
  "query_kv_timeseries co rd tenant entity keys start_ts end_ts limit order_by agg interval strict =
     (case rd_tsdb rd of
        None \<Rightarrow> None
      | Some db \<Rightarrow>
          if entity = [] then None
          else (case (if keys = [] then query_kv_keys (rd_tsdb rd) tenant entity else Some keys) of
                  None \<Rightarrow> None
                | Some ks \<Rightarrow>
                    series_loop (\<lambda>k. map_option (kv_points co strict) (db_points db
                        (series_query (history_store (rd_history rd)) (reader_column rd) tenant entity k (co_time co start_ts) (co_time co end_ts)
                           (if to_upper order_by \<noteq> ''ASC'' then ''DESC'' else ''ASC'')
                           (if limit \<le> 0 then 100 else if 10000 < limit then 10000 else limit) agg interval))) ks []))"

definition device_kv_latest :: "codec \<Rightarrow> reader \<Rightarrow> str \<Rightarrow> str \<Rightarrow> str \<Rightarrow> bool \<Rightarrow> (int \<times> json) option" where
  "device_kv_latest co rd tenant entity key strict =
     (case rd_tsdb rd of
        None \<Rightarrow> None
      | Some db \<Rightarrow>
          if entity = [] \<or> trim_space key = [] then None
          else (case db_points db (device_kv_latest_query (reader_column rd) tenant entity key) of
                  Some ((ts, raw, kind) # _) \<Rightarrow> Some (ts, kv_value_to_typed co kind raw strict)
                | _ \<Rightarrow> None))"

definition latest_of_keys :: "(str \<Rightarrow> (int \<times> json) option) \<Rightarrow> str list \<Rightarrow> (str, (int \<times> json) list) gomap" where
  "latest_of_keys read keys = fold (\<lambda>k out. case read k of Some p \<Rightarrow> AList.update k [p] out | None \<Rightarrow> out) keys []"

text \<open>The map and whether anything was found; \<open>None\<close> for a nil map.\<close>

definition device_latest_fallback :: "codec \<Rightarrow> reader \<Rightarrow> str \<Rightarrow> str \<Rightarrow> str list \<Rightarrow> bool \<Rightarrow> (str, (int \<times> json) list) gomap option" where
  "device_latest_fallback co rd tenant entity keys strict =
     (if rd_tsdb rd = None \<or> entity = [] then None
      else map_option (latest_of_keys (\<lambda>k. device_kv_latest co rd tenant entity k strict))
             (if keys = [] then query_kv_keys (rd_tsdb rd) tenant entity else Some keys))"

definition entity_kv_latest_row :: "codec \<Rightarrow> reader \<Rightarrow> str \<Rightarrow> str \<Rightarrow> str \<Rightarrow> str \<Rightarrow> bool \<Rightarrow> (int \<times> json) option" where
  "entity_kv_latest_row co rd etype entity tenant key strict =
     (case rd_tsdb rd of
        None \<Rightarrow> None
      | Some db \<Rightarrow>
          (case db_points db (entity_kv_latest_query (reader_column rd) etype entity tenant key) of
             Some ((ts, raw, kind) # _) \<Rightarrow> Some (ts, kv_value_to_typed co kind raw strict)
           | _ \<Rightarrow> None))"

section \<open>The request\<close>

record telemetry_request =
  tq_path :: str
  tq_query :: "(str \<times> str) list"

fun telemetry_path_target :: "str list \<Rightarrow> str \<times> str" where
  "telemetry_path_target (p # q # r # ps) = (if p = ''telemetry'' then (q, r) else telemetry_path_target (q # r # ps))"
| "telemetry_path_target _ = ([], [])"

definition query_all :: "(str \<times> str) list \<Rightarrow> str \<Rightarrow> str list" where
  "query_all query name = map snd (filter (\<lambda>p. fst p = name) query)"

definition all_digits :: "str \<Rightarrow> bool" where
  "all_digits s \<longleftrightarrow> s \<noteq> [] \<and> list_all is_digit s"

text \<open>ParseInt without its error: a number out of range is the nearest one in range, other text is 0.\<close>

definition lenient_int :: "str \<Rightarrow> int" where
  "lenient_int s =
     (case atoi s of
        Some n \<Rightarrow> n
      | None \<Rightarrow>
          (case s of
             [] \<Rightarrow> 0
           | c # cs \<Rightarrow>
               if c = CHR ''-'' \<and> all_digits cs then - (2 ^ 63)
               else if all_digits s \<or> (c = CHR ''+'' \<and> all_digits cs) then 2 ^ 63 - 1 else 0))"

definition request_limit :: "str \<Rightarrow> int" where
  "request_limit s =
     (let l = (if s = [] then 100 else case atoi s of Some n \<Rightarrow> if 0 < n then n else 100 | None \<Rightarrow> 100)
      in if 10000 < l then 10000 else l)"

type_synonym series_answer = "(str, (int \<times> json) list) gomap"

section \<open>Latest values\<close>

text \<open>\<open>None\<close> when the request is not answered from the twin state.\<close>

definition serve_latest ::
  "codec \<Rightarrow> reader \<Rightarrow> str \<Rightarrow> str \<Rightarrow> str \<Rightarrow> str list \<Rightarrow> bool \<Rightarrow> (http_error + series_answer) option" where
  "serve_latest co rd tenant etype entity keys strict =
     (let unavailable = Inl (HttpError 503 ''NATS twin state unavailable''); hot = nats_authoritative rd etype
      in case rd_twin rd of
           None \<Rightarrow> if hot then Some unavailable else None
         | Some store \<Rightarrow>
             if tenant = [] then (if hot then Some (Inl (HttpError 403 ''tenantId required for NATS twin state'')) else None)
             else (case (case tw_latest store tenant etype entity keys of
                           TwinFound vs \<Rightarrow> Inr vs
                         | TwinMissing \<Rightarrow> if hot then Inr [] else Inl None
                         | TwinFailed \<Rightarrow> if hot then Inl (Some unavailable) else Inl None) of
                     Inl r \<Rightarrow> r
                   | Inr latest \<Rightarrow>
                       (case (if latest = [] \<and> equal_fold etype ''DEVICE'' \<and> rd_tsdb rd \<noteq> None
                              then device_latest_fallback co rd tenant entity keys strict else None) of
                          Some (p # out) \<Rightarrow> Some (Inr (p # out))
                        | _ \<Rightarrow> Some (Inr (map (\<lambda>(k, v). (k, [(tv_ts v, if strict then tv_value v else JStr (co_value co (tv_value v)))])) latest)))))"

section \<open>The compatibility tables\<close>

definition pg_value_to_string :: "codec \<Rightarrow> attr_cell \<Rightarrow> str" where
  "pg_value_to_string co c =
     (case ac_bool c of Some b \<Rightarrow> (if b then ''true'' else ''false'') | None \<Rightarrow>
      (case ac_str c of Some s \<Rightarrow> s | None \<Rightarrow>
       (case ac_long c of Some n \<Rightarrow> int_text n | None \<Rightarrow>
        (case ac_dbl c of Some r \<Rightarrow> co_number co r | None \<Rightarrow>
         (case ac_json c of Some s \<Rightarrow> s | None \<Rightarrow> [])))))"

definition values_from_postgres ::
  "codec \<Rightarrow> (str \<Rightarrow> str option) \<Rightarrow> reader \<Rightarrow> int \<Rightarrow> (str \<times> str) list \<Rightarrow> str \<Rightarrow> http_error + series_answer" where
  "values_from_postgres co uuid rd now query entity =
     (case timeseries_keys (query_all query ''key'') (query_all query ''keys'') of
        None \<Rightarrow> Inl (HttpError 400 ''too many telemetry keys requested'')
      | Some keys \<Rightarrow>
          (let start_ts = lenient_int (query_get query ''startTs''); e = lenient_int (query_get query ''endTs'');
               end_ts = (if e = 0 then now else e); limit = request_limit (query_get query ''limit'');
               text = (\<lambda>c. JStr (pg_value_to_string co c))
           in if keys = []
              then (if rd_tables rd = None then Inl HandlerPanic
                    else Inr (case uuid entity of
                           None \<Rightarrow> []
                         | Some u \<Rightarrow> fold (\<lambda>(e, k, ts, c) res. if e = u then AList.update k [(ts, text c)] res else res) (rd_latest rd) []))
              else Inr (fold (\<lambda>k. AList.update (trim_space k)
                     (case uuid entity of
                        None \<Rightarrow> []
                      | Some u \<Rightarrow>
                          if rd_tables rd = None \<or> \<not> fits_column 255 (trim_space k) then []
                          else map (\<lambda>(e, k, ts, c). (ts, text c)) (take (nat limit) (sort_key (\<lambda>(e, k, ts, c). - ts)
                                 (filter (\<lambda>(e, k', ts, c). e = u \<and> k' = trim_space k \<and> (0 < start_ts \<longrightarrow> start_ts \<le> ts) \<and> (0 < end_ts \<longrightarrow> ts \<le> end_ts))
                                    (rd_series rd)))))) keys [])))"

definition values_from_greptime ::
  "codec \<Rightarrow> reader \<Rightarrow> tsdb \<Rightarrow> int \<Rightarrow> (str \<times> str) list \<Rightarrow> str \<Rightarrow> str \<Rightarrow> http_error + series_answer" where
  "values_from_greptime co rd db now query etype entity =
     (case timeseries_keys (query_all query ''key'') (query_all query ''keys'') of
        None \<Rightarrow> Inl (HttpError 400 ''too many telemetry keys requested'')
      | Some keys \<Rightarrow>
          (let s = lenient_int (query_get query ''startTs''); e = lenient_int (query_get query ''endTs'');
               end_ts = (if e = 0 then now else e); start_ts = (if s = 0 then wrap64 (end_ts - 3600000) else s);
               limit = request_limit (query_get query ''limit''); strict = (query_get query ''useStrictDataTypes'' = ''true'');
               order_by = (if to_upper (query_get query ''orderBy'') = ''ASC'' then ''ASC'' else ''DESC'');
               agg = query_get query ''agg''; ts = reader_column rd
           in if keys = []
              then Inr (fold (\<lambda>k. AList.update k (case entity_kv_latest_row co rd etype entity [] k strict of Some p \<Rightarrow> [p] | None \<Rightarrow> []))
                     (case db_keys db (entity_kv_distinct_keys etype entity []) of None \<Rightarrow> [] | Some ks \<Rightarrow> filter (\<lambda>k. k \<noteq> []) ks) [])
              else Inr (fold (\<lambda>k res. if trim_space k = [] then res else AList.update (trim_space k)
                     (case db_points db
                        (case agg_interval agg (query_get query ''interval'') of
                           None \<Rightarrow> entity_kv_raw_query ts etype entity [] (trim_space k) (co_time co start_ts) (co_time co end_ts) order_by limit
                         | Some ms \<Rightarrow> entity_kv_agg_query ts etype entity [] (trim_space k) (co_time co start_ts) (co_time co end_ts) order_by limit
                                        (map_agg_function agg) ms) of
                        None \<Rightarrow> []
                      | Some rows \<Rightarrow> kv_points co strict rows) res) keys [])))"

section \<open>The endpoints\<close>

definition telemetry_gate :: "(str \<Rightarrow> str option) \<Rightarrow> reader \<Rightarrow> members option \<Rightarrow> str \<Rightarrow> str \<Rightarrow> http_error + str" where
  "telemetry_gate uuid rd claims etype entity =
     (let tenant = (case claims of None \<Rightarrow> [] | Some c \<Rightarrow> as_string (obj_get c ''tenantId''));
          admin = (case claims of None \<Rightarrow> False | Some c \<Rightarrow> is_sys_admin c)
      in if tenant = [] then Inl (HttpError 401 ''Authentication required'')
         else if \<not> equal_fold etype ''DEVICE'' \<and> \<not> admin \<and> \<not> telemetry_entity_owned uuid (rd_tables rd) etype entity tenant
         then Inl (HttpError 403 ''Cross-tenant access denied'') else Inr tenant)"

definition handle_telemetry_keys ::
  "(str \<Rightarrow> str option) \<Rightarrow> reader \<Rightarrow> members option \<Rightarrow> telemetry_request \<Rightarrow> http_error + str list" where
  "handle_telemetry_keys uuid rd claims req =
     (case telemetry_path_target (split_on CHR ''/'' (tq_path req)) of
        (etype, entity) \<Rightarrow>
          and_then (telemetry_gate uuid rd claims etype entity) (\<lambda>tenant.
            let twin = (case rd_twin rd of None \<Rightarrow> TwinMissing | Some store \<Rightarrow> if entity = [] then TwinMissing else tw_keys store tenant etype entity);
                hot = (case twin of TwinFound ks \<Rightarrow> add_keys [] ks | _ \<Rightarrow> []);
                keys = (if equal_fold etype ''DEVICE'' \<and> rd_tsdb rd \<noteq> None
                        then (case query_kv_keys (rd_tsdb rd) tenant entity of Some ks \<Rightarrow> add_keys hot ks | None \<Rightarrow> hot) else hot)
            in if keys = [] \<and> nats_authoritative rd etype \<and> twin = TwinFailed then Inl (HttpError 503 ''NATS twin state unavailable'')
               else Inr (case (if usage_read_backend rd = ''greptime'' \<and> entity \<noteq> [] then rd_tsdb rd else None) of
                  Some db \<Rightarrow> (case db_keys db (entity_kv_distinct_keys etype entity []) of Some ks \<Rightarrow> add_keys keys ks | None \<Rightarrow> keys)
                | None \<Rightarrow>
                    (case (rd_tables rd, uuid entity) of
                       (Some _, Some u) \<Rightarrow> if entity = [] then keys
                                           else add_keys keys (remdups (map (\<lambda>(e, k, ts, c). k) (filter (\<lambda>(e, k, ts, c). e = u) (rd_latest rd))))
                     | _ \<Rightarrow> keys))))"

definition handle_telemetry_values ::
  "codec \<Rightarrow> (str \<Rightarrow> str option) \<Rightarrow> reader \<Rightarrow> int \<Rightarrow> members option \<Rightarrow> telemetry_request \<Rightarrow> http_error + series_answer" where
  "handle_telemetry_values co uuid rd now claims req =
     (case telemetry_path_target (split_on CHR ''/'' (tq_path req)) of
        (etype, entity) \<Rightarrow>
          if entity = [] then Inl (HttpError 400 ''Missing entityId'')
          else and_then (telemetry_gate uuid rd claims etype entity) (\<lambda>tenant.
            let query = tq_query req; strict = (query_get query ''useStrictDataTypes'' = ''true'');
                device = equal_fold etype ''DEVICE''; agg = query_get query ''agg'';
                fallback = (\<lambda>keys.
                  if \<not> device \<or> rd_tsdb rd = None
                  then (case (if usage_read_backend rd = ''greptime'' then rd_tsdb rd else None) of
                          Some db \<Rightarrow> values_from_greptime co rd db now query etype entity
                        | None \<Rightarrow> values_from_postgres co uuid rd now query entity)
                  else (let s = lenient_int (query_get query ''startTs''); e = lenient_int (query_get query ''endTs'');
                            end_ts = (if e = 0 then now else e); start_ts = (if s = 0 then wrap64 (end_ts - 3600000) else s)
                        in case query_kv_timeseries co rd tenant entity keys start_ts end_ts (request_limit (query_get query ''limit''))
                                  (query_get query ''orderBy'') agg (query_get query ''interval'') strict of
                             Some res \<Rightarrow> Inr res
                           | None \<Rightarrow> values_from_postgres co uuid rd now query entity))
            in case timeseries_keys (query_all query ''key'') (query_all query ''keys'') of
                 None \<Rightarrow> Inl (HttpError 400 ''too many telemetry keys requested'')
               | Some keys \<Rightarrow>
                   (case (if keys = []
                          then (case serve_latest co rd tenant etype entity [] strict of
                                  Some r \<Rightarrow> Some r
                                | None \<Rightarrow> if device \<and> rd_tsdb rd \<noteq> None
                                          then Some (Inr (case device_latest_fallback co rd tenant entity [] strict of Some m \<Rightarrow> m | None \<Rightarrow> [])) else None)
                          else None) of
                      Some r \<Rightarrow> r
                    | None \<Rightarrow>
                        (case (if query_get query ''startTs'' = [] \<and> query_get query ''endTs'' = [] \<and> agg = []
                               then serve_latest co rd tenant etype entity keys strict else None) of
                           Some r \<Rightarrow> r
                         | None \<Rightarrow> fallback keys))))"

section \<open>Deleting\<close>

definition parse_telemetry_target :: "str \<Rightarrow> (str \<times> str) option" where
  "parse_telemetry_target path =
     (case split_on CHR ''/'' (trim_char CHR ''/'' (trim_prefix path ''/api/plugins/telemetry/'')) of
        p # q # _ \<Rightarrow> if p = [] \<or> q = [] then None else Some (p, q)
      | _ \<Rightarrow> None)"

definition delete_keys :: "str \<Rightarrow> str list" where
  "delete_keys raw = filter (\<lambda>k. k \<noteq> []) (map trim_space (split_on CHR '','' raw))"

record delete_statement =
  de_tenant :: str
  de_device :: str
  de_key :: str
  de_start :: int
  de_end :: int

text \<open>The statements executed until one fails; \<open>exec\<close> is the number of rows a statement removes.\<close>

fun delete_loop :: "(delete_statement \<Rightarrow> nat option) \<Rightarrow> delete_statement list \<Rightarrow> delete_statement list \<times> (str + nat)" where
  "delete_loop exec [] = ([], Inr 0)"
| "delete_loop exec (d # ds) =
     (case exec d of
        None \<Rightarrow> ([d], Inl (de_key d))
      | Some n \<Rightarrow> (case delete_loop exec ds of (done_ds, r) \<Rightarrow> (d # done_ds, case r of Inl k \<Rightarrow> Inl k | Inr m \<Rightarrow> Inr (n + m))))"

definition handle_delete_timeseries ::
  "bool \<Rightarrow> (delete_statement \<Rightarrow> nat option) option \<Rightarrow> members option \<Rightarrow> str \<Rightarrow> telemetry_request \<Rightarrow>
   delete_statement list \<times> (http_error + nat \<times> str list)" where
  "handle_delete_timeseries enabled pg claims http_method req =
     (case claims of
        None \<Rightarrow> ([], Inl (HttpError 401 ''Authentication required''))
      | Some c \<Rightarrow>
          if http_method \<noteq> ''DELETE'' then ([], Inl (HttpError 405 ''Method not allowed''))
          else if \<not> enabled then ([], Inl (HttpError 501 ''Telemetry deletion is disabled''))
          else (case parse_telemetry_target (tq_path req) of
                  None \<Rightarrow> ([], Inl (HttpError 400 ''Expected /api/plugins/telemetry/{entityType}/{entityId}/timeseries/delete''))
                | Some (etype, entity) \<Rightarrow>
                    (let keys = delete_keys (query_get (tq_query req) ''keys''); tenant = as_string (obj_get c ''tenantId'')
                     in if \<not> equal_fold etype ''DEVICE'' then ([], Inl (HttpError 400 ''Only DEVICE telemetry can be deleted''))
                        else if keys = [] then ([], Inl (HttpError 400 ''keys is required: deleting every key for an entity is not permitted''))
                        else (case (atoi (query_get (tq_query req) ''startTs''), atoi (query_get (tq_query req) ''endTs'')) of
                                (Some s, Some e) \<Rightarrow>
                                  if e \<le> s then ([], Inl (HttpError 400 ''startTs and endTs are required''))
                                  else if tenant = [] then ([], Inl (HttpError 403 ''Tenant scope required to delete telemetry''))
                                  else (case pg of
                                          None \<Rightarrow> ([], Inl (HttpError 503 ''Telemetry store is unavailable''))
                                        | Some exec \<Rightarrow>
                                            (case delete_loop exec (map (\<lambda>k. \<lparr>de_tenant = tenant, de_device = entity, de_key = k, de_start = s, de_end = e\<rparr>) keys) of
                                               (did, Inl k) \<Rightarrow> (did, Inl (HttpError 500 (''Delete failed for key '' @ k)))
                                             | (did, Inr n) \<Rightarrow> (did, Inr (n, keys))))
                              | _ \<Rightarrow> ([], Inl (HttpError 400 ''startTs and endTs are required''))))))"

end
