(* ===== verification/TelemetryProps.thy ===== *)
theory TelemetryProps
  imports TelemetryReader
begin

text \<open>
  What the telemetry readers promise: a value in a history query is one string literal of it
  (\<open>history_queries_inject_nothing\<close>), the history store is asked about a device only within the tenant of
  the caller (\<open>device_history_within_tenant\<close>), the keys of a request are bounded and in order
  (\<open>requested_keys_exact\<close>), and a deletion only runs statements of the tenant, the device and the keys
  asked for (\<open>deletion_scoped\<close>).
\<close>

section \<open>Rendered tokens\<close>

fun render :: "sql_token list \<Rightarrow> str" where
  "render [] = []"
| "render (Code s # ts) = s @ render ts"
| "render (Lit s # ts) = sql_literal s @ render ts"

text \<open>Code and literals in turn, code between two literals not empty and free of quotes.\<close>

fun alternate :: "bool \<Rightarrow> sql_token list \<Rightarrow> bool" where
  "alternate b [Code s] = (quote_char \<notin> set s)"
| "alternate b (Code s # Lit v # ts) = (quote_char \<notin> set s \<and> (b \<longrightarrow> s \<noteq> []) \<and> alternate True ts)"
| "alternate b _ = False"

lemma render_head: "alternate True ts \<Longrightarrow> render ts = [] \<or> hd (render ts) \<noteq> quote_char"
proof (induction True ts rule: alternate.induct)
  case (1 s)
  then show ?case by (cases s) auto
next
  case (2 s v ts)
  then show ?case by (cases s) auto
qed auto

lemma lex_render: "alternate b ts \<Longrightarrow> lex_sql (render ts) = Some ts"
proof (induction b ts rule: alternate.induct)
  case (1 b s)
  then show ?case using lex_code_all [of s "[]"] by (simp add: lex_sql_def)
next
  case (2 b s v ts)
  then have "alternate True ts" "quote_char \<notin> set s" by simp_all
  with 2 show ?case using render_head [of ts] by (simp add: lex_sql_def lex_code lex_literal)
qed auto

text \<open>A statement with the literals \<open>vs\<close> in the holes of the code \<open>cs\<close>.\<close>

fun weave :: "str list \<Rightarrow> str list \<Rightarrow> sql_token list" where
  "weave [] vs = []"
| "weave [c] vs = [Code c]"
| "weave (c # cs) [] = [Code c]"
| "weave (c # cs) (v # vs) = Code c # Lit v # weave cs vs"

section \<open>The code of the queries has no quotes\<close>

lemma char_code_quote [simp]: "char_code quote_char = 39"
  by code_simp

lemma valid_column_no_quote: "is_valid_column_name s \<Longrightarrow> quote_char \<notin> set s"
proof
  assume s: "is_valid_column_name s" "quote_char \<in> set s"
  then have "is_lower quote_char \<or> is_upper quote_char \<or> is_digit quote_char \<or> quote_char = CHR ''_''"
    by (auto simp: is_valid_column_name_def list_all_iff)
  then show False by (simp add: in_range_def)
qed

lemma column_no_quote [simp]: "quote_char \<notin> set (timestamp_column env store)"
  using valid_column_no_quote by (simp add: timestamp_column_def Let_def)

lemma agg_no_quote [simp]: "quote_char \<notin> set (map_agg_function a)"
  by (simp add: map_agg_function_def Let_def)

lemma line_break_no_quote [simp]: "quote_char \<notin> set (line_break n)"
  by (simp add: line_break_def)

lemma line_break_nonempty [simp]: "line_break n \<noteq> []"
  by (simp add: line_break_def)

lemma nat_text_digits: "c \<in> set (nat_text n) \<Longrightarrow> is_digit c"
proof (induction n rule: nat_text.induct)
  case (1 n)
  show ?case
  proof (cases "n < 10")
    case True
    then show ?thesis using 1(2) by (subst (asm) nat_text.simps) (simp add: in_range_def)
  next
    case False
    then have "c \<in> set (nat_text (n div 10)) \<or> c = char_of (48 + n mod 10)" using 1(2)
      by (subst (asm) nat_text.simps) auto
    moreover have "is_digit (char_of (48 + n mod 10))" by (simp add: in_range_def)
    ultimately show ?thesis using 1(1) [OF False] by blast
  qed
qed

lemma int_text_no_quote [simp]: "quote_char \<notin> set (int_text n)"
proof
  assume "quote_char \<in> set (int_text n)"
  then have "is_digit quote_char \<or> quote_char = CHR ''-''" using nat_text_digits by (auto simp: int_text_def split: if_splits)
  then show False by (simp add: in_range_def)
qed

lemma sample_by_no_quote [simp]: "quote_char \<notin> set (ms_to_sample_by ms)"
  by (simp add: ms_to_sample_by_def)

lemma if_order_no_quote [simp]: "quote_char \<notin> set (if b then ''DESC'' else ''ASC'')"
  by simp

section \<open>Injection\<close>

lemma lex_weave: "render (weave cs vs) = q \<Longrightarrow> alternate False (weave cs vs) \<Longrightarrow> lex_sql q = Some (weave cs vs)"
  using lex_render by blast

text \<open>A statement that asks within a tenant.\<close>

definition tenant_scoped :: "str \<Rightarrow> str \<Rightarrow> bool" where
  "tenant_scoped tenant q \<longleftrightarrow> (\<exists>before c after. lex_sql q = Some (before @ Code (c @ '' AND tenant_id = '') # Lit tenant # after))"

lemma tenant_scopedI:
  assumes "lex_sql q = Some (weave cs vs)" "i < length vs" "Suc i < length cs" "cs ! i = c @ '' AND tenant_id = ''" "vs ! i = tenant"
  shows "tenant_scoped tenant q"
proof -
  have "\<exists>before after. weave cs vs = before @ Code (cs ! i) # Lit (vs ! i) # after" if "i < length vs" "Suc i < length cs" for cs vs i
    using that
  proof (induction cs vs arbitrary: i rule: weave.induct)
    case (4 c d cs v vs)
    show ?case
    proof (cases i)
      case 0
      then have "weave (c # d # cs) (v # vs) = [] @ Code ((c # d # cs) ! i) # Lit ((v # vs) ! i) # weave (d # cs) vs" by simp
      then show ?thesis by blast
    next
      case (Suc j)
      then obtain before after where "weave (d # cs) vs = before @ Code ((d # cs) ! j) # Lit (vs ! j) # after"
        using 4 by (metis Suc_less_eq length_Cons)
      then have "weave (c # d # cs) (v # vs) = (Code c # Lit v # before) @ Code ((c # d # cs) ! i) # Lit ((v # vs) ! i) # after"
        using Suc by simp
      then show ?thesis by blast
    qed
  qed auto
  from this [OF assms(2,3)] show ?thesis unfolding tenant_scoped_def assms(1,4,5) by blast
qed

text \<open>The code of each query.\<close>

definition sort_word :: "bool \<Rightarrow> str" where "sort_word b = (if b then ''DESC'' else ''ASC'')"

definition keys_code :: "str list" where
  "keys_code = [''SELECT DISTINCT telemetry_key FROM device_telemetry_kv WHERE device_id = '', '' AND tenant_id = '', [] :: str]"

definition raw_code :: "str \<Rightarrow> bool \<Rightarrow> int \<Rightarrow> str list" where
  "raw_code col b limit =
     [''SELECT '' @ col @ '' AS timestamp, value_string, value_kind FROM device_telemetry_kv'' @ line_break 1 @ ''WHERE device_id = '',
      '' AND telemetry_key = '', '' AND tenant_id = '', line_break 3 @ ''AND '' @ col @ '' >= '', '' AND '' @ col @ '' <= '',
      line_break 1 @ ''ORDER BY '' @ col @ '' '' @ sort_word b @ line_break 1 @ ''LIMIT '' @ int_text limit]"

definition questdb_agg_code :: "bool \<Rightarrow> int \<Rightarrow> str \<Rightarrow> str \<Rightarrow> str list" where
  "questdb_agg_code b limit agg sample_by =
     [''SELECT timestamp, cast('' @ agg @ ''(cast(value_string AS DOUBLE)) AS VARCHAR) AS value_string, '',
      '' AS value_kind'' @ line_break 3 @ ''FROM device_telemetry_kv'' @ line_break 2 @ ''WHERE device_id = '', '' AND telemetry_key = '',
      '' AND value_kind = '', '' AND tenant_id = '', line_break 4 @ ''AND timestamp >= '', '' AND timestamp <= '',
      line_break 2 @ ''SAMPLE BY '' @ sample_by @ line_break 2 @ ''ORDER BY timestamp '' @ sort_word b @ line_break 2 @ ''LIMIT '' @ int_text limit]"

definition greptime_agg_code :: "str \<Rightarrow> bool \<Rightarrow> int \<Rightarrow> str \<Rightarrow> str list" where
  "greptime_agg_code col b limit agg =
     [''SELECT date_bin('', ''::INTERVAL, '' @ col @ '') AS timestamp, CAST('' @ agg @ ''(CAST(value_string AS DOUBLE)) AS STRING) AS value_string, '',
      '' AS value_kind'' @ line_break 3 @ ''FROM device_telemetry_kv'' @ line_break 2 @ ''WHERE device_id = '', '' AND telemetry_key = '',
      '' AND value_kind = '', '' AND tenant_id = '', line_break 4 @ ''AND '' @ col @ '' >= '', '' AND '' @ col @ '' <= '',
      line_break 2 @ ''GROUP BY date_bin('',
      ''::INTERVAL, '' @ col @ '')'' @ line_break 2 @ ''ORDER BY timestamp '' @ sort_word b @ line_break 2 @ ''LIMIT '' @ int_text limit]"

definition latest_code :: "str \<Rightarrow> str list" where
  "latest_code col =
     [''SELECT '' @ col @ '', value_string, value_kind FROM device_telemetry_kv'' @ line_break 2 @ ''WHERE device_id = '',
      '' AND telemetry_key = '', '' AND tenant_id = '', line_break 2 @ ''ORDER BY '' @ col @ '' DESC'' @ line_break 2 @ ''LIMIT 1'']"

lemma keys_query_weave: "lex_sql (questdb_kv_keys_query tenant entity) = Some (weave keys_code [entity, tenant])"
  by (rule lex_weave) (simp_all add: questdb_kv_keys_query_def device_tenant_predicate_def keys_code_def)

lemma raw_query_weave:
  "quote_char \<notin> set col \<Longrightarrow> lex_sql (questdb_kv_raw_query col tenant entity key s e (sort_word b) limit) =
     Some (weave (raw_code col b limit) [entity, key, tenant, s, e])"
  by (rule lex_weave) (simp_all add: questdb_kv_raw_query_def device_tenant_predicate_def raw_code_def sort_word_def)

lemma questdb_agg_weave:
  "lex_sql (questdb_kv_agg_query tenant entity key s e (sort_word b) limit (map_agg_function agg) (ms_to_sample_by ms)) =
     Some (weave (questdb_agg_code b limit (map_agg_function agg) (ms_to_sample_by ms)) [''number'', entity, key, ''number'', tenant, s, e])"
  by (rule lex_weave) (simp_all add: questdb_kv_agg_query_def device_tenant_predicate_def questdb_agg_code_def sort_word_def)

lemma greptime_agg_weave:
  "quote_char \<notin> set col \<Longrightarrow>
   lex_sql (greptime_kv_agg_query col tenant entity key s e (sort_word b) limit (map_agg_function agg) ms) =
     Some (weave (greptime_agg_code col b limit (map_agg_function agg))
       [int_text ms @ '' milliseconds'', ''number'', entity, key, ''number'', tenant, s, e, int_text ms @ '' milliseconds''])"
  by (rule lex_weave) (simp_all add: greptime_kv_agg_query_def device_tenant_predicate_def date_bin_def greptime_agg_code_def sort_word_def)

lemma latest_query_weave:
  "quote_char \<notin> set col \<Longrightarrow> lex_sql (device_kv_latest_query col tenant entity key) = Some (weave (latest_code col) [entity, key, tenant])"
  by (rule lex_weave) (simp_all add: device_kv_latest_query_def device_tenant_predicate_def latest_code_def)

text \<open>The queries about other entities name a tenant only when they are given one.\<close>

definition tenant_code :: "str \<Rightarrow> str list" where
  "tenant_code tenant = (if tenant = [] then [] else ['' AND tenant_id = ''])"

definition tenant_value :: "str \<Rightarrow> str list" where
  "tenant_value tenant = (if tenant = [] then [] else [tenant])"

definition entity_raw_code :: "str \<Rightarrow> bool \<Rightarrow> int \<Rightarrow> str list \<Rightarrow> str list" where
  "entity_raw_code col b limit scope =
     [''SELECT '' @ col @ '' AS timestamp, value_string, value_kind FROM entity_telemetry_kv'' @ line_break 1 @ ''WHERE entity_id = '',
      '' AND entity_type = '', '' AND telemetry_key = '', line_break 3 @ ''AND '' @ col @ '' >= '', '' AND '' @ col @ '' <= ''] @ scope @
     [line_break 1 @ ''ORDER BY '' @ col @ '' '' @ sort_word b @ line_break 1 @ ''LIMIT '' @ int_text limit]"

definition entity_agg_code :: "str \<Rightarrow> bool \<Rightarrow> int \<Rightarrow> str \<Rightarrow> str list \<Rightarrow> str list" where
  "entity_agg_code col b limit agg scope =
     [''SELECT date_bin('', ''::INTERVAL, '' @ col @ '') AS timestamp, CAST('' @ agg @ ''(CAST(value_string AS DOUBLE)) AS STRING) AS value_string, '',
      '' AS value_kind'' @ line_break 3 @ ''FROM entity_telemetry_kv'' @ line_break 2 @ ''WHERE entity_id = '', '' AND entity_type = '',
      '' AND telemetry_key = '', '' AND value_kind = '', line_break 4 @ ''AND '' @ col @ '' >= '', '' AND '' @ col @ '' <= ''] @ scope @
     [line_break 2 @ ''GROUP BY date_bin('',
      ''::INTERVAL, '' @ col @ '')'' @ line_break 2 @ ''ORDER BY timestamp '' @ sort_word b @ line_break 2 @ ''LIMIT '' @ int_text limit]"

definition entity_latest_code :: "str \<Rightarrow> str list \<Rightarrow> str list" where
  "entity_latest_code col scope =
     [''SELECT '' @ col @ '' AS timestamp, value_string, value_kind FROM entity_telemetry_kv'' @ line_break 1 @ ''WHERE entity_id = '',
      '' AND entity_type = '', '' AND telemetry_key = ''] @ scope @ [line_break 1 @ ''ORDER BY '' @ col @ '' DESC LIMIT 1'']"

definition entity_keys_code :: "str list \<Rightarrow> str list" where
  "entity_keys_code scope =
     [''SELECT DISTINCT telemetry_key FROM entity_telemetry_kv WHERE entity_id = '', '' AND entity_type = ''] @ scope @ [[]]"

lemmas entity_code_defs = entity_tenant_predicate_def tenant_code_def tenant_value_def entity_raw_code_def entity_agg_code_def
  entity_latest_code_def entity_keys_code_def

lemma entity_raw_weave:
  "quote_char \<notin> set col \<Longrightarrow> lex_sql (entity_kv_raw_query col etype entity tenant key s e (sort_word b) limit) =
     Some (weave (entity_raw_code col b limit (tenant_code tenant)) ([entity, etype, key, s, e] @ tenant_value tenant))"
  by (rule lex_weave) (simp_all add: entity_kv_raw_query_def entity_code_defs sort_word_def)

lemma entity_agg_weave:
  "quote_char \<notin> set col \<Longrightarrow>
   lex_sql (entity_kv_agg_query col etype entity tenant key s e (sort_word b) limit (map_agg_function agg) ms) =
     Some (weave (entity_agg_code col b limit (map_agg_function agg) (tenant_code tenant))
       ([int_text ms @ '' milliseconds'', ''number'', entity, etype, key, ''number'', s, e] @ tenant_value tenant @ [int_text ms @ '' milliseconds'']))"
  by (rule lex_weave) (simp_all add: entity_kv_agg_query_def date_bin_def entity_code_defs sort_word_def)

lemma entity_latest_weave:
  "quote_char \<notin> set col \<Longrightarrow> lex_sql (entity_kv_latest_query col etype entity tenant key) =
     Some (weave (entity_latest_code col (tenant_code tenant)) ([entity, etype, key] @ tenant_value tenant))"
  by (rule lex_weave) (simp_all add: entity_kv_latest_query_def entity_code_defs)

lemma entity_keys_weave:
  "lex_sql (entity_kv_distinct_keys etype entity tenant) =
     Some (weave (entity_keys_code (tenant_code tenant)) ([entity, etype] @ tenant_value tenant))"
  by (rule lex_weave) (simp_all add: entity_kv_distinct_keys_def entity_code_defs)

lemmas code_defs = keys_code_def raw_code_def questdb_agg_code_def greptime_agg_code_def latest_code_def

text \<open>C25: The history queries cannot be injected into. Whatever the tenant, the entity and its type, the key and the times, each
  of the nine queries - about a device: raw, aggregated for either store, the latest value, the keys; about another entity: raw,
  aggregated, the latest value, the keys - reads as one statement whose code does not depend on them, with exactly these
  values, verbatim, in its string literals. The tenant is compared with the tenant column; a query about an entity that is
  given no tenant has one fixed code too, without that comparison.\<close>

theorem history_queries_inject_nothing:
  "(\<exists>cs. cs ! 2 = '' AND tenant_id = '' \<and> (\<forall>tenant entity key s e.
      lex_sql (questdb_kv_raw_query (timestamp_column env store) tenant entity key s e (sort_word b) limit) =
        Some (weave cs [entity, key, tenant, s, e]))) \<and>
   (\<exists>cs. cs ! 4 = '' AND tenant_id = '' \<and> (\<forall>tenant entity key s e.
      lex_sql (questdb_kv_agg_query tenant entity key s e (sort_word b) limit (map_agg_function agg) (ms_to_sample_by ms)) =
        Some (weave cs [''number'', entity, key, ''number'', tenant, s, e]))) \<and>
   (\<exists>cs. cs ! 5 = '' AND tenant_id = '' \<and> (\<forall>tenant entity key s e.
      lex_sql (greptime_kv_agg_query (timestamp_column env store) tenant entity key s e (sort_word b) limit (map_agg_function agg) ms) =
        Some (weave cs [int_text ms @ '' milliseconds'', ''number'', entity, key, ''number'', tenant, s, e, int_text ms @ '' milliseconds'']))) \<and>
   (\<exists>cs. cs ! 2 = '' AND tenant_id = '' \<and> (\<forall>tenant entity key.
      lex_sql (device_kv_latest_query (timestamp_column env store) tenant entity key) = Some (weave cs [entity, key, tenant]))) \<and>
   (\<exists>cs. cs ! 1 = '' AND tenant_id = '' \<and> (\<forall>tenant entity. lex_sql (questdb_kv_keys_query tenant entity) = Some (weave cs [entity, tenant]))) \<and>
   (\<exists>cs cs'. cs ! 5 = '' AND tenant_id = '' \<and> (\<forall>x tenant etype entity key s e.
      lex_sql (entity_kv_raw_query (timestamp_column env store) etype entity (x # tenant) key s e (sort_word b) limit) =
        Some (weave cs [entity, etype, key, s, e, x # tenant]) \<and>
      lex_sql (entity_kv_raw_query (timestamp_column env store) etype entity [] key s e (sort_word b) limit) =
        Some (weave cs' [entity, etype, key, s, e]))) \<and>
   (\<exists>cs cs'. cs ! 8 = '' AND tenant_id = '' \<and> (\<forall>x tenant etype entity key s e.
      lex_sql (entity_kv_agg_query (timestamp_column env store) etype entity (x # tenant) key s e (sort_word b) limit (map_agg_function agg) ms) =
        Some (weave cs [int_text ms @ '' milliseconds'', ''number'', entity, etype, key, ''number'', s, e, x # tenant, int_text ms @ '' milliseconds'']) \<and>
      lex_sql (entity_kv_agg_query (timestamp_column env store) etype entity [] key s e (sort_word b) limit (map_agg_function agg) ms) =
        Some (weave cs' [int_text ms @ '' milliseconds'', ''number'', entity, etype, key, ''number'', s, e, int_text ms @ '' milliseconds'']))) \<and>
   (\<exists>cs cs'. cs ! 3 = '' AND tenant_id = '' \<and> (\<forall>x tenant etype entity key.
      lex_sql (entity_kv_latest_query (timestamp_column env store) etype entity (x # tenant) key) = Some (weave cs [entity, etype, key, x # tenant]) \<and>
      lex_sql (entity_kv_latest_query (timestamp_column env store) etype entity [] key) = Some (weave cs' [entity, etype, key]))) \<and>
   (\<exists>cs cs'. cs ! 2 = '' AND tenant_id = '' \<and> (\<forall>x tenant etype entity.
      lex_sql (entity_kv_distinct_keys etype entity (x # tenant)) = Some (weave cs [entity, etype, x # tenant]) \<and>
      lex_sql (entity_kv_distinct_keys etype entity []) = Some (weave cs' [entity, etype])))"
  (is "?raw \<and> ?questdb \<and> ?greptime \<and> ?latest \<and> ?keys \<and> ?eraw \<and> ?eagg \<and> ?elatest \<and> ?ekeys")
proof -
  have c: "raw_code col b limit ! 2 = '' AND tenant_id = ''" "questdb_agg_code b limit a p ! 4 = '' AND tenant_id = ''"
    "greptime_agg_code col b limit a ! 5 = '' AND tenant_id = ''" "latest_code col ! 2 = '' AND tenant_id = ''"
    "keys_code ! 1 = '' AND tenant_id = ''" for col a p
    by (simp_all add: code_defs)
  have devices: "?raw \<and> ?questdb \<and> ?greptime \<and> ?latest \<and> ?keys"
    by (intro conjI exI allI; (rule c | rule raw_query_weave questdb_agg_weave greptime_agg_weave latest_query_weave keys_query_weave); simp)
  let ?t = "['' AND tenant_id = '']" and ?col = "timestamp_column env store"
  have t: "tenant_code (x # tenant) = ?t" "tenant_value (x # tenant) = [x # tenant]" "tenant_code [] = []" "tenant_value [] = []" for x tenant
    by (simp_all add: tenant_code_def tenant_value_def)
  have e: "entity_raw_code ?col b limit ?t ! 5 = '' AND tenant_id = ''" "entity_agg_code ?col b limit (map_agg_function agg) ?t ! 8 = '' AND tenant_id = ''"
    "entity_latest_code ?col ?t ! 3 = '' AND tenant_id = ''" "entity_keys_code ?t ! 2 = '' AND tenant_id = ''"
    by (simp_all add: entity_code_defs)
  have "?eraw"
    using e(1) entity_raw_weave [where col = ?col and b = b and limit = limit]
    by (intro exI [of _ "entity_raw_code ?col b limit ?t"] exI [of _ "entity_raw_code ?col b limit []"]) (simp add: t)
  moreover have "?eagg"
    using e(2) entity_agg_weave [where col = ?col and b = b and limit = limit and agg = agg and ms = ms]
    by (intro exI [of _ "entity_agg_code ?col b limit (map_agg_function agg) ?t"] exI [of _ "entity_agg_code ?col b limit (map_agg_function agg) []"])
      (simp add: t)
  moreover have "?elatest"
    using e(3) entity_latest_weave [where col = ?col]
    by (intro exI [of _ "entity_latest_code ?col ?t"] exI [of _ "entity_latest_code ?col []"]) (simp add: t)
  moreover have "?ekeys"
    using e(4) entity_keys_weave by (intro exI [of _ "entity_keys_code ?t"] exI [of _ "entity_keys_code []"]) (simp add: t)
  ultimately show ?thesis using devices by blast
qed

section \<open>The tenant of the history store\<close>

text \<open>Two stores that answer alike whatever is asked within a tenant.\<close>

definition agree_within :: "str \<Rightarrow> tsdb \<Rightarrow> tsdb \<Rightarrow> bool" where
  "agree_within tenant db db' \<longleftrightarrow>
     (\<forall>q. tenant_scoped tenant q \<longrightarrow> db_points db q = db_points db' q \<and> db_keys db q = db_keys db' q)"

lemma agree_withinD:
  assumes "agree_within tenant db db'" "tenant_scoped tenant q"
  shows "db_points db q = db_points db' q" "db_keys db q = db_keys db' q"
  using assms unfolding agree_within_def by blast+

lemma scoped_keys: "tenant_scoped tenant (questdb_kv_keys_query tenant entity)"
  by (rule tenant_scopedI [OF keys_query_weave, where i = 1 and c = "[]"]) (simp_all add: code_defs)

lemma scoped_latest: "quote_char \<notin> set col \<Longrightarrow> tenant_scoped tenant (device_kv_latest_query col tenant entity key)"
  by (rule tenant_scopedI [OF latest_query_weave, where i = 2 and c = "[]"]) (simp_all add: code_defs)

lemma scoped_series:
  assumes "quote_char \<notin> set col"
  shows "tenant_scoped tenant (series_query store col tenant entity key s e (if to_upper ob \<noteq> ''ASC'' then ''DESC'' else ''ASC'') limit agg interval)"
proof -
  have o': "(if to_upper ob \<noteq> ''ASC'' then ''DESC'' else ''ASC'') = sort_word (to_upper ob \<noteq> ''ASC'')" by (simp add: sort_word_def)
  have "tenant_scoped tenant (questdb_kv_raw_query col tenant entity key s e (sort_word b) limit)" for b
    by (rule tenant_scopedI [OF raw_query_weave [OF assms], where i = 2 and c = "[]"]) (simp_all add: code_defs)
  moreover have "tenant_scoped tenant (questdb_kv_agg_query tenant entity key s e (sort_word b) limit (map_agg_function agg) (ms_to_sample_by ms))" for b ms
    by (rule tenant_scopedI [OF questdb_agg_weave, where i = 4 and c = "[]"]) (simp_all add: code_defs)
  moreover have "tenant_scoped tenant (greptime_kv_agg_query col tenant entity key s e (sort_word b) limit (map_agg_function agg) ms)" for b ms
    by (rule tenant_scopedI [OF greptime_agg_weave [OF assms], where i = 5 and c = "[]"]) (simp_all add: code_defs)
  ultimately show ?thesis unfolding o' series_query_def by (simp split: option.split)
qed

lemma reader_column_no_quote [simp]: "quote_char \<notin> set (reader_column rd)"
  by (simp add: reader_column_def)

lemma reader_upd:
  "rd_tsdb (rd\<lparr>rd_tsdb := x\<rparr>) = x" "rd_twin (rd\<lparr>rd_tsdb := x\<rparr>) = rd_twin rd" "rd_tables (rd\<lparr>rd_tsdb := x\<rparr>) = rd_tables rd"
  "rd_latest (rd\<lparr>rd_tsdb := x\<rparr>) = rd_latest rd" "rd_series (rd\<lparr>rd_tsdb := x\<rparr>) = rd_series rd"
  by simp_all

lemma reader_column_tsdb [simp]: "reader_column (rd\<lparr>rd_tsdb := x\<rparr>) = reader_column rd"
  by (simp add: reader_column_def)

lemma nats_authoritative_tsdb [simp]: "nats_authoritative (rd\<lparr>rd_tsdb := x\<rparr>) = nats_authoritative rd"
  by (simp add: nats_authoritative_def fun_eq_iff)

lemma keys_agree: "agree_within tenant db db' \<Longrightarrow> query_kv_keys (Some db) tenant entity = query_kv_keys (Some db') tenant entity"
  using agree_withinD(2) [OF _ scoped_keys] by (simp add: query_kv_keys_def)

lemma latest_agree:
  "agree_within tenant db db' \<Longrightarrow>
   device_kv_latest co (rd\<lparr>rd_tsdb := Some db\<rparr>) tenant entity key strict = device_kv_latest co (rd\<lparr>rd_tsdb := Some db'\<rparr>) tenant entity key strict"
  using agree_withinD(1) [OF _ scoped_latest] by (simp add: device_kv_latest_def)

lemma fallback_agree:
  "agree_within tenant db db' \<Longrightarrow>
   device_latest_fallback co (rd\<lparr>rd_tsdb := Some db\<rparr>) tenant entity keys strict =
   device_latest_fallback co (rd\<lparr>rd_tsdb := Some db'\<rparr>) tenant entity keys strict"
  by (simp add: device_latest_fallback_def keys_agree [of tenant db db'] latest_agree [of tenant db db'])

lemma series_agree:
  assumes "agree_within tenant db db'"
  shows "query_kv_timeseries co (rd\<lparr>rd_tsdb := Some db\<rparr>) tenant entity keys s e limit ob agg interval strict =
    query_kv_timeseries co (rd\<lparr>rd_tsdb := Some db'\<rparr>) tenant entity keys s e limit ob agg interval strict"
  unfolding query_kv_timeseries_def reader_column_tsdb
  using agree_withinD(1) [OF assms scoped_series [OF reader_column_no_quote]] keys_agree [OF assms]
  by (simp cong: option.case_cong)

lemma some_is_something: "(Some x = None) = False" "(Some x \<noteq> None) = True"
  by simp_all

lemma serve_agree:
  assumes a: "agree_within tenant db db'"
  shows "serve_latest co (rd\<lparr>rd_tsdb := Some db\<rparr>) tenant etype entity keys strict =
    serve_latest co (rd\<lparr>rd_tsdb := Some db'\<rparr>) tenant etype entity keys strict"
  unfolding serve_latest_def reader_upd nats_authoritative_tsdb fallback_agree [OF a] reader.select_convs reader.update_convs some_is_something by simp

lemma from_postgres_tsdb: "values_from_postgres co uuid (rd\<lparr>rd_tsdb := x\<rparr>) now query entity = values_from_postgres co uuid rd now query entity"
  unfolding values_from_postgres_def reader_upd ..

lemma gate_tsdb: "telemetry_gate uuid (rd\<lparr>rd_tsdb := x\<rparr>) claims etype entity = telemetry_gate uuid rd claims etype entity"
  unfolding telemetry_gate_def reader_upd ..

lemma gate_tenant: "telemetry_gate uuid rd (Some c) etype entity = Inr t \<Longrightarrow> t = claim_string c ''tenantId''"
  by (auto simp: telemetry_gate_def Let_def claim_string_def split: if_splits)

text \<open>C26: The history of devices is read within the tenant. A request for values of a device is answered
  alike by two history stores that agree on everything asked within the tenant of the caller - whatever
  they hold of other tenants.\<close>

theorem device_history_within_tenant:
  assumes "fst (telemetry_path_target (split_on CHR ''/'' (tq_path req))) = ''DEVICE''" "agree_within (claim_string c ''tenantId'') db db'"
  shows "handle_telemetry_values co uuid (rd\<lparr>rd_tsdb := Some db\<rparr>) now (Some c) req = handle_telemetry_values co uuid (rd\<lparr>rd_tsdb := Some db'\<rparr>) now (Some c) req"
proof -
  obtain etype entity where t: "telemetry_path_target (split_on CHR ''/'' (tq_path req)) = (etype, entity)" by fastforce
  have d: "equal_fold etype ''DEVICE'' = True" using assms(1) t by (simp add: equal_fold_def)
  show ?thesis
  proof (cases "telemetry_gate uuid rd (Some c) etype entity")
    case (Inl e)
    then show ?thesis by (simp add: handle_telemetry_values_def t gate_tsdb)
  next
    case (Inr tenant)
    have a: "agree_within tenant db db'" using gate_tenant [OF Inr] assms(2) by simp
    show ?thesis
      unfolding handle_telemetry_values_def t prod.case gate_tsdb Inr and_then_simps Let_def d not_True_eq_False simp_thms if_False reader_upd some_is_something
        serve_agree [OF a] fallback_agree [OF a] series_agree [OF a] from_postgres_tsdb
      by simp
  qed
qed

section \<open>Keys\<close>

text \<open>The requested keys, trimmed, with repetitions.\<close>

definition spelled_keys :: "str list \<Rightarrow> str list \<Rightarrow> str list" where
  "spelled_keys key_values keys_values =
     filter (\<lambda>k. k \<noteq> []) (map trim_space (concat (map (split_on CHR '','') (key_values @ keys_values))))"

text \<open>Each key at its first occurrence.\<close>

definition first_occurrences :: "'a list \<Rightarrow> 'a list" where
  "first_occurrences xs = rev (remdups (rev xs))"

lemma first_occurrences_snoc: "first_occurrences (xs @ [x]) = (if x \<in> set xs then first_occurrences xs else first_occurrences xs @ [x])"
  by (simp add: first_occurrences_def)

lemma set_first_occurrences [simp]: "set (first_occurrences xs) = set xs"
  by (simp add: first_occurrences_def)

lemma add_keys_first: "add_keys (first_occurrences xs) ps = first_occurrences (xs @ filter (\<lambda>k. k \<noteq> []) (map trim_space ps))"
proof (induction ps arbitrary: xs)
  case (Cons p ps)
  have "add_keys (first_occurrences xs) (p # ps) = add_keys (if trim_space p = [] then first_occurrences xs else first_occurrences (xs @ [trim_space p])) ps"
    by (auto simp: Let_def first_occurrences_snoc)
  then show ?case using Cons.IH [of xs] Cons.IH [of "xs @ [trim_space p]"] by simp
qed simp

text \<open>The keys of a request are exact and bounded: each requested key once, trimmed, at its first place among
  the values of key and then of keys; the request is refused exactly when there are more than a hundred
  different ones.\<close>

theorem requested_keys_exact:
  "timeseries_keys key_values keys_values =
     (if 100 < card (set (spelled_keys key_values keys_values)) then None else Some (first_occurrences (spelled_keys key_values keys_values)))"
proof -
  have a: "add_keys [] ps = first_occurrences (filter (\<lambda>k. k \<noteq> []) (map trim_space ps))" for ps
    using add_keys_first [of "[]" ps] by (simp add: first_occurrences_def)
  have "length (first_occurrences xs) = card (set xs)" for xs :: "str list"
    using length_remdups_card_conv [of "rev xs"] by (simp add: first_occurrences_def)
  then show ?thesis unfolding timeseries_keys_def Let_def a spelled_keys_def [symmetric] by (simp add: max_timeseries_keys_def)
qed

section \<open>Deletions\<close>

lemma delete_loop_ran:
  "delete_loop exec ds = (did, r) \<Longrightarrow> set did \<subseteq> set ds \<and> (\<forall>n. r = Inr n \<longrightarrow> did = ds \<and> n = (\<Sum>d \<leftarrow> ds. the (exec d)))"
  by (induction ds arbitrary: did r) (fastforce split: option.splits prod.splits sum.splits)+

text \<open>C27: Deletions are scoped. Every statement a request executes deletes within the tenant of its verified token,
  on the device of its path, for a key and the range it names - deletion being enabled - and a success
  reports exactly the rows of one statement per key.\<close>

theorem deletion_scoped:
  assumes "handle_delete_timeseries enabled pg claims http_method req = (did, r)"
  shows "(\<forall>d \<in> set did. enabled \<and> (\<exists>c etype. claims = Some c \<and> de_tenant d = claim_string c ''tenantId'' \<and> de_tenant d \<noteq> [] \<and>
            parse_telemetry_target (tq_path req) = Some (etype, de_device d) \<and> equal_fold etype ''DEVICE'' \<and>
            de_key d \<in> set (delete_keys (query_get (tq_query req) ''keys'')) \<and>
            atoi (query_get (tq_query req) ''startTs'') = Some (de_start d) \<and> atoi (query_get (tq_query req) ''endTs'') = Some (de_end d) \<and>
            de_start d < de_end d)) \<and>
     (\<forall>n ks. r = Inr (n, ks) \<longrightarrow> ks \<noteq> [] \<and> ks = delete_keys (query_get (tq_query req) ''keys'') \<and> map de_key did = ks \<and>
        (\<exists>exec. pg = Some exec \<and> n = (\<Sum>d \<leftarrow> did. the (exec d))))"
proof (cases "did = [] \<and> (\<exists>e. r = Inl e)")
  case False
  let ?keys = "delete_keys (query_get (tq_query req) ''keys'')"
  from False assms obtain c etype entity s e exec where h: "claims = Some c" "enabled" "parse_telemetry_target (tq_path req) = Some (etype, entity)"
    "equal_fold etype ''DEVICE''" "?keys \<noteq> []" "atoi (query_get (tq_query req) ''startTs'') = Some s" "atoi (query_get (tq_query req) ''endTs'') = Some e"
    "s < e" "claim_string c ''tenantId'' \<noteq> []" "pg = Some exec"
    by (auto simp: handle_delete_timeseries_def Let_def claim_string_def split: option.splits if_splits)
  let ?ds = "map (\<lambda>k. \<lparr>de_tenant = claim_string c ''tenantId'', de_device = entity, de_key = k, de_start = s, de_end = e\<rparr>) ?keys"
  obtain did' r' where l: "delete_loop exec ?ds = (did', r')" by fastforce
  have m: "http_method = ''DELETE''" using False assms h by (auto simp: handle_delete_timeseries_def split: if_splits)
  have o': "did = did'" "\<And>n ks. r = Inr (n, ks) \<Longrightarrow> r' = Inr n \<and> ks = ?keys"
    using assms h l m by (auto simp: handle_delete_timeseries_def Let_def claim_string_def split: sum.splits)
  from delete_loop_ran [OF l] have ran: "set did' \<subseteq> set ?ds" "\<And>n. r' = Inr n \<Longrightarrow> did' = ?ds \<and> n = (\<Sum>d \<leftarrow> ?ds. the (exec d))" by auto
  have "map de_key ?ds = ?keys" by (simp add: comp_def)
  then show ?thesis using ran o' h by (auto simp del: map_map)
qed auto

section \<open>Concrete readers\<close>

text \<open>A codec that leaves texts as they are, stores that fail or hold nothing, and a reader without twin state
  whose Postgres tables hold one measurement of the device \<open>dev\<close>, which no table says is owned.\<close>

definition plain_codec :: codec where
  "plain_codec = \<lparr>co_time = int_text, co_float = (\<lambda>_. None), co_json = (\<lambda>_. None), co_number = (\<lambda>_. []), co_value = (\<lambda>v. as_string (Some v))\<rparr>"

definition failing_store :: tsdb where
  "failing_store = \<lparr>db_points = (\<lambda>_. None), db_keys = (\<lambda>_. None)\<rparr>"

definition sample_reader :: "tsdb option \<Rightarrow> reader" where
  "sample_reader db =
     \<lparr>rd_twin = None, rd_tsdb = db, rd_tables = Some [],
      rd_latest = [(''dev'', ''temp'', 7, (blank_cell 7)\<lparr>ac_str := Some ''secret''\<rparr>)],
      rd_series = [(''dev'', ''temp'', 7, (blank_cell 7)\<lparr>ac_str := Some ''secret''\<rparr>)],
      rd_column = [], rd_history = None, rd_usage = Some ''postgres'', rd_twin_env = []\<rparr>"

definition values_request :: telemetry_request where
  "values_request = \<lparr>tq_path = ''/api/plugins/telemetry/DEVICE/dev/values/timeseries'',
     tq_query = [(''keys'', ''temp''), (''startTs'', ''1''), (''endTs'', ''9'')]\<rparr>"

text \<open>The stores of the theorem on history may differ: one that answers everything but queries of the
  tenant \<open>t1\<close>, and one that always fails.\<close>

definition other_tenants_store :: tsdb where
  "other_tenants_store =
     \<lparr>db_points = (\<lambda>q. if lex_sql q = Some [Code ''SELECT 1''] then Some [(5, ''x'', ''string'')] else None), db_keys = (\<lambda>_. None)\<rparr>"

theorem device_history_within_tenant_witness:
  "handle_telemetry_values plain_codec Some (sample_reader (Some other_tenants_store)) 0 (Some [(''tenantId'', JStr ''t1'')]) values_request =
   handle_telemetry_values plain_codec Some (sample_reader (Some failing_store)) 0 (Some [(''tenantId'', JStr ''t1'')]) values_request \<and>
   db_points other_tenants_store ''SELECT 1'' \<noteq> db_points failing_store ''SELECT 1''"
proof
  have p: "fst (telemetry_path_target (split_on CHR ''/'' (tq_path values_request))) = ''DEVICE''" by code_simp
  have "\<not> tenant_scoped t q" if q: "lex_sql q = Some [Code ''SELECT 1'']" for t q
  proof
    assume "tenant_scoped t q"
    then obtain before c after where "before @ Code (c @ '' AND tenant_id = '') # Lit t # after = [Code ''SELECT 1'']"
      using q by (auto simp: tenant_scoped_def)
    then show False by (cases before) auto
  qed
  then have a: "agree_within (claim_string [(''tenantId'', JStr ''t1'')] ''tenantId'') other_tenants_store failing_store"
    by (auto simp: agree_within_def other_tenants_store_def failing_store_def)
  have r: "sample_reader (Some db) = (sample_reader None)\<lparr>rd_tsdb := Some db\<rparr>" for db by (simp add: sample_reader_def)
  show "handle_telemetry_values plain_codec Some (sample_reader (Some other_tenants_store)) 0 (Some [(''tenantId'', JStr ''t1'')]) values_request =
    handle_telemetry_values plain_codec Some (sample_reader (Some failing_store)) 0 (Some [(''tenantId'', JStr ''t1'')]) values_request"
    unfolding r by (rule device_history_within_tenant [OF p a])
  show "db_points other_tenants_store ''SELECT 1'' \<noteq> db_points failing_store ''SELECT 1''" by code_simp
qed

text \<open>The compatibility tables are read without the tenant: with the history store absent, or failing, a
  caller of any tenant is answered the measurement of \<open>dev\<close>, and its key is listed.\<close>

lemma compatibility_tables_unscoped:
  "handle_telemetry_values plain_codec Some (sample_reader None) 0 (Some [(''tenantId'', JStr ''t2'')]) values_request =
     Inr [(''temp'', [(7, JStr ''secret'')])]"
  "handle_telemetry_values plain_codec Some (sample_reader (Some failing_store)) 0 (Some [(''tenantId'', JStr ''t2'')]) values_request =
     Inr [(''temp'', [(7, JStr ''secret'')])]"
  "handle_telemetry_keys Some (sample_reader None) (Some [(''tenantId'', JStr ''t2'')]) values_request = Inr [''temp'']"
  by code_simp+

theorem deletion_scoped_witness:
  "\<exists>d d'. handle_delete_timeseries True (Some (\<lambda>d. Some 2)) (Some [(''tenantId'', JStr ''t1'')]) ''DELETE''
       \<lparr>tq_path = ''/api/plugins/telemetry/DEVICE/dev/timeseries/delete'',
        tq_query = [(''keys'', ''temp, hum''), (''startTs'', ''1''), (''endTs'', ''9'')]\<rparr> = ([d, d'], Inr (4, [''temp'', ''hum''])) \<and>
     de_tenant d = ''t1'' \<and> de_tenant d' = ''t1'' \<and> [de_key d, de_key d'] = [''temp'', ''hum'']"
proof -
  let ?req = "\<lparr>tq_path = ''/api/plugins/telemetry/DEVICE/dev/timeseries/delete'',
    tq_query = [(''keys'', ''temp, hum''), (''startTs'', ''1''), (''endTs'', ''9'')]\<rparr>"
  let ?d = "\<lambda>k. \<lparr>de_tenant = ''t1'', de_device = ''dev'', de_key = k, de_start = 1, de_end = 9\<rparr>"
  have run: "handle_delete_timeseries True (Some (\<lambda>d. Some 2)) (Some [(''tenantId'', JStr ''t1'')]) ''DELETE'' ?req =
    ([?d ''temp'', ?d ''hum''], Inr (4, [''temp'', ''hum'']))" by code_simp
  from conjunct2 [OF deletion_scoped [OF run]] have "map de_key [?d ''temp'', ?d ''hum''] = [''temp'', ''hum'']" by simp
  with run show ?thesis
    by (intro exI [where x = "?d ''temp''"] exI [where x = "?d ''hum''"]) simp
qed

end
