(* ===== verification/GraphWalk.thy ===== *)
theory GraphWalk
  imports TopologyExpand
begin

text \<open>
  The breadth-first walk over the relations that the WebSocket plane (walkRelationsQuery in
  internal/ws/ws.go) and the REST entity query (handleRelationsQueryFilter in
  internal/entityquery/entityquery.go) share: a queue of nodes with their level, a map of visited keys,
  the hits in the order they are found, and a budget on the number of visited keys that is checked
  before every neighbour. The laws show that a walk that keeps within its budget finds every node
  within the levels once, at its distance from the start, in the order of the distances.
\<close>

section \<open>The walk\<close>

type_synonym node = "entity_ref \<times> int"

type_synonym walk_state = "str list \<times> node list \<times> node list"

text \<open>The parameters: the budget, the key a node is visited by, the nodes that may be entered, the ones that
  are reported, the neighbours of a node, and the number of levels.\<close>

record walk =
  wk_budget :: int
  wk_key :: "entity_ref \<Rightarrow> str"
  wk_allowed :: "entity_ref \<Rightarrow> bool"
  wk_wanted :: "entity_ref \<Rightarrow> bool"
  wk_next :: "entity_ref \<Rightarrow> entity_ref list"
  wk_levels :: int

text \<open>The neighbours of one node; the flag tells that the budget is exhausted.\<close>

fun admit :: "walk \<Rightarrow> int \<Rightarrow> entity_ref list \<Rightarrow> walk_state \<Rightarrow> bool \<times> walk_state" where
  "admit w l [] st = (False, st)"
| "admit w l (n # ns) (visited, queue, hits) =
     (if wk_budget w \<le> int (length visited) then (True, (visited, queue, hits))
      else if wk_key w n \<in> set visited then admit w l ns (visited, queue, hits)
      else if \<not> wk_allowed w n then admit w l ns (wk_key w n # visited, queue, hits)
      else admit w l ns (wk_key w n # visited, queue @ [(n, l)], if wk_wanted w n then hits @ [(n, l)] else hits))"

fun walk_size :: "walk \<Rightarrow> walk_state \<Rightarrow> nat" where
  "walk_size w (visited, queue, hits) = nat (wk_budget w - int (length visited)) + length queue"

lemma admit_size: "walk_size w (snd (admit w l ns st)) \<le> walk_size w st"
proof (induction w l ns st rule: admit.induct)
  case (2 w l n ns visited queue hits)
  show ?case
  proof (cases "wk_budget w \<le> int (length visited)")
    case False
    let ?k = "wk_key w n # visited"
    have "walk_size w (?k, queue, hits) \<le> walk_size w (visited, queue, hits)"
      "walk_size w (?k, queue @ [(n, l)], h) \<le> walk_size w (visited, queue, hits)" for h
      using False by simp_all
    then show ?thesis using 2 False by (auto intro: order_trans)
  qed simp
qed simp

lemma admit_size_le:
  "(b, st') = admit w l ns st \<Longrightarrow> walk_size w st' \<le> walk_size w st"
  using admit_size [of w l ns st] by (metis snd_conv)

function walk_loop :: "walk \<Rightarrow> walk_state \<Rightarrow> bool \<times> walk_state" where
  "walk_loop w (visited, [], hits) = (False, (visited, [], hits))"
| "walk_loop w (visited, (n, l) # queue, hits) =
     (if wk_levels w \<le> l then walk_loop w (visited, queue, hits)
      else (case admit w (l + 1) (wk_next w n) (visited, queue, hits) of
              (exhausted, st) \<Rightarrow> if exhausted then (True, st) else walk_loop w st))"
  by pat_completeness auto

termination
  by (relation "measure (\<lambda>(w, st). walk_size w st)")
     (auto simp: less_Suc_eq_le dest: admit_size_le)

section \<open>Distances\<close>

text \<open>The steps of a walk enter allowed nodes; a node is met when it is the start or a neighbour of a node
  that is walked.\<close>

definition wk_step :: "walk \<Rightarrow> (entity_ref \<times> entity_ref) set" where
  "wk_step w = {(a, b). b \<in> set (wk_next w a) \<and> wk_allowed w b}"

definition hops :: "walk \<Rightarrow> entity_ref \<Rightarrow> nat \<Rightarrow> entity_ref set" where
  "hops w start k = {n. (start, n) \<in> wk_step w ^^ k}"

definition hop_count :: "walk \<Rightarrow> entity_ref \<Rightarrow> entity_ref \<Rightarrow> nat" where
  "hop_count w start n = (LEAST k. n \<in> hops w start k)"

definition met :: "walk \<Rightarrow> entity_ref \<Rightarrow> entity_ref set" where
  "met w start = insert start {n. \<exists>k m. m \<in> hops w start k \<and> int k < wk_levels w \<and> n \<in> set (wk_next w m)}"

definition keys_apart :: "walk \<Rightarrow> entity_ref \<Rightarrow> bool" where
  "keys_apart w start \<longleftrightarrow> inj_on (wk_key w) (met w start)"

lemma hops_0 [simp]: "hops w start 0 = {start}"
  by (auto simp: hops_def)

lemma hops_Suc: "n \<in> hops w start (Suc k) \<longleftrightarrow> (\<exists>m \<in> hops w start k. n \<in> set (wk_next w m) \<and> wk_allowed w n)"
  by (auto simp: hops_def wk_step_def)

lemma hop_count_hops: "n \<in> hops w start k \<Longrightarrow> n \<in> hops w start (hop_count w start n)"
  unfolding hop_count_def by (rule LeastI)

lemma hop_count_le: "n \<in> hops w start k \<Longrightarrow> hop_count w start n \<le> k"
  unfolding hop_count_def by (rule Least_le)

lemma hop_count_root [simp]: "hop_count w start start = 0"
  using hop_count_le [of start w start 0] by simp

lemma hops_met: "n \<in> hops w start k \<Longrightarrow> int k \<le> wk_levels w \<Longrightarrow> n \<in> met w start"
  by (cases k) (auto simp: met_def hops_Suc intro!: exI)

section \<open>Invariant\<close>

text \<open>The nodes that were entered are those taken from the queue (\<open>old\<close>) and those still in it.\<close>

inductive walk_inv :: "walk \<Rightarrow> entity_ref \<Rightarrow> entity_ref set \<Rightarrow> walk_state \<Rightarrow> bool" for w start where
  walk_invI:
  "\<lbrakk>seen = old \<union> fst ` set queue; start \<in> seen;
    \<And>n. n \<in> seen \<Longrightarrow> n \<in> hops w start (hop_count w start n) \<and> int (hop_count w start n) \<le> wk_levels w;
    distinct visited; wk_key w ` seen \<subseteq> set visited; set visited \<subseteq> wk_key w ` met w start;
    \<And>n. n \<in> met w start \<Longrightarrow> wk_key w n \<in> set visited \<Longrightarrow> wk_allowed w n \<Longrightarrow> n \<in> seen;
    \<And>n. n \<in> old \<Longrightarrow> int (hop_count w start n) < wk_levels w \<Longrightarrow> wk_key w ` set (wk_next w n) \<subseteq> set visited;
    \<And>x. x \<in> set queue \<Longrightarrow> snd x = int (hop_count w start (fst x));
    sorted (map snd queue); distinct (map fst queue); old \<inter> fst ` set queue = {};
    \<And>x. x \<in> set queue \<union> set hits \<Longrightarrow> queue \<noteq> [] \<Longrightarrow> snd x \<le> snd (hd queue) + 1;
    set hits = {(n, int (hop_count w start n)) | n. n \<in> seen \<and> n \<noteq> start \<and> wk_wanted w n};
    distinct hits; sorted (map snd hits)\<rbrakk>
   \<Longrightarrow> walk_inv w start old (visited, queue, hits)"

inductive_cases walk_inv_elim: "walk_inv w start old (visited, queue, hits)"

lemmas walk_invE = walk_inv_elim [consumes 1, case_names here]

section \<open>Steps\<close>

lemma admit_adds:
  assumes "admit w l ns (visited, queue, hits) = (False, (visited', queue', hits'))" "inj_on (wk_key w) (set ns)"
  shows "\<exists>fs. queue' = queue @ map (\<lambda>m. (m, l)) fs \<and> hits' = hits @ map (\<lambda>m. (m, l)) (filter (wk_wanted w) fs) \<and>
    set visited' = set visited \<union> wk_key w ` set ns \<and> (distinct visited \<longrightarrow> distinct visited') \<and> distinct fs \<and>
    set fs = {m \<in> set ns. wk_allowed w m \<and> wk_key w m \<notin> set visited}"
  using assms
proof (induction ns arbitrary: visited queue hits)
  case (Cons n ns)
  have b: "\<not> wk_budget w \<le> int (length visited)" and inj: "inj_on (wk_key w) (set ns)" using Cons.prems by (auto split: if_splits)
  consider "wk_key w n \<in> set visited" | "wk_key w n \<notin> set visited" "\<not> wk_allowed w n" | "wk_key w n \<notin> set visited" "wk_allowed w n" by blast
  then show ?case
  proof cases
    case 1
    with Cons.prems b have "admit w l ns (visited, queue, hits) = (False, (visited', queue', hits'))" by simp
    from Cons.IH [OF this inj] 1 show ?thesis by (elim exE, intro exI) auto
  next
    case 2
    with Cons.prems b have "admit w l ns (wk_key w n # visited, queue, hits) = (False, (visited', queue', hits'))" by simp
    from Cons.IH [OF this inj] 2 Cons.prems(2) show ?thesis by (elim exE, intro exI) (auto simp: inj_on_def)
  next
    case 3
    let ?hits = "if wk_wanted w n then hits @ [(n, l)] else hits"
    from 3 Cons.prems b have "admit w l ns (wk_key w n # visited, queue @ [(n, l)], ?hits) = (False, (visited', queue', hits'))" by simp
    from Cons.IH [OF this inj] obtain fs where f: "queue' = (queue @ [(n, l)]) @ map (\<lambda>m. (m, l)) fs"
      "hits' = ?hits @ map (\<lambda>m. (m, l)) (filter (wk_wanted w) fs)" "set visited' = set (wk_key w n # visited) \<union> wk_key w ` set ns"
      "distinct (wk_key w n # visited) \<longrightarrow> distinct visited'" "distinct fs"
      "set fs = {m \<in> set ns. wk_allowed w m \<and> wk_key w m \<notin> set (wk_key w n # visited)}" by blast
    have "set (n # fs) = {m \<in> set (n # ns). wk_allowed w m \<and> wk_key w m \<notin> set visited}"
      using f(6) 3 Cons.prems(2) by (auto simp: inj_on_def)
    moreover have "distinct (n # fs)" using f(5,6) by auto
    ultimately show ?thesis using f 3 by (intro exI [where x = "n # fs"]) auto
  qed
qed simp

lemma walk_start:
  assumes "0 \<le> wk_levels w" "keys_apart w start"
  shows "walk_inv w start {} ([wk_key w start], [(start, 0)], [])"
proof (rule walk_invI [OF refl])
  fix n
  assume "n \<in> met w start" "wk_key w n \<in> set [wk_key w start]" "wk_allowed w n"
  then show "n \<in> {} \<union> fst ` set [(start, 0)]"
    using assms(2) inj_onD [of "wk_key w" "met w start" n start] by (auto simp: keys_apart_def met_def)
qed (use assms in \<open>auto simp: met_def\<close>)

lemma walk_skip:
  assumes "walk_inv w start old (visited, (n, l) # queue, hits)" "wk_levels w \<le> l"
  shows "walk_inv w start (insert n old) (visited, queue, hits)"
  using assms(1)
proof (cases rule: walk_invE)
  case here
  show ?thesis
  proof (rule walk_invI [OF refl])
    fix x
    assume x: "x \<in> set queue \<union> set hits" "queue \<noteq> []"
    have "snd x \<le> l + 1" using here(12) [of x] here(8) [of "(n, l)"] here(13) x(1) by auto
    moreover have "l \<le> snd (hd queue)" using here(9) hd_in_set [OF x(2)] by simp
    ultimately show "snd x \<le> snd (hd queue) + 1" by simp
  next
    fix m
    assume m: "m \<in> insert n old" "int (hop_count w start m) < wk_levels w"
    then have "m \<noteq> n" using here(8) [of "(n, l)"] assms(2) by auto
    then show "wk_key w ` set (wk_next w m) \<subseteq> set visited" using m here(7) by blast
  qed (use here in auto)
qed

text \<open>Nodes nearer than the head of the queue were taken from it, and nodes as near were entered.\<close>

lemma nearer_is_old:
  assumes "walk_inv w start old (visited, (n, l) # queue, hits)" "l \<le> wk_levels w"
  shows "m \<in> hops w start d \<Longrightarrow> int d < l \<Longrightarrow> m \<in> old"
  using assms(1)
proof (cases rule: walk_invE)
  case here
  have q: "x \<notin> fst ` set ((n, l) # queue)" if "int (hop_count w start x) < l" for x
  proof
    assume "x \<in> fst ` set ((n, l) # queue)"
    then obtain k where k: "(x, k) \<in> set ((n, l) # queue)" by (metis imageE prod.collapse)
    then have "l \<le> k" using here(9) by auto
    with here(8) [OF k] that show False by simp
  qed
  show "m \<in> hops w start d \<Longrightarrow> int d < l \<Longrightarrow> m \<in> old"
  proof (induction d arbitrary: m)
    case 0
    then show ?case using q [of start] here(1) by auto
  next
    case (Suc d)
    then obtain p where p: "p \<in> hops w start d" "m \<in> set (wk_next w p)" "wk_allowed w m" by (auto simp: hops_Suc)
    have "p \<in> old" using Suc p(1) by simp
    then have "wk_key w m \<in> set visited" using here(7) [of p] hop_count_le [OF p(1)] p(2) Suc.prems(2) assms(2) by auto
    moreover have "m \<in> met w start" using hops_met [OF Suc.prems(1)] Suc.prems(2) assms(2) by simp
    ultimately have "m \<in> old \<union> fst ` set ((n, l) # queue)" using here(6) p(3) by blast
    moreover have "int (hop_count w start m) < l" using hop_count_le [OF Suc.prems(1)] Suc.prems(2) by simp
    ultimately show ?case using q [of m] by blast
  qed
qed

lemma as_near_is_seen:
  assumes inv: "walk_inv w start old (visited, (n, l) # queue, hits)" and l: "l \<le> wk_levels w"
    and m: "m \<in> hops w start d" "int d \<le> l"
  shows "m \<in> old \<union> fst ` set ((n, l) # queue)"
  using inv
proof (cases rule: walk_invE)
  case here
  show ?thesis
  proof (cases d)
    case 0
    then show ?thesis using m here(1) by auto
  next
    case (Suc e)
    then obtain p where p: "p \<in> hops w start e" "m \<in> set (wk_next w p)" "wk_allowed w m" using m(1) by (auto simp: hops_Suc)
    have "p \<in> old" using nearer_is_old [OF inv l p(1)] m(2) Suc by simp
    then have "wk_key w m \<in> set visited" using here(7) [of p] hop_count_le [OF p(1)] p(2) m(2) Suc l by auto
    moreover have "m \<in> met w start" using hops_met [OF m(1)] m(2) l by simp
    ultimately show ?thesis using here(6) p(3) by blast
  qed
qed

text \<open>One node is taken from the queue and its neighbours are entered.\<close>

lemma walk_advance:
  assumes inv: "walk_inv w start old (visited, (n, l) # queue, hits)" and l: "l < wk_levels w" and apart: "keys_apart w start"
    and adm: "admit w (l + 1) (wk_next w n) (visited, queue, hits) = (False, (visited', queue', hits'))"
  shows "walk_inv w start (insert n old) (visited', queue', hits')"
  using inv
proof (cases rule: walk_invE)
  case here
  have n: "n \<in> hops w start (hop_count w start n)" "l = int (hop_count w start n)" using here(2) [of n] here(8) [of "(n, l)"] by simp_all
  have met: "set (wk_next w n) \<subseteq> met w start" using n l by (auto simp: met_def intro!: exI [where x = n])
  have "inj_on (wk_key w) (set (wk_next w n))" using apart met unfolding keys_apart_def by (rule inj_on_subset)
  from admit_adds [OF adm this] obtain fs where f: "queue' = queue @ map (\<lambda>m. (m, l + 1)) fs"
    "hits' = hits @ map (\<lambda>m. (m, l + 1)) (filter (wk_wanted w) fs)" "set visited' = set visited \<union> wk_key w ` set (wk_next w n)"
    "distinct visited'" "distinct fs" "set fs = {m \<in> set (wk_next w n). wk_allowed w m \<and> wk_key w m \<notin> set visited}"
    using here(3) by blast
  let ?old = "old \<union> fst ` set ((n, l) # queue)"
  have fresh: "m \<in> hops w start (hop_count w start m)" "int (hop_count w start m) = l + 1" "m \<notin> ?old" "m \<noteq> start" if m: "m \<in> set fs" for m
  proof -
    have h: "m \<in> hops w start (Suc (hop_count w start n))" using m n(1) f(6) by (auto simp: hops_Suc)
    then show "m \<in> hops w start (hop_count w start m)" by (rule hop_count_hops)
    show o': "m \<notin> ?old" using m f(6) here(4) by blast
    then show "m \<noteq> start" using here(1) by blast
    have "\<not> int (hop_count w start m) \<le> l"
      using as_near_is_seen [OF inv _ hop_count_hops [OF h]] l o' by auto
    then show "int (hop_count w start m) = l + 1" using hop_count_le [OF h] n(2) by simp
  qed
  have seen: "insert n old \<union> fst ` set queue' = ?old \<union> set fs" by (auto simp: f(1) image_Un image_image)
  have lv: "l \<le> snd x" if "x \<in> set queue" for x using here(9) that by auto
  have up: "snd x \<le> l + 1" if "x \<in> set queue \<union> set hits" for x using here(12) [of x] here(8) [of "(n, l)"] here(13) that by auto
  show ?thesis
  proof (rule walk_invI [OF refl])
    show "start \<in> insert n old \<union> fst ` set queue'" unfolding seen using here(1) by blast
    show "m \<in> hops w start (hop_count w start m) \<and> int (hop_count w start m) \<le> wk_levels w"
      if "m \<in> insert n old \<union> fst ` set queue'" for m
    proof (cases "m \<in> set fs")
      case True
      then show ?thesis using fresh(1,2) l by simp
    next
      case False
      then have "m \<in> ?old" using that unfolding seen by blast
      then show ?thesis using here(2) [of m] by auto
    qed
    show "distinct visited'" by (rule f(4))
    show "wk_key w ` (insert n old \<union> fst ` set queue') \<subseteq> set visited'" unfolding seen f(3) using here(4) f(6) by blast
    show "set visited' \<subseteq> wk_key w ` met w start" unfolding f(3) using here(5) met by blast
    show "m \<in> insert n old \<union> fst ` set queue'" if m: "m \<in> met w start" "wk_key w m \<in> set visited'" "wk_allowed w m" for m
    proof (cases "wk_key w m \<in> set visited")
      case True
      then show ?thesis unfolding seen using here(6) m by blast
    next
      case False
      then obtain m' where "m' \<in> set (wk_next w n)" "wk_key w m = wk_key w m'" using m(2) f(3) by blast
      then have "m \<in> set (wk_next w n)" using apart met m(1) unfolding keys_apart_def by (metis inj_onD subset_iff)
      then show ?thesis unfolding seen f(6) using m(3) False by blast
    qed
    show "wk_key w ` set (wk_next w m) \<subseteq> set visited'" if "m \<in> insert n old" "int (hop_count w start m) < wk_levels w" for m
      using that here(7) [of m] unfolding f(3) by blast
    show "snd x = int (hop_count w start (fst x))" if "x \<in> set queue'" for x
      using that here(8) [of x] fresh(2) unfolding f(1) by auto
    show "sorted (map snd queue')" using here(9) up by (auto simp: f(1) sorted_append comp_def map_replicate_const)
    show "distinct (map fst queue')" using here(10) f(5) fresh(3) by (auto simp: f(1) comp_def)
    have "insert n old \<inter> set fs = {}" using fresh(3) by auto
    then show "insert n old \<inter> fst ` set queue' = {}" using here(10,11) by (auto simp: f(1) image_Un image_image)
    show "snd x \<le> snd (hd queue') + 1" if "x \<in> set queue' \<union> set hits'" "queue' \<noteq> []" for x
    proof -
      have "l \<le> snd y" if "y \<in> set queue'" for y using that lv [of y] unfolding f(1) by auto
      then have "l \<le> snd (hd queue')" using hd_in_set [OF that(2)] by blast
      moreover have "snd x \<le> l + 1" using that(1) up [of x] by (auto simp: f(1,2))
      ultimately show ?thesis by simp
    qed
    show "set hits' = {(m, int (hop_count w start m)) | m. m \<in> insert n old \<union> fst ` set queue' \<and> m \<noteq> start \<and> wk_wanted w m}"
      unfolding seen using fresh(2,4) by (auto simp: f(2) here(13))
    have "set hits \<inter> set (map (\<lambda>m. (m, l + 1)) (filter (wk_wanted w) fs)) = {}" using fresh(3) by (auto simp: here(13))
    then show "distinct hits'" using here(14) f(5) by (simp add: f(2) distinct_map inj_on_def)
    show "sorted (map snd hits')" using here(15) up by (auto simp: f(2) sorted_append comp_def map_replicate_const)
  qed
qed

section \<open>The result\<close>

lemma walk_loop_inv:
  "walk_loop w st = (False, st') \<Longrightarrow> walk_inv w start old st \<Longrightarrow> keys_apart w start \<Longrightarrow> \<exists>all. walk_inv w start all st' \<and> fst (snd st') = []"
proof (induction w st arbitrary: old rule: walk_loop.induct)
  case (1 w visited hits)
  then show ?case by auto
next
  case (2 w visited n l queue hits)
  show ?case
  proof (cases "wk_levels w \<le> l")
    case True
    then show ?thesis using 2(1) [OF True] walk_skip [OF 2(4) True] 2(3,5) by simp
  next
    case False
    obtain b v q h where a: "admit w (l + 1) (wk_next w n) (visited, queue, hits) = (b, (v, q, h))" by (metis prod_cases3 surj_pair)
    with 2(3) False have nb: "\<not> b" and run: "walk_loop w (v, q, h) = (False, st')" by (auto split: if_splits)
    have "walk_inv w start (insert n old) (v, q, h)" using walk_advance [OF 2(4) _ 2(5)] a nb False by simp
    then show ?thesis using 2(2) [OF False a [symmetric] nb run _ 2(5)] by blast
  qed
qed

text \<open>The nodes a walk can report: those within its levels, other than the start.\<close>

definition within_levels :: "walk \<Rightarrow> entity_ref \<Rightarrow> entity_ref set" where
  "within_levels w start = (\<Union>k \<le> nat (wk_levels w). hops w start k)"

lemma walk_finds:
  assumes "0 \<le> wk_levels w" "keys_apart w start"
    and "walk_loop w ([wk_key w start], [(start, 0)], []) = (False, (visited, queue, hits))"
  shows "set hits = {(n, int (hop_count w start n)) | n. n \<in> within_levels w start \<and> n \<noteq> start \<and> wk_wanted w n}"
    "distinct hits" "sorted (map snd hits)" "wk_key w ` within_levels w start \<subseteq> set visited"
proof -
  from walk_loop_inv [OF assms(3) walk_start [OF assms(1,2)] assms(2)] obtain all
    where inv: "walk_inv w start all (visited, [], hits)" and q: "queue = []" by auto
  from inv have "set hits = {(n, int (hop_count w start n)) | n. n \<in> within_levels w start \<and> n \<noteq> start \<and> wk_wanted w n} \<and>
    distinct hits \<and> sorted (map snd hits) \<and> wk_key w ` within_levels w start \<subseteq> set visited"
  proof (cases rule: walk_invE)
    case here
    have "n \<in> all" if "n \<in> hops w start k" "int k \<le> wk_levels w" for n k
      using that
    proof (induction k arbitrary: n)
      case 0
      then show ?case using here(1) by simp
    next
      case (Suc k)
      then obtain p where p: "p \<in> hops w start k" "n \<in> set (wk_next w p)" "wk_allowed w n" by (auto simp: hops_Suc)
      then have "p \<in> all" using Suc by simp
      then have "wk_key w n \<in> set visited" using here(7) [of p] hop_count_le [OF p(1)] p(2) Suc.prems(2) by auto
      then show ?case using here(6) [of n] hops_met [OF Suc.prems] p(3) by simp
    qed
    moreover have "\<exists>k. int k \<le> wk_levels w \<and> n \<in> hops w start k" if "n \<in> all" for n
      using here(2) [of n] that by auto
    ultimately have "all = within_levels w start"
      using assms(1) by (force simp: within_levels_def le_nat_iff)
    then show ?thesis using here(4,13-15) by simp
  qed
  then show "set hits = {(n, int (hop_count w start n)) | n. n \<in> within_levels w start \<and> n \<noteq> start \<and> wk_wanted w n}"
    "distinct hits" "sorted (map snd hits)" "wk_key w ` within_levels w start \<subseteq> set visited" by auto
qed

section \<open>The budget\<close>

text \<open>What is visited has been met, and the budget is exhausted only when as many keys were met.\<close>

lemma admit_visits:
  assumes "admit w l ns (visited, queue, hits) = (b, (visited', queue', hits'))" "distinct visited" "int (length visited) \<le> wk_budget w"
  shows "distinct visited' \<and> set visited' \<subseteq> set visited \<union> wk_key w ` set ns \<and> int (length visited') \<le> wk_budget w \<and>
    (b \<longrightarrow> int (length visited') = wk_budget w) \<and> set queue' \<subseteq> set queue \<union> {n \<in> set ns. wk_allowed w n} \<times> {l}"
  using assms
proof (induction ns arbitrary: visited queue hits)
  case (Cons n ns)
  show ?case
  proof (cases "wk_budget w \<le> int (length visited) \<or> wk_key w n \<in> set visited")
    case True
    then show ?thesis using Cons.prems Cons.IH [of visited queue hits] by (auto split: if_splits)
  next
    case False
    let ?hits = "if wk_wanted w n then hits @ [(n, l)] else hits"
    from False have d: "distinct (wk_key w n # visited)" "int (length (wk_key w n # visited)) \<le> wk_budget w" using Cons.prems(2) by auto
    show ?thesis
    proof (cases "wk_allowed w n")
      case True
      then have "admit w l ns (wk_key w n # visited, queue @ [(n, l)], ?hits) = (b, (visited', queue', hits'))"
        using Cons.prems(1) False by simp
      from Cons.IH [OF this d] True show ?thesis by auto
    next
      case n: False
      then have "admit w l ns (wk_key w n # visited, queue, hits) = (b, (visited', queue', hits'))"
        using Cons.prems(1) False by simp
      from Cons.IH [OF this d] show ?thesis by auto
    qed
  qed
qed simp

definition queued_ok :: "walk \<Rightarrow> entity_ref \<Rightarrow> node list \<Rightarrow> bool" where
  "queued_ok w start queue \<longleftrightarrow> (\<forall>(n, l) \<in> set queue. 0 \<le> l \<and> n \<in> hops w start (nat l))"

lemma walk_loop_visits:
  assumes "walk_loop w (visited, queue, hits) = (b, (visited', queue', hits'))" "distinct visited" "int (length visited) \<le> wk_budget w"
    "set visited \<subseteq> wk_key w ` met w start" "queued_ok w start queue"
  shows "distinct visited' \<and> int (length visited') \<le> wk_budget w \<and> set visited' \<subseteq> wk_key w ` met w start \<and> (b \<longrightarrow> int (length visited') = wk_budget w)"
  using assms
proof (induction w "(visited, queue, hits)" arbitrary: visited queue hits rule: walk_loop.induct)
  case (2 w visited n l queue hits)
  show ?case
  proof (cases "wk_levels w \<le> l")
    case True
    then show ?thesis using 2(1) [OF True] 2(3-7) by (simp add: queued_ok_def)
  next
    case False
    obtain x v q h where a: "admit w (l + 1) (wk_next w n) (visited, queue, hits) = (x, (v, q, h))" by (metis prod_cases3 surj_pair)
    note visits = admit_visits [OF a 2(4,5)]
    have n: "0 \<le> l" "n \<in> hops w start (nat l)" using 2(7) by (auto simp: queued_ok_def)
    then have "set (wk_next w n) \<subseteq> met w start" using False by (auto simp: met_def intro!: exI [where x = "nat l"])
    with visits 2(6) have v: "set v \<subseteq> wk_key w ` met w start" by blast
    have "m \<in> hops w start (nat (l + 1))" if "m \<in> set (wk_next w n)" "wk_allowed w m" for m
      using that n by (auto simp: nat_add_distrib hops_Suc)
    with visits 2(7) n(1) have q: "queued_ok w start q" unfolding queued_ok_def by fastforce
    show ?thesis
    proof (cases x)
      case True
      then show ?thesis using 2(3) False a visits v by auto
    next
      case nx: False
      then have "walk_loop w (v, q, h) = (b, (visited', queue', hits'))" using 2(3) False a by simp
      from 2(2) [OF False a [symmetric] nx this _ _ v q] show ?thesis using visits by blast
    qed
  qed
qed simp

lemma walk_exhausted:
  assumes "walk_loop w ([wk_key w start], [(start, 0)], []) = (b, (visited, queue, hits))" "1 \<le> wk_budget w"
  shows "int (length visited) \<le> wk_budget w \<and> (b \<longrightarrow> int (length visited) = wk_budget w \<and> (finite (met w start) \<longrightarrow> wk_budget w \<le> int (card (met w start))))"
proof -
  have "distinct visited \<and> int (length visited) \<le> wk_budget w \<and> set visited \<subseteq> wk_key w ` met w start \<and> (b \<longrightarrow> int (length visited) = wk_budget w)"
    by (rule walk_loop_visits [OF assms(1)]) (use assms(2) in \<open>auto simp: met_def queued_ok_def\<close>)
  moreover have "card (set visited) \<le> card (met w start)" if "finite (met w start)" "set visited \<subseteq> wk_key w ` met w start"
    using that card_mono [of "wk_key w ` met w start" "set visited"] card_image_le [of "met w start" "wk_key w"] by simp
  ultimately show ?thesis using distinct_card [of visited] by auto
qed

end
