(* ===== verification/Requests.thy ===== *)
theory Requests
  imports HttpUtil
begin

text \<open>
  Decoding of request bodies that several handlers share: a body decoded into a Go map, an object among
  its members, and a body decoded into a struct whose fields are strings.
\<close>

definition body_map :: "raw_message \<Rightarrow> members option" where
  "body_map raw = (case raw of Some JNull \<Rightarrow> Some [] | Some (JObj kvs) \<Rightarrow> Some kvs | _ \<Rightarrow> None)"

definition object_of :: "json option \<Rightarrow> members option" where
  "object_of v = (case v of Some (JObj kvs) \<Rightarrow> Some kvs | _ \<Rightarrow> None)"

definition decode_strings :: "str list \<Rightarrow> raw_message \<Rightarrow> str list option" where
  "decode_strings names raw =
     (case body_map raw of
        None \<Rightarrow> None
      | Some kvs \<Rightarrow> those (map (\<lambda>f. dec_field dec_string [] (struct_vals f kvs)) names))"

end
