(* ===== verification/EntityQuery.thy ===== *)
theory EntityQuery
  imports GraphWalk TelemetryReader Requests
begin

text \<open>
  The entity queries of the widgets (internal/entityquery/entityquery.go): the filters that select
  entities, the relations query, the latest values, and the endpoints find and find/keys. Devices,
  assets and the topology are the database of Topology, the other tables are rows of \<open>entity_row\<close>, the
  attributes are those of Attributes and the telemetry readers those of TelemetryReader. A map of the
  answer is an association list. \<open>uuid\<close> is how Postgres reads a UUID literal; text is ordered and
  lower-cased bytewise; of several attributes written at the same time the first row is taken. A failing
  or missing database is not modelled.
\<close>

section \<open>The database\<close>

record entity_row =
  er_kind :: str
  er_id :: str
  er_tenant :: "str option"
  er_created :: int
  er_name :: "str option"
  er_type :: "str option"
  er_first :: "str option"
  er_last :: "str option"

text \<open>\<open>qd_customers\<close> holds the customer_id column of an entity, by kind and id.\<close>

record query_db =
  qd_topo :: topo_db
  qd_rows :: "entity_row list"
  qd_customers :: "(str \<times> str, str) gomap"
  qd_attrs :: attr_db
  qd_reader :: reader

text \<open>SQL LIKE with its wildcards and the backslash escape.\<close>

fun sql_like :: "str \<Rightarrow> str \<Rightarrow> bool" where
  "sql_like [] s = (s = [])"
| "sql_like (p # ps) s =
     (if p = CHR ''%'' then sql_like ps s \<or> (case s of [] \<Rightarrow> False | _ # t \<Rightarrow> sql_like (p # ps) t)
      else if p = CHR ''_'' then (case s of [] \<Rightarrow> False | _ # t \<Rightarrow> sql_like ps t)
      else if p = CHR 0x5C then (case (ps, s) of (q # qs, c # t) \<Rightarrow> c = q \<and> sql_like qs t | _ \<Rightarrow> False)
      else (case s of [] \<Rightarrow> False | c # t \<Rightarrow> c = p \<and> sql_like ps t))"

definition name_row :: "query_db \<Rightarrow> str \<Rightarrow> str \<Rightarrow> entity_row option" where
  "name_row db kind u = find (\<lambda>r. er_kind r = kind \<and> er_id r = u) (qd_rows db)"

section \<open>Resolving one entity\<close>

type_synonym entity_map = "(str, json) gomap"

definition labelled :: "str \<Rightarrow> str \<Rightarrow> entity \<Rightarrow> str \<Rightarrow> entity_map" where
  "labelled kind ident e ty =
     [(''id'', JStr ident), (''entityType'', JStr kind), (''createdTime'', JInt (en_created e)), (''name'', JStr (en_name e)), (''type'', JStr ty)] @
     (case en_label e of None \<Rightarrow> [] | Some l \<Rightarrow> [(''label'', JStr l)])"

definition user_name :: "entity_row \<Rightarrow> str \<Rightarrow> str" where
  "user_name r email =
     (let part = (\<lambda>s. trim_space (case s of None \<Rightarrow> [] | Some s \<Rightarrow> s)); name = trim_space (part (er_first r) @ '' '' @ part (er_last r))
      in if name = [] then email else name)"

text \<open>A NULL in a column read into a string is a failure.\<close>

definition resolve_entity :: "(str \<Rightarrow> str option) \<Rightarrow> query_db \<Rightarrow> str \<Rightarrow> str \<Rightarrow> str \<Rightarrow> entity_map option" where
  "resolve_entity uuid db tenant kind ident =
     (case uuid ident of
        None \<Rightarrow> None
      | Some u \<Rightarrow>
          if kind = ''DEVICE'' \<or> kind = ''ASSET''
          then (case find (\<lambda>e. en_id e = u \<and> en_tenant e = uuid tenant \<and> uuid tenant \<noteq> None) (entity_table kind (tp_twins (qd_topo db))) of
                  None \<Rightarrow> None
                | Some e \<Rightarrow> map_option (labelled kind ident e) (en_type e))
          else if kind = ''TENANT'' \<or> kind = ''DASHBOARD'' \<or> kind = ''CUSTOMER'' \<or> kind = ''USER'' \<or> kind = ''ENTITY_VIEW''
          then (case name_row db kind u of
                  None \<Rightarrow> None
                | Some r \<Rightarrow>
                    if kind \<noteq> ''TENANT'' \<and> (er_tenant r \<noteq> uuid tenant \<or> uuid tenant = None) then None
                    else (case er_name r of
                            None \<Rightarrow> None
                          | Some name \<Rightarrow>
                              (let base = [(''id'', JStr ident), (''entityType'', JStr kind), (''createdTime'', JInt (er_created r))]
                               in if kind = ''USER'' then Some (base @ [(''name'', JStr (user_name r name)), (''email'', JStr name)])
                                  else if kind = ''ENTITY_VIEW'' then map_option (\<lambda>ty. base @ [(''name'', JStr name), (''type'', JStr ty)]) (er_type r)
                                  else Some (base @ [(''name'', JStr name)]))))
          else None)"

definition entity_ref_of :: "json option \<Rightarrow> str \<Rightarrow> str \<times> str" where
  "entity_ref_of v fallback =
     (case v of
        Some (JStr s) \<Rightarrow> (fallback, s)
      | Some (JObj kvs) \<Rightarrow>
          (let own = as_string (obj_get kvs ''entityType''); etype = (if own = [] then fallback else own)
           in case obj_get kvs ''id'' of
                Some (JStr s) \<Rightarrow> (etype, s)
              | Some (JObj ids) \<Rightarrow>
                  (let nested = as_string (obj_get ids ''entityType'')
                   in (if nested = [] then etype else nested, as_string (obj_get ids ''id'')))
              | _ \<Rightarrow> (fallback, []))
      | _ \<Rightarrow> (fallback, []))"

section \<open>Filters\<close>

definition single_entity_filter :: "(str \<Rightarrow> str option) \<Rightarrow> query_db \<Rightarrow> str \<Rightarrow> members \<Rightarrow> entity_map list" where
  "single_entity_filter uuid db tenant flt =
     (case obj_get flt ''singleEntity'' of
        Some (JObj kvs) \<Rightarrow>
          (case entity_ref_of (Some (JObj kvs)) [] of
             (kind, ident) \<Rightarrow>
               if kind = [] \<or> ident = [] then []
               else (case resolve_entity uuid db tenant kind ident of None \<Rightarrow> [] | Some e \<Rightarrow> [e]))
      | _ \<Rightarrow> [])"

definition entity_list_filter :: "(str \<Rightarrow> str option) \<Rightarrow> query_db \<Rightarrow> str \<Rightarrow> members \<Rightarrow> entity_map list" where
  "entity_list_filter uuid db tenant flt =
     concat (map (\<lambda>v. case entity_ref_of (Some v) (as_string (obj_get flt ''entityType'')) of
         (kind, ident) \<Rightarrow>
           if ident = [] then []
           else (case resolve_entity uuid db tenant kind ident of None \<Rightarrow> [] | Some e \<Rightarrow> [e]))
       (take (nat max_page_size) (as_array (obj_get flt ''entityList''))))"

definition json_int :: "json option \<Rightarrow> int option" where
  "json_int v = (case v of Some (JInt n) \<Rightarrow> Some n | Some (JFrac r) \<Rightarrow> Some (if r < 0 then - \<lfloor>- r\<rfloor> else \<lfloor>r\<rfloor>) | _ \<Rightarrow> None)"

definition link_page_size :: "members option \<Rightarrow> nat" where
  "link_page_size link =
     nat (clamp_page_size (case link of None \<Rightarrow> 100 | Some l \<Rightarrow> (case json_int (obj_get l ''pageSize'') of Some n \<Rightarrow> n | None \<Rightarrow> 100)) 100)"

definition text_items :: "json option \<Rightarrow> str list" where
  "text_items v = filter (\<lambda>s. s \<noteq> []) (map (\<lambda>x. as_string (Some x)) (as_array v))"

definition device_types_of :: "members \<Rightarrow> str list" where
  "device_types_of flt =
     (let many = text_items (obj_get flt ''deviceTypes''); one = as_string (obj_get flt ''deviceType''); sub = as_string (obj_get flt ''entitySubtype'')
      in if many \<noteq> [] then many else if one \<noteq> [] then [one] else if sub \<noteq> [] then [sub] else [])"

text \<open>The device and asset pages; a NULL type stops the scan of a row, which leaves its label empty.\<close>

definition labelled_page ::
  "(str \<Rightarrow> str option) \<Rightarrow> query_db \<Rightarrow> str \<Rightarrow> str \<Rightarrow> (entity \<Rightarrow> bool) \<Rightarrow> nat \<Rightarrow> entity_map list" where
  "labelled_page uuid db tenant kind p n =
     (case uuid tenant of
        None \<Rightarrow> []
      | Some t \<Rightarrow>
          map (\<lambda>e. [(''id'', JStr (en_id e)), (''entityType'', JStr kind), (''createdTime'', JInt (en_created e)), (''name'', JStr (en_name e)),
                    (''type'', JStr (case en_type e of None \<Rightarrow> [] | Some ty \<Rightarrow> ty)),
                    (''label'', JStr (if en_type e = None then [] else case en_label e of None \<Rightarrow> [] | Some l \<Rightarrow> l))])
            (take n (sort_key en_name (filter (\<lambda>e. en_tenant e = Some t \<and> p e) (entity_table kind (tp_twins (qd_topo db)))))))"

definition device_type_filter :: "(str \<Rightarrow> str option) \<Rightarrow> query_db \<Rightarrow> str \<Rightarrow> members \<Rightarrow> members option \<Rightarrow> entity_map list" where
  "device_type_filter uuid db tenant flt link =
     (let types = device_types_of flt; text = (case link of None \<Rightarrow> [] | Some l \<Rightarrow> as_string (obj_get l ''textSearch''))
      in labelled_page uuid db tenant ''DEVICE''
           (\<lambda>e. (types = [] \<or> (\<exists>ty \<in> set types. en_type e = Some ty)) \<and>
                (text = [] \<or> sql_like (''%'' @ to_lower text @ ''%'') (to_lower (en_name e))))
           (link_page_size link))"

definition asset_type_filter :: "(str \<Rightarrow> str option) \<Rightarrow> query_db \<Rightarrow> str \<Rightarrow> members \<Rightarrow> members option \<Rightarrow> entity_map list" where
  "asset_type_filter uuid db tenant flt link =
     (let ty = as_string (obj_get flt ''assetType'')
      in labelled_page uuid db tenant ''ASSET'' (\<lambda>e. ty = [] \<or> en_type e = Some ty) (link_page_size link))"

text \<open>The filters on the other tables, and on names; NULL names sort last.\<close>

definition sorted_rows :: "entity_row list \<Rightarrow> entity_row list" where
  "sorted_rows = sort_key (\<lambda>r. (er_name r = None, case er_name r of None \<Rightarrow> [] | Some s \<Rightarrow> s))"

definition name_starts :: "str \<Rightarrow> str option \<Rightarrow> bool" where
  "name_starts text name \<longleftrightarrow> text = [] \<or> (case name of None \<Rightarrow> False | Some s \<Rightarrow> sql_like (to_lower text @ ''%'') (to_lower s))"

definition kind_rows :: "(str \<Rightarrow> str option) \<Rightarrow> query_db \<Rightarrow> str \<Rightarrow> str \<Rightarrow> (entity_row \<Rightarrow> bool) \<Rightarrow> nat \<Rightarrow> entity_row list" where
  "kind_rows uuid db tenant kind p n =
     (case uuid tenant of
        None \<Rightarrow> []
      | Some t \<Rightarrow> take n (sorted_rows (filter (\<lambda>r. er_kind r = kind \<and> er_tenant r = Some t \<and> p r) (qd_rows db))))"

definition entity_view_filter :: "(str \<Rightarrow> str option) \<Rightarrow> query_db \<Rightarrow> str \<Rightarrow> members \<Rightarrow> members option \<Rightarrow> entity_map list" where
  "entity_view_filter uuid db tenant flt link =
     (let one = as_string (obj_get flt ''entityViewType''); ty = (if one = [] then as_string (obj_get flt ''entityViewTypes'') else one);
          rows = kind_rows uuid db tenant ''ENTITY_VIEW'' (\<lambda>r. (ty = [] \<or> er_type r = Some ty) \<and> name_starts (as_string (obj_get flt ''entityViewNameFilter'')) (er_name r))
                   (link_page_size link)
      in concat (map (\<lambda>r. case (er_name r, er_type r) of
             (Some name, Some ty) \<Rightarrow>
               [[(''id'', JStr (er_id r)), (''entityType'', JStr ''ENTITY_VIEW''), (''createdTime'', JInt (er_created r)), (''name'', JStr name), (''type'', JStr ty)]]
           | _ \<Rightarrow> []) rows))"

definition entity_name_kinds :: "str list" where
  "entity_name_kinds = [''DEVICE'', ''ASSET'', ''ENTITY_VIEW'', ''DASHBOARD'', ''CUSTOMER'', ''USER'']"

definition entity_name_table :: "str \<Rightarrow> str option" where
  "entity_name_table etype = (let k = to_upper (trim_space etype) in if k \<in> set entity_name_kinds then Some k else None)"

definition named_map :: "str \<Rightarrow> str \<Rightarrow> int \<Rightarrow> str \<Rightarrow> entity_map" where
  "named_map kind ident created name = [(''id'', JStr ident), (''entityType'', JStr kind), (''createdTime'', JInt created), (''name'', JStr name)]"

definition entity_name_filter :: "(str \<Rightarrow> str option) \<Rightarrow> query_db \<Rightarrow> str \<Rightarrow> members \<Rightarrow> members option \<Rightarrow> entity_map list" where
  "entity_name_filter uuid db tenant flt link =
     (let text = as_string (obj_get flt ''entityNameFilter''); n = link_page_size link
      in case entity_name_table (as_string (obj_get flt ''entityType'')) of
           None \<Rightarrow> []
         | Some kind \<Rightarrow>
             if kind = ''DEVICE'' \<or> kind = ''ASSET''
             then (case uuid tenant of
                     None \<Rightarrow> []
                   | Some t \<Rightarrow>
                       map (\<lambda>e. named_map kind (en_id e) (en_created e) (en_name e))
                         (take n (sort_key en_name (filter (\<lambda>e. en_tenant e = Some t \<and> name_starts text (Some (en_name e)))
                            (entity_table kind (tp_twins (qd_topo db)))))))
             else concat (map (\<lambda>r. case er_name r of None \<Rightarrow> [] | Some name \<Rightarrow> [named_map kind (er_id r) (er_created r) name])
                    (kind_rows uuid db tenant kind (\<lambda>r. name_starts text (er_name r)) n)))"

definition search_target :: "str \<Rightarrow> (str \<times> str) option" where
  "search_target filter_type = map_of
     [(''deviceSearchQuery'', (''DEVICE'', ''deviceTypes'')), (''assetSearchQuery'', (''ASSET'', ''assetTypes'')),
      (''entityViewSearchQuery'', (''ENTITY_VIEW'', ''entityViewTypes''))] filter_type"

definition search_direction :: "str \<Rightarrow> str" where
  "search_direction d = (if to_upper (trim_space d) = ''TO'' then ''TO'' else ''FROM'')"

definition search_query_filter :: "(str \<Rightarrow> str option) \<Rightarrow> query_db \<Rightarrow> str \<Rightarrow> str \<Rightarrow> members \<Rightarrow> entity_map list" where
  "search_query_filter uuid db tenant filter_type flt =
     (case search_target filter_type of
        None \<Rightarrow> []
      | Some (kind, subtypes) \<Rightarrow>
          (case entity_ref_of (obj_get flt ''rootEntity'') [] of
             (root_type, root_id) \<Rightarrow>
               if root_type = [] \<or> root_id = [] then []
               else (let one = as_string (obj_get flt ''relationType'');
                         types = (if one = [] then [] else [one]) @ text_items (obj_get flt ''relationTypes'');
                         near = neighbors_tenant (qd_topo db) tenant \<lparr>ref_type = to_upper (trim_space root_type), ref_id = root_id\<rparr>
                                  (search_direction (as_string (obj_get flt ''direction''))) types;
                         want = text_items (obj_get flt subtypes)
                     in concat (map (\<lambda>nb. if \<not> equal_fold (ref_type nb) kind then []
                          else (case resolve_entity uuid db tenant kind (ref_id nb) of
                                  None \<Rightarrow> []
                                | Some e \<Rightarrow> if want \<noteq> [] \<and> as_string (map_of e ''type'') \<notin> set want then [] else [e])) near))))"

definition row_tenant_of :: "query_db \<Rightarrow> str \<Rightarrow> str \<Rightarrow> str option" where
  "row_tenant_of db kind u =
     (if kind = ''DEVICE'' \<or> kind = ''ASSET''
      then Option.bind (find (\<lambda>e. en_id e = u) (entity_table kind (tp_twins (qd_topo db)))) en_tenant
      else Option.bind (name_row db kind u) er_tenant)"

definition no_owner_prefix :: str where "no_owner_prefix = ''13814000-1dd2-11b2''"

definition owner_customer :: "(str \<Rightarrow> str option) \<Rightarrow> query_db \<Rightarrow> str \<Rightarrow> str \<Rightarrow> str \<Rightarrow> str option" where
  "owner_customer uuid db tenant kind ident =
     (case (uuid ident, uuid tenant) of
        (Some u, Some t) \<Rightarrow> if row_tenant_of db kind u = Some t then map_of (qd_customers db) (kind, u) else None
      | _ \<Rightarrow> None)"

definition state_owner_filter :: "(str \<Rightarrow> str option) \<Rightarrow> query_db \<Rightarrow> str \<Rightarrow> members \<Rightarrow> entity_map list" where
  "state_owner_filter uuid db tenant flt =
     (let found = (\<lambda>kind ident. case resolve_entity uuid db tenant kind ident of None \<Rightarrow> [] | Some e \<Rightarrow> [e]);
          (etype, ident) = (case entity_ref_of (obj_get flt ''singleEntity'') [] of
             (t, i) \<Rightarrow> if t = [] \<or> i = [] then entity_ref_of (Some (JObj flt)) [] else (t, i))
      in case entity_name_table etype of
           None \<Rightarrow> []
         | Some kind \<Rightarrow>
             if ident = [] then []
             else if kind = ''CUSTOMER'' then found ''CUSTOMER'' ident
             else (case (if kind = ''DASHBOARD'' then None else owner_customer uuid db tenant kind ident) of
                     Some c \<Rightarrow>
                       (if c \<noteq> [] \<and> \<not> has_prefix c no_owner_prefix \<and> found ''CUSTOMER'' c \<noteq> [] then found ''CUSTOMER'' c
                        else found ''TENANT'' tenant)
                   | None \<Rightarrow> found ''TENANT'' tenant))"

definition usage_state_filter :: "(str \<Rightarrow> str option) \<Rightarrow> query_db \<Rightarrow> str \<Rightarrow> entity_map list" where
  "usage_state_filter uuid db tenant =
     (if tenant = [] then []
      else (case (case uuid tenant of None \<Rightarrow> None
                  | Some t \<Rightarrow> find (\<lambda>r. er_kind r = ''API_USAGE_STATE'' \<and> er_tenant r = Some t) (qd_rows db)) of
              None \<Rightarrow> []
            | Some r \<Rightarrow> [[(''id'', JStr (er_id r)), (''entityType'', JStr ''API_USAGE_STATE''), (''createdTime'', JInt (er_created r)),
                         (''name'', JStr ''Tenant''), (''label'', JStr []), (''type'', JStr [])]]))"

section \<open>Latest values\<close>

definition cell_json :: "attr_cell \<Rightarrow> json" where
  "cell_json c =
     (case ac_bool c of Some b \<Rightarrow> JBool b | None \<Rightarrow>
      (case ac_str c of Some s \<Rightarrow> JStr s | None \<Rightarrow>
       (case ac_long c of Some n \<Rightarrow> JInt n | None \<Rightarrow>
        (case ac_dbl c of Some r \<Rightarrow> number_json r | None \<Rightarrow>
         (case ac_json c of Some s \<Rightarrow> JStr s | None \<Rightarrow> JStr [])))))"

text \<open>The attribute_type a requested type stands for; \<open>None\<close> is any.\<close>

definition attribute_ordinal :: "str \<Rightarrow> nat option" where
  "attribute_ordinal t = (if t = ''SERVER_ATTRIBUTE'' then Some 2 else if t = ''SHARED_ATTRIBUTE'' then Some 1 else if t = ''ATTRIBUTE'' then None else Some 0)"

definition fetch_latest_attribute :: "(str \<Rightarrow> str option) \<Rightarrow> query_db \<Rightarrow> str \<Rightarrow> str \<Rightarrow> str \<Rightarrow> int \<times> json" where
  "fetch_latest_attribute uuid db ident key t =
     (case (case uuid ident of
              None \<Rightarrow> []
            | Some u \<Rightarrow> sort_key (\<lambda>(k, ord, c). - ac_ts c)
                (filter (\<lambda>(k, ord, c). k = key \<and> (case attribute_ordinal t of None \<Rightarrow> True | Some n \<Rightarrow> ord = n)) (joined_rows (qd_attrs db) u))) of
        [] \<Rightarrow> (0, JStr [])
      | (k, ord, c) # _ \<Rightarrow> (ac_ts c, cell_json c))"

definition latest_from_postgres :: "(str \<Rightarrow> str option) \<Rightarrow> reader \<Rightarrow> str \<Rightarrow> str \<Rightarrow> (int \<times> json) option" where
  "latest_from_postgres uuid rd ident key =
     (if rd_tables rd = None \<or> \<not> fits_column 255 key then None
      else (case uuid ident of
              None \<Rightarrow> None
            | Some u \<Rightarrow>
                (case sort_key (\<lambda>(e, k, ts, c). - ts) (filter (\<lambda>(e, k, ts, c). e = u \<and> k = key) (rd_series rd)) of
                   [] \<Rightarrow> None
                 | (e, k, ts, c) # _ \<Rightarrow> Some (ts, cell_json (c\<lparr>ac_json := None\<rparr>)))))"

definition fetch_latest_timeseries :: "codec \<Rightarrow> (str \<Rightarrow> str option) \<Rightarrow> query_db \<Rightarrow> str \<Rightarrow> str \<Rightarrow> str \<Rightarrow> str \<Rightarrow> int \<times> json" where
  "fetch_latest_timeseries co uuid db tenant kind ident key =
     (let rd = qd_reader db; or_blank = (\<lambda>p. case p of None \<Rightarrow> (0, JStr []) | Some x \<Rightarrow> x)
      in case (case rd_twin rd of
                 None \<Rightarrow> None
               | Some store \<Rightarrow>
                   if tenant = [] then None
                   else (case tw_latest store tenant kind ident [key] of TwinFound vs \<Rightarrow> map_of vs key | _ \<Rightarrow> None)) of
           Some v \<Rightarrow> (tv_ts v, tv_value v)
         | None \<Rightarrow>
             if nats_authoritative rd kind then or_blank (device_kv_latest co rd tenant ident key False)
             else if usage_read_backend rd = ''greptime'' \<and> rd_tsdb rd \<noteq> None \<and> \<not> equal_fold kind ''DEVICE''
             then or_blank (entity_kv_latest_row co rd kind ident tenant key False)
             else or_blank (latest_from_postgres uuid rd ident key))"

section \<open>Items of the answer\<close>

type_synonym latest_map = "(str, (str, int \<times> json) gomap) gomap"

record query_item =
  qi_kind :: str
  qi_id :: str
  qi_level :: "int option"
  qi_latest :: "latest_map option"

definition channel_of :: "latest_map \<Rightarrow> str \<Rightarrow> (str, int \<times> json) gomap" where
  "channel_of m t = (case map_of m t of None \<Rightarrow> [] | Some c \<Rightarrow> c)"

definition put_latest :: "str \<Rightarrow> str \<Rightarrow> int \<times> json \<Rightarrow> latest_map \<Rightarrow> latest_map" where
  "put_latest t k v m = AList.update t (AList.update k v (channel_of m t)) m"

definition spec_type :: "json \<Rightarrow> str" where "spec_type v = as_string (obj_get (as_object (Some v)) ''type'')"
definition spec_key :: "json \<Rightarrow> str" where "spec_key v = as_string (obj_get (as_object (Some v)) ''key'')"

definition or_null :: "json option \<Rightarrow> json" where "or_null v = (case v of None \<Rightarrow> JNull | Some x \<Rightarrow> x)"

definition created_of :: "entity_map \<Rightarrow> int" where
  "created_of e = (case map_of e ''createdTime'' of Some (JInt n) \<Rightarrow> n | _ \<Rightarrow> 0)"

definition put_field :: "entity_map \<Rightarrow> json \<Rightarrow> latest_map \<Rightarrow> latest_map" where
  "put_field e f m =
     (if spec_type f = ''ENTITY_FIELD'' then put_latest ''ENTITY_FIELD'' (spec_key f) (created_of e, or_null (map_of e (spec_key f))) m else m)"

definition attribute_types :: "str list" where
  "attribute_types = [''ATTRIBUTE'', ''SERVER_ATTRIBUTE'', ''CLIENT_ATTRIBUTE'', ''SHARED_ATTRIBUTE'']"

definition put_value :: "codec \<Rightarrow> (str \<Rightarrow> str option) \<Rightarrow> query_db \<Rightarrow> str \<Rightarrow> str \<Rightarrow> str \<Rightarrow> json \<Rightarrow> latest_map \<Rightarrow> latest_map" where
  "put_value co uuid db tenant kind ident lv m =
     (let t = spec_type lv; k = spec_key lv
      in if t \<in> set attribute_types then put_latest t k (fetch_latest_attribute uuid db ident k t) m
         else if t = ''TIME_SERIES'' then put_latest t k (fetch_latest_timeseries co uuid db tenant kind ident k) m
         else AList.update t (channel_of m t) m)"

definition entity_item :: "codec \<Rightarrow> (str \<Rightarrow> str option) \<Rightarrow> query_db \<Rightarrow> str \<Rightarrow> json list \<Rightarrow> json list \<Rightarrow> entity_map \<Rightarrow> query_item" where
  "entity_item co uuid db tenant specs values e =
     (let kind = as_string (map_of e ''entityType''); ident = as_string (map_of e ''id'');
          base = (if specs = [] then None else Some (fold (put_field e) specs []))
      in \<lparr>qi_kind = kind, qi_id = ident, qi_level = None,
          qi_latest = (if values = [] then base
                       else Some (fold (put_value co uuid db tenant kind ident) values (case base of None \<Rightarrow> [] | Some m \<Rightarrow> m)))\<rparr>)"

section \<open>The relations query\<close>

definition relations_walk :: "topo_db \<Rightarrow> str \<Rightarrow> str \<Rightarrow> str list \<Rightarrow> str list \<Rightarrow> int \<Rightarrow> walk" where
  "relations_walk db tenant direction types kinds levels =
     \<lparr>wk_budget = default_expand_max_nodes, wk_key = node_text, wk_allowed = (\<lambda>_. True),
      wk_wanted = (\<lambda>n. kinds = [] \<or> ref_type n \<in> set kinds),
      wk_next = (\<lambda>n. neighbors_tenant db tenant n direction types), wk_levels = levels\<rparr>"

text \<open>The nodes found with their levels; \<open>None\<close> when the budget is exceeded.\<close>

definition run_walk :: "walk \<Rightarrow> entity_ref \<Rightarrow> node list option" where
  "run_walk w start =
     (case walk_loop w ([wk_key w start], [(start, 0)], []) of (exhausted, _, _, hits) \<Rightarrow> if exhausted then None else Some hits)"

definition relation_item ::
  "(str \<Rightarrow> str option) \<Rightarrow> query_db \<Rightarrow> str \<Rightarrow> json list \<Rightarrow> str list \<Rightarrow> node \<Rightarrow> query_item list" where
  "relation_item uuid db tenant specs attr_keys hit =
     (case hit of (n, l) \<Rightarrow>
        (case resolve_entity uuid db tenant (ref_type n) (ref_id n) of
           None \<Rightarrow> []
         | Some e \<Rightarrow>
             (let m = fold (put_field e) specs [];
                  m' = fold (\<lambda>k. put_latest ''ATTRIBUTE'' k (fetch_latest_attribute uuid db (ref_id n) k ''SERVER_SCOPE'')) attr_keys m
              in [\<lparr>qi_kind = ref_type n, qi_id = ref_id n, qi_level = Some l, qi_latest = Some m'\<rparr>])))"

definition relation_level :: "members \<Rightarrow> int" where
  "relation_level flt = max 1 (case json_int (obj_get flt ''maxLevel'') of None \<Rightarrow> 1 | Some n \<Rightarrow> n)"

definition relation_types_of :: "members \<Rightarrow> str list" where
  "relation_types_of flt = (if as_array (obj_get flt ''relationTypes'') = [] then [''Contains''] else text_items (obj_get flt ''relationTypes''))"

text \<open>The tenant a caller may walk from the root in.\<close>

definition walk_tenant :: "query_db \<Rightarrow> members \<Rightarrow> entity_ref \<Rightarrow> http_error + str" where
  "walk_tenant db claims start =
     (let tenant = as_string (obj_get claims ''tenantId'');
          owner = resolve_entity_tenant (qd_topo db) start; failed = Inl (HttpError 500 ''Root entity resolution failed'')
      in if is_sys_admin claims then (case owner of Inl _ \<Rightarrow> failed | Inr t \<Rightarrow> Inr t)
         else if tenant = [] then Inl (HttpError 401 ''Authentication required'')
         else (case owner of
                 Inl _ \<Rightarrow> failed
               | Inr t \<Rightarrow> if t \<noteq> tenant then Inl (HttpError 403 ''Cross-tenant relation query denied'') else Inr tenant))"

definition relations_query_filter ::
  "(str \<Rightarrow> str option) \<Rightarrow> query_db \<Rightarrow> members \<Rightarrow> members \<Rightarrow> json list \<Rightarrow> json list \<Rightarrow> http_error + query_item list" where
  "relations_query_filter uuid db claims flt specs values =
     (case entity_ref_of (obj_get flt ''rootEntity'') [] of
        (root_type, root_id) \<Rightarrow>
          if root_type = [] \<or> root_id = [] then Inl (HttpError 400 ''Missing rootEntity'')
          else (let start = \<lparr>ref_type = to_upper (trim_space root_type), ref_id = root_id\<rparr>;
                    d = to_upper (trim_space (as_string (obj_get flt ''direction''))); direction = (if d = [] then ''FROM'' else d)
                in if direction \<noteq> ''FROM'' \<and> direction \<noteq> ''TO'' then Inl (HttpError 400 ''Invalid direction'')
                   else if default_expand_max_depth < relation_level flt then Inl (HttpError 400 ''maxLevel exceeds the expand depth limit'')
                   else and_then (walk_tenant db claims start) (\<lambda>tenant.
                     case run_walk (relations_walk (qd_topo db) tenant direction (relation_types_of flt)
                             (map (\<lambda>s. to_upper (trim_space s)) (text_items (obj_get flt ''entityTypes''))) (relation_level flt)) start of
                       None \<Rightarrow> Inl (HttpError 422 ''Relation query budget exceeded'')
                     | Some hits \<Rightarrow>
                         Inr (concat (map (relation_item uuid db tenant
                                (filter (\<lambda>f. spec_type f = ''ENTITY_FIELD'' \<and> spec_key f \<noteq> []) specs)
                                (map spec_key (filter (\<lambda>v. equal_fold (spec_type v) ''ATTRIBUTE'' \<and> spec_key v \<noteq> []) values))) hits)))))"

section \<open>The endpoints\<close>

text \<open>What a handler writes: its status, which is that of the first document, and the documents in turn.\<close>

datatype find_doc = ErrorDoc str | PageDoc "query_item list" | NullPageDoc

record find_output =
  fo_status :: nat
  fo_docs :: "find_doc list"

fun refused :: "http_error \<Rightarrow> find_output" where
  "refused (HttpError n msg) = \<lparr>fo_status = n, fo_docs = [ErrorDoc msg]\<rparr>"
| "refused HandlerPanic = \<lparr>fo_status = 500, fo_docs = []\<rparr>"

definition select_entities :: "(str \<Rightarrow> str option) \<Rightarrow> query_db \<Rightarrow> str \<Rightarrow> str \<Rightarrow> members \<Rightarrow> members option \<Rightarrow> entity_map list" where
  "select_entities uuid db tenant t flt link =
     (if t = ''singleEntity'' then single_entity_filter uuid db tenant flt
      else if t = ''entityList'' then entity_list_filter uuid db tenant flt
      else if t = ''deviceType'' \<or> t = ''entityType'' then device_type_filter uuid db tenant flt link
      else if t = ''assetType'' then asset_type_filter uuid db tenant flt link
      else if t = ''apiUsageState'' then usage_state_filter uuid db tenant
      else [])"

definition find_entities :: "(str \<Rightarrow> str option) \<Rightarrow> query_db \<Rightarrow> str \<Rightarrow> str \<Rightarrow> members \<Rightarrow> members option \<Rightarrow> entity_map list" where
  "find_entities uuid db tenant t flt link =
     (if t = ''entityViewType'' then entity_view_filter uuid db tenant flt link
      else if t = ''entityName'' then entity_name_filter uuid db tenant flt link
      else if search_target t \<noteq> None then search_query_filter uuid db tenant t flt
      else if t = ''stateEntityOwner'' then state_owner_filter uuid db tenant flt
      else select_entities uuid db tenant t flt link)"

text \<open>A refused relations query has written its error, and the page follows it all the same.\<close>

definition handle_find ::
  "codec \<Rightarrow> (str \<Rightarrow> str option) \<Rightarrow> query_db \<Rightarrow> members option \<Rightarrow> str \<Rightarrow> raw_message \<Rightarrow> find_output" where
  "handle_find co uuid db claims http_method raw =
     (if http_method \<noteq> ''POST'' then refused (HttpError 405 ''Method not allowed'')
      else case claims of
        None \<Rightarrow> refused (HttpError 401 ''Authentication required'')
      | Some c \<Rightarrow>
          (case body_map raw of
             None \<Rightarrow> refused (HttpError 400 ''Invalid JSON'')
           | Some body \<Rightarrow>
               (case object_of (obj_get body ''entityFilter'') of
                  None \<Rightarrow> refused (HttpError 400 ''Missing entityFilter'')
                | Some flt \<Rightarrow>
                    (let t = as_string (obj_get flt ''type''); specs = as_array (obj_get body ''entityFields''); values = as_array (obj_get body ''latestValues'');
                         tenant = as_string (obj_get c ''tenantId'')
                     in if t = ''relationsQuery''
                        then (case relations_query_filter uuid db c flt specs values of
                                Inl e \<Rightarrow> (refused e)\<lparr>fo_docs := fo_docs (refused e) @ [NullPageDoc]\<rparr>
                              | Inr items \<Rightarrow> \<lparr>fo_status = 200, fo_docs = [PageDoc items]\<rparr>)
                        else \<lparr>fo_status = 200,
                               fo_docs = [PageDoc (map (entity_item co uuid db tenant specs values)
                                 (find_entities uuid db tenant t flt (object_of (obj_get body ''pageLink''))))]\<rparr>))))"

definition filter_from_query :: "(str \<times> str) list \<Rightarrow> members" where
  "filter_from_query query =
     (let etype = or_default ''DEVICE'' (query_get query ''entityType''); ident = query_get query ''entityId''
      in if equal_fold (or_default ''entityType'' (query_get query ''entityFilterType'')) ''singleEntity'' \<and> ident \<noteq> []
         then [(''type'', JStr ''singleEntity''), (''singleEntity'', JObj [(''entityType'', JStr etype), (''id'', JStr ident)])]
         else [(''type'', JStr ''entityType''), (''entityType'', JStr etype)])"

text \<open>Whether telemetry keys are asked for: the key types of the body, overridden by the query.\<close>

definition include_timeseries :: "members \<Rightarrow> (str \<times> str) list \<Rightarrow> bool" where
  "include_timeseries body query =
     (let types = text_items (obj_get body ''keyTypes''); ts = query_get query ''timeseries'';
          any = (types \<noteq> [] \<or> ts \<noteq> [] \<or> query_get query ''attributes'' \<noteq> [] \<or> query_get query ''attribute'' \<noteq> [])
      in \<not> any \<or> (if ts \<noteq> [] then equal_fold ts ''true'' else list_ex (\<lambda>s. to_upper s \<in> {''TIME_SERIES'', ''TIMESERIES''}) types))"

fun new_keys :: "str list \<Rightarrow> str list \<Rightarrow> str list" where
  "new_keys seen [] = seen"
| "new_keys seen (k # ks) = new_keys (if k = [] \<or> k \<in> set seen then seen else seen @ [k]) ks"

definition telemetry_keys_for_device :: "query_db \<Rightarrow> str \<Rightarrow> str \<Rightarrow> str \<Rightarrow> str list" where
  "telemetry_keys_for_device db tenant kind ident =
     (let rd = qd_reader db;
          hot = (case rd_twin rd of
                   None \<Rightarrow> []
                 | Some store \<Rightarrow> if tenant = [] then [] else (case tw_keys store tenant kind ident of TwinFound ks \<Rightarrow> new_keys [] ks | _ \<Rightarrow> []))
      in case query_kv_keys (rd_tsdb rd) tenant ident of None \<Rightarrow> hot | Some ks \<Rightarrow> new_keys hot ks)"

text \<open>The telemetry keys of the selected devices; a GET or a blank body has no members.\<close>

definition collect_find_keys ::
  "(str \<Rightarrow> str option) \<Rightarrow> query_db \<Rightarrow> members option \<Rightarrow> str \<Rightarrow> raw_message option \<Rightarrow> (str \<times> str) list \<Rightarrow> http_error + str list" where
  "collect_find_keys uuid db claims http_method raw query =
     (if http_method \<noteq> ''GET'' \<and> http_method \<noteq> ''POST'' then Inl (HttpError 405 ''Method not allowed'')
      else case claims of
        None \<Rightarrow> Inl (HttpError 401 ''Authentication required'')
      | Some c \<Rightarrow>
          and_then (case (if http_method = ''POST'' then raw else None) of
                      None \<Rightarrow> Inr []
                    | Some m \<Rightarrow> or_fail (body_map m) (HttpError 400 ''Invalid JSON'')) (\<lambda>body.
            let tenant = as_string (obj_get c ''tenantId'');
                flt = (case object_of (obj_get body ''entityFilter'') of Some f \<Rightarrow> f | None \<Rightarrow> filter_from_query query);
                es = select_entities uuid db tenant (as_string (obj_get flt ''type'')) flt (object_of (obj_get body ''pageLink''))
            in Inr (if include_timeseries body query
                    then fold (\<lambda>e keys.
                        let kind = as_string (map_of e ''entityType''); ident = as_string (map_of e ''id'')
                        in if \<not> equal_fold kind ''DEVICE'' \<or> ident = [] then keys
                           else new_keys keys (telemetry_keys_for_device db tenant kind ident)) es []
                    else [])))"

text \<open>The two shapes of the answer: the attribute keys are always empty.\<close>

record keys_answer =
  ka_attribute :: "str list"
  ka_timeseries :: "str list"

definition find_keys ::
  "(str \<Rightarrow> str option) \<Rightarrow> query_db \<Rightarrow> members option \<Rightarrow> str \<Rightarrow> raw_message option \<Rightarrow> (str \<times> str) list \<Rightarrow> http_error + keys_answer" where
  "find_keys uuid db claims http_method raw query =
     and_then (collect_find_keys uuid db claims http_method raw query) (\<lambda>keys. Inr \<lparr>ka_attribute = [], ka_timeseries = new_keys [] keys\<rparr>)"

end
