(* ===== verification/EntityQueryProps.thy ===== *)
theory EntityQueryProps
  imports EntityQuery
begin

text \<open>
  What the entity queries promise: a relations query finds the nodes the topology expansion answers, at
  their distances (\<open>relations_query_agrees_with_expand\<close>), and the items of an answer are rows of one
  tenant, the caller's, or tenants (\<open>find_within_tenant\<close>).
\<close>

section \<open>The walk of a relations query\<close>

definition normal_ends :: "(entity_ref \<times> entity_ref) list \<Rightarrow> entity_ref \<Rightarrow> bool" where
  "normal_ends es start \<longleftrightarrow> normalize_ref start = start \<and> (\<forall>(a, b) \<in> set es. normalize_ref a = a \<and> normalize_ref b = b)"

abbreviation tenant_edges :: "topo_db \<Rightarrow> str \<Rightarrow> str \<Rightarrow> str list \<Rightarrow> (entity_ref \<times> entity_ref) list" where
  "tenant_edges db tenant direction types \<equiv> neighbor_union db (norm_direction direction) tenant (norm_types types)"

lemma relations_walk_sel [simp]:
  "wk_budget (relations_walk db tenant direction types kinds levels) = default_expand_max_nodes"
  "wk_key (relations_walk db tenant direction types kinds levels) = node_text"
  "wk_allowed (relations_walk db tenant direction types kinds levels) n"
  "wk_wanted (relations_walk db tenant direction types kinds levels) n \<longleftrightarrow> kinds = [] \<or> ref_type n \<in> set kinds"
  "wk_next (relations_walk db tenant direction types kinds levels) n = neighbors_tenant db tenant n direction types"
  "wk_levels (relations_walk db tenant direction types kinds levels) = levels"
  by (simp_all add: relations_walk_def)

lemma relations_next:
  assumes "normal_ends (tenant_edges db tenant direction types) start" "normalize_ref n = n"
  shows "set (neighbors_tenant db tenant n direction types) = {m. (n, m) \<in> set (tenant_edges db tenant direction types)}"
  using assms by (force simp: neighbors_tenant_def normal_ends_def)

lemma relations_hops:
  assumes e: "normal_ends (tenant_edges db tenant direction types) start"
  shows "hops (relations_walk db tenant direction types kinds levels) start k = walks (tenant_edges db tenant direction types) start k"
proof (induction k)
  case (Suc k)
  have "normalize_ref n = n" if "n \<in> walks (tenant_edges db tenant direction types) start k" for n
    using that e by (cases k) (auto simp: normal_ends_def walks_Suc)
  then show ?case
    using Suc by (auto simp: set_eq_iff hops_Suc walks_Suc relations_next [OF e])
qed simp

lemma relations_hop_count:
  assumes "normal_ends (tenant_edges db tenant direction types) start"
  shows "hop_count (relations_walk db tenant direction types kinds levels) start n = distance (tenant_edges db tenant direction types) start n"
  unfolding hop_count_def distance_def relations_hops [OF assms] ..

lemma relations_within:
  assumes "normal_ends (tenant_edges db tenant direction types) start"
  shows "within_levels (relations_walk db tenant direction types kinds levels) start = reachable (tenant_edges db tenant direction types) start (nat levels)"
  unfolding within_levels_def reachable_def relations_hops [OF assms] by simp

lemma relations_met:
  assumes "normal_ends (tenant_edges db tenant direction types) start" "1 \<le> levels"
  shows "met (relations_walk db tenant direction types kinds levels) start = reachable (tenant_edges db tenant direction types) start (nat levels)"
    (is "?m = reachable ?es start _")
proof
  note hop = relations_hops [OF assms(1), of kinds levels]
  show "?m \<subseteq> reachable ?es start (nat levels)"
  proof
    fix n
    assume "n \<in> ?m"
    then consider "n = start" | k m where "m \<in> walks ?es start k" "int k < levels" "n \<in> set (neighbors_tenant db tenant m direction types)"
      by (auto simp: met_def hop)
    then show "n \<in> reachable ?es start (nat levels)"
    proof cases
      case 1
      then show ?thesis using assms(2) by (auto simp: reachable_def intro!: bexI [where x = 0])
    next
      case 2
      then have "normalize_ref m = m" using assms(1) by (cases k) (auto simp: normal_ends_def walks_Suc)
      with 2 have "n \<in> walks ?es start (Suc k)" by (auto simp: relations_next [OF assms(1)] walks_Suc)
      then show ?thesis using 2(2) by (auto simp: reachable_def intro!: bexI [where x = "Suc k"])
    qed
  qed
  show "reachable ?es start (nat levels) \<subseteq> ?m"
    using hops_met [of _ "relations_walk db tenant direction types kinds levels" start] assms(2)
    by (auto simp: reachable_def hop le_nat_iff)
qed

lemma reachable_finite: "finite (reachable es start d)"
proof -
  have "walks es start k \<subseteq> insert start (snd ` set es)" for k by (cases k) (force simp: walks_Suc)+
  then have "reachable es start d \<subseteq> insert start (snd ` set es)" unfolding reachable_def by blast
  then show ?thesis by (rule finite_subset) simp
qed

lemma relations_keys:
  assumes "normal_ends (tenant_edges db tenant direction types) start" "1 \<le> levels" "plain_ids (tenant_edges db tenant direction types) start"
  shows "keys_apart (relations_walk db tenant direction types kinds levels) start"
proof -
  have "inj_on node_text (reachable (tenant_edges db tenant direction types) start (nat levels))"
  proof (rule inj_onI)
    fix a b
    assume ab: "a \<in> reachable (tenant_edges db tenant direction types) start (nat levels)"
      "b \<in> reachable (tenant_edges db tenant direction types) start (nat levels)" "node_text a = node_text b"
    then obtain j k where "a \<in> walks (tenant_edges db tenant direction types) start j" "b \<in> walks (tenant_edges db tenant direction types) start k"
      by (auto simp: reachable_def)
    from node_text_inj [OF ab(3) plain_walk [OF assms(3) this(1)] plain_walk [OF assms(3) this(2)]] show "a = b" .
  qed
  then show ?thesis unfolding keys_apart_def relations_met [OF assms(1,2)] by simp
qed

text \<open>C28: A relations query agrees with the expansion of the topology. Over edges with normalised kinds and plain
  ids: if its walk finishes, ExpandWithCTE over the same edges stays within the same node limit, and the
  hits are, each once and in the order of their distances, the wanted nodes of the expansion other than
  the root, at their distance; if it exceeds its budget, as many nodes as the limit can be reached.\<close>

theorem relations_query_agrees_with_expand:
  assumes "es = neighbor_union db (norm_direction direction) tenant (norm_types types)" "normal_ends es start" "plain_ids es start" "1 \<le> levels"
  shows "case run_walk (relations_walk db tenant direction types kinds levels) start of
      None \<Rightarrow> default_expand_max_nodes \<le> int (card (reachable es start (nat levels)))
    | Some hits \<Rightarrow>
        (\<exists>out. expand_with_cte db tenant start direction types levels default_expand_max_nodes = Inr out \<and>
           set (map fst hits) = {n \<in> set out. n \<noteq> start \<and> (kinds = [] \<or> ref_type n \<in> set kinds)} \<and>
           distinct (map fst hits) \<and> sorted (map snd hits) \<and> (\<forall>(n, l) \<in> set hits. l = int (distance es start n)))"
proof -
  let ?w = "relations_walk db tenant direction types kinds levels"
  note e = assms(2) [unfolded assms(1)]
  note within = relations_within [OF e, of kinds levels, folded assms(1)] and met = relations_met [OF e assms(4), of kinds, folded assms(1)]
  note dist = relations_hop_count [OF e, of kinds levels, folded assms(1)]
  have apart: "keys_apart ?w start" using relations_keys [OF e assms(4) assms(3) [unfolded assms(1)]] .
  obtain b visited queue hits where run: "walk_loop ?w ([wk_key ?w start], [(start, 0)], []) = (b, (visited, queue, hits))" by (metis prod_cases3 surj_pair)
  note ex = walk_exhausted [OF run, unfolded met]
  have lim: "1 \<le> default_expand_max_nodes" by (simp add: default_expand_max_nodes_def)
  show ?thesis
  proof (cases b)
    case True
    then have "run_walk ?w start = None" using run by (simp add: run_walk_def)
    moreover have "default_expand_max_nodes \<le> int (card (reachable es start (nat levels)))"
      using ex True reachable_finite by (simp add: lim)
    ultimately show ?thesis by simp
  next
    case False
    have r: "run_walk ?w start = Some hits" using run False by (simp add: run_walk_def)
    have "0 \<le> wk_levels ?w" using assms(4) by simp
    moreover have "walk_loop ?w ([wk_key ?w start], [(start, 0)], []) = (False, (visited, queue, hits))" using run False by simp
    ultimately have found: "set hits = {(n, int (distance es start n)) | n. n \<in> reachable es start (nat levels) \<and> n \<noteq> start \<and> (kinds = [] \<or> ref_type n \<in> set kinds)}"
      "distinct hits" "sorted (map snd hits)" "node_text ` reachable es start (nat levels) \<subseteq> set visited"
      using walk_finds [OF _ apart, unfolded within dist] by simp_all
    have "card (reachable es start (nat levels)) = card (node_text ` reachable es start (nat levels))"
      using apart unfolding keys_apart_def met by (simp add: card_image)
    also have "\<dots> \<le> card (set visited)" using found(4) by (simp add: card_mono)
    also have "\<dots> \<le> length visited" by (rule card_length)
    also have "int (length visited) \<le> default_expand_max_nodes" using ex by (simp add: lim)
    finally have small: "\<not> default_expand_max_nodes < int (card (reachable es start (nat levels)))" by simp
    note spec = expand_is_bounded_reachability [OF assms(4) lim assms(1) assms(2) [unfolded normal_ends_def, THEN conjunct1, symmetric] assms(3)]
    have "expand_with_cte db tenant start direction types levels default_expand_max_nodes = Inl TraversalBudget \<or>
        (\<exists>out. expand_with_cte db tenant start direction types levels default_expand_max_nodes = Inr out)"
      using assms(4) lim by (auto simp: expand_with_cte_def Let_def)
    then obtain out nodes where x: "expand_with_cte db tenant start direction types levels default_expand_max_nodes = Inr out"
      "out = map normalize_ref nodes" "set nodes = reachable es start (nat levels)"
      using spec small by blast
    have "normalize_ref n = n" if "n \<in> reachable es start (nat levels)" for n
    proof -
      from that obtain k where "n \<in> walks es start k" by (auto simp: reachable_def)
      then show ?thesis using assms(2) by (cases k) (auto simp: normal_ends_def walks_Suc)
    qed
    then have out: "set out = reachable es start (nat levels)" using x(2,3) by force
    have "inj_on fst (set hits)" unfolding found(1) by (auto simp: inj_on_def)
    then have "distinct (map fst hits)" using found(2) by (simp add: distinct_map)
    moreover have "set (map fst hits) = {n \<in> set out. n \<noteq> start \<and> (kinds = [] \<or> ref_type n \<in> set kinds)}"
      unfolding out by (force simp: found(1))
    moreover have "\<forall>(n, l) \<in> set hits. l = int (distance es start n)" unfolding found(1) by auto
    ultimately show ?thesis unfolding r option.case using x(1) found(3) by blast
  qed
qed

section \<open>Tenants\<close>

text \<open>The entity of a kind and an id - a spelling of it, or the id itself - is a row of the tenant.\<close>

definition owned_row :: "(str \<Rightarrow> str option) \<Rightarrow> query_db \<Rightarrow> str \<Rightarrow> str \<Rightarrow> str \<Rightarrow> bool" where
  "owned_row uuid db tenant kind ident \<longleftrightarrow>
     (\<exists>t u. uuid tenant = Some t \<and> (u = ident \<or> uuid ident = Some u) \<and>
        ((kind = ''DEVICE'' \<or> kind = ''ASSET'') \<and> (\<exists>e \<in> set (entity_table kind (tp_twins (qd_topo db))). en_id e = u \<and> en_tenant e = Some t) \<or>
         (\<exists>r \<in> set (qd_rows db). er_kind r = kind \<and> er_id r = u \<and> er_tenant r = Some t)))"

definition map_owned :: "(str \<Rightarrow> str option) \<Rightarrow> query_db \<Rightarrow> str \<Rightarrow> entity_map \<Rightarrow> bool" where
  "map_owned uuid db tenant e \<longleftrightarrow>
     (let kind = as_string (map_of e ''entityType'') in kind = ''TENANT'' \<or> owned_row uuid db tenant kind (as_string (map_of e ''id'')))"

lemma resolve_owned:
  assumes "resolve_entity uuid db tenant kind ident = Some e"
  shows "map_owned uuid db tenant e" "kind = ''TENANT'' \<or> owned_row uuid db tenant kind ident"
proof -
  from assms obtain u where u: "uuid ident = Some u" by (auto simp: resolve_entity_def split: option.splits)
  have "(kind = ''TENANT'' \<or> owned_row uuid db tenant kind ident) \<and> (\<exists>rest. e = (''id'', JStr ident) # (''entityType'', JStr kind) # rest)"
  proof (cases "kind = ''DEVICE'' \<or> kind = ''ASSET''")
    case True
    with assms u obtain d t where d: "find (\<lambda>e. en_id e = u \<and> en_tenant e = uuid tenant \<and> uuid tenant \<noteq> None) (entity_table kind (tp_twins (qd_topo db))) = Some d"
      "map_option (labelled kind ident d) (en_type d) = Some e"
      by (simp add: resolve_entity_def split: option.splits)
    then have "d \<in> set (entity_table kind (tp_twins (qd_topo db)))" "en_id d = u" "en_tenant d = uuid tenant" "uuid tenant \<noteq> None"
      by (auto simp: find_Some_iff)
    then have "owned_row uuid db tenant kind ident" using u True unfolding owned_row_def by (metis option.exhaust)
    then show ?thesis using d(2) by (auto simp: labelled_def)
  next
    case False
    have k: "kind = ''TENANT'' \<or> kind = ''DASHBOARD'' \<or> kind = ''CUSTOMER'' \<or> kind = ''USER'' \<or> kind = ''ENTITY_VIEW''" (is ?k)
    proof (rule ccontr)
      assume "\<not> ?k"
      from assms show False unfolding resolve_entity_def u option.case if_not_P [OF False] if_not_P [OF \<open>\<not> ?k\<close>] by simp
    qed
    have e: "resolve_entity uuid db tenant kind ident = (case name_row db kind u of
        None \<Rightarrow> None
      | Some r \<Rightarrow>
          if kind \<noteq> ''TENANT'' \<and> (er_tenant r \<noteq> uuid tenant \<or> uuid tenant = None) then None
          else (case er_name r of
                  None \<Rightarrow> None
                | Some name \<Rightarrow>
                    (let base = [(''id'', JStr ident), (''entityType'', JStr kind), (''createdTime'', JInt (er_created r))]
                     in if kind = ''USER'' then Some (base @ [(''name'', JStr (user_name r name)), (''email'', JStr name)])
                        else if kind = ''ENTITY_VIEW'' then map_option (\<lambda>ty. base @ [(''name'', JStr name), (''type'', JStr ty)]) (er_type r)
                        else Some (base @ [(''name'', JStr name)]))))"
      unfolding resolve_entity_def u option.case if_not_P [OF False] if_P [OF k] ..
    from assms e obtain r where r: "name_row db kind u = Some r" "kind = ''TENANT'' \<or> er_tenant r = uuid tenant \<and> uuid tenant \<noteq> None"
      "\<exists>rest. e = (''id'', JStr ident) # (''entityType'', JStr kind) # rest"
      by (simp add: Let_def split: option.splits if_split_asm) blast+
    then have "r \<in> set (qd_rows db)" "er_kind r = kind" "er_id r = u" by (auto simp: name_row_def find_Some_iff)
    then show ?thesis using u r(2,3) unfolding owned_row_def by (metis option.exhaust)
  qed
  then show "map_owned uuid db tenant e" "kind = ''TENANT'' \<or> owned_row uuid db tenant kind ident" by (auto simp: map_owned_def)
qed

lemma resolved_owned: "Some e = resolve_entity uuid db tenant kind ident \<Longrightarrow> map_owned uuid db tenant e"
  using resolve_owned(1) by metis

lemma owned_entityI:
  "Some t = uuid tenant \<Longrightarrow> kind = ''DEVICE'' \<or> kind = ''ASSET'' \<Longrightarrow> d \<in> set (entity_table kind (tp_twins (qd_topo db))) \<Longrightarrow>
   en_tenant d = uuid tenant \<Longrightarrow> owned_row uuid db tenant kind (en_id d)"
  unfolding owned_row_def by metis

lemma owned_rowI:
  "Some t = uuid tenant \<Longrightarrow> r \<in> set (qd_rows db) \<Longrightarrow> er_kind r = kind \<Longrightarrow> er_tenant r = uuid tenant \<Longrightarrow> owned_row uuid db tenant kind (er_id r)"
  unfolding owned_row_def by metis

lemma map_ownedI: "as_string (map_of e ''entityType'') = kind \<Longrightarrow> owned_row uuid db tenant kind (as_string (map_of e ''id'')) \<Longrightarrow> map_owned uuid db tenant e"
  by (simp add: map_owned_def)

lemma labelled_page_owned:
  assumes "kind = ''DEVICE'' \<or> kind = ''ASSET''"
  shows "\<forall>e \<in> set (labelled_page uuid db tenant kind p n). map_owned uuid db tenant e"
  by (auto simp: labelled_page_def split: option.splits
      intro!: map_ownedI [where kind = kind] intro: owned_entityI [OF _ assms] dest!: in_set_takeD)

lemma kind_rows_owned:
  "\<forall>r \<in> set (kind_rows uuid db tenant kind p n). owned_row uuid db tenant kind (er_id r)"
  by (auto simp: kind_rows_def sorted_rows_def split: option.splits intro: owned_rowI dest!: in_set_takeD)

lemma single_owned: "\<forall>e \<in> set (single_entity_filter uuid db tenant flt). map_owned uuid db tenant e"
  by (auto simp: single_entity_filter_def dest: resolved_owned split: option.splits json.splits prod.splits)

lemma list_owned: "\<forall>e \<in> set (entity_list_filter uuid db tenant flt). map_owned uuid db tenant e"
  by (auto simp: entity_list_filter_def dest: resolved_owned split: option.splits prod.splits)

lemma usage_owned: "\<forall>e \<in> set (usage_state_filter uuid db tenant). map_owned uuid db tenant e"
proof (cases "uuid tenant")
  case (Some t)
  have "owned_row uuid db tenant ''API_USAGE_STATE'' (er_id r)"
    if f: "find (\<lambda>r. er_kind r = ''API_USAGE_STATE'' \<and> er_tenant r = Some t) (qd_rows db) = Some r" for r
    using f Some owned_rowI [of t uuid tenant r db] by (auto simp: find_Some_iff)
  then show ?thesis by (auto simp: usage_state_filter_def Some split: option.splits intro!: map_ownedI [where kind = "''API_USAGE_STATE''"])
qed (simp add: usage_state_filter_def)

lemma types_owned:
  "\<forall>e \<in> set (device_type_filter uuid db tenant flt link). map_owned uuid db tenant e"
  "\<forall>e \<in> set (asset_type_filter uuid db tenant flt link). map_owned uuid db tenant e"
  unfolding device_type_filter_def asset_type_filter_def Let_def by (rule labelled_page_owned, simp)+

lemma select_entities_owned: "\<forall>e \<in> set (select_entities uuid db tenant t flt link). map_owned uuid db tenant e"
  unfolding select_entities_def by (simp add: types_owned single_owned list_owned usage_owned)

lemma views_owned: "\<forall>e \<in> set (entity_view_filter uuid db tenant flt link). map_owned uuid db tenant e"
  using kind_rows_owned [of uuid db tenant "''ENTITY_VIEW''"]
  by (auto simp: entity_view_filter_def Let_def split: option.splits intro!: map_ownedI [where kind = "''ENTITY_VIEW''"])

lemma names_owned: "\<forall>e \<in> set (entity_name_filter uuid db tenant flt link). map_owned uuid db tenant e"
proof (cases "entity_name_table (as_string (obj_get flt ''entityType''))")
  case (Some kind)
  show ?thesis
  proof (cases "kind = ''DEVICE'' \<or> kind = ''ASSET''")
    case True
    then show ?thesis
      by (auto simp: entity_name_filter_def Some named_map_def split: option.splits
          intro!: map_ownedI [where kind = kind] intro: owned_entityI dest!: in_set_takeD)
  next
    case False
    then show ?thesis using kind_rows_owned [of uuid db tenant kind]
      by (auto simp: entity_name_filter_def Some named_map_def split: option.splits intro!: map_ownedI [where kind = kind])
  qed
qed (simp add: entity_name_filter_def)

lemma search_owned: "\<forall>e \<in> set (search_query_filter uuid db tenant t flt). map_owned uuid db tenant e"
  by (auto simp: search_query_filter_def Let_def dest: resolved_owned split: option.splits prod.splits if_splits)

lemma state_owner_owned: "\<forall>e \<in> set (state_owner_filter uuid db tenant flt). map_owned uuid db tenant e"
proof
  fix e
  assume e: "e \<in> set (state_owner_filter uuid db tenant flt)"
  obtain etype ident where "(case entity_ref_of (obj_get flt ''singleEntity'') [] of
      (t, i) \<Rightarrow> if t = [] \<or> i = [] then entity_ref_of (Some (JObj flt)) [] else (t, i)) = (etype, ident)" by fastforce
  with e have "\<exists>kind ident. resolve_entity uuid db tenant kind ident = Some e"
    unfolding state_owner_filter_def Let_def by (simp only: prod.case split: option.splits if_splits) auto
  then show "map_owned uuid db tenant e" using resolve_owned(1) by blast
qed

lemma find_entities_owned: "\<forall>e \<in> set (find_entities uuid db tenant t flt link). map_owned uuid db tenant e"
  unfolding find_entities_def by (simp add: views_owned names_owned search_owned state_owner_owned select_entities_owned)

section \<open>Answers\<close>

lemma entity_item_owned:
  "map_owned uuid db tenant e \<Longrightarrow> it = entity_item co uuid db tenant specs values e \<Longrightarrow> qi_kind it = ''TENANT'' \<or> owned_row uuid db tenant (qi_kind it) (qi_id it)"
  by (simp add: entity_item_def map_owned_def Let_def)

lemma relation_item_owned:
  assumes "it \<in> set (relation_item uuid db tenant specs keys hit)"
  shows "qi_kind it = ''TENANT'' \<or> owned_row uuid db tenant (qi_kind it) (qi_id it)"
proof (cases "resolve_entity uuid db tenant (ref_type (fst hit)) (ref_id (fst hit))")
  case (Some e)
  then show ?thesis using assms resolve_owned(2) [OF Some] by (auto simp: relation_item_def Let_def split: prod.splits)
qed (use assms in \<open>auto simp: relation_item_def split: prod.splits\<close>)

lemma walk_tenant_caller: "walk_tenant db c start = Inr tenant \<Longrightarrow> is_sys_admin c \<or> tenant = claim_string c ''tenantId''"
  by (auto simp: walk_tenant_def Let_def claim_string_def split: if_splits sum.splits)

text \<open>The root of a relations query.\<close>

definition query_root :: "members \<Rightarrow> entity_ref" where
  "query_root flt =
     (case entity_ref_of (obj_get flt ''rootEntity'') [] of (k, i) \<Rightarrow> \<lparr>ref_type = to_upper (trim_space k), ref_id = i\<rparr>)"

definition query_filter :: "raw_message \<Rightarrow> members option" where
  "query_filter raw = Option.bind (body_map raw) (\<lambda>body. object_of (obj_get body ''entityFilter''))"

lemma walk_tenant_of:
  "walk_tenant db c start = Inr tenant \<Longrightarrow>
   tenant = claim_string c ''tenantId'' \<or> is_sys_admin c \<and> resolve_entity_tenant (qd_topo db) start = Inr tenant"
  by (auto simp: walk_tenant_def claim_string_def Let_def split: sum.splits if_splits)

lemma relations_items:
  assumes "relations_query_filter uuid db c flt specs values = Inr items"
  shows "\<exists>tenant ss ks hits. (tenant = claim_string c ''tenantId'' \<or>
      is_sys_admin c \<and> resolve_entity_tenant (qd_topo db) (query_root flt) = Inr tenant) \<and>
    items = concat (map (relation_item uuid db tenant ss ks) hits)"
proof -
  obtain etype ident where r: "entity_ref_of (obj_get flt ''rootEntity'') [] = (etype, ident)" by fastforce
  have root: "\<lparr>ref_type = to_upper (trim_space etype), ref_id = ident\<rparr> = query_root flt" by (simp add: query_root_def r)
  from assms obtain tenant w ss ks where t: "walk_tenant db c (query_root flt) = Inr tenant"
    "(case run_walk w (query_root flt) of None \<Rightarrow> Inl (HttpError 422 ''Relation query budget exceeded'') | Some hits \<Rightarrow> Inr (concat (map (relation_item uuid db tenant ss ks) hits))) = Inr items"
    unfolding relations_query_filter_def r prod.case root Let_def if_fail_Inr and_then_Inr by blast
  then obtain hits where "items = concat (map (relation_item uuid db tenant ss ks) hits)" by (auto split: option.splits)
  with walk_tenant_of [OF t(1)] show ?thesis by blast
qed

text \<open>The items of an answer.\<close>

definition answer_items :: "find_output \<Rightarrow> query_item list" where
  "answer_items out = concat (map (\<lambda>d. case d of PageDoc items \<Rightarrow> items | _ \<Rightarrow> []) (fo_docs out))"

lemma refused_docs [simp]: "answer_items (refused e) = []" "PageDoc items \<notin> set (fo_docs (refused e))"
  by (cases e; simp add: answer_items_def)+

declare refused.simps [simp del]

lemma find_items:
  assumes "it \<in> set (answer_items (handle_find co uuid db (Some c) http_method raw))"
  obtains body flt where "http_method = ''POST''" "body_map raw = Some body" "object_of (obj_get body ''entityFilter'') = Some flt"
  using assms that by (auto simp: handle_find_def split: if_splits option.splits)

text \<open>C29: An entity query answers rows of one tenant. There is one tenant of which every item of the answer is an
  entity - or the item is a tenant itself, as tenants are resolved by id alone. That tenant is the caller's; only for a system
  administrator, who may walk from any root, it may instead be the tenant that owns the root of its relations query.\<close>

theorem find_within_tenant:
  "\<exists>tenant. (tenant = claim_string c ''tenantId'' \<or>
      is_sys_admin c \<and> (\<exists>flt. query_filter raw = Some flt \<and> as_string (obj_get flt ''type'') = ''relationsQuery'' \<and>
        resolve_entity_tenant (qd_topo db) (query_root flt) = Inr tenant)) \<and>
    (\<forall>it \<in> set (answer_items (handle_find co uuid db (Some c) http_method raw)).
       qi_kind it = ''TENANT'' \<or> owned_row uuid db tenant (qi_kind it) (qi_id it))"
proof (cases "answer_items (handle_find co uuid db (Some c) http_method raw)")
  case Nil
  then show ?thesis by auto
next
  case (Cons it0 rest)
  then obtain body flt where h: "http_method = ''POST''" "body_map raw = Some body" "object_of (obj_get body ''entityFilter'') = Some flt"
    by (metis find_items list.set_intros(1))
  then have flt: "query_filter raw = Some flt" by (simp add: query_filter_def)
  let ?specs = "as_array (obj_get body ''entityFields'')" and ?vals = "as_array (obj_get body ''latestValues'')"
  show ?thesis
  proof (cases "as_string (obj_get flt ''type'') = ''relationsQuery''")
    case True
    then have run: "handle_find co uuid db (Some c) http_method raw =
        (case relations_query_filter uuid db c flt ?specs ?vals of
           Inl e \<Rightarrow> (refused e)\<lparr>fo_docs := fo_docs (refused e) @ [NullPageDoc]\<rparr>
         | Inr items \<Rightarrow> \<lparr>fo_status = 200, fo_docs = [PageDoc items]\<rparr>)"
      by (simp add: handle_find_def h Let_def)
    have none: "answer_items ((refused e)\<lparr>fo_docs := fo_docs (refused e) @ [NullPageDoc]\<rparr>) = []" for e
      by (cases e) (simp_all add: refused.simps answer_items_def)
    obtain items where items: "relations_query_filter uuid db c flt ?specs ?vals = Inr items"
      using Cons unfolding run by (cases "relations_query_filter uuid db c flt ?specs ?vals") (simp_all add: none)
    have ans: "answer_items (handle_find co uuid db (Some c) http_method raw) = items" unfolding run items by (simp add: answer_items_def)
    from relations_items [OF items] obtain tenant ss ks hits where t: "tenant = claim_string c ''tenantId'' \<or>
        is_sys_admin c \<and> resolve_entity_tenant (qd_topo db) (query_root flt) = Inr tenant"
      "items = concat (map (relation_item uuid db tenant ss ks) hits)" by blast
    have "\<forall>it \<in> set items. qi_kind it = ''TENANT'' \<or> owned_row uuid db tenant (qi_kind it) (qi_id it)"
      unfolding t(2) using relation_item_owned by fastforce
    with t(1) flt True ans show ?thesis by (intro exI [of _ tenant]) blast
  next
    case False
    let ?tenant = "claim_string c ''tenantId''"
    have "answer_items (handle_find co uuid db (Some c) http_method raw) = map (entity_item co uuid db ?tenant ?specs ?vals)
        (find_entities uuid db ?tenant (as_string (obj_get flt ''type'')) flt (object_of (obj_get body ''pageLink'')))"
      using False h by (simp add: handle_find_def answer_items_def Let_def claim_string_def)
    then have "\<forall>it \<in> set (answer_items (handle_find co uuid db (Some c) http_method raw)).
        qi_kind it = ''TENANT'' \<or> owned_row uuid db ?tenant (qi_kind it) (qi_id it)"
      using find_entities_owned entity_item_owned by fastforce
    then show ?thesis by blast
  qed
qed

text \<open>The relations query asks for SERVER_SCOPE, which is not among the types of attribute: it is
  given the attributes of the client.\<close>

lemma relations_query_reads_client_scope:
  "fetch_latest_attribute uuid db ident key ''SERVER_SCOPE'' = fetch_latest_attribute uuid db ident key ''CLIENT_ATTRIBUTE''"
proof -
  have "attribute_ordinal ''SERVER_SCOPE'' = attribute_ordinal ''CLIENT_ATTRIBUTE''" by code_simp
  then show ?thesis unfolding fetch_latest_attribute_def by (rule ssubst) (rule refl)
qed

section \<open>Concrete queries\<close>

text \<open>Two assets of the tenant \<open>t\<close> that feed each other and a tenant \<open>other\<close>; every text is taken for a UUID.\<close>

definition plant_reader :: reader where
  "plant_reader = \<lparr>rd_twin = None, rd_tsdb = None, rd_tables = Some [], rd_latest = [], rd_series = [], rd_column = [], rd_history = None,
     rd_usage = None, rd_twin_env = []\<rparr>"

definition typed_asset :: "str \<Rightarrow> entity" where
  "typed_asset i = (plant_asset i)\<lparr>en_type := Some ''room''\<rparr>"

definition plant_query :: query_db where
  "plant_query = \<lparr>qd_topo = ring_db\<lparr>tp_twins := (tp_twins ring_db)\<lparr>db_assets := [typed_asset ''floor'', typed_asset ''room'']\<rparr>\<rparr>,
     qd_rows = [\<lparr>er_kind = ''TENANT'', er_id = ''other'', er_tenant = None, er_created = 4, er_name = Some ''Other Ltd'', er_type = None,
                  er_first = None, er_last = None\<rparr>],
     qd_customers = [], qd_attrs = \<lparr>at_keys = [(''plan'', 1)], at_next = 2, at_rows = [((''other'', 2, 1), (blank_cell 9)\<lparr>ac_str := Some ''gold''\<rparr>)]\<rparr>,
     qd_reader = plant_reader\<rparr>"

definition plant_claims :: members where "plant_claims = [(''tenantId'', JStr ''t'')]"

definition plain_codec :: codec where
  "plain_codec = \<lparr>co_time = (\<lambda>_. []), co_float = (\<lambda>_. None), co_json = (\<lambda>_. None), co_number = (\<lambda>_. []), co_value = (\<lambda>_. [])\<rparr>"

definition find_body :: "members \<Rightarrow> json list \<Rightarrow> raw_message" where
  "find_body flt vals = Some (JObj [(''entityFilter'', JObj flt), (''latestValues'', JArr vals)])"

theorem relations_query_agrees_with_expand_witness:
  "\<exists>out. expand_with_cte ring_db ''t'' room_ref ''FROM'' [''Feeds''] 3 default_expand_max_nodes = Inr out \<and>
     run_walk (relations_walk ring_db ''t'' ''FROM'' [''Feeds''] [''ASSET''] 3) room_ref = Some [(floor_ref, 1)] \<and>
     {floor_ref} = {n \<in> set out. n \<noteq> room_ref \<and> ref_type n = ''ASSET''}"
proof -
  let ?es = "neighbor_union ring_db (norm_direction ''FROM'') ''t'' (norm_types [''Feeds''])"
  have e: "list_all (\<lambda>(a, b). normalize_ref a = a \<and> normalize_ref b = b) ?es \<and> normalize_ref room_ref = room_ref"
    "list_all (\<lambda>p. \<not> list_ex (\<lambda>c. c = CHR '':'') (ref_id (snd p))) ?es \<and> \<not> list_ex (\<lambda>c. c = CHR '':'') (ref_id room_ref)"
    "run_walk (relations_walk ring_db ''t'' ''FROM'' [''Feeds''] [''ASSET''] 3) room_ref = Some [(floor_ref, 1)]"
    by code_simp+
  have "normal_ends ?es room_ref" "plain_ids ?es room_ref"
    using e(1,2) by (auto simp: normal_ends_def plain_ids_def list_all_iff list_ex_iff)
  from relations_query_agrees_with_expand [OF refl this, of 3 "[''ASSET'']"] obtain out where
    "expand_with_cte ring_db ''t'' room_ref ''FROM'' [''Feeds''] 3 default_expand_max_nodes = Inr out"
    "set (map fst [(floor_ref, 1 :: int)]) = {n \<in> set out. n \<noteq> room_ref \<and> ([''ASSET''] = [] \<or> ref_type n \<in> set [''ASSET''])}"
    unfolding e(3) option.case by auto
  with e(3) show ?thesis by (intro exI conjI) auto
qed

theorem find_within_tenant_witness:
  "owned_row Some plant_query ''t'' ''ASSET'' ''floor'' \<and>
   map qi_id (answer_items (handle_find plain_codec Some plant_query (Some plant_claims) ''POST''
     (find_body [(''type'', JStr ''singleEntity''), (''singleEntity'', JObj [(''entityType'', JStr ''ASSET''), (''id'', JStr ''floor'')])] []))) = [''floor'']"
proof -
  let ?raw = "find_body [(''type'', JStr ''singleEntity''), (''singleEntity'', JObj [(''entityType'', JStr ''ASSET''), (''id'', JStr ''floor'')])] []"
  let ?items = "answer_items (handle_find plain_codec Some plant_query (Some plant_claims) ''POST'' ?raw)"
  have i: "map (\<lambda>it. (qi_kind it, qi_id it)) ?items = [(''ASSET'', ''floor'')]" "\<not> is_sys_admin plant_claims" "claim_string plant_claims ''tenantId'' = ''t''"
    by code_simp+
  then obtain it where it: "?items = [it]" "qi_kind it = ''ASSET''" "qi_id it = ''floor''" by auto
  have "owned_row Some plant_query ''t'' ''ASSET'' ''floor''"
    using find_within_tenant [of plant_claims ?raw plant_query plain_codec Some "''POST''"] i(2,3) it by simp
  then show ?thesis using it(1,3) by simp
qed

text \<open>The name and the attributes of another tenant are answered to anyone.\<close>

lemma other_tenant_answered:
  "map (\<lambda>it. (qi_kind it, qi_id it, qi_latest it))
     (answer_items (handle_find plain_codec Some plant_query (Some plant_claims) ''POST''
       (find_body [(''type'', JStr ''singleEntity''), (''singleEntity'', JObj [(''entityType'', JStr ''TENANT''), (''id'', JStr ''other'')])]
          [JObj [(''type'', JStr ''SERVER_ATTRIBUTE''), (''key'', JStr ''plan'')]]))) =
   [(''TENANT'', ''other'', Some [(''SERVER_ATTRIBUTE'', [(''plan'', 9, JStr ''gold'')])])]"
  by code_simp

text \<open>A refused relations query.\<close>

lemma refused_query_answers_twice:
  "handle_find plain_codec Some plant_query (Some plant_claims) ''POST''
     (find_body [(''type'', JStr ''relationsQuery''), (''rootEntity'', JObj [(''entityType'', JStr ''ASSET''), (''id'', JStr ''floor'')]), (''maxLevel'', JInt 11)] []) =
   \<lparr>fo_status = 400, fo_docs = [ErrorDoc ''maxLevel exceeds the expand depth limit'', NullPageDoc]\<rparr>"
  by code_simp

text \<open>The budget is checked before a neighbour is: at exactly as many nodes as the limit a walk that meets one of them again gives
  up, where the expansion, with the same limit, answers.\<close>

lemma budget_boundary:
  "run_walk ((relations_walk ring_db ''t'' ''FROM'' [''Feeds''] [] 3)\<lparr>wk_budget := 2\<rparr>) room_ref = None"
  "expand_with_cte ring_db ''t'' room_ref ''FROM'' [''Feeds''] 3 2 = Inr [room_ref, floor_ref]"
  by code_simp+

end
