(* ===== verification/AuthTokens.thy ===== *)
theory AuthTokens
  imports Requests PolicyAuthorize
begin

text \<open>
  The session tokens (internal/auth/jwt.go): the choice of the signing key at start-up, the claims of
  access and refresh tokens, and the checks on a presented token. Decoding base64, the random source,
  and the JWT library - which signs claims, tells the algorithm a token names, and verifies its
  signature and its expiry - are parameters. Times are Unix milliseconds; the claims hold seconds.
\<close>

section \<open>The signing key\<close>

record token_config =
  tc_key :: str
  tc_expiration :: int
  tc_refresh :: int
  tc_issuer :: str

definition default_token_exp :: int where "default_token_exp = 9000"
definition default_refresh_exp :: int where "default_refresh_exp = 604800"
definition default_issuer :: str where "default_issuer = ''flow.iot''"
definition min_key_bytes :: nat where "min_key_bytes = 32"

datatype boot = BootFatal | Booted token_config

text \<open>A key text: its bytes when it decodes to enough of them.\<close>

definition usable_key :: "(str \<Rightarrow> str option) \<Rightarrow> str \<Rightarrow> str option" where
  "usable_key decode64 text =
     (case decode64 text of Some key \<Rightarrow> if length key < min_key_bytes then None else Some key | None \<Rightarrow> None)"

definition dec_jwt_row :: "raw_message \<Rightarrow> (int \<times> int \<times> str \<times> str) option" where
  "dec_jwt_row raw =
     (case body_map raw of
        None \<Rightarrow> None
      | Some kvs \<Rightarrow>
          (case (dec_field dec_int64 0 (struct_vals ''tokenExpirationTime'' kvs), dec_field dec_int64 0 (struct_vals ''refreshTokenExpTime'' kvs),
                 dec_field dec_string [] (struct_vals ''tokenIssuer'' kvs), dec_field dec_string [] (struct_vals ''tokenSigningKey'' kvs)) of
             (Some e, Some r, Some i, Some k) \<Rightarrow> Some (e, r, i, k)
           | _ \<Rightarrow> None))"

text \<open>The row of the settings: \<open>None\<close> when it cannot be read.\<close>

definition settings_config :: "(str \<Rightarrow> str option) \<Rightarrow> raw_message option \<Rightarrow> token_config option" where
  "settings_config decode64 row =
     (case row of
        None \<Rightarrow> None
      | Some raw \<Rightarrow>
          (case dec_jwt_row raw of
             None \<Rightarrow> None
           | Some (e, r, i, k) \<Rightarrow>
               if k = [] then None
               else map_option (\<lambda>key. \<lparr>tc_key = key, tc_expiration = (if 0 < e then e else default_token_exp),
                      tc_refresh = (if 0 < r then r else default_refresh_exp), tc_issuer = (if i = [] then default_issuer else i)\<rparr>)
                    (usable_key decode64 k)))"

definition default_config :: "str \<Rightarrow> token_config" where
  "default_config key =
     \<lparr>tc_key = key, tc_expiration = default_token_exp, tc_refresh = default_refresh_exp, tc_issuer = default_issuer\<rparr>"

definition init_config :: "(str \<Rightarrow> str option) \<Rightarrow> str \<Rightarrow> str \<Rightarrow> raw_message option \<Rightarrow> str option \<Rightarrow> boot" where
  "init_config decode64 flow_env env_key row random =
     (let prod = equal_fold flow_env ''production'';
          fallback = (case settings_config decode64 row of
             Some cfg \<Rightarrow> Booted cfg
           | None \<Rightarrow> if prod then BootFatal else (case random of None \<Rightarrow> BootFatal | Some key \<Rightarrow> Booted (default_config key)))
      in if env_key = [] then fallback
         else (case usable_key decode64 env_key of
                 Some key \<Rightarrow> Booted (default_config key)
               | None \<Rightarrow> if prod then BootFatal else fallback))"

section \<open>Claims\<close>

record subject =
  sj_user :: str
  sj_email :: str
  sj_authority :: str
  sj_tenant :: str
  sj_customer :: str
  sj_enabled :: bool

definition access_claims :: "token_config \<Rightarrow> millis \<Rightarrow> subject \<Rightarrow> str \<Rightarrow> members" where
  "access_claims cfg now s session =
     [(''sub'', JStr (sj_email s)), (''userId'', JStr (sj_user s)), (''scopes'', JArr [JStr (sj_authority s)]), (''sessionId'', JStr session),
      (''exp'', JInt (now div 1000 + tc_expiration cfg)), (''iss'', JStr (tc_issuer cfg)), (''iat'', JInt (now div 1000)),
      (''enabled'', JBool (sj_enabled s)), (''isPublic'', JBool False), (''tenantId'', JStr (sj_tenant s)), (''customerId'', JStr (sj_customer s))]"

definition refresh_claims :: "token_config \<Rightarrow> millis \<Rightarrow> subject \<Rightarrow> str \<Rightarrow> str \<Rightarrow> members" where
  "refresh_claims cfg now s session jti =
     [(''sub'', JStr (sj_email s)), (''userId'', JStr (sj_user s)), (''scopes'', JArr [JStr ''REFRESH_TOKEN'']), (''sessionId'', JStr session),
      (''exp'', JInt (now div 1000 + tc_refresh cfg)), (''iss'', JStr (tc_issuer cfg)), (''iat'', JInt (now div 1000)),
      (''isPublic'', JBool False), (''jti'', JStr jti)]"

section \<open>Presented tokens\<close>

record jwt_library =
  jl_sign :: "str \<Rightarrow> members \<Rightarrow> str"
  jl_alg :: "str \<Rightarrow> str option"
  jl_verify :: "str \<Rightarrow> millis \<Rightarrow> str \<Rightarrow> members option"

definition hmac_algorithms :: "str list" where "hmac_algorithms = [''HS256'', ''HS384'', ''HS512'']"

definition parse_and_validate :: "jwt_library \<Rightarrow> str \<Rightarrow> millis \<Rightarrow> str \<Rightarrow> members option" where
  "parse_and_validate lib key now tok =
     (case jl_alg lib tok of None \<Rightarrow> None | Some a \<Rightarrow> if a \<in> set hmac_algorithms then jl_verify lib key now tok else None)"

definition access_only :: "(str \<Rightarrow> members option) \<Rightarrow> str \<Rightarrow> members option" where
  "access_only parse tok =
     (case parse tok of None \<Rightarrow> None | Some c \<Rightarrow> if has_scope c ''REFRESH_TOKEN'' then None else Some c)"

text \<open>The token of a request, from the X-Authorization header or else the Authorization header.\<close>

definition extract_token :: "(str \<Rightarrow> members option) \<Rightarrow> str \<Rightarrow> str \<Rightarrow> members option" where
  "extract_token parse x_authorization authorization =
     (let header = (if x_authorization = [] then authorization else x_authorization)
      in if has_prefix header ''Bearer '' then access_only parse (trim_prefix header ''Bearer '') else None)"

text \<open>The library reads what it signed until it expires.\<close>

definition library_reads :: "jwt_library \<Rightarrow> str \<Rightarrow> members \<Rightarrow> bool" where
  "library_reads lib key c \<longleftrightarrow>
     jl_alg lib (jl_sign lib key c) = Some ''HS512'' \<and>
     (\<forall>now. jl_verify lib key now (jl_sign lib key c) =
        (case obj_get c ''exp'' of Some (JInt e) \<Rightarrow> if now < e * 1000 then Some c else None | _ \<Rightarrow> Some c))"

section \<open>Laws\<close>

lemma access_claim_simps [simp]:
  "obj_get (access_claims cfg now s session) ''scopes'' = Some (JArr [JStr (sj_authority s)])"
  "obj_get (access_claims cfg now s session) ''exp'' = Some (JInt (now div 1000 + tc_expiration cfg))"
  "claim_string (access_claims cfg now s session) ''userId'' = sj_user s"
  "claim_string (access_claims cfg now s session) ''tenantId'' = sj_tenant s"
  by (simp_all add: access_claims_def obj_get_def claim_string_def)

lemma refresh_claim_simps [simp]:
  "obj_get (refresh_claims cfg now s session jti) ''scopes'' = Some (JArr [JStr ''REFRESH_TOKEN''])"
  "obj_get (refresh_claims cfg now s session jti) ''exp'' = Some (JInt (now div 1000 + tc_refresh cfg))"
  "claim_string (refresh_claims cfg now s session jti) ''userId'' = sj_user s"
  by (simp_all add: refresh_claims_def obj_get_def claim_string_def)

lemma has_scope_simps [simp]:
  "has_scope (access_claims cfg now s session) want \<longleftrightarrow> want = sj_authority s"
  "has_scope (refresh_claims cfg now s session jti) want \<longleftrightarrow> want = ''REFRESH_TOKEN''"
  by (auto simp: has_scope_def)

lemma parse_signed:
  assumes "library_reads lib key c" "obj_get c ''exp'' = Some (JInt e)"
  shows "parse_and_validate lib key now (jl_sign lib key c) = (if now < e * 1000 then Some c else None)"
  using assms by (simp add: library_reads_def parse_and_validate_def hmac_algorithms_def)

lemma extract_bearer:
  "extract_token parse (''Bearer '' @ tok) auth = access_only parse tok"
  "extract_token parse [] (''Bearer '' @ tok) = access_only parse tok"
  by (simp_all add: extract_token_def trim_prefix_def)

end
