(* ===== verification/Accounts.thy ===== *)
theory Accounts
  imports AuthTokens Customers Throttle
begin

text \<open>
  User accounts (internal/user, the onboarding handlers of internal/system, and HandleUserById of
  internal/tenant): signing in, refreshing a session, activating an account and resetting its password,
  and creating, changing and deleting users. The tables tb_user and user_credentials are lists of rows; a
  NULL expiry is 0. A handler answers with an error or an \<open>account_answer\<close>; the tokens it issues
  appear as their claims.

  \<open>account_env\<close> holds what stays the same between requests: the token configuration, how Postgres
  reads a UUID literal, and bcrypt. \<open>draw\<close> holds what a request draws: the time, the identifiers and
  secrets it generates, and the verdict of the quota. Audit entries, logging and failures of the database
  other than violated constraints are not modelled.
\<close>

section \<open>The tables\<close>

record user_row =
  us_id :: str
  us_created :: int
  us_email :: str
  us_authority :: str
  us_tenant :: "str option"
  us_customer :: "str option"
  us_first :: "str option"
  us_last :: "str option"
  us_phone :: "str option"
  us_info :: "json option"
  us_version :: int

record cred_row =
  cr_user :: str
  cr_enabled :: bool
  cr_password :: "str option"
  cr_activate :: "str option"
  cr_activate_exp :: millis
  cr_reset :: "str option"
  cr_reset_exp :: millis
  cr_last_login :: "millis option"

record account_db =
  ac_users :: "user_row list"
  ac_creds :: "cred_row list"

record account_env =
  an_config :: token_config
  an_uuid :: "str \<Rightarrow> str option"
  an_hash :: "str \<Rightarrow> str option"
  an_check :: "str \<Rightarrow> str \<Rightarrow> bool"

record draw =
  dr_now :: millis
  dr_id :: str
  dr_session :: str
  dr_jti :: str
  dr_token :: str
  dr_quota :: bool

datatype account_answer = Tokens members members | UserBody members | LinkTo str | Done

type_synonym account_result = "(http_error + account_answer) \<times> account_db"

definition day :: millis where "day = 24 * 60 * 60 * 1000"

definition creds_of :: "account_db \<Rightarrow> str \<Rightarrow> cred_row option" where
  "creds_of db u = find (\<lambda>c. cr_user c = u) (ac_creds db)"

definition set_creds :: "str \<Rightarrow> (cred_row \<Rightarrow> cred_row) \<Rightarrow> account_db \<Rightarrow> account_db" where
  "set_creds u f db = db\<lparr>ac_creds := map (\<lambda>c. if cr_user c = u then f c else c) (ac_creds db)\<rparr>"

text \<open>The unique constraints of the two token columns: the token is another user's.\<close>

definition reset_taken :: "account_db \<Rightarrow> str \<Rightarrow> str \<Rightarrow> bool" where
  "reset_taken db u tok \<longleftrightarrow> list_ex (\<lambda>c. cr_user c \<noteq> u \<and> cr_reset c = Some tok) (ac_creds db)"

definition activate_taken :: "account_db \<Rightarrow> str \<Rightarrow> str \<Rightarrow> bool" where
  "activate_taken db u tok \<longleftrightarrow> list_ex (\<lambda>c. cr_user c \<noteq> u \<and> cr_activate c = Some tok) (ac_creds db)"

text \<open>A NULL password cannot be scanned into the string of the row.\<close>

definition find_user_by_email :: "account_db \<Rightarrow> str \<Rightarrow> (user_row \<times> cred_row) option" where
  "find_user_by_email db email =
     (case find (\<lambda>u. us_email u = email) (ac_users db) of
        None \<Rightarrow> None
      | Some u \<Rightarrow> (case creds_of db (us_id u) of
                    None \<Rightarrow> None | Some c \<Rightarrow> if cr_password c = None then None else Some (u, c)))"

definition find_user :: "account_env \<Rightarrow> account_db \<Rightarrow> str \<Rightarrow> (user_row \<times> cred_row) option" where
  "find_user env db ident =
     (case an_uuid env ident of
        None \<Rightarrow> None
      | Some i \<Rightarrow> (case find (\<lambda>u. us_id u = i) (ac_users db) of
                    None \<Rightarrow> None | Some u \<Rightarrow> map_option (Pair u) (creds_of db (us_id u))))"

section \<open>Sessions\<close>

definition opt_str :: "str option \<Rightarrow> str" where "opt_str v = (case v of None \<Rightarrow> [] | Some s \<Rightarrow> s)"

definition user_subject :: "user_row \<Rightarrow> cred_row \<Rightarrow> subject" where
  "user_subject u c =
     \<lparr>sj_user = us_id u, sj_email = us_email u, sj_authority = us_authority u, sj_tenant = opt_str (us_tenant u),
      sj_customer = opt_str (us_customer u), sj_enabled = cr_enabled c\<rparr>"

definition issue_tokens :: "account_env \<Rightarrow> draw \<Rightarrow> user_row \<times> cred_row \<Rightarrow> account_answer" where
  "issue_tokens env d uc =
     (case uc of (u, c) \<Rightarrow>
        Tokens (access_claims (an_config env) (dr_now d) (user_subject u c) (dr_session d))
               (refresh_claims (an_config env) (dr_now d) (user_subject u c) (dr_session d) (dr_jti d)))"

definition opt_json :: "str option \<Rightarrow> json" where "opt_json v = (case v of None \<Rightarrow> JNull | Some s \<Rightarrow> JStr s)"

definition build_response :: "user_row \<Rightarrow> members" where
  "build_response u =
     [(''id'', JObj [(''entityType'', JStr ''USER''), (''id'', JStr (us_id u))]), (''createdTime'', JInt (us_created u)),
      (''tenantId'', JObj [(''entityType'', JStr ''TENANT''), (''id'', JStr (opt_str (us_tenant u)))]),
      (''customerId'', JObj [(''entityType'', JStr ''CUSTOMER''), (''id'', JStr (opt_str (us_customer u)))]),
      (''email'', JStr (us_email u)), (''authority'', JStr (us_authority u)), (''name'', JStr (us_email u)), (''version'', JInt 1),
      (''firstName'', opt_json (us_first u)), (''lastName'', opt_json (us_last u)), (''phone'', opt_json (us_phone u)),
      (''additionalInfo'', case us_info u of None \<Rightarrow> JNull | Some v \<Rightarrow> v)]"

definition login_lookup :: "account_db \<Rightarrow> str \<Rightarrow> login_user option" where
  "login_lookup db email =
     (case find_user_by_email db email of
        None \<Rightarrow> None | Some (u, c) \<Rightarrow> Some \<lparr>lu_enabled = cr_enabled c, lu_hash = opt_str (cr_password c)\<rparr>)"

text \<open>A verified login issues the tokens of the user and notes the time.\<close>

definition account_login ::
  "account_env \<Rightarrow> draw \<Rightarrow> (str \<Rightarrow> str) \<Rightarrow> str \<Rightarrow> throttle_config \<Rightarrow> str \<Rightarrow> login_request \<Rightarrow> counters \<Rightarrow> account_db \<Rightarrow>
   counters \<times> account_result" where
  "account_login env d sha salt cfg http_method req m db =
     (case handle_login (login_lookup db) (an_check env) sha salt cfg http_method req m of
        (LoginPreflight, m') \<Rightarrow> (m', Inr Done, db)
      | (LoginError n msg, m') \<Rightarrow> (m', Inl (HttpError n msg), db)
      | (LoggedIn _, m') \<Rightarrow>
          (m', case decode_login (lq_body req) of
                 None \<Rightarrow> (Inl HandlerPanic, db)
               | Some (email, _) \<Rightarrow>
                   (case find_user_by_email db email of
                      None \<Rightarrow> (Inl HandlerPanic, db)
                    | Some (u, c) \<Rightarrow>
                        (Inr (issue_tokens env d (u, c)), set_creds (us_id u) (\<lambda>c. c\<lparr>cr_last_login := Some (dr_now d)\<rparr>) db))))"

definition auth_user :: "account_env \<Rightarrow> members option \<Rightarrow> account_db \<Rightarrow> account_result" where
  "auth_user env claims db =
     (case claims of
        None \<Rightarrow> (Inl (HttpError 401 ''Invalid or expired token''), db)
      | Some c \<Rightarrow>
          if claim_string c ''userId'' = [] then (Inl (HttpError 401 ''Invalid token claims''), db)
          else (case find_user env db (claim_string c ''userId'') of
                  None \<Rightarrow> (Inl (HttpError 404 ''User not found''), db)
                | Some (u, _) \<Rightarrow> (Inr (UserBody (build_response u)), db)))"

definition user_by_id :: "account_env \<Rightarrow> members option \<Rightarrow> str \<Rightarrow> account_db \<Rightarrow> account_result" where
  "user_by_id env claims ident db =
     (case claims of
        None \<Rightarrow> (Inl (HttpError 401 ''Authentication required''), db)
      | Some c \<Rightarrow>
          (case find_user env db ident of
             None \<Rightarrow> (Inl (HttpError 404 ''User not found''), db)
           | Some (u, _) \<Rightarrow>
               (let caller = claim_string c ''tenantId''
                in if \<not> is_sys_admin c \<and> (caller = [] \<or> opt_str (us_tenant u) \<noteq> caller)
                   then (Inl (HttpError 403 ''Cross-tenant access denied''), db)
                   else (Inr (UserBody (build_response u)), db))))"

text \<open>\<open>parse\<close> validates a token text; only the refresh handler takes tokens from a body.\<close>

definition token_refresh ::
  "account_env \<Rightarrow> draw \<Rightarrow> (str \<Rightarrow> members option) \<Rightarrow> str \<Rightarrow> raw_message \<Rightarrow> account_db \<Rightarrow> account_result" where
  "token_refresh env d parse http_method raw db =
     (if http_method \<noteq> ''POST'' then (Inl (HttpError 405 ''Method not allowed''), db)
      else case decode_strings [''refreshToken''] raw of
        Some [tok] \<Rightarrow>
          (case parse tok of
             None \<Rightarrow> (Inl (HttpError 401 ''Invalid or expired refresh token''), db)
           | Some c \<Rightarrow>
               if \<not> has_scope c ''REFRESH_TOKEN'' then (Inl (HttpError 401 ''Token is not a refresh token''), db)
               else (case find_user env db (claim_string c ''userId'') of
                       None \<Rightarrow> (Inl (HttpError 401 ''User not found or disabled''), db)
                     | Some (u, cr) \<Rightarrow>
                         if \<not> cr_enabled cr then (Inl (HttpError 401 ''User not found or disabled''), db)
                         else (Inr (issue_tokens env d (u, cr)), db)))
      | _ \<Rightarrow> (Inl (HttpError 400 ''Invalid request body''), db))"

section \<open>Activation and reset\<close>

text \<open>The answer does not tell whether the address is known.\<close>

definition reset_by_email :: "draw \<Rightarrow> raw_message \<Rightarrow> account_db \<Rightarrow> account_result" where
  "reset_by_email d raw db =
     (case decode_strings [''email''] raw of
        Some [email] \<Rightarrow>
          if email = [] then (Inl (HttpError 400 ''Missing email''), db)
          else (case find_user_by_email db email of
                  None \<Rightarrow> (Inr Done, db)
                | Some (u, _) \<Rightarrow>
                    (Inr Done, if reset_taken db (us_id u) (dr_token d) then db
                               else set_creds (us_id u) (\<lambda>c. c\<lparr>cr_reset := Some (dr_token d), cr_reset_exp := dr_now d + day\<rparr>) db))
      | _ \<Rightarrow> (Inl (HttpError 400 ''Invalid JSON''), db))"

definition expired :: "millis \<Rightarrow> millis \<Rightarrow> bool" where
  "expired now deadline \<longleftrightarrow> 0 < deadline \<and> deadline < now"

text \<open>The user is read again after the update; a failure there is an empty answer on a reset, and a panic
  on an activation.\<close>

definition reset_password :: "account_env \<Rightarrow> draw \<Rightarrow> raw_message \<Rightarrow> account_db \<Rightarrow> account_result" where
  "reset_password env d raw db =
     (case decode_strings [''resetToken'', ''password''] raw of
        Some [tok, password] \<Rightarrow>
          if tok = [] \<or> password = [] then (Inl (HttpError 400 ''Missing resetToken or password''), db)
          else (case find (\<lambda>c. cr_reset c = Some tok) (ac_creds db) of
                  None \<Rightarrow> (Inl (HttpError 401 ''Invalid or expired reset token''), db)
                | Some c \<Rightarrow>
                    if expired (dr_now d) (cr_reset_exp c) then (Inl (HttpError 401 ''Reset token expired''), db)
                    else (case an_hash env password of
                            None \<Rightarrow> (Inl (HttpError 500 ''Failed to hash password''), db)
                          | Some h \<Rightarrow>
                              (let db' = set_creds (cr_user c) (\<lambda>c. c\<lparr>cr_password := Some h, cr_reset := None, cr_reset_exp := 0,
                                           cr_enabled := True, cr_activate := None, cr_activate_exp := 0\<rparr>) db
                               in (Inr (case find_user env db' (cr_user c) of None \<Rightarrow> Done | Some uc \<Rightarrow> issue_tokens env d uc), db'))))
      | _ \<Rightarrow> (Inl (HttpError 400 ''Invalid JSON''), db))"

definition activate :: "account_env \<Rightarrow> draw \<Rightarrow> raw_message \<Rightarrow> account_db \<Rightarrow> account_result" where
  "activate env d raw db =
     (case decode_strings [''activateToken'', ''password''] raw of
        Some [tok, password] \<Rightarrow>
          if tok = [] \<or> password = [] then (Inl (HttpError 400 ''Missing activateToken or password''), db)
          else (case find (\<lambda>c. cr_activate c = Some tok) (ac_creds db) of
                  None \<Rightarrow> (Inl (HttpError 401 ''Invalid or expired activation token''), db)
                | Some c \<Rightarrow>
                    if expired (dr_now d) (cr_activate_exp c) then (Inl (HttpError 401 ''Activation token expired''), db)
                    else (case an_hash env password of
                            None \<Rightarrow> (Inl (HttpError 500 ''Failed to hash password''), db)
                          | Some h \<Rightarrow>
                              (let db' = set_creds (cr_user c) (\<lambda>c. c\<lparr>cr_password := Some h, cr_enabled := True,
                                           cr_activate := None, cr_activate_exp := 0\<rparr>) db
                               in (case find_user env db' (cr_user c) of None \<Rightarrow> Inl HandlerPanic | Some uc \<Rightarrow> Inr (issue_tokens env d uc), db'))))
      | _ \<Rightarrow> (Inl (HttpError 400 ''Invalid JSON''), db))"

definition check_reset :: "draw \<Rightarrow> str \<Rightarrow> account_db \<Rightarrow> account_result" where
  "check_reset d tok db =
     (if tok = [] then (Inl (HttpError 400 ''Missing resetToken''), db)
      else case find (\<lambda>c. cr_reset c = Some tok) (ac_creds db) of
        None \<Rightarrow> (Inl (HttpError 401 ''Invalid reset token''), db)
      | Some c \<Rightarrow> (if expired (dr_now d) (cr_reset_exp c) then Inl (HttpError 401 ''Reset token expired'') else Inr Done, db))"

definition check_activate :: "draw \<Rightarrow> str \<Rightarrow> account_db \<Rightarrow> account_result" where
  "check_activate d tok db =
     (if tok = [] then (Inl (HttpError 400 ''Missing activateToken''), db)
      else case find (\<lambda>c. cr_activate c = Some tok) (ac_creds db) of
        None \<Rightarrow> (Inl (HttpError 401 ''Invalid activation token''), db)
      | Some c \<Rightarrow> (if expired (dr_now d) (cr_activate_exp c) then Inl (HttpError 401 ''Activation token expired'') else Inr Done, db))"

section \<open>Onboarding\<close>

fun first_text :: "members \<Rightarrow> str list \<Rightarrow> str" where
  "first_text body [] = []"
| "first_text body (k # ks) = (let s = trim_space (as_string (obj_get body k)) in if s \<noteq> [] then s else first_text body ks)"

text \<open>A usable token of the user, minted when none is pending.\<close>

definition ensure_activation_token :: "account_env \<Rightarrow> draw \<Rightarrow> str \<Rightarrow> str \<Rightarrow> account_db \<Rightarrow> (str \<times> str) option \<times> account_db" where
  "ensure_activation_token env d ident tenant db =
     (case (an_uuid env ident, an_uuid env tenant) of
        (Some i, Some t) \<Rightarrow>
          (case find (\<lambda>u. us_id u = i \<and> us_tenant u = Some t) (ac_users db) of
             None \<Rightarrow> (None, db)
           | Some u \<Rightarrow>
               (let pending = (case creds_of db i of None \<Rightarrow> None
                    | Some c \<Rightarrow> (case cr_activate c of None \<Rightarrow> None
                        | Some tok \<Rightarrow> if tok \<noteq> [] \<and> (cr_activate_exp c = 0 \<or> dr_now d < cr_activate_exp c) then Some tok else None))
                in case pending of
                     Some tok \<Rightarrow> (Some (tok, us_email u), db)
                   | None \<Rightarrow>
                       if activate_taken db i (dr_token d) then (None, db)
                       else (Some (dr_token d, us_email u),
                       set_creds i (\<lambda>c. c\<lparr>cr_activate := Some (dr_token d), cr_activate_exp := dr_now d + day\<rparr>) db)))
      | _ \<Rightarrow> (None, db))"

definition activation_link_info :: "account_env \<Rightarrow> draw \<Rightarrow> members option \<Rightarrow> str \<Rightarrow> account_db \<Rightarrow> account_result" where
  "activation_link_info env d claims ident db =
     (case claims of
        None \<Rightarrow> (Inl (HttpError 401 ''Authentication required''), db)
      | Some c \<Rightarrow>
          (case ensure_activation_token env d ident (claim_string c ''tenantId'') db of
             (None, db') \<Rightarrow> (Inl (HttpError 404 ''User not found''), db')
           | (Some (tok, _), db') \<Rightarrow> (Inr (LinkTo tok), db')))"

definition send_activation_mail :: "account_env \<Rightarrow> draw \<Rightarrow> members option \<Rightarrow> str \<Rightarrow> raw_message \<Rightarrow> account_db \<Rightarrow> account_result" where
  "send_activation_mail env d claims query_email raw db =
     (case claims of
        None \<Rightarrow> (Inl (HttpError 401 ''Authentication required''), db)
      | Some c \<Rightarrow>
          (let tenant = claim_string c ''tenantId'';
               body = (case body_map raw of Some kvs \<Rightarrow> kvs | None \<Rightarrow> []);
               email = (if trim_space query_email \<noteq> [] then trim_space query_email else first_text body [''email''])
           in if email = [] then (Inl (HttpError 400 ''email is required''), db)
              else (case an_uuid env tenant of
                      None \<Rightarrow> (Inl (HttpError 404 ''User not found''), db)
                    | Some t \<Rightarrow>
                        (case find (\<lambda>u. us_email u = email \<and> us_tenant u = Some t) (ac_users db) of
                           None \<Rightarrow> (Inl (HttpError 404 ''User not found''), db)
                         | Some u \<Rightarrow>
                             (case ensure_activation_token env d (us_id u) tenant db of
                                (None, db') \<Rightarrow> (Inl (HttpError 500 ''Failed to prepare activation''), db')
                              | (Some (tok, _), db') \<Rightarrow> (Inr (LinkTo tok), db'))))))"

definition activate_by_code :: "draw \<Rightarrow> raw_message \<Rightarrow> account_db \<Rightarrow> account_result" where
  "activate_by_code d raw db =
     (let body = (case body_map raw of Some kvs \<Rightarrow> kvs | None \<Rightarrow> []);
          code = first_text body [''emailCode'', ''activateToken'', ''code'']
      in if code = [] then (Inl (HttpError 400 ''emailCode is required''), db)
         else (case find (\<lambda>c. cr_activate c = Some code) (ac_creds db) of
                 None \<Rightarrow> (Inl (HttpError 404 ''Invalid or expired activation code''), db)
               | Some c \<Rightarrow>
                   if expired (dr_now d) (cr_activate_exp c) then (Inl (HttpError 404 ''Invalid or expired activation code''), db)
                   else (Inr Done, set_creds (cr_user c) (\<lambda>c. c\<lparr>cr_enabled := True, cr_activate := None, cr_activate_exp := 0\<rparr>) db)))"

text \<open>The link of a pending token, for any caller with a token.\<close>

definition activation_link :: "account_env \<Rightarrow> members option \<Rightarrow> str \<Rightarrow> account_db \<Rightarrow> account_result" where
  "activation_link env claims ident db =
     (case claims of
        None \<Rightarrow> (Inl (HttpError 401 ''Authentication required''), db)
      | Some _ \<Rightarrow>
          (case Option.bind (Option.bind (an_uuid env ident) (creds_of db)) cr_activate of
             None \<Rightarrow> (Inl (HttpError 404 ''Activation token not found''), db)
           | Some tok \<Rightarrow> (Inr (LinkTo tok), db)))"

section \<open>Users\<close>

fun caller_role_loop :: "json list \<Rightarrow> str \<times> bool \<Rightarrow> str \<times> bool" where
  "caller_role_loop [] acc = acc"
| "caller_role_loop (JStr s # xs) (authority, sys) =
     caller_role_loop xs (if s = ''SYS_ADMIN'' then (s, True) else (if authority = [] then s else authority, sys))"
| "caller_role_loop (_ # xs) acc = caller_role_loop xs acc"

definition caller_role :: "members \<Rightarrow> str \<times> bool" where
  "caller_role claims = caller_role_loop (as_array (obj_get claims ''scopes'')) ([], False)"

definition authorize_authority :: "str \<Rightarrow> str \<Rightarrow> bool \<Rightarrow> str \<Rightarrow> str \<Rightarrow> bool \<Rightarrow> bool \<Rightarrow> bool" where
  "authorize_authority caller caller_tenant sys target target_tenant is_self changing \<longleftrightarrow>
     (if \<not> changing then True
      else if is_self \<and> \<not> sys then False
      else if target = ''SYS_ADMIN'' then sys
      else if target = ''TENANT_ADMIN'' \<or> target = ''CUSTOMER_USER''
      then sys \<or> (caller = ''TENANT_ADMIN'' \<and> caller_tenant \<noteq> [] \<and> target_tenant = caller_tenant)
      else sys)"

definition nil_uuid :: str where "nil_uuid = ''13814000-1dd2-11b2-8080-808080808080''"

text \<open>A nullable UUID column: \<open>None\<close> is a text that is no UUID.\<close>

definition null_uuid :: "(str \<Rightarrow> str option) \<Rightarrow> str \<Rightarrow> str option option" where
  "null_uuid uuid s = (if s = [] \<or> s = nil_uuid then Some None else map_option Some (uuid s))"

record user_fields =
  uf_email :: str
  uf_authority :: str
  uf_first :: str
  uf_last :: str
  uf_phone :: str
  uf_info :: "json option"
  uf_customer :: str

definition user_fields_of :: "members \<Rightarrow> user_fields" where
  "user_fields_of body =
     \<lparr>uf_email = as_string (obj_get body ''email''),
      uf_authority = (let a = as_string (obj_get body ''authority'') in if a = [] then ''TENANT_ADMIN'' else a),
      uf_first = as_string (obj_get body ''firstName''), uf_last = as_string (obj_get body ''lastName''),
      uf_phone = as_string (obj_get body ''phone''), uf_info = json_column (obj_get body ''additionalInfo''),
      uf_customer = extract_entity_id body ''customerId''\<rparr>"

definition user_columns_fit :: "user_fields \<Rightarrow> bool" where
  "user_columns_fit f \<longleftrightarrow> list_all (fits_column 255) [uf_email f, uf_authority f, uf_first f, uf_last f, uf_phone f]"

definition email_taken :: "account_db \<Rightarrow> str \<Rightarrow> str \<Rightarrow> bool" where
  "email_taken db ident email \<longleftrightarrow> list_ex (\<lambda>u. us_email u = email \<and> us_id u \<noteq> ident) (ac_users db)"

definition write_user :: "user_fields \<Rightarrow> str option \<Rightarrow> user_row \<Rightarrow> user_row" where
  "write_user f customer u =
     u\<lparr>us_email := uf_email f, us_authority := uf_authority f, us_first := null_str (uf_first f), us_last := null_str (uf_last f),
       us_phone := null_str (uf_phone f), us_info := uf_info f, us_customer := customer, us_version := us_version u + 1\<rparr>"

definition reload_user :: "account_env \<Rightarrow> str \<Rightarrow> str \<Rightarrow> account_db \<Rightarrow> account_result" where
  "reload_user env ident failed db =
     (case find_user env db ident of
        None \<Rightarrow> (Inl (HttpError 500 failed), db) | Some (u, _) \<Rightarrow> (Inr (UserBody (build_response u)), db))"

definition user_update :: "account_env \<Rightarrow> members \<Rightarrow> str \<Rightarrow> user_fields \<Rightarrow> account_db \<Rightarrow> account_result" where
  "user_update env claims ident f db =
     (let tenant = claim_string claims ''tenantId''; is_self = (ident = claim_string claims ''userId'')
      in case caller_role claims of (caller, sys) \<Rightarrow>
         (case Option.bind (an_uuid env ident) (\<lambda>i. find (\<lambda>u. us_id u = i) (ac_users db)) of
            None \<Rightarrow> (Inl (HttpError 404 ''User not found''), db)
          | Some u \<Rightarrow>
              (case us_tenant u of
                 None \<Rightarrow> (Inl (HttpError 404 ''User not found''), db)
               | Some existing \<Rightarrow>
                   if existing \<noteq> tenant \<and> \<not> sys then (Inl (HttpError 403 ''Cross-tenant update denied''), db)
                   else if \<not> sys \<and> \<not> is_self \<and> caller \<noteq> ''TENANT_ADMIN''
                     then (Inl (HttpError 403 ''Insufficient privileges to update this user''), db)
                   else if \<not> authorize_authority caller tenant sys (uf_authority f) existing is_self (uf_authority f \<noteq> us_authority u)
                     then (Inl (HttpError 403 ''Insufficient privileges to set authority''), db)
                   else (case null_uuid (an_uuid env) (uf_customer f) of
                           None \<Rightarrow> (Inl (HttpError 500 ''Failed to update user''), db)
                         | Some customer \<Rightarrow>
                             if \<not> user_columns_fit f \<or> email_taken db (us_id u) (uf_email f)
                               then (Inl (HttpError 500 ''Failed to update user''), db)
                             else reload_user env ident ''User saved but could not be reloaded''
                                    (db\<lparr>ac_users := map (\<lambda>v. if us_id v = us_id u then write_user f customer v else v) (ac_users db)\<rparr>)))))"

definition new_user :: "draw \<Rightarrow> user_fields \<Rightarrow> str \<Rightarrow> str option \<Rightarrow> user_row" where
  "new_user d f tenant customer =
     \<lparr>us_id = dr_id d, us_created = dr_now d, us_email = uf_email f, us_authority = uf_authority f, us_tenant = Some tenant,
      us_customer = customer, us_first = null_str (uf_first f), us_last = null_str (uf_last f),
      us_phone = null_str (uf_phone f), us_info = uf_info f, us_version = 1\<rparr>"

text \<open>The credentials of a new user; a violated constraint leaves the user without.\<close>

definition new_creds :: "draw \<Rightarrow> account_db \<Rightarrow> cred_row list" where
  "new_creds d db =
     (if activate_taken db (dr_id d) (dr_token d) \<or> creds_of db (dr_id d) \<noteq> None then []
      else [\<lparr>cr_user = dr_id d, cr_enabled = False, cr_password = None, cr_activate = Some (dr_token d),
             cr_activate_exp = dr_now d + day, cr_reset = None, cr_reset_exp = 0, cr_last_login = None\<rparr>])"

definition user_create :: "account_env \<Rightarrow> draw \<Rightarrow> members \<Rightarrow> user_fields \<Rightarrow> account_db \<Rightarrow> account_result" where
  "user_create env d claims f db =
     (let tenant = claim_string claims ''tenantId''
      in case caller_role claims of (caller, sys) \<Rightarrow>
         if \<not> authorize_authority caller tenant sys (uf_authority f) tenant False True
           then (Inl (HttpError 403 ''Insufficient privileges to set authority''), db)
         else if \<not> dr_quota d then (Inl (HttpError 403 ''Tenant quota exceeded''), db)
         else (case (an_uuid env tenant, null_uuid (an_uuid env) (uf_customer f)) of
                 (Some t, Some customer) \<Rightarrow>
                   if \<not> user_columns_fit f \<or> email_taken db (dr_id d) (uf_email f) \<or> list_ex (\<lambda>u. us_id u = dr_id d) (ac_users db)
                     then (Inl (HttpError 500 ''Failed to create user''), db)
                   else reload_user env (dr_id d) ''User created but could not be reloaded''
                     (db\<lparr>ac_users := ac_users db @ [new_user d f t customer], ac_creds := ac_creds db @ new_creds d db\<rparr>)
               | _ \<Rightarrow> (Inl (HttpError 500 ''Failed to create user''), db)))"

definition user_save :: "account_env \<Rightarrow> draw \<Rightarrow> members option \<Rightarrow> raw_message \<Rightarrow> account_db \<Rightarrow> account_result" where
  "user_save env d claims raw db =
     (case claims of
        None \<Rightarrow> (Inl (HttpError 401 ''Authentication required''), db)
      | Some c \<Rightarrow>
          (case body_map raw of
             None \<Rightarrow> (Inl (HttpError 400 ''Invalid JSON''), db)
           | Some body \<Rightarrow>
               (let f = user_fields_of body; ident = extract_entity_id body ''id''
                in if uf_email f = [] then (Inl (HttpError 400 ''Missing email''), db)
                   else if ident \<noteq> [] then user_update env c ident f db
                   else user_create env d c f db)))"

text \<open>Deleting a user asks for its tenant only.\<close>

definition user_delete :: "account_env \<Rightarrow> members option \<Rightarrow> str \<Rightarrow> account_db \<Rightarrow> account_result" where
  "user_delete env claims ident db =
     (case claims of
        None \<Rightarrow> (Inl (HttpError 401 ''Authentication required''), db)
      | Some c \<Rightarrow>
          (case Option.bind (an_uuid env ident) (\<lambda>i. find (\<lambda>u. us_id u = i) (ac_users db)) of
             None \<Rightarrow> (Inl (HttpError 404 ''User not found''), db)
           | Some u \<Rightarrow>
               (case us_tenant u of
                  None \<Rightarrow> (Inl (HttpError 404 ''User not found''), db)
                | Some t \<Rightarrow>
                    if t \<noteq> claim_string c ''tenantId'' then (Inl (HttpError 403 ''Cross-tenant delete denied''), db)
                    else (Inr Done, db\<lparr>ac_users := filter (\<lambda>v. us_id v \<noteq> us_id u) (ac_users db),
                                       ac_creds := filter (\<lambda>v. cr_user v \<noteq> us_id u) (ac_creds db)\<rparr>))))"

text \<open>A NULL password cannot be read into the string.\<close>

definition change_password :: "account_env \<Rightarrow> draw \<Rightarrow> members option \<Rightarrow> raw_message \<Rightarrow> account_db \<Rightarrow> account_result" where
  "change_password env d claims raw db =
     (case claims of
        None \<Rightarrow> (Inl (HttpError 401 ''Authentication required''), db)
      | Some c \<Rightarrow>
          (let ident = claim_string c ''userId''
           in if ident = [] then (Inl (HttpError 401 ''Invalid token''), db)
              else (case decode_strings [''currentPassword'', ''newPassword''] raw of
                      Some [current, new] \<Rightarrow>
                        if new = [] then (Inl (HttpError 400 ''Missing newPassword''), db)
                        else (case Option.bind (Option.bind (an_uuid env ident) (creds_of db)) cr_password of
                                None \<Rightarrow> (Inl (HttpError 404 ''User credentials not found''), db)
                              | Some stored \<Rightarrow>
                                  if stored \<noteq> [] \<and> \<not> an_check env stored current then (Inl (HttpError 401 ''Invalid current password''), db)
                                  else (case an_hash env new of
                                          None \<Rightarrow> (Inl (HttpError 500 ''Failed to hash password''), db)
                                        | Some h \<Rightarrow>
                                            (let db' = set_creds (the (an_uuid env ident))
                                                   (\<lambda>c. c\<lparr>cr_password := Some h, cr_reset := None, cr_reset_exp := 0\<rparr>) db
                                             in (Inr (case find_user env db' ident of None \<Rightarrow> Done | Some uc \<Rightarrow> issue_tokens env d uc), db'))))
                    | _ \<Rightarrow> (Inl (HttpError 400 ''Invalid JSON''), db))))"

definition logout :: "members option \<Rightarrow> account_db \<Rightarrow> account_result" where
  "logout claims db = (case claims of None \<Rightarrow> Inl (HttpError 401 ''Authentication required'') | Some _ \<Rightarrow> Inr Done, db)"

section \<open>The world of sessions\<close>

text \<open>A world holds the tables, the counters of the throttle and the claims of every token issued. Tokens
  cannot be forged: a text is a valid token when it is the signature of issued claims that have not expired.\<close>

record account_world =
  aw_db :: account_db
  aw_counters :: counters
  aw_issued :: "members list"

datatype account_request =
    Login str login_request
  | AuthUser
  | UserById str
  | Refresh str raw_message
  | ResetByEmail raw_message
  | ResetPassword raw_message
  | Activate raw_message
  | CheckReset str
  | CheckActivate str
  | LinkInfo str
  | SendMail str raw_message
  | ActivateByCode raw_message
  | ActivationLink str
  | SaveUser raw_message
  | DeleteUser str
  | ChangePassword raw_message
  | Logout

record account_call =
  al_x_authorization :: str
  al_authorization :: str
  al_draw :: draw
  al_request :: account_request

record account_setting =
  as_env :: account_env
  as_sign :: "members \<Rightarrow> str"
  as_sha :: "str \<Rightarrow> str"
  as_salt :: str
  as_throttle :: throttle_config

definition live_token :: "millis \<Rightarrow> members \<Rightarrow> bool" where
  "live_token now c \<longleftrightarrow> (case obj_get c ''exp'' of Some (JInt e) \<Rightarrow> now < e * 1000 | _ \<Rightarrow> True)"

definition parse_issued :: "account_setting \<Rightarrow> account_world \<Rightarrow> millis \<Rightarrow> str \<Rightarrow> members option" where
  "parse_issued s w now tok = find (\<lambda>c. as_sign s c = tok \<and> live_token now c) (aw_issued w)"

definition account_respond ::
  "account_setting \<Rightarrow> account_world \<Rightarrow> account_call \<Rightarrow> counters \<times> account_result" where
  "account_respond s w a =
     (let env = as_env s; d = al_draw a; db = aw_db w; m = aw_counters w; parse = parse_issued s w (dr_now d);
          claims = extract_token parse (al_x_authorization a) (al_authorization a)
      in case al_request a of
           Login http_method req \<Rightarrow> account_login env d (as_sha s) (as_salt s) (as_throttle s) http_method req m db
         | AuthUser \<Rightarrow> (m, auth_user env claims db)
         | UserById ident \<Rightarrow> (m, user_by_id env claims ident db)
         | Refresh http_method raw \<Rightarrow> (m, token_refresh env d parse http_method raw db)
         | ResetByEmail raw \<Rightarrow> (m, reset_by_email d raw db)
         | ResetPassword raw \<Rightarrow> (m, reset_password env d raw db)
         | Activate raw \<Rightarrow> (m, activate env d raw db)
         | CheckReset tok \<Rightarrow> (m, check_reset d tok db)
         | CheckActivate tok \<Rightarrow> (m, check_activate d tok db)
         | LinkInfo ident \<Rightarrow> (m, activation_link_info env d claims ident db)
         | SendMail email raw \<Rightarrow> (m, send_activation_mail env d claims email raw db)
         | ActivateByCode raw \<Rightarrow> (m, activate_by_code d raw db)
         | ActivationLink ident \<Rightarrow> (m, activation_link env claims ident db)
         | SaveUser raw \<Rightarrow> (m, user_save env d claims raw db)
         | DeleteUser ident \<Rightarrow> (m, user_delete env claims ident db)
         | ChangePassword raw \<Rightarrow> (m, change_password env d claims raw db)
         | Logout \<Rightarrow> (m, logout claims db))"

definition tokens_of :: "http_error + account_answer \<Rightarrow> members list" where
  "tokens_of r = (case r of Inr (Tokens a f) \<Rightarrow> [a, f] | _ \<Rightarrow> [])"

definition account_step :: "account_setting \<Rightarrow> account_call \<Rightarrow> account_world \<Rightarrow> account_world" where
  "account_step s a w =
     (case account_respond s w a of (m, r, db) \<Rightarrow> \<lparr>aw_db = db, aw_counters = m, aw_issued = aw_issued w @ tokens_of r\<rparr>)"

definition account_run :: "account_setting \<Rightarrow> account_call list \<Rightarrow> account_world \<Rightarrow> account_world" where
  "account_run s calls w = fold (account_step s) calls w"

end
