(* ===== verification/AccountProps.thy ===== *)
theory AccountProps
  imports Accounts
begin

text \<open>
  What the accounts promise: privileges never come from nothing, a reset or activation token is used at
  most once, a session token is read back as what it was issued for and refresh tokens authenticate
  nothing. Concrete runs show how accounts are taken over through activation links, and what else a
  caller can do to other users.
\<close>

section \<open>Effects of a request\<close>

definition answers_from :: "account_env \<Rightarrow> draw \<Rightarrow> account_db \<Rightarrow> http_error + account_answer \<Rightarrow> bool" where
  "answers_from env d db r \<longleftrightarrow>
     (\<forall>a f. r = Inr (Tokens a f) \<longrightarrow> (\<exists>u c. u \<in> set (ac_users db) \<and> Tokens a f = issue_tokens env d (u, c)))"

text \<open>The secrets after a request: those from before and the one drawn.\<close>

definition secrets_from :: "draw \<Rightarrow> account_db \<Rightarrow> account_db \<Rightarrow> bool" where
  "secrets_from d db db' \<longleftrightarrow>
     (\<forall>c' \<in> set (ac_creds db').
        (cr_reset c' \<in> {None, Some (dr_token d)} \<or> (\<exists>c \<in> set (ac_creds db). cr_reset c = cr_reset c')) \<and>
        (cr_activate c' \<in> {None, Some (dr_token d)} \<or> (\<exists>c \<in> set (ac_creds db). cr_activate c = cr_activate c')))"

definition same_users :: "account_env \<Rightarrow> draw \<Rightarrow> account_db \<Rightarrow> account_result \<Rightarrow> bool" where
  "same_users env d db res \<longleftrightarrow> (case res of (r, db') \<Rightarrow> ac_users db' = ac_users db \<and> answers_from env d db' r \<and> secrets_from d db db')"

lemma set_creds_users [simp]: "ac_users (set_creds u f db) = ac_users db"
  by (simp add: set_creds_def)

lemma secrets_refl [simp]: "secrets_from d db db"
  by (auto simp: secrets_from_def)

lemma secrets_set_creds:
  assumes "\<And>c. cr_reset (f c) \<in> {cr_reset c, None, Some (dr_token d)}" "\<And>c. cr_activate (f c) \<in> {cr_activate c, None, Some (dr_token d)}"
  shows "secrets_from d db (set_creds u f db)"
  unfolding secrets_from_def
proof
  fix c'
  assume "c' \<in> set (ac_creds (set_creds u f db))"
  then obtain c where c: "c \<in> set (ac_creds db)" "c' = f c \<or> c' = c" by (auto simp: set_creds_def split: if_splits)
  then have "cr_reset c' \<in> {cr_reset c, None, Some (dr_token d)}" "cr_activate c' \<in> {cr_activate c, None, Some (dr_token d)}"
    using assms [of c] by auto
  with c(1) show "(cr_reset c' \<in> {None, Some (dr_token d)} \<or> (\<exists>c \<in> set (ac_creds db). cr_reset c = cr_reset c')) \<and>
      (cr_activate c' \<in> {None, Some (dr_token d)} \<or> (\<exists>c \<in> set (ac_creds db). cr_activate c = cr_activate c'))" by auto
qed

lemma answers_other [simp]:
  "answers_from env d db (Inl e)" "answers_from env d db (Inr (UserBody b))" "answers_from env d db (Inr (LinkTo t))"
  "answers_from env d db (Inr Done)"
  by (simp_all add: answers_from_def)

lemma find_user_in: "find_user env db i = Some (u, c) \<Longrightarrow> u \<in> set (ac_users db)"
  by (auto simp: find_user_def find_Some_iff split: option.splits)

lemma find_email_in: "find_user_by_email db i = Some (u, c) \<Longrightarrow> u \<in> set (ac_users db)"
  by (auto simp: find_user_by_email_def find_Some_iff split: option.splits if_splits)

lemma answers_issue: "u \<in> set (ac_users db) \<Longrightarrow> answers_from env d db (Inr (issue_tokens env d (u, c)))"
  unfolding answers_from_def by (metis Inr_inject)

lemma answers_reread: "find_user env db i = Some uc \<Longrightarrow> answers_from env d db (Inr (issue_tokens env d uc))"
  by (cases uc) (auto intro: answers_issue find_user_in)

lemma same_usersI:
  "same_users env d db (Inl e, db)" "same_users env d db (Inr (UserBody b), db)" "same_users env d db (Inr (LinkTo t), db)"
  "same_users env d db (Inr Done, db)"
  by (simp_all add: same_users_def)

lemmas request_simps = same_usersI same_users_def answers_issue find_user_in find_email_in

lemma same_login: "same_users env d db (snd (account_login env d sha salt cfg meth req m db))"
proof (cases "handle_login (login_lookup db) (an_check env) sha salt cfg meth req m")
  case (Pair v m')
  show ?thesis
  proof (cases v)
    case (LoggedIn x)
    have "secrets_from d db (set_creds i (\<lambda>c. c\<lparr>cr_last_login := Some (dr_now d)\<rparr>) db)" for i by (rule secrets_set_creds) auto
    then show ?thesis using Pair LoggedIn
      by (auto simp: account_login_def request_simps split: option.split intro: answers_issue dest: find_email_in)
  qed (use Pair in \<open>simp_all add: account_login_def same_usersI\<close>)
qed

lemma same_refresh: "same_users env d db (token_refresh env d parse meth raw db)"
  unfolding token_refresh_def by (auto simp: request_simps split: option.split list.split intro: answers_issue dest: find_user_in)

lemma same_reads:
  "same_users env d db (auth_user env claims db)" "same_users env d db (user_by_id env claims ident db)"
  "same_users env d db (check_reset d tok db)" "same_users env d db (check_activate d tok db)" "same_users env d db (activation_link env claims ident db)"
  "same_users env d db (logout claims db)"
  by (simp_all add: auth_user_def user_by_id_def check_reset_def check_activate_def activation_link_def logout_def Let_def same_usersI split: option.split)

lemma same_reset_by_email: "same_users env d db (reset_by_email d raw db)"
proof -
  have "secrets_from d db (set_creds i (\<lambda>c. c\<lparr>cr_reset := Some (dr_token d), cr_reset_exp := n\<rparr>) db)" for i n by (rule secrets_set_creds) auto
  then show ?thesis unfolding reset_by_email_def by (auto simp: request_simps split: option.split list.split)
qed

lemma same_reset_password: "same_users env d db (reset_password env d raw db)"
proof -
  have "secrets_from d db (set_creds i (\<lambda>c. c\<lparr>cr_password := Some h, cr_reset := None, cr_reset_exp := 0, cr_enabled := True,
      cr_activate := None, cr_activate_exp := 0\<rparr>) db)" for i h by (rule secrets_set_creds) auto
  then show ?thesis unfolding reset_password_def Let_def by (auto simp: same_users_def split: option.split list.split intro: answers_reread)
qed

lemma same_activate: "same_users env d db (activate env d raw db)"
proof -
  have "secrets_from d db (set_creds i (\<lambda>c. c\<lparr>cr_password := Some h, cr_enabled := True, cr_activate := None, cr_activate_exp := 0\<rparr>) db)" for i h
    by (rule secrets_set_creds) auto
  then show ?thesis unfolding activate_def Let_def by (auto simp: same_users_def split: option.split list.split intro: answers_reread)
qed

lemma same_activate_by_code: "same_users env d db (activate_by_code d raw db)"
proof -
  have "secrets_from d db (set_creds i (\<lambda>c. c\<lparr>cr_enabled := True, cr_activate := None, cr_activate_exp := 0\<rparr>) db)" for i
    by (rule secrets_set_creds) auto
  then show ?thesis unfolding activate_by_code_def Let_def by (auto simp: same_users_def split: option.split)
qed

lemma ensure_keeps:
  assumes "ensure_activation_token env d ident tenant db = (r, db')"
  shows "ac_users db' = ac_users db \<and> secrets_from d db db'"
proof -
  have "secrets_from d db (set_creds i (\<lambda>c. c\<lparr>cr_activate := Some (dr_token d), cr_activate_exp := n\<rparr>) db)" for i n
    by (rule secrets_set_creds) auto
  then show ?thesis using assms unfolding ensure_activation_token_def Let_def by (auto split: option.splits if_splits)
qed

lemma same_link_info: "same_users env d db (activation_link_info env d claims ident db)"
  unfolding activation_link_info_def by (auto simp: same_users_def split: option.split prod.split dest!: ensure_keeps)

lemma same_send_mail: "same_users env d db (send_activation_mail env d claims email raw db)"
  unfolding send_activation_mail_def Let_def by (auto simp: same_users_def split: option.split prod.split dest!: ensure_keeps)

lemma same_change_password: "same_users env d db (change_password env d claims raw db)"
proof -
  have "secrets_from d db (set_creds i (\<lambda>c. c\<lparr>cr_password := Some h, cr_reset := None, cr_reset_exp := 0\<rparr>) db)" for i h
    by (rule secrets_set_creds) auto
  then show ?thesis unfolding change_password_def Let_def by (auto simp: same_users_def split: option.split list.split intro: answers_reread)
qed

lemmas same_users_all = same_login same_refresh same_reads same_reset_by_email same_reset_password same_activate same_activate_by_code
  same_link_info same_send_mail same_change_password

section \<open>Privileges\<close>

text \<open>What rules over a tenant: system administrators, and the administrators of the tenant.\<close>

definition rules_row :: "str \<Rightarrow> user_row \<Rightarrow> bool" where
  "rules_row t u \<longleftrightarrow> us_authority u = ''SYS_ADMIN'' \<or> (us_authority u = ''TENANT_ADMIN'' \<and> us_tenant u = Some t)"

definition rules_claims :: "str \<Rightarrow> members \<Rightarrow> bool" where
  "rules_claims t c \<longleftrightarrow> (case caller_role c of (a, sys) \<Rightarrow> sys \<or> (a = ''TENANT_ADMIN'' \<and> claim_string c ''tenantId'' = t))"

definition plain_row :: "account_env \<Rightarrow> str \<Rightarrow> user_row \<Rightarrow> bool" where
  "plain_row env t u \<longleftrightarrow> \<not> rules_row t u \<and> (\<forall>x. us_tenant u = Some x \<longrightarrow> an_uuid env x = Some x)"

definition plain_claims :: "account_env \<Rightarrow> str \<Rightarrow> members \<Rightarrow> bool" where
  "plain_claims env t c \<longleftrightarrow> \<not> rules_claims t c \<and>
     (let x = claim_string c ''tenantId'' in x = [] \<or> an_uuid env x = Some x)"

text \<open>No row and no token issued rules over the tenant; identifiers are unique and in canonical spelling.\<close>

definition nobody_rules :: "account_env \<Rightarrow> str \<Rightarrow> account_world \<Rightarrow> bool" where
  "nobody_rules env t w \<longleftrightarrow>
     distinct (map us_id (ac_users (aw_db w))) \<and> list_all (plain_row env t) (ac_users (aw_db w)) \<and> list_all (plain_claims env t) (aw_issued w)"

lemma issued_plain:
  assumes "plain_row env t u" "t \<noteq> []" "Tokens a f = issue_tokens env d (u, c)"
  shows "plain_claims env t a \<and> plain_claims env t f"
proof -
  have a: "a = access_claims (an_config env) (dr_now d) (user_subject u c) (dr_session d)"
    "f = refresh_claims (an_config env) (dr_now d) (user_subject u c) (dr_session d) (dr_jti d)"
    using assms(3) by (simp_all add: issue_tokens_def)
  have "claim_string f ''tenantId'' = []" unfolding a by (simp add: refresh_claims_def claim_string_def obj_get_def)
  moreover have "caller_role f = (''REFRESH_TOKEN'', False)" unfolding a caller_role_def by simp
  ultimately have "plain_claims env t f" by (simp add: plain_claims_def rules_claims_def Let_def)
  moreover have "caller_role a = (us_authority u, us_authority u = ''SYS_ADMIN'')" "claim_string a ''tenantId'' = opt_str (us_tenant u)"
    unfolding a caller_role_def by (simp_all add: user_subject_def)
  then have "plain_claims env t a" using assms(1,2)
    by (auto simp: plain_claims_def rules_claims_def plain_row_def rules_row_def opt_str_def Let_def split: option.splits)
  ultimately show ?thesis by simp
qed

lemma update_plain:
  assumes "list_all (plain_row env t) (ac_users db)" "distinct (map us_id (ac_users db))" "plain_claims env t c"
    "user_update env c ident f db = (r, db')"
  shows "list_all (plain_row env t) (ac_users db') \<and> distinct (map us_id (ac_users db'))"
proof (cases "db' = db")
  case True
  then show ?thesis using assms
    by simp
next
  case False
  obtain caller sys where cr: "caller_role c = (caller, sys)" by fastforce
  let ?tenant = "claim_string c ''tenantId''"
  have sys: "\<not> sys" "caller = ''TENANT_ADMIN'' \<Longrightarrow> ?tenant \<noteq> t" using assms(3) by (auto simp: plain_claims_def rules_claims_def cr)
  from assms(4) False obtain i u existing customer where h: "an_uuid env ident = Some i" "find (\<lambda>u. us_id u = i) (ac_users db) = Some u"
    "us_tenant u = Some existing" "existing = ?tenant"
    "authorize_authority caller ?tenant sys (uf_authority f) existing (ident = claim_string c ''userId'') (uf_authority f \<noteq> us_authority u)"
    "reload_user env ident ''User saved but could not be reloaded''
      (db\<lparr>ac_users := map (\<lambda>v. if us_id v = us_id u then write_user f customer v else v) (ac_users db)\<rparr>) = (r, db')"
    using sys(1) unfolding user_update_def cr Let_def
    by (auto split: option.splits if_splits simp: bind_eq_Some_conv)
  have db': "db' = db\<lparr>ac_users := map (\<lambda>v. if us_id v = us_id u then write_user f customer v else v) (ac_users db)\<rparr>"
    using h(6) by (auto simp: reload_user_def split: option.splits)
  have u: "u \<in> set (ac_users db)" using h(2) by (auto simp: find_Some_iff)
  have auth: "uf_authority f = us_authority u \<or> (uf_authority f \<noteq> ''SYS_ADMIN'' \<and> (uf_authority f = ''TENANT_ADMIN'' \<longrightarrow> existing \<noteq> t))"
    using h(4,5) sys by (auto simp: authorize_authority_def split: if_splits)
  have "plain_row env t (write_user f customer u)"
    using auth assms(1) u h(3) by (auto simp: plain_row_def rules_row_def write_user_def list_all_iff)
  moreover have "v = u" if "v \<in> set (ac_users db)" "us_id v = us_id u" for v
    using that u assms(2) inj_onD [of us_id "set (ac_users db)" v u] by (simp add: distinct_map)
  ultimately have "list_all (plain_row env t) (ac_users db')" using assms(1) by (auto simp: db' list_all_iff)
  moreover have "map us_id (ac_users db') = map us_id (ac_users db)" by (simp add: db' write_user_def comp_def if_distrib cong: if_cong)
  ultimately have "list_all (plain_row env t) (ac_users db')" "distinct (map us_id (ac_users db'))" using assms(2) by (simp_all only:)
  then show ?thesis by simp
qed

lemma create_plain:
  assumes "list_all (plain_row env t) (ac_users db)" "distinct (map us_id (ac_users db))" "plain_claims env t c"
    "\<And>s x. an_uuid env s = Some x \<Longrightarrow> an_uuid env x = Some x" "an_uuid env [] = None"
    "user_create env d c f db = (r, db')"
  shows "list_all (plain_row env t) (ac_users db') \<and> distinct (map us_id (ac_users db'))"
proof (cases "db' = db")
  case True
  then show ?thesis using assms
    by simp
next
  case False
  obtain caller sys where cr: "caller_role c = (caller, sys)" by fastforce
  let ?tenant = "claim_string c ''tenantId''"
  have sys: "\<not> sys" "caller = ''TENANT_ADMIN'' \<Longrightarrow> ?tenant \<noteq> t" "?tenant = [] \<or> an_uuid env ?tenant = Some ?tenant"
    using assms(3) by (auto simp: plain_claims_def rules_claims_def cr Let_def)
  from assms(6) False obtain x customer where h: "an_uuid env ?tenant = Some x"
    "authorize_authority caller ?tenant sys (uf_authority f) ?tenant False True" "\<not> list_ex (\<lambda>u. us_id u = dr_id d) (ac_users db)"
    "reload_user env (dr_id d) ''User created but could not be reloaded''
      (db\<lparr>ac_users := ac_users db @ [new_user d f x customer], ac_creds := ac_creds db @ new_creds d db\<rparr>) = (r, db')"
    unfolding user_create_def cr Let_def by (auto split: option.splits if_splits)
  have db': "db' = db\<lparr>ac_users := ac_users db @ [new_user d f x customer], ac_creds := ac_creds db @ new_creds d db\<rparr>"
    using h(4) by (auto simp: reload_user_def split: option.splits)
  have x: "x = ?tenant" using sys(3) h(1) assms(5) by auto
  have "uf_authority f \<noteq> ''SYS_ADMIN'' \<and> (uf_authority f = ''TENANT_ADMIN'' \<longrightarrow> x \<noteq> t)"
    using h(2) sys x by (auto simp: authorize_authority_def split: if_splits)
  then have "plain_row env t (new_user d f x customer)" using h(1) assms(4) by (auto simp: plain_row_def rules_row_def new_user_def)
  then show ?thesis using assms(1,2) h(3) by (auto simp: db' list_ex_iff new_user_def)
qed

lemma tokens_plain:
  assumes "answers_from env d db r" "list_all (plain_row env t) (ac_users db)" "t \<noteq> []"
  shows "list_all (plain_claims env t) (tokens_of r)"
proof -
  have "plain_claims env t a \<and> plain_claims env t f" if "r = Inr (Tokens a f)" for a f
    using assms that issued_plain [OF _ assms(3)] by (auto simp: answers_from_def list_all_iff)
  then show ?thesis by (auto simp: tokens_of_def split: sum.split account_answer.split)
qed

lemma extract_issued:
  assumes "extract_token (parse_issued s w now) x y = Some c"
  shows "c \<in> set (aw_issued w)"
  using assms by (auto simp: extract_token_def access_only_def parse_issued_def find_Some_iff Let_def split: if_splits option.splits)

text \<open>The effect of a request on the tables, whatever the request.\<close>

lemma respond_cases:
  assumes "account_respond s w a = (m, r, db')"
  obtains (same) "same_users (as_env s) (al_draw a) (aw_db w) (r, db')"
    | (save) c raw where "al_request a = SaveUser raw" "c \<in> set (aw_issued w)"
        "(r, db') = user_save (as_env s) (al_draw a) (Some c) raw (aw_db w)"
    | (delete) u where "tokens_of r = []"
        "db' = aw_db w\<lparr>ac_users := filter (\<lambda>v. us_id v \<noteq> u) (ac_users (aw_db w)), ac_creds := filter (\<lambda>v. cr_user v \<noteq> u) (ac_creds (aw_db w))\<rparr>"
proof (cases "al_request a")
  case (SaveUser raw)
  let ?claims = "extract_token (parse_issued s w (dr_now (al_draw a))) (al_x_authorization a) (al_authorization a)"
  have r: "(r, db') = user_save (as_env s) (al_draw a) ?claims raw (aw_db w)" using assms SaveUser by (simp add: account_respond_def Let_def)
  show ?thesis
  proof (cases ?claims)
    case None
    with r show ?thesis by (intro same) (simp add: user_save_def same_usersI)
  next
    case (Some c)
    with r save [OF SaveUser extract_issued [OF Some]] show ?thesis by simp
  qed
next
  case (DeleteUser ident)
  let ?claims = "extract_token (parse_issued s w (dr_now (al_draw a))) (al_x_authorization a) (al_authorization a)"
  have "(r, db') = user_delete (as_env s) ?claims ident (aw_db w)" using assms DeleteUser by (simp add: account_respond_def Let_def)
  then consider e where "r = Inl e" "db' = aw_db w" | u where "tokens_of r = []"
      "db' = aw_db w\<lparr>ac_users := filter (\<lambda>v. us_id v \<noteq> u) (ac_users (aw_db w)), ac_creds := filter (\<lambda>v. cr_user v \<noteq> u) (ac_creds (aw_db w))\<rparr>"
    by (auto simp: user_delete_def tokens_of_def split: option.splits if_splits)
  then show ?thesis by cases (auto intro: same delete simp: same_usersI)
next
  case (Login http_method req)
  with assms same_login [of "as_env s" "al_draw a" "aw_db w"] show ?thesis by (intro same) (simp add: account_respond_def Let_def, metis snd_conv)
qed (use assms same_users_all [of "as_env s" "al_draw a" "aw_db w"] in \<open>intro same; simp add: account_respond_def Let_def; metis\<close>)+

lemma save_effect:
  assumes "(r, db') = user_save env d claims raw db"
  shows "secrets_from d db db' \<and> tokens_of r = []"
proof -
  have reload: "snd (reload_user env i msg x) = x" "tokens_of (fst (reload_user env i msg x)) = []" for i msg x
    by (simp_all add: reload_user_def tokens_of_def split: option.split)
  have new: "secrets_from d db (db\<lparr>ac_users := us, ac_creds := ac_creds db @ new_creds d db\<rparr>)" for us
    by (auto simp: secrets_from_def new_creds_def)
  have same: "secrets_from d db (db\<lparr>ac_users := us\<rparr>)" for us by (auto simp: secrets_from_def)
  have none: "tokens_of (Inl e :: http_error + account_answer) = []" for e by (simp add: tokens_of_def)
  have "secrets_from d db (snd (user_update env c i f db)) \<and> tokens_of (fst (user_update env c i f db)) = []" for c i f
    unfolding user_update_def Let_def by (auto simp: reload same none split: option.split prod.split)
  moreover have "secrets_from d db (snd (user_create env d c f db)) \<and> tokens_of (fst (user_create env d c f db)) = []" for c f
    unfolding user_create_def Let_def by (auto simp: reload new none split: option.split prod.split)
  ultimately have "secrets_from d db (snd (user_save env d claims raw db)) \<and> tokens_of (fst (user_save env d claims raw db)) = []"
    unfolding user_save_def Let_def by (auto simp: none split: option.split)
  then show ?thesis by (simp add: assms [symmetric])
qed

lemma save_plain:
  assumes "list_all (plain_row env t) (ac_users db)" "distinct (map us_id (ac_users db))" "plain_claims env t c"
    "\<And>s x. an_uuid env s = Some x \<Longrightarrow> an_uuid env x = Some x" "an_uuid env [] = None"
    "(r, db') = user_save env d (Some c) raw db"
  shows "list_all (plain_row env t) (ac_users db') \<and> distinct (map us_id (ac_users db'))"
proof -
  from assms(6) consider e where "r = Inl e" "db' = db"
    | ident f where "user_update env c ident f db = (r, db')" | f where "user_create env d c f db = (r, db')"
    by (auto simp: user_save_def Let_def split: option.splits if_splits)
  then show ?thesis
  proof cases
    case 1
    then show ?thesis using assms(1,2) by simp
  next
    case 2
    from update_plain [OF assms(1-3) this] show ?thesis .
  next
    case 3
    from create_plain [OF assms(1-5) this] show ?thesis .
  qed
qed

lemma step_nobody_rules:
  assumes "nobody_rules (as_env s) t w" "t \<noteq> []"
    "\<And>x y. an_uuid (as_env s) x = Some y \<Longrightarrow> an_uuid (as_env s) y = Some y" "an_uuid (as_env s) [] = None"
  shows "nobody_rules (as_env s) t (account_step s a w)"
proof -
  let ?env = "as_env s"
  obtain m r db' where r: "account_respond s w a = (m, r, db')" by (metis prod_cases3)
  have w: "distinct (map us_id (ac_users (aw_db w)))" "list_all (plain_row ?env t) (ac_users (aw_db w))" "list_all (plain_claims ?env t) (aw_issued w)"
    using assms(1) by (simp_all add: nobody_rules_def)
  have "distinct (map us_id (ac_users db')) \<and> list_all (plain_row ?env t) (ac_users db') \<and> list_all (plain_claims ?env t) (tokens_of r)"
    using r
  proof (cases rule: respond_cases)
    case same
    then have "ac_users db' = ac_users (aw_db w)" "answers_from ?env (al_draw a) db' r" by (simp_all add: same_users_def)
    with w(1,2) tokens_plain [OF this(2) _ assms(2)] show ?thesis by simp
  next
    case (save c raw)
    have "plain_claims ?env t c" using w(3) save(2) by (simp add: list_all_iff)
    from save_plain [OF w(2,1) this assms(3,4) save(3)] save_effect [OF save(3)] show ?thesis by simp
  next
    case (delete u)
    with w(1,2) show ?thesis by (auto simp: list_all_iff distinct_map intro: inj_on_subset)
  qed
  with w(3) show ?thesis by (simp add: account_step_def r nobody_rules_def)
qed

text \<open>C31: Privileges never come from nothing. As long as no user and no token rules over a tenant - no system
  administrator, no administrator of that tenant - no sequence of account requests, with any tokens, makes one.\<close>

theorem privilege_never_from_nothing:
  assumes "nobody_rules (as_env s) t w" "t \<noteq> []"
    "\<And>x y. an_uuid (as_env s) x = Some y \<Longrightarrow> an_uuid (as_env s) y = Some y" "an_uuid (as_env s) [] = None"
  shows "nobody_rules (as_env s) t (account_run s calls w)"
proof -
  have "nobody_rules (as_env s) t v \<Longrightarrow> nobody_rules (as_env s) t (fold (account_step s) calls v)" for v
    by (induction calls arbitrary: v) (simp_all add: step_nobody_rules [OF _ assms(2-4)])
  with assms(1) show ?thesis by (simp add: account_run_def)
qed

section \<open>Secrets\<close>

text \<open>The secret a request presents: a reset token or an activation token.\<close>

definition secret_of :: "account_request \<Rightarrow> (bool \<times> str) option" where
  "secret_of q =
     (case q of
        ResetPassword raw \<Rightarrow> (case decode_strings [''resetToken'', ''password''] raw of Some [tok, _] \<Rightarrow> Some (True, tok) | _ \<Rightarrow> None)
      | Activate raw \<Rightarrow> (case decode_strings [''activateToken'', ''password''] raw of Some [tok, _] \<Rightarrow> Some (False, tok) | _ \<Rightarrow> None)
      | ActivateByCode raw \<Rightarrow>
          Some (False, first_text (case body_map raw of Some kvs \<Rightarrow> kvs | None \<Rightarrow> []) [''emailCode'', ''activateToken'', ''code''])
      | _ \<Rightarrow> None)"

definition holds_secret :: "bool \<times> str \<Rightarrow> cred_row \<Rightarrow> bool" where
  "holds_secret k c \<longleftrightarrow> (if fst k then cr_reset c else cr_activate c) = Some (snd k)"

definition secrets_apart :: "account_db \<Rightarrow> bool" where
  "secrets_apart db \<longleftrightarrow>
     (\<forall>c \<in> set (ac_creds db). \<forall>c' \<in> set (ac_creds db). \<forall>k. holds_secret k c \<and> holds_secret k c' \<longrightarrow> cr_user c = cr_user c')"

definition unheld :: "bool \<times> str \<Rightarrow> account_db \<Rightarrow> bool" where
  "unheld k db \<longleftrightarrow> (\<forall>c \<in> set (ac_creds db). \<not> holds_secret k c)"

lemma unheld_find [simp]:
  "unheld (True, tok) db \<Longrightarrow> find (\<lambda>c. cr_reset c = Some tok) (ac_creds db) = None"
  "unheld (False, tok) db \<Longrightarrow> find (\<lambda>c. cr_activate c = Some tok) (ac_creds db) = None"
  by (auto simp: unheld_def holds_secret_def find_None_iff)

lemma unheld_refused:
  assumes "secret_of (al_request a) = Some k" "unheld k (aw_db w)"
  shows "\<exists>e. fst (snd (account_respond s w a)) = Inl e"
proof (cases "al_request a")
  case (ResetPassword raw)
  with assms show ?thesis
    by (auto simp: secret_of_def account_respond_def reset_password_def Let_def split: option.splits list.splits)
next
  case (Activate raw)
  with assms show ?thesis
    by (auto simp: secret_of_def account_respond_def activate_def Let_def split: option.splits list.splits)
next
  case (ActivateByCode raw)
  with assms show ?thesis by (auto simp: secret_of_def account_respond_def activate_by_code_def Let_def)
qed (use assms in \<open>simp_all add: secret_of_def\<close>)

lemma unheld_step:
  assumes "unheld k (aw_db w)" "dr_token (al_draw a) \<noteq> snd k"
  shows "unheld k (aw_db (account_step s a w))"
proof -
  obtain m r db' where r: "account_respond s w a = (m, r, db')" by (metis prod_cases3)
  from r have "secrets_from (al_draw a) (aw_db w) db'"
  proof (cases rule: respond_cases)
    case same
    then show ?thesis by (simp add: same_users_def)
  next
    case (save c raw)
    from save_effect [OF save(3)] show ?thesis by simp
  next
    case (delete u)
    then show ?thesis by (auto simp: secrets_from_def)
  qed
  then have "unheld k db'" using assms unfolding unheld_def holds_secret_def secrets_from_def by (auto split: if_splits)
  then show ?thesis by (simp add: account_step_def r)
qed

lemma spent_unheld:
  assumes "secrets_apart db" "find (holds_secret k) (ac_creds db) = Some c" "\<And>c. \<not> holds_secret k (f c)"
  shows "unheld k (set_creds (cr_user c) f db)"
proof -
  have "c \<in> set (ac_creds db)" "holds_secret k c" using assms(2) by (auto simp: find_Some_iff)
  with assms(1) have "cr_user c' = cr_user c" if "c' \<in> set (ac_creds db)" "holds_secret k c'" for c' using that unfolding secrets_apart_def by blast
  then show ?thesis using assms(3) by (auto simp: unheld_def set_creds_def)
qed

lemma accepted_spends:
  assumes "secrets_apart (aw_db w)" "secret_of (al_request a) = Some k" "account_respond s w a = (m, Inr ans, db')"
  shows "unheld k db'"
proof -
  have h: "holds_secret (True, tok) = (\<lambda>c. cr_reset c = Some tok)" "holds_secret (False, tok) = (\<lambda>c. cr_activate c = Some tok)" for tok
    by (auto simp: holds_secret_def)
  note spent = spent_unheld [OF assms(1), of k] 
  show ?thesis
  proof (cases "al_request a")
    case (ResetPassword raw)
    with assms(2,3) spent show ?thesis
      by (auto simp: secret_of_def account_respond_def reset_password_def h Let_def split: option.splits list.splits if_splits)
  next
    case (Activate raw)
    with assms(2,3) spent show ?thesis
      by (auto simp: secret_of_def account_respond_def activate_def h Let_def split: option.splits list.splits if_splits)
  next
    case (ActivateByCode raw)
    with assms(2,3) spent show ?thesis
      by (auto simp: secret_of_def account_respond_def activate_by_code_def h Let_def split: option.splits list.splits if_splits)
  qed (use assms(2) in \<open>simp_all add: secret_of_def\<close>)
qed

text \<open>C32: A reset or activation token works once. After it was accepted - by whichever of the three endpoints
  takes it - no sequence of account requests that does not draw the same token again makes any of them accept
  it a second time.\<close>

theorem secrets_single_use:
  assumes "secrets_apart (aw_db w)" "secret_of (al_request a) = Some k" "fst (snd (account_respond s w a)) = Inr ans"
    "\<forall>b \<in> set calls. dr_token (al_draw b) \<noteq> snd k" "secret_of (al_request b) = Some k"
  shows "\<exists>e. fst (snd (account_respond s (account_run s calls (account_step s a w)) b)) = Inl e"
proof -
  obtain m db' where r: "account_respond s w a = (m, Inr ans, db')" using assms(3) by (metis prod.collapse)
  have run: "unheld k (aw_db v) \<Longrightarrow> \<forall>b \<in> set calls. dr_token (al_draw b) \<noteq> snd k \<Longrightarrow> unheld k (aw_db (fold (account_step s) calls v))" for v
    by (induction calls arbitrary: v) (simp_all add: unheld_step)
  have "unheld k (aw_db (account_step s a w))" using accepted_spends [OF assms(1,2) r] by (simp add: account_step_def r)
  from run [OF this assms(4)] have "unheld k (aw_db (account_run s calls (account_step s a w)))" by (simp add: account_run_def)
  with assms(5) show ?thesis by (rule unheld_refused)
qed

section \<open>Session tokens\<close>

text \<open>A session is read back as what it was issued for. With a library that reads what it signed until it expires,
  the access token of a session authenticates its user with authority and tenant, from the issue until its
  expiry and no longer; its refresh token authenticates no request, and its access token refreshes nothing.\<close>

theorem session_read_back:
  assumes "issue_tokens env d (u, c) = Tokens a f" "library_reads lib key a" "library_reads lib key f" "us_authority u \<noteq> ''REFRESH_TOKEN''"
  shows "extract_token (parse_and_validate lib key now) (''Bearer '' @ jl_sign lib key a) y =
      (if now < (dr_now d div 1000 + tc_expiration (an_config env)) * 1000 then Some a else None) \<and>
    claim_string a ''userId'' = us_id u \<and> claim_string a ''tenantId'' = opt_str (us_tenant u) \<and> (\<forall>x. has_scope a x \<longleftrightarrow> x = us_authority u) \<and>
    extract_token (parse_and_validate lib key now) (''Bearer '' @ jl_sign lib key f) y = None \<and>
    (\<exists>msg. token_refresh env d' (parse_and_validate lib key now) ''POST'' (Some (JObj [(''refreshToken'', JStr (jl_sign lib key a))])) db =
       (Inl (HttpError 401 msg), db))"
proof -
  have a: "a = access_claims (an_config env) (dr_now d) (user_subject u c) (dr_session d)"
    "f = refresh_claims (an_config env) (dr_now d) (user_subject u c) (dr_session d) (dr_jti d)"
    using assms(1) by (simp_all add: issue_tokens_def)
  have fields: "sj_user (user_subject u c) = us_id u" "sj_tenant (user_subject u c) = opt_str (us_tenant u)" "sj_authority (user_subject u c) = us_authority u"
    by (simp_all add: user_subject_def)
  have exps: "obj_get a ''exp'' = Some (JInt (dr_now d div 1000 + tc_expiration (an_config env)))"
    "obj_get f ''exp'' = Some (JInt (dr_now d div 1000 + tc_refresh (an_config env)))" by (simp_all add: a)
  note read = parse_signed [OF assms(2) exps(1)] parse_signed [OF assms(3) exps(2)]
  have body: "decode_strings [''refreshToken''] (Some (JObj [(''refreshToken'', JStr tok)])) = Some [tok]" for tok
    by (simp add: decode_strings_def body_map_def struct_vals_def equal_fold_def)
  have scope: "\<not> has_scope a ''REFRESH_TOKEN''" using assms(4) by (simp add: a fields)
  have refresh: "\<exists>msg. token_refresh env d' (parse_and_validate lib key now) ''POST'' (Some (JObj [(''refreshToken'', JStr (jl_sign lib key a))])) db =
       (Inl (HttpError 401 msg), db)"
    unfolding token_refresh_def body by (simp add: read scope)
  have "extract_token (parse_and_validate lib key now) (''Bearer '' @ jl_sign lib key a) y =
      (if now < (dr_now d div 1000 + tc_expiration (an_config env)) * 1000 then Some a else None)"
    unfolding extract_bearer access_only_def read by (simp add: scope)
  moreover have "extract_token (parse_and_validate lib key now) (''Bearer '' @ jl_sign lib key f) y = None"
    unfolding extract_bearer access_only_def read by (simp add: a)
  moreover have "claim_string a ''userId'' = us_id u \<and> claim_string a ''tenantId'' = opt_str (us_tenant u) \<and> (\<forall>x. has_scope a x \<longleftrightarrow> x = us_authority u)"
    unfolding a by (simp add: fields)
  ultimately show ?thesis using refresh by blast
qed

section \<open>Concrete runs\<close>

text \<open>A plant: the tenant \<open>t\<close> with an administrator and a worker, who holds a session, and the tenant
  \<open>o\<close> whose administrator has not activated the account yet. The hash of a password is the password marked.\<close>

definition plant_accounts :: account_env where
  "plant_accounts = \<lparr>an_config = default_config ''k'', an_uuid = (\<lambda>s. if s = [] then None else Some s), an_hash = (\<lambda>p. Some (CHR ''#'' # p)),
     an_check = (\<lambda>h p. h = CHR ''#'' # p)\<rparr>"

definition plain_draw :: draw where
  "plain_draw = \<lparr>dr_now = 5000, dr_id = ''new'', dr_session = ''s2'', dr_jti = ''j'', dr_token = ''x1'', dr_quota = True\<rparr>"

definition plant_user :: "str \<Rightarrow> str \<Rightarrow> str \<Rightarrow> user_row" where
  "plant_user i a t = \<lparr>us_id = i, us_created = 0, us_email = i @ ''@x'', us_authority = a, us_tenant = Some t, us_customer = None, us_first = None,
     us_last = None, us_phone = None, us_info = None, us_version = 1\<rparr>"

definition plant_creds :: "str \<Rightarrow> cred_row" where
  "plant_creds i = \<lparr>cr_user = i, cr_enabled = True, cr_password = Some (CHR ''#'' # i), cr_activate = None, cr_activate_exp = 0, cr_reset = None,
     cr_reset_exp = 0, cr_last_login = None\<rparr>"

definition plant_db :: account_db where
  "plant_db = \<lparr>ac_users = [plant_user ''adm'' ''TENANT_ADMIN'' ''t'', plant_user ''wrk'' ''CUSTOMER_USER'' ''t'', plant_user ''boss'' ''TENANT_ADMIN'' ''o''],
     ac_creds = [plant_creds ''adm'', plant_creds ''wrk'',
       (plant_creds ''boss'')\<lparr>cr_enabled := False, cr_password := None, cr_activate := Some ''k9'', cr_activate_exp := 90000\<rparr>]\<rparr>"

definition worker_claims :: members where
  "worker_claims = access_claims (default_config ''k'') 1000 (user_subject (plant_user ''wrk'' ''CUSTOMER_USER'' ''t'') (plant_creds ''wrk'')) ''s1''"

definition plant_setting :: account_setting where
  "plant_setting = \<lparr>as_env = plant_accounts, as_sign = (\<lambda>c. (if has_scope c ''REFRESH_TOKEN'' then ''r'' else ''a'') @ claim_string c ''sessionId''),
     as_sha = id, as_salt = [], as_throttle = \<lparr>tc_max_fails = 5, tc_window = 60, tc_max_attempts = 9\<rparr>\<rparr>"

definition plant_world :: account_world where
  "plant_world = \<lparr>aw_db = plant_db, aw_counters = [], aw_issued = [worker_claims]\<rparr>"

text \<open>A request with the session of the worker, and one without a session.\<close>

definition by_worker :: "account_request \<Rightarrow> account_call" where
  "by_worker q = \<lparr>al_x_authorization = ''Bearer as1'', al_authorization = [], al_draw = plain_draw, al_request = q\<rparr>"

definition by_nobody :: "account_request \<Rightarrow> account_call" where
  "by_nobody q = \<lparr>al_x_authorization = [], al_authorization = [], al_draw = plain_draw, al_request = q\<rparr>"

definition text_body :: "(str \<times> str) list \<Rightarrow> raw_message" where
  "text_body kvs = Some (JObj (map (\<lambda>(k, v). (k, JStr v)) kvs))"

text \<open>The worker asks for the activation link of the administrator, whose account has long been active, and
  activates it with a password of choice: the answer is a session of the administrator.\<close>

lemma member_takes_over_administrator:
  "map (\<lambda>c. (claim_string c ''userId'', has_scope c ''TENANT_ADMIN'')) (aw_issued (account_run plant_setting
     [by_worker (LinkInfo ''adm''), by_nobody (Activate (text_body [(''activateToken'', ''x1''), (''password'', ''mine'')]))] plant_world)) =
   [(''wrk'', False), (''adm'', True), (''adm'', False)]"
  by code_simp

text \<open>The link of a pending account is given to callers of any tenant.\<close>

lemma pending_administrator_of_other_tenant:
  "fst (snd (account_respond plant_setting plant_world (by_worker (ActivationLink ''boss'')))) = Inr (LinkTo ''k9'')"
  "map (\<lambda>c. (claim_string c ''userId'', claim_string c ''tenantId'')) (aw_issued (account_run plant_setting
     [by_nobody (Activate (text_body [(''activateToken'', ''k9''), (''password'', ''mine'')]))] plant_world)) =
   [(''wrk'', ''t''), (''boss'', ''o''), (''boss'', [])]"
  by code_simp+

lemma member_deletes_administrator:
  "map us_id (ac_users (aw_db (account_step plant_setting (by_worker (DeleteUser ''adm'')) plant_world))) = [''wrk'', ''boss'']"
  by code_simp

text \<open>Whoever edits the own profile chooses the own customer.\<close>

lemma member_chooses_customer:
  "map us_customer (ac_users (aw_db (account_step plant_setting (by_worker (SaveUser (text_body
     [(''id'', ''wrk''), (''email'', ''w@x''), (''authority'', ''CUSTOMER_USER''), (''customerId'', ''rival'')]))) plant_world))) = [None, Some ''rival'', None]"
  by code_simp

text \<open>A disabled account enables itself by a reset of its password.\<close>

lemma reset_enables_disabled:
  "map cr_enabled (ac_creds (aw_db (account_run plant_setting
     [by_nobody (ResetByEmail (text_body [(''email'', ''adm@x'')])), by_nobody (ResetPassword (text_body [(''resetToken'', ''x1''), (''password'', ''p'')]))]
     (plant_world\<lparr>aw_db := set_creds ''adm'' (\<lambda>c. c\<lparr>cr_enabled := False\<rparr>) plant_db\<rparr>)))) = [True, True, False]"
  by code_simp

text \<open>An account activated by its code has no password: it can neither sign in nor ask for a reset.\<close>

lemma activated_by_code_locked_out:
  "let db = aw_db (account_step plant_setting (by_nobody (ActivateByCode (text_body [(''code'', ''k9'')]))) plant_world)
   in map cr_enabled (ac_creds db) = [True, True, True] \<and> map cr_activate (ac_creds db) = [None, None, None] \<and> find_user_by_email db ''boss@x'' = None"
  by code_simp

text \<open>Refresh tokens survive a change of the password.\<close>

lemma refresh_survives_password_change:
  "case account_run plant_setting [by_worker (ChangePassword (text_body [(''currentPassword'', ''wrk''), (''newPassword'', ''n'')]))] plant_world of
     w \<Rightarrow> parse_issued plant_setting w 5000 ''as1'' = Some worker_claims \<and> length (aw_issued w) = 3"
  by code_simp

section \<open>Witnesses\<close>

theorem privilege_never_from_nothing_witness:
  "nobody_rules plant_accounts ''z'' (account_run plant_setting
     [by_worker (SaveUser (text_body [(''id'', ''wrk''), (''email'', ''w@x''), (''authority'', ''SYS_ADMIN'')])), by_worker (LinkInfo ''adm''),
      by_nobody (Activate (text_body [(''activateToken'', ''x1''), (''password'', ''mine'')]))] plant_world)"
proof -
  have "list_all (plain_row (as_env plant_setting) ''z'') (ac_users (aw_db plant_world))"
    by (simp add: plain_row_def rules_row_def plant_setting_def plant_accounts_def plant_world_def plant_db_def plant_user_def)
  moreover have "distinct (map us_id (ac_users (aw_db plant_world)))" "list_all (plain_claims (as_env plant_setting) ''z'') (aw_issued plant_world)"
    by code_simp+
  ultimately have n: "nobody_rules (as_env plant_setting) ''z'' plant_world" by (simp add: nobody_rules_def)
  have env: "as_env plant_setting = plant_accounts" by (simp add: plant_setting_def)
  have uuid: "an_uuid (as_env plant_setting) y = Some y" if "an_uuid (as_env plant_setting) x = Some y" for x y
    using that by (auto simp: env plant_accounts_def split: if_splits)
  show ?thesis using privilege_never_from_nothing [OF n _ uuid] by (simp add: env) (simp add: plant_accounts_def)
qed

theorem secrets_single_use_witness:
  "\<exists>e. fst (snd (account_respond plant_setting
     (account_run plant_setting [] (account_step plant_setting (by_nobody (Activate (text_body [(''activateToken'', ''k9''), (''password'', ''p'')]))) plant_world))
     (by_nobody (ActivateByCode (text_body [(''code'', ''k9'')]))))) = Inl e"
proof -
  let ?a = "by_nobody (Activate (text_body [(''activateToken'', ''k9''), (''password'', ''p'')]))"
  have b: "cr_user c = ''boss''" if "c \<in> set (ac_creds plant_db)" "holds_secret k c" for c k
    using that by (auto simp: plant_db_def plant_creds_def holds_secret_def split: if_splits)
  have "secrets_apart (aw_db plant_world)" unfolding secrets_apart_def plant_world_def account_world.simps using b by metis
  moreover have "secret_of (al_request ?a) = Some (False, ''k9'')" "secret_of (al_request (by_nobody (ActivateByCode (text_body [(''code'', ''k9'')])))) = Some (False, ''k9'')"
    by code_simp+
  moreover obtain ans where "fst (snd (account_respond plant_setting plant_world ?a)) = Inr ans"
  proof -
    have "\<not> isl (fst (snd (account_respond plant_setting plant_world ?a)))" by code_simp
    then show ?thesis using that by (metis isl_def sum.exhaust)
  qed
  ultimately show ?thesis by (intro secrets_single_use) auto
qed

theorem session_read_back_witness:
  "\<exists>lib a f. issue_tokens plant_accounts plain_draw (plant_user ''adm'' ''TENANT_ADMIN'' ''t'', plant_creds ''adm'') = Tokens a f \<and>
     extract_token (parse_and_validate lib ''k'' 6000) (''Bearer '' @ jl_sign lib ''k'' a) [] = Some a \<and>
     extract_token (parse_and_validate lib ''k'' 6000) (''Bearer '' @ jl_sign lib ''k'' f) [] = None"
proof -
  let ?u = "plant_user ''adm'' ''TENANT_ADMIN'' ''t''"
  let ?a = "access_claims (default_config ''k'') 5000 (user_subject ?u (plant_creds ''adm'')) ''s2''"
  let ?f = "refresh_claims (default_config ''k'') 5000 (user_subject ?u (plant_creds ''adm'')) ''s2'' ''j''"
  define lib where "lib = \<lparr>jl_sign = (\<lambda>_ c. if has_scope c ''REFRESH_TOKEN'' then ''r'' else ''a''), jl_alg = (\<lambda>_. Some ''HS512''),
    jl_verify = (\<lambda>_ now tok. if tok = ''a'' then if now < 9005000 then Some ?a else None else if now < 604805000 then Some ?f else None)\<rparr>"
  have t: "issue_tokens plant_accounts plain_draw (?u, plant_creds ''adm'') = Tokens ?a ?f"
    by (simp add: issue_tokens_def plant_accounts_def plain_draw_def)
  have lib: "library_reads lib ''k'' ?a" "library_reads lib ''k'' ?f"
    by (simp_all add: library_reads_def lib_def default_config_def default_token_exp_def default_refresh_exp_def user_subject_def plant_user_def)
  have r: "us_authority ?u \<noteq> ''REFRESH_TOKEN''" by (simp add: plant_user_def)
  have n: "6000 < (dr_now plain_draw div 1000 + tc_expiration (an_config plant_accounts)) * 1000" by code_simp
  from session_read_back [OF t lib r, where now = 6000 and y = "[]"] n t show ?thesis
    by (intro exI [of _ lib] exI [of _ ?a] exI [of _ ?f]) (simp only: if_True)
qed

end
