(* ===== verification/Oidc.thy ===== *)
theory Oidc
  imports Accounts "HOL-Library.Word"
begin

text \<open>
  Signing in through an OpenID Connect provider (internal/oidc/oidc.go): the configuration of the providers, the
  signed state that travels through the browser, the checks on the identity token, and the user an
  identity stands for.

  Parameters: HMAC-SHA256, base64 and the JSON text codec (\<open>state_lib\<close>); the JWT library for RSA
  (\<open>id_lib\<close>); and what the provider answers (\<open>remote\<close>). A request carries its query, the two
  forwarding headers, its host and whether it came over TLS. The parameters of a redirect are a list of pairs,
  before their URL encoding. Times are milliseconds.
\<close>

section \<open>Providers\<close>

record provider =
  pv_id :: str
  pv_title :: str
  pv_client :: str
  pv_secret :: str
  pv_issuer :: str
  pv_auth_url :: str
  pv_token_url :: str
  pv_jwks_url :: str
  pv_userinfo_url :: str
  pv_redirect :: str
  pv_tenant :: str
  pv_customer :: str
  pv_authority :: str
  pv_create :: bool
  pv_scopes :: "str list"

record discovery =
  dd_issuer :: str
  dd_auth :: str
  dd_token :: str
  dd_jwks :: str
  dd_userinfo :: str

fun dec_bool :: "json \<Rightarrow> bool \<Rightarrow> bool option" where
  "dec_bool JNull old = Some old"
| "dec_bool (JBool b) old = Some b"
| "dec_bool _ old = None"

definition provider_strings :: "str list" where
  "provider_strings = [''id'', ''title'', ''clientId'', ''clientSecret'', ''issuer'', ''authorizationUrl'', ''tokenUrl'', ''jwksUrl'', ''userInfoUrl'',
     ''redirectUrl'', ''defaultTenantId'', ''defaultCustomerId'', ''defaultAuthority'']"

definition provider_of :: "str list \<Rightarrow> bool \<Rightarrow> str list \<Rightarrow> provider" where
  "provider_of s creates scopes =
     \<lparr>pv_id = s ! 0, pv_title = s ! 1, pv_client = s ! 2, pv_secret = s ! 3, pv_issuer = s ! 4, pv_auth_url = s ! 5, pv_token_url = s ! 6,
      pv_jwks_url = s ! 7, pv_userinfo_url = s ! 8, pv_redirect = s ! 9, pv_tenant = s ! 10, pv_customer = s ! 11, pv_authority = s ! 12,
      pv_create = creates, pv_scopes = scopes\<rparr>"

definition dec_provider :: "json \<Rightarrow> provider option" where
  "dec_provider v =
     (case body_map (Some v) of
        None \<Rightarrow> None
      | Some kvs \<Rightarrow>
          (case (those (map (\<lambda>f. dec_field dec_string [] (struct_vals f kvs)) provider_strings),
                 dec_field dec_bool False (struct_vals ''allowUserCreation'' kvs), dec_field dec_strings [] (struct_vals ''scopes'' kvs)) of
             (Some s, Some b, Some scopes) \<Rightarrow> Some (provider_of s b scopes)
           | _ \<Rightarrow> None))"

definition dec_providers :: "raw_message \<Rightarrow> provider list option" where
  "dec_providers raw =
     (case raw of Some JNull \<Rightarrow> Some [] | Some (JArr vs) \<Rightarrow> those (map dec_provider vs) | _ \<Rightarrow> None)"

definition normalize_provider :: "provider \<Rightarrow> provider" where
  "normalize_provider p =
     (let i = (if pv_id p = [] then ''oidc'' else pv_id p)
      in p\<lparr>pv_id := i, pv_title := (if pv_title p = [] then i else pv_title p),
           pv_authority := (if pv_authority p = [] then ''TENANT_ADMIN'' else pv_authority p),
           pv_scopes := (if pv_scopes p = [] then [''openid'', ''email'', ''profile''] else pv_scopes p)\<rparr>)"

definition trim_right_slash :: "str \<Rightarrow> str" where
  "trim_right_slash s = rev (dropWhile (\<lambda>c. c = CHR ''/'') (rev s))"

text \<open>\<open>fetch\<close> answers the discovery document at an address, if it can be read.\<close>

definition fetch_discovery :: "(str \<Rightarrow> discovery option) \<Rightarrow> str \<Rightarrow> discovery option" where
  "fetch_discovery fetch issuer =
     (case fetch (trim_right_slash issuer @ ''/.well-known/openid-configuration'') of
        None \<Rightarrow> None
      | Some doc \<Rightarrow> if dd_auth doc = [] \<or> dd_token doc = [] \<or> dd_jwks doc = [] then None else Some doc)"

definition apply_discovery :: "(str \<Rightarrow> discovery option) \<Rightarrow> provider \<Rightarrow> provider option" where
  "apply_discovery fetch p =
     (if trim_space (pv_issuer p) = [] then Some p
      else if pv_auth_url p \<noteq> [] \<and> pv_token_url p \<noteq> [] \<and> pv_jwks_url p \<noteq> [] then Some p
      else (case fetch_discovery fetch (pv_issuer p) of
              None \<Rightarrow> None
            | Some doc \<Rightarrow>
                if dd_issuer doc \<noteq> [] \<and> trim_right_slash (dd_issuer doc) \<noteq> trim_right_slash (pv_issuer p) then None
                else Some (p\<lparr>pv_auth_url := (if pv_auth_url p = [] then dd_auth doc else pv_auth_url p),
                             pv_token_url := (if pv_token_url p = [] then dd_token doc else pv_token_url p),
                             pv_jwks_url := (if pv_jwks_url p = [] then dd_jwks doc else pv_jwks_url p),
                             pv_userinfo_url := (if pv_userinfo_url p = [] then dd_userinfo doc else pv_userinfo_url p)\<rparr>)))"

definition validate_provider :: "provider \<Rightarrow> bool" where
  "validate_provider p \<longleftrightarrow>
     list_all (\<lambda>v. trim_space v \<noteq> []) [pv_id p, pv_client p, pv_issuer p, pv_auth_url p, pv_token_url p, pv_jwks_url p]"

definition prepare_provider :: "(str \<Rightarrow> discovery option) \<Rightarrow> provider \<Rightarrow> provider option" where
  "prepare_provider fetch p =
     (case apply_discovery fetch (normalize_provider p) of
        None \<Rightarrow> None | Some q \<Rightarrow> if validate_provider q then Some q else None)"

definition env_bool :: "(str \<Rightarrow> str) \<Rightarrow> str \<Rightarrow> bool" where
  "env_bool env name \<longleftrightarrow> equal_fold (env name) ''true'' \<or> env name = ''1''"

definition env_default :: "(str \<Rightarrow> str) \<Rightarrow> str \<Rightarrow> str \<Rightarrow> str" where
  "env_default env name fallback = (if env name \<noteq> [] then env name else fallback)"

definition env_provider :: "(str \<Rightarrow> str) \<Rightarrow> provider" where
  "env_provider env =
     provider_of [env_default env ''OIDC_PROVIDER_ID'' ''oidc'', env_default env ''OIDC_PROVIDER_TITLE'' ''OIDC'', env ''OIDC_CLIENT_ID'',
       env ''OIDC_CLIENT_SECRET'', env ''OIDC_ISSUER'', env ''OIDC_AUTHORIZATION_URL'', env ''OIDC_TOKEN_URL'', env ''OIDC_JWKS_URL'',
       env ''OIDC_USERINFO_URL'', env ''OIDC_REDIRECT_URL'', env ''OIDC_DEFAULT_TENANT_ID'', env ''OIDC_DEFAULT_CUSTOMER_ID'',
       env_default env ''OIDC_DEFAULT_AUTHORITY'' ''TENANT_ADMIN''] (env_bool env ''OIDC_ALLOW_USER_CREATION'') []"

text \<open>\<open>None\<close> is an error.\<close>

definition providers_from_env ::
  "(str \<Rightarrow> raw_message) \<Rightarrow> (str \<Rightarrow> discovery option) \<Rightarrow> (str \<Rightarrow> str) \<Rightarrow> provider list option" where
  "providers_from_env parse fetch env =
     (let raw = trim_space (env ''OIDC_PROVIDERS_JSON'')
      in if raw \<noteq> [] then Option.bind (dec_providers (parse raw)) (\<lambda>ps. those (map (prepare_provider fetch) ps))
         else if \<not> env_bool env ''OIDC_ENABLED'' then Some []
         else map_option (\<lambda>p. [p]) (prepare_provider fetch (env_provider env)))"

definition provider_by_id :: "provider list option \<Rightarrow> str \<Rightarrow> provider option" where
  "provider_by_id ps ident = (case ps of None \<Rightarrow> None | Some ps \<Rightarrow> find (\<lambda>p. pv_id p = ident) ps)"

section \<open>The state\<close>

record oidc_state =
  os_provider :: str
  os_return :: str
  os_nonce :: str
  os_issued :: int

record state_lib =
  sl_hmac :: "str \<Rightarrow> str \<Rightarrow> str"
  sl_encode :: "str \<Rightarrow> str"
  sl_decode :: "str \<Rightarrow> str option"
  sl_print :: "json \<Rightarrow> str"
  sl_parse :: "str \<Rightarrow> raw_message"

definition state_json :: "oidc_state \<Rightarrow> json" where
  "state_json st = JObj [(''providerId'', JStr (os_provider st)), (''returnUrl'', JStr (os_return st)), (''nonce'', JStr (os_nonce st)),
     (''issuedAt'', JInt (os_issued st))]"

definition dec_state :: "raw_message \<Rightarrow> oidc_state option" where
  "dec_state raw =
     (case body_map raw of
        None \<Rightarrow> None
      | Some kvs \<Rightarrow>
          (case (dec_field dec_string [] (struct_vals ''providerId'' kvs), dec_field dec_string [] (struct_vals ''returnUrl'' kvs),
                 dec_field dec_string [] (struct_vals ''nonce'' kvs), dec_field dec_int64 0 (struct_vals ''issuedAt'' kvs)) of
             (Some p, Some r, Some n, Some i) \<Rightarrow> Some \<lparr>os_provider = p, os_return = r, os_nonce = n, os_issued = i\<rparr>
           | _ \<Rightarrow> None))"

definition state_max_age :: millis where "state_max_age = 10 * 60 * 1000"

definition sign_state :: "state_lib \<Rightarrow> str \<Rightarrow> oidc_state \<Rightarrow> str option" where
  "sign_state lib key st =
     (if length key < 32 then None
      else (let payload = sl_encode lib (sl_print lib (state_json st))
            in Some (payload @ ''.'' @ sl_encode lib (sl_hmac lib key payload))))"

definition verify_state :: "state_lib \<Rightarrow> str \<Rightarrow> str \<Rightarrow> str \<Rightarrow> millis \<Rightarrow> millis \<Rightarrow> oidc_state option" where
  "verify_state lib key raw expected max_age now =
     (case split_on CHR ''.'' raw of
        [payload, sig] \<Rightarrow>
          if payload = [] \<or> sig = [] then None
          else if sl_decode lib sig \<noteq> Some (sl_hmac lib key payload) then None
          else (case Option.bind (sl_decode lib payload) (\<lambda>text. dec_state (sl_parse lib text)) of
                  None \<Rightarrow> None
                | Some st \<Rightarrow>
                    if expected \<noteq> [] \<and> os_provider st \<noteq> expected then None
                    else if 0 < max_age \<and> max_age < now - os_issued st * 1000 then None
                    else Some st)
      | _ \<Rightarrow> None)"

definition state_key :: "(str \<Rightarrow> str option) \<Rightarrow> str \<Rightarrow> str \<Rightarrow> str" where
  "state_key decode64 env_key token_key =
     (let key = (if env_key = [] then token_key else env_key)
      in case decode64 key of Some bytes \<Rightarrow> if 32 \<le> length bytes then bytes else key | None \<Rightarrow> key)"

section \<open>The identity token\<close>

type_synonym rsa_key = "str \<times> 64 word"

record jwk =
  jk_kty :: str
  jk_kid :: str
  jk_n :: str
  jk_e :: str

definition key_exponent :: "str \<Rightarrow> 64 word" where
  "key_exponent bytes = (let e = fold (\<lambda>b e. push_bit 8 e + of_nat (char_code b)) bytes 0 in if e = 0 then 65537 else e)"

text \<open>The keys of a key set by their id; a later one replaces an earlier one.\<close>

fun jwks_keys :: "(str \<Rightarrow> str option) \<Rightarrow> jwk list \<Rightarrow> (str, rsa_key) gomap \<Rightarrow> (str, rsa_key) gomap option" where
  "jwks_keys decode [] m = Some m"
| "jwks_keys decode (k # ks) m =
     (if jk_kty k \<noteq> ''RSA'' \<or> jk_kid k = [] then jwks_keys decode ks m
      else (case (decode (jk_n k), decode (jk_e k)) of
              (Some n, Some e) \<Rightarrow> jwks_keys decode ks (AList.update (jk_kid k) (n, key_exponent e) m)
            | _ \<Rightarrow> None))"

record id_lib =
  il_alg :: "str \<Rightarrow> str option"
  il_kid :: "str \<Rightarrow> str"
  il_verify :: "rsa_key \<Rightarrow> millis \<Rightarrow> str \<Rightarrow> members option"

record id_claims =
  ic_issuer :: str
  ic_subject :: str
  ic_email :: str
  ic_first :: str
  ic_last :: str
  ic_claims :: members

definition audience_contains :: "json option \<Rightarrow> str \<Rightarrow> bool" where
  "audience_contains aud want \<longleftrightarrow>
     (case aud of Some (JStr s) \<Rightarrow> s = want | Some (JArr vs) \<Rightarrow> JStr want \<in> set vs | _ \<Rightarrow> False)"

definition numeric_date :: "json option \<Rightarrow> int option" where
  "numeric_date v = (case v of Some (JInt n) \<Rightarrow> Some n | Some (JFrac r) \<Rightarrow> Some \<lfloor>r\<rfloor> | _ \<Rightarrow> None)"

definition rsa_algorithms :: "str list" where "rsa_algorithms = [''RS256'', ''RS384'', ''RS512'']"

definition validate_id_token ::
  "id_lib \<Rightarrow> (str, rsa_key) gomap option \<Rightarrow> provider \<Rightarrow> millis \<Rightarrow> str \<Rightarrow> id_claims option" where
  "validate_id_token lib keys p now raw =
     (case keys of
        None \<Rightarrow> None
      | Some m \<Rightarrow>
          (case il_alg lib raw of
             None \<Rightarrow> None
           | Some alg \<Rightarrow>
               if alg \<notin> set rsa_algorithms \<or> il_kid lib raw = [] then None
               else (case Option.bind (map_of m (il_kid lib raw)) (\<lambda>key. il_verify lib key now raw) of
                       None \<Rightarrow> None
                     | Some c \<Rightarrow>
                         if claim_string c ''iss'' \<noteq> pv_issuer p \<or> \<not> audience_contains (obj_get c ''aud'') (pv_client p) then None
                         else (case numeric_date (obj_get c ''exp'') of
                                 None \<Rightarrow> None
                               | Some e \<Rightarrow>
                                   if e * 1000 < now \<or> claim_string c ''sub'' = [] then None
                                   else Some \<lparr>ic_issuer = claim_string c ''iss'', ic_subject = claim_string c ''sub'', ic_email = claim_string c ''email'',
                                              ic_first = claim_string c ''given_name'', ic_last = claim_string c ''family_name'', ic_claims = c\<rparr>))))"

text \<open>The answer of the userinfo endpoint completes the claims; a null answer is an empty object.\<close>

definition enrich_claims :: "raw_message option \<Rightarrow> id_claims \<Rightarrow> id_claims option" where
  "enrich_claims answer c =
     (case Option.bind answer body_map of
        None \<Rightarrow> None
      | Some info \<Rightarrow>
          (let sub = claim_string info ''sub''; pick = (\<lambda>old k. if old = [] then claim_string info k else old)
           in if sub \<noteq> [] \<and> ic_subject c \<noteq> [] \<and> sub \<noteq> ic_subject c then None
              else Some (c\<lparr>ic_email := pick (ic_email c) ''email'', ic_first := pick (ic_first c) ''given_name'',
                           ic_last := pick (ic_last c) ''family_name'',
                           ic_claims := ic_claims c @ filter (\<lambda>(k, v). obj_get (ic_claims c) k = None) info\<rparr>)))"

section \<open>The user of an identity\<close>

record identity_link =
  el_provider :: str
  el_issuer :: str
  el_subject :: str
  el_user :: str
  el_email :: str
  el_claims :: members

type_synonym oidc_db = "account_db \<times> identity_link list"

definition is_link_of :: "provider \<Rightarrow> id_claims \<Rightarrow> identity_link \<Rightarrow> bool" where
  "is_link_of p c l \<longleftrightarrow> el_provider l = pv_id p \<and> el_issuer l = ic_issuer c \<and> el_subject l = ic_subject c"

definition find_link :: "provider \<Rightarrow> id_claims \<Rightarrow> identity_link list \<Rightarrow> identity_link option" where
  "find_link p c links =
     find (is_link_of p c) links"

definition link_fits :: "provider \<Rightarrow> id_claims \<Rightarrow> bool" where
  "link_fits p c \<longleftrightarrow> fits_column 255 (pv_id p) \<and> fits_column 512 (ic_issuer c) \<and> fits_column 512 (ic_subject c) \<and> fits_column 255 (ic_email c)"

text \<open>On a conflict with a link of the identity the user, the address and the claims of that link are replaced.\<close>

definition link_identity :: "provider \<Rightarrow> id_claims \<Rightarrow> str \<Rightarrow> identity_link list \<Rightarrow> identity_link list option" where
  "link_identity p c user links =
     (if \<not> link_fits p c then None
      else if list_ex (is_link_of p c) links
           then Some (map (\<lambda>l. if is_link_of p c l then l\<lparr>el_user := user, el_email := ic_email c, el_claims := ic_claims c\<rparr> else l) links)
      else Some (links @ [\<lparr>el_provider = pv_id p, el_issuer = ic_issuer c, el_subject = ic_subject c, el_user = user, el_email = ic_email c,
                          el_claims = ic_claims c\<rparr>]))"

definition null_id :: "(str \<Rightarrow> str option) \<Rightarrow> str \<Rightarrow> str option option" where
  "null_id uuid s = (if s = [] then Some None else map_option Some (uuid s))"

definition oidc_user_row :: "draw \<Rightarrow> provider \<Rightarrow> id_claims \<Rightarrow> str option \<Rightarrow> str option \<Rightarrow> user_row" where
  "oidc_user_row d p c tenant customer =
     \<lparr>us_id = dr_id d, us_created = dr_now d, us_email = ic_email c, us_authority = pv_authority p, us_tenant = tenant, us_customer = customer,
      us_first = null_str (ic_first c), us_last = null_str (ic_last c), us_phone = None,
      us_info = Some (JObj [(''authProvider'', JStr (pv_id p))]), us_version = 1\<rparr>"

definition oidc_create_user ::
  "account_env \<Rightarrow> draw \<Rightarrow> str \<Rightarrow> provider \<Rightarrow> id_claims \<Rightarrow> account_db \<Rightarrow> (http_error + (user_row \<times> cred_row)) \<times> account_db" where
  "oidc_create_user env d placeholder p c db =
     (let failed = (Inl (HttpError 401 ''create OIDC user''), db)
      in if pv_tenant p = [] \<and> pv_authority p \<noteq> ''SYS_ADMIN''
         then (Inl (HttpError 401 ''OIDC default tenant is required for auto-created users''), db)
         else (case (null_id (an_uuid env) (pv_tenant p), null_id (an_uuid env) (pv_customer p)) of
                 (Some tenant, Some customer) \<Rightarrow>
                   if \<not> list_all (fits_column 255) [pv_authority p, ic_email c, ic_first c, ic_last c] \<or> email_taken db (dr_id d) (ic_email c) \<or>
                      list_ex (\<lambda>u. us_id u = dr_id d) (ac_users db) then failed
                   else (let row = oidc_user_row d p c tenant customer; db' = db\<lparr>ac_users := ac_users db @ [row]\<rparr>
                         in if creds_of db (dr_id d) \<noteq> None then (Inl (HttpError 401 ''create OIDC credentials''), db')
                            else (let cred = \<lparr>cr_user = dr_id d, cr_enabled = True, cr_password = Some placeholder, cr_activate = None,
                                              cr_activate_exp = 0, cr_reset = None, cr_reset_exp = 0, cr_last_login = None\<rparr>;
                                      db'' = db'\<lparr>ac_creds := ac_creds db @ [cred]\<rparr>
                                  in (case find_user env db'' (dr_id d) of
                                        None \<Rightarrow> Inl (HttpError 401 ''user not found'') | Some uc \<Rightarrow> Inr uc, db'')))
               | _ \<Rightarrow> failed))"

text \<open>An identity without a link: the user of its address, or a new one, is linked.\<close>

definition link_or_create_user ::
  "account_env \<Rightarrow> draw \<Rightarrow> str \<Rightarrow> provider \<Rightarrow> id_claims \<Rightarrow> oidc_db \<Rightarrow> (http_error + (user_row \<times> cred_row)) \<times> oidc_db" where
  "link_or_create_user env d placeholder p c odb =
     (case odb of (db, links) \<Rightarrow>
        (case (case find_user_by_email db (ic_email c) of
                 Some uc \<Rightarrow> (Inr uc, db)
               | None \<Rightarrow>
                   if \<not> pv_create p then (Inl (HttpError 401 ''OIDC user is not linked and auto-creation is disabled''), db)
                   else oidc_create_user env d placeholder p c db) of
           (Inl e, db') \<Rightarrow> (Inl e, db', links)
         | (Inr uc, db') \<Rightarrow>
             (case link_identity p c (us_id (fst uc)) links of
                None \<Rightarrow> (Inl (HttpError 401 ''link OIDC identity''), db', links)
              | Some links' \<Rightarrow> (Inr uc, db', links'))))"

definition find_or_create_user ::
  "account_env \<Rightarrow> draw \<Rightarrow> str \<Rightarrow> provider \<Rightarrow> id_claims \<Rightarrow> oidc_db \<Rightarrow> (http_error + (user_row \<times> cred_row)) \<times> oidc_db" where
  "find_or_create_user env d placeholder p c odb =
     (case odb of (db, links) \<Rightarrow>
        if ic_email c = [] then (Inl (HttpError 401 ''OIDC user email is required''), odb)
        else (case find_link p c links of
                Some l \<Rightarrow> (or_fail (find_user env db (el_user l)) (HttpError 401 ''user not found''), odb)
              | None \<Rightarrow> link_or_create_user env d placeholder p c odb))"

section \<open>The endpoints\<close>

record oidc_request =
  or_method :: str
  or_query :: "(str \<times> str) list"
  or_proto :: str
  or_fwd_host :: str
  or_host :: str
  or_tls :: bool
  or_accept_json :: bool

definition base_url :: "oidc_request \<Rightarrow> str" where
  "base_url r =
     (let scheme = (if or_proto r \<noteq> [] then or_proto r else if or_tls r then ''https'' else ''http'');
          host = (if or_fwd_host r \<noteq> [] then or_fwd_host r else or_host r)
      in scheme @ ''://'' @ host)"

definition return_url :: "oidc_request \<Rightarrow> str" where
  "return_url r = (let v = query_get (or_query r) ''returnUrl'' in if v \<noteq> [] then v else base_url r)"

definition redirect_uri :: "oidc_request \<Rightarrow> provider \<Rightarrow> str" where
  "redirect_uri r p = (if pv_redirect p \<noteq> [] then pv_redirect p else base_url r @ ''/login/oauth2/code/'' @ pv_id p)"

definition wants_json :: "oidc_request \<Rightarrow> bool" where
  "wants_json r \<longleftrightarrow> equal_fold (query_get (or_query r) ''response'') ''json'' \<or> or_accept_json r"

datatype oidc_answer = Preflight | AuthorizeAt str "(str \<times> str) list" | SessionJson members members | SessionRedirect str members members

definition handle_authorize ::
  "state_lib \<Rightarrow> str \<Rightarrow> provider list option \<Rightarrow> millis \<Rightarrow> str \<Rightarrow> oidc_request \<Rightarrow> str \<Rightarrow> http_error + oidc_answer" where
  "handle_authorize lib key providers now nonce r ident =
     (if or_method r = ''OPTIONS'' then Inr Preflight
      else if or_method r \<noteq> ''GET'' then Inl (HttpError 405 ''Method not allowed'')
      else and_then (or_fail (provider_by_id providers ident) (HttpError 404 ''OIDC provider not found'')) (\<lambda>p.
        and_then (or_fail (sign_state lib key \<lparr>os_provider = pv_id p, os_return = return_url r, os_nonce = nonce, os_issued = now div 1000\<rparr>)
                    (HttpError 500 ''Failed to create OIDC state'')) (\<lambda>state.
          Inr (AuthorizeAt (pv_auth_url p)
            [(''response_type'', ''code''), (''client_id'', pv_client p), (''redirect_uri'', redirect_uri r p), (''scope'', join '' '' (pv_scopes p)),
             (''state'', state), (''nonce'', nonce)]))))"

text \<open>What the provider answers: the identity and access token for a code, its key set, and its userinfo.\<close>

record remote =
  rm_exchange :: "provider \<Rightarrow> str \<Rightarrow> str \<Rightarrow> (str \<times> str) option"
  rm_keys :: "provider \<Rightarrow> jwk list option"
  rm_userinfo :: "provider \<Rightarrow> str \<Rightarrow> raw_message option"

definition exchange_code :: "remote \<Rightarrow> provider \<Rightarrow> str \<Rightarrow> str \<Rightarrow> (str \<times> str) option" where
  "exchange_code rm p code redirect =
     (if code = [] then None
      else (case rm_exchange rm p code redirect of None \<Rightarrow> None | Some (i, a) \<Rightarrow> if i = [] then None else Some (i, a)))"

record oidc_setting =
  og_env :: account_env
  og_states :: state_lib
  og_ids :: id_lib
  og_key :: str
  og_url_ok :: "str \<Rightarrow> bool"

definition callback_claims :: "oidc_setting \<Rightarrow> remote \<Rightarrow> millis \<Rightarrow> provider \<Rightarrow> oidc_request \<Rightarrow> http_error + id_claims" where
  "callback_claims s rm now p r =
     and_then (or_fail (exchange_code rm p (query_get (or_query r) ''code'') (redirect_uri r p)) (HttpError 401 ''OIDC token exchange failed''))
       (\<lambda>(id_token, access).
          and_then (or_fail (validate_id_token (og_ids s) (Option.bind (rm_keys rm p) (\<lambda>ks. jwks_keys (sl_decode (og_states s)) ks [])) p now id_token)
                      (HttpError 401 ''OIDC id_token validation failed'')) (\<lambda>c.
            Inr (if ic_email c = [] \<and> access \<noteq> [] \<and> pv_userinfo_url p \<noteq> []
                 then (case (if trim_space (pv_userinfo_url p) = [] \<or> trim_space access = [] then None else enrich_claims (rm_userinfo rm p access) c) of
                         None \<Rightarrow> c | Some c' \<Rightarrow> c')
                 else c)))"

text \<open>A callback before it touches the tables: an answer, or the state, the provider and the verified claims.\<close>

definition callback_check ::
  "oidc_setting \<Rightarrow> remote \<Rightarrow> provider list option \<Rightarrow> draw \<Rightarrow> oidc_request \<Rightarrow> str \<Rightarrow>
   (http_error + oidc_answer) + (oidc_state \<times> provider \<times> id_claims)" where
  "callback_check s rm providers d r ident =
     (if or_method r = ''OPTIONS'' then Inl (Inr Preflight)
      else if or_method r \<noteq> ''GET'' \<and> or_method r \<noteq> ''POST'' then Inl (Inl (HttpError 405 ''Method not allowed''))
      else if query_get (or_query r) ''error'' \<noteq> [] then Inl (Inl (HttpError 401 (''OIDC login failed: '' @ query_get (or_query r) ''error'')))
      else (case provider_by_id providers ident of
              None \<Rightarrow> Inl (Inl (HttpError 404 ''OIDC provider not found''))
            | Some p \<Rightarrow>
                (case verify_state (og_states s) (og_key s) (query_get (or_query r) ''state'') (pv_id p) state_max_age (dr_now d) of
                   None \<Rightarrow> Inl (Inl (HttpError 400 ''Invalid OIDC state''))
                 | Some st \<Rightarrow>
                     (case callback_claims s rm (dr_now d) p r of
                        Inl e \<Rightarrow> Inl (Inl e)
                      | Inr c \<Rightarrow> Inr (st, p, c)))))"

text \<open>The session of the user, or the failure to find one.\<close>

definition callback_finish ::
  "oidc_setting \<Rightarrow> draw \<Rightarrow> oidc_request \<Rightarrow> oidc_state \<Rightarrow> (http_error + (user_row \<times> cred_row)) \<times> oidc_db \<Rightarrow> (http_error + oidc_answer) \<times> oidc_db" where
  "callback_finish s d r st found =
     (case found of
        (Inl e, odb') \<Rightarrow> (Inl e, odb')
      | (Inr uc, db', links) \<Rightarrow>
          (case issue_tokens (og_env s) d uc of
             Tokens a f \<Rightarrow>
               (let target = (if os_return st = [] then ''/'' else os_return st)
                in (if wants_json r then Inr (SessionJson a f)
                    else if \<not> og_url_ok s target then Inl (HttpError 500 ''Failed to build OAuth redirect'')
                    else Inr (SessionRedirect target a f),
                    set_creds (us_id (fst uc)) (\<lambda>c. c\<lparr>cr_last_login := Some (dr_now d)\<rparr>) db', links))
           | _ \<Rightarrow> (Inl HandlerPanic, db', links)))"

text \<open>A callback no other request overtakes.\<close>

definition handle_callback ::
  "oidc_setting \<Rightarrow> remote \<Rightarrow> provider list option \<Rightarrow> draw \<Rightarrow> str \<Rightarrow> oidc_request \<Rightarrow> str \<Rightarrow> oidc_db \<Rightarrow> (http_error + oidc_answer) \<times> oidc_db" where
  "handle_callback s rm providers d placeholder r ident odb =
     (case callback_check s rm providers d r ident of
        Inl answer \<Rightarrow> (answer, odb)
      | Inr (st, p, c) \<Rightarrow> callback_finish s d r st (find_or_create_user (og_env s) d placeholder p c odb))"

section \<open>Sign-ins in parallel\<close>

text \<open>The callbacks of parallel sign-ins interleave with each other and with the requests of the accounts. A
  callback whose identity has a link is answered at once; otherwise it is pending between the query that found no link and
  the statements that link a user. Deleting a user deletes its links.\<close>

record callback_event =
  ce_remote :: remote
  ce_providers :: "provider list option"
  ce_draw :: draw
  ce_placeholder :: str
  ce_request :: oidc_request
  ce_ident :: str

record pending_callback =
  pc_event :: callback_event
  pc_state :: oidc_state
  pc_provider :: provider
  pc_claims :: id_claims

record sso_world =
  sw_accounts :: account_world
  sw_links :: "identity_link list"
  sw_pending :: "pending_callback list"

datatype sso_event = SignIn callback_event | Proceed nat | AccountCall account_call

type_synonym id_key = "str \<times> str \<times> str"

definition id_key :: "provider \<Rightarrow> id_claims \<Rightarrow> id_key" where
  "id_key p c = (pv_id p, ic_issuer c, ic_subject c)"

definition session_tokens :: "http_error + oidc_answer \<Rightarrow> members list" where
  "session_tokens r = (case r of Inr (SessionJson a f) \<Rightarrow> [a, f] | Inr (SessionRedirect _ a f) \<Rightarrow> [a, f] | _ \<Rightarrow> [])"

definition cascade_links :: "account_env \<Rightarrow> account_db \<Rightarrow> identity_link list \<Rightarrow> identity_link list" where
  "cascade_links env db links = filter (\<lambda>l. list_ex (\<lambda>u. an_uuid env (el_user l) = Some (us_id u)) (ac_users db)) links"

definition sso_finish ::
  "oidc_setting \<Rightarrow> pending_callback \<Rightarrow> (http_error + (user_row \<times> cred_row)) \<times> oidc_db \<Rightarrow> sso_world \<Rightarrow>
   (id_key \<times> (http_error + oidc_answer)) option \<times> sso_world" where
  "sso_finish s q found w =
     (case callback_finish s (ce_draw (pc_event q)) (ce_request (pc_event q)) (pc_state q) found of
        (ans, db, links) \<Rightarrow>
          (Some (id_key (pc_provider q) (pc_claims q), ans),
           w\<lparr>sw_accounts := (sw_accounts w)\<lparr>aw_db := db, aw_issued := aw_issued (sw_accounts w) @ session_tokens ans\<rparr>, sw_links := links\<rparr>))"

text \<open>What a step answers to an identity, and the world after it.\<close>

definition sso_step ::
  "oidc_setting \<Rightarrow> account_setting \<Rightarrow> sso_event \<Rightarrow> sso_world \<Rightarrow> (id_key \<times> (http_error + oidc_answer)) option \<times> sso_world" where
  "sso_step s t ev w =
     (case ev of
        SignIn e \<Rightarrow>
          (case callback_check s (ce_remote e) (ce_providers e) (ce_draw e) (ce_request e) (ce_ident e) of
             Inl _ \<Rightarrow> (None, w)
           | Inr (st, p, c) \<Rightarrow>
               (let q = \<lparr>pc_event = e, pc_state = st, pc_provider = p, pc_claims = c\<rparr>
                in if ic_email c \<noteq> [] \<and> find_link p c (sw_links w) = None then (None, w\<lparr>sw_pending := sw_pending w @ [q]\<rparr>)
                   else sso_finish s q (find_or_create_user (og_env s) (ce_draw e) (ce_placeholder e) p c (aw_db (sw_accounts w), sw_links w)) w))
      | Proceed i \<Rightarrow>
          if i < length (sw_pending w) then
            (let q = sw_pending w ! i; e = pc_event q
             in sso_finish s q
                  (link_or_create_user (og_env s) (ce_draw e) (ce_placeholder e) (pc_provider q) (pc_claims q) (aw_db (sw_accounts w), sw_links w))
                  (w\<lparr>sw_pending := take i (sw_pending w) @ drop (Suc i) (sw_pending w)\<rparr>))
          else (None, w)
      | AccountCall a \<Rightarrow>
          (let accounts = account_step t a (sw_accounts w)
           in (None, w\<lparr>sw_accounts := accounts, sw_links := cascade_links (og_env s) (aw_db accounts) (sw_links w)\<rparr>)))"

primrec sso_trace :: "oidc_setting \<Rightarrow> account_setting \<Rightarrow> sso_event list \<Rightarrow> sso_world \<Rightarrow> sso_world list" where
  "sso_trace s t [] w = []"
| "sso_trace s t (ev # es) w = snd (sso_step s t ev w) # sso_trace s t es (snd (sso_step s t ev w))"

definition sso_run :: "oidc_setting \<Rightarrow> account_setting \<Rightarrow> sso_event list \<Rightarrow> sso_world \<Rightarrow> sso_world" where
  "sso_run s t es w = fold (\<lambda>ev w. snd (sso_step s t ev w)) es w"

text \<open>The login buttons.\<close>

definition oauth2_clients :: "provider list option \<Rightarrow> http_error + (str \<times> str \<times> str) list" where
  "oauth2_clients providers =
     (case providers of
        None \<Rightarrow> Inl (HttpError 500 ''OIDC providers misconfigured'')
      | Some ps \<Rightarrow> Inr (map (\<lambda>p. (pv_id p, pv_title p, ''/api/noauth/oidc/authorize/'' @ pv_id p)) ps))"

end
