(* ===== verification/DeviceTokens.thy ===== *)
theory DeviceTokens
  imports DeviceIdentity AuthTokens
begin

text \<open>
  The device tokens (internal/devicejwt): the configuration from the environment, the signer, the claims it
  issues, the key a presented token is checked with, and the key set the service publishes. The ES256 half
  of the JWT library, the PEM and key parsers, base64, the JSON text codec and the curve are parameters
  (\<open>ec_lib\<close>). A private key is an \<open>ec_key\<close>, a public key its point. Times and durations are nanoseconds.
\<close>

section \<open>Keys\<close>

type_synonym point = "nat \<times> nat"
type_synonym nanos = int

record ec_key =
  ek_p256 :: bool
  ek_point :: point
  ek_secret :: str

text \<open>Some None: a key in PKCS8 that is not ECDSA.\<close>

record ec_lib =
  el_pem :: "str \<Rightarrow> str option"
  el_ec :: "str \<Rightarrow> ec_key option"
  el_pkcs8 :: "str \<Rightarrow> ec_key option option"
  el_on_curve :: "point \<Rightarrow> bool"
  el_b64 :: "str \<Rightarrow> str option"
  el_encode :: "str \<Rightarrow> str"
  el_decode :: "str \<Rightarrow> str option"
  el_json :: "str \<Rightarrow> raw_message"
  el_sign :: "ec_key \<Rightarrow> str \<Rightarrow> members \<Rightarrow> str option"
  el_alg :: "str \<Rightarrow> str option"
  el_kid :: "str \<Rightarrow> json option"
  el_verify :: "str \<Rightarrow> str \<Rightarrow> point \<Rightarrow> nanos \<Rightarrow> str \<Rightarrow> members option"

definition parse_ec_private_key :: "ec_lib \<Rightarrow> str \<Rightarrow> ec_key option" where
  "parse_ec_private_key lib raw =
     (case el_pem lib raw of
        None \<Rightarrow> None
      | Some bytes \<Rightarrow>
          (case el_ec lib bytes of
             Some key \<Rightarrow> Some key
           | None \<Rightarrow> (case el_pkcs8 lib bytes of None \<Rightarrow> None | Some parsed \<Rightarrow> parsed)))"

text \<open>Big integers: their bytes, most significant first and without leading zeros, and back.\<close>

fun big_bytes_loop :: "nat \<Rightarrow> nat \<Rightarrow> str \<Rightarrow> str" where
  "big_bytes_loop 0 n acc = acc"
| "big_bytes_loop (Suc fuel) n acc =
     (if n = 0 then acc else big_bytes_loop fuel (n div 256) (char_of (n mod 256) # acc))"

definition big_bytes :: "nat \<Rightarrow> str" where "big_bytes n = big_bytes_loop n n []"

definition set_bytes :: "str \<Rightarrow> nat" where
  "set_bytes bytes = foldl (\<lambda>n c. n * 256 + char_code c) 0 bytes"

definition pad_p256 :: "str \<Rightarrow> str" where
  "pad_p256 bytes = (if 32 \<le> length bytes then bytes else replicate (32 - length bytes) (char_of (0 :: nat)) @ bytes)"

record public_jwk =
  pj_kty :: str
  pj_crv :: str
  pj_kid :: str
  pj_use :: str
  pj_alg :: str
  pj_x :: str
  pj_y :: str

definition to_ecdsa :: "ec_lib \<Rightarrow> public_jwk \<Rightarrow> point option" where
  "to_ecdsa lib j =
     (case (el_decode lib (pj_x j), el_decode lib (pj_y j)) of
        (Some x, Some y) \<Rightarrow> (let pub = (set_bytes x, set_bytes y) in if el_on_curve lib pub then Some pub else None)
      | _ \<Rightarrow> None)"

definition dec_public_jwk :: "json \<Rightarrow> public_jwk \<Rightarrow> public_jwk option" where
  "dec_public_jwk v old =
     (case v of
        JNull \<Rightarrow> Some old
      | JObj kvs \<Rightarrow>
          (case those (map (\<lambda>(f, d). dec_field dec_string d (struct_vals f kvs))
                   [(''kty'', pj_kty old), (''crv'', pj_crv old), (''kid'', pj_kid old), (''use'', pj_use old), (''alg'', pj_alg old),
                    (''x'', pj_x old), (''y'', pj_y old)]) of
             Some [kty, crv, kid, use, alg, x, y] \<Rightarrow>
               Some \<lparr>pj_kty = kty, pj_crv = crv, pj_kid = kid, pj_use = use, pj_alg = alg, pj_x = x, pj_y = y\<rparr>
           | _ \<Rightarrow> None)
      | _ \<Rightarrow> None)"

definition blank_jwk :: public_jwk where
  "blank_jwk = \<lparr>pj_kty = [], pj_crv = [], pj_kid = [], pj_use = [], pj_alg = [], pj_x = [], pj_y = []\<rparr>"

fun dec_jwk_list :: "json \<Rightarrow> public_jwk list \<Rightarrow> public_jwk list option" where
  "dec_jwk_list JNull old = Some []"
| "dec_jwk_list (JArr vs) old = dec_slice dec_public_jwk blank_jwk vs old"
| "dec_jwk_list _ old = None"

definition supported_jwk :: "public_jwk \<Rightarrow> bool" where
  "supported_jwk j \<longleftrightarrow> pj_kty j = ''EC'' \<and> pj_crv j = ''P-256'' \<and> trim_space (pj_kid j) \<noteq> [] \<and> trim_space (pj_x j) \<noteq> [] \<and>
     trim_space (pj_y j) \<noteq> []"

definition complete_jwk :: "public_jwk \<Rightarrow> public_jwk" where
  "complete_jwk j = j\<lparr>pj_use := (if pj_use j = [] then ''sig'' else pj_use j), pj_alg := (if pj_alg j = [] then ''ES256'' else pj_alg j)\<rparr>"

definition parse_additional_jwks :: "ec_lib \<Rightarrow> str \<Rightarrow> public_jwk list option" where
  "parse_additional_jwks lib raw =
     (if trim_space raw = [] then Some []
      else (case body_map (el_json lib (trim_space raw)) of
              None \<Rightarrow> None
            | Some kvs \<Rightarrow>
                (case dec_field dec_jwk_list [] (struct_vals ''keys'' kvs) of
                   None \<Rightarrow> None
                 | Some ks \<Rightarrow> if list_all supported_jwk ks then Some (map complete_jwk ks) else None)))"

section \<open>Configuration\<close>

record device_jwt_config =
  jc_enabled :: bool
  jc_issuer :: str
  jc_audience :: str
  jc_key_id :: str
  jc_ttl :: nanos
  jc_private :: str
  jc_additional :: str

definition default_device_issuer :: str where "default_device_issuer = ''thingsflow-device''"
definition default_device_audience :: str where "default_device_audience = ''thingsflow-mqtt''"
definition default_key_id :: str where "default_key_id = ''thingsflow-device-es256-1''"
definition nanos_per_second :: nanos where "nanos_per_second = 1000000000"
definition default_device_ttl :: nanos where "default_device_ttl = 24 * 3600 * nanos_per_second"
definition device_role :: str where "device_role = ''mqtt:stream''"

fun first_non_empty :: "str list \<Rightarrow> str" where
  "first_non_empty [] = []"
| "first_non_empty (v # vs) = (if trim_space v \<noteq> [] then trim_space v else first_non_empty vs)"

definition env_flag :: "(str \<Rightarrow> str) \<Rightarrow> str \<Rightarrow> bool \<Rightarrow> bool" where
  "env_flag env key def =
     (let v = trim_space (to_lower (env key))
      in if v \<in> set [''1'', ''true'', ''yes'', ''y'', ''on''] then True
         else if v \<in> set [''0'', ''false'', ''no'', ''n'', ''off''] then False
         else def)"

text \<open>A setting given as text, or else as the base64 of it; \<open>None\<close> when that cannot be decoded.\<close>

definition env_or_b64 :: "ec_lib \<Rightarrow> (str \<Rightarrow> str) \<Rightarrow> str \<Rightarrow> str option" where
  "env_or_b64 lib env key =
     (let plain = trim_space (env key); coded = trim_space (env (key @ ''_B64''))
      in if plain \<noteq> [] then Some plain else if coded = [] then Some [] else el_b64 lib coded)"

text \<open>A duration is a signed 64-bit count of nanoseconds.\<close>

definition ttl_from_env :: "(str \<Rightarrow> str) \<Rightarrow> nanos option" where
  "ttl_from_env env =
     (let raw = trim_space (env ''DEVICE_JWT_TTL_SECONDS'')
      in if raw = [] then Some default_device_ttl
         else (case atoi raw of None \<Rightarrow> None | Some n \<Rightarrow> if n \<le> 0 then None else Some (wrap64 (n * nanos_per_second))))"

definition production :: "(str \<Rightarrow> str) \<Rightarrow> bool" where
  "production env \<longleftrightarrow> equal_fold (env ''FLOW_ENV'') ''production''"

definition device_jwt_from_env :: "ec_lib \<Rightarrow> (str \<Rightarrow> str) \<Rightarrow> device_jwt_config option" where
  "device_jwt_from_env lib env =
     (let enabled = env_flag env ''DEVICE_JWT_ENABLED'' True
      in case ttl_from_env env of
           None \<Rightarrow> None
         | Some ttl \<Rightarrow>
             (case env_or_b64 lib env ''DEVICE_JWT_ES256_PRIVATE_KEY_PEM'' of
                None \<Rightarrow> None
              | Some private \<Rightarrow>
                  if enabled \<and> private = [] \<and> production env then None
                  else (case env_or_b64 lib env ''DEVICE_JWT_ADDITIONAL_PUBLIC_JWKS'' of
                          None \<Rightarrow> None
                        | Some additional \<Rightarrow>
                            Some \<lparr>jc_enabled = enabled, jc_issuer = first_non_empty [env ''DEVICE_JWT_ISSUER'', default_device_issuer],
                                  jc_audience = first_non_empty [env ''DEVICE_JWT_AUDIENCE'', default_device_audience],
                                  jc_key_id = first_non_empty [env ''DEVICE_JWT_KEY_ID'', default_key_id], jc_ttl = ttl,
                                  jc_private = private, jc_additional = additional\<rparr>)))"

section \<open>The signer\<close>

record signer =
  sg_issuer :: str
  sg_audience :: str
  sg_key_id :: str
  sg_ttl :: nanos
  sg_key :: ec_key
  sg_additional :: "public_jwk list"

text \<open>\<open>generated\<close> is the key the process draws when none is configured.\<close>

definition new_signer :: "ec_lib \<Rightarrow> (str \<Rightarrow> str) \<Rightarrow> ec_key option \<Rightarrow> device_jwt_config \<Rightarrow> signer option" where
  "new_signer lib env generated cfg =
     (if \<not> jc_enabled cfg then None
      else (case (if trim_space (jc_private cfg) \<noteq> [] then parse_ec_private_key lib (jc_private cfg)
                  else if production env then None else generated) of
              None \<Rightarrow> None
            | Some key \<Rightarrow>
                if \<not> ek_p256 key then None
                else map_option (\<lambda>additional.
                       \<lparr>sg_issuer = first_non_empty [jc_issuer cfg, default_device_issuer],
                        sg_audience = first_non_empty [jc_audience cfg, default_device_audience],
                        sg_key_id = first_non_empty [jc_key_id cfg, default_key_id],
                        sg_ttl = (if jc_ttl cfg \<le> 0 then default_device_ttl else jc_ttl cfg), sg_key = key, sg_additional = additional\<rparr>)
                     (parse_additional_jwks lib (jc_additional cfg))))"

datatype signer_boot = SignerFatal | SignerOff | SignerOn signer

definition init_signer :: "ec_lib \<Rightarrow> (str \<Rightarrow> str) \<Rightarrow> ec_key option \<Rightarrow> signer_boot" where
  "init_signer lib env generated =
     (case device_jwt_from_env lib env of
        None \<Rightarrow> SignerFatal
      | Some cfg \<Rightarrow>
          if \<not> jc_enabled cfg then SignerOff
          else (case new_signer lib env generated cfg of None \<Rightarrow> SignerFatal | Some s \<Rightarrow> SignerOn s))"

definition active_jwk :: "ec_lib \<Rightarrow> signer \<Rightarrow> public_jwk" where
  "active_jwk lib s =
     \<lparr>pj_kty = ''EC'', pj_crv = ''P-256'', pj_kid = sg_key_id s, pj_use = ''sig'', pj_alg = ''ES256'',
      pj_x = el_encode lib (pad_p256 (big_bytes (fst (ek_point (sg_key s))))),
      pj_y = el_encode lib (pad_p256 (big_bytes (snd (ek_point (sg_key s)))))\<rparr>"

definition handle_jwks :: "ec_lib \<Rightarrow> signer option \<Rightarrow> str \<Rightarrow> http_error + public_jwk list" where
  "handle_jwks lib sg http_method =
     (case sg of
        None \<Rightarrow> Inl (HttpError 404 ''device JWT issuer disabled'')
      | Some s \<Rightarrow> if http_method \<noteq> ''GET'' \<and> http_method \<noteq> ''HEAD'' then Inl (HttpError 405 ''Method not allowed'')
                  else Inr (active_jwk lib s # sg_additional s))"

section \<open>Issuing and checking\<close>

record token_response =
  tr_claims :: members
  tr_token :: str
  tr_expires :: int
  tr_subject :: str
  tr_identity :: str
  tr_username :: str

definition device_claims :: "signer \<Rightarrow> nanos \<Rightarrow> str \<Rightarrow> str \<Rightarrow> str \<Rightarrow> str \<Rightarrow> members" where
  "device_claims s now jti device tenant name =
     [(''iss'', JStr (sg_issuer s)), (''sub'', JStr device), (''aud'', JArr [JStr (sg_audience s)]), (''iat'', JInt (now div nanos_per_second)),
      (''nbf'', JInt (now div nanos_per_second)), (''exp'', JInt ((now + sg_ttl s) div nanos_per_second)), (''jti'', JStr jti),
      (''tenantId'', JStr tenant), (''deviceId'', JStr device), (''deviceName'', JStr name), (''mqttId'', JStr (topic_safe_identity device)),
      (''clientid'', JStr (topic_safe_identity device)), (''scope'', JStr device_role), (''roles'', JArr [JStr device_role])]"

text \<open>The error is the text of the failure.\<close>

definition issue_device_jwt :: "ec_lib \<Rightarrow> signer option \<Rightarrow> nanos \<Rightarrow> str \<Rightarrow> str \<Rightarrow> str \<Rightarrow> str \<Rightarrow> str + token_response" where
  "issue_device_jwt lib sg now jti device tenant name =
     (case sg of
        None \<Rightarrow> Inl ''device JWT issuer disabled''
      | Some s \<Rightarrow>
          (let dev = trim_space device; ten = trim_space tenant; nm = trim_space name; c = device_claims s now jti dev ten nm
           in if dev = [] then Inl ''deviceID is required''
              else if ten = [] then Inl ''tenantID is required''
              else (case el_sign lib (sg_key s) (sg_key_id s) c of
                      None \<Rightarrow> Inl ''signing failed''
                    | Some tok \<Rightarrow>
                        Inr \<lparr>tr_claims = c, tr_token = tok, tr_expires = (now + sg_ttl s) div nanos_per_second, tr_subject = dev,
                             tr_identity = topic_safe_identity dev, tr_username = ''Bearer '' @ tok\<rparr>)))"

definition verification_key :: "ec_lib \<Rightarrow> signer \<Rightarrow> str \<Rightarrow> point option" where
  "verification_key lib s tok =
     (let kid = trim_space (as_string (el_kid lib tok))
      in if kid = [] \<or> kid = sg_key_id s then Some (ek_point (sg_key s))
         else (case find (\<lambda>j. pj_kid j = kid) (sg_additional s) of None \<Rightarrow> None | Some j \<Rightarrow> to_ecdsa lib j))"

definition validate_device_jwt :: "ec_lib \<Rightarrow> signer option \<Rightarrow> nanos \<Rightarrow> str \<Rightarrow> members option" where
  "validate_device_jwt lib sg now raw =
     (case sg of
        None \<Rightarrow> None
      | Some s \<Rightarrow>
          (let tok = trim_space (trim_prefix raw ''Bearer '')
           in if tok = [] \<or> el_alg lib tok \<noteq> Some ''ES256'' then None
              else (case verification_key lib s tok of
                      None \<Rightarrow> None | Some key \<Rightarrow> el_verify lib (sg_issuer s) (sg_audience s) key now tok)))"

section \<open>The published key set\<close>

definition jwk_json :: "public_jwk \<Rightarrow> json" where
  "jwk_json j = JObj ([(''kty'', JStr (pj_kty j)), (''crv'', JStr (pj_crv j)), (''kid'', JStr (pj_kid j))] @
     (if pj_use j = [] then [] else [(''use'', JStr (pj_use j))]) @ (if pj_alg j = [] then [] else [(''alg'', JStr (pj_alg j))]) @
     [(''x'', JStr (pj_x j)), (''y'', JStr (pj_y j))])"

definition jwks_json :: "public_jwk list \<Rightarrow> json" where
  "jwks_json ks = JObj [(''keys'', JArr (map jwk_json ks))]"

text \<open>What the code relies on: base64 decodes what it encodes and leaves no blank, the point of a P-256 key lies on
  the curve, and the library verifies what it signed with the point of the same key, for the issuer and audience
  of the claims, from their nbf until their exp.\<close>

definition accepts_claims :: "str \<Rightarrow> str \<Rightarrow> nanos \<Rightarrow> members \<Rightarrow> bool" where
  "accepts_claims issuer audience now c \<longleftrightarrow>
     obj_get c ''iss'' = Some (JStr issuer) \<and> JStr audience \<in> set (as_array (obj_get c ''aud'')) \<and>
     (case obj_get c ''nbf'' of Some (JInt n) \<Rightarrow> n * nanos_per_second \<le> now | _ \<Rightarrow> True) \<and>
     (case obj_get c ''exp'' of Some (JInt e) \<Rightarrow> now < e * nanos_per_second | _ \<Rightarrow> True)"

text \<open>For one key, key id and claims.\<close>

definition token_readable :: "ec_lib \<Rightarrow> ec_key \<Rightarrow> str \<Rightarrow> members \<Rightarrow> bool" where
  "token_readable lib key kid c \<longleftrightarrow> (\<forall>tok. el_sign lib key kid c = Some tok \<longrightarrow>
     tok \<noteq> [] \<and> trim_space tok = tok \<and> el_alg lib tok = Some ''ES256'' \<and> el_kid lib tok = Some (JStr kid) \<and>
     (\<forall>issuer audience now. el_verify lib issuer audience (ek_point key) now tok = (if accepts_claims issuer audience now c then Some c else None)))"

definition ec_encodes :: "ec_lib \<Rightarrow> bool" where
  "ec_encodes lib \<longleftrightarrow> (\<forall>b. el_decode lib (el_encode lib b) = Some b \<and> (b \<noteq> [] \<longrightarrow> trim_space (el_encode lib b) \<noteq> [])) \<and>
     (\<forall>key :: ec_key. ek_p256 key \<longrightarrow> el_on_curve lib (ek_point key))"

section \<open>Laws\<close>

lemma set_bytes_foldl: "foldl (\<lambda>n c. n * 256 + char_code c) a ys = a * 256 ^ length ys + set_bytes ys"
proof (induction ys arbitrary: a)
  case (Cons c ys)
  have "set_bytes (c # ys) = char_code c * 256 ^ length ys + set_bytes ys"
    using Cons.IH [of "char_code c"] by (simp add: set_bytes_def)
  then show ?case using Cons.IH [of "a * 256 + char_code c"] by (simp add: algebra_simps)
qed (simp add: set_bytes_def)

lemma set_bytes_append: "set_bytes (xs @ ys) = set_bytes xs * 256 ^ length ys + set_bytes ys"
  using set_bytes_foldl [of "set_bytes xs" ys] by (simp add: set_bytes_def)

lemma set_bytes_Cons: "set_bytes (c # ys) = char_code c * 256 ^ length ys + set_bytes ys"
  using set_bytes_foldl [of "char_code c" ys] by (simp add: set_bytes_def)

lemma big_bytes_loop: "n \<le> fuel \<Longrightarrow> set_bytes (big_bytes_loop fuel n acc) = n * 256 ^ length acc + set_bytes acc"
proof (induction fuel arbitrary: n acc)
  case (Suc fuel)
  show ?case
  proof (cases "n = 0")
    case False
    have code: "char_code (char_of n) = n mod 256" by (simp add: char_code_def)
    have "n div 256 < n" using False by (intro div_less_dividend) simp_all
    then have "n div 256 \<le> fuel" using Suc.prems by linarith
    then have "set_bytes (big_bytes_loop (Suc fuel) n acc) =
        n div 256 * 256 ^ Suc (length acc) + (n mod 256 * 256 ^ length acc + set_bytes acc)"
      using False Suc.IH by (simp add: set_bytes_Cons code)
    also have "\<dots> = (n div 256 * 256 + n mod 256) * 256 ^ length acc + set_bytes acc"
      by (simp only: distrib_right power_Suc mult.assoc add.assoc)
    finally show ?thesis by (simp only: div_mult_mod_eq)
  qed simp
qed simp

lemma set_bytes_big [simp]: "set_bytes (big_bytes n) = n"
  using big_bytes_loop [of n n "[]"] by (simp add: big_bytes_def set_bytes_def)

lemma set_bytes_pad [simp]: "set_bytes (pad_p256 b) = set_bytes b"
proof -
  have "set_bytes (replicate k (char_of (0 :: nat))) = 0" for k
    by (induction k) (simp_all add: set_bytes_def)
  then show ?thesis by (simp add: pad_p256_def set_bytes_append)
qed

lemma pad_p256_nonempty [simp]: "pad_p256 b \<noteq> []"
  by (auto simp: pad_p256_def)

lemma to_ecdsa_active: "ec_encodes lib \<Longrightarrow> ek_p256 (sg_key s) \<Longrightarrow> to_ecdsa lib (active_jwk lib s) = Some (ek_point (sg_key s))"
  by (simp add: to_ecdsa_def active_jwk_def ec_encodes_def)

lemma struct_vals_Nil [simp]: "struct_vals f [] = []"
  by (simp add: struct_vals_def)

lemma dec_jwk_json: "pj_use j \<noteq> [] \<Longrightarrow> pj_alg j \<noteq> [] \<Longrightarrow> dec_public_jwk (jwk_json j) old = Some j"
  by (cases j) (simp add: dec_public_jwk_def jwk_json_def struct_vals_def equal_fold_def to_lower_def
      lower_char_def in_range_def char_code_def)

end
