(* ===== verification/Devices.thy ===== *)
theory Devices
  imports DeviceTokens Customers TwinList Accounts
begin

text \<open>
  Devices and their credentials (internal/device, internal/x509cred): saving and deleting a device, its
  credential and the rotation of it, its security status, the tokens issued for it, and the reads. The
  tables are lists of rows; columns every insert fills hold plain text. \<open>dd_hooks\<close> logs the calls of the
  twin registry's hooks, \<open>dd_cache\<close> is the cache of tenant limits.

  \<open>device_env\<close> holds what stays the same between requests: how Postgres reads a UUID literal, the limits
  of the tenants' profiles, the device token library with the running signer, the fingerprint of a PEM
  certificate, bcrypt's check, the environment, and the parsers. \<open>ddraw\<close> holds what a request draws: the
  time in nanoseconds, the identifiers, the bytes of generated tokens, and bcrypt's hash with its salt.
  Audit entries and failures of the database other than violated constraints are not modelled.
\<close>

section \<open>The tables\<close>

record device_row =
  dv_id :: str
  dv_tenant :: str
  dv_created :: millis
  dv_name :: str
  dv_type :: str
  dv_label :: "str option"
  dv_customer :: "str option"
  dv_profile :: str
  dv_info :: "json option"
  dv_security :: str
  dv_version :: int

record dcred_row =
  dc_id :: str
  dc_created :: millis
  dc_device :: str
  dc_type :: str
  dc_ident :: str
  dc_value :: "str option"
  dc_version :: int

record dprofile_row =
  dq_id :: str
  dq_created :: millis
  dq_tenant :: str
  dq_name :: str
  dq_type :: str
  dq_transport :: str
  dq_provision :: str
  dq_description :: "str option"
  dq_default :: bool
  dq_data :: json
  dq_key :: "str option"
  dq_secret :: "str option"
  dq_version :: int

datatype twin_hook = SyncTwin str str | DeleteTwin str str

record device_db =
  dd_devices :: "device_row list"
  dd_creds :: "dcred_row list"
  dd_profiles :: "dprofile_row list"
  dd_alarms :: "(str \<times> str) list"
  dd_links :: "(str \<times> str) list"
  dd_attrs :: attr_db
  dd_cache :: quota_cache
  dd_hooks :: "twin_hook list"

record device_env =
  de_uuid :: "str \<Rightarrow> str option"
  de_query :: "str \<Rightarrow> raw_message option"
  de_lib :: ec_lib
  de_signer :: "signer option"
  de_cert :: "str \<Rightarrow> str option"
  de_check :: "str \<Rightarrow> str \<Rightarrow> bool"
  de_env :: "str \<Rightarrow> str"
  de_csv :: "str \<Rightarrow> str \<Rightarrow> str list list option"
  de_parse :: "str \<Rightarrow> raw_message"

record ddraw =
  dw_now :: nanos
  dw_id :: str
  dw_cred :: str
  dw_auto :: "nat list"
  dw_auto2 :: "nat list"
  dw_jti :: str
  dw_hash :: "str \<Rightarrow> str option"

type_synonym device_result = "(http_error + json) \<times> device_db"

definition now_millis :: "ddraw \<Rightarrow> millis" where "now_millis d = dw_now d div 1000000"

definition find_device :: "device_env \<Rightarrow> device_db \<Rightarrow> str \<Rightarrow> device_row option" where
  "find_device env db ident = Option.bind (de_uuid env ident) (\<lambda>u. find (\<lambda>r. dv_id r = u) (dd_devices db))"

text \<open>The query with the tenant in its WHERE clause.\<close>

definition tenant_device :: "device_env \<Rightarrow> device_db \<Rightarrow> str \<Rightarrow> str \<Rightarrow> device_row option" where
  "tenant_device env db ident tenant =
     (case find_device env db ident of
        None \<Rightarrow> None | Some r \<Rightarrow> if de_uuid env tenant = Some (dv_tenant r) then Some r else None)"

definition find_profile :: "device_env \<Rightarrow> device_db \<Rightarrow> str \<Rightarrow> dprofile_row option" where
  "find_profile env db ident = Option.bind (de_uuid env ident) (\<lambda>u. find (\<lambda>r. dq_id r = u) (dd_profiles db))"

text \<open>LIMIT 1 without an order: the first row stands for the one Postgres returns.\<close>

definition default_profile :: "device_env \<Rightarrow> device_db \<Rightarrow> str \<Rightarrow> str option" where
  "default_profile env db tenant =
     Option.bind (de_uuid env tenant) (\<lambda>t. map_option dq_id (find (\<lambda>r. dq_tenant r = t \<and> dq_default r) (dd_profiles db)))"

definition device_name_taken :: "device_db \<Rightarrow> str \<Rightarrow> str \<Rightarrow> str \<Rightarrow> bool" where
  "device_name_taken db ident tenant name \<longleftrightarrow>
     list_ex (\<lambda>r. dv_id r \<noteq> ident \<and> dv_tenant r = tenant \<and> dv_name r = name) (dd_devices db)"

definition device_columns_fit :: "str \<Rightarrow> str \<Rightarrow> str \<Rightarrow> bool" where
  "device_columns_fit name typ label \<longleftrightarrow> list_all (fits_column 255) [name, typ, label]"

definition update_device :: "str \<Rightarrow> (device_row \<Rightarrow> device_row) \<Rightarrow> device_db \<Rightarrow> device_db" where
  "update_device u f db = db\<lparr>dd_devices := map (\<lambda>r. if dv_id r = u then f r else r) (dd_devices db)\<rparr>"

definition log_hook :: "twin_hook \<Rightarrow> device_db \<Rightarrow> device_db" where
  "log_hook h db = db\<lparr>dd_hooks := dd_hooks db @ [h]\<rparr>"

definition device_count :: "device_env \<Rightarrow> device_db \<Rightarrow> str \<Rightarrow> int option" where
  "device_count env db tenant =
     map_option (\<lambda>t. int (length (filter (\<lambda>r. dv_tenant r = t) (dd_devices db)))) (de_uuid env tenant)"

text \<open>Enforce for a new device, with the cache it leaves.\<close>

definition enforce_device :: "device_env \<Rightarrow> ddraw \<Rightarrow> str \<Rightarrow> device_db \<Rightarrow> bool \<times> device_db" where
  "enforce_device env d tenant db =
     (case enforce (de_query env) (\<lambda>table. device_count env db) (now_millis d) tenant ''device'' (dd_cache db) of
        (ok, cache) \<Rightarrow> (ok, db\<lparr>dd_cache := cache\<rparr>))"

section \<open>Credentials\<close>

definition token_alphabet :: str where
  "token_alphabet = ''abcdefghijklmnopqrstuvwxyzABCDEFGHIJKLMNOPQRSTUVWXYZ0123456789''"

definition access_token20 :: "nat list \<Rightarrow> str" where
  "access_token20 bytes = map (\<lambda>i. token_alphabet ! ((bytes ! (i mod 16)) mod length token_alphabet)) [0..<20]"

definition default_min_length :: int where "default_min_length = 20"

definition access_token_min_length :: "(str \<Rightarrow> str) \<Rightarrow> int" where
  "access_token_min_length env =
     (case atoi (trim_space (env ''DEVICE_ACCESS_TOKEN_MIN_LENGTH'')) of
        None \<Rightarrow> default_min_length | Some n \<Rightarrow> if n < default_min_length then default_min_length else n)"

text \<open>The bytes of the control characters and spaces above ASCII, in UTF-8.\<close>

definition blank_runes :: "str list" where
  "blank_runes =
     map (map (char_of :: nat \<Rightarrow> char)) (map (\<lambda>b. [194, b]) [128..<161] @ [[225, 154, 128]] @ map (\<lambda>b. [226, 128, b]) ([128..<139] @ [168, 169, 175]) @
       [[226, 129, 159], [227, 128, 128]])"

fun has_blank_rune :: "str \<Rightarrow> bool" where
  "has_blank_rune [] \<longleftrightarrow> False"
| "has_blank_rune (c # s) \<longleftrightarrow>
     char_code c \<le> 32 \<or> char_code c = 127 \<or> list_ex (has_prefix (c # s)) blank_runes \<or> has_blank_rune s"

definition normalize_access_token :: "(str \<Rightarrow> str) \<Rightarrow> str \<Rightarrow> http_error + str" where
  "normalize_access_token env raw =
     (let token = trim_space raw; minimum = access_token_min_length env
      in if token = [] then Inr []
         else if int (length token) < minimum then Inl (HttpError 400 ''ACCESS_TOKEN credentialsId is too short'')
         else if has_blank_rune token
           then Inl (HttpError 400 ''ACCESS_TOKEN credentialsId must not contain whitespace or control characters'')
         else Inr token)"

text \<open>\<open>de_cert\<close> is the uppercase hex SHA-256 of a PEM certificate block, \<open>None\<close> when it cannot be parsed.\<close>

definition parse_and_fingerprint :: "(str \<Rightarrow> str option) \<Rightarrow> str \<Rightarrow> str option" where
  "parse_and_fingerprint cert pem = (if trim_space pem = [] then None else cert (trim_space pem))"

definition resolve_credentials_id :: "(str \<Rightarrow> str option) \<Rightarrow> str \<Rightarrow> str \<Rightarrow> http_error + str" where
  "resolve_credentials_id cert ident value =
     (if trim_space ident \<noteq> [] then
        (let s = to_upper (filter (\<lambda>c. c \<noteq> CHR '':'' \<and> c \<noteq> CHR '' '') ident)
         in if length s \<noteq> 64 then Inl (HttpError 400 ''X.509 credentialsId must be a SHA-256 hex digest (64 chars)'')
            else if \<not> list_all hex_char s then Inl (HttpError 400 ''X.509 credentialsId must be a valid hex digest'')
            else Inr s)
      else if trim_space value = [] then Inl (HttpError 400 ''X.509 credentialsValue (PEM) is required when no credentialsId is provided'')
      else or_fail (parse_and_fingerprint cert value) (HttpError 400 ''not a PEM CERTIFICATE block''))"

record cred_input =
  ci_type :: str
  ci_ident :: str
  ci_value :: str
  ci_auto :: bool

definition normalize_credential_input :: "device_env \<Rightarrow> nat list \<Rightarrow> members \<Rightarrow> http_error + cred_input" where
  "normalize_credential_input env bytes body =
     (let typ0 = as_string (obj_get body ''credentialsType''); ident = as_string (obj_get body ''credentialsId'');
          value = as_string (obj_get body ''credentialsValue''); typ = (if typ0 = [] then ''ACCESS_TOKEN'' else typ0);
          out = (\<lambda>i auto. \<lparr>ci_type = typ, ci_ident = i, ci_value = value, ci_auto = auto\<rparr>)
      in if typ = ''ACCESS_TOKEN'' then
           and_then (normalize_access_token (de_env env) ident) (\<lambda>i. Inr (if i = [] then out (access_token20 bytes) True else out i False))
         else if typ = ''X509_CERTIFICATE'' then
           and_then (resolve_credentials_id (de_cert env) ident value) (\<lambda>fp. Inr (out fp False))
         else if typ = ''MQTT_BASIC'' \<or> typ = ''LWM2M_CREDENTIALS'' then
           if ident = [] then Inl (HttpError 400 (''credentialsId is required for '' @ typ)) else Inr (out ident False)
         else Inl (HttpError 400 (''Unsupported credentialsType: '' @ typ)))"

text \<open>The unique constraint on the identifier, against the rows of other devices.\<close>

definition credential_taken :: "device_db \<Rightarrow> str \<Rightarrow> str \<Rightarrow> bool" where
  "credential_taken db device ident \<longleftrightarrow> list_ex (\<lambda>c. dc_device c \<noteq> device \<and> dc_ident c = ident) (dd_creds db)"

definition new_dcred :: "ddraw \<Rightarrow> str \<Rightarrow> str \<Rightarrow> str \<Rightarrow> str option \<Rightarrow> dcred_row" where
  "new_dcred d device typ ident value =
     \<lparr>dc_id = dw_cred d, dc_created = now_millis d, dc_device = device, dc_type = typ, dc_ident = ident, dc_value = value, dc_version = 1\<rparr>"

definition rotate_dcred :: "str \<Rightarrow> str \<Rightarrow> str option \<Rightarrow> dcred_row \<Rightarrow> dcred_row" where
  "rotate_dcred typ ident value c = c\<lparr>dc_type := typ, dc_ident := ident, dc_value := value, dc_version := dc_version c + 1\<rparr>"

text \<open>INSERT with ON CONFLICT (device_id) DO UPDATE; \<open>None\<close> when another constraint is violated.\<close>

definition put_credential :: "ddraw \<Rightarrow> str \<Rightarrow> str \<Rightarrow> str \<Rightarrow> str option \<Rightarrow> device_db \<Rightarrow> device_db option" where
  "put_credential d device typ ident value db =
     (if credential_taken db device ident \<or> char_of (0 :: nat) \<in> set ident \<or> value \<noteq> None \<and> char_of (0 :: nat) \<in> set (the value) then None
      else if list_ex (\<lambda>c. dc_device c = device) (dd_creds db)
        then Some (db\<lparr>dd_creds := map (\<lambda>c. if dc_device c = device then rotate_dcred typ ident value c else c) (dd_creds db)\<rparr>)
      else if list_ex (\<lambda>c. dc_id c = dw_cred d) (dd_creds db) then None
      else Some (db\<lparr>dd_creds := dd_creds db @ [new_dcred d device typ ident value]\<rparr>))"

text \<open>The plain INSERT of a new device's credential.\<close>

definition insert_credential :: "ddraw \<Rightarrow> str \<Rightarrow> str \<Rightarrow> device_db \<Rightarrow> device_db option" where
  "insert_credential d device ident db =
     (if list_ex (\<lambda>c. dc_ident c = ident \<or> dc_device c = device \<or> dc_id c = dw_cred d) (dd_creds db) then None
      else Some (db\<lparr>dd_creds := dd_creds db @ [new_dcred d device ''ACCESS_TOKEN'' ident None]\<rparr>))"

definition upsert_device_credentials :: "device_env \<Rightarrow> ddraw \<Rightarrow> str \<Rightarrow> cred_input \<Rightarrow> device_db \<Rightarrow> device_db option" where
  "upsert_device_credentials env d device cred db =
     Option.bind (de_uuid env device) (\<lambda>u. put_credential d u (ci_type cred) (ci_ident cred) (null_str (ci_value cred)) db)"

section \<open>Answers\<close>

definition entity_id_json :: "str \<Rightarrow> str \<Rightarrow> json" where
  "entity_id_json typ ident = JObj [(''entityType'', JStr typ), (''id'', JStr ident)]"

definition no_customer_id :: str where "no_customer_id = ''13814000-1dd2-11b2-8080-808080808080''"

definition build_device_response :: "device_row \<Rightarrow> str \<Rightarrow> str option \<Rightarrow> members" where
  "build_device_response r tenant profile_name =
     [(''id'', entity_id_json ''DEVICE'' (dv_id r)), (''createdTime'', JInt (dv_created r)), (''tenantId'', entity_id_json ''TENANT'' tenant),
      (''customerId'', entity_id_json ''CUSTOMER'' (coalesce_str (dv_customer r) no_customer_id)), (''name'', JStr (dv_name r)),
      (''type'', JStr (dv_type r)), (''version'', JInt (dv_version r)),
      (''label'', JStr (case dv_label r of None \<Rightarrow> [] | Some l \<Rightarrow> l)), (''deviceProfileId'', entity_id_json ''DEVICE_PROFILE'' (dv_profile r)),
      (''additionalInfo'', case dv_info r of None \<Rightarrow> JNull | Some v \<Rightarrow> v)] @
     (case profile_name of None \<Rightarrow> [] | Some n \<Rightarrow> [(''deviceProfileName'', JStr n)])"

definition query_device :: "device_env \<Rightarrow> device_db \<Rightarrow> str \<Rightarrow> str \<Rightarrow> json option" where
  "query_device env db ident tenant = map_option (\<lambda>r. JObj (build_device_response r tenant None)) (tenant_device env db ident tenant)"

definition query_device_info :: "device_env \<Rightarrow> device_db \<Rightarrow> str \<Rightarrow> str \<Rightarrow> json option" where
  "query_device_info env db ident tenant =
     map_option (\<lambda>r. JObj (build_device_response r tenant (map_option dq_name (find (\<lambda>p. dq_id p = dv_profile r) (dd_profiles db)))))
       (tenant_device env db ident tenant)"

text \<open>The error of the query is ignored: a nil map is null.\<close>

definition saved_device :: "device_env \<Rightarrow> device_db \<Rightarrow> str \<Rightarrow> str \<Rightarrow> json" where
  "saved_device env db ident tenant = (case query_device env db ident tenant of None \<Rightarrow> JNull | Some v \<Rightarrow> v)"

section \<open>Saving\<close>

definition store_device ::
  "str \<Rightarrow> str \<Rightarrow> str \<Rightarrow> str option \<Rightarrow> str \<Rightarrow> json option \<Rightarrow> device_row \<Rightarrow> device_row" where
  "store_device name typ label customer profile info r =
     r\<lparr>dv_name := name, dv_type := typ, dv_label := null_str label, dv_customer := customer, dv_profile := profile, dv_info := info,
       dv_version := dv_version r + 1\<rparr>"

definition new_device ::
  "ddraw \<Rightarrow> str \<Rightarrow> str \<Rightarrow> str \<Rightarrow> str \<Rightarrow> str option \<Rightarrow> str \<Rightarrow> json option \<Rightarrow> device_row" where
  "new_device d tenant name typ label customer profile info =
     \<lparr>dv_id = dw_id d, dv_tenant = tenant, dv_created = now_millis d, dv_name = name, dv_type = typ, dv_label = null_str label,
      dv_customer = customer, dv_profile = profile, dv_info = info, dv_security = ''ACTIVE'', dv_version = 1\<rparr>"

text \<open>The insert: \<open>None\<close> when a constraint is violated.\<close>

definition insert_device :: "device_row \<Rightarrow> device_db \<Rightarrow> device_db option" where
  "insert_device r db =
     (if \<not> device_columns_fit (dv_name r) (dv_type r) (case dv_label r of None \<Rightarrow> [] | Some l \<Rightarrow> l) \<or>
         device_name_taken db (dv_id r) (dv_tenant r) (dv_name r) \<or> list_ex (\<lambda>v. dv_id v = dv_id r) (dd_devices db) \<or>
         \<not> list_ex (\<lambda>p. dq_id p = dv_profile r) (dd_profiles db) then None
      else Some (db\<lparr>dd_devices := dd_devices db @ [r]\<rparr>))"

definition update_device_handler ::
  "device_env \<Rightarrow> str \<Rightarrow> str \<Rightarrow> str \<Rightarrow> str \<Rightarrow> str \<Rightarrow> str \<Rightarrow> str \<Rightarrow> json option \<Rightarrow> device_db \<Rightarrow> device_result" where
  "update_device_handler env tenant ident name typ label customer profile info db =
     (case find_device env db ident of
        None \<Rightarrow> (Inl (HttpError 404 ''Device not found''), db)
      | Some r \<Rightarrow>
          if dv_tenant r \<noteq> tenant then (Inl (HttpError 403 ''Cross-tenant update denied''), db)
          else (case (null_uuid (de_uuid env) customer, find_profile env db profile) of
                  (Some cust, Some p) \<Rightarrow>
                    if \<not> device_columns_fit name typ label \<or> device_name_taken db (dv_id r) (dv_tenant r) name
                      then (Inl (HttpError 500 ''Failed to update device''), db)
                    else (let db' = log_hook (SyncTwin tenant ident) (update_device (dv_id r) (store_device name typ label cust (dq_id p) info) db)
                          in (Inr (saved_device env db' ident tenant), db'))
                | _ \<Rightarrow> (Inl (HttpError 500 ''Failed to update device''), db)))"

definition create_device_handler ::
  "device_env \<Rightarrow> ddraw \<Rightarrow> str \<Rightarrow> str \<Rightarrow> str \<Rightarrow> str \<Rightarrow> str \<Rightarrow> str \<Rightarrow> json option \<Rightarrow> device_db \<Rightarrow> device_result" where
  "create_device_handler env d tenant name typ label customer profile info db =
     (case enforce_device env d tenant db of
        (False, db') \<Rightarrow> (Inl (HttpError 403 ''Tenant quota exceeded''), db')
      | (True, db') \<Rightarrow>
          (case (de_uuid env tenant, null_uuid (de_uuid env) customer, find_profile env db' profile) of
             (Some t, Some cust, Some p) \<Rightarrow>
               (case insert_device (new_device d t name typ label cust (dq_id p) info) db' of
                  None \<Rightarrow> (Inl (HttpError 500 ''Failed to create device''), db')
                | Some db1 \<Rightarrow>
                    (let db2 = log_hook (SyncTwin tenant (dw_id d)) db1;
                         db3 = (case insert_credential d (dw_id d) (access_token20 (dw_auto d)) db2 of None \<Rightarrow> db2 | Some x \<Rightarrow> x)
                     in (Inr (saved_device env db3 (dw_id d) tenant), db3)))
           | _ \<Rightarrow> (Inl (HttpError 500 ''Failed to create device''), db')))"

definition device_save_body :: "device_env \<Rightarrow> ddraw \<Rightarrow> str \<Rightarrow> members \<Rightarrow> device_db \<Rightarrow> device_result" where
  "device_save_body env d tenant body db =
     (let name = as_string (obj_get body ''name''); typ0 = as_string (obj_get body ''type''); label = as_string (obj_get body ''label'');
          typ = (if typ0 = [] then ''default'' else typ0); customer = extract_entity_id body ''customerId'';
          given = extract_entity_id body ''deviceProfileId''; info = json_column (obj_get body ''additionalInfo'');
          ident = extract_entity_id body ''id''
      in if name = [] then (Inl (HttpError 400 ''Missing device name''), db)
         else (case (if given = [] then default_profile env db tenant else Some given) of
                 None \<Rightarrow> (Inl (HttpError 500 ''No default device profile available''), db)
               | Some profile \<Rightarrow>
                   if ident \<noteq> [] then update_device_handler env tenant ident name typ label customer profile info db
                   else create_device_handler env d tenant name typ label customer profile info db))"

definition handle_device_save :: "device_env \<Rightarrow> ddraw \<Rightarrow> members option \<Rightarrow> raw_message \<Rightarrow> device_db \<Rightarrow> device_result" where
  "handle_device_save env d claims raw db =
     (case claims of
        None \<Rightarrow> (Inl (HttpError 401 ''Authentication required''), db)
      | Some c \<Rightarrow>
          (case body_map raw of
             None \<Rightarrow> (Inl (HttpError 400 ''Invalid JSON body''), db)
           | Some body \<Rightarrow> device_save_body env d (claim_string c ''tenantId'') body db))"

section \<open>Deleting\<close>

text \<open>The rows of a device in the other tables go with it.\<close>

definition drop_device :: "str \<Rightarrow> device_db \<Rightarrow> device_db" where
  "drop_device u db =
     db\<lparr>dd_devices := filter (\<lambda>r. dv_id r \<noteq> u) (dd_devices db), dd_creds := filter (\<lambda>c. dc_device c \<noteq> u) (dd_creds db),
        dd_links := filter (\<lambda>(alarm, entity). entity \<noteq> u) (dd_links db), dd_alarms := filter (\<lambda>(alarm, origin). origin \<noteq> u) (dd_alarms db),
        dd_attrs := (dd_attrs db)\<lparr>at_rows := filter (\<lambda>((entity, ord, key), cell). entity \<noteq> u) (at_rows (dd_attrs db))\<rparr>\<rparr>"

definition handle_device_delete :: "device_env \<Rightarrow> members option \<Rightarrow> str \<Rightarrow> device_db \<Rightarrow> device_result" where
  "handle_device_delete env claims device db =
     (case claims of
        None \<Rightarrow> (Inl (HttpError 401 ''Authentication required''), db)
      | Some c \<Rightarrow>
          (case find_device env db device of
             None \<Rightarrow> (Inl (HttpError 404 ''Device not found''), db)
           | Some r \<Rightarrow>
               if dv_tenant r \<noteq> claim_string c ''tenantId'' then (Inl (HttpError 403 ''Cross-tenant delete denied''), db)
               else (Inr JNull, log_hook (DeleteTwin (claim_string c ''tenantId'') device) (drop_device (dv_id r) db))))"

section \<open>The credentials endpoints\<close>

definition credential_json :: "dcred_row \<Rightarrow> str \<Rightarrow> json" where
  "credential_json c device =
     JObj [(''id'', JObj [(''id'', JStr (dc_id c))]), (''deviceId'', entity_id_json ''DEVICE'' device), (''credentialsId'', JStr (dc_ident c)),
           (''credentialsType'', JStr (dc_type c)), (''credentialsValue'', opt_json (dc_value c))]"

definition handle_device_credentials :: "device_env \<Rightarrow> members option \<Rightarrow> str \<Rightarrow> device_db \<Rightarrow> http_error + json" where
  "handle_device_credentials env claims device db =
     and_then (require_auth claims) (\<lambda>c.
       case Option.bind (tenant_device env db device (claim_string c ''tenantId''))
              (\<lambda>r. find (\<lambda>k. dc_device k = dv_id r) (dd_creds db)) of
         None \<Rightarrow> Inl (HttpError 404 ''Credentials not found'')
       | Some k \<Rightarrow> Inr (credential_json k device))"

definition handle_credentials_update ::
  "device_env \<Rightarrow> ddraw \<Rightarrow> members option \<Rightarrow> raw_message \<Rightarrow> device_db \<Rightarrow> device_result" where
  "handle_credentials_update env d claims raw db =
     (case claims of
        None \<Rightarrow> (Inl (HttpError 401 ''Authentication required''), db)
      | Some c \<Rightarrow>
          (case body_map raw of
             None \<Rightarrow> (Inl (HttpError 400 ''Invalid JSON''), db)
           | Some body \<Rightarrow>
               (let device = extract_entity_id body ''deviceId''
                in if device = [] then (Inl (HttpError 400 ''Missing deviceId''), db)
                   else (case find_device env db device of
                           None \<Rightarrow> (Inl (HttpError 404 ''Device not found''), db)
                         | Some r \<Rightarrow>
                             if dv_tenant r \<noteq> claim_string c ''tenantId'' then (Inl (HttpError 403 ''Cross-tenant update denied''), db)
                             else (case normalize_credential_input env (dw_auto2 d) body of
                                     Inl e \<Rightarrow> (Inl e, db)
                                   | Inr cred \<Rightarrow>
                                       (case upsert_device_credentials env d device cred db of
                                          None \<Rightarrow> (Inl (HttpError 500 ''Failed to save credentials''), db)
                                        | Some db' \<Rightarrow> (handle_device_credentials env claims device db', db')))))))"

text \<open>The wizard: the credential is checked first, the device saved, and the credential put in place.\<close>

definition handle_device_with_credentials ::
  "device_env \<Rightarrow> ddraw \<Rightarrow> members option \<Rightarrow> raw_message \<Rightarrow> device_db \<Rightarrow> device_result" where
  "handle_device_with_credentials env d claims raw db =
     (case claims of
        None \<Rightarrow> (Inl (HttpError 401 ''Authentication required''), db)
      | Some c \<Rightarrow>
          (case Option.bind (body_map raw) (\<lambda>kvs. case (dec_field dec_any_map None (struct_vals ''device'' kvs),
                                                          dec_field dec_any_map None (struct_vals ''credentials'' kvs)) of
                     (Some dev, Some creds) \<Rightarrow> Some (dev, creds) | _ \<Rightarrow> None) of
             None \<Rightarrow> (Inl (HttpError 400 ''Invalid JSON body''), db)
           | Some (None, creds) \<Rightarrow> (Inl (HttpError 400 ''Missing device''), db)
           | Some (Some dev, creds) \<Rightarrow>
               (let given = (case creds of None \<Rightarrow> [] | Some m \<Rightarrow> m)
                in case (if given = [] then Inr None else and_then (normalize_credential_input env (dw_auto2 d) given) (\<lambda>x. Inr (Some x))) of
                     Inl e \<Rightarrow> (Inl e, db)
                   | Inr wanted \<Rightarrow>
                       (case handle_device_save env d claims (Some (JObj dev)) db of
                          (Inl e, db') \<Rightarrow> (Inl e, db')
                        | (Inr saved, db') \<Rightarrow>
                            (let device = extract_entity_id (as_object (Some saved)) ''id''
                             in case wanted of
                                  None \<Rightarrow> (Inr saved, db')
                                | Some cred \<Rightarrow>
                                    if device = [] then (Inr saved, db')
                                    else (case upsert_device_credentials env d device cred db' of
                                            None \<Rightarrow> (Inl (HttpError 500 ''Device saved but credentials failed''), db')
                                          | Some db2 \<Rightarrow>
                                              (Inr (case query_device env db2 device (claim_string c ''tenantId'') of None \<Rightarrow> saved | Some v \<Rightarrow> v),
                                               db2)))))))"

section \<open>Security status and tokens\<close>

definition normalize_security_status :: "str \<Rightarrow> str option" where
  "normalize_security_status status =
     (if status = [] \<or> status = ''ACTIVE'' then Some ''ACTIVE'' else if status = ''SUSPENDED'' then Some ''SUSPENDED'' else None)"

definition security_json :: "str \<Rightarrow> str \<Rightarrow> json" where
  "security_json device status = JObj [(''deviceId'', entity_id_json ''DEVICE'' device), (''securityStatus'', JStr status)]"

definition handle_device_security ::
  "device_env \<Rightarrow> members option \<Rightarrow> str \<Rightarrow> str \<Rightarrow> raw_message \<Rightarrow> device_db \<Rightarrow> device_result" where
  "handle_device_security env claims http_method device raw db =
     (case claims of
        None \<Rightarrow> (Inl (HttpError 401 ''Authentication required''), db)
      | Some c \<Rightarrow>
          (case find_device env db device of
             None \<Rightarrow> (Inl (HttpError 404 ''Device not found''), db)
           | Some r \<Rightarrow>
               if dv_tenant r \<noteq> claim_string c ''tenantId'' then (Inl (HttpError 404 ''Device not found''), db)
               else if http_method = ''GET'' then (Inr (security_json device (dv_security r)), db)
               else if http_method \<noteq> ''POST'' \<and> http_method \<noteq> ''PUT'' then (Inl (HttpError 405 ''Method not allowed''), db)
               else (case body_map raw of
                       None \<Rightarrow> (Inl (HttpError 400 ''Invalid JSON''), db)
                     | Some body \<Rightarrow>
                         (let s = as_string (obj_get body ''securityStatus''); status = (if s = [] then as_string (obj_get body ''status'') else s)
                          in case normalize_security_status status of
                               None \<Rightarrow> (Inl (HttpError 400 ''Unsupported securityStatus''), db)
                             | Some next \<Rightarrow>
                                 (Inr (security_json device next),
                                  update_device (dv_id r) (\<lambda>v. v\<lparr>dv_security := next, dv_version := dv_version v + 1\<rparr>) db)))))"

definition issue_for_device :: "device_env \<Rightarrow> ddraw \<Rightarrow> str \<Rightarrow> str \<Rightarrow> device_db \<Rightarrow> http_error + token_response" where
  "issue_for_device env d device tenant db =
     (case tenant_device env db device tenant of
        None \<Rightarrow> Inl (HttpError 404 ''Device not found'')
      | Some r \<Rightarrow>
          if dv_security r \<noteq> ''ACTIVE'' then Inl (HttpError 403 ''Device is suspended'')
          else (case issue_device_jwt (de_lib env) (de_signer env) (dw_now d) (dw_jti d) device tenant (dv_name r) of
                  Inl e \<Rightarrow> Inl (HttpError 503 e) | Inr t \<Rightarrow> Inr t))"

definition handle_device_jwt ::
  "device_env \<Rightarrow> ddraw \<Rightarrow> members option \<Rightarrow> str \<Rightarrow> str \<Rightarrow> device_db \<Rightarrow> http_error + token_response" where
  "handle_device_jwt env d claims http_method device db =
     (if http_method \<noteq> ''POST'' then Inl (HttpError 405 ''Method not allowed'')
      else and_then (require_auth claims) (\<lambda>c.
        if claim_string c ''tenantId'' = [] then Inl (HttpError 401 ''Tenant missing'')
        else issue_for_device env d device (claim_string c ''tenantId'') db))"

definition handle_jwt_refresh :: "device_env \<Rightarrow> ddraw \<Rightarrow> str \<Rightarrow> str \<Rightarrow> device_db \<Rightarrow> http_error + token_response" where
  "handle_jwt_refresh env d http_method authorization db =
     (if http_method \<noteq> ''POST'' then Inl (HttpError 405 ''Method not allowed'')
      else if trim_space authorization = [] then Inl (HttpError 401 ''Device JWT is required'')
      else (case validate_device_jwt (de_lib env) (de_signer env) (dw_now d) (trim_space authorization) of
              None \<Rightarrow> Inl (HttpError 401 ''Invalid or expired device JWT'')
            | Some c \<Rightarrow>
                (let named = claim_string c ''deviceId''; device = (if named = [] then claim_string c ''sub'' else named)
                 in if device = [] \<or> claim_string c ''tenantId'' = [] then Inl (HttpError 401 ''Device JWT claims missing'')
                    else issue_for_device env d device (claim_string c ''tenantId'') db)))"

text \<open>The connectivity dialog: the base address, the broker's address, the token its snippets carry, if any, and the
  MQTT identity. The texts of the snippets are not modelled.\<close>

record connectivity =
  cy_http :: str
  cy_host :: str
  cy_port :: str
  cy_token :: "token_response option"
  cy_identity :: str

definition strip_right :: "char \<Rightarrow> str \<Rightarrow> str" where
  "strip_right c s = rev (dropWhile (\<lambda>x. x = c) (rev s))"

definition connectivity_base_url :: "(str \<Rightarrow> str) \<Rightarrow> str" where
  "connectivity_base_url env =
     (let v = trim_space (env ''DEVICE_CONNECTIVITY_HTTP_BASE_URL'')
      in strip_right CHR ''/'' (if v \<noteq> [] then v else trim_space (env ''ALLOWED_ORIGIN'')))"

definition connectivity_port :: "(str \<Rightarrow> str) \<Rightarrow> str" where
  "connectivity_port env = (let v = trim_space (env ''DEVICE_CONNECTIVITY_MQTT_PORT'') in if v \<noteq> [] then v else ''8883'')"

definition handle_connectivity ::
  "device_env \<Rightarrow> ddraw \<Rightarrow> members option \<Rightarrow> str \<Rightarrow> str \<Rightarrow> device_db \<Rightarrow> http_error + connectivity" where
  "handle_connectivity env d claims http_method device db =
     (if http_method \<noteq> ''GET'' then Inl (HttpError 405 ''Method not allowed'')
      else and_then (require_auth claims) (\<lambda>c.
        let tenant = claim_string c ''tenantId'' in
        if tenant = [] then Inl (HttpError 401 ''Tenant missing'')
        else (case tenant_device env db device tenant of
                None \<Rightarrow> Inl (HttpError 404 ''Device not found'')
              | Some r \<Rightarrow>
                  (let tok = (if dv_security r = ''ACTIVE''
                              then (case issue_device_jwt (de_lib env) (de_signer env) (dw_now d) (dw_jti d) device tenant (dv_name r) of
                                      Inr t \<Rightarrow> if tr_token t \<noteq> [] then Some t else None | Inl _ \<Rightarrow> None)
                              else None);
                       plain = filter (\<lambda>x. x \<noteq> CHR ''-'') device
                   in Inr \<lparr>cy_http = connectivity_base_url (de_env env), cy_host = trim_space (de_env env ''DEVICE_CONNECTIVITY_MQTT_HOST''),
                           cy_port = connectivity_port (de_env env), cy_token = tok,
                           cy_identity = (case tok of None \<Rightarrow> plain | Some t \<Rightarrow> if tr_identity t \<noteq> [] then tr_identity t else plain)\<rparr>))))"

end
