(* ===== verification/Onboarding.thy ===== *)
theory Onboarding
  imports Devices
begin

text \<open>
  How devices come in: the device profiles (crud_device.go of internal/device), provisioning by the
  profile's key and secret (internal/provisioning) and the import of a CSV file (bulk_import.go of
  internal/device). bcrypt and the CSV parser are parameters of the environment (\<open>dw_hash\<close>,
  \<open>de_check\<close>, \<open>de_csv\<close>).
\<close>

section \<open>Device profiles\<close>

fun first_text_value :: "json option list \<Rightarrow> str" where
  "first_text_value [] = []"
| "first_text_value (v # vs) = (let s = trim_space (as_string v) in if s \<noteq> [] then s else first_text_value vs)"

definition nested_provision_config :: "members \<Rightarrow> members" where
  "nested_provision_config body = as_object (obj_get (as_object (obj_get body ''profileData'')) ''provisionConfiguration'')"

text \<open>The hash of a given secret: \<open>Some None\<close> when none is given.\<close>

definition profile_secret :: "ddraw \<Rightarrow> str \<Rightarrow> str option option" where
  "profile_secret d secret =
     (if trim_space secret = [] then Some None else map_option Some (dw_hash d (trim_space secret)))"

record profile_fields =
  qf_name :: str
  qf_type :: str
  qf_transport :: str
  qf_provision :: str
  qf_key :: str
  qf_secret :: str
  qf_description :: str
  qf_default :: bool
  qf_data :: json

definition or_text :: "str \<Rightarrow> str \<Rightarrow> str" where "or_text s fallback = (if s = [] then fallback else s)"

definition profile_fields_of :: "members \<Rightarrow> profile_fields" where
  "profile_fields_of body =
     (let cfg = nested_provision_config body
      in \<lparr>qf_name = as_string (obj_get body ''name''), qf_type = or_text (as_string (obj_get body ''type'')) ''DEFAULT'',
          qf_transport = or_text (as_string (obj_get body ''transportType'')) ''DEFAULT'',
          qf_provision = or_text (first_text_value [obj_get cfg ''type'', obj_get body ''provisionType'']) ''DISABLED'',
          qf_key = first_text_value [obj_get cfg ''provisionDeviceKey'', obj_get body ''provisionDeviceKey''],
          qf_secret = first_text_value [obj_get cfg ''provisionDeviceSecret'', obj_get body ''provisionDeviceSecret''],
          qf_description = as_string (obj_get body ''description''), qf_default = (obj_get body ''default'' = Some (JBool True)),
          qf_data = (case json_column (obj_get body ''profileData'') of None \<Rightarrow> JObj [] | Some v \<Rightarrow> v)\<rparr>)"

definition profile_fits :: "profile_fields \<Rightarrow> bool" where
  "profile_fits f \<longleftrightarrow> list_all (fits_column 255) [qf_name f, qf_type f, qf_transport f, qf_provision f] \<and>
     list_all (\<lambda>s. char_of (0 :: nat) \<notin> set s) [qf_description f, qf_key f]"

text \<open>The unique constraints: the name in the tenant, and the provisioning key.\<close>

definition profile_taken :: "device_db \<Rightarrow> str \<Rightarrow> str \<Rightarrow> profile_fields \<Rightarrow> bool" where
  "profile_taken db ident tenant f \<longleftrightarrow>
     list_ex (\<lambda>p. dq_id p \<noteq> ident \<and> (dq_tenant p = tenant \<and> dq_name p = qf_name f \<or> qf_key f \<noteq> [] \<and> dq_key p = Some (qf_key f))) (dd_profiles db)"

definition write_profile :: "profile_fields \<Rightarrow> str option \<Rightarrow> dprofile_row \<Rightarrow> dprofile_row" where
  "write_profile f hash p =
     p\<lparr>dq_name := qf_name f, dq_type := qf_type f, dq_transport := qf_transport f, dq_provision := qf_provision f,
       dq_description := null_str (qf_description f), dq_default := qf_default f, dq_data := qf_data f, dq_key := null_str (qf_key f),
       dq_secret := (case hash of None \<Rightarrow> dq_secret p | Some h \<Rightarrow> Some h), dq_version := dq_version p + 1\<rparr>"

definition new_profile :: "ddraw \<Rightarrow> str \<Rightarrow> profile_fields \<Rightarrow> str option \<Rightarrow> dprofile_row" where
  "new_profile d tenant f hash =
     \<lparr>dq_id = dw_id d, dq_created = now_millis d, dq_tenant = tenant, dq_name = qf_name f, dq_type = qf_type f, dq_transport = qf_transport f,
      dq_provision = qf_provision f, dq_description = null_str (qf_description f), dq_default = qf_default f, dq_data = qf_data f,
      dq_key = null_str (qf_key f), dq_secret = hash, dq_version = 1\<rparr>"

definition profile_saved_json :: "dprofile_row \<Rightarrow> profile_fields \<Rightarrow> json" where
  "profile_saved_json p f =
     JObj [(''id'', entity_id_json ''DEVICE_PROFILE'' (dq_id p)), (''createdTime'', JInt (dq_created p)), (''name'', JStr (qf_name f)),
           (''type'', JStr (qf_type f)), (''default'', JBool (qf_default f)), (''provisionType'', JStr (qf_provision f)),
           (''provisionDeviceKey'', JStr (qf_key f))]"

text \<open>A hash fits its column.\<close>

definition handle_profile_save :: "device_env \<Rightarrow> ddraw \<Rightarrow> members option \<Rightarrow> raw_message \<Rightarrow> device_db \<Rightarrow> device_result" where
  "handle_profile_save env d claims raw db =
     (case claims of
        None \<Rightarrow> (Inl (HttpError 401 ''Authentication required''), db)
      | Some c \<Rightarrow>
          (let tenant = claim_string c ''tenantId'' in
           case body_map raw of
             None \<Rightarrow> (Inl (HttpError 400 ''Invalid JSON''), db)
           | Some body \<Rightarrow>
               (let f = profile_fields_of body; ident = extract_entity_id body ''id''
                in if qf_name f = [] then (Inl (HttpError 400 ''Missing profile name''), db)
                   else (case profile_secret d (qf_secret f) of
                           None \<Rightarrow> (Inl (HttpError 400 ''hash provisionDeviceSecret''), db)
                         | Some hash \<Rightarrow>
                             if ident \<noteq> [] then
                               (case find_profile env db ident of
                                  None \<Rightarrow> (Inl (HttpError 404 ''Device profile not found''), db)
                                | Some p \<Rightarrow>
                                    if dq_tenant p \<noteq> tenant then (Inl (HttpError 403 ''Cross-tenant update denied''), db)
                                    else if \<not> profile_fits f \<or> profile_taken db (dq_id p) (dq_tenant p) f
                                      then (Inl (HttpError 500 ''Failed to update profile''), db)
                                    else (Inr JNull, db\<lparr>dd_profiles := map (\<lambda>q. if dq_id q = dq_id p then write_profile f hash q else q)
                                                                         (dd_profiles db)\<rparr>))
                             else (case de_uuid env tenant of
                                     None \<Rightarrow> (Inl (HttpError 500 ''Failed to create profile''), db)
                                   | Some t \<Rightarrow>
                                       if \<not> profile_fits f \<or> profile_taken db (dw_id d) t f \<or> list_ex (\<lambda>p. dq_id p = dw_id d) (dd_profiles db)
                                         then (Inl (HttpError 500 ''Failed to create profile''), db)
                                       else (Inr (profile_saved_json (new_profile d t f hash) f),
                                             db\<lparr>dd_profiles := dd_profiles db @ [new_profile d t f hash]\<rparr>))))))"

definition handle_profile_delete :: "device_env \<Rightarrow> members option \<Rightarrow> str \<Rightarrow> device_db \<Rightarrow> device_result" where
  "handle_profile_delete env claims profile db =
     (case claims of
        None \<Rightarrow> (Inl (HttpError 401 ''Authentication required''), db)
      | Some c \<Rightarrow>
          (case find_profile env db profile of
             None \<Rightarrow> (Inl (HttpError 404 ''Device profile not found''), db)
           | Some p \<Rightarrow>
               if dq_tenant p \<noteq> claim_string c ''tenantId'' then (Inl (HttpError 403 ''Cross-tenant delete denied''), db)
               else if dq_default p then (Inl (HttpError 400 ''Cannot delete default device profile''), db)
               else if list_ex (\<lambda>r. dv_profile r = dq_id p) (dd_devices db)
                 then (Inl (HttpError 400 ''Profile is referenced by devices''), db)
               else (Inr JNull, db\<lparr>dd_profiles := filter (\<lambda>q. dq_id q \<noteq> dq_id p) (dd_profiles db)\<rparr>)))"

section \<open>Provisioning\<close>

record provision_request =
  pq_name :: str
  pq_type :: str
  pq_key :: str
  pq_secret :: str

definition normalize_provision_request :: "str list \<Rightarrow> str + provision_request" where
  "normalize_provision_request texts =
     (let name = trim_space (texts ! 0); typ = trim_space (texts ! 1); key = trim_space (texts ! 2); secret = trim_space (texts ! 3)
      in if name = [] then Inl ''deviceName is required''
         else if key = [] then Inl ''provisionDeviceKey is required''
         else if secret = [] then Inl ''provisionDeviceSecret is required''
         else Inr \<lparr>pq_name = name, pq_type = or_text typ ''default'', pq_key = key, pq_secret = secret\<rparr>)"

definition verify_provision_secret :: "(str \<Rightarrow> str \<Rightarrow> bool) \<Rightarrow> str \<Rightarrow> str \<Rightarrow> bool" where
  "verify_provision_secret check hash secret \<longleftrightarrow>
     trim_space hash \<noteq> [] \<and> trim_space secret \<noteq> [] \<and> check (trim_space hash) (trim_space secret)"

definition allow_device_create :: "device_env \<Rightarrow> ddraw \<Rightarrow> str \<Rightarrow> device_db \<Rightarrow> bool \<times> device_db" where
  "allow_device_create env d tenant db =
     (case limits_for (de_query env) (now_millis d) tenant (dd_cache db) of
        (l, cache) \<Rightarrow>
          (if tenant = [] \<or> max_devices l \<le> 0 then True
           else (case device_count env db tenant of None \<Rightarrow> True | Some n \<Rightarrow> \<not> max_devices l \<le> n), db\<lparr>dd_cache := cache\<rparr>))"

text \<open>The device of a request, new or not, inside the transaction; \<open>None\<close> rolls back. The flag tells a new one.\<close>

definition provisioned_device ::
  "device_env \<Rightarrow> ddraw \<Rightarrow> dprofile_row \<Rightarrow> provision_request \<Rightarrow> device_db \<Rightarrow> (str \<times> bool \<times> device_db) option \<times> device_db" where
  "provisioned_device env d p req db =
     (case find (\<lambda>r. dv_tenant r = dq_tenant p \<and> dv_name r = pq_name req \<and> dv_profile r = dq_id p) (dd_devices db) of
        Some r \<Rightarrow> (Some (dv_id r, False, db), db)
      | None \<Rightarrow>
          if dq_provision p \<noteq> ''ALLOW_CREATE_NEW_DEVICES'' then (None, db)
          else (case allow_device_create env d (dq_tenant p) db of
                  (False, db') \<Rightarrow> (None, db')
                | (True, db') \<Rightarrow>
                    (map_option (\<lambda>db1. (dw_id d, True, db1))
                       (insert_device (new_device d (dq_tenant p) (pq_name req) (pq_type req) [] None (dq_id p) None) db'), db')))"

text \<open>The access token of the device, put in place when it has none.\<close>

definition provisioned_token :: "ddraw \<Rightarrow> str \<Rightarrow> device_db \<Rightarrow> (str \<times> device_db) option" where
  "provisioned_token d device db =
     (case find (\<lambda>c. dc_device c = device \<and> dc_type c = ''ACCESS_TOKEN'') (dd_creds db) of
        Some c \<Rightarrow> Some (dc_ident c, db)
      | None \<Rightarrow> map_option (Pair (access_token20 (dw_auto d))) (put_credential d device ''ACCESS_TOKEN'' (access_token20 (dw_auto d)) None db))"

record provisioned =
  pd_token :: str
  pd_device :: str
  pd_tenant :: str
  pd_created :: bool

definition provision_device :: "device_env \<Rightarrow> ddraw \<Rightarrow> provision_request \<Rightarrow> device_db \<Rightarrow> provisioned option \<times> device_db" where
  "provision_device env d req db =
     (case find (\<lambda>p. dq_key p = Some (pq_key req)) (dd_profiles db) of
        None \<Rightarrow> (None, db)
      | Some p \<Rightarrow>
          if dq_tenant p = [] \<or> \<not> verify_provision_secret (de_check env) (case dq_secret p of None \<Rightarrow> [] | Some h \<Rightarrow> h) (pq_secret req) then (None, db)
          else if dq_provision p \<noteq> ''ALLOW_CREATE_NEW_DEVICES'' \<and> dq_provision p \<noteq> ''CHECK_PRE_PROVISIONED_DEVICES'' then (None, db)
          else (case provisioned_device env d p req db of
                  (None, db') \<Rightarrow> (None, db')
                | (Some (device, created, db1), db') \<Rightarrow>
                    (case provisioned_token d device db1 of
                       None \<Rightarrow> (None, db')
                     | Some (tok, db2) \<Rightarrow>
                         (Some \<lparr>pd_token = tok, pd_device = device, pd_tenant = dq_tenant p, pd_created = created\<rparr>,
                          if created then log_hook (SyncTwin (dq_tenant p) device) db2 else db2))))"

datatype provision_answer = ProvisionFailed str | ProvisionedAs provisioned "token_response option"

text \<open>A refused provisioning answers 200; a token that cannot be issued answers 503, the device staying.\<close>

definition handle_provision ::
  "device_env \<Rightarrow> ddraw \<Rightarrow> str \<Rightarrow> raw_message \<Rightarrow> device_db \<Rightarrow> (http_error + provision_answer) \<times> device_db" where
  "handle_provision env d http_method raw db =
     (if http_method \<noteq> ''POST'' then (Inl (HttpError 405 ''Method not allowed''), db)
      else (case decode_strings [''deviceName'', ''deviceType'', ''provisionDeviceKey'', ''provisionDeviceSecret''] raw of
              None \<Rightarrow> (Inl (HttpError 400 ''Invalid JSON body''), db)
            | Some texts \<Rightarrow>
                (case normalize_provision_request texts of
                   Inl e \<Rightarrow> (Inl (HttpError 400 e), db)
                 | Inr req \<Rightarrow>
                     (case provision_device env d req db of
                        (None, db') \<Rightarrow> (Inr (ProvisionFailed ''provisioning failed''), db')
                      | (Some r, db') \<Rightarrow>
                          (case de_signer env of
                             None \<Rightarrow> (Inr (ProvisionedAs r None), db')
                           | Some s \<Rightarrow>
                               (case issue_device_jwt (de_lib env) (Some s) (dw_now d) (dw_jti d) (pd_device r) (pd_tenant r) (pq_name req) of
                                  Inl e \<Rightarrow> (Inl (HttpError 503 ''device credentials unavailable''), db')
                                | Inr t \<Rightarrow> (Inr (ProvisionedAs r (Some t)), db')))))))"

section \<open>Bulk import\<close>

record import_mapping =
  im_columns :: "str list"
  im_delimiter :: str
  im_update :: bool
  im_header :: bool

text \<open>A column's key is decoded and not used.\<close>

definition dec_column :: "json \<Rightarrow> str \<times> str \<Rightarrow> (str \<times> str) option" where
  "dec_column v old =
     (case body_map (Some v) of
        None \<Rightarrow> None
      | Some kvs \<Rightarrow>
          (case (dec_field dec_string (fst old) (struct_vals ''type'' kvs), dec_field dec_string (snd old) (struct_vals ''key'' kvs)) of
             (Some t, Some k) \<Rightarrow> Some (t, k) | _ \<Rightarrow> None))"

fun dec_columns :: "json \<Rightarrow> (str \<times> str) list \<Rightarrow> (str \<times> str) list option" where
  "dec_columns JNull old = Some []"
| "dec_columns (JArr vs) old = dec_slice dec_column ([], []) vs old"
| "dec_columns _ old = None"

definition dec_mapping :: "json \<Rightarrow> (str \<times> str) list \<times> str \<times> bool \<times> bool \<Rightarrow> ((str \<times> str) list \<times> str \<times> bool \<times> bool) option" where
  "dec_mapping v old =
     (case (body_map (Some v), old) of
        (Some kvs, (cols, delim, upd, header)) \<Rightarrow>
          (case (dec_field dec_columns cols (struct_vals ''columns'' kvs), dec_field dec_string delim (struct_vals ''delimiter'' kvs),
                 dec_field dec_bool upd (struct_vals ''update'' kvs), dec_field dec_bool header (struct_vals ''header'' kvs)) of
             (Some c, Some l, Some u, Some h) \<Rightarrow> Some (c, l, u, h)
           | _ \<Rightarrow> None)
      | _ \<Rightarrow> None)"

definition decode_import :: "raw_message \<Rightarrow> (str \<times> import_mapping) option" where
  "decode_import raw =
     (case body_map raw of
        None \<Rightarrow> None
      | Some kvs \<Rightarrow>
          (case (dec_field dec_string [] (struct_vals ''file'' kvs), dec_field dec_mapping ([], [], False, False) (struct_vals ''mapping'' kvs)) of
             (Some file, Some (cols, delim, upd, header)) \<Rightarrow>
               Some (file, \<lparr>im_columns = map fst cols, im_delimiter = delim, im_update = upd, im_header = header\<rparr>)
           | _ \<Rightarrow> None))"

text \<open>The first character of the delimiter; backslash and t stand for a tab.\<close>

definition import_delimiter :: "str \<Rightarrow> str" where
  "import_delimiter delim =
     (case delim of
        [] \<Rightarrow> '',''
      | c # s \<Rightarrow> if delim = [CHR 0x5C, CHR ''t''] then [CHR 0x09] else c # takeWhile (in_range 128 191) s)"

definition known_columns :: "str list" where
  "known_columns = [''NAME'', ''TYPE'', ''LABEL'', ''ACCESS_TOKEN'', ''DESCRIPTION'', ''IS_GATEWAY'']"

text \<open>The known fields of a record, a later column replacing an earlier one, and the other types that have a value.\<close>

definition row_fields :: "str list \<Rightarrow> str list \<Rightarrow> (str, str) gomap" where
  "row_fields columns record = fold (\<lambda>(t, v) m. if to_upper t \<in> set known_columns then AList.update (to_upper t) (trim_space v) m else m)
     (zip columns record) []"

definition row_unsupported :: "str list \<Rightarrow> str list \<Rightarrow> str list" where
  "row_unsupported columns record =
     map (\<lambda>(t, v). to_upper t) (filter (\<lambda>(t, v). to_upper t \<notin> set known_columns \<and> trim_space v \<noteq> []) (zip columns record))"

definition row_field :: "(str, str) gomap \<Rightarrow> str \<Rightarrow> str" where
  "row_field m k = (case map_of m k of None \<Rightarrow> [] | Some v \<Rightarrow> v)"

definition import_info :: "(str, str) gomap \<Rightarrow> json option" where
  "import_info m =
     (let description = row_field m ''DESCRIPTION''; g = to_lower (row_field m ''IS_GATEWAY'');
          info = (if description \<noteq> [] then [(''description'', JStr description)] else []) @
                 (if g = ''true'' \<or> g = ''yes'' \<or> g = ''1'' then [(''gateway'', JBool True)] else [])
      in if info = [] then None else Some (JObj info))"

definition import_update :: "str \<Rightarrow> (str, str) gomap \<Rightarrow> device_db \<Rightarrow> device_db option" where
  "import_update device m db =
     (let typ = or_text (row_field m ''TYPE'') ''default''
      in if \<not> device_columns_fit [] typ (row_field m ''LABEL'') then None
         else Some (update_device device (\<lambda>r. r\<lparr>dv_type := typ, dv_label := null_str (row_field m ''LABEL''), dv_info := import_info m,
                                                  dv_version := dv_version r + 1\<rparr>) db))"

definition import_create :: "device_env \<Rightarrow> ddraw \<Rightarrow> str \<Rightarrow> str \<Rightarrow> (str, str) gomap \<Rightarrow> device_db \<Rightarrow> device_db option" where
  "import_create env d tenant profile m db =
     Option.bind (de_uuid env tenant) (\<lambda>t.
       map_option (log_hook (SyncTwin tenant (dw_id d)))
         (insert_device (new_device d t (row_field m ''NAME'') (or_text (row_field m ''TYPE'') ''default'') (row_field m ''LABEL'') None profile
            (import_info m)) db))"

datatype row_outcome = RowCreated | RowUpdated | RowFailed

definition import_row ::
  "device_env \<Rightarrow> ddraw \<Rightarrow> str \<Rightarrow> str \<Rightarrow> bool \<Rightarrow> (str, str) gomap \<Rightarrow> device_db \<Rightarrow> row_outcome \<times> device_db" where
  "import_row env d tenant profile upd m db =
     (let name = row_field m ''NAME''; tok = row_field m ''ACCESS_TOKEN'' in
      case (if tok = [] then Inr None
            else and_then (normalize_credential_input env (dw_auto2 d) [(''credentialsType'', JStr ''ACCESS_TOKEN''), (''credentialsId'', JStr tok)])
                   (\<lambda>x. Inr (Some x))) of
        Inl e \<Rightarrow> (RowFailed, db)
      | Inr cred \<Rightarrow>
          (case Option.bind (de_uuid env tenant) (\<lambda>t. find (\<lambda>r. dv_tenant r = t \<and> dv_name r = name) (dd_devices db)) of
             Some r \<Rightarrow>
               if \<not> upd then (RowFailed, db)
               else (case import_update (dv_id r) m db of
                       None \<Rightarrow> (RowFailed, db)
                     | Some db1 \<Rightarrow>
                         (case cred of
                            None \<Rightarrow> (RowUpdated, db1)
                          | Some x \<Rightarrow> (case upsert_device_credentials env d (dv_id r) x db1 of
                                         None \<Rightarrow> (RowFailed, db1) | Some db2 \<Rightarrow> (RowUpdated, db2))))
           | None \<Rightarrow>
               (case enforce_device env d tenant db of
                  (False, db') \<Rightarrow> (RowFailed, db')
                | (True, db') \<Rightarrow>
                    (case import_create env d tenant profile m db' of
                       None \<Rightarrow> (RowFailed, db')
                     | Some db1 \<Rightarrow>
                         (let x = (case cred of Some x \<Rightarrow> x | None \<Rightarrow>
                                     \<lparr>ci_type = ''ACCESS_TOKEN'', ci_ident = access_token20 (dw_auto d), ci_value = [], ci_auto = True\<rparr>)
                          in (RowCreated, case upsert_device_credentials env d (dw_id d) x db1 of None \<Rightarrow> db1 | Some db2 \<Rightarrow> db2))))))"

record import_report =
  ir_created :: nat
  ir_updated :: nat
  ir_failed :: nat
  ir_unsupported :: "str list"

definition count_row :: "row_outcome \<Rightarrow> import_report \<Rightarrow> import_report" where
  "count_row out rep =
     (case out of RowCreated \<Rightarrow> rep\<lparr>ir_created := ir_created rep + 1\<rparr> | RowUpdated \<Rightarrow> rep\<lparr>ir_updated := ir_updated rep + 1\<rparr>
        | RowFailed \<Rightarrow> rep\<lparr>ir_failed := ir_failed rep + 1\<rparr>)"

definition blank_record :: "str list \<Rightarrow> bool" where
  "blank_record record \<longleftrightarrow> record = [] \<or> trim_space (concat record) = []"

text \<open>The loop over the records; each has draws of its own.\<close>

fun import_loop ::
  "device_env \<Rightarrow> str \<Rightarrow> str \<Rightarrow> import_mapping \<Rightarrow> (ddraw \<times> str list) list \<Rightarrow> import_report \<Rightarrow> device_db \<Rightarrow> import_report \<times> device_db" where
  "import_loop env tenant profile im [] rep db = (rep, db)"
| "import_loop env tenant profile im ((d, record) # rs) rep db =
     (if blank_record record then import_loop env tenant profile im rs rep db
      else (let m = row_fields (im_columns im) record
            in if row_field m ''NAME'' = [] then import_loop env tenant profile im rs (count_row RowFailed rep) db
               else (case import_row env d tenant profile (im_update im) m db of
                       (out, db') \<Rightarrow> import_loop env tenant profile im rs
                         (count_row out (rep\<lparr>ir_unsupported := ir_unsupported rep @ row_unsupported (im_columns im) record\<rparr>)) db')))"

definition handle_bulk_import ::
  "device_env \<Rightarrow> (nat \<Rightarrow> ddraw) \<Rightarrow> members option \<Rightarrow> raw_message \<Rightarrow> device_db \<Rightarrow> (http_error + import_report) \<times> device_db" where
  "handle_bulk_import env draws claims raw db =
     (case claims of
        None \<Rightarrow> (Inl (HttpError 401 ''Authentication required''), db)
      | Some c \<Rightarrow>
          (let tenant = claim_string c ''tenantId'' in
           case decode_import raw of
             None \<Rightarrow> (Inl (HttpError 400 ''Invalid JSON body''), db)
           | Some (file, im) \<Rightarrow>
               if trim_space file = [] then (Inl (HttpError 400 ''Missing file content''), db)
               else if im_columns im = [] then (Inl (HttpError 400 ''Missing column mapping''), db)
               else (case de_csv env (import_delimiter (im_delimiter im)) file of
                       None \<Rightarrow> (Inl (HttpError 400 ''Failed to parse CSV''), db)
                     | Some records \<Rightarrow>
                         (case default_profile env db tenant of
                            None \<Rightarrow> (Inl (HttpError 500 ''No default device profile available''), db)
                          | Some profile \<Rightarrow>
                              (case import_loop env tenant profile im
                                      (map (\<lambda>(i, r). (draws i, r)) (enumerate 0 (if im_header im then drop 1 records else records)))
                                      \<lparr>ir_created = 0, ir_updated = 0, ir_failed = 0, ir_unsupported = []\<rparr> db of
                                 (rep, db') \<Rightarrow> (Inr (rep\<lparr>ir_unsupported := sort_dedup (ir_unsupported rep)\<rparr>), db'))))))"

end
