(* ===== verification/DeviceReads.thy ===== *)
theory DeviceReads
  imports Onboarding "HOL-Library.Product_Lexorder"
begin

text \<open>
  What is read of devices: the HTTP surface for devices (internal/transport with fetchAttributes of
  postgres.go), the listings and lookups of internal/device/device_handler.go, and the activity flag of
  internal/deviceactivity. Text is ordered by its bytes; rows that compare equal keep the order of the
  table. The hot state of a device is a parameter, \<open>None\<close> when the store cannot answer.
\<close>

section \<open>The HTTP surface for devices\<close>

definition resolve_device_by_token :: "device_db \<Rightarrow> str \<Rightarrow> (str \<times> str \<times> str) option" where
  "resolve_device_by_token db token =
     (if token = [] then None
      else (case find (\<lambda>c. dc_type c = ''ACCESS_TOKEN'' \<and> dc_ident c = token) (dd_creds db) of
              None \<Rightarrow> None
            | Some c \<Rightarrow>
                map_option (\<lambda>r. (dc_device c, dv_tenant r, dv_profile r))
                  (find (\<lambda>r. dv_id r = dc_device c \<and> dv_security r = ''ACTIVE'') (dd_devices db))))"

text \<open>A stored value; \<open>None\<close> when no column holds one.\<close>

definition fetched_value :: "(str \<Rightarrow> raw_message) \<Rightarrow> attr_cell \<Rightarrow> json option" where
  "fetched_value parse c =
     (case ac_bool c of Some b \<Rightarrow> Some (JBool b) | None \<Rightarrow>
      (case ac_str c of Some s \<Rightarrow> Some (JStr s) | None \<Rightarrow>
       (case ac_long c of Some n \<Rightarrow> Some (JInt n) | None \<Rightarrow>
        (case ac_dbl c of Some r \<Rightarrow> Some (number_json r) | None \<Rightarrow>
         (case ac_json c of Some s \<Rightarrow> Some (case parse s of None \<Rightarrow> JNull | Some v \<Rightarrow> v) | None \<Rightarrow> None)))))"

definition fetch_attributes :: "(str \<Rightarrow> raw_message) \<Rightarrow> attr_db \<Rightarrow> str \<Rightarrow> nat \<Rightarrow> str list \<Rightarrow> (str, json) gomap" where
  "fetch_attributes parse db device ord keys =
     fold (\<lambda>(key, o', cell) m. if o' = ord \<and> key \<in> set keys
             then (case fetched_value parse cell of None \<Rightarrow> m | Some v \<Rightarrow> AList.update key v m) else m)
       (joined_rows db device) []"

definition split_csv :: "str \<Rightarrow> str list" where
  "split_csv s = (if trim_space s = [] then [] else filter (\<lambda>p. p \<noteq> []) (map trim_space (split_on CHR '','' (trim_space s))))"

record device_attributes =
  ha_client :: "(str, json) gomap"
  ha_shared :: "(str, json) gomap"
  ha_desired :: "(str, json) gomap"

definition http_attributes :: "device_env \<Rightarrow> device_db \<Rightarrow> (str \<times> str) list \<Rightarrow> str \<Rightarrow> device_attributes" where
  "http_attributes env db query device =
     (let group = (\<lambda>param ord. fetch_attributes (de_parse env) (dd_attrs db) device ord (split_csv (query_get query param)))
      in \<lparr>ha_client = group ''clientKeys'' 0, ha_shared = group ''sharedKeys'' 1, ha_desired = group ''desiredKeys'' 2\<rparr>)"

definition handle_transport ::
  "device_env \<Rightarrow> device_db \<Rightarrow> str \<Rightarrow> str \<Rightarrow> (str \<times> str) list \<Rightarrow> http_error + device_attributes" where
  "handle_transport env db http_method path query =
     (case split_n 2 CHR ''/'' (trim_prefix path ''/api/v1/'') of
        [token, action] \<Rightarrow>
          if token = [] \<or> action = [] then Inl (HttpError 404 ''404 page not found'')
          else (case resolve_device_by_token db token of
                  None \<Rightarrow> Inl (HttpError 401 ''device not found'')
                | Some (device, _) \<Rightarrow>
                    if http_method = ''POST'' \<and> (action = ''telemetry'' \<or> action = ''attributes'')
                      then Inl (HttpError 503 ''device ingest is handled by the HTTP ingest gateway'')
                    else if action = ''attributes'' \<and> http_method = ''GET'' then Inr (http_attributes env db query device)
                    else Inl (HttpError 404 ''not implemented''))
      | _ \<Rightarrow> Inl (HttpError 404 ''404 page not found''))"

section \<open>Activity\<close>

definition activity_timeout :: "str \<Rightarrow> nanos" where
  "activity_timeout raw =
     (if raw = [] then 60 * nanos_per_second
      else (case atoi raw of None \<Rightarrow> 60 * nanos_per_second
            | Some n \<Rightarrow> if n \<le> 0 then 60 * nanos_per_second else wrap64 (n * nanos_per_second)))"

definition active_from_twin :: "nanos \<Rightarrow> ((str, twin_value) gomap) option \<Rightarrow> str \<Rightarrow> str \<Rightarrow> nanos \<Rightarrow> bool option" where
  "active_from_twin timeout hot tenant device now =
     (if tenant = [] \<or> device = [] then None
      else (case hot of
              None \<Rightarrow> None
            | Some vals \<Rightarrow>
                (let latest = fold (\<lambda>(k, v) t. if t < tv_ts v then tv_ts v else t) vals 0
                 in if vals = [] \<or> latest \<le> 0 then None else Some (now - latest * 1000000 \<le> timeout))))"

section \<open>Listings and lookups\<close>

definition handle_device_by_id :: "device_env \<Rightarrow> members option \<Rightarrow> str \<Rightarrow> device_db \<Rightarrow> http_error + json" where
  "handle_device_by_id env claims device db =
     and_then (require_auth claims) (\<lambda>c.
       or_fail (query_device env db device (claim_string c ''tenantId'')) (HttpError 404 ''Device not found''))"

definition handle_device_info_by_id :: "device_env \<Rightarrow> members option \<Rightarrow> str \<Rightarrow> device_db \<Rightarrow> http_error + json" where
  "handle_device_info_by_id env claims device db =
     and_then (require_auth claims) (\<lambda>c.
       or_fail (query_device_info env db device (claim_string c ''tenantId'')) (HttpError 404 ''Device not found''))"

definition handle_device_by_name :: "device_env \<Rightarrow> members option \<Rightarrow> str \<Rightarrow> device_db \<Rightarrow> http_error + json" where
  "handle_device_by_name env claims name db =
     and_then (require_auth claims) (\<lambda>c.
       let tenant = claim_string c ''tenantId'' in
       if name = [] then Inl (HttpError 400 ''Missing deviceName'')
       else or_fail (Option.bind (Option.bind (de_uuid env tenant) (\<lambda>t. find (\<lambda>r. dv_tenant r = t \<and> dv_name r = name) (dd_devices db)))
              (\<lambda>r. query_device env db (dv_id r) tenant)) (HttpError 404 ''Device not found''))"

definition handle_devices_by_ids :: "device_env \<Rightarrow> members option \<Rightarrow> str \<Rightarrow> device_db \<Rightarrow> http_error + json list" where
  "handle_devices_by_ids env claims ids db =
     and_then (require_auth claims) (\<lambda>c.
       if ids = [] then Inr []
       else Inr (concat (map (\<lambda>i. case query_device env db (trim_space i) (claim_string c ''tenantId'') of None \<Rightarrow> [] | Some v \<Rightarrow> [v])
                          (split_on CHR '','' ids))))"

definition handle_device_types :: "device_env \<Rightarrow> members option \<Rightarrow> device_db \<Rightarrow> http_error + str list" where
  "handle_device_types env claims db =
     and_then (require_auth claims) (\<lambda>c.
       case de_uuid env (claim_string c ''tenantId'') of
         None \<Rightarrow> Inl (HttpError 500 ''Database error'')
       | Some t \<Rightarrow> Inr (sort_dedup (map dv_type (filter (\<lambda>r. dv_tenant r = t) (dd_devices db)))))"

text \<open>The columns a listing may be sorted by, as keys; a missing label comes last.\<close>

definition device_sort_key :: "str \<Rightarrow> device_row \<Rightarrow> nat \<times> int \<times> str" where
  "device_sort_key property r =
     (if property = ''type'' then (0, 0, dv_type r)
      else if property = ''label'' then (case dv_label r of None \<Rightarrow> (1, 0, []) | Some l \<Rightarrow> (0, 0, l))
      else if property = ''createdTime'' then (0, dv_created r, [])
      else (0, 0, dv_name r))"

definition device_matches :: "str \<Rightarrow> str \<Rightarrow> str \<Rightarrow> str option \<Rightarrow> device_row \<Rightarrow> bool" where
  "device_matches tenant text typ customer r \<longleftrightarrow>
     dv_tenant r = tenant \<and> (text \<noteq> [] \<longrightarrow> ilike_contains (dv_name r) text) \<and> (typ \<noteq> [] \<longrightarrow> dv_type r = typ) \<and>
     (case customer of None \<Rightarrow> True | Some c \<Rightarrow> dv_customer r = Some c)"

definition sorted_devices :: "str \<Rightarrow> bool \<Rightarrow> device_row list \<Rightarrow> device_row list" where
  "sorted_devices property descending rows =
     (if descending then rev (sort_key (device_sort_key property) rows) else sort_key (device_sort_key property) rows)"

record device_info =
  di_device :: members
  di_customer_title :: "str option"
  di_customer_public :: bool
  di_active :: bool

record device_page =
  dg_data :: "device_info list"
  dg_pages :: int
  dg_total :: int
  dg_next :: bool

text \<open>The attribute active in the server scope.\<close>

definition active_attribute :: "device_db \<Rightarrow> str \<Rightarrow> bool" where
  "active_attribute db device =
     (case find (\<lambda>(key, ord, cell). key = ''active'' \<and> ord = 2) (joined_rows (dd_attrs db) device) of
        None \<Rightarrow> False | Some (_, _, cell) \<Rightarrow> ac_bool cell = Some True)"

definition device_info_item ::
  "device_env \<Rightarrow> nanos \<Rightarrow> (str \<Rightarrow> ((str, twin_value) gomap) option) \<Rightarrow> customer_row list \<Rightarrow> device_db \<Rightarrow> str \<Rightarrow> device_row \<Rightarrow> device_info" where
  "device_info_item env now hot customers db tenant r =
     (let customer = Option.bind (dv_customer r) (\<lambda>u. find (\<lambda>c. cu_id c = u) customers)
      in \<lparr>di_device = build_device_response r tenant (map_option dq_name (find (\<lambda>p. dq_id p = dv_profile r) (dd_profiles db))),
          di_customer_title = Option.bind customer cu_title,
          di_customer_public = (case customer of None \<Rightarrow> False | Some c \<Rightarrow> cu_public c = Some True),
          di_active = (case active_from_twin (activity_timeout (de_env env ''DEVICE_INACTIVITY_TIMEOUT_SECONDS'')) (hot (dv_id r)) tenant (dv_id r) now of
                         Some b \<Rightarrow> b | None \<Rightarrow> active_attribute db (dv_id r))\<rparr>)"

text \<open>A negative offset, which a product of the parameters can wrap to, fails the query.\<close>

definition list_device_infos ::
  "device_env \<Rightarrow> nanos \<Rightarrow> (str \<Rightarrow> ((str, twin_value) gomap) option) \<Rightarrow> customer_row list \<Rightarrow> members option \<Rightarrow> (str \<times> str) list \<Rightarrow>
   str \<Rightarrow> device_db \<Rightarrow> http_error + device_page" where
  "list_device_infos env now hot customers claims query customer db =
     and_then (require_auth claims) (\<lambda>c.
       let tenant = claim_string c ''tenantId''; psize = page_size query 10; page = int_param query ''page'' 0;
           offset = wrap64 (page * psize)
       in case (de_uuid env tenant, if customer = [] then Some None else map_option Some (de_uuid env customer)) of
            (Some t, Some cust) \<Rightarrow>
              if offset < 0 then Inl (HttpError 500 ''Database error'')
              else (let rows = filter (device_matches t (query_get query ''textSearch'') (query_get query ''type'') cust) (dd_devices db);
                        total = int (length rows); pages = (total + psize - 1) div psize;
                        ordered = sorted_devices (query_get query ''sortProperty'') (to_upper (query_get query ''sortOrder'') = ''DESC'') rows
                    in Inr \<lparr>dg_data = map (device_info_item env now hot customers db tenant) (take (nat psize) (drop (nat offset) ordered)),
                            dg_pages = pages, dg_total = total, dg_next = wrap64 (page + 1) < pages\<rparr>)
          | _ \<Rightarrow> Inl (HttpError 500 ''Database error''))"

end
