(* ===== verification/DeviceLaws.thy ===== *)
theory DeviceLaws
  imports DeviceReads
begin

text \<open>
  The device plane as a state machine: every request that changes the tables is a \<open>device_op\<close>, and
  \<open>device_run\<close> runs requests one after the other. The lemmas show what each statement keeps of
  \<open>device_sound\<close>, the constraints of the tables and the references no constraint guards.
\<close>

section \<open>Requests\<close>

datatype device_op =
    SaveDevice "members option" raw_message
  | DeleteDevice "members option" str
  | PutCredentials "members option" raw_message
  | WithCredentials "members option" raw_message
  | SetSecurity "members option" str str raw_message
  | ImportDevices "nat \<Rightarrow> ddraw" "members option" raw_message
  | Provision str raw_message
  | SaveProfile "members option" raw_message
  | DeleteProfile "members option" str

fun device_step :: "device_env \<Rightarrow> ddraw \<times> device_op \<Rightarrow> device_db \<Rightarrow> device_db" where
  "device_step env (d, SaveDevice claims raw) db = snd (handle_device_save env d claims raw db)"
| "device_step env (d, DeleteDevice claims device) db = snd (handle_device_delete env claims device db)"
| "device_step env (d, PutCredentials claims raw) db = snd (handle_credentials_update env d claims raw db)"
| "device_step env (d, WithCredentials claims raw) db = snd (handle_device_with_credentials env d claims raw db)"
| "device_step env (d, SetSecurity claims http_method device raw) db = snd (handle_device_security env claims http_method device raw db)"
| "device_step env (d, ImportDevices draws claims raw) db = snd (handle_bulk_import env draws claims raw db)"
| "device_step env (d, Provision http_method raw) db = snd (handle_provision env d http_method raw db)"
| "device_step env (d, SaveProfile claims raw) db = snd (handle_profile_save env d claims raw db)"
| "device_step env (d, DeleteProfile claims profile) db = snd (handle_profile_delete env claims profile db)"

definition device_run :: "device_env \<Rightarrow> (ddraw \<times> device_op) list \<Rightarrow> device_db \<Rightarrow> device_db" where
  "device_run env ops db = fold (device_step env) ops db"

text \<open>The service draws its identifiers in the canonical spelling.\<close>

fun canonical_op :: "device_env \<Rightarrow> ddraw \<times> device_op \<Rightarrow> bool" where
  "canonical_op env (d, ImportDevices draws claims raw) \<longleftrightarrow> (\<forall>i. de_uuid env (dw_id (draws i)) = Some (dw_id (draws i)))"
| "canonical_op env (d, op) \<longleftrightarrow> de_uuid env (dw_id d) = Some (dw_id d)"

section \<open>Soundness\<close>

definition device_keys :: "device_row \<Rightarrow> str \<times> str" where "device_keys r = (dv_tenant r, dv_name r)"

definition canonical_row :: "device_env \<Rightarrow> device_row \<Rightarrow> bool" where
  "canonical_row env r \<longleftrightarrow> de_uuid env (dv_id r) = Some (dv_id r) \<and> de_uuid env (dv_tenant r) = Some (dv_tenant r)"

definition device_sound :: "device_env \<Rightarrow> device_db \<Rightarrow> bool" where
  "device_sound env db \<longleftrightarrow>
     distinct (map dv_id (dd_devices db)) \<and> distinct (map device_keys (dd_devices db)) \<and>
     (\<forall>r \<in> set (dd_devices db). canonical_row env r \<and> dv_security r \<in> {''ACTIVE'', ''SUSPENDED''} \<and> dv_profile r \<in> dq_id ` set (dd_profiles db)) \<and>
     distinct (map dc_device (dd_creds db)) \<and> distinct (map dc_ident (dd_creds db)) \<and>
     dc_device ` set (dd_creds db) \<subseteq> dv_id ` set (dd_devices db) \<and>
     distinct (map dq_id (dd_profiles db)) \<and> (\<forall>p \<in> set (dd_profiles db). de_uuid env (dq_tenant p) = Some (dq_tenant p))"

text \<open>Canonical spellings are read as themselves.\<close>

definition uuid_reads :: "device_env \<Rightarrow> bool" where
  "uuid_reads env \<longleftrightarrow> (\<forall>s u. de_uuid env s = Some u \<longrightarrow> de_uuid env u = Some u)"

lemma sound_hook [simp]: "device_sound env (log_hook h db) = device_sound env db"
  by (simp add: device_sound_def log_hook_def)

lemma sound_cache [simp]: "device_sound env (db\<lparr>dd_cache := c\<rparr>) = device_sound env db"
  by (simp add: device_sound_def)

lemma enforce_device_db: "snd (enforce_device env d tenant db) = db\<lparr>dd_cache := dd_cache (snd (enforce_device env d tenant db))\<rparr>"
  by (simp add: enforce_device_def split: prod.split)

lemma sound_enforce: "enforce_device env d tenant db = (ok, db') \<Longrightarrow> device_sound env db \<Longrightarrow> device_sound env db'"
  using enforce_device_db [of env d tenant db] by (metis snd_conv sound_cache)

lemma sound_allow: "allow_device_create env d tenant db = (ok, db') \<Longrightarrow> device_sound env db \<Longrightarrow> device_sound env db'"
  by (auto simp: allow_device_create_def split: prod.splits)

text \<open>A row is changed in place: its keys may change when they stay free.\<close>

lemma sound_update_device:
  assumes db: "device_sound env db"
    and keep: "\<And>r. r \<in> set (dd_devices db) \<Longrightarrow> dv_id r = u \<Longrightarrow>
      dv_id (f r) = dv_id r \<and> dv_tenant (f r) = dv_tenant r \<and> dv_security (f r) \<in> {''ACTIVE'', ''SUSPENDED''} \<and>
      dv_profile (f r) \<in> dq_id ` set (dd_profiles db) \<and>
      (\<forall>v \<in> set (dd_devices db). dv_id v \<noteq> u \<longrightarrow> device_keys v \<noteq> device_keys (f r))"
  shows "device_sound env (update_device u f db)"
proof -
  let ?g = "\<lambda>r. if dv_id r = u then f r else r"
  let ?D = "dd_devices db"
  have ids: "map dv_id (map ?g ?D) = map dv_id ?D" using keep by (auto simp: comp_def)
  have one: "r = v" if "r \<in> set ?D" "v \<in> set ?D" "dv_id r = dv_id v" for r v
    using db that by (auto simp: device_sound_def distinct_map dest: inj_onD)
  have inj: "inj_on device_keys (set ?D)" using db by (simp add: device_sound_def distinct_map)
  have keys: "distinct (map device_keys (map ?g ?D))"
  proof -
    have dist: "distinct ?D" using db by (auto simp: device_sound_def distinct_map)
    have "inj_on (device_keys \<circ> ?g) (set ?D)"
    proof (rule inj_onI)
      fix r v assume r: "r \<in> set ?D" and v: "v \<in> set ?D" and eq: "(device_keys \<circ> ?g) r = (device_keys \<circ> ?g) v"
      show "r = v"
      proof (cases "dv_id r = u \<or> dv_id v = u")
        case True
        then show ?thesis using keep [of r] keep [of v] r v eq one by (auto split: if_splits)
      next
        case False
        then show ?thesis using inj r v eq by (auto dest: inj_onD)
      qed
    qed
    then show ?thesis using dist by (simp add: distinct_map)
  qed
  have "canonical_row env (?g r) \<and> dv_security (?g r) \<in> {''ACTIVE'', ''SUSPENDED''} \<and> dv_profile (?g r) \<in> dq_id ` set (dd_profiles db)"
    if "r \<in> set ?D" for r
  proof -
    have ok: "canonical_row env r" "dv_security r \<in> {''ACTIVE'', ''SUSPENDED''}" "dv_profile r \<in> dq_id ` set (dd_profiles db)"
      using db that by (auto simp: device_sound_def)
    show ?thesis
    proof (cases "dv_id r = u")
      case True
      then show ?thesis using keep [OF that True] ok by (simp add: canonical_row_def)
    qed (use ok in simp)
  qed
  then have "\<forall>r \<in> set (map ?g ?D). canonical_row env r \<and> dv_security r \<in> {''ACTIVE'', ''SUSPENDED''} \<and> dv_profile r \<in> dq_id ` set (dd_profiles db)"
    unfolding set_map by blast
  moreover have "dv_id ` set (map ?g ?D) = dv_id ` set ?D" using ids by (metis set_map)
  ultimately show ?thesis
    using db ids keys unfolding device_sound_def update_device_def by (simp del: map_map set_map list.set_map)
qed

lemma sound_insert_device:
  assumes db: "device_sound env db" and ins: "insert_device r db = Some db'" and row: "canonical_row env r" "dv_security r = ''ACTIVE''"
  shows "device_sound env db'" "dd_devices db' = dd_devices db @ [r]" "dd_creds db' = dd_creds db" "dd_profiles db' = dd_profiles db"
    "dd_cache db' = dd_cache db"
proof -
  have db': "db' = db\<lparr>dd_devices := dd_devices db @ [r]\<rparr>" and ids: "\<forall>v \<in> set (dd_devices db). dv_id v \<noteq> dv_id r"
    and taken: "\<not> device_name_taken db (dv_id r) (dv_tenant r) (dv_name r)" and prof: "dv_profile r \<in> dq_id ` set (dd_profiles db)"
    using ins by (force simp: insert_device_def list_ex_iff split: if_splits)+
  have new: "dv_id r \<notin> dv_id ` set (dd_devices db)" using ids by force
  have keys: "device_keys r \<notin> device_keys ` set (dd_devices db)"
    using taken ids by (force simp: device_name_taken_def device_keys_def list_ex_iff)
  show "device_sound env db'" using db new keys prof row unfolding db' device_sound_def by auto
qed (use ins in \<open>auto simp: insert_device_def split: if_splits\<close>)

lemma sound_drop_device: "device_sound env db \<Longrightarrow> device_sound env (drop_device u db)"
  by (auto simp: device_sound_def drop_device_def distinct_map inj_on_def)

lemma sound_put_credential:
  assumes db: "device_sound env db" and put: "put_credential d device typ ident val db = Some db'" and dev: "device \<in> dv_id ` set (dd_devices db)"
  shows "device_sound env db'"
proof -
  have free: "\<forall>c \<in> set (dd_creds db). dc_device c \<noteq> device \<longrightarrow> dc_ident c \<noteq> ident"
    using put by (auto simp: put_credential_def credential_taken_def list_ex_iff split: if_splits)
  have d: "distinct (map dc_device (dd_creds db))" "distinct (map dc_ident (dd_creds db))" "dc_device ` set (dd_creds db) \<subseteq> dv_id ` set (dd_devices db)"
    using db by (simp_all add: device_sound_def)
  let ?g = "\<lambda>c. if dc_device c = device then rotate_dcred typ ident val c else c"
  show ?thesis
  proof (cases "list_ex (\<lambda>c. dc_device c = device) (dd_creds db)")
    case True
    then have db': "db' = db\<lparr>dd_creds := map ?g (dd_creds db)\<rparr>" using put by (simp add: put_credential_def split: if_splits)
    have devs: "map dc_device (map ?g (dd_creds db)) = map dc_device (dd_creds db)" by (simp add: rotate_dcred_def)
    have "inj_on (dc_ident \<circ> ?g) (set (dd_creds db))"
    proof (rule inj_onI)
      fix a b assume a: "a \<in> set (dd_creds db)" and b: "b \<in> set (dd_creds db)" and eq: "(dc_ident \<circ> ?g) a = (dc_ident \<circ> ?g) b"
      have "dc_device a = dc_device b \<Longrightarrow> a = b" using d(1) a b by (auto simp: distinct_map dest: inj_onD)
      moreover have "dc_ident a = dc_ident b \<Longrightarrow> a = b" using d(2) a b by (auto simp: distinct_map dest: inj_onD)
      ultimately show "a = b" using eq free a b by (auto simp: rotate_dcred_def split: if_splits)
    qed
    then have "distinct (map dc_ident (map ?g (dd_creds db)))" using d(2) by (simp add: distinct_map)
    moreover have "dc_device ` set (map ?g (dd_creds db)) = dc_device ` set (dd_creds db)" using devs by (metis set_map)
    ultimately show ?thesis using db devs d(3) unfolding db' device_sound_def by (simp del: map_map)
  next
    case False
    then have "db' = db\<lparr>dd_creds := dd_creds db @ [new_dcred d device typ ident val]\<rparr>"
      using put by (simp add: put_credential_def split: if_splits)
    then show ?thesis using db dev free False by (auto simp: device_sound_def new_dcred_def list_ex_iff)
  qed
qed

lemma put_credential_devices:
  "put_credential d device typ ident val db = Some db' \<Longrightarrow>
   dd_devices db' = dd_devices db \<and> dd_profiles db' = dd_profiles db \<and> dd_cache db' = dd_cache db"
  by (auto simp: put_credential_def split: if_splits)

lemma sound_insert_credential:
  assumes db: "device_sound env db" and ins: "insert_credential d device ident db = Some db'" and dev: "device \<in> dv_id ` set (dd_devices db)"
  shows "device_sound env db'"
proof -
  have db': "db' = db\<lparr>dd_creds := dd_creds db @ [new_dcred d device ''ACCESS_TOKEN'' ident None]\<rparr>"
    and free: "\<forall>c \<in> set (dd_creds db). dc_ident c \<noteq> ident \<and> dc_device c \<noteq> device"
    using ins by (auto simp: insert_credential_def list_ex_iff split: if_splits)
  have "device \<notin> dc_device ` set (dd_creds db)" "ident \<notin> dc_ident ` set (dd_creds db)" using free by auto
  then show ?thesis using db dev unfolding db' device_sound_def by (simp add: new_dcred_def)
qed

lemma insert_credential_devices:
  "insert_credential d device ident db = Some db' \<Longrightarrow>
   dd_devices db' = dd_devices db \<and> dd_profiles db' = dd_profiles db \<and> dd_cache db' = dd_cache db"
  by (auto simp: insert_credential_def split: if_splits)

section \<open>The handlers keep the tables sound\<close>

lemma find_device_mem:
  "find_device env db ident = Some r \<Longrightarrow> r \<in> set (dd_devices db) \<and> de_uuid env ident = Some (dv_id r)"
  by (auto simp: find_device_def find_Some_iff split: bind_splits)

lemma tenant_device_mem:
  "tenant_device env db ident tenant = Some r \<Longrightarrow> find_device env db ident = Some r \<and> de_uuid env tenant = Some (dv_tenant r)"
  by (auto simp: tenant_device_def split: option.splits if_splits)

lemma find_profile_mem: "find_profile env db ident = Some p \<Longrightarrow> p \<in> set (dd_profiles db)"
  by (auto simp: find_profile_def find_Some_iff split: bind_splits)

lemma default_profile_mem: "default_profile env db tenant = Some p \<Longrightarrow> p \<in> dq_id ` set (dd_profiles db)"
  by (auto simp: default_profile_def find_Some_iff split: bind_splits)

lemma name_free_keys:
  "\<not> device_name_taken db u tenant name \<Longrightarrow> v \<in> set (dd_devices db) \<Longrightarrow> dv_id v \<noteq> u \<Longrightarrow> device_keys v \<noteq> (tenant, name)"
  by (auto simp: device_name_taken_def device_keys_def list_ex_iff)

lemma sound_update_handler:
  assumes "device_sound env db"
  shows "device_sound env (snd (update_device_handler env tenant ident name typ label customer profile info db))"
proof (cases "snd (update_device_handler env tenant ident name typ label customer profile info db) = db")
  case False
  then obtain r p cust where r: "find_device env db ident = Some r" "\<not> device_name_taken db (dv_id r) (dv_tenant r) name"
    and p: "find_profile env db profile = Some p"
    and eq: "snd (update_device_handler env tenant ident name typ label customer profile info db) =
      log_hook (SyncTwin tenant ident) (update_device (dv_id r) (store_device name typ label cust (dq_id p) info) db)"
    by (auto simp: update_device_handler_def Let_def split: option.splits if_splits)
  have rm: "r \<in> set (dd_devices db)" using find_device_mem [OF r(1)] by simp
  have "device_sound env (update_device (dv_id r) (store_device name typ label cust (dq_id p) info) db)"
  proof (rule sound_update_device [OF assms])
    fix v assume v: "v \<in> set (dd_devices db)" "dv_id v = dv_id r"
    then have "v = r" using assms rm by (auto simp: device_sound_def distinct_map dest: inj_onD)
    then show "dv_id (store_device name typ label cust (dq_id p) info v) = dv_id v \<and>
        dv_tenant (store_device name typ label cust (dq_id p) info v) = dv_tenant v \<and>
        dv_security (store_device name typ label cust (dq_id p) info v) \<in> {''ACTIVE'', ''SUSPENDED''} \<and>
        dv_profile (store_device name typ label cust (dq_id p) info v) \<in> dq_id ` set (dd_profiles db) \<and>
        (\<forall>w \<in> set (dd_devices db). dv_id w \<noteq> dv_id r \<longrightarrow> device_keys w \<noteq> device_keys (store_device name typ label cust (dq_id p) info v))"
      using assms rm find_profile_mem [OF p] name_free_keys [OF r(2)]
      by (auto simp: store_device_def device_keys_def device_sound_def)
  qed
  then show ?thesis by (simp add: eq)
qed (use assms in simp)

lemma canonical_new_device:
  "de_uuid env (dw_id d) = Some (dw_id d) \<Longrightarrow> de_uuid env t = Some t \<Longrightarrow> canonical_row env (new_device d t name typ label cust profile info)"
  by (simp add: canonical_row_def new_device_def)

lemma new_device_simps [simp]:
  "dv_id (new_device d t name typ label cust profile info) = dw_id d"
  "dv_tenant (new_device d t name typ label cust profile info) = t"
  "dv_security (new_device d t name typ label cust profile info) = ''ACTIVE''"
  "dv_profile (new_device d t name typ label cust profile info) = profile"
  "dv_name (new_device d t name typ label cust profile info) = name"
  by (simp_all add: new_device_def)

lemma sound_create_handler:
  assumes db: "device_sound env db" and env: "uuid_reads env" "de_uuid env (dw_id d) = Some (dw_id d)"
  shows "device_sound env (snd (create_device_handler env d tenant name typ label customer profile info db))"
proof -
  obtain ok db' where e: "enforce_device env d tenant db = (ok, db')" by (cases "enforce_device env d tenant db")
  have db': "device_sound env db'" by (rule sound_enforce [OF e db])
  have created: "device_sound env (log_hook (SyncTwin tenant (dw_id d)) db1)"
      "insert_credential d (dw_id d) tok (log_hook (SyncTwin tenant (dw_id d)) db1) = Some x \<Longrightarrow> device_sound env x"
    if ins: "insert_device (new_device d t name typ label cust pid info) db' = Some db1" and t: "de_uuid env tenant = Some t"
    for t cust pid db1 tok x
  proof -
    have "canonical_row env (new_device d t name typ label cust pid info)"
      using env t by (intro canonical_new_device) (auto simp: uuid_reads_def)
    note one = sound_insert_device [OF db' ins this new_device_simps(3)]
    then show hook: "device_sound env (log_hook (SyncTwin tenant (dw_id d)) db1)" by simp
    have "dw_id d \<in> dv_id ` set (dd_devices (log_hook (SyncTwin tenant (dw_id d)) db1))" using one(2) by (simp add: log_hook_def)
    then show "insert_credential d (dw_id d) tok (log_hook (SyncTwin tenant (dw_id d)) db1) = Some x \<Longrightarrow> device_sound env x"
      using sound_insert_credential [OF hook] by blast
  qed
  then show ?thesis using e db' by (auto simp: create_device_handler_def Let_def split: option.splits bool.splits)
qed

lemma sound_save:
  assumes "device_sound env db" "uuid_reads env" "de_uuid env (dw_id d) = Some (dw_id d)"
  shows "device_sound env (snd (handle_device_save env d claims raw db))"
  using assms sound_update_handler [OF assms(1)] sound_create_handler [OF assms]
  by (auto simp: handle_device_save_def device_save_body_def Let_def split: option.splits)

lemma sound_delete: "device_sound env db \<Longrightarrow> device_sound env (snd (handle_device_delete env claims device db))"
  by (auto simp: handle_device_delete_def sound_drop_device split: option.splits)

lemma sound_upsert:
  assumes "device_sound env db" "upsert_device_credentials env d device cred db = Some db'" "de_uuid env device = Some u" "u \<in> dv_id ` set (dd_devices db)"
  shows "device_sound env db'"
  using assms(2,3) sound_put_credential [OF assms(1) _ assms(4)] by (auto simp: upsert_device_credentials_def)

lemma sound_credentials:
  assumes "device_sound env db"
  shows "device_sound env (snd (handle_credentials_update env d claims raw db))"
proof -
  have "device_sound env db'" if "find_device env db device = Some r" "upsert_device_credentials env d device cred db = Some db'" for r device cred db'
    using sound_upsert [OF assms that(2)] find_device_mem [OF that(1)] by auto
  then show ?thesis using assms by (auto simp: handle_credentials_update_def Let_def split: option.splits sum.splits)
qed

text \<open>The identifier of a saved device's answer is that of its row.\<close>

lemma saved_device_id:
  "extract_entity_id (as_object (Some (saved_device env db ident tenant))) ''id'' \<noteq> [] \<Longrightarrow>
   \<exists>r \<in> set (dd_devices db). extract_entity_id (as_object (Some (saved_device env db ident tenant))) ''id'' = dv_id r \<and>
     tenant_device env db ident tenant = Some r"
  by (auto simp: saved_device_def query_device_def build_device_response_def extract_entity_id_def obj_get_def entity_id_json_def
      split: option.splits dest: find_device_mem tenant_device_mem)

lemma device_save_answer:
  assumes "handle_device_save env d claims raw db = (Inr saved, db')"
  shows "\<exists>c ident. claims = Some c \<and> saved = saved_device env db' ident (claim_string c ''tenantId'')"
  using assms
  by (auto simp: handle_device_save_def device_save_body_def update_device_handler_def create_device_handler_def Let_def
      split: option.splits if_splits prod.splits bool.splits)

lemma sound_id: "device_sound env db \<Longrightarrow> r \<in> set (dd_devices db) \<Longrightarrow> de_uuid env (dv_id r) = Some (dv_id r)"
  by (auto simp: device_sound_def canonical_row_def)

lemma sound_with_credentials:
  assumes db: "device_sound env db" and env: "uuid_reads env" "de_uuid env (dw_id d) = Some (dw_id d)"
  shows "device_sound env (snd (handle_device_with_credentials env d claims raw db))"
proof -
  have saved: "device_sound env db'" if "handle_device_save env d claims r db = (a, db')" for a r db'
    using sound_save [OF db env, of claims r] that by simp
  have put: "device_sound env db2"
    if save: "handle_device_save env d claims r db = (Inr v, db')" and dev: "extract_entity_id (as_object (Some v)) ''id'' \<noteq> []"
      and up: "upsert_device_credentials env d (extract_entity_id (as_object (Some v)) ''id'') cred db' = Some db2" for r v db' cred db2
  proof -
    obtain c ident where v: "v = saved_device env db' ident (claim_string c ''tenantId'')" using device_save_answer [OF save] by auto
    obtain x where x: "x \<in> set (dd_devices db')" "extract_entity_id (as_object (Some v)) ''id'' = dv_id x"
      using saved_device_id [of env db' ident "claim_string c ''tenantId''"] dev unfolding v by blast
    show ?thesis using sound_upsert [OF saved [OF save] up, of "dv_id x"] sound_id [OF saved [OF save] x(1)] x by simp
  qed
  show ?thesis
    using db saved put
    by (auto simp: handle_device_with_credentials_def Let_def split: option.splits sum.splits prod.splits if_splits)
qed

lemma device_unique: "device_sound env db \<Longrightarrow> r \<in> set (dd_devices db) \<Longrightarrow> v \<in> set (dd_devices db) \<Longrightarrow> dv_id r = dv_id v \<Longrightarrow> r = v"
  by (auto simp: device_sound_def distinct_map dest: inj_onD)

lemma sound_relabel:
  assumes db: "device_sound env db"
    and keep: "\<And>r. dv_id (f r) = dv_id r \<and> device_keys (f r) = device_keys r \<and> dv_profile (f r) = dv_profile r"
    and sec: "\<And>r. dv_security r \<in> {''ACTIVE'', ''SUSPENDED''} \<Longrightarrow> dv_security (f r) \<in> {''ACTIVE'', ''SUSPENDED''}"
  shows "device_sound env (update_device u f db)"
proof (rule sound_update_device [OF db])
  fix r assume r: "r \<in> set (dd_devices db)" "dv_id r = u"
  have "inj_on device_keys (set (dd_devices db))" using db by (simp add: device_sound_def distinct_map)
  then have "\<forall>v \<in> set (dd_devices db). dv_id v \<noteq> u \<longrightarrow> device_keys v \<noteq> device_keys r" using r by (auto dest: inj_onD)
  moreover have "dv_tenant (f r) = dv_tenant r" using keep [of r] by (simp add: device_keys_def)
  moreover have "dv_security r \<in> {''ACTIVE'', ''SUSPENDED''}" "dv_profile r \<in> dq_id ` set (dd_profiles db)"
    using db r(1) by (auto simp: device_sound_def)
  ultimately show "dv_id (f r) = dv_id r \<and> dv_tenant (f r) = dv_tenant r \<and> dv_security (f r) \<in> {''ACTIVE'', ''SUSPENDED''} \<and>
      dv_profile (f r) \<in> dq_id ` set (dd_profiles db) \<and> (\<forall>v \<in> set (dd_devices db). dv_id v \<noteq> u \<longrightarrow> device_keys v \<noteq> device_keys (f r))"
    using keep [of r] sec [of r] by simp
qed

lemma sound_security:
  assumes "device_sound env db"
  shows "device_sound env (snd (handle_device_security env claims http_method device raw db))"
proof -
  have "device_sound env (update_device u (\<lambda>v. v\<lparr>dv_security := nxt, dv_version := dv_version v + 1\<rparr>) db)"
    if "normalize_security_status s = Some nxt" for u nxt s
    using that by (intro sound_relabel [OF assms]) (auto simp: device_keys_def normalize_security_status_def split: if_splits)
  then show ?thesis using assms
    by (auto simp: handle_device_security_def Let_def split: option.splits)
qed

lemma sound_import_update: "device_sound env db \<Longrightarrow> import_update u m db = Some db' \<Longrightarrow> device_sound env db'"
  by (auto simp: import_update_def Let_def device_keys_def intro!: sound_relabel split: if_splits)

lemma update_device_ids:
  assumes "\<And>r. dv_id (f r) = dv_id r"
  shows "dv_id ` set (dd_devices (update_device u f db)) = dv_id ` set (dd_devices db)"
proof -
  have "map dv_id (dd_devices (update_device u f db)) = map dv_id (dd_devices db)"
    unfolding update_device_def by (auto simp: assms)
  then show ?thesis by (metis set_map)
qed

lemma import_update_ids: "import_update u m db = Some db' \<Longrightarrow> dv_id ` set (dd_devices db') = dv_id ` set (dd_devices db)"
  unfolding import_update_def Let_def by (clarsimp simp only: split: if_splits) (rule update_device_ids, simp)

lemma sound_import_create:
  assumes db: "device_sound env db" and env: "uuid_reads env" "de_uuid env (dw_id d) = Some (dw_id d)" and prof: "import_create env d tenant profile m db = Some db'"
  shows "device_sound env db'" "dw_id d \<in> dv_id ` set (dd_devices db')"
proof -
  obtain t db1 where t: "de_uuid env tenant = Some t" and db': "db' = log_hook (SyncTwin tenant (dw_id d)) db1"
    and ins: "insert_device (new_device d t (row_field m ''NAME'') (or_text (row_field m ''TYPE'') ''default'') (row_field m ''LABEL'') None profile
            (import_info m)) db = Some db1"
    using prof by (auto simp: import_create_def split: bind_splits)
  have "canonical_row env (new_device d t (row_field m ''NAME'') (or_text (row_field m ''TYPE'') ''default'') (row_field m ''LABEL'') None profile
            (import_info m))"
    using env t by (intro canonical_new_device) (auto simp: uuid_reads_def)
  note one = sound_insert_device [OF db ins this new_device_simps(3)]
  show "device_sound env db'" using one(1) by (simp add: db')
  show "dw_id d \<in> dv_id ` set (dd_devices db')" using one(2) by (simp add: db' log_hook_def)
qed

lemma sound_import_row:
  assumes db: "device_sound env db" and env: "uuid_reads env" "de_uuid env (dw_id d) = Some (dw_id d)"
  shows "device_sound env (snd (import_row env d tenant profile upd m db))"
proof -
  have upd: "device_sound env db2"
    if "find p (dd_devices db) = Some r" "import_update (dv_id r) m db = Some db1" "upsert_device_credentials env d (dv_id r) x db1 = Some db2" for p r db1 x db2
    using sound_upsert [OF sound_import_update [OF db that(2)] that(3) sound_id [OF db]] that(1) import_update_ids [OF that(2)]
    by (metis find_SomeD image_eqI)
  have crt: "device_sound env db2"
    if "enforce_device env d tenant db = (b, db0)" "import_create env d tenant profile m db0 = Some db1"
      "upsert_device_credentials env d (dw_id d) x db1 = Some db2" for b db0 db1 x db2
    using sound_upsert [OF _ that(3) env(2)] sound_import_create [OF sound_enforce [OF that(1) db] env that(2)] by blast
  have crt1: "device_sound env db1" if "enforce_device env d tenant db = (b, db0)" "import_create env d tenant profile m db0 = Some db1" for b db0 db1
    by (rule sound_import_create(1) [OF sound_enforce [OF that(1) db] env that(2)])
  show ?thesis
    using db sound_import_update [OF db] sound_enforce [OF _ db] upd crt crt1
    by (auto simp: import_row_def Let_def split: option.splits sum.splits prod.splits bool.splits bind_splits)
qed

lemma sound_import_loop:
  "uuid_reads env \<Longrightarrow> device_sound env db \<Longrightarrow> \<forall>x \<in> set rs. de_uuid env (dw_id (fst x)) = Some (dw_id (fst x)) \<Longrightarrow>
    device_sound env (snd (import_loop env tenant profile im rs rep db))"
proof (induction env tenant profile im rs rep db rule: import_loop.induct)
  case (2 env tenant profile im d row rs rep db)
  have "device_sound env (snd (import_row env d tenant profile (im_update im) (row_fields (im_columns im) row) db))"
    using 2 by (intro sound_import_row) simp_all
  then show ?case using 2 by (auto simp: Let_def split: prod.splits)
qed simp

lemma sound_import:
  assumes "device_sound env db" "uuid_reads env" "\<forall>i. de_uuid env (dw_id (draws i)) = Some (dw_id (draws i))"
  shows "device_sound env (snd (handle_bulk_import env draws claims raw db))"
proof -
  have "device_sound env db'"
    if "import_loop env tenant profile im (map (\<lambda>(i, r). (draws i, r)) xs) rep db = (rep', db')" for tenant profile im xs rep rep' db'
    using sound_import_loop [OF assms(2) assms(1), of "map (\<lambda>(i, r). (draws i, r)) xs" tenant profile im rep] assms(3) that by (auto split: prod.splits)
  then show ?thesis using assms(1) by (auto simp: handle_bulk_import_def Let_def split: option.splits prod.splits)
qed

end
