(* ===== verification/DeviceSteps.thy ===== *)
theory DeviceSteps
  imports DeviceLaws
begin

text \<open>
  What a request may do to the tables, as a relation: each rule is one kind of statement the handlers
  run, with what the handler has checked before it. Every request is a sequence of such statements for
  the tenant it acts for (\<open>step_statements\<close>), so that a law of the statements is a law of all
  requests.
\<close>

section \<open>Statements\<close>

text \<open>The cache of limits holds what the profiles say.\<close>

definition device_limit :: "device_env \<Rightarrow> str \<Rightarrow> int" where
  "device_limit env tenant = max_devices (profile_limits (de_query env tenant))"

definition cache_true :: "device_env \<Rightarrow> device_db \<Rightarrow> bool" where
  "cache_true env db \<longleftrightarrow> (\<forall>t l e. map_of (dd_cache db) t = Some (l, e) \<longrightarrow> l = profile_limits (de_query env t))"

definition tenant_count :: "device_db \<Rightarrow> str \<Rightarrow> int" where
  "tenant_count db t = int (length (filter (\<lambda>r. dv_tenant r = t) (dd_devices db)))"

definition quota_open :: "device_env \<Rightarrow> device_db \<Rightarrow> str \<Rightarrow> bool" where
  "quota_open env db t \<longleftrightarrow> device_limit env t \<le> 0 \<or> tenant_count db t < device_limit env t"

text \<open>\<open>who\<close> is the tenant the statement runs for; only the devices of \<open>targets\<close> change their status
  or are removed.\<close>

inductive device_stmt :: "str set \<Rightarrow> device_env \<Rightarrow> str option \<Rightarrow> device_db \<Rightarrow> device_db \<Rightarrow> bool" for targets env who where
  Cache: "cache_true env (db\<lparr>dd_cache := c\<rparr>) \<Longrightarrow> device_stmt targets env who db (db\<lparr>dd_cache := c\<rparr>)"
| Hook: "device_stmt targets env who db (log_hook h db)"
| Update: "r \<in> set (dd_devices db) \<Longrightarrow> who = Some (dv_tenant r) \<Longrightarrow>
    \<forall>v. dv_id (f v) = dv_id v \<and> dv_tenant (f v) = dv_tenant v \<and> dv_security (f v) = dv_security v \<Longrightarrow>
    device_stmt targets env who db (update_device (dv_id r) f db)"
| Insert: "insert_device r db = Some db' \<Longrightarrow> who = Some (dv_tenant r) \<Longrightarrow> quota_open env db (dv_tenant r) \<Longrightarrow> device_stmt targets env who db db'"
| Credential: "r \<in> set (dd_devices db) \<Longrightarrow> who = Some (dv_tenant r) \<Longrightarrow> put_credential d (dv_id r) typ ident val db = Some db' \<Longrightarrow>
    device_stmt targets env who db db'"
| NewCredential: "r \<in> set (dd_devices db) \<Longrightarrow> who = Some (dv_tenant r) \<Longrightarrow> insert_credential d (dv_id r) ident db = Some db' \<Longrightarrow>
    device_stmt targets env who db db'"
| Secure: "r \<in> set (dd_devices db) \<Longrightarrow> dv_id r \<in> targets \<Longrightarrow> who = Some (dv_tenant r) \<Longrightarrow>
    device_stmt targets env who db (update_device (dv_id r) (\<lambda>v. v\<lparr>dv_security := s, dv_version := dv_version v + 1\<rparr>) db)"
| Drop: "r \<in> set (dd_devices db) \<Longrightarrow> dv_id r \<in> targets \<Longrightarrow> who = Some (dv_tenant r) \<Longrightarrow> device_stmt targets env who db (drop_device (dv_id r) db)"
| ProfileSet: "p \<in> set (dd_profiles db) \<Longrightarrow> who = Some (dq_tenant p) \<Longrightarrow>
    device_stmt targets env who db (db\<lparr>dd_profiles := map (\<lambda>q. if dq_id q = dq_id p then write_profile f h q else q) (dd_profiles db)\<rparr>)"
| ProfileAdd: "who = Some (dq_tenant p) \<Longrightarrow> dq_id p \<notin> dq_id ` set (dd_profiles db) \<Longrightarrow> device_stmt targets env who db (db\<lparr>dd_profiles := dd_profiles db @ [p]\<rparr>)"
| ProfileDrop: "p \<in> set (dd_profiles db) \<Longrightarrow> who = Some (dq_tenant p) \<Longrightarrow>
    device_stmt targets env who db (db\<lparr>dd_profiles := filter (\<lambda>q. dq_id q \<noteq> dq_id p) (dd_profiles db)\<rparr>)"

abbreviation device_stmts :: "device_env \<Rightarrow> str option \<Rightarrow> device_db \<Rightarrow> device_db \<Rightarrow> bool" where
  "device_stmts env who \<equiv> (device_stmt {} env who)\<^sup>*\<^sup>*"

text \<open>The tenant a request acts for: that of the caller's token, or of the profile its provisioning key names.\<close>

definition claims_tenant :: "device_env \<Rightarrow> members option \<Rightarrow> str option" where
  "claims_tenant env claims = Option.bind claims (\<lambda>c. de_uuid env (claim_string c ''tenantId''))"

definition key_tenant :: "device_db \<Rightarrow> raw_message \<Rightarrow> str option" where
  "key_tenant db raw =
     (case decode_strings [''deviceName'', ''deviceType'', ''provisionDeviceKey'', ''provisionDeviceSecret''] raw of
        None \<Rightarrow> None
      | Some texts \<Rightarrow> map_option dq_tenant (find (\<lambda>p. dq_key p = Some (trim_space (texts ! 2))) (dd_profiles db)))"

fun acts_for :: "device_env \<Rightarrow> device_db \<Rightarrow> device_op \<Rightarrow> str option" where
  "acts_for env db (SaveDevice claims raw) = claims_tenant env claims"
| "acts_for env db (DeleteDevice claims device) = claims_tenant env claims"
| "acts_for env db (PutCredentials claims raw) = claims_tenant env claims"
| "acts_for env db (WithCredentials claims raw) = claims_tenant env claims"
| "acts_for env db (SetSecurity claims http_method device raw) = claims_tenant env claims"
| "acts_for env db (ImportDevices draws claims raw) = claims_tenant env claims"
| "acts_for env db (Provision http_method raw) = key_tenant db raw"
| "acts_for env db (SaveProfile claims raw) = claims_tenant env claims"
| "acts_for env db (DeleteProfile claims profile) = claims_tenant env claims"

text \<open>The devices whose status a request may change, or that it may remove.\<close>

fun status_targets :: "device_env \<Rightarrow> device_op \<Rightarrow> str set" where
  "status_targets env (DeleteDevice claims device) = {u. de_uuid env device = Some u}"
| "status_targets env (SetSecurity claims http_method device raw) = {u. de_uuid env device = Some u}"
| "status_targets env _ = {}"

text \<open>The limits of a tenant do not depend on how its id is spelt.\<close>

definition limits_read :: "device_env \<Rightarrow> bool" where
  "limits_read env \<longleftrightarrow> (\<forall>s u. de_uuid env s = Some u \<longrightarrow> de_query env s = de_query env u)"

section \<open>Quotas\<close>

lemma limits_for_true:
  assumes "cache_true env db" "limits_for (de_query env) now tenant (dd_cache db) = (l, c)"
  shows "l = profile_limits (de_query env tenant)" "cache_true env (db\<lparr>dd_cache := c\<rparr>)"
  using assms by (auto simp: limits_for_def cache_true_def update_conv' split: option.splits if_splits prod.splits)

lemma enforce_stmt:
  assumes c: "cache_true env db" and e: "enforce_device env d tenant db = (ok, db')"
  shows "device_stmts env who db db'" "cache_true env db'" "dd_devices db' = dd_devices db" "dd_creds db' = dd_creds db" "dd_profiles db' = dd_profiles db"
    and "ok \<Longrightarrow> limits_read env \<Longrightarrow> de_uuid env tenant = Some t \<Longrightarrow> de_uuid env [] = None \<Longrightarrow> quota_open env db' t"
proof -
  obtain cache where db': "db' = db\<lparr>dd_cache := cache\<rparr>" and en: "enforce (de_query env) (\<lambda>table. device_count env db) (now_millis d) tenant ''device'' (dd_cache db) = (ok, cache)"
    using e by (auto simp: enforce_device_def split: prod.splits)
  obtain l c1 where l: "limits_for (de_query env) (now_millis d) tenant (dd_cache db) = (l, c1)" by fastforce
  note lt = limits_for_true [OF c l]
  have cases: "tenant = [] \<and> cache = dd_cache db \<or> cache = c1" using en l by (auto simp: enforce_def quota_specs_def split: if_splits option.splits)
  then show t: "cache_true env db'" using lt(2) c unfolding db' by (auto simp: cache_true_def)
  show "device_stmts env who db db'" using t unfolding db' by (blast intro: device_stmt.Cache)
  show "dd_devices db' = dd_devices db" "dd_creds db' = dd_creds db" "dd_profiles db' = dd_profiles db" by (simp_all add: db')
  assume "ok" "limits_read env" "de_uuid env tenant = Some t" "de_uuid env [] = None"
  then show "quota_open env db' t"
    using en l lt(1)
    by (auto simp: enforce_def quota_specs_def quota_open_def device_limit_def tenant_count_def device_count_def limits_read_def db' split: if_splits)
qed

lemma allow_stmt:
  assumes c: "cache_true env db" and e: "allow_device_create env d tenant db = (ok, db')"
  shows "device_stmts env who db db'" "cache_true env db'" "dd_devices db' = dd_devices db" "dd_creds db' = dd_creds db" "dd_profiles db' = dd_profiles db"
    and "ok \<Longrightarrow> tenant \<noteq> [] \<Longrightarrow> de_uuid env tenant = Some tenant \<Longrightarrow> quota_open env db' tenant"
proof -
  obtain l c1 where l: "limits_for (de_query env) (now_millis d) tenant (dd_cache db) = (l, c1)" by fastforce
  note lt = limits_for_true [OF c l]
  have db': "db' = db\<lparr>dd_cache := c1\<rparr>" using e l by (simp add: allow_device_create_def)
  show t: "cache_true env db'" using lt(2) by (simp add: db')
  show "device_stmts env who db db'" using t unfolding db' by (blast intro: device_stmt.Cache)
  show "dd_devices db' = dd_devices db" "dd_creds db' = dd_creds db" "dd_profiles db' = dd_profiles db" by (simp_all add: db')
  assume "ok" "tenant \<noteq> []" "de_uuid env tenant = Some tenant"
  then show "quota_open env db' tenant"
    using e l lt(1)
    by (auto simp: allow_device_create_def quota_open_def device_limit_def tenant_count_def device_count_def db' split: if_splits)
qed

lemma stmt_cache: "device_stmt targets env who db db' \<Longrightarrow> cache_true env db \<Longrightarrow> cache_true env db'"
  by (induction rule: device_stmt.induct)
    (auto simp: cache_true_def log_hook_def update_device_def insert_device_def put_credential_def insert_credential_def drop_device_def split: if_splits)

lemma stmts_cache: "(device_stmt targets env who)\<^sup>*\<^sup>* db db' \<Longrightarrow> cache_true env db \<Longrightarrow> cache_true env db'"
  by (induction rule: rtranclp_induct) (auto intro: stmt_cache)

section \<open>Requests are sequences of statements\<close>

definition ids_read :: "device_env \<Rightarrow> bool" where
  "ids_read env \<longleftrightarrow> uuid_reads env \<and> limits_read env \<and> de_uuid env [] = None"

lemma sound_tenant: "device_sound env db \<Longrightarrow> r \<in> set (dd_devices db) \<Longrightarrow> de_uuid env (dv_tenant r) = Some (dv_tenant r)"
  by (auto simp: device_sound_def canonical_row_def)

lemma sound_profile_tenant: "device_sound env db \<Longrightarrow> p \<in> set (dd_profiles db) \<Longrightarrow> de_uuid env (dq_tenant p) = Some (dq_tenant p)"
  by (auto simp: device_sound_def)

lemma stmts_one [intro]: "device_stmt targets env who db db' \<Longrightarrow> (device_stmt targets env who)\<^sup>*\<^sup>* db db'"
  by (rule r_into_rtranclp)

lemma stmts_hook: "(device_stmt targets env who)\<^sup>*\<^sup>* db db' \<Longrightarrow> (device_stmt targets env who)\<^sup>*\<^sup>* db (log_hook h db')"
  by (rule rtranclp.rtrancl_into_rtrancl) (auto intro: device_stmt.Hook)

lemma update_handler_stmts:
  assumes db: "device_sound env db" and eq: "update_device_handler env tenant ident name typ label customer profile info db = (a, db')"
  shows "device_stmts env (de_uuid env tenant) db db'"
proof (cases "db' = db")
  case False
  then obtain r cust pid where r: "find_device env db ident = Some r" "dv_tenant r = tenant"
    and db': "db' = log_hook (SyncTwin tenant ident) (update_device (dv_id r) (store_device name typ label cust pid info) db)"
    using eq by (auto simp: update_device_handler_def Let_def split: option.splits if_splits)
  have rm: "r \<in> set (dd_devices db)" using find_device_mem [OF r(1)] by simp
  have "device_stmt {} env (de_uuid env tenant) db (update_device (dv_id r) (store_device name typ label cust pid info) db)"
    using rm sound_tenant [OF db rm] r(2) by (intro device_stmt.Update) (auto simp: store_device_def)
  then show ?thesis unfolding db' by (intro stmts_hook stmts_one)
qed simp

lemma create_handler_stmts:
  assumes db: "device_sound env db" and c: "cache_true env db" and env: "ids_read env"
    and eq: "create_device_handler env d tenant name typ label customer profile info db = (a, db')"
  shows "device_stmts env (de_uuid env tenant) db db'"
proof -
  obtain ok db0 where e: "enforce_device env d tenant db = (ok, db0)" by (cases "enforce_device env d tenant db")
  note en = enforce_stmt [OF c e]
  have made: "device_stmts env (Some t) db (log_hook (SyncTwin tenant (dw_id d)) db1)"
      "insert_credential d (dw_id d) tok (log_hook (SyncTwin tenant (dw_id d)) db1) = Some x \<Longrightarrow> device_stmts env (Some t) db x"
    if ok: "ok" and t: "de_uuid env tenant = Some t" and ins: "insert_device (new_device d t name typ label cust pid info) db0 = Some db1"
    for t cust pid db1 tok x
  proof -
    let ?r = "new_device d t name typ label cust pid info"
    have "quota_open env db0 t" using en(6) [OF ok _ t] env by (auto simp: ids_read_def)
    then have "device_stmt {} env (Some t) db0 db1" by (intro device_stmt.Insert [OF ins]) simp_all
    then show s1: "device_stmts env (Some t) db (log_hook (SyncTwin tenant (dw_id d)) db1)"
      using en(1) by (intro stmts_hook) (auto intro: rtranclp.rtrancl_into_rtrancl)
    have r: "?r \<in> set (dd_devices (log_hook (SyncTwin tenant (dw_id d)) db1))"
      using ins by (auto simp: insert_device_def log_hook_def split: if_splits)
    show "device_stmts env (Some t) db x" if "insert_credential d (dw_id d) tok (log_hook (SyncTwin tenant (dw_id d)) db1) = Some x"
      using device_stmt.NewCredential [OF r, of "Some t" d tok x "{}" env] that s1 by (auto intro: rtranclp.rtrancl_into_rtrancl)
  qed
  then show ?thesis using e eq en(1)
    by (auto simp: create_device_handler_def Let_def split: option.splits bool.splits)
qed

lemma save_stmts:
  assumes "device_sound env db" "cache_true env db" "ids_read env" "handle_device_save env d claims raw db = (a, db')"
  shows "device_stmts env (claims_tenant env claims) db db'"
  using assms(4) update_handler_stmts [OF assms(1)] create_handler_stmts [OF assms(1-3)]
  by (auto simp: handle_device_save_def device_save_body_def claims_tenant_def Let_def split: option.splits if_splits)

lemma delete_stmts:
  assumes db: "device_sound env db" and eq: "handle_device_delete env claims device db = (a, db')"
  shows "(device_stmt {u. de_uuid env device = Some u} env (claims_tenant env claims))\<^sup>*\<^sup>* db db'"
proof (cases "db' = db")
  case False
  then obtain c r where c: "claims = Some c" and r: "find_device env db device = Some r" "dv_tenant r = claim_string c ''tenantId''"
    and db': "db' = log_hook (DeleteTwin (claim_string c ''tenantId'') device) (drop_device (dv_id r) db)"
    using eq by (auto simp: handle_device_delete_def split: option.splits if_splits)
  have rm: "r \<in> set (dd_devices db)" using find_device_mem [OF r(1)] by simp
  have "device_stmt {u. de_uuid env device = Some u} env (claims_tenant env claims) db (drop_device (dv_id r) db)"
    using rm sound_tenant [OF db rm] r(2) find_device_mem [OF r(1)] by (intro device_stmt.Drop) (simp_all add: claims_tenant_def c)
  then show ?thesis unfolding db' by (intro stmts_hook stmts_one)
qed simp

lemma upsert_stmt:
  assumes "r \<in> set (dd_devices db)" "de_uuid env device = Some (dv_id r)" "upsert_device_credentials env d device cred db = Some db'"
  shows "device_stmt {} env (Some (dv_tenant r)) db db'"
  using assms by (auto simp: upsert_device_credentials_def intro: device_stmt.Credential)

lemma credentials_stmts:
  assumes db: "device_sound env db" and eq: "handle_credentials_update env d claims raw db = (a, db')"
  shows "device_stmts env (claims_tenant env claims) db db'"
proof (cases "db' = db")
  case False
  then obtain c r device cred where c: "claims = Some c" and r: "find_device env db device = Some r" "dv_tenant r = claim_string c ''tenantId''"
    and up: "upsert_device_credentials env d device cred db = Some db'"
    using eq by (auto simp: handle_credentials_update_def Let_def split: option.splits if_splits sum.splits)
  have rm: "r \<in> set (dd_devices db)" "de_uuid env device = Some (dv_id r)" using find_device_mem [OF r(1)] by simp_all
  then show ?thesis using upsert_stmt [OF rm up] sound_tenant [OF db rm(1)] r(2) by (auto simp: claims_tenant_def c)
qed simp

lemma with_credentials_stmts:
  assumes db: "device_sound env db" and ct: "cache_true env db" and env: "ids_read env" "de_uuid env (dw_id d) = Some (dw_id d)"
    and eq: "handle_device_with_credentials env d claims raw db = (a, db')"
  shows "device_stmts env (claims_tenant env claims) db db'"
proof -
  have saved: "device_stmts env (claims_tenant env claims) db db0" if "handle_device_save env d claims r db = (v, db0)" for r v db0
    by (rule save_stmts [OF db ct env(1) that])
  have put: "device_stmts env (claims_tenant env claims) db db1"
    if save: "handle_device_save env d claims r db = (Inr v, db0)" and dev: "extract_entity_id (as_object (Some v)) ''id'' \<noteq> []"
      and up: "upsert_device_credentials env d (extract_entity_id (as_object (Some v)) ''id'') cred db0 = Some db1" for r v db0 cred db1
  proof -
    have snd0: "device_sound env db0" using sound_save [OF db _ env(2), of claims r] env(1) save by (simp add: ids_read_def)
    obtain c ident where sv: "claims = Some c" "v = saved_device env db0 ident (claim_string c ''tenantId'')" using device_save_answer [OF save] by auto
    obtain x where x: "x \<in> set (dd_devices db0)" "extract_entity_id (as_object (Some v)) ''id'' = dv_id x"
      "tenant_device env db0 ident (claim_string c ''tenantId'') = Some x"
      using saved_device_id [of env db0 ident "claim_string c ''tenantId''"] dev unfolding sv(2) by blast
    have "device_stmt {} env (Some (dv_tenant x)) db0 db1" using upsert_stmt [OF x(1)] sound_id [OF snd0 x(1)] up x(2) by simp
    moreover have "claims_tenant env claims = Some (dv_tenant x)" using tenant_device_mem [OF x(3)] by (simp add: claims_tenant_def sv(1))
    ultimately show ?thesis using saved [OF save] by (auto intro: rtranclp.rtrancl_into_rtrancl)
  qed
  show ?thesis using eq saved put
    by (auto simp: handle_device_with_credentials_def Let_def split: option.splits sum.splits prod.splits if_splits)
qed

lemma security_stmts:
  assumes db: "device_sound env db" and eq: "handle_device_security env claims http_method device raw db = (a, db')"
  shows "(device_stmt {u. de_uuid env device = Some u} env (claims_tenant env claims))\<^sup>*\<^sup>* db db'"
proof (cases "db' = db")
  case False
  then obtain c r s where c: "claims = Some c" and r: "find_device env db device = Some r" "dv_tenant r = claim_string c ''tenantId''"
    and db': "db' = update_device (dv_id r) (\<lambda>v. v\<lparr>dv_security := s, dv_version := dv_version v + 1\<rparr>) db"
    using eq by (auto simp: handle_device_security_def Let_def split: option.splits if_splits)
  have rm: "r \<in> set (dd_devices db)" using find_device_mem [OF r(1)] by simp
  show ?thesis unfolding db'
    using rm sound_tenant [OF db rm] r(2) find_device_mem [OF r(1)] by (intro stmts_one device_stmt.Secure) (simp_all add: claims_tenant_def c)
qed simp

lemma import_update_stmt:
  assumes "r \<in> set (dd_devices db)" "import_update (dv_id r) m db = Some db'"
  shows "device_stmt {} env (Some (dv_tenant r)) db db'"
proof -
  have db': "db' = update_device (dv_id r) (\<lambda>v. v\<lparr>dv_type := or_text (row_field m ''TYPE'') ''default'', dv_label := null_str (row_field m ''LABEL''),
      dv_info := import_info m, dv_version := dv_version v + 1\<rparr>) db"
    using assms(2) by (simp add: import_update_def Let_def split: if_splits)
  show ?thesis unfolding db' using assms(1) by (intro device_stmt.Update) simp_all
qed

lemma update_device_row: "r \<in> set (dd_devices db) \<Longrightarrow> f r \<in> set (dd_devices (update_device (dv_id r) f db))"
  by (force simp: update_device_def)

lemma import_update_row:
  assumes "r \<in> set (dd_devices db)" "import_update (dv_id r) m db = Some db'"
  shows "\<exists>v \<in> set (dd_devices db'). dv_id v = dv_id r \<and> dv_tenant v = dv_tenant r"
proof -
  let ?f = "\<lambda>v. v\<lparr>dv_type := or_text (row_field m ''TYPE'') ''default'', dv_label := null_str (row_field m ''LABEL''),
      dv_info := import_info m, dv_version := dv_version v + 1\<rparr>"
  have "db' = update_device (dv_id r) ?f db" using assms(2) by (simp add: import_update_def Let_def split: if_splits)
  then have "?f r \<in> set (dd_devices db')" using update_device_row [OF assms(1), of ?f] by simp
  then show ?thesis by (rule rev_bexI) simp
qed

lemma import_row_stmts:
  assumes db: "device_sound env db" and ct: "cache_true env db" and env: "ids_read env" "de_uuid env (dw_id d) = Some (dw_id d)"
    and eq: "import_row env d tenant profile upd m db = (out, db')"
  shows "device_stmts env (de_uuid env tenant) db db'"
proof -
  have reads: "uuid_reads env" using env(1) by (simp add: ids_read_def)
  have upd: "device_stmts env (Some t) db db1" "upsert_device_credentials env d (dv_id r) x db1 = Some db2 \<Longrightarrow> device_stmts env (Some t) db db2"
    if "find (\<lambda>r. dv_tenant r = t \<and> dv_name r = name) (dd_devices db) = Some r" "import_update (dv_id r) m db = Some db1" for t name r db1 x db2
  proof -
    have r: "r \<in> set (dd_devices db)" "dv_tenant r = t" using find_SomeD [OF that(1)] by simp_all
    show one: "device_stmts env (Some t) db db1" using import_update_stmt [OF r(1) that(2)] r(2) by auto
    assume up: "upsert_device_credentials env d (dv_id r) x db1 = Some db2"
    have "\<exists>v \<in> set (dd_devices db1). dv_id v = dv_id r \<and> dv_tenant v = dv_tenant r"
      by (rule import_update_row [OF r(1) that(2)])
    then obtain v where v: "v \<in> set (dd_devices db1)" "dv_id v = dv_id r" "dv_tenant v = dv_tenant r" by blast
    show "device_stmts env (Some t) db db2"
      using one upsert_stmt [OF v(1), of env "dv_id r" d x db2] v up sound_id [OF db r(1)] r(2) by (auto intro: rtranclp.rtrancl_into_rtrancl)
  qed
  have kept: "device_stmts env (de_uuid env tenant) db db0" if "enforce_device env d tenant db = (b, db0)" for b db0
    by (rule enforce_stmt(1) [OF ct that])
  have made: "device_stmts env (de_uuid env tenant) db db1"
      "upsert_device_credentials env d (dw_id d) x db1 = Some db2 \<Longrightarrow> device_stmts env (de_uuid env tenant) db db2"
    if e: "enforce_device env d tenant db = (True, db0)" and c: "import_create env d tenant profile m db0 = Some db1" for db0 db1 x db2
  proof -
    obtain t dbi where t: "de_uuid env tenant = Some t" and db1: "db1 = log_hook (SyncTwin tenant (dw_id d)) dbi"
      and ins: "insert_device (new_device d t (row_field m ''NAME'') (or_text (row_field m ''TYPE'') ''default'') (row_field m ''LABEL'') None profile
            (import_info m)) db0 = Some dbi"
      using c by (auto simp: import_create_def split: bind_splits)
    let ?r = "new_device d t (row_field m ''NAME'') (or_text (row_field m ''TYPE'') ''default'') (row_field m ''LABEL'') None profile (import_info m)"
    have "quota_open env db0 t" using enforce_stmt(6) [OF ct e TrueI _ t] env(1) by (simp add: ids_read_def)
    then have "device_stmt {} env (Some t) db0 dbi" by (intro device_stmt.Insert [OF ins]) simp_all
    then show one: "device_stmts env (de_uuid env tenant) db db1"
      using kept [OF e] t unfolding db1 by (intro stmts_hook) (auto intro: rtranclp.rtrancl_into_rtrancl)
    have r: "?r \<in> set (dd_devices db1)" using ins by (auto simp: db1 insert_device_def log_hook_def split: if_splits)
    assume "upsert_device_credentials env d (dw_id d) x db1 = Some db2"
    then show "device_stmts env (de_uuid env tenant) db db2"
      using one upsert_stmt [OF r, of env "dw_id d" d x db2] env(2) t by (auto intro: rtranclp.rtrancl_into_rtrancl)
  qed
  show ?thesis using eq upd kept made
    by (auto simp: import_row_def Let_def split: option.splits sum.splits prod.splits bool.splits bind_splits if_splits)
qed

lemma import_loop_stmts:
  "ids_read env \<Longrightarrow> device_sound env db \<Longrightarrow> cache_true env db \<Longrightarrow> \<forall>x \<in> set rs. de_uuid env (dw_id (fst x)) = Some (dw_id (fst x)) \<Longrightarrow>
   device_stmts env (de_uuid env tenant) db (snd (import_loop env tenant profile im rs rep db))"
proof (induction env tenant profile im rs rep db rule: import_loop.induct)
  case (2 env tenant profile im d row rs rep db)
  show ?case
  proof (cases "blank_record row \<or> row_field (row_fields (im_columns im) row) ''NAME'' = []")
    case True
    then show ?thesis using 2 by (auto simp: Let_def)
  next
    case False
    obtain out db1 where row: "import_row env d tenant profile (im_update im) (row_fields (im_columns im) row) db = (out, db1)"
      by fastforce
    have id: "de_uuid env (dw_id d) = Some (dw_id d)" using 2(7) by simp
    have s: "device_stmts env (de_uuid env tenant) db db1" by (rule import_row_stmts [OF 2(5) 2(6) 2(4) id row])
    have sound1: "device_sound env db1"
      using sound_import_row [OF 2(5) _ id, of tenant profile "im_update im" "row_fields (im_columns im) row"] 2(4) row by (simp add: ids_read_def)
    show ?thesis
      using False row 2(3) [OF _ refl _ row [symmetric] 2(4) sound1 stmts_cache [OF s 2(6)]] 2(7) s row
      by (auto simp: Let_def intro: rtranclp_trans)
  qed
qed simp

lemma import_stmts:
  assumes db: "device_sound env db" "cache_true env db" and env: "ids_read env" "\<forall>i. de_uuid env (dw_id (draws i)) = Some (dw_id (draws i))"
    and eq: "handle_bulk_import env draws claims raw db = (a, db')"
  shows "device_stmts env (claims_tenant env claims) db db'"
proof -
  have "device_stmts env (de_uuid env tenant) db db1"
    if "import_loop env tenant profile im (map (\<lambda>(i, r). (draws i, r)) xs) rep db = (rep', db1)" for tenant profile im xs rep rep' db1
    using import_loop_stmts [OF env(1) db, of "map (\<lambda>(i, r). (draws i, r)) xs" tenant profile im rep] env(2) that by (auto split: prod.splits)
  then show ?thesis using eq by (auto simp: handle_bulk_import_def claims_tenant_def Let_def split: option.splits prod.splits if_splits)
qed

lemma provision_device_stmts:
  assumes db: "device_sound env db" and ct: "cache_true env db" and env: "ids_read env"
    and p: "find (\<lambda>p. dq_key p = Some (pq_key req)) (dd_profiles db) = Some p" and eq: "provision_device env d req db = (out, db')"
  shows "device_stmts env (Some (dq_tenant p)) db db'"
proof -
  have pm: "p \<in> set (dd_profiles db)" using find_SomeD [OF p] by simp
  note t = sound_profile_tenant [OF db pm]
  have dev: "device_stmts env (Some (dq_tenant p)) db db0 \<and>
      (\<forall>device created db1. x = Some (device, created, db1) \<longrightarrow> device_stmts env (Some (dq_tenant p)) db db1 \<and>
        (\<exists>r \<in> set (dd_devices db1). dv_id r = device \<and> dv_tenant r = dq_tenant p))"
    if made: "provisioned_device env d p req db = (x, db0)" for x db0
  proof (cases "find (\<lambda>r. dv_tenant r = dq_tenant p \<and> dv_name r = pq_name req \<and> dv_profile r = dq_id p) (dd_devices db)")
    case (Some r)
    then show ?thesis using made find_SomeD [OF Some] by (auto simp: provisioned_device_def)
  next
    case None
    obtain ok dba where a: "allow_device_create env d (dq_tenant p) db = (ok, dba)" by fastforce
    note al = allow_stmt [OF ct a]
    have "device_stmts env (Some (dq_tenant p)) db dbi \<and>
        new_device d (dq_tenant p) (pq_name req) (pq_type req) [] None (dq_id p) None \<in> set (dd_devices dbi)"
      if ok and ins: "insert_device (new_device d (dq_tenant p) (pq_name req) (pq_type req) [] None (dq_id p) None) dba = Some dbi" for dbi
    proof -
      have "dq_tenant p \<noteq> []" using t env by (auto simp: ids_read_def)
      then have "quota_open env dba (dq_tenant p)" using al(6) \<open>ok\<close> t by blast
      then have "device_stmt {} env (Some (dq_tenant p)) dba dbi" by (intro device_stmt.Insert [OF ins]) simp_all
      then show ?thesis using al(1) ins by (auto simp: insert_device_def intro: rtranclp.rtrancl_into_rtrancl split: if_splits)
    qed
    then show ?thesis using None made a al(1)
      by (auto simp: provisioned_device_def split: if_splits prod.splits bool.splits) force+
  qed
  have tok: "device_stmts env (Some (dq_tenant p)) db1 db2"
    if "r \<in> set (dd_devices db1)" "dv_tenant r = dq_tenant p" "provisioned_token d (dv_id r) db1 = Some (tk, db2)" for r db1 tk db2
    using that by (auto simp: provisioned_token_def split: option.splits intro!: stmts_one device_stmt.Credential)
  show ?thesis
  proof (cases "provisioned_device env d p req db")
    case (Pair x db0)
    have keep: "device_stmts env (Some (dq_tenant p)) db db0" using dev [OF Pair] by blast
    have "device_stmts env (Some (dq_tenant p)) db db2" if x: "x = Some (device, created, db1)" and tk: "provisioned_token d device db1 = Some (tk, db2)"
      for device created db1 tk db2
    proof -
      obtain r where r: "r \<in> set (dd_devices db1)" "dv_id r = device" "dv_tenant r = dq_tenant p" and s: "device_stmts env (Some (dq_tenant p)) db db1"
        using dev [OF Pair] x by blast
      show ?thesis using tok [OF r(1,3)] tk r(2) s by (auto intro: rtranclp_trans)
    qed
    then show ?thesis using eq p Pair keep
      by (auto simp: provision_device_def split: if_splits option.splits prod.splits intro!: stmts_hook)
  qed
qed

lemma normalized_key: "normalize_provision_request texts = Inr req \<Longrightarrow> pq_key req = trim_space (texts ! 2)"
  by (auto simp: normalize_provision_request_def Let_def split: if_splits)

lemma provision_stmts:
  assumes "device_sound env db" "cache_true env db" "ids_read env" "handle_provision env d http_method raw db = (a, db')"
  shows "device_stmts env (key_tenant db raw) db db'"
proof -
  have "device_stmts env (map_option dq_tenant (find (\<lambda>p. dq_key p = Some (pq_key req)) (dd_profiles db))) db db1"
    if "provision_device env d req db = (out, db1)" for req out db1
  proof (cases "find (\<lambda>p. dq_key p = Some (pq_key req)) (dd_profiles db)")
    case None
    then show ?thesis using that by (simp add: provision_device_def)
  next
    case (Some p)
    then show ?thesis using provision_device_stmts [OF assms(1-3) Some that] by simp
  qed
  then show ?thesis using assms(4)
    by (auto simp: handle_provision_def key_tenant_def normalized_key split: option.splits sum.splits prod.splits if_splits)
      (metis normalized_key option.simps(9) option.simps(8))+
qed

lemma profile_save_stmts:
  assumes db: "device_sound env db" and eq: "handle_profile_save env d claims raw db = (a, db')" and env: "ids_read env"
  shows "device_stmts env (claims_tenant env claims) db db'"
proof -
  have upd: "device_stmts env w db
      (db\<lparr>dd_profiles := map (\<lambda>q. if dq_id q = dq_id p then write_profile f h q else q) (dd_profiles db)\<rparr>)"
    if "find_profile env db ident = Some p" "dq_tenant p = t" "de_uuid env t = w" for ident p f h t w
    using find_profile_mem [OF that(1)] sound_profile_tenant [OF db] that(2,3) by (intro stmts_one device_stmt.ProfileSet) auto
  have new: "device_stmts env (Some t) db (db\<lparr>dd_profiles := dd_profiles db @ [new_profile d t f h]\<rparr>)"
    if "\<not> list_ex (\<lambda>p. dq_id p = dw_id d) (dd_profiles db)" for t f h
    using that by (intro stmts_one device_stmt.ProfileAdd) (auto simp: new_profile_def list_ex_iff)
  show ?thesis using eq upd new
    by (auto simp: handle_profile_save_def claims_tenant_def Let_def split: option.splits if_splits)
qed

lemma profile_delete_stmts:
  assumes db: "device_sound env db" and eq: "handle_profile_delete env claims profile db = (a, db')"
  shows "device_stmts env (claims_tenant env claims) db db'"
proof -
  have "device_stmts env w db (db\<lparr>dd_profiles := filter (\<lambda>q. dq_id q \<noteq> dq_id p) (dd_profiles db)\<rparr>)"
    if "find_profile env db ident = Some p" "dq_tenant p = t" "de_uuid env t = w" for ident p t w
    using find_profile_mem [OF that(1)] sound_profile_tenant [OF db] that(2,3) by (intro stmts_one device_stmt.ProfileDrop) auto
  then show ?thesis using eq by (auto simp: handle_profile_delete_def claims_tenant_def split: option.splits if_splits)
qed

lemma step_statements:
  assumes env: "ids_read env" and db: "device_sound env db" "cache_true env db" and op: "canonical_op env (d, op)"
  shows "(device_stmt (status_targets env op) env (acts_for env db op))\<^sup>*\<^sup>* db (device_step env (d, op) db)"
proof (cases op)
  case (SaveDevice c r)
  then show ?thesis using save_stmts [OF db env] by (cases "handle_device_save env d c r db") auto
next
  case (DeleteDevice c i)
  then show ?thesis using delete_stmts [OF db(1)] by (cases "handle_device_delete env c i db") auto
next
  case (PutCredentials c r)
  then show ?thesis using credentials_stmts [OF db(1)] by (cases "handle_credentials_update env d c r db") auto
next
  case (WithCredentials c r)
  then show ?thesis using with_credentials_stmts [OF db env] op by (cases "handle_device_with_credentials env d c r db") auto
next
  case (SetSecurity c m i r)
  then show ?thesis using security_stmts [OF db(1)] by (cases "handle_device_security env c m i r db") auto
next
  case (ImportDevices draws c r)
  then show ?thesis using import_stmts [OF db env] op by (cases "handle_bulk_import env draws c r db") auto
next
  case (Provision m r)
  then show ?thesis using provision_stmts [OF db env] by (cases "handle_provision env d m r db") auto
next
  case (SaveProfile c r)
  then show ?thesis using profile_save_stmts [OF db(1) _ env] by (cases "handle_profile_save env d c r db") auto
next
  case (DeleteProfile c i)
  then show ?thesis using profile_delete_stmts [OF db(1)] by (cases "handle_profile_delete env c i db") auto
qed

end
