(* ===== verification/DeviceProps.thy ===== *)
theory DeviceProps
  imports DeviceSteps
begin

text \<open>
  The laws of the device plane: the tables stay sound under every sequence of requests, a tenant's
  requests leave the other tenants alone, no path of creation passes the quota of a tenant, provisioning
  asks for the profile's secret and answers the same on every repeat, a suspended device gets neither
  tokens nor attributes, and a rotation of the signing key strands no device.
\<close>

section \<open>Soundness\<close>

lemma sound_provision_device:
  assumes db: "device_sound env db" and id: "de_uuid env (dw_id d) = Some (dw_id d)"
  shows "device_sound env (snd (provision_device env d req db))"
proof -
  have made: "device_sound env db1" "device \<in> dv_id ` set (dd_devices db1)"
    if p: "p \<in> set (dd_profiles db)" and dev: "provisioned_device env d p req db = (Some (device, created, db1), db')" for p device created db1 db'
  proof -
    have t: "de_uuid env (dq_tenant p) = Some (dq_tenant p)" using db p by (simp add: device_sound_def)
    have "device_sound env db1 \<and> device \<in> dv_id ` set (dd_devices db1)"
    proof (cases "find (\<lambda>r. dv_tenant r = dq_tenant p \<and> dv_name r = pq_name req \<and> dv_profile r = dq_id p) (dd_devices db)")
      case (Some r)
      then show ?thesis using db dev find_SomeD [OF Some] by (auto simp: provisioned_device_def)
    next
      case None
      then obtain db0 where a: "allow_device_create env d (dq_tenant p) db = (True, db0)" and dv: "device = dw_id d"
        and ins: "insert_device (new_device d (dq_tenant p) (pq_name req) (pq_type req) [] None (dq_id p) None) db0 = Some db1"
        using dev by (auto simp: provisioned_device_def split: if_splits prod.splits bool.splits)
      show ?thesis
        using sound_insert_device(1,2) [OF sound_allow [OF a db] ins canonical_new_device [OF id t] new_device_simps(3)] by (simp add: dv)
    qed
    then show "device_sound env db1" "device \<in> dv_id ` set (dd_devices db1)" by auto
  qed
  have kept: "device_sound env db'" if "provisioned_device env d p req db = (x, db')" for p x db'
    using that db sound_allow [OF _ db] by (auto simp: provisioned_device_def split: option.splits if_splits prod.splits bool.splits)
  have tok: "device_sound env db2"
    if "p \<in> set (dd_profiles db)" "provisioned_device env d p req db = (Some (device, created, db1), db')" "provisioned_token d device db1 = Some (t, db2)"
    for p device created db1 db' t db2
    using that(3) made [OF that(1,2)] sound_put_credential [of env db1]
    by (auto simp: provisioned_token_def split: option.splits)
  show ?thesis
    using db kept tok by (auto simp: provision_device_def split: option.splits prod.splits dest!: find_SomeD)
qed

lemma sound_provision:
  "device_sound env db \<Longrightarrow> de_uuid env (dw_id d) = Some (dw_id d) \<Longrightarrow> device_sound env (snd (handle_provision env d http_method raw db))"
  using sound_provision_device [of env db d]
  by (auto simp: handle_provision_def split: option.splits sum.splits prod.splits) (metis snd_conv)+

lemma sound_profiles:
  assumes "device_sound env db" "dq_id ` set ps \<supseteq> dq_id ` set (dd_profiles db)" "distinct (map dq_id ps)"
    "\<forall>p \<in> set ps. de_uuid env (dq_tenant p) = Some (dq_tenant p)"
  shows "device_sound env (db\<lparr>dd_profiles := ps\<rparr>)"
  using assms unfolding device_sound_def by auto

lemma sound_profile_save:
  assumes db: "device_sound env db" and env: "uuid_reads env"
  shows "device_sound env (snd (handle_profile_save env d claims raw db))"
proof -
  have upd: "device_sound env (db\<lparr>dd_profiles := map (\<lambda>q. if dq_id q = u then write_profile f h q else q) (dd_profiles db)\<rparr>)" for u f h
  proof (rule sound_profiles [OF db])
    let ?g = "\<lambda>q. if dq_id q = u then write_profile f h q else q"
    have ids: "map dq_id (map ?g (dd_profiles db)) = map dq_id (dd_profiles db)" by (simp add: write_profile_def)
    show "dq_id ` set (dd_profiles db) \<subseteq> dq_id ` set (map ?g (dd_profiles db))" using ids by (metis order_refl set_map)
    show "distinct (map dq_id (map ?g (dd_profiles db)))" unfolding ids using db by (simp add: device_sound_def)
    show "\<forall>p \<in> set (map ?g (dd_profiles db)). de_uuid env (dq_tenant p) = Some (dq_tenant p)"
      using db by (auto simp: device_sound_def write_profile_def)
  qed
  have new: "device_sound env (db\<lparr>dd_profiles := dd_profiles db @ [new_profile d t f h]\<rparr>)"
    if "de_uuid env tenant = Some t" "\<not> list_ex (\<lambda>p. dq_id p = dw_id d) (dd_profiles db)" for tenant t f h
  proof (rule sound_profiles [OF db])
    have "dw_id d \<notin> dq_id ` set (dd_profiles db)" using that(2) by (auto simp: list_ex_iff)
    then show "distinct (map dq_id (dd_profiles db @ [new_profile d t f h]))" using db by (simp add: device_sound_def new_profile_def)
    show "\<forall>p \<in> set (dd_profiles db @ [new_profile d t f h]). de_uuid env (dq_tenant p) = Some (dq_tenant p)"
      using db env that(1) by (auto simp: device_sound_def new_profile_def uuid_reads_def)
  qed auto
  show ?thesis using db upd new
    by (auto simp: handle_profile_save_def Let_def split: option.splits if_splits)
qed

lemma sound_profile_delete:
  assumes db: "device_sound env db"
  shows "device_sound env (snd (handle_profile_delete env claims profile db))"
proof -
  have "device_sound env (db\<lparr>dd_profiles := filter (\<lambda>q. dq_id q \<noteq> u) (dd_profiles db)\<rparr>)"
    if "\<not> list_ex (\<lambda>r. dv_profile r = u) (dd_devices db)" for u
  proof -
    have "distinct (map dq_id (filter (\<lambda>q. dq_id q \<noteq> u) (dd_profiles db)))" using db by (auto simp: device_sound_def distinct_map_filter)
    moreover have "\<forall>r \<in> set (dd_devices db). dv_profile r \<noteq> u" using that by (simp add: list_ex_iff)
    ultimately show ?thesis using db unfolding device_sound_def by force
  qed
  then show ?thesis using db by (auto simp: handle_profile_delete_def split: option.splits)
qed

lemma sound_step:
  assumes "uuid_reads env" "device_sound env db" "canonical_op env (d, op)"
  shows "device_sound env (device_step env (d, op) db)"
  using assms
  by (cases op) (simp_all add: sound_save sound_delete sound_credentials sound_with_credentials sound_security sound_import sound_provision
      sound_profile_save sound_profile_delete)

lemma run_induct [consumes 4, case_names start step]:
  assumes "ids_read env" "device_sound env db" "cache_true env db" "\<forall>x \<in> set ops. canonical_op env x"
    and "P db"
    and step: "\<And>d op db. canonical_op env (d, op) \<Longrightarrow> (d, op) \<in> set ops \<Longrightarrow> device_sound env db \<Longrightarrow> cache_true env db \<Longrightarrow> P db \<Longrightarrow>
      (device_stmt (status_targets env op) env (acts_for env db op))\<^sup>*\<^sup>* db (device_step env (d, op) db) \<Longrightarrow> P (device_step env (d, op) db)"
  shows "device_sound env (device_run env ops db) \<and> cache_true env (device_run env ops db) \<and> P (device_run env ops db)"
  using assms(2-6) unfolding device_run_def
proof (induction ops arbitrary: db)
  case (Cons x ops)
  obtain d op where x: "x = (d, op)" by (cases x)
  have reads: "uuid_reads env" using assms(1) by (simp add: ids_read_def)
  have op: "canonical_op env (d, op)" using Cons.prems(3) by (simp add: x)
  note st = step_statements [OF assms(1) Cons.prems(1,2) op]
  have "P (device_step env (d, op) db)" using Cons.prems(5) [OF op _ Cons.prems(1,2,4) st] by (simp add: x)
  moreover have "device_sound env (device_step env (d, op) db)" by (rule sound_step [OF reads Cons.prems(1) op])
  moreover have "cache_true env (device_step env (d, op) db)" by (rule stmts_cache [OF st Cons.prems(2)])
  ultimately show ?case using Cons.IH [of "device_step env (d, op) db"] Cons.prems(3,5) by (simp add: x)
qed simp

text \<open>C36: Whatever requests arrive, in whatever order - devices saved, deleted, imported and provisioned, credentials
  rotated, profiles changed - the device tables stay sound: device ids and names within a tenant are unique, every device has an
  existing profile and a status of the two, every credential belongs to an existing device, no device has two credentials
  and no credential identifier serves two devices. Nothing in the schema ties a credential to its device; the handlers do.\<close>

theorem devices_stay_sound:
  assumes "uuid_reads env" "device_sound env db" "\<forall>x \<in> set ops. canonical_op env x"
  shows "device_sound env (device_run env ops db)"
  using assms(2,3) unfolding device_run_def
proof (induction ops arbitrary: db)
  case (Cons x ops)
  then show ?case using sound_step [OF assms(1) Cons.prems(1), of "fst x" "snd x"] by simp
qed simp

section \<open>Tenants\<close>

text \<open>Whether a tenant owns a device id, and everything in the tables that is the tenant's.\<close>

definition owns_device :: "device_db \<Rightarrow> str \<Rightarrow> str \<Rightarrow> bool" where
  "owns_device db t u \<longleftrightarrow> list_ex (\<lambda>r. dv_tenant r = t \<and> dv_id r = u) (dd_devices db)"

record tenant_rows =
  tn_devices :: "device_row list"
  tn_creds :: "dcred_row list"
  tn_profiles :: "dprofile_row list"
  tn_attrs :: "(attr_key \<times> attr_cell) list"
  tn_alarms :: "(str \<times> str) list"

definition rows_of_tenant :: "device_db \<Rightarrow> str \<Rightarrow> tenant_rows" where
  "rows_of_tenant db t =
     \<lparr>tn_devices = filter (\<lambda>r. dv_tenant r = t) (dd_devices db), tn_creds = filter (\<lambda>c. owns_device db t (dc_device c)) (dd_creds db),
      tn_profiles = filter (\<lambda>p. dq_tenant p = t) (dd_profiles db),
      tn_attrs = filter (\<lambda>((entity, ord, key), cell). owns_device db t entity) (at_rows (dd_attrs db)),
      tn_alarms = filter (\<lambda>(alarm, origin). owns_device db t origin) (dd_alarms db)\<rparr>"

definition ids_unique :: "device_db \<Rightarrow> bool" where
  "ids_unique db \<longleftrightarrow> distinct (map dv_id (dd_devices db)) \<and> distinct (map dq_id (dd_profiles db))"

lemma owns_filter: "owns_device db t u \<longleftrightarrow> u \<in> dv_id ` set (filter (\<lambda>r. dv_tenant r = t) (dd_devices db))"
  by (auto simp: owns_device_def list_ex_iff)

lemma foreign_id: "ids_unique db \<Longrightarrow> r \<in> set (dd_devices db) \<Longrightarrow> dv_tenant r \<noteq> t \<Longrightarrow> \<not> owns_device db t (dv_id r)"
  by (auto simp: ids_unique_def owns_device_def list_ex_iff distinct_map dest: inj_onD)

text \<open>A row of another tenant changes: the tenant's rows stay.\<close>

lemma filter_map_other:
  "(\<And>x. x \<in> set xs \<Longrightarrow> p (f x) = p x) \<Longrightarrow> (\<And>x. x \<in> set xs \<Longrightarrow> p x \<Longrightarrow> f x = x) \<Longrightarrow> filter p (map f xs) = filter p xs"
  by (induction xs) auto

lemma same_rows:
  assumes "filter (\<lambda>r. dv_tenant r = t) (dd_devices db') = filter (\<lambda>r. dv_tenant r = t) (dd_devices db)"
    and "filter (\<lambda>c. owns_device db t (dc_device c)) (dd_creds db') = filter (\<lambda>c. owns_device db t (dc_device c)) (dd_creds db)"
    and "filter (\<lambda>p. dq_tenant p = t) (dd_profiles db') = filter (\<lambda>p. dq_tenant p = t) (dd_profiles db)"
    and "filter (\<lambda>((entity, ord, key), cell). owns_device db t entity) (at_rows (dd_attrs db')) =
         filter (\<lambda>((entity, ord, key), cell). owns_device db t entity) (at_rows (dd_attrs db))"
    and "filter (\<lambda>(alarm, origin). owns_device db t origin) (dd_alarms db') = filter (\<lambda>(alarm, origin). owns_device db t origin) (dd_alarms db)"
  shows "rows_of_tenant db' t = rows_of_tenant db t"
proof -
  have "owns_device db' t = owns_device db t" by (rule ext) (simp add: owns_filter assms(1))
  then show ?thesis using assms by (simp add: rows_of_tenant_def)
qed

lemma update_other:
  assumes "ids_unique db" "r \<in> set (dd_devices db)" "dv_tenant r \<noteq> t" "\<And>v. dv_tenant (f v) = dv_tenant v"
  shows "filter (\<lambda>r. dv_tenant r = t) (dd_devices (update_device (dv_id r) f db)) = filter (\<lambda>r. dv_tenant r = t) (dd_devices db)"
proof -
  have one: "v = r" if "v \<in> set (dd_devices db)" "dv_id v = dv_id r" for v
    using assms(1,2) that by (auto simp: ids_unique_def distinct_map dest: inj_onD)
  show ?thesis unfolding update_device_def using assms(3,4) one by (simp, intro filter_map_other) auto
qed

lemma update_device_fields [simp]:
  "dd_creds (update_device u f db) = dd_creds db" "dd_profiles (update_device u f db) = dd_profiles db"
  "dd_attrs (update_device u f db) = dd_attrs db" "dd_alarms (update_device u f db) = dd_alarms db"
  by (simp_all add: update_device_def)

lemma stmt_rows:
  assumes "device_stmt targets env who db db'" "who \<noteq> Some t" "ids_unique db"
  shows "rows_of_tenant db' t = rows_of_tenant db t"
  using assms
proof (induction rule: device_stmt.induct)
  case (Cache db c)
  then show ?case by (intro same_rows) simp_all
next
  case (Hook db h)
  then show ?case by (intro same_rows) (simp_all add: log_hook_def)
next
  case (Update r db f)
  show ?case by (intro same_rows update_other) (use Update in auto)
next
  case (Insert r db db')
  then show ?case by (intro same_rows) (auto simp: insert_device_def split: if_splits)
next
  case (Credential r db d ty ident v db')
  have own: "\<not> owns_device db t (dv_id r)" using Credential foreign_id by blast
  then show ?case using Credential(3)
    by (intro same_rows)
      (auto simp: put_credential_def new_dcred_def rotate_dcred_def split: if_splits intro!: filter_map_other)
next
  case (NewCredential r db d ident db')
  have own: "\<not> owns_device db t (dv_id r)" using NewCredential foreign_id by blast
  have "db' = db\<lparr>dd_creds := dd_creds db @ [new_dcred d (dv_id r) ''ACCESS_TOKEN'' ident None]\<rparr>"
    using NewCredential(3) by (simp add: insert_credential_def split: if_splits)
  then show ?case using own by (intro same_rows) (simp_all add: new_dcred_def)
next
  case (Secure r db s)
  show ?case by (intro same_rows update_other) (use Secure in auto)
next
  case (Drop r db)
  have own: "\<not> owns_device db t (dv_id r)" using Drop foreign_id by blast
  have "\<forall>x \<in> set (dd_devices db). dv_tenant x = t \<longrightarrow> dv_id x \<noteq> dv_id r" using own by (auto simp: owns_device_def list_ex_iff)
  then show ?case using own
    by (intro same_rows) (auto simp: drop_device_def intro!: filter_cong)
next
  case (ProfileSet p db f h)
  have "q = p" if "q \<in> set (dd_profiles db)" "dq_id q = dq_id p" for q
    using ProfileSet that by (auto simp: ids_unique_def distinct_map dest: inj_onD)
  then have "filter (\<lambda>q. dq_tenant q = t) (map (\<lambda>q. if dq_id q = dq_id p then write_profile f h q else q) (dd_profiles db)) =
      filter (\<lambda>q. dq_tenant q = t) (dd_profiles db)"
    using ProfileSet by (intro filter_map_other) (auto simp: write_profile_def)
  then show ?case by (intro same_rows) simp_all
next
  case (ProfileAdd p db)
  then show ?case by (intro same_rows) auto
next
  case (ProfileDrop p db)
  have "q = p" if "q \<in> set (dd_profiles db)" "dq_id q = dq_id p" for q
    using ProfileDrop that by (auto simp: ids_unique_def distinct_map dest: inj_onD)
  then show ?case using ProfileDrop by (intro same_rows) (auto intro!: filter_cong)
qed

lemma update_device_map: "(\<And>v. dv_id (f v) = dv_id v) \<Longrightarrow> map dv_id (dd_devices (update_device u f db)) = map dv_id (dd_devices db)"
  by (simp add: update_device_def)

lemma insert_device_row:
  assumes "insert_device r db = Some db'"
  shows "db' = db\<lparr>dd_devices := dd_devices db @ [r]\<rparr> \<and> dv_id r \<notin> dv_id ` set (dd_devices db)"
proof -
  have "\<not> list_ex (\<lambda>v. dv_id v = dv_id r) (dd_devices db)" using assms by (auto simp: insert_device_def split: if_splits)
  then have "dv_id r \<notin> dv_id ` set (dd_devices db)" by (auto simp: list_ex_iff)
  then show ?thesis using assms by (simp add: insert_device_def split: if_splits)
qed

lemma stmt_unique:
  assumes "device_stmt targets env who db db'" "ids_unique db"
  shows "ids_unique db'"
  using assms
proof (induction rule: device_stmt.induct)
  case (Update r db f)
  then show ?case using update_device_map [of f "dv_id r" db] by (simp add: ids_unique_def)
next
  case (Secure r db s)
  then show ?case using update_device_map [of "\<lambda>v. v\<lparr>dv_security := s, dv_version := dv_version v + 1\<rparr>" "dv_id r" db]
    by (simp add: ids_unique_def)
next
  case (Insert r db db')
  then show ?case using insert_device_row [OF Insert(1)] by (simp add: ids_unique_def)
next
  case (ProfileSet p db f h)
  have "map dq_id (map (\<lambda>q. if dq_id q = dq_id p then write_profile f h q else q) (dd_profiles db)) = map dq_id (dd_profiles db)"
    by (simp add: write_profile_def)
  then show ?case using ProfileSet by (simp add: ids_unique_def del: map_map)
qed (auto simp: ids_unique_def log_hook_def put_credential_def insert_credential_def drop_device_def distinct_map_filter split: if_splits)

lemma sound_unique: "device_sound env db \<Longrightarrow> ids_unique db"
  by (simp add: device_sound_def ids_unique_def)

lemma stmts_rows:
  assumes "(device_stmt targets env who)\<^sup>*\<^sup>* db db'" "who \<noteq> Some t" "ids_unique db"
  shows "rows_of_tenant db' t = rows_of_tenant db t \<and> ids_unique db'"
  using assms(1)
proof (induction rule: rtranclp_induct)
  case (step x y)
  then show ?case using stmt_rows [OF step(2) assms(2)] stmt_unique [OF step(2)] by simp
qed (use assms(3) in simp)

text \<open>C35: No request reaches another tenant's devices: whatever a caller sends - a device to save, an import, a rotated
  credential, a suspension, a deletion, a profile, or a device's own provisioning request - the devices, credentials, profiles,
  attributes and alarms of every tenant it does not act for are, row by row, what they were.\<close>

theorem device_tenants_isolated:
  assumes "ids_read env" "device_sound env db" "cache_true env db" "canonical_op env (d, op)" "acts_for env db op \<noteq> Some t"
  shows "rows_of_tenant (device_step env (d, op) db) t = rows_of_tenant db t"
  using stmts_rows [OF step_statements [OF assms(1-4)] assms(5) sound_unique [OF assms(2)]] by simp

section \<open>Quotas\<close>

lemma length_filter_map: "(\<And>x. x \<in> set xs \<Longrightarrow> p (f x) = p x) \<Longrightarrow> length (filter p (map f xs)) = length (filter p xs)"
  by (induction xs) auto

lemma tenant_count_update: "(\<And>v. dv_tenant (f v) = dv_tenant v) \<Longrightarrow> tenant_count (update_device u f db) t = tenant_count db t"
  using length_filter_map [of "dd_devices db" "\<lambda>r. dv_tenant r = t" "\<lambda>r. if dv_id r = u then f r else r"]
  by (simp add: tenant_count_def update_device_def)

lemma length_filter_conj: "length (filter (\<lambda>v. q v \<and> p v) xs) \<le> length (filter p xs)"
  by (induction xs) auto

lemma stmt_count:
  assumes "device_stmt targets env who db db'" "tenant_count db t \<le> device_limit env t" "0 < device_limit env t"
  shows "tenant_count db' t \<le> device_limit env t"
  using assms
proof (induction rule: device_stmt.induct)
  case (Update r db f)
  then show ?case using tenant_count_update [of f "dv_id r" db t] by simp
next
  case (Insert r db db')
  then show ?case using insert_device_row [OF Insert(1)] by (auto simp: tenant_count_def quota_open_def)
next
  case (Secure r db s)
  then show ?case using tenant_count_update [of "\<lambda>v. v\<lparr>dv_security := s, dv_version := dv_version v + 1\<rparr>" "dv_id r" db t] by simp
next
  case (Drop r db)
  then show ?case using length_filter_conj [where p = "\<lambda>v. dv_tenant v = t" and q = "\<lambda>v. dv_id v \<noteq> dv_id r" and xs = "dd_devices db"]
    by (simp add: tenant_count_def drop_device_def)
qed (auto simp: tenant_count_def log_hook_def put_credential_def insert_credential_def split: if_splits)

lemma stmts_count:
  assumes "(device_stmt targets env who)\<^sup>*\<^sup>* db db'" "tenant_count db t \<le> device_limit env t" "0 < device_limit env t"
  shows "tenant_count db' t \<le> device_limit env t"
  using assms by (induction rule: rtranclp_induct) (auto intro: stmt_count)

text \<open>C37: A tenant never has more devices than its profile allows: saving, importing rows of a file and provisioning all
  count before they insert, through a cache of limits, so that no sequence of requests, of any tenants, passes the limit.\<close>

theorem device_quota_holds:
  assumes "ids_read env" "device_sound env db" "cache_true env db" "\<forall>x \<in> set ops. canonical_op env x"
    and "0 < device_limit env t" "tenant_count db t \<le> device_limit env t"
  shows "tenant_count (device_run env ops db) t \<le> device_limit env t"
proof -
  have "device_sound env (device_run env ops db) \<and> cache_true env (device_run env ops db) \<and>
      tenant_count (device_run env ops db) t \<le> device_limit env t"
    using assms(1-4,6) by (rule run_induct) (use assms(5) stmts_count in blast)
  then show ?thesis by simp
qed

section \<open>Suspension\<close>

definition suspended :: "device_db \<Rightarrow> str \<Rightarrow> bool" where
  "suspended db u \<longleftrightarrow> (\<exists>r \<in> set (dd_devices db). dv_id r = u \<and> dv_security r = ''SUSPENDED'')"

text \<open>The only row of the device is suspended, and of the tenant.\<close>

definition suspended_in :: "device_db \<Rightarrow> str \<Rightarrow> str \<Rightarrow> bool" where
  "suspended_in db t u \<longleftrightarrow>
     suspended db u \<and> (\<forall>r \<in> set (dd_devices db). dv_id r = u \<longrightarrow> dv_tenant r = t \<and> dv_security r = ''SUSPENDED'')"

lemma suspended_update:
  assumes "suspended_in db t u" "\<And>v. dv_id (f v) = dv_id v" "\<And>v. dv_id v = w \<Longrightarrow> dv_id v = u \<Longrightarrow> dv_tenant (f v) = dv_tenant v \<and> dv_security (f v) = dv_security v"
  shows "suspended_in (update_device w f db) t u"
proof -
  obtain r where r: "r \<in> set (dd_devices db)" "dv_id r = u" "dv_security r = ''SUSPENDED''" using assms(1) by (auto simp: suspended_in_def suspended_def)
  have "(if dv_id r = w then f r else r) \<in> set (dd_devices (update_device w f db))" using r(1) by (simp add: update_device_def)
  then have "suspended (update_device w f db) u" unfolding suspended_def by (rule rev_bexI) (use r assms(2,3) in simp)
  then show ?thesis using assms by (auto simp: suspended_in_def update_device_def)
qed

lemma stmt_suspended:
  assumes "device_stmt targets env who db db'" "suspended_in db t u" "\<not> (who = Some t \<and> u \<in> targets)"
  shows "suspended_in db' t u"
  using assms
proof (induction rule: device_stmt.induct)
  case (Update r db f)
  then show ?case by (intro suspended_update) auto
next
  case (Insert r db db')
  then show ?case using insert_device_row [OF Insert(1)] by (auto simp: suspended_in_def suspended_def)
next
  case (Secure r db s)
  then have "dv_id r \<noteq> u" by (auto simp: suspended_in_def)
  with Secure(4) show ?case by (intro suspended_update) auto
next
  case (Drop r db)
  then have "dv_id r \<noteq> u" by (auto simp: suspended_in_def)
  with Drop(4) show ?case by (auto simp: suspended_in_def suspended_def drop_device_def)
qed (auto simp: suspended_in_def suspended_def log_hook_def put_credential_def insert_credential_def split: if_splits)

lemma stmts_suspended:
  "(device_stmt targets env who)\<^sup>*\<^sup>* db db' \<Longrightarrow> suspended_in db t u \<Longrightarrow> \<not> (who = Some t \<and> u \<in> targets) \<Longrightarrow> suspended_in db' t u"
  by (induction rule: rtranclp_induct) (auto intro: stmt_suspended)

text \<open>The requests of the tenant itself to set the status of the device or to delete it.\<close>

definition lifts_suspension :: "device_env \<Rightarrow> str \<Rightarrow> str \<Rightarrow> device_op \<Rightarrow> bool" where
  "lifts_suspension env t u op \<longleftrightarrow>
     (case op of
        DeleteDevice claims device \<Rightarrow> claims_tenant env claims = Some t \<and> de_uuid env device = Some u
      | SetSecurity claims http_method device raw \<Rightarrow> claims_tenant env claims = Some t \<and> de_uuid env device = Some u
      | _ \<Rightarrow> False)"

lemma lifts_targets: "acts_for env db op = Some t \<and> u \<in> status_targets env op \<Longrightarrow> lifts_suspension env t u op"
  by (cases op) (simp_all add: lifts_suspension_def)

lemma suspended_found:
  assumes "device_sound env db" "suspended db u" "find_device env db device = Some r" "dv_id r = u"
  shows "dv_security r = ''SUSPENDED''"
  using assms device_unique [OF assms(1)] find_device_mem [OF assms(3)] by (auto simp: suspended_def)

lemma suspended_issue:
  assumes "device_sound env db" "suspended db u" "de_uuid env device = Some u"
  shows "issue_for_device env d device tenant db \<noteq> Inr t"
proof
  assume "issue_for_device env d device tenant db = Inr t"
  then obtain r where r: "tenant_device env db device tenant = Some r" "dv_security r = ''ACTIVE''"
    by (auto simp: issue_for_device_def split: option.splits if_splits)
  have "find_device env db device = Some r" using tenant_device_mem [OF r(1)] by simp
  then show False using suspended_found [OF assms(1,2)] find_device_mem assms(3) r(2) by fastforce
qed

lemma resolve_active:
  assumes "resolve_device_by_token db token = Some (dev, rest)"
  shows "\<exists>r \<in> set (dd_devices db). dv_id r = dev \<and> dv_security r = ''ACTIVE''"
proof -
  obtain r where "find (\<lambda>r. dv_id r = dev \<and> dv_security r = ''ACTIVE'') (dd_devices db) = Some r"
    using assms by (auto simp: resolve_device_by_token_def split: if_splits option.splits)
  then show ?thesis using find_SomeD by fastforce
qed

text \<open>C38: Once suspended, a device stays cut off from the control plane until its tenant changes its status or deletes it.
  The only requests excluded are those of the device's own tenant to set the status of this device or to delete it: whatever
  else happens - a caller of another tenant trying to lift the suspension or to delete the device, the tenant setting the status of
  other devices, re-saving or re-importing this one, rotating its credential or provisioning it again - the device stays suspended.
  No token is issued for it on request, none in exchange for a token it still holds, none in the connectivity dialog,
  and its access token resolves to no device.\<close>

theorem suspension_holds:
  assumes "ids_read env" "device_sound env db" "cache_true env db" "\<forall>x \<in> set ops. canonical_op env x \<and> \<not> lifts_suspension env (dv_tenant row) u (snd x)"
    and "row \<in> set (dd_devices db)" "dv_id row = u" "dv_security row = ''SUSPENDED''" "de_uuid env device = Some u"
  shows "let db' = device_run env ops db in suspended db' u \<and>
    (\<forall>d claims http_method t. handle_device_jwt env d claims http_method device db' \<noteq> Inr t) \<and>
    (\<forall>d claims http_method y. handle_connectivity env d claims http_method device db' = Inr y \<longrightarrow> cy_token y = None) \<and>
    (\<forall>d authorization http_method c t. validate_device_jwt (de_lib env) (de_signer env) (dw_now d) (trim_space authorization) = Some c \<and>
        claim_string c ''deviceId'' = device \<longrightarrow> handle_jwt_refresh env d http_method authorization db' \<noteq> Inr t) \<and>
    (\<forall>token dev rest. resolve_device_by_token db' token = Some (dev, rest) \<longrightarrow> dev \<noteq> u)"
proof -
  let ?db = "device_run env ops db" and ?t = "dv_tenant row"
  have canon: "\<forall>x \<in> set ops. canonical_op env x" using assms(4) by blast
  have start: "suspended_in db ?t u"
    using assms(5-7) device_unique [OF assms(2)] by (auto simp: suspended_in_def suspended_def)
  have "device_sound env ?db \<and> cache_true env ?db \<and> suspended_in ?db ?t u"
  proof (rule run_induct [OF assms(1-3) canon, where P = "\<lambda>db. suspended_in db ?t u", OF start])
    fix d op db
    assume op: "(d, op) \<in> set ops" and s: "suspended_in db ?t u"
      and st: "(device_stmt (status_targets env op) env (acts_for env db op))\<^sup>*\<^sup>* db (device_step env (d, op) db)"
    have "\<not> lifts_suspension env ?t u op" using assms(4) op by force
    then show "suspended_in (device_step env (d, op) db) ?t u" using lifts_targets by (blast intro: stmts_suspended [OF st s])
  qed
  then have all: "device_sound env ?db \<and> cache_true env ?db \<and> suspended ?db u" by (simp add: suspended_in_def)
  note issue = suspended_issue [OF conjunct1 [OF all] conjunct2 [OF conjunct2 [OF all]] assms(8)]
  have jwt: "handle_device_jwt env d claims http_method device ?db \<noteq> Inr t" for d claims http_method t
    using issue by (auto simp: handle_device_jwt_def and_then_def require_auth_def or_fail_def split: option.splits sum.splits if_splits)
  have dialog: "cy_token y = None" if y: "handle_connectivity env d claims http_method device ?db = Inr y" for d claims http_method y
  proof -
    obtain r where r: "find_device env ?db device = Some r" using y
      by (auto simp: handle_connectivity_def and_then_def tenant_device_def Let_def split: option.splits sum.splits if_splits)
    have "dv_security r = ''SUSPENDED''" using suspended_found [of env ?db u device r] all r find_device_mem [OF r(1)] assms(8) by simp
    then show ?thesis using y r
      by (auto simp: handle_connectivity_def and_then_def tenant_device_def Let_def split: option.splits sum.splits if_splits)
  qed
  have refresh: "handle_jwt_refresh env d http_method authorization ?db \<noteq> Inr t"
    if v: "validate_device_jwt (de_lib env) (de_signer env) (dw_now d) (trim_space authorization) = Some c" "claim_string c ''deviceId'' = device"
    for d http_method authorization c t
  proof -
    have "device \<noteq> []" using assms(1,8) by (auto simp: ids_read_def)
    then have "issue_for_device env d device (claim_string c ''tenantId'') ?db = Inr t" if "handle_jwt_refresh env d http_method authorization ?db = Inr t"
      using that v by (simp add: handle_jwt_refresh_def Let_def split: if_splits)
    then show ?thesis using issue by blast
  qed
  have tok: "dev \<noteq> u" if t: "resolve_device_by_token ?db token = Some (dev, rest)" for token dev rest
  proof
    assume "dev = u"
    then obtain r where r: "r \<in> set (dd_devices ?db)" "dv_id r = u" "dv_security r = ''ACTIVE''" using resolve_active [OF t] by blast
    obtain v where v: "v \<in> set (dd_devices ?db)" "dv_id v = u" "dv_security v = ''SUSPENDED''" using all by (auto simp: suspended_def)
    have "r = v" using device_unique [OF conjunct1 [OF all] r(1) v(1)] r(2) v(2) by simp
    then show False using r(3) v(3) by simp
  qed
  show ?thesis unfolding Let_def
  proof (intro conjI allI impI)
    show "suspended ?db u" using all by simp
    show "handle_device_jwt env d claims http_method device ?db \<noteq> Inr t" for d claims http_method t by (rule jwt)
    show "handle_connectivity env d claims http_method device ?db = Inr y \<Longrightarrow> cy_token y = None" for d claims http_method y by (rule dialog)
    show "validate_device_jwt (de_lib env) (de_signer env) (dw_now d) (trim_space authorization) = Some c \<and> claim_string c ''deviceId'' = device \<Longrightarrow>
        handle_jwt_refresh env d http_method authorization ?db \<noteq> Inr t" for d authorization http_method c t
      by (elim conjE, rule refresh)
    show "resolve_device_by_token ?db token = Some (dev, rest) \<Longrightarrow> dev \<noteq> u" for token dev rest by (rule tok)
  qed
qed

section \<open>Provisioning\<close>

lemma find_unique:
  assumes "x \<in> set xs" "p x" and one: "\<And>y. y \<in> set xs \<Longrightarrow> p y \<Longrightarrow> y = x"
  shows "find p xs = Some x"
proof -
  obtain y where y: "find p xs = Some y" using assms(1,2) find_ex [of p xs] by blast
  show ?thesis using y one [of y] find_SomeD [OF y] by blast
qed

text \<open>The access token found after it was put in place.\<close>

lemma provisioned_token_stays:
  assumes db: "device_sound env db2" and tok: "provisioned_token d device db1 = Some (tk, db2)"
  shows "find (\<lambda>c. dc_device c = device \<and> dc_type c = ''ACCESS_TOKEN'') (dd_creds db2) = Some c \<Longrightarrow> dc_ident c = tk"
    and "\<exists>c \<in> set (dd_creds db2). dc_device c = device \<and> dc_type c = ''ACCESS_TOKEN'' \<and> dc_ident c = tk"
proof -
  show ex: "\<exists>c \<in> set (dd_creds db2). dc_device c = device \<and> dc_type c = ''ACCESS_TOKEN'' \<and> dc_ident c = tk"
  proof (cases "find (\<lambda>c. dc_device c = device \<and> dc_type c = ''ACCESS_TOKEN'') (dd_creds db1)")
    case None
    then have put: "put_credential d device ''ACCESS_TOKEN'' tk None db1 = Some db2" using tok by (auto simp: provisioned_token_def)
    show ?thesis
    proof (cases "list_ex (\<lambda>c. dc_device c = device) (dd_creds db1)")
      case True
      then obtain c where c: "c \<in> set (dd_creds db1)" "dc_device c = device" by (auto simp: list_ex_iff)
      have "dd_creds db2 = map (\<lambda>c. if dc_device c = device then rotate_dcred ''ACCESS_TOKEN'' tk None c else c) (dd_creds db1)"
        using put True by (auto simp: put_credential_def split: if_splits)
      then have "rotate_dcred ''ACCESS_TOKEN'' tk None c \<in> set (dd_creds db2)" using c by force
      then show ?thesis by (rule rev_bexI) (simp add: rotate_dcred_def c(2))
    next
      case False
      then have "dd_creds db2 = dd_creds db1 @ [new_dcred d device ''ACCESS_TOKEN'' tk None]" using put by (auto simp: put_credential_def split: if_splits)
      then show ?thesis by (simp add: new_dcred_def)
    qed
  next
    case (Some c)
    then show ?thesis using tok find_SomeD [OF Some] by (auto simp: provisioned_token_def)
  qed
  assume f: "find (\<lambda>c. dc_device c = device \<and> dc_type c = ''ACCESS_TOKEN'') (dd_creds db2) = Some c"
  have "distinct (map dc_device (dd_creds db2))" using db by (simp add: device_sound_def)
  then show "dc_ident c = tk" using ex find_SomeD [OF f] by (auto simp: distinct_map dest: inj_onD)
qed

text \<open>The device a request is answered with.\<close>

lemma provisioned_device_row:
  assumes db: "device_sound env db" and id: "de_uuid env (dw_id d) = Some (dw_id d)" and p: "p \<in> set (dd_profiles db)"
    and dev: "provisioned_device env d p req db = (Some (device, created, db1), db')"
  shows "\<exists>r \<in> set (dd_devices db1). dv_id r = device \<and> dv_tenant r = dq_tenant p \<and> dv_name r = pq_name req \<and> dv_profile r = dq_id p"
    and "device_sound env db1" "dd_profiles db1 = dd_profiles db"
proof -
  have t: "de_uuid env (dq_tenant p) = Some (dq_tenant p)" using db p by (simp add: device_sound_def)
  have "(\<exists>r \<in> set (dd_devices db1). dv_id r = device \<and> dv_tenant r = dq_tenant p \<and> dv_name r = pq_name req \<and> dv_profile r = dq_id p) \<and>
      device_sound env db1 \<and> dd_profiles db1 = dd_profiles db"
  proof (cases "find (\<lambda>r. dv_tenant r = dq_tenant p \<and> dv_name r = pq_name req \<and> dv_profile r = dq_id p) (dd_devices db)")
    case (Some r)
    then show ?thesis using db dev find_SomeD [OF Some] by (auto simp: provisioned_device_def)
  next
    case None
    then obtain db0 where a: "allow_device_create env d (dq_tenant p) db = (True, db0)" and dv: "device = dw_id d"
      and ins: "insert_device (new_device d (dq_tenant p) (pq_name req) (pq_type req) [] None (dq_id p) None) db0 = Some db1"
      using dev by (auto simp: provisioned_device_def split: if_splits prod.splits bool.splits)
    have prof: "dd_profiles db0 = dd_profiles db" using a by (auto simp: allow_device_create_def split: prod.splits)
    note one = sound_insert_device [OF sound_allow [OF a db] ins canonical_new_device [OF id t] new_device_simps(3)]
    show ?thesis using one(1,2,4) prof by (simp add: dv)
  qed
  then show "\<exists>r \<in> set (dd_devices db1). dv_id r = device \<and> dv_tenant r = dq_tenant p \<and> dv_name r = pq_name req \<and> dv_profile r = dq_id p"
    "device_sound env db1" "dd_profiles db1 = dd_profiles db" by blast+
qed

lemma provisioned_token_tables: "provisioned_token d device db1 = Some (tk, db2) \<Longrightarrow> dd_devices db2 = dd_devices db1 \<and> dd_profiles db2 = dd_profiles db1"
  by (auto simp: provisioned_token_def dest: put_credential_devices split: option.splits)

text \<open>C39: Provisioning answers only who holds the secret of a profile: the key names a profile that provisions and whose secret
  is the given one, and the answer names a device of that name, profile and tenant with the access token stored for it. A
  device that asks again, whenever it does, gets the same answer, and nothing changes.\<close>

theorem provisioning_guarded_and_repeatable:
  assumes "device_sound env db" "de_uuid env (dw_id d) = Some (dw_id d)" "provision_device env d req db = (Some out, db')"
  shows "(\<exists>p \<in> set (dd_profiles db). dq_key p = Some (pq_key req) \<and> pd_tenant out = dq_tenant p \<and>
      dq_provision p \<in> {''ALLOW_CREATE_NEW_DEVICES'', ''CHECK_PRE_PROVISIONED_DEVICES''} \<and>
      (\<exists>h. dq_secret p = Some h \<and> verify_provision_secret (de_check env) h (pq_secret req)) \<and>
      (\<exists>r \<in> set (dd_devices db'). dv_id r = pd_device out \<and> dv_tenant r = dq_tenant p \<and> dv_name r = pq_name req \<and> dv_profile r = dq_id p)) \<and>
    (\<exists>c \<in> set (dd_creds db'). dc_device c = pd_device out \<and> dc_type c = ''ACCESS_TOKEN'' \<and> dc_ident c = pd_token out) \<and>
    (\<forall>d'. provision_device env d' req db' = (Some (out\<lparr>pd_created := False\<rparr>), db'))"
proof -
  obtain p where p: "find (\<lambda>p. dq_key p = Some (pq_key req)) (dd_profiles db) = Some p"
    using assms(3) by (auto simp: provision_device_def split: option.splits)
  then have pm: "p \<in> set (dd_profiles db)" "dq_key p = Some (pq_key req)" using find_SomeD [OF p] by auto
  let ?secret = "case dq_secret p of None \<Rightarrow> [] | Some h \<Rightarrow> h"
  have gate: "dq_tenant p \<noteq> []" "verify_provision_secret (de_check env) ?secret (pq_secret req)"
    "dq_provision p = ''ALLOW_CREATE_NEW_DEVICES'' \<or> dq_provision p = ''CHECK_PRE_PROVISIONED_DEVICES''"
    using assms(3) p by (auto simp: provision_device_def split: if_splits)
  have given: "\<exists>h. dq_secret p = Some h \<and> verify_provision_secret (de_check env) h (pq_secret req)"
    using gate(2) by (auto simp: verify_provision_secret_def trim_space_def split: option.splits)
  obtain device created db1 db0 tk db2 where dev: "provisioned_device env d p req db = (Some (device, created, db1), db0)"
    and tok: "provisioned_token d device db1 = Some (tk, db2)"
    and out: "out = \<lparr>pd_token = tk, pd_device = device, pd_tenant = dq_tenant p, pd_created = created\<rparr>"
    and db': "db' = (if created then log_hook (SyncTwin (dq_tenant p) device) db2 else db2)"
    using assms(3) p gate by (simp add: provision_device_def split: if_splits prod.splits option.splits)
  note row = provisioned_device_row [OF assms(1,2) pm(1) dev]
  obtain r where r: "r \<in> set (dd_devices db1)" "dv_id r = device" "dv_tenant r = dq_tenant p" "dv_name r = pq_name req" "dv_profile r = dq_id p"
    using row(1) by blast
  have tables: "dd_devices db' = dd_devices db1" "dd_profiles db' = dd_profiles db" "dd_creds db' = dd_creds db2"
    using provisioned_token_tables [OF tok] row(3) by (simp_all add: db' log_hook_def)
  have sound: "device_sound env db'" using sound_provision_device [OF assms(1,2), of req] assms(3) by simp
  then have sound2: "device_sound env db2" by (simp add: db' split: if_splits)
  have cred: "\<exists>c \<in> set (dd_creds db'). dc_device c = device \<and> dc_type c = ''ACCESS_TOKEN'' \<and> dc_ident c = tk"
    using provisioned_token_stays(2) [OF sound2 tok] by (simp add: tables)
  have "provision_device env d' req db' = (Some (out\<lparr>pd_created := False\<rparr>), db')" for d'
  proof -
    have same: "v = r" if "v \<in> set (dd_devices db')" "dv_tenant v = dq_tenant p \<and> dv_name v = pq_name req \<and> dv_profile v = dq_id p" for v
    proof -
      have "device_keys v = device_keys r" using that(2) r(3,4) by (simp add: device_keys_def)
      moreover have "inj_on device_keys (set (dd_devices db'))" using sound by (simp add: device_sound_def distinct_map)
      ultimately show ?thesis using that(1) r(1) tables(1) by (auto dest: inj_onD)
    qed
    have "find (\<lambda>r. dv_tenant r = dq_tenant p \<and> dv_name r = pq_name req \<and> dv_profile r = dq_id p) (dd_devices db') = Some r"
      by (rule find_unique) (use r tables(1) in simp, use r in simp, rule same)
    then have again: "provisioned_device env d' p req db' = (Some (device, False, db'), db')" by (simp add: provisioned_device_def r(2))
    obtain c where c: "find (\<lambda>c. dc_device c = device \<and> dc_type c = ''ACCESS_TOKEN'') (dd_creds db') = Some c"
      using cred find_ex [of "\<lambda>c. dc_device c = device \<and> dc_type c = ''ACCESS_TOKEN''" "dd_creds db'"] by auto
    then have "provisioned_token d' device db' = Some (tk, db')"
      using provisioned_token_stays(1) [OF sound2 tok] tables(3) by (simp add: provisioned_token_def)
    then show ?thesis using again p gate tables(2) by (simp add: provision_device_def out)
  qed
  moreover have found: "\<exists>r \<in> set (dd_devices db'). dv_id r = device \<and> dv_tenant r = dq_tenant p \<and> dv_name r = pq_name req \<and> dv_profile r = dq_id p"
    using r tables(1) by auto
  moreover have "\<exists>p \<in> set (dd_profiles db). dq_key p = Some (pq_key req) \<and> pd_tenant out = dq_tenant p \<and>
      dq_provision p \<in> {''ALLOW_CREATE_NEW_DEVICES'', ''CHECK_PRE_PROVISIONED_DEVICES''} \<and>
      (\<exists>h. dq_secret p = Some h \<and> verify_provision_secret (de_check env) h (pq_secret req)) \<and>
      (\<exists>r \<in> set (dd_devices db'). dv_id r = pd_device out \<and> dv_tenant r = dq_tenant p \<and> dv_name r = pq_name req \<and> dv_profile r = dq_id p)"
  proof (rule bexI [OF _ pm(1)], intro conjI)
    show "dq_provision p \<in> {''ALLOW_CREATE_NEW_DEVICES'', ''CHECK_PRE_PROVISIONED_DEVICES''}" using gate(3) by blast
    show "\<exists>r \<in> set (dd_devices db'). dv_id r = pd_device out \<and> dv_tenant r = dq_tenant p \<and> dv_name r = pq_name req \<and> dv_profile r = dq_id p"
      using found by (simp only: out provisioned.simps)
  qed (simp_all add: pm(2) given out)
  moreover have "\<exists>c \<in> set (dd_creds db'). dc_device c = pd_device out \<and> dc_type c = ''ACCESS_TOKEN'' \<and> dc_ident c = pd_token out"
    using cred by (simp only: out provisioned.simps)
  ultimately show ?thesis by blast
qed

section \<open>Rotating the signing key\<close>

lemma first_non_empty_trimmed: "trim_space (first_non_empty vs) = first_non_empty vs"
  by (induction vs) (simp_all add: trim_space_def)

lemma first_non_empty_default: "trim_space d \<noteq> [] \<Longrightarrow> first_non_empty [v, d] \<noteq> []"
  by simp

lemma new_signer_facts:
  assumes "new_signer lib env g cfg = Some s"
  shows "trim_space (sg_key_id s) = sg_key_id s" "sg_key_id s \<noteq> []" "ek_p256 (sg_key s)"
    "parse_additional_jwks lib (jc_additional cfg) = Some (sg_additional s)"
proof -
  have d: "trim_space default_key_id \<noteq> []" by (simp add: default_key_id_def trim_space_def trim_by_def is_space_def char_code_def)
  show "trim_space (sg_key_id s) = sg_key_id s" "sg_key_id s \<noteq> []" "ek_p256 (sg_key s)"
    "parse_additional_jwks lib (jc_additional cfg) = Some (sg_additional s)"
    using assms first_non_empty_default [OF d] first_non_empty_trimmed
    by (auto simp: new_signer_def split: option.splits if_splits simp del: first_non_empty.simps)
qed

definition whole_jwk :: "public_jwk \<Rightarrow> bool" where
  "whole_jwk j \<longleftrightarrow> supported_jwk j \<and> pj_use j \<noteq> [] \<and> pj_alg j \<noteq> []"

lemma whole_complete: "whole_jwk j \<Longrightarrow> complete_jwk j = j"
  by (simp add: whole_jwk_def complete_jwk_def)

lemma parsed_whole: "parse_additional_jwks lib raw = Some ks \<Longrightarrow> \<forall>j \<in> set ks. whole_jwk j"
  by (auto simp: parse_additional_jwks_def complete_jwk_def whole_jwk_def supported_jwk_def list_all_iff split: if_splits option.splits)

lemma active_whole:
  assumes "ec_encodes lib" "new_signer lib env g cfg = Some s"
  shows "whole_jwk (active_jwk lib s)"
  using new_signer_facts [OF assms(2)] assms(1) by (simp add: whole_jwk_def supported_jwk_def active_jwk_def ec_encodes_def)

text \<open>A published key set is read back as it was.\<close>

lemma jwks_read_back:
  assumes "\<forall>j \<in> set ks. whole_jwk j" "trim_space raw \<noteq> []" "el_json lib (trim_space raw) = Some (jwks_json ks)"
  shows "parse_additional_jwks lib raw = Some ks"
proof -
  have "dec_slice dec_public_jwk blank_jwk (map jwk_json ks) old = Some ks" for old
    by (rule dec_slice_map) (use assms(1) dec_jwk_json in \<open>auto simp: whole_jwk_def\<close>)
  moreover have "struct_vals ''keys'' [(''keys'', v)] = [v]" for v by (simp add: struct_vals_def equal_fold_def)
  moreover have "list_all supported_jwk ks" "map complete_jwk ks = ks"
    using assms(1) by (auto simp: list_all_iff whole_jwk_def whole_complete intro: map_idI)
  ultimately show ?thesis using assms(2,3) by (simp add: parse_additional_jwks_def body_map_def jwks_json_def)
qed

text \<open>C40: Rotating the signing key strands no device. When the key set the old signer publishes becomes the additional key
  set of the new one - another key under another key id, the same issuer and audience - every token the old signer issued
  is accepted by the new one from its nbf until its expiry, with the claims it was issued with, so that the device can still
  exchange it; and a token that names any other key id is refused.\<close>

theorem rotation_strands_no_device:
  assumes "ec_encodes lib" "new_signer lib env g cfg = Some old" "new_signer lib env' g' cfg' = Some new"
    and "handle_jwks lib (Some old) ''GET'' = Inr published"
    and "trim_space (jc_additional cfg') \<noteq> []" "el_json lib (trim_space (jc_additional cfg')) = Some (jwks_json published)"
    and "sg_key_id new \<noteq> sg_key_id old" "sg_issuer new = sg_issuer old" "sg_audience new = sg_audience old"
    and "issue_device_jwt lib (Some old) issued jti device tenant name = Inr r"
    and "token_readable lib (sg_key old) (sg_key_id old) (tr_claims r)"
  shows "validate_device_jwt lib (Some new) now (tr_username r) =
      (if issued div nanos_per_second * nanos_per_second \<le> now \<and> now < tr_expires r * nanos_per_second then Some (tr_claims r) else None) \<and>
    (\<forall>tok kid. el_kid lib tok = Some (JStr kid) \<and> trim_space kid \<notin> {[], sg_key_id new} \<and> trim_space kid \<notin> pj_kid ` set published \<longrightarrow>
      verification_key lib new tok = None)"
proof -
  note old = new_signer_facts [OF assms(2)] and new = new_signer_facts [OF assms(3)]
  have pub: "published = active_jwk lib old # sg_additional old" using assms(4) by (simp add: handle_jwks_def split: if_splits)
  have "\<forall>j \<in> set published. whole_jwk j" using active_whole [OF assms(1,2)] parsed_whole [OF old(4)] by (simp add: pub)
  then have add: "sg_additional new = published" using jwks_read_back [OF _ assms(5,6)] new(4) by simp
  let ?c = "device_claims old issued jti (trim_space device) (trim_space tenant) (trim_space name)"
  obtain tok where tok: "el_sign lib (sg_key old) (sg_key_id old) ?c = Some tok"
    and r: "tr_claims r = ?c" "tr_username r = ''Bearer '' @ tok" "tr_expires r = (issued + sg_ttl old) div nanos_per_second"
    using assms(10) by (auto simp: issue_device_jwt_def Let_def split: if_splits option.splits)
  have lib: "tok \<noteq> []" "trim_space tok = tok" "el_alg lib tok = Some ''ES256''" "el_kid lib tok = Some (JStr (sg_key_id old))"
    "el_verify lib (sg_issuer new) (sg_audience new) (ek_point (sg_key old)) now tok =
      (if accepts_claims (sg_issuer new) (sg_audience new) now ?c then Some ?c else None)"
    using assms(11) tok unfolding r(1) token_readable_def by blast+
  have "pj_kid (active_jwk lib old) = sg_key_id old" by (simp add: active_jwk_def)
  then have key: "verification_key lib new tok = Some (ek_point (sg_key old))"
    using old(1,2) assms(7) to_ecdsa_active [OF assms(1) old(3)] by (simp add: verification_key_def lib(4) add pub)
  have "accepts_claims (sg_issuer new) (sg_audience new) now ?c \<longleftrightarrow>
      issued div nanos_per_second * nanos_per_second \<le> now \<and> now < tr_expires r * nanos_per_second"
    by (simp add: accepts_claims_def device_claims_def obj_get_def assms(8,9) r(3))
  then have "validate_device_jwt lib (Some new) now (tr_username r) =
      (if issued div nanos_per_second * nanos_per_second \<le> now \<and> now < tr_expires r * nanos_per_second then Some (tr_claims r) else None)"
    using key unfolding validate_device_jwt_def r(1,2) trim_prefix_append by (simp add: Let_def lib)
  moreover have "verification_key lib new t = None"
    if "el_kid lib t = Some (JStr kid)" "trim_space kid \<notin> {[], sg_key_id new}" "trim_space kid \<notin> pj_kid ` set published" for t kid
  proof -
    have "find (\<lambda>j. pj_kid j = trim_space kid) published = None" using that(3) by (force simp: find_None_iff)
    then show ?thesis using that(1,2) by (simp add: verification_key_def add)
  qed
  ultimately show ?thesis by blast
qed

section \<open>A concrete plane\<close>

text \<open>A library whose only token carries the given claims, and whose JSON codec reads every text as the given value.\<close>

definition sample_lib :: "json \<Rightarrow> members \<Rightarrow> ec_lib" where
  "sample_lib read c =
     \<lparr>el_pem = (\<lambda>s. None), el_ec = (\<lambda>s. None), el_pkcs8 = (\<lambda>s. None), el_on_curve = (\<lambda>p. True), el_b64 = Some,
      el_encode = (\<lambda>b. CHR ''x'' # b), el_decode = (\<lambda>s. case s of [] \<Rightarrow> None | x # b \<Rightarrow> Some b),
      el_json = (\<lambda>s. Some read), el_sign = (\<lambda>key kid c'. if c' = c then Some kid else None), el_alg = (\<lambda>tok. Some ''ES256''),
      el_kid = (\<lambda>tok. Some (JStr tok)),
      el_verify = (\<lambda>issuer audience p now tok. if accepts_claims issuer audience now c then Some c else None)\<rparr>"

definition sample_env :: device_env where
  "sample_env =
     \<lparr>de_uuid = (\<lambda>s. if s = [] then None else Some s),
      de_query = (\<lambda>t. Some (Some (JObj [(''configuration'', JObj [(''maxDevices'', JInt 2)])]))),
      de_lib = sample_lib JNull [], de_signer = None, de_cert = (\<lambda>s. None), de_check = (\<lambda>h s. h = ''h1'' \<and> s = ''s1''),
      de_env = (\<lambda>k. []), de_csv = (\<lambda>d s. None), de_parse = (\<lambda>s. None)\<rparr>"

definition sample_draw :: "str \<Rightarrow> ddraw" where
  "sample_draw ident =
     \<lparr>dw_now = 0, dw_id = ident, dw_cred = CHR ''c'' # ident, dw_auto = replicate 16 0, dw_auto2 = replicate 16 1, dw_jti = ''jti'',
      dw_hash = (\<lambda>s. Some ''h1'')\<rparr>"

definition sample_row :: "str \<Rightarrow> str \<Rightarrow> str \<Rightarrow> str \<Rightarrow> str \<Rightarrow> device_row" where
  "sample_row ident tenant name profile status =
     \<lparr>dv_id = ident, dv_tenant = tenant, dv_created = 0, dv_name = name, dv_type = ''default'', dv_label = None, dv_customer = None,
      dv_profile = profile, dv_info = None, dv_security = status, dv_version = 1\<rparr>"

definition sample_profile :: "str \<Rightarrow> str \<Rightarrow> str \<Rightarrow> dprofile_row" where
  "sample_profile ident tenant key =
     \<lparr>dq_id = ident, dq_created = 0, dq_tenant = tenant, dq_name = ''default'', dq_type = ''DEFAULT'', dq_transport = ''DEFAULT'',
      dq_provision = ''ALLOW_CREATE_NEW_DEVICES'', dq_description = None, dq_default = True, dq_data = JObj [], dq_key = Some key,
      dq_secret = Some ''h1'', dq_version = 1\<rparr>"

definition sample_db :: device_db where
  "sample_db =
     \<lparr>dd_devices = [sample_row ''d1'' ''t1'' ''pump'' ''p1'' ''SUSPENDED'', sample_row ''d2'' ''t2'' ''pump'' ''p2'' ''ACTIVE''],
      dd_creds = [new_dcred (sample_draw ''d1'') ''d1'' ''ACCESS_TOKEN'' ''token-one'' None],
      dd_profiles = [sample_profile ''p1'' ''t1'' ''k1'', sample_profile ''p2'' ''t2'' ''k2''],
      dd_alarms = [(''a1'', ''d1'')], dd_links = [], dd_attrs = no_attributes, dd_cache = [], dd_hooks = []\<rparr>"

definition sample_claims :: "str \<Rightarrow> members option" where
  "sample_claims tenant = Some [(''tenantId'', JStr tenant)]"

definition provision_text :: "str \<Rightarrow> raw_message" where
  "provision_text name =
     Some (JObj [(''deviceName'', JStr name), (''provisionDeviceKey'', JStr ''k1''), (''provisionDeviceSecret'', JStr ''s1'')])"

definition save_text :: "str \<Rightarrow> str \<Rightarrow> raw_message" where
  "save_text ident name =
     Some (JObj [(''name'', JStr name), (''id'', entity_id_json ''DEVICE'' ident)])"

text \<open>The tenant renames its suspended device, and two devices ask to be provisioned: the limit leaves room for one.\<close>

definition sample_ops :: "(ddraw \<times> device_op) list" where
  "sample_ops =
     [(sample_draw ''n0'', SaveDevice (sample_claims ''t1'') (save_text ''d1'' ''old pump'')),
      (sample_draw ''n1'', Provision ''POST'' (provision_text ''lamp'')),
      (sample_draw ''n2'', Provision ''POST'' (provision_text ''fan''))]"

lemma sample_env_reads: "ids_read sample_env"
  by (simp add: ids_read_def uuid_reads_def limits_read_def sample_env_def)

lemma sample_db_sound: "device_sound sample_env sample_db"
  by (simp add: device_sound_def canonical_row_def device_keys_def sample_db_def sample_env_def sample_row_def sample_profile_def new_dcred_def)

lemma sample_cache_true: "cache_true sample_env sample_db"
  by (simp add: cache_true_def sample_db_def)

lemma sample_ops_canonical: "\<forall>x \<in> set sample_ops. canonical_op sample_env x"
  by (simp add: sample_ops_def sample_env_def sample_draw_def)

lemma sample_run: "map dv_name (dd_devices (device_run sample_env sample_ops sample_db)) = [''old pump'', ''pump'', ''lamp'']"
  by code_simp


theorem devices_stay_sound_witness:
  "device_sound sample_env (device_run sample_env sample_ops sample_db) \<and> length (dd_devices (device_run sample_env sample_ops sample_db)) = 3"
proof -
  have "length (dd_devices (device_run sample_env sample_ops sample_db)) = 3" using arg_cong [OF sample_run, of length] by simp
  moreover have "uuid_reads sample_env" "\<forall>x \<in> set sample_ops. canonical_op sample_env x"
    using sample_env_reads sample_ops_canonical by (auto simp: ids_read_def)
  ultimately show ?thesis using devices_stay_sound [of sample_env sample_db sample_ops] sample_db_sound by blast
qed

text \<open>A tenant asks to rename another tenant's device and to delete it.\<close>

theorem device_tenants_isolated_witness:
  "rows_of_tenant (device_step sample_env (sample_draw ''n0'', DeleteDevice (sample_claims ''t2'') ''d1'') sample_db) ''t1'' =
     rows_of_tenant sample_db ''t1'' \<and>
   rows_of_tenant (device_step sample_env (sample_draw ''n0'', DeleteDevice (sample_claims ''t2'') ''d2'') sample_db) ''t1'' =
     rows_of_tenant sample_db ''t1''"
  using sample_env_reads sample_db_sound sample_cache_true
  by (intro conjI device_tenants_isolated)
    (simp_all add: sample_env_def sample_draw_def claims_tenant_def sample_claims_def claim_string_def obj_get_def)

theorem device_quota_holds_witness: "tenant_count (device_run sample_env sample_ops sample_db) ''t1'' \<le> 2"
proof -
  have l: "device_limit sample_env ''t1'' = 2" by code_simp
  have "tenant_count sample_db ''t1'' \<le> 2" by code_simp
  then show ?thesis
    using device_quota_holds [OF sample_env_reads sample_db_sound sample_cache_true, of sample_ops "''t1''"] sample_ops_canonical l by simp
qed

text \<open>Before those requests another tenant tries to lift the suspension, and to delete the device.\<close>

definition foreign_ops :: "(ddraw \<times> device_op) list" where
  "foreign_ops =
     [(sample_draw ''n3'', SetSecurity (sample_claims ''t2'') ''POST'' ''d1'' (Some (JObj [(''status'', JStr ''ACTIVE'')]))),
      (sample_draw ''n4'', DeleteDevice (sample_claims ''t2'') ''d1'')] @ sample_ops"

theorem suspension_holds_witness:
  "suspended (device_run sample_env foreign_ops sample_db) ''d1'' \<and>
   \<not> (\<exists>rest. resolve_device_by_token (device_run sample_env foreign_ops sample_db) ''token-one'' = Some (''d1'', rest))"
proof -
  define row where "row = sample_row ''d1'' ''t1'' ''pump'' ''p1'' ''SUSPENDED''"
  have row: "row \<in> set (dd_devices sample_db)" "dv_id row = ''d1''" "dv_security row = ''SUSPENDED''" "dv_tenant row = ''t1''"
    by (simp_all add: row_def sample_db_def sample_row_def)
  have ops: "\<forall>x \<in> set foreign_ops. canonical_op sample_env x \<and> \<not> lifts_suspension sample_env (dv_tenant row) ''d1'' (snd x)"
    unfolding row(4) by (simp add: foreign_ops_def sample_ops_def sample_env_def sample_draw_def lifts_suspension_def claims_tenant_def sample_claims_def
      claim_string_def obj_get_def)
  have u: "de_uuid sample_env ''d1'' = Some ''d1''" by (simp add: sample_env_def)
  show ?thesis
    using suspension_holds [OF sample_env_reads sample_db_sound sample_cache_true ops row(1-3) u] unfolding Let_def by blast
qed

theorem provisioning_guarded_and_repeatable_witness:
  "\<exists>out db'. provision_device sample_env (sample_draw ''n1'') \<lparr>pq_name = ''lamp'', pq_type = ''default'', pq_key = ''k1'', pq_secret = ''s1''\<rparr> sample_db =
       (Some out, db') \<and> pd_created out \<and>
     provision_device sample_env (sample_draw ''n2'') \<lparr>pq_name = ''lamp'', pq_type = ''default'', pq_key = ''k1'', pq_secret = ''s1''\<rparr> db' =
       (Some (out\<lparr>pd_created := False\<rparr>), db')"
proof -
  let ?req = "\<lparr>pq_name = ''lamp'', pq_type = ''default'', pq_key = ''k1'', pq_secret = ''s1''\<rparr>"
  let ?step = "provision_device sample_env (sample_draw ''n1'') ?req sample_db"
  have "map_option pd_created (fst ?step) = Some True" by code_simp
  then obtain out where o: "fst ?step = Some out" "pd_created out" by auto
  then have h: "?step = (Some out, snd ?step)" by (metis prod.collapse)
  have u: "de_uuid sample_env (dw_id (sample_draw ''n1'')) = Some (dw_id (sample_draw ''n1''))" by (simp add: sample_env_def sample_draw_def)
  show ?thesis using provisioning_guarded_and_repeatable [OF sample_db_sound u h] o(2) h by blast
qed

text \<open>The old signer's key set, read by the new one.\<close>

definition sample_signer :: "str \<Rightarrow> nat \<Rightarrow> public_jwk list \<Rightarrow> signer" where
  "sample_signer kid n additional =
     \<lparr>sg_issuer = default_device_issuer, sg_audience = default_device_audience, sg_key_id = kid, sg_ttl = default_device_ttl,
      sg_key = \<lparr>ek_p256 = True, ek_point = (n, n), ek_secret = []\<rparr>, sg_additional = additional\<rparr>"

definition sample_config :: "str \<Rightarrow> str \<Rightarrow> device_jwt_config" where
  "sample_config kid additional =
     \<lparr>jc_enabled = True, jc_issuer = [], jc_audience = [], jc_key_id = kid, jc_ttl = 0, jc_private = [], jc_additional = additional\<rparr>"

definition sample_published :: "public_jwk list" where
  "sample_published = [active_jwk (sample_lib JNull []) (sample_signer ''old'' 7 [])]"

definition sample_token_claims :: members where
  "sample_token_claims = device_claims (sample_signer ''old'' 7 []) 0 ''jti'' ''d1'' ''t1'' ''pump''"

theorem rotation_strands_no_device_witness:
  "validate_device_jwt (sample_lib (jwks_json sample_published) sample_token_claims) (Some (sample_signer ''new'' 9 sample_published))
     1 ''Bearer old'' = Some sample_token_claims"
proof -
  let ?lib = "sample_lib (jwks_json sample_published) sample_token_claims" and ?old = "sample_signer ''old'' 7 []"
    and ?new = "sample_signer ''new'' 9 sample_published"
  let ?r = "\<lparr>tr_claims = sample_token_claims, tr_token = ''old'', tr_expires = 86400, tr_subject = ''d1'', tr_identity = ''d1'',
    tr_username = ''Bearer old''\<rparr>"
  have enc: "ec_encodes ?lib" by (auto simp: ec_encodes_def sample_lib_def trim_space_def trim_by_def is_space_def char_code_def)
  have old: "new_signer ?lib (\<lambda>k. []) (Some (sg_key ?old)) (sample_config ''old'' []) = Some ?old" by code_simp
  have new: "new_signer ?lib (\<lambda>k. []) (Some (sg_key ?new)) (sample_config ''new'' ''set'') = Some ?new" by code_simp
  have pub: "handle_jwks ?lib (Some ?old) ''GET'' = Inr sample_published" by code_simp
  have set: "trim_space (jc_additional (sample_config ''new'' ''set'')) \<noteq> []"
    "el_json ?lib (trim_space (jc_additional (sample_config ''new'' ''set''))) = Some (jwks_json sample_published)"
    by code_simp (simp add: sample_lib_def)
  have ids: "sg_key_id ?new \<noteq> sg_key_id ?old" "sg_issuer ?new = sg_issuer ?old" "sg_audience ?new = sg_audience ?old"
    by (simp_all add: sample_signer_def)
  have issued: "issue_device_jwt ?lib (Some ?old) 0 ''jti'' ''d1'' ''t1'' ''pump'' = Inr ?r" by code_simp
  have "trim_space ''old'' = ''old''" by code_simp
  then have readable: "token_readable ?lib (sg_key ?old) (sg_key_id ?old) (tr_claims ?r)"
    by (auto simp: token_readable_def sample_lib_def sample_signer_def)
  show ?thesis
    using rotation_strands_no_device [OF enc old new pub set ids issued readable, of 1]
    by (simp add: nanos_per_second_def)
qed

section \<open>What the handlers do not promise\<close>

text \<open>A suspended device still gets a fresh token: provisioning answers it without looking at its status.\<close>

definition signing_env :: device_env where
  "signing_env = sample_env\<lparr>de_lib := sample_lib JNull sample_token_claims, de_signer := Some (sample_signer ''old'' 7 [])\<rparr>"

lemma suspended_device_provisioned:
  "suspended sample_db ''d1'' \<and>
   (case fst (handle_provision signing_env (sample_draw ''n1'') ''POST'' (provision_text ''pump'') sample_db) of
      Inr (ProvisionedAs r (Some t)) \<Rightarrow> pd_device r = ''d1'' \<and> tr_token t = ''old'' | _ \<Rightarrow> False)"
proof
  show "suspended sample_db ''d1''" by (simp add: suspended_def sample_db_def sample_row_def)
qed code_simp

text \<open>An update of the status that names none lifts a suspension.\<close>

lemma empty_body_reactivates:
  "map dv_security (dd_devices (device_step sample_env (sample_draw ''n0'',
     SetSecurity (sample_claims ''t1'') ''POST'' ''d1'' (Some (JObj []))) sample_db)) = [''ACTIVE'', ''ACTIVE'']"
  by code_simp

text \<open>Generated access tokens end with the characters they start with: twenty characters from sixteen bytes.\<close>

lemma generated_token_repeats: "drop 16 (access_token20 bytes) = take 4 (access_token20 bytes)"
  by (simp add: access_token20_def upt_rec numeral_2_eq_2)

text \<open>The wizard leaves a device behind, with a generated credential, when the identifier it asked for belongs to another device.\<close>

lemma wizard_leaves_device:
  "(case handle_device_with_credentials sample_env (sample_draw ''n1'') (sample_claims ''t1'')
           (Some (JObj [(''device'', JObj [(''name'', JStr ''fan'')]),
                        (''credentials'', JObj [(''credentialsType'', JStr ''MQTT_BASIC''), (''credentialsId'', JStr ''token-one'')])]))
           sample_db of
      (Inl (HttpError code text), db') \<Rightarrow> code = 500 \<and> map dv_name (dd_devices db') = [''pump'', ''pump'', ''fan''] \<and> length (dd_creds db') = 2
    | _ \<Rightarrow> False)"
  by code_simp

text \<open>A device may take the profile of another tenant, which its owner then cannot delete.\<close>

lemma foreign_profile_taken:
  "(let db' = device_step sample_env (sample_draw ''n1'', SaveDevice (sample_claims ''t1'')
       (Some (JObj [(''name'', JStr ''fan''), (''deviceProfileId'', entity_id_json ''DEVICE_PROFILE'' ''p2'')]))) sample_db
    in map (\<lambda>r. (dv_tenant r, dv_profile r)) (drop 2 (dd_devices db')) = [(''t1'', ''p2'')])"
  by code_simp

end
