(* ===== verification/Spec2Isabelle.thy ===== *)
theory Spec2Isabelle
  imports TwinWrite CatalogHttp TopologyExpand ThrottleProps TwinStoreProps TwinListProps AlarmProps RpcProps QuotaProps AttributeProps TwinWatchProps CustomerProps LiveProps TelemetryProps EntityQueryProps AccountProps OidcProps DeviceProps
begin

text \<open>
  Flow Core, the Go service under src/flow-core: an IoT control plane with the REST and WebSocket
  interface of ThingsBoard. Tenants own devices, assets, customers and users. Telemetry does not pass
  through the service: gateways write it to NATS and a history store, and Flow Core reads it, keeps
  the tables in PostgreSQL, issues the tokens of users and devices, decides who may do what, and
  pushes changes to dashboards. This development models the service's own logic as HOL functions, one
  theory per component in the order in which they build on each other, and proves what each of them
  is relied on for. A theory named after a component holds its state and operations; Laws and Props
  theories hold what is proved of it, and every property stands with a witness that instantiates it.

  \<^bold>\<open>How the model reads.\<close> A Go string is a list of bytes, a Go map an association list with distinct
  keys, a JSON document a value of \<open>json\<close> as encoding/json decodes it. Integers are \<open>int\<close>, with \<open>wrap64\<close>
  where a 64-bit operation can leave the range. A table is the list of its rows in a record of tables,
  an SQL statement a function on it that fails when a constraint is violated; a uuid column holds the
  canonical spelling and \<open>uuid\<close> is how Postgres reads a literal. A handler takes the verified claims of the
  token, or \<open>None\<close>, the decoded request and the state, and answers with an \<open>http_error\<close> or a result, next to
  the state it leaves. Concurrency is a step relation or a list of events where the code relies on it.

  \<^bold>\<open>Shared vocabulary.\<close>
  \<^item> Prelude: strings, strconv, maps, sorted slices and 64-bit arithmetic of Go; Json: decoding into structs,
    maps and interfaces with its case folding, duplicates and nulls; Requests: bodies several handlers decode.
  \<^item> HttpUtil (internal/httputil, authgate.go): claims, paging, and the gate in front of every route, which
    is shown to let only tokens, preflights and an allow list through.
  \<^item> Identifiers: ids and versions of the two catalogs. Catalog: the versioned, immutable table both stores keep,
    with the locale \<open>versioned_catalog\<close> of its promises, interpreted for both stores.

  \<^bold>\<open>Policies\<close> (internal/policy). PolicyModel and PolicyLaws: documents and Normalize, which is idempotent and yields
  well-formed documents. PolicyAuthorize: the matching of resource paths and the decision, characterised by the
  deepest covering pattern with revokes winning ties. PolicyStore: the catalog and Resolve, which stays in the
  tenant. PolicyEnforce: the middleware; CatalogHttp: the endpoints of both catalogs.

  \<^bold>\<open>Twins\<close> (internal/twinmodel, internal/twin, internal/topology, internal/twinstore, twin_state.go). TwinModel, TwinModelLaws:
  models and their derived schemas. TwinValidate: validation of a state, its accepted values, and the absence of
  panics on every schema Normalize derives. TwinRegistry and its laws: identity rows and pins, which never dangle under any sequence of registry and
  catalog operations. TwinWrite: the write route, whose persisted attributes were each authorised and validated.
  Topology, TopologyLaws, TopologyConsistency, TopologyProps: typed edges mirrored into the legacy relations;
  saving and deleting refine a map of slots, and the invariant survives every sequence. TopologyExpand: the
  recursive expansion equals bounded reachability. TwinStore, TwinStoreNats and their laws: the hot state, its
  last-writer-wins merge, and the optimistic merge on a shared bucket, whose concurrent runs linearise and end.
  TwinList: keyset pagination, which lists every match once. TwinWatch: the changes the watcher of the NATS bucket
  delivers, and the diffs pushed to dashboards, which over that store lose nothing; over the in-memory store an
  eviction may leave a stale value.

  \<^bold>\<open>Entities and alarms\<close>. Attributes (internal/tenant): typed rows next to the twin state, the tenant gate and the round trip of
  values. Alarms, AlarmBridge, AlarmLaws, AlarmProgress: intents applied through a repository that may fail at any
  statement (locale \<open>alarm_repository\<close>, extended by \<open>failing_repository\<close>, both interpreted for Postgres); a
  redelivered intent takes effect once. AlarmCounts: the recursive counts are exact. Customers: assignments never
  leave the tenant. GraphWalk, EntityQuery: the entity queries of the widgets; the relations query finds what
  the expansion finds, and all items of an answer are of one tenant.

  \<^bold>\<open>Reading and watching\<close>. TelemetryQuery, TelemetryReader (internal/telemetry): the texts of the history queries, in which every value is one
  literal, and reads and deletions within the tenant. LiveSessions (internal/ws): the world of all connections and
  the goroutines their messages start; the locale \<open>grants\<close> says what earned scope a connection may use, and is
  interpreted on the steps of that world. Rpc (internal/rpc), DeviceIdentity: commands to devices, named by any spelling of their id that
  Postgres reads, the topics, and the table of waiting calls under every interleaving of replies and timeouts.

  \<^bold>\<open>Accounts and limits\<close>. AuthTokens, Accounts (internal/auth, internal/user): session tokens, activation, reset, and the users table;
  privileges never come from nothing, and single-use secrets are single use. Oidc (internal/oidc): providers, the signed
  state and linked identities, in a world (\<open>sso_step\<close>) where a sign-in that found no link is overtaken by other sign-ins
  and by account requests; the upsert of a link and the cascade of a deleted user are its steps. Throttle: the login
  throttle. A login is the two critical sections \<open>login_admit\<close> and \<open>login_finish\<close>, which \<open>login_step\<close> interleaves with those of
  other requests and the janitor; the bounds on guessing count the checks a client keeps in flight. Quotas: tenant limits behind a
  cache and the transport ceiling shared by concurrent callers.

  \<^bold>\<open>Devices\<close>. DeviceTokens (internal/devicejwt): the ES256 signer, its claims and the choice of the key a token is checked with; a
  rotation of the key strands no device. Devices, Onboarding, DeviceReads (internal/device, internal/provisioning,
  internal/transport, internal/x509cred, internal/deviceactivity): devices with their credentials, profiles, provisioning, import,
  and what is read of them. DeviceLaws makes the requests a state machine (\<open>device_op\<close>, \<open>device_run\<close>) and shows the
  invariant \<open>device_sound\<close> of the tables; DeviceSteps breaks every request into statements of a step relation
  (\<open>device_stmt\<close>), each for the tenant the request acts for, so that isolation, quotas and suspension are laws of
  single statements (DeviceProps); suspension holds against all requests but those of the device's own tenant that set
  its status or delete it.

  \<^bold>\<open>Bounds and fuel.\<close> Loops are structural or have a measure: the walk over the relations terminates because each step visits a node
  or consumes the queue, and it stops by itself at 5000 visited keys, as the code does. Where a function takes fuel it is
  enough: the saturation of a recursive query gets the number of relations, since every round that continues adds one;
  the bytes of a big number get the number itself, which each round divides; a client that follows the links of
  a listing needs one request per row. An optimistic merge makes at most eight attempts and seventeen calls, and every merge
  is shown to end. Page sizes are clamped to 1000, an OIDC state lives ten minutes, cached limits thirty seconds.

  \<^bold>\<open>Parameters.\<close> Code that is not in the repository is an argument: the JWT, HMAC, bcrypt and SHA libraries, PEM and key parsers, the
  regular expression engine, base64 and the text form of JSON, the CSV parser, the reading of UUID literals, the
  NATS bucket, the MQTT broker, the history store, clocks and random draws. What is relied on of them is a named
  hypothesis of the theorems that need it, such as \<open>ec_encodes\<close>, \<open>token_readable\<close> or \<open>ids_read\<close>, and each has a
  witness that instantiates it.

  \<^bold>\<open>Not modelled.\<close> Texts of log lines, audit entries and most error messages; the bytes of JSON answers; rounding of floating point
  numbers (reals stand for them); row locks and concurrent transactions, except where a component above models
  interleavings; failures of the database, except for constraint violations and for the statements of the alarm
  materializer. Of the packages, the handlers that pass table rows through (assets, dashboards, widgets, resources, firmware,
  notifications, tenants), the seeding of tables at start, migrations, the route table and generated code are left out; the
  manifest lists each with the reason.

  \<^bold>\<open>Where the promises end.\<close> Some theories close with concrete runs that show behaviour a reader of the code may not expect: links of
  redelivered alarms, account takeover through activation links, OIDC sessions sent to any address, keys the policy
  middleware never judges, passwords guessed in parallel past the limits of the throttle, an identity that two
  parallel first sign-ins give to different users, a command lost to the spelling of an id, and a suspended device
  that is handed a token when it provisions again.
\<close>

end
